(* ===== verification/Lnpay_Prelude.thy ===== *)
theory Lnpay_Prelude
  imports Complex_Main "HOL-Library.Monad_Syntax"
begin

text \<open>
  Shared vocabulary of the development.

  \<^item> Tables.  The daemon keeps everything in one SQLite file.  A table is the list of its rows in
    insertion order; \<open>SELECT ... WHERE key = ?\<close> is \<open>List.find\<close>, \<open>UPDATE ... WHERE\<close> is
    \<open>update_where\<close>, and \<open>ORDER BY\<close> is a stable sort (\<open>sort_key\<close>).
  \<^item> Exceptions.  Code that may throw returns an \<open>option\<close>; \<open>None\<close> is the thrown exception, which
    rolls the surrounding transaction back.  Sequencing is the option monad.
  \<^item> State machines.  The locale \<open>fsm\<close> states what a transition table promises; \<open>live_fsm\<close> extends
    it with a ranking that makes the terminal states reachable.
\<close>

type_synonym sat = int
type_synonym sec = int
type_synonym msec = int
type_synonym krw = int
type_synonym hex = string

subsection \<open>Tables\<close>

definition update_where :: "('a \<Rightarrow> bool) \<Rightarrow> ('a \<Rightarrow> 'a) \<Rightarrow> 'a list \<Rightarrow> 'a list" where
  "update_where P f xs = map (\<lambda>x. if P x then f x else x) xs"

lemma update_where_Nil [simp]: "update_where P f [] = []"
  by (simp add: update_where_def)

lemma update_where_Cons [simp]:
  "update_where P f (x # xs) = (if P x then f x else x) # update_where P f xs"
  by (simp add: update_where_def)

lemma length_update_where [simp]: "length (update_where P f xs) = length xs"
  by (simp add: update_where_def)

lemma find_update_where_same:
  assumes "\<And>x. P (f x) = P x"
  shows "List.find P (update_where P f xs) = map_option f (List.find P xs)"
  using assms by (induction xs) auto

lemma find_update_where_other:
  assumes "\<And>x. P x \<Longrightarrow> \<not> Q x" and "\<And>x. P x \<Longrightarrow> \<not> Q (f x)"
  shows "List.find Q (update_where P f xs) = List.find Q xs"
  using assms by (induction xs) auto

lemma map_update_where:
  assumes "\<And>x. P x \<Longrightarrow> k (f x) = k x"
  shows "map k (update_where P f xs) = map k xs"
  using assms by (induction xs) auto

lemma find_Some_D: "List.find P xs = Some x \<Longrightarrow> x \<in> set xs \<and> P x"
  by (induction xs) (auto split: if_splits)

lemma find_append: "List.find P (xs @ ys) = (case List.find P xs of Some x \<Rightarrow> Some x | None \<Rightarrow> List.find P ys)"
  by (induction xs) auto

lemma find_key_distinct:
  assumes "distinct (map k xs)" and "x \<in> set xs"
  shows "List.find (\<lambda>y. k y = k x) xs = Some x"
  using assms by (induction xs) auto

lemma set_update_where:
  "y \<in> set (update_where P f xs) \<Longrightarrow> y \<in> set xs \<or> (\<exists>x \<in> set xs. P x \<and> y = f x)"
  by (auto simp: update_where_def split: if_splits)

text \<open>Updating the element with a unique key: the keys stay, a look-up sees the new element.\<close>

lemma update_where_key:
  assumes "distinct (map k xs)" and "List.find (\<lambda>y. k y = i) xs = Some x" and "k (f x) = i"
  shows "map k (update_where (\<lambda>y. k y = i) f xs) = map k xs"
    and "List.find (\<lambda>y. k y = j) (update_where (\<lambda>y. k y = i) f xs) = (if j = i then Some (f x) else List.find (\<lambda>y. k y = j) xs)"
    and "y \<in> set (update_where (\<lambda>y. k y = i) f xs) \<Longrightarrow> y \<in> set xs \<or> y = f x"
proof -
  have none: "update_where (\<lambda>y. k y = i) f zs = zs" if "i \<notin> k ` set zs" for zs
    using that by (auto simp: update_where_def intro!: map_idI)
  have all: "map k (update_where (\<lambda>y. k y = i) f xs) = map k xs
    \<and> List.find (\<lambda>y. k y = j) (update_where (\<lambda>y. k y = i) f xs) = (if j = i then Some (f x) else List.find (\<lambda>y. k y = j) xs)
    \<and> set (update_where (\<lambda>y. k y = i) f xs) \<subseteq> insert (f x) (set xs)"
    using assms
  proof (induction xs)
    case (Cons a xs)
    show ?case
    proof (cases "k a = i")
      case True
      then have "a = x" "i \<notin> k ` set xs" using Cons.prems by auto
      with none [of xs] have "update_where (\<lambda>y. k y = i) f (a # xs) = f x # xs"
        using True by (simp add: update_where_def)
      then show ?thesis using True \<open>a = x\<close> assms(3) by auto
    next
      case False
      then have "update_where (\<lambda>y. k y = i) f (a # xs) = a # update_where (\<lambda>y. k y = i) f xs"
        by (simp add: update_where_def)
      moreover have "distinct (map k xs)" "List.find (\<lambda>y. k y = i) xs = Some x" using Cons.prems False by simp_all
      note Cons.IH [OF this assms(3)]
      ultimately show ?thesis using False by auto
    qed
  qed (simp add: update_where_def)
  show "map k (update_where (\<lambda>y. k y = i) f xs) = map k xs" using all by blast
  show "List.find (\<lambda>y. k y = j) (update_where (\<lambda>y. k y = i) f xs)
      = (if j = i then Some (f x) else List.find (\<lambda>y. k y = j) xs)" using all by blast
  show "y \<in> set (update_where (\<lambda>y. k y = i) f xs) \<Longrightarrow> y \<in> set xs \<or> y = f x" using all by blast
qed

text \<open>\<open>new Set([...])\<close> keeps the first of equal elements.\<close>

definition set_order :: "'a list \<Rightarrow> 'a list" where "set_order xs = rev (remdups (rev xs))"

lemma set_set_order [simp]: "set (set_order xs) = set xs"
  by (simp add: set_order_def)

subsection \<open>Event tags\<close>

text \<open>\<open>event.tags.find(t => t[0] === name)?.[1]\<close>.\<close>

definition tag_value :: "string \<Rightarrow> string list list \<Rightarrow> string option" where
  "tag_value name tags =
     (case List.find (\<lambda>t. t \<noteq> [] \<and> hd t = name) tags of
        Some (_ # v # _) \<Rightarrow> Some v
      | _ \<Rightarrow> None)"

lemma tag_value_Nil [simp]: "tag_value n [] = None"
  by (simp add: tag_value_def)

lemma tag_value_Cons [simp]:
  "tag_value n ((k # v # vs) # ts) = (if k = n then Some v else tag_value n ts)"
  by (simp add: tag_value_def)

lemma tag_value_append:
  "(\<forall>t \<in> set xs. \<exists>k v vs. t = k # v # vs)
   \<Longrightarrow> tag_value n (xs @ ys) = (case tag_value n xs of Some v \<Rightarrow> Some v | None \<Rightarrow> tag_value n ys)"
  by (induction xs) (auto split: option.split)

lemma tag_value_absent: "(\<And>t. t \<in> set ts \<Longrightarrow> t \<noteq> [] \<Longrightarrow> hd t \<noteq> n) \<Longrightarrow> tag_value n ts = None"
  by (auto simp: tag_value_def find_None_iff split: option.split dest!: find_Some_D)

text \<open>A tag written only when its value is there: \<open>if (x) tags.push([name, x])\<close>.\<close>

definition opt_tag :: "string \<Rightarrow> string option \<Rightarrow> string list list" where
  "opt_tag n v = (case v of Some s \<Rightarrow> if s = [] then [] else [[n, s]] | None \<Rightarrow> [])"

lemma tag_value_opt:
  "tag_value n (opt_tag k v @ ts) = (if k = n \<and> v \<noteq> None \<and> v \<noteq> Some [] then v else tag_value n ts)"
  by (auto simp: opt_tag_def split: option.split)

subsection \<open>Exceptions as options\<close>

lemma bind_Some_iff [simp]:
  "Option.bind m f = Some y \<longleftrightarrow> (\<exists>x. m = Some x \<and> f x = Some y)"
  by (cases m) auto

text \<open>A JavaScript loop \<open>for (const x of xs) body\<close> whose body may throw.\<close>

fun for_each :: "('a \<Rightarrow> 's \<Rightarrow> 's option) \<Rightarrow> 'a list \<Rightarrow> 's \<Rightarrow> 's option" where
  "for_each f [] s = Some s"
| "for_each f (x # xs) s = Option.bind (f x s) (for_each f xs)"

lemma for_each_invariant:
  assumes step: "\<And>x s s'. \<lbrakk>I s; f x s = Some s'\<rbrakk> \<Longrightarrow> I s'"
  shows "\<lbrakk>I s; for_each f xs s = Some s'\<rbrakk> \<Longrightarrow> I s'"
proof (induction xs arbitrary: s)
  case (Cons x xs)
  from Cons.prems obtain t where "f x s = Some t" and "for_each f xs t = Some s'" by auto
  with Cons step show ?case by blast
qed simp

lemma for_each_total:
  assumes "\<And>x s. I s \<Longrightarrow> \<exists>s'. f x s = Some s' \<and> I s'"
  shows "I s \<Longrightarrow> \<exists>s'. for_each f xs s = Some s' \<and> I s'"
proof (induction xs arbitrary: s)
  case (Cons x xs)
  from assms [OF Cons.prems] obtain t where t: "f x s = Some t" "I t" by blast
  with Cons.IH [OF t(2)] show ?case by auto
qed simp

subsection \<open>Loops over rows\<close>

text \<open>
  A loop over rows read before it started: the body handles one row, \<open>current\<close> says that the row read is
  still the row in the database, and handling one row leaves the others current.
\<close>

locale row_loop =
  fixes body :: "'r \<Rightarrow> 's \<Rightarrow> 's option" and key :: "'r \<Rightarrow> 'k" and current :: "'r \<Rightarrow> 's \<Rightarrow> bool"
    and ok :: "'s \<Rightarrow> 's \<Rightarrow> bool"
  assumes ok_refl: "ok s s" and ok_trans: "ok s t \<Longrightarrow> ok t u \<Longrightarrow> ok s u"
    and body_ok: "current r s \<Longrightarrow> body r s = Some s' \<Longrightarrow> ok s s'"
    and body_others: "\<lbrakk>current r s; body r s = Some s'; key r' \<noteq> key r; current r' s\<rbrakk> \<Longrightarrow> current r' s'"
begin

lemma loop_ok:
  "\<lbrakk>distinct (map key rs); \<forall>r \<in> set rs. current r s; for_each body rs s = Some s'\<rbrakk> \<Longrightarrow> ok s s'"
proof (induction rs arbitrary: s)
  case (Cons r rs)
  from Cons.prems(3) obtain t where t: "body r s = Some t" "for_each body rs t = Some s'" by auto
  have "current r' t" if r': "r' \<in> set rs" for r'
  proof -
    have "key r' \<noteq> key r" using Cons.prems(1) imageI [OF r', of key] by auto
    then show ?thesis using body_others [of r s t r'] t(1) Cons.prems(2) r' by simp
  qed
  with Cons.IH [of t] Cons.prems(1) t have "ok t s'" by simp
  with body_ok [of r s t] t(1) Cons.prems(2) ok_trans show ?case by (metis list.set_intros(1))
qed (simp add: ok_refl)

end

text \<open>A loop whose body always succeeds and leaves something true of its row that later rounds keep.\<close>

locale row_loop_post = row_loop +
  fixes post :: "'a \<Rightarrow> 'c \<Rightarrow> bool"
  assumes body_total: "current r s \<Longrightarrow> \<exists>s'. body r s = Some s'"
    and body_post: "current r s \<Longrightarrow> body r s = Some s' \<Longrightarrow> post r s'"
    and post_others: "\<lbrakk>current r s; body r s = Some s'; key r' \<noteq> key r; post r' s\<rbrakk> \<Longrightarrow> post r' s'"
begin

lemma loop_post:
  "\<lbrakk>distinct (map key rs); \<forall>r \<in> set rs. current r s; \<forall>r \<in> D. post r s \<and> key r \<notin> key ` set rs\<rbrakk>
   \<Longrightarrow> \<exists>s'. for_each body rs s = Some s' \<and> (\<forall>r \<in> D \<union> set rs. post r s')"
proof (induction rs arbitrary: s D)
  case (Cons r rs)
  have r: "current r s" using Cons.prems(2) by simp
  obtain t where t: "body r s = Some t" using body_total [OF r] by blast
  have "key r' \<noteq> key r" if "r' \<in> set rs" for r' using Cons.prems(1) imageI [OF that, of key] by auto
  then have cur: "\<forall>r' \<in> set rs. current r' t"
    using body_others [OF r t] Cons.prems(2) by simp
  have "\<forall>r' \<in> insert r D. post r' t \<and> key r' \<notin> key ` set rs"
    using body_post [of r s t] post_others [of r s t] t Cons.prems by auto
  from Cons.IH [OF _ cur this] Cons.prems(1) t show ?case by auto
qed simp

end

subsection \<open>Transition tables\<close>

locale fsm =
  fixes succs :: "'s \<Rightarrow> 's list"
    and can :: "'s \<Rightarrow> 's \<Rightarrow> bool"
    and terminal :: "'s \<Rightarrow> bool"
  assumes can_iff: "can s t \<longleftrightarrow> t \<in> set (succs s)"
    and terminal_iff: "terminal s \<longleftrightarrow> succs s = []"
begin

lemma terminal_stuck: "terminal s \<Longrightarrow> \<not> can s t"
  by (simp add: can_iff terminal_iff)

lemma not_terminal_moves: "\<not> terminal s \<Longrightarrow> \<exists>t. can s t"
  by (cases "succs s") (auto simp: can_iff terminal_iff)

lemma reach_from_terminal:
  assumes "can\<^sup>*\<^sup>* s t" and "terminal s"
  shows "t = s"
  using assms by (auto elim: converse_rtranclpE dest: terminal_stuck)

lemma closed_reach:
  assumes "can\<^sup>*\<^sup>* s t" and "s \<in> S" and "\<And>u v. \<lbrakk>u \<in> S; can u v\<rbrakk> \<Longrightarrow> v \<in> S"
  shows "t \<in> S"
  using assms by (induction rule: rtranclp_induct) auto

end

locale live_fsm = fsm +
  fixes dist :: "'s \<Rightarrow> nat"
  assumes dist_decreases: "\<not> terminal s \<Longrightarrow> \<exists>t. can s t \<and> dist t < dist s"
begin

lemma terminal_reachable: "\<exists>t. terminal t \<and> can\<^sup>*\<^sup>* s t"
proof (induction "dist s" arbitrary: s rule: less_induct)
  case less
  show ?case
  proof (cases "terminal s")
    case True
    then show ?thesis by blast
  next
    case False
    then obtain u where "can s u" and "dist u < dist s" using dist_decreases by blast
    with less obtain t where "terminal t" and "can\<^sup>*\<^sup>* u t" by blast
    with \<open>can s u\<close> show ?thesis by (meson converse_rtranclp_into_rtranclp)
  qed
qed

end

end
