(* ===== verification/Js_Number.thy ===== *)
theory Js_Number
  imports Lnpay_Prelude "HOL-Library.Log_Nat"
begin

text \<open>
  JavaScript numbers as the source uses them.  A \<open>number\<close> is \<open>NaN\<close>, an infinity or a finite double,
  kept as the rational it denotes; \<open>fl\<close> rounds an exact result to 53 significant bits, ties to even.
  The exponent range is not bounded here: amounts, prices and times of the program stay below
  \<open>2^60\<close> and above \<open>2^-60\<close>, far from overflow and subnormals.  \<open>js_number\<close> is \<open>Number(text)\<close> and
  \<open>int_str\<close> is \<open>String(n)\<close> on the integers below \<open>10^21\<close>.
\<close>

subsection \<open>Rounding to a double\<close>

definition ilog2 :: "rat \<Rightarrow> int" where
  "ilog2 x = (case quotient_of x of (n, d) \<Rightarrow>
     let k = int (floorlog 2 (nat n)) - int (floorlog 2 (nat d))
     in if x < 2 powi k then k - 1 else k)"

definition round_half_even :: "rat \<Rightarrow> int" where
  "round_half_even x =
     (let f = \<lfloor>x\<rfloor>; r = x - of_int f in
      if r < 1/2 then f else if 1/2 < r then f + 1 else if even f then f else f + 1)"

definition fl :: "rat \<Rightarrow> rat" where
  "fl x = (if x = 0 then 0
           else let u = 2 powi (ilog2 \<bar>x\<bar> - 52) in of_int (round_half_even (x / u)) * u)"

lemma round_half_even_bounds: "\<bar>of_int (round_half_even x) - x\<bar> \<le> 1/2"
proof -
  have "0 \<le> x - of_int \<lfloor>x\<rfloor>" "x - of_int \<lfloor>x\<rfloor> < 1" by linarith+
  then show ?thesis unfolding round_half_even_def Let_def by (auto simp: abs_le_iff; linarith)
qed

lemma round_half_even_le:
  assumes "x \<le> of_int m"
  shows "round_half_even x \<le> m"
proof (rule ccontr)
  assume "\<not> ?thesis"
  then have m: "m + 1 \<le> round_half_even x" by simp
  have "of_int (round_half_even x) \<le> x + 1/2" using round_half_even_bounds [of x] by linarith
  with m assms have "of_int m + 1 \<le> x + (1/2 :: rat)"
    by (smt (verit) of_int_1 of_int_add of_int_le_iff order_trans)
  with assms show False by linarith
qed

lemma round_half_even_ge:
  assumes "of_int m \<le> x"
  shows "m \<le> round_half_even x"
proof (rule ccontr)
  assume "\<not> ?thesis"
  then have m: "round_half_even x \<le> m - 1" by simp
  then have "(of_int (round_half_even x) :: rat) \<le> of_int (m - 1)" by (simp only: of_int_le_iff)
  moreover have "x - 1/2 \<le> of_int (round_half_even x)" using round_half_even_bounds [of x] by linarith
  ultimately show False using assms by simp
qed

lemma round_half_even_int [simp]: "round_half_even (of_int m) = m"
  using round_half_even_le [of "of_int m" m] round_half_even_ge [of m "of_int m"] by simp

lemma floorlog_bounds:
  assumes "0 < (n :: int)"
  shows "2 powi (int (floorlog 2 (nat n)) - 1) \<le> (of_int n :: rat)"
    and "(of_int n :: rat) < 2 powi int (floorlog 2 (nat n))"
proof -
  define b where "b = floorlog 2 (nat n)"
  have pos: "0 < nat n" using assms by simp
  have "2 ^ (b - 1) \<le> nat n \<and> nat n < 2 ^ b \<and> 0 < b"
    unfolding b_def using floorlog_bounds [of "nat n" 2] pos
    by (metis compute_floorlog add_gr_0 less_numeral_extra(1) one_less_numeral_iff semiring_norm(76))
  then have "2 ^ (b - 1) \<le> n" and "n < 2 ^ b" and "0 < b"
    using assms by (auto simp: nat_less_iff le_nat_iff)
  then have lo: "(2 ^ (b - 1) :: rat) \<le> of_int n" and hi: "of_int n < (2 ^ b :: rat)"
    by (metis of_int_le_iff of_int_numeral of_int_power, metis of_int_less_iff of_int_numeral of_int_power)
  have b1: "int b - 1 = int (b - 1)" using \<open>0 < b\<close> by simp
  show "2 powi (int (floorlog 2 (nat n)) - 1) \<le> (of_int n :: rat)"
    unfolding b_def [symmetric] b1 power_int_of_nat by (rule lo)
  show "(of_int n :: rat) < 2 powi int (floorlog 2 (nat n))"
    unfolding b_def [symmetric] power_int_of_nat by (rule hi)
qed

lemma ilog2_bounds:
  assumes "0 < x"
  shows "2 powi ilog2 x \<le> x" and "x < 2 powi (ilog2 x + 1)"
proof -
  obtain n d where nd: "quotient_of x = (n, d)" by force
  have d: "0 < d" using nd by (rule quotient_of_denom_pos)
  have x: "x = of_int n / of_int d" using nd by (rule quotient_of_div)
  have n: "0 < n" using assms x d by (simp add: zero_less_divide_iff)
  define bn where "bn = int (floorlog 2 (nat n))"
  define bd where "bd = int (floorlog 2 (nat d))"
  note N = floorlog_bounds [OF n, folded bn_def] and D = floorlog_bounds [OF d, folded bd_def]
  have dpos: "(0 :: rat) < of_int d" using d by simp
  have up: "x < 2 powi (bn - bd + 1)"
  proof -
    have "x < 2 powi bn / of_int d" using N(2) dpos by (simp add: x divide_strict_right_mono)
    also have "\<dots> \<le> 2 powi bn / 2 powi (bd - 1)" using D(1) dpos by (intro divide_left_mono) (auto intro: mult_pos_pos)
    also have "\<dots> = 2 powi (bn - bd + 1)" by (simp add: power_int_diff power_int_add)
    finally show ?thesis .
  qed
  have lo: "2 powi (bn - bd - 1) < x"
  proof -
    have "2 powi (bn - bd - 1) = (2 powi (bn - 1) / 2 powi bd :: rat)" by (simp add: power_int_diff)
    also have "\<dots> < 2 powi (bn - 1) / of_int d" using D(2) dpos by (intro divide_strict_left_mono) auto
    also have "\<dots> \<le> x" using N(1) dpos by (simp add: x divide_right_mono)
    finally show ?thesis .
  qed
  have il: "ilog2 x = (if x < 2 powi (bn - bd) then bn - bd - 1 else bn - bd)"
    by (simp add: ilog2_def nd bn_def bd_def Let_def)
  show "2 powi ilog2 x \<le> x" using lo by (auto simp: il)
  show "x < 2 powi (ilog2 x + 1)" using up by (auto simp: il)
qed

lemma fl_error: "\<bar>fl x - x\<bar> \<le> \<bar>x\<bar> / 2 ^ 53"
proof (cases "x = 0")
  case False
  define e where "e = ilog2 \<bar>x\<bar>"
  define u :: rat where "u = 2 powi (e - 52)"
  have upos: "0 < u" by (simp add: u_def)
  have "fl x - x = (of_int (round_half_even (x / u)) - x / u) * u"
    using False upos by (simp add: fl_def Let_def u_def e_def field_simps)
  then have "\<bar>fl x - x\<bar> = \<bar>of_int (round_half_even (x / u)) - x / u\<bar> * u"
    using upos by (simp add: abs_mult)
  also have "\<dots> \<le> 1/2 * u" using upos round_half_even_bounds [of "x / u"] by (intro mult_right_mono) auto
  also have "\<dots> = 2 powi e / 2 ^ 53" by (simp add: u_def power_int_diff)
  also have "\<dots> \<le> \<bar>x\<bar> / 2 ^ 53"
    using ilog2_bounds(1) [of "\<bar>x\<bar>"] False by (simp add: e_def divide_right_mono)
  finally show ?thesis .
qed (simp add: fl_def)

lemma fl_le_int:
  assumes "0 < x" and "x \<le> of_int N" and "ilog2 x \<le> 52"
  shows "fl x \<le> of_int N"
proof -
  define u :: rat where "u = 2 powi (ilog2 x - 52)"
  have upos: "0 < u" by (simp add: u_def)
  have inv: "1 / u = of_int (2 ^ nat (52 - ilog2 x))"
  proof -
    have "1 / u = 2 powi (52 - ilog2 x)" by (simp add: u_def power_int_diff)
    also have "\<dots> = 2 ^ nat (52 - ilog2 x)" using assms(3) by (simp add: power_int_def)
    finally show ?thesis by simp
  qed
  have "x / u \<le> of_int N * (1 / u)" using assms(2) upos by (simp add: divide_right_mono)
  then have "x / u \<le> of_int (N * 2 ^ nat (52 - ilog2 x))" by (simp only: inv of_int_mult)
  then have "round_half_even (x / u) \<le> N * 2 ^ nat (52 - ilog2 x)" by (rule round_half_even_le)
  then have "of_int (round_half_even (x / u)) \<le> (of_int N * (1 / u) :: rat)"
    by (metis inv of_int_le_iff of_int_mult)
  then have "of_int (round_half_even (x / u)) * u \<le> of_int N" using upos by (simp add: field_simps)
  then show ?thesis using assms(1) by (simp add: fl_def Let_def u_def)
qed

lemma ilog2_le: assumes "0 < x" and "x < 2 ^ 53" shows "ilog2 x \<le> 52"
proof -
  have "2 powi ilog2 x < (2 :: rat) powi 53"
    using ilog2_bounds(1) [OF assms(1)] assms(2) by (simp add: power_int_def)
  then have "ilog2 x < 53" using power_int_increasing [of 53 "ilog2 x" "2 :: rat"] by force
  then show ?thesis by simp
qed

lemma fl_of_int:
  assumes "\<bar>m\<bar> < 2 ^ 53"
  shows "fl (of_int m) = of_int m"
proof (cases "m = 0")
  case False
  define x :: rat where "x = of_int m"
  define k where "k = nat (52 - ilog2 \<bar>x\<bar>)"
  define u :: rat where "u = 2 powi (ilog2 \<bar>x\<bar> - 52)"
  have x: "0 < \<bar>x\<bar>" using False by (simp add: x_def)
  have "(of_int \<bar>m\<bar> :: rat) < of_int (2 ^ 53)" using assms by (simp only: of_int_less_iff)
  then have "\<bar>x\<bar> < 2 ^ 53" by (simp add: x_def)
  then have "ilog2 \<bar>x\<bar> \<le> 52" using ilog2_le x by blast
  then have "1 / u = of_int (2 ^ k)" by (simp add: u_def k_def power_int_diff power_int_def field_simps)
  moreover have upos: "u \<noteq> 0" by (simp add: u_def)
  ultimately have q: "x / u = of_int (m * 2 ^ k)" by (simp add: x_def field_simps)
  have "fl x = of_int (m * 2 ^ k) * u"
    using x unfolding fl_def Let_def u_def [symmetric] q round_half_even_int by auto
  then show ?thesis using q upos by (simp add: x_def field_simps)
qed (simp add: fl_def)

subsection \<open>Numbers and their text\<close>

datatype jsnum = NaN | Inf bool | Fin rat

text \<open>The nearest number to an exact value: overflow to an infinity, underflow to zero.\<close>

definition js_fin :: "rat \<Rightarrow> jsnum" where
  "js_fin v = (if 2 ^ 1024 - 2 ^ 970 \<le> \<bar>v\<bar> then Inf (0 < v)
               else if \<bar>v\<bar> * 2 ^ 1075 \<le> 1 then Fin 0 else Fin (fl v))"

definition is_js_integer :: "jsnum \<Rightarrow> bool" where
  "is_js_integer x \<longleftrightarrow> (case x of Fin q \<Rightarrow> q = of_int \<lfloor>q\<rfloor> | _ \<Rightarrow> False)"

definition char_code :: "char \<Rightarrow> nat" where "char_code c = of_char c"

definition is_digit :: "char \<Rightarrow> bool" where "is_digit c \<longleftrightarrow> 48 \<le> char_code c \<and> char_code c \<le> 57"

definition digits_value :: "string \<Rightarrow> nat" where
  "digits_value s = foldl (\<lambda>v c. 10 * v + (char_code c - 48)) 0 s"

function nat_digits :: "nat \<Rightarrow> string" where
  "nat_digits n = (if n < 10 then [char_of (48 + n)]
                   else nat_digits (n div 10) @ [char_of (48 + n mod 10)])"
  by pat_completeness auto
termination by (relation "measure id") auto

declare nat_digits.simps [simp del]

definition int_str :: "int \<Rightarrow> string" where
  "int_str n = (if n < 0 then ''-'' @ nat_digits (nat (- n)) else nat_digits (nat n))"

definition js_space :: "char \<Rightarrow> bool" where
  "js_space c \<longleftrightarrow> char_code c \<in> {9, 10, 11, 12, 13, 32}"

definition js_trim :: "string \<Rightarrow> string" where
  "js_trim s = rev (dropWhile js_space (rev (dropWhile js_space s)))"

text \<open>\<open>value.split(':')\<close>.\<close>

fun split_colon :: "string \<Rightarrow> string list" where
  "split_colon [] = [[]]"
| "split_colon (c # cs) =
     (if c = CHR '':'' then [] # split_colon cs
      else (case split_colon cs of p # ps \<Rightarrow> (c # p) # ps | [] \<Rightarrow> [[c]]))"

text \<open>
  \<open>String(q)\<close> for a finite double: the shortest decimal that reads back as \<open>q\<close>, written out as the language
  prescribes.  An integer below \<open>2^53\<close> is its own digits.
\<close>

definition dec_exponent :: "rat \<Rightarrow> int" where
  "dec_exponent v =
     (if 1 \<le> v then int (length (nat_digits (nat \<lfloor>v\<rfloor>)))
      else 1 - int (length (nat_digits (nat (\<lceil>1 / v\<rceil> - 1)))))"

definition dec_scaled :: "rat \<Rightarrow> nat \<Rightarrow> int" where
  "dec_scaled v k = \<lfloor>v / 10 powi (dec_exponent v - int k) + 1 / 2\<rfloor>"

definition dec_digits :: "rat \<Rightarrow> string \<times> int" where
  "dec_digits v =
     (let n = dec_exponent v;
          k = (case List.find (\<lambda>k. fl (of_int (dec_scaled v k) * 10 powi (n - int k)) = v) [1..<18] of
                 Some k \<Rightarrow> k | None \<Rightarrow> 17);
          ds = nat_digits (nat (dec_scaled v k))
      in (take k ds, n + int (length ds) - int k))"

definition dec_layout :: "string \<Rightarrow> int \<Rightarrow> string" where
  "dec_layout ds n =
     (let k = int (length ds) in
      if k \<le> n \<and> n \<le> 21 then ds @ replicate (nat (n - k)) (CHR ''0'')
      else if 0 < n \<and> n \<le> 21 then take (nat n) ds @ ''.'' @ drop (nat n) ds
      else if -6 < n \<and> n \<le> 0 then ''0.'' @ replicate (nat (- n)) (CHR ''0'') @ ds
      else take 1 ds @ (if k = 1 then [] else ''.'' @ drop 1 ds) @ ''e'' @ (if 0 < n then ''+'' else ''-'')
             @ nat_digits (nat \<bar>n - 1\<bar>))"

definition num_str :: "rat \<Rightarrow> string" where
  "num_str q =
     (if q = of_int \<lfloor>q\<rfloor> \<and> \<bar>q\<bar> < 2 ^ 53 then int_str \<lfloor>q\<rfloor>
      else (if q < 0 then ''-'' else []) @ (case dec_digits \<bar>q\<bar> of (ds, n) \<Rightarrow> dec_layout ds n))"

lemma num_str_of_int: "\<bar>m\<bar> < 2 ^ 53 \<Longrightarrow> num_str (of_int m) = int_str m"
proof -
  assume "\<bar>m\<bar> < 2 ^ 53"
  then have "(of_int \<bar>m\<bar> :: rat) < of_int (2 ^ 53)" by (simp only: of_int_less_iff)
  then show ?thesis by (simp add: num_str_def)
qed

text \<open>Digits in a base up to 16; \<open>None\<close> marks any other character.\<close>

definition digit_in :: "nat \<Rightarrow> char \<Rightarrow> nat option" where
  "digit_in base c =
     (let n = char_code c;
          v = (if 48 \<le> n \<and> n \<le> 57 then n - 48 else if 97 \<le> n \<and> n \<le> 102 then n - 87
               else if 65 \<le> n \<and> n \<le> 70 then n - 55 else 99)
      in if v < base then Some v else None)"

fun radix_value :: "nat \<Rightarrow> nat \<Rightarrow> string \<Rightarrow> nat option" where
  "radix_value base v [] = Some v"
| "radix_value base v (c # cs) =
     (case digit_in base c of None \<Rightarrow> None | Some d \<Rightarrow> radix_value base (base * v + d) cs)"

definition js_radix :: "nat \<Rightarrow> string \<Rightarrow> jsnum" where
  "js_radix base ds =
     (if ds = [] then NaN
      else case radix_value base 0 ds of None \<Rightarrow> NaN | Some v \<Rightarrow> js_fin (of_nat v))"

text \<open>The exponent part: absent, or \<open>e\<close> with an optional sign and at least one digit.\<close>

definition js_exponent :: "string \<Rightarrow> int option" where
  "js_exponent s =
     (case s of [] \<Rightarrow> Some 0
      | c # r \<Rightarrow>
          if c = CHR ''e'' \<or> c = CHR ''E'' then
            (let (neg, ds) = (case r of x # xs \<Rightarrow> if x = CHR ''-'' then (True, xs)
                                else if x = CHR ''+'' then (False, xs) else (False, r) | [] \<Rightarrow> (False, r))
             in if ds \<noteq> [] \<and> list_all is_digit ds
                then Some (if neg then - int (digits_value ds) else int (digits_value ds)) else None)
          else None)"

definition js_unsigned_decimal :: "string \<Rightarrow> rat option" where
  "js_unsigned_decimal s =
     (let ip = takeWhile is_digit s; r1 = dropWhile is_digit s;
          (fp, r2) = (case r1 of c # r \<Rightarrow> if c = CHR ''.'' then (takeWhile is_digit r, dropWhile is_digit r)
                        else ([], r1) | [] \<Rightarrow> ([], r1))
      in if ip = [] \<and> fp = [] then None
         else case js_exponent r2 of None \<Rightarrow> None
           | Some e \<Rightarrow> Some (of_nat (digits_value (ip @ fp)) * 10 powi (e - int (length fp))))"

definition js_signed :: "bool \<Rightarrow> string \<Rightarrow> jsnum" where
  "js_signed neg s =
     (if s = ''Infinity'' then Inf (\<not> neg)
      else case js_unsigned_decimal s of None \<Rightarrow> NaN
        | Some v \<Rightarrow> js_fin (if neg then - v else v))"

text \<open>\<open>Number(text)\<close>.\<close>

definition js_number :: "string \<Rightarrow> jsnum" where
  "js_number text =
     (case js_trim text of [] \<Rightarrow> Fin 0
      | c # r \<Rightarrow>
          if c = CHR ''-'' then js_signed True r
          else if c = CHR ''+'' then js_signed False r
          else if c = CHR ''0'' \<and> r \<noteq> [] \<and> hd r \<in> {CHR ''x'', CHR ''X''} then js_radix 16 (tl r)
          else if c = CHR ''0'' \<and> r \<noteq> [] \<and> hd r \<in> {CHR ''o'', CHR ''O''} then js_radix 8 (tl r)
          else if c = CHR ''0'' \<and> r \<noteq> [] \<and> hd r \<in> {CHR ''b'', CHR ''B''} then js_radix 2 (tl r)
          else js_signed False (c # r))"

text \<open>\<open>Number(tag)\<close> where the tag may be missing (\<open>undefined\<close> becomes \<open>NaN\<close>), and \<open>Number(tag ?? 0)\<close>.\<close>

definition js_number_opt :: "string option \<Rightarrow> jsnum" where
  "js_number_opt t = (case t of None \<Rightarrow> NaN | Some s \<Rightarrow> js_number s)"

definition js_number_or0 :: "string option \<Rightarrow> jsnum" where
  "js_number_or0 t = (case t of None \<Rightarrow> Fin 0 | Some s \<Rightarrow> js_number s)"

subsection \<open>Reading back what was written\<close>

lemma char_code_digit [simp]: "d < 10 \<Longrightarrow> char_code (char_of (48 + d)) = 48 + d"
  by (simp add: char_code_def)

lemma nat_digits_all_digit: "list_all is_digit (nat_digits n)"
proof (induction n rule: nat_digits.induct)
  case (1 n)
  show ?case
  proof (cases "n < 10")
    case True
    then show ?thesis by (subst nat_digits.simps) (simp add: is_digit_def)
  next
    case False
    with 1 have "list_all is_digit (nat_digits (n div 10))" by simp
    with False show ?thesis by (subst nat_digits.simps) (simp add: is_digit_def)
  qed
qed

lemma digits_value_append [simp]: "digits_value (s @ [c]) = 10 * digits_value s + (char_code c - 48)"
  by (simp add: digits_value_def)

lemma digits_value_nat_digits [simp]: "digits_value (nat_digits n) = n"
proof (induction n rule: nat_digits.induct)
  case (1 n)
  show ?case
  proof (cases "n < 10")
    case True
    then show ?thesis by (subst nat_digits.simps) (simp add: digits_value_def)
  next
    case False
    with 1 have "digits_value (nat_digits (n div 10)) = n div 10" by simp
    with False show ?thesis by (subst nat_digits.simps) simp
  qed
qed

lemma nat_digits_not_Nil [simp]: "nat_digits n \<noteq> []"
  by (subst nat_digits.simps) simp

lemma digit_not_space: "is_digit c \<Longrightarrow> \<not> js_space c"
  by (auto simp: is_digit_def js_space_def)

lemma digit_not_special:
  assumes "is_digit c"
  shows "c \<noteq> CHR ''-''" "c \<noteq> CHR ''+''" "c \<noteq> CHR ''I''" "c \<noteq> CHR ''x''" "c \<noteq> CHR ''X''"
    "c \<noteq> CHR ''o''" "c \<noteq> CHR ''O''" "c \<noteq> CHR ''b''" "c \<noteq> CHR ''B''"
  using assms by (auto simp: is_digit_def char_code_def)

lemma trim_no_space:
  assumes "s \<noteq> []" and "\<not> js_space (hd s)" and "\<not> js_space (last s)"
  shows "js_trim s = s"
proof -
  have "dropWhile js_space s = s" using assms(1,2) by (cases s) auto
  moreover have "dropWhile js_space (rev s) = rev s" using assms(1,3) by (cases s rule: rev_cases) auto
  ultimately show ?thesis by (simp add: js_trim_def)
qed

lemma unsigned_decimal_digits:
  assumes "s \<noteq> []" and "list_all is_digit s"
  shows "js_unsigned_decimal s = Some (of_nat (digits_value s))"
proof -
  have tw: "takeWhile is_digit s = s" and dw: "dropWhile is_digit s = []"
    using assms(2) by (auto simp: list_all_iff takeWhile_eq_all_conv dropWhile_eq_Nil_conv)
  show ?thesis using assms(1) by (simp add: js_unsigned_decimal_def js_exponent_def Let_def tw dw)
qed

lemma js_fin_small:
  assumes "\<bar>m\<bar> < 2 ^ 53"
  shows "js_fin (of_int m) = Fin (of_int m)"
proof -
  have "\<bar>(of_int m :: rat)\<bar> < of_int (2 ^ 53)"
    using assms by (metis of_int_abs of_int_less_iff)
  also have "(of_int (2 ^ 53) :: rat) < 2 ^ 1024 - 2 ^ 970" by simp
  finally have big: "\<not> (2 ^ 1024 - 2 ^ 970 \<le> \<bar>(of_int m :: rat)\<bar>)" by simp
  show ?thesis
  proof (cases "m = 0")
    case True
    then show ?thesis by (simp add: js_fin_def)
  next
    case False
    then have "(1 :: rat) \<le> \<bar>of_int m\<bar>" by (metis of_int_abs of_int_1_le_iff zero_less_abs_iff int_one_le_iff_zero_less)
    then have "1 * 2 ^ 1075 \<le> \<bar>of_int m\<bar> * (2 ^ 1075 :: rat)" by (rule mult_right_mono) simp
    moreover have "(1 :: rat) < 1 * 2 ^ 1075" by simp
    ultimately have "\<not> \<bar>of_int m\<bar> * (2 ^ 1075 :: rat) \<le> 1" by linarith
    with big show ?thesis using fl_of_int [OF assms] by (simp add: js_fin_def)
  qed
qed

lemma js_signed_digits:
  "js_signed neg (nat_digits n) = js_fin (if neg then - of_nat n else of_nat n)"
proof -
  have d: "list_all is_digit (nat_digits n)" by (rule nat_digits_all_digit)
  have "nat_digits n \<noteq> ''Infinity''"
  proof
    assume "nat_digits n = ''Infinity''"
    with d have "is_digit CHR ''I''" by simp
    then show False by (simp add: is_digit_def char_code_def)
  qed
  then show ?thesis using unsigned_decimal_digits [OF nat_digits_not_Nil d] by (simp add: js_signed_def)
qed

lemma js_number_int_str [simp]:
  assumes "\<bar>n\<bar> < 2 ^ 53"
  shows "js_number (int_str n) = Fin (of_int n)"
proof -
  let ?ds = "nat_digits (nat \<bar>n\<bar>)"
  have d: "\<And>c. c \<in> set ?ds \<Longrightarrow> is_digit c" using nat_digits_all_digit by (simp add: list_all_iff)
  obtain c r where cr: "?ds = c # r" by (cases ?ds) auto
  have last: "\<not> js_space (last ?ds)" using d digit_not_space by (metis last_in_set nat_digits_not_Nil)
  have c: "is_digit c" and r: "r \<noteq> [] \<Longrightarrow> is_digit (hd r)" using d cr by auto
  show ?thesis
  proof (cases "n < 0")
    case True
    then have s: "int_str n = CHR ''-'' # ?ds" by (simp add: int_str_def)
    have "js_trim (int_str n) = int_str n"
      unfolding s using last by (intro trim_no_space) (auto simp: js_space_def char_code_def)
    then have "js_number (int_str n) = js_signed True ?ds" by (simp add: js_number_def s)
    also have "\<dots> = js_fin (of_int n)" using True by (simp add: js_signed_digits)
    finally show ?thesis by (simp add: js_fin_small [OF assms])
  next
    case False
    then have s: "int_str n = c # r" using cr by (simp add: int_str_def)
    have "js_trim (int_str n) = int_str n"
      unfolding s using last [unfolded cr] digit_not_space [OF c] by (intro trim_no_space) auto
    then have tr: "js_trim (c # r) = c # r" by (simp add: s)
    have rx: "\<not> (r \<noteq> [] \<and> hd r \<in> {CHR ''x'', CHR ''X''})"
      "\<not> (r \<noteq> [] \<and> hd r \<in> {CHR ''o'', CHR ''O''})"
      "\<not> (r \<noteq> [] \<and> hd r \<in> {CHR ''b'', CHR ''B''})"
      using r digit_not_special [of "hd r"] by blast+
    have "js_number (int_str n) = js_signed False ?ds"
      unfolding s cr js_number_def tr list.case using rx
      by (simp only: digit_not_special [OF c] if_False simp_thms)
    also have "\<dots> = js_fin (of_int n)" using False by (simp add: js_signed_digits)
    finally show ?thesis by (simp add: js_fin_small [OF assms])
  qed
qed

end
