(* ===== verification/Effects_Queue.thy ===== *)
theory Effects_Queue
  imports Js_Number
begin

text \<open>
  The queue of external effects (\<open>daemon/src/effects.ts\<close>, table \<open>effects\<close> of
  \<open>daemon/src/db/migrations.ts\<close>).  Handlers only record intents; a worker runs them outside the
  transaction and records the outcome together with the follow-up.

  \<open>qdb\<close> is the part of the database the queue owns, with the clock; the daemon's database extends it,
  so every operation here works on the whole database.  An executor's network call is \<open>ex_run\<close>, a
  function of the database it reads; its \<open>Left\<close>-like failure (a thrown exception) is \<open>None\<close>.
\<close>

datatype eff_status = Pending | Done | Dead

record 'p effect_row =
  ef_id :: nat
  ef_kind :: string
  ef_dedup :: "string option"
  ef_payload :: 'p
  ef_status :: eff_status
  ef_attempts :: int
  ef_next_at :: msec
  ef_last_error :: "string option"
  ef_created_at :: msec
  ef_finished_at :: "msec option"

record 'p qdb =
  q_rows :: "'p effect_row list"
  q_seq :: nat
  q_now :: msec

definition BASE_DELAY_MS :: msec where "BASE_DELAY_MS = 5000"
definition MAX_DELAY_MS :: msec where "MAX_DELAY_MS = 10 * 60000"

definition backoff_ms :: "int \<Rightarrow> msec" where
  "backoff_ms attempts = min (BASE_DELAY_MS * 2 ^ nat (max 0 (attempts - 1))) MAX_DELAY_MS"

subsection \<open>Enqueueing\<close>

definition is_pending :: "'p effect_row \<Rightarrow> bool" where "is_pending r \<longleftrightarrow> ef_status r = Pending"

definition pending_with :: "string \<Rightarrow> 'p effect_row \<Rightarrow> bool" where
  "pending_with d r \<longleftrightarrow> is_pending r \<and> ef_dedup r = Some d"

text \<open>The partial unique index: no second pending row with the same \<open>dedup\<close>.\<close>

definition dedup_clash :: "string option \<Rightarrow> 'p effect_row list \<Rightarrow> bool" where
  "dedup_clash dedup rows \<longleftrightarrow>
     (case dedup of None \<Rightarrow> False | Some d \<Rightarrow> list_ex (pending_with d) rows)"

definition new_row :: "nat \<Rightarrow> string \<Rightarrow> 'p \<Rightarrow> string option \<Rightarrow> msec \<Rightarrow> msec \<Rightarrow> 'p effect_row" where
  "new_row i kind payload dedup delayMs now =
     \<lparr>ef_id = i, ef_kind = kind, ef_dedup = dedup, ef_payload = payload, ef_status = Pending,
      ef_attempts = 0, ef_next_at = now + delayMs, ef_last_error = None, ef_created_at = now,
      ef_finished_at = None\<rparr>"

definition insert_effect ::
  "string \<Rightarrow> 'p \<Rightarrow> string option \<Rightarrow> msec \<Rightarrow> ('p, 'm) qdb_scheme \<Rightarrow> bool \<times> ('p, 'm) qdb_scheme" where
  "insert_effect kind payload dedup delayMs w =
     (if dedup_clash dedup (q_rows w) then (False, w)
      else (True, w\<lparr>q_rows := q_rows w @ [new_row (q_seq w) kind payload dedup delayMs (q_now w)],
                    q_seq := Suc (q_seq w)\<rparr>))"

text \<open>\<open>enqueue\<close> throws for a kind without an executor; the daemon registers every kind at start-up
  (\<open>runtime.ts\<close>), so the rest of the model uses \<open>insert_effect\<close> through \<open>enq\<close>.\<close>

definition enqueue ::
  "(string \<Rightarrow> bool) \<Rightarrow> string \<Rightarrow> 'p \<Rightarrow> string option \<Rightarrow> msec \<Rightarrow> ('p, 'm) qdb_scheme
   \<Rightarrow> (bool \<times> ('p, 'm) qdb_scheme) option" where
  "enqueue registered kind payload dedup delayMs w =
     (if registered kind then Some (insert_effect kind payload dedup delayMs w) else None)"

definition enq :: "string \<Rightarrow> 'p \<Rightarrow> string option \<Rightarrow> ('p, 'm) qdb_scheme \<Rightarrow> ('p, 'm) qdb_scheme" where
  "enq kind payload dedup w = snd (insert_effect kind payload dedup 0 w)"

definition expedite :: "string \<Rightarrow> ('p, 'm) qdb_scheme \<Rightarrow> bool \<times> ('p, 'm) qdb_scheme" where
  "expedite dedup w =
     (list_ex (pending_with dedup) (q_rows w),
      w\<lparr>q_rows := update_where (pending_with dedup) (\<lambda>r. r\<lparr>ef_next_at := q_now w\<rparr>) (q_rows w)\<rparr>)"

definition pending_count :: "string option \<Rightarrow> ('p, 'm) qdb_scheme \<Rightarrow> nat" where
  "pending_count kind w =
     length (filter (\<lambda>r. is_pending r \<and> (case kind of None \<Rightarrow> True | Some k \<Rightarrow> ef_kind r = k)) (q_rows w))"

definition due :: "nat \<Rightarrow> ('p, 'm) qdb_scheme \<Rightarrow> 'p effect_row list" where
  "due limit w =
     take limit (sort_key ef_next_at (sort_key ef_id
       (filter (\<lambda>r. is_pending r \<and> ef_next_at r \<le> q_now w) (q_rows w))))"

subsection \<open>Running\<close>

datatype 'r outcome = O_done 'r | O_retry string "msec option" | O_dead string

record ('w, 'p, 'r) executor =
  ex_run :: "'w \<Rightarrow> 'p \<Rightarrow> 'r outcome option"
  ex_on_done :: "'p \<Rightarrow> 'r \<Rightarrow> 'w \<Rightarrow> 'w option"
  ex_on_dead :: "'p \<Rightarrow> string \<Rightarrow> 'w \<Rightarrow> 'w option"
  ex_on_retry :: "'p \<Rightarrow> string \<Rightarrow> 'w \<Rightarrow> 'w option"
  ex_max_attempts :: "int option"

definition finish :: "nat \<Rightarrow> eff_status \<Rightarrow> string option \<Rightarrow> ('p, 'm) qdb_scheme \<Rightarrow> ('p, 'm) qdb_scheme" where
  "finish i status error w =
     w\<lparr>q_rows := update_where (\<lambda>r. ef_id r = i)
        (\<lambda>r. r\<lparr>ef_status := status,
               ef_last_error := (case error of Some e \<Rightarrow> Some e | None \<Rightarrow> ef_last_error r),
               ef_finished_at := Some (q_now w)\<rparr>) (q_rows w)\<rparr>"

text \<open>A transaction that throws leaves the database as it was; the flag says that it threw.\<close>

definition tx :: "('w \<Rightarrow> 'w option) \<Rightarrow> 'w \<Rightarrow> 'w \<times> bool" where
  "tx f w = (case f w of Some w' \<Rightarrow> (w', False) | None \<Rightarrow> (w, True))"

type_synonym ('p, 'm, 'r) qexec = "(('p, 'm) qdb_scheme, 'p, 'r) executor"

definition kill ::
  "('p, 'm, 'r) qexec \<Rightarrow> 'p effect_row \<Rightarrow> int \<Rightarrow> string \<Rightarrow> ('p, 'm) qdb_scheme \<Rightarrow> ('p, 'm) qdb_scheme \<times> bool" where
  "kill ex row attempts error =
     tx (\<lambda>w. ex_on_dead ex (ef_payload row) error
               (finish (ef_id row) Dead (Some error)
                 (w\<lparr>q_rows := update_where (\<lambda>r. ef_id r = ef_id row) (\<lambda>r. r\<lparr>ef_attempts := attempts\<rparr>) (q_rows w)\<rparr>)))"

definition retry ::
  "('p, 'm, 'r) qexec \<Rightarrow> 'p effect_row \<Rightarrow> string \<Rightarrow> msec option
   \<Rightarrow> ('p, 'm) qdb_scheme \<Rightarrow> ('p, 'm) qdb_scheme \<times> bool" where
  "retry ex row error delayMs w =
     (let attempts = ef_attempts row + 1 in
      if (case ex_max_attempts ex of Some m \<Rightarrow> attempts \<ge> m | None \<Rightarrow> False)
      then kill ex row attempts (int_str attempts @ '' failures: '' @ error) w
      else tx (\<lambda>w. ex_on_retry ex (ef_payload row) error
             (w\<lparr>q_rows := update_where (\<lambda>r. ef_id r = ef_id row)
                 (\<lambda>r. r\<lparr>ef_attempts := attempts,
                        ef_next_at := q_now w + (case delayMs of Some d \<Rightarrow> d | None \<Rightarrow> backoff_ms attempts),
                        ef_last_error := Some error\<rparr>) (q_rows w)\<rparr>)) w)"

definition run_one ::
  "(string \<Rightarrow> ('p, 'm, 'r) qexec option) \<Rightarrow> 'p effect_row \<Rightarrow> ('p, 'm) qdb_scheme
   \<Rightarrow> ('p, 'm) qdb_scheme \<times> bool" where
  "run_one executors row w =
     (case executors (ef_kind row) of
        None \<Rightarrow> (finish (ef_id row) Dead (Some ''unknown effect'') w, False)
      | Some ex \<Rightarrow>
          (case ex_run ex w (ef_payload row) of
             None \<Rightarrow> retry ex row ''exception'' None w
           | Some (O_done r) \<Rightarrow>
               (case ex_on_done ex (ef_payload row) r (finish (ef_id row) Done None w) of
                  Some w' \<Rightarrow> (w', False)
                | None \<Rightarrow> retry ex row ''onDone'' None w)
           | Some (O_dead e) \<Rightarrow> kill ex row (ef_attempts row) e w
           | Some (O_retry e d) \<Rightarrow> retry ex row e d w))"

fun run_rows ::
  "(string \<Rightarrow> ('p, 'm, 'r) qexec option) \<Rightarrow> 'p effect_row list \<Rightarrow> ('p, 'm) qdb_scheme
   \<Rightarrow> ('p, 'm) qdb_scheme" where
  "run_rows executors [] w = w"
| "run_rows executors (row # rows) w =
     (case run_one executors row w of (w', threw) \<Rightarrow> if threw then w' else run_rows executors rows w')"

definition run_due ::
  "(string \<Rightarrow> ('p, 'm, 'r) qexec option) \<Rightarrow> nat \<Rightarrow> ('p, 'm) qdb_scheme \<Rightarrow> ('p, 'm) qdb_scheme" where
  "run_due executors limit w = run_rows executors (due limit w) w"

subsection \<open>The queue invariant\<close>

definition row_dedups :: "'p effect_row \<Rightarrow> string list" where
  "row_dedups r = (if is_pending r then (case ef_dedup r of Some d \<Rightarrow> [d] | None \<Rightarrow> []) else [])"

definition pending_dedups :: "'p effect_row list \<Rightarrow> string list" where
  "pending_dedups rows = concat (map row_dedups rows)"

definition q_wf :: "('p, 'm) qdb_scheme \<Rightarrow> bool" where
  "q_wf w \<longleftrightarrow> distinct (map ef_id (q_rows w)) \<and> (\<forall>r \<in> set (q_rows w). ef_id r < q_seq w)
     \<and> distinct (pending_dedups (q_rows w))"

lemma in_row_dedups [simp]: "d \<in> set (row_dedups r) \<longleftrightarrow> pending_with d r"
  by (cases "ef_dedup r"; cases "is_pending r") (simp_all add: row_dedups_def pending_with_def eq_commute)

lemma distinct_row_dedups [simp]: "distinct (row_dedups r)"
  by (cases "ef_dedup r") (simp_all add: row_dedups_def)

lemma pending_dedups_simps [simp]:
  "pending_dedups [] = []"
  "pending_dedups (r # rs) = row_dedups r @ pending_dedups rs"
  "pending_dedups (rs @ ts) = pending_dedups rs @ pending_dedups ts"
  by (simp_all add: pending_dedups_def)

lemma in_pending_dedups: "d \<in> set (pending_dedups rows) \<longleftrightarrow> (\<exists>r \<in> set rows. pending_with d r)"
  by (induction rows) auto

lemma row_dedups_update:
  assumes "ef_dedup r' = ef_dedup r" and "is_pending r' \<Longrightarrow> is_pending r"
  shows "row_dedups r' = row_dedups r \<or> row_dedups r' = []"
  using assms by (cases "is_pending r'") (simp_all add: row_dedups_def)

lemma pending_dedups_update:
  assumes "\<And>r. ef_dedup (f r) = ef_dedup r" and "\<And>r. is_pending (f r) \<Longrightarrow> is_pending r"
  shows "set (pending_dedups (update_where P f rows)) \<subseteq> set (pending_dedups rows)
    \<and> (distinct (pending_dedups rows) \<longrightarrow> distinct (pending_dedups (update_where P f rows)))"
proof (induction rows)
  case (Cons r rows)
  define r' where "r' = (if P r then f r else r)"
  have "row_dedups r' = row_dedups r \<or> row_dedups r' = []"
    using row_dedups_update [of "f r" r] assms by (auto simp: r'_def)
  with Cons show ?case unfolding update_where_Cons r'_def [symmetric] pending_dedups_simps
    by (elim disjE) auto
qed simp

lemma q_wf_update:
  assumes "q_wf w" and "\<And>r. ef_id (f r) = ef_id r" and "\<And>r. ef_dedup (f r) = ef_dedup r"
    and "\<And>r. is_pending (f r) \<Longrightarrow> is_pending r"
  shows "q_wf (w\<lparr>q_rows := update_where P f (q_rows w)\<rparr>)"
  using assms(1) pending_dedups_update [of f P "q_rows w", OF assms(3,4)] assms(2)
  by (auto simp: q_wf_def map_update_where dest!: set_update_where)

lemma q_wf_insert:
  assumes "q_wf w"
  shows "q_wf (snd (insert_effect kind payload dedup delayMs w))"
  using assms
  by (auto simp: q_wf_def insert_effect_def new_row_def dedup_clash_def is_pending_def in_pending_dedups
      less_Suc_eq list_ex_iff pending_with_def split: option.splits)

lemma q_wf_enq [simp]: "q_wf w \<Longrightarrow> q_wf (enq kind payload dedup w)"
  by (simp add: enq_def q_wf_insert)

lemma q_wf_finish: "q_wf w \<Longrightarrow> st \<noteq> Pending \<Longrightarrow> q_wf (finish i st e w)"
  unfolding finish_def by (erule q_wf_update) (auto simp: is_pending_def)

lemma q_wf_expedite [simp]: "q_wf w \<Longrightarrow> q_wf (snd (expedite d w))"
  unfolding expedite_def snd_conv by (erule q_wf_update) (auto simp: is_pending_def)

lemma q_wf_cong:
  "q_rows w = q_rows w' \<Longrightarrow> q_seq w = q_seq w' \<Longrightarrow> q_wf (w :: ('p, 'm) qdb_scheme) = q_wf (w' :: ('p, 'm) qdb_scheme)"
  by (simp add: q_wf_def)

lemma enq_ensures: "list_ex (pending_with d) (q_rows (enq kind p (Some d) w))"
  by (auto simp: enq_def insert_effect_def dedup_clash_def new_row_def pending_with_def is_pending_def)

lemma enq_keeps_pending:
  "list_ex (pending_with d) (q_rows w) \<Longrightarrow> list_ex (pending_with d) (q_rows (enq kind p dd w))"
  by (auto simp: enq_def insert_effect_def)

lemma q_now_enq [simp]: "q_now (enq kind p dd w) = q_now w"
  by (simp add: enq_def insert_effect_def)

lemma more_enq [simp]: "qdb.more (enq kind p dd w) = qdb.more w"
  by (simp add: enq_def insert_effect_def)

subsection \<open>What an executor promises, and what the worker then keeps\<close>

locale effect_contract =
  fixes execs :: "string \<Rightarrow> ('p, 'm, 'r) qexec option"
    and J :: "('p, 'm) qdb_scheme \<Rightarrow> bool"
  assumes J_rows: "J (w\<lparr>q_rows := rs\<rparr>) = J w"
    and done_ok: "\<lbrakk>execs k = Some ex; q_wf w; J w; ex_run ex w p = Some (O_done r);
        ex_on_done ex p r (finish i Done None w) = Some w'\<rbrakk> \<Longrightarrow> q_wf w' \<and> J w'"
    and dead_ok: "\<lbrakk>execs k = Some ex; q_wf (w\<lparr>q_rows := rs\<rparr>); J w;
        ex_run ex w p = Some (O_dead e) \<or> (\<exists>n e'. e = int_str n @ '' failures: '' @ e');
        ex_on_dead ex p e (w\<lparr>q_rows := rs\<rparr>) = Some w'\<rbrakk> \<Longrightarrow> q_wf w' \<and> J w'"
    and retry_ok: "\<lbrakk>execs k = Some ex; q_wf (w\<lparr>q_rows := rs\<rparr>); J w;
        (\<exists>d. ex_run ex w p = Some (O_retry e d)) \<or> e = ''exception'' \<or> e = ''onDone'';
        ex_on_retry ex p e (w\<lparr>q_rows := rs\<rparr>) = Some w'\<rbrakk> \<Longrightarrow> q_wf w' \<and> J w'"
begin

lemma J_finish: "J (finish i st e w) = J w"
  by (simp add: finish_def J_rows)

lemma kill_inv:
  assumes "execs k = Some ex" and "q_wf w" and "J w"
    and "ex_run ex w (ef_payload row) = Some (O_dead e) \<or> (\<exists>n e'. e = int_str n @ '' failures: '' @ e')"
  shows "q_wf (fst (kill ex row a e w)) \<and> J (fst (kill ex row a e w))"
proof -
  let ?w1 = "w\<lparr>q_rows := update_where (\<lambda>r. ef_id r = ef_id row) (\<lambda>r. r\<lparr>ef_attempts := a\<rparr>) (q_rows w)\<rparr>"
  have "q_wf ?w1" by (rule q_wf_update [OF assms(2)]) (auto simp: is_pending_def)
  then have wf: "q_wf (finish (ef_id row) Dead (Some e) ?w1)" by (rule q_wf_finish) simp
  obtain rs where rs: "finish (ef_id row) Dead (Some e) ?w1 = w\<lparr>q_rows := rs\<rparr>" by (simp add: finish_def)
  have "\<And>w'. ex_on_dead ex (ef_payload row) e (w\<lparr>q_rows := rs\<rparr>) = Some w' \<Longrightarrow> q_wf w' \<and> J w'"
    using dead_ok [OF assms(1) wf [unfolded rs] assms(3,4)] by blast
  with assms(2,3) show ?thesis unfolding kill_def tx_def rs by (simp split: option.split)
qed

lemma retry_inv:
  assumes "execs k = Some ex" and "q_wf w" and "J w"
    and "ex_run ex w (ef_payload row) = Some (O_retry e d) \<or> e = ''exception'' \<or> e = ''onDone''"
  shows "q_wf (fst (retry ex row e d w)) \<and> J (fst (retry ex row e d w))"
proof -
  let ?f = "\<lambda>r. r\<lparr>ef_attempts := ef_attempts row + 1,
      ef_next_at := q_now w + (case d of Some d \<Rightarrow> d | None \<Rightarrow> backoff_ms (ef_attempts row + 1)),
      ef_last_error := Some e\<rparr>"
  let ?w1 = "w\<lparr>q_rows := update_where (\<lambda>r. ef_id r = ef_id row) ?f (q_rows w)\<rparr>"
  have "q_wf ?w1" by (rule q_wf_update [OF assms(2)]) (auto simp: is_pending_def)
  then have "\<And>w'. ex_on_retry ex (ef_payload row) e ?w1 = Some w' \<Longrightarrow> q_wf w' \<and> J w'"
    using retry_ok [OF assms(1) _ assms(3), of _ "ef_payload row" e] assms(4) by blast
  moreover have "q_wf (fst (kill ex row n (int_str n @ '' failures: '' @ e) w))
      \<and> J (fst (kill ex row n (int_str n @ '' failures: '' @ e) w))" for n
    by (rule kill_inv [OF assms(1-3)]) blast
  ultimately show ?thesis
    using assms(2,3) unfolding retry_def Let_def tx_def by (simp split: option.split)
qed

lemma run_one_inv:
  assumes "q_wf w" and "J w"
  shows "q_wf (fst (run_one execs row w)) \<and> J (fst (run_one execs row w))"
proof (cases "execs (ef_kind row)")
  case None
  then show ?thesis using assms by (simp add: run_one_def q_wf_finish J_finish)
next
  case (Some ex)
  show ?thesis
    using assms Some retry_inv [OF Some assms, of row] kill_inv [OF Some assms, of row] done_ok [OF Some assms]
    by (auto simp: run_one_def split: option.splits outcome.splits)
qed

lemma run_rows_inv:
  "q_wf w \<Longrightarrow> J w \<Longrightarrow> q_wf (run_rows execs rows w) \<and> J (run_rows execs rows w)"
proof (induction rows arbitrary: w)
  case (Cons row rows)
  have "q_wf (fst (run_one execs row w)) \<and> J (fst (run_one execs row w))"
    by (rule run_one_inv [OF Cons.prems])
  with Cons.IH show ?case by (cases "run_one execs row w") auto
qed simp

lemma run_due_inv:
  "q_wf w \<Longrightarrow> J w \<Longrightarrow> q_wf (run_due execs limit w) \<and> J (run_due execs limit w)"
  by (simp add: run_due_def run_rows_inv)

end

subsection \<open>Properties\<close>

lemma backoff_pos: "BASE_DELAY_MS \<le> backoff_ms n"
proof -
  have "(1 :: int) \<le> 2 ^ nat (max 0 (n - 1))" by simp
  then show ?thesis by (simp add: backoff_ms_def BASE_DELAY_MS_def MAX_DELAY_MS_def)
qed

lemma backoff_mono: "m \<le> n \<Longrightarrow> backoff_ms m \<le> backoff_ms n"
proof -
  assume "m \<le> n"
  then have "(2 :: int) ^ nat (max 0 (m - 1)) \<le> 2 ^ nat (max 0 (n - 1))"
    by (intro power_increasing) auto
  then have "5000 * (2 :: int) ^ nat (max 0 (m - 1)) \<le> 5000 * 2 ^ nat (max 0 (n - 1))" by linarith
  then show ?thesis unfolding backoff_ms_def BASE_DELAY_MS_def by (rule min.mono) simp
qed

lemma backoff_bounds_parts:
  "5000 \<le> backoff_ms n" "backoff_ms n \<le> 600000" "backoff_ms n \<le> backoff_ms (n + 1)"
  "1 \<le> n \<Longrightarrow> backoff_ms (n + 1) = min (2 * backoff_ms n) 600000"
proof -
  show "5000 \<le> backoff_ms n" using backoff_pos [of n] by (simp add: BASE_DELAY_MS_def)
  show "backoff_ms n \<le> 600000" by (simp add: backoff_ms_def MAX_DELAY_MS_def)
  show "backoff_ms n \<le> backoff_ms (n + 1)" by (rule backoff_mono) simp
  assume n: "1 \<le> n"
  define k where "k = nat (n - 1)"
  have "nat (max 0 (n + 1 - 1)) = Suc k" and "nat (max 0 (n - 1)) = k" using n by (simp_all add: k_def)
  then show "backoff_ms (n + 1) = min (2 * backoff_ms n) 600000"
    by (simp only: backoff_ms_def BASE_DELAY_MS_def MAX_DELAY_MS_def power_Suc)
qed

text \<open>The retry delay starts at 5 seconds, never decreases from one attempt to the next, doubles
  while it is below the cap and is never longer than 10 minutes.\<close>

theorem backoff_bounds:
  "(5000 \<le> backoff_ms n)
    \<and> (backoff_ms n \<le> 600000)
    \<and> (backoff_ms n \<le> backoff_ms (n + 1))
    \<and> ((1 \<le> n) \<longrightarrow> (backoff_ms (n + 1) = min (2 * backoff_ms n) 600000))"
  using backoff_bounds_parts by blast

theorem backoff_bounds_witness: "backoff_ms (7 + 1) = min (2 * backoff_ms 7) 600000"
  using backoff_bounds [of 7] by simp

lemma find_id_update:
  assumes "q_wf w" and "row \<in> set (q_rows w)" and "\<And>r. ef_id (f r) = ef_id r"
  shows "List.find (\<lambda>r. ef_id r = ef_id row) (update_where (\<lambda>r. ef_id r = ef_id row) f (q_rows w))
    = Some (f row)"
  using assms find_key_distinct [of ef_id "q_rows w" row]
  by (simp add: q_wf_def find_update_where_same)

end
