(* ===== verification/Js_Json.thy ===== *)
theory Js_Json
  imports Js_Number Lnpay_Prelude
begin

text \<open>
  JSON values as \<open>JSON.parse\<close> yields them and the shape guards of \<open>shared/src/shape.ts\<close>.  A field written
  twice keeps its last value; reading a field of anything but an object gives \<open>undefined\<close>.
\<close>

datatype json = J_null | J_bool bool | J_num jsnum | J_str string | J_arr "json list"
  | J_obj "(string \<times> json) list"

fun jfield :: "string \<Rightarrow> json \<Rightarrow> json option" where
  "jfield k (J_obj kvs) = map_of (rev kvs) k"
| "jfield k _ = None"

fun is_object :: "json \<Rightarrow> bool" where
  "is_object (J_obj _) = True"
| "is_object _ = False"

fun jstr :: "json option \<Rightarrow> string option" where
  "jstr (Some (J_str s)) = Some s"
| "jstr _ = None"

text \<open>\<open>isNum\<close>: a finite number.\<close>

fun jnum :: "json option \<Rightarrow> rat option" where
  "jnum (Some (J_num (Fin q))) = Some q"
| "jnum _ = None"

text \<open>\<open>Number.isInteger\<close>.\<close>

fun jint :: "json option \<Rightarrow> int option" where
  "jint (Some (J_num (Fin q))) = (if q = of_int \<lfloor>q\<rfloor> then Some \<lfloor>q\<rfloor> else None)"
| "jint _ = None"

definition j_int :: "int \<Rightarrow> json" where "j_int n = J_num (Fin (of_int n))"

text \<open>An object field that is there only under a condition: \<open>...(x ? { k: x } : {})\<close>.\<close>

definition j_opt :: "string \<Rightarrow> json option \<Rightarrow> (string \<times> json) list" where
  "j_opt k v = (case v of Some j \<Rightarrow> [(k, j)] | None \<Rightarrow> [])"

lemma jint_j_int [simp]: "jint (Some (j_int n)) = Some n"
  by (simp add: j_int_def)

definition is_hex64 :: "string \<Rightarrow> bool" where
  "is_hex64 v \<longleftrightarrow> length v = 64 \<and>
     list_all (\<lambda>c. is_digit c \<or> (97 \<le> char_code c \<and> char_code c \<le> 102)) v"

end
