(* ===== verification/Ln_Fsm.thy ===== *)
theory Ln_Fsm
  imports Lnpay_Prelude
begin

text \<open>
  The Lightning track's state machine and its closing rules:
  \<open>shared/src/ln/state-machine.ts\<close> (transition table) and \<open>shared/src/ln/outcomes.ts\<close>
  (\<open>CLOSE_RULES\<close>, \<open>expiryReasonFor\<close>).  State and reason names are also needed as the strings that
  travel in tags and rows, so each datatype comes with its string form and its reader.
\<close>

subsection \<open>States\<close>

datatype order_state = Requested | Claimed | Verified | Escrowed | Invoiced | Remitted
  | Paid | Cancelled | Sponsor_wins | Customer_wins | Admin_closed | Expired

fun order_state_str :: "order_state \<Rightarrow> string" where
  "order_state_str Requested = ''requested''"
| "order_state_str Claimed = ''claimed''"
| "order_state_str Verified = ''verified''"
| "order_state_str Escrowed = ''escrowed''"
| "order_state_str Invoiced = ''invoiced''"
| "order_state_str Remitted = ''remitted''"
| "order_state_str Paid = ''paid''"
| "order_state_str Cancelled = ''cancelled''"
| "order_state_str Sponsor_wins = ''sponsor_wins''"
| "order_state_str Customer_wins = ''customer_wins''"
| "order_state_str Admin_closed = ''admin_closed''"
| "order_state_str Expired = ''expired''"

instantiation order_state :: enum
begin

definition "enum_order_state = [Requested, Claimed, Verified, Escrowed, Invoiced, Remitted,
  Paid, Cancelled, Sponsor_wins, Customer_wins, Admin_closed, Expired]"
definition "enum_all_order_state P \<longleftrightarrow> list_all P (Enum.enum :: order_state list)"
definition "enum_ex_order_state P \<longleftrightarrow> list_ex P (Enum.enum :: order_state list)"

instance
proof
  show univ: "(UNIV :: order_state set) = set Enum.enum"
  proof (rule set_eqI)
    fix s :: order_state
    show "s \<in> UNIV \<longleftrightarrow> s \<in> set Enum.enum" by (cases s) (simp_all add: enum_order_state_def)
  qed
  show "distinct (Enum.enum :: order_state list)" by (simp add: enum_order_state_def)
  show "enum_class.enum_all P \<longleftrightarrow> Ball UNIV P" for P :: "order_state \<Rightarrow> bool"
    unfolding enum_all_order_state_def univ by (simp add: list_all_iff)
  show "enum_class.enum_ex P \<longleftrightarrow> Bex UNIV P" for P :: "order_state \<Rightarrow> bool"
    unfolding enum_ex_order_state_def univ by (simp add: list_ex_iff)
qed

end

definition order_state_of :: "string \<Rightarrow> order_state option" where
  "order_state_of v = List.find (\<lambda>s. order_state_str s = v) Enum.enum"

lemma order_state_strs_distinct: "distinct (map order_state_str Enum.enum)"
  by code_simp

lemma order_state_of_str [simp]: "order_state_of (order_state_str s) = Some s"
  unfolding order_state_of_def
  by (rule find_key_distinct [OF order_state_strs_distinct]) (metis UNIV_I enum_UNIV)

subsection \<open>The transition table\<close>

fun ln_transitions :: "order_state \<Rightarrow> order_state list" where
  "ln_transitions Requested = [Claimed, Cancelled, Expired]"
| "ln_transitions Claimed = [Requested, Verified, Cancelled, Expired]"
| "ln_transitions Verified = [Escrowed, Cancelled, Expired]"
| "ln_transitions Escrowed = [Invoiced, Admin_closed, Expired]"
| "ln_transitions Invoiced = [Remitted, Paid, Admin_closed, Expired]"
| "ln_transitions Remitted = [Paid, Sponsor_wins, Customer_wins]"
| "ln_transitions Paid = []"
| "ln_transitions Cancelled = []"
| "ln_transitions Sponsor_wins = []"
| "ln_transitions Customer_wins = []"
| "ln_transitions Admin_closed = []"
| "ln_transitions Expired = []"

text \<open>\<open>LN_TERMINAL_STATES\<close> is derived from the table, as in the source.\<close>

definition ln_terminal_states :: "order_state list" where
  "ln_terminal_states = filter (\<lambda>s. ln_transitions s = []) Enum.enum"

definition ln_terminal :: "order_state \<Rightarrow> bool" where
  "ln_terminal s \<longleftrightarrow> s \<in> set ln_terminal_states"

definition can_transition :: "order_state \<Rightarrow> order_state \<Rightarrow> bool" where
  "can_transition from to \<longleftrightarrow> to \<in> set (ln_transitions from)"

lemma ln_terminal_iff: "ln_terminal s \<longleftrightarrow> ln_transitions s = []"
  by (cases s) (simp_all add: ln_terminal_def ln_terminal_states_def enum_order_state_def)

lemma ln_terminal_simps [simp]:
  "\<not> ln_terminal Requested" "\<not> ln_terminal Claimed" "\<not> ln_terminal Verified"
  "\<not> ln_terminal Escrowed" "\<not> ln_terminal Invoiced" "\<not> ln_terminal Remitted"
  "ln_terminal Paid" "ln_terminal Cancelled" "ln_terminal Sponsor_wins"
  "ln_terminal Customer_wins" "ln_terminal Admin_closed" "ln_terminal Expired"
  by (simp_all add: ln_terminal_iff)

interpretation ln_table: fsm ln_transitions can_transition ln_terminal
  by unfold_locales (simp_all add: can_transition_def ln_terminal_iff)

text \<open>Distance to the end of the trade; \<open>requested\<close> and \<open>claimed\<close> form the table's only cycle.\<close>

definition ln_dist :: "order_state \<Rightarrow> nat" where
  "ln_dist s = (if ln_transitions s = [] then 0 else 1)"

interpretation ln_live: live_fsm ln_transitions can_transition ln_terminal ln_dist
proof
  show "\<not> ln_terminal s \<Longrightarrow> \<exists>t. can_transition s t \<and> ln_dist t < ln_dist s" for s
    by (rule exI [of _ "if s = Remitted then Paid else Expired"], cases s)
      (simp_all add: can_transition_def ln_dist_def)
qed

subsection \<open>Closing reasons\<close>

datatype disposition = Refund | Forfeit

datatype escrow_action = Settle | Cancel

datatype close_reason = CR_paid | CR_sponsor_wins | CR_customer_wins | CR_admin_closed
  | CR_cancel_customer | CR_cancel_customer_after_claim | CR_cancel_unpaid_escrow
  | CR_expired_no_sponsor | CR_expired_not_approved | CR_expired_unpaid_escrow
  | CR_expired_no_invoice | CR_expired_no_account | CR_expired_no_remit

fun close_reason_str :: "close_reason \<Rightarrow> string" where
  "close_reason_str CR_paid = ''paid''"
| "close_reason_str CR_sponsor_wins = ''sponsor_wins''"
| "close_reason_str CR_customer_wins = ''customer_wins''"
| "close_reason_str CR_admin_closed = ''admin_closed''"
| "close_reason_str CR_cancel_customer = ''cancel:customer''"
| "close_reason_str CR_cancel_customer_after_claim = ''cancel:customer-after-claim''"
| "close_reason_str CR_cancel_unpaid_escrow = ''cancel:unpaid-escrow''"
| "close_reason_str CR_expired_no_sponsor = ''expired:no-sponsor''"
| "close_reason_str CR_expired_not_approved = ''expired:not-approved''"
| "close_reason_str CR_expired_unpaid_escrow = ''expired:unpaid-escrow''"
| "close_reason_str CR_expired_no_invoice = ''expired:no-invoice''"
| "close_reason_str CR_expired_no_account = ''expired:no-account''"
| "close_reason_str CR_expired_no_remit = ''expired:no-remit''"

definition all_close_reasons :: "close_reason list" where
  "all_close_reasons = [CR_paid, CR_sponsor_wins, CR_customer_wins, CR_admin_closed,
    CR_cancel_customer, CR_cancel_customer_after_claim, CR_cancel_unpaid_escrow,
    CR_expired_no_sponsor, CR_expired_not_approved, CR_expired_unpaid_escrow,
    CR_expired_no_invoice, CR_expired_no_account, CR_expired_no_remit]"

text \<open>\<open>isLnCloseReason\<close>: the value is a key of the table; the model keeps the key it names.\<close>

definition close_reason_of :: "string \<Rightarrow> close_reason option" where
  "close_reason_of v = List.find (\<lambda>r. close_reason_str r = v) all_close_reasons"

lemma close_reason_strs_distinct: "distinct (map close_reason_str all_close_reasons)"
  by code_simp

lemma close_reason_all: "r \<in> set all_close_reasons"
  by (cases r) (simp_all add: all_close_reasons_def)

lemma close_reason_of_str [simp]: "close_reason_of (close_reason_str r) = Some r"
  unfolding close_reason_of_def
  by (rule find_key_distinct [OF close_reason_strs_distinct close_reason_all])

record close_rule =
  cl_terminal :: order_state
  cl_escrow :: escrow_action
  cl_customer_deposit :: disposition
  cl_sponsor_deposit :: disposition

definition mk_rule :: "order_state \<Rightarrow> escrow_action \<Rightarrow> disposition \<Rightarrow> disposition \<Rightarrow> close_rule" where
  "mk_rule t e c s =
     \<lparr>cl_terminal = t, cl_escrow = e, cl_customer_deposit = c, cl_sponsor_deposit = s\<rparr>"

lemma mk_rule_sel [simp]:
  "cl_terminal (mk_rule t e c s) = t" "cl_escrow (mk_rule t e c s) = e"
  "cl_customer_deposit (mk_rule t e c s) = c" "cl_sponsor_deposit (mk_rule t e c s) = s"
  by (simp_all add: mk_rule_def)

fun close_rules :: "close_reason \<Rightarrow> close_rule" where
  "close_rules CR_paid = mk_rule Paid Settle Refund Refund"
| "close_rules CR_sponsor_wins = mk_rule Sponsor_wins Settle Refund Refund"
| "close_rules CR_customer_wins = mk_rule Customer_wins Cancel Refund Forfeit"
| "close_rules CR_admin_closed = mk_rule Admin_closed Cancel Refund Refund"
| "close_rules CR_cancel_customer = mk_rule Cancelled Cancel Refund Refund"
| "close_rules CR_cancel_customer_after_claim = mk_rule Cancelled Cancel Forfeit Refund"
| "close_rules CR_cancel_unpaid_escrow = mk_rule Cancelled Cancel Forfeit Refund"
| "close_rules CR_expired_no_sponsor = mk_rule Expired Cancel Refund Refund"
| "close_rules CR_expired_not_approved = mk_rule Expired Cancel Refund Refund"
| "close_rules CR_expired_unpaid_escrow = mk_rule Expired Cancel Forfeit Refund"
| "close_rules CR_expired_no_invoice = mk_rule Expired Cancel Refund Forfeit"
| "close_rules CR_expired_no_account = mk_rule Expired Cancel Forfeit Refund"
| "close_rules CR_expired_no_remit = mk_rule Expired Cancel Refund Refund"

fun expiry_reason_for :: "order_state \<Rightarrow> bool \<Rightarrow> bool \<Rightarrow> close_reason option" where
  "expiry_reason_for Requested _ _ = Some CR_expired_no_sponsor"
| "expiry_reason_for Claimed hasSponsor _ =
     Some (if hasSponsor then CR_expired_not_approved else CR_expired_no_sponsor)"
| "expiry_reason_for Verified _ _ = Some CR_expired_unpaid_escrow"
| "expiry_reason_for Escrowed _ _ = Some CR_expired_no_invoice"
| "expiry_reason_for Invoiced _ accountSent =
     Some (if accountSent then CR_expired_no_remit else CR_expired_no_account)"
| "expiry_reason_for _ _ _ = None"

lemma close_rules_terminal: "ln_terminal (cl_terminal (close_rules r))"
  by (cases r) simp_all

lemma expiry_reason_legal:
  "expiry_reason_for s h a = Some r \<Longrightarrow> can_transition s (cl_terminal (close_rules r))"
  by (cases s) (auto simp: can_transition_def split: if_splits)

subsection \<open>Properties\<close>

text \<open>The state machine has exactly six terminal states, a terminal order never moves again,
  and from every state some terminal state can be reached, so no order is trapped in the table.\<close>

theorem ln_states_end:
  "set ln_terminal_states = {Paid, Cancelled, Sponsor_wins, Customer_wins, Admin_closed, Expired}
   \<and> (\<forall>s t. ln_terminal s \<longrightarrow> can_transition\<^sup>*\<^sup>* s t \<longrightarrow> t = s)
   \<and> (\<forall>s. \<exists>t. ln_terminal t \<and> can_transition\<^sup>*\<^sup>* s t)"
  using ln_table.reach_from_terminal ln_live.terminal_reachable
  by (auto simp: ln_terminal_states_def enum_order_state_def)

theorem ln_states_end_witness:
  "\<exists>t. ln_terminal t \<and> can_transition\<^sup>*\<^sup>* Requested t"
  using ln_states_end by blast

end
