(* ===== verification/Ln_Timing.thy ===== *)
theory Ln_Timing
  imports Ln_Fsm
begin

text \<open>
  Times of the Lightning track: \<open>daemon/src/ln/timing.ts\<close> and the retention rules of
  \<open>shared/src/ln/order.ts\<close>.  All values are seconds (or blocks), as integers; divisions that the
  source rounds are written out.
\<close>

subsection \<open>Constants\<close>

definition LN_MIN_CLAIM_LEAD_SEC :: sec where "LN_MIN_CLAIM_LEAD_SEC = 60 * 60"
definition LN_MAX_DEADLINE_LEAD_SEC :: sec where "LN_MAX_DEADLINE_LEAD_SEC = 7 * 24 * 60 * 60"
definition LN_MIN_SPONSOR_INVOICE_LIFETIME_SEC :: sec where
  "LN_MIN_SPONSOR_INVOICE_LIFETIME_SEC = 10 * 60"
definition LN_TERMINAL_RETENTION_SEC :: sec where "LN_TERMINAL_RETENTION_SEC = 7 * 24 * 60 * 60"
definition LN_ACTIVE_RETENTION_SEC :: sec where "LN_ACTIVE_RETENTION_SEC = 30 * 24 * 60 * 60"
definition LN_REQUEST_RETENTION_SEC :: sec where "LN_REQUEST_RETENTION_SEC = 7 * 24 * 60 * 60"

definition BLOCK_SEC :: sec where "BLOCK_SEC = 600"
definition ESCROW_PAY_WINDOW_SEC :: sec where "ESCROW_PAY_WINDOW_SEC = 24 * 3600"
definition ESCROW_PAY_LEAD_SEC :: sec where "ESCROW_PAY_LEAD_SEC = 30 * 60"
definition MIN_ESCROW_PAY_WINDOW_SEC :: sec where "MIN_ESCROW_PAY_WINDOW_SEC = 10 * 60"
definition ESCROW_HOLD_MARGIN_SEC :: sec where "ESCROW_HOLD_MARGIN_SEC = 48 * 3600"
definition DEADLINE_GRACE_SEC :: sec where "DEADLINE_GRACE_SEC = 3600"
definition SPONSOR_DEPOSIT_PAY_SEC :: sec where "SPONSOR_DEPOSIT_PAY_SEC = 15 * 60"
definition CUSTOMER_DEPOSIT_PAY_SEC :: sec where "CUSTOMER_DEPOSIT_PAY_SEC = 3600"
definition SPONSOR_DEPOSIT_MARGIN_SEC :: sec where
  "SPONSOR_DEPOSIT_MARGIN_SEC = DEADLINE_GRACE_SEC + ESCROW_HOLD_MARGIN_SEC + 24 * 3600"
definition CUSTOMER_DEPOSIT_MARGIN_SEC :: sec where
  "CUSTOMER_DEPOSIT_MARGIN_SEC = SPONSOR_DEPOSIT_MARGIN_SEC"
definition CLTV_MAX_BLOCKS :: int where "CLTV_MAX_BLOCKS = 1500"
definition CLTV_MIN_BLOCKS :: int where "CLTV_MIN_BLOCKS = 40"
definition SAFETY_SETTLE_BLOCKS :: int where "SAFETY_SETTLE_BLOCKS = 36"
definition ESCROW_END_BLOCKS :: int where "ESCROW_END_BLOCKS = 72"
definition INVOICE_ESCROW_MIN_BLOCKS :: int where "INVOICE_ESCROW_MIN_BLOCKS = ESCROW_END_BLOCKS + 36"
definition INVOICE_WINDOW_SEC :: sec where "INVOICE_WINDOW_SEC = 6 * 3600"
definition REMITTED_ALERT_SEC :: sec where "REMITTED_ALERT_SEC = 12 * 3600"
definition PAYOUT_INVOICE_WAIT_ALERT_SEC :: sec where "PAYOUT_INVOICE_WAIT_ALERT_SEC = 6 * 3600"
definition LND_DOWN_ALERT_SEC :: sec where "LND_DOWN_ALERT_SEC = 10 * 60"
definition PAY_BY_SKEW_SEC :: sec where "PAY_BY_SKEW_SEC = 60"
definition CATCHUP_WARMUP_SEC :: sec where "CATCHUP_WARMUP_SEC = 2 * 60"

lemmas ln_consts = LN_MIN_CLAIM_LEAD_SEC_def LN_MAX_DEADLINE_LEAD_SEC_def
  LN_MIN_SPONSOR_INVOICE_LIFETIME_SEC_def LN_TERMINAL_RETENTION_SEC_def LN_ACTIVE_RETENTION_SEC_def
  LN_REQUEST_RETENTION_SEC_def BLOCK_SEC_def ESCROW_PAY_WINDOW_SEC_def ESCROW_PAY_LEAD_SEC_def
  MIN_ESCROW_PAY_WINDOW_SEC_def ESCROW_HOLD_MARGIN_SEC_def DEADLINE_GRACE_SEC_def
  SPONSOR_DEPOSIT_PAY_SEC_def CUSTOMER_DEPOSIT_PAY_SEC_def SPONSOR_DEPOSIT_MARGIN_SEC_def
  CUSTOMER_DEPOSIT_MARGIN_SEC_def CLTV_MAX_BLOCKS_def CLTV_MIN_BLOCKS_def SAFETY_SETTLE_BLOCKS_def
  ESCROW_END_BLOCKS_def INVOICE_ESCROW_MIN_BLOCKS_def INVOICE_WINDOW_SEC_def REMITTED_ALERT_SEC_def
  PAYOUT_INVOICE_WAIT_ALERT_SEC_def LND_DOWN_ALERT_SEC_def PAY_BY_SKEW_SEC_def CATCHUP_WARMUP_SEC_def

subsection \<open>Windows\<close>

definition invoice_deadline_for :: "sec \<Rightarrow> sec \<Rightarrow> sec" where
  "invoice_deadline_for escrowedAt deadline =
     min (escrowedAt + INVOICE_WINDOW_SEC) (deadline + DEADLINE_GRACE_SEC)"

text \<open>\<open>Math.ceil(span / BLOCK_SEC)\<close> on a non-negative integer span.\<close>

definition cltv_blocks_for :: "sec \<Rightarrow> int" where
  "cltv_blocks_for spanSec =
     (let blocks = (max 0 spanSec + BLOCK_SEC - 1) div BLOCK_SEC in
      min CLTV_MAX_BLOCKS (max CLTV_MIN_BLOCKS blocks))"

definition escrow_pay_by :: "sec \<Rightarrow> sec \<Rightarrow> sec" where
  "escrow_pay_by deadline nowSec =
     min (nowSec + ESCROW_PAY_WINDOW_SEC) (deadline - ESCROW_PAY_LEAD_SEC)"

text \<open>The HTLC horizon chosen by \<open>approve\<close> (\<open>ln/flow.ts\<close>).\<close>

definition escrow_hold_until :: "sec \<Rightarrow> sec \<Rightarrow> sec" where
  "escrow_hold_until payBy deadline = max payBy (deadline + DEADLINE_GRACE_SEC) + ESCROW_HOLD_MARGIN_SEC"

definition ln_request_expiration :: "sec \<Rightarrow> sec" where
  "ln_request_expiration nowSec = nowSec + LN_REQUEST_RETENTION_SEC"

definition is_claimable_ln :: "order_state \<Rightarrow> sec \<Rightarrow> sec \<Rightarrow> bool" where
  "is_claimable_ln state expiration nowSec \<longleftrightarrow>
     state = Requested \<and> expiration - nowSec \<ge> LN_MIN_CLAIM_LEAD_SEC"

definition ln_retention :: "order_state \<Rightarrow> sec \<Rightarrow> sec \<Rightarrow> sec" where
  "ln_retention state deadline nowSec =
     (if state = Requested then deadline
      else if ln_terminal state then nowSec + LN_TERMINAL_RETENTION_SEC
      else max deadline nowSec + LN_ACTIVE_RETENTION_SEC)"

lemma cltv_covers_aux:
  assumes "sp \<le> CLTV_MAX_BLOCKS * BLOCK_SEC"
  shows "sp \<le> cltv_blocks_for sp * BLOCK_SEC"
proof -
  define b where "b = (max 0 sp + 599) div 600"
  have "max 0 sp \<le> 600 * b" unfolding b_def by linarith
  then show ?thesis
    using assms by (auto simp: cltv_blocks_for_def ln_consts Let_def b_def [symmetric])
qed

lemma ln_cltv_covers_parts:
  assumes "deadline - now \<le> LN_MAX_DEADLINE_LEAD_SEC"
  shows "CLTV_MIN_BLOCKS \<le> cltv_blocks_for s" and "cltv_blocks_for s \<le> CLTV_MAX_BLOCKS"
    and "deadline + DEADLINE_GRACE_SEC + ESCROW_HOLD_MARGIN_SEC
         \<le> now + cltv_blocks_for (escrow_hold_until (escrow_pay_by deadline now) deadline - now) * BLOCK_SEC"
    and "deadline + SPONSOR_DEPOSIT_MARGIN_SEC
         \<le> now + cltv_blocks_for (deadline + SPONSOR_DEPOSIT_MARGIN_SEC - now) * BLOCK_SEC"
    and "deadline + CUSTOMER_DEPOSIT_MARGIN_SEC
         \<le> now + cltv_blocks_for (deadline + CUSTOMER_DEPOSIT_MARGIN_SEC - now) * BLOCK_SEC"
proof -
  show "CLTV_MIN_BLOCKS \<le> cltv_blocks_for s" and "cltv_blocks_for s \<le> CLTV_MAX_BLOCKS"
    by (simp_all add: cltv_blocks_for_def Let_def CLTV_MIN_BLOCKS_def CLTV_MAX_BLOCKS_def)
  have "escrow_hold_until (escrow_pay_by deadline now) deadline - now \<le> CLTV_MAX_BLOCKS * BLOCK_SEC"
    using assms by (simp add: escrow_hold_until_def escrow_pay_by_def ln_consts)
  from cltv_covers_aux [OF this]
  show "deadline + DEADLINE_GRACE_SEC + ESCROW_HOLD_MARGIN_SEC
    \<le> now + cltv_blocks_for (escrow_hold_until (escrow_pay_by deadline now) deadline - now) * BLOCK_SEC"
    by (simp add: escrow_hold_until_def)
  have "deadline + SPONSOR_DEPOSIT_MARGIN_SEC - now \<le> CLTV_MAX_BLOCKS * BLOCK_SEC"
    using assms by (simp add: ln_consts)
  from cltv_covers_aux [OF this]
  show "deadline + SPONSOR_DEPOSIT_MARGIN_SEC
    \<le> now + cltv_blocks_for (deadline + SPONSOR_DEPOSIT_MARGIN_SEC - now) * BLOCK_SEC"
    and "deadline + CUSTOMER_DEPOSIT_MARGIN_SEC
    \<le> now + cltv_blocks_for (deadline + CUSTOMER_DEPOSIT_MARGIN_SEC - now) * BLOCK_SEC"
    by (simp_all add: CUSTOMER_DEPOSIT_MARGIN_SEC_def)
qed

text \<open>Every hold invoice of the Lightning track asks for between 40 and 1500 blocks, and for any
  order deadline the daemon accepts (at most 7 days ahead) the blocks asked for cover the whole time
  the HTLC must live: the escrow until the dispute margin after the deadline and its grace, and both
  deposits until a day later.\<close>

theorem ln_cltv_covers:
  assumes "deadline - now \<le> LN_MAX_DEADLINE_LEAD_SEC"
  shows "(CLTV_MIN_BLOCKS \<le> cltv_blocks_for s)
    \<and> (cltv_blocks_for s \<le> CLTV_MAX_BLOCKS)
    \<and> (deadline + DEADLINE_GRACE_SEC + ESCROW_HOLD_MARGIN_SEC
         \<le> now + cltv_blocks_for (escrow_hold_until (escrow_pay_by deadline now) deadline - now) * BLOCK_SEC)
    \<and> (deadline + SPONSOR_DEPOSIT_MARGIN_SEC
         \<le> now + cltv_blocks_for (deadline + SPONSOR_DEPOSIT_MARGIN_SEC - now) * BLOCK_SEC)
    \<and> (deadline + CUSTOMER_DEPOSIT_MARGIN_SEC
         \<le> now + cltv_blocks_for (deadline + CUSTOMER_DEPOSIT_MARGIN_SEC - now) * BLOCK_SEC)"
  using ln_cltv_covers_parts [OF assms] by blast

theorem ln_cltv_covers_witness:
  "604800 + SPONSOR_DEPOSIT_MARGIN_SEC
     \<le> 0 + cltv_blocks_for (604800 + SPONSOR_DEPOSIT_MARGIN_SEC - 0) * BLOCK_SEC"
  by (rule ln_cltv_covers [THEN conjunct2, THEN conjunct2, THEN conjunct2, THEN conjunct1]) (simp add: ln_consts)

end
