(* ===== verification/Ln_Money.thy ===== *)
theory Ln_Money
  imports Js_Number
begin

text \<open>
  The Lightning amounts (\<open>shared/src/ln/state-machine.ts\<close>, second half): the payout fixed from the
  market price, the escrow derived from it with the fee margin, and the exact-amount check on the
  sponsor's invoice.  Prices and intermediate results are doubles (\<open>jsnum\<close>, \<open>fl\<close>).
\<close>

definition FEE_RATE :: rat where "FEE_RATE = fl (1005 / 1000)"

definition js_round :: "rat \<Rightarrow> int" where "js_round x = \<lfloor>x + 1 / 2\<rfloor>"

definition compute_payout_sat :: "jsnum \<Rightarrow> jsnum \<Rightarrow> sat option" where
  "compute_payout_sat orderPriceKrw btcPriceKrw =
     (case orderPriceKrw of
        Fin p \<Rightarrow> if p \<le> 0 then None else
          (case btcPriceKrw of
             Fin b \<Rightarrow> if b \<le> 0 then None else
               (let sat = js_round (fl (fl (p / b) * 10 ^ 8)) in if sat > 0 then Some sat else None)
           | _ \<Rightarrow> None)
      | _ \<Rightarrow> None)"

definition compute_escrow_sat :: "sat \<Rightarrow> sat" where
  "compute_escrow_sat payoutSat = \<lceil>fl (of_int payoutSat * FEE_RATE)\<rceil>"

definition is_payout_amount_exact :: "sat option \<Rightarrow> sat \<Rightarrow> bool" where
  "is_payout_amount_exact payoutSat amountSat \<longleftrightarrow>
     (case payoutSat of None \<Rightarrow> False | Some p \<Rightarrow> p > 0 \<and> amountSat = p)"

lemma FEE_RATE_value: "FEE_RATE = 1131529406376837 / 1125899906842624"
  unfolding FEE_RATE_def by code_simp

lemma compute_payout_positive: "compute_payout_sat p b = Some n \<Longrightarrow> 0 < n"
  by (auto simp: compute_payout_sat_def Let_def split: jsnum.splits if_splits)

lemma FEE_RATE_near: "FEE_RATE < 201 / 200" "201 / 200 - FEE_RATE \<le> 1 / 2 ^ 52"
  by (simp_all add: FEE_RATE_value)

text \<open>
  \<open>1.005\<close> has no exact double: \<open>FEE_RATE\<close> lies just below it and the product is rounded again.  The
  ceiling still comes out right, because a payout's margin is a multiple of 1/200 sat.
\<close>

lemma escrow_fl_bounds:
  assumes "0 < p" and "p \<le> 10 ^ 12"
  shows "fl (of_int p * FEE_RATE) \<le> of_int \<lceil>201 * of_int p / (200 :: rat)\<rceil>"
    and "201 * of_int p / 200 - 1 / 1000 < fl (of_int p * FEE_RATE)"
proof -
  let ?x = "of_int p * FEE_RATE" and ?q = "201 * of_int p / (200 :: rat)"
  have p: "0 < (of_int p :: rat)" "of_int p \<le> (10 ^ 12 :: rat)" using assms by simp_all
  have pos: "0 < ?x" using p by (simp add: FEE_RATE_value)
  have le: "?x \<le> ?q" using p FEE_RATE_near(1) by (simp add: field_simps)
  have "?q - ?x = of_int p * (201 / 200 - FEE_RATE)" by (simp add: field_simps)
  also have "\<dots> \<le> 10 ^ 12 * (1 / 2 ^ 52)"
    using p FEE_RATE_near by (intro mult_mono) auto
  also have "\<dots> \<le> (1 / 4000 :: rat)" by simp
  finally have gap: "?q - ?x \<le> 1 / 4000" .
  have "?q \<le> 2 * 10 ^ 12" using p by simp
  with le have small: "?x \<le> 2 * 10 ^ 12" by (rule order_trans)
  have "ilog2 ?x \<le> 52" using small by (intro ilog2_le pos) simp
  then show "fl ?x \<le> of_int \<lceil>?q\<rceil>"
    using le pos by (intro fl_le_int) (auto intro: order_trans [OF _ le_of_int_ceiling])
  have "\<bar>fl ?x - ?x\<bar> \<le> 2 * 10 ^ 12 / 2 ^ 53"
  proof -
    have "\<bar>?x\<bar> = ?x" using pos by (rule abs_of_pos)
    with fl_error [of ?x] have "\<bar>fl ?x - ?x\<bar> \<le> ?x / 2 ^ 53" by (simp only:)
    also have "\<dots> \<le> 2 * 10 ^ 12 / 2 ^ 53" using small by (rule divide_right_mono) simp
    finally show ?thesis .
  qed
  also have "\<dots> \<le> (1 / 4000 :: rat)" by simp
  finally have "?x - fl ?x \<le> 1 / 4000" unfolding abs_le_iff by linarith
  with gap show "?q - 1 / 1000 < fl ?x" by linarith
qed

lemma ceil_by_div:
  fixes n p :: int
  assumes "201 * p \<le> 200 * n" and "200 * n < 201 * p + 200"
  shows "n = (201 * p + 199) div 200"
proof -
  have "(201 * p + 199) div 200 = n + (201 * p + 199 - 200 * n) div 200" by simp
  moreover have "(201 * p + 199 - 200 * n) div 200 = 0"
    using assms by (intro div_pos_pos_trivial) auto
  ultimately show ?thesis by simp
qed

lemma compute_escrow_exact_aux:
  assumes "0 < p" and "p \<le> 10 ^ 12"
  shows "compute_escrow_sat p = \<lceil>201 * of_int p / (200 :: rat)\<rceil>"
proof -
  let ?q = "201 * of_int p / (200 :: rat)"
  define n where "n = \<lceil>?q\<rceil>"
  have "of_int n < ?q + 1" and "?q \<le> of_int n" unfolding n_def by linarith+
  moreover have "(of_int (200 * n) :: rat) < of_int (201 * p + 200)"
    using \<open>of_int n < ?q + 1\<close> by (simp add: field_simps)
  ultimately have "200 * n \<le> 201 * p + 199" by (simp only: of_int_less_iff)
  then have "(of_int (200 * n) :: rat) \<le> of_int (201 * p + 199)" by (simp only: of_int_le_iff)
  then have margin: "of_int n - 1 \<le> ?q - 1 / 200" by (simp add: field_simps)
  have "fl (of_int p * FEE_RATE) \<le> of_int n" and "?q - 1 / 1000 < fl (of_int p * FEE_RATE)"
    using escrow_fl_bounds [OF assms] by (simp_all add: n_def)
  with margin have "\<lceil>fl (of_int p * FEE_RATE)\<rceil> = n" by (simp add: ceiling_eq_iff)
  then show ?thesis by (simp add: compute_escrow_sat_def n_def)
qed

lemma compute_escrow_exact_parts:
  assumes "0 < p" and "p \<le> 10 ^ 12"
  shows "compute_escrow_sat p = (201 * p + 199) div 200"
    and "p + 1 \<le> compute_escrow_sat p"
    and "200 * compute_escrow_sat p < 201 * p + 200"
proof -
  let ?q = "201 * of_int p / (200 :: rat)" and ?n = "compute_escrow_sat p"
  have n: "?n = \<lceil>?q\<rceil>" by (rule compute_escrow_exact_aux [OF assms])
  have "of_int ?n < ?q + 1" and "?q \<le> of_int ?n" unfolding n by linarith+
  then have "(of_int (200 * ?n) :: rat) < of_int (201 * p + 200)"
    and "(of_int (201 * p) :: rat) \<le> of_int (200 * ?n)" by (simp_all add: field_simps)
  then have up: "200 * ?n < 201 * p + 200" and lo: "201 * p \<le> 200 * ?n"
    by (simp_all only: of_int_less_iff of_int_le_iff)
  from lo up show "?n = (201 * p + 199) div 200" by (rule ceil_by_div)
  from lo assms(1) show "p + 1 \<le> ?n" by linarith
  from up show "200 * ?n < 201 * p + 200" .
qed

text \<open>C37. For every payout up to 10^12 sat (far above the bitcoin price of the largest order) the
  floating-point escrow computation returns exactly the ceiling of payout times 1.005, so the escrow
  covers the payout plus at least 1 sat and overcharges by less than 1 sat.\<close>

theorem compute_escrow_exact:
  assumes "0 < p" and "p \<le> 10 ^ 12"
  shows "(compute_escrow_sat p = (201 * p + 199) div 200)
    \<and> (p + 1 \<le> compute_escrow_sat p)
    \<and> (200 * compute_escrow_sat p < 201 * p + 200)"
  using compute_escrow_exact_parts [OF assms] by blast

theorem compute_escrow_exact_witness:
  "compute_escrow_sat 200 = 201 \<and> compute_escrow_sat 1 = 2"
  using compute_escrow_exact [of 200, THEN conjunct1] compute_escrow_exact [of 1, THEN conjunct1] by simp

lemma payout_near_aux:
  assumes "0 < p" and "0 < b" and "p / b * 10 ^ 8 \<le> 2 ^ 50"
  shows "\<bar>fl (fl (p / b) * 10 ^ 8) - p / b * 10 ^ 8\<bar> < 1 / 2"
proof -
  let ?r = "p / b" and ?f = "fl (p / b)"
  have r: "0 < ?r" using assms by simp
  have e1: "\<bar>?f - ?r\<bar> \<le> ?r / 2 ^ 53" using fl_error [of ?r] r by simp
  have m1: "\<bar>?f * 10 ^ 8 - ?r * 10 ^ 8\<bar> \<le> ?r * 10 ^ 8 / 2 ^ 53"
  proof -
    have "?f * 10 ^ 8 - ?r * 10 ^ 8 = (?f - ?r) * 10 ^ 8" by (simp only: left_diff_distrib)
    then have "\<bar>?f * 10 ^ 8 - ?r * 10 ^ 8\<bar> = \<bar>?f - ?r\<bar> * 10 ^ 8" by (simp only: abs_mult) simp
    also have "\<dots> \<le> ?r / 2 ^ 53 * 10 ^ 8" using e1 by (rule mult_right_mono) simp
    finally show ?thesis by simp
  qed
  also have "\<dots> \<le> 2 ^ 50 / 2 ^ 53" using assms(3) by (rule divide_right_mono) simp
  finally have d1: "\<bar>?f * 10 ^ 8 - ?r * 10 ^ 8\<bar> \<le> 1 / 8" by simp
  have r8: "0 < ?r * 10 ^ 8" using r by (rule mult_pos_pos) simp
  have "\<bar>?f * 10 ^ 8\<bar> \<le> 2 ^ 50 + 1 / 8" using d1 assms(3) r8 zero_le_power [of "2 :: rat" 50, OF zero_le_numeral] by (intro abs_leI) linarith+
  also have "\<dots> \<le> (2 ^ 51 :: rat)" by simp
  finally have "\<bar>?f * 10 ^ 8\<bar> / 2 ^ 53 \<le> 2 ^ 51 / 2 ^ 53" by (rule divide_right_mono) simp
  then have d2: "\<bar>fl (?f * 10 ^ 8) - ?f * 10 ^ 8\<bar> \<le> 1 / 4" using fl_error [of "?f * 10 ^ 8"] by simp
  from d1 d2 show ?thesis unfolding abs_le_iff abs_less_iff by linarith
qed

text \<open>The payout fixed at approval is within 1 sat of the order's price at the market rate,
  whatever the two double roundings do, for every order worth less than 2^50 sat.\<close>

theorem compute_payout_fair:
  assumes "compute_payout_sat (Fin p) (Fin b) = Some n" and "p / b * 10 ^ 8 \<le> 2 ^ 50"
  shows "\<bar>of_int n - p / b * 10 ^ 8\<bar> < 1"
proof -
  have pb: "0 < p" "0 < b" and n: "n = js_round (fl (fl (p / b) * 10 ^ 8))"
    using assms(1) by (auto simp: compute_payout_sat_def Let_def split: if_splits)
  let ?y = "fl (fl (p / b) * 10 ^ 8)"
  have "\<bar>of_int n - ?y\<bar> \<le> 1 / 2"
  proof -
    have "of_int n \<le> ?y + 1 / 2" and "?y + 1 / 2 < of_int n + 1"
      unfolding n js_round_def by linarith+
    then show ?thesis unfolding abs_le_iff by linarith
  qed
  moreover have "\<bar>?y - p / b * 10 ^ 8\<bar> < 1 / 2" by (rule payout_near_aux [OF pb assms(2)])
  ultimately show ?thesis by linarith
qed

theorem compute_payout_fair_witness:
  "\<bar>of_int 200000000 - (50000 :: rat) / 25000 * 10 ^ 8\<bar> < 1"
proof -
  have "fl 2 = 2" and "fl 200000000 = 200000000"
    using fl_of_int [of 2] fl_of_int [of 200000000] by simp_all
  then have "compute_payout_sat (Fin 50000) (Fin 25000) = Some 200000000"
    by (simp add: compute_payout_sat_def js_round_def floor_eq_iff)
  then show ?thesis by (rule compute_payout_fair) simp
qed

end
