(* ===== verification/Daemon_Data.thy ===== *)
theory Daemon_Data
  imports Effects_Queue Js_Json Ln_Fsm Ln_Timing Ln_Money
begin

text \<open>
  The daemon's database as one record (\<open>daemon/src/db/migrations.ts\<close>), the environment of an operation
  and the small helpers every component uses: key-value cells, alerts (\<open>admin/alerts.ts\<close>), operator
  notices (\<open>admin/notify.ts\<close>, \<open>admin/state.ts\<close>), web pushes and the one-shot \<open>notices\<close> table.

  The database extends the effect queue \<open>qdb\<close>; the on-chain tables extend it further, so the Lightning
  operations are polymorphic in what follows.  Nullable columns are options, 0/1 columns are booleans.
  Human-readable message texts are not part of the model; rows keep their keys and levels.  Alerts are
  never deleted, so the row id of an alert is its position.  Settings are
  kept as the record that \<open>loadSettings\<close> returns instead of its JSON text.
\<close>

subsection \<open>Rows\<close>

datatype hold_purpose = Ln_escrow | Ln_customer_deposit | Ln_sponsor_deposit
  | Oc_customer_bond | Oc_sponsor_bond

fun hold_purpose_str :: "hold_purpose \<Rightarrow> string" where
  "hold_purpose_str Ln_escrow = ''ln-escrow''"
| "hold_purpose_str Ln_customer_deposit = ''ln-customer-deposit''"
| "hold_purpose_str Ln_sponsor_deposit = ''ln-sponsor-deposit''"
| "hold_purpose_str Oc_customer_bond = ''oc-customer-bond''"
| "hold_purpose_str Oc_sponsor_bond = ''oc-sponsor-bond''"

datatype hold_status = H_creating | H_open | H_accepted | H_settled | H_cancelled

datatype hold_final = F_settled | F_cancelled

fun final_status :: "hold_final \<Rightarrow> hold_status" where
  "final_status F_settled = H_settled"
| "final_status F_cancelled = H_cancelled"

record hold_row =
  h_hash :: hex
  h_purpose :: hold_purpose
  h_order :: string
  h_party :: string
  h_attempt :: nat
  h_amount :: sat
  h_bolt11 :: string
  h_pay_by :: rat
  h_cltv :: int
  h_status :: hold_status
  h_htlc_expiry :: "int option"
  h_created :: sec
  h_updated :: sec

record ln_order =
  o_id :: string
  o_state :: order_state
  o_customer :: string
  o_sponsor :: "string option"
  o_price :: krw
  o_deadline :: sec
  o_payout_sat :: "sat option"
  o_escrow_hash :: "hex option"
  o_escrow_bolt11 :: "string option"
  o_escrow_settled :: bool
  o_sponsor_invoice :: "string option"
  o_disbursed :: bool
  o_payout_error :: "string option"
  o_customer_deposit_hash :: "hex option"
  o_sponsor_deposit_hash :: "hex option"
  o_pending_close :: "close_reason option"
  o_close_reason :: "close_reason option"
  o_claimed_at :: "sec option"
  o_account_sent_at :: "sec option"
  o_account_commitment :: "string option"
  o_remitted_at :: "sec option"
  o_invoice_deadline :: "sec option"
  o_designated_sponsor :: "string option"
  o_created_at :: sec
  o_updated_at :: sec
  o_version :: nat
  o_published_at :: sec

record ln_draft =
  d_id :: string
  d_customer :: string
  d_price :: krw
  d_deadline :: sec
  d_created_at :: sec

datatype alert_level = Warn | Anomaly
datatype track = Track_ln | Track_onchain

record alert =
  al_id :: nat
  al_dedup :: string
  al_level :: alert_level
  al_track :: "track option"
  al_order :: "string option"
  al_raised_at :: sec
  al_acked_at :: "sec option"

record settings =
  st_auto_approve :: bool
  st_customer_pct :: rat
  st_sponsor_pct :: rat
  st_accept_onchain :: bool

text \<open>The table \<open>push_subs\<close>.\<close>

record push_sub =
  ps_endpoint :: string
  ps_pubkey :: string
  ps_p256dh :: string
  ps_auth :: string
  ps_created_at :: sec
  ps_dead_at :: "sec option"

subsection \<open>Effect payloads\<close>

record nostr_event =
  ev_kind :: int
  ev_created_at :: sec
  ev_tags :: "string list list"
  ev_content :: string

datatype hold_want = Want_settle | Want_cancel

datatype payload =
    P_publish nostr_event
  | P_operator_dm string
  | P_admin_state string
  | P_push string string string "string option"
  | P_hold_create hex
  | P_hold_dispose hex hold_want
  | P_ln_close string
  | P_ln_payout string
  | P_ln_probe string string
  | P_ln_publish string
  | P_ln_detail string
  | P_oc_publish string
  | P_oc_detail string
  | P_oc_broadcast string hex "string option"

record db = "payload qdb" +
  invoices :: "hold_row list"
  ln_orders :: "ln_order list"
  ln_drafts :: "ln_draft list"
  alerts :: "alert list"
  notices :: "(string \<times> sec) list"
  kv :: "string \<Rightarrow> string option"
  db_settings :: settings
  push_subs :: "push_sub list"

definition now_sec :: "'m db_scheme \<Rightarrow> sec" where "now_sec w = q_now w div 1000"

subsection \<open>The environment of an operation\<close>

text \<open>
  \<open>e_hash\<close> is \<open>paymentHashOf(derivePreimage(seed, scope, attempt))\<close> for the daemon's seed: HMAC-SHA256 and
  SHA-256 are library code, so the function is a parameter.  \<open>e_price\<close> is the market price the feed
  offers during this operation, if any; \<open>e_bolt11\<close> is the BOLT11 reader (amount, payment hash, expiry),
  \<open>e_unseal content sender\<close> is \<open>JSON.parse(nip44Decrypt(...))\<close> with the daemon's key, \<open>e_seal recipient v\<close> is
  \<open>nip44Encrypt(JSON.stringify(v), ...)\<close> (both \<open>None\<close> when they throw), \<open>e_on_curve\<close> is the curve check of
  \<open>isPubkeyHex\<close>, \<open>e_event_id\<close> the id of the event once signed (a SHA-256 digest).
\<close>

record bolt11_info =
  b11_amount :: sat
  b11_hash :: hex
  b11_expires :: sec

record env =
  e_app_pubkey :: string
  e_tag_ln :: string
  e_tag_oc :: string
  e_tag_admin :: string
  e_app_url :: "string option"
  e_operators :: "string list"
  e_started_at :: sec
  e_price :: "rat option"
  e_hash :: "string \<Rightarrow> nat \<Rightarrow> hex"
  e_bolt11 :: "string \<Rightarrow> bolt11_info option"
  e_unseal :: "string \<Rightarrow> string \<Rightarrow> json option"
  e_seal :: "string \<Rightarrow> json \<Rightarrow> string option"
  e_on_curve :: "string \<Rightarrow> bool"
  e_event_id :: "nostr_event \<Rightarrow> string"

text \<open>\<open>Number(cell ?? dflt)\<close> for a cell the daemon wrote itself.\<close>

definition cell_int :: "string option \<Rightarrow> int \<Rightarrow> int" where
  "cell_int cell dflt =
     (case cell of None \<Rightarrow> dflt
      | Some s \<Rightarrow> (case js_number s of Fin q \<Rightarrow> \<lfloor>q\<rfloor> | _ \<Rightarrow> 0))"

subsection \<open>Key-value cells\<close>

definition kv_get :: "string \<Rightarrow> 'm db_scheme \<Rightarrow> string option" where "kv_get k w = kv w k"

definition kv_set :: "string \<Rightarrow> string \<Rightarrow> 'm db_scheme \<Rightarrow> 'm db_scheme" where
  "kv_set k v w = w\<lparr>kv := (kv w)(k \<mapsto> v)\<rparr>"

subsection \<open>Operators, alerts, pushes\<close>

definition notify_operators :: "env \<Rightarrow> 'm db_scheme \<Rightarrow> 'm db_scheme" where
  "notify_operators e w = fold (\<lambda>op. enq ''nostr.publish'' (P_operator_dm op) None) (e_operators e) w"

definition request_state_publish :: "env \<Rightarrow> 'm db_scheme \<Rightarrow> 'm db_scheme" where
  "request_state_publish e w =
     fold (\<lambda>op. enq ''admin.state'' (P_admin_state op) (Some (''admin-state:'' @ op))) (e_operators e) w"

definition raise_alert ::
  "env \<Rightarrow> string \<Rightarrow> alert_level \<Rightarrow> track option \<Rightarrow> string option \<Rightarrow> 'm db_scheme \<Rightarrow> 'm db_scheme" where
  "raise_alert e dedup level trk oid w =
     (if list_ex (\<lambda>a. al_dedup a = dedup) (alerts w) then w
      else request_state_publish e (notify_operators e
        (w\<lparr>alerts := alerts w @ [\<lparr>al_id = Suc (length (alerts w)), al_dedup = dedup, al_level = level, al_track = trk, al_order = oid,
             al_raised_at = now_sec w, al_acked_at = None\<rparr>]\<rparr>)))"

definition queue_push :: "string \<Rightarrow> string \<Rightarrow> string \<Rightarrow> string option \<Rightarrow> 'm db_scheme \<Rightarrow> 'm db_scheme" where
  "queue_push pubkey notice oid endpoint w = enq ''push.send'' (P_push pubkey notice oid endpoint) None w"

text \<open>\<open>deliver\<close>: \<open>INSERT OR IGNORE INTO notices\<close>, then the push only when the key was new.\<close>

definition deliver :: "string \<Rightarrow> string \<Rightarrow> string \<Rightarrow> string \<Rightarrow> 'm db_scheme \<Rightarrow> 'm db_scheme" where
  "deliver pubkey notice oid key w =
     (if list_ex (\<lambda>n. fst n = key) (notices w) then w
      else queue_push pubkey notice oid None (w\<lparr>notices := notices w @ [(key, now_sec w)]\<rparr>))"

definition DESIGNATED_QUIET_SEC :: sec where "DESIGNATED_QUIET_SEC = 10 * 60"

definition designated_quiet_over :: "string \<Rightarrow> 'm db_scheme \<Rightarrow> bool \<times> 'm db_scheme" where
  "designated_quiet_over key w =
     (let cell = ''designated.quiet:'' @ key; now = now_sec w in
      if now - cell_int (kv_get cell w) 0 < DESIGNATED_QUIET_SEC then (False, w)
      else (True, kv_set cell (int_str now) w))"

subsection \<open>Frames\<close>

text \<open>
  \<open>quiet w w'\<close>: the step from \<open>w\<close> to \<open>w'\<close> only recorded intents, alerts, notices or cells; it kept every
  order, draft, invoice, setting and whatever extends the database, kept the queue well-formed and
  cancelled no pending intent.
\<close>

definition quiet :: "'m db_scheme \<Rightarrow> 'm db_scheme \<Rightarrow> bool" where
  "quiet w w' \<longleftrightarrow> q_now w' = q_now w \<and> invoices w' = invoices w \<and> ln_orders w' = ln_orders w
     \<and> ln_drafts w' = ln_drafts w \<and> db_settings w' = db_settings w \<and> push_subs w' = push_subs w
     \<and> db.more w' = db.more w \<and> (q_wf w \<longrightarrow> q_wf w')
     \<and> (\<forall>d. list_ex (pending_with d) (q_rows w) \<longrightarrow> list_ex (pending_with d) (q_rows w'))"

lemma quiet_refl [simp]: "quiet w w"
  by (simp add: quiet_def)

lemma quiet_trans: "quiet u v \<Longrightarrow> quiet v w \<Longrightarrow> quiet u w"
  by (simp add: quiet_def)

lemma quietD:
  assumes "quiet w w'"
  shows "q_now w' = q_now w" "invoices w' = invoices w" "ln_orders w' = ln_orders w"
    "ln_drafts w' = ln_drafts w" "db_settings w' = db_settings w" "db.more w' = db.more w"
    "now_sec w' = now_sec w" "q_wf w \<Longrightarrow> q_wf w'"
  using assms by (simp_all add: quiet_def now_sec_def)

lemma quiet_enq [simp]: "quiet w (enq k p d w)"
  using q_wf_insert [of w k p d 0]
  by (auto simp: quiet_def enq_def insert_effect_def)

lemma quiet_fold:
  assumes "\<And>x w. quiet w (f x w)"
  shows "quiet w (fold f xs w)"
proof (induction xs arbitrary: w)
  case (Cons x xs)
  show ?case using quiet_trans [OF assms Cons.IH] by simp
qed simp

lemma quiet_fields:
  "quiet w (w\<lparr>alerts := a\<rparr>)" "quiet w (w\<lparr>notices := n\<rparr>)" "quiet w (w\<lparr>kv := m\<rparr>)"
  by (simp_all add: quiet_def q_wf_def)

lemma quiet_notify_operators [simp]: "quiet w (notify_operators e w)"
  unfolding notify_operators_def by (rule quiet_fold) simp

lemma quiet_request_state_publish [simp]: "quiet w (request_state_publish e w)"
  unfolding request_state_publish_def by (rule quiet_fold) simp

lemma quiet_raise_alert [simp]: "quiet w (raise_alert e d l t oid w)"
  unfolding raise_alert_def
  by (auto intro!: quiet_trans [OF quiet_trans [OF quiet_fields(1) quiet_notify_operators]
        quiet_request_state_publish])

lemma quiet_queue_push [simp]: "quiet w (queue_push pk n oid ep w)"
  by (simp add: queue_push_def)

lemma quiet_deliver [simp]: "quiet w (deliver pk n oid key w)"
  unfolding deliver_def by (auto intro!: quiet_trans [OF quiet_fields(2) quiet_queue_push])

lemma quiet_kv_set [simp]: "quiet w (kv_set k v w)"
  by (simp add: kv_set_def quiet_fields)

lemma quiet_designated_quiet_over [simp]: "quiet w (snd (designated_quiet_over key w))"
  by (simp add: designated_quiet_over_def Let_def)

lemma quiet_expedite [simp]: "quiet w (snd (expedite d w))"
proof -
  have "list_ex (pending_with d') (update_where (pending_with d) (\<lambda>r. r\<lparr>ef_next_at := t\<rparr>) rows)
      = list_ex (pending_with d') rows" for d' t and rows :: "payload effect_row list"
    by (induction rows) (auto simp: pending_with_def is_pending_def)
  then show ?thesis using q_wf_expedite [of w d] by (simp add: quiet_def expedite_def)
qed

lemmas quiet_comp = quiet_trans [OF quiet_enq] quiet_trans [OF quiet_raise_alert]
  quiet_trans [OF quiet_deliver] quiet_trans [OF quiet_kv_set]

subsection \<open>Properties\<close>

lemma insert_effect_dedup_parts:
  fixes w :: "'m db_scheme"
  assumes "q_wf w" and "insert_effect kind p (Some d) delayMs w = (added, w')"
  shows "q_wf w'" and "list_ex (pending_with d) (q_rows w')"
    and "added \<longleftrightarrow> \<not> list_ex (pending_with d) (q_rows w)"
    and "\<not> added \<Longrightarrow> w' = w"
    and "insert_effect kind2 p2 (Some d) delay2 w' = (False, w')"
proof -
  show "q_wf w'" using q_wf_insert [OF assms(1), of kind p "Some d" delayMs] assms(2) by simp
  show ex: "list_ex (pending_with d) (q_rows w')"
    using assms(2) by (auto simp: insert_effect_def dedup_clash_def new_row_def pending_with_def
        is_pending_def split: if_splits)
  show "added \<longleftrightarrow> \<not> list_ex (pending_with d) (q_rows w)" and "\<not> added \<Longrightarrow> w' = w"
    using assms(2) by (auto simp: insert_effect_def dedup_clash_def split: if_splits)
  show "insert_effect kind2 p2 (Some d) delay2 w' = (False, w')"
    using ex by (simp add: insert_effect_def dedup_clash_def)
qed

text \<open>Recording an intent with a dedup key keeps at most one pending effect per key and row ids
  unique; afterwards an effect for the key is pending, and a second intent with the same key while one
  is pending is refused without changing the database.\<close>

theorem insert_effect_dedup:
  fixes w :: "'m db_scheme"
  assumes "q_wf w" and "insert_effect kind p (Some d) delayMs w = (added, w')"
  shows "(q_wf w')
    \<and> (list_ex (pending_with d) (q_rows w'))
    \<and> (added \<longleftrightarrow> \<not> list_ex (pending_with d) (q_rows w))
    \<and> ((\<not> added) \<longrightarrow> (w' = w))
    \<and> (insert_effect kind2 p2 (Some d) delay2 w' = (False, w'))"
  using insert_effect_dedup_parts [OF assms] by blast

definition empty_db :: db where
  "empty_db = \<lparr>q_rows = [], q_seq = 1, q_now = 0, invoices = [], ln_orders = [], ln_drafts = [],
     alerts = [], notices = [], kv = (\<lambda>_. None),
     db_settings = \<lparr>st_auto_approve = True, st_customer_pct = 0, st_sponsor_pct = 0, st_accept_onchain = False\<rparr>,
     push_subs = []\<rparr>"

theorem insert_effect_dedup_witness:
  "q_wf (snd (insert_effect ''ln.close'' (P_ln_close ''a'') (Some ''ln.close:a'') 0 empty_db))"
proof -
  have "q_wf empty_db" by (simp add: q_wf_def empty_db_def)
  then show ?thesis by (rule insert_effect_dedup [THEN conjunct1]) (rule prod.collapse [symmetric])
qed

lemma raise_alert_once_parts:
  "raise_alert e d l2 t2 o2 (raise_alert e d l t oid w) = raise_alert e d l t oid w"
  "ln_orders (raise_alert e d l t oid w) = ln_orders w"
  "ln_drafts (raise_alert e d l t oid w) = ln_drafts w"
  "invoices (raise_alert e d l t oid w) = invoices w"
proof -
  have a: "alerts (fold (\<lambda>x. enq k (f x) (g x)) xs v) = alerts v"
    for k f g and xs :: "string list" and v :: "'a db_scheme"
    by (induction xs arbitrary: v) (auto simp: enq_def insert_effect_def)
  have "list_ex (\<lambda>x. al_dedup x = d) (alerts (raise_alert e d l t oid w))"
    by (simp add: raise_alert_def request_state_publish_def notify_operators_def a)
  then show "raise_alert e d l2 t2 o2 (raise_alert e d l t oid w) = raise_alert e d l t oid w"
    by (simp add: raise_alert_def)
qed (simp_all add: quietD [OF quiet_raise_alert])

text \<open>An alert with a given key is raised at most once: raising it again changes nothing, however
  often the watcher sees the same problem, and raising it never touches orders, drafts or invoices.\<close>

theorem raise_alert_once:
  "(raise_alert e d l2 t2 o2 (raise_alert e d l t oid w) = raise_alert e d l t oid w)
    \<and> (ln_orders (raise_alert e d l t oid w) = ln_orders w)
    \<and> (ln_drafts (raise_alert e d l t oid w) = ln_drafts w)
    \<and> (invoices (raise_alert e d l t oid w) = invoices w)"
  by (intro conjI; rule raise_alert_once_parts)

end
