(* ===== verification/Holds.thy ===== *)
theory Holds
  imports Daemon_Data
begin

text \<open>
  Hold invoices (\<open>daemon/src/hold/index.ts\<close>, scopes of \<open>daemon/src/derive.ts\<close>): planning, observing and
  disposing of Lightning hold invoices, shared by the Lightning escrow, the deposits of both tracks.

  The node is a parameter: a record of replies.  \<open>None\<close> in the outer option is a call that throws.
  The calls an operation makes are listed in its result, so that theorems can speak about them.  The
  consequences of an invoice's life are hooks that each track registers for its purposes.
\<close>

subsection \<open>The node\<close>

datatype lookup_state = L_open | L_accepted | L_settled | L_cancelled

record hold_lookup =
  lk_state :: lookup_state
  lk_bolt11 :: string
  lk_htlc_expiry :: "int option"

datatype node_call = Call_settle hex | Call_cancel hex | Call_add hex sat rat int | Call_pay string sat

datatype pay_status = Succeeded | In_flight | Failed

datatype reach = Reachable | Unreachable | Probe_error

record node =
  n_height :: "int option"
  n_lookup :: "hex \<Rightarrow> hold_lookup option option"
  n_call_ok :: "node_call \<Rightarrow> bool"
  n_add :: "hex \<Rightarrow> sat \<Rightarrow> rat \<Rightarrow> int \<Rightarrow> string option"
  n_track :: "hex \<Rightarrow> pay_status option option"
  n_pay :: "string \<Rightarrow> sat \<Rightarrow> (pay_status \<times> string option) option"
  n_probe :: "string \<Rightarrow> reach option"

subsection \<open>Reading\<close>

definition LIVE_HOLD_STATUSES :: "hold_status list" where
  "LIVE_HOLD_STATUSES = [H_creating, H_open, H_accepted]"

definition is_live_hold :: "hold_row \<Rightarrow> bool" where
  "is_live_hold iv \<longleftrightarrow> h_status iv \<in> set LIVE_HOLD_STATUSES"

definition hold_get :: "hex \<Rightarrow> 'm db_scheme \<Rightarrow> hold_row option" where
  "hold_get hash w = List.find (\<lambda>r. h_hash r = hash) (invoices w)"

definition hold_of :: "string \<Rightarrow> hold_purpose list \<Rightarrow> 'm db_scheme \<Rightarrow> hold_row list" where
  "hold_of oid purposes w =
     filter (\<lambda>r. h_purpose r \<in> set purposes)
       (sort_key h_created (sort_key h_attempt (filter (\<lambda>r. h_order r = oid) (invoices w))))"

definition hold_current :: "hold_purpose \<Rightarrow> string \<Rightarrow> string \<Rightarrow> 'm db_scheme \<Rightarrow> hold_row option" where
  "hold_current purpose oid party w =
     (case sort_key (\<lambda>r. - int (h_attempt r))
        (filter (\<lambda>r. h_purpose r = purpose \<and> h_order r = oid \<and> h_party r = party
           \<and> h_status r \<in> {H_creating, H_open, H_accepted, H_settled}) (invoices w))
      of [] \<Rightarrow> None | r # _ \<Rightarrow> Some r)"

definition hold_is_ours :: "hex \<Rightarrow> 'm db_scheme \<Rightarrow> bool" where
  "hold_is_ours hash w \<longleftrightarrow> hold_get hash w \<noteq> None"

subsection \<open>Planning\<close>

text \<open>\<open>preimageScope\<close> throws when a component contains the separator.\<close>

definition preimage_scope :: "hold_purpose \<Rightarrow> string \<Rightarrow> string option \<Rightarrow> string option" where
  "preimage_scope purpose oid party =
     (if CHR ''/'' \<in> set oid \<or> (case party of Some p \<Rightarrow> CHR ''/'' \<in> set p | None \<Rightarrow> False) then None
      else Some (case party of
          Some p \<Rightarrow> if p = [] then hold_purpose_str purpose @ ''/'' @ oid
                    else hold_purpose_str purpose @ ''/'' @ oid @ ''/'' @ p
        | None \<Rightarrow> hold_purpose_str purpose @ ''/'' @ oid))"

definition scope_of :: "hold_purpose \<Rightarrow> string \<Rightarrow> string \<Rightarrow> string option" where
  "scope_of purpose oid party =
     preimage_scope purpose oid
       (if purpose = Ln_sponsor_deposit \<or> purpose = Oc_sponsor_bond then Some party else None)"

definition same_slot :: "hold_purpose \<Rightarrow> string \<Rightarrow> string \<Rightarrow> hold_row \<Rightarrow> bool" where
  "same_slot purpose oid party r \<longleftrightarrow> h_purpose r = purpose \<and> h_order r = oid \<and> h_party r = party"

text \<open>\<open>MAX(attempt) + 1\<close> over the rows of the slot, 0 when there is none.\<close>

definition next_attempt :: "hold_purpose \<Rightarrow> string \<Rightarrow> string \<Rightarrow> 'm db_scheme \<Rightarrow> nat" where
  "next_attempt purpose oid party w =
     (case filter (same_slot purpose oid party) (invoices w) of
        [] \<Rightarrow> 0
      | rows \<Rightarrow> Suc (Max (set (map h_attempt rows))))"

definition mk_hold ::
  "hex \<Rightarrow> hold_purpose \<Rightarrow> string \<Rightarrow> string \<Rightarrow> nat \<Rightarrow> sat \<Rightarrow> rat \<Rightarrow> int \<Rightarrow> sec \<Rightarrow> hold_row" where
  "mk_hold hash purpose oid party attempt amount payBy cltv now =
     \<lparr>h_hash = hash, h_purpose = purpose, h_order = oid, h_party = party, h_attempt = attempt,
      h_amount = amount, h_bolt11 = [], h_pay_by = payBy, h_cltv = cltv, h_status = H_creating,
      h_htlc_expiry = None, h_created = now, h_updated = now\<rparr>"

lemma mk_hold_sel [simp]:
  "h_hash (mk_hold hash p oid q a m b c t) = hash" "h_purpose (mk_hold hash p oid q a m b c t) = p"
  "h_order (mk_hold hash p oid q a m b c t) = oid" "h_party (mk_hold hash p oid q a m b c t) = q"
  "h_attempt (mk_hold hash p oid q a m b c t) = a" "h_amount (mk_hold hash p oid q a m b c t) = m"
  "h_pay_by (mk_hold hash p oid q a m b c t) = b" "h_cltv (mk_hold hash p oid q a m b c t) = c"
  "h_status (mk_hold hash p oid q a m b c t) = H_creating"
  by (simp_all add: mk_hold_def)

text \<open>The insert throws when the hash is already taken (primary key) or the slot's attempt is.\<close>

definition hold_plan ::
  "env \<Rightarrow> (hold_purpose \<Rightarrow> string \<Rightarrow> 'm db_scheme \<Rightarrow> 'm db_scheme) \<Rightarrow> hold_purpose \<Rightarrow> string \<Rightarrow> string
   \<Rightarrow> sat \<Rightarrow> rat \<Rightarrow> int \<Rightarrow> 'm db_scheme \<Rightarrow> (hold_row \<times> 'm db_scheme) option" where
  "hold_plan e changed purpose oid party amount payBy cltv w =
     do {
       scope \<leftarrow> scope_of purpose oid party;
       let attempt = next_attempt purpose oid party w;
       let hash = e_hash e scope attempt;
       let row = mk_hold hash purpose oid party attempt amount payBy cltv (now_sec w);
       if hold_is_ours hash w \<or> list_ex (\<lambda>r. same_slot purpose oid party r \<and> h_attempt r = attempt) (invoices w)
       then None
       else Some (row, changed purpose oid
              (enq ''hold.create'' (P_hold_create hash) (Some (''hold:'' @ hash))
                (w\<lparr>invoices := invoices w @ [row]\<rparr>)))
     }"

definition hold_dispose :: "hex \<Rightarrow> hold_want \<Rightarrow> 'm db_scheme \<Rightarrow> 'm db_scheme" where
  "hold_dispose hash action w =
     enq ''hold.dispose'' (P_hold_dispose hash action) (Some (''hold.dispose:'' @ hash)) w"

lemma quiet_hold_dispose [simp]: "quiet w (hold_dispose h a w)"
  by (simp add: hold_dispose_def)

subsection \<open>Recording\<close>

datatype via = Via_settle | Via_cancel | Via_batch

record 'm hold_hooks =
  hk_created :: "hold_row \<Rightarrow> 'm db_scheme \<Rightarrow> 'm db_scheme option"
  hk_create_failed :: "hold_row \<Rightarrow> 'm db_scheme \<Rightarrow> 'm db_scheme option"
  hk_accepted :: "hold_row \<Rightarrow> 'm db_scheme \<Rightarrow> 'm db_scheme option"
  hk_node_cancelled :: "hold_row \<Rightarrow> 'm db_scheme \<Rightarrow> 'm db_scheme option"
  hk_disposed :: "hold_row \<Rightarrow> hold_final \<Rightarrow> via \<Rightarrow> 'm db_scheme \<Rightarrow> 'm db_scheme option"
  hk_changed :: "string \<Rightarrow> 'm db_scheme \<Rightarrow> 'm db_scheme"
  hk_busy :: "hold_row \<Rightarrow> 'm db_scheme \<Rightarrow> bool"

type_synonym 'm hooks_for = "hold_purpose \<Rightarrow> 'm hold_hooks"

text \<open>The columns \<open>set\<close> may write.\<close>

record hold_patch =
  hp_status :: "hold_status option"
  hp_bolt11 :: "string option"
  hp_htlc_expiry :: "int option"

definition no_patch :: hold_patch where
  "no_patch = \<lparr>hp_status = None, hp_bolt11 = None, hp_htlc_expiry = None\<rparr>"

definition apply_hold_patch :: "hold_patch \<Rightarrow> sec \<Rightarrow> hold_row \<Rightarrow> hold_row" where
  "apply_hold_patch p now r =
     r\<lparr>h_status := (case hp_status p of Some s \<Rightarrow> s | None \<Rightarrow> h_status r),
       h_bolt11 := (case hp_bolt11 p of Some b \<Rightarrow> b | None \<Rightarrow> h_bolt11 r),
       h_htlc_expiry := (case hp_htlc_expiry p of Some x \<Rightarrow> Some x | None \<Rightarrow> h_htlc_expiry r),
       h_updated := now\<rparr>"

definition hold_set :: "'m hooks_for \<Rightarrow> hex \<Rightarrow> hold_patch \<Rightarrow> 'm db_scheme \<Rightarrow> 'm db_scheme" where
  "hold_set hooks hash p w =
     (let w' = w\<lparr>invoices := update_where (\<lambda>r. h_hash r = hash) (apply_hold_patch p (now_sec w)) (invoices w)\<rparr>
      in case hold_get hash w' of
           Some iv \<Rightarrow> hk_changed (hooks (h_purpose iv)) (h_order iv) w'
         | None \<Rightarrow> w')"

definition set_status :: "'m hooks_for \<Rightarrow> hex \<Rightarrow> hold_status \<Rightarrow> 'm db_scheme \<Rightarrow> 'm db_scheme" where
  "set_status hooks hash s = hold_set hooks hash (no_patch\<lparr>hp_status := Some s\<rparr>)"

definition record_disposal ::
  "'m hooks_for \<Rightarrow> hex \<Rightarrow> hold_final \<Rightarrow> via \<Rightarrow> 'm db_scheme \<Rightarrow> 'm db_scheme option" where
  "record_disposal hooks hash final v w =
     (case hold_get hash w of
        None \<Rightarrow> Some w
      | Some before \<Rightarrow>
          if h_status before = final_status final then Some w
          else hk_disposed (hooks (h_purpose before)) before final v
                 (set_status hooks hash (final_status final) w))"

text \<open>The preimage is recomputed from the seed; a row whose hash is not the derived one throws.\<close>

definition preimage_ok :: "env \<Rightarrow> hold_row \<Rightarrow> bool" where
  "preimage_ok e iv \<longleftrightarrow>
     (case scope_of (h_purpose iv) (h_order iv) (h_party iv) of
        None \<Rightarrow> False
      | Some scope \<Rightarrow> e_hash e scope (h_attempt iv) = h_hash iv)"

definition settle_or_cancel ::
  "env \<Rightarrow> node \<Rightarrow> hold_row \<Rightarrow> hold_want \<Rightarrow> hold_lookup option \<Rightarrow> (node_call list \<times> hold_final) option" where
  "settle_or_cancel e nd iv want lookup =
     (case lookup of
        None \<Rightarrow> Some ([], F_cancelled)
      | Some l \<Rightarrow>
          if lk_state l = L_settled then Some ([], F_settled)
          else if lk_state l = L_cancelled then Some ([], F_cancelled)
          else if want = Want_settle \<and> lk_state l = L_accepted then
            (if preimage_ok e iv \<and> n_call_ok nd (Call_settle (h_hash iv))
             then Some ([Call_settle (h_hash iv)], F_settled) else None)
          else (if n_call_ok nd (Call_cancel (h_hash iv))
                then Some ([Call_cancel (h_hash iv)], F_cancelled) else None))"

subsection \<open>The create and dispose effects\<close>

datatype eff_result =
    R_none
  | R_created "string option" bool
  | R_final hold_final
  | R_finals "(hex \<times> hold_final) list"
  | R_payout_skip | R_payout_paid | R_payout_manual string | R_payout_expired string
  | R_reach reach
  | R_published "sec option" "string list"
  | R_push "string list"

definition create_run :: "node \<Rightarrow> hex \<Rightarrow> 'm db_scheme \<Rightarrow> node_call list \<times> eff_result outcome option" where
  "create_run nd hash w =
     (case hold_get hash w of
        None \<Rightarrow> ([], Some (O_dead ''unknown invoice''))
      | Some iv \<Rightarrow>
          (case n_lookup nd hash of
             None \<Rightarrow> ([], None)
           | Some existing \<Rightarrow>
               if h_status iv \<noteq> H_creating then
                 (case existing of
                    Some l \<Rightarrow>
                      if lk_state l = L_open \<or> lk_state l = L_accepted then
                        (if n_call_ok nd (Call_cancel hash)
                         then ([Call_cancel hash], Some (O_done (R_created None False)))
                         else ([], None))
                      else ([], Some (O_done (R_created None False)))
                  | None \<Rightarrow> ([], Some (O_done (R_created None False))))
               else
                 (case existing of
                    Some l \<Rightarrow> ([], Some (O_done (R_created (Some (lk_bolt11 l)) False)))
                  | None \<Rightarrow>
                      let expirySec = h_pay_by iv - of_int (now_sec w) in
                      if expirySec < 60 then ([], Some (O_done (R_created None True)))
                      else (case n_add nd hash (h_amount iv) expirySec (h_cltv iv) of
                              None \<Rightarrow> ([], None)
                            | Some b \<Rightarrow> ([Call_add hash (h_amount iv) expirySec (h_cltv iv)], Some (O_done (R_created (Some b) False)))))))"

definition create_missed :: "'m hooks_for \<Rightarrow> hold_purpose \<Rightarrow> hex \<Rightarrow> 'm db_scheme \<Rightarrow> 'm db_scheme option" where
  "create_missed hooks p hash w =
     (let w' = set_status hooks hash H_cancelled w in
      Option.bind (hold_get hash w') (\<lambda>row. hk_create_failed (hooks p) row w'))"

definition create_made ::
  "'m hooks_for \<Rightarrow> hold_purpose \<Rightarrow> hex \<Rightarrow> string \<Rightarrow> 'm db_scheme \<Rightarrow> 'm db_scheme option" where
  "create_made hooks p hash b w =
     (let w' = hold_set hooks hash (no_patch\<lparr>hp_status := Some H_open, hp_bolt11 := Some b\<rparr>) w in
      Option.bind (hold_get hash w') (\<lambda>row. hk_created (hooks p) row w'))"

text \<open>\<open>r.tooLate || !r.bolt11\<close>: the invoice of a usable result.\<close>

fun created_bolt11 :: "eff_result \<Rightarrow> string option" where
  "created_bolt11 (R_created (Some b) False) = (if b = [] then None else Some b)"
| "created_bolt11 _ = None"

definition create_on_done :: "'m hooks_for \<Rightarrow> hex \<Rightarrow> eff_result \<Rightarrow> 'm db_scheme \<Rightarrow> 'm db_scheme option" where
  "create_on_done hooks hash r w =
     (case hold_get hash w of
        None \<Rightarrow> Some w
      | Some iv \<Rightarrow>
          if h_status iv \<noteq> H_creating then Some w
          else (case created_bolt11 r of
                  None \<Rightarrow> create_missed hooks (h_purpose iv) hash w
                | Some b \<Rightarrow> create_made hooks (h_purpose iv) hash b w))"

definition dispose_run ::
  "env \<Rightarrow> node \<Rightarrow> hex \<Rightarrow> hold_want \<Rightarrow> 'm db_scheme \<Rightarrow> node_call list \<times> eff_result outcome option" where
  "dispose_run e nd hash action w =
     (case hold_get hash w of
        None \<Rightarrow> ([], Some (O_dead ''unknown invoice''))
      | Some iv \<Rightarrow>
          (case Option.bind (n_lookup nd hash) (settle_or_cancel e nd iv action) of
             None \<Rightarrow> ([], None)
           | Some (calls, final) \<Rightarrow> (calls, Some (O_done (R_final final)))))"

definition via_of :: "hold_want \<Rightarrow> via" where
  "via_of a = (case a of Want_settle \<Rightarrow> Via_settle | Want_cancel \<Rightarrow> Via_cancel)"

definition dispose_on_done ::
  "'m hooks_for \<Rightarrow> hex \<Rightarrow> hold_want \<Rightarrow> eff_result \<Rightarrow> 'm db_scheme \<Rightarrow> 'm db_scheme option" where
  "dispose_on_done hooks hash action r w =
     (case r of R_final final \<Rightarrow> record_disposal hooks hash final (via_of action) w | _ \<Rightarrow> None)"

subsection \<open>Observing\<close>

definition disposing :: "hold_row \<Rightarrow> 'm db_scheme \<Rightarrow> bool" where
  "disposing iv w \<longleftrightarrow> list_ex (pending_with (''hold.dispose:'' @ h_hash iv)) (q_rows w)"

definition track_of :: "hold_purpose \<Rightarrow> track" where
  "track_of p = (if p = Oc_customer_bond \<or> p = Oc_sponsor_bond then Track_onchain else Track_ln)"

definition set_htlc_expiry ::
  "'m hooks_for \<Rightarrow> hold_row \<Rightarrow> hold_lookup \<Rightarrow> 'm db_scheme \<Rightarrow> 'm db_scheme" where
  "set_htlc_expiry hooks iv l w =
     (case lk_htlc_expiry l of
        None \<Rightarrow> w
      | Some x \<Rightarrow>
          if x \<noteq> 0 \<and> h_htlc_expiry iv \<noteq> Some x
          then hold_set hooks (h_hash iv) (no_patch\<lparr>hp_htlc_expiry := Some x\<rparr>) w else w)"

definition observe ::
  "env \<Rightarrow> 'm hooks_for \<Rightarrow> hex \<Rightarrow> hold_lookup option \<Rightarrow> 'm db_scheme \<Rightarrow> 'm db_scheme option" where
  "observe e hooks hash lookup w =
     (case hold_get hash w of
        None \<Rightarrow> Some w
      | Some iv \<Rightarrow>
          if h_status iv \<noteq> H_open \<and> h_status iv \<noteq> H_accepted then Some w
          else if disposing iv w \<or> hk_busy (hooks (h_purpose iv)) iv w then Some w
          else (case lookup of
             None \<Rightarrow> Some (raise_alert e (''hold:missing:'' @ hash) Anomaly
                       (Some (track_of (h_purpose iv))) (Some (h_order iv)) w)
           | Some l \<Rightarrow>
               (let w1 = set_htlc_expiry hooks iv l w in
                if lk_state l = L_accepted \<and> h_status iv = H_open then
                  (let w2 = set_status hooks hash H_accepted w1 in
                   Option.bind (hold_get hash w2) (\<lambda>row. hk_accepted (hooks (h_purpose iv)) row w2))
                else if lk_state l = L_settled then
                  Some (raise_alert e (''hold:unexpected-settle:'' @ hash) Anomaly
                     (Some (track_of (h_purpose iv))) (Some (h_order iv)) (set_status hooks hash H_settled w1))
                else if lk_state l = L_cancelled then
                  hk_node_cancelled (hooks (h_purpose iv)) iv (set_status hooks hash H_cancelled w1)
                else Some w1)))"

text \<open>One pass over the live invoices; a failed look-up skips the invoice, a throwing transaction is
  rolled back and ends the pass (the flag says so).\<close>

fun poll_rows :: "env \<Rightarrow> 'm hooks_for \<Rightarrow> node \<Rightarrow> hex list \<Rightarrow> 'm db_scheme \<Rightarrow> 'm db_scheme \<times> bool" where
  "poll_rows e hooks nd [] w = (w, False)"
| "poll_rows e hooks nd (h # hs) w =
     (case n_lookup nd h of
        None \<Rightarrow> poll_rows e hooks nd hs w
      | Some lookup \<Rightarrow>
          (case tx (observe e hooks h lookup) w of
             (w', threw) \<Rightarrow> if threw then (w', True) else poll_rows e hooks nd hs w'))"

definition hold_poll :: "env \<Rightarrow> 'm hooks_for \<Rightarrow> node \<Rightarrow> 'm db_scheme \<Rightarrow> 'm db_scheme \<times> bool" where
  "hold_poll e hooks nd w =
     poll_rows e hooks nd
       (map h_hash (sort_key h_created
          (filter (\<lambda>r. h_status r = H_open \<or> h_status r = H_accepted) (invoices w)))) w"

subsection \<open>The invoice table's invariant\<close>

definition hold_slot :: "hold_row \<Rightarrow> hold_purpose \<times> string \<times> string \<times> nat" where
  "hold_slot r = (h_purpose r, h_order r, h_party r, h_attempt r)"

text \<open>Hashes and slots are unique, and every row's hash is the one its slot derives from the seed, so
  its preimage can always be recomputed.\<close>

definition hold_wf :: "env \<Rightarrow> 'm db_scheme \<Rightarrow> bool" where
  "hold_wf e w \<longleftrightarrow> distinct (map h_hash (invoices w)) \<and> distinct (map hold_slot (invoices w))
     \<and> (\<forall>r \<in> set (invoices w). preimage_ok e r)"

text \<open>What identifies a row, and that no identity is ever lost.\<close>

definition hold_key :: "hold_row \<Rightarrow> hex \<times> hold_purpose \<times> string \<times> string" where
  "hold_key r = (h_hash r, h_purpose r, h_order r, h_party r)"

definition hold_keys :: "'m db_scheme \<Rightarrow> (hex \<times> hold_purpose \<times> string \<times> string) set" where
  "hold_keys w = hold_key ` set (invoices w)"

definition holds_keep :: "'m db_scheme \<Rightarrow> 'm db_scheme \<Rightarrow> bool" where
  "holds_keep w w' \<longleftrightarrow> hold_keys w \<subseteq> hold_keys w'"

lemma holds_keep_refl [simp]: "holds_keep w w"
  by (simp add: holds_keep_def)

lemma holds_keep_trans: "holds_keep u v \<Longrightarrow> holds_keep v w \<Longrightarrow> holds_keep u w"
  by (auto simp: holds_keep_def)

lemma holds_keep_same [simp]: "invoices w' = invoices w \<Longrightarrow> holds_keep w w'"
  by (simp add: holds_keep_def hold_keys_def)

lemma hold_keys_cong: "invoices w' = invoices w \<Longrightarrow> hold_keys w' = hold_keys w"
  by (simp add: hold_keys_def)

lemma apply_hold_patch_keys [simp]:
  "h_hash (apply_hold_patch p t r) = h_hash r" "h_purpose (apply_hold_patch p t r) = h_purpose r"
  "h_order (apply_hold_patch p t r) = h_order r" "h_party (apply_hold_patch p t r) = h_party r"
  "h_attempt (apply_hold_patch p t r) = h_attempt r" "h_amount (apply_hold_patch p t r) = h_amount r"
  "hold_slot (apply_hold_patch p t r) = hold_slot r"
  "preimage_ok e (apply_hold_patch p t r) = preimage_ok e r"
  by (simp_all add: apply_hold_patch_def hold_slot_def preimage_ok_def split: option.split)

lemma hold_wf_update:
  assumes "hold_wf e w"
  shows "hold_wf e (w\<lparr>invoices := update_where P (apply_hold_patch p t) (invoices w)\<rparr>)"
  using assms by (auto simp: hold_wf_def map_update_where dest!: set_update_where)

lemma hold_keys_update [simp]:
  "hold_keys (w\<lparr>invoices := update_where P (apply_hold_patch p t) (invoices w)\<rparr>) = hold_keys w"
proof -
  have "map hold_key (update_where P (apply_hold_patch p t) (invoices w)) = map hold_key (invoices w)"
    by (simp add: map_update_where hold_key_def)
  from arg_cong [OF this, of set] show ?thesis by (simp add: hold_keys_def)
qed

lemma hold_get_key: "hold_get h w = Some r \<Longrightarrow> hold_key r \<in> hold_keys w"
  by (auto simp: hold_get_def hold_keys_def dest: find_Some_D)

lemma hold_wf_cong: "invoices w' = invoices w \<Longrightarrow> hold_wf e w' = hold_wf e w"
  by (simp add: hold_wf_def)

lemma hold_get_Some: "hold_get h w = Some r \<Longrightarrow> r \<in> set (invoices w) \<and> h_hash r = h"
  by (auto simp: hold_get_def dest: find_Some_D)

lemma hold_get_update:
  "hold_get h (w\<lparr>invoices := update_where (\<lambda>r. h_hash r = h') (apply_hold_patch p t) (invoices w)\<rparr>)
   = (if h = h' then map_option (apply_hold_patch p t) (hold_get h w) else hold_get h w)"
proof (cases "h = h'")
  case True
  then show ?thesis by (simp add: hold_get_def find_update_where_same)
next
  case False
  then show ?thesis by (simp add: hold_get_def) (rule find_update_where_other; simp)
qed

lemma next_attempt_fresh:
  assumes "r \<in> set (invoices w)" and "same_slot p oid party r"
  shows "h_attempt r < next_attempt p oid party w"
proof -
  have r: "r \<in> set (filter (same_slot p oid party) (invoices w))" using assms by simp
  then obtain x xs where xs: "filter (same_slot p oid party) (invoices w) = x # xs"
    by (cases "filter (same_slot p oid party) (invoices w)") auto
  have "h_attempt r \<le> Max (set (map h_attempt (x # xs)))" using r xs by (intro Max_ge) auto
  then show ?thesis by (simp add: next_attempt_def xs)
qed

lemma hold_plan_wf:
  assumes "hold_wf e w" and "hold_plan e changed p oid party amt pb cl w = Some (row, w')"
    and "\<And>v. quiet v (changed p oid v)"
  shows "hold_wf e w'" and "row \<notin> set (invoices w)" and "invoices w' = invoices w @ [row]"
    and "same_slot p oid party row" and "h_status row = H_creating" and "h_amount row = amt"
    and "h_pay_by row = pb" and "h_cltv row = cl" and "hold_get (h_hash row) w' = Some row"
    and "quiet (w\<lparr>invoices := invoices w @ [row]\<rparr>) w'"
proof -
  obtain scope where sc: "scope_of p oid party = Some scope"
    and row: "row = mk_hold (e_hash e scope (next_attempt p oid party w)) p oid party
      (next_attempt p oid party w) amt pb cl (now_sec w)"
    and fresh: "\<not> hold_is_ours (h_hash row) w"
    and w': "w' = changed p oid (enq ''hold.create'' (P_hold_create (h_hash row))
      (Some (''hold:'' @ h_hash row)) (w\<lparr>invoices := invoices w @ [row]\<rparr>))"
    using assms(2) by (auto simp: hold_plan_def Let_def split: if_splits)
  show q: "quiet (w\<lparr>invoices := invoices w @ [row]\<rparr>) w'"
    unfolding w' by (rule quiet_trans [OF quiet_enq assms(3)])
  show inv': "invoices w' = invoices w @ [row]" using quietD(2) [OF q] by simp
  have nh: "h_hash row \<notin> h_hash ` set (invoices w)"
    using fresh by (auto simp: hold_is_ours_def hold_get_def find_None_iff)
  have ns: "hold_slot row \<notin> hold_slot ` set (invoices w)"
    using next_attempt_fresh [of _ w p oid party] by (force simp: row hold_slot_def same_slot_def)
  have "preimage_ok e row" by (simp add: preimage_ok_def row sc)
  then show "hold_wf e w'" using assms(1) nh ns by (auto simp: hold_wf_def inv')
  show "row \<notin> set (invoices w)" using nh by blast
  have "List.find (\<lambda>r. h_hash r = h_hash row) (invoices w) = None"
    using nh unfolding find_None_iff by (metis imageI)
  then show "hold_get (h_hash row) w' = Some row" by (simp add: hold_get_def inv' find_append)
  show "same_slot p oid party row" "h_status row = H_creating" "h_amount row = amt"
    "h_pay_by row = pb" "h_cltv row = cl" by (simp_all add: row same_slot_def)
qed

subsection \<open>What a track promises for its invoices, and what the hold machinery then keeps\<close>

text \<open>
  \<open>ok\<close> is what the track wants every step to satisfy: a reflexive and transitive relation between the
  database before and after, which bookkeeping steps (\<open>quiet\<close>) and invoice status changes satisfy anyway.
  If the track's hooks satisfy it, so does everything the hold machinery does.
\<close>

definition hold_inv :: "env \<Rightarrow> ('m db_scheme \<Rightarrow> bool) \<Rightarrow> 'm db_scheme \<Rightarrow> bool" where
  "hold_inv e I w \<longleftrightarrow> q_wf w \<and> hold_wf e w \<and> I w"

locale hold_client =
  fixes hooks :: "'m hooks_for" and ok :: "'m db_scheme \<Rightarrow> 'm db_scheme \<Rightarrow> bool"
  assumes ok_refl: "ok w w"
    and ok_trans: "ok u v \<Longrightarrow> ok v w \<Longrightarrow> ok u w"
    and ok_quiet: "quiet w w' \<Longrightarrow> ok w w'"
    and ok_patch: "ok w (w\<lparr>invoices := update_where P (apply_hold_patch hp t) (invoices w)\<rparr>)"
    and changed_quiet: "quiet w (hk_changed (hooks p) oid w)"
    and created_ok: "hk_created (hooks (h_purpose row)) row w = Some w' \<Longrightarrow> hold_key row \<in> hold_keys w \<Longrightarrow> ok w w'"
    and create_failed_ok:
      "hk_create_failed (hooks (h_purpose row)) row w = Some w' \<Longrightarrow> hold_key row \<in> hold_keys w \<Longrightarrow> ok w w'"
    and accepted_ok: "hk_accepted (hooks (h_purpose row)) row w = Some w' \<Longrightarrow> hold_key row \<in> hold_keys w \<Longrightarrow> ok w w'"
    and node_cancelled_ok:
      "hk_node_cancelled (hooks (h_purpose row)) row w = Some w' \<Longrightarrow> hold_key row \<in> hold_keys w \<Longrightarrow> ok w w'"
    and disposed_ok:
      "hk_disposed (hooks (h_purpose row)) row f by_whom w = Some w' \<Longrightarrow> hold_key row \<in> hold_keys w \<Longrightarrow> ok w w'"
begin

lemma set_keys: "hold_keys (hold_set hooks h p w) = hold_keys w"
  unfolding hold_set_def Let_def using hold_keys_cong [OF quietD(2) [OF changed_quiet]]
  by (simp split: option.split)

lemma set_status_keys: "hold_keys (set_status hooks h s w) = hold_keys w"
  by (simp add: set_status_def set_keys)

lemma set_key:
  assumes "hold_get h (hold_set hooks h' p w) = Some row" and "hold_get h w = Some iv"
  shows "h_purpose row = h_purpose iv"
proof -
  let ?w = "w\<lparr>invoices := update_where (\<lambda>r. h_hash r = h') (apply_hold_patch p (now_sec w)) (invoices w)\<rparr>"
  have "hold_get h (hold_set hooks h' p w) = hold_get h ?w"
    unfolding hold_set_def Let_def using quietD(2) [OF changed_quiet]
    by (simp add: hold_get_def split: option.split)
  then show ?thesis using assms by (auto simp: hold_get_update split: if_splits)
qed

lemma set_present: "hold_get h w \<noteq> None \<Longrightarrow> hold_get h (hold_set hooks h' p w) \<noteq> None"
proof -
  let ?w = "w\<lparr>invoices := update_where (\<lambda>r. h_hash r = h') (apply_hold_patch p (now_sec w)) (invoices w)\<rparr>"
  have "hold_get h (hold_set hooks h' p w) = hold_get h ?w"
    unfolding hold_set_def Let_def using quietD(2) [OF changed_quiet]
    by (simp add: hold_get_def split: option.split)
  then show "hold_get h w \<noteq> None \<Longrightarrow> ?thesis" by (auto simp: hold_get_update)
qed

lemma set_ok: "ok w (hold_set hooks h p w)"
proof -
  let ?w = "w\<lparr>invoices := update_where (\<lambda>r. h_hash r = h) (apply_hold_patch p (now_sec w)) (invoices w)\<rparr>"
  have "ok ?w (hold_set hooks h p w)"
    using ok_quiet [OF changed_quiet] ok_refl by (simp add: hold_set_def Let_def split: option.split)
  with ok_patch show ?thesis by (rule ok_trans)
qed

lemma set_status_ok: "ok w (set_status hooks h s w)"
  by (simp add: set_status_def set_ok)

lemma record_disposal_ok:
  assumes "record_disposal hooks h f v w = Some w'"
  shows "ok w w'"
proof (cases "hold_get h w")
  case None
  with assms ok_refl show ?thesis by (simp add: record_disposal_def)
next
  case (Some b)
  show ?thesis
  proof (cases "h_status b = final_status f")
    case True
    with assms Some ok_refl show ?thesis by (simp add: record_disposal_def)
  next
    case False
    with assms Some have "hk_disposed (hooks (h_purpose b)) b f v (set_status hooks h (final_status f) w) = Some w'"
      by (simp add: record_disposal_def)
    moreover have "hold_key b \<in> hold_keys (set_status hooks h (final_status f) w)"
      using hold_get_key [OF Some] by (simp add: set_status_keys)
    ultimately show ?thesis by (rule ok_trans [OF set_status_ok disposed_ok])
  qed
qed

lemma create_missed_ok:
  assumes "create_missed hooks (h_purpose iv) h w = Some w'" and "hold_get h w = Some iv"
  shows "ok w w'"
proof -
  from assms(1) obtain row where g: "hold_get h (set_status hooks h H_cancelled w) = Some row"
    and "hk_create_failed (hooks (h_purpose iv)) row (set_status hooks h H_cancelled w) = Some w'"
    by (auto simp: create_missed_def Let_def bind_Some_iff)
  then have "hk_create_failed (hooks (h_purpose row)) row (set_status hooks h H_cancelled w) = Some w'"
    using set_key [OF _ assms(2)] by (simp add: set_status_def)
  from create_failed_ok [OF this hold_get_key [OF g]] show ?thesis by (rule ok_trans [OF set_status_ok])
qed

lemma create_made_ok:
  assumes "create_made hooks (h_purpose iv) h b w = Some w'" and "hold_get h w = Some iv"
  shows "ok w w'"
proof -
  let ?w = "hold_set hooks h (no_patch\<lparr>hp_status := Some H_open, hp_bolt11 := Some b\<rparr>) w"
  from assms(1) obtain row where g: "hold_get h ?w = Some row"
    and "hk_created (hooks (h_purpose iv)) row ?w = Some w'"
    by (auto simp: create_made_def bind_Some_iff Let_def)
  then have "hk_created (hooks (h_purpose row)) row ?w = Some w'"
    using set_key [OF _ assms(2)] by simp
  from created_ok [OF this hold_get_key [OF g]] show ?thesis by (rule ok_trans [OF set_ok])
qed

lemma create_on_done_ok: "create_on_done hooks h r w = Some w' \<Longrightarrow> ok w w'"
  unfolding create_on_done_def using ok_refl
  by (simp split: option.splits if_splits) (blast intro: create_missed_ok create_made_ok)+

lemma dispose_on_done_ok: "dispose_on_done hooks h a r w = Some w' \<Longrightarrow> ok w w'"
  by (auto simp: dispose_on_done_def record_disposal_ok split: eff_result.splits)

lemma observe_ok:
  assumes "observe e hooks h l w = Some w'"
  shows "ok w w'"
proof (cases "hold_get h w")
  case None
  then show ?thesis using assms ok_refl by (simp add: observe_def)
next
  case iv: (Some iv)
  let ?hk = "hooks (h_purpose iv)"
  show ?thesis
  proof (cases "(h_status iv \<noteq> H_open \<and> h_status iv \<noteq> H_accepted) \<or> disposing iv w \<or> hk_busy ?hk iv w")
    case True
    with assms iv ok_refl show ?thesis by (auto simp: observe_def split: if_splits)
  next
    case live: False
    then have n1: "(h_status iv \<noteq> H_open \<and> h_status iv \<noteq> H_accepted) = False"
      and n2: "(disposing iv w \<or> hk_busy ?hk iv w) = False" by blast+
    show ?thesis
    proof (cases l)
      case None
      with assms [unfolded observe_def iv option.case n1 n2 if_False] show ?thesis
        using ok_quiet [OF quiet_raise_alert] by auto
    next
      case (Some lk)
      let ?w1 = "set_htlc_expiry hooks iv lk w"
      let ?st = "\<lambda>st. set_status hooks h st ?w1"
      have htlc: "ok w ?w1" using set_ok ok_refl by (simp add: set_htlc_expiry_def split: option.split)
      have k1: "hold_keys ?w1 = hold_keys w" by (simp add: set_htlc_expiry_def set_keys split: option.split)
      have s: "ok w (?st st)" for st by (rule ok_trans [OF htlc set_status_ok])
      have k: "hold_keys (?st st) = hold_keys w" for st by (simp add: set_status_keys k1)
      have p: "h_purpose row = h_purpose iv" if "hold_get h (?st st) = Some row" for row st
      proof -
        have "\<exists>iv1. hold_get h ?w1 = Some iv1 \<and> h_purpose iv1 = h_purpose iv"
        proof (cases "?w1 = w")
          case False
          then obtain pp where pp: "?w1 = hold_set hooks (h_hash iv) pp w"
            by (auto simp: set_htlc_expiry_def split: option.splits if_splits)
          have "hold_get h ?w1 \<noteq> None"
            using set_present [of h w "h_hash iv" pp] iv by (simp add: pp)
          then show ?thesis using set_key [OF _ iv] pp by auto
        qed (simp add: iv)
        then show ?thesis using set_key [OF that [unfolded set_status_def]] by auto
      qed
      have "(\<exists>row. hold_get h (?st H_accepted) = Some row \<and> hk_accepted ?hk row (?st H_accepted) = Some w')
        \<or> quiet (?st H_settled) w' \<or> hk_node_cancelled ?hk iv (?st H_cancelled) = Some w' \<or> w' = ?w1"
        using assms [unfolded observe_def iv option.case n1 n2 if_False Some Let_def]
        by (auto simp: bind_Some_iff split: if_split_asm)
      then consider (acc) row where "hold_get h (?st H_accepted) = Some row" "hk_accepted ?hk row (?st H_accepted) = Some w'"
        | (set) "quiet (?st H_settled) w'" | (can) "hk_node_cancelled ?hk iv (?st H_cancelled) = Some w'" | (no) "w' = ?w1"
        by blast
      then show ?thesis
      proof cases
        case acc
        then have "hk_accepted (hooks (h_purpose row)) row (?st H_accepted) = Some w'" using p by simp
        from accepted_ok [OF this hold_get_key [OF acc(1)]] show ?thesis by (rule ok_trans [OF s])
      next
        case set
        then show ?thesis by (rule ok_trans [OF s ok_quiet])
      next
        case can
        have "hold_key iv \<in> hold_keys (?st H_cancelled)" using hold_get_key [OF iv] by (simp add: k)
        from node_cancelled_ok [OF can this] show ?thesis by (rule ok_trans [OF s])
      next
        case no
        then show ?thesis using htlc by simp
      qed
    qed
  qed
qed

lemma poll_ok: "ok w (fst (hold_poll e hooks nd w))"
proof -
  have "ok w (fst (poll_rows e hooks nd hs w))" for hs
  proof (induction hs arbitrary: w)
    case (Cons h hs)
    show ?case
    proof (cases "n_lookup nd h")
      case None
      with Cons show ?thesis by simp
    next
      case (Some l)
      with Cons ok_refl ok_trans [OF observe_ok Cons] show ?thesis
        by (simp add: tx_def split: option.split)
    qed
  qed (simp add: ok_refl)
  then show ?thesis by (simp add: hold_poll_def)
qed

end

subsection \<open>Properties\<close>

lemma hold_plan_unique_parts:
  assumes "hold_wf e w" and "hold_plan e (\<lambda>_ _ v. v) p oid party amt pb cl w = Some (row, w')"
  shows "hold_wf e w'" and "preimage_ok e row"
    and "\<forall>r \<in> set (invoices w). h_hash r \<noteq> h_hash row"
    and "\<forall>r \<in> set (invoices w). same_slot p oid party r \<longrightarrow> h_attempt r < h_attempt row"
    and "list_ex (pending_with (''hold:'' @ h_hash row)) (q_rows w')"
proof -
  note P = hold_plan_wf [OF assms quiet_refl]
  show wf: "hold_wf e w'" by (rule P(1))
  show "preimage_ok e row" using wf P(3) by (simp add: hold_wf_def)
  show "\<forall>r \<in> set (invoices w). h_hash r \<noteq> h_hash row" using wf P(3) by (auto simp: hold_wf_def image_iff)
  show "\<forall>r \<in> set (invoices w). same_slot p oid party r \<longrightarrow> h_attempt r < h_attempt row"
    using assms(2) next_attempt_fresh by (auto simp: hold_plan_def Let_def split: if_splits)
  show "list_ex (pending_with (''hold:'' @ h_hash row)) (q_rows w')"
    using assms(2) enq_ensures by (auto simp: hold_plan_def Let_def split: if_splits)
qed

text \<open>Planning an invoice never reuses a payment hash or an attempt number: the new row is the only
  one of its slot with its attempt, its preimage is the one derived from the seed, and hashes and slots
  stay unique over the whole table.\<close>

theorem hold_plan_unique:
  assumes "hold_wf e w" and "hold_plan e (\<lambda>_ _ v. v) p oid party amt pb cl w = Some (row, w')"
  shows "(hold_wf e w')
    \<and> (preimage_ok e row)
    \<and> (\<forall>r \<in> set (invoices w). h_hash r \<noteq> h_hash row)
    \<and> (\<forall>r \<in> set (invoices w). same_slot p oid party r \<longrightarrow> h_attempt r < h_attempt row)
    \<and> (list_ex (pending_with (''hold:'' @ h_hash row)) (q_rows w'))"
  using hold_plan_unique_parts [OF assms] by blast

definition toy_env :: env where
  "toy_env = \<lparr>e_app_pubkey = ''app'', e_tag_ln = ''ln'', e_tag_oc = ''oc'', e_tag_admin = ''admin'',
     e_app_url = None, e_operators = [''op''], e_started_at = 0, e_price = Some 100000000,
     e_hash = (\<lambda>scope n. scope @ nat_digits n), e_bolt11 = (\<lambda>_. None), e_unseal = (\<lambda>_ _. None),
     e_seal = (\<lambda>pk _. Some pk), e_on_curve = (\<lambda>_. True), e_event_id = ev_content\<rparr>"

theorem hold_plan_unique_witness:
  "hold_plan toy_env (\<lambda>_ _ v. v) Ln_escrow ''a'' ''c'' 1000 5000 144 empty_db \<noteq> None
   \<and> preimage_ok toy_env (fst (the (hold_plan toy_env (\<lambda>_ _ v. v) Ln_escrow ''a'' ''c'' 1000 5000 144 empty_db)))"
proof -
  let ?p = "hold_plan toy_env (\<lambda>_ _ v. v) Ln_escrow ''a'' ''c'' 1000 5000 144 empty_db"
  have some: "?p = Some (fst (the ?p), snd (the ?p))"
    by (simp add: hold_plan_def scope_of_def preimage_scope_def hold_is_ours_def hold_get_def
        empty_db_def Let_def)
  have "hold_wf toy_env empty_db" by (simp add: hold_wf_def empty_db_def)
  from hold_plan_unique [OF this some, THEN conjunct2, THEN conjunct1] some show ?thesis by (metis option.distinct(1))
qed

lemma settle_or_cancel_safe_parts:
  assumes "settle_or_cancel e nd iv want lookup = Some (calls, final)"
  shows "Call_settle h \<in> set calls \<longleftrightarrow>
           h = h_hash iv \<and> want = Want_settle \<and> (\<exists>l. lookup = Some l \<and> lk_state l = L_accepted)"
    and "calls \<noteq> [] \<Longrightarrow> \<exists>l. lookup = Some l \<and> (lk_state l = L_open \<or> lk_state l = L_accepted)"
    and "final = F_settled \<longleftrightarrow> (\<exists>l. lookup = Some l \<and> (lk_state l = L_settled
           \<or> lk_state l = L_accepted \<and> want = Want_settle))"
    and "lk_state l' = (if final = F_settled then L_settled else L_cancelled)
         \<Longrightarrow> settle_or_cancel e nd iv want2 (Some l') = Some ([], final)"
proof -
  show "Call_settle h \<in> set calls \<longleftrightarrow>
           h = h_hash iv \<and> want = Want_settle \<and> (\<exists>l. lookup = Some l \<and> lk_state l = L_accepted)"
    using assms by (auto simp: settle_or_cancel_def split: option.splits if_splits)
  show "calls \<noteq> [] \<Longrightarrow> \<exists>l. lookup = Some l \<and> (lk_state l = L_open \<or> lk_state l = L_accepted)"
    using assms lookup_state.exhaust
    by (auto simp: settle_or_cancel_def split: option.splits if_splits)
  show "final = F_settled \<longleftrightarrow> (\<exists>l. lookup = Some l \<and> (lk_state l = L_settled
           \<or> lk_state l = L_accepted \<and> want = Want_settle))"
    using assms by (auto simp: settle_or_cancel_def split: option.splits if_splits)
  show "lk_state l' = (if final = F_settled then L_settled else L_cancelled)
         \<Longrightarrow> settle_or_cancel e nd iv want2 (Some l') = Some ([], final)"
    by (cases final) (simp_all add: settle_or_cancel_def)
qed

text \<open>Disposing of an invoice is idempotent and takes money only when there is money to take: the
  node is asked to settle only for an accepted HTLC whose disposal is a settle and whose preimage is the
  derived one, an unknown or finished invoice triggers no call at all, and running again on the state
  the first run left behind gives the same result without a call.\<close>

theorem settle_or_cancel_safe:
  assumes "settle_or_cancel e nd iv want lookup = Some (calls, final)"
  shows "(Call_settle h \<in> set calls \<longleftrightarrow>
           h = h_hash iv \<and> want = Want_settle \<and> (\<exists>l. lookup = Some l \<and> lk_state l = L_accepted))
    \<and> ((calls \<noteq> []) \<longrightarrow> (\<exists>l. lookup = Some l \<and> (lk_state l = L_open \<or> lk_state l = L_accepted)))
    \<and> (final = F_settled \<longleftrightarrow> (\<exists>l. lookup = Some l \<and> (lk_state l = L_settled
           \<or> lk_state l = L_accepted \<and> want = Want_settle)))
    \<and> ((lk_state l' = (if final = F_settled then L_settled else L_cancelled)) \<longrightarrow> (settle_or_cancel e nd iv want2 (Some l') = Some ([], final)))"
  by (intro conjI impI; rule settle_or_cancel_safe_parts [OF assms]; assumption?)

definition toy_node :: node where
  "toy_node = \<lparr>n_height = Some 100, n_lookup = (\<lambda>_. Some None), n_call_ok = (\<lambda>_. True),
     n_add = (\<lambda>h _ _ _. Some (''lnbc'' @ h)), n_track = (\<lambda>_. Some None),
     n_pay = (\<lambda>_ _. Some (Succeeded, None)), n_probe = (\<lambda>_. Some Reachable)\<rparr>"

theorem settle_or_cancel_safe_witness:
  "settle_or_cancel toy_env toy_node (mk_hold ''x'' Ln_escrow ''a'' ''c'' 0 1 2 3 4) Want_cancel
     (Some \<lparr>lk_state = L_cancelled, lk_bolt11 = [], lk_htlc_expiry = None\<rparr>) = Some ([], F_cancelled)"
proof -
  have "settle_or_cancel toy_env toy_node (mk_hold ''x'' Ln_escrow ''a'' ''c'' 0 1 2 3 4) Want_cancel
     (Some \<lparr>lk_state = L_accepted, lk_bolt11 = [], lk_htlc_expiry = None\<rparr>) = Some ([Call_cancel ''x''], F_cancelled)"
    by (simp add: settle_or_cancel_def toy_node_def)
  from settle_or_cancel_safe [OF this, THEN conjunct2, THEN conjunct2, THEN conjunct2] show ?thesis by simp
qed

end
