(* ===== verification/Ln_Store.thy ===== *)
theory Ln_Store
  imports Holds
begin

text \<open>
  The Lightning tables and the messages of the track: \<open>daemon/src/ln/store.ts\<close>,
  \<open>daemon/src/ln/messages.ts\<close>, \<open>daemon/src/ln/notify.ts\<close>.  \<open>update_order\<close> is the only way an order changes;
  it bumps the version and requests the publication of the row.

  The second half states what every Lightning operation keeps: \<open>order_ok\<close> for each row, and
  \<open>order_evolves\<close> between an order before and after (same trade, legal transitions, a version that
  counts changes).  \<open>ln_ok\<close> packs both into one transitive relation between databases.
\<close>

subsection \<open>Truthiness of nullable columns\<close>

definition js_true_s :: "string option \<Rightarrow> bool" where
  "js_true_s x \<longleftrightarrow> (case x of None \<Rightarrow> False | Some s \<Rightarrow> s \<noteq> [])"

definition js_true_n :: "int option \<Rightarrow> bool" where
  "js_true_n x \<longleftrightarrow> (case x of None \<Rightarrow> False | Some n \<Rightarrow> n \<noteq> 0)"

lemma js_true_simps [simp]:
  "\<not> js_true_s None" "js_true_s (Some s) \<longleftrightarrow> s \<noteq> []" "\<not> js_true_n None" "js_true_n (Some n) \<longleftrightarrow> n \<noteq> 0"
  by (simp_all add: js_true_s_def js_true_n_def)

subsection \<open>Orders\<close>

definition get_order :: "string \<Rightarrow> 'm db_scheme \<Rightarrow> ln_order option" where
  "get_order oid w = List.find (\<lambda>r. o_id r = oid) (ln_orders w)"

definition LN_PAYOUT_INVOICE_EXPIRED :: string where "LN_PAYOUT_INVOICE_EXPIRED = ''invoice-expired''"
definition LN_PAYOUT_MANUAL_REQUESTED :: string where "LN_PAYOUT_MANUAL_REQUESTED = ''manual-requested''"
definition LN_PAYOUT_MANUAL :: string where "LN_PAYOUT_MANUAL = ''manual''"

definition is_manual_payout :: "string option \<Rightarrow> bool" where
  "is_manual_payout payoutError \<longleftrightarrow>
     payoutError = Some LN_PAYOUT_MANUAL_REQUESTED \<or> payoutError = Some LN_PAYOUT_MANUAL"

definition payouts_awaiting_invoice :: "'m db_scheme \<Rightarrow> ln_order list" where
  "payouts_awaiting_invoice w =
     filter (\<lambda>r. (o_state r = Paid \<or> o_state r = Sponsor_wins) \<and> \<not> o_disbursed r
       \<and> o_payout_error r = Some LN_PAYOUT_INVOICE_EXPIRED) (ln_orders w)"

definition payout_expired_at_key :: "string \<Rightarrow> string" where
  "payout_expired_at_key oid = ''ln.payout_expired_at:'' @ oid"

definition orders_in_states :: "order_state list \<Rightarrow> 'm db_scheme \<Rightarrow> ln_order list" where
  "orders_in_states states w =
     sort_key o_created_at (filter (\<lambda>r. o_state r \<in> set states) (ln_orders w))"

definition request_detail :: "string \<Rightarrow> 'm db_scheme \<Rightarrow> 'm db_scheme" where
  "request_detail oid w = enq ''ln.detail'' (P_ln_detail oid) (Some (''ln.detail:'' @ oid)) w"

definition request_projection :: "string \<Rightarrow> 'm db_scheme \<Rightarrow> 'm db_scheme" where
  "request_projection oid w =
     request_detail oid (enq ''ln.order.publish'' (P_ln_publish oid) (Some (''ln.order:'' @ oid)) w)"

definition new_order ::
  "string \<Rightarrow> string \<Rightarrow> krw \<Rightarrow> sec \<Rightarrow> hex option \<Rightarrow> string option \<Rightarrow> sec \<Rightarrow> ln_order" where
  "new_order oid customer price deadline depositHash designated now =
     \<lparr>o_id = oid, o_state = Requested, o_customer = customer, o_sponsor = None, o_price = price,
      o_deadline = deadline, o_payout_sat = None, o_escrow_hash = None, o_escrow_bolt11 = None,
      o_escrow_settled = False, o_sponsor_invoice = None, o_disbursed = False, o_payout_error = None,
      o_customer_deposit_hash = depositHash, o_sponsor_deposit_hash = None, o_pending_close = None,
      o_close_reason = None, o_claimed_at = None, o_account_sent_at = None, o_account_commitment = None,
      o_remitted_at = None, o_invoice_deadline = None, o_designated_sponsor = designated,
      o_created_at = now, o_updated_at = now, o_version = 1, o_published_at = 0\<rparr>"

definition insert_order ::
  "env \<Rightarrow> string \<Rightarrow> string \<Rightarrow> krw \<Rightarrow> sec \<Rightarrow> hex option \<Rightarrow> string option \<Rightarrow> 'm db_scheme \<Rightarrow> 'm db_scheme option" where
  "insert_order e oid customer price deadline depositHash designated w =
     (if get_order oid w \<noteq> None then None
      else
        (let w1 = request_projection oid
               (w\<lparr>ln_orders := ln_orders w @ [new_order oid customer price deadline depositHash designated (now_sec w)]\<rparr>)
         in if \<not> js_true_s designated then Some (notify_operators e w1)
            else (case designated_quiet_over ''dm:ln'' w1 of
                    (over, w2) \<Rightarrow> Some (if over then notify_operators e w2 else w2))))"

definition designated_order_ids :: "'m db_scheme \<Rightarrow> string list" where
  "designated_order_ids w = map o_id (filter (\<lambda>r. o_designated_sponsor r \<noteq> None) (ln_orders w))"

definition open_designated_count :: "string \<Rightarrow> 'm db_scheme \<Rightarrow> nat" where
  "open_designated_count customer w =
     length (filter (\<lambda>r. o_customer r = customer \<and> o_designated_sponsor r \<noteq> None \<and> o_state r = Requested)
       (ln_orders w))"

definition bump :: "sec \<Rightarrow> ln_order \<Rightarrow> ln_order" where
  "bump now r = r\<lparr>o_version := Suc (o_version r), o_updated_at := now\<rparr>"

text \<open>A patch is a record update that leaves the key, the terms and the bookkeeping columns alone.\<close>

definition update_order ::
  "string \<Rightarrow> (ln_order \<Rightarrow> ln_order) \<Rightarrow> 'm db_scheme \<Rightarrow> (ln_order \<times> 'm db_scheme) option" where
  "update_order oid patch w =
     (case get_order oid w of
        None \<Rightarrow> None
      | Some r \<Rightarrow> Some (bump (now_sec w) (patch r),
          request_projection oid
            (w\<lparr>ln_orders := update_where (\<lambda>r. o_id r = oid) (\<lambda>r. bump (now_sec w) (patch r)) (ln_orders w)\<rparr>)))"

subsection \<open>Drafts\<close>

definition get_draft :: "string \<Rightarrow> 'm db_scheme \<Rightarrow> ln_draft option" where
  "get_draft oid w = List.find (\<lambda>r. d_id r = oid) (ln_drafts w)"

definition all_drafts :: "'m db_scheme \<Rightarrow> ln_draft list" where
  "all_drafts w = sort_key d_created_at (ln_drafts w)"

definition delete_draft :: "string \<Rightarrow> 'm db_scheme \<Rightarrow> 'm db_scheme" where
  "delete_draft oid w = w\<lparr>ln_drafts := filter (\<lambda>r. d_id r \<noteq> oid) (ln_drafts w)\<rparr>"

definition insert_draft :: "ln_draft \<Rightarrow> 'm db_scheme \<Rightarrow> 'm db_scheme option" where
  "insert_draft d w =
     (if get_draft (d_id d) w \<noteq> None then None else Some (w\<lparr>ln_drafts := ln_drafts w @ [d]\<rparr>))"

subsection \<open>Messages to the parties\<close>

definition order_ref :: "env \<Rightarrow> string \<Rightarrow> string" where
  "order_ref e oid = ''38383:'' @ e_app_pubkey e @ '':'' @ oid"

definition ln_send ::
  "env \<Rightarrow> string \<Rightarrow> string \<Rightarrow> string \<Rightarrow> string list list \<Rightarrow> rat \<Rightarrow> string \<Rightarrow> 'm db_scheme \<Rightarrow> 'm db_scheme" where
  "ln_send e oid recipient action extraTags expiration dedup w =
     (let createdAt = now_sec w in
      enq ''nostr.publish''
        (P_publish \<lparr>ev_kind = 3838, ev_created_at = createdAt,
           ev_tags = [[''a'', order_ref e oid], [''action'', action], [''t'', e_tag_ln e],
             [''p'', recipient], [''p'', e_app_pubkey e]] @ extraTags
             @ [[''expiration'', num_str (max expiration (of_int (createdAt + 60)))]],
           ev_content = []\<rparr>)
        (Some dedup) w)"

definition send_deposit_required ::
  "env \<Rightarrow> string \<Rightarrow> string \<Rightarrow> string \<Rightarrow> rat \<Rightarrow> hex \<Rightarrow> 'm db_scheme \<Rightarrow> 'm db_scheme" where
  "send_deposit_required e oid recipient bolt11 payBy hash w =
     ln_send e oid recipient ''deposit-required'' [[''bolt11'', bolt11]] payBy
       (''ln.msg:deposit-required:'' @ hash) w"

datatype deposit_status = Dep_accepted | Dep_cancelled | Dep_settled

fun deposit_status_str :: "deposit_status \<Rightarrow> string" where
  "deposit_status_str Dep_accepted = ''accepted''"
| "deposit_status_str Dep_cancelled = ''cancelled''"
| "deposit_status_str Dep_settled = ''settled''"

definition STATUS_RETENTION_SEC :: sec where "STATUS_RETENTION_SEC = 7 * 24 * 3600"
definition REJECT_RETENTION_SEC :: sec where "REJECT_RETENTION_SEC = 24 * 3600"

definition send_deposit_status ::
  "env \<Rightarrow> string \<Rightarrow> string \<Rightarrow> deposit_status \<Rightarrow> hex \<Rightarrow> 'm db_scheme \<Rightarrow> 'm db_scheme" where
  "send_deposit_status e oid recipient status hash w =
     ln_send e oid recipient (''deposit-'' @ deposit_status_str status) [] (of_int (now_sec w + STATUS_RETENTION_SEC))
       (''ln.msg:deposit-'' @ deposit_status_str status @ '':'' @ hash) w"

datatype invoice_reject = Decode_failed | Amount_mismatch | Expires_too_soon | Expired_before_payout
  | Liquidity_warning | Escrow_ending_soon

fun invoice_reject_str :: "invoice_reject \<Rightarrow> string" where
  "invoice_reject_str Decode_failed = ''DECODE_FAILED''"
| "invoice_reject_str Amount_mismatch = ''AMOUNT_MISMATCH''"
| "invoice_reject_str Expires_too_soon = ''EXPIRES_TOO_SOON''"
| "invoice_reject_str Expired_before_payout = ''EXPIRED_BEFORE_PAYOUT''"
| "invoice_reject_str Liquidity_warning = ''LIQUIDITY_WARNING''"
| "invoice_reject_str Escrow_ending_soon = ''ESCROW_ENDING_SOON''"

definition send_invoice_rejected ::
  "env \<Rightarrow> string \<Rightarrow> string \<Rightarrow> invoice_reject \<Rightarrow> sat \<Rightarrow> string \<Rightarrow> 'm db_scheme \<Rightarrow> 'm db_scheme" where
  "send_invoice_rejected e oid sponsor reason expectedSats key w =
     (let retention = if reason = Expired_before_payout then LN_TERMINAL_RETENTION_SEC else REJECT_RETENTION_SEC in
      ln_send e oid sponsor ''claim-price-error''
        [[''reason'', invoice_reject_str reason], [''expected-sats'', int_str expectedSats]]
        (of_int (now_sec w + retention))
        (''ln.msg:reject:'' @ oid @ '':'' @ invoice_reject_str reason @ '':'' @ key) w)"

definition send_reveal_request :: "env \<Rightarrow> string \<Rightarrow> string \<Rightarrow> 'm db_scheme \<Rightarrow> 'm db_scheme" where
  "send_reveal_request e oid sponsor w =
     ln_send e oid sponsor ''reveal-request'' [] (of_int (now_sec w + STATUS_RETENTION_SEC))
       (''ln.msg:reveal:'' @ oid @ '':'' @ int_str (now_sec w)) w"

subsection \<open>Push notices\<close>

definition notice_key :: "ln_order \<Rightarrow> string \<Rightarrow> string" where
  "notice_key r role = ''ln:'' @ o_id r @ '':v'' @ nat_digits (o_version r) @ '':''
     @ order_state_str (o_state r) @ '':'' @ role"

definition to_customer :: "ln_order \<Rightarrow> string \<Rightarrow> 'm db_scheme \<Rightarrow> 'm db_scheme" where
  "to_customer r notice w = deliver (o_customer r) notice (o_id r) (notice_key r ''customer'') w"

definition to_sponsor :: "ln_order \<Rightarrow> string \<Rightarrow> 'm db_scheme \<Rightarrow> 'm db_scheme" where
  "to_sponsor r notice w =
     (case o_sponsor r of
        Some s \<Rightarrow> if s = [] then w else deliver s notice (o_id r) (notice_key r ''sponsor'') w
      | None \<Rightarrow> w)"

definition notify_ln_transition :: "ln_order \<Rightarrow> 'm db_scheme \<Rightarrow> 'm db_scheme" where
  "notify_ln_transition r w =
     (case o_state r of
        Verified \<Rightarrow> to_customer r ''customerShouldPay'' w
      | Escrowed \<Rightarrow> to_sponsor r ''sponsorShouldRegisterInvoice'' w
      | Invoiced \<Rightarrow> to_customer r ''customerShouldSendAccount'' w
      | Remitted \<Rightarrow> to_customer r ''customerShouldConfirm'' w
      | Paid \<Rightarrow> to_sponsor r ''sponsorCompleted'' (to_customer r ''customerCompleted'' w)
      | Cancelled \<Rightarrow> to_sponsor r ''cancelled'' (to_customer r ''cancelled'' w)
      | Expired \<Rightarrow> to_sponsor r ''expired'' (to_customer r ''expired'' w)
      | Admin_closed \<Rightarrow> to_sponsor r ''adminClosed'' (to_customer r ''adminClosed'' w)
      | Sponsor_wins \<Rightarrow> to_sponsor r ''disputeWon'' (to_customer r ''disputeLost'' w)
      | Customer_wins \<Rightarrow> to_sponsor r ''disputeLost'' (to_customer r ''disputeWon'' w)
      | Requested \<Rightarrow> w
      | Claimed \<Rightarrow> w)"

definition notify_designated_arrived :: "ln_order \<Rightarrow> 'm db_scheme \<Rightarrow> 'm db_scheme" where
  "notify_designated_arrived r w =
     (case o_designated_sponsor r of
        None \<Rightarrow> w
      | Some d \<Rightarrow>
          if d = [] then w
          else (case designated_quiet_over (''push:ln:'' @ d) w of
                  (over, w1) \<Rightarrow>
                    if over then deliver d ''designatedArrived'' (o_id r) (''ln:'' @ o_id r @ '':designated'') w1
                    else w1))"

definition notify_sponsor :: "ln_order \<Rightarrow> string \<Rightarrow> string \<Rightarrow> 'm db_scheme \<Rightarrow> 'm db_scheme" where
  "notify_sponsor r notice key w =
     (case o_sponsor r of
        Some s \<Rightarrow> if s = [] then w else deliver s notice (o_id r) key w
      | None \<Rightarrow> w)"

definition notify_account_arrived :: "ln_order \<Rightarrow> string \<Rightarrow> 'm db_scheme \<Rightarrow> 'm db_scheme" where
  "notify_account_arrived r commitment =
     notify_sponsor r ''sponsorShouldRemit'' (''ln:'' @ o_id r @ '':account:'' @ commitment)"

definition notify_payout_invoice_expired :: "ln_order \<Rightarrow> string \<Rightarrow> 'm db_scheme \<Rightarrow> 'm db_scheme" where
  "notify_payout_invoice_expired r hash =
     notify_sponsor r ''sponsorShouldReplaceInvoice'' (''ln:'' @ o_id r @ '':payout-expired:'' @ hash)"

definition notify_deposit_required :: "string \<Rightarrow> string \<Rightarrow> bool \<Rightarrow> hex \<Rightarrow> 'm db_scheme \<Rightarrow> 'm db_scheme" where
  "notify_deposit_required pubkey oid forSponsor hash w =
     deliver pubkey (if forSponsor then ''sponsorShouldPayDeposit'' else ''customerShouldPayDeposit'') oid
       (''ln:'' @ oid @ '':deposit:'' @ hash) w"

subsection \<open>Quiet steps\<close>

lemma quiet_store [simp]:
  "quiet w (request_detail oid w)" "quiet w (request_projection oid w)"
  "quiet w (ln_send e oid rc ac ex t d w)" "quiet w (send_deposit_required e oid rc b pb h w)"
  "quiet w (send_deposit_status e oid rc st h w)" "quiet w (send_invoice_rejected e oid sp rs amt k w)"
  "quiet w (send_reveal_request e oid sp w)" "quiet w (to_customer r nt w)" "quiet w (to_sponsor r nt w)"
  "quiet w (notify_sponsor r nt k w)" "quiet w (notify_deposit_required pk oid fs h w)"
  by (auto simp: request_detail_def request_projection_def ln_send_def send_deposit_required_def
      send_deposit_status_def send_invoice_rejected_def send_reveal_request_def to_customer_def
      to_sponsor_def notify_sponsor_def notify_deposit_required_def Let_def
      intro: quiet_trans [OF quiet_enq quiet_enq] split: option.split)

lemma quiet_notify_ln_transition [simp]: "quiet w (notify_ln_transition r w)"
  by (cases "o_state r")
    (simp_all add: notify_ln_transition_def quiet_trans [OF quiet_store(8) quiet_store(9)])

lemma quiet_over: "designated_quiet_over k w = (b, w') \<Longrightarrow> quiet w w'"
  using quiet_designated_quiet_over [of w k] by simp

lemma quiet_notify_designated_arrived [simp]: "quiet w (notify_designated_arrived r w)"
proof (cases "o_designated_sponsor r")
  case (Some d)
  obtain b w1 where bw: "designated_quiet_over (''push:ln:'' @ d) w = (b, w1)" by force
  have "quiet w (deliver d ''designatedArrived'' (o_id r) (''ln:'' @ o_id r @ '':designated'') w1)"
    by (rule quiet_trans [OF quiet_over [OF bw] quiet_deliver])
  with Some bw quiet_over [OF bw] show ?thesis
    by (cases "d = []"; cases b) (simp_all add: notify_designated_arrived_def)
qed (simp add: notify_designated_arrived_def)

lemma quiet_notify_more [simp]:
  "quiet w (notify_account_arrived r c w)" "quiet w (notify_payout_invoice_expired r h w)"
  by (simp_all add: notify_account_arrived_def notify_payout_invoice_expired_def)

lemma get_order_quiet: "quiet w w' \<Longrightarrow> get_order oid w' = get_order oid w"
  by (simp add: get_order_def quietD)

lemma get_draft_quiet: "quiet w w' \<Longrightarrow> get_draft oid w' = get_draft oid w"
  by (simp add: get_draft_def quietD)

subsection \<open>What holds of every order\<close>

text \<open>
  \<open>order_ok\<close>, clause by clause: a close in progress leads to a terminal state the table allows; a
  terminal order has its reason and no close in progress; amounts are fixed together with the escrow
  and stay fixed; a sponsor is there from the claim on, is not the customer, and is the designated one
  when there is one; the payout target is there from \<open>invoiced\<close> on; only a closed, won trade is ever
  disbursed or switched to manual payout.
\<close>

definition has_sponsor_states :: "order_state set" where
  "has_sponsor_states = {Claimed, Verified, Escrowed, Invoiced, Remitted, Paid, Sponsor_wins, Customer_wins, Admin_closed}"

definition funded_states :: "order_state set" where
  "funded_states = {Verified, Escrowed, Invoiced, Remitted, Paid, Sponsor_wins}"

definition invoiced_states :: "order_state set" where
  "invoiced_states = {Invoiced, Remitted, Paid, Sponsor_wins, Customer_wins}"

definition order_ok :: "ln_order \<Rightarrow> bool" where
  "order_ok r \<longleftrightarrow>
     (\<forall>c. o_pending_close r = Some c \<longrightarrow> can_transition (o_state r) (cl_terminal (close_rules c)))
   \<and> (ln_terminal (o_state r) \<longrightarrow> o_pending_close r = None
        \<and> (\<exists>c. o_close_reason r = Some c \<and> cl_terminal (close_rules c) = o_state r))
   \<and> (o_state r \<in> has_sponsor_states \<longrightarrow> o_sponsor r \<noteq> None)
   \<and> (o_state r = Requested \<longrightarrow> o_sponsor r = None \<and> o_escrow_hash r = None)
   \<and> (\<forall>s. o_sponsor r = Some s \<longrightarrow> s \<noteq> o_customer r
        \<and> (js_true_s (o_designated_sponsor r) \<longrightarrow> o_designated_sponsor r = Some s))
   \<and> (o_escrow_hash r \<noteq> None \<longrightarrow> (\<exists>n. o_payout_sat r = Some n \<and> 0 < n))
   \<and> (o_state r \<in> funded_states \<longrightarrow> o_escrow_hash r \<noteq> None)
   \<and> (o_state r \<in> invoiced_states \<longrightarrow> js_true_s (o_sponsor_invoice r))
   \<and> (o_disbursed r \<or> is_manual_payout (o_payout_error r) \<longrightarrow> o_state r \<in> {Paid, Sponsor_wins})
   \<and> 1 \<le> o_version r"

definition ln_inv :: "'m db_scheme \<Rightarrow> bool" where
  "ln_inv w \<longleftrightarrow> distinct (map o_id (ln_orders w)) \<and> (\<forall>r \<in> set (ln_orders w). order_ok r)
     \<and> distinct (map d_id (ln_drafts w))
     \<and> (\<forall>d \<in> set (ln_drafts w). \<forall>r \<in> set (ln_orders w). d_id d \<noteq> o_id r)"

definition order_evolves :: "ln_order \<Rightarrow> ln_order \<Rightarrow> bool" where
  "order_evolves r r' \<longleftrightarrow>
     o_id r' = o_id r \<and> o_customer r' = o_customer r \<and> o_price r' = o_price r
   \<and> o_deadline r' = o_deadline r \<and> o_designated_sponsor r' = o_designated_sponsor r
   \<and> o_created_at r' = o_created_at r \<and> o_customer_deposit_hash r' = o_customer_deposit_hash r
   \<and> o_version r \<le> o_version r'
   \<and> can_transition\<^sup>*\<^sup>* (o_state r) (o_state r')
   \<and> (o_version r' = o_version r \<longrightarrow> o_state r' = o_state r \<and> o_pending_close r' = o_pending_close r)
   \<and> (ln_terminal (o_state r) \<longrightarrow> o_close_reason r' = o_close_reason r)
   \<and> (o_disbursed r \<longrightarrow> o_disbursed r')"

definition orders_evolve :: "'m db_scheme \<Rightarrow> 'm db_scheme \<Rightarrow> bool" where
  "orders_evolve w w' \<longleftrightarrow>
     (\<forall>oid r. get_order oid w = Some r \<longrightarrow> (\<exists>r'. get_order oid w' = Some r' \<and> order_evolves r r'))"

lemma order_evolves_refl [simp]: "order_evolves r r"
  by (simp add: order_evolves_def)

lemma order_evolves_trans:
  assumes "order_evolves a b" and "order_evolves b c"
  shows "order_evolves a c"
proof -
  have t: "ln_terminal (o_state a) \<Longrightarrow> o_state b = o_state a"
    using assms(1) ln_table.reach_from_terminal by (auto simp: order_evolves_def)
  show ?thesis using assms t unfolding order_evolves_def by auto
qed

lemma orders_evolve_refl [simp]: "orders_evolve w w"
  by (simp add: orders_evolve_def)

lemma orders_evolve_trans: "orders_evolve u v \<Longrightarrow> orders_evolve v w \<Longrightarrow> orders_evolve u w"
  unfolding orders_evolve_def using order_evolves_trans by meson

text \<open>
  The invariant of the whole Lightning database, and the relation every operation satisfies: the invariant is
  kept, orders evolve, and neither the clock nor the tables beyond the Lightning database change.
\<close>

definition ln_winv :: "env \<Rightarrow> 'm db_scheme \<Rightarrow> bool" where
  "ln_winv e w \<longleftrightarrow> hold_inv e ln_inv w"

definition ln_ok :: "env \<Rightarrow> 'm db_scheme \<Rightarrow> 'm db_scheme \<Rightarrow> bool" where
  "ln_ok e w w' \<longleftrightarrow> (ln_winv e w \<longrightarrow>
     ln_winv e w' \<and> orders_evolve w w' \<and> holds_keep w w' \<and> q_now w' = q_now w \<and> db.more w' = db.more w)"

lemma ln_ok_refl [simp]: "ln_ok e w w"
  by (simp add: ln_ok_def)

lemma ln_ok_trans: "ln_ok e u v \<Longrightarrow> ln_ok e v w \<Longrightarrow> ln_ok e u w"
  unfolding ln_ok_def using orders_evolve_trans [of u v w] holds_keep_trans [of u v w] by simp

lemma ln_okI: "(ln_winv e w \<Longrightarrow> ln_ok e w w') \<Longrightarrow> ln_ok e w w'"
  by (auto simp: ln_ok_def)

lemma ln_inv_cong: "ln_orders w' = ln_orders w \<Longrightarrow> ln_drafts w' = ln_drafts w \<Longrightarrow> ln_inv w' = ln_inv w"
  by (simp add: ln_inv_def)

lemma orders_evolve_same: "ln_orders w' = ln_orders w \<Longrightarrow> orders_evolve w w'"
  by (simp add: orders_evolve_def get_order_def)

lemma ln_ok_quiet:
  assumes "quiet w w'"
  shows "ln_ok e w w'"
  using assms orders_evolve_same [of w' w] ln_inv_cong [of w' w] hold_wf_cong [of w' w] quietD [OF assms]
  by (auto simp: ln_ok_def ln_winv_def hold_inv_def)

lemma ln_ok_quiet_after: "ln_ok e u v \<Longrightarrow> quiet v w \<Longrightarrow> ln_ok e u w"
  using ln_ok_trans ln_ok_quiet by blast

lemma ln_ok_quiet_before: "quiet u v \<Longrightarrow> ln_ok e v w \<Longrightarrow> ln_ok e u w"
  using ln_ok_trans ln_ok_quiet by blast

lemma ln_ok_winv: "ln_ok e w w' \<Longrightarrow> ln_winv e w \<Longrightarrow> ln_winv e w'"
  by (simp add: ln_ok_def)

lemma get_order_Some: "get_order oid w = Some r \<Longrightarrow> r \<in> set (ln_orders w) \<and> o_id r = oid"
  by (auto simp: get_order_def dest: find_Some_D)

lemma ln_winv_order: "ln_winv e w \<Longrightarrow> get_order oid w = Some r \<Longrightarrow> order_ok r"
  by (auto simp: ln_winv_def hold_inv_def ln_inv_def dest: get_order_Some)

lemma bump_sel [simp]:
  "o_id (bump t r) = o_id r" "o_state (bump t r) = o_state r" "o_customer (bump t r) = o_customer r"
  "o_sponsor (bump t r) = o_sponsor r" "o_price (bump t r) = o_price r" "o_deadline (bump t r) = o_deadline r"
  "o_payout_sat (bump t r) = o_payout_sat r" "o_escrow_hash (bump t r) = o_escrow_hash r"
  "o_sponsor_invoice (bump t r) = o_sponsor_invoice r" "o_disbursed (bump t r) = o_disbursed r"
  "o_payout_error (bump t r) = o_payout_error r" "o_pending_close (bump t r) = o_pending_close r"
  "o_close_reason (bump t r) = o_close_reason r" "o_designated_sponsor (bump t r) = o_designated_sponsor r"
  "o_customer_deposit_hash (bump t r) = o_customer_deposit_hash r"
  "o_created_at (bump t r) = o_created_at r" "o_version (bump t r) = Suc (o_version r)"
  "order_ok (bump t r) \<longleftrightarrow> order_ok (r\<lparr>o_version := Suc (o_version r)\<rparr>)"
  by (simp_all add: bump_def order_ok_def)

definition same_trade :: "ln_order \<Rightarrow> ln_order \<Rightarrow> bool" where
  "same_trade r r' \<longleftrightarrow> o_id r' = o_id r \<and> o_customer r' = o_customer r \<and> o_price r' = o_price r
     \<and> o_deadline r' = o_deadline r \<and> o_designated_sponsor r' = o_designated_sponsor r
     \<and> o_created_at r' = o_created_at r \<and> o_customer_deposit_hash r' = o_customer_deposit_hash r
     \<and> o_version r' = o_version r \<and> (o_disbursed r \<longrightarrow> o_disbursed r')
     \<and> (o_state r' = o_state r \<or> can_transition (o_state r) (o_state r'))
     \<and> (ln_terminal (o_state r) \<longrightarrow> o_close_reason r' = o_close_reason r)"

text \<open>The one lemma behind every change of an order.\<close>

lemma update_order_ok:
  assumes "update_order oid patch w = Some (r', w')" and "get_order oid w = Some r"
    and "order_ok r \<Longrightarrow> order_ok (patch r)" and "order_ok r \<Longrightarrow> same_trade r (patch r)"
  shows "ln_ok e w w'"
proof (unfold ln_ok_def, intro impI)
  assume inv: "ln_winv e w"
  have ok: "order_ok r" using ln_winv_order [OF inv assms(2)] .
  have st: "same_trade r (patch r)" and okp: "order_ok (patch r)" using assms(3,4) ok by blast+
  define f where "f = (\<lambda>x. bump (now_sec w) (patch x))"
  define w1 where "w1 = w\<lparr>ln_orders := update_where (\<lambda>x. o_id x = oid) f (ln_orders w)\<rparr>"
  have w': "quiet w1 w'" using assms(1,2) by (auto simp: update_order_def w1_def f_def)
  have rest: "holds_keep w w' \<and> q_now w' = q_now w \<and> db.more w' = db.more w"
    using quietD(1,2,6) [OF w'] by (simp add: w1_def)
  have li: "ln_inv w" using inv by (simp add: ln_winv_def hold_inv_def)
  have rin: "r \<in> set (ln_orders w)" and rid: "o_id r = oid" using get_order_Some [OF assms(2)] by auto
  have only: "x = r" if "x \<in> set (ln_orders w)" "o_id x = oid" for x
    using that rin rid li unfolding ln_inv_def by (metis distinct_map inj_onD)
  have fr: "o_id (f r) = oid" "order_ok (f r)" "order_evolves r (f r)"
  proof -
    show "o_id (f r) = oid" using st rid by (simp add: f_def same_trade_def)
    show "order_ok (f r)" using okp by (simp add: f_def order_ok_def)
    show "order_evolves r (f r)" using st by (auto simp: f_def same_trade_def order_evolves_def)
  qed
  have upd: "update_where (\<lambda>x. o_id x = oid) f (ln_orders w)
      = map (\<lambda>x. if x = r then f r else x) (ln_orders w)"
    unfolding update_where_def
  proof (rule map_cong [OF refl])
    fix x assume x: "x \<in> set (ln_orders w)"
    show "(if o_id x = oid then f x else x) = (if x = r then f r else x)"
      using only [OF x] rid by (cases "o_id x = oid") auto
  qed
  have ids: "map o_id (ln_orders w1) = map o_id (ln_orders w)"
    unfolding w1_def upd using fr(1) rid by auto
  have set1: "x \<in> set (ln_orders w1) \<Longrightarrow> x \<in> set (ln_orders w) \<or> x = f r" for x
    by (auto simp: w1_def upd split: if_splits)
  have drafts1: "ln_drafts w1 = ln_drafts w" by (simp add: w1_def)
  have dis: "d_id d \<noteq> o_id x" if "d \<in> set (ln_drafts w)" "x \<in> set (ln_orders w1)" for d x
    using set1 [OF that(2)] that(1) li rin rid fr(1) unfolding ln_inv_def by auto
  have ok1: "order_ok x" if "x \<in> set (ln_orders w1)" for x
    using set1 [OF that] li fr(2) unfolding ln_inv_def by auto
  have li1: "ln_inv w1"
    unfolding ln_inv_def ids drafts1 using li [unfolded ln_inv_def] dis ok1 by simp
  have ev: "orders_evolve w w1"
  proof (unfold orders_evolve_def, intro allI impI)
    fix i x assume x: "get_order i w = Some x"
    have xin: "x \<in> set (ln_orders w)" "o_id x = i" using get_order_Some [OF x] by auto
    let ?x' = "if x = r then f r else x"
    have "?x' \<in> set (ln_orders w1)" using xin by (auto simp: w1_def upd)
    moreover have "o_id ?x' = i" using xin fr(1) rid by auto
    moreover have "distinct (map o_id (ln_orders w1))" using li1 by (simp add: ln_inv_def)
    ultimately have "get_order i w1 = Some ?x'"
      unfolding get_order_def using find_key_distinct [of o_id "ln_orders w1" ?x'] by simp
    moreover have "order_evolves x ?x'" using fr(3) by simp
    ultimately show "\<exists>x'. get_order i w1 = Some x' \<and> order_evolves x x'" by blast
  qed
  have "ln_winv e w1" using inv li1 by (simp add: ln_winv_def hold_inv_def w1_def q_wf_def hold_wf_def)
  then have "ln_winv e w' \<and> orders_evolve w1 w'" using ln_ok_quiet [OF w'] by (auto simp: ln_ok_def)
  with ev rest show "ln_winv e w' \<and> orders_evolve w w' \<and> holds_keep w w' \<and> q_now w' = q_now w \<and> db.more w' = db.more w"
    using orders_evolve_trans by blast
qed

lemma update_order_Some:
  "get_order oid w = Some r \<Longrightarrow> \<exists>w'. update_order oid patch w = Some (bump (now_sec w) (patch r), w')"
  by (simp add: update_order_def)

lemma ln_ok_invoices:
  assumes "hold_wf e w \<Longrightarrow> hold_wf e (w\<lparr>invoices := rs\<rparr>)" and "holds_keep w (w\<lparr>invoices := rs\<rparr>)"
  shows "ln_ok e w (w\<lparr>invoices := rs\<rparr>)"
  using assms by (auto simp: ln_ok_def ln_winv_def hold_inv_def ln_inv_def q_wf_def orders_evolve_def get_order_def)

lemma ln_ok_delete_draft [simp]: "ln_ok e w (delete_draft oid w)"
  by (auto simp: ln_ok_def ln_winv_def hold_inv_def ln_inv_def q_wf_def hold_wf_def delete_draft_def
      orders_evolve_def get_order_def distinct_map_filter)

lemma find_None_key: "List.find (\<lambda>x. k x = v) xs = None \<longleftrightarrow> v \<notin> k ` set xs"
  unfolding find_None_iff by (auto simp: image_iff)

lemma ln_ok_insert_draft:
  assumes "insert_draft d w = Some w'" and "get_order (d_id d) w = None"
  shows "ln_ok e w w'"
  using assms unfolding insert_draft_def get_draft_def get_order_def
  by (auto simp: ln_ok_def ln_winv_def hold_inv_def ln_inv_def q_wf_def hold_wf_def
      orders_evolve_def get_order_def find_None_key split: if_splits)

lemma new_order_ok: "order_ok (new_order oid c p d dh ds t)"
  by (simp add: order_ok_def new_order_def has_sponsor_states_def funded_states_def invoiced_states_def
      is_manual_payout_def)

lemma insert_order_ok:
  assumes "insert_order e oid c p d dh ds w = Some w'" and "get_draft oid w = None"
  shows "ln_ok e w w'"
proof -
  let ?r = "new_order oid c p d dh ds (now_sec w)"
  define w1 where "w1 = w\<lparr>ln_orders := ln_orders w @ [?r]\<rparr>"
  obtain b w2 where bw: "designated_quiet_over ''dm:ln'' (request_projection oid w1) = (b, w2)" by force
  have q2: "quiet w1 w2" by (rule quiet_trans [OF quiet_store(2) quiet_over [OF bw]])
  have none: "get_order oid w = None"
    using assms(1) by (simp add: insert_order_def split: if_splits)
  then have "w' = notify_operators e (request_projection oid w1) \<or> w' = notify_operators e w2 \<or> w' = w2"
    using assms(1) bw by (auto simp: insert_order_def w1_def Let_def split: if_splits)
  then have q: "quiet w1 w'"
    using q2 quiet_trans [OF quiet_store(2) quiet_notify_operators] quiet_trans [OF q2 quiet_notify_operators]
    by blast
  have rid: "o_id ?r = oid" by (simp add: new_order_def)
  have "ln_ok e w w1"
    using none assms(2) new_order_ok [of oid c p d dh ds "now_sec w"]
    by (auto simp: ln_ok_def ln_winv_def hold_inv_def ln_inv_def q_wf_def hold_wf_def w1_def rid
        orders_evolve_def get_order_def get_draft_def find_None_key find_append)
  then show ?thesis using q by (rule ln_ok_quiet_after)
qed

end
