(* ===== verification/Ln_Flow.thy ===== *)
theory Ln_Flow
  imports Ln_Store
begin

text \<open>
  The actions of a Lightning trade (\<open>daemon/src/ln/flow.ts\<close>): deposits, claim, approval, escrow, closing
  and payout, and the hooks the hold machinery calls for the track's invoices.  An action that may
  throw returns an option; \<open>None\<close> is the throw.
\<close>

definition LN_HOLD_PURPOSES :: "hold_purpose list" where
  "LN_HOLD_PURPOSES = [Ln_escrow, Ln_customer_deposit, Ln_sponsor_deposit]"

definition MIN_DEPOSIT_PAY_WINDOW_SEC :: sec where "MIN_DEPOSIT_PAY_WINDOW_SEC = 5 * 60"

definition ln_changed :: "string \<Rightarrow> 'm db_scheme \<Rightarrow> 'm db_scheme" where
  "ln_changed oid w = (if get_order oid w \<noteq> None then request_detail oid w else w)"

definition plan_ln_hold ::
  "env \<Rightarrow> hold_purpose \<Rightarrow> string \<Rightarrow> string \<Rightarrow> sat \<Rightarrow> sec \<Rightarrow> sec \<Rightarrow> 'm db_scheme
   \<Rightarrow> (hold_row \<times> 'm db_scheme) option" where
  "plan_ln_hold e purpose oid party amount payBy holdUntil w =
     hold_plan e (\<lambda>_. ln_changed) purpose oid party amount (of_int payBy) (cltv_blocks_for (holdUntil - now_sec w)) w"

subsection \<open>Payout and closing\<close>

definition request_payout :: "string \<Rightarrow> 'm db_scheme \<Rightarrow> 'm db_scheme" where
  "request_payout oid w =
     (let dedup = ''ln.payout:'' @ oid in
      case insert_effect ''ln.payout'' (P_ln_payout oid) (Some dedup) 0 w of
        (added, w') \<Rightarrow> if added then w' else snd (expedite dedup w'))"

definition begin_close :: "ln_order \<Rightarrow> close_reason \<Rightarrow> 'm db_scheme \<Rightarrow> (bool \<times> 'm db_scheme) option" where
  "begin_close order reason w =
     (if o_pending_close order \<noteq> None \<or> ln_terminal (o_state order) then Some (False, w)
      else if \<not> can_transition (o_state order) (cl_terminal (close_rules reason)) then None
      else do {
        (_, w1) \<leftarrow> update_order (o_id order) (\<lambda>r. r\<lparr>o_pending_close := Some reason\<rparr>) w;
        Some (True, enq ''ln.close'' (P_ln_close (o_id order)) (Some (''ln.close:'' @ o_id order)) w1)
      })"

fun record_disposals ::
  "'m hooks_for \<Rightarrow> (hex \<times> hold_final) list \<Rightarrow> 'm db_scheme \<Rightarrow> 'm db_scheme option" where
  "record_disposals hooks [] w = Some w"
| "record_disposals hooks ((hash, final) # rest) w =
     Option.bind (record_disposal hooks hash final Via_batch w) (record_disposals hooks rest)"

definition finish_close ::
  "env \<Rightarrow> 'm hooks_for \<Rightarrow> string \<Rightarrow> (hex \<times> hold_final) list \<Rightarrow> 'm db_scheme \<Rightarrow> 'm db_scheme option" where
  "finish_close e hooks oid finals w =
     (case get_order oid w of
        None \<Rightarrow> Some w
      | Some order \<Rightarrow>
          (case o_pending_close order of
             None \<Rightarrow> Some w
           | Some reason \<Rightarrow>
               (let rule = close_rules reason;
                    escrowFinal = Option.bind (o_escrow_hash order) (map_of finals) in
                do {
                  w1 \<leftarrow> record_disposals hooks finals w;
                  let w2 = (if cl_escrow rule = Cancel \<and> escrowFinal = Some F_settled
                            then raise_alert e (''ln:'' @ oid @ '':refund-manually'') Anomaly (Some Track_ln) (Some oid) w1
                            else w1);
                  (closed, w3) \<leftarrow> update_order oid
                    (\<lambda>r. r\<lparr>o_state := cl_terminal rule, o_close_reason := Some reason, o_pending_close := None\<rparr>) w2;
                  let w4 = notify_ln_transition closed w3;
                  Some (if cl_terminal rule = Paid \<or> cl_terminal rule = Sponsor_wins
                        then request_payout oid w4 else w4)
                })))"

definition abandon_close :: "env \<Rightarrow> string \<Rightarrow> 'm db_scheme \<Rightarrow> 'm db_scheme option" where
  "abandon_close e oid w =
     (case get_order oid w of
        None \<Rightarrow> Some w
      | Some order \<Rightarrow>
          if o_pending_close order = None then Some w
          else do {
            let w1 = raise_alert e (''ln:'' @ oid @ '':close-failed:'' @ nat_digits (o_version order))
                       Anomaly (Some Track_ln) (Some oid) w;
            (_, w2) \<leftarrow> update_order oid (\<lambda>r. r\<lparr>o_pending_close := None\<rparr>) w1;
            Some w2
          })"

subsection \<open>Claiming\<close>

fun dispose_all :: "hold_row list \<Rightarrow> 'm db_scheme \<Rightarrow> 'm db_scheme" where
  "dispose_all [] w = w"
| "dispose_all (iv # ivs) w = dispose_all ivs (hold_dispose (h_hash iv) Want_cancel w)"

text \<open>The invoices a reverted claim gives back: live escrows, and the live deposit of this sponsor.\<close>

definition revert_invoices :: "ln_order \<Rightarrow> 'm db_scheme \<Rightarrow> hold_row list" where
  "revert_invoices order w =
     filter (\<lambda>iv. is_live_hold iv \<and>
         (h_purpose iv = Ln_escrow \<or> (h_purpose iv = Ln_sponsor_deposit \<and> Some (h_party iv) = o_sponsor order)))
       (hold_of (o_id order) LN_HOLD_PURPOSES w)"

definition revert_claim :: "ln_order \<Rightarrow> 'm db_scheme \<Rightarrow> (ln_order \<times> 'm db_scheme) option" where
  "revert_claim order w =
     update_order (o_id order)
       (\<lambda>r. r\<lparr>o_state := Requested, o_sponsor := None, o_claimed_at := None, o_payout_sat := None,
             o_escrow_hash := None, o_sponsor_deposit_hash := None\<rparr>)
       (dispose_all (revert_invoices order w) w)"

definition deposit_sat :: "rat \<Rightarrow> rat \<Rightarrow> sat" where
  "deposit_sat basis pct = max 1 (js_round (fl (fl (basis * pct) / 100)))"

definition plan_customer_deposit ::
  "env \<Rightarrow> ln_draft \<Rightarrow> rat \<Rightarrow> 'm db_scheme \<Rightarrow> (bool \<times> 'm db_scheme) option" where
  "plan_customer_deposit e draft pct w =
     (case e_price e of
        None \<Rightarrow> Some (False, w)
      | Some btc \<Rightarrow>
          if btc = 0 then Some (False, w)
          else
            (let now = now_sec w;
                 payBy = min (now + CUSTOMER_DEPOSIT_PAY_SEC) (d_deadline draft - LN_MIN_CLAIM_LEAD_SEC) in
             if payBy - now < MIN_DEPOSIT_PAY_WINDOW_SEC then Some (True, delete_draft (d_id draft) w)
             else do {
               (_, w1) \<leftarrow> plan_ln_hold e Ln_customer_deposit (d_id draft) (d_customer draft)
                 (deposit_sat (fl (fl (of_int (d_price draft) / btc) * 10 ^ 8)) pct) payBy
                 (d_deadline draft + CUSTOMER_DEPOSIT_MARGIN_SEC) w;
               Some (True, w1)
             }))"

text \<open>The payout at the current price, when there is one (\<open>btc ? computePayoutSat(...) : null\<close>).\<close>

definition payout_now :: "env \<Rightarrow> krw \<Rightarrow> sat option" where
  "payout_now e price =
     (case e_price e of
        None \<Rightarrow> None
      | Some btc \<Rightarrow> if btc = 0 then None else compute_payout_sat (Fin (of_int price)) (Fin btc))"

definition plan_sponsor_deposit ::
  "env \<Rightarrow> ln_order \<Rightarrow> rat \<Rightarrow> 'm db_scheme \<Rightarrow> (bool \<times> 'm db_scheme) option" where
  "plan_sponsor_deposit e order pct w =
     (case o_sponsor order of
        None \<Rightarrow> Some (False, w)
      | Some sponsor \<Rightarrow>
          if sponsor = [] then Some (False, w)
          else (case payout_now e (o_price order) of
             None \<Rightarrow> Some (False, w)
           | Some basis \<Rightarrow> do {
               (_, w1) \<leftarrow> plan_ln_hold e Ln_sponsor_deposit (o_id order) sponsor
                 (deposit_sat (of_int basis) pct) (now_sec w + SPONSOR_DEPOSIT_PAY_SEC)
                 (o_deadline order + SPONSOR_DEPOSIT_MARGIN_SEC) w;
               Some (True, w1)
             }))"

definition on_customer_deposit_accepted :: "env \<Rightarrow> hold_row \<Rightarrow> 'm db_scheme \<Rightarrow> 'm db_scheme option" where
  "on_customer_deposit_accepted e iv w =
     (case get_draft (h_order iv) w of
        None \<Rightarrow> Some (hold_dispose (h_hash iv) Want_cancel w)
      | Some draft \<Rightarrow>
          if d_customer draft \<noteq> h_party iv \<or> get_order (h_order iv) w \<noteq> None
          then Some (hold_dispose (h_hash iv) Want_cancel w)
          else do {
            w1 \<leftarrow> insert_order e (d_id draft) (d_customer draft) (d_price draft) (d_deadline draft)
                    (Some (h_hash iv)) None (delete_draft (d_id draft) w);
            Some (send_deposit_status e (h_order iv) (h_party iv) Dep_accepted (h_hash iv) w1)
          })"

definition on_sponsor_deposit_accepted :: "env \<Rightarrow> hold_row \<Rightarrow> 'm db_scheme \<Rightarrow> 'm db_scheme option" where
  "on_sponsor_deposit_accepted e iv w =
     (case get_order (h_order iv) w of
        None \<Rightarrow> Some (hold_dispose (h_hash iv) Want_cancel w)
      | Some order \<Rightarrow>
          if o_state order \<noteq> Claimed \<or> o_sponsor order \<noteq> Some (h_party iv) \<or> o_pending_close order \<noteq> None
          then Some (hold_dispose (h_hash iv) Want_cancel w)
          else do {
            (_, w1) \<leftarrow> update_order (o_id order) (\<lambda>r. r\<lparr>o_sponsor_deposit_hash := Some (h_hash iv)\<rparr>) w;
            Some (send_deposit_status e (h_order iv) (h_party iv) Dep_accepted (h_hash iv) w1)
          })"

subsection \<open>Approval\<close>

datatype approve_error = Not_claimed | Closing | In_progress | Deposit_unpaid | Too_late | No_price

definition sponsor_deposit_required :: "ln_order \<Rightarrow> 'm db_scheme \<Rightarrow> bool" where
  "sponsor_deposit_required order w \<longleftrightarrow>
     \<not> js_true_s (o_designated_sponsor order) \<and> st_sponsor_pct (db_settings w) > 0"

definition approve_blocker :: "ln_order \<Rightarrow> 'm db_scheme \<Rightarrow> approve_error option" where
  "approve_blocker order w =
     (let now = now_sec w in
      if o_state order \<noteq> Claimed \<or> \<not> js_true_s (o_sponsor order) then Some Not_claimed
      else if o_pending_close order \<noteq> None then Some Closing
      else if js_true_s (o_escrow_hash order) then Some In_progress
      else if sponsor_deposit_required order w \<and> \<not> js_true_s (o_sponsor_deposit_hash order) then Some Deposit_unpaid
      else if escrow_pay_by (o_deadline order) now - now < MIN_ESCROW_PAY_WINDOW_SEC then Some Too_late
      else None)"

definition approve :: "env \<Rightarrow> ln_order \<Rightarrow> 'm db_scheme \<Rightarrow> (approve_error option \<times> 'm db_scheme) option" where
  "approve e order w =
     (case approve_blocker order w of
        Some b \<Rightarrow> Some (Some b, w)
      | None \<Rightarrow>
          (case payout_now e (o_price order) of
             None \<Rightarrow> Some (Some No_price, w)
           | Some payoutSat \<Rightarrow>
               (let payBy = escrow_pay_by (o_deadline order) (now_sec w) in
                do {
                  (iv, w1) \<leftarrow> plan_ln_hold e Ln_escrow (o_id order) (o_customer order)
                    (compute_escrow_sat payoutSat) payBy (escrow_hold_until payBy (o_deadline order)) w;
                  (_, w2) \<leftarrow> update_order (o_id order)
                    (\<lambda>r. r\<lparr>o_payout_sat := Some payoutSat, o_escrow_hash := Some (h_hash iv)\<rparr>) w1;
                  Some (None, w2)
                })))"

definition on_escrow_accepted :: "hold_row \<Rightarrow> 'm db_scheme \<Rightarrow> 'm db_scheme option" where
  "on_escrow_accepted iv w =
     (case get_order (h_order iv) w of
        None \<Rightarrow> Some (hold_dispose (h_hash iv) Want_cancel w)
      | Some order \<Rightarrow>
          if o_escrow_hash order \<noteq> Some (h_hash iv) then Some (hold_dispose (h_hash iv) Want_cancel w)
          else if o_pending_close order \<noteq> None \<or> ln_terminal (o_state order) then Some w
          else if o_state order \<noteq> Verified then Some w
          else do {
            (escrowed, w1) \<leftarrow> update_order (o_id order)
              (\<lambda>r. r\<lparr>o_state := Escrowed,
                 o_invoice_deadline := Some (invoice_deadline_for (now_sec w) (o_deadline order))\<rparr>) w;
            Some (notify_ln_transition escrowed w1)
          })"

subsection \<open>The hooks of the track's hold invoices\<close>

definition ln_created :: "env \<Rightarrow> hold_row \<Rightarrow> 'm db_scheme \<Rightarrow> 'm db_scheme option" where
  "ln_created e iv w =
     (case h_purpose iv of
        Ln_customer_deposit \<Rightarrow>
          if get_draft (h_order iv) w \<noteq> None then
            Some (notify_deposit_required (h_party iv) (h_order iv) False (h_hash iv)
              (send_deposit_required e (h_order iv) (h_party iv) (h_bolt11 iv) (h_pay_by iv) (h_hash iv) w))
          else Some (hold_dispose (h_hash iv) Want_cancel w)
      | Ln_sponsor_deposit \<Rightarrow>
          (case get_order (h_order iv) w of
             Some order \<Rightarrow>
               if o_state order = Claimed \<and> o_sponsor order = Some (h_party iv) \<and> o_pending_close order = None then
                 Some (request_projection (o_id order)
                   (notify_deposit_required (h_party iv) (h_order iv) True (h_hash iv)
                     (send_deposit_required e (h_order iv) (h_party iv) (h_bolt11 iv) (h_pay_by iv) (h_hash iv) w)))
               else Some (hold_dispose (h_hash iv) Want_cancel w)
           | None \<Rightarrow> Some (hold_dispose (h_hash iv) Want_cancel w))
      | Ln_escrow \<Rightarrow>
          (case get_order (h_order iv) w of
             Some order \<Rightarrow>
               if o_state order = Claimed \<and> o_escrow_hash order = Some (h_hash iv) \<and> o_pending_close order = None then
                 do {
                   (verified, w1) \<leftarrow> update_order (o_id order)
                     (\<lambda>r. r\<lparr>o_state := Verified, o_escrow_bolt11 := Some (h_bolt11 iv)\<rparr>) w;
                   Some (notify_ln_transition verified w1)
                 }
               else Some (hold_dispose (h_hash iv) Want_cancel w)
           | None \<Rightarrow> Some (hold_dispose (h_hash iv) Want_cancel w))
      | _ \<Rightarrow> Some w)"

definition ln_create_failed :: "hold_row \<Rightarrow> 'm db_scheme \<Rightarrow> 'm db_scheme option" where
  "ln_create_failed iv w =
     (case h_purpose iv of
        Ln_customer_deposit \<Rightarrow> Some (delete_draft (h_order iv) w)
      | Ln_sponsor_deposit \<Rightarrow>
          (case get_order (h_order iv) w of
             Some order \<Rightarrow>
               if o_state order = Claimed \<and> o_sponsor order = Some (h_party iv) \<and> o_pending_close order = None
               then map_option snd (revert_claim order w) else Some w
           | None \<Rightarrow> Some w)
      | Ln_escrow \<Rightarrow>
          (case get_order (h_order iv) w of
             Some order \<Rightarrow>
               if o_state order = Claimed \<and> o_escrow_hash order = Some (h_hash iv)
               then map_option snd (update_order (o_id order)
                      (\<lambda>r. r\<lparr>o_escrow_hash := None, o_payout_sat := None\<rparr>) w)
               else Some w
           | None \<Rightarrow> Some w)
      | _ \<Rightarrow> Some w)"

definition ln_accepted :: "env \<Rightarrow> hold_row \<Rightarrow> 'm db_scheme \<Rightarrow> 'm db_scheme option" where
  "ln_accepted e iv w =
     (if h_purpose iv = Ln_customer_deposit then on_customer_deposit_accepted e iv w
      else if h_purpose iv = Ln_sponsor_deposit then on_sponsor_deposit_accepted e iv w
      else on_escrow_accepted iv w)"

definition escrow_node_cancelled :: "env \<Rightarrow> hold_row \<Rightarrow> ln_order \<Rightarrow> 'm db_scheme \<Rightarrow> 'm db_scheme option" where
  "escrow_node_cancelled e before order w =
     (if o_escrow_hash order \<noteq> Some (h_hash before) \<or> o_pending_close order \<noteq> None then Some w
      else if o_state order = Verified then map_option snd (begin_close order CR_cancel_unpaid_escrow w)
      else if h_status before = H_accepted then
        (let w1 = raise_alert e (''ln:'' @ o_id order @ '':escrow-timed-out'') Anomaly (Some Track_ln)
                    (Some (o_id order)) w in
         case expiry_reason_for (o_state order) (o_sponsor order \<noteq> None) (o_account_sent_at order \<noteq> None) of
           Some reason \<Rightarrow> map_option snd (begin_close order reason w1)
         | None \<Rightarrow> Some w1)
      else Some w)"

definition ln_node_cancelled :: "env \<Rightarrow> hold_row \<Rightarrow> 'm db_scheme \<Rightarrow> 'm db_scheme option" where
  "ln_node_cancelled e before w =
     (if h_purpose before = Ln_customer_deposit then
        Some (send_deposit_status e (h_order before) (h_party before) Dep_cancelled (h_hash before)
          (if get_draft (h_order before) w \<noteq> None then delete_draft (h_order before) w else w))
      else if h_purpose before = Ln_sponsor_deposit then
        (let w1 = send_deposit_status e (h_order before) (h_party before) Dep_cancelled (h_hash before) w in
         case get_order (h_order before) w of
           Some order \<Rightarrow>
             if o_state order = Claimed \<and> o_sponsor order = Some (h_party before)
                \<and> \<not> js_true_s (o_sponsor_deposit_hash order) \<and> o_pending_close order = None
             then map_option snd (revert_claim order w1) else Some w1
         | None \<Rightarrow> Some w1)
      else (case get_order (h_order before) w of
              Some order \<Rightarrow> escrow_node_cancelled e before order w
            | None \<Rightarrow> Some w))"

fun final_deposit_status :: "hold_final \<Rightarrow> deposit_status" where
  "final_deposit_status F_settled = Dep_settled"
| "final_deposit_status F_cancelled = Dep_cancelled"

definition ln_disposed :: "env \<Rightarrow> hold_row \<Rightarrow> hold_final \<Rightarrow> via \<Rightarrow> 'm db_scheme \<Rightarrow> 'm db_scheme option" where
  "ln_disposed e before final v w =
     (if h_purpose before \<noteq> Ln_escrow then
        Some (if h_status before = H_open \<or> h_status before = H_accepted
              then send_deposit_status e (h_order before) (h_party before) (final_deposit_status final) (h_hash before) w
              else w)
      else do {
        w1 \<leftarrow> (case get_order (h_order before) w of
                 Some order \<Rightarrow>
                   if final = F_settled \<and> \<not> o_escrow_settled order
                   then map_option snd (update_order (o_id order) (\<lambda>r. r\<lparr>o_escrow_settled := True\<rparr>) w)
                   else Some w
               | None \<Rightarrow> Some w);
        Some (if v \<noteq> Via_settle then w1
              else if final = F_settled
              then raise_alert e (''ln:'' @ h_order before @ '':safety-settled'') Warn (Some Track_ln) (Some (h_order before)) w1
              else raise_alert e (''ln:'' @ h_order before @ '':safety-settle-missed'') Anomaly (Some Track_ln) (Some (h_order before)) w1)
      })"

definition ln_busy :: "hold_row \<Rightarrow> 'm db_scheme \<Rightarrow> bool" where
  "ln_busy iv w \<longleftrightarrow> list_ex (pending_with (''ln.close:'' @ h_order iv)) (q_rows w)"

definition ln_hooks :: "env \<Rightarrow> 'm hold_hooks" where
  "ln_hooks e = \<lparr>hk_created = ln_created e, hk_create_failed = ln_create_failed, hk_accepted = ln_accepted e,
     hk_node_cancelled = ln_node_cancelled e, hk_disposed = ln_disposed e, hk_changed = ln_changed,
     hk_busy = ln_busy\<rparr>"

definition sponsor_deposit_of :: "ln_order \<Rightarrow> 'm db_scheme \<Rightarrow> hold_row option" where
  "sponsor_deposit_of order w =
     (case o_sponsor order of
        None \<Rightarrow> None
      | Some s \<Rightarrow> if s = [] then None else hold_current Ln_sponsor_deposit (o_id order) s w)"

end
