(* ===== verification/Ln_Flow_Inv.thy ===== *)
theory Ln_Flow_Inv
  imports Ln_Flow
begin

text \<open>
  Every action of \<open>Ln_Flow\<close> keeps the invariants of the Lightning database and moves orders only along
  the transition table (\<open>ln_ok\<close>), and throws only when an id it was given does not exist.  The track's
  hooks therefore satisfy the contract of \<open>hold_client\<close>, and what that locale proves about observing
  and disposing of invoices applies to the Lightning track.
\<close>

lemmas state_sets = has_sponsor_states_def funded_states_def invoiced_states_def

lemma update_order_ok':
  assumes "update_order (o_id r) patch w = Some (r', w')" and "get_order (o_id r) w = Some r"
    and "order_ok r \<Longrightarrow> order_ok (patch r)" and "order_ok r \<Longrightarrow> same_trade r (patch r)"
  shows "ln_ok e w w'"
  using assms by (rule update_order_ok)

lemma get_order_id: "get_order oid w = Some r \<Longrightarrow> get_order (o_id r) w = Some r"
  by (auto dest: get_order_Some)

lemma quiet_ln_changed [simp]: "quiet w (ln_changed oid w)"
  by (simp add: ln_changed_def)

lemma quiet_dispose_all [simp]: "quiet w (dispose_all ivs w)"
  by (induction ivs arbitrary: w) (auto intro: quiet_trans [OF quiet_hold_dispose])

lemma quiet_insert_effect: "quiet w (snd (insert_effect k p d 0 w))"
  using quiet_enq [of w k p d] by (simp add: enq_def)

lemma quiet_request_payout [simp]: "quiet w (request_payout oid w)"
proof -
  obtain b w1 where b: "insert_effect ''ln.payout'' (P_ln_payout oid) (Some (''ln.payout:'' @ oid)) 0 w = (b, w1)"
    by force
  have "quiet w w1" using quiet_insert_effect [of w "''ln.payout''" "P_ln_payout oid" "Some (''ln.payout:'' @ oid)"] b
    by simp
  then show ?thesis
    unfolding request_payout_def Let_def b prod.case
    by (simp add: quiet_trans [OF _ quiet_expedite])
qed

lemma request_payout_pending:
  "list_ex (pending_with (''ln.payout:'' @ oid)) (q_rows (request_payout oid w))"
proof -
  let ?d = "''ln.payout:'' @ oid"
  have "list_ex (pending_with d) (update_where (pending_with d) (\<lambda>r. r\<lparr>ef_next_at := t\<rparr>) rows)
      = list_ex (pending_with d) rows" for d t and rows :: "payload effect_row list"
    by (induction rows) (auto simp: pending_with_def is_pending_def)
  then show ?thesis
    by (auto simp: request_payout_def Let_def insert_effect_def dedup_clash_def expedite_def new_row_def
        pending_with_def is_pending_def)
qed

lemma hold_plan_ln_ok:
  assumes "plan_ln_hold e p oid party amt pb hu w = Some (row, w')"
  shows "ln_ok e w w'" and "get_order i w' = get_order i w" and "now_sec w' = now_sec w"
    and "ln_drafts w' = ln_drafts w" and "db_settings w' = db_settings w"
proof -
  let ?w1 = "w\<lparr>invoices := invoices w @ [row]\<rparr>"
  have wf: "hold_wf e w \<Longrightarrow> hold_wf e w'"
    using hold_plan_wf(1) [OF _ assms [unfolded plan_ln_hold_def]] by simp
  have q: "quiet ?w1 w'" and i: "invoices w' = invoices w @ [row]"
  proof -
    have w': "w' = ln_changed oid (enq ''hold.create'' (P_hold_create (h_hash row))
       (Some (''hold:'' @ h_hash row)) ?w1)"
      using assms by (auto simp: plan_ln_hold_def hold_plan_def Let_def split: if_splits)
    show q: "quiet ?w1 w'" unfolding w' by (rule quiet_trans [OF quiet_enq quiet_ln_changed])
    show "invoices w' = invoices w @ [row]" using quietD(2) [OF q] by simp
  qed
  have "hold_wf e w \<Longrightarrow> hold_wf e ?w1" using wf i by (simp add: hold_wf_def)
  then have "ln_ok e w ?w1" by (rule ln_ok_invoices) (auto simp: holds_keep_def hold_keys_def)
  with q show "ln_ok e w w'" by (rule ln_ok_quiet_after [rotated])
  show "get_order i w' = get_order i w" "now_sec w' = now_sec w" "ln_drafts w' = ln_drafts w"
    "db_settings w' = db_settings w"
    using q by (simp_all add: quiet_def get_order_def now_sec_def)
qed

subsection \<open>Closing\<close>

lemma begin_close_ok:
  assumes "begin_close r c w = Some (b, w')" and "get_order (o_id r) w = Some r"
  shows "ln_ok e w w'"
proof (cases "o_pending_close r \<noteq> None \<or> ln_terminal (o_state r)")
  case True
  with assms show ?thesis by (simp add: begin_close_def)
next
  case False
  then obtain r1 w1 where can: "can_transition (o_state r) (cl_terminal (close_rules c))"
    and u: "update_order (o_id r) (\<lambda>r. r\<lparr>o_pending_close := Some c\<rparr>) w = Some (r1, w1)"
    and w': "w' = enq ''ln.close'' (P_ln_close (o_id r)) (Some (''ln.close:'' @ o_id r)) w1"
    using assms(1) by (auto simp: begin_close_def split: if_splits)
  have "ln_ok e w w1"
    by (rule update_order_ok' [OF u assms(2)])
      (use False can in \<open>auto simp: order_ok_def same_trade_def\<close>)
  then show ?thesis unfolding w' by (rule ln_ok_quiet_after) simp
qed

lemma begin_close_Some:
  assumes "get_order (o_id r) w = Some r"
    and "o_pending_close r = None \<Longrightarrow> \<not> ln_terminal (o_state r) \<Longrightarrow>
         can_transition (o_state r) (cl_terminal (close_rules c))"
  shows "\<exists>b w'. begin_close r c w = Some (b, w')"
  using assms update_order_Some [OF assms(1), of "o_pending_close_update (\<lambda>_. Some c)"]
  by (auto simp: begin_close_def)

lemma record_disposals_ok:
  assumes "\<And>h f v w w'. record_disposal hooks h f v w = Some w' \<Longrightarrow> ln_ok e w w'"
  shows "record_disposals hooks fs w = Some w' \<Longrightarrow> ln_ok e w w'"
proof (induction fs arbitrary: w)
  case (Cons f fs)
  obtain h x where f: "f = (h, x)" by force
  from Cons.prems obtain w1 where "record_disposal hooks h x Via_batch w = Some w1"
    and "record_disposals hooks fs w1 = Some w'" by (auto simp: f)
  with Cons.IH assms show ?case using ln_ok_trans by blast
qed simp

lemma abandon_close_ok:
  assumes "abandon_close e oid w = Some w'"
  shows "ln_ok e w w'"
proof (cases "get_order oid w")
  case None
  with assms show ?thesis by (simp add: abandon_close_def)
next
  case (Some r)
  show ?thesis
  proof (cases "o_pending_close r = None")
    case True
    with assms Some show ?thesis by (simp add: abandon_close_def)
  next
    case False
    define w1 where "w1 = raise_alert e (''ln:'' @ oid @ '':close-failed:'' @ nat_digits (o_version r))
                       Anomaly (Some Track_ln) (Some oid) w"
    have q: "quiet w w1" by (simp add: w1_def)
    obtain r2 where u: "update_order oid (\<lambda>r. r\<lparr>o_pending_close := None\<rparr>) w1 = Some (r2, w')"
      using assms Some False by (auto simp: abandon_close_def w1_def Let_def)
    have g: "get_order oid w1 = Some r" using Some get_order_quiet [OF q] by simp
    have "ln_ok e w1 w'"
      by (rule update_order_ok [OF u g]) (auto simp: order_ok_def same_trade_def)
    with q show ?thesis by (rule ln_ok_quiet_before)
  qed
qed

subsection \<open>Claim, deposits, approval\<close>

lemma revert_claim_ok:
  assumes "revert_claim r w = Some (r', w')" and "get_order (o_id r) w = Some r"
    and "o_state r = Claimed" and "o_pending_close r = None"
  shows "ln_ok e w w'"
proof -
  let ?w1 = "dispose_all (revert_invoices r w) w"
  have g: "get_order (o_id r) ?w1 = Some r" using assms(2) by (simp add: get_order_quiet [OF quiet_dispose_all])
  have "ln_ok e ?w1 w'"
    by (rule update_order_ok' [OF assms(1) [unfolded revert_claim_def] g])
      (use assms(3,4) in \<open>auto simp: order_ok_def same_trade_def can_transition_def state_sets\<close>)
  then show ?thesis by (rule ln_ok_quiet_before [OF quiet_dispose_all])
qed

lemma plan_customer_deposit_ok:
  assumes "plan_customer_deposit e d pct w = Some (b, w')"
  shows "ln_ok e w w'"
  using assms hold_plan_ln_ok(1)
  by (auto simp: plan_customer_deposit_def Let_def split: option.splits if_splits)

lemma plan_sponsor_deposit_ok:
  assumes "plan_sponsor_deposit e r pct w = Some (b, w')"
  shows "ln_ok e w w'" and "get_order i w' = get_order i w" and "now_sec w' = now_sec w"
    and "db_settings w' = db_settings w"
  using assms hold_plan_ln_ok
  by (fastforce simp: plan_sponsor_deposit_def split: option.splits if_splits)+

lemma on_customer_deposit_accepted_ok:
  assumes "on_customer_deposit_accepted e iv w = Some w'"
  shows "ln_ok e w w'"
proof (cases "get_draft (h_order iv) w")
  case None
  with assms show ?thesis by (auto simp: on_customer_deposit_accepted_def ln_ok_quiet)
next
  case (Some d)
  show ?thesis
  proof (cases "d_customer d \<noteq> h_party iv \<or> get_order (h_order iv) w \<noteq> None")
    case True
    with Some assms show ?thesis by (auto simp: on_customer_deposit_accepted_def ln_ok_quiet)
  next
    case False
    let ?w0 = "delete_draft (d_id d) w"
    obtain w1 where i: "insert_order e (d_id d) (d_customer d) (d_price d) (d_deadline d)
        (Some (h_hash iv)) None ?w0 = Some w1"
      and w': "w' = send_deposit_status e (h_order iv) (h_party iv) Dep_accepted (h_hash iv) w1"
      using assms Some False by (auto simp: on_customer_deposit_accepted_def)
    have "get_draft (d_id d) ?w0 = None"
      by (auto simp: get_draft_def delete_draft_def find_None_key)
    with i have "ln_ok e ?w0 w1" by (rule insert_order_ok)
    with ln_ok_delete_draft have "ln_ok e w w1" by (rule ln_ok_trans)
    then show ?thesis unfolding w' by (rule ln_ok_quiet_after) simp
  qed
qed

lemma on_sponsor_deposit_accepted_ok:
  assumes "on_sponsor_deposit_accepted e iv w = Some w'"
  shows "ln_ok e w w'"
proof (cases "get_order (h_order iv) w")
  case None
  with assms show ?thesis by (auto simp: on_sponsor_deposit_accepted_def ln_ok_quiet)
next
  case (Some r)
  have g: "get_order (o_id r) w = Some r" using Some by (rule get_order_id)
  show ?thesis
  proof (cases "o_state r \<noteq> Claimed \<or> o_sponsor r \<noteq> Some (h_party iv) \<or> o_pending_close r \<noteq> None")
    case True
    with Some assms show ?thesis by (auto simp: on_sponsor_deposit_accepted_def ln_ok_quiet)
  next
    case False
    then obtain r1 w1 where u: "update_order (o_id r) (\<lambda>r. r\<lparr>o_sponsor_deposit_hash := Some (h_hash iv)\<rparr>) w = Some (r1, w1)"
      and w': "w' = send_deposit_status e (h_order iv) (h_party iv) Dep_accepted (h_hash iv) w1"
      using assms Some by (auto simp: on_sponsor_deposit_accepted_def)
    have "ln_ok e w w1" by (rule update_order_ok' [OF u g]) (auto simp: order_ok_def same_trade_def)
    then show ?thesis unfolding w' by (rule ln_ok_quiet_after) simp
  qed
qed

lemma payout_now_pos: "payout_now e p = Some n \<Longrightarrow> 0 < n"
  by (auto simp: payout_now_def compute_payout_positive split: option.splits if_splits)

lemma approve_ok:
  assumes "approve e r w = Some (err, w')" and "get_order (o_id r) w = Some r"
  shows "ln_ok e w w'"
proof (cases "approve_blocker r w")
  case (Some b)
  with assms show ?thesis by (simp add: approve_def)
next
  case nb: None
  then have st: "o_state r = Claimed" by (auto simp: approve_blocker_def Let_def split: if_splits)
  show ?thesis
  proof (cases "payout_now e (o_price r)")
    case None
    with nb assms show ?thesis by (simp add: approve_def)
  next
    case (Some n)
    obtain iv w1 r2 where p: "plan_ln_hold e Ln_escrow (o_id r) (o_customer r) (compute_escrow_sat n)
        (escrow_pay_by (o_deadline r) (now_sec w))
        (escrow_hold_until (escrow_pay_by (o_deadline r) (now_sec w)) (o_deadline r)) w = Some (iv, w1)"
      and u: "update_order (o_id r) (\<lambda>r. r\<lparr>o_payout_sat := Some n, o_escrow_hash := Some (h_hash iv)\<rparr>) w1
        = Some (r2, w')"
      using nb Some assms(1) by (auto simp: approve_def Let_def)
    have g: "get_order (o_id r) w1 = Some r" using assms(2) hold_plan_ln_ok(2) [OF p] by simp
    have "ln_ok e w1 w'"
      by (rule update_order_ok' [OF u g])
        (use st payout_now_pos [OF Some] in \<open>auto simp: order_ok_def same_trade_def state_sets\<close>)
    with hold_plan_ln_ok(1) [OF p] show ?thesis by (rule ln_ok_trans)
  qed
qed

lemma on_escrow_accepted_ok:
  assumes "on_escrow_accepted iv w = Some w'"
  shows "ln_ok e w w'"
proof (cases "get_order (h_order iv) w")
  case None
  with assms show ?thesis by (auto simp: on_escrow_accepted_def ln_ok_quiet)
next
  case (Some r)
  have g: "get_order (o_id r) w = Some r" using Some by (rule get_order_id)
  show ?thesis
  proof (cases "o_escrow_hash r \<noteq> Some (h_hash iv) \<or> o_pending_close r \<noteq> None
      \<or> ln_terminal (o_state r) \<or> o_state r \<noteq> Verified")
    case True
    with Some assms show ?thesis by (auto simp: on_escrow_accepted_def ln_ok_quiet split: if_splits)
  next
    case False
    then obtain r1 w1 where u: "update_order (o_id r) (\<lambda>x. x\<lparr>o_state := Escrowed,
          o_invoice_deadline := Some (invoice_deadline_for (now_sec w) (o_deadline r))\<rparr>) w = Some (r1, w1)"
      and w': "w' = notify_ln_transition r1 w1"
      using assms Some by (auto simp: on_escrow_accepted_def)
    have "ln_ok e w w1"
      by (rule update_order_ok' [OF u g])
        (use False in \<open>auto simp: order_ok_def same_trade_def can_transition_def state_sets\<close>)
    then show ?thesis unfolding w' by (rule ln_ok_quiet_after) simp
  qed
qed

subsection \<open>The hooks\<close>

lemma ln_created_ok:
  assumes "ln_created e iv w = Some w'"
  shows "ln_ok e w w'"
proof (cases "h_purpose iv = Ln_escrow \<and> (\<exists>r. get_order (h_order iv) w = Some r
    \<and> o_state r = Claimed \<and> o_escrow_hash r = Some (h_hash iv) \<and> o_pending_close r = None)")
  case True
  then obtain r where p: "h_purpose iv = Ln_escrow" and r: "get_order (h_order iv) w = Some r"
    and c: "o_state r = Claimed" "o_escrow_hash r = Some (h_hash iv)" "o_pending_close r = None" by blast
  obtain r1 w1 where u: "update_order (o_id r) (\<lambda>x. x\<lparr>o_state := Verified, o_escrow_bolt11 := Some (h_bolt11 iv)\<rparr>) w
      = Some (r1, w1)" and w': "w' = notify_ln_transition r1 w1"
    using assms p r c by (auto simp: ln_created_def)
  have "ln_ok e w w1"
    by (rule update_order_ok' [OF u get_order_id [OF r]])
      (use c in \<open>auto simp: order_ok_def same_trade_def can_transition_def state_sets\<close>)
  then show ?thesis unfolding w' by (rule ln_ok_quiet_after) simp
next
  case False
  have q: "quiet w (notify_deposit_required pk oid fs h (send_deposit_required e oid' rc b pb h' w))"
    for pk oid fs h oid' rc b pb h' by (rule quiet_trans [OF quiet_store(4) quiet_store(11)])
  have "quiet w w'"
    using assms False quiet_trans [OF q quiet_store(2)] q
    by (auto simp: ln_created_def split: hold_purpose.splits option.splits if_splits)
  then show ?thesis by (rule ln_ok_quiet)
qed

lemma ln_create_failed_ok:
  assumes "ln_create_failed iv w = Some w'"
  shows "ln_ok e w w'"
proof (cases "get_order (h_order iv) w")
  case None
  with assms show ?thesis by (auto simp: ln_create_failed_def split: hold_purpose.splits)
next
  case (Some r)
  note g = get_order_id [OF Some]
  consider (rev) "\<exists>r'. revert_claim r w = Some (r', w') \<and> o_state r = Claimed \<and> o_pending_close r = None"
    | (undo) "\<exists>r'. update_order (o_id r) (\<lambda>x. x\<lparr>o_escrow_hash := None, o_payout_sat := None\<rparr>) w = Some (r', w')
        \<and> o_state r = Claimed"
    | (other) "w' = w \<or> w' = delete_draft (h_order iv) w"
    using assms Some by (auto simp: ln_create_failed_def split: hold_purpose.splits if_splits)
  then show ?thesis
  proof cases
    case rev
    then show ?thesis using revert_claim_ok [OF _ g] by blast
  next
    case undo
    then obtain r' where u: "update_order (o_id r) (\<lambda>x. x\<lparr>o_escrow_hash := None, o_payout_sat := None\<rparr>) w
      = Some (r', w')" and c: "o_state r = Claimed" by blast
    show ?thesis by (rule update_order_ok' [OF u g])
        (use c in \<open>auto simp: order_ok_def same_trade_def state_sets\<close>)
  next
    case other
    then show ?thesis by auto
  qed
qed

lemma ln_accepted_ok: "ln_accepted e iv w = Some w' \<Longrightarrow> ln_ok e w w'"
  by (auto simp: ln_accepted_def on_customer_deposit_accepted_ok on_sponsor_deposit_accepted_ok
      on_escrow_accepted_ok split: if_splits)

lemma escrow_node_cancelled_ok:
  assumes "escrow_node_cancelled e before r w = Some w'" and "get_order (o_id r) w = Some r"
  shows "ln_ok e w w'"
proof -
  define w1 where "w1 = raise_alert e (''ln:'' @ o_id r @ '':escrow-timed-out'') Anomaly (Some Track_ln) (Some (o_id r)) w"
  have q: "quiet w w1" by (simp add: w1_def)
  have g1: "get_order (o_id r) w1 = Some r" using assms(2) get_order_quiet [OF q] by simp
  have "w' = w \<or> w' = w1 \<or> (\<exists>c b. begin_close r c w = Some (b, w')) \<or> (\<exists>c b. begin_close r c w1 = Some (b, w'))"
    using assms(1) by (auto simp: escrow_node_cancelled_def Let_def w1_def split: if_splits option.splits)
  then show ?thesis
    using ln_ok_quiet [OF q] begin_close_ok [OF _ assms(2)] ln_ok_trans [OF ln_ok_quiet [OF q] begin_close_ok [OF _ g1]]
    by auto
qed

lemma ln_node_cancelled_ok:
  assumes "ln_node_cancelled e before w = Some w'"
  shows "ln_ok e w w'"
proof -
  define w1 where "w1 = send_deposit_status e (h_order before) (h_party before) Dep_cancelled (h_hash before) w"
  have q: "quiet w w1" by (simp add: w1_def)
  have dep: "ln_ok e w (send_deposit_status e oid p s h (delete_draft d w))" for oid p s h d
    by (rule ln_ok_quiet_after [OF ln_ok_delete_draft [of e w d]]) simp
  show ?thesis
  proof (cases "get_order (h_order before) w")
    case None
    with assms dep q show ?thesis
      by (auto simp: ln_node_cancelled_def Let_def w1_def ln_ok_quiet split: if_splits)
  next
    case (Some r)
    note g = get_order_id [OF Some]
    have g1: "get_order (o_id r) w1 = Some r" using g get_order_quiet [OF q] by simp
    have "w' = w1 \<or> (\<exists>d. w' = send_deposit_status e (h_order before) (h_party before) Dep_cancelled (h_hash before) (delete_draft d w))
      \<or> (\<exists>r'. revert_claim r w1 = Some (r', w') \<and> o_state r = Claimed \<and> o_pending_close r = None)
      \<or> escrow_node_cancelled e before r w = Some w'"
      using assms Some by (auto simp: ln_node_cancelled_def Let_def w1_def split: if_splits)
    then show ?thesis
      using ln_ok_quiet [OF q] dep revert_claim_ok [OF _ g1] escrow_node_cancelled_ok [OF _ g]
        ln_ok_trans [OF ln_ok_quiet [OF q]] by metis
  qed
qed

lemma ln_disposed_ok:
  assumes "ln_disposed e before final v w = Some w'"
  shows "ln_ok e w w'"
proof (cases "h_purpose before = Ln_escrow")
  case False
  with assms show ?thesis by (auto simp: ln_disposed_def ln_ok_quiet split: if_splits)
next
  case True
  obtain w1 where w1: "(case get_order (h_order before) w of
                 Some order \<Rightarrow>
                   if final = F_settled \<and> \<not> o_escrow_settled order
                   then map_option snd (update_order (o_id order) (\<lambda>r. r\<lparr>o_escrow_settled := True\<rparr>) w)
                   else Some w
               | None \<Rightarrow> Some w) = Some w1" and q: "quiet w1 w'"
    using assms True by (auto simp: ln_disposed_def)
  have "ln_ok e w w1"
  proof (cases "get_order (h_order before) w")
    case None
    with w1 show ?thesis by simp
  next
    case (Some r)
    have "ln_ok e w w1" if u: "update_order (o_id r) (\<lambda>r. r\<lparr>o_escrow_settled := True\<rparr>) w = Some (r', w1)" for r'
      by (rule update_order_ok' [OF u get_order_id [OF Some]]) (auto simp: order_ok_def same_trade_def)
    with w1 Some show ?thesis by (auto split: if_splits)
  qed
  then show ?thesis using q by (rule ln_ok_quiet_after)
qed

lemma ln_ok_patch: "ln_ok e w (w\<lparr>invoices := update_where P (apply_hold_patch p t) (invoices w)\<rparr>)"
  by (rule ln_ok_invoices) (rule hold_wf_update, assumption, simp add: holds_keep_def)

text \<open>The Lightning track keeps its side of the contract.\<close>

interpretation ln_holds: hold_client "\<lambda>_. ln_hooks e" "ln_ok e" for e
  by unfold_locales
    (auto simp: ln_hooks_def ln_ok_quiet ln_ok_patch ln_created_ok ln_create_failed_ok ln_accepted_ok
      ln_node_cancelled_ok ln_disposed_ok intro: ln_ok_trans)

subsection \<open>Recording a batch of disposals leaves the trade where it is\<close>

lemma get_order_update:
  assumes "update_order oid patch w = Some (r', w')" and "\<And>r. o_id (patch r) = o_id r"
  shows "get_order i w' = (if i = oid then Some r' else get_order i w)"
proof -
  obtain r where r: "get_order oid w = Some r" and r': "r' = bump (now_sec w) (patch r)"
    and w': "w' = request_projection oid (w\<lparr>ln_orders := update_where (\<lambda>r. o_id r = oid)
      (\<lambda>r. bump (now_sec w) (patch r)) (ln_orders w)\<rparr>)"
    using assms(1) by (auto simp: update_order_def split: option.splits)
  have "get_order i w' = List.find (\<lambda>r. o_id r = i) (update_where (\<lambda>r. o_id r = oid)
      (\<lambda>r. bump (now_sec w) (patch r)) (ln_orders w))"
    unfolding w' by (simp add: get_order_quiet [OF quiet_store(2)]) (simp add: get_order_def)
  also have "\<dots> = (if i = oid then Some r' else get_order i w)"
  proof (cases "i = oid")
    case True
    then show ?thesis using r assms(2) by (simp add: find_update_where_same get_order_def r')
  next
    case False
    then show ?thesis using assms(2) by (simp add: get_order_def) (rule find_update_where_other; simp)
  qed
  finally show ?thesis .
qed

definition frozen :: "ln_order \<Rightarrow> ln_order \<Rightarrow> bool" where
  "frozen r r' \<longleftrightarrow> r'\<lparr>o_escrow_settled := False, o_version := 0, o_updated_at := 0\<rparr>
     = r\<lparr>o_escrow_settled := False, o_version := 0, o_updated_at := 0\<rparr>"

definition all_frozen :: "'m db_scheme \<Rightarrow> 'm db_scheme \<Rightarrow> bool" where
  "all_frozen w w' \<longleftrightarrow>
     (\<forall>oid r. get_order oid w = Some r \<longrightarrow> (\<exists>r'. get_order oid w' = Some r' \<and> frozen r r'))"

lemma frozenD:
  assumes "frozen r r'"
  shows "o_state r' = o_state r" "o_pending_close r' = o_pending_close r" "o_id r' = o_id r"
    "o_close_reason r' = o_close_reason r" "o_escrow_hash r' = o_escrow_hash r"
    "o_sponsor r' = o_sponsor r" "o_payout_sat r' = o_payout_sat r" "o_disbursed r' = o_disbursed r"
  using arg_cong [OF assms [unfolded frozen_def], of o_state]
    arg_cong [OF assms [unfolded frozen_def], of o_pending_close]
    arg_cong [OF assms [unfolded frozen_def], of o_id]
    arg_cong [OF assms [unfolded frozen_def], of o_close_reason]
    arg_cong [OF assms [unfolded frozen_def], of o_escrow_hash]
    arg_cong [OF assms [unfolded frozen_def], of o_sponsor]
    arg_cong [OF assms [unfolded frozen_def], of o_payout_sat]
    arg_cong [OF assms [unfolded frozen_def], of o_disbursed] by simp_all

lemma all_frozen_refl [simp]: "all_frozen w w"
  by (simp add: all_frozen_def frozen_def)

lemma all_frozen_trans: "all_frozen u v \<Longrightarrow> all_frozen v w \<Longrightarrow> all_frozen u w"
  unfolding all_frozen_def frozen_def by metis

lemma all_frozen_same: "ln_orders w' = ln_orders w \<Longrightarrow> all_frozen w w'"
  by (simp add: all_frozen_def frozen_def get_order_def)

lemma all_frozen_quiet: "quiet w w' \<Longrightarrow> all_frozen w w'"
  by (rule all_frozen_same) (rule quietD)

lemma set_status_orders: "ln_orders (set_status (\<lambda>_. ln_hooks e) h s w) = ln_orders w"
proof -
  have "ln_orders (ln_changed oid v) = ln_orders v" for oid and v :: "'a db_scheme"
    by (rule quietD) simp
  then show ?thesis
    by (simp add: set_status_def hold_set_def Let_def ln_hooks_def split: option.split)
qed

lemma settle_mark_frozen:
  assumes "update_order oid (\<lambda>r. r\<lparr>o_escrow_settled := True\<rparr>) w = Some (r', w')"
  shows "all_frozen w w'"
proof -
  obtain r where r: "get_order oid w = Some r" and r': "r' = bump (now_sec w) (r\<lparr>o_escrow_settled := True\<rparr>)"
    using assms by (auto simp: update_order_def split: option.splits)
  have "get_order i w' = (if i = oid then Some r' else get_order i w)" for i
    by (rule get_order_update [OF assms]) simp
  then show ?thesis using r by (auto simp: all_frozen_def frozen_def r' bump_def)
qed

lemma ln_disposed_frozen:
  assumes "ln_disposed e before final v w = Some w'"
  shows "all_frozen w w'"
proof -
  have q: "all_frozen w (send_deposit_status e oid p st h w)" for oid p st h
    by (rule all_frozen_quiet) simp
  have a: "all_frozen w (raise_alert e d l t oid w1)" if "all_frozen w w1" for d l t oid w1
    using that all_frozen_trans all_frozen_quiet [OF quiet_raise_alert] by blast
  show ?thesis
  proof (cases "h_purpose before = Ln_escrow")
    case False
    with assms q show ?thesis by (auto simp: ln_disposed_def split: if_splits)
  next
    case True
    obtain w1 where w1: "(case get_order (h_order before) w of
                 Some order \<Rightarrow>
                   if final = F_settled \<and> \<not> o_escrow_settled order
                   then map_option snd (update_order (o_id order) (\<lambda>r. r\<lparr>o_escrow_settled := True\<rparr>) w)
                   else Some w
               | None \<Rightarrow> Some w) = Some w1"
      and eq: "w' = (if v \<noteq> Via_settle then w1
              else if final = F_settled
              then raise_alert e (''ln:'' @ h_order before @ '':safety-settled'') Warn (Some Track_ln) (Some (h_order before)) w1
              else raise_alert e (''ln:'' @ h_order before @ '':safety-settle-missed'') Anomaly (Some Track_ln) (Some (h_order before)) w1)"
      using assms True by (auto simp: ln_disposed_def)
    have w': "w' = w1 \<or> (\<exists>d l t oid. w' = raise_alert e d l t oid w1)"
      unfolding eq by (cases "v \<noteq> Via_settle"; cases "final = F_settled") auto
    have "all_frozen w w1"
      using w1 by (auto split: option.splits if_splits intro: settle_mark_frozen)
    with a w' show ?thesis by blast
  qed
qed

lemma record_disposal_frozen:
  assumes "record_disposal (\<lambda>_. ln_hooks e) h f v w = Some w'"
  shows "all_frozen w w'"
proof -
  have s: "all_frozen w (set_status (\<lambda>_. ln_hooks e) h st w)" for st
    by (rule all_frozen_same) (rule set_status_orders)
  have "w' = w \<or> (\<exists>b st. ln_disposed e b f v (set_status (\<lambda>_. ln_hooks e) h st w) = Some w')"
    using assms by (auto simp: record_disposal_def ln_hooks_def split: option.splits if_splits)
  then show ?thesis using all_frozen_trans [OF s ln_disposed_frozen] by auto
qed

lemma record_disposals_frozen:
  "record_disposals (\<lambda>_. ln_hooks e) fs w = Some w' \<Longrightarrow> all_frozen w w'"
proof (induction fs arbitrary: w)
  case (Cons f fs)
  obtain h x where f: "f = (h, x)" by force
  from Cons.prems obtain w1 where "record_disposal (\<lambda>_. ln_hooks e) h x Via_batch w = Some w1"
    and "record_disposals (\<lambda>_. ln_hooks e) fs w1 = Some w'" by (auto simp: f)
  then show ?case using Cons.IH all_frozen_trans record_disposal_frozen by blast
qed simp

text \<open>The terminal patch: legal because the close was begun legally.\<close>

lemma finish_patch_same:
  assumes "order_ok x" and "o_pending_close x = Some c"
  shows "same_trade x (x\<lparr>o_state := cl_terminal (close_rules c), o_close_reason := Some c, o_pending_close := None\<rparr>)"
proof -
  have "can_transition (o_state x) (cl_terminal (close_rules c))" using assms by (simp add: order_ok_def)
  moreover have "\<not> ln_terminal (o_state x)" using assms by (auto simp: order_ok_def)
  ultimately show ?thesis by (simp add: same_trade_def)
qed

lemma finish_patch_ok:
  assumes "order_ok x" and "o_pending_close x = Some c"
  shows "order_ok (x\<lparr>o_state := cl_terminal (close_rules c), o_close_reason := Some c, o_pending_close := None\<rparr>)"
proof -
  have can: "can_transition (o_state x) (cl_terminal (close_rules c))"
    and nt: "\<not> ln_terminal (o_state x)" using assms by (auto simp: order_ok_def)
  have nd: "\<not> o_disbursed x \<and> \<not> is_manual_payout (o_payout_error x)"
    using assms(1) nt by (auto simp: order_ok_def)
  let ?t = "cl_terminal (close_rules c)"
  have s: "?t \<in> has_sponsor_states \<Longrightarrow> o_state x \<in> has_sponsor_states"
    "?t \<in> funded_states \<Longrightarrow> o_state x \<in> funded_states"
    "?t \<in> invoiced_states \<Longrightarrow> o_state x \<in> invoiced_states" "?t \<noteq> Requested"
    using can by (cases c; cases "o_state x"; simp add: can_transition_def state_sets)+
  show ?thesis using assms(1) nd s close_rules_terminal [of c] unfolding order_ok_def by simp
qed

lemma finish_close_ok:
  fixes w :: "'a db_scheme"
  assumes "finish_close e (\<lambda>_. ln_hooks e) oid finals w = Some w'"
  shows "ln_ok e w w'"
proof (cases "get_order oid w")
  case None
  with assms show ?thesis by (simp add: finish_close_def)
next
  case (Some r)
  show ?thesis
  proof (cases "o_pending_close r")
    case None
    with assms Some show ?thesis by (simp add: finish_close_def)
  next
    case c: (Some c)
    define al where "al = (\<lambda>w :: 'a db_scheme. if cl_escrow (close_rules c) = Cancel
        \<and> Option.bind (o_escrow_hash r) (map_of finals) = Some F_settled
      then raise_alert e (''ln:'' @ oid @ '':refund-manually'') Anomaly (Some Track_ln) (Some oid) w else w)"
    obtain w1 r3 w3 where d: "record_disposals (\<lambda>_. ln_hooks e) finals w = Some w1"
      and u: "update_order oid (\<lambda>r. r\<lparr>o_state := cl_terminal (close_rules c), o_close_reason := Some c,
          o_pending_close := None\<rparr>) (al w1) = Some (r3, w3)"
      and w': "w' = (if cl_terminal (close_rules c) = Paid \<or> cl_terminal (close_rules c) = Sponsor_wins
          then request_payout oid (notify_ln_transition r3 w3) else notify_ln_transition r3 w3)"
      using assms Some c by (auto simp: finish_close_def Let_def al_def)
    have d_ok: "ln_ok e w w1" using d by (rule record_disposals_ok [rotated]) (rule ln_holds.record_disposal_ok)
    have q: "quiet w1 (al w1)" by (simp add: al_def)
    show ?thesis
    proof (rule ln_okI)
      assume inv: "ln_winv e w"
      obtain x where x: "get_order oid w1 = Some x" and rx: "frozen r x"
        using record_disposals_frozen [OF d] Some by (auto simp: all_frozen_def)
      have pc: "o_pending_close x = Some c" using frozenD(2) [OF rx] c by simp
      have ax: "get_order oid (al w1) = Some x" using x get_order_quiet [OF q] by simp
      have "ln_ok e (al w1) w3"
        by (rule update_order_ok [OF u ax])
          (use pc in \<open>simp_all add: finish_patch_ok finish_patch_same\<close>)
      then have "ln_ok e w w3" using d_ok q by (blast intro: ln_ok_trans ln_ok_quiet)
      moreover have "quiet w3 w'"
        unfolding w' by (simp add: quiet_trans [OF quiet_notify_ln_transition quiet_request_payout])
      ultimately show "ln_ok e w w'" by (rule ln_ok_quiet_after)
    qed
  qed
qed

end
