(* ===== verification/Ln_Event.thy ===== *)
theory Ln_Event
  imports Js_Number Ln_Fsm Ln_Timing
begin

text \<open>
  The public order event of the Lightning track: the tags the daemon writes (\<open>lnOrderTags\<close> of
  \<open>shared/src/ln/order.ts\<close>, \<open>shared/src/nip69.ts\<close>) and the order the apps read back
  (\<open>parseLnOrderEvent\<close>).  Strings are byte strings; numbers travel as decimal text.
\<close>

subsection \<open>NIP-69\<close>

datatype nip69_status = N_pending | N_canceled | N_in_progress | N_success | N_expired

fun nip69_status_str :: "nip69_status \<Rightarrow> string" where
  "nip69_status_str N_pending = ''pending''"
| "nip69_status_str N_canceled = ''canceled''"
| "nip69_status_str N_in_progress = ''in-progress''"
| "nip69_status_str N_success = ''success''"
| "nip69_status_str N_expired = ''expired''"

datatype nip69_layer = Lightning | Onchain

record nip69_order =
  n69_status :: nip69_status
  n69_amount :: sat
  n69_fiat :: krw
  n69_network :: string
  n69_layer :: nip69_layer
  n69_expires :: rat
  n69_source :: "string option"

definition NIP69_PLATFORM :: string where "NIP69_PLATFORM = ''pairbuy''"

definition nip69_tags :: "nip69_order \<Rightarrow> string list list" where
  "nip69_tags n =
     [[''k'', ''sell''], [''f'', ''KRW''], [''s'', nip69_status_str (n69_status n)],
      [''amt'', int_str (n69_amount n)], [''fa'', int_str (n69_fiat n)], [''pm'', ''bank transfer''],
      [''premium'', ''0''], [''network'', n69_network n],
      [''layer'', case n69_layer n of Lightning \<Rightarrow> ''lightning'' | Onchain \<Rightarrow> ''onchain''],
      [''expires_at'', num_str (n69_expires n)], [''y'', NIP69_PLATFORM], [''z'', ''order'']]
     @ opt_tag ''source'' (n69_source n)"

text \<open>\<open>URLSearchParams\<close>: \<open>application/x-www-form-urlencoded\<close>.\<close>

definition hex_digit :: "nat \<Rightarrow> char" where
  "hex_digit d = (if d < 10 then char_of (48 + d) else char_of (55 + d))"

definition form_char :: "char \<Rightarrow> string" where
  "form_char c =
     (let n = char_code c in
      if is_digit c \<or> 65 \<le> n \<and> n \<le> 90 \<or> 97 \<le> n \<and> n \<le> 122 \<or> n \<in> {42, 45, 46, 95} then [c]
      else if n = 32 then ''+''
      else [CHR ''%'', hex_digit (n div 16), hex_digit (n mod 16)])"

definition form_encode :: "string \<Rightarrow> string" where "form_encode s = concat (map form_char s)"

definition strip_slashes :: "string \<Rightarrow> string" where
  "strip_slashes s = rev (dropWhile (\<lambda>c. c = CHR ''/'') (rev s))"

definition order_link :: "string \<Rightarrow> nip69_layer \<Rightarrow> string \<Rightarrow> string" where
  "order_link appUrl trk oid =
     strip_slashes appUrl @ ''/?'' @ (case trk of Onchain \<Rightarrow> ''track=onchain&'' | Lightning \<Rightarrow> [])
     @ ''order='' @ form_encode oid"

subsection \<open>Writing\<close>

definition PROTOCOL_VERSION :: int where "PROTOCOL_VERSION = 4"

definition protocol_of :: "string list list \<Rightarrow> int option" where
  "protocol_of tags =
     (case tag_value ''protocol'' tags of None \<Rightarrow> None
      | Some raw \<Rightarrow> (case js_number raw of
          Fin q \<Rightarrow> if q = of_int \<lfloor>q\<rfloor> then Some \<lfloor>q\<rfloor> else None | _ \<Rightarrow> None))"

record ln_fields =
  lf_order :: string
  lf_state :: order_state
  lf_customer :: string
  lf_sponsor :: "string option"
  lf_price :: krw
  lf_deadline :: sec
  lf_bolt11 :: "string option"
  lf_payout :: "sat option"
  lf_sponsor_invoice :: "string option"
  lf_disbursed :: bool
  lf_deposit_hash :: "hex option"
  lf_sponsor_deposit_hash :: "hex option"
  lf_sponsor_deposit_pending :: bool
  lf_close_reason :: "string option"
  lf_invoice_deadline :: "sec option"
  lf_designated :: "string option"

fun ln_nip69_status :: "order_state \<Rightarrow> nip69_status" where
  "ln_nip69_status Requested = N_pending"
| "ln_nip69_status Claimed = N_in_progress"
| "ln_nip69_status Verified = N_in_progress"
| "ln_nip69_status Escrowed = N_in_progress"
| "ln_nip69_status Invoiced = N_in_progress"
| "ln_nip69_status Remitted = N_in_progress"
| "ln_nip69_status Paid = N_success"
| "ln_nip69_status Sponsor_wins = N_success"
| "ln_nip69_status Customer_wins = N_canceled"
| "ln_nip69_status Cancelled = N_canceled"
| "ln_nip69_status Admin_closed = N_canceled"
| "ln_nip69_status Expired = N_expired"

text \<open>A number tag written when the number is truthy.\<close>

definition num_tag :: "string \<Rightarrow> int option \<Rightarrow> string list list" where
  "num_tag n v = (case v of Some x \<Rightarrow> if x = 0 then [] else [[n, int_str x]] | None \<Rightarrow> [])"

definition flag_tag :: "string \<Rightarrow> string \<Rightarrow> bool \<Rightarrow> string list list" where
  "flag_tag n v b = (if b then [[n, v]] else [])"

definition ln_base_tags :: "ln_fields \<Rightarrow> string \<Rightarrow> sec \<Rightarrow> string list list" where
  "ln_base_tags r clientTag retainUntil =
     [[''d'', lf_order r], [''t'', clientTag], [''protocol'', int_str PROTOCOL_VERSION],
      [''state'', order_state_str (lf_state r)], [''price'', int_str (lf_price r), ''KRW''],
      [''customer'', lf_customer r], [''deadline'', int_str (lf_deadline r)],
      [''expiration'', int_str retainUntil]]
     @ opt_tag ''sponsor'' (lf_sponsor r)
     @ opt_tag ''bolt11'' (lf_bolt11 r)
     @ num_tag ''payout'' (lf_payout r)
     @ opt_tag ''sponsor-invoice'' (lf_sponsor_invoice r)
     @ flag_tag ''disbursed'' ''true'' (lf_disbursed r)
     @ opt_tag ''customer-deposit-payment-hash'' (lf_deposit_hash r)
     @ opt_tag ''sponsor-deposit-payment-hash'' (lf_sponsor_deposit_hash r)
     @ flag_tag ''sponsor-deposit'' ''pending'' (lf_sponsor_deposit_pending r)
     @ opt_tag ''close-reason'' (lf_close_reason r)
     @ num_tag ''invoice-deadline'' (lf_invoice_deadline r)"

definition opt_given :: "string option \<Rightarrow> bool" where
  "opt_given v \<longleftrightarrow> (case v of Some s \<Rightarrow> s \<noteq> [] | None \<Rightarrow> False)"

definition ln_order_tags :: "ln_fields \<Rightarrow> string \<Rightarrow> sec \<Rightarrow> string option \<Rightarrow> string list list" where
  "ln_order_tags r clientTag retainUntil appUrl =
     ln_base_tags r clientTag retainUntil
     @ (if opt_given (lf_designated r) then opt_tag ''designated-sponsor'' (lf_designated r)
        else nip69_tags
          \<lparr>n69_status = ln_nip69_status (lf_state r),
           n69_amount = (case lf_payout r of Some n \<Rightarrow> n | None \<Rightarrow> 0), n69_fiat = lf_price r,
           n69_network = ''mainnet'', n69_layer = Lightning, n69_expires = of_int (lf_deadline r),
           n69_source = (case appUrl of Some u \<Rightarrow> if u = [] then None
                           else Some (order_link u Lightning (lf_order r)) | None \<Rightarrow> None)\<rparr>)"

subsection \<open>Reading\<close>

record order_event =
  oe_pubkey :: string
  oe_created_at :: sec
  oe_tags :: "string list list"

record ln_view =
  lv_order :: string
  lv_state :: string
  lv_customer :: string
  lv_sponsor :: "string option"
  lv_bolt11 :: "string option"
  lv_disbursed :: bool
  lv_deposit_hash :: "hex option"
  lv_sponsor_deposit_hash :: "hex option"
  lv_sponsor_deposit_pending :: bool
  lv_payout :: "jsnum option"
  lv_sponsor_invoice :: "string option"
  lv_close_reason :: "string option"
  lv_invoice_deadline :: "jsnum option"
  lv_designated :: "string option"
  lv_price :: jsnum
  lv_created_at :: sec
  lv_expiration :: jsnum
  lv_retain_until :: "jsnum option"

definition js_positive :: "jsnum \<Rightarrow> bool" where
  "js_positive x = (case x of NaN \<Rightarrow> False | Inf pos \<Rightarrow> pos | Fin q \<Rightarrow> 0 < q)"

definition given_s :: "string option \<Rightarrow> string option" where
  "given_s v = (if opt_given v then v else None)"

definition parse_ln_order_event :: "order_event \<Rightarrow> string \<Rightarrow> ln_view option" where
  "parse_ln_order_event ev appPubkey =
     (if oe_pubkey ev \<noteq> appPubkey then None
      else
        (let tag = (\<lambda>n. tag_value n (oe_tags ev));
             retainUntil = js_number_or0 (tag ''expiration'');
             deadline = js_number_or0 (tag ''deadline'');
             payout = js_number_or0 (tag ''payout'');
             invoiceDeadline = js_number_or0 (tag ''invoice-deadline'') in
         case tag ''d'' of None \<Rightarrow> None
         | Some oid \<Rightarrow> if oid = [] then None else Some
           \<lparr>lv_order = oid,
            lv_state = (case tag ''state'' of Some s \<Rightarrow> s | None \<Rightarrow> ''requested''),
            lv_customer = (case tag ''customer'' of Some c \<Rightarrow> c | None \<Rightarrow> []),
            lv_sponsor = given_s (tag ''sponsor''),
            lv_bolt11 = given_s (tag ''bolt11''),
            lv_disbursed = (tag ''disbursed'' = Some ''true''),
            lv_deposit_hash = given_s (tag ''customer-deposit-payment-hash''),
            lv_sponsor_deposit_hash = given_s (tag ''sponsor-deposit-payment-hash''),
            lv_sponsor_deposit_pending = (tag ''sponsor-deposit'' = Some ''pending''),
            lv_payout = (if js_positive payout then Some payout else None),
            lv_sponsor_invoice = given_s (tag ''sponsor-invoice''),
            lv_close_reason = given_s (tag ''close-reason''),
            lv_invoice_deadline = (if is_js_integer invoiceDeadline \<and> js_positive invoiceDeadline
                                   then Some invoiceDeadline else None),
            lv_designated = given_s (tag ''designated-sponsor''),
            lv_price = js_number_or0 (tag ''price''),
            lv_created_at = oe_created_at ev,
            lv_expiration = (case deadline of Fin _ \<Rightarrow> deadline | _ \<Rightarrow> Fin 0),
            lv_retain_until = (if js_positive retainUntil then Some retainUntil else None)\<rparr>))"

subsection \<open>Looking tags up\<close>

lemma tag_value_num:
  "tag_value n (num_tag k v @ ts)
   = (if k = n \<and> v \<noteq> None \<and> v \<noteq> Some 0 then map_option int_str v else tag_value n ts)"
  by (auto simp: num_tag_def split: option.split)

lemma tag_value_flag:
  "tag_value n (flag_tag k v b @ ts) = (if k = n \<and> b then Some v else tag_value n ts)"
  by (simp add: flag_tag_def)

lemma tag_value_opt_end:
  "tag_value n (opt_tag k v) = (if k = n \<and> v \<noteq> None \<and> v \<noteq> Some [] then v else None)"
  using tag_value_opt [of n k v "[]"] by simp

lemmas tag_lookup = tag_value_opt tag_value_num tag_value_flag tag_value_opt_end

lemma ln_base_lookup:
  "tag_value n (ln_base_tags r t u @ rest) =
     (if n = ''d'' then Some (lf_order r) else if n = ''t'' then Some t
      else if n = ''protocol'' then Some (int_str PROTOCOL_VERSION)
      else if n = ''state'' then Some (order_state_str (lf_state r))
      else if n = ''price'' then Some (int_str (lf_price r)) else if n = ''customer'' then Some (lf_customer r)
      else if n = ''deadline'' then Some (int_str (lf_deadline r)) else if n = ''expiration'' then Some (int_str u)
      else tag_value n (opt_tag ''sponsor'' (lf_sponsor r)
     @ opt_tag ''bolt11'' (lf_bolt11 r)
     @ num_tag ''payout'' (lf_payout r)
     @ opt_tag ''sponsor-invoice'' (lf_sponsor_invoice r)
     @ flag_tag ''disbursed'' ''true'' (lf_disbursed r)
     @ opt_tag ''customer-deposit-payment-hash'' (lf_deposit_hash r)
     @ opt_tag ''sponsor-deposit-payment-hash'' (lf_sponsor_deposit_hash r)
     @ flag_tag ''sponsor-deposit'' ''pending'' (lf_sponsor_deposit_pending r)
     @ opt_tag ''close-reason'' (lf_close_reason r)
     @ num_tag ''invoice-deadline'' (lf_invoice_deadline r) @ rest))"
  unfolding ln_base_tags_def by (simp add: eq_commute [of _ n])

text \<open>The names of our own tags that the NIP-69 tags must not shadow.\<close>

definition own_tags :: "string list" where
  "own_tags = [''sponsor'', ''bolt11'', ''payout'', ''sponsor-invoice'', ''disbursed'',
     ''customer-deposit-payment-hash'', ''sponsor-deposit-payment-hash'', ''sponsor-deposit'',
     ''close-reason'', ''invoice-deadline'', ''designated-sponsor'']"

definition nip69_keys :: "string list" where
  "nip69_keys = [''k'', ''f'', ''s'', ''amt'', ''fa'', ''pm'', ''premium'', ''network'', ''layer'',
     ''expires_at'', ''y'', ''z'', ''source'']"

lemma own_not_nip69: "list_all (\<lambda>n. list_all (\<lambda>k. k \<noteq> n) nip69_keys) own_tags"
  by code_simp

lemma nip69_tag_key: "list_all (\<lambda>t. hd t \<in> set nip69_keys) (nip69_tags o69)"
  by (simp add: nip69_tags_def nip69_keys_def opt_tag_def split: option.split)

lemma nip69_no_clash:
  assumes "n \<in> set own_tags"
  shows "tag_value n (nip69_tags o69) = None"
proof (rule tag_value_absent)
  fix t assume "t \<in> set (nip69_tags o69)"
  then have "hd t \<in> set nip69_keys" using nip69_tag_key [of o69] by (simp add: list_all_iff)
  moreover have "n \<notin> set nip69_keys" using own_not_nip69 assms unfolding list_all_iff by blast
  ultimately show "hd t \<noteq> n" by metis
qed

lemma ln_tail_lookup:
  assumes "n \<in> set own_tags" and "n \<noteq> ''designated-sponsor''"
  shows "tag_value n (if b then opt_tag ''designated-sponsor'' d else nip69_tags o69) = None"
  using assms nip69_no_clash [OF assms(1)] by (simp add: tag_lookup)

subsection \<open>Properties\<close>

definition small :: "int \<Rightarrow> bool" where "small n \<longleftrightarrow> \<bar>n\<bar> < 2 ^ 53"

definition small_opt :: "int option \<Rightarrow> bool" where
  "small_opt v \<longleftrightarrow> (case v of Some n \<Rightarrow> small n | None \<Rightarrow> True)"

lemma read_small: "small n \<Longrightarrow> js_number_or0 (Some (int_str n)) = Fin (of_int n)"
  by (simp add: small_def js_number_or0_def js_number_int_str)

definition given_n :: "int option \<Rightarrow> string option" where
  "given_n v = (case v of Some n \<Rightarrow> if n = 0 then None else Some (int_str n) | None \<Rightarrow> None)"

lemma given_eqs:
  "(if v \<noteq> None \<and> v \<noteq> Some [] then v else None) = given_s v"
  "(if m \<noteq> None \<and> m \<noteq> Some 0 then map_option int_str m else None) = given_n m"
  by (auto simp: given_s_def given_n_def opt_given_def split: option.split)

lemma read_num_tag:
  "small_opt v \<Longrightarrow> js_number_or0 (given_n v) = Fin (of_int (case v of Some n \<Rightarrow> n | None \<Rightarrow> 0))"
  using read_small by (auto simp: small_opt_def given_n_def js_number_or0_def split: option.split_asm)

lemma read_given: "given_s (given_s v) = given_s v"
  by (simp add: given_s_def)

definition num_view :: "int option \<Rightarrow> jsnum option" where
  "num_view v = (case v of Some n \<Rightarrow> if 0 < n then Some (Fin (of_int n)) else None | None \<Rightarrow> None)"

text \<open>What an app reads of an order the daemon wrote.\<close>

definition ln_view_of :: "ln_fields \<Rightarrow> sec \<Rightarrow> sec \<Rightarrow> ln_view" where
  "ln_view_of r retainUntil createdAt =
     \<lparr>lv_order = lf_order r, lv_state = order_state_str (lf_state r), lv_customer = lf_customer r,
      lv_sponsor = given_s (lf_sponsor r), lv_bolt11 = given_s (lf_bolt11 r), lv_disbursed = lf_disbursed r,
      lv_deposit_hash = given_s (lf_deposit_hash r),
      lv_sponsor_deposit_hash = given_s (lf_sponsor_deposit_hash r),
      lv_sponsor_deposit_pending = lf_sponsor_deposit_pending r,
      lv_payout = num_view (lf_payout r),
      lv_sponsor_invoice = given_s (lf_sponsor_invoice r), lv_close_reason = given_s (lf_close_reason r),
      lv_invoice_deadline = num_view (lf_invoice_deadline r),
      lv_designated = given_s (lf_designated r), lv_price = Fin (of_int (lf_price r)),
      lv_created_at = createdAt, lv_expiration = Fin (of_int (lf_deadline r)),
      lv_retain_until = (if 0 < retainUntil then Some (Fin (of_int retainUntil)) else None)\<rparr>"

lemma num_viewI:
  "(if js_positive (Fin (of_int (case v of Some n \<Rightarrow> n | None \<Rightarrow> 0)))
    then Some (Fin (of_int (case v of Some n \<Rightarrow> n | None \<Rightarrow> 0))) else None)
   = num_view v"
  by (auto simp: js_positive_def num_view_def split: option.split)

lemma own_mem:
  "''sponsor'' \<in> set own_tags" "''bolt11'' \<in> set own_tags" "''payout'' \<in> set own_tags"
  "''sponsor-invoice'' \<in> set own_tags" "''disbursed'' \<in> set own_tags"
  "''customer-deposit-payment-hash'' \<in> set own_tags" "''sponsor-deposit-payment-hash'' \<in> set own_tags"
  "''sponsor-deposit'' \<in> set own_tags" "''close-reason'' \<in> set own_tags"
  "''invoice-deadline'' \<in> set own_tags" "''designated-sponsor'' \<in> set own_tags"
  by (simp_all add: own_tags_def)

lemma own_lookup:
  "tag_value ''d'' (ln_order_tags r t u app) = Some (lf_order r)"
  "tag_value ''state'' (ln_order_tags r t u app) = Some (order_state_str (lf_state r))"
  "tag_value ''price'' (ln_order_tags r t u app) = Some (int_str (lf_price r))"
  "tag_value ''customer'' (ln_order_tags r t u app) = Some (lf_customer r)"
  "tag_value ''deadline'' (ln_order_tags r t u app) = Some (int_str (lf_deadline r))"
  "tag_value ''expiration'' (ln_order_tags r t u app) = Some (int_str u)"
  unfolding ln_order_tags_def ln_base_lookup by simp_all

lemma opt_lookup:
  "tag_value ''sponsor'' (ln_order_tags r t u app) = given_s (lf_sponsor r)"
  "tag_value ''bolt11'' (ln_order_tags r t u app) = given_s (lf_bolt11 r)"
  "tag_value ''payout'' (ln_order_tags r t u app) = given_n (lf_payout r)"
  "tag_value ''sponsor-invoice'' (ln_order_tags r t u app) = given_s (lf_sponsor_invoice r)"
  "tag_value ''disbursed'' (ln_order_tags r t u app) = (if lf_disbursed r then Some ''true'' else None)"
  "tag_value ''customer-deposit-payment-hash'' (ln_order_tags r t u app) = given_s (lf_deposit_hash r)"
  "tag_value ''sponsor-deposit-payment-hash'' (ln_order_tags r t u app) = given_s (lf_sponsor_deposit_hash r)"
  "tag_value ''sponsor-deposit'' (ln_order_tags r t u app) = (if lf_sponsor_deposit_pending r then Some ''pending'' else None)"
  "tag_value ''close-reason'' (ln_order_tags r t u app) = given_s (lf_close_reason r)"
  "tag_value ''invoice-deadline'' (ln_order_tags r t u app) = given_n (lf_invoice_deadline r)"
  unfolding ln_order_tags_def ln_base_lookup tag_lookup given_eqs [symmetric] by (simp_all add: ln_tail_lookup own_mem)

lemma designated_lookup:
  "tag_value ''designated-sponsor'' (ln_order_tags r t u app)
   = given_s (lf_designated r)"
  unfolding ln_order_tags_def ln_base_lookup tag_lookup
  by (auto simp: nip69_no_clash own_mem tag_lookup opt_given_def given_s_def split: option.split)

text \<open>Round trip: whatever order the daemon publishes, an app that reads the event under the daemon's
  key gets back exactly the fields that were set; falsy optional fields disappear, and no NIP-69 tag
  shadows one of our own.  Numbers are assumed below two to the 53.\<close>

theorem ln_order_tags_roundtrip:
  assumes "lf_order r \<noteq> []" and "small (lf_price r)" and "small (lf_deadline r)" and "small u"
    and "small_opt (lf_payout r)" and "small_opt (lf_invoice_deadline r)"
  shows "parse_ln_order_event \<lparr>oe_pubkey = pk, oe_created_at = c, oe_tags = ln_order_tags r t u app\<rparr> pk
       = Some (ln_view_of r u c)"
proof -
  have int: "is_js_integer (Fin (of_int n))" for n by (simp add: is_js_integer_def)
  have pos: "js_positive (Fin (of_int n)) = (0 < n)" for n by (simp add: js_positive_def)
  show ?thesis
    unfolding parse_ln_order_event_def Let_def ln_view_of_def order_event.simps own_lookup opt_lookup
      designated_lookup read_given read_small [OF assms(2)] read_small [OF assms(3)] read_small [OF assms(4)]
      read_num_tag [OF assms(5)] read_num_tag [OF assms(6)] int simp_thms num_viewI
    using assms(1) by (cases "lf_invoice_deadline r") (simp_all add: pos int num_view_def js_positive_def)
qed

definition toy_fields :: ln_fields where
  "toy_fields = \<lparr>lf_order = ''ord1'', lf_state = Claimed, lf_customer = ''c'', lf_sponsor = Some ''s'',
     lf_price = 50000, lf_deadline = 1800000000, lf_bolt11 = None, lf_payout = None,
     lf_sponsor_invoice = None, lf_disbursed = False, lf_deposit_hash = None, lf_sponsor_deposit_hash = None,
     lf_sponsor_deposit_pending = True, lf_close_reason = None, lf_invoice_deadline = None,
     lf_designated = None\<rparr>"

theorem ln_order_tags_roundtrip_witness:
  "parse_ln_order_event \<lparr>oe_pubkey = ''app'', oe_created_at = 5,
      oe_tags = ln_order_tags toy_fields ''ln'' 1900000000 None\<rparr> ''app'' = Some (ln_view_of toy_fields 1900000000 5)"
  by (rule ln_order_tags_roundtrip) (simp_all add: toy_fields_def small_def small_opt_def)

text \<open>A designated trade is not advertised: the tags of an order with a designated sponsor contain
  no NIP-69 tag at all, while a public order always carries the platform's order tags.\<close>

theorem designated_not_advertised:
  "(\<exists>x \<in> set (ln_order_tags r t u app). hd x = ''z'') \<longleftrightarrow> \<not> opt_given (lf_designated r)"
proof -
  have b: "\<forall>x \<in> set (ln_base_tags r t u). hd x \<noteq> ''z''"
    by (auto simp: ln_base_tags_def opt_tag_def num_tag_def flag_tag_def split: option.splits if_splits)
  have d: "\<forall>x \<in> set (opt_tag ''designated-sponsor'' d). hd x \<noteq> ''z''" for d
    by (auto simp: opt_tag_def split: option.splits if_splits)
  have n: "\<exists>x \<in> set (nip69_tags o69). hd x = ''z''" for o69 by (simp add: nip69_tags_def)
  show ?thesis unfolding ln_order_tags_def set_append bex_Un using b d n by simp
qed

end
