(* ===== verification/Ln_Effects.thy ===== *)
theory Ln_Effects
  imports Ln_Flow_Inv Ln_Event
begin

text \<open>
  The effect executors of the Lightning track (\<open>daemon/src/ln/effects.ts\<close>, \<open>daemon/src/orders/publish.ts\<close>):
  closing a trade, paying the sponsor, probing an invoice, publishing the order and the operators' detail.

  A run returns the node calls it made and its outcome, or no outcome when a call threw; the calls made
  before a throw stay in the list.  Error texts stand as ASCII names of the messages in the code.
\<close>

subsection \<open>Runs that call the node\<close>

type_synonym 'a nrun = "node_call list \<times> 'a option"

definition nret :: "'a \<Rightarrow> 'a nrun" where "nret x = ([], Some x)"

definition nthrow :: "'a nrun" where "nthrow = ([], None)"

definition nthen :: "'a nrun \<Rightarrow> ('a \<Rightarrow> 'b nrun) \<Rightarrow> 'b nrun" where
  "nthen m f = (case m of (cs, None) \<Rightarrow> (cs, None)
     | (cs, Some x) \<Rightarrow> (case f x of (ds, y) \<Rightarrow> (cs @ ds, y)))"

definition nlookup :: "node \<Rightarrow> hex \<Rightarrow> hold_lookup option nrun" where
  "nlookup nd h = (case n_lookup nd h of None \<Rightarrow> nthrow | Some l \<Rightarrow> nret l)"

definition nsettle :: "env \<Rightarrow> node \<Rightarrow> hold_row \<Rightarrow> hold_want \<Rightarrow> hold_lookup option \<Rightarrow> hold_final nrun" where
  "nsettle e nd iv want lookup =
     (case settle_or_cancel e nd iv want lookup of None \<Rightarrow> nthrow | Some (cs, f) \<Rightarrow> (cs, Some f))"

text \<open>Looking up and then disposing.\<close>

definition ndispose :: "env \<Rightarrow> node \<Rightarrow> hold_row \<Rightarrow> hold_want \<Rightarrow> hold_final nrun" where
  "ndispose e nd iv want = nthen (nlookup nd (h_hash iv)) (nsettle e nd iv want)"

subsection \<open>Closing\<close>

definition deposit_disposition :: "close_rule \<Rightarrow> ln_order \<Rightarrow> hold_row \<Rightarrow> disposition" where
  "deposit_disposition rule order iv =
     (if h_purpose iv = Ln_customer_deposit then cl_customer_deposit rule
      else if o_sponsor order = Some (h_party iv) then cl_sponsor_deposit rule
      else Refund)"

text \<open>What the close does with one of the order's other invoices, if anything.\<close>

definition close_want :: "close_rule \<Rightarrow> ln_order \<Rightarrow> hold_row \<Rightarrow> hold_want option" where
  "close_want rule order iv =
     (if h_purpose iv = Ln_escrow
      then (if Some (h_hash iv) \<noteq> o_escrow_hash order \<and> is_live_hold iv then Some Want_cancel else None)
      else if \<not> is_live_hold iv then None
      else Some (if deposit_disposition rule order iv = Forfeit then Want_settle else Want_cancel))"

fun close_holds ::
  "env \<Rightarrow> node \<Rightarrow> close_rule \<Rightarrow> ln_order \<Rightarrow> hold_row list \<Rightarrow> (hex \<times> hold_final) list \<Rightarrow> (hex \<times> hold_final) list nrun" where
  "close_holds e nd rule order [] finals = nret finals"
| "close_holds e nd rule order (iv # ivs) finals =
     (case close_want rule order iv of
        None \<Rightarrow> close_holds e nd rule order ivs finals
      | Some want \<Rightarrow> nthen (ndispose e nd iv want)
          (\<lambda>f. close_holds e nd rule order ivs (finals @ [(h_hash iv, f)])))"

definition order_escrow :: "ln_order \<Rightarrow> 'm db_scheme \<Rightarrow> hold_row option" where
  "order_escrow order w =
     (case o_escrow_hash order of None \<Rightarrow> None | Some h \<Rightarrow> if h = [] then None else hold_get h w)"

definition lookup_is :: "lookup_state list \<Rightarrow> hold_lookup option \<Rightarrow> bool" where
  "lookup_is ss l \<longleftrightarrow> (case l of None \<Rightarrow> False | Some l \<Rightarrow> lk_state l \<in> set ss)"

text \<open>The escrow first: \<open>Inl\<close> is the reason to give up, \<open>Inr\<close> the results so far.\<close>

definition close_escrow ::
  "env \<Rightarrow> node \<Rightarrow> close_rule \<Rightarrow> hold_row option \<Rightarrow> (string + (hex \<times> hold_final) list) nrun" where
  "close_escrow e nd rule escrow =
     (if cl_escrow rule = Settle then
        (case escrow of
           None \<Rightarrow> nret (Inl ''no escrow'')
         | Some iv \<Rightarrow> nthen (nlookup nd (h_hash iv)) (\<lambda>l.
             if \<not> lookup_is [L_accepted, L_settled] l then nret (Inl ''escrow cannot be taken'')
             else nthen (nsettle e nd iv Want_settle l) (\<lambda>f. nret (Inr [(h_hash iv, f)]))))
      else (case escrow of
              None \<Rightarrow> nret (Inr [])
            | Some iv \<Rightarrow> nthen (ndispose e nd iv Want_cancel) (\<lambda>f. nret (Inr [(h_hash iv, f)]))))"

definition close_run :: "env \<Rightarrow> node \<Rightarrow> string \<Rightarrow> 'm db_scheme \<Rightarrow> eff_result outcome nrun" where
  "close_run e nd oid w =
     (case get_order oid w of
        None \<Rightarrow> nret (O_done (R_finals []))
      | Some order \<Rightarrow>
          (case o_pending_close order of
             None \<Rightarrow> nret (O_done (R_finals []))
           | Some reason \<Rightarrow>
               nthen (close_escrow e nd (close_rules reason) (order_escrow order w)) (\<lambda>r.
                 case r of
                   Inl error \<Rightarrow> nret (O_dead error)
                 | Inr finals \<Rightarrow>
                     nthen (close_holds e nd (close_rules reason) order (hold_of oid LN_HOLD_PURPOSES w) finals)
                       (\<lambda>fs. nret (O_done (R_finals fs))))))"

definition close_on_done :: "env \<Rightarrow> string \<Rightarrow> eff_result \<Rightarrow> 'm db_scheme \<Rightarrow> 'm db_scheme option" where
  "close_on_done e oid r w =
     (case r of R_finals fs \<Rightarrow> finish_close e (\<lambda>_. ln_hooks e) oid fs w | _ \<Rightarrow> None)"

subsection \<open>Paying\<close>

definition PAY_TIMEOUT_SEC :: sec where "PAY_TIMEOUT_SEC = 60"
definition IN_FLIGHT_RECHECK_MS :: msec where "IN_FLIGHT_RECHECK_MS = 30000"
definition IN_FLIGHT_ERROR :: string where "IN_FLIGHT_ERROR = ''payment in flight''"
definition PAY_FAILED_ERROR :: string where "PAY_FAILED_ERROR = ''payment failed''"

text \<open>\<open>Math.max(10, Math.ceil(order.payout_sat * 0.01))\<close>.\<close>

definition fee_limit_sat :: "sat \<Rightarrow> sat" where
  "fee_limit_sat payout = max 10 \<lceil>fl (of_int payout * fl (1 / 100))\<rceil>"

definition payout_run :: "env \<Rightarrow> node \<Rightarrow> string \<Rightarrow> 'm db_scheme \<Rightarrow> eff_result outcome nrun" where
  "payout_run e nd oid w =
     (case get_order oid w of
        None \<Rightarrow> nret (O_done R_payout_skip)
      | Some order \<Rightarrow>
          if o_disbursed order then nret (O_done R_payout_skip)
          else if o_state order \<noteq> Paid \<and> o_state order \<noteq> Sponsor_wins then nret (O_done R_payout_skip)
          else if \<not> js_true_s (o_sponsor_invoice order) \<or> \<not> js_true_n (o_payout_sat order)
          then nret (O_dead ''no payout target'')
          else (let bolt11 = the (o_sponsor_invoice order); payout = the (o_payout_sat order) in
            case e_bolt11 e bolt11 of
              None \<Rightarrow> nret (O_dead ''unreadable invoice'')
            | Some info \<Rightarrow>
                if \<not> is_payout_amount_exact (Some payout) (b11_amount info) then nret (O_dead ''amount mismatch'')
                else (case n_track nd (b11_hash info) of
                  None \<Rightarrow> nthrow
                | Some tracked \<Rightarrow>
                    if tracked = Some Succeeded then nret (O_done R_payout_paid)
                    else if tracked = Some In_flight
                    then nret (O_retry IN_FLIGHT_ERROR (Some IN_FLIGHT_RECHECK_MS))
                    else if is_manual_payout (o_payout_error order) then nret (O_done (R_payout_manual bolt11))
                    else if b11_expires info \<le> now_sec w + 30 then nret (O_done (R_payout_expired bolt11))
                    else (let call = Call_pay bolt11 (fee_limit_sat payout) in
                      case n_pay nd bolt11 (fee_limit_sat payout) of
                        None \<Rightarrow> ([call], None)
                      | Some (status, reason) \<Rightarrow>
                          ([call], Some (case status of
                             Succeeded \<Rightarrow> O_done R_payout_paid
                           | In_flight \<Rightarrow> O_retry IN_FLIGHT_ERROR (Some IN_FLIGHT_RECHECK_MS)
                           | Failed \<Rightarrow> O_retry (case reason of Some r \<Rightarrow> r | None \<Rightarrow> PAY_FAILED_ERROR) None))))))"

text \<open>The verdict that the stored invoice expired.\<close>

definition ask_new_invoice :: "env \<Rightarrow> ln_order \<Rightarrow> string \<Rightarrow> 'm db_scheme \<Rightarrow> 'm db_scheme" where
  "ask_new_invoice e order bolt11 w =
     (case o_sponsor order of
        None \<Rightarrow> w
      | Some sponsor \<Rightarrow>
          if sponsor = [] then w
          else notify_payout_invoice_expired order
            (case e_bolt11 e bolt11 of Some info \<Rightarrow> if b11_hash info = [] then bolt11 else b11_hash info
                                     | None \<Rightarrow> bolt11)
            (send_invoice_rejected e (o_id order) sponsor Expired_before_payout
              (case o_payout_sat order of Some n \<Rightarrow> n | None \<Rightarrow> 0) bolt11 w))"

definition payout_mark_expired :: "env \<Rightarrow> ln_order \<Rightarrow> string \<Rightarrow> 'm db_scheme \<Rightarrow> 'm db_scheme option" where
  "payout_mark_expired e order bolt11 w = do {
     (_, w1) \<leftarrow> update_order (o_id order) (\<lambda>r. r\<lparr>o_payout_error := Some LN_PAYOUT_INVOICE_EXPIRED\<rparr>) w;
     Some (ask_new_invoice e order bolt11 (kv_set (payout_expired_at_key (o_id order)) (int_str (now_sec w)) w1))
   }"

definition payout_on_done :: "env \<Rightarrow> string \<Rightarrow> eff_result \<Rightarrow> 'm db_scheme \<Rightarrow> 'm db_scheme option" where
  "payout_on_done e oid r w =
     (case get_order oid w of
        None \<Rightarrow> Some w
      | Some order \<Rightarrow>
          (case r of
             R_payout_skip \<Rightarrow> Some w
           | R_payout_paid \<Rightarrow>
               map_option snd (update_order oid (\<lambda>r. r\<lparr>o_disbursed := True, o_payout_error := None\<rparr>) w)
           | R_payout_manual bolt11 \<Rightarrow>
               if o_sponsor_invoice order \<noteq> Some bolt11 then Some (request_payout oid w)
               else if o_payout_error order \<noteq> Some LN_PAYOUT_MANUAL
               then map_option snd (update_order oid (\<lambda>r. r\<lparr>o_payout_error := Some LN_PAYOUT_MANUAL\<rparr>) w)
               else Some w
           | R_payout_expired bolt11 \<Rightarrow>
               if o_sponsor_invoice order \<noteq> Some bolt11 then Some (request_payout oid w)
               else if is_manual_payout (o_payout_error order) then Some (request_payout oid w)
               else if o_payout_error order = Some LN_PAYOUT_INVOICE_EXPIRED then Some w
               else payout_mark_expired e order bolt11 w
           | _ \<Rightarrow> None))"

definition payout_on_retry :: "string \<Rightarrow> string \<Rightarrow> 'm db_scheme \<Rightarrow> 'm db_scheme option" where
  "payout_on_retry oid error w =
     (case get_order oid w of
        None \<Rightarrow> Some w
      | Some order \<Rightarrow>
          if is_manual_payout (o_payout_error order) then Some w
          else if o_payout_error order \<noteq> Some error \<and> error \<noteq> IN_FLIGHT_ERROR
          then map_option snd (update_order oid (\<lambda>r. r\<lparr>o_payout_error := Some error\<rparr>) w)
          else Some w)"

definition payout_on_dead :: "env \<Rightarrow> string \<Rightarrow> string \<Rightarrow> 'm db_scheme \<Rightarrow> 'm db_scheme option" where
  "payout_on_dead e oid error w =
     (case get_order oid w of
        None \<Rightarrow> Some w
      | Some order \<Rightarrow> do {
          (_, w1) \<leftarrow> update_order oid (\<lambda>r. r\<lparr>o_payout_error := Some error\<rparr>) w;
          Some (raise_alert e (''ln:'' @ oid @ '':payout-dead:'' @ error) Anomaly (Some Track_ln) (Some oid) w1)
        })"

subsection \<open>Probing\<close>

definition probe_run :: "node \<Rightarrow> string \<Rightarrow> eff_result outcome nrun" where
  "probe_run nd bolt11 = (case n_probe nd bolt11 of None \<Rightarrow> nthrow | Some r \<Rightarrow> nret (O_done (R_reach r)))"

definition probe_on_done :: "env \<Rightarrow> string \<Rightarrow> string \<Rightarrow> eff_result \<Rightarrow> 'm db_scheme \<Rightarrow> 'm db_scheme option" where
  "probe_on_done e oid bolt11 r w =
     (case r of
        R_reach reach \<Rightarrow>
          Some (case get_order oid w of
                  None \<Rightarrow> w
                | Some order \<Rightarrow>
                    if reach \<noteq> Unreachable \<or> \<not> js_true_s (o_sponsor order) \<or> o_sponsor_invoice order \<noteq> Some bolt11
                    then w
                    else send_invoice_rejected e oid (the (o_sponsor order)) Liquidity_warning
                           (case o_payout_sat order of Some n \<Rightarrow> n | None \<Rightarrow> 0) bolt11 w)
      | _ \<Rightarrow> None)"

end
