(* ===== verification/Ln_Handlers.thy ===== *)
theory Ln_Handlers
  imports Ln_Flow_Inv
begin

text \<open>
  The Lightning request handlers (\<open>daemon/src/ln/handlers.ts\<close>) with the helpers they share: tags and order
  references (\<open>daemon/src/dispatch.ts\<close>, \<open>shared/src/order-ref.ts\<close>, \<open>daemon/src/orders/id.ts\<close>) and push
  subscriptions (\<open>daemon/src/push/send.ts\<close>).  A handler returns its result and the database, or \<open>None\<close> when
  it throws; the dispatcher then rolls back.  Log lines are not modelled.
\<close>

subsection \<open>Events\<close>

record inbox_event =
  ie_id :: string
  ie_pubkey :: string
  ie_kind :: int
  ie_created_at :: sec
  ie_tags :: "string list list"
  ie_content :: string

datatype handler_result = H_ok | H_ignored string

definition extract_order_id :: "string list list \<Rightarrow> string option" where
  "extract_order_id tags =
     (case tag_value ''a'' tags of
        None \<Rightarrow> None
      | Some a \<Rightarrow>
          if a = [] then None
          else (case split_colon a of
                  k # _ # oid # _ \<Rightarrow> if k = ''38383'' then Some oid else None
                | _ \<Rightarrow> None))"

definition order_id_char :: "char \<Rightarrow> bool" where
  "order_id_char c \<longleftrightarrow> (let n = char_code c in
     48 \<le> n \<and> n \<le> 57 \<or> 65 \<le> n \<and> n \<le> 90 \<or> 97 \<le> n \<and> n \<le> 122 \<or> n = 95 \<or> n = 45)"

definition is_order_id :: "string \<Rightarrow> bool" where
  "is_order_id v \<longleftrightarrow> 4 \<le> length v \<and> length v \<le> 64 \<and> list_all order_id_char v"

definition known_height :: "'m db_scheme \<Rightarrow> int option" where
  "known_height w = (let h = cell_int (kv_get ''ln.height'' w) 0 in if h > 0 then Some h else None)"

subsection \<open>Order requests\<close>

definition MAX_PRICE_KRW :: krw where "MAX_PRICE_KRW = 100000000"
definition MAX_OPEN_DESIGNATED_PER_CUSTOMER :: nat where "MAX_OPEN_DESIGNATED_PER_CUSTOMER = 3"

definition js_int :: "jsnum \<Rightarrow> int" where
  "js_int x = (case x of Fin q \<Rightarrow> \<lfloor>q\<rfloor> | _ \<Rightarrow> 0)"

definition order_terms_blocker :: "string \<Rightarrow> jsnum \<Rightarrow> jsnum \<Rightarrow> 'm db_scheme \<Rightarrow> string option" where
  "order_terms_blocker oid price deadline w =
     (if \<not> is_js_integer price \<or> js_int price \<le> 0 \<or> js_int price > MAX_PRICE_KRW then Some ''bad-price''
      else if \<not> is_js_integer deadline then Some ''bad-deadline''
      else if js_int deadline - now_sec w < LN_MIN_CLAIM_LEAD_SEC then Some ''deadline-too-close''
      else if js_int deadline - now_sec w > LN_MAX_DEADLINE_LEAD_SEC then Some ''deadline-too-far''
      else if get_order oid w \<noteq> None \<or> get_draft oid w \<noteq> None then Some ''duplicate''
      else None)"

type_synonym 'm handler = "env \<Rightarrow> inbox_event \<Rightarrow> 'm db_scheme \<Rightarrow> (handler_result \<times> 'm db_scheme) option"

definition order_request :: "'m handler" where
  "order_request e ev w =
     (case extract_order_id (ie_tags ev) of
        None \<Rightarrow> Some (H_ignored ''bad-order-id'', w)
      | Some oid \<Rightarrow>
          if \<not> is_order_id oid then Some (H_ignored ''bad-order-id'', w)
          else
            (let price = js_number_opt (tag_value ''price'' (ie_tags ev));
                 deadline = js_number_opt (tag_value ''deadline'' (ie_tags ev)) in
             case order_terms_blocker oid price deadline w of
               Some b \<Rightarrow> Some (H_ignored b, w)
             | None \<Rightarrow>
                 (let pct = st_customer_pct (db_settings w) in
                  if pct = 0 then do {
                    w1 \<leftarrow> insert_order e oid (ie_pubkey ev) (js_int price) (js_int deadline) None None w;
                    Some (H_ok, w1)
                  }
                  else do {
                    let draft = \<lparr>d_id = oid, d_customer = ie_pubkey ev, d_price = js_int price,
                                 d_deadline = js_int deadline, d_created_at = now_sec w\<rparr>;
                    w1 \<leftarrow> insert_draft draft w;
                    (_, w2) \<leftarrow> plan_customer_deposit e draft pct w1;
                    Some (H_ok, w2)
                  })))"

text \<open>\<open>isLnDesignatedOrderPayload\<close> with \<open>isPubkeyHex\<close>.\<close>

definition is_pubkey_hex :: "env \<Rightarrow> string \<Rightarrow> bool" where
  "is_pubkey_hex e v \<longleftrightarrow> is_hex64 v \<and> e_on_curve e v"

definition designated_payload :: "env \<Rightarrow> json \<Rightarrow> (rat \<times> rat \<times> string) option" where
  "designated_payload e v =
     (if \<not> is_object v then None
      else do {
        price \<leftarrow> jnum (jfield ''price'' v);
        deadline \<leftarrow> jnum (jfield ''deadline'' v);
        sponsor \<leftarrow> jstr (jfield ''designatedSponsor'' v);
        if is_pubkey_hex e sponsor then Some (price, deadline, sponsor) else None
      })"

definition designated_order_request :: "'m handler" where
  "designated_order_request e ev w =
     (case extract_order_id (ie_tags ev) of
        None \<Rightarrow> Some (H_ignored ''bad-order-id'', w)
      | Some oid \<Rightarrow>
          if \<not> is_order_id oid then Some (H_ignored ''bad-order-id'', w)
          else (case e_unseal e (ie_content ev) (ie_pubkey ev) of
             None \<Rightarrow> Some (H_ignored ''undecryptable'', w)
           | Some v \<Rightarrow>
               (case designated_payload e v of
                  None \<Rightarrow> Some (H_ignored ''bad-payload'', w)
                | Some (price, deadline, sponsor) \<Rightarrow>
                    if sponsor = ie_pubkey ev then Some (H_ignored ''self-designated'', w)
                    else (case order_terms_blocker oid (Fin price) (Fin deadline) w of
                       Some b \<Rightarrow> Some (H_ignored b, w)
                     | None \<Rightarrow>
                         if open_designated_count (ie_pubkey ev) w \<ge> MAX_OPEN_DESIGNATED_PER_CUSTOMER
                         then Some (H_ignored ''too-many-designated'', w)
                         else do {
                           w1 \<leftarrow> insert_order e oid (ie_pubkey ev) \<lfloor>price\<rfloor> \<lfloor>deadline\<rfloor> None (Some sponsor) w;
                           r \<leftarrow> get_order oid w1;
                           Some (H_ok, notify_designated_arrived r w1)
                         }))))"

subsection \<open>Claim\<close>

type_synonym 'm order_handler =
  "env \<Rightarrow> inbox_event \<Rightarrow> ln_order \<Rightarrow> 'm db_scheme \<Rightarrow> (handler_result \<times> 'm db_scheme) option"

definition with_order :: "'m order_handler \<Rightarrow> 'm handler" where
  "with_order h e ev w =
     (case extract_order_id (ie_tags ev) of
        None \<Rightarrow> Some (H_ignored ''no-order'', w)
      | Some oid \<Rightarrow>
          if oid = [] then Some (H_ignored ''no-order'', w)
          else (case get_order oid w of
                  None \<Rightarrow> Some (H_ignored ''unknown-order'', w)
                | Some r \<Rightarrow> h e ev r w))"

definition claim :: "'m order_handler" where
  "claim e ev r w =
     (if o_pending_close r \<noteq> None then Some (H_ignored ''closing'', w)
      else if \<not> can_transition (o_state r) Claimed then Some (H_ignored ''bad-state'', w)
      else if ie_pubkey ev = o_customer r then Some (H_ignored ''self-claim'', w)
      else if js_true_s (o_designated_sponsor r) \<and> o_designated_sponsor r \<noteq> Some (ie_pubkey ev)
      then Some (H_ignored ''not-designated'', w)
      else if o_deadline r - now_sec w < LN_MIN_CLAIM_LEAD_SEC then Some (H_ignored ''deadline-too-close'', w)
      else do {
        (claimed, w1) \<leftarrow> update_order (o_id r)
          (\<lambda>x. x\<lparr>o_state := Claimed, o_sponsor := Some (ie_pubkey ev), o_claimed_at := Some (now_sec w)\<rparr>) w;
        (_, w2) \<leftarrow> (if sponsor_deposit_required claimed w1
                    then plan_sponsor_deposit e claimed (st_sponsor_pct (db_settings w1)) w1
                    else Some (False, w1));
        Some (H_ok, w2)
      })"

subsection \<open>The sponsor's invoice\<close>

definition payout_pending :: "ln_order \<Rightarrow> bool" where
  "payout_pending r \<longleftrightarrow> (o_state r = Paid \<or> o_state r = Sponsor_wins) \<and> \<not> o_disbursed r"

definition escrow_ending_soon :: "ln_order \<Rightarrow> 'm db_scheme \<Rightarrow> bool" where
  "escrow_ending_soon r w \<longleftrightarrow>
     (o_state r = Escrowed \<or> o_state r = Invoiced) \<and>
     (case Option.bind (o_escrow_hash r) (\<lambda>h. Option.bind (hold_get h w) h_htlc_expiry) of
        None \<Rightarrow> False
      | Some x \<Rightarrow> x \<noteq> 0 \<and> (case known_height w of None \<Rightarrow> False
                          | Some height \<Rightarrow> x - height < INVOICE_ESCROW_MIN_BLOCKS))"

definition reject_invoice ::
  "env \<Rightarrow> inbox_event \<Rightarrow> ln_order \<Rightarrow> invoice_reject \<Rightarrow> 'm db_scheme \<Rightarrow> handler_result \<times> 'm db_scheme" where
  "reject_invoice e ev r reason w =
     (H_ignored (''rejected:'' @ invoice_reject_str reason),
      send_invoice_rejected e (o_id r) (ie_pubkey ev) reason
        (case o_payout_sat r of Some n \<Rightarrow> n | None \<Rightarrow> 0) (ie_id ev) w)"

text \<open>The guards that come before the invoice is read; \<open>None\<close> lets the request through.\<close>

definition invoice_blocker :: "inbox_event \<Rightarrow> ln_order \<Rightarrow> string \<Rightarrow> 'm db_scheme \<Rightarrow> string option" where
  "invoice_blocker ev r bolt11 w =
     (if o_state r \<notin> {Escrowed, Invoiced, Remitted} \<and> \<not> payout_pending r then Some ''bad-state''
      else if payout_pending r \<and> o_payout_error r \<noteq> Some LN_PAYOUT_INVOICE_EXPIRED
      then Some ''payout-in-progress''
      else if o_state r = Escrowed \<and> (case o_invoice_deadline r of None \<Rightarrow> False
                | Some d \<Rightarrow> min (ie_created_at ev) (now_sec w) > d) then Some ''after-invoice-deadline''
      else if o_sponsor_invoice r = Some bolt11 then Some ''same-invoice''
      else None)"

text \<open>Storing an accepted invoice: the first one opens the account gate, a later one replaces it.\<close>

definition store_invoice :: "ln_order \<Rightarrow> string \<Rightarrow> 'm db_scheme \<Rightarrow> 'm db_scheme option" where
  "store_invoice r bolt11 w =
     (if o_state r = Escrowed then do {
        (invoiced, w1) \<leftarrow> update_order (o_id r) (\<lambda>x. x\<lparr>o_state := Invoiced, o_sponsor_invoice := Some bolt11\<rparr>) w;
        Some (notify_ln_transition invoiced w1)
      } else do {
        (_, w1) \<leftarrow> update_order (o_id r) (\<lambda>x. x\<lparr>o_sponsor_invoice := Some bolt11, o_payout_error := None\<rparr>) w;
        Some (if payout_pending r then request_payout (o_id r) w1 else w1)
      })"

definition sponsor_invoice :: "'m order_handler" where
  "sponsor_invoice e ev r w =
     (if o_sponsor r \<noteq> Some (ie_pubkey ev) then Some (H_ignored ''not-sponsor'', w)
      else if o_pending_close r \<noteq> None then Some (H_ignored ''closing'', w)
      else
        (let bolt11 = (case tag_value ''bolt11'' (ie_tags ev) of None \<Rightarrow> [] | Some b \<Rightarrow> js_trim b) in
         if bolt11 = [] then Some (H_ignored ''no-bolt11'', w)
         else (case invoice_blocker ev r bolt11 w of
            Some b \<Rightarrow> Some (H_ignored b, w)
          | None \<Rightarrow>
              (case e_bolt11 e bolt11 of
                 None \<Rightarrow> Some (reject_invoice e ev r Decode_failed w)
               | Some info \<Rightarrow>
                   if hold_is_ours (b11_hash info) w then Some (H_ignored ''our-invoice'', w)
                   else if \<not> is_payout_amount_exact (o_payout_sat r) (b11_amount info)
                   then Some (reject_invoice e ev r Amount_mismatch w)
                   else if b11_expires info - now_sec w < LN_MIN_SPONSOR_INVOICE_LIFETIME_SEC
                   then Some (reject_invoice e ev r Expires_too_soon w)
                   else if escrow_ending_soon r w then Some (reject_invoice e ev r Escrow_ending_soon w)
                   else do {
                     w1 \<leftarrow> store_invoice r bolt11 w;
                     Some (H_ok, if payout_pending r then w1
                       else enq ''ln.probe'' (P_ln_probe (o_id r) bolt11) (Some (''ln.probe:'' @ b11_hash info)) w1)
                   }))))"

subsection \<open>Account, transfer, confirmation, cancellation\<close>

definition account_info :: "'m order_handler" where
  "account_info e ev r w =
     (if ie_pubkey ev \<noteq> o_customer r then Some (H_ignored ''not-customer'', w)
      else if o_state r \<noteq> Invoiced \<and> o_state r \<noteq> Remitted then Some (H_ignored ''bad-state'', w)
      else (case tag_value ''commitment'' (ie_tags ev) of
              None \<Rightarrow> Some (H_ignored ''no-commitment'', w)
            | Some c \<Rightarrow>
                if \<not> is_hex64 c then Some (H_ignored ''no-commitment'', w)
                else if o_account_commitment r = Some c then Some (H_ignored ''same-account'', w)
                else do {
                  (updated, w1) \<leftarrow> update_order (o_id r)
                    (\<lambda>x. x\<lparr>o_account_sent_at := (case o_account_sent_at r of Some t \<Rightarrow> Some t
                                                  | None \<Rightarrow> Some (now_sec w)),
                           o_account_commitment := Some c\<rparr>) w;
                  Some (H_ok, notify_account_arrived updated c w1)
                }))"

definition late_arrival :: "env \<Rightarrow> inbox_event \<Rightarrow> ln_order \<Rightarrow> 'm db_scheme \<Rightarrow> handler_result \<times> 'm db_scheme" where
  "late_arrival e ev r w =
     (H_ignored ''bad-state'',
      if ln_terminal (o_state r) \<and> ie_created_at ev \<le> o_updated_at r
      then raise_alert e (''ln:'' @ o_id r @ '':late:'' @ ie_id ev) Anomaly (Some Track_ln) (Some (o_id r)) w
      else w)"

definition remit_request :: "'m order_handler" where
  "remit_request e ev r w =
     (if o_sponsor r \<noteq> Some (ie_pubkey ev) then Some (H_ignored ''not-sponsor'', w)
      else if o_pending_close r \<noteq> None then Some (H_ignored ''closing'', w)
      else if o_state r \<noteq> Invoiced then Some (late_arrival e ev r w)
      else if ie_created_at ev > o_deadline r + DEADLINE_GRACE_SEC then Some (H_ignored ''after-deadline'', w)
      else do {
        (remitted, w1) \<leftarrow> update_order (o_id r)
          (\<lambda>x. x\<lparr>o_state := Remitted, o_remitted_at := Some (now_sec w)\<rparr>) w;
        Some (H_ok, notify_ln_transition remitted w1)
      })"

definition payment_confirm :: "'m order_handler" where
  "payment_confirm e ev r w =
     (if ie_pubkey ev \<noteq> o_customer r then Some (H_ignored ''not-customer'', w)
      else if o_pending_close r \<noteq> None then Some (H_ignored ''closing'', w)
      else if o_state r \<noteq> Invoiced \<and> o_state r \<noteq> Remitted then Some (late_arrival e ev r w)
      else do {
        (_, w1) \<leftarrow> begin_close r CR_paid w;
        Some (H_ok, w1)
      })"

definition cancel_order :: "'m order_handler" where
  "cancel_order e ev r w =
     (if ie_pubkey ev \<noteq> o_customer r then Some (H_ignored ''not-customer'', w)
      else if o_pending_close r \<noteq> None then Some (H_ignored ''closing'', w)
      else if o_state r = Requested then do {
        (began, w1) \<leftarrow> begin_close r CR_cancel_customer w;
        Some (if began then H_ok else H_ignored ''closing'', w1)
      }
      else if o_state r = Claimed \<or> o_state r = Verified then do {
        (began, w1) \<leftarrow> begin_close r CR_cancel_customer_after_claim w;
        Some (if began then H_ok else H_ignored ''closing'', w1)
      }
      else Some (H_ignored ''bad-state'', w))"

definition cancel_request :: "'m handler" where
  "cancel_request e ev w =
     (case extract_order_id (ie_tags ev) of
        None \<Rightarrow> Some (H_ignored ''no-order'', w)
      | Some oid \<Rightarrow>
          if oid = [] then Some (H_ignored ''no-order'', w)
          else (case get_draft oid w of
             Some draft \<Rightarrow>
               if d_customer draft \<noteq> ie_pubkey ev then Some (H_ignored ''not-customer'', w)
               else
                 (let w1 = delete_draft oid w in
                  Some (H_ok, case hold_current Ln_customer_deposit oid (d_customer draft) w1 of
                                Some dep \<Rightarrow> hold_dispose (h_hash dep) Want_cancel w1
                              | None \<Rightarrow> w1))
           | None \<Rightarrow>
               (case get_order oid w of
                  None \<Rightarrow> Some (H_ignored ''unknown-order'', w)
                | Some r \<Rightarrow> cancel_order e ev r w)))"

subsection \<open>Push subscriptions\<close>

definition push_payload :: "json \<Rightarrow> (string \<times> string \<times> string) option" where
  "push_payload v = do {
     endpoint \<leftarrow> jstr (jfield ''endpoint'' v);
     if take 8 endpoint = ''https://'' \<and> length endpoint \<le> 2048 then do {
       p256dh \<leftarrow> jstr (jfield ''p256dh'' v);
       if length p256dh \<le> 200 then do {
         auth \<leftarrow> jstr (jfield ''auth'' v);
         if length auth \<le> 100 then Some (endpoint, p256dh, auth) else None
       } else None
     } else None
   }"

definition save_subscription ::
  "string \<Rightarrow> string \<Rightarrow> string \<Rightarrow> string \<Rightarrow> 'm db_scheme \<Rightarrow> bool \<times> 'm db_scheme" where
  "save_subscription pubkey endpoint p256dh auth w =
     (case List.find (\<lambda>r. ps_endpoint r = endpoint) (push_subs w) of
        None \<Rightarrow> (True, w\<lparr>push_subs := push_subs w @ [\<lparr>ps_endpoint = endpoint, ps_pubkey = pubkey,
                   ps_p256dh = p256dh, ps_auth = auth, ps_created_at = now_sec w, ps_dead_at = None\<rparr>]\<rparr>)
      | Some before \<Rightarrow>
          (ps_pubkey before \<noteq> pubkey \<or> ps_dead_at before \<noteq> None,
           w\<lparr>push_subs := update_where (\<lambda>r. ps_endpoint r = endpoint)
               (\<lambda>r. r\<lparr>ps_pubkey := pubkey, ps_p256dh := p256dh, ps_auth := auth, ps_dead_at := None\<rparr>)
               (push_subs w)\<rparr>))"

definition push_subscription :: "'m handler" where
  "push_subscription e ev w =
     (case e_unseal e (ie_content ev) (ie_pubkey ev) of
        None \<Rightarrow> Some (H_ignored ''undecryptable'', w)
      | Some v \<Rightarrow>
          (case push_payload v of
             None \<Rightarrow> Some (H_ignored ''bad-payload'', w)
           | Some (endpoint, p256dh, auth) \<Rightarrow>
               (case save_subscription (ie_pubkey ev) endpoint p256dh auth w of
                  (isNew, w1) \<Rightarrow>
                    Some (H_ok, if isNew then queue_push (ie_pubkey ev) ''welcome'' [] (Some endpoint) w1 else w1))))"

text \<open>\<open>createLnHandlers\<close>: the action tag selects the handler.\<close>

definition ln_handler :: "string \<Rightarrow> 'm handler option" where
  "ln_handler action =
     (if action = ''order-request'' then Some order_request
      else if action = ''designated-order-request'' then Some designated_order_request
      else if action = ''claim'' then Some (with_order claim)
      else if action = ''sponsor-invoice'' then Some (with_order sponsor_invoice)
      else if action = ''account-info'' then Some (with_order account_info)
      else if action = ''remit-request'' then Some (with_order remit_request)
      else if action = ''payment-confirm'' then Some (with_order payment_confirm)
      else if action = ''cancel-request'' then Some cancel_request
      else if action = ''push-subscription'' then Some push_subscription
      else None)"

end
