(* ===== verification/Ln_Publish.thy ===== *)
theory Ln_Publish
  imports Ln_Effects Ln_Handlers
begin

text \<open>
  Publishing: the order event or, for a designated trade, one sealed snapshot per recipient
  (\<open>daemon/src/orders/publish.ts\<close>, \<open>shared/src/designated.ts\<close>), the operators' detail of an order and the
  executors that put them on the relays (\<open>daemon/src/ln/effects.ts\<close>).

  The relays are a parameter: a publication gives the relays that took the event and the refusals.  Signing adds the id and the signature outside the model.
\<close>

record report =
  rp_accepted :: "string list"
  rp_rejected :: "(string \<times> string) list"

type_synonym relay = "nostr_event \<Rightarrow> report"

definition join :: "string \<Rightarrow> string list \<Rightarrow> string" where
  "join sep xs = (case xs of [] \<Rightarrow> [] | x # ys \<Rightarrow> fold (\<lambda>y acc. acc @ sep @ y) ys x)"

text \<open>\<open>reasons.join('; ') || 'no relay'\<close>.\<close>

definition joined_reasons :: "string list \<Rightarrow> string" where
  "joined_reasons rs = (let j = join ''; '' rs in if j = [] then ''no relay'' else j)"

subsection \<open>Events of an order\<close>

definition ORDER_KIND :: int where "ORDER_KIND = 38383"
definition DESIGNATED_ORDER_KIND :: int where "DESIGNATED_ORDER_KIND = 33839"
definition ADMIN_STATE_KIND :: int where "ADMIN_STATE_KIND = 33838"

definition designated_order_d :: "string \<Rightarrow> string \<Rightarrow> string" where
  "designated_order_d oid recipient = oid @ '':'' @ recipient"

definition tags_json :: "string list list \<Rightarrow> json" where
  "tags_json tags = J_arr (map (\<lambda>t. J_arr (map J_str t)) tags)"

definition designated_order_template ::
  "env \<Rightarrow> string \<Rightarrow> string \<Rightarrow> string \<Rightarrow> string list list \<Rightarrow> rat \<Rightarrow> sec \<Rightarrow> nostr_event option" where
  "designated_order_template e oid recipient trackTag tags retainUntil createdAt =
     map_option (\<lambda>c. \<lparr>ev_kind = DESIGNATED_ORDER_KIND, ev_created_at = createdAt,
          ev_tags = [[''d'', designated_order_d oid recipient], [''p'', recipient], [''t'', trackTag],
                     [''expiration'', num_str retainUntil]],
          ev_content = c\<rparr>)
       (e_seal e recipient (tags_json tags))"

definition order_events ::
  "env \<Rightarrow> string \<Rightarrow> string \<Rightarrow> string option \<Rightarrow> string \<Rightarrow> string list list \<Rightarrow> rat \<Rightarrow> sec
   \<Rightarrow> nostr_event list \<times> string list" where
  "order_events e oid customer designated trackTag tags retainUntil createdAt =
     (if \<not> js_true_s designated
      then ([\<lparr>ev_kind = ORDER_KIND, ev_created_at = createdAt, ev_tags = tags, ev_content = []\<rparr>], [])
      else
        (let recipients = set_order ([customer, the designated] @ e_operators e);
             sealed = map (\<lambda>r. (r, designated_order_template e oid r trackTag tags retainUntil createdAt)) recipients
         in (List.map_filter snd sealed, map fst (filter (\<lambda>p. snd p = None) sealed))))"

definition publish_all :: "relay \<Rightarrow> nostr_event list \<Rightarrow> string option" where
  "publish_all rl events =
     (let failed = filter (\<lambda>r. rp_accepted r = []) (map rl events) in
      if failed = [] then None
      else Some (joined_reasons (concat (map (\<lambda>r. map snd (rp_rejected r)) failed))))"

definition alert_skipped_recipients ::
  "env \<Rightarrow> track \<Rightarrow> string \<Rightarrow> string \<Rightarrow> string list \<Rightarrow> 'm db_scheme \<Rightarrow> 'm db_scheme" where
  "alert_skipped_recipients e trk trackName oid skipped w =
     fold (\<lambda>r. raise_alert e (trackName @ '':'' @ oid @ '':unsealable:'' @ r) Anomaly (Some trk) (Some oid)) skipped w"

definition sponsor_deposit_pending :: "ln_order \<Rightarrow> 'm db_scheme \<Rightarrow> bool" where
  "sponsor_deposit_pending order w =
     (if o_state order \<noteq> Claimed \<or> \<not> js_true_s (o_sponsor order) \<or> js_true_s (o_sponsor_deposit_hash order) then False
      else (case hold_current Ln_sponsor_deposit (o_id order) (the (o_sponsor order)) w of
              Some dep \<Rightarrow> is_live_hold dep \<or> sponsor_deposit_required order w
            | None \<Rightarrow> sponsor_deposit_required order w))"

definition ln_fields_of :: "ln_order \<Rightarrow> 'm db_scheme \<Rightarrow> ln_fields" where
  "ln_fields_of order w =
     \<lparr>lf_order = o_id order, lf_state = o_state order, lf_customer = o_customer order,
      lf_sponsor = o_sponsor order, lf_price = o_price order, lf_deadline = o_deadline order,
      lf_bolt11 = o_escrow_bolt11 order,
      lf_payout = (if js_true_n (o_payout_sat order) \<and> js_true_s (o_escrow_bolt11 order) then o_payout_sat order else None),
      lf_sponsor_invoice = o_sponsor_invoice order, lf_disbursed = o_disbursed order,
      lf_deposit_hash = o_customer_deposit_hash order,
      lf_sponsor_deposit_hash = o_sponsor_deposit_hash order,
      lf_sponsor_deposit_pending = sponsor_deposit_pending order w,
      lf_close_reason = map_option close_reason_str (o_close_reason order),
      lf_invoice_deadline = o_invoice_deadline order, lf_designated = o_designated_sponsor order\<rparr>"

definition build_order_events :: "env \<Rightarrow> ln_order \<Rightarrow> sec \<Rightarrow> 'm db_scheme \<Rightarrow> nostr_event list \<times> string list" where
  "build_order_events e order createdAt w =
     (let retainUntil = ln_retention (o_state order) (o_deadline order) createdAt;
          tags = ln_order_tags (ln_fields_of order w) (e_tag_ln e) retainUntil (e_app_url e)
      in order_events e (o_id order) (o_customer order) (o_designated_sponsor order) (e_tag_ln e) tags
           (of_int retainUntil) createdAt)"

definition publish_run :: "env \<Rightarrow> relay \<Rightarrow> string \<Rightarrow> 'm db_scheme \<Rightarrow> eff_result outcome" where
  "publish_run e rl oid w =
     (case get_order oid w of
        None \<Rightarrow> O_done (R_published None [])
      | Some order \<Rightarrow>
          (let createdAt = max (now_sec w) (o_published_at order + 1) in
           if ln_retention (o_state order) (o_deadline order) createdAt \<le> createdAt
           then O_done (R_published None [])
           else (case build_order_events e order createdAt w of
                   (events, skipped) \<Rightarrow>
                     (case publish_all rl events of
                        Some error \<Rightarrow> O_retry error None
                      | None \<Rightarrow> O_done (R_published (Some createdAt) skipped)))))"

definition publish_on_done :: "env \<Rightarrow> string \<Rightarrow> eff_result \<Rightarrow> 'm db_scheme \<Rightarrow> 'm db_scheme option" where
  "publish_on_done e oid r w =
     (case r of
        R_published createdAt skipped \<Rightarrow>
          Some (alert_skipped_recipients e Track_ln ''ln'' oid skipped
            (case createdAt of
               Some t \<Rightarrow> if t = 0 then w
                 else w\<lparr>ln_orders := update_where (\<lambda>r. o_id r = oid) (\<lambda>r. r\<lparr>o_published_at := t\<rparr>) (ln_orders w)\<rparr>
             | None \<Rightarrow> w))
      | _ \<Rightarrow> None)"

subsection \<open>The operators' detail\<close>

fun purpose_name :: "hold_purpose \<Rightarrow> string" where
  "purpose_name Ln_escrow = ''escrow''"
| "purpose_name Ln_customer_deposit = ''customer-deposit''"
| "purpose_name Ln_sponsor_deposit = ''sponsor-deposit''"
| "purpose_name _ = []"

fun hold_status_str :: "hold_status \<Rightarrow> string" where
  "hold_status_str H_creating = ''creating''"
| "hold_status_str H_open = ''open''"
| "hold_status_str H_accepted = ''accepted''"
| "hold_status_str H_settled = ''settled''"
| "hold_status_str H_cancelled = ''cancelled''"

definition j_opt_s :: "string \<Rightarrow> string option \<Rightarrow> (string \<times> json) list" where
  "j_opt_s k v = (if js_true_s v then [(k, J_str (the v))] else [])"

definition j_opt_n :: "string \<Rightarrow> int option \<Rightarrow> (string \<times> json) list" where
  "j_opt_n k v = (if js_true_n v then [(k, j_int (the v))] else [])"

definition detail_invoice :: "hold_row \<Rightarrow> json" where
  "detail_invoice iv = J_obj
     ([(''purpose'', J_str (purpose_name (h_purpose iv))), (''party'', J_str (h_party iv)),
       (''amountSat'', j_int (h_amount iv)), (''status'', J_str (hold_status_str (h_status iv))),
       (''payBy'', J_num (Fin (h_pay_by iv)))]
      @ j_opt_n ''htlcExpiryHeight'' (h_htlc_expiry iv) @ [(''paymentHash'', J_str (h_hash iv))])"

definition build_ln_detail :: "ln_order \<Rightarrow> int option \<Rightarrow> 'm db_scheme \<Rightarrow> json" where
  "build_ln_detail r height w = J_obj
     ([(''v'', j_int 1), (''orderId'', J_str (o_id r)), (''version'', j_int (int (o_version r))),
       (''state'', J_str (order_state_str (o_state r))), (''customer'', J_str (o_customer r))]
      @ j_opt_s ''sponsor'' (o_sponsor r)
      @ [(''price'', j_int (o_price r)), (''deadline'', j_int (o_deadline r))]
      @ j_opt_n ''payoutSat'' (o_payout_sat r)
      @ [(''escrowSettled'', J_bool (o_escrow_settled r))]
      @ j_opt_s ''sponsorInvoice'' (o_sponsor_invoice r)
      @ [(''disbursed'', J_bool (o_disbursed r))]
      @ j_opt_s ''payoutError'' (o_payout_error r)
      @ j_opt_s ''pendingClose'' (map_option close_reason_str (o_pending_close r))
      @ j_opt_s ''closeReason'' (map_option close_reason_str (o_close_reason r))
      @ j_opt_n ''claimedAt'' (o_claimed_at r) @ j_opt_n ''accountSentAt'' (o_account_sent_at r)
      @ j_opt_n ''invoiceDeadline'' (o_invoice_deadline r)
      @ j_opt_s ''designatedSponsor'' (o_designated_sponsor r)
      @ j_opt_s ''accountCommitment'' (o_account_commitment r)
      @ j_opt_n ''remittedAt'' (o_remitted_at r)
      @ [(''createdAt'', j_int (o_created_at r)), (''updatedAt'', j_int (o_updated_at r)),
         (''invoices'', J_arr (map detail_invoice (hold_of (o_id r) LN_HOLD_PURPOSES w)))]
      @ j_opt_n ''blockHeight'' height)"

definition DETAIL_RETENTION_SEC :: sec where "DETAIL_RETENTION_SEC = 30 * 24 * 60 * 60"

definition track_name :: "track \<Rightarrow> string" where
  "track_name t = (case t of Track_ln \<Rightarrow> ''ln'' | Track_onchain \<Rightarrow> ''onchain'')"

definition admin_order_d :: "string \<Rightarrow> track \<Rightarrow> string \<Rightarrow> string \<Rightarrow> string" where
  "admin_order_d adminTag trk oid operator =
     ''lnpay-admin:'' @ adminTag @ '':order:'' @ track_name trk @ '':'' @ oid @ '':'' @ operator"

definition detail_event :: "env \<Rightarrow> string \<Rightarrow> sec \<Rightarrow> json \<Rightarrow> string \<Rightarrow> nostr_event option" where
  "detail_event e oid createdAt content operator =
     map_option (\<lambda>c. \<lparr>ev_kind = ADMIN_STATE_KIND, ev_created_at = createdAt,
          ev_tags = [[''d'', admin_order_d (e_tag_admin e) Track_ln oid operator], [''p'', operator],
                     [''t'', e_tag_admin e], [''expiration'', int_str (createdAt + DETAIL_RETENTION_SEC)]],
          ev_content = c\<rparr>)
       (e_seal e operator content)"

text \<open>One operator after the other; the first refusal is retried later, a failing seal throws.\<close>

fun publish_detail :: "env \<Rightarrow> relay \<Rightarrow> string \<Rightarrow> sec \<Rightarrow> json \<Rightarrow> string list \<Rightarrow> eff_result outcome option" where
  "publish_detail e rl oid createdAt content [] = Some (O_done (R_published (Some createdAt) []))"
| "publish_detail e rl oid createdAt content (op # ops) =
     (case detail_event e oid createdAt content op of
        None \<Rightarrow> None
      | Some ev \<Rightarrow>
          if rp_accepted (rl ev) = []
          then Some (O_retry (joined_reasons (map snd (rp_rejected (rl ev)))) None)
          else publish_detail e rl oid createdAt content ops)"

definition detail_cell :: "string \<Rightarrow> string" where "detail_cell oid = ''ln.detail.at:'' @ oid"

definition detail_run :: "env \<Rightarrow> relay \<Rightarrow> string \<Rightarrow> 'm db_scheme \<Rightarrow> eff_result outcome option" where
  "detail_run e rl oid w =
     (case get_order oid w of
        None \<Rightarrow> Some (O_done (R_published None []))
      | Some order \<Rightarrow>
          (let createdAt = max (now_sec w) (cell_int (kv_get (detail_cell oid) w) 0 + 1) in
           publish_detail e rl oid createdAt (build_ln_detail order (known_height w) w) (e_operators e)))"

definition detail_on_done :: "string \<Rightarrow> eff_result \<Rightarrow> 'm db_scheme \<Rightarrow> 'm db_scheme option" where
  "detail_on_done oid r w =
     (case r of
        R_published createdAt _ \<Rightarrow>
          Some (case createdAt of Some t \<Rightarrow> if t = 0 then w else kv_set (detail_cell oid) (int_str t) w | None \<Rightarrow> w)
      | _ \<Rightarrow> None)"

end
