(* ===== verification/Ln_Handlers_Inv.thy ===== *)
theory Ln_Handlers_Inv
  imports Ln_Handlers
begin

text \<open>
  Every request handler keeps the invariants of the Lightning database and moves orders only along the
  transition table; the properties say who may cause which change.
\<close>

lemma plan_customer_deposit_orders:
  assumes "plan_customer_deposit e d pct w = Some (b, w')"
  shows "get_order i w' = get_order i w"
  using assms hold_plan_ln_ok(2)
  by (fastforce simp: plan_customer_deposit_def Let_def get_order_def delete_draft_def
      split: option.splits if_splits)

lemma terms_free:
  "order_terms_blocker oid p d w = None \<Longrightarrow> get_order oid w = None \<and> get_draft oid w = None"
  by (auto simp: order_terms_blocker_def split: if_splits)

lemma draft_then_deposit_ok:
  "insert_draft d w = Some w1 \<Longrightarrow> plan_customer_deposit e d pct w1 = Some (b, w')
   \<Longrightarrow> get_order (d_id d) w = None \<Longrightarrow> ln_ok e w w'"
  by (rule ln_ok_trans [OF ln_ok_insert_draft plan_customer_deposit_ok])

lemma order_request_ok:
  assumes "order_request e ev w = Some (res, w')"
  shows "ln_ok e w w'"
proof (cases "extract_order_id (ie_tags ev)")
  case None
  with assms show ?thesis by (simp add: order_request_def)
next
  case (Some oid)
  show ?thesis
  proof (cases "w' = w")
    case False
    let ?p = "js_number_opt (tag_value ''price'' (ie_tags ev))"
    let ?d = "js_number_opt (tag_value ''deadline'' (ie_tags ev))"
    have free: "order_terms_blocker oid ?p ?d w = None"
      using assms Some False by (auto simp: order_request_def Let_def split: option.splits if_splits)
    show ?thesis
      using assms Some False free terms_free [OF free]
      by (auto simp: order_request_def Let_def insert_order_ok split: if_splits intro: draft_then_deposit_ok)
  qed simp
qed

lemma designated_order_request_ok:
  assumes "designated_order_request e ev w = Some (res, w')"
  shows "ln_ok e w w'"
proof -
  have ins: "insert_order e oid c p d None s w = Some w1 \<Longrightarrow> order_terms_blocker oid x y w = None
      \<Longrightarrow> ln_ok e w (notify_designated_arrived r w1)" for oid c p d s w1 r x y
    by (blast intro: ln_ok_quiet_after [OF insert_order_ok quiet_notify_designated_arrived] dest: terms_free)
  show ?thesis
    using assms
    by (auto simp: designated_order_request_def Let_def ins split: option.splits if_splits prod.splits)
qed

lemma with_order_cases:
  assumes "with_order h e ev w = Some (res, w')"
  obtains "w' = w" | oid r where "get_order oid w = Some r" "h e ev r w = Some (res, w')"
  using assms by (auto simp: with_order_def split: option.splits if_splits)

subsection \<open>The order handlers\<close>

lemma claim_ok:
  assumes "claim e ev r w = Some (res, w')" and "get_order (o_id r) w = Some r"
  shows "ln_ok e w w'"
proof (cases "res = H_ok")
  case False
  with assms show ?thesis by (auto simp: claim_def split: if_splits)
next
  case True
  with assms obtain r1 w1 where
    pc: "o_pending_close r = None" and can: "can_transition (o_state r) Claimed"
    and self: "ie_pubkey ev \<noteq> o_customer r"
    and des: "js_true_s (o_designated_sponsor r) \<longrightarrow> o_designated_sponsor r = Some (ie_pubkey ev)"
    and u: "update_order (o_id r) (\<lambda>x. x\<lparr>o_state := Claimed, o_sponsor := Some (ie_pubkey ev),
        o_claimed_at := Some (now_sec w)\<rparr>) w = Some (r1, w1)"
    and fin: "w' = w1 \<or> (\<exists>pct b. plan_sponsor_deposit e r1 pct w1 = Some (b, w'))"
    by (auto simp: claim_def split: if_splits)
  have st: "o_state r = Requested"
    using can by (cases "o_state r") (simp_all add: can_transition_def)
  have "ln_ok e w w1"
    by (rule update_order_ok' [OF u assms(2)])
      (use st pc self des can in \<open>auto simp: order_ok_def same_trade_def state_sets\<close>)
  moreover have "ln_ok e w1 w'" using fin plan_sponsor_deposit_ok(1) by auto
  ultimately show ?thesis by (rule ln_ok_trans)
qed

lemma store_invoice_ok:
  assumes "store_invoice r b w = Some w'" and "get_order (o_id r) w = Some r"
    and "o_state r \<in> {Escrowed, Invoiced, Remitted} \<or> payout_pending r"
    and "payout_pending r \<Longrightarrow> o_payout_error r = Some LN_PAYOUT_INVOICE_EXPIRED"
    and "b \<noteq> []" and "o_pending_close r = None"
  shows "ln_ok e w w'"
proof (cases "o_state r = Escrowed")
  case True
  then obtain r1 w1 where u: "update_order (o_id r) (\<lambda>x. x\<lparr>o_state := Invoiced, o_sponsor_invoice := Some b\<rparr>) w
      = Some (r1, w1)" and w': "w' = notify_ln_transition r1 w1"
    using assms(1) by (auto simp: store_invoice_def)
  have "ln_ok e w w1"
    by (rule update_order_ok' [OF u assms(2)])
      (use True assms(5,6) in \<open>auto simp: order_ok_def same_trade_def state_sets can_transition_def\<close>)
  then show ?thesis unfolding w' by (rule ln_ok_quiet_after) simp
next
  case False
  then obtain r1 w1 where u: "update_order (o_id r) (\<lambda>x. x\<lparr>o_sponsor_invoice := Some b, o_payout_error := None\<rparr>) w
      = Some (r1, w1)" and w': "w' = (if payout_pending r then request_payout (o_id r) w1 else w1)"
    using assms(1) by (auto simp: store_invoice_def)
  have "ln_ok e w w1"
    by (rule update_order_ok' [OF u assms(2)])
      (use False assms(5) in \<open>auto simp: order_ok_def same_trade_def state_sets is_manual_payout_def\<close>)
  then show ?thesis unfolding w' by (rule ln_ok_quiet_after) simp
qed

lemma quiet_reject_invoice: "reject_invoice e ev r x w = (res, w') \<Longrightarrow> quiet w w'"
  by (auto simp: reject_invoice_def)

lemma blocker_none:
  "invoice_blocker ev r b w = None \<Longrightarrow>
     (o_state r \<in> {Escrowed, Invoiced, Remitted} \<or> payout_pending r)
     \<and> (payout_pending r \<longrightarrow> o_payout_error r = Some LN_PAYOUT_INVOICE_EXPIRED)"
  by (auto simp: invoice_blocker_def split: if_splits)

text \<open>What an accepted invoice passed.\<close>

lemma sponsor_invoice_H_ok:
  assumes "sponsor_invoice e ev r w = Some (H_ok, w')"
  obtains b info w1 where "o_sponsor r = Some (ie_pubkey ev)" and "o_pending_close r = None"
    and "tag_value ''bolt11'' (ie_tags ev) \<noteq> None" and "b \<noteq> []"
    and "invoice_blocker ev r b w = None" and "e_bolt11 e b = Some info"
    and "\<not> hold_is_ours (b11_hash info) w" and "is_payout_amount_exact (o_payout_sat r) (b11_amount info)"
    and "b11_expires info - now_sec w \<ge> LN_MIN_SPONSOR_INVOICE_LIFETIME_SEC"
    and "\<not> escrow_ending_soon r w" and "store_invoice r b w = Some w1"
    and "w' = (if payout_pending r then w1
           else enq ''ln.probe'' (P_ln_probe (o_id r) b) (Some (''ln.probe:'' @ b11_hash info)) w1)"
  using assms
  by (auto simp: sponsor_invoice_def Let_def reject_invoice_def not_less split: option.splits if_splits)

lemma sponsor_invoice_ok:
  assumes "sponsor_invoice e ev r w = Some (res, w')" and "get_order (o_id r) w = Some r"
  shows "ln_ok e w w'"
proof (cases "res = H_ok")
  case False
  with assms(1) have "w' = w \<or> (\<exists>x res. reject_invoice e ev r x w = (res, w'))"
    by (auto simp: sponsor_invoice_def Let_def split: option.splits if_splits)
  then show ?thesis using quiet_reject_invoice ln_ok_quiet by (metis ln_ok_refl)
next
  case True
  from assms(1) [unfolded True] obtain b w1 d p where bl: "invoice_blocker ev r b w = None" and b: "b \<noteq> []"
    and pc: "o_pending_close r = None" and s: "store_invoice r b w = Some w1"
    and w': "w' = (if payout_pending r then w1 else enq ''ln.probe'' p d w1)"
    by (rule sponsor_invoice_H_ok) blast
  have "ln_ok e w w1" using store_invoice_ok [OF s assms(2)] blocker_none [OF bl] b pc by blast
  then show ?thesis unfolding w' by (rule ln_ok_quiet_after) simp
qed

lemma account_info_ok:
  assumes "account_info e ev r w = Some (res, w')" and "get_order (o_id r) w = Some r"
  shows "ln_ok e w w'"
proof (cases "res = H_ok")
  case False
  with assms(1) show ?thesis by (auto simp: account_info_def split: option.splits if_splits)
next
  case True
  with assms(1) obtain c t r1 w1 where
    u: "update_order (o_id r) (\<lambda>x. x\<lparr>o_account_sent_at := t, o_account_commitment := Some c\<rparr>) w = Some (r1, w1)"
    and w': "w' = notify_account_arrived r1 c w1"
    by (auto simp: account_info_def split: option.splits if_splits)
  have "ln_ok e w w1"
    by (rule update_order_ok' [OF u assms(2)]) (auto simp: order_ok_def same_trade_def)
  then show ?thesis unfolding w' by (rule ln_ok_quiet_after) simp
qed

lemma quiet_late_arrival: "late_arrival e ev r w = (res, w') \<Longrightarrow> quiet w w'"
  by (auto simp: late_arrival_def)

lemma remit_request_ok:
  assumes "remit_request e ev r w = Some (res, w')" and "get_order (o_id r) w = Some r"
  shows "ln_ok e w w'"
proof (cases "res = H_ok")
  case False
  with assms(1) have "w' = w \<or> late_arrival e ev r w = (res, w')"
    by (auto simp: remit_request_def split: if_splits)
  then show ?thesis using quiet_late_arrival ln_ok_quiet by (metis ln_ok_refl)
next
  case True
  with assms(1) obtain r1 w1 where st: "o_state r = Invoiced" and pc: "o_pending_close r = None"
    and u: "update_order (o_id r) (\<lambda>x. x\<lparr>o_state := Remitted, o_remitted_at := Some (now_sec w)\<rparr>) w = Some (r1, w1)"
    and w': "w' = notify_ln_transition r1 w1"
    by (auto simp: remit_request_def late_arrival_def split: if_splits)
  have "ln_ok e w w1"
    by (rule update_order_ok' [OF u assms(2)])
      (use st pc in \<open>auto simp: order_ok_def same_trade_def can_transition_def state_sets\<close>)
  then show ?thesis unfolding w' by (rule ln_ok_quiet_after) simp
qed

lemma payment_confirm_ok:
  assumes "payment_confirm e ev r w = Some (res, w')" and "get_order (o_id r) w = Some r"
  shows "ln_ok e w w'"
proof -
  have "w' = w \<or> late_arrival e ev r w = (res, w') \<or> (\<exists>b. begin_close r CR_paid w = Some (b, w'))"
    using assms(1) by (auto simp: payment_confirm_def split: if_splits)
  then show ?thesis using quiet_late_arrival ln_ok_quiet begin_close_ok [OF _ assms(2)] by (metis ln_ok_refl)
qed

lemma cancel_order_ok:
  assumes "cancel_order e ev r w = Some (res, w')" and "get_order (o_id r) w = Some r"
  shows "ln_ok e w w'"
proof -
  have "w' = w \<or> (\<exists>c b. begin_close r c w = Some (b, w'))"
    using assms(1) by (auto simp: cancel_order_def split: if_splits)
  then show ?thesis using begin_close_ok [OF _ assms(2)] by (metis ln_ok_refl)
qed

lemma cancel_request_ok:
  assumes "cancel_request e ev w = Some (res, w')"
  shows "ln_ok e w w'"
proof -
  have "w' = w \<or> (\<exists>oid. w' = delete_draft oid w) \<or> (\<exists>oid h. w' = hold_dispose h Want_cancel (delete_draft oid w))
    \<or> (\<exists>oid r. get_order oid w = Some r \<and> cancel_order e ev r w = Some (res, w'))"
    using assms by (auto simp: cancel_request_def Let_def split: option.splits if_splits)
  then show ?thesis
    using ln_ok_quiet_after [OF ln_ok_delete_draft quiet_hold_dispose] cancel_order_ok [OF _ get_order_id]
    by auto
qed

lemma push_subscription_ok:
  assumes "push_subscription e ev w = Some (res, w')"
  shows "ln_ok e w w'"
proof -
  have p: "ln_ok e w (w\<lparr>push_subs := s\<rparr>)" for s
    by (auto simp: ln_ok_def ln_winv_def hold_inv_def ln_inv_def q_wf_def hold_wf_def orders_evolve_def get_order_def)
  have s: "ln_ok e w w1" if "save_subscription pk ep k a w = (b, w1)" for pk ep k a b w1
    using that p by (auto simp: save_subscription_def split: option.splits)
  show ?thesis
    using assms s ln_ok_quiet_after [OF s quiet_queue_push]
    by (auto simp: push_subscription_def split: option.splits prod.splits if_splits)
qed

subsection \<open>All of them\<close>

lemma with_order_ok:
  assumes "with_order h e ev w = Some (res, w')"
    and "\<And>r. get_order (o_id r) w = Some r \<Longrightarrow> h e ev r w = Some (res, w') \<Longrightarrow> ln_ok e w w'"
  shows "ln_ok e w w'"
  using assms(1) by (rule with_order_cases) (auto intro: assms(2) get_order_id)

lemma ln_handler_ok:
  assumes "ln_handler a = Some h" and "h e ev w = Some (res, w')"
  shows "ln_ok e w w'"
  using assms
  by (auto simp: ln_handler_def order_request_ok designated_order_request_ok cancel_request_ok
      push_subscription_ok split: if_splits
      intro: with_order_ok claim_ok sponsor_invoice_ok account_info_ok remit_request_ok payment_confirm_ok)

subsection \<open>What a request does to the order table\<close>

text \<open>\<open>puts oid r' w w'\<close>: row \<open>oid\<close> is now \<open>r'\<close>, every other row is what it was.\<close>

definition puts :: "string \<Rightarrow> ln_order \<Rightarrow> 'm db_scheme \<Rightarrow> 'm db_scheme \<Rightarrow> bool" where
  "puts oid r' w w' \<longleftrightarrow> (\<forall>i. get_order i w' = (if i = oid then Some r' else get_order i w))"

lemma putsD: "puts oid r' w w' \<Longrightarrow> get_order i w' = (if i = oid then Some r' else get_order i w)"
  by (simp add: puts_def)

lemma puts_quiet: "puts oid r' w w1 \<Longrightarrow> quiet w1 w' \<Longrightarrow> puts oid r' w w'"
  by (simp add: puts_def get_order_quiet)

lemma puts_same_orders: "puts oid r' w w1 \<Longrightarrow> (\<And>i. get_order i w' = get_order i w1) \<Longrightarrow> puts oid r' w w'"
  by (simp add: puts_def)

lemma update_order_puts:
  assumes "update_order (o_id r) patch w = Some (r', w')" and "get_order (o_id r) w = Some r"
    and "\<And>x. o_id (patch x) = o_id x"
  shows "r' = bump (now_sec w) (patch r)" and "puts (o_id r) (bump (now_sec w) (patch r)) w w'"
proof -
  show r': "r' = bump (now_sec w) (patch r)" using assms(1,2) by (auto simp: update_order_def)
  show "puts (o_id r) (bump (now_sec w) (patch r)) w w'"
    using get_order_update [OF assms(1,3)] by (simp add: puts_def r')
qed

lemma begin_close_puts:
  assumes "begin_close r c w = Some (b, w')" and "get_order (o_id r) w = Some r"
  shows "if b then o_pending_close r = None \<and> can_transition (o_state r) (cl_terminal (close_rules c))
            \<and> puts (o_id r) (bump (now_sec w) (r\<lparr>o_pending_close := Some c\<rparr>)) w w'
            \<and> list_ex (pending_with (''ln.close:'' @ o_id r)) (q_rows w')
         else w' = w \<and> (o_pending_close r \<noteq> None \<or> ln_terminal (o_state r))"
proof (cases "o_pending_close r \<noteq> None \<or> ln_terminal (o_state r)")
  case True
  with assms show ?thesis by (simp add: begin_close_def)
next
  case False
  then obtain r1 w1 where can: "can_transition (o_state r) (cl_terminal (close_rules c))" and b
    and u: "update_order (o_id r) (\<lambda>r. r\<lparr>o_pending_close := Some c\<rparr>) w = Some (r1, w1)"
    and w': "w' = enq ''ln.close'' (P_ln_close (o_id r)) (Some (''ln.close:'' @ o_id r)) w1"
    using assms(1) by (auto simp: begin_close_def split: if_splits)
  have "puts (o_id r) (bump (now_sec w) (r\<lparr>o_pending_close := Some c\<rparr>)) w w1"
    by (rule update_order_puts(2) [OF u assms(2)]) simp
  then have "puts (o_id r) (bump (now_sec w) (r\<lparr>o_pending_close := Some c\<rparr>)) w w'"
    unfolding w' by (rule puts_quiet) simp
  then show ?thesis using False can \<open>b\<close> enq_ensures by (simp add: w')
qed

lemma insert_order_get:
  assumes "insert_order e oid c p d dh ds w = Some w'"
  shows "get_order oid w = None"
    and "get_order i w' = (if i = oid then Some (new_order oid c p d dh ds (now_sec w)) else get_order i w)"
proof -
  let ?r = "new_order oid c p d dh ds (now_sec w)"
  show none: "get_order oid w = None" using assms by (simp add: insert_order_def split: if_splits)
  define w1 where "w1 = w\<lparr>ln_orders := ln_orders w @ [?r]\<rparr>"
  obtain b w2 where bw: "designated_quiet_over ''dm:ln'' (request_projection oid w1) = (b, w2)" by force
  have "quiet w1 w'"
    using assms none bw quiet_trans [OF quiet_store(2) quiet_over [OF bw]]
      quiet_trans [OF quiet_trans [OF quiet_store(2) quiet_over [OF bw]] quiet_notify_operators]
      quiet_trans [OF quiet_store(2) quiet_notify_operators]
    by (auto simp: insert_order_def w1_def Let_def split: if_splits)
  then have "get_order i w' = get_order i w1" by (rule get_order_quiet)
  then show "get_order i w' = (if i = oid then Some ?r else get_order i w)"
    using none by (auto simp: w1_def get_order_def find_append new_order_def split: option.split)
qed

lemma claim_get:
  assumes "claim e ev r w = Some (res, w')" and "get_order (o_id r) w = Some r"
  shows "w' = w \<and> res \<noteq> H_ok \<or>
    (res = H_ok \<and> o_pending_close r = None \<and> o_state r = Requested \<and> ie_pubkey ev \<noteq> o_customer r
     \<and> (js_true_s (o_designated_sponsor r) \<longrightarrow> o_designated_sponsor r = Some (ie_pubkey ev))
     \<and> LN_MIN_CLAIM_LEAD_SEC \<le> o_deadline r - now_sec w
     \<and> puts (o_id r) (bump (now_sec w) (r\<lparr>o_state := Claimed, o_sponsor := Some (ie_pubkey ev),
          o_claimed_at := Some (now_sec w)\<rparr>)) w w')"
proof (cases "res = H_ok")
  case False
  with assms(1) show ?thesis by (auto simp: claim_def split: if_splits)
next
  case True
  with assms(1) obtain r1 w1 where
    g: "o_pending_close r = None" "can_transition (o_state r) Claimed" "ie_pubkey ev \<noteq> o_customer r"
      "js_true_s (o_designated_sponsor r) \<longrightarrow> o_designated_sponsor r = Some (ie_pubkey ev)"
      "LN_MIN_CLAIM_LEAD_SEC \<le> o_deadline r - now_sec w"
    and u: "update_order (o_id r) (\<lambda>x. x\<lparr>o_state := Claimed, o_sponsor := Some (ie_pubkey ev),
        o_claimed_at := Some (now_sec w)\<rparr>) w = Some (r1, w1)"
    and fin: "w' = w1 \<or> (\<exists>pct b. plan_sponsor_deposit e r1 pct w1 = Some (b, w'))"
    by (auto simp: claim_def split: if_splits)
  have "get_order i w' = get_order i w1" for i using fin plan_sponsor_deposit_ok(2) by metis
  with update_order_puts(2) [OF u assms(2)] have "puts (o_id r) (bump (now_sec w) (r\<lparr>o_state := Claimed,
      o_sponsor := Some (ie_pubkey ev), o_claimed_at := Some (now_sec w)\<rparr>)) w w'"
    by (auto intro: puts_same_orders)
  moreover have "o_state r = Requested" using g(2) by (cases "o_state r") (simp_all add: can_transition_def)
  ultimately show ?thesis using g True by blast
qed

lemma store_invoice_get:
  assumes "store_invoice r b w = Some w'" and "get_order (o_id r) w = Some r"
  shows "puts (o_id r) (bump (now_sec w) (if o_state r = Escrowed
      then r\<lparr>o_state := Invoiced, o_sponsor_invoice := Some b\<rparr>
      else r\<lparr>o_sponsor_invoice := Some b, o_payout_error := None\<rparr>)) w w'"
proof (cases "o_state r = Escrowed")
  case True
  then obtain r1 w1 where u: "update_order (o_id r) (\<lambda>x. x\<lparr>o_state := Invoiced, o_sponsor_invoice := Some b\<rparr>) w
      = Some (r1, w1)" and w': "w' = notify_ln_transition r1 w1"
    using assms(1) by (auto simp: store_invoice_def)
  show ?thesis unfolding w' using True update_order_puts(2) [OF u assms(2)] by (auto intro: puts_quiet)
next
  case False
  then obtain r1 w1 where u: "update_order (o_id r) (\<lambda>x. x\<lparr>o_sponsor_invoice := Some b, o_payout_error := None\<rparr>) w
      = Some (r1, w1)" and w': "w' = (if payout_pending r then request_payout (o_id r) w1 else w1)"
    using assms(1) by (auto simp: store_invoice_def)
  show ?thesis unfolding w' using False update_order_puts(2) [OF u assms(2)] by (auto intro: puts_quiet)
qed

lemma sponsor_invoice_get:
  assumes "sponsor_invoice e ev r w = Some (res, w')" and "get_order (o_id r) w = Some r"
  shows "quiet w w' \<and> res \<noteq> H_ok \<or>
    (res = H_ok \<and> o_sponsor r = Some (ie_pubkey ev) \<and> o_pending_close r = None \<and>
     (\<exists>b info. invoice_blocker ev r b w = None \<and> e_bolt11 e b = Some info
        \<and> \<not> hold_is_ours (b11_hash info) w \<and> is_payout_amount_exact (o_payout_sat r) (b11_amount info)
        \<and> LN_MIN_SPONSOR_INVOICE_LIFETIME_SEC \<le> b11_expires info - now_sec w
        \<and> \<not> escrow_ending_soon r w
        \<and> puts (o_id r) (bump (now_sec w) (if o_state r = Escrowed
            then r\<lparr>o_state := Invoiced, o_sponsor_invoice := Some b\<rparr>
            else r\<lparr>o_sponsor_invoice := Some b, o_payout_error := None\<rparr>)) w w'))"
proof (cases "res = H_ok")
  case False
  with assms(1) have "w' = w \<or> (\<exists>x. reject_invoice e ev r x w = (res, w'))"
    by (auto simp: sponsor_invoice_def Let_def split: option.splits if_splits)
  then show ?thesis using False quiet_reject_invoice by (metis quiet_refl)
next
  case True
  from assms(1) [unfolded True] obtain b info w1 where
    g: "o_sponsor r = Some (ie_pubkey ev)" "o_pending_close r = None" "invoice_blocker ev r b w = None"
      "e_bolt11 e b = Some info" "\<not> hold_is_ours (b11_hash info) w"
      "is_payout_amount_exact (o_payout_sat r) (b11_amount info)"
      "LN_MIN_SPONSOR_INVOICE_LIFETIME_SEC \<le> b11_expires info - now_sec w" "\<not> escrow_ending_soon r w"
    and s: "store_invoice r b w = Some w1"
    and w': "w' = (if payout_pending r then w1
           else enq ''ln.probe'' (P_ln_probe (o_id r) b) (Some (''ln.probe:'' @ b11_hash info)) w1)"
    by (rule sponsor_invoice_H_ok) blast
  have "quiet w1 w'" by (simp add: w')
  with store_invoice_get [OF s assms(2)] g True show ?thesis by (blast intro: puts_quiet)
qed

lemma account_info_get:
  assumes "account_info e ev r w = Some (res, w')" and "get_order (o_id r) w = Some r"
  shows "w' = w \<and> res \<noteq> H_ok \<or>
    (res = H_ok \<and> ie_pubkey ev = o_customer r \<and> (o_state r = Invoiced \<or> o_state r = Remitted) \<and>
     (\<exists>c t. is_hex64 c \<and> puts (o_id r) (bump (now_sec w) (r\<lparr>o_account_sent_at := Some t, o_account_commitment := Some c\<rparr>)) w w'))"
proof (cases "res = H_ok")
  case False
  with assms(1) show ?thesis by (auto simp: account_info_def split: option.splits if_splits)
next
  case True
  define t where "t = (case o_account_sent_at r of Some t \<Rightarrow> t | None \<Rightarrow> now_sec w)"
  have t: "(case o_account_sent_at r of Some t \<Rightarrow> Some t | None \<Rightarrow> Some (now_sec w)) = Some t"
    by (simp add: t_def split: option.split)
  from True assms(1) obtain c r1 w1 where
    g: "ie_pubkey ev = o_customer r" "o_state r = Invoiced \<or> o_state r = Remitted" "is_hex64 c"
    and u: "update_order (o_id r) (\<lambda>x. x\<lparr>o_account_sent_at := Some t, o_account_commitment := Some c\<rparr>) w = Some (r1, w1)"
    and w': "w' = notify_account_arrived r1 c w1"
    by (cases "tag_value ''commitment'' (ie_tags ev)") (auto simp: account_info_def t split: if_splits)
  have "puts (o_id r) (bump (now_sec w) (r\<lparr>o_account_sent_at := Some t, o_account_commitment := Some c\<rparr>)) w w'"
    unfolding w' using update_order_puts(2) [OF u assms(2)] by (auto intro: puts_quiet)
  with g True show ?thesis by blast
qed

lemma remit_request_get:
  assumes "remit_request e ev r w = Some (res, w')" and "get_order (o_id r) w = Some r"
  shows "quiet w w' \<and> res \<noteq> H_ok \<or>
    (res = H_ok \<and> o_sponsor r = Some (ie_pubkey ev) \<and> o_pending_close r = None \<and> o_state r = Invoiced
     \<and> ie_created_at ev \<le> o_deadline r + DEADLINE_GRACE_SEC
     \<and> puts (o_id r) (bump (now_sec w) (r\<lparr>o_state := Remitted, o_remitted_at := Some (now_sec w)\<rparr>)) w w')"
proof (cases "res = H_ok")
  case False
  with assms(1) have "w' = w \<or> late_arrival e ev r w = (res, w')"
    by (auto simp: remit_request_def split: if_splits)
  then show ?thesis using False quiet_late_arrival by (metis quiet_refl)
next
  case True
  with assms(1) obtain r1 w1 where
    g: "o_sponsor r = Some (ie_pubkey ev)" "o_pending_close r = None" "o_state r = Invoiced"
      "ie_created_at ev \<le> o_deadline r + DEADLINE_GRACE_SEC"
    and u: "update_order (o_id r) (\<lambda>x. x\<lparr>o_state := Remitted, o_remitted_at := Some (now_sec w)\<rparr>) w = Some (r1, w1)"
    and w': "w' = notify_ln_transition r1 w1"
    by (auto simp: remit_request_def late_arrival_def split: if_splits)
  have "puts (o_id r) (bump (now_sec w) (r\<lparr>o_state := Remitted, o_remitted_at := Some (now_sec w)\<rparr>)) w w'"
    unfolding w' using update_order_puts(2) [OF u assms(2)] by (auto intro: puts_quiet)
  with g True show ?thesis by blast
qed

text \<open>Confirmation and cancellation begin a close.\<close>

lemma close_handlers_get:
  assumes "payment_confirm e ev r w = Some (res, w') \<or> cancel_order e ev r w = Some (res, w')"
    and "get_order (o_id r) w = Some r"
  shows "quiet w w' \<or>
    (res = H_ok \<and> ie_pubkey ev = o_customer r \<and> o_pending_close r = None \<and>
     (\<exists>c. puts (o_id r) (bump (now_sec w) (r\<lparr>o_pending_close := Some c\<rparr>)) w w'
        \<and> list_ex (pending_with (''ln.close:'' @ o_id r)) (q_rows w')
        \<and> (c = CR_paid \<and> (o_state r = Invoiced \<or> o_state r = Remitted)
           \<or> c = CR_cancel_customer \<and> o_state r = Requested
           \<or> c = CR_cancel_customer_after_claim \<and> (o_state r = Claimed \<or> o_state r = Verified))))"
proof -
  have "quiet w w' \<or> (ie_pubkey ev = o_customer r \<and> (\<exists>c b. begin_close r c w = Some (b, w')
      \<and> (c = CR_paid \<and> (o_state r = Invoiced \<or> o_state r = Remitted) \<and> res = H_ok
         \<or> c = CR_cancel_customer \<and> o_state r = Requested \<and> (b \<longrightarrow> res = H_ok)
         \<or> c = CR_cancel_customer_after_claim \<and> (o_state r = Claimed \<or> o_state r = Verified) \<and> (b \<longrightarrow> res = H_ok))))"
    using assms(1) quiet_late_arrival [of e ev r w res w']
    by (auto simp: payment_confirm_def cancel_order_def split: if_splits)
  then show ?thesis using begin_close_puts [OF _ assms(2)] by (metis quiet_refl)
qed

end
