(* ===== verification/Ln_Requests.thy ===== *)
theory Ln_Requests
  imports Ln_Handlers_Inv
begin

text \<open>
  The contract of the request handlers as a step relation on one order: which signer may cause which
  change in which state.  The handlers of \<open>Ln_Handlers\<close> refine it: whatever a request does to the order
  table is one such step on the order it names, or nothing.  Authorisation and the freeze of a closing
  order are read off the relation.
\<close>

subsection \<open>The contract\<close>

inductive request_step :: "inbox_event \<Rightarrow> sec \<Rightarrow> ln_order \<Rightarrow> ln_order \<Rightarrow> bool" for ev now where
  Rq_claim: "\<lbrakk>o_pending_close r = None; o_state r = Requested; ie_pubkey ev \<noteq> o_customer r;
      js_true_s (o_designated_sponsor r) \<longrightarrow> o_designated_sponsor r = Some (ie_pubkey ev);
      LN_MIN_CLAIM_LEAD_SEC \<le> o_deadline r - now\<rbrakk>
    \<Longrightarrow> request_step ev now r (bump now (r\<lparr>o_state := Claimed, o_sponsor := Some (ie_pubkey ev),
          o_claimed_at := Some now\<rparr>))"
| Rq_first_invoice: "\<lbrakk>o_pending_close r = None; o_state r = Escrowed; o_sponsor r = Some (ie_pubkey ev)\<rbrakk>
    \<Longrightarrow> request_step ev now r (bump now (r\<lparr>o_state := Invoiced, o_sponsor_invoice := Some b\<rparr>))"
| Rq_new_invoice: "\<lbrakk>o_pending_close r = None; o_sponsor r = Some (ie_pubkey ev);
      o_state r = Invoiced \<or> o_state r = Remitted
      \<or> payout_pending r \<and> o_payout_error r = Some LN_PAYOUT_INVOICE_EXPIRED\<rbrakk>
    \<Longrightarrow> request_step ev now r (bump now (r\<lparr>o_sponsor_invoice := Some b, o_payout_error := None\<rparr>))"
| Rq_account: "\<lbrakk>ie_pubkey ev = o_customer r; o_state r = Invoiced \<or> o_state r = Remitted; is_hex64 c\<rbrakk>
    \<Longrightarrow> request_step ev now r (bump now (r\<lparr>o_account_sent_at := Some t, o_account_commitment := Some c\<rparr>))"
| Rq_remit: "\<lbrakk>o_pending_close r = None; o_sponsor r = Some (ie_pubkey ev); o_state r = Invoiced;
      ie_created_at ev \<le> o_deadline r + DEADLINE_GRACE_SEC\<rbrakk>
    \<Longrightarrow> request_step ev now r (bump now (r\<lparr>o_state := Remitted, o_remitted_at := Some now\<rparr>))"
| Rq_confirm: "\<lbrakk>ie_pubkey ev = o_customer r; o_pending_close r = None; o_state r = Invoiced \<or> o_state r = Remitted\<rbrakk>
    \<Longrightarrow> request_step ev now r (bump now (r\<lparr>o_pending_close := Some CR_paid\<rparr>))"
| Rq_cancel: "\<lbrakk>ie_pubkey ev = o_customer r; o_pending_close r = None; o_state r = Requested\<rbrakk>
    \<Longrightarrow> request_step ev now r (bump now (r\<lparr>o_pending_close := Some CR_cancel_customer\<rparr>))"
| Rq_cancel_claimed: "\<lbrakk>ie_pubkey ev = o_customer r; o_pending_close r = None; o_state r = Claimed \<or> o_state r = Verified\<rbrakk>
    \<Longrightarrow> request_step ev now r (bump now (r\<lparr>o_pending_close := Some CR_cancel_customer_after_claim\<rparr>))"

inductive_cases request_stepE: "request_step ev now r r'"

text \<open>A database step of a request: nothing happened to the table, one order took a step, or one was added.\<close>

inductive request_effect :: "inbox_event \<Rightarrow> handler_result \<Rightarrow> 'm db_scheme \<Rightarrow> 'm db_scheme \<Rightarrow> bool" for ev res w w' where
  Re_none: "(\<And>i. get_order i w' = get_order i w) \<Longrightarrow> request_effect ev res w w'"
| Re_step: "\<lbrakk>extract_order_id (ie_tags ev) = Some (o_id r); res = H_ok; get_order (o_id r) w = Some r;
      request_step ev (now_sec w) r r'; puts (o_id r) r' w w'\<rbrakk> \<Longrightarrow> request_effect ev res w w'"
| Re_new: "\<lbrakk>extract_order_id (ie_tags ev) = Some oid; res = H_ok; is_order_id oid; get_order oid w = None;
      puts oid (new_order oid (ie_pubkey ev) p d None ds (now_sec w)) w w'\<rbrakk> \<Longrightarrow> request_effect ev res w w'"

lemma Re_quiet: "quiet w w' \<Longrightarrow> request_effect ev res w w'"
  by (rule Re_none) (simp add: get_order_quiet)

subsection \<open>The handlers meet it\<close>

lemma order_request_effect:
  assumes "order_request e ev w = Some (res, w')"
  shows "request_effect ev res w w'"
proof (cases "\<exists>oid p d. extract_order_id (ie_tags ev) = Some oid \<and> is_order_id oid \<and> res = H_ok
    \<and> insert_order e oid (ie_pubkey ev) p d None None w = Some w'")
  case True
  then show ?thesis using insert_order_get by (fastforce intro: Re_new simp: puts_def)
next
  case False
  have "get_order i w' = get_order i w" for i
  proof -
    have dr: "get_order i w1 = get_order i w" if "insert_draft d w = Some w1" for d w1
      using that by (auto simp: insert_draft_def get_order_def split: if_splits)
    show ?thesis
      using assms False
      by (auto simp: order_request_def Let_def dr split: option.splits if_splits
          dest!: plan_customer_deposit_orders [where i = i])
  qed
  then show ?thesis by (rule Re_none)
qed

lemma designated_effect:
  assumes "designated_order_request e ev w = Some (res, w')"
  shows "request_effect ev res w w'"
proof (cases "\<exists>oid p d s w1 r. extract_order_id (ie_tags ev) = Some oid \<and> is_order_id oid \<and> res = H_ok
    \<and> insert_order e oid (ie_pubkey ev) p d None s w = Some w1 \<and> w' = notify_designated_arrived r w1")
  case True
  then obtain oid p d s w1 r where x: "extract_order_id (ie_tags ev) = Some oid" "is_order_id oid" "res = H_ok"
    and i: "insert_order e oid (ie_pubkey ev) p d None s w = Some w1" and w': "w' = notify_designated_arrived r w1"
    by blast
  have "puts oid (new_order oid (ie_pubkey ev) p d None s (now_sec w)) w w'"
    using insert_order_get(2) [OF i] by (simp add: puts_def w' get_order_quiet [OF quiet_notify_designated_arrived])
  with x insert_order_get(1) [OF i] show ?thesis by (blast intro: Re_new)
next
  case False
  then have "w' = w" using assms
    by (fastforce simp: designated_order_request_def Let_def split: option.splits if_splits prod.splits)
  then show ?thesis by (simp add: Re_none)
qed

lemma claim_effect:
  assumes "claim e ev r w = Some (res, w')" and "get_order (o_id r) w = Some r"
    and "extract_order_id (ie_tags ev) = Some (o_id r)"
  shows "request_effect ev res w w'"
  using claim_get [OF assms(1,2)] assms(2,3) by (elim disjE conjE) (auto intro: Re_none Re_step Rq_claim)

lemma sponsor_invoice_effect:
  assumes "sponsor_invoice e ev r w = Some (res, w')" and "get_order (o_id r) w = Some r"
    and "extract_order_id (ie_tags ev) = Some (o_id r)"
  shows "request_effect ev res w w'"
proof (cases "res = H_ok")
  case False
  with sponsor_invoice_get [OF assms(1,2)] show ?thesis by (blast intro: Re_quiet)
next
  case True
  then obtain b where g: "o_sponsor r = Some (ie_pubkey ev)" "o_pending_close r = None"
      "invoice_blocker ev r b w = None"
    and p: "puts (o_id r) (bump (now_sec w) (if o_state r = Escrowed
            then r\<lparr>o_state := Invoiced, o_sponsor_invoice := Some b\<rparr>
            else r\<lparr>o_sponsor_invoice := Some b, o_payout_error := None\<rparr>)) w w'"
    using sponsor_invoice_get [OF assms(1,2)] by blast
  show ?thesis
  proof (cases "o_state r = Escrowed")
    case True
    with p have "puts (o_id r) (bump (now_sec w) (r\<lparr>o_state := Invoiced, o_sponsor_invoice := Some b\<rparr>)) w w'" by simp
    from Re_step [OF assms(3) \<open>res = H_ok\<close> assms(2) Rq_first_invoice [OF g(2) True g(1)] this] show ?thesis .
  next
    case False
    with p have q: "puts (o_id r) (bump (now_sec w) (r\<lparr>o_sponsor_invoice := Some b, o_payout_error := None\<rparr>)) w w'" by simp
    have "o_state r = Invoiced \<or> o_state r = Remitted \<or> payout_pending r \<and> o_payout_error r = Some LN_PAYOUT_INVOICE_EXPIRED"
      using blocker_none [OF g(3)] False by blast
    from Re_step [OF assms(3) \<open>res = H_ok\<close> assms(2) Rq_new_invoice [OF g(2,1) this] q] show ?thesis .
  qed
qed

lemma account_info_effect:
  assumes "account_info e ev r w = Some (res, w')" and "get_order (o_id r) w = Some r"
    and "extract_order_id (ie_tags ev) = Some (o_id r)"
  shows "request_effect ev res w w'"
  using account_info_get [OF assms(1,2)] assms(2,3)
  by (elim disjE conjE exE) (auto intro: Re_none Re_step Rq_account)

lemma remit_request_effect:
  assumes "remit_request e ev r w = Some (res, w')" and "get_order (o_id r) w = Some r"
    and "extract_order_id (ie_tags ev) = Some (o_id r)"
  shows "request_effect ev res w w'"
  using remit_request_get [OF assms(1,2)] assms(2,3)
  by (elim disjE conjE) (auto intro: Re_quiet Re_step Rq_remit)

lemma close_handlers_effect:
  assumes "payment_confirm e ev r w = Some (res, w') \<or> cancel_order e ev r w = Some (res, w')"
    and "get_order (o_id r) w = Some r" and "extract_order_id (ie_tags ev) = Some (o_id r)"
  shows "request_effect ev res w w'"
proof (cases "quiet w w'")
  case True
  then show ?thesis by (rule Re_quiet)
next
  case False
  obtain c where g: "res = H_ok" "ie_pubkey ev = o_customer r" "o_pending_close r = None"
    and p: "puts (o_id r) (bump (now_sec w) (r\<lparr>o_pending_close := Some c\<rparr>)) w w'"
    and c: "c = CR_paid \<and> (o_state r = Invoiced \<or> o_state r = Remitted)
           \<or> c = CR_cancel_customer \<and> o_state r = Requested
           \<or> c = CR_cancel_customer_after_claim \<and> (o_state r = Claimed \<or> o_state r = Verified)"
    using close_handlers_get [OF assms(1,2)] False by blast
  have "request_step ev (now_sec w) r (bump (now_sec w) (r\<lparr>o_pending_close := Some c\<rparr>))"
    using c g Rq_confirm Rq_cancel Rq_cancel_claimed by blast
  from Re_step [OF assms(3) g(1) assms(2) this p] show ?thesis .
qed

lemma with_order_effect:
  assumes "with_order h e ev w = Some (res, w')"
    and "\<And>r. h e ev r w = Some (res, w') \<Longrightarrow> get_order (o_id r) w = Some r
           \<Longrightarrow> extract_order_id (ie_tags ev) = Some (o_id r) \<Longrightarrow> request_effect ev res w w'"
  shows "request_effect ev res w w'"
proof (cases "w' = w")
  case True
  then show ?thesis by (simp add: Re_none)
next
  case False
  with assms(1) obtain oid r where "extract_order_id (ie_tags ev) = Some oid" "get_order oid w = Some r"
    "h e ev r w = Some (res, w')"
    by (auto simp: with_order_def split: option.splits if_splits)
  then show ?thesis using assms(2) get_order_Some get_order_id by metis
qed

lemma cancel_request_effect:
  assumes "cancel_request e ev w = Some (res, w')"
  shows "request_effect ev res w w'"
proof (cases "\<exists>oid r. extract_order_id (ie_tags ev) = Some oid \<and> get_order oid w = Some r
    \<and> cancel_order e ev r w = Some (res, w')")
  case True
  then show ?thesis using close_handlers_effect get_order_Some get_order_id by metis
next
  case False
  have d: "get_order i (delete_draft oid w) = get_order i w" for i oid
    by (simp add: delete_draft_def get_order_def)
  have "get_order i w' = get_order i w" for i
    using assms False
    by (auto simp: cancel_request_def Let_def d get_order_quiet [OF quiet_hold_dispose] split: option.splits if_splits)
  then show ?thesis by (rule Re_none)
qed

lemma push_subscription_effect:
  assumes "push_subscription e ev w = Some (res, w')"
  shows "request_effect ev res w w'"
proof -
  have s: "get_order i w1 = get_order i w" if "save_subscription pk ep k a w = (b, w1)" for pk ep k a b w1 i
    using that by (auto simp: save_subscription_def get_order_def split: option.splits)
  have "get_order i w' = get_order i w" for i
    using assms
    by (auto simp: push_subscription_def s get_order_quiet [OF quiet_queue_push] split: option.splits prod.splits if_splits)
  then show ?thesis by (rule Re_none)
qed

lemma ln_handler_effect:
  assumes "ln_handler a = Some h" and "h e ev w = Some (res, w')"
  shows "request_effect ev res w w'"
  using assms
  by (auto simp: ln_handler_def order_request_effect designated_effect cancel_request_effect
      push_subscription_effect split: if_splits
      intro: with_order_effect claim_effect sponsor_invoice_effect account_info_effect remit_request_effect
        close_handlers_effect)

subsection \<open>A concrete trade\<close>

definition toy_order :: ln_order where
  "toy_order = new_order ''ord1'' ''cust'' 50000 100000 None None 0"

definition toy_db :: db where "toy_db = empty_db\<lparr>ln_orders := [toy_order]\<rparr>"

definition toy_event :: "string \<Rightarrow> inbox_event" where
  "toy_event pk = \<lparr>ie_id = ''ev'', ie_pubkey = pk, ie_kind = 3838, ie_created_at = 0,
     ie_tags = [[''a'', ''38383:app:ord1'']], ie_content = []\<rparr>"

lemma toy_reads:
  "get_order ''ord1'' toy_db = Some toy_order" "extract_order_id (ie_tags (toy_event pk)) = Some ''ord1''"
  "o_id toy_order = ''ord1''" "now_sec toy_db = 0" "db_settings toy_db = db_settings empty_db"
  by (simp_all add: toy_db_def toy_order_def get_order_def new_order_def extract_order_id_def tag_value_def
      toy_event_def now_sec_def empty_db_def)

lemma toy_sel:
  "ie_pubkey (toy_event pk) = pk" "o_state toy_order = Requested" "o_customer toy_order = ''cust''"
  "o_pending_close toy_order = None" "o_designated_sponsor toy_order = None" "o_deadline toy_order = 100000"
  by (simp_all add: toy_event_def toy_order_def new_order_def)

lemma toy_winv: "ln_winv e toy_db"
  by (auto simp: ln_winv_def hold_inv_def q_wf_def hold_wf_def ln_inv_def toy_db_def empty_db_def
      toy_order_def new_order_ok)

lemma toy_claim:
  "\<exists>w'. with_order claim toy_env (toy_event ''sp'') toy_db = Some (H_ok, w') \<and> get_order ''ord1'' w' \<noteq> Some toy_order"
proof -
  let ?f = "\<lambda>x. x\<lparr>o_state := Claimed, o_sponsor := Some ''sp'', o_claimed_at := Some 0\<rparr>"
  have g: "get_order (o_id toy_order) toy_db = Some toy_order" by (simp add: toy_reads)
  obtain w1 where u: "update_order ''ord1'' ?f toy_db = Some (bump 0 (?f toy_order), w1)"
    using update_order_Some [OF g, of ?f] by (auto simp: toy_reads)
  have q: "quiet (toy_db\<lparr>ln_orders := update_where (\<lambda>r. o_id r = ''ord1'') (\<lambda>r. bump (now_sec toy_db) (?f r))
      (ln_orders toy_db)\<rparr>) w1"
    using u by (auto simp: update_order_def toy_reads)
  have s: "\<not> sponsor_deposit_required (bump 0 (?f toy_order)) w1"
    using quietD(5) [OF q] by (simp add: sponsor_deposit_required_def toy_reads toy_sel empty_db_def)
  have "with_order claim toy_env (toy_event ''sp'') toy_db = Some (H_ok, w1)"
    using u s by (simp add: with_order_def toy_reads toy_sel claim_def can_transition_def LN_MIN_CLAIM_LEAD_SEC_def)
  moreover have "get_order ''ord1'' w1 \<noteq> Some toy_order"
    using get_order_update [OF u] by (simp add: bump_def toy_order_def new_order_def)
  ultimately show ?thesis by blast
qed

subsection \<open>Properties\<close>

lemma requests_keep_invariant_parts:
  assumes "ln_winv e w" and "ln_handler a = Some h" and "h e ev w = Some (res, w')"
  shows "ln_winv e w'" and "orders_evolve w w'"
  using ln_handler_ok [OF assms(2,3)] assms(1) by (simp_all add: ln_ok_def)

text \<open>C1. Every request keeps the invariant of the Lightning database and moves orders only along the
  transition table, with versions that count the changes: whichever handler takes the event, if it does
  not throw, the result is well-formed and every old order has evolved legally.\<close>

theorem requests_keep_invariant:
  assumes "ln_winv e w" and "ln_handler a = Some h" and "h e ev w = Some (res, w')"
  shows "(ln_winv e w')
    \<and> (orders_evolve w w')"
  using requests_keep_invariant_parts [OF assms] by blast

theorem requests_keep_invariant_witness:
  "\<exists>w'. with_order claim toy_env (toy_event ''sp'') toy_db = Some (H_ok, w') \<and> orders_evolve toy_db w'"
proof -
  have h: "ln_handler ''claim'' = Some (with_order claim)" by (simp add: ln_handler_def)
  from toy_claim obtain w' where w': "with_order claim toy_env (toy_event ''sp'') toy_db = Some (H_ok, w')" by blast
  from requests_keep_invariant [OF toy_winv h w', THEN conjunct2] w' show ?thesis by blast
qed

lemma request_authority_parts:
  assumes "ln_handler a = Some h" and "h e ev w = Some (res, w')"
    and "get_order oid w = Some r" and "get_order oid w' \<noteq> Some r"
  shows "res = H_ok" and "extract_order_id (ie_tags ev) = Some oid"
    and "ie_pubkey ev = o_customer r \<or> o_sponsor r = Some (ie_pubkey ev)
       \<or> o_state r = Requested
         \<and> (js_true_s (o_designated_sponsor r) \<longrightarrow> o_designated_sponsor r = Some (ie_pubkey ev))
         \<and> (\<exists>r'. get_order oid w' = Some r' \<and> o_state r' = Claimed \<and> o_sponsor r' = Some (ie_pubkey ev))"
proof -
  have "\<exists>r'. extract_order_id (ie_tags ev) = Some oid \<and> res = H_ok \<and> request_step ev (now_sec w) r r'
      \<and> get_order oid w' = Some r'"
    using ln_handler_effect [OF assms(1,2)]
  proof cases
    case Re_none
    with assms(3,4) show ?thesis by simp
  next
    case (Re_step x x')
    with assms(3,4) putsD [OF Re_step(5), of oid] show ?thesis by (auto split: if_splits)
  next
    case (Re_new i p d ds)
    with assms(3,4) putsD [OF Re_new(5), of oid] show ?thesis by (auto split: if_splits)
  qed
  then obtain r' where r': "extract_order_id (ie_tags ev) = Some oid" "res = H_ok"
    "request_step ev (now_sec w) r r'" "get_order oid w' = Some r'" by blast
  then show "res = H_ok" "extract_order_id (ie_tags ev) = Some oid" by auto
  show "ie_pubkey ev = o_customer r \<or> o_sponsor r = Some (ie_pubkey ev)
       \<or> o_state r = Requested
         \<and> (js_true_s (o_designated_sponsor r) \<longrightarrow> o_designated_sponsor r = Some (ie_pubkey ev))
         \<and> (\<exists>r'. get_order oid w' = Some r' \<and> o_state r' = Claimed \<and> o_sponsor r' = Some (ie_pubkey ev))"
    using r'(3,4) by (auto simp: bump_def elim!: request_stepE)
qed

text \<open>C2. Authority.  A request changes an existing order only when it names it and succeeds, and then
  its signer is the order's customer, its sponsor, or, for an open order, a new sponsor who is not the
  customer and is the designated one if there is one; that claim is the only change a stranger makes.\<close>

theorem request_authority:
  assumes "ln_handler a = Some h" and "h e ev w = Some (res, w')"
    and "get_order oid w = Some r" and "get_order oid w' \<noteq> Some r"
  shows "(res = H_ok)
    \<and> (extract_order_id (ie_tags ev) = Some oid)
    \<and> (ie_pubkey ev = o_customer r \<or> o_sponsor r = Some (ie_pubkey ev)
       \<or> o_state r = Requested
         \<and> (js_true_s (o_designated_sponsor r) \<longrightarrow> o_designated_sponsor r = Some (ie_pubkey ev))
         \<and> (\<exists>r'. get_order oid w' = Some r' \<and> o_state r' = Claimed \<and> o_sponsor r' = Some (ie_pubkey ev)))"
  using request_authority_parts [OF assms] by blast

theorem request_authority_witness:
  "''sp'' = o_customer toy_order \<or> o_sponsor toy_order = Some ''sp'' \<or> o_state toy_order = Requested"
proof -
  have h: "ln_handler ''claim'' = Some (with_order claim)" by (simp add: ln_handler_def)
  from toy_claim obtain w' where w': "with_order claim toy_env (toy_event ''sp'') toy_db = Some (H_ok, w')"
    and c: "get_order ''ord1'' w' \<noteq> Some toy_order" by blast
  have "ie_pubkey (toy_event ''sp'') = ''sp''" by (simp add: toy_event_def)
  with request_authority [OF h w' toy_reads(1) c, THEN conjunct2, THEN conjunct2] show ?thesis by (auto simp: toy_sel)
qed

text \<open>The one step a closing order can take.\<close>

lemma closing_step:
  assumes "request_step ev now r r'" and "o_pending_close r \<noteq> None"
  shows "ie_pubkey ev = o_customer r \<and> (o_state r = Invoiced \<or> o_state r = Remitted)
    \<and> (\<exists>t c. r' = r\<lparr>o_account_sent_at := Some t, o_account_commitment := Some c, o_version := Suc (o_version r),
         o_updated_at := now\<rparr>)"
  using assms(1)
proof cases
  case (Rq_account c t)
  then show ?thesis by (intro conjI exI [of _ t] exI [of _ c]) (simp_all add: bump_def)
qed (use assms(2) in simp_all)

text \<open>C20. A closing order is frozen.  Once a close is in progress no request changes the order: its state, the close in
  progress, the parties, the price, the deadlines, the payout target and every amount, hold and payout record stay what
  they were.  The one thing a request can still do is the seller's: an order whose invoice is registered or whose
  transfer is reported may have its account message replaced, which moves the account's time and commitment, the version
  and the stamp, and nothing else.\<close>

theorem closing_order_frozen:
  assumes "ln_handler a = Some h" and "h e ev w = Some (res, w')"
    and "get_order oid w = Some r" and "o_pending_close r \<noteq> None"
  shows "\<exists>r'. get_order oid w' = Some r' \<and> o_state r' = o_state r \<and> o_pending_close r' = o_pending_close r
      \<and> o_customer r' = o_customer r \<and> o_sponsor r' = o_sponsor r \<and> o_designated_sponsor r' = o_designated_sponsor r
      \<and> o_price r' = o_price r \<and> o_deadline r' = o_deadline r \<and> o_invoice_deadline r' = o_invoice_deadline r
      \<and> o_sponsor_invoice r' = o_sponsor_invoice r
      \<and> o_payout_sat r' = o_payout_sat r \<and> o_escrow_hash r' = o_escrow_hash r \<and> o_escrow_settled r' = o_escrow_settled r
      \<and> o_customer_deposit_hash r' = o_customer_deposit_hash r \<and> o_sponsor_deposit_hash r' = o_sponsor_deposit_hash r
      \<and> o_payout_error r' = o_payout_error r \<and> o_disbursed r' = o_disbursed r
      \<and> (r' = r \<or> ie_pubkey ev = o_customer r \<and> (o_state r = Invoiced \<or> o_state r = Remitted)
           \<and> (\<exists>t c. r' = r\<lparr>o_account_sent_at := Some t, o_account_commitment := Some c, o_version := Suc (o_version r),
                o_updated_at := now_sec w\<rparr>))"
  using ln_handler_effect [OF assms(1,2)]
proof cases
  case Re_none
  with assms(3) show ?thesis by auto
next
  case (Re_step x x')
  show ?thesis
  proof (cases "o_id x = oid")
    case True
    with Re_step assms(3) putsD [OF Re_step(5), of oid] have "request_step ev (now_sec w) r x'" and "get_order oid w' = Some x'"
      by simp_all
    moreover from closing_step [OF this(1) assms(4)] obtain t c where "x' = r\<lparr>o_account_sent_at := Some t,
        o_account_commitment := Some c, o_version := Suc (o_version r), o_updated_at := now_sec w\<rparr>" by blast
    ultimately show ?thesis using closing_step assms(4) by (intro exI [of _ x']) simp
  next
    case False
    with assms(3) putsD [OF Re_step(5), of oid] show ?thesis by auto
  qed
next
  case (Re_new i p d ds)
  with assms(3) putsD [OF Re_new(5), of oid] show ?thesis by (auto split: if_splits)
qed

definition toy_closing :: db where
  "toy_closing = empty_db\<lparr>ln_orders := [toy_order\<lparr>o_pending_close := Some CR_cancel_customer\<rparr>]\<rparr>"

theorem closing_order_frozen_witness:
  "\<exists>res w' r'. with_order claim toy_env (toy_event ''sp'') toy_closing = Some (res, w')
     \<and> get_order ''ord1'' w' = Some r' \<and> o_state r' = Requested \<and> o_customer r' = ''cust'' \<and> o_price r' = o_price toy_order"
proof -
  have h: "ln_handler ''claim'' = Some (with_order claim)" by (simp add: ln_handler_def)
  let ?r = "toy_order\<lparr>o_pending_close := Some CR_cancel_customer\<rparr>"
  have g: "get_order ''ord1'' toy_closing = Some ?r"
    by (simp add: toy_closing_def get_order_def toy_order_def new_order_def)
  have w': "with_order claim toy_env (toy_event ''sp'') toy_closing = Some (H_ignored ''closing'', toy_closing)"
    using g by (simp add: with_order_def toy_reads claim_def)
  have "o_pending_close ?r \<noteq> None" by simp
  from closing_order_frozen [OF h w' g this] w' show ?thesis by (auto simp: toy_sel)
qed

text \<open>C21. A payout target is stored only when it is checked: if the sponsor's invoice request succeeds,
  the stored text decodes to an invoice over exactly the promised payout, that is not one of the daemon's
  own, lives at least ten more minutes, and the escrow is not about to end; nothing else about the money
  changes.\<close>

theorem stored_invoice_checked:
  assumes "sponsor_invoice e ev r w = Some (H_ok, w')" and "get_order (o_id r) w = Some r"
  shows "\<exists>b info r'. get_order (o_id r) w' = Some r' \<and> o_sponsor_invoice r' = Some b
      \<and> e_bolt11 e b = Some info \<and> is_payout_amount_exact (o_payout_sat r) (b11_amount info)
      \<and> \<not> hold_is_ours (b11_hash info) w \<and> 600 \<le> b11_expires info - now_sec w
      \<and> \<not> escrow_ending_soon r w
      \<and> o_payout_sat r' = o_payout_sat r \<and> o_escrow_hash r' = o_escrow_hash r \<and> o_disbursed r' = o_disbursed r"
proof -
  obtain b info where g: "e_bolt11 e b = Some info" "\<not> hold_is_ours (b11_hash info) w"
      "is_payout_amount_exact (o_payout_sat r) (b11_amount info)"
      "LN_MIN_SPONSOR_INVOICE_LIFETIME_SEC \<le> b11_expires info - now_sec w" "\<not> escrow_ending_soon r w"
    and p: "puts (o_id r) (bump (now_sec w) (if o_state r = Escrowed
            then r\<lparr>o_state := Invoiced, o_sponsor_invoice := Some b\<rparr>
            else r\<lparr>o_sponsor_invoice := Some b, o_payout_error := None\<rparr>)) w w'"
    using sponsor_invoice_get [OF assms] by blast
  show ?thesis
    using putsD [OF p, of "o_id r"] g
    by (intro exI [of _ b] exI [of _ info]) (simp add: bump_def LN_MIN_SPONSOR_INVOICE_LIFETIME_SEC_def)
qed

definition toy_escrowed :: ln_order where
  "toy_escrowed = toy_order\<lparr>o_state := Escrowed, o_sponsor := Some ''sp'', o_payout_sat := Some 1000,
     o_escrow_hash := Some ''h'', o_invoice_deadline := Some 5000\<rparr>"

definition toy_b11_env :: env where
  "toy_b11_env = toy_env\<lparr>e_bolt11 := (\<lambda>b. if b = ''lnbc'' then
      Some \<lparr>b11_amount = 1000, b11_hash = ''ph'', b11_expires = 4000\<rparr> else None)\<rparr>"

definition toy_invoice_event :: inbox_event where
  "toy_invoice_event = (toy_event ''sp'')\<lparr>ie_tags := [[''a'', ''38383:app:ord1''], [''bolt11'', ''lnbc'']]\<rparr>"

theorem stored_invoice_checked_witness:
  "\<exists>w' r'. sponsor_invoice toy_b11_env toy_invoice_event toy_escrowed (empty_db\<lparr>ln_orders := [toy_escrowed]\<rparr>)
       = Some (H_ok, w') \<and> get_order ''ord1'' w' = Some r' \<and> o_payout_sat r' = Some 1000"
proof -
  let ?w = "empty_db\<lparr>ln_orders := [toy_escrowed]\<rparr> :: db"
  have i: "o_id toy_escrowed = ''ord1''" by (simp add: toy_escrowed_def toy_order_def new_order_def)
  have g: "get_order (o_id toy_escrowed) ?w = Some toy_escrowed" by (simp add: get_order_def)
  obtain w1 where s: "store_invoice toy_escrowed ''lnbc'' ?w = Some w1"
    using update_order_Some [OF g] by (fastforce simp: store_invoice_def toy_escrowed_def)
  have t: "js_trim ''lnbc'' = ''lnbc''" by (simp add: js_trim_def js_space_def char_code_def)
  have "\<exists>w'. sponsor_invoice toy_b11_env toy_invoice_event toy_escrowed ?w = Some (H_ok, w')"
    using s t by (simp add: sponsor_invoice_def toy_invoice_event_def toy_event_def toy_escrowed_def toy_order_def
        new_order_def tag_value_def toy_b11_env_def invoice_blocker_def payout_pending_def hold_is_ours_def
        hold_get_def empty_db_def is_payout_amount_exact_def now_sec_def escrow_ending_soon_def
        LN_MIN_SPONSOR_INVOICE_LIFETIME_SEC_def Let_def)
  then obtain w' where w': "sponsor_invoice toy_b11_env toy_invoice_event toy_escrowed ?w = Some (H_ok, w')" ..
  from stored_invoice_checked [OF w' g] w' i show ?thesis by (auto simp: toy_escrowed_def)
qed

end
