(* ===== verification/Ln_Effects_Inv.thy ===== *)
theory Ln_Effects_Inv
  imports Ln_Publish Ln_Requests
begin

text \<open>
  What the Lightning executors guarantee.  First the calls they make: when a payment is sent, when an
  HTLC is taken, when a close gives up.  Then what recording their outcome keeps: every follow-up
  satisfies \<open>ln_ok\<close>, the relation of the Lightning database.
\<close>

subsection \<open>Runs\<close>

lemma nthen_Some:
  "nthen m f = (cs, Some y) \<longleftrightarrow>
     (\<exists>cs1 x cs2. m = (cs1, Some x) \<and> f x = (cs2, Some y) \<and> cs = cs1 @ cs2)"
  by (auto simp: nthen_def split: prod.splits option.splits)

lemma nthen_call:
  "c \<in> set (fst (nthen m f)) \<Longrightarrow> c \<in> set (fst m) \<or> (\<exists>x. snd m = Some x \<and> c \<in> set (fst (f x)))"
  by (auto simp: nthen_def split: prod.splits option.splits)

lemma fst_nthen_nret [simp]: "fst (nthen m (\<lambda>x. nret (g x))) = fst m"
  by (simp add: nthen_def nret_def split: prod.split option.split)

lemma nret_simps [simp]: "fst (nret x) = []" "snd (nret x) = Some x" "nret x = (cs, Some y) \<longleftrightarrow> cs = [] \<and> y = x"
  by (auto simp: nret_def)

lemma nthrow_simps [simp]: "fst nthrow = []" "nthrow \<noteq> (cs, Some x)"
  by (simp_all add: nthrow_def)

lemma nlookup_Some [simp]: "nlookup nd h = (cs, Some l) \<longleftrightarrow> cs = [] \<and> n_lookup nd h = Some l"
  by (auto simp: nlookup_def nthrow_def nret_def split: option.split)

lemma fst_nlookup [simp]: "fst (nlookup nd h) = []"
  by (simp add: nlookup_def split: option.split)

lemma snd_nlookup [simp]: "snd (nlookup nd h) = n_lookup nd h"
  by (simp add: nlookup_def nthrow_def nret_def split: option.split)

lemma nsettle_settles:
  assumes "Call_settle h \<in> set (fst (nsettle e nd iv want l))"
  shows "h = h_hash iv \<and> want = Want_settle \<and> lookup_is [L_accepted] l"
  using assms by (auto simp: nsettle_def settle_or_cancel_def lookup_is_def nthrow_def split: option.splits if_splits)

lemma ndispose_settles:
  assumes "Call_settle h \<in> set (fst (ndispose e nd iv want))"
  shows "h = h_hash iv \<and> want = Want_settle \<and> (\<exists>l. n_lookup nd h = Some l \<and> lookup_is [L_accepted] l)"
  using nthen_call [OF assms [unfolded ndispose_def]] by (auto dest: nsettle_settles)

lemma nsettle_no_pay: "Call_pay b f \<notin> set (fst (nsettle e nd iv want l))"
  by (auto simp: nsettle_def settle_or_cancel_def nthrow_def split: option.splits)

subsection \<open>Paying\<close>

definition payable :: "env \<Rightarrow> node \<Rightarrow> 'm db_scheme \<Rightarrow> ln_order \<Rightarrow> bolt11_info \<Rightarrow> string \<Rightarrow> sat \<Rightarrow> bool" where
  "payable e nd w r info b n \<longleftrightarrow>
     o_state r \<in> {Paid, Sponsor_wins} \<and> \<not> o_disbursed r \<and> \<not> is_manual_payout (o_payout_error r)
     \<and> o_sponsor_invoice r = Some b \<and> o_payout_sat r = Some n \<and> e_bolt11 e b = Some info
     \<and> b11_amount info = n \<and> now_sec w + 30 < b11_expires info
     \<and> (\<exists>t. n_track nd (b11_hash info) = Some t \<and> t \<noteq> Some Succeeded \<and> t \<noteq> Some In_flight)"

lemma payout_run_calls:
  assumes "payout_run e nd oid w = (calls, out)" and "calls \<noteq> []"
  shows "\<exists>r info b n. get_order oid w = Some r \<and> payable e nd w r info b n
    \<and> calls = [Call_pay b (fee_limit_sat n)]"
proof -
  obtain r where r: "get_order oid w = Some r" and nd: "\<not> o_disbursed r"
    and st: "o_state r = Paid \<or> o_state r = Sponsor_wins"
    and tgt: "js_true_s (o_sponsor_invoice r)" "js_true_n (o_payout_sat r)"
    using assms by (auto simp: payout_run_def nret_def split: option.splits if_splits)
  obtain b n where b: "o_sponsor_invoice r = Some b" and n: "o_payout_sat r = Some n"
    using tgt by (cases "o_sponsor_invoice r"; cases "o_payout_sat r") auto
  obtain info where info: "e_bolt11 e b = Some info" and am: "is_payout_amount_exact (Some n) (b11_amount info)"
    using assms r nd st tgt b n by (auto simp: payout_run_def nret_def Let_def split: option.splits if_splits)
  obtain t where t: "n_track nd (b11_hash info) = Some t" "t \<noteq> Some Succeeded" "t \<noteq> Some In_flight"
    using assms r nd st tgt b n info am
    by (auto simp: payout_run_def nret_def nthrow_def Let_def split: option.splits if_splits)
  have "\<not> is_manual_payout (o_payout_error r)" "now_sec w + 30 < b11_expires info"
    "calls = [Call_pay b (fee_limit_sat n)]"
    using assms r nd st tgt b n info am t
    by (auto simp: payout_run_def nret_def nthrow_def Let_def split: option.splits if_splits)
  moreover have "b11_amount info = n" using am by (simp add: is_payout_amount_exact_def)
  ultimately show ?thesis using r nd st b n info t unfolding payable_def by blast
qed

lemma fee_limit_upper:
  assumes "0 \<le> n" and "n < 2 ^ 52"
  shows "fee_limit_sat n \<le> max 10 (n div 100 + 2)"
proof -
  define c where "c = fl (1 / 100)"
  define q :: rat where "q = of_int n"
  have q: "0 \<le> q" "q < 2 ^ 52" using assms by (simp_all add: q_def of_int_less_numeral_power_cancel_iff)
  have "\<bar>c - 1 / 100\<bar> \<le> 1 / 100 / 2 ^ 53" using fl_error [of "1 / 100"] by (simp add: c_def)
  from this [unfolded abs_le_iff] have c: "0 \<le> c" "c \<le> 1 / 100 + 1 / 100 / 2 ^ 53" by auto
  have qc: "0 \<le> q * c" "q * c \<le> q / 100 + 1 / 100"
  proof -
    show "0 \<le> q * c" using q c by simp
    have "q * c \<le> q * (1 / 100 + 1 / 100 / 2 ^ 53)" using q c by (intro mult_left_mono) auto
    then show "q * c \<le> q / 100 + 1 / 100" using q by (simp add: field_simps)
  qed
  have "fl (q * c) - q * c \<le> q * c / 2 ^ 53"
    using order_trans [OF abs_ge_self fl_error [of "q * c"]] qc by simp
  then have "fl (q * c) \<le> q * c + q * c / 2 ^ 53" by linarith
  also have "\<dots> < q / 100 + 1" using qc q by (simp add: field_simps)
  also have "\<dots> < of_int (n div 100) + 2"
  proof -
    have "n < (n div 100 + 1) * 100" by presburger
    then have "(of_int n :: rat) < of_int ((n div 100 + 1) * 100)" unfolding of_int_less_iff .
    then show ?thesis by (simp add: q_def)
  qed
  finally have "\<lceil>fl (q * c)\<rceil> \<le> n div 100 + 2" by (simp add: ceiling_le_iff)
  then show ?thesis by (simp add: fee_limit_sat_def c_def q_def)
qed

subsection \<open>Closing\<close>

lemma nsettle_takes:
  assumes "nsettle e nd iv Want_settle l = (cs, Some f)" and "lookup_is [L_accepted, L_settled] l"
  shows "f = F_settled" and "lookup_is [L_accepted] l \<Longrightarrow> cs = [Call_settle (h_hash iv)]"
  using assms
  by (cases l; auto simp: nsettle_def settle_or_cancel_def lookup_is_def nthrow_def split: option.splits if_splits)+

lemma close_escrow_settles:
  assumes "close_escrow e nd rule esc = (cs, Some (Inr fs))" and "cl_escrow rule = Settle"
  shows "\<exists>iv l. esc = Some iv \<and> n_lookup nd (h_hash iv) = Some l \<and> lookup_is [L_accepted, L_settled] l
    \<and> fs = [(h_hash iv, F_settled)] \<and> (lookup_is [L_accepted] l \<longrightarrow> cs = [Call_settle (h_hash iv)])"
proof -
  obtain iv l f where "esc = Some iv" and "n_lookup nd (h_hash iv) = Some l"
    and "lookup_is [L_accepted, L_settled] l" and "nsettle e nd iv Want_settle l = (cs, Some f)"
    and "fs = [(h_hash iv, f)]"
    using assms by (auto simp: close_escrow_def nthen_Some split: option.splits if_splits)
  with nsettle_takes show ?thesis by blast
qed

lemma close_escrow_gives_up:
  assumes "close_escrow e nd rule esc = (cs, Some (Inl err))"
  shows "cs = [] \<and> cl_escrow rule = Settle
    \<and> (esc = None \<or> (\<exists>iv l. esc = Some iv \<and> n_lookup nd (h_hash iv) = Some l \<and> \<not> lookup_is [L_accepted, L_settled] l))"
  using assms
  by (auto simp: close_escrow_def nthen_Some split: option.splits if_splits)

lemma close_holds_prefix:
  "close_holds e nd rule order ivs fs = (cs, Some gs) \<Longrightarrow> \<exists>hs. gs = fs @ hs"
proof (induction ivs arbitrary: fs cs)
  case (Cons iv ivs)
  show ?case
  proof (cases "close_want rule order iv")
    case None
    with Cons show ?thesis by auto
  next
    case (Some want)
    with Cons.prems obtain f cs2 where
      "close_holds e nd rule order ivs (fs @ [(h_hash iv, f)]) = (cs2, Some gs)" by (auto simp: nthen_Some)
    from Cons.IH [OF this] show ?thesis by auto
  qed
qed auto

text \<open>Which HTLC a close may take: the escrow when the rule settles it, a deposit the rule forfeits.\<close>

definition may_take :: "node \<Rightarrow> close_rule \<Rightarrow> ln_order \<Rightarrow> hold_row option \<Rightarrow> hold_row list \<Rightarrow> hex \<Rightarrow> bool" where
  "may_take nd rule order esc ivs h \<longleftrightarrow>
     (\<exists>l. n_lookup nd h = Some l \<and> lookup_is [L_accepted] l)
     \<and> ((\<exists>iv. esc = Some iv \<and> h_hash iv = h \<and> cl_escrow rule = Settle)
        \<or> (\<exists>iv \<in> set ivs. h_hash iv = h \<and> h_purpose iv \<noteq> Ln_escrow \<and> is_live_hold iv
             \<and> deposit_disposition rule order iv = Forfeit))"

lemma close_escrow_call:
  assumes "Call_settle h \<in> set (fst (close_escrow e nd rule esc))"
  shows "may_take nd rule order esc ivs h"
proof -
  have "cl_escrow rule = Settle" and "\<exists>iv l. esc = Some iv \<and> h = h_hash iv \<and> n_lookup nd h = Some l \<and> lookup_is [L_accepted] l"
    using assms
    by (auto simp: close_escrow_def split: option.splits if_splits
        dest!: nthen_call nsettle_settles ndispose_settles)
  then show ?thesis by (auto simp: may_take_def)
qed

lemma close_holds_call:
  assumes "Call_settle h \<in> set (fst (close_holds e nd rule order ivs fs))"
  shows "may_take nd rule order esc ivs h"
  using assms
proof (induction ivs arbitrary: fs)
  case (Cons iv ivs)
  have up: "may_take nd rule order esc ivs h \<Longrightarrow> may_take nd rule order esc (iv # ivs) h"
    by (auto simp: may_take_def)
  show ?case
  proof (cases "close_want rule order iv")
    case None
    with Cons up show ?thesis by auto
  next
    case (Some want)
    with Cons.prems have "Call_settle h \<in> set (fst (ndispose e nd iv want))
        \<or> (\<exists>f. Call_settle h \<in> set (fst (close_holds e nd rule order ivs (fs @ [(h_hash iv, f)]))))"
      by (auto dest!: nthen_call)
    then show ?thesis
    proof
      assume "Call_settle h \<in> set (fst (ndispose e nd iv want))"
      from ndispose_settles [OF this] Some show ?thesis
        by (auto simp: may_take_def close_want_def split: if_splits)
    qed (use Cons.IH up in blast)
  qed
qed (simp add: nret_def)

lemma close_run_pending:
  assumes "get_order oid w = Some r" and "o_pending_close r = Some c"
  shows "close_run e nd oid w = nthen (close_escrow e nd (close_rules c) (order_escrow r w))
    (\<lambda>x. case x of Inl error \<Rightarrow> nret (O_dead error)
     | Inr finals \<Rightarrow> nthen (close_holds e nd (close_rules c) r (hold_of oid LN_HOLD_PURPOSES w) finals)
         (\<lambda>fs. nret (O_done (R_finals fs))))"
  using assms by (simp add: close_run_def)

lemma close_run_calls:
  assumes "close_run e nd oid w = (cs, out)" and "Call_settle h \<in> set cs"
  shows "\<exists>r c. get_order oid w = Some r \<and> o_pending_close r = Some c
    \<and> may_take nd (close_rules c) r (order_escrow r w) (hold_of oid LN_HOLD_PURPOSES w) h"
proof -
  have c: "Call_settle h \<in> set (fst (close_run e nd oid w))" using assms by simp
  then obtain r where r: "get_order oid w = Some r" by (auto simp: close_run_def split: option.splits)
  with c obtain k where k: "o_pending_close r = Some k" by (auto simp: close_run_def split: option.splits)
  have "Call_settle h \<in> set (fst (close_escrow e nd (close_rules k) (order_escrow r w)))
      \<or> (\<exists>fs. Call_settle h \<in> set (fst (close_holds e nd (close_rules k) r (hold_of oid LN_HOLD_PURPOSES w) fs)))"
    using nthen_call [OF c [unfolded close_run_pending [OF r k]]]
  proof (elim disjE exE conjE)
    fix x
    assume "Call_settle h \<in> set (fst (case x of Inl error \<Rightarrow> nret (O_dead error)
      | Inr finals \<Rightarrow> nthen (close_holds e nd (close_rules k) r (hold_of oid LN_HOLD_PURPOSES w) finals)
         (\<lambda>fs. nret (O_done (R_finals fs)))))"
    then show ?thesis by (cases x) auto
  qed blast
  with r k close_escrow_call close_holds_call show ?thesis by blast
qed

lemma close_run_done:
  assumes "close_run e nd oid w = (cs, Some (O_done res))"
    and "get_order oid w = Some r" and "o_pending_close r = Some c"
  obtains fs hs cs1 cs2 where "res = R_finals (fs @ hs)" and "cs = cs1 @ cs2"
    and "close_escrow e nd (close_rules c) (order_escrow r w) = (cs1, Some (Inr fs))"
    and "close_holds e nd (close_rules c) r (hold_of oid LN_HOLD_PURPOSES w) fs = (cs2, Some (fs @ hs))"
proof -
  from assms(1) [unfolded close_run_pending [OF assms(2,3)] nthen_Some]
  obtain cs1 x cs2 where x: "close_escrow e nd (close_rules c) (order_escrow r w) = (cs1, Some x)"
    and rest: "(case x of Inl error \<Rightarrow> nret (O_dead error)
     | Inr finals \<Rightarrow> nthen (close_holds e nd (close_rules c) r (hold_of oid LN_HOLD_PURPOSES w) finals)
         (\<lambda>fs. nret (O_done (R_finals fs)))) = (cs2, Some (O_done res))" and cs: "cs = cs1 @ cs2" by blast
  from rest obtain fs gs where fs: "x = Inr fs" and res: "res = R_finals gs"
    and gs: "close_holds e nd (close_rules c) r (hold_of oid LN_HOLD_PURPOSES w) fs = (cs2, Some gs)"
    by (cases x) (auto simp: nthen_Some)
  from close_holds_prefix [OF gs] obtain hs where "gs = fs @ hs" by blast
  with that [of fs hs cs1 cs2] x cs fs res gs show thesis by simp
qed

subsection \<open>Recording the outcome\<close>

lemma update_order_quiet_ok:
  assumes "update_order oid patch w = Some (r', w')"
    and "\<And>r. get_order oid w = Some r \<Longrightarrow> order_ok r \<Longrightarrow> order_ok (patch r)"
    and "\<And>r. get_order oid w = Some r \<Longrightarrow> order_ok r \<Longrightarrow> same_trade r (patch r)"
  shows "ln_ok e w w'"
proof -
  obtain r where "get_order oid w = Some r" using assms(1) by (auto simp: update_order_def split: option.splits)
  with assms show ?thesis by (blast intro: update_order_ok)
qed

text \<open>Writing a payout error that is no manual mark, or marking a won trade, is such a change.\<close>

lemma payout_error_ok:
  assumes "update_order oid (\<lambda>r. r\<lparr>o_payout_error := x\<rparr>) w = Some (r', w')"
    and "\<And>r. get_order oid w = Some r \<Longrightarrow> is_manual_payout x \<Longrightarrow> o_state r \<in> {Paid, Sponsor_wins}"
  shows "ln_ok e w w'"
  by (rule update_order_quiet_ok [OF assms(1)]) (use assms(2) in \<open>auto simp: order_ok_def same_trade_def\<close>)

lemma manual_names [simp]:
  "\<not> is_manual_payout (Some LN_PAYOUT_INVOICE_EXPIRED)" "is_manual_payout (Some LN_PAYOUT_MANUAL)"
  "is_manual_payout (Some LN_PAYOUT_MANUAL_REQUESTED)" "\<not> is_manual_payout None"
  by (simp_all add: is_manual_payout_def LN_PAYOUT_INVOICE_EXPIRED_def LN_PAYOUT_MANUAL_def
      LN_PAYOUT_MANUAL_REQUESTED_def)

lemma payout_mark_expired_ok:
  assumes "payout_mark_expired e r b w = Some w'"
  shows "ln_ok e w w'"
proof -
  let ?kv = "\<lambda>w1. kv_set (payout_expired_at_key (o_id r)) (int_str (now_sec w)) w1"
  obtain r1 w1 where u: "update_order (o_id r) (\<lambda>r. r\<lparr>o_payout_error := Some LN_PAYOUT_INVOICE_EXPIRED\<rparr>) w = Some (r1, w1)"
    and w': "w' = ask_new_invoice e r b (?kv w1)"
    using assms by (auto simp: payout_mark_expired_def)
  have q: "quiet (?kv w1) w'"
    unfolding w' ask_new_invoice_def
    by (simp add: quiet_trans [OF quiet_store(6) quiet_notify_more(2)] split: option.split)
  have "ln_ok e w w1" by (rule payout_error_ok [OF u]) simp
  then show ?thesis using quiet_trans [OF quiet_kv_set q] by (rule ln_ok_quiet_after)
qed

text \<open>What the paying executor reports about the order it saw.\<close>

definition payout_report_ok :: "eff_result \<Rightarrow> ln_order \<Rightarrow> bool" where
  "payout_report_ok res r \<longleftrightarrow>
     (res = R_payout_paid \<or> (\<exists>b. res = R_payout_manual b) \<longrightarrow> o_state r \<in> {Paid, Sponsor_wins})"

lemma payout_run_report:
  assumes "payout_run e nd oid w = (cs, Some (O_done res))" and "get_order oid w = Some r"
  shows "payout_report_ok res r"
  using assms by (auto simp: payout_run_def payout_report_ok_def nret_def split: option.splits if_splits)

lemma payout_on_done_ok:
  assumes "payout_on_done e oid res w = Some w'"
    and "\<And>r. get_order oid w = Some r \<Longrightarrow> payout_report_ok res r"
  shows "ln_ok e w w'"
proof (cases "get_order oid w")
  case None
  with assms show ?thesis by (simp add: payout_on_done_def)
next
  case (Some r)
  have rep: "payout_report_ok res r" by (rule assms(2) [OF Some])
  have err: "ln_ok e w w2" if "update_order oid (\<lambda>r. r\<lparr>o_payout_error := Some LN_PAYOUT_MANUAL\<rparr>) w = Some (r1, w2)"
    and "res = R_payout_manual b" for r1 w2 b
    by (rule payout_error_ok [OF that(1)]) (use rep that(2) Some in \<open>auto simp: payout_report_ok_def\<close>)
  have paid: "ln_ok e w w2"
    if "update_order oid (\<lambda>r. r\<lparr>o_disbursed := True, o_payout_error := None\<rparr>) w = Some (r1, w2)"
      and "res = R_payout_paid" for r1 w2
    by (rule update_order_quiet_ok [OF that(1)])
      (use rep that(2) Some in \<open>auto simp: payout_report_ok_def order_ok_def same_trade_def\<close>)
  show ?thesis
    using assms(1) Some err paid payout_mark_expired_ok ln_ok_quiet [OF quiet_request_payout]
    by (auto simp: payout_on_done_def split: eff_result.splits if_splits)
qed

lemma payout_on_retry_ok:
  assumes "payout_on_retry oid err w = Some w'"
    and "\<And>r. get_order oid w = Some r \<Longrightarrow> is_manual_payout (Some err) \<Longrightarrow> o_state r \<in> {Paid, Sponsor_wins}"
  shows "ln_ok e w w'"
proof -
  have "ln_ok e w w2" if "update_order oid (\<lambda>r. r\<lparr>o_payout_error := Some err\<rparr>) w = Some (r1, w2)" for r1 w2
    by (rule payout_error_ok [OF that assms(2)])
  then show ?thesis using assms(1) by (auto simp: payout_on_retry_def split: option.splits if_splits)
qed

lemma payout_on_dead_ok:
  assumes "payout_on_dead e oid err w = Some w'" and "\<not> is_manual_payout (Some err)"
  shows "ln_ok e w w'"
proof (cases "get_order oid w")
  case None
  with assms show ?thesis by (simp add: payout_on_dead_def)
next
  case (Some r)
  with assms(1) obtain r1 w1 where u: "update_order oid (\<lambda>r. r\<lparr>o_payout_error := Some err\<rparr>) w = Some (r1, w1)"
    and q: "quiet w1 w'" by (auto simp: payout_on_dead_def)
  have "ln_ok e w w1" by (rule payout_error_ok [OF u]) (use assms(2) in simp)
  then show ?thesis using q by (rule ln_ok_quiet_after)
qed

lemma probe_on_done_ok: "probe_on_done e oid b res w = Some w' \<Longrightarrow> ln_ok e w w'"
  by (auto simp: probe_on_done_def ln_ok_quiet split: eff_result.splits option.splits if_splits)

lemma close_on_done_ok: "close_on_done e oid res w = Some w' \<Longrightarrow> ln_ok e w w'"
  by (auto simp: close_on_done_def finish_close_ok split: eff_result.splits)

lemma quiet_alert_skipped [simp]: "quiet w (alert_skipped_recipients e trk n oid sk w)"
  unfolding alert_skipped_recipients_def by (rule quiet_fold) simp

lemma order_ok_published [simp]: "order_ok (r\<lparr>o_published_at := t\<rparr>) = order_ok r"
  by (simp add: order_ok_def)

lemma ln_ok_published:
  "ln_ok e w (w\<lparr>ln_orders := update_where (\<lambda>r. o_id r = oid) (\<lambda>r. r\<lparr>o_published_at := t\<rparr>) (ln_orders w)\<rparr>)"
  (is "ln_ok e w ?w'")
proof -
  have g: "get_order i ?w' = (if i = oid then map_option (\<lambda>r. r\<lparr>o_published_at := t\<rparr>) (get_order i w) else get_order i w)" for i
  proof (cases "i = oid")
    case True
    then show ?thesis by (simp add: get_order_def find_update_where_same)
  next
    case False
    then show ?thesis by (simp add: get_order_def) (rule find_update_where_other; simp)
  qed
  have ids: "map o_id (ln_orders ?w') = map o_id (ln_orders w)" by (simp add: map_update_where)
  have keep: "ln_inv w \<Longrightarrow> ln_inv ?w'"
    using ids unfolding ln_inv_def by (auto dest!: set_update_where)
  have "orders_evolve w ?w'"
    unfolding orders_evolve_def by (auto simp: g order_evolves_def)
  with keep show ?thesis
    by (auto simp: ln_ok_def ln_winv_def hold_inv_def q_wf_def hold_wf_def)
qed

lemma publish_on_done_ok: "publish_on_done e oid res w = Some w' \<Longrightarrow> ln_ok e w w'"
  unfolding publish_on_done_def
  using ln_ok_trans [OF ln_ok_published ln_ok_quiet [OF quiet_alert_skipped]]
  by (auto simp: ln_ok_quiet split: eff_result.splits option.splits if_splits)

lemma detail_on_done_ok: "detail_on_done oid res w = Some w' \<Longrightarrow> ln_ok e w w'"
  by (auto simp: detail_on_done_def ln_ok_quiet split: eff_result.splits option.splits if_splits)

lemma finish_close_get:
  fixes w :: "'a db_scheme"
  assumes "finish_close e (\<lambda>_. ln_hooks e) oid finals w = Some w'" and "get_order oid w = Some r"
    and "o_pending_close r = Some c"
  shows "\<exists>r'. get_order oid w' = Some r' \<and> o_state r' = cl_terminal (close_rules c)
    \<and> o_close_reason r' = Some c \<and> o_pending_close r' = None \<and> o_payout_sat r' = o_payout_sat r
    \<and> (o_state r' \<in> {Paid, Sponsor_wins} \<longrightarrow> list_ex (pending_with (''ln.payout:'' @ oid)) (q_rows w'))"
proof -
  define al where "al = (\<lambda>w :: 'a db_scheme. if cl_escrow (close_rules c) = Cancel
      \<and> Option.bind (o_escrow_hash r) (map_of finals) = Some F_settled
    then raise_alert e (''ln:'' @ oid @ '':refund-manually'') Anomaly (Some Track_ln) (Some oid) w else w)"
  obtain w1 r3 w3 where d: "record_disposals (\<lambda>_. ln_hooks e) finals w = Some w1"
    and u: "update_order oid (\<lambda>r. r\<lparr>o_state := cl_terminal (close_rules c), o_close_reason := Some c,
        o_pending_close := None\<rparr>) (al w1) = Some (r3, w3)"
    and w': "w' = (if cl_terminal (close_rules c) = Paid \<or> cl_terminal (close_rules c) = Sponsor_wins
        then request_payout oid (notify_ln_transition r3 w3) else notify_ln_transition r3 w3)"
    using assms(1-3) by (auto simp: finish_close_def Let_def al_def)
  obtain x where x: "get_order oid w1 = Some x" and rx: "frozen r x"
    using record_disposals_frozen [OF d] assms(2) by (auto simp: all_frozen_def)
  have ax: "get_order oid (al w1) = Some x" using x by (simp add: al_def get_order_quiet [OF quiet_raise_alert])
  have r3: "r3 = bump (now_sec (al w1)) (x\<lparr>o_state := cl_terminal (close_rules c), o_close_reason := Some c,
      o_pending_close := None\<rparr>)" using u ax by (simp add: update_order_def)
  have "get_order oid w3 = Some r3" using get_order_update [OF u] by simp
  moreover have "quiet w3 w'"
    unfolding w' by (simp add: quiet_trans [OF quiet_notify_ln_transition quiet_request_payout])
  ultimately have "get_order oid w' = Some r3" using get_order_quiet by metis
  then show ?thesis
    using request_payout_pending [of oid "notify_ln_transition r3 w3"] frozenD(7) [OF rx]
    by (auto simp: r3 w')
qed

text \<open>Recording a close never throws.\<close>

lemma ln_disposed_total: "\<exists>w'. ln_disposed e b f v w = Some w'"
proof (cases "get_order (h_order b) w")
  case (Some r)
  from update_order_Some [OF get_order_id [OF Some], of "o_escrow_settled_update (\<lambda>_. True)"] Some show ?thesis
    by (auto simp: ln_disposed_def)
qed (simp add: ln_disposed_def)

lemma record_disposal_total: "\<exists>w'. record_disposal (\<lambda>_. ln_hooks e) h f v w = Some w'"
  using ln_disposed_total by (auto simp: record_disposal_def ln_hooks_def split: option.split)

lemma record_disposals_total: "\<exists>w'. record_disposals (\<lambda>_. ln_hooks e) fs w = Some w'"
proof (induction fs arbitrary: w)
  case (Cons f fs)
  obtain h x where "f = (h, x)" by force
  with Cons record_disposal_total [of e h x Via_batch w] show ?case by auto
qed simp

lemma finish_close_total:
  fixes w :: "'a db_scheme"
  shows "\<exists>w'. finish_close e (\<lambda>_. ln_hooks e) oid fs w = Some w'"
proof (cases "get_order oid w")
  case (Some r)
  show ?thesis
  proof (cases "o_pending_close r")
    case c: (Some c)
    obtain w1 where d: "record_disposals (\<lambda>_. ln_hooks e) fs w = Some w1" using record_disposals_total by blast
    obtain x where x: "get_order oid w1 = Some x"
      using record_disposals_frozen [OF d] Some by (auto simp: all_frozen_def)
    let ?w2 = "if cl_escrow (close_rules c) = Cancel \<and> Option.bind (o_escrow_hash r) (map_of fs) = Some F_settled
      then raise_alert e (''ln:'' @ oid @ '':refund-manually'') Anomaly (Some Track_ln) (Some oid) w1 else w1"
    let ?patch = "\<lambda>r. r\<lparr>o_state := cl_terminal (close_rules c), o_close_reason := Some c, o_pending_close := None\<rparr>"
    have "get_order oid ?w2 = Some x" using x by (simp add: get_order_quiet [OF quiet_raise_alert])
    from update_order_Some [OF this, of ?patch] obtain r3 w3 where u: "update_order oid ?patch ?w2 = Some (r3, w3)" by blast
    show ?thesis by (simp add: finish_close_def Let_def Some c d u del: bind_Some_iff)
  qed (simp add: finish_close_def Some)
qed (simp add: finish_close_def)

definition toy_hash :: hex where "toy_hash = ''ln-escrow/ord1'' @ nat_digits 0"

definition toy_escrow_row :: hold_row where
  "toy_escrow_row = (mk_hold toy_hash Ln_escrow ''ord1'' ''cust'' 0 1005 50000 144 0)\<lparr>h_status := H_accepted\<rparr>"

definition toy_remitted :: ln_order where
  "toy_remitted = toy_order\<lparr>o_state := Remitted, o_sponsor := Some ''sp'', o_payout_sat := Some 1000,
     o_escrow_hash := Some toy_hash, o_sponsor_invoice := Some ''lnbc''\<rparr>"

definition toy_paying_env :: env where
  "toy_paying_env = toy_env\<lparr>e_bolt11 := \<lambda>_. Some \<lparr>b11_amount = 1000, b11_hash = ''ph'', b11_expires = 90000\<rparr>\<rparr>"

definition toy_won_db :: "string option \<Rightarrow> db" where
  "toy_won_db err = empty_db\<lparr>ln_orders := [toy_remitted\<lparr>o_state := Paid, o_close_reason := Some CR_paid,
     o_payout_error := err\<rparr>]\<rparr>"

definition toy_paid_close_db :: db where
  "toy_paid_close_db = empty_db\<lparr>ln_orders := [toy_remitted\<lparr>o_pending_close := Some CR_paid\<rparr>],
     invoices := [toy_escrow_row]\<rparr>"

definition toy_held_node :: node where
  "toy_held_node = toy_node\<lparr>n_lookup := \<lambda>_. Some (Some \<lparr>lk_state = L_accepted, lk_bolt11 = [], lk_htlc_expiry = None\<rparr>)\<rparr>"

lemma toy_won_get:
  "get_order ''ord1'' (toy_won_db err) = Some (toy_remitted\<lparr>o_state := Paid, o_close_reason := Some CR_paid,
     o_payout_error := err\<rparr>)"
  by (simp add: toy_won_db_def toy_remitted_def toy_order_def new_order_def get_order_def)

lemma toy_payout_run:
  "payout_run toy_paying_env toy_node ''ord1'' (toy_won_db None) = ([Call_pay ''lnbc'' (fee_limit_sat 1000)], Some (O_done R_payout_paid))"
  "payout_run toy_paying_env toy_node ''ord1'' (toy_won_db (Some LN_PAYOUT_MANUAL_REQUESTED))
    = ([], Some (O_done (R_payout_manual ''lnbc'')))"
  by (simp_all add: payout_run_def toy_won_get)
    (simp_all add: toy_remitted_def toy_order_def new_order_def toy_paying_env_def toy_env_def
      toy_node_def is_payout_amount_exact_def nret_def now_sec_def toy_won_db_def empty_db_def is_manual_payout_def [of None])

lemma toy_close_get: "get_order ''ord1'' toy_paid_close_db = Some (toy_remitted\<lparr>o_pending_close := Some CR_paid\<rparr>)"
  by (simp add: toy_paid_close_db_def toy_remitted_def toy_order_def new_order_def get_order_def)

lemma toy_close_run:
  "close_run toy_env toy_held_node ''ord1'' toy_paid_close_db = ([Call_settle toy_hash], Some (O_done (R_finals [(toy_hash, F_settled)])))"
proof -
  have esc: "order_escrow (toy_remitted\<lparr>o_pending_close := Some CR_paid\<rparr>) toy_paid_close_db = Some toy_escrow_row"
    by (simp add: order_escrow_def toy_remitted_def toy_hash_def hold_get_def toy_paid_close_db_def toy_escrow_row_def)
  have pre: "preimage_ok toy_env toy_escrow_row"
    by (simp add: preimage_ok_def scope_of_def preimage_scope_def toy_escrow_row_def toy_hash_def toy_env_def)
  have ce: "close_escrow toy_env toy_held_node (close_rules CR_paid) (Some toy_escrow_row)
      = ([Call_settle toy_hash], Some (Inr [(toy_hash, F_settled)]))"
    using pre by (simp add: close_escrow_def nthen_def nlookup_def nret_def nsettle_def settle_or_cancel_def lookup_is_def
        toy_held_node_def toy_node_def) (simp add: toy_escrow_row_def)
  have ch: "close_holds toy_env toy_held_node (close_rules CR_paid) (toy_remitted\<lparr>o_pending_close := Some CR_paid\<rparr>)
      (hold_of ''ord1'' LN_HOLD_PURPOSES toy_paid_close_db) fs = ([], Some fs)" for fs
    by (simp add: hold_of_def toy_paid_close_db_def toy_escrow_row_def LN_HOLD_PURPOSES_def close_want_def
        toy_remitted_def nret_def)
  show ?thesis
    using close_run_pending [OF toy_close_get, of CR_paid toy_env toy_held_node]
    by (simp add: esc ce ch nthen_def nret_def del: close_rules.simps)
qed

subsection \<open>Properties\<close>

text \<open>C22. A payment is sent only for a won trade that was not paid out and not switched to manual payout,
  for the stored invoice, of exactly the fixed payout, not about to expire, and only when the node knows
  no successful or running payment of it; one run sends at most one, with a routing fee of at most 1 percent
  plus rounding.\<close>

theorem payout_only_when_due:
  assumes "payout_run e nd oid w = (calls, out)" and "calls \<noteq> []"
  shows "\<exists>r info b n. get_order oid w = Some r \<and> payable e nd w r info b n
    \<and> calls = [Call_pay b (fee_limit_sat n)]
    \<and> (0 \<le> n \<and> n < 2 ^ 52 \<longrightarrow> fee_limit_sat n \<le> max 10 (n div 100 + 2))"
proof -
  from payout_run_calls [OF assms] obtain r info b n where "get_order oid w = Some r"
    "payable e nd w r info b n" "calls = [Call_pay b (fee_limit_sat n)]" by blast
  with fee_limit_upper [of n] show ?thesis by blast
qed

theorem payout_only_when_due_witness:
  "\<exists>r info n. get_order ''ord1'' (toy_won_db None) = Some r
     \<and> payable toy_paying_env toy_node (toy_won_db None) r info ''lnbc'' n"
  using payout_only_when_due [OF toy_payout_run(1)] by fastforce

text \<open>Once the operator has asked for manual payout the daemon never pays that order again: no payment
  call is made, a failure cannot overwrite the mark, and the daemon reports that it has stopped only
  after the node showed the stored invoice neither paid nor on its way.\<close>

theorem payout_manual_stops:
  assumes "get_order oid w = Some r" and "is_manual_payout (o_payout_error r)"
  shows "fst (payout_run e nd oid w) = []
    \<and> payout_on_retry oid err w = Some w
    \<and> (snd (payout_run e nd oid w) = Some (O_done (R_payout_manual b))
       \<longrightarrow> o_sponsor_invoice r = Some b \<and> (\<exists>info t. e_bolt11 e b = Some info
            \<and> n_track nd (b11_hash info) = Some t \<and> t \<noteq> Some Succeeded \<and> t \<noteq> Some In_flight))"
proof (intro conjI)
  obtain cs out where run: "payout_run e nd oid w = (cs, out)" by force
  have "cs = []"
  proof (rule ccontr)
    assume "cs \<noteq> []"
    from payout_run_calls [OF run this] assms show False by (auto simp: payable_def)
  qed
  then show "fst (payout_run e nd oid w) = []" by (simp add: run)
  show "payout_on_retry oid err w = Some w" using assms by (simp add: payout_on_retry_def)
  show "snd (payout_run e nd oid w) = Some (O_done (R_payout_manual b))
       \<longrightarrow> o_sponsor_invoice r = Some b \<and> (\<exists>info t. e_bolt11 e b = Some info
            \<and> n_track nd (b11_hash info) = Some t \<and> t \<noteq> Some Succeeded \<and> t \<noteq> Some In_flight)"
    using assms
    by (cases "o_sponsor_invoice r")
      (auto simp: payout_run_def nret_def nthrow_def Let_def split: option.splits if_splits pay_status.splits)
qed

theorem payout_manual_stops_witness:
  "payout_on_retry ''ord1'' ''no route'' (toy_won_db (Some LN_PAYOUT_MANUAL_REQUESTED))
     = Some (toy_won_db (Some LN_PAYOUT_MANUAL_REQUESTED))
   \<and> snd (payout_run toy_paying_env toy_node ''ord1'' (toy_won_db (Some LN_PAYOUT_MANUAL_REQUESTED)))
     = Some (O_done (R_payout_manual ''lnbc''))"
proof -
  have "is_manual_payout (o_payout_error (toy_remitted\<lparr>o_state := Paid, o_close_reason := Some CR_paid,
     o_payout_error := Some LN_PAYOUT_MANUAL_REQUESTED\<rparr>))" by simp
  from payout_manual_stops [OF toy_won_get this] toy_payout_run(2) show ?thesis by simp
qed

text \<open>C24. A trade is recorded as paid or won by the sponsor only after the node took the escrow: the close
  asks the node first, takes an accepted HTLC as its very first call or finds it already settled, and only
  then disposes of the deposits; the recorded order has the state and reason of the rule and its payout
  is queued.\<close>

theorem close_takes_escrow_first:
  assumes "get_order oid w = Some r" and "o_pending_close r = Some c"
    and "close_run e nd oid w = (calls, Some (O_done res))" and "close_on_done e oid res w = Some w'"
  shows "\<exists>r'. get_order oid w' = Some r' \<and> o_state r' = cl_terminal (close_rules c)
    \<and> o_close_reason r' = Some c \<and> o_pending_close r' = None
    \<and> (o_state r' \<in> {Paid, Sponsor_wins} \<longrightarrow>
         list_ex (pending_with (''ln.payout:'' @ oid)) (q_rows w')
         \<and> (\<exists>h l. o_escrow_hash r = Some h \<and> n_lookup nd h = Some l
              \<and> (lookup_is [L_settled] l \<or> lookup_is [L_accepted] l \<and> hd calls = Call_settle h)))"
proof -
  obtain fs hs cs1 cs2 where res: "res = R_finals (fs @ hs)" and cs: "calls = cs1 @ cs2"
    and esc: "close_escrow e nd (close_rules c) (order_escrow r w) = (cs1, Some (Inr fs))"
    by (rule close_run_done [OF assms(3,1,2)])
  have "finish_close e (\<lambda>_. ln_hooks e) oid (fs @ hs) w = Some w'"
    using assms(4) by (simp add: close_on_done_def res)
  from finish_close_get [OF this assms(1,2)] obtain r' where r': "get_order oid w' = Some r'"
    "o_state r' = cl_terminal (close_rules c)" "o_close_reason r' = Some c" "o_pending_close r' = None"
    and pay: "o_state r' \<in> {Paid, Sponsor_wins} \<longrightarrow> list_ex (pending_with (''ln.payout:'' @ oid)) (q_rows w')"
    by blast
  have "\<exists>h l. o_escrow_hash r = Some h \<and> n_lookup nd h = Some l
      \<and> (lookup_is [L_settled] l \<or> lookup_is [L_accepted] l \<and> hd calls = Call_settle h)"
    if "o_state r' \<in> {Paid, Sponsor_wins}"
  proof -
    have "cl_escrow (close_rules c) = Settle" using that r'(2) by (cases c) auto
    from close_escrow_settles [OF esc this] obtain iv l where iv: "order_escrow r w = Some iv"
      "n_lookup nd (h_hash iv) = Some l" "lookup_is [L_accepted, L_settled] l"
      "lookup_is [L_accepted] l \<longrightarrow> cs1 = [Call_settle (h_hash iv)]" by blast
    from iv(1) have "o_escrow_hash r = Some (h_hash iv)"
      by (auto simp: order_escrow_def dest: hold_get_Some split: option.splits if_splits)
    moreover have "lookup_is [L_settled] l \<or> lookup_is [L_accepted] l \<and> hd calls = Call_settle (h_hash iv)"
      using iv(3,4) by (auto simp: lookup_is_def cs split: option.splits)
    ultimately show ?thesis using iv(2) by blast
  qed
  with r' pay show ?thesis by blast
qed

theorem close_takes_escrow_first_witness:
  "\<exists>w' r'. close_on_done toy_env ''ord1'' (R_finals [(toy_hash, F_settled)]) toy_paid_close_db = Some w'
     \<and> get_order ''ord1'' w' = Some r' \<and> o_state r' = Paid"
proof -
  obtain w' where w': "close_on_done toy_env ''ord1'' (R_finals [(toy_hash, F_settled)]) toy_paid_close_db = Some w'"
    using finish_close_total [of toy_env "''ord1''" "[(toy_hash, F_settled)]" toy_paid_close_db]
    by (auto simp: close_on_done_def)
  have "o_pending_close (toy_remitted\<lparr>o_pending_close := Some CR_paid\<rparr>) = Some CR_paid" by simp
  from close_takes_escrow_first [OF toy_close_get this toy_close_run w'] w' show ?thesis by auto
qed

text \<open>A close takes only what its rule allows and gives up cleanly: every settle the close asks for is of
  an accepted HTLC that is either the escrow of a rule that settles it or a live deposit the rule forfeits,
  and a close that gives up has made no call at all, so nothing was taken or returned.\<close>

theorem close_takes_only_its_due:
  assumes "close_run e nd oid w = (calls, out)"
  shows "(Call_settle h \<in> set calls \<longrightarrow> (\<exists>r c. get_order oid w = Some r \<and> o_pending_close r = Some c
            \<and> may_take nd (close_rules c) r (order_escrow r w) (hold_of oid LN_HOLD_PURPOSES w) h))
    \<and> (out = Some (O_dead err) \<longrightarrow> calls = [])"
proof (intro conjI impI)
  assume "Call_settle h \<in> set calls"
  with assms show "\<exists>r c. get_order oid w = Some r \<and> o_pending_close r = Some c
      \<and> may_take nd (close_rules c) r (order_escrow r w) (hold_of oid LN_HOLD_PURPOSES w) h"
    by (rule close_run_calls)
next
  assume out: "out = Some (O_dead err)"
  then obtain r where r: "get_order oid w = Some r" using assms by (auto simp: close_run_def split: option.splits)
  then obtain c where c: "o_pending_close r = Some c" using assms out by (auto simp: close_run_def split: option.splits)
  from assms [unfolded close_run_pending [OF r c] out nthen_Some] obtain cs1 x cs2
    where x: "close_escrow e nd (close_rules c) (order_escrow r w) = (cs1, Some x)" "calls = cs1 @ cs2"
      "(case x of Inl error \<Rightarrow> nret (O_dead error)
        | Inr finals \<Rightarrow> nthen (close_holds e nd (close_rules c) r (hold_of oid LN_HOLD_PURPOSES w) finals)
           (\<lambda>fs. nret (O_done (R_finals fs)))) = (cs2, Some (O_dead err))" by blast
  then obtain err' where "x = Inl err'" by (cases x) (auto simp: nthen_Some)
  with x close_escrow_gives_up [of e nd _ _ cs1 err'] show "calls = []" by auto
qed

theorem close_takes_only_its_due_witness:
  "Call_settle toy_hash \<in> set (fst (close_run toy_env toy_held_node ''ord1'' toy_paid_close_db))
   \<and> (\<exists>r c. get_order ''ord1'' toy_paid_close_db = Some r \<and> o_pending_close r = Some c
        \<and> may_take toy_held_node (close_rules c) r (order_escrow r toy_paid_close_db)
            (hold_of ''ord1'' LN_HOLD_PURPOSES toy_paid_close_db) toy_hash)"
  using close_takes_only_its_due [OF toy_close_run, THEN conjunct1, of toy_hash] by (simp add: toy_close_run)

end
