(* ===== verification/Ln_Steps.thy ===== *)
theory Ln_Steps
  imports Ln_Effects_Inv
begin

text \<open>
  What an action of \<open>Ln_Flow\<close> does to the orders, one by one: which order it may touch, and how.  The commands
  and the watcher are loops and choices over these actions.
\<close>

text \<open>
  An action on an order leaves every other order alone and either leaves its own or raises its version by
  one; it records a payout only on an order already marked \<open>manual\<close> and never sets that mark.
\<close>

definition payout_marks :: "ln_order \<Rightarrow> ln_order \<Rightarrow> bool" where
  "payout_marks r r' \<longleftrightarrow>
     (o_disbursed r' \<and> \<not> o_disbursed r \<longrightarrow> o_payout_error r = Some LN_PAYOUT_MANUAL)
     \<and> (o_payout_error r' = Some LN_PAYOUT_MANUAL \<longrightarrow> o_payout_error r = Some LN_PAYOUT_MANUAL)"

definition steps_order :: "ln_order \<Rightarrow> 'm db_scheme \<Rightarrow> 'm db_scheme \<Rightarrow> bool" where
  "steps_order r w w' \<longleftrightarrow>
     (\<forall>i. i \<noteq> o_id r \<longrightarrow> get_order i w' = get_order i w)
     \<and> (get_order (o_id r) w' = Some r
        \<or> (\<exists>r'. get_order (o_id r) w' = Some r' \<and> o_version r' = Suc (o_version r) \<and> payout_marks r r'))"

lemma steps_refl: "get_order (o_id r) w = Some r \<Longrightarrow> steps_order r w w"
  by (simp add: steps_order_def)

lemma steps_quiet_before: "quiet u v \<Longrightarrow> steps_order r v w \<Longrightarrow> steps_order r u w"
  by (simp add: steps_order_def get_order_quiet)

lemma steps_quiet_after: "steps_order r u v \<Longrightarrow> quiet v w \<Longrightarrow> steps_order r u w"
  by (simp add: steps_order_def get_order_quiet)

lemma steps_update:
  assumes "update_order (o_id r) patch w = Some (r', w')" and "get_order (o_id r) w = Some r"
    and "\<And>x. o_id (patch x) = o_id x" and "o_version (patch r) = o_version r" and "payout_marks r (patch r)"
  shows "steps_order r w w'"
proof -
  have "r' = bump (now_sec w) (patch r)" using assms(1,2) by (simp add: update_order_def)
  then show ?thesis using get_order_update [OF assms(1,3)] assms(4,5) by (simp add: steps_order_def payout_marks_def)
qed

lemma steps_begin_close:
  assumes "begin_close r c w = Some (b, w')" and "get_order (o_id r) w = Some r"
  shows "steps_order r w w'"
proof (cases "w' = w")
  case True
  with assms(2) show ?thesis by (simp add: steps_refl)
next
  case False
  with assms(1) obtain r1 w1 where u: "update_order (o_id r) (\<lambda>r. r\<lparr>o_pending_close := Some c\<rparr>) w = Some (r1, w1)"
    and q: "quiet w1 w'" by (auto simp: begin_close_def split: if_splits)
  have "steps_order r w w1" by (rule steps_update [OF u assms(2)]) (simp_all add: payout_marks_def)
  then show ?thesis using q by (rule steps_quiet_after)
qed

lemma steps_revert:
  assumes "revert_claim r w = Some (r', w')" and "get_order (o_id r) w = Some r"
  shows "steps_order r w w'"
proof -
  let ?w1 = "dispose_all (revert_invoices r w) w"
  have g: "get_order (o_id r) ?w1 = Some r" using assms(2) by (simp add: get_order_quiet [OF quiet_dispose_all])
  have "steps_order r ?w1 w'" by (rule steps_update [OF assms(1) [unfolded revert_claim_def] g]) (simp_all add: payout_marks_def)
  with quiet_dispose_all show ?thesis by (rule steps_quiet_before)
qed

lemma steps_approve:
  assumes "approve e r w = Some (err, w')" and "get_order (o_id r) w = Some r"
  shows "steps_order r w w'"
proof (cases "w' = w")
  case True
  with assms(2) show ?thesis by (simp add: steps_refl)
next
  case False
  with assms(1) obtain n iv w1 r2 where p: "plan_ln_hold e Ln_escrow (o_id r) (o_customer r) (compute_escrow_sat n)
        (escrow_pay_by (o_deadline r) (now_sec w))
        (escrow_hold_until (escrow_pay_by (o_deadline r) (now_sec w)) (o_deadline r)) w = Some (iv, w1)"
    and u: "update_order (o_id r) (\<lambda>r. r\<lparr>o_payout_sat := Some n, o_escrow_hash := Some (h_hash iv)\<rparr>) w1
        = Some (r2, w')"
    by (auto simp: approve_def Let_def split: option.splits)
  have "steps_order r w1 w'" by (rule steps_update [OF u]) (simp_all add: hold_plan_ln_ok(2) [OF p] assms(2) payout_marks_def)
  then show ?thesis by (simp add: steps_order_def hold_plan_ln_ok(2) [OF p])
qed

lemma steps_others: "steps_order r w w' \<Longrightarrow> i \<noteq> o_id r \<Longrightarrow> get_order i w' = get_order i w"
  by (simp add: steps_order_def)

end
