(* ===== verification/Ln_Watcher.thy ===== *)
theory Ln_Watcher
  imports Ln_Steps
begin

text \<open>
  The watcher of the Lightning track (\<open>daemon/src/ln/watcher.ts\<close>): once per tick it looks at the clock and the
  block height and starts what is due.  The whole pass is one transaction; \<open>None\<close> is a throw.
\<close>

subsection \<open>The node's health\<close>

definition LND_OK_KEY :: string where "LND_OK_KEY = ''ln.ok_at''"
definition LND_DOWN_KEY :: string where "LND_DOWN_KEY = ''ln.down_alert''"

definition lnd_health :: "env \<Rightarrow> bool \<Rightarrow> 'm db_scheme \<Rightarrow> 'm db_scheme" where
  "lnd_health e ok w =
     (let now = now_sec w in
      if ok then
        (let w1 = kv_set LND_OK_KEY (int_str now) w in
         if js_true_s (kv_get LND_DOWN_KEY w1)
         then notify_operators e (kv_set LND_DOWN_KEY [] w1) else w1)
      else
        (let since = cell_int (kv_get LND_OK_KEY w) (e_started_at e) in
         if now - since < LND_DOWN_ALERT_SEC then w
         else raise_alert e (''ln:lnd-down:'' @ int_str since) Anomaly (Some Track_ln) None
                (kv_set LND_DOWN_KEY (int_str since) w)))"

subsection \<open>Drafts and claims\<close>

definition overdue :: "hold_row \<Rightarrow> 'm db_scheme \<Rightarrow> bool" where
  "overdue iv w \<longleftrightarrow> h_status iv = H_open \<and> of_int (now_sec w) > h_pay_by iv + of_int PAY_BY_SKEW_SEC"

definition watch_draft :: "env \<Rightarrow> settings \<Rightarrow> ln_draft \<Rightarrow> 'm db_scheme \<Rightarrow> 'm db_scheme option" where
  "watch_draft e st draft w =
     (case hold_current Ln_customer_deposit (d_id draft) (d_customer draft) w of
        None \<Rightarrow>
          if now_sec w - d_created_at draft > CUSTOMER_DEPOSIT_PAY_SEC then Some (delete_draft (d_id draft) w)
          else if st_customer_pct st > 0 then map_option snd (plan_customer_deposit e draft (st_customer_pct st) w)
          else insert_order e (d_id draft) (d_customer draft) (d_price draft) (d_deadline draft) None None
                 (delete_draft (d_id draft) w)
      | Some dep \<Rightarrow>
          if overdue dep w then Some (hold_dispose (h_hash dep) Want_cancel (delete_draft (d_id draft) w))
          else Some w)"

definition auto_approve :: "env \<Rightarrow> settings \<Rightarrow> ln_order \<Rightarrow> 'm db_scheme \<Rightarrow> 'm db_scheme option" where
  "auto_approve e st order w =
     (if (st_auto_approve st \<or> o_designated_sponsor order \<noteq> None) \<and> approve_blocker order w = None
      then map_option snd (approve e order w) else Some w)"

definition watch_claimed :: "env \<Rightarrow> settings \<Rightarrow> ln_order \<Rightarrow> 'm db_scheme \<Rightarrow> 'm db_scheme option" where
  "watch_claimed e st order w =
     (if o_pending_close order \<noteq> None then Some w
      else if sponsor_deposit_required order w \<and> \<not> js_true_s (o_sponsor_deposit_hash order) then
        (case sponsor_deposit_of order w of
           None \<Rightarrow> map_option snd (plan_sponsor_deposit e order (st_sponsor_pct st) w)
         | Some dep \<Rightarrow>
             if overdue dep w then map_option snd (revert_claim order w) else auto_approve e st order w)
      else auto_approve e st order w)"

subsection \<open>Deadlines\<close>

definition watch_verified :: "ln_order \<Rightarrow> 'm db_scheme \<Rightarrow> 'm db_scheme option" where
  "watch_verified order w =
     (if o_pending_close order \<noteq> None \<or> \<not> js_true_s (o_escrow_hash order) then Some w
      else (case hold_get (the (o_escrow_hash order)) w of
              Some escrow \<Rightarrow>
                if overdue escrow w then map_option snd (begin_close order CR_cancel_unpaid_escrow w) else Some w
            | None \<Rightarrow> Some w))"

definition close_at :: "ln_order \<Rightarrow> sec" where
  "close_at order =
     (if o_state order = Escrowed then
        (case o_invoice_deadline order of Some d \<Rightarrow> d | None \<Rightarrow> o_deadline order + DEADLINE_GRACE_SEC)
      else if o_state order = Invoiced then o_deadline order + DEADLINE_GRACE_SEC else o_deadline order)"

definition escrow_ending :: "ln_order \<Rightarrow> int option \<Rightarrow> int \<Rightarrow> 'm db_scheme \<Rightarrow> bool" where
  "escrow_ending order height blocks w \<longleftrightarrow>
     js_true_n height \<and> js_true_s (o_escrow_hash order)
     \<and> (case hold_get (the (o_escrow_hash order)) w of
          Some escrow \<Rightarrow> js_true_n (h_htlc_expiry escrow) \<and> the (h_htlc_expiry escrow) - the height \<le> blocks
        | None \<Rightarrow> False)"

definition close_for_escrow_end :: "env \<Rightarrow> ln_order \<Rightarrow> close_reason \<Rightarrow> 'm db_scheme \<Rightarrow> 'm db_scheme option" where
  "close_for_escrow_end e order reason w =
     map_option snd (begin_close order reason
       (raise_alert e (''ln:'' @ o_id order @ '':escrow-ending'') Warn (Some Track_ln) (Some (o_id order)) w))"

definition warmed_up :: "env \<Rightarrow> 'm db_scheme \<Rightarrow> bool" where
  "warmed_up e w \<longleftrightarrow> now_sec w - e_started_at e \<ge> CATCHUP_WARMUP_SEC"

definition expiry_of :: "ln_order \<Rightarrow> close_reason option" where
  "expiry_of order = expiry_reason_for (o_state order) (o_sponsor order \<noteq> None) (o_account_sent_at order \<noteq> None)"

definition watch_expiring :: "env \<Rightarrow> int option \<Rightarrow> ln_order \<Rightarrow> 'm db_scheme \<Rightarrow> 'm db_scheme option" where
  "watch_expiring e height order w =
     (if o_pending_close order \<noteq> None then Some w
      else (case expiry_of order of
         None \<Rightarrow> Some w
       | Some reason \<Rightarrow>
           if warmed_up e w \<and> now_sec w > close_at order then map_option snd (begin_close order reason w)
           else if escrow_ending order height ESCROW_END_BLOCKS w then close_for_escrow_end e order reason w
           else Some w))"

definition EXPIRABLE :: "order_state list" where
  "EXPIRABLE = [Requested, Claimed, Verified, Escrowed, Invoiced]"

definition expire_orders :: "env \<Rightarrow> int option \<Rightarrow> 'm db_scheme \<Rightarrow> 'm db_scheme option" where
  "expire_orders e height w = for_each (watch_expiring e height) (orders_in_states EXPIRABLE w) w"

definition remitted_alert :: "env \<Rightarrow> ln_order \<Rightarrow> 'm db_scheme \<Rightarrow> 'm db_scheme" where
  "remitted_alert e order w =
     (if js_true_n (o_remitted_at order) \<and> now_sec w - the (o_remitted_at order) > REMITTED_ALERT_SEC
      then raise_alert e (''ln:'' @ o_id order @ '':remitted-stale'') Warn (Some Track_ln) (Some (o_id order)) w
      else w)"

definition watch_remitted :: "env \<Rightarrow> int option \<Rightarrow> ln_order \<Rightarrow> 'm db_scheme \<Rightarrow> 'm db_scheme option" where
  "watch_remitted e height order w =
     (if o_pending_close order \<noteq> None then Some w
      else Some (remitted_alert e order
        (case (if js_true_s (o_escrow_hash order) then hold_get (the (o_escrow_hash order)) w else None) of
           Some escrow \<Rightarrow>
             if h_status escrow = H_accepted \<and> escrow_ending order height SAFETY_SETTLE_BLOCKS w
             then hold_dispose (h_hash escrow) Want_settle w else w
         | None \<Rightarrow> w)))"

definition watch_awaiting :: "env \<Rightarrow> ln_order \<Rightarrow> 'm db_scheme \<Rightarrow> 'm db_scheme option" where
  "watch_awaiting e order w =
     (let since = cell_int (kv_get (payout_expired_at_key (o_id order)) w) (o_updated_at order) in
      if now_sec w - since < PAYOUT_INVOICE_WAIT_ALERT_SEC then Some w
      else Some (raise_alert e (''ln:'' @ o_id order @ '':payout-waiting:'' @ int_str since) Warn
                   (Some Track_ln) (Some (o_id order)) w))"

definition watch_clock :: "env \<Rightarrow> int option \<Rightarrow> 'm db_scheme \<Rightarrow> 'm db_scheme option" where
  "watch_clock e height w =
     (let st = db_settings w in do {
        w1 \<leftarrow> for_each (watch_draft e st) (all_drafts w) w;
        w2 \<leftarrow> for_each (watch_claimed e st) (orders_in_states [Claimed] w1) w1;
        w3 \<leftarrow> for_each watch_verified (orders_in_states [Verified] w2) w2;
        w4 \<leftarrow> expire_orders e height w3;
        w5 \<leftarrow> for_each (watch_remitted e height) (orders_in_states [Remitted] w4) w4;
        for_each (watch_awaiting e) (payouts_awaiting_invoice w5) w5
      })"

text \<open>The height is stored as soon as it is known; the rest is one transaction.\<close>

definition ln_watch :: "env \<Rightarrow> node \<Rightarrow> 'm db_scheme \<Rightarrow> 'm db_scheme \<times> bool" where
  "ln_watch e nd w =
     (let w1 = (case n_height nd of Some h \<Rightarrow> kv_set ''ln.height'' (int_str h) w | None \<Rightarrow> w) in
      tx (\<lambda>w. watch_clock e (n_height nd) (lnd_health e (n_height nd \<noteq> None) w)) w1)"

subsection \<open>Rows read before a loop\<close>

lemma distinct_map_sort: "distinct (map f (sort_key k xs)) = distinct (map f xs)"
  by (simp add: distinct_map)

lemma order_current:
  assumes "ln_winv e w" and "r \<in> set (ln_orders w)"
  shows "get_order (o_id r) w = Some r"
  unfolding get_order_def
  by (rule find_key_distinct) (use assms in \<open>auto simp: ln_winv_def hold_inv_def ln_inv_def\<close>)

lemma orders_in_states_rows:
  assumes "ln_winv e w"
  shows "distinct (map o_id (orders_in_states ss w))"
    and "\<forall>r \<in> set (orders_in_states ss w). get_order (o_id r) w = Some r \<and> o_state r \<in> set ss"
    and "get_order oid w = Some r \<Longrightarrow> o_state r \<in> set ss \<Longrightarrow> r \<in> set (orders_in_states ss w)"
proof -
  have d: "distinct (map o_id (ln_orders w))" using assms by (simp add: ln_winv_def hold_inv_def ln_inv_def)
  show "distinct (map o_id (orders_in_states ss w))"
    unfolding orders_in_states_def distinct_map_sort by (rule distinct_map_filter [OF d])
  show "\<forall>r \<in> set (orders_in_states ss w). get_order (o_id r) w = Some r \<and> o_state r \<in> set ss"
    using order_current [OF assms] by (simp add: orders_in_states_def)
  show "get_order oid w = Some r \<Longrightarrow> o_state r \<in> set ss \<Longrightarrow> r \<in> set (orders_in_states ss w)"
    by (auto simp: orders_in_states_def dest: get_order_Some)
qed

definition current_order :: "ln_order \<Rightarrow> 'm db_scheme \<Rightarrow> bool" where
  "current_order r w \<longleftrightarrow> get_order (o_id r) w = Some r"

lemma current_steps:
  "\<lbrakk>steps_order r w w'; o_id r' \<noteq> o_id r; current_order r' w\<rbrakk> \<Longrightarrow> current_order r' w'"
  by (simp add: current_order_def steps_others)

lemma current_quiet: "quiet w w' \<Longrightarrow> current_order r w \<Longrightarrow> current_order r w'"
  by (simp add: current_order_def get_order_quiet)

subsection \<open>What each body keeps\<close>

lemma quiet_lnd_health [simp]: "quiet w (lnd_health e ok w)"
proof -
  have "quiet w (notify_operators e (kv_set k v (kv_set k' v' w)))" "quiet w (kv_set k v w)"
    "quiet w (raise_alert e d l t oid (kv_set k v w))" for k v k' v' d l t oid
    using quiet_trans [OF quiet_kv_set quiet_trans [OF quiet_kv_set quiet_notify_operators]]
      quiet_trans [OF quiet_kv_set quiet_raise_alert] by (simp_all add: quiet_trans [OF quiet_kv_set])
  then show ?thesis by (simp add: lnd_health_def Let_def)
qed

lemma watch_draft_ok:
  assumes "watch_draft e st d w = Some w'"
  shows "ln_ok e w w'"
proof -
  let ?w0 = "delete_draft (d_id d) w"
  have gone: "get_draft (d_id d) ?w0 = None" by (auto simp: get_draft_def delete_draft_def find_None_key)
  have ins: "insert_order e (d_id d) c p dl None None ?w0 = Some w' \<Longrightarrow> ln_ok e w w'" for c p dl
    using ln_ok_trans [OF ln_ok_delete_draft insert_order_ok [OF _ gone]] by blast
  have dis: "ln_ok e w (hold_dispose h a ?w0)" for h a
    by (rule ln_ok_quiet_after [OF ln_ok_delete_draft quiet_hold_dispose])
  show ?thesis
    using assms ins dis plan_customer_deposit_ok
    by (auto simp: watch_draft_def split: option.splits if_splits)
qed

lemma begin_close_current:
  assumes "begin_close r c w = Some (b, w')" and "current_order r w"
  shows "ln_ok e w w' \<and> steps_order r w w'"
  using begin_close_ok [OF assms(1)] steps_begin_close [OF assms(1)] assms(2) by (simp add: current_order_def)

lemma auto_approve_current:
  assumes "auto_approve e st r w = Some w'" and "current_order r w"
  shows "ln_ok e w w' \<and> steps_order r w w'"
  using assms approve_ok steps_approve steps_refl
  by (fastforce simp: auto_approve_def current_order_def split: if_splits)

lemma watch_claimed_cases:
  assumes "watch_claimed e st r w = Some w'"
  shows "w' = w \<or> (\<exists>b. plan_sponsor_deposit e r (st_sponsor_pct st) w = Some (b, w'))
    \<or> (\<exists>x. revert_claim r w = Some (x, w') \<and> o_pending_close r = None) \<or> auto_approve e st r w = Some w'"
proof (cases "o_pending_close r = None \<and> sponsor_deposit_required r w \<and> \<not> js_true_s (o_sponsor_deposit_hash r)")
  case True
  then show ?thesis
    using assms by (cases "sponsor_deposit_of r w") (auto simp: watch_claimed_def split: if_splits)
next
  case False
  then show ?thesis using assms by (simp add: watch_claimed_def split: if_splits)
qed

lemma watch_claimed_current:
  assumes "watch_claimed e st r w = Some w'" and "current_order r w" and "o_state r = Claimed"
  shows "ln_ok e w w' \<and> steps_order r w w'"
proof -
  have g: "get_order (o_id r) w = Some r" using assms(2) by (simp add: current_order_def)
  consider "w' = w" | b where "plan_sponsor_deposit e r (st_sponsor_pct st) w = Some (b, w')"
    | x where "revert_claim r w = Some (x, w')" "o_pending_close r = None" | "auto_approve e st r w = Some w'"
    using watch_claimed_cases [OF assms(1)] by blast
  then show ?thesis
  proof cases
    case 1
    then show ?thesis using steps_refl [OF g] by simp
  next
    case 2
    then show ?thesis using plan_sponsor_deposit_ok(1,2) [OF 2] g by (simp add: steps_order_def)
  next
    case 3
    then show ?thesis using revert_claim_ok [OF 3(1) g assms(3)] steps_revert [OF 3(1) g] by simp
  next
    case 4
    then show ?thesis by (rule auto_approve_current [OF _ assms(2)])
  qed
qed

lemma watch_verified_current:
  assumes "watch_verified r w = Some w'" and "current_order r w"
  shows "ln_ok e w w' \<and> steps_order r w w'"
proof -
  have "w' = w \<or> (\<exists>b. begin_close r CR_cancel_unpaid_escrow w = Some (b, w'))"
    using assms(1) by (auto simp: watch_verified_def split: option.splits if_splits)
  then show ?thesis using begin_close_current [OF _ assms(2)] steps_refl assms(2) by (auto simp: current_order_def)
qed

lemma watch_expiring_cases:
  assumes "watch_expiring e h r w = Some w'"
  shows "w' = w \<or> (\<exists>c b v. quiet w v \<and> expiry_of r = Some c \<and> begin_close r c v = Some (b, w'))"
  using assms quiet_refl quiet_raise_alert
  by (fastforce simp: watch_expiring_def close_for_escrow_end_def split: option.splits if_splits)

lemma watch_expiring_current:
  assumes "watch_expiring e h r w = Some w'" and "current_order r w"
  shows "ln_ok e w w' \<and> steps_order r w w'"
  using watch_expiring_cases [OF assms(1)]
proof (elim disjE exE conjE)
  fix c b v
  assume q: "quiet w v" and b: "begin_close r c v = Some (b, w')"
  from begin_close_current [OF b current_quiet [OF q assms(2)]] show ?thesis
    using ln_ok_quiet_before [OF q] steps_quiet_before [OF q] by blast
qed (use assms(2) in \<open>simp add: current_order_def steps_refl\<close>)

lemma watch_remitted_quiet: "watch_remitted e h r w = Some w' \<Longrightarrow> quiet w w'"
proof -
  have a: "quiet w v \<Longrightarrow> quiet w (remitted_alert e r v)" for v :: "'a db_scheme"
    by (auto simp: remitted_alert_def intro: quiet_trans)
  show "watch_remitted e h r w = Some w' \<Longrightarrow> quiet w w'"
    by (auto simp: watch_remitted_def intro!: a split: option.splits if_splits)
qed

lemma watch_awaiting_quiet: "watch_awaiting e r w = Some w' \<Longrightarrow> quiet w w'"
  by (auto simp: watch_awaiting_def Let_def split: if_splits)

text \<open>The loops over orders all meet the contract of \<open>row_loop\<close>.\<close>

definition claimed_row :: "ln_order \<Rightarrow> 'm db_scheme \<Rightarrow> bool" where
  "claimed_row r w \<longleftrightarrow> current_order r w \<and> o_state r = Claimed"

lemma claimed_row_others:
  assumes "watch_claimed e st r w = Some w'" and "claimed_row r w" and "o_id r' \<noteq> o_id r" and "claimed_row r' w"
  shows "claimed_row r' w'"
  using watch_claimed_current [OF assms(1)] assms(2-4) by (auto simp: claimed_row_def intro: current_steps)

interpretation claimed_loop: row_loop "watch_claimed e st" o_id claimed_row "ln_ok e" for e st
proof unfold_locales
  show "ln_ok e w w'" if "claimed_row r w" "watch_claimed e st r w = Some w'" for r w w'
    using watch_claimed_current [OF that(2)] that(1) by (simp add: claimed_row_def)
qed (simp, blast intro: ln_ok_trans, blast intro: claimed_row_others)

interpretation verified_loop: row_loop watch_verified o_id current_order "ln_ok e" for e
proof unfold_locales
  show "ln_ok e w w'" if "current_order r w" "watch_verified r w = Some w'" for r w w'
    using watch_verified_current [OF that(2,1)] by blast
  show "current_order r' w'"
    if "current_order r w" "watch_verified r w = Some w'" "o_id r' \<noteq> o_id r" "current_order r' w" for r w w' r'
    using watch_verified_current [OF that(2,1)] that(3,4) by (blast intro: current_steps)
qed (simp, blast intro: ln_ok_trans)

lemma expiring_others:
  assumes "current_order r w" and "watch_expiring e h r w = Some w'" and "o_id r' \<noteq> o_id r" and "current_order r' w"
  shows "current_order r' w'"
  using watch_expiring_current [OF assms(2,1)] assms(3,4) by (blast intro: current_steps)

interpretation expiring_loop: row_loop "watch_expiring e h" o_id current_order "ln_ok e" for e h
proof unfold_locales
  show "ln_ok e w w'" if "current_order r w" "watch_expiring e h r w = Some w'" for r w w'
    using watch_expiring_current [OF that(2,1)] by blast
qed (simp, blast intro: ln_ok_trans, rule expiring_others)

lemma for_each_ok:
  assumes "\<And>r v v'. f r v = Some v' \<Longrightarrow> ln_ok e v v'" and "for_each f rs w = Some w'"
  shows "ln_ok e w w'"
  by (rule for_each_invariant [where I = "ln_ok e w" and f = f, OF _ _ assms(2)])
    (use assms(1) ln_ok_trans in blast, simp)

lemma expire_orders_ok:
  assumes "expire_orders e h w = Some w'"
  shows "ln_ok e w w'"
proof (rule ln_okI)
  assume inv: "ln_winv e w"
  show "ln_ok e w w'"
    using expiring_loop.loop_ok [OF orders_in_states_rows(1) [OF inv] _ assms [unfolded expire_orders_def]]
      orders_in_states_rows(2) [OF inv] by (simp add: current_order_def)
qed

lemma claimed_pass_ok:
  assumes "for_each (watch_claimed e st) (orders_in_states [Claimed] w) w = Some w'"
  shows "ln_ok e w w'"
proof (rule ln_okI)
  assume inv: "ln_winv e w"
  show "ln_ok e w w'"
    by (rule claimed_loop.loop_ok [OF orders_in_states_rows(1) [OF inv] _ assms])
      (use orders_in_states_rows(2) [OF inv, of "[Claimed]"] in \<open>simp add: current_order_def claimed_row_def\<close>)
qed

lemma verified_pass_ok:
  assumes "for_each watch_verified (orders_in_states [Verified] w) w = Some w'"
  shows "ln_ok e w w'"
proof (rule ln_okI)
  assume inv: "ln_winv e w"
  show "ln_ok e w w'"
    using verified_loop.loop_ok [OF orders_in_states_rows(1) [OF inv] _ assms]
      orders_in_states_rows(2) [OF inv] by (simp add: current_order_def)
qed

lemma watch_clock_ok:
  assumes "watch_clock e h w = Some w'"
  shows "ln_ok e w w'"
proof -
  from assms obtain w1 w2 w3 w4 w5 where
    p: "for_each (watch_draft e (db_settings w)) (all_drafts w) w = Some w1"
      "for_each (watch_claimed e (db_settings w)) (orders_in_states [Claimed] w1) w1 = Some w2"
      "for_each watch_verified (orders_in_states [Verified] w2) w2 = Some w3"
      "expire_orders e h w3 = Some w4"
      "for_each (watch_remitted e h) (orders_in_states [Remitted] w4) w4 = Some w5"
      "for_each (watch_awaiting e) (payouts_awaiting_invoice w5) w5 = Some w'"
    unfolding watch_clock_def Let_def bind_Some_iff by blast
  have "ln_ok e w w1" using p(1) by (rule for_each_ok [rotated]) (rule watch_draft_ok)
  moreover have "ln_ok e w1 w2" using p(2) by (rule claimed_pass_ok)
  moreover have "ln_ok e w2 w3" using p(3) by (rule verified_pass_ok)
  moreover have "ln_ok e w3 w4" using p(4) by (rule expire_orders_ok)
  moreover have "ln_ok e w4 w5"
    using p(5) by (rule for_each_ok [rotated]) (rule ln_ok_quiet, rule watch_remitted_quiet)
  moreover have "ln_ok e w5 w'"
    using p(6) by (rule for_each_ok [rotated]) (rule ln_ok_quiet, rule watch_awaiting_quiet)
  ultimately show ?thesis by (meson ln_ok_trans)
qed

lemma ln_watch_ok: "ln_ok e w (fst (ln_watch e nd w))"
proof -
  define w1 where "w1 = (case n_height nd of Some h \<Rightarrow> kv_set ''ln.height'' (int_str h) w | None \<Rightarrow> w)"
  have q: "quiet w w1" by (simp add: w1_def split: option.split)
  have "ln_ok e w1 w2" if "watch_clock e (n_height nd) (lnd_health e (n_height nd \<noteq> None) w1) = Some w2" for w2
    using ln_ok_quiet_before [OF quiet_lnd_health watch_clock_ok [OF that]] .
  then have "ln_ok e w1 (fst (ln_watch e nd w))"
    by (simp add: ln_watch_def w1_def [symmetric] tx_def split: option.split)
  with q show ?thesis by (rule ln_ok_quiet_before)
qed

subsection \<open>Every overdue order is closed\<close>

lemma update_order_pending:
  assumes "update_order oid patch w = Some (r', w')"
  shows "q_now w' = q_now w" and "list_ex (pending_with d) (q_rows w) \<Longrightarrow> list_ex (pending_with d) (q_rows w')"
proof -
  obtain rs where w': "w' = request_projection oid (w\<lparr>ln_orders := rs\<rparr>)"
    using assms by (auto simp: update_order_def split: option.splits)
  have q: "quiet (w\<lparr>ln_orders := rs\<rparr>) w'" unfolding w' by simp
  show "q_now w' = q_now w" using q by (simp add: quiet_def)
  show "list_ex (pending_with d) (q_rows w) \<Longrightarrow> list_ex (pending_with d) (q_rows w')" using q by (simp add: quiet_def)
qed

lemma begin_close_pending:
  assumes "begin_close r c w = Some (b, w')"
  shows "q_now w' = q_now w \<and> (list_ex (pending_with d) (q_rows w) \<longrightarrow> list_ex (pending_with d) (q_rows w'))"
proof (cases "w' = w")
  case False
  with assms obtain r1 w1 where u: "update_order (o_id r) (\<lambda>r. r\<lparr>o_pending_close := Some c\<rparr>) w = Some (r1, w1)"
    and q: "quiet w1 w'" by (auto simp: begin_close_def split: if_splits)
  from update_order_pending [OF u] q show ?thesis by (simp add: quiet_def)
qed simp

lemma watch_expiring_pending:
  assumes "watch_expiring e h r w = Some w'"
  shows "q_now w' = q_now w \<and> (list_ex (pending_with d) (q_rows w) \<longrightarrow> list_ex (pending_with d) (q_rows w'))"
  using watch_expiring_cases [OF assms]
proof (elim disjE exE conjE)
  fix c b v
  assume "quiet w v" and "begin_close r c v = Some (b, w')"
  then show ?thesis using begin_close_pending [of r c v b w' d] by (simp add: quiet_def)
qed simp

text \<open>What the pass promises of an order \<open>r\<close> it read.\<close>

definition closing_begun :: "env \<Rightarrow> ln_order \<Rightarrow> 'm db_scheme \<Rightarrow> bool" where
  "closing_begun e r w \<longleftrightarrow>
     (warmed_up e w \<and> now_sec w > close_at r \<longrightarrow>
       (\<exists>r'. get_order (o_id r) w = Some r' \<and> o_pending_close r' \<noteq> None)
       \<and> (o_pending_close r = None \<longrightarrow> list_ex (pending_with (''ln.close:'' @ o_id r)) (q_rows w)))"

definition expirable_row :: "ln_order \<Rightarrow> 'm db_scheme \<Rightarrow> bool" where
  "expirable_row r w \<longleftrightarrow> current_order r w \<and> o_state r \<in> set EXPIRABLE"

lemma expirable_reason:
  assumes "o_state r \<in> set EXPIRABLE"
  shows "\<exists>c. expiry_of r = Some c \<and> can_transition (o_state r) (cl_terminal (close_rules c))
    \<and> \<not> ln_terminal (o_state r)"
proof -
  obtain c where c: "expiry_of r = Some c" using assms by (auto simp: EXPIRABLE_def expiry_of_def)
  with assms show ?thesis using expiry_reason_legal by (auto simp: expiry_of_def EXPIRABLE_def)
qed

lemma expirable_close:
  assumes "expirable_row r w" and "quiet w v" and "expiry_of r = Some c"
  shows "\<exists>b w'. begin_close r c v = Some (b, w')"
proof -
  have "get_order (o_id r) v = Some r" using assms by (simp add: expirable_row_def current_order_def get_order_quiet)
  then show ?thesis
    by (rule begin_close_Some) (use assms expirable_reason [of r] in \<open>auto simp: expirable_row_def\<close>)
qed

lemma watch_expiring_total:
  assumes "expirable_row r w"
  shows "\<exists>w'. watch_expiring e h r w = Some w'"
proof (cases "expiry_of r")
  case (Some c)
  have "\<exists>b w'. begin_close r c (raise_alert e d l t oid w) = Some (b, w')" for d l t oid
    by (rule expirable_close [OF assms _ Some]) simp
  moreover have "\<exists>b w'. begin_close r c w = Some (b, w')" by (rule expirable_close [OF assms _ Some]) simp
  ultimately show ?thesis by (fastforce simp: watch_expiring_def close_for_escrow_end_def Some)
qed (simp add: watch_expiring_def)

lemma watch_expiring_begun:
  assumes cur: "expirable_row r w" and run: "watch_expiring e h r w = Some w'"
  shows "closing_begun e r w'"
proof -
  have now: "now_sec w' = now_sec w" using watch_expiring_pending [OF run] by (simp add: now_sec_def)
  have g: "get_order (o_id r) w = Some r" using cur by (simp add: expirable_row_def current_order_def)
  show ?thesis
  proof (cases "o_pending_close r = None \<and> warmed_up e w \<and> now_sec w > close_at r")
    case True
    from cur expirable_reason obtain c where c: "expiry_of r = Some c" "\<not> ln_terminal (o_state r)"
      by (auto simp: expirable_row_def)
    with True run obtain b where b: "begin_close r c w = Some (b, w')" by (auto simp: watch_expiring_def)
    from begin_close_puts [OF b g] True c show ?thesis
      by (auto simp: closing_begun_def puts_def split: if_splits)
  next
    case False
    then show ?thesis using run g now by (auto simp: closing_begun_def watch_expiring_def warmed_up_def)
  qed
qed

interpretation expiring_post: row_loop_post "watch_expiring e h" o_id expirable_row "ln_ok e" "closing_begun e" for e h
proof unfold_locales
  show "ln_ok e w w'" if "expirable_row r w" "watch_expiring e h r w = Some w'" for r w w'
    using watch_expiring_current [OF that(2)] that(1) by (auto simp: expirable_row_def)
  show "expirable_row r' w'" if "expirable_row r w" "watch_expiring e h r w = Some w'" "o_id r' \<noteq> o_id r"
    "expirable_row r' w" for r w w' r'
    using that by (auto simp: expirable_row_def intro: expiring_others)
  show "closing_begun e r' w'" if "expirable_row r w" "watch_expiring e h r w = Some w'" "o_id r' \<noteq> o_id r"
    "closing_begun e r' w" for r w w' r'
  proof -
    have "steps_order r w w'" using watch_expiring_current [OF that(2)] that(1) by (auto simp: expirable_row_def)
    then have "get_order (o_id r') w' = get_order (o_id r') w" using that(3) by (rule steps_others)
    then show ?thesis using that(4) watch_expiring_pending [OF that(2)]
      by (auto simp: closing_begun_def warmed_up_def now_sec_def)
  qed
qed (simp, blast intro: ln_ok_trans, rule watch_expiring_total, assumption, rule watch_expiring_begun)

subsection \<open>Properties\<close>

text \<open>C25. No deadline is missed once the daemon has caught up: this pass closes nothing by the clock in the first two minutes
  after its start (\<open>warmed_up\<close>, \<open>CATCHUP_WARMUP_SEC\<close>), so that stored requests come first.  After those two minutes, on
  well-formed tables, the watcher's expiry pass always completes, and after it every order that was open (requested,
  claimed, verified, escrowed or invoiced) and whose clock has run out has a close in progress; if none was in progress
  before, its closing effect is in the queue.\<close>

theorem overdue_orders_close:
  assumes "ln_winv e w" and "warmed_up e w"
  shows "\<exists>w'. expire_orders e height w = Some w'
    \<and> (\<forall>oid r. get_order oid w = Some r \<longrightarrow> o_state r \<in> {Requested, Claimed, Verified, Escrowed, Invoiced}
         \<longrightarrow> now_sec w > close_at r
         \<longrightarrow> (\<exists>r'. get_order oid w' = Some r' \<and> o_pending_close r' \<noteq> None)
           \<and> (o_pending_close r = None \<longrightarrow> list_ex (pending_with (''ln.close:'' @ oid)) (q_rows w')))"
proof -
  let ?rs = "orders_in_states EXPIRABLE w"
  have rows: "\<forall>r \<in> set ?rs. expirable_row r w"
    using orders_in_states_rows(2) [OF assms(1), of EXPIRABLE] by (simp add: expirable_row_def current_order_def)
  obtain w' where w': "expire_orders e height w = Some w'" "\<forall>r \<in> set ?rs. closing_begun e r w'"
    using expiring_post.loop_post [OF orders_in_states_rows(1) [OF assms(1)] rows, of "{}" e height]
    by (auto simp: expire_orders_def)
  have now: "q_now w' = q_now w"
    by (rule for_each_invariant [where I = "\<lambda>v. q_now v = q_now w", OF _ _ w'(1) [unfolded expire_orders_def]])
      (use watch_expiring_pending in \<open>force\<close>, simp)
  show ?thesis
  proof (intro exI [of _ w'] conjI allI impI w'(1))
    fix oid r
    assume r: "get_order oid w = Some r" "o_state r \<in> {Requested, Claimed, Verified, Escrowed, Invoiced}"
      and late: "now_sec w > close_at r"
    have "r \<in> set ?rs" by (rule orders_in_states_rows(3) [OF assms(1) r(1)]) (use r(2) in \<open>simp add: EXPIRABLE_def\<close>)
    with w'(2) have "closing_begun e r w'" by blast
    with late now assms(2) get_order_Some [OF r(1)] show "\<exists>r'. get_order oid w' = Some r' \<and> o_pending_close r' \<noteq> None"
      and "o_pending_close r = None \<Longrightarrow> list_ex (pending_with (''ln.close:'' @ oid)) (q_rows w')"
      by (auto simp: closing_begun_def warmed_up_def now_sec_def)
  qed
qed

definition toy_late_db :: db where "toy_late_db = toy_db\<lparr>q_now := 200000000\<rparr>"

lemma toy_late_reads:
  "get_order ''ord1'' toy_late_db = Some toy_order" "now_sec toy_late_db = 200000" "warmed_up toy_env toy_late_db"
  by (simp_all add: toy_late_db_def toy_db_def get_order_def toy_order_def new_order_def warmed_up_def now_sec_def
      toy_env_def CATCHUP_WARMUP_SEC_def)

theorem overdue_orders_close_witness:
  "\<exists>w' r'. expire_orders toy_env None toy_late_db = Some w' \<and> get_order ''ord1'' w' = Some r'
     \<and> o_pending_close r' \<noteq> None \<and> list_ex (pending_with ''ln.close:ord1'') (q_rows w')"
proof -
  have inv: "ln_winv toy_env toy_late_db"
    using toy_winv by (simp add: ln_winv_def hold_inv_def q_wf_def hold_wf_def ln_inv_def toy_late_db_def)
  have "now_sec toy_late_db > close_at toy_order" "o_state toy_order = Requested" "o_pending_close toy_order = None"
    by (simp_all add: toy_late_reads close_at_def toy_sel)
  with overdue_orders_close [OF inv toy_late_reads(3), of None] toy_late_reads(1) show ?thesis by fastforce
qed

end
