(* ===== verification/Settings.thy ===== *)
theory Settings
  imports Daemon_Data
begin

text \<open>
  The operator's settings (\<open>shared/src/admin-protocol.ts\<close>, \<open>daemon/src/admin/settings.ts\<close>): applying a patch
  received as JSON, all or nothing, and storing and loading the result.  Error texts are named in ASCII.
\<close>

definition DEFAULT_SETTINGS :: settings where
  "DEFAULT_SETTINGS = \<lparr>st_auto_approve = True, st_customer_pct = 0, st_sponsor_pct = 0, st_accept_onchain = False\<rparr>"

definition MAX_DEPOSIT_PCT :: rat where "MAX_DEPOSIT_PCT = 20"

text \<open>\<open>Math.round(v * 100) / 100\<close>.\<close>

definition round_pct :: "rat \<Rightarrow> rat" where
  "round_pct v = fl (of_int (js_round (fl (v * 100))) / 100)"

text \<open>\<open>typeof v === 'number' && Number.isFinite(v) && 0 <= v <= MAX_DEPOSIT_PCT\<close>.\<close>

definition pct_value :: "json \<Rightarrow> rat option" where
  "pct_value v = (case v of
       J_num (Fin q) \<Rightarrow> if q < 0 \<or> q > MAX_DEPOSIT_PCT then None else Some q
     | _ \<Rightarrow> None)"

definition set_ln :: "settings \<Rightarrow> string \<Rightarrow> json \<Rightarrow> string + settings" where
  "set_ln target key v =
     (if key = ''autoApprove'' then
        (case v of J_bool b \<Rightarrow> Inr (target\<lparr>st_auto_approve := b\<rparr>) | _ \<Rightarrow> Inl ''ln.autoApprove'')
      else if key = ''customerDepositPct'' \<or> key = ''sponsorDepositPct'' then
        (case pct_value v of
           None \<Rightarrow> Inl (''ln.'' @ key)
         | Some q \<Rightarrow>
             if key = ''customerDepositPct'' then Inr (target\<lparr>st_customer_pct := round_pct q\<rparr>)
             else Inr (target\<lparr>st_sponsor_pct := round_pct q\<rparr>))
      else Inl (''unknown setting: ln.'' @ key))"

definition set_onchain :: "settings \<Rightarrow> string \<Rightarrow> json \<Rightarrow> string + settings" where
  "set_onchain target key v =
     (if key \<noteq> ''acceptNewOrders'' then Inl (''unknown setting: onchain.'' @ key)
      else (case v of J_bool b \<Rightarrow> Inr (target\<lparr>st_accept_onchain := b\<rparr>) | _ \<Rightarrow> Inl ''onchain.acceptNewOrders''))"

text \<open>
  \<open>Object.entries\<close> of a parsed object: each key once, in order of first appearance, with its last value.
  (JavaScript puts integer keys first; no setting has an integer key, so a patch with one is refused
  in any order.)
\<close>

definition js_entries :: "(string \<times> json) list \<Rightarrow> (string \<times> json) list" where
  "js_entries kvs = map (\<lambda>k. (k, the (map_of (rev kvs) k))) (set_order (map fst kvs))"

fun set_all :: "(settings \<Rightarrow> string \<Rightarrow> json \<Rightarrow> string + settings) \<Rightarrow> (string \<times> json) list \<Rightarrow> settings \<Rightarrow> string + settings" where
  "set_all set_key [] next_s = Inr next_s"
| "set_all set_key ((k, v) # kvs) next_s =
     (case set_key next_s k v of Inl problem \<Rightarrow> Inl problem | Inr s \<Rightarrow> set_all set_key kvs s)"

fun set_sections :: "(string \<times> json) list \<Rightarrow> settings \<Rightarrow> string + settings" where
  "set_sections [] next_s = Inr next_s"
| "set_sections ((section, v) # rest) next_s =
     (if section \<noteq> ''ln'' \<and> section \<noteq> ''onchain'' then Inl (''unknown setting: '' @ section)
      else (case v of
              J_obj kvs \<Rightarrow>
                (case set_all (if section = ''ln'' then set_ln else set_onchain) (js_entries kvs) next_s of
                   Inl problem \<Rightarrow> Inl problem
                 | Inr s \<Rightarrow> set_sections rest s)
            | _ \<Rightarrow> Inl (section @ '' must be an object'')))"

definition apply_settings_patch :: "settings \<Rightarrow> json option \<Rightarrow> string + settings" where
  "apply_settings_patch current patch =
     (case patch of
        Some (J_obj kvs) \<Rightarrow> set_sections (js_entries kvs) current
      | _ \<Rightarrow> Inl ''patch must be an object'')"

text \<open>The JSON of a settings object.\<close>

definition settings_json :: "settings \<Rightarrow> json" where
  "settings_json s = J_obj
     [(''ln'', J_obj [(''autoApprove'', J_bool (st_auto_approve s)),
                      (''customerDepositPct'', J_num (Fin (st_customer_pct s))),
                      (''sponsorDepositPct'', J_num (Fin (st_sponsor_pct s)))]),
      (''onchain'', J_obj [(''acceptNewOrders'', J_bool (st_accept_onchain s))])]"

text \<open>\<open>loadSettings\<close> over the parsed cell; a cell that is absent or does not parse is \<open>None\<close>.\<close>

definition load_settings :: "json option \<Rightarrow> settings" where
  "load_settings cell =
     (case cell of
        None \<Rightarrow> DEFAULT_SETTINGS
      | Some stored \<Rightarrow>
          (case apply_settings_patch DEFAULT_SETTINGS (Some stored) of
             Inr s \<Rightarrow> s | Inl _ \<Rightarrow> DEFAULT_SETTINGS))"

subsection \<open>The values a deposit percentage can take\<close>

definition pct_ok :: "rat \<Rightarrow> bool" where
  "pct_ok q \<longleftrightarrow> (\<exists>k \<in> {0..2000}. q = fl (of_int k / 100))"

definition settings_ok :: "settings \<Rightarrow> bool" where
  "settings_ok s \<longleftrightarrow> pct_ok (st_customer_pct s) \<and> pct_ok (st_sponsor_pct s)"

lemma js_round_near:
  assumes "\<bar>x - of_int k\<bar> < 1 / 2"
  shows "js_round x = k"
proof -
  from assms [unfolded abs_less_iff] have "of_int k \<le> x + 1 / 2" and "x + 1 / 2 < of_int k + 1"
    by linarith+
  then show ?thesis unfolding js_round_def by (simp add: floor_eq_iff)
qed

lemma fl_near:
  assumes "0 \<le> x" and "x \<le> N"
  shows "\<bar>fl x - x\<bar> \<le> N / 2 ^ 53"
proof -
  have "\<bar>x\<bar> / 2 ^ 53 \<le> N / 2 ^ 53" using assms by (intro divide_right_mono) auto
  with fl_error [of x] show ?thesis by (rule order_trans)
qed

text \<open>Hundredths survive the trip through binary64.\<close>

lemma round_hundredth:
  assumes "0 \<le> k" and "k \<le> 2000"
  shows "js_round (fl (fl (of_int k / 100) * 100)) = k"
proof -
  let ?q = "of_int k / 100 :: rat" and ?x = "fl (of_int k / 100) * 100 :: rat"
  have q: "0 \<le> ?q" "?q \<le> 20" using assms by (simp_all add: divide_le_eq of_int_le_numeral_iff)
  have e1: "\<bar>fl ?q - ?q\<bar> \<le> 20 / 2 ^ 53" by (rule fl_near [OF q])
  have "?x - of_int k = (fl ?q - ?q) * 100" by simp
  then have "\<bar>?x - of_int k\<bar> = \<bar>fl ?q - ?q\<bar> * 100" by (simp only: abs_mult abs_numeral)
  with e1 have d: "\<bar>?x - of_int k\<bar> \<le> 2000 / 2 ^ 53" by simp
  have k: "(of_int k :: rat) \<le> 2000" "(0 :: rat) \<le> of_int k" using assms by (simp_all add: of_int_le_numeral_iff)
  have ub: "\<bar>?x\<bar> \<le> 2001"
  proof -
    have "\<bar>?x\<bar> \<le> \<bar>?x - of_int k\<bar> + \<bar>of_int k\<bar>" by linarith
    also have "\<dots> \<le> 2000 / 2 ^ 53 + 2000" using d k by linarith
    finally show ?thesis by simp
  qed
  have "\<bar>?x\<bar> / 2 ^ 53 \<le> 2001 / 2 ^ 53" using ub by (intro divide_right_mono) auto
  with fl_error [of ?x] have "\<bar>fl ?x - ?x\<bar> \<le> 2001 / 2 ^ 53" by (rule order_trans)
  with d have "\<bar>fl ?x - of_int k\<bar> \<le> 2001 / 2 ^ 53 + 2000 / 2 ^ 53" by linarith
  moreover have "(2001 / 2 ^ 53 + 2000 / 2 ^ 53 :: rat) < 1 / 2" by simp
  ultimately have "\<bar>fl ?x - of_int k\<bar> < 1 / 2" by (rule le_less_trans)
  then show ?thesis by (rule js_round_near)
qed

lemma round_pct_id: "pct_ok q \<Longrightarrow> round_pct q = q"
  by (auto simp: pct_ok_def round_pct_def round_hundredth)

lemma fl_between:
  assumes "0 \<le> x" and "x \<le> of_int N" and "N < 2 ^ 53"
  shows "0 \<le> fl x" and "fl x \<le> of_int N"
proof -
  have "x - fl x \<le> x / 2 ^ 53"
    using order_trans [OF abs_ge_minus_self fl_error [of x]] assms(1) by simp
  moreover have "x / 2 ^ 53 \<le> x" using assms(1) by (simp add: divide_le_eq)
  ultimately show "0 \<le> fl x" by linarith
  show "fl x \<le> of_int N"
  proof (cases "x = 0")
    case True
    then show ?thesis using assms(2) by (simp add: fl_def)
  next
    case False
    have "(of_int N :: rat) < of_int (2 ^ 53)" using assms(3) unfolding of_int_less_iff .
    then have "x < 2 ^ 53" using assms(2) by simp
    with False assms(1,2) show ?thesis by (intro fl_le_int ilog2_le) auto
  qed
qed

lemma pct_ok_bounds:
  assumes "pct_ok q"
  shows "0 \<le> q" and "q \<le> 20"
proof -
  obtain k where k: "0 \<le> k" "k \<le> 2000" "q = fl (of_int k / 100)" using assms by (auto simp: pct_ok_def)
  have "0 \<le> (of_int k / 100 :: rat)" and "of_int k / 100 \<le> (of_int 20 :: rat)"
    using k by (simp_all add: divide_le_eq of_int_le_numeral_iff)
  from fl_between [OF this] k(3) show "0 \<le> q" and "q \<le> 20" by simp_all
qed

lemma round_pct_ok:
  assumes "0 \<le> q" and "q \<le> MAX_DEPOSIT_PCT"
  shows "pct_ok (round_pct q)"
proof -
  have "0 \<le> q * 100" and "q * 100 \<le> of_int 2000" using assms by (simp_all add: MAX_DEPOSIT_PCT_def)
  from fl_between [OF this] have b: "0 \<le> fl (q * 100)" "fl (q * 100) \<le> 2000" by simp_all
  have "0 \<le> js_round (fl (q * 100))" "js_round (fl (q * 100)) \<le> 2000"
    using b unfolding js_round_def by (simp_all add: le_floor_iff floor_le_iff)
  then show ?thesis unfolding round_pct_def pct_ok_def by auto
qed

subsection \<open>What a patch asks for\<close>

text \<open>The known settings and the values they take.\<close>

definition setting_valid :: "string \<Rightarrow> string \<Rightarrow> json \<Rightarrow> bool" where
  "setting_valid section key v \<longleftrightarrow>
     section = ''ln'' \<and> key = ''autoApprove'' \<and> (\<exists>b. v = J_bool b)
   \<or> section = ''ln'' \<and> key \<in> {''customerDepositPct'', ''sponsorDepositPct''}
       \<and> (\<exists>q. v = J_num (Fin q) \<and> 0 \<le> q \<and> q \<le> MAX_DEPOSIT_PCT)
   \<or> section = ''onchain'' \<and> key = ''acceptNewOrders'' \<and> (\<exists>b. v = J_bool b)"

text \<open>A patch is valid when it is an object of known sections, each an object of known settings with valid values.\<close>

definition section_valid :: "string \<Rightarrow> json \<Rightarrow> bool" where
  "section_valid section v \<longleftrightarrow> section \<in> {''ln'', ''onchain''} \<and> is_object v
     \<and> (\<forall>key x. jfield key v = Some x \<longrightarrow> setting_valid section key x)"

definition patch_valid :: "json option \<Rightarrow> bool" where
  "patch_valid patch \<longleftrightarrow>
     (\<exists>v. patch = Some v \<and> is_object v \<and> (\<forall>section x. jfield section v = Some x \<longrightarrow> section_valid section x))"

text \<open>The value a section gives a setting, and the settings with every named value put in and the others kept.\<close>

definition asked :: "(string \<rightharpoonup> json) \<Rightarrow> string \<Rightarrow> string \<rightharpoonup> json" where
  "asked secs section key = (case secs section of Some v \<Rightarrow> jfield key v | None \<Rightarrow> None)"

definition bool_or :: "bool \<Rightarrow> json option \<Rightarrow> bool" where
  "bool_or old v = (case v of Some (J_bool b) \<Rightarrow> b | _ \<Rightarrow> old)"

definition pct_or :: "rat \<Rightarrow> json option \<Rightarrow> rat" where
  "pct_or old v = (case v of Some (J_num (Fin q)) \<Rightarrow> round_pct q | _ \<Rightarrow> old)"

definition ln_patched :: "(string \<rightharpoonup> json) \<Rightarrow> settings \<Rightarrow> settings" where
  "ln_patched m s = s\<lparr>st_auto_approve := bool_or (st_auto_approve s) (m ''autoApprove''),
     st_customer_pct := pct_or (st_customer_pct s) (m ''customerDepositPct''),
     st_sponsor_pct := pct_or (st_sponsor_pct s) (m ''sponsorDepositPct'')\<rparr>"

definition onchain_patched :: "(string \<rightharpoonup> json) \<Rightarrow> settings \<Rightarrow> settings" where
  "onchain_patched m s = s\<lparr>st_accept_onchain := bool_or (st_accept_onchain s) (m ''acceptNewOrders'')\<rparr>"

definition section_patched :: "string \<Rightarrow> (string \<rightharpoonup> json) \<Rightarrow> settings \<Rightarrow> settings" where
  "section_patched section m s = (if section = ''ln'' then ln_patched m s else onchain_patched m s)"

definition patched :: "(string \<rightharpoonup> json) \<Rightarrow> settings \<Rightarrow> settings" where
  "patched secs s = onchain_patched (asked secs ''onchain'') (ln_patched (asked secs ''ln'') s)"

definition set_in :: "string \<Rightarrow> settings \<Rightarrow> string \<Rightarrow> json \<Rightarrow> string + settings" where
  "set_in section = (if section = ''ln'' then set_ln else set_onchain)"

lemma entries_distinct: "distinct (map fst (js_entries kvs))"
  by (simp add: js_entries_def comp_def set_order_def)

lemma entries_lookup: "map_of (js_entries kvs) k = jfield k (J_obj kvs)"
proof (cases "k \<in> fst ` set kvs")
  case True
  then obtain v where "map_of (rev kvs) k = Some v" by (metis domD dom_map_of_conv_image_fst set_rev)
  moreover have "(k, the (map_of (rev kvs) k)) \<in> set (js_entries kvs)" using True by (auto simp: js_entries_def)
  ultimately show ?thesis using entries_distinct by (simp add: map_of_eq_Some_iff)
next
  case False
  then have "(k, v) \<notin> set kvs" for v by force
  then have "map_of (rev kvs) k = None" and "map_of (js_entries kvs) k = None"
    by (auto simp: map_of_eq_None_iff js_entries_def)
  then show ?thesis by simp
qed

lemma entries_set: "(k, v) \<in> set (js_entries kvs) \<longleftrightarrow> jfield k (J_obj kvs) = Some v"
  using map_of_eq_Some_iff [OF entries_distinct, of kvs k v] entries_lookup by auto

lemma entries_all: "(\<forall>(k, v) \<in> set (js_entries kvs). P k v) \<longleftrightarrow> (\<forall>k v. jfield k (J_obj kvs) = Some v \<longrightarrow> P k v)"
  by (auto simp del: jfield.simps simp: entries_set)

lemma or_None [simp]: "bool_or b None = b" "pct_or q None = q"
  by (simp_all add: bool_or_def pct_or_def)

lemma pct_value_Some: "pct_value v = Some q \<longleftrightarrow> v = J_num (Fin q) \<and> 0 \<le> q \<and> q \<le> MAX_DEPOSIT_PCT"
  by (auto simp: pct_value_def split: json.splits jsnum.splits)

text \<open>One entry: it is refused or it takes effect.\<close>

lemma set_in_entry:
  assumes "section \<in> {''ln'', ''onchain''}"
  shows "set_in section s key v = Inr t \<longleftrightarrow> setting_valid section key v \<and> t = section_patched section [key \<mapsto> v] s"
proof (cases "section = ''ln''")
  case True
  have "set_ln s key v = Inr t \<longleftrightarrow> setting_valid ''ln'' key v \<and> t = ln_patched [key \<mapsto> v] s"
    by (auto simp: set_ln_def setting_valid_def ln_patched_def bool_or_def pct_or_def pct_value_def not_less
        split: json.splits jsnum.splits option.splits)
  with True show ?thesis by (simp add: set_in_def section_patched_def)
next
  case False
  then have "section = ''onchain''" using assms by simp
  moreover have "set_onchain s key v = Inr t \<longleftrightarrow> setting_valid ''onchain'' key v \<and> t = onchain_patched [key \<mapsto> v] s"
    by (auto simp: set_onchain_def setting_valid_def onchain_patched_def bool_or_def split: json.splits)
  ultimately show ?thesis by (simp add: set_in_def section_patched_def)
qed

lemma section_patched_empty: "section_patched section Map.empty s = s"
  by (simp add: section_patched_def ln_patched_def onchain_patched_def)

lemma section_patched_add:
  "m k = None \<Longrightarrow> section_patched section m (section_patched section [k \<mapsto> v] s) = section_patched section (m(k \<mapsto> v)) s"
  by (auto simp: section_patched_def ln_patched_def onchain_patched_def)

text \<open>All entries of a section: one bad entry refuses them all.\<close>

lemma set_all_iff:
  assumes "section \<in> {''ln'', ''onchain''}"
  shows "distinct (map fst es) \<Longrightarrow> set_all (set_in section) es s = Inr t \<longleftrightarrow>
    (\<forall>(k, v) \<in> set es. setting_valid section k v) \<and> t = section_patched section (map_of es) s"
proof (induction es arbitrary: s)
  case (Cons kv es)
  obtain k v where kv: "kv = (k, v)" by force
  have none: "map_of es k = None" using Cons.prems by (simp add: kv map_of_eq_None_iff)
  have m: "map_of (kv # es) = (map_of es)(k \<mapsto> v)" by (simp add: kv fun_eq_iff)
  show ?case
  proof (cases "set_in section s k v")
    case (Inl problem)
    then have "\<not> setting_valid section k v" using set_in_entry [OF assms, of s k v] by auto
    then show ?thesis using Inl by (simp add: kv)
  next
    case (Inr u)
    then have "setting_valid section k v" and u: "u = section_patched section [k \<mapsto> v] s"
      using set_in_entry [OF assms, of s k v u] by simp_all
    moreover have "set_all (set_in section) (kv # es) s = set_all (set_in section) es u" using Inr by (simp add: kv)
    ultimately show ?thesis using Cons.IH [of u] Cons.prems section_patched_add [of "map_of es" k "section" v s] none
      unfolding m by (simp add: kv del: fun_upd_apply)
  qed
qed (auto simp: section_patched_empty)

lemma set_section_iff:
  assumes "section \<in> {''ln'', ''onchain''}"
  shows "set_all (set_in section) (js_entries kvs) s = Inr t \<longleftrightarrow>
    section_valid section (J_obj kvs) \<and> t = section_patched section (\<lambda>k. jfield k (J_obj kvs)) s"
proof -
  have "map_of (js_entries kvs) = (\<lambda>k. jfield k (J_obj kvs))" by (rule ext) (rule entries_lookup)
  then show ?thesis using assms set_all_iff [OF assms entries_distinct]
    by (simp add: section_valid_def entries_all)
qed

lemma set_sections_iff:
  "distinct (map fst secs) \<Longrightarrow> set_sections secs s = Inr t \<longleftrightarrow>
    (\<forall>(k, v) \<in> set secs. section_valid k v) \<and> t = patched (map_of secs) s"
proof (induction secs arbitrary: s)
  case Nil
  then show ?case
    by (auto simp: patched_def ln_patched_def onchain_patched_def asked_def)
next
  case (Cons sec secs)
  obtain k v where sec: "sec = (k, v)" by force
  have none: "map_of secs k = None" using Cons.prems by (simp add: sec map_of_eq_None_iff)
  have IH: "set_sections secs u = Inr t \<longleftrightarrow> (\<forall>(k, v) \<in> set secs. section_valid k v) \<and> t = patched (map_of secs) u" for u
    using Cons by simp
  show ?case
  proof (cases "k \<in> {''ln'', ''onchain''} \<and> is_object v")
    case True
    then obtain kvs where v: "v = J_obj kvs" by (cases v) auto
    have p: "patched (map_of secs) (section_patched k (\<lambda>x. jfield x (J_obj kvs)) s) = patched ((map_of secs)(k \<mapsto> v)) s"
      using True none
      by (auto simp: v patched_def section_patched_def ln_patched_def onchain_patched_def asked_def)
    have "set_sections (sec # secs) s = Inr t \<longleftrightarrow>
        (\<exists>u. set_all (set_in k) (js_entries kvs) s = Inr u \<and> set_sections secs u = Inr t)"
      using True by (auto simp: sec v set_in_def split: sum.splits)
    moreover have m: "map_of (sec # secs) = (map_of secs)(k \<mapsto> v)" by (simp add: sec fun_eq_iff)
    ultimately show ?thesis using True IH set_section_iff [of k kvs s] p [symmetric] unfolding m
      by (simp add: sec v del: fun_upd_apply)
  next
    case False
    then have "set_sections (sec # secs) s \<noteq> Inr t" by (cases v) (auto simp: sec)
    then show ?thesis using False by (auto simp: sec section_valid_def)
  qed
qed

lemma patch_iff:
  "apply_settings_patch s patch = Inr t \<longleftrightarrow>
     patch_valid patch \<and> t = patched (\<lambda>section. Option.bind patch (jfield section)) s"
proof (cases patch)
  case (Some v)
  show ?thesis
  proof (cases "is_object v")
    case True
    then obtain kvs where v: "v = J_obj kvs" by (cases v) auto
    have "map_of (js_entries kvs) = (\<lambda>k. jfield k (J_obj kvs))" by (rule ext) (rule entries_lookup)
    then show ?thesis using set_sections_iff [OF entries_distinct, of kvs s t]
      by (simp add: Some v apply_settings_patch_def patch_valid_def entries_all)
  qed (cases v; auto simp: Some apply_settings_patch_def patch_valid_def)
qed (simp add: apply_settings_patch_def patch_valid_def)

lemma pct_or_ok:
  assumes "pct_ok old" and "v = None \<or> (\<exists>q. v = Some (J_num (Fin q)) \<and> 0 \<le> q \<and> q \<le> MAX_DEPOSIT_PCT)"
  shows "pct_ok (pct_or old v)"
  using assms round_pct_ok by (auto simp: pct_or_def)

lemma patched_ok:
  assumes "settings_ok s" and "patch_valid patch"
  shows "settings_ok (patched (\<lambda>section. Option.bind patch (jfield section)) s)"
proof -
  have "x = None \<or> (\<exists>q. x = Some (J_num (Fin q)) \<and> 0 \<le> q \<and> q \<le> MAX_DEPOSIT_PCT)"
    if asked: "x = asked (\<lambda>section. Option.bind patch (jfield section)) ''ln'' key"
      and "key \<in> {''customerDepositPct'', ''sponsorDepositPct''}" for x key
  proof (cases x)
    case (Some y)
    then obtain v sec where "patch = Some v" "jfield ''ln'' v = Some sec" "jfield key sec = Some y"
      using asked Some by (auto simp: asked_def bind_eq_Some_conv split: option.splits)
    then have "setting_valid ''ln'' key y" using assms(2) by (auto simp: patch_valid_def section_valid_def)
    then show ?thesis using that(2) Some by (auto simp: setting_valid_def)
  qed simp
  then show ?thesis using assms(1)
    by (auto simp: settings_ok_def patched_def ln_patched_def onchain_patched_def intro!: pct_or_ok)
qed

subsection \<open>Properties\<close>

lemma DEFAULT_ok: "settings_ok DEFAULT_SETTINGS"
proof -
  have "pct_ok 0" unfolding pct_ok_def by (rule bexI [of _ 0]) (simp_all add: fl_def)
  then show ?thesis by (simp add: settings_ok_def DEFAULT_SETTINGS_def)
qed

text \<open>C38. Whatever JSON an operator sends, a patch over well-typed settings is applied completely or refused whole.
  It is applied exactly when it is an object of known sections holding only known settings with valid values (booleans,
  and percentages between 0 and 20); then every setting it names has the last value given for it, a percentage rounded
  to hundredths, every other setting is kept, and the result is well-typed, its percentages hundredths between 0 and 20.
  One unknown or invalid entry anywhere refuses the whole patch.\<close>

theorem settings_patch_typed:
  assumes "settings_ok s"
  shows "case apply_settings_patch s patch of
      Inl problem \<Rightarrow> \<not> patch_valid patch
    | Inr s' \<Rightarrow> patch_valid patch \<and> s' = patched (\<lambda>section. Option.bind patch (jfield section)) s
        \<and> settings_ok s' \<and> 0 \<le> st_customer_pct s' \<and> st_customer_pct s' \<le> 20
        \<and> 0 \<le> st_sponsor_pct s' \<and> st_sponsor_pct s' \<le> 20"
proof (cases "apply_settings_patch s patch")
  case (Inl problem)
  then show ?thesis using patch_iff [of s patch] by auto
next
  case (Inr s')
  then have s': "patch_valid patch" "s' = patched (\<lambda>section. Option.bind patch (jfield section)) s"
    using patch_iff by auto
  with patched_ok [OF assms] have "settings_ok s'" by simp
  then show ?thesis using s' pct_ok_bounds by (simp add: Inr settings_ok_def)
qed

lemma settings_patch_parse:
  "apply_settings_patch t (Some (settings_json s)) =
     (case set_all set_ln [(''autoApprove'', J_bool (st_auto_approve s)),
                      (''customerDepositPct'', J_num (Fin (st_customer_pct s))),
                      (''sponsorDepositPct'', J_num (Fin (st_sponsor_pct s)))] t of
        Inl p \<Rightarrow> Inl p
      | Inr u \<Rightarrow> Inr (u\<lparr>st_accept_onchain := st_accept_onchain s\<rparr>))"
  by (simp add: apply_settings_patch_def settings_json_def js_entries_def set_order_def set_onchain_def
      split: sum.split)

text \<open>Storing settings and loading them back gives the same settings: the JSON the daemon writes passes its
  own validation over the defaults, percentages included, and a cell that is missing gives the defaults.\<close>

theorem settings_roundtrip:
  "(settings_ok s \<longrightarrow> load_settings (Some (settings_json s)) = s) \<and> load_settings None = DEFAULT_SETTINGS"
proof (intro conjI impI)
  assume ok: "settings_ok s"
  then have p: "pct_value (J_num (Fin (st_customer_pct s))) = Some (st_customer_pct s)"
    "pct_value (J_num (Fin (st_sponsor_pct s))) = Some (st_sponsor_pct s)"
    using pct_ok_bounds by (auto simp: settings_ok_def pct_value_def MAX_DEPOSIT_PCT_def not_less)
  have r: "round_pct (st_customer_pct s) = st_customer_pct s" "round_pct (st_sponsor_pct s) = st_sponsor_pct s"
    using ok by (simp_all add: settings_ok_def round_pct_id)
  have "apply_settings_patch DEFAULT_SETTINGS (Some (settings_json s)) = Inr s"
    unfolding settings_patch_parse by (simp add: set_ln_def p r)
  then show "load_settings (Some (settings_json s)) = s" by (simp add: load_settings_def)
qed (simp add: load_settings_def)

theorem settings_roundtrip_witness:
  "load_settings (Some (settings_json DEFAULT_SETTINGS)) = DEFAULT_SETTINGS"
  using settings_roundtrip [of DEFAULT_SETTINGS] DEFAULT_ok by simp

definition toy_patch :: "json list \<Rightarrow> json" where
  "toy_patch vs = J_obj [(''ln'', J_obj [(''customerDepositPct'', vs ! 0)]), (''onchain'', J_obj [(''acceptNewOrders'', vs ! 1)])]"

theorem settings_patch_typed_witness:
  "(\<exists>s'. apply_settings_patch DEFAULT_SETTINGS (Some (toy_patch [J_num (Fin 5), J_bool True])) = Inr s'
     \<and> st_customer_pct s' = round_pct 5 \<and> st_accept_onchain s' \<and> st_auto_approve s' \<and> settings_ok s')
   \<and> patch_valid (Some (toy_patch [J_num (Fin 5), J_bool True]))
   \<and> \<not> patch_valid (Some (toy_patch [J_num (Fin 5), J_null]))"
proof -
  let ?s = "DEFAULT_SETTINGS\<lparr>st_customer_pct := round_pct 5, st_accept_onchain := True\<rparr>"
  have good: "apply_settings_patch DEFAULT_SETTINGS (Some (toy_patch [J_num (Fin 5), J_bool True])) = Inr ?s"
    by (simp add: apply_settings_patch_def toy_patch_def js_entries_def set_order_def set_ln_def set_onchain_def
        pct_value_def MAX_DEPOSIT_PCT_def)
  have bad: "apply_settings_patch DEFAULT_SETTINGS (Some (toy_patch [J_num (Fin 5), J_null])) = Inl ''onchain.acceptNewOrders''"
    by (simp add: apply_settings_patch_def toy_patch_def js_entries_def set_order_def set_ln_def set_onchain_def
        pct_value_def MAX_DEPOSIT_PCT_def)
  from settings_patch_typed [OF DEFAULT_ok, of "Some (toy_patch [J_num (Fin 5), J_bool True])"]
    settings_patch_typed [OF DEFAULT_ok, of "Some (toy_patch [J_num (Fin 5), J_null])"]
  have "settings_ok ?s" and "patch_valid (Some (toy_patch [J_num (Fin 5), J_bool True]))"
    and "\<not> patch_valid (Some (toy_patch [J_num (Fin 5), J_null]))"
    unfolding good bad sum.case by blast+
  moreover have "st_customer_pct ?s = round_pct 5" "st_accept_onchain ?s" "st_auto_approve ?s"
    by (simp_all add: DEFAULT_SETTINGS_def)
  ultimately show ?thesis using good by blast
qed

end
