(* ===== verification/Oc_Fsm.thy ===== *)
theory Oc_Fsm
  imports Lnpay_Prelude
begin

text \<open>
  The on-chain track's state machine, outcome table and signing rules
  (\<open>shared/src/onchain/state-machine.ts\<close>).
\<close>

subsection \<open>States\<close>

datatype oc_state = Oc_listed | Oc_bonded | Oc_funded | Oc_presigned | Oc_remitted | Oc_disputed
  | Oc_refunding | Oc_settling | Oc_released | Oc_refunded | Oc_sponsor_wins | Oc_customer_wins
  | Oc_cancelled | Oc_swept

fun oc_state_str :: "oc_state \<Rightarrow> string" where
  "oc_state_str Oc_listed = ''listed''"
| "oc_state_str Oc_bonded = ''bonded''"
| "oc_state_str Oc_funded = ''funded''"
| "oc_state_str Oc_presigned = ''presigned''"
| "oc_state_str Oc_remitted = ''remitted''"
| "oc_state_str Oc_disputed = ''disputed''"
| "oc_state_str Oc_refunding = ''refunding''"
| "oc_state_str Oc_settling = ''settling''"
| "oc_state_str Oc_released = ''released''"
| "oc_state_str Oc_refunded = ''refunded''"
| "oc_state_str Oc_sponsor_wins = ''sponsor_wins''"
| "oc_state_str Oc_customer_wins = ''customer_wins''"
| "oc_state_str Oc_cancelled = ''cancelled''"
| "oc_state_str Oc_swept = ''swept''"

instantiation oc_state :: enum
begin

definition "enum_oc_state = [Oc_listed, Oc_bonded, Oc_funded, Oc_presigned, Oc_remitted, Oc_disputed,
  Oc_refunding, Oc_settling, Oc_released, Oc_refunded, Oc_sponsor_wins, Oc_customer_wins,
  Oc_cancelled, Oc_swept]"
definition "enum_all_oc_state P \<longleftrightarrow> list_all P (Enum.enum :: oc_state list)"
definition "enum_ex_oc_state P \<longleftrightarrow> list_ex P (Enum.enum :: oc_state list)"

instance
proof
  show univ: "(UNIV :: oc_state set) = set Enum.enum"
  proof (rule set_eqI)
    fix s :: oc_state
    show "s \<in> UNIV \<longleftrightarrow> s \<in> set Enum.enum" by (cases s) (simp_all add: enum_oc_state_def)
  qed
  show "distinct (Enum.enum :: oc_state list)" by (simp add: enum_oc_state_def)
  show "enum_class.enum_all P \<longleftrightarrow> Ball UNIV P" for P :: "oc_state \<Rightarrow> bool"
    unfolding enum_all_oc_state_def univ by (simp add: list_all_iff)
  show "enum_class.enum_ex P \<longleftrightarrow> Bex UNIV P" for P :: "oc_state \<Rightarrow> bool"
    unfolding enum_ex_oc_state_def univ by (simp add: list_ex_iff)
qed

end

definition oc_state_of :: "string \<Rightarrow> oc_state option" where
  "oc_state_of v = List.find (\<lambda>s. oc_state_str s = v) Enum.enum"

lemma oc_state_strs_distinct: "distinct (map oc_state_str Enum.enum)"
  by code_simp

lemma oc_state_of_str [simp]: "oc_state_of (oc_state_str s) = Some s"
  unfolding oc_state_of_def
  by (rule find_key_distinct [OF oc_state_strs_distinct]) (metis UNIV_I enum_UNIV)

subsection \<open>The transition table\<close>

fun onchain_transitions :: "oc_state \<Rightarrow> oc_state list" where
  "onchain_transitions Oc_listed = [Oc_bonded, Oc_cancelled]"
| "onchain_transitions Oc_bonded = [Oc_funded, Oc_refunding, Oc_cancelled]"
| "onchain_transitions Oc_funded = [Oc_presigned, Oc_refunding, Oc_bonded, Oc_swept]"
| "onchain_transitions Oc_presigned = [Oc_remitted, Oc_refunding, Oc_settling, Oc_bonded, Oc_swept]"
| "onchain_transitions Oc_remitted = [Oc_settling, Oc_disputed, Oc_swept]"
| "onchain_transitions Oc_disputed = [Oc_settling, Oc_swept]"
| "onchain_transitions Oc_refunding = [Oc_settling, Oc_swept]"
| "onchain_transitions Oc_settling =
     [Oc_released, Oc_refunded, Oc_sponsor_wins, Oc_customer_wins, Oc_swept]"
| "onchain_transitions Oc_released = []"
| "onchain_transitions Oc_refunded = []"
| "onchain_transitions Oc_sponsor_wins = []"
| "onchain_transitions Oc_customer_wins = []"
| "onchain_transitions Oc_cancelled = []"
| "onchain_transitions Oc_swept = []"

definition can_onchain_transition :: "oc_state \<Rightarrow> oc_state \<Rightarrow> bool" where
  "can_onchain_transition from to \<longleftrightarrow> to \<in> set (onchain_transitions from)"

definition onchain_terminal_states :: "oc_state list" where
  "onchain_terminal_states = filter (\<lambda>s. onchain_transitions s = []) Enum.enum"

definition is_onchain_terminal :: "oc_state \<Rightarrow> bool" where
  "is_onchain_terminal s \<longleftrightarrow> s \<in> set onchain_terminal_states"

lemma is_onchain_terminal_iff: "is_onchain_terminal s \<longleftrightarrow> onchain_transitions s = []"
  by (cases s) (simp_all add: is_onchain_terminal_def onchain_terminal_states_def enum_oc_state_def)

lemma is_onchain_terminal_simps [simp]:
  "\<not> is_onchain_terminal Oc_listed" "\<not> is_onchain_terminal Oc_bonded"
  "\<not> is_onchain_terminal Oc_funded" "\<not> is_onchain_terminal Oc_presigned"
  "\<not> is_onchain_terminal Oc_remitted" "\<not> is_onchain_terminal Oc_disputed"
  "\<not> is_onchain_terminal Oc_refunding" "\<not> is_onchain_terminal Oc_settling"
  "is_onchain_terminal Oc_released" "is_onchain_terminal Oc_refunded"
  "is_onchain_terminal Oc_sponsor_wins" "is_onchain_terminal Oc_customer_wins"
  "is_onchain_terminal Oc_cancelled" "is_onchain_terminal Oc_swept"
  by (simp_all add: is_onchain_terminal_iff)

interpretation oc_table: fsm onchain_transitions can_onchain_transition is_onchain_terminal
  by unfold_locales (simp_all add: can_onchain_transition_def is_onchain_terminal_iff)

definition oc_dist :: "oc_state \<Rightarrow> nat" where
  "oc_dist s = (if is_onchain_terminal s then 0 else 1)"

fun oc_exit :: "oc_state \<Rightarrow> oc_state" where
  "oc_exit Oc_listed = Oc_cancelled"
| "oc_exit Oc_bonded = Oc_cancelled"
| "oc_exit s = Oc_swept"

interpretation oc_live: live_fsm onchain_transitions can_onchain_transition is_onchain_terminal oc_dist
proof
  show "\<not> is_onchain_terminal s \<Longrightarrow> \<exists>t. can_onchain_transition s t \<and> oc_dist t < oc_dist s" for s
    by (rule exI [of _ "oc_exit s"], cases s) (simp_all add: can_onchain_transition_def oc_dist_def)
qed

subsection \<open>Outcomes and bonds\<close>

datatype settlement_kind = Release | Refund_reserve | Refund_sponsor_timeout | Refund_customer_late
  | Refund_bond_expired | Refund_account_disputed | Sponsor_win | Customer_win

datatype non_tx_outcome = Cancel_by_customer | Cancel_expired | Cancel_no_funding | Swept

datatype onchain_outcome = Settled settlement_kind | No_tx non_tx_outcome

fun settlement_kind_str :: "settlement_kind \<Rightarrow> string" where
  "settlement_kind_str Release = ''release''"
| "settlement_kind_str Refund_reserve = ''refund:reserve''"
| "settlement_kind_str Refund_sponsor_timeout = ''refund:sponsor-timeout''"
| "settlement_kind_str Refund_customer_late = ''refund:customer-late''"
| "settlement_kind_str Refund_bond_expired = ''refund:bond-expired''"
| "settlement_kind_str Refund_account_disputed = ''refund:account-disputed''"
| "settlement_kind_str Sponsor_win = ''sponsor_win''"
| "settlement_kind_str Customer_win = ''customer_win''"

fun non_tx_outcome_str :: "non_tx_outcome \<Rightarrow> string" where
  "non_tx_outcome_str Cancel_by_customer = ''cancel:customer''"
| "non_tx_outcome_str Cancel_expired = ''cancel:expired''"
| "non_tx_outcome_str Cancel_no_funding = ''cancel:no-funding''"
| "non_tx_outcome_str Swept = ''swept''"

definition all_settlement_kinds :: "settlement_kind list" where
  "all_settlement_kinds = [Release, Refund_reserve, Refund_sponsor_timeout, Refund_customer_late,
    Refund_bond_expired, Refund_account_disputed, Sponsor_win, Customer_win]"

lemma settlement_kind_all: "k \<in> set all_settlement_kinds"
  by (cases k) (simp_all add: all_settlement_kinds_def)

definition settlement_kind_of :: "string \<Rightarrow> settlement_kind option" where
  "settlement_kind_of v = List.find (\<lambda>k. settlement_kind_str k = v) all_settlement_kinds"

lemma settlement_kind_strs_distinct: "distinct (map settlement_kind_str all_settlement_kinds)"
  by code_simp

lemma settlement_kind_of_str [simp]: "settlement_kind_of (settlement_kind_str k) = Some k"
  unfolding settlement_kind_of_def
  by (rule find_key_distinct [OF settlement_kind_strs_distinct settlement_kind_all])

text \<open>Bond dispositions: \<open>hold\<close> waits for a human decision, \<open>expired\<close> and \<open>none\<close> move nothing.\<close>

datatype bond_disposition = B_refund | B_forfeit | B_expired | B_none | B_hold

record outcome_rule =
  or_terminal :: oc_state
  or_sponsor_bond :: bond_disposition
  or_customer_bond :: bond_disposition
  or_arbitrated :: bool

definition mk_outcome :: "oc_state \<Rightarrow> bond_disposition \<Rightarrow> bond_disposition \<Rightarrow> bool \<Rightarrow> outcome_rule" where
  "mk_outcome t s c a =
     \<lparr>or_terminal = t, or_sponsor_bond = s, or_customer_bond = c, or_arbitrated = a\<rparr>"

lemma mk_outcome_sel [simp]:
  "or_terminal (mk_outcome t s c a) = t" "or_sponsor_bond (mk_outcome t s c a) = s"
  "or_customer_bond (mk_outcome t s c a) = c" "or_arbitrated (mk_outcome t s c a) = a"
  by (simp_all add: mk_outcome_def)

fun outcome_rules :: "onchain_outcome \<Rightarrow> outcome_rule" where
  "outcome_rules (Settled Release) = mk_outcome Oc_released B_refund B_refund False"
| "outcome_rules (Settled Refund_reserve) = mk_outcome Oc_refunded B_refund B_refund False"
| "outcome_rules (Settled Refund_sponsor_timeout) = mk_outcome Oc_refunded B_forfeit B_refund False"
| "outcome_rules (Settled Refund_customer_late) = mk_outcome Oc_refunded B_refund B_forfeit False"
| "outcome_rules (Settled Refund_bond_expired) = mk_outcome Oc_refunded B_expired B_refund False"
| "outcome_rules (Settled Refund_account_disputed) = mk_outcome Oc_refunded B_hold B_hold False"
| "outcome_rules (Settled Sponsor_win) = mk_outcome Oc_sponsor_wins B_refund B_forfeit True"
| "outcome_rules (Settled Customer_win) = mk_outcome Oc_customer_wins B_forfeit B_refund True"
| "outcome_rules (No_tx Cancel_by_customer) = mk_outcome Oc_cancelled B_none B_refund False"
| "outcome_rules (No_tx Cancel_expired) = mk_outcome Oc_cancelled B_none B_refund False"
| "outcome_rules (No_tx Cancel_no_funding) = mk_outcome Oc_cancelled B_refund B_forfeit False"
| "outcome_rules (No_tx Swept) = mk_outcome Oc_swept B_expired B_expired False"

datatype forfeit_use = Arbitration_fee | Compensation

definition forfeit_use :: "onchain_outcome \<Rightarrow> forfeit_use option" where
  "forfeit_use outcome =
     (let rule = outcome_rules outcome in
      if or_sponsor_bond rule \<noteq> B_forfeit \<and> or_customer_bond rule \<noteq> B_forfeit then None
      else Some (if or_arbitrated rule then Arbitration_fee else Compensation))"

subsection \<open>Guards on accounts and signatures\<close>

definition can_send_account_info_onchain :: "oc_state option \<Rightarrow> bool" where
  "can_send_account_info_onchain state \<longleftrightarrow> state = Some Oc_presigned \<or> state = Some Oc_remitted"

definition PRICE_VALIDITY_MS :: int where "PRICE_VALIDITY_MS = 24 * 60 * 60 * 1000"

definition is_price_stale :: "int \<Rightarrow> int \<Rightarrow> bool" where
  "is_price_stale remittedAtMs nowMs \<longleftrightarrow> nowMs - remittedAtMs > PRICE_VALIDITY_MS"

datatype sign_purpose = SP_release | SP_refund | SP_dispute_customer | SP_dispute_sponsor | SP_rescue

fun sign_purpose_str :: "sign_purpose \<Rightarrow> string" where
  "sign_purpose_str SP_release = ''release''"
| "sign_purpose_str SP_refund = ''refund''"
| "sign_purpose_str SP_dispute_customer = ''dispute-customer''"
| "sign_purpose_str SP_dispute_sponsor = ''dispute-sponsor''"
| "sign_purpose_str SP_rescue = ''rescue''"

definition sign_purpose_of :: "string \<Rightarrow> sign_purpose option" where
  "sign_purpose_of v = List.find (\<lambda>p. sign_purpose_str p = v)
     [SP_release, SP_refund, SP_dispute_customer, SP_dispute_sponsor, SP_rescue]"

text \<open>\<open>isRefundKind\<close> tests the string prefix \<open>refund:\<close>.\<close>

definition is_refund_kind :: "settlement_kind option \<Rightarrow> bool" where
  "is_refund_kind kind \<longleftrightarrow>
     (case kind of None \<Rightarrow> False | Some k \<Rightarrow> take 7 (settlement_kind_str k) = ''refund:'')"

definition sign_purpose_for :: "settlement_kind \<Rightarrow> sign_purpose" where
  "sign_purpose_for kind =
     (if kind = Release then SP_release
      else if kind = Sponsor_win then SP_dispute_sponsor
      else if kind = Customer_win then SP_dispute_customer
      else SP_refund)"

datatype signer = Customer | Sponsor

definition awaiting_signer_for :: "settlement_kind \<Rightarrow> signer" where
  "awaiting_signer_for kind = (if kind = Sponsor_win then Sponsor else Customer)"

fun sign_purpose_usable :: "oc_state \<Rightarrow> sign_purpose \<Rightarrow> settlement_kind option \<Rightarrow> bool" where
  "sign_purpose_usable state SP_release _ = (state = Oc_remitted \<or> state = Oc_disputed)"
| "sign_purpose_usable state SP_refund _ = (state = Oc_refunding)"
| "sign_purpose_usable state SP_dispute_customer kind = (state = Oc_disputed \<and> kind = Some Customer_win)"
| "sign_purpose_usable state SP_dispute_sponsor kind = (state = Oc_disputed \<and> kind = Some Sponsor_win)"
| "sign_purpose_usable _ SP_rescue _ = True"

definition can_act_on_sign_request ::
  "oc_state \<Rightarrow> sign_purpose \<Rightarrow> settlement_kind option \<Rightarrow> bool" where
  "can_act_on_sign_request state purpose kind =
     (if purpose = SP_rescue then True
      else if is_onchain_terminal state \<or> state = Oc_settling then False
      else sign_purpose_usable state purpose kind)"

lemma is_refund_kind_simps [simp]:
  "\<not> is_refund_kind None" "\<not> is_refund_kind (Some Release)"
  "is_refund_kind (Some Refund_reserve)" "is_refund_kind (Some Refund_sponsor_timeout)"
  "is_refund_kind (Some Refund_customer_late)" "is_refund_kind (Some Refund_bond_expired)"
  "is_refund_kind (Some Refund_account_disputed)"
  "\<not> is_refund_kind (Some Sponsor_win)" "\<not> is_refund_kind (Some Customer_win)"
  by (simp_all add: is_refund_kind_def)

lemma outcome_rules_terminal: "is_onchain_terminal (or_terminal (outcome_rules out))"
proof (cases out)
  case (Settled k)
  then show ?thesis by (cases k) simp_all
next
  case (No_tx n)
  then show ?thesis by (cases n) simp_all
qed

lemma outcome_reachable_from_settling:
  "can_onchain_transition Oc_settling (or_terminal (outcome_rules (Settled k)))"
  by (cases k) (simp_all add: can_onchain_transition_def)

subsection \<open>Properties\<close>

lemma oc_remitted_no_way_back_parts:
  assumes "can_onchain_transition\<^sup>*\<^sup>* s t" and "s \<in> {Oc_remitted, Oc_disputed, Oc_settling}"
  shows "t \<in> {Oc_remitted, Oc_disputed, Oc_settling} \<or> is_onchain_terminal t"
    and "t \<noteq> Oc_cancelled" and "t \<noteq> Oc_refunding"
proof -
  let ?S = "{Oc_remitted, Oc_disputed, Oc_settling, Oc_released, Oc_refunded, Oc_sponsor_wins,
    Oc_customer_wins, Oc_swept}"
  have "t \<in> ?S"
  proof (rule oc_table.closed_reach [OF assms(1)])
    show "s \<in> ?S" using assms(2) by auto
    show "\<And>u v. u \<in> ?S \<Longrightarrow> can_onchain_transition u v \<Longrightarrow> v \<in> ?S"
      by (auto simp: can_onchain_transition_def)
  qed
  then show "t \<in> {Oc_remitted, Oc_disputed, Oc_settling} \<or> is_onchain_terminal t"
    and "t \<noteq> Oc_cancelled" and "t \<noteq> Oc_refunding" by auto
qed

text \<open>Once the sponsor has claimed the KRW transfer, or a dispute is open, the on-chain state
  machine offers no way back: no state before settlement and no refund decision is reachable, only
  the settlement, the verdict or a timelock sweep.\<close>

theorem oc_remitted_no_way_back:
  assumes "can_onchain_transition\<^sup>*\<^sup>* s t" and "s \<in> {Oc_remitted, Oc_disputed, Oc_settling}"
  shows "(t \<in> {Oc_remitted, Oc_disputed, Oc_settling} \<or> is_onchain_terminal t)
    \<and> (t \<noteq> Oc_cancelled)
    \<and> (t \<noteq> Oc_refunding)"
  using oc_remitted_no_way_back_parts [OF assms] by blast

theorem oc_remitted_no_way_back_witness:
  "(Oc_released \<in> {Oc_remitted, Oc_disputed, Oc_settling} \<or> is_onchain_terminal Oc_released)
   \<and> Oc_released \<noteq> Oc_cancelled \<and> Oc_released \<noteq> Oc_refunding"
proof -
  have "can_onchain_transition\<^sup>*\<^sup>* Oc_remitted Oc_released"
    by (rule converse_rtranclp_into_rtranclp [of _ _ Oc_settling])
      (auto simp: can_onchain_transition_def)
  from oc_remitted_no_way_back [OF this] show ?thesis by simp
qed

end
