(* ===== verification/Oc_Timing.thy ===== *)
theory Oc_Timing
  imports Oc_Fsm
begin

text \<open>
  Deadlines of the on-chain track (\<open>shared/src/onchain/timing.ts\<close>).  Optional times are \<open>option\<close>;
  where the source tests a number for truth (\<open>order.fundedAt ? ... : ...\<close>) zero counts as absent,
  which \<open>truthy\<close> writes out.  Times the daemon computes are integers; the expiration of a listing is the number the
  customer wrote, a rational.
\<close>

definition MAX_ORDER_EXPIRY_SEC :: sec where "MAX_ORDER_EXPIRY_SEC = 7 * 24 * 3600"
definition FUNDING_WINDOW_SEC :: sec where "FUNDING_WINDOW_SEC = 2 * 3600"
definition PRESIGN_WINDOW_SEC :: sec where "PRESIGN_WINDOW_SEC = 15 * 60"
definition ACCOUNT_WINDOW_SEC :: sec where "ACCOUNT_WINDOW_SEC = 3600"
definition KRW_WINDOW_SEC :: sec where "KRW_WINDOW_SEC = 30 * 60"
definition COSIGN_WINDOW_SEC :: sec where "COSIGN_WINDOW_SEC = PRICE_VALIDITY_MS div 1000"
definition COSIGN_GRACE_WARNING_SEC :: sec where "COSIGN_GRACE_WARNING_SEC = 2 * 3600"
definition SETTLING_WARN_SEC :: sec where "SETTLING_WARN_SEC = 24 * 3600"
definition DISPUTE_RULING_BUDGET_SEC :: sec where "DISPUTE_RULING_BUDGET_SEC = 24 * 3600"
definition ONCHAIN_EVENT_HORIZON_SEC :: sec where "ONCHAIN_EVENT_HORIZON_SEC = 70 * 24 * 3600"
definition TIMELOCK_REMIT_THRESHOLD_BLOCKS :: int where "TIMELOCK_REMIT_THRESHOLD_BLOCKS = 1008"
definition TERMINAL_GRACE_SEC :: sec where "TERMINAL_GRACE_SEC = 7 * 24 * 3600"
definition MAX_OPTION_WINDOW_SEC :: sec where
  "MAX_OPTION_WINDOW_SEC = PRESIGN_WINDOW_SEC + ACCOUNT_WINDOW_SEC + KRW_WINDOW_SEC"
definition MAX_TRADE_DURATION_SEC :: sec where
  "MAX_TRADE_DURATION_SEC =
     FUNDING_WINDOW_SEC + MAX_OPTION_WINDOW_SEC + COSIGN_WINDOW_SEC + DISPUTE_RULING_BUDGET_SEC"

lemmas oc_consts = MAX_ORDER_EXPIRY_SEC_def FUNDING_WINDOW_SEC_def PRESIGN_WINDOW_SEC_def
  ACCOUNT_WINDOW_SEC_def KRW_WINDOW_SEC_def COSIGN_WINDOW_SEC_def PRICE_VALIDITY_MS_def
  COSIGN_GRACE_WARNING_SEC_def SETTLING_WARN_SEC_def DISPUTE_RULING_BUDGET_SEC_def
  ONCHAIN_EVENT_HORIZON_SEC_def TERMINAL_GRACE_SEC_def MAX_OPTION_WINDOW_SEC_def
  MAX_TRADE_DURATION_SEC_def

definition funding_deadline_from :: "sec \<Rightarrow> sec" where
  "funding_deadline_from bondedAt = bondedAt + FUNDING_WINDOW_SEC"
definition presign_deadline_from :: "sec \<Rightarrow> sec" where
  "presign_deadline_from fundedAt = fundedAt + PRESIGN_WINDOW_SEC"
definition account_deadline_from :: "sec \<Rightarrow> sec" where
  "account_deadline_from presignedAt = presignedAt + ACCOUNT_WINDOW_SEC"
definition krw_deadline_from :: "sec \<Rightarrow> sec" where
  "krw_deadline_from accountSentAt = accountSentAt + KRW_WINDOW_SEC"
definition cosign_deadline_from :: "sec \<Rightarrow> sec" where
  "cosign_deadline_from remittedAt = remittedAt + COSIGN_WINDOW_SEC"

definition truthy :: "int option \<Rightarrow> int option" where
  "truthy x = (case x of Some n \<Rightarrow> if n = 0 then None else Some n | None \<Rightarrow> None)"

text \<open>\<open>a ?? b\<close>: the left value unless it is absent.\<close>

definition coalesce :: "'a option \<Rightarrow> 'a option \<Rightarrow> 'a option" where
  "coalesce a b = (case a of Some x \<Rightarrow> Some x | None \<Rightarrow> b)"

lemma coalesce_simps [simp]: "coalesce None b = b" "coalesce (Some x) b = Some x"
  by (simp_all add: coalesce_def)

lemma truthy_simps [simp]: "truthy None = None" "n \<noteq> 0 \<Longrightarrow> truthy (Some n) = Some n"
  "truthy (Some 0) = None"
  by (simp_all add: truthy_def)

definition presign_deadline_of :: "sec option \<Rightarrow> sec option \<Rightarrow> sec option" where
  "presign_deadline_of fundedAt presignDeadline =
     coalesce presignDeadline (map_option presign_deadline_from (truthy fundedAt))"
definition account_deadline_of :: "sec option \<Rightarrow> sec option \<Rightarrow> sec option" where
  "account_deadline_of presignedAt accountDeadline =
     coalesce accountDeadline (map_option account_deadline_from (truthy presignedAt))"
definition cosign_deadline_of :: "sec option \<Rightarrow> sec option \<Rightarrow> sec option" where
  "cosign_deadline_of remittedAt cosignDeadline =
     coalesce cosignDeadline (map_option cosign_deadline_from (truthy remittedAt))"
definition krw_deadline_of :: "sec option \<Rightarrow> sec option \<Rightarrow> sec option" where
  "krw_deadline_of krwDeadline accountSentAt =
     (case truthy krwDeadline of Some d \<Rightarrow> Some d
      | None \<Rightarrow> map_option krw_deadline_from (truthy accountSentAt))"

text \<open>An unknown deadline counts as past.\<close>

definition is_past :: "sec option \<Rightarrow> sec \<Rightarrow> bool" where
  "is_past deadline now \<longleftrightarrow> (case deadline of None \<Rightarrow> True | Some d \<Rightarrow> now \<ge> d)"

definition onchain_order_event_expiration :: "oc_state \<Rightarrow> rat \<Rightarrow> sec \<Rightarrow> bool \<Rightarrow> rat" where
  "onchain_order_event_expiration state listingExpiration now terminal =
     (if state = Oc_listed then listingExpiration
      else if terminal then
        (if listingExpiration > of_int now then listingExpiration else of_int (now + TERMINAL_GRACE_SEC))
      else max listingExpiration (of_int (now + ONCHAIN_EVENT_HORIZON_SEC)))"

definition onchain_message_expiration :: "sec \<Rightarrow> sec" where
  "onchain_message_expiration now = now + ONCHAIN_EVENT_HORIZON_SEC"

definition is_order_expiry_allowed :: "rat \<Rightarrow> sec \<Rightarrow> bool" where
  "is_order_expiry_allowed expiration now \<longleftrightarrow>
     expiration > of_int now \<and> expiration - of_int now \<le> of_int MAX_ORDER_EXPIRY_SEC"

subsection \<open>The clock that is running\<close>

datatype deadline_kind = DK_funding | DK_presign | DK_account | DK_krw | DK_cosign

text \<open>Who acts before the deadline (the \<open>owner\<close> column of \<open>DEADLINES\<close>).\<close>

fun deadline_owner :: "deadline_kind \<Rightarrow> signer" where
  "deadline_owner DK_funding = Customer"
| "deadline_owner DK_presign = Sponsor"
| "deadline_owner DK_account = Customer"
| "deadline_owner DK_krw = Sponsor"
| "deadline_owner DK_cosign = Customer"

datatype running_clock = Listing_expiry rat | Clock deadline_kind sec | Confirmation_wait sec

record oc_clock_fields =
  ck_state :: oc_state
  ck_expiration :: rat
  ck_fundingDeadline :: "sec option"
  ck_fundedAt :: "sec option"
  ck_presignDeadline :: "sec option"
  ck_presignedAt :: "sec option"
  ck_accountDeadline :: "sec option"
  ck_accountSentAt :: "sec option"
  ck_krwDeadline :: "sec option"
  ck_remittedAt :: "sec option"
  ck_cosignDeadline :: "sec option"
  ck_settlingAt :: "sec option"
  ck_updatedAt :: sec

definition current_onchain_deadline :: "oc_clock_fields \<Rightarrow> running_clock option" where
  "current_onchain_deadline o1 =
     (case ck_state o1 of
        Oc_listed \<Rightarrow> if ck_expiration o1 > 0 then Some (Listing_expiry (ck_expiration o1)) else None
      | Oc_bonded \<Rightarrow> map_option (Clock DK_funding) (truthy (ck_fundingDeadline o1))
      | Oc_funded \<Rightarrow> map_option (Clock DK_presign)
          (truthy (presign_deadline_of (ck_fundedAt o1) (ck_presignDeadline o1)))
      | Oc_presigned \<Rightarrow>
          (case truthy (ck_accountSentAt o1) of
             None \<Rightarrow> map_option (Clock DK_account)
               (truthy (account_deadline_of (ck_presignedAt o1) (ck_accountDeadline o1)))
           | Some sent \<Rightarrow> Some (Clock DK_krw
               (case ck_krwDeadline o1 of Some d \<Rightarrow> d | None \<Rightarrow> krw_deadline_from sent)))
      | Oc_remitted \<Rightarrow> map_option (Clock DK_cosign)
          (truthy (cosign_deadline_of (ck_remittedAt o1) (ck_cosignDeadline o1)))
      | Oc_settling \<Rightarrow> Some (Confirmation_wait
          ((case ck_settlingAt o1 of Some t \<Rightarrow> t | None \<Rightarrow> ck_updatedAt o1) + SETTLING_WARN_SEC))
      | _ \<Rightarrow> None)"

lemma oc_option_window_parts:
  assumes "\<not> is_past (Some (presign_deadline_from fundedAt)) presignedAt"
    and "\<not> is_past (Some (account_deadline_from presignedAt)) accountSentAt"
  shows "krw_deadline_from accountSentAt < fundedAt + MAX_OPTION_WINDOW_SEC"
    and "krw_deadline_from accountSentAt - accountSentAt = KRW_WINDOW_SEC"
    and "MAX_OPTION_WINDOW_SEC = 105 * 60"
    and "cosign_deadline_from (krw_deadline_from accountSentAt) + DISPUTE_RULING_BUDGET_SEC
         < fundedAt - FUNDING_WINDOW_SEC + MAX_TRADE_DURATION_SEC"
  using assms
  by (simp_all add: is_past_def presign_deadline_from_def account_deadline_from_def
      krw_deadline_from_def cosign_deadline_from_def oc_consts)

text \<open>A sponsor that presigns at the last moment and a customer that sends the account at the
  last moment cannot stretch the option on the locked price: the KRW deadline is never later than
  105 minutes after the funding confirmation, and the customer's delay never shortens the sponsor's
  30 minutes.\<close>

theorem oc_option_window:
  assumes "\<not> is_past (Some (presign_deadline_from fundedAt)) presignedAt"
    and "\<not> is_past (Some (account_deadline_from presignedAt)) accountSentAt"
  shows "(krw_deadline_from accountSentAt < fundedAt + MAX_OPTION_WINDOW_SEC)
    \<and> (krw_deadline_from accountSentAt - accountSentAt = KRW_WINDOW_SEC)
    \<and> (MAX_OPTION_WINDOW_SEC = 105 * 60)
    \<and> (cosign_deadline_from (krw_deadline_from accountSentAt) + DISPUTE_RULING_BUDGET_SEC
         < fundedAt - FUNDING_WINDOW_SEC + MAX_TRADE_DURATION_SEC)"
  using oc_option_window_parts [OF assms] by blast

theorem oc_option_window_witness:
  "krw_deadline_from 4000 < 0 + MAX_OPTION_WINDOW_SEC"
  by (rule oc_option_window [of _ 800, THEN conjunct1])
    (simp_all add: is_past_def presign_deadline_from_def account_deadline_from_def oc_consts)

end
