(* ===== verification/Admin.thy ===== *)
theory Admin
  imports Settings Ln_Effects_Inv Oc_Timing "HOL-Library.List_Lexorder" "HOL-Library.Char_ord"
begin

text \<open>
  The operator side that needs no order: alerts (\<open>daemon/src/admin/alerts.ts\<close>), the published state
  (\<open>admin/state.ts\<close>), effects that keep failing (\<open>admin/stuck.ts\<close>), a change of operators
  (\<open>orders/designated.ts\<close>), and the executors that put events on the relays and pushes on the web
  (\<open>nostr/publisher.ts\<close>, \<open>push/send.ts\<close>).

  Outside code is a parameter: \<open>wrap\<close> builds the NIP-17 envelope of an operator's message, \<open>msg\<close> gives the
  text column of an alert, a push service answers a subscription with an HTTP status or not at all.
\<close>

subsection \<open>Alerts\<close>

definition ack_alert :: "env \<Rightarrow> int \<Rightarrow> 'm db_scheme \<Rightarrow> bool \<times> 'm db_scheme" where
  "ack_alert e i w =
     (let hit = (\<lambda>a. int (al_id a) = i \<and> al_acked_at a = None);
          w1 = w\<lparr>alerts := update_where hit (\<lambda>a. a\<lparr>al_acked_at := Some (now_sec w)\<rparr>) (alerts w)\<rparr>
      in if list_ex hit (alerts w) then (True, request_state_publish e w1) else (False, w1))"

fun alert_level_str :: "alert_level \<Rightarrow> string" where
  "alert_level_str Warn = ''warn''"
| "alert_level_str Anomaly = ''anomaly''"

definition alert_json :: "(alert \<Rightarrow> string) \<Rightarrow> alert \<Rightarrow> json" where
  "alert_json msg a = J_obj
     ([(''id'', j_int (int (al_id a))), (''level'', J_str (alert_level_str (al_level a)))]
      @ j_opt ''track'' (map_option (\<lambda>t. J_str (track_name t)) (al_track a))
      @ j_opt_s ''orderId'' (al_order a)
      @ [(''message'', J_str (msg a)), (''raisedAt'', j_int (al_raised_at a))])"

definition open_alerts :: "'m db_scheme \<Rightarrow> alert list" where
  "open_alerts w = filter (\<lambda>a. al_acked_at a = None) (alerts w)"

subsection \<open>The published state\<close>

definition DAEMON_VERSION :: string where "DAEMON_VERSION = ''0.3.0''"
definition STATE_INTERVAL_MS :: msec where "STATE_INTERVAL_MS = 60000"
definition STATE_RETENTION_SEC :: sec where "STATE_RETENTION_SEC = 24 * 60 * 60"

text \<open>What the deployment fixes: the mode, the relay list and the epoch.\<close>

record deployment =
  dp_mode :: string
  dp_relays :: "string list"
  dp_epoch :: sec

definition onchain_windows_json :: json where
  "onchain_windows_json = J_obj
     [(''funding'', j_int FUNDING_WINDOW_SEC), (''presign'', j_int PRESIGN_WINDOW_SEC),
      (''account'', j_int ACCOUNT_WINDOW_SEC), (''krw'', j_int KRW_WINDOW_SEC),
      (''cosign'', j_int COSIGN_WINDOW_SEC)]"

definition status_count :: "eff_status \<Rightarrow> 'm db_scheme \<Rightarrow> int" where
  "status_count s w = int (length (filter (\<lambda>r. ef_status r = s) (q_rows w)))"

definition build_admin_state :: "env \<Rightarrow> deployment \<Rightarrow> (alert \<Rightarrow> string) \<Rightarrow> 'm db_scheme \<Rightarrow> json" where
  "build_admin_state e dp msg w = J_obj
     [(''v'', j_int 1), (''daemonVersion'', J_str DAEMON_VERSION), (''protocol'', j_int PROTOCOL_VERSION),
      (''mode'', J_str (dp_mode dp)), (''startedAt'', j_int (e_started_at e)), (''epoch'', j_int (dp_epoch dp)),
      (''onchainWindows'', onchain_windows_json), (''heartbeatAt'', j_int (now_sec w)),
      (''relays'', J_arr (map J_str (dp_relays dp))), (''settings'', settings_json (db_settings w)),
      (''alerts'', J_arr (map (alert_json msg) (open_alerts w))),
      (''effects'', J_obj [(''pending'', j_int (status_count Pending w)), (''dead'', j_int (status_count Dead w))])]"

definition admin_state_d :: "string \<Rightarrow> string \<Rightarrow> string" where
  "admin_state_d adminTag operator = ''lnpay-admin:'' @ adminTag @ '':state:'' @ operator"

definition state_cell :: "string \<Rightarrow> string" where "state_cell operator = ''state.createdAt:'' @ operator"

definition state_run ::
  "env \<Rightarrow> deployment \<Rightarrow> (alert \<Rightarrow> string) \<Rightarrow> relay \<Rightarrow> string \<Rightarrow> 'm db_scheme \<Rightarrow> eff_result outcome option" where
  "state_run e dp msg rl operator w =
     (if operator \<notin> set (e_operators e) then Some (O_dead ''not an operator any more'')
      else
        (let createdAt = max (now_sec w) (cell_int (kv_get (state_cell operator) w) 0 + 1) in
         case e_seal e operator (build_admin_state e dp msg w) of
           None \<Rightarrow> None
         | Some c \<Rightarrow>
             (let r = rl \<lparr>ev_kind = ADMIN_STATE_KIND, ev_created_at = createdAt,
                 ev_tags = [[''d'', admin_state_d (e_tag_admin e) operator], [''p'', operator],
                            [''t'', e_tag_admin e],
                            [''expiration'', int_str (createdAt + STATE_RETENTION_SEC)]],
                 ev_content = c\<rparr>
              in if rp_accepted r = [] then Some (O_retry (joined_reasons (map snd (rp_rejected r))) None)
                 else Some (O_done (R_published (Some createdAt) [])))))"

definition state_on_done :: "string \<Rightarrow> eff_result \<Rightarrow> 'm db_scheme \<Rightarrow> 'm db_scheme option" where
  "state_on_done operator r w =
     (case r of R_published (Some t) _ \<Rightarrow> Some (kv_set (state_cell operator) (int_str t) w) | _ \<Rightarrow> None)"

subsection \<open>Publishing a signed event\<close>

text \<open>\<open>expiration > 0 && expiration <= now\<close>.\<close>

definition event_expired :: "nostr_event \<Rightarrow> sec \<Rightarrow> bool" where
  "event_expired ev now \<longleftrightarrow>
     (case js_number_or0 (tag_value ''expiration'' (ev_tags ev)) of
        Fin x \<Rightarrow> 0 < x \<and> x \<le> of_int now
      | Inf pos \<Rightarrow> False
      | NaN \<Rightarrow> False)"

definition nostr_run :: "relay \<Rightarrow> nostr_event \<Rightarrow> 'm db_scheme \<Rightarrow> eff_result outcome" where
  "nostr_run rl ev w =
     (if event_expired ev (now_sec w) then O_dead ''expired''
      else (let r = rl ev in
            if rp_accepted r \<noteq> [] then O_done R_none
            else O_retry (joined_reasons (map (\<lambda>p. fst p @ '': '' @ snd p) (rp_rejected r))) None))"

subsection \<open>Web pushes\<close>

text \<open>A push service: the status of a POST to the subscription, \<open>None\<close> when encrypting or reaching it fails.\<close>

type_synonym pusher = "push_sub \<Rightarrow> string \<Rightarrow> string \<Rightarrow> int option"

definition push_targets :: "string \<Rightarrow> string option \<Rightarrow> 'm db_scheme \<Rightarrow> push_sub list" where
  "push_targets pubkey endpoint w =
     filter (\<lambda>s. ps_pubkey s = pubkey \<and> ps_dead_at s = None
        \<and> (\<not> js_true_s endpoint \<or> Some (ps_endpoint s) = endpoint)) (push_subs w)"

definition push_run ::
  "pusher option \<Rightarrow> string \<Rightarrow> string \<Rightarrow> string \<Rightarrow> string option \<Rightarrow> 'm db_scheme \<Rightarrow> eff_result outcome" where
  "push_run cfg pubkey notice oid endpoint w =
     (case cfg of
        None \<Rightarrow> O_done (R_push [])
      | Some post \<Rightarrow>
          (let subs = push_targets pubkey endpoint w in
           if subs = [] then O_done (R_push [])
           else
             (let answers = map (\<lambda>s. (ps_endpoint s, post s notice oid)) subs;
                  dead = map fst (filter (\<lambda>a. snd a = Some 404 \<or> snd a = Some 410) answers);
                  failed = filter (\<lambda>a. snd a = None) answers
              in if length failed = length subs then O_retry ''push service unreachable'' None
                 else O_done (R_push dead))))"

definition push_on_done :: "eff_result \<Rightarrow> 'm db_scheme \<Rightarrow> 'm db_scheme option" where
  "push_on_done r w =
     (case r of
        R_push dead \<Rightarrow>
          Some (w\<lparr>push_subs := fold (\<lambda>ep. update_where (\<lambda>s. ps_endpoint s = ep)
                  (\<lambda>s. s\<lparr>ps_dead_at := Some (now_sec w)\<rparr>)) dead (push_subs w)\<rparr>)
      | _ \<Rightarrow> None)"

subsection \<open>Effects that keep failing\<close>

definition STUCK_EFFECT_ATTEMPTS :: int where "STUCK_EFFECT_ATTEMPTS = 6"

definition watched_kind :: "string \<Rightarrow> bool" where
  "watched_kind k \<longleftrightarrow> take 3 k = ''ln.'' \<or> take 3 k = ''oc.'' \<or> take 5 k = ''hold.''"

fun payload_hash :: "payload \<Rightarrow> hex option" where
  "payload_hash (P_hold_create h) = Some h"
| "payload_hash (P_hold_dispose h a) = Some h"
| "payload_hash _ = None"

fun payload_order :: "payload \<Rightarrow> string option" where
  "payload_order (P_ln_close oid) = Some oid"
| "payload_order (P_ln_payout oid) = Some oid"
| "payload_order (P_ln_probe oid b) = Some oid"
| "payload_order (P_ln_publish oid) = Some oid"
| "payload_order (P_ln_detail oid) = Some oid"
| "payload_order (P_oc_publish oid) = Some oid"
| "payload_order (P_oc_detail oid) = Some oid"
| "payload_order (P_oc_broadcast oid txid key) = Some oid"
| "payload_order _ = None"

definition locate :: "string \<Rightarrow> payload \<Rightarrow> 'm db_scheme \<Rightarrow> track option \<times> string option" where
  "locate kind p w =
     (case payload_hash p of
        Some h \<Rightarrow>
          (case hold_get h w of
             Some row \<Rightarrow> (Some (track_of (h_purpose row)), Some (h_order row))
           | None \<Rightarrow> (None, None))
      | None \<Rightarrow>
          (if take 3 kind = ''ln.'' then Some Track_ln
           else if take 3 kind = ''oc.'' then Some Track_onchain else None,
           payload_order p))"

definition stuck_rows :: "'m db_scheme \<Rightarrow> payload effect_row list" where
  "stuck_rows w =
     filter (\<lambda>r. is_pending r \<and> ef_attempts r \<ge> STUCK_EFFECT_ATTEMPTS \<and> watched_kind (ef_kind r)) (q_rows w)"

definition stuck_key :: "nat \<Rightarrow> string" where
  "stuck_key i = ''effect:'' @ nat_digits i @ '':stuck''"

definition raise_stuck :: "env \<Rightarrow> payload effect_row \<Rightarrow> 'm db_scheme \<Rightarrow> 'm db_scheme" where
  "raise_stuck e r w =
     (case locate (ef_kind r) (ef_payload r) w of
        (trk, oid) \<Rightarrow> raise_alert e (stuck_key (ef_id r)) Anomaly trk
          (if js_true_s oid then oid else None) w)"

definition raise_stuck_effects :: "env \<Rightarrow> 'm db_scheme \<Rightarrow> 'm db_scheme" where
  "raise_stuck_effects e w = fold (raise_stuck e) (stuck_rows w) w"

subsection \<open>A change of operators\<close>

text \<open>
  JavaScript sorts strings by their code units, which is the lexicographic order on the strings of the model.
\<close>

definition operators_changed :: "env \<Rightarrow> track \<Rightarrow> 'm db_scheme \<Rightarrow> bool \<times> 'm db_scheme" where
  "operators_changed e trk w =
     (let key = ''designated.operators:'' @ track_name trk;
          current = join '','' (sort (e_operators e)) in
      if kv_get key w = Some current then (False, w) else (True, kv_set key current w))"

text \<open>What installing the Lightning track does on start-up.\<close>

definition republish_designated :: "env \<Rightarrow> 'm db_scheme \<Rightarrow> 'm db_scheme" where
  "republish_designated e w =
     (case operators_changed e Track_ln w of
        (changed, w1) \<Rightarrow> if changed then fold request_projection (designated_order_ids w1) w1 else w1)"

subsection \<open>They all keep the Lightning database\<close>

lemma quiet_ack_alert [simp]: "quiet w (snd (ack_alert e i w))"
  by (simp add: ack_alert_def Let_def quiet_fields quiet_trans [OF quiet_fields(1) quiet_request_state_publish])

lemma quiet_raise_stuck [simp]: "quiet w (raise_stuck e r w)"
  by (simp add: raise_stuck_def split: prod.split)

lemma quiet_raise_stuck_effects [simp]: "quiet w (raise_stuck_effects e w)"
  unfolding raise_stuck_effects_def by (rule quiet_fold) simp

lemma quiet_operators_changed [simp]: "quiet w (snd (operators_changed e trk w))"
  by (simp add: operators_changed_def Let_def)

lemma quiet_republish_designated [simp]: "quiet w (republish_designated e w)"
proof -
  obtain b w1 where b: "operators_changed e Track_ln w = (b, w1)" by force
  have q: "quiet w w1" using quiet_operators_changed [of w e Track_ln] b by simp
  have "quiet w1 (fold request_projection (designated_order_ids w1) w1)" by (rule quiet_fold) simp
  with q show ?thesis by (auto simp: republish_designated_def b intro: quiet_trans)
qed

lemma state_on_done_ok: "state_on_done op r w = Some w' \<Longrightarrow> ln_ok e w w'"
  by (auto simp: state_on_done_def ln_ok_quiet split: eff_result.splits option.splits)

lemma ln_ok_push_subs: "ln_ok e w (w\<lparr>push_subs := ss\<rparr>)"
  by (auto simp: ln_ok_def ln_winv_def hold_inv_def ln_inv_def q_wf_def hold_wf_def orders_evolve_def get_order_def)

lemma push_on_done_ok: "push_on_done r w = Some w' \<Longrightarrow> ln_ok e w w'"
  by (auto simp: push_on_done_def ln_ok_push_subs split: eff_result.splits)

subsection \<open>Properties\<close>

definition alerted :: "string \<Rightarrow> 'm db_scheme \<Rightarrow> bool" where
  "alerted k w \<longleftrightarrow> list_ex (\<lambda>a. al_dedup a = k) (alerts w)"

lemma alerts_enq [simp]: "alerts (enq k p d w) = alerts w"
  by (simp add: enq_def insert_effect_def)

lemma alerts_fold_enq [simp]: "alerts (fold (\<lambda>x. enq k (f x) (g x)) xs w) = alerts w"
  by (induction xs arbitrary: w) simp_all

lemma alerted_raise [simp]: "alerted k (raise_alert e d l t oid w) \<longleftrightarrow> k = d \<or> alerted k w"
  by (auto simp: alerted_def raise_alert_def request_state_publish_def notify_operators_def)

lemma raise_known: "alerted d w \<Longrightarrow> raise_alert e d l t oid w = w"
  by (simp add: alerted_def raise_alert_def)

lemma alerted_raise_stuck [simp]: "alerted k (raise_stuck e r w) \<longleftrightarrow> k = stuck_key (ef_id r) \<or> alerted k w"
  by (simp add: raise_stuck_def split: prod.split)

lemma alerted_fold_stuck:
  "alerted k (fold (raise_stuck e) rs w) \<longleftrightarrow> (\<exists>r \<in> set rs. k = stuck_key (ef_id r)) \<or> alerted k w"
  by (induction rs arbitrary: w) auto

lemma fold_stuck_known:
  "(\<And>r. r \<in> set rs \<Longrightarrow> alerted (stuck_key (ef_id r)) w) \<Longrightarrow> fold (raise_stuck e) rs w = w"
  by (induction rs) (simp_all add: raise_stuck_def raise_known split: prod.split)

text \<open>Recording an intent, hence raising an alert, makes no row stuck: a new row has not failed yet.\<close>

lemma stuck_rows_enq [simp]: "stuck_rows (enq k p d w) = stuck_rows w"
  by (simp add: stuck_rows_def enq_def insert_effect_def new_row_def STUCK_EFFECT_ATTEMPTS_def)

lemma stuck_rows_fold [simp]: "stuck_rows (fold (\<lambda>x. enq k (f x) (g x)) xs w) = stuck_rows w"
  by (induction xs arbitrary: w) simp_all

lemma stuck_rows_raise [simp]: "stuck_rows (raise_stuck e r w) = stuck_rows w"
proof -
  have "stuck_rows (w\<lparr>alerts := a\<rparr>) = stuck_rows w" for a :: "alert list" by (simp add: stuck_rows_def)
  then show ?thesis
    by (simp add: raise_stuck_def raise_alert_def request_state_publish_def notify_operators_def split: prod.split)
qed

lemma stuck_rows_fold_raise: "stuck_rows (fold (raise_stuck e) rs w) = stuck_rows w"
  by (induction rs arbitrary: w) simp_all

text \<open>Nothing fails in silence for ever: after a tick every pending settlement, payment or close that has
  failed six times has an alert of its own, the pass over the queue changes nothing else, and the next
  pass over the same queue raises nothing more.\<close>

theorem stuck_effects_alerted:
  "(\<forall>r \<in> set (stuck_rows w). alerted (stuck_key (ef_id r)) (raise_stuck_effects e w))
   \<and> raise_stuck_effects e (raise_stuck_effects e w) = raise_stuck_effects e w
   \<and> ln_orders (raise_stuck_effects e w) = ln_orders w
   \<and> invoices (raise_stuck_effects e w) = invoices w"
proof (intro conjI)
  show all: "\<forall>r \<in> set (stuck_rows w). alerted (stuck_key (ef_id r)) (raise_stuck_effects e w)"
    by (auto simp: raise_stuck_effects_def alerted_fold_stuck)
  have rows: "stuck_rows (raise_stuck_effects e w) = stuck_rows w"
    by (simp add: raise_stuck_effects_def stuck_rows_fold_raise)
  show "raise_stuck_effects e (raise_stuck_effects e w) = raise_stuck_effects e w"
    unfolding raise_stuck_effects_def [of e "raise_stuck_effects e w"] rows
    by (rule fold_stuck_known) (use all in blast)
qed (simp_all add: quietD [OF quiet_raise_stuck_effects])

definition toy_stuck_db :: db where
  "toy_stuck_db = empty_db\<lparr>q_rows := [(new_row 7 ''ln.payout'' (P_ln_payout ''ord1'') None 0 0)\<lparr>ef_attempts := 6\<rparr>]\<rparr>"

theorem stuck_effects_alerted_witness:
  "alerted (stuck_key 7) (raise_stuck_effects toy_env toy_stuck_db)"
proof -
  have "(new_row 7 ''ln.payout'' (P_ln_payout ''ord1'') None 0 0)\<lparr>ef_attempts := 6\<rparr> \<in> set (stuck_rows toy_stuck_db)"
    by (simp add: stuck_rows_def toy_stuck_db_def new_row_def is_pending_def STUCK_EFFECT_ATTEMPTS_def watched_kind_def)
  from bspec [OF stuck_effects_alerted [THEN conjunct1] this, of toy_env] show ?thesis by (simp add: new_row_def)
qed

end
