(* ===== verification/Chat.thy ===== *)
theory Chat
  imports Admin
begin

text \<open>
  Who an order belongs to (\<open>daemon/src/orders/directory.ts\<close>, the Lightning directory of \<open>daemon/src/ln/index.ts\<close>),
  the relaying of a user's messages to the operators and back (\<open>daemon/src/admin/chat.ts\<close>) and the push for
  a message between the parties (\<open>daemon/src/admin/peer-chat.ts\<close>).  A message the daemon cannot seal throws.
\<close>

subsection \<open>Directories\<close>

record parties =
  pt_version :: nat
  pt_customer :: string
  pt_sponsor :: "string option"

type_synonym 'm directory = "track \<Rightarrow> string \<Rightarrow> 'm db_scheme \<Rightarrow> parties option"

definition ln_directory :: "'m directory" where
  "ln_directory trk oid w =
     (if trk \<noteq> Track_ln then None
      else map_option (\<lambda>r. \<lparr>pt_version = o_version r, pt_customer = o_customer r,
             pt_sponsor = (if js_true_s (o_sponsor r) then o_sponsor r else None)\<rparr>) (get_order oid w))"

fun compose_directories :: "'m directory list \<Rightarrow> 'm directory" where
  "compose_directories [] trk oid w = None"
| "compose_directories (d # ds) trk oid w =
     (case d trk oid w of Some found \<Rightarrow> Some found | None \<Rightarrow> compose_directories ds trk oid w)"

definition track_of_json :: "json option \<Rightarrow> track option" where
  "track_of_json v =
     (case jstr v of
        Some s \<Rightarrow> if s = ''ln'' then Some Track_ln else if s = ''onchain'' then Some Track_onchain else None
      | None \<Rightarrow> None)"

record order_target =
  tg_track :: track
  tg_order :: string
  tg_version :: int

definition parse_target :: "json option \<Rightarrow> order_target option" where
  "parse_target v = do {
     v \<leftarrow> v;
     trk \<leftarrow> track_of_json (jfield ''track'' v);
     oid \<leftarrow> jstr (jfield ''orderId'' v);
     n \<leftarrow> jint (jfield ''version'' v);
     if oid = [] then None else Some \<lparr>tg_track = trk, tg_order = oid, tg_version = n\<rparr>
   }"

definition check_target :: "'m directory \<Rightarrow> json option \<Rightarrow> 'm db_scheme \<Rightarrow> string + (order_target \<times> parties)" where
  "check_target dir v w =
     (case parse_target v of
        None \<Rightarrow> Inl ''bad-target''
      | Some t \<Rightarrow>
          (case dir (tg_track t) (tg_order t) w of
             None \<Rightarrow> Inl ''unknown-order''
           | Some p \<Rightarrow> if int (pt_version p) \<noteq> tg_version t then Inl ''stale-version'' else Inr (t, p)))"

datatype role = Role_customer | Role_sponsor

fun role_str :: "role \<Rightarrow> string" where
  "role_str Role_customer = ''customer''"
| "role_str Role_sponsor = ''sponsor''"

definition role_in :: "parties \<Rightarrow> string \<Rightarrow> role option" where
  "role_in p pubkey =
     (if pubkey = pt_customer p then Some Role_customer
      else if js_true_s (pt_sponsor p) \<and> Some pubkey = pt_sponsor p then Some Role_sponsor
      else None)"

definition track_of_event :: "env \<Rightarrow> inbox_event \<Rightarrow> track option" where
  "track_of_event e ev =
     (let t = tag_value ''t'' (ie_tags ev) in
      if t = Some (e_tag_ln e) then Some Track_ln
      else if t = Some (e_tag_oc e) then Some Track_onchain else None)"

text \<open>The checks both chats share: the track, the order and the sender's role in it.\<close>

definition chat_sender ::
  "env \<Rightarrow> 'm directory \<Rightarrow> inbox_event \<Rightarrow> 'm db_scheme \<Rightarrow> string + (track \<times> string \<times> parties \<times> role)" where
  "chat_sender e dir ev w =
     (case track_of_event e ev of
        None \<Rightarrow> Inl ''no-track''
      | Some trk \<Rightarrow>
          (case extract_order_id (ie_tags ev) of
             None \<Rightarrow> Inl ''no-order''
           | Some oid \<Rightarrow>
               if oid = [] then Inl ''no-order''
               else (case dir trk oid w of
                  None \<Rightarrow> Inl ''unknown-order''
                | Some p \<Rightarrow>
                    (case role_in p (ie_pubkey ev) of
                       None \<Rightarrow> Inl ''not-a-party''
                     | Some r \<Rightarrow> Inr (trk, oid, p, r)))))"

subsection \<open>Messages to and from the operators\<close>

definition CHAT_COPY_RETENTION_SEC :: sec where "CHAT_COPY_RETENTION_SEC = 90 * 24 * 60 * 60"
definition CHAT_DM_QUIET_SEC :: sec where "CHAT_DM_QUIET_SEC = 10 * 60"
definition MAX_CHAT_TEXT :: nat where "MAX_CHAT_TEXT = 2000"
definition MESSAGE_KIND :: int where "MESSAGE_KIND = 3838"

definition is_call_payload :: "json \<Rightarrow> bool" where
  "is_call_payload p \<longleftrightarrow> jstr (jfield ''type'' p) = Some ''call''
     \<and> (case jstr (jfield ''reason'' p) of
          Some reason \<Rightarrow> js_trim reason \<noteq> [] \<and> length reason \<le> MAX_CHAT_TEXT
        | None \<Rightarrow> False)
     \<and> (case jfield ''peerChatKey'' p of
          None \<Rightarrow> True
        | Some k \<Rightarrow> (case k of J_str s \<Rightarrow> is_hex64 s | _ \<Rightarrow> False))"

definition is_dispute_payload :: "json \<Rightarrow> bool" where
  "is_dispute_payload p =
     (case jstr (jfield ''type'' p) of
        None \<Rightarrow> False
      | Some t \<Rightarrow>
          if t = ''text'' then jstr (jfield ''content'' p) \<noteq> None
          else if t = ''account-reveal'' then
            (case jfield ''accountInfo'' p of Some (J_obj _) \<Rightarrow> True | Some (J_arr _) \<Rightarrow> True | _ \<Rightarrow> False)
          else if t = ''call'' then is_call_payload p
          else False)"

definition chat_copy :: "track \<Rightarrow> string \<Rightarrow> string \<Rightarrow> string \<Rightarrow> string \<Rightarrow> json \<Rightarrow> sec \<Rightarrow> string \<Rightarrow> json" where
  "chat_copy trk oid sender recipient roleName body sentAt originalId = J_obj
     [(''track'', J_str (track_name trk)), (''orderId'', J_str oid), (''from'', J_str sender),
      (''to'', J_str recipient), (''role'', J_str roleName), (''payload'', body),
      (''sentAt'', j_int sentAt), (''originalId'', J_str originalId)]"

definition forward_to_operators :: "env \<Rightarrow> json \<Rightarrow> string \<Rightarrow> 'm db_scheme \<Rightarrow> 'm db_scheme option" where
  "forward_to_operators e copy originalId w =
     for_each (\<lambda>op w.
       case e_seal e op copy of
         None \<Rightarrow> None
       | Some c \<Rightarrow> Some (enq ''nostr.publish''
           (P_publish \<lparr>ev_kind = MESSAGE_KIND, ev_created_at = now_sec w,
              ev_tags = [[''p'', op], [''t'', e_tag_admin e], [''action'', ''admin-chat''], [''e'', originalId],
                         [''expiration'', int_str (now_sec w + CHAT_COPY_RETENTION_SEC)]],
              ev_content = c\<rparr>)
           (Some (''chat-copy:'' @ originalId @ '':'' @ op)) w)) (e_operators e) w"

definition chat_dm_key :: "track \<Rightarrow> string \<Rightarrow> string" where
  "chat_dm_key trk oid = ''chat.dm:'' @ track_name trk @ '':'' @ oid"

definition dm_operators :: "env \<Rightarrow> track \<Rightarrow> string \<Rightarrow> 'm db_scheme \<Rightarrow> 'm db_scheme" where
  "dm_operators e trk oid w =
     (if now_sec w - cell_int (kv_get (chat_dm_key trk oid) w) 0 < CHAT_DM_QUIET_SEC then w
      else notify_operators e (kv_set (chat_dm_key trk oid) (int_str (now_sec w)) w))"

definition call_operators :: "env \<Rightarrow> track \<Rightarrow> string \<Rightarrow> 'm db_scheme \<Rightarrow> 'm db_scheme" where
  "call_operators e trk oid w = kv_set (chat_dm_key trk oid) (int_str (now_sec w)) (notify_operators e w)"

text \<open>One message signed by the app to a party: published, pushed, and copied to the operators.\<close>

definition send_as_app ::
  "env \<Rightarrow> track \<Rightarrow> string \<Rightarrow> string \<Rightarrow> json \<Rightarrow> string \<Rightarrow> 'm db_scheme \<Rightarrow> (string \<times> 'm db_scheme) option" where
  "send_as_app e trk oid recipient body notice w =
     (case e_seal e recipient body of
        None \<Rightarrow> None
      | Some c \<Rightarrow>
          (let ev = \<lparr>ev_kind = MESSAGE_KIND, ev_created_at = now_sec w,
                 ev_tags = [[''a'', order_ref e oid], [''action'', ''dispute-message''],
                            [''t'', if trk = Track_ln then e_tag_ln e else e_tag_oc e],
                            [''p'', recipient], [''p'', e_app_pubkey e]],
                 ev_content = c\<rparr>;
               i = e_event_id e ev;
               w1 = enq ''nostr.publish'' (P_publish ev) (Some (''chat:'' @ i)) w;
               w2 = queue_push recipient notice oid None w1
           in map_option (Pair i) (forward_to_operators e
                (chat_copy trk oid (e_app_pubkey e) recipient ''admin'' body (now_sec w) i) i w2)))"

definition disclosed_key :: "track \<Rightarrow> string \<Rightarrow> string" where
  "disclosed_key trk oid = ''chat.disclosed:'' @ track_name trk @ '':'' @ oid"

definition tell_counterparty :: "env \<Rightarrow> track \<Rightarrow> string \<Rightarrow> string \<Rightarrow> 'm db_scheme \<Rightarrow> 'm db_scheme option" where
  "tell_counterparty e trk oid recipient w =
     (if kv_get (disclosed_key trk oid) w \<noteq> None then Some w
      else map_option snd (send_as_app e trk oid recipient (J_obj [(''type'', J_str ''called'')]) ''operatorCalled''
             (kv_set (disclosed_key trk oid) (int_str (now_sec w)) w)))"

definition counterparty :: "parties \<Rightarrow> role \<Rightarrow> string option" where
  "counterparty p r = (case r of Role_customer \<Rightarrow> pt_sponsor p | Role_sponsor \<Rightarrow> Some (pt_customer p))"

definition chat_forwarder :: "'m directory \<Rightarrow> 'm handler" where
  "chat_forwarder dir e ev w =
     (case chat_sender e dir ev w of
        Inl reason \<Rightarrow> Some (H_ignored reason, w)
      | Inr (trk, oid, p, r) \<Rightarrow>
          (case e_unseal e (ie_content ev) (ie_pubkey ev) of
             None \<Rightarrow> Some (H_ignored ''undecryptable'', w)
           | Some body \<Rightarrow>
               if \<not> is_dispute_payload body then Some (H_ignored ''bad-payload'', w)
               else do {
                 w1 \<leftarrow> forward_to_operators e
                   (chat_copy trk oid (ie_pubkey ev) (e_app_pubkey e) (role_str r) body (ie_created_at ev) (ie_id ev))
                   (ie_id ev) w;
                 if jstr (jfield ''type'' body) = Some ''call'' then
                   (let w2 = call_operators e trk oid w1 in
                    if js_true_s (counterparty p r) \<and> js_true_s (jstr (jfield ''peerChatKey'' body))
                    then map_option (Pair H_ok) (tell_counterparty e trk oid (the (counterparty p r)) w2)
                    else Some (H_ok, w2))
                 else Some (H_ok, dm_operators e trk oid w1)
               }))"

subsection \<open>Messages between the parties\<close>

definition PEER_PUSH_QUIET_SEC :: sec where "PEER_PUSH_QUIET_SEC = 5 * 60"

definition peer_key :: "track \<Rightarrow> string \<Rightarrow> string" where
  "peer_key trk oid = ''peer.last:'' @ track_name trk @ '':'' @ oid"

definition peer_pinger :: "'m directory \<Rightarrow> 'm handler" where
  "peer_pinger dir e ev w =
     (case chat_sender e dir ev w of
        Inl reason \<Rightarrow> Some (H_ignored reason, w)
      | Inr (trk, oid, p, r) \<Rightarrow>
          if \<not> js_true_s (counterparty p r) then Some (H_ignored ''no-counterparty'', w)
          else
            (let now = now_sec w;
                 last_at = kv_get (peer_key trk oid) w;
                 w1 = kv_set (peer_key trk oid) (int_str now) w
             in if last_at \<noteq> None \<and> now - cell_int last_at 0 < PEER_PUSH_QUIET_SEC then Some (H_ok, w1)
                else Some (H_ok, queue_push (the (counterparty p r)) ''peerMessage'' oid None w1)))"

subsection \<open>The operators' side: \<open>chat.send\<close>\<close>

type_synonym 'm command = "env \<Rightarrow> json \<Rightarrow> 'm db_scheme \<Rightarrow> ((string + json) \<times> 'm db_scheme) option"

text \<open>A command answers an error (\<open>Inl\<close>) or a result (\<open>Inr\<close>); the name of the command is added by the reply.\<close>

definition chat_send :: "'m directory \<Rightarrow> 'm command" where
  "chat_send dir e args w =
     (case (track_of_json (jfield ''track'' args), jstr (jfield ''orderId'' args), jstr (jfield ''to'' args)) of
        (Some trk, Some oid, Some recipient) \<Rightarrow>
          (case jstr (jfield ''text'' args) of
             None \<Rightarrow> Some (Inl ''empty-text'', w)
           | Some txt \<Rightarrow>
               if js_trim txt = [] then Some (Inl ''empty-text'', w)
               else if length txt > MAX_CHAT_TEXT then Some (Inl ''too-long'', w)
               else (case dir trk oid w of
                  None \<Rightarrow> Some (Inl ''unknown-order'', w)
                | Some p \<Rightarrow>
                    if role_in p recipient = None then Some (Inl ''not-a-party'', w)
                    else map_option (\<lambda>(i, w'). (Inr (J_obj [(''eventId'', J_str i)]), w'))
                      (send_as_app e trk oid recipient
                        (J_obj [(''type'', J_str ''text''), (''content'', J_str txt)]) ''operatorMessage'' w)))
      | _ \<Rightarrow> Some (Inl ''bad-args'', w))"

subsection \<open>Frames\<close>

lemma forward_quiet:
  assumes "forward_to_operators e copy i w = Some w'"
  shows "quiet w w'"
proof -
  let ?f = "\<lambda>op w. case e_seal e op copy of
         None \<Rightarrow> None
       | Some c \<Rightarrow> Some (enq ''nostr.publish''
           (P_publish \<lparr>ev_kind = MESSAGE_KIND, ev_created_at = now_sec w,
              ev_tags = [[''p'', op], [''t'', e_tag_admin e], [''action'', ''admin-chat''], [''e'', i],
                         [''expiration'', int_str (now_sec w + CHAT_COPY_RETENTION_SEC)]],
              ev_content = c\<rparr>)
           (Some (''chat-copy:'' @ i @ '':'' @ op)) w)"
  have step: "quiet w t" if "quiet w s" and "?f op s = Some t" for op s t
    using that by (cases "e_seal e op copy") (auto intro: quiet_trans)
  show ?thesis
    by (rule for_each_invariant [where I = "quiet w" and f = ?f, OF step _ assms [unfolded forward_to_operators_def]])
      simp_all
qed

lemma quiet_dm_operators [simp]: "quiet w (dm_operators e trk oid w)"
  by (simp add: dm_operators_def quiet_trans [OF quiet_kv_set quiet_notify_operators])

lemma quiet_call_operators [simp]: "quiet w (call_operators e trk oid w)"
  by (simp add: call_operators_def quiet_trans [OF quiet_notify_operators quiet_kv_set])

lemma send_as_app_quiet: "send_as_app e trk oid rc body nt w = Some (i, w') \<Longrightarrow> quiet w w'"
  unfolding send_as_app_def Let_def
  by (auto split: option.splits dest!: forward_quiet intro: quiet_trans [OF quiet_enq quiet_trans [OF quiet_queue_push]])

lemma tell_counterparty_quiet:
  assumes "tell_counterparty e trk oid rc w = Some w'"
  shows "quiet w w'"
proof (cases "kv_get (disclosed_key trk oid) w = None")
  case True
  with assms obtain i where "send_as_app e trk oid rc (J_obj [(''type'', J_str ''called'')]) ''operatorCalled''
      (kv_set (disclosed_key trk oid) (int_str (now_sec w)) w) = Some (i, w')"
    by (auto simp: tell_counterparty_def)
  from quiet_trans [OF quiet_kv_set send_as_app_quiet [OF this]] show ?thesis .
qed (use assms in \<open>simp add: tell_counterparty_def\<close>)

lemma chat_forwarder_quiet:
  assumes "chat_forwarder dir e ev w = Some (res, w')"
  shows "quiet w w'"
proof (cases "chat_sender e dir ev w")
  case (Inr x)
  obtain trk oid p r where x: "x = (trk, oid, p, r)" by (cases x) auto
  show ?thesis
  proof (cases "e_unseal e (ie_content ev) (ie_pubkey ev)")
    case (Some body)
    show ?thesis
    proof (cases "is_dispute_payload body")
      case True
      with assms Inr x Some obtain w1 where
        fw: "forward_to_operators e
             (chat_copy trk oid (ie_pubkey ev) (e_app_pubkey e) (role_str r) body (ie_created_at ev) (ie_id ev)) (ie_id ev) w
             = Some w1"
        and rest: "tell_counterparty e trk oid (the (counterparty p r)) (call_operators e trk oid w1) = Some w'
          \<or> w' = call_operators e trk oid w1 \<or> w' = dm_operators e trk oid w1"
        by (auto simp: chat_forwarder_def Let_def split: if_splits)
      from rest have "quiet w1 w'" using quiet_trans [OF quiet_call_operators tell_counterparty_quiet] by auto
      with forward_quiet [OF fw] show ?thesis by (rule quiet_trans)
    qed (use assms Inr x Some in \<open>simp add: chat_forwarder_def\<close>)
  qed (use assms Inr x in \<open>simp add: chat_forwarder_def\<close>)
qed (use assms in \<open>simp add: chat_forwarder_def\<close>)

lemma peer_pinger_quiet: "peer_pinger dir e ev w = Some (res, w') \<Longrightarrow> quiet w w'"
  by (auto simp: peer_pinger_def Let_def split: sum.splits if_splits intro: quiet_trans [OF quiet_kv_set quiet_queue_push])

lemma chat_send_quiet: "chat_send dir e args w = Some (res, w') \<Longrightarrow> quiet w w'"
  by (auto simp: chat_send_def split: option.splits if_splits prod.splits dest!: send_as_app_quiet)

subsection \<open>Properties\<close>

lemma chat_sender_ln:
  assumes "chat_sender e ln_directory ev w = Inr (trk, oid, p, r)"
  shows "\<exists>x. get_order oid w = Some x \<and> pt_customer p = o_customer x
    \<and> (ie_pubkey ev = o_customer x \<and> r = Role_customer
       \<or> o_sponsor x = Some (ie_pubkey ev) \<and> ie_pubkey ev \<noteq> o_customer x \<and> r = Role_sponsor)
    \<and> (js_true_s (counterparty p r) \<longrightarrow> the (counterparty p r) =
         (if r = Role_customer then the (o_sponsor x) else o_customer x))"
  using assms
  by (auto simp: chat_sender_def ln_directory_def role_in_def counterparty_def split: option.splits if_splits)

text \<open>The chats reach only the two parties: a message between the parties pushes at most one notice, to the
  other party of an order the sender belongs to, and a sender who is no party of a known order changes
  nothing at all, in either chat.\<close>

theorem chat_only_between_parties:
  "(peer_pinger ln_directory e ev w = Some (res, w') \<longrightarrow>
      q_rows w' = q_rows w \<or>
      (\<exists>oid r row recipient. get_order oid w = Some r \<and> q_rows w' = q_rows w @ [row]
         \<and> ef_payload row = P_push recipient ''peerMessage'' oid None
         \<and> (ie_pubkey ev = o_customer r \<and> o_sponsor r = Some recipient
            \<or> o_sponsor r = Some (ie_pubkey ev) \<and> ie_pubkey ev \<noteq> o_customer r \<and> recipient = o_customer r)))
   \<and> (chat_sender e dir ev w = Inl why \<longrightarrow>
      peer_pinger dir e ev w = Some (H_ignored why, w) \<and> chat_forwarder dir e ev w = Some (H_ignored why, w))"
proof (intro conjI impI)
  assume run: "peer_pinger ln_directory e ev w = Some (res, w')"
  show "q_rows w' = q_rows w \<or>
      (\<exists>oid r row recipient. get_order oid w = Some r \<and> q_rows w' = q_rows w @ [row]
         \<and> ef_payload row = P_push recipient ''peerMessage'' oid None
         \<and> (ie_pubkey ev = o_customer r \<and> o_sponsor r = Some recipient
            \<or> o_sponsor r = Some (ie_pubkey ev) \<and> ie_pubkey ev \<noteq> o_customer r \<and> recipient = o_customer r))"
  proof (cases "chat_sender e ln_directory ev w")
    case (Inl why)
    with run show ?thesis by (simp add: peer_pinger_def)
  next
    case (Inr x)
    obtain trk oid p r where x: "x = (trk, oid, p, r)" by (cases x) auto
    from chat_sender_ln [OF Inr [unfolded x]] obtain y where y: "get_order oid w = Some y"
      "ie_pubkey ev = o_customer y \<and> r = Role_customer
       \<or> o_sponsor y = Some (ie_pubkey ev) \<and> ie_pubkey ev \<noteq> o_customer y \<and> r = Role_sponsor"
      "js_true_s (counterparty p r) \<longrightarrow> the (counterparty p r) =
         (if r = Role_customer then the (o_sponsor y) else o_customer y)"
      by blast
    have sp: "counterparty p r = o_sponsor y" if "r = Role_customer" "js_true_s (counterparty p r)"
      using Inr [unfolded x] that y(1)
      by (auto simp: chat_sender_def ln_directory_def counterparty_def split: option.splits if_splits)
    show ?thesis
    proof (cases "q_rows w' = q_rows w")
      case False
      then have j: "js_true_s (counterparty p r)"
        and w': "w' = queue_push (the (counterparty p r)) ''peerMessage'' oid None
            (kv_set (peer_key trk oid) (int_str (now_sec w)) w)"
        using run Inr x by (auto simp: peer_pinger_def Let_def kv_set_def split: if_splits)
      have "q_rows w' = q_rows w @ [new_row (q_seq w) ''push.send''
          (P_push (the (counterparty p r)) ''peerMessage'' oid None) None 0 (q_now w)]"
        by (simp add: w' queue_push_def enq_def insert_effect_def dedup_clash_def kv_set_def)
      moreover have "ef_payload (new_row (q_seq w) ''push.send''
          (P_push (the (counterparty p r)) ''peerMessage'' oid None) None 0 (q_now w))
          = P_push (the (counterparty p r)) ''peerMessage'' oid None" by (simp add: new_row_def)
      moreover have "ie_pubkey ev = o_customer y \<and> o_sponsor y = Some (the (counterparty p r))
            \<or> o_sponsor y = Some (ie_pubkey ev) \<and> ie_pubkey ev \<noteq> o_customer y \<and> the (counterparty p r) = o_customer y"
        using y(2,3) j sp by (cases "o_sponsor y") auto
      ultimately show ?thesis using y(1) by blast
    qed simp
  qed
qed (simp_all add: peer_pinger_def chat_forwarder_def)

theorem chat_only_between_parties_witness:
  "peer_pinger ln_directory toy_env (toy_event ''stranger'') toy_db = Some (H_ignored ''no-track'', toy_db)"
proof -
  have "chat_sender toy_env ln_directory (toy_event ''stranger'') toy_db = Inl ''no-track''"
    by (simp add: chat_sender_def track_of_event_def toy_event_def toy_env_def)
  from chat_only_between_parties [THEN conjunct2, rule_format, OF this] show ?thesis by blast
qed

end
