(* ===== verification/Commands.thy ===== *)
theory Commands
  imports Chat Ln_Steps
begin

text \<open>
  The operators' commands: the channel (\<open>daemon/src/admin/commands.ts\<close>) with its base commands, and the
  commands on a Lightning order (\<open>daemon/src/ln/commands.ts\<close>).  A command that changes an order names the version
  the operator saw and is refused when the order has moved on.
\<close>

subsection \<open>Commands on a Lightning order\<close>

text \<open>The body of a command: an error, or the database it leaves.\<close>

type_synonym 'm ln_command = "env \<Rightarrow> ln_order \<Rightarrow> json \<Rightarrow> 'm db_scheme \<Rightarrow> (string option \<times> 'm db_scheme) option"

fun approve_error_str :: "approve_error \<Rightarrow> string" where
  "approve_error_str Not_claimed = ''not-claimed''"
| "approve_error_str Closing = ''closing''"
| "approve_error_str In_progress = ''in-progress''"
| "approve_error_str Deposit_unpaid = ''deposit-unpaid''"
| "approve_error_str Too_late = ''too-late''"
| "approve_error_str No_price = ''no-price''"

definition ln_approve :: "'m ln_command" where
  "ln_approve e order args w =
     map_option (\<lambda>(err, w'). (map_option approve_error_str err, w')) (approve e order w)"

definition ln_revert_claim :: "'m ln_command" where
  "ln_revert_claim e order args w =
     (if o_state order \<noteq> Claimed then Some (Some ''bad-state'', w)
      else if o_pending_close order \<noteq> None then Some (Some ''closing'', w)
      else map_option (\<lambda>(_, w'). (None, w')) (revert_claim order w))"

text \<open>\<open>beginClose(...) ? {} : { error: 'closing' }\<close>.\<close>

definition close_or_closing :: "ln_order \<Rightarrow> close_reason \<Rightarrow> 'm db_scheme \<Rightarrow> (string option \<times> 'm db_scheme) option" where
  "close_or_closing order reason w =
     map_option (\<lambda>(started, w'). (if started then None else Some ''closing'', w')) (begin_close order reason w)"

definition ln_rule :: "'m ln_command" where
  "ln_rule e order args w =
     (case jstr (jfield ''winner'' args) of
        None \<Rightarrow> Some (Some ''bad-args'', w)
      | Some winner \<Rightarrow>
          if winner \<noteq> ''sponsor'' \<and> winner \<noteq> ''customer'' then Some (Some ''bad-args'', w)
          else if o_state order \<noteq> Remitted then Some (Some ''bad-state'', w)
          else close_or_closing order (if winner = ''sponsor'' then CR_sponsor_wins else CR_customer_wins) w)"

definition ln_force_close :: "'m ln_command" where
  "ln_force_close e order args w =
     (if o_state order \<noteq> Escrowed \<and> o_state order \<noteq> Invoiced then Some (Some ''bad-state'', w)
      else close_or_closing order CR_admin_closed w)"

definition payout_guard :: "ln_order \<Rightarrow> string option" where
  "payout_guard order =
     (if o_state order \<noteq> Paid \<and> o_state order \<noteq> Sponsor_wins then Some ''bad-state''
      else if o_disbursed order then Some ''already-disbursed'' else None)"

definition ln_retry_payout :: "'m ln_command" where
  "ln_retry_payout e order args w =
     (case payout_guard order of
        Some err \<Rightarrow> Some (Some err, w)
      | None \<Rightarrow> Some (None, request_payout (o_id order) w))"

definition ln_manual_payout :: "'m ln_command" where
  "ln_manual_payout e order args w =
     (case payout_guard order of
        Some err \<Rightarrow> Some (Some err, w)
      | None \<Rightarrow>
          if is_manual_payout (o_payout_error order) then Some (Some ''already-manual'', w)
          else map_option (\<lambda>(_, w'). (None, request_payout (o_id order) w'))
                 (update_order (o_id order) (\<lambda>r. r\<lparr>o_payout_error := Some LN_PAYOUT_MANUAL_REQUESTED\<rparr>) w))"

definition ln_mark_disbursed :: "'m ln_command" where
  "ln_mark_disbursed e order args w =
     (if o_disbursed order then Some (Some ''already-disbursed'', w)
      else if o_payout_error order \<noteq> Some LN_PAYOUT_MANUAL then Some (Some ''not-manual'', w)
      else map_option (\<lambda>(_, w'). (None, w'))
             (update_order (o_id order) (\<lambda>r. r\<lparr>o_disbursed := True\<rparr>) w))"

definition ln_reveal_request :: "'m ln_command" where
  "ln_reveal_request e order args w =
     (if \<not> js_true_s (o_sponsor order) then Some (Some ''no-sponsor'', w)
      else if \<not> js_true_s (o_account_commitment order) then Some (Some ''no-account'', w)
      else Some (None, send_reveal_request e (o_id order) (the (o_sponsor order)) w))"

definition ln_command_of :: "string \<Rightarrow> 'm ln_command option" where
  "ln_command_of cmd =
     (if cmd = ''ln.approve'' then Some ln_approve
      else if cmd = ''ln.revert-claim'' then Some ln_revert_claim
      else if cmd = ''ln.rule'' then Some ln_rule
      else if cmd = ''ln.force-close'' then Some ln_force_close
      else if cmd = ''ln.retry-payout'' then Some ln_retry_payout
      else if cmd = ''ln.manual-payout'' then Some ln_manual_payout
      else if cmd = ''ln.mark-disbursed'' then Some ln_mark_disbursed
      else if cmd = ''ln.reveal-request'' then Some ln_reveal_request
      else None)"

text \<open>The wrapper every such command is registered with.\<close>

definition on_target :: "'m directory \<Rightarrow> 'm ln_command \<Rightarrow> 'm command" where
  "on_target dir run e args w =
     (case check_target dir (jfield ''target'' args) w of
        Inl err \<Rightarrow> Some (Inl err, w)
      | Inr (t, p) \<Rightarrow>
          if tg_track t \<noteq> Track_ln then Some (Inl ''bad-target'', w)
          else (case get_order (tg_order t) w of
             None \<Rightarrow> Some (Inl ''unknown-order'', w)
           | Some order \<Rightarrow>
               (case run e order args w of
                  None \<Rightarrow> None
                | Some (Some err, w') \<Rightarrow> Some (Inl err, w')
                | Some (None, w') \<Rightarrow>
                    (case get_order (o_id order) w' of
                       None \<Rightarrow> None
                     | Some after \<Rightarrow>
                         Some (Inr (J_obj [(''orderId'', J_str (o_id order)),
                                           (''version'', j_int (int (o_version after)))]), w')))))"

definition ln_detail_command :: "'m command" where
  "ln_detail_command e args w =
     (case jstr (jfield ''orderId'' args) of
        None \<Rightarrow> Some (Inl ''unknown-order'', w)
      | Some oid \<Rightarrow>
          if get_order oid w = None then Some (Inl ''unknown-order'', w)
          else Some (Inr (J_obj [(''orderId'', J_str oid)]), request_detail oid w))"

subsection \<open>Base commands\<close>

definition ping_command :: "'m command" where
  "ping_command e args w =
     Some (Inr (J_obj [(''pong'', j_int (now_sec w)), (''version'', J_str DAEMON_VERSION)]), w)"

definition config_get :: "'m command" where
  "config_get e args w = Some (Inr (settings_json (db_settings w)), w)"

definition config_set :: "'m command" where
  "config_set e args w =
     (case apply_settings_patch (db_settings w) (jfield ''patch'' args) of
        Inl err \<Rightarrow> Some (Inl err, w)
      | Inr s \<Rightarrow> Some (Inr (settings_json s), request_state_publish e (w\<lparr>db_settings := s\<rparr>)))"

definition alert_ack :: "'m command" where
  "alert_ack e args w =
     (case jint (jfield ''id'' args) of
        None \<Rightarrow> Some (Inl ''bad-args'', w)
      | Some i \<Rightarrow>
          (case ack_alert e i w of
             (True, w') \<Rightarrow> Some (Inr (J_obj [(''id'', j_int i)]), w')
           | (False, w') \<Rightarrow> Some (Inl ''unknown-or-acked'', w')))"

text \<open>The registry of the daemon: base commands first, then the track's.\<close>

definition registry :: "'m directory \<Rightarrow> string \<Rightarrow> 'm command option" where
  "registry dir cmd =
     (if cmd = ''ping'' then Some ping_command
      else if cmd = ''config.get'' then Some config_get
      else if cmd = ''config.set'' then Some config_set
      else if cmd = ''alert.ack'' then Some alert_ack
      else if cmd = ''chat.send'' then Some (chat_send dir)
      else if cmd = ''ln.detail'' then Some ln_detail_command
      else map_option (on_target dir) (ln_command_of cmd))"

definition execute_command :: "(string \<Rightarrow> 'm command option) \<Rightarrow> env \<Rightarrow> string \<Rightarrow> json option \<Rightarrow> 'm db_scheme \<Rightarrow> ((string + json) \<times> 'm db_scheme) option" where
  "execute_command reg e cmd args w =
     (case reg cmd of
        None \<Rightarrow> Some (Inl ''unknown-command'', w)
      | Some h \<Rightarrow> h e (case args of Some a \<Rightarrow> a | None \<Rightarrow> J_obj []) w)"

subsection \<open>The channel\<close>

definition ADMIN_COMMAND_TTL_SEC :: sec where "ADMIN_COMMAND_TTL_SEC = 10 * 60"
definition FUTURE_SKEW_SEC :: sec where "FUTURE_SKEW_SEC = 5 * 60"

text \<open>\<open>isAdminCommand\<close>, with the command and its arguments when it is one.\<close>

definition admin_command :: "json \<Rightarrow> (string \<times> json option) option" where
  "admin_command v =
     (case jstr (jfield ''cmd'' v) of
        None \<Rightarrow> None
      | Some cmd \<Rightarrow>
          if cmd = [] then None
          else (case jfield ''args'' v of
             None \<Rightarrow> Some (cmd, None)
           | Some a \<Rightarrow> if is_object a then Some (cmd, Some a) else None))"

definition result_json :: "string \<Rightarrow> string + json \<Rightarrow> json" where
  "result_json cmd r = J_obj
     (case r of
        Inl err \<Rightarrow> [(''ok'', J_bool False), (''cmd'', J_str cmd), (''error'', J_str err)]
      | Inr v \<Rightarrow> [(''ok'', J_bool True), (''cmd'', J_str cmd), (''result'', v)])"

definition reply :: "env \<Rightarrow> inbox_event \<Rightarrow> json \<Rightarrow> 'm db_scheme \<Rightarrow> 'm db_scheme option" where
  "reply e ev result w =
     map_option (\<lambda>c. enq ''nostr.publish''
         (P_publish \<lparr>ev_kind = MESSAGE_KIND, ev_created_at = now_sec w,
            ev_tags = [[''p'', ie_pubkey ev], [''e'', ie_id ev], [''t'', e_tag_admin e],
                       [''action'', ''admin-result''],
                       [''expiration'', int_str (now_sec w + ADMIN_COMMAND_TTL_SEC)]],
            ev_content = c\<rparr>)
         (Some (''admin-result:'' @ ie_id ev)) w)
       (e_seal e (ie_pubkey ev) result)"

definition admin_handler :: "(string \<Rightarrow> 'm command option) \<Rightarrow> 'm handler" where
  "admin_handler reg e ev w =
     (if ie_pubkey ev \<notin> set (e_operators e) then Some (H_ignored ''not-operator'', w)
      else if ie_created_at ev < now_sec w - ADMIN_COMMAND_TTL_SEC then Some (H_ignored ''stale-command'', w)
      else if ie_created_at ev > now_sec w + FUTURE_SKEW_SEC then Some (H_ignored ''future-command'', w)
      else (case e_unseal e (ie_content ev) (ie_pubkey ev) of
         None \<Rightarrow> Some (H_ignored ''undecryptable'', w)
       | Some body \<Rightarrow> do {
           (cmd, result, w1) \<leftarrow>
             (case admin_command body of
                None \<Rightarrow> Some (''?'', Inl ''bad-payload'', w)
              | Some (cmd, args) \<Rightarrow>
                  map_option (\<lambda>(r, w'). (cmd, r, w')) (execute_command reg e cmd args w));
           w2 \<leftarrow> reply e ev (result_json cmd result) w1;
           Some (H_ok, w2)
         }))"

subsection \<open>What commands keep\<close>

lemma close_or_closing_ok:
  assumes "close_or_closing r c w = Some (err, w')" and "get_order (o_id r) w = Some r"
  shows "ln_ok e w w' \<and> steps_order r w w'"
  using assms begin_close_ok [OF _ assms(2)] steps_begin_close [OF _ assms(2)]
  by (auto simp: close_or_closing_def)

lemma manual_request_ok:
  assumes "update_order (o_id r) (\<lambda>r. r\<lparr>o_payout_error := Some LN_PAYOUT_MANUAL_REQUESTED\<rparr>) w = Some (r1, w1)"
    and "get_order (o_id r) w = Some r" and "payout_guard r = None"
  shows "ln_ok e w w1 \<and> steps_order r w w1"
proof
  have "o_state r = Paid \<or> o_state r = Sponsor_wins" using assms(3) by (auto simp: payout_guard_def split: if_splits)
  with assms(2) show "ln_ok e w w1" by (intro payout_error_ok [OF assms(1)]) auto
  show "steps_order r w w1"
    by (rule steps_update [OF assms(1,2)])
      (simp_all add: payout_marks_def LN_PAYOUT_MANUAL_def LN_PAYOUT_MANUAL_REQUESTED_def)
qed

lemma ln_command_ok:
  assumes "ln_command_of cmd = Some run" and "run e r args w = Some (err, w')"
    and g: "get_order (o_id r) w = Some r"
  shows "ln_ok e w w' \<and> steps_order r w w'"
proof -
  note refl = steps_refl [OF g]
  from assms(1) consider "run = ln_approve" | "run = ln_revert_claim" | "run = ln_rule" | "run = ln_force_close"
    | "run = ln_retry_payout" | "run = ln_manual_payout" | "run = ln_mark_disbursed" | "run = ln_reveal_request"
    by (auto simp: ln_command_of_def split: if_splits)
  then show ?thesis
  proof cases
    case 1
    with assms(2) obtain x where "approve e r w = Some (x, w')" by (auto simp: ln_approve_def)
    then show ?thesis using approve_ok steps_approve g by blast
  next
    case 2
    with assms(2) refl show ?thesis
      using revert_claim_ok [OF _ g] steps_revert [OF _ g]
      by (auto simp: ln_revert_claim_def split: if_splits)
  next
    case 3
    have "w' = w \<or> (\<exists>c. close_or_closing r c w = Some (err, w'))"
      using assms(2) unfolding 3 ln_rule_def by (auto split: option.splits if_split_asm)
    then show ?thesis using refl close_or_closing_ok [OF _ g] by auto
  next
    case 4
    have "w' = w \<or> (\<exists>c. close_or_closing r c w = Some (err, w'))"
      using assms(2) unfolding 4 ln_force_close_def by (auto split: if_split_asm)
    then show ?thesis using refl close_or_closing_ok [OF _ g] by auto
  next
    case 5
    with assms(2) have "w' = w \<or> w' = request_payout (o_id r) w"
      by (auto simp: ln_retry_payout_def split: option.splits)
    then show ?thesis
      using refl ln_ok_quiet [OF quiet_request_payout] steps_quiet_after [OF refl quiet_request_payout] by auto
  next
    case 6
    have "w' = w \<or> (\<exists>r1 w1. payout_guard r = None
        \<and> update_order (o_id r) (\<lambda>r. r\<lparr>o_payout_error := Some LN_PAYOUT_MANUAL_REQUESTED\<rparr>) w = Some (r1, w1)
        \<and> w' = request_payout (o_id r) w1)"
      using assms(2) unfolding 6 by (auto simp: ln_manual_payout_def split: option.splits if_splits)
    then show ?thesis
    proof (elim disjE exE conjE)
      fix r1 w1
      assume u: "payout_guard r = None"
        "update_order (o_id r) (\<lambda>r. r\<lparr>o_payout_error := Some LN_PAYOUT_MANUAL_REQUESTED\<rparr>) w = Some (r1, w1)"
        and w': "w' = request_payout (o_id r) w1"
      have q: "quiet w1 w'" by (simp add: w')
      have "ln_ok e w w1" and s: "steps_order r w w1" using manual_request_ok [OF u(2) g u(1)] by auto
      then show ?thesis using ln_ok_quiet_after [OF _ q] steps_quiet_after [OF s q] by blast
    qed (simp add: refl)
  next
    case 7
    have "w' = w \<or> o_payout_error r = Some LN_PAYOUT_MANUAL
        \<and> (\<exists>r1. update_order (o_id r) (\<lambda>r. r\<lparr>o_disbursed := True\<rparr>) w = Some (r1, w'))"
      using assms(2) unfolding 7 by (auto simp: ln_mark_disbursed_def split: if_splits)
    moreover have "ln_ok e w w' \<and> steps_order r w w'"
      if u: "update_order (o_id r) (\<lambda>r. r\<lparr>o_disbursed := True\<rparr>) w = Some (r1, w')"
        and m: "o_payout_error r = Some LN_PAYOUT_MANUAL" for r1
      using steps_update [OF u g] update_order_ok' [OF u g] m by (auto simp: order_ok_def same_trade_def payout_marks_def)
    ultimately show ?thesis using refl by auto
  next
    case 8
    with assms(2) have "quiet w w'" by (auto simp: ln_reveal_request_def split: if_splits)
    then show ?thesis using ln_ok_quiet steps_quiet_after [OF refl] by blast
  qed
qed

lemma check_target_ln:
  assumes "check_target ln_directory v w = Inr (t, p)"
  shows "tg_track t = Track_ln \<and> (\<exists>r. get_order (tg_order t) w = Some r \<and> int (o_version r) = tg_version t)
    \<and> parse_target v = Some t"
  using assms by (auto simp: check_target_def ln_directory_def split: option.splits if_splits)

lemma on_target_cases:
  assumes "on_target dir run e args w = Some (res, w')"
  shows "w' = w \<or> (\<exists>t p r err. check_target dir (jfield ''target'' args) w = Inr (t, p)
    \<and> get_order (tg_order t) w = Some r \<and> run e r args w = Some (err, w'))"
  using assms by (fastforce simp: on_target_def split: sum.splits prod.splits option.splits if_splits)

lemma ln_ok_settings: "ln_ok e w (w\<lparr>db_settings := s\<rparr>)"
  by (auto simp: ln_ok_def ln_winv_def hold_inv_def ln_inv_def q_wf_def hold_wf_def orders_evolve_def get_order_def)

lemma config_set_ok:
  assumes "config_set e args w = Some (res, w')"
  shows "ln_ok e w w' \<and> ln_orders w' = ln_orders w"
proof -
  have "w' = w \<or> (\<exists>s. w' = request_state_publish e (w\<lparr>db_settings := s\<rparr>))"
    using assms by (auto simp: config_set_def split: sum.splits)
  then show ?thesis
  proof (elim disjE exE)
    fix s
    assume w': "w' = request_state_publish e (w\<lparr>db_settings := s\<rparr>)"
    have q: "quiet (w\<lparr>db_settings := s\<rparr>) w'" by (simp add: w')
    show ?thesis using ln_ok_quiet_after [OF ln_ok_settings q] quietD(3) [OF q] by simp
  qed simp
qed

lemma execute_cases:
  assumes "execute_command (registry dir) e cmd args w = Some (res, w')"
  shows "(ln_ok e w w' \<and> ln_orders w' = ln_orders w)
    \<or> (\<exists>run. ln_command_of cmd = Some run \<and> on_target dir run e (case args of Some a \<Rightarrow> a | None \<Rightarrow> J_obj []) w = Some (res, w'))"
proof -
  have q: "quiet w v \<Longrightarrow> ln_ok e w v \<and> ln_orders v = ln_orders w" for v :: "'a db_scheme"
    using ln_ok_quiet quietD(3) by blast
  let ?a = "case args of Some a \<Rightarrow> a | None \<Rightarrow> J_obj []"
  from assms consider "w' = w" | "config_set e ?a w = Some (res, w')" | "alert_ack e ?a w = Some (res, w')"
    | "chat_send dir e ?a w = Some (res, w')" | "ln_detail_command e ?a w = Some (res, w')"
    | run where "ln_command_of cmd = Some run" "on_target dir run e ?a w = Some (res, w')"
    by (auto simp: execute_command_def registry_def ping_command_def config_get_def split: option.splits if_splits)
  then show ?thesis
  proof cases
    case 1
    then show ?thesis by simp
  next
    case 2
    then show ?thesis using config_set_ok by blast
  next
    case 3
    have "w' = w \<or> w' = snd (ack_alert e (the (jint (jfield ''id'' ?a))) w)"
      using 3 unfolding alert_ack_def by (auto split: option.splits prod.splits bool.splits)
    then show ?thesis using q [OF quiet_ack_alert] by auto
  next
    case 4
    then show ?thesis using q chat_send_quiet by blast
  next
    case 5
    then have "quiet w w'" by (auto simp: ln_detail_command_def split: option.splits if_splits)
    then show ?thesis using q by blast
  next
    case 6
    then show ?thesis by blast
  qed
qed

lemma execute_ok:
  assumes "execute_command (registry dir) e cmd args w = Some (res, w')"
  shows "ln_ok e w w'"
  using execute_cases [OF assms]
proof
  assume "\<exists>run. ln_command_of cmd = Some run
    \<and> on_target dir run e (case args of Some a \<Rightarrow> a | None \<Rightarrow> J_obj []) w = Some (res, w')"
  then obtain run where run: "ln_command_of cmd = Some run"
    "on_target dir run e (case args of Some a \<Rightarrow> a | None \<Rightarrow> J_obj []) w = Some (res, w')" by blast
  from on_target_cases [OF run(2)] show ?thesis
  proof (elim disjE exE conjE)
    fix t p r err
    assume g: "get_order (tg_order t) w = Some r"
      and c: "run e r (case args of Some a \<Rightarrow> a | None \<Rightarrow> J_obj []) w = Some (err, w')"
    from ln_command_ok [OF run(1) c get_order_id [OF g]] show ?thesis by blast
  qed simp
qed blast

lemma reply_quiet: "reply e ev j w = Some w' \<Longrightarrow> quiet w w'"
  by (auto simp: reply_def)

lemma admin_handler_cases:
  assumes "admin_handler reg e ev w = Some (res, w')"
  shows "quiet w w' \<or> (\<exists>body cmd args r w1. e_unseal e (ie_content ev) (ie_pubkey ev) = Some body
    \<and> admin_command body = Some (cmd, args) \<and> ie_pubkey ev \<in> set (e_operators e)
    \<and> now_sec w - 600 \<le> ie_created_at ev \<and> ie_created_at ev \<le> now_sec w + 300
    \<and> execute_command reg e cmd args w = Some (r, w1) \<and> quiet w1 w')"
proof (cases "w' = w")
  case False
  then obtain body cmd r w1 where b: "e_unseal e (ie_content ev) (ie_pubkey ev) = Some body"
    and ok: "ie_pubkey ev \<in> set (e_operators e)" "now_sec w - 600 \<le> ie_created_at ev"
      "ie_created_at ev \<le> now_sec w + 300"
    and c: "(case admin_command body of None \<Rightarrow> Some (''?'', Inl ''bad-payload'', w)
              | Some (cmd, args) \<Rightarrow> map_option (\<lambda>(r, w'). (cmd, r, w')) (execute_command reg e cmd args w))
            = Some (cmd, r, w1)"
    and q: "quiet w1 w'"
    using assms
    by (auto simp: admin_handler_def ADMIN_COMMAND_TTL_SEC_def FUTURE_SKEW_SEC_def not_less
        split: if_splits option.splits dest!: reply_quiet)
  from c q b ok show ?thesis by (fastforce split: option.splits)
qed simp

lemma admin_handler_ok:
  assumes "admin_handler (registry dir) e ev w = Some (res, w')"
  shows "ln_ok e w w'"
  using admin_handler_cases [OF assms] execute_ok ln_ok_quiet ln_ok_quiet_after by meson

subsection \<open>Properties\<close>

lemma on_target_changes:
  assumes "ln_command_of cmd = Some run" and "on_target ln_directory run e args w = Some (res, w')"
    and "get_order oid w = Some r" and "get_order oid w' \<noteq> Some r"
  shows "parse_target (jfield ''target'' args) = Some \<lparr>tg_track = Track_ln, tg_order = oid, tg_version = int (o_version r)\<rparr>"
    and "\<exists>r'. get_order oid w' = Some r' \<and> o_version r' = Suc (o_version r)"
proof -
  have "w' \<noteq> w" using assms(3,4) by auto
  with on_target_cases [OF assms(2)] obtain t p x err where
    ct: "check_target ln_directory (jfield ''target'' args) w = Inr (t, p)"
    and x: "get_order (tg_order t) w = Some x" and run: "run e x args w = Some (err, w')" by blast
  have xid: "o_id x = tg_order t" using get_order_Some [OF x] by simp
  have st: "steps_order x w w'" using ln_command_ok [OF assms(1) run get_order_id [OF x]] by simp
  have oid: "oid = tg_order t"
  proof (rule ccontr)
    assume "oid \<noteq> tg_order t"
    with st xid assms(3,4) show False by (simp add: steps_order_def)
  qed
  then have xr: "x = r" using x assms(3) by simp
  show "parse_target (jfield ''target'' args) = Some \<lparr>tg_track = Track_ln, tg_order = oid, tg_version = int (o_version r)\<rparr>"
    using check_target_ln [OF ct] x xr oid by (cases t) auto
  show "\<exists>r'. get_order oid w' = Some r' \<and> o_version r' = Suc (o_version r)"
    using st assms(4) xid oid by (auto simp: steps_order_def xr)
qed

text \<open>A concrete command: closing an escrowed order by force.\<close>

definition toy_args :: json where
  "toy_args = J_obj [(''target'', J_obj [(''track'', J_str ''ln''), (''orderId'', J_str ''ord1''), (''version'', j_int 1)])]"

definition toy_cmd_env :: env where
  "toy_cmd_env = toy_env\<lparr>e_unseal := \<lambda>_ _. Some (J_obj [(''cmd'', J_str ''ln.force-close''), (''args'', toy_args)])\<rparr>"

definition toy_target_db :: db where "toy_target_db = empty_db\<lparr>ln_orders := [toy_escrowed]\<rparr>"

lemma toy_escrowed_sel:
  "o_id toy_escrowed = ''ord1''" "o_version toy_escrowed = 1" "o_state toy_escrowed = Escrowed"
  "o_pending_close toy_escrowed = None"
  by (simp_all add: toy_escrowed_def toy_order_def new_order_def)

lemma toy_target_get: "get_order ''ord1'' toy_target_db = Some toy_escrowed"
  by (simp add: toy_target_db_def get_order_def toy_escrowed_sel)

lemma toy_parse:
  "parse_target (jfield ''target'' toy_args) = Some \<lparr>tg_track = Track_ln, tg_order = ''ord1'', tg_version = 1\<rparr>"
  by (simp add: parse_target_def toy_args_def track_of_json_def)

lemma toy_force_close:
  "\<exists>w1 v. on_target ln_directory ln_force_close toy_cmd_env toy_args toy_target_db = Some (Inr v, w1)
     \<and> get_order ''ord1'' w1 \<noteq> Some toy_escrowed"
proof -
  let ?patch = "\<lambda>r. r\<lparr>o_pending_close := Some CR_admin_closed\<rparr>"
  obtain w1 where u: "update_order ''ord1'' ?patch toy_target_db = Some (bump (now_sec toy_target_db) (?patch toy_escrowed), w1)"
    using update_order_Some [OF toy_target_get, of ?patch] by blast
  let ?w2 = "enq ''ln.close'' (P_ln_close ''ord1'') (Some ''ln.close:ord1'') w1"
  have f: "ln_force_close toy_cmd_env toy_escrowed toy_args toy_target_db = Some (None, ?w2)"
    using u by (simp add: ln_force_close_def close_or_closing_def begin_close_def toy_escrowed_sel can_transition_def)
  have g: "get_order ''ord1'' ?w2 = Some (bump (now_sec toy_target_db) (?patch toy_escrowed))"
    using get_order_update [OF u, of "''ord1''"] by (simp add: get_order_quiet [OF quiet_enq])
  have c: "check_target ln_directory (jfield ''target'' toy_args) toy_target_db
    = Inr (\<lparr>tg_track = Track_ln, tg_order = ''ord1'', tg_version = 1\<rparr>,
        \<lparr>pt_version = 1, pt_customer = o_customer toy_escrowed,
         pt_sponsor = (if js_true_s (o_sponsor toy_escrowed) then o_sponsor toy_escrowed else None)\<rparr>)"
    by (simp add: check_target_def toy_parse ln_directory_def toy_target_get toy_escrowed_sel)
  have "\<exists>v. on_target ln_directory ln_force_close toy_cmd_env toy_args toy_target_db = Some (Inr v, ?w2)"
    by (simp add: on_target_def c toy_target_get f toy_escrowed_sel(1) g)
  moreover have "get_order ''ord1'' ?w2 \<noteq> Some toy_escrowed"
    using toy_escrowed_sel(2) by (auto simp: g dest: arg_cong [of _ _ o_version])
  ultimately show ?thesis by blast
qed

text \<open>C26. Operator authority: if a command changes an order, it came from a configured operator at most ten
  minutes ago and at most five minutes ahead, it could be opened, and it names that order with the very
  version it has now.\<close>

theorem command_authority:
  assumes "admin_handler (registry ln_directory) e ev w = Some (res, w')"
    and "get_order oid w = Some r" and "get_order oid w' \<noteq> Some r"
  shows "ie_pubkey ev \<in> set (e_operators e)
    \<and> now_sec w - 600 \<le> ie_created_at ev \<and> ie_created_at ev \<le> now_sec w + 300
    \<and> (\<exists>body cmd args. e_unseal e (ie_content ev) (ie_pubkey ev) = Some body
         \<and> admin_command body = Some (cmd, Some args)
         \<and> parse_target (jfield ''target'' args)
             = Some \<lparr>tg_track = Track_ln, tg_order = oid, tg_version = int (o_version r)\<rparr>)"
proof -
  have "\<not> quiet w w'" using assms(2,3) get_order_quiet [of w w' oid] by auto
  with admin_handler_cases [OF assms(1)] obtain body cmd args x w1 where
    b: "e_unseal e (ie_content ev) (ie_pubkey ev) = Some body" "admin_command body = Some (cmd, args)"
    and ok: "ie_pubkey ev \<in> set (e_operators e)" "now_sec w - 600 \<le> ie_created_at ev"
      "ie_created_at ev \<le> now_sec w + 300"
    and ex: "execute_command (registry ln_directory) e cmd args w = Some (x, w1)" and q: "quiet w1 w'" by blast
  have ch: "get_order oid w1 \<noteq> Some r" using assms(3) get_order_quiet [OF q] by simp
  then have "ln_orders w1 \<noteq> ln_orders w" using assms(2) by (auto simp: get_order_def)
  with execute_cases [OF ex] obtain run where "ln_command_of cmd = Some run"
    and t: "on_target ln_directory run e (case args of Some a \<Rightarrow> a | None \<Rightarrow> J_obj []) w = Some (x, w1)" by blast
  from on_target_changes(1) [OF this assms(2) ch]
  have pt: "parse_target (jfield ''target'' (case args of Some a \<Rightarrow> a | None \<Rightarrow> J_obj []))
    = Some \<lparr>tg_track = Track_ln, tg_order = oid, tg_version = int (o_version r)\<rparr>" .
  then obtain a where "args = Some a" by (cases args) (simp_all add: parse_target_def)
  with pt b ok show ?thesis by auto
qed

theorem command_authority_witness:
  "\<exists>w'. admin_handler (registry ln_directory) toy_cmd_env (toy_event ''op'') toy_target_db = Some (H_ok, w')
     \<and> ''op'' \<in> set (e_operators toy_cmd_env)"
proof -
  obtain w1 v where t: "on_target ln_directory ln_force_close toy_cmd_env toy_args toy_target_db = Some (Inr v, w1)"
    and ch: "get_order ''ord1'' w1 \<noteq> Some toy_escrowed" using toy_force_close by blast
  have x: "execute_command (registry ln_directory) toy_cmd_env ''ln.force-close'' (Some toy_args) toy_target_db = Some (Inr v, w1)"
    using t by (simp add: execute_command_def registry_def ln_command_of_def)
  have ev: "ie_pubkey (toy_event ''op'') = ''op''" "ie_created_at (toy_event ''op'') = 0"
    by (simp_all add: toy_event_def)
  have env: "e_operators toy_cmd_env = [''op'']"
    "e_unseal toy_cmd_env c s = Some (J_obj [(''cmd'', J_str ''ln.force-close''), (''args'', toy_args)])"
    "e_seal toy_cmd_env pk j = Some pk" for c s pk j
    by (simp_all add: toy_cmd_env_def toy_env_def)
  have ac: "admin_command (J_obj [(''cmd'', J_str ''ln.force-close''), (''args'', toy_args)])
    = Some (''ln.force-close'', Some toy_args)"
    by (simp add: admin_command_def toy_args_def)
  have now: "now_sec toy_target_db = 0" by (simp add: now_sec_def toy_target_db_def empty_db_def)
  obtain w' where r: "reply toy_cmd_env (toy_event ''op'') (result_json ''ln.force-close'' (Inr v)) w1 = Some w'"
    using env(3) by (simp add: reply_def)
  have h: "admin_handler (registry ln_directory) toy_cmd_env (toy_event ''op'') toy_target_db = Some (H_ok, w')"
    by (simp add: admin_handler_def ev env ac now ADMIN_COMMAND_TTL_SEC_def FUTURE_SKEW_SEC_def x r)
  have "get_order ''ord1'' w' \<noteq> Some toy_escrowed" using ch get_order_quiet [OF reply_quiet [OF r]] by simp
  from command_authority [OF h toy_target_get this, THEN conjunct1] h show ?thesis by (auto simp: ev)
qed

text \<open>No decision is carried out twice or on an outdated screen: once a command has changed its order, the
  same target is refused as stale by every order command, then and after whatever the daemon did since, and
  a refused command changes nothing.\<close>

theorem stale_command_refused:
  assumes "ln_command_of cmd = Some run"
    and "on_target ln_directory run e args w = Some (res, w1)"
    and "get_order oid w = Some r" and "get_order oid w1 \<noteq> Some r"
    and "orders_evolve w1 w2" and "ln_command_of cmd2 = Some run2"
  shows "on_target ln_directory run2 e args w2 = Some (Inl ''stale-version'', w2)"
proof -
  from on_target_changes [OF assms(1-4)] obtain r1 where
    t: "parse_target (jfield ''target'' args) = Some \<lparr>tg_track = Track_ln, tg_order = oid, tg_version = int (o_version r)\<rparr>"
    and r1: "get_order oid w1 = Some r1" "o_version r1 = Suc (o_version r)" by blast
  from assms(5) r1(1) obtain r2 where r2: "get_order oid w2 = Some r2" "o_version r1 \<le> o_version r2"
    unfolding orders_evolve_def order_evolves_def by blast
  have "check_target ln_directory (jfield ''target'' args) w2 = Inl ''stale-version''"
    using r1(2) r2 by (simp add: check_target_def t ln_directory_def)
  then show ?thesis by (simp add: on_target_def)
qed

theorem stale_command_refused_witness:
  "\<exists>w1 v. on_target ln_directory ln_force_close toy_cmd_env toy_args toy_target_db = Some (Inr v, w1)
     \<and> on_target ln_directory ln_force_close toy_cmd_env toy_args w1 = Some (Inl ''stale-version'', w1)"
proof -
  have c: "ln_command_of ''ln.force-close'' = Some ln_force_close" by (simp add: ln_command_of_def)
  obtain w1 v where t: "on_target ln_directory ln_force_close toy_cmd_env toy_args toy_target_db = Some (Inr v, w1)"
    and ch: "get_order ''ord1'' w1 \<noteq> Some toy_escrowed" using toy_force_close by blast
  from stale_command_refused [OF c t toy_target_get ch orders_evolve_refl c] t show ?thesis by blast
qed

text \<open>The operator can record a payout as done by hand only after the daemon has stopped: a command turns the
  paid-out mark on only for an order that was marked \<open>manual\<close>, which the daemon sets itself after looking at
  the payment, and no command sets that mark.\<close>

theorem disbursed_by_hand_only_when_stopped:
  assumes "ln_command_of cmd = Some run" and "run e r args w = Some (err, w')"
    and "get_order (o_id r) w = Some r" and "get_order (o_id r) w' = Some r'"
  shows "(o_disbursed r' \<and> \<not> o_disbursed r \<longrightarrow> o_payout_error r = Some LN_PAYOUT_MANUAL)
    \<and> (o_payout_error r' = Some LN_PAYOUT_MANUAL \<longrightarrow> o_payout_error r = Some LN_PAYOUT_MANUAL)"
  using ln_command_ok [OF assms(1-3)] assms(4) by (auto simp: steps_order_def payout_marks_def)

theorem disbursed_by_hand_only_when_stopped_witness:
  "\<exists>w'. ln_mark_disbursed toy_env (toy_remitted\<lparr>o_state := Paid, o_close_reason := Some CR_paid, o_payout_error := None\<rparr>)
       (J_obj []) (toy_won_db None) = Some (Some ''not-manual'', w')
     \<and> get_order ''ord1'' w' = Some (toy_remitted\<lparr>o_state := Paid, o_close_reason := Some CR_paid, o_payout_error := None\<rparr>)
     \<and> \<not> o_disbursed (toy_remitted\<lparr>o_state := Paid, o_close_reason := Some CR_paid, o_payout_error := None\<rparr>)"
proof -
  let ?r = "toy_remitted\<lparr>o_state := Paid, o_close_reason := Some CR_paid, o_payout_error := None\<rparr>"
  have c: "ln_command_of ''ln.mark-disbursed'' = Some ln_mark_disbursed" by (simp add: ln_command_of_def)
  have d: "\<not> o_disbursed ?r" by (simp add: toy_remitted_def toy_order_def new_order_def)
  have h: "ln_mark_disbursed toy_env ?r (J_obj []) (toy_won_db None) = Some (Some ''not-manual'', toy_won_db None)"
    using d by (simp add: ln_mark_disbursed_def)
  have g: "get_order (o_id ?r) (toy_won_db None) = Some ?r" using get_order_id [OF toy_won_get] .
  from disbursed_by_hand_only_when_stopped [OF c h g g] h d toy_won_get show ?thesis by blast
qed

end
