(* ===== verification/Inbox.thy ===== *)
theory Inbox
  imports Ln_Watcher Commands
begin

text \<open>
  Receiving and dispatching (\<open>daemon/src/nostr/ingress.ts\<close>, \<open>daemon/src/dispatch.ts\<close>, the router of
  \<open>daemon/src/runtime.ts\<close>).  An event addressed to the app is stored once by its id; the dispatcher hands every
  stored event to one handler, in the order the senders gave, and closes it whatever the handler does.

  The database is extended by the table \<open>inbox\<close>; the signature check \<open>verify\<close> is a parameter.  The row keeps the
  event instead of its JSON text.
\<close>

record inbox_row =
  ib_event :: inbox_event
  ib_received_at :: msec
  ib_processed_at :: "msec option"
  ib_outcome :: "string option"

record ddb = db +
  inbox :: "inbox_row list"

definition ib_id :: "inbox_row \<Rightarrow> string" where "ib_id r = ie_id (ib_event r)"

subsection \<open>Receiving\<close>

definition MAX_FUTURE_SKEW_SEC :: sec where "MAX_FUTURE_SKEW_SEC = 5 * 60"
definition KV_EPOCH :: string where "KV_EPOCH = ''ingress.epoch''"
definition KV_CURSOR :: string where "KV_CURSOR = ''ingress.cursor''"

definition resolve_epoch :: "sec \<Rightarrow> 'm db_scheme \<Rightarrow> sec \<times> 'm db_scheme" where
  "resolve_epoch configured w =
     (case kv_get KV_EPOCH w of
        Some saved \<Rightarrow> (cell_int (Some saved) 0, w)
      | None \<Rightarrow> (configured, kv_set KV_EPOCH (int_str configured) w))"

definition cursor :: "sec \<Rightarrow> 'm db_scheme \<Rightarrow> sec" where
  "cursor epoch w = cell_int (kv_get KV_CURSOR w) epoch"

definition since :: "sec \<Rightarrow> sec \<Rightarrow> 'm db_scheme \<Rightarrow> sec" where
  "since epoch lookbackSec w = max epoch (cursor epoch w - lookbackSec)"

definition addressed_to :: "string \<Rightarrow> inbox_event \<Rightarrow> bool" where
  "addressed_to app ev \<longleftrightarrow>
     list_ex (\<lambda>t. case t of n # v # _ \<Rightarrow> n = ''p'' \<and> v = app | _ \<Rightarrow> False) (ie_tags ev)"

definition has_event :: "string \<Rightarrow> 'm ddb_scheme \<Rightarrow> bool" where
  "has_event i w \<longleftrightarrow> list_ex (\<lambda>r. ib_id r = i) (inbox w)"

definition advance_cursor :: "sec \<Rightarrow> sec \<Rightarrow> 'm db_scheme \<Rightarrow> 'm db_scheme" where
  "advance_cursor epoch created_at w =
     (if created_at \<le> now_sec w + MAX_FUTURE_SKEW_SEC \<and> created_at > cursor epoch w
      then kv_set KV_CURSOR (int_str created_at) w else w)"

definition accept :: "env \<Rightarrow> (inbox_event \<Rightarrow> bool) \<Rightarrow> sec \<Rightarrow> inbox_event \<Rightarrow> 'm ddb_scheme \<Rightarrow> bool \<times> 'm ddb_scheme" where
  "accept e verify epoch ev w =
     (if ie_kind ev \<noteq> MESSAGE_KIND then (False, w)
      else if \<not> addressed_to (e_app_pubkey e) ev then (False, w)
      else if ie_created_at ev < epoch then (False, w)
      else if \<not> verify ev then (False, w)
      else if has_event (ie_id ev) w then (False, w)
      else (True, advance_cursor epoch (ie_created_at ev)
              (w\<lparr>inbox := inbox w @ [\<lparr>ib_event = ev, ib_received_at = q_now w, ib_processed_at = None,
                 ib_outcome = None\<rparr>]\<rparr>)))"

subsection \<open>Routing\<close>

text \<open>
  \<open>reg\<close> is the registry of operator commands; \<open>oc\<close> gives the handlers of the on-chain track, a daemon without the
  track has none.
\<close>

definition route ::
  "env \<Rightarrow> 'm directory \<Rightarrow> (string \<Rightarrow> 'm command option) \<Rightarrow> (string \<Rightarrow> 'm handler option)
   \<Rightarrow> inbox_event \<Rightarrow> 'm handler option" where
  "route e dir reg oc ev =
     (let t = tag_value ''t'' (ie_tags ev);
          action = tag_value ''action'' (ie_tags ev);
          ours = t = Some (e_tag_ln e) \<or> t = Some (e_tag_oc e)
      in if ie_pubkey ev = e_app_pubkey e then None
         else if t = Some (e_tag_admin e) \<and> action = Some ''admin-command'' then Some (admin_handler reg)
         else if action = Some ''admin-command'' then None
         else if ours \<and> action = Some ''dispute-message'' then Some (chat_forwarder dir)
         else if ours \<and> action = Some ''peer-message'' then Some (peer_pinger dir)
         else if t = Some (e_tag_ln e) \<and> js_true_s action then ln_handler (the action)
         else if t = Some (e_tag_oc e) \<and> js_true_s action then oc (the action)
         else None)"

subsection \<open>Dispatching\<close>

definition close_event :: "string \<Rightarrow> string \<Rightarrow> 'm ddb_scheme \<Rightarrow> 'm ddb_scheme" where
  "close_event i outcome w =
     w\<lparr>inbox := update_where (\<lambda>r. ib_id r = i)
         (\<lambda>r. r\<lparr>ib_processed_at := Some (q_now w), ib_outcome := Some outcome\<rparr>) (inbox w)\<rparr>"

fun outcome_str :: "handler_result \<Rightarrow> string" where
  "outcome_str H_ok = ''ok''"
| "outcome_str (H_ignored reason) = ''ignored:'' @ reason"

type_synonym 'm router = "inbox_event \<Rightarrow> 'm ddb_ext handler option"

definition process_event :: "env \<Rightarrow> 'm router \<Rightarrow> inbox_event \<Rightarrow> 'm ddb_scheme \<Rightarrow> 'm ddb_scheme" where
  "process_event e rt ev w =
     (case rt ev of
        None \<Rightarrow> close_event (ie_id ev) ''ignored:no-route'' w
      | Some h \<Rightarrow>
          (case h e ev w of
             Some (res, w') \<Rightarrow> close_event (ie_id ev) (outcome_str res) w'
           | None \<Rightarrow> close_event (ie_id ev) ''error'' w))"

text \<open>The verdict an event is closed with: its handler's, or why it had none.\<close>

definition verdict_of :: "env \<Rightarrow> 'm router \<Rightarrow> inbox_event \<Rightarrow> 'm ddb_scheme \<Rightarrow> string" where
  "verdict_of e rt ev w =
     (case rt ev of
        None \<Rightarrow> ''ignored:no-route''
      | Some h \<Rightarrow> (case h e ev w of Some (res, _) \<Rightarrow> outcome_str res | None \<Rightarrow> ''error''))"

definition ready_rows :: "msec \<Rightarrow> nat \<Rightarrow> 'm ddb_scheme \<Rightarrow> inbox_row list" where
  "ready_rows holdMs limit w =
     take limit (sort_key (\<lambda>r. ie_created_at (ib_event r)) (sort_key ib_id
       (filter (\<lambda>r. ib_processed_at r = None \<and> ib_received_at r \<le> q_now w - holdMs) (inbox w))))"

definition run_pending :: "env \<Rightarrow> 'm router \<Rightarrow> msec \<Rightarrow> nat \<Rightarrow> 'm ddb_scheme \<Rightarrow> 'm ddb_scheme" where
  "run_pending e rt holdMs limit w =
     fold (\<lambda>r. process_event e rt (ib_event r)) (ready_rows holdMs limit w) w"

text \<open>A pass closes exactly the rows it was given.\<close>

definition closes :: "string set \<Rightarrow> msec \<Rightarrow> inbox_row list \<Rightarrow> inbox_row list \<Rightarrow> bool" where
  "closes ids now rows rows' \<longleftrightarrow> list_all2 (\<lambda>r r'. ib_event r' = ib_event r \<and> ib_received_at r' = ib_received_at r
     \<and> (if ib_id r \<in> ids then ib_processed_at r' = Some now else r' = r)) rows rows'"

lemma closes_step:
  assumes "closes ids now rows rows'"
  shows "closes (insert i ids) now rows
    (update_where (\<lambda>r. ib_id r = i) (\<lambda>r. r\<lparr>ib_processed_at := Some now, ib_outcome := Some out\<rparr>) rows')"
  using assms unfolding closes_def update_where_def
  by (auto simp: list_all2_conv_all_nth ib_id_def)

subsection \<open>What the dispatcher needs of its handlers\<close>

text \<open>
  A handler keeps an invariant \<open>I\<close> that does not look at the inbox, moves the database along \<open>R\<close> and touches neither
  the clock nor the inbox.
\<close>

locale event_router =
  fixes e :: env and rt :: "'m router"
    and I :: "'m ddb_scheme \<Rightarrow> bool" and R :: "'m ddb_scheme \<Rightarrow> 'm ddb_scheme \<Rightarrow> bool"
  assumes handler_ok: "\<lbrakk>rt ev = Some h; h e ev w = Some (res, w'); I w\<rbrakk>
      \<Longrightarrow> I w' \<and> R w w' \<and> q_now w' = q_now w \<and> inbox w' = inbox w"
    and I_inbox: "I (w\<lparr>inbox := rs\<rparr>) = I w"
    and R_inbox: "R w v \<Longrightarrow> R w (v\<lparr>inbox := rs\<rparr>)"
    and R_refl: "R w w" and R_trans: "R u v \<Longrightarrow> R v w \<Longrightarrow> R u w"
begin

lemma process_ok:
  assumes "I w"
  shows "I (process_event e rt ev w) \<and> R w (process_event e rt ev w) \<and> q_now (process_event e rt ev w) = q_now w
    \<and> (\<exists>out. inbox (process_event e rt ev w) = inbox (close_event (ie_id ev) out w))"
proof -
  have c: "I (close_event i out v) \<and> R w (close_event i out v) \<and> q_now (close_event i out v) = q_now v
      \<and> inbox (close_event i out v) = inbox (close_event i out w)"
    if "I v" and "R w v" and "q_now v = q_now w" and "inbox v = inbox w" for v i out
    using that by (simp add: close_event_def I_inbox R_inbox)
  show ?thesis
  proof (cases "rt ev")
    case None
    then show ?thesis using c [OF assms R_refl refl refl] by (auto simp: process_event_def)
  next
    case (Some h)
    show ?thesis
    proof (cases "h e ev w")
      case None
      then show ?thesis using Some c [OF assms R_refl refl refl] by (auto simp: process_event_def)
    next
      case res: (Some x)
      obtain r v where x: "x = (r, v)" by force
      note h = handler_ok [OF Some res [unfolded x] assms]
      have p: "process_event e rt ev w = close_event (ie_id ev) (outcome_str r) v"
        using Some res x by (simp add: process_event_def)
      show ?thesis unfolding p using c [of v "ie_id ev" "outcome_str r"] h by auto
    qed
  qed
qed

lemma process_inbox:
  assumes "I w"
  shows "inbox (process_event e rt ev w) = inbox (close_event (ie_id ev) (verdict_of e rt ev w) w)"
proof (cases "rt ev")
  case (Some h)
  show ?thesis
  proof (cases "h e ev w")
    case res: (Some x)
    obtain r v where x: "x = (r, v)" by force
    show ?thesis using Some res x handler_ok [OF Some res [unfolded x] assms]
      by (simp add: process_event_def verdict_of_def close_event_def)
  qed (simp add: Some process_event_def verdict_of_def)
qed (simp add: process_event_def verdict_of_def)

lemma process_closes:
  assumes "I w" and "r \<in> set (inbox w)"
  shows "r\<lparr>ib_processed_at := Some (q_now w), ib_outcome := Some (verdict_of e rt (ib_event r) w)\<rparr>
    \<in> set (inbox (process_event e rt (ib_event r) w))"
  using assms(2) by (auto simp: process_inbox [OF assms(1)] close_event_def update_where_def ib_id_def image_iff)

lemma process_keeps:
  assumes "I w" and "x \<in> set (inbox w)" and "ib_id x \<noteq> ib_id r"
  shows "x \<in> set (inbox (process_event e rt (ib_event r) w))"
  using assms(2,3) by (auto simp: process_inbox [OF assms(1)] close_event_def update_where_def ib_id_def image_iff
      intro!: bexI [of _ x])

lemma fold_keeps:
  "\<lbrakk>I w; x \<in> set (inbox w); ib_id x \<notin> ib_id ` set rs\<rbrakk>
   \<Longrightarrow> x \<in> set (inbox (fold (\<lambda>r. process_event e rt (ib_event r)) rs w))"
proof (induction rs arbitrary: w)
  case (Cons r rs)
  have "I (process_event e rt (ib_event r) w)" using process_ok [OF Cons.prems(1)] by blast
  with Cons.IH process_keeps [OF Cons.prems(1,2), of r] Cons.prems(3) show ?case by auto
qed simp

lemma fold_process_ok:
  "\<lbrakk>I w; closes ids (q_now w) rows (inbox w)\<rbrakk> \<Longrightarrow>
   let w' = fold (\<lambda>r. process_event e rt (ib_event r)) rs w
   in I w' \<and> R w w' \<and> q_now w' = q_now w \<and> closes (ids \<union> ib_id ` set rs) (q_now w) rows (inbox w')"
proof (induction rs arbitrary: w ids)
  case Nil
  then show ?case using R_refl by simp
next
  case (Cons r rs)
  let ?w1 = "process_event e rt (ib_event r) w"
  from process_ok [OF Cons.prems(1), of "ib_event r"] obtain out where
    1: "I ?w1" "R w ?w1" "q_now ?w1 = q_now w" "inbox ?w1 = inbox (close_event (ib_id r) out w)"
    by (auto simp: ib_id_def)
  have "closes (insert (ib_id r) ids) (q_now ?w1) rows (inbox ?w1)"
    using closes_step [OF Cons.prems(2)] 1(3,4) by (simp add: close_event_def)
  from Cons.IH [OF 1(1) this] 1(2,3) R_trans [OF 1(2)] show ?case by (auto simp: Let_def)
qed

lemma step_of_pass:
  assumes "I w" and "distinct (map ib_id rs)" and "set rs \<subseteq> set (inbox w)" and "i < length rs"
  defines "ws j \<equiv> fold (\<lambda>r. process_event e rt (ib_event r)) (take j rs) w"
  shows "ws (Suc i) = process_event e rt (ib_event (rs ! i)) (ws i)" and "rs ! i \<in> set (inbox (ws i))"
    and "(rs ! i)\<lparr>ib_processed_at := Some (q_now w), ib_outcome := Some (verdict_of e rt (ib_event (rs ! i)) (ws i))\<rparr>
      \<in> set (inbox (ws (length rs)))"
proof -
  have rest: "rs ! i # drop (Suc i) rs = drop i rs" by (rule Cons_nth_drop_Suc [OF assms(4)])
  have ids: "ib_id (rs ! i) \<notin> ib_id ` set (take i rs)" "ib_id (rs ! i) \<notin> ib_id ` set (drop (Suc i) rs)"
    using assms(2) id_take_nth_drop [OF assms(4)] by (metis distinct_append distinct.simps(2) list.simps(9) map_append
        disjoint_iff list.set_map list.set_intros(1))+
  show s: "ws (Suc i) = process_event e rt (ib_event (rs ! i)) (ws i)"
    by (simp add: ws_def take_Suc_conv_app_nth [OF assms(4)])
  have w: "closes {} (q_now w) (inbox w) (inbox w)" by (simp add: closes_def list_all2_same)
  note pre = fold_process_ok [OF assms(1) w, of "take i rs", unfolded Let_def, folded ws_def]
  show r: "rs ! i \<in> set (inbox (ws i))"
    using fold_keeps [OF assms(1) _ ids(1)] assms(3) nth_mem [OF assms(4)] by (auto simp: ws_def)
  let ?x = "(rs ! i)\<lparr>ib_processed_at := Some (q_now w), ib_outcome := Some (verdict_of e rt (ib_event (rs ! i)) (ws i))\<rparr>"
  have "?x \<in> set (inbox (ws (Suc i)))" using process_closes [of "ws i", OF _ r] pre by (simp add: s)
  moreover have "I (ws (Suc i))" using process_ok pre by (simp add: s)
  moreover have "ib_id ?x \<notin> ib_id ` set (drop (Suc i) rs)" using ids(2) by (simp add: ib_id_def)
  ultimately have "?x \<in> set (inbox (fold (\<lambda>r. process_event e rt (ib_event r)) (drop (Suc i) rs) (ws (Suc i))))"
    using fold_keeps by blast
  moreover have "ws (length rs) = fold (\<lambda>r. process_event e rt (ib_event r)) (drop (Suc i) rs) (ws (Suc i))"
    unfolding ws_def fold_append [THEN fun_cong, unfolded comp_def, symmetric] append_take_drop_id by simp
  ultimately show "?x \<in> set (inbox (ws (length rs)))" by simp
qed

lemma run_pending_ok:
  assumes "I w"
  shows "I (run_pending e rt holdMs limit w)" and "R w (run_pending e rt holdMs limit w)"
    and "q_now (run_pending e rt holdMs limit w) = q_now w"
    and "closes (ib_id ` set (ready_rows holdMs limit w)) (q_now w) (inbox w) (inbox (run_pending e rt holdMs limit w))"
proof -
  have "closes {} (q_now w) (inbox w) (inbox w)" by (simp add: closes_def list_all2_same)
  from fold_process_ok [OF assms this, of "ready_rows holdMs limit w"]
  show "I (run_pending e rt holdMs limit w)" and "R w (run_pending e rt holdMs limit w)"
    and "q_now (run_pending e rt holdMs limit w) = q_now w"
    and "closes (ib_id ` set (ready_rows holdMs limit w)) (q_now w) (inbox w) (inbox (run_pending e rt holdMs limit w))"
    by (simp_all add: run_pending_def Let_def)
qed

end

subsection \<open>The daemon's router\<close>

lemma more_inbox: "db.more w' = db.more w \<Longrightarrow> inbox w' = inbox (w :: 'm ddb_scheme)"
  by (cases w; cases w') simp

lemma ln_winv_inbox: "ln_winv e (w\<lparr>inbox := rs\<rparr>) = ln_winv e (w :: 'm ddb_scheme)"
  by (simp add: ln_winv_def hold_inv_def q_wf_def hold_wf_def ln_inv_def)

lemma route_ok:
  assumes "route e dir (registry dir) (\<lambda>_. None) ev = Some h" and "h e ev w = Some (res, w')"
  shows "ln_ok e w w'"
  using assms
  by (auto simp: route_def Let_def split: if_splits
      dest: admin_handler_ok ln_ok_quiet [OF chat_forwarder_quiet] ln_ok_quiet [OF peer_pinger_quiet] ln_handler_ok)

interpretation ln_router: event_router e "route e dir (registry dir) (\<lambda>_. None)" "ln_winv e" orders_evolve for e dir
proof unfold_locales
  show "ln_winv e w' \<and> orders_evolve w w' \<and> q_now w' = q_now w \<and> inbox w' = inbox w"
    if "route e dir (registry dir) (\<lambda>_. None) ev = Some h" "h e ev w = Some (res, w')" "ln_winv e w" for ev h w res w'
    using route_ok [OF that(1,2)] that(3) more_inbox by (auto simp: ln_ok_def)
  show "orders_evolve w v \<Longrightarrow> orders_evolve w (v\<lparr>inbox := rs\<rparr>)" for w v :: "'a ddb_scheme" and rs
    by (simp add: orders_evolve_def get_order_def)
  show "orders_evolve u v \<Longrightarrow> orders_evolve v w \<Longrightarrow> orders_evolve u w" for u v w :: "'a ddb_scheme"
    by (rule orders_evolve_trans)
qed (simp_all add: ln_winv_inbox)

definition inbox_wf :: "'m ddb_scheme \<Rightarrow> bool" where "inbox_wf w \<longleftrightarrow> distinct (map ib_id (inbox w))"

lemma accept_wf: "inbox_wf w \<Longrightarrow> inbox_wf (snd (accept e verify epoch ev w))"
  by (auto simp: inbox_wf_def accept_def has_event_def advance_cursor_def kv_set_def ib_id_def list_ex_iff)

lemma accept_quiet_db:
  "ln_winv e w \<Longrightarrow> ln_winv e (snd (accept e2 verify epoch ev w)) \<and> orders_evolve w (snd (accept e2 verify epoch ev w))"
  by (auto simp: accept_def advance_cursor_def kv_set_def ln_winv_def hold_inv_def q_wf_def hold_wf_def ln_inv_def
      orders_evolve_def get_order_def)

lemma closes_row:
  assumes "closes ids now rows rows'" and "r \<in> set rows"
  shows "\<exists>r' \<in> set rows'. ib_event r' = ib_event r
    \<and> (if ib_id r \<in> ids then ib_processed_at r' = Some now else r' = r)"
  using assms unfolding closes_def by (fastforce simp: list_all2_conv_all_nth in_set_conv_nth)

lemma closes_row_back:
  assumes "closes ids now rows rows'" and "r' \<in> set rows'"
  shows "\<exists>r \<in> set rows. ib_event r = ib_event r' \<and> (ib_id r \<in> ids \<longrightarrow> ib_processed_at r' = Some now)"
  using assms unfolding closes_def by (fastforce simp: list_all2_conv_all_nth in_set_conv_nth)

lemma closes_events: "closes ids now rows rows' \<Longrightarrow> map ib_event rows' = map ib_event rows"
  unfolding closes_def by (auto simp: list_all2_conv_all_nth intro: nth_equalityI)

lemma closes_wf: "closes ids now rows rows' \<Longrightarrow> map ib_id rows' = map ib_id rows"
  unfolding closes_def by (auto simp: list_all2_conv_all_nth ib_id_def intro: nth_equalityI)

lemma ready_unprocessed: "r \<in> set (ready_rows h n w) \<Longrightarrow> ib_processed_at r = None \<and> r \<in> set (inbox w)"
  by (auto simp: ready_rows_def dest!: in_set_takeD)

text \<open>The order of two events: by the time of the sender, then by id.\<close>

definition comes_before :: "inbox_row \<Rightarrow> inbox_row \<Rightarrow> bool" where
  "comes_before r s \<longleftrightarrow> ie_created_at (ib_event r) < ie_created_at (ib_event s)
     \<or> ie_created_at (ib_event r) = ie_created_at (ib_event s) \<and> ib_id r \<le> ib_id s"

lemma insort_two_keys:
  assumes "sorted_wrt (\<lambda>a b. f a < f b \<or> f a = f b \<and> g a \<le> g b) ys" and "\<forall>y \<in> set ys. (g x :: 'b :: linorder) \<le> g y"
  shows "sorted_wrt (\<lambda>a b. f a < (f b :: 'a :: linorder) \<or> f a = f b \<and> g a \<le> g b) (insort_key f x ys)"
  using assms
proof (induction ys)
  case (Cons y ys)
  show ?case
  proof (cases "f x \<le> f y")
    case True
    then show ?thesis using Cons.prems by fastforce
  next
    case False
    then show ?thesis using Cons by (auto simp: set_insort_key)
  qed
qed simp

lemma sort_two_keys:
  "sorted (map g xs) \<Longrightarrow> sorted_wrt (\<lambda>a b. f a < f b \<or> f a = f b \<and> g a \<le> g b) (sort_key f xs)"
  by (induction xs) (auto intro!: insort_two_keys)

lemma ready_rows_sorted: "sorted_wrt comes_before (ready_rows h n w)"
  unfolding ready_rows_def comes_before_def [abs_def]
  by (intro sorted_wrt_take sort_two_keys) simp

lemma dispatch_fresh:
  assumes "closes (ib_id ` set rs) now rows (inbox w')" and "r \<in> set (ready_rows h n w')"
  shows "ib_id r \<notin> ib_id ` set rs"
proof
  assume in_rs: "ib_id r \<in> ib_id ` set rs"
  have r: "ib_processed_at r = None" "r \<in> set (inbox w')" using ready_unprocessed [OF assms(2)] by blast+
  from closes_row_back [OF assms(1) r(2)] in_rs r(1) show False by (auto simp: ib_id_def)
qed

subsection \<open>Properties\<close>

lemma ready_distinct: "inbox_wf w \<Longrightarrow> distinct (map ib_id (ready_rows h n w))"
  unfolding ready_rows_def take_map [symmetric] inbox_wf_def
  by (intro distinct_take) (auto simp: distinct_map intro: inj_on_subset)

text \<open>C27. A pass of the dispatcher judges every event it took exactly once and in the senders' order.  The rows it
  takes are sorted by the sender's time, then by id, and none is taken twice.  Their events are processed one after the
  other in that order, each on the database its predecessor left: before its turn a row is still open, at its turn it
  is closed with the verdict of its handler on that database, and neither the rest of the pass changes that row nor
  does any later pass take it again.  The rows not taken and all events stay as they were, and whatever the handlers do
  or throw, the Lightning database stays well-formed and orders move along the table.  The table's primary key
  (\<open>inbox_wf\<close>) is the hypothesis, kept by the pass.\<close>

theorem dispatch_once:
  assumes "ln_winv e w" and "inbox_wf w" and "rt = route e dir (registry dir) (\<lambda>_. None)"
    and "run_pending e rt holdMs limit w = w'" and "rs = ready_rows holdMs limit w"
  shows "ln_winv e w' \<and> inbox_wf w' \<and> orders_evolve w w' \<and> map ib_event (inbox w') = map ib_event (inbox w)
    \<and> sorted_wrt comes_before rs \<and> distinct (map ib_id rs)
    \<and> (\<exists>ws. ws 0 = w \<and> ws (length rs) = w' \<and> (\<forall>i < length rs.
          ws (Suc i) = process_event e rt (ib_event (rs ! i)) (ws i)
        \<and> ib_processed_at (rs ! i) = None \<and> rs ! i \<in> set (inbox (ws i))
        \<and> (rs ! i)\<lparr>ib_processed_at := Some (q_now w), ib_outcome := Some (verdict_of e rt (ib_event (rs ! i)) (ws i))\<rparr>
            \<in> set (inbox w')))
    \<and> (\<forall>r \<in> set (inbox w). ib_id r \<notin> ib_id ` set rs \<longrightarrow> r \<in> set (inbox w'))
    \<and> (\<forall>r \<in> set (ready_rows laterHold laterLimit w'). ib_id r \<notin> ib_id ` set rs)"
proof -
  let ?ws = "\<lambda>j. fold (\<lambda>r. process_event e rt (ib_event r)) (take j rs) w"
  note ok = ln_router.run_pending_ok [OF assms(1), where dir = dir and holdMs = holdMs and limit = limit,
      folded assms(3), folded assms(5), unfolded assms(4)]
  have d: "distinct (map ib_id rs)" and open_rows: "r \<in> set rs \<Longrightarrow> ib_processed_at r = None \<and> r \<in> set (inbox w)" for r
    using ready_distinct [OF assms(2)] ready_unprocessed assms(5) by blast+
  note step = ln_router.step_of_pass [OF assms(1) d, where dir = dir, folded assms(3)]
  have run: "?ws (length rs) = w'" using assms(4,5) by (simp add: run_pending_def)
  have "ws (Suc i) = process_event e rt (ib_event (rs ! i)) (ws i)
        \<and> ib_processed_at (rs ! i) = None \<and> rs ! i \<in> set (inbox (ws i))
        \<and> (rs ! i)\<lparr>ib_processed_at := Some (q_now w), ib_outcome := Some (verdict_of e rt (ib_event (rs ! i)) (ws i))\<rparr>
            \<in> set (inbox w')" if "i < length rs" and "ws = ?ws" for i ws
    using step [of i] that open_rows nth_mem [OF that(1)] run by blast
  then have "\<exists>ws. ws 0 = w \<and> ws (length rs) = w' \<and> (\<forall>i < length rs.
          ws (Suc i) = process_event e rt (ib_event (rs ! i)) (ws i)
        \<and> ib_processed_at (rs ! i) = None \<and> rs ! i \<in> set (inbox (ws i))
        \<and> (rs ! i)\<lparr>ib_processed_at := Some (q_now w), ib_outcome := Some (verdict_of e rt (ib_event (rs ! i)) (ws i))\<rparr>
            \<in> set (inbox w'))"
    using run by (intro exI [of _ ?ws]) simp
  moreover have "r \<in> set (inbox w')" if "r \<in> set (inbox w)" and "ib_id r \<notin> ib_id ` set rs" for r
    using closes_row [OF ok(4) that(1)] that(2) by auto
  moreover have "inbox_wf w'" using assms(2) closes_wf [OF ok(4)] by (simp add: inbox_wf_def)
  ultimately show ?thesis
    using ok(1,2) closes_events [OF ok(4)] ready_rows_sorted [of holdMs limit w] d dispatch_fresh [OF ok(4)]
    unfolding assms(5) by blast
qed

definition toy_request :: inbox_event where
  "toy_request = (toy_event ''sp'')\<lparr>ie_tags := [[''p'', ''app''], [''t'', ''ln''], [''action'', ''claim''], [''a'', ''38383:app:ord1'']]\<rparr>"

text \<open>A database right after its migrations ran, at time \<open>t\<close>.\<close>

definition empty_ddb :: "msec \<Rightarrow> ddb" where
  "empty_ddb t = \<lparr>q_rows = [], q_seq = 1, q_now = t, invoices = [], ln_orders = [], ln_drafts = [],
     alerts = [], notices = [], kv = (\<lambda>_. None), db_settings = DEFAULT_SETTINGS, push_subs = [], inbox = []\<rparr>"

definition toy_ddb :: "inbox_row list \<Rightarrow> ddb" where
  "toy_ddb rows = (empty_ddb 5000)\<lparr>ln_orders := [toy_order], inbox := rows\<rparr>"

lemma toy_ddb_winv: "ln_winv e (toy_ddb rows)"
  by (auto simp: ln_winv_def hold_inv_def q_wf_def hold_wf_def ln_inv_def toy_ddb_def empty_ddb_def toy_order_def new_order_ok)

definition toy_row :: inbox_row where
  "toy_row = \<lparr>ib_event = toy_request, ib_received_at = 0, ib_processed_at = None, ib_outcome = None\<rparr>"

text \<open>Two requests that arrived in the wrong order, the later one first.\<close>

definition late_request :: inbox_event where
  "late_request = toy_request\<lparr>ie_id := ''late'', ie_created_at := 1\<rparr>"

definition late_row :: inbox_row where "late_row = toy_row\<lparr>ib_event := late_request\<rparr>"

definition toy_router :: "unit router" where
  "toy_router = route toy_env ln_directory (registry ln_directory) (\<lambda>_. None)"

theorem dispatch_once_witness:
  "\<exists>w1 w2. w1 = process_event toy_env toy_router toy_request (toy_ddb [late_row, toy_row])
     \<and> w2 = process_event toy_env toy_router late_request w1
     \<and> run_pending toy_env toy_router 2000 200 (toy_ddb [late_row, toy_row]) = w2
     \<and> late_row\<lparr>ib_processed_at := Some 5000, ib_outcome := Some (verdict_of toy_env toy_router late_request w1)\<rparr> \<in> set (inbox w2)"
proof -
  let ?w = "toy_ddb [late_row, toy_row]"
  have r: "[toy_row, late_row] = ready_rows 2000 200 ?w"
    by (simp add: ready_rows_def toy_ddb_def empty_ddb_def toy_row_def late_row_def late_request_def toy_request_def
        toy_event_def)
  have i: "inbox_wf ?w"
    by (simp add: inbox_wf_def toy_ddb_def toy_row_def late_row_def late_request_def toy_request_def toy_event_def ib_id_def)
  have ev: "ib_event toy_row = toy_request" "ib_event late_row = late_request" "q_now ?w = 5000"
    by (simp_all add: toy_row_def late_row_def toy_ddb_def empty_ddb_def)
  note pass = dispatch_once [OF toy_ddb_winv i toy_router_def refl r, where laterHold = 0 and laterLimit = 0]
  from pass [THEN conjunct2, THEN conjunct2, THEN conjunct2, THEN conjunct2, THEN conjunct2, THEN conjunct2, THEN conjunct1]
  obtain ws where ws: "ws 0 = ?w" "ws (length [toy_row, late_row]) = run_pending toy_env toy_router 2000 200 ?w"
    and step: "i < length [toy_row, late_row] \<Longrightarrow>
        ws (Suc i) = process_event toy_env toy_router (ib_event ([toy_row, late_row] ! i)) (ws i)
      \<and> ([toy_row, late_row] ! i)\<lparr>ib_processed_at := Some (q_now ?w), ib_outcome := Some (verdict_of toy_env
          toy_router (ib_event ([toy_row, late_row] ! i)) (ws i))\<rparr> \<in> set (inbox (run_pending toy_env toy_router 2000 200 ?w))" for i
    by blast
  have "ws (Suc 0) = process_event toy_env toy_router toy_request ?w" using step [of 0] ws(1) by (simp add: ev)
  moreover have "run_pending toy_env toy_router 2000 200 ?w = process_event toy_env toy_router late_request (ws (Suc 0))"
    and "late_row\<lparr>ib_processed_at := Some 5000, ib_outcome := Some (verdict_of toy_env toy_router late_request (ws (Suc 0)))\<rparr>
      \<in> set (inbox (run_pending toy_env toy_router 2000 200 ?w))"
    using step [of 1] ws(2) by (simp_all add: ev)
  ultimately show ?thesis by (intro exI [of _ "ws (Suc 0)"] exI [of _ "run_pending toy_env toy_router 2000 200 ?w"]) simp
qed

text \<open>An event is accepted exactly when it is a request addressed to the app, not older than the epoch, correctly
  signed and not known by its id; anything else changes nothing, an accepted one is stored unprocessed, a later
  event with the same id is refused whatever it says, and the cursor never goes back and never runs more than five
  minutes ahead of the clock, so no forged date can make the next subscription skip events.\<close>

theorem accept_once:
  assumes "accept e verify epoch ev w = (new, w')" and "\<bar>ie_created_at ev\<bar> < 2 ^ 53"
  shows "(new \<longleftrightarrow> ie_kind ev = 3838 \<and> addressed_to (e_app_pubkey e) ev \<and> epoch \<le> ie_created_at ev \<and> verify ev
            \<and> \<not> has_event (ie_id ev) w)
    \<and> (\<not> new \<longrightarrow> w' = w)
    \<and> (new \<longrightarrow> inbox w' = inbox w @ [\<lparr>ib_event = ev, ib_received_at = q_now w, ib_processed_at = None, ib_outcome = None\<rparr>])
    \<and> (has_event (ie_id ev) w' \<longrightarrow> ie_id ev2 = ie_id ev \<longrightarrow> accept e2 verify2 epoch2 ev2 w' = (False, w'))
    \<and> cursor epoch w \<le> cursor epoch w' \<and> cursor epoch w' \<le> max (cursor epoch w) (now_sec w + 300)"
proof -
  have c: "cursor epoch (kv_set KV_CURSOR (int_str (ie_created_at ev)) v) = ie_created_at ev" for v :: "'a ddb_scheme"
    using assms(2) by (simp add: cursor_def kv_get_def kv_set_def cell_int_def)
  have r: "cursor epoch (v\<lparr>inbox := rs\<rparr>) = cursor epoch v" "now_sec (v\<lparr>inbox := rs\<rparr>) = now_sec v" for v :: "'a ddb_scheme" and rs
    by (simp_all add: cursor_def kv_get_def now_sec_def)
  have i: "inbox (advance_cursor epoch t v) = inbox v" for t and v :: "'a ddb_scheme"
    by (simp add: advance_cursor_def kv_set_def)
  have "cursor epoch w \<le> cursor epoch w' \<and> cursor epoch w' \<le> max (cursor epoch w) (now_sec w + 300)"
    using assms(1) by (auto simp: accept_def advance_cursor_def c r MAX_FUTURE_SKEW_SEC_def split: if_splits)
  moreover have "has_event (ie_id ev) w' \<longrightarrow> ie_id ev2 = ie_id ev \<longrightarrow> accept e2 verify2 epoch2 ev2 w' = (False, w')"
    by (simp add: accept_def)
  ultimately show ?thesis using assms(1) by (auto simp: accept_def i MESSAGE_KIND_def split: if_splits)
qed

theorem accept_once_witness:
  "accept toy_env (\<lambda>_. True) 0 toy_request (toy_ddb [toy_row]) = (False, toy_ddb [toy_row])
   \<and> fst (accept toy_env (\<lambda>_. True) 0 toy_request (toy_ddb []))
   \<and> accept toy_env (\<lambda>_. True) 0 toy_request (snd (accept toy_env (\<lambda>_. True) 0 toy_request (toy_ddb [])))
     = (False, snd (accept toy_env (\<lambda>_. True) 0 toy_request (toy_ddb [])))"
proof -
  let ?a = "accept toy_env (\<lambda>_. True) 0 toy_request (toy_ddb [])"
  have facts: "ie_kind toy_request = 3838" "addressed_to ''app'' toy_request" "ie_created_at toy_request = 0"
    "e_app_pubkey toy_env = ''app''" "\<not> has_event (ie_id toy_request) (toy_ddb [])"
    "has_event (ie_id toy_request) (toy_ddb [toy_row])"
    by (simp_all add: toy_request_def toy_event_def addressed_to_def toy_env_def has_event_def toy_ddb_def toy_row_def ib_id_def)
  have b: "\<bar>ie_created_at toy_request\<bar> < 2 ^ 53" by (simp add: facts)
  obtain n w' where a: "?a = (n, w')" by force
  note A = accept_once [OF a b, of toy_request toy_env "\<lambda>_. True" 0]
  have n: n using A facts by simp
  then have "has_event (ie_id toy_request) w'" using A by (simp add: has_event_def ib_id_def)
  then have again: "accept toy_env (\<lambda>_. True) 0 toy_request w' = (False, w')" using A by simp
  have "accept toy_env (\<lambda>_. True) 0 toy_request (toy_ddb [toy_row]) = (False, toy_ddb [toy_row])"
    by (simp add: accept_def facts)
  then show ?thesis using n again by (simp add: a)
qed

end
