(* ===== verification/Daemon.thy ===== *)
theory Daemon
  imports Inbox
begin

text \<open>
  The running daemon (\<open>daemon/src/runtime.ts\<close>): the table of effect executors, one tick, and the system the daemon
  forms with the world around it, as a step relation.

  The world is a parameter of every step: the Lightning node, the relays, the push service, what the deployment
  fixes.  This is the daemon without the on-chain track (\<open>deps.onchain\<close> absent).  Only receiving an event happens
  between the parts of a tick, and it writes the inbox and its cursor alone, so each part of a tick is one step.
\<close>

record world =
  wd_node :: node
  wd_relay :: relay
  wd_push :: "pusher option"
  wd_deploy :: deployment
  wd_message :: "alert \<Rightarrow> string"
  wd_wrap :: "string \<Rightarrow> nostr_event"

subsection \<open>Executors\<close>

type_synonym 'm exec = "(payload, 'm db_ext, eff_result) qexec"

text \<open>An executor without the optional hooks.\<close>

definition plain_exec ::
  "('m db_scheme \<Rightarrow> payload \<Rightarrow> eff_result outcome option) \<Rightarrow> (payload \<Rightarrow> eff_result \<Rightarrow> 'm db_scheme \<Rightarrow> 'm db_scheme option)
   \<Rightarrow> 'm exec" where
  "plain_exec run on_done =
     \<lparr>ex_run = run, ex_on_done = on_done, ex_on_dead = (\<lambda>p err w. Some w), ex_on_retry = (\<lambda>p err w. Some w),
      ex_max_attempts = None\<rparr>"

text \<open>The fields of the payload an executor destructures.\<close>

definition on_order :: "payload \<Rightarrow> (string \<Rightarrow> 'a option) \<Rightarrow> 'a option" where
  "on_order p f = Option.bind (payload_order p) f"

definition create_exec :: "'m hooks_for \<Rightarrow> world \<Rightarrow> 'm exec" where
  "create_exec hooks wd = plain_exec
     (\<lambda>w p. case p of P_hold_create h \<Rightarrow> snd (create_run (wd_node wd) h w) | _ \<Rightarrow> None)
     (\<lambda>p r w. case p of P_hold_create h \<Rightarrow> create_on_done hooks h r w | _ \<Rightarrow> None)"

definition dispose_exec :: "'m hooks_for \<Rightarrow> env \<Rightarrow> world \<Rightarrow> 'm exec" where
  "dispose_exec hooks e wd = plain_exec
     (\<lambda>w p. case p of P_hold_dispose h a \<Rightarrow> snd (dispose_run e (wd_node wd) h a w) | _ \<Rightarrow> None)
     (\<lambda>p r w. case p of P_hold_dispose h a \<Rightarrow> dispose_on_done hooks h a r w | _ \<Rightarrow> None)"

definition close_exec :: "env \<Rightarrow> world \<Rightarrow> 'm exec" where
  "close_exec e wd =
     (plain_exec (\<lambda>w p. on_order p (\<lambda>oid. snd (close_run e (wd_node wd) oid w)))
        (\<lambda>p r w. on_order p (\<lambda>oid. close_on_done e oid r w)))
     \<lparr>ex_on_dead := (\<lambda>p err w. on_order p (\<lambda>oid. abandon_close e oid w))\<rparr>"

definition payout_exec :: "env \<Rightarrow> world \<Rightarrow> 'm exec" where
  "payout_exec e wd =
     (plain_exec (\<lambda>w p. on_order p (\<lambda>oid. snd (payout_run e (wd_node wd) oid w)))
        (\<lambda>p r w. on_order p (\<lambda>oid. payout_on_done e oid r w)))
     \<lparr>ex_on_retry := (\<lambda>p err w. on_order p (\<lambda>oid. payout_on_retry oid err w)),
      ex_on_dead := (\<lambda>p err w. on_order p (\<lambda>oid. payout_on_dead e oid err w))\<rparr>"

definition probe_exec :: "env \<Rightarrow> world \<Rightarrow> 'm exec" where
  "probe_exec e wd =
     (plain_exec (\<lambda>w p. case p of P_ln_probe oid b \<Rightarrow> snd (probe_run (wd_node wd) b) | _ \<Rightarrow> None)
        (\<lambda>p r w. case p of P_ln_probe oid b \<Rightarrow> probe_on_done e oid b r w | _ \<Rightarrow> None))
     \<lparr>ex_max_attempts := Some 3\<rparr>"

definition publish_exec :: "env \<Rightarrow> world \<Rightarrow> 'm exec" where
  "publish_exec e wd = plain_exec
     (\<lambda>w p. on_order p (\<lambda>oid. Some (publish_run e (wd_relay wd) oid w)))
     (\<lambda>p r w. on_order p (\<lambda>oid. publish_on_done e oid r w))"

definition detail_exec :: "env \<Rightarrow> world \<Rightarrow> 'm exec" where
  "detail_exec e wd = plain_exec
     (\<lambda>w p. on_order p (\<lambda>oid. detail_run e (wd_relay wd) oid w))
     (\<lambda>p r w. on_order p (\<lambda>oid. detail_on_done oid r w))"

definition nostr_exec :: "env \<Rightarrow> world \<Rightarrow> 'm exec" where
  "nostr_exec e wd = plain_exec
     (\<lambda>w p. case p of
        P_publish ev \<Rightarrow> Some (nostr_run (wd_relay wd) ev w)
      | P_operator_dm op \<Rightarrow> Some (nostr_run (wd_relay wd) (wd_wrap wd op) w)
      | _ \<Rightarrow> None)
     (\<lambda>p r w. Some w)"

definition state_exec :: "env \<Rightarrow> world \<Rightarrow> 'm exec" where
  "state_exec e wd = plain_exec
     (\<lambda>w p. case p of
        P_admin_state op \<Rightarrow> state_run e (wd_deploy wd) (wd_message wd) (wd_relay wd) op w
      | _ \<Rightarrow> None)
     (\<lambda>p r w. case p of P_admin_state op \<Rightarrow> state_on_done op r w | _ \<Rightarrow> None)"

definition push_exec :: "env \<Rightarrow> world \<Rightarrow> 'm exec" where
  "push_exec e wd =
     (plain_exec (\<lambda>w p. case p of P_push pk n oid ep \<Rightarrow> Some (push_run (wd_push wd) pk n oid ep w) | _ \<Rightarrow> None)
        (\<lambda>p r w. push_on_done r w))
     \<lparr>ex_max_attempts := Some 3\<rparr>"

definition executor_table :: "env \<Rightarrow> world \<Rightarrow> (string \<times> 'm exec) list" where
  "executor_table e wd =
     [(''nostr.publish'', nostr_exec e wd), (''admin.state'', state_exec e wd),
      (''hold.create'', create_exec (\<lambda>_. ln_hooks e) wd),
      (''hold.dispose'', dispose_exec (\<lambda>_. ln_hooks e) e wd),
      (''push.send'', push_exec e wd), (''ln.close'', close_exec e wd), (''ln.payout'', payout_exec e wd),
      (''ln.probe'', probe_exec e wd), (''ln.order.publish'', publish_exec e wd),
      (''ln.detail'', detail_exec e wd)]"

definition executors :: "env \<Rightarrow> world \<Rightarrow> string \<Rightarrow> 'm exec option" where
  "executors e wd = map_of (executor_table e wd)"

subsection \<open>A tick\<close>

definition heartbeat :: "env \<Rightarrow> msec option \<Rightarrow> 'm db_scheme \<Rightarrow> msec option \<times> 'm db_scheme" where
  "heartbeat e lastState w =
     (let now = q_now w; w1 = kv_set ''heartbeat'' (int_str now) w in
      if (case lastState of None \<Rightarrow> True | Some t \<Rightarrow> now - t \<ge> STATE_INTERVAL_MS)
      then (Some now, request_state_publish e w1) else (lastState, w1))"

definition ln_route :: "env \<Rightarrow> 'm router" where
  "ln_route e = (let dir = compose_directories [ln_directory] in route e dir (registry dir) (\<lambda>_. None))"

text \<open>The time of last state request is in memory only; the tick gives it back.  A throw ends the tick.\<close>

definition tick :: "env \<Rightarrow> world \<Rightarrow> msec \<Rightarrow> msec option \<Rightarrow> 'm ddb_scheme \<Rightarrow> msec option \<times> 'm ddb_scheme" where
  "tick e wd holdMs lastState w =
     (let w1 = run_pending e (ln_route e) holdMs 200 w in
      case hold_poll e (\<lambda>_. ln_hooks e) (wd_node wd) w1 of
        (w2, True) \<Rightarrow> (lastState, w2)
      | (w2, False) \<Rightarrow>
          (case ln_watch e (wd_node wd) w2 of
             (w3, True) \<Rightarrow> (lastState, w3)
           | (w3, False) \<Rightarrow>
               (case heartbeat e lastState (raise_stuck_effects e w3) of
                  (s, w4) \<Rightarrow> (s, run_due (executors e wd) 50 w4))))"

subsection \<open>Every executor keeps the Lightning database\<close>

lemma in_executors: "executors e wd k = Some ex \<Longrightarrow> (k, ex) \<in> set (executor_table e wd)"
  by (simp add: executors_def map_of_SomeD)

lemma plain_exec_sel [simp]:
  "ex_run (plain_exec run on_done) = run" "ex_on_done (plain_exec run on_done) = on_done"
  "ex_on_dead (plain_exec run on_done) p err w = Some w" "ex_on_retry (plain_exec run on_done) p err w = Some w"
  "ex_max_attempts (plain_exec run on_done) = None"
  by (simp_all add: plain_exec_def)

lemmas executor_defs = create_exec_def dispose_exec_def close_exec_def payout_exec_def probe_exec_def
  publish_exec_def detail_exec_def nostr_exec_def state_exec_def push_exec_def on_order_def

lemma get_order_rows [simp]: "get_order oid (w\<lparr>q_rows := rs\<rparr>) = get_order oid w"
  by (simp add: get_order_def)

lemma payout_exec_done:
  assumes "snd (payout_run e nd oid w) = Some (O_done r)"
    and "payout_on_done e oid r (w\<lparr>q_rows := rs\<rparr>) = Some w'"
  shows "ln_ok e (w\<lparr>q_rows := rs\<rparr>) w'"
proof (rule payout_on_done_ok [OF assms(2)])
  fix x assume x: "get_order oid (w\<lparr>q_rows := rs\<rparr>) = Some x"
  obtain cs out where c: "payout_run e nd oid w = (cs, out)" by force
  show "payout_report_ok r x" by (rule payout_run_report [of e nd oid w cs]) (use c assms(1) x in simp_all)
qed

lemma exec_done_ok:
  assumes "executors e wd k = Some ex" and "ex_run ex w p = Some (O_done r)"
    and "ex_on_done ex p r (w\<lparr>q_rows := rs\<rparr>) = Some w'"
  shows "ln_ok e (w\<lparr>q_rows := rs\<rparr>) w'"
  using in_executors [OF assms(1)] assms(2,3)
  by (auto simp: executor_table_def executor_defs ln_holds.create_on_done_ok ln_holds.dispose_on_done_ok
      close_on_done_ok probe_on_done_ok publish_on_done_ok detail_on_done_ok state_on_done_ok push_on_done_ok
      split: payload.splits) (erule (1) payout_exec_done)

lemma failures_not_manual: "\<not> is_manual_payout (Some (int_str n @ '' failures: '' @ e'))"
proof -
  define m where "m = int_str n @ '' failures: '' @ e'"
  have "CHR '' '' \<in> set m" by (simp add: m_def)
  moreover have "CHR '' '' \<notin> set LN_PAYOUT_MANUAL" "CHR '' '' \<notin> set LN_PAYOUT_MANUAL_REQUESTED"
    by (simp_all add: LN_PAYOUT_MANUAL_def LN_PAYOUT_MANUAL_REQUESTED_def)
  ultimately show ?thesis unfolding m_def [symmetric] is_manual_payout_def by auto
qed

lemma payout_dead_not_manual:
  "snd (payout_run e nd oid w) = Some (O_dead err) \<Longrightarrow> \<not> is_manual_payout (Some err)"
  by (auto simp: payout_run_def nret_def nthrow_def Let_def is_manual_payout_def LN_PAYOUT_MANUAL_def
      LN_PAYOUT_MANUAL_REQUESTED_def split: option.splits if_splits pay_status.splits)

lemma payout_retry_state:
  assumes "snd (payout_run e nd oid w) = Some (O_retry err d)" and "get_order oid w = Some r"
  shows "o_state r \<in> {Paid, Sponsor_wins}"
  using assms by (auto simp: payout_run_def nret_def nthrow_def split: option.splits if_splits)

lemma other_error_not_manual: "\<not> is_manual_payout (Some ''exception'')" "\<not> is_manual_payout (Some ''onDone'')"
  by (simp_all add: is_manual_payout_def LN_PAYOUT_MANUAL_def LN_PAYOUT_MANUAL_REQUESTED_def)

lemma exec_dead_ok:
  assumes "executors e wd k = Some ex"
    and "ex_run ex w p = Some (O_dead err) \<or> (\<exists>n e'. err = int_str n @ '' failures: '' @ e')"
    and "ex_on_dead ex p err (w\<lparr>q_rows := rs\<rparr>) = Some w'"
  shows "ln_ok e (w\<lparr>q_rows := rs\<rparr>) w'"
proof -
  consider "ex = close_exec e wd" | "ex = payout_exec e wd" | "w' = w\<lparr>q_rows := rs\<rparr>"
    using in_executors [OF assms(1)] assms(3) by (auto simp: executor_table_def executor_defs)
  then show ?thesis
  proof cases
    case 1
    then show ?thesis using assms(3) abandon_close_ok by (auto simp: close_exec_def on_order_def)
  next
    case 2
    then obtain oid where oid: "payload_order p = Some oid" and d: "payout_on_dead e oid err (w\<lparr>q_rows := rs\<rparr>) = Some w'"
      using assms(3) by (auto simp: payout_exec_def on_order_def)
    have "\<not> is_manual_payout (Some err)"
      using assms(2)
    proof (elim disjE exE)
      assume "ex_run ex w p = Some (O_dead err)"
      then have "snd (payout_run e (wd_node wd) oid w) = Some (O_dead err)"
        using 2 oid by (simp add: payout_exec_def on_order_def)
      then show ?thesis by (rule payout_dead_not_manual)
    qed (simp only: failures_not_manual not_False_eq_True)
    with d show ?thesis by (rule payout_on_dead_ok)
  qed simp
qed

lemma exec_retry_ok:
  assumes "executors e wd k = Some ex"
    and "(\<exists>d. ex_run ex w p = Some (O_retry err d)) \<or> err = ''exception'' \<or> err = ''onDone''"
    and "ex_on_retry ex p err (w\<lparr>q_rows := rs\<rparr>) = Some w'"
  shows "ln_ok e (w\<lparr>q_rows := rs\<rparr>) w'"
proof (cases "ex = payout_exec e wd")
  case True
  then obtain oid where oid: "payload_order p = Some oid" and d: "payout_on_retry oid err (w\<lparr>q_rows := rs\<rparr>) = Some w'"
    using assms(3) by (auto simp: payout_exec_def on_order_def)
  show ?thesis
  proof (rule payout_on_retry_ok [OF d])
    fix r assume "get_order oid (w\<lparr>q_rows := rs\<rparr>) = Some r" and "is_manual_payout (Some err)"
    then show "o_state r \<in> {Paid, Sponsor_wins}"
      using assms(2) True oid payout_retry_state [of e "wd_node wd" oid w err] other_error_not_manual
      by (auto simp: payout_exec_def on_order_def)
  qed
next
  case False
  then have "w' = w\<lparr>q_rows := rs\<rparr>"
    using in_executors [OF assms(1)] assms(3) by (auto simp: executor_table_def executor_defs)
  then show ?thesis by simp
qed

text \<open>The part of the invariant the queue itself does not enter, relative to the database a run began with.\<close>

definition ln_kept :: "env \<Rightarrow> 'm db_scheme \<Rightarrow> 'm db_scheme \<Rightarrow> bool" where
  "ln_kept e w0 w \<longleftrightarrow> hold_wf e w \<and> ln_inv w \<and> orders_evolve w0 w \<and> holds_keep w0 w
     \<and> q_now w = q_now w0 \<and> db.more w = db.more w0"

lemma ln_kept_rows: "ln_kept e w0 (w\<lparr>q_rows := rs\<rparr>) = ln_kept e w0 w"
  by (simp add: ln_kept_def hold_wf_def ln_inv_def orders_evolve_def holds_keep_def hold_keys_def)

lemma ln_kept_step:
  assumes "ln_ok e (w\<lparr>q_rows := rs\<rparr>) w'" and "q_wf (w\<lparr>q_rows := rs\<rparr>)" and "ln_kept e w0 w"
  shows "q_wf w' \<and> ln_kept e w0 w'"
proof -
  have k: "ln_kept e w0 (w\<lparr>q_rows := rs\<rparr>)" using assms(3) by (simp add: ln_kept_rows)
  then have "ln_winv e (w\<lparr>q_rows := rs\<rparr>)" using assms(2) by (simp add: ln_kept_def ln_winv_def hold_inv_def)
  with assms(1) have "ln_winv e w'" "orders_evolve (w\<lparr>q_rows := rs\<rparr>) w'" "holds_keep (w\<lparr>q_rows := rs\<rparr>) w'"
    "q_now w' = q_now w" "db.more w' = db.more w"
    by (simp_all add: ln_ok_def)
  then show ?thesis using k orders_evolve_trans holds_keep_trans by (auto simp: ln_kept_def ln_winv_def hold_inv_def)
qed

lemma finish_rows: "\<exists>rs. finish i st err w = w\<lparr>q_rows := rs\<rparr>"
  unfolding finish_def by (rule exI, rule refl)

interpretation ln_queue: effect_contract "executors e wd" "ln_kept e w0" for e wd w0
proof unfold_locales
  fix w :: "'a db_scheme" and k ex p r i w'
  assume ex: "executors e wd k = Some ex" and q: "q_wf w" and J: "ln_kept e w0 w"
    and run: "ex_run ex w p = Some (O_done r)" and d: "ex_on_done ex p r (finish i Done None w) = Some w'"
  obtain rs where rs: "finish i Done None w = w\<lparr>q_rows := rs\<rparr>" using finish_rows by blast
  have "q_wf (w\<lparr>q_rows := rs\<rparr>)" using q_wf_finish [OF q, of Done i None] by (simp add: rs)
  then show "q_wf w' \<and> ln_kept e w0 w'" using ln_kept_step [OF exec_done_ok [OF ex run]] d J by (simp add: rs)
qed (simp add: ln_kept_rows, erule (4) ln_kept_step [OF exec_dead_ok],
  erule (4) ln_kept_step [OF exec_retry_ok])

lemma run_due_ok: "ln_ok e w (run_due (executors e wd) n w)"
proof (rule ln_okI)
  assume inv: "ln_winv e w"
  then have "q_wf w" "ln_kept e w w" by (simp_all add: ln_winv_def hold_inv_def ln_kept_def)
  from ln_queue.run_due_inv [OF this, of wd n] show "ln_ok e w (run_due (executors e wd) n w)"
    by (auto simp: ln_ok_def ln_kept_def ln_winv_def hold_inv_def)
qed

subsection \<open>The system\<close>

text \<open>
  Everything that can happen to the database, with any world: time passes, the daemon starts again (perhaps with other
  operators), an event arrives, or one part of a tick runs.  The seed \<open>H\<close> stays.
\<close>

inductive daemon_step :: "(string \<Rightarrow> nat \<Rightarrow> hex) \<Rightarrow> 'm ddb_scheme \<Rightarrow> 'm ddb_scheme \<Rightarrow> bool" for H where
  S_clock: "q_now w \<le> t \<Longrightarrow> daemon_step H w (w\<lparr>q_now := t\<rparr>)"
| S_boot: "e_hash e = H \<Longrightarrow> daemon_step H w (republish_designated e (snd (resolve_epoch configured w)))"
| S_accept: "e_hash e = H \<Longrightarrow> daemon_step H w (snd (accept e verify epoch ev w))"
| S_dispatch: "e_hash e = H \<Longrightarrow> daemon_step H w (run_pending e (ln_route e) holdMs limit w)"
| S_poll: "e_hash e = H \<Longrightarrow> daemon_step H w (fst (hold_poll e (\<lambda>_. ln_hooks e) nd w))"
| S_watch: "e_hash e = H \<Longrightarrow> daemon_step H w (fst (ln_watch e nd w))"
| S_stuck: "e_hash e = H \<Longrightarrow> daemon_step H w (raise_stuck_effects e w)"
| S_heartbeat: "e_hash e = H \<Longrightarrow> daemon_step H w (snd (heartbeat e lastState w))"
| S_effects: "e_hash e = H \<Longrightarrow> daemon_step H w (run_due (executors e wd) limit w)"

inductive_cases daemon_stepE: "daemon_step H w w'"

lemma tick_steps:
  assumes "e_hash e = H"
  shows "(daemon_step H)\<^sup>*\<^sup>* w (snd (tick e wd holdMs s w))"
proof -
  let ?S = "(daemon_step H)\<^sup>*\<^sup>*"
  define w1 where "w1 = run_pending e (ln_route e) holdMs 200 w"
  obtain w2 b where p: "hold_poll e (\<lambda>_. ln_hooks e) (wd_node wd) w1 = (w2, b)" by force
  obtain w3 c where l: "ln_watch e (wd_node wd) w2 = (w3, c)" by force
  obtain s4 w4 where h: "heartbeat e s (raise_stuck_effects e w3) = (s4, w4)" by force
  have 1: "?S w w1" unfolding w1_def using S_dispatch [OF assms] by blast
  have 2: "?S w w2" using 1 S_poll [OF assms, of w1 "wd_node wd"] by (simp add: p rtranclp.rtrancl_into_rtrancl)
  have 3: "?S w w3" using 2 S_watch [OF assms, of w2 "wd_node wd"] by (simp add: l rtranclp.rtrancl_into_rtrancl)
  have "?S w (raise_stuck_effects e w3)" using 3 S_stuck [OF assms] by (rule rtranclp.rtrancl_into_rtrancl)
  then have "?S w w4" using S_heartbeat [OF assms, of "raise_stuck_effects e w3" s] by (simp add: h rtranclp.rtrancl_into_rtrancl)
  then have "?S w (run_due (executors e wd) 50 w4)" using S_effects [OF assms] by (rule rtranclp.rtrancl_into_rtrancl)
  with 2 3 show ?thesis by (simp add: tick_def w1_def [symmetric] Let_def p l h split: bool.split)
qed

subsection \<open>The invariant of the running system\<close>

lemma ln_winv_seed: "e_hash e = e_hash e2 \<Longrightarrow> ln_winv e w = ln_winv e2 w"
  by (simp add: ln_winv_def hold_inv_def hold_wf_def preimage_ok_def cong: option.case_cong)

definition daemon_wf :: "env \<Rightarrow> 'm ddb_scheme \<Rightarrow> bool" where
  "daemon_wf e w \<longleftrightarrow> ln_winv e w \<and> inbox_wf w"

lemma inbox_wf_cong: "inbox w' = inbox w \<Longrightarrow> inbox_wf w' = inbox_wf w"
  by (simp add: inbox_wf_def)

lemma ln_ok_daemon:
  assumes "ln_ok e w w'" and "daemon_wf e w"
  shows "daemon_wf e w' \<and> orders_evolve w w'"
  using assms more_inbox [of w' w] inbox_wf_cong [of w' w] by (auto simp: daemon_wf_def ln_ok_def)

lemma quiet_resolve_epoch: "quiet w (snd (resolve_epoch c w))"
  by (simp add: resolve_epoch_def split: option.split)

lemma quiet_heartbeat: "quiet w (snd (heartbeat e s w))"
  by (simp add: heartbeat_def Let_def quiet_trans [OF quiet_kv_set quiet_request_state_publish])

lemma clock_daemon: "daemon_wf e w \<Longrightarrow> daemon_wf e (w\<lparr>q_now := t\<rparr>) \<and> orders_evolve w (w\<lparr>q_now := t\<rparr>)"
  by (simp add: daemon_wf_def inbox_wf_def ln_winv_def hold_inv_def q_wf_def hold_wf_def ln_inv_def orders_evolve_def
      get_order_def)

lemma dispatch_daemon:
  assumes "daemon_wf e w"
  shows "daemon_wf e (run_pending e (ln_route e) h n w) \<and> orders_evolve w (run_pending e (ln_route e) h n w)"
proof -
  have inv: "ln_winv e w" using assms by (simp add: daemon_wf_def)
  note ok = ln_router.run_pending_ok [OF inv, where dir = "compose_directories [ln_directory]" and holdMs = h and limit = n,
      folded ln_route_def [unfolded Let_def]]
  have "map ib_id rows = map ie_id (map ib_event rows)" for rows by (simp add: ib_id_def)
  then have "map ib_id (inbox (run_pending e (ln_route e) h n w)) = map ib_id (inbox w)"
    by (simp only: closes_events [OF ok(4)])
  with ok(1,2) assms show ?thesis by (simp add: daemon_wf_def inbox_wf_def)
qed

lemma daemon_step_ok:
  assumes "daemon_step H w w'" and "daemon_wf e w" and "e_hash e = H"
  shows "daemon_wf e w' \<and> orders_evolve w w'"
proof -
  have seed: "daemon_wf e2 v = daemon_wf e v" if "e_hash e2 = H" for e2 and v :: "'a ddb_scheme"
    using ln_winv_seed [of e2 e v] that assms(3) by (simp add: daemon_wf_def)
  have ok: "daemon_wf e w' \<and> orders_evolve w w'" if "e_hash e2 = H" "ln_ok e2 w w'" for e2
    using ln_ok_daemon [OF that(2)] seed [OF that(1)] assms(2) by blast
  have quiet: "daemon_wf e w' \<and> orders_evolve w w'" if "quiet w w'"
    using ok [OF assms(3) ln_ok_quiet [OF that]] .
  from assms(1) show ?thesis
  proof cases
    case (S_clock t)
    then show ?thesis using clock_daemon assms(2) by simp
  next
    case (S_boot e2 c)
    show ?thesis
      by (rule quiet) (unfold S_boot(1), rule quiet_trans [OF quiet_resolve_epoch quiet_republish_designated])
  next
    case (S_accept e2 verify epoch ev)
    show ?thesis using assms(2) accept_wf [of w e2 verify epoch ev] accept_quiet_db [of e w e2 verify epoch ev]
      by (simp add: daemon_wf_def S_accept(1))
  next
    case (S_dispatch e2 h n)
    then show ?thesis using dispatch_daemon [of e2 w h n] seed [of e2] assms(2) by simp
  next
    case (S_poll e2 nd)
    show ?thesis by (rule ok [OF S_poll(2)]) (unfold S_poll(1), rule ln_holds.poll_ok)
  next
    case (S_watch e2 nd)
    show ?thesis by (rule ok [OF S_watch(2)]) (unfold S_watch(1), rule ln_watch_ok)
  next
    case (S_stuck e2)
    show ?thesis by (rule quiet) (simp add: S_stuck(1))
  next
    case (S_heartbeat e2 s)
    show ?thesis by (rule quiet) (simp add: S_heartbeat(1) quiet_heartbeat)
  next
    case (S_effects e2 wd n)
    show ?thesis by (rule ok [OF S_effects(2)]) (unfold S_effects(1), rule run_due_ok)
  qed
qed

lemma daemon_steps_ok:
  assumes "(daemon_step H)\<^sup>*\<^sup>* w w'" and "daemon_wf e w" and "e_hash e = H"
  shows "daemon_wf e w' \<and> orders_evolve w w'"
  using assms(1)
proof (induction rule: rtranclp_induct)
  case (step v u)
  then show ?case using daemon_step_ok [OF step.hyps(2) _ assms(3)] orders_evolve_trans by blast
qed (simp add: assms(2))

subsection \<open>A concrete world\<close>

definition toy_world :: world where
  "toy_world = \<lparr>wd_node = toy_node, wd_relay = (\<lambda>_. \<lparr>rp_accepted = [''r''], rp_rejected = []\<rparr>), wd_push = None,
     wd_deploy = \<lparr>dp_mode = ''dev'', dp_relays = [], dp_epoch = 0\<rparr>, wd_message = (\<lambda>_. []),
     wd_wrap = (\<lambda>op. \<lparr>ev_kind = 1059, ev_created_at = 0, ev_tags = [[''p'', op]], ev_content = []\<rparr>)\<rparr>"

end
