(* ===== verification/Retries.thy ===== *)
theory Retries
  imports Daemon
begin

text \<open>
  Effects with a limit of attempts (\<open>maxAttempts\<close> of \<open>daemon/src/effects.ts\<close>): a probe or a push that keeps failing is
  given up after its third attempt.  Every other effect is retried until it succeeds.
\<close>

text \<open>The worker runs the pending effect \<open>i\<close>, if there is one.\<close>

definition run_effect :: "env \<Rightarrow> world \<Rightarrow> nat \<Rightarrow> 'm db_scheme \<Rightarrow> 'm db_scheme" where
  "run_effect e wd i w =
     (case List.find (\<lambda>r. ef_id r = i \<and> is_pending r) (q_rows w) of
        None \<Rightarrow> w
      | Some row \<Rightarrow> fst (run_one (executors e wd) row w))"

definition limited_kinds :: "string set" where "limited_kinds = {''ln.probe'', ''push.send''}"

lemma enq_keeps_row: "x \<in> set (q_rows v) \<Longrightarrow> x \<in> set (q_rows (enq k p d v))"
  by (simp add: enq_def insert_effect_def)

lemma keeps_send_rejected:
  "x \<in> set (q_rows v) \<Longrightarrow> x \<in> set (q_rows (send_invoice_rejected e oid s r n key v))"
  "q_wf v \<Longrightarrow> q_wf (send_invoice_rejected e oid s r n key v)"
  by (simp_all add: send_invoice_rejected_def Let_def ln_send_def enq_keeps_row)

lemma limited_exec:
  assumes "k \<in> limited_kinds" and "executors e wd k = Some ex"
  shows "ex_max_attempts ex = Some 3" and "ex_on_dead ex p err w = Some w" and "ex_on_retry ex p err w = Some w"
    and "ex_on_done ex p r w = Some w' \<Longrightarrow> set (q_rows w) \<subseteq> set (q_rows w') \<and> (q_wf w \<longrightarrow> q_wf w')"
proof -
  have ex: "ex = probe_exec e wd \<or> ex = push_exec e wd"
    using assms by (auto simp: limited_kinds_def executors_def executor_table_def)
  show "ex_max_attempts ex = Some 3" and "ex_on_dead ex p err w = Some w" and "ex_on_retry ex p err w = Some w"
    using ex by (auto simp: probe_exec_def push_exec_def)
  show "set (q_rows w) \<subseteq> set (q_rows w') \<and> (q_wf w \<longrightarrow> q_wf w')" if d: "ex_on_done ex p r w = Some w'"
    using ex
  proof
    assume "ex = probe_exec e wd"
    with d show ?thesis
      by (auto simp: probe_exec_def probe_on_done_def keeps_send_rejected
          split: payload.splits eff_result.splits option.splits if_splits)
  next
    assume "ex = push_exec e wd"
    with d show ?thesis by (auto simp: push_exec_def push_on_done_def q_wf_def split: eff_result.splits)
  qed
qed

lemma in_update_where: "x \<in> set xs \<Longrightarrow> P x \<Longrightarrow> f x \<in> set (update_where P f xs)"
  by (auto simp: update_where_def)

text \<open>What becomes of a row: closed, or one attempt further and still below the limit.\<close>

definition has_row :: "(payload effect_row \<Rightarrow> bool) \<Rightarrow> payload effect_row \<Rightarrow> 'm db_scheme \<Rightarrow> bool" where
  "has_row P row w \<longleftrightarrow> q_wf w \<and> (\<exists>r \<in> set (q_rows w). ef_id r = ef_id row \<and> ef_kind r = ef_kind row \<and> P r)"

definition given_up :: "payload effect_row \<Rightarrow> bool" where "given_up r \<longleftrightarrow> \<not> is_pending r"

definition next_attempt_of :: "payload effect_row \<Rightarrow> payload effect_row \<Rightarrow> bool" where
  "next_attempt_of row r \<longleftrightarrow> is_pending r \<and> ef_attempts r = ef_attempts row + 1 \<and> ef_attempts r < 3"

lemma has_row_update:
  assumes "q_wf w" and "row \<in> set (q_rows w)" and "P (f row)"
    and "\<And>r. ef_id (f r) = ef_id r" and "\<And>r. ef_dedup (f r) = ef_dedup r" and "\<And>r. is_pending (f r) \<Longrightarrow> is_pending r"
    and "ef_kind (f row) = ef_kind row"
  shows "has_row P row (w\<lparr>q_rows := update_where (\<lambda>r. ef_id r = ef_id row) f (q_rows w)\<rparr>)"
  using q_wf_update [OF assms(1,4-6)] in_update_where [OF assms(2), of "\<lambda>r. ef_id r = ef_id row" f] assms(3,4,7)
  by (auto simp: has_row_def)

lemma finish_row:
  assumes "q_wf w" and "row \<in> set (q_rows w)" and "st \<noteq> Pending"
  shows "has_row given_up row (finish (ef_id row) st err w)"
  unfolding finish_def by (rule has_row_update [OF assms(1,2)]) (use assms(3) in \<open>auto simp: given_up_def is_pending_def\<close>)

lemma kill_row:
  assumes "\<And>p err w. ex_on_dead ex p err w = Some w" and "q_wf w" and "row \<in> set (q_rows w)"
  shows "has_row given_up row (fst (kill ex row n err w))"
proof -
  let ?g = "\<lambda>r. r\<lparr>ef_attempts := n\<rparr>"
  let ?w1 = "w\<lparr>q_rows := update_where (\<lambda>r. ef_id r = ef_id row) ?g (q_rows w)\<rparr>"
  have "has_row (\<lambda>r. r = ?g row) row ?w1"
    by (rule has_row_update [OF assms(2,3)]) (auto simp: is_pending_def)
  then have q: "q_wf ?w1" and r: "?g row \<in> set (q_rows ?w1)" by (auto simp: has_row_def)
  from finish_row [OF q r, of Dead "Some err"] show ?thesis by (simp add: kill_def tx_def assms(1) has_row_def)
qed

lemma retry_row:
  assumes "ex_max_attempts ex = Some 3" and "\<And>p err w. ex_on_dead ex p err w = Some w"
    and "\<And>p err w. ex_on_retry ex p err w = Some w" and "q_wf w" and "row \<in> set (q_rows w)" and "is_pending row"
  shows "has_row (\<lambda>r. given_up r \<or> next_attempt_of row r) row (fst (retry ex row err d w))"
proof (cases "ef_attempts row + 1 \<ge> 3")
  case True
  then show ?thesis using kill_row [OF assms(2,4,5)] assms(1) by (auto simp: retry_def Let_def has_row_def)
next
  case False
  let ?f = "\<lambda>r. r\<lparr>ef_attempts := ef_attempts row + 1,
      ef_next_at := q_now w + (case d of Some d \<Rightarrow> d | None \<Rightarrow> backoff_ms (ef_attempts row + 1)),
      ef_last_error := Some err\<rparr>"
  have "has_row (\<lambda>r. given_up r \<or> next_attempt_of row r) row (w\<lparr>q_rows := update_where (\<lambda>r. ef_id r = ef_id row) ?f (q_rows w)\<rparr>)"
    by (rule has_row_update [OF assms(4,5)]) (use False assms(6) in \<open>auto simp: next_attempt_of_def is_pending_def\<close>)
  then show ?thesis using False by (simp add: retry_def Let_def tx_def assms(1,3))
qed

lemma run_one_row:
  fixes w :: "'a db_scheme"
  assumes "q_wf w" and "row \<in> set (q_rows w)" and "is_pending row" and "ef_kind row \<in> limited_kinds"
  shows "has_row (\<lambda>r. given_up r \<or> next_attempt_of row r) row (fst (run_one (executors e wd) row w))"
proof -
  obtain ex :: "'a exec" where ex: "executors e wd (ef_kind row) = Some ex"
    using assms(4) by (auto simp: limited_kinds_def executors_def executor_table_def)
  note L = limited_exec [OF assms(4) ex]
  have k: "has_row (\<lambda>r. given_up r \<or> next_attempt_of row r) row (fst (kill ex row n err w))" for n err
    using kill_row [OF L(2) assms(1,2)] by (auto simp: has_row_def)
  have t: "has_row (\<lambda>r. given_up r \<or> next_attempt_of row r) row (fst (retry ex row err d w))" for err d
    by (rule retry_row [OF L(1,2,3) assms(1-3)])
  have d: "has_row (\<lambda>r. given_up r \<or> next_attempt_of row r) row w'"
    if "ex_on_done ex (ef_payload row) r (finish (ef_id row) Done None w) = Some w'" for r w'
    using L(4) [OF that] finish_row [OF assms(1,2), of Done None] by (auto simp: has_row_def)
  show ?thesis using k t d by (simp add: run_one_def ex split: option.split outcome.split)
qed

text \<open>A run of the effect \<open>i\<close> closes it or uses up one attempt.\<close>

definition left_at_most :: "nat \<Rightarrow> int \<Rightarrow> 'm db_scheme \<Rightarrow> bool" where
  "left_at_most i n w \<longleftrightarrow> q_wf w
     \<and> (\<exists>r \<in> set (q_rows w). ef_id r = i \<and> ef_kind r \<in> limited_kinds \<and> (is_pending r \<longrightarrow> 3 - ef_attempts r \<le> n \<and> ef_attempts r < 3))"

lemma unique_row: "q_wf w \<Longrightarrow> r \<in> set (q_rows w) \<Longrightarrow> s \<in> set (q_rows w) \<Longrightarrow> ef_id r = ef_id s \<Longrightarrow> r = s"
  unfolding q_wf_def by (metis distinct_map inj_onD)

lemma run_effect_progress:
  assumes "left_at_most i n w"
  shows "left_at_most i (n - 1) (run_effect e wd i w)"
proof -
  obtain r where q: "q_wf w" and r: "r \<in> set (q_rows w)" "ef_id r = i" "ef_kind r \<in> limited_kinds"
    "is_pending r \<longrightarrow> 3 - ef_attempts r \<le> n \<and> ef_attempts r < 3"
    using assms by (auto simp: left_at_most_def)
  show ?thesis
  proof (cases "is_pending r")
    case True
    have "List.find (\<lambda>r. ef_id r = i \<and> is_pending r) (q_rows w) \<noteq> None"
      using r True by (auto simp: find_None_iff)
    then obtain s where s: "List.find (\<lambda>r. ef_id r = i \<and> is_pending r) (q_rows w) = Some s" by blast
    have "s = r" using find_Some_D [OF s] r unique_row [OF q] by blast
    then have "run_effect e wd i w = fst (run_one (executors e wd) r w)" by (simp add: run_effect_def s)
    with run_one_row [OF q r(1) True r(3), of e wd] r(2-4) True show ?thesis
      by (auto simp: left_at_most_def has_row_def given_up_def next_attempt_of_def)
  next
    case False
    have "\<not> (\<exists>s \<in> set (q_rows w). ef_id s = i \<and> is_pending s)" using False r unique_row [OF q] by blast
    then have "run_effect e wd i w = w"
      by (auto simp: run_effect_def find_None_iff [THEN iffD2] split: option.split dest!: find_Some_D)
    with q r False show ?thesis by (auto simp: left_at_most_def)
  qed
qed

lemma run_effects_progress:
  "left_at_most i n w \<Longrightarrow> left_at_most i (n - int (length runs)) (fold (\<lambda>(e, wd). run_effect e wd i) runs w)"
proof (induction runs arbitrary: w n)
  case (Cons x runs)
  obtain e wd where "x = (e, wd)" by force
  with Cons.IH [OF run_effect_progress [OF Cons.prems, of e wd]] show ?case by (simp add: algebra_simps)
qed simp

subsection \<open>Properties\<close>

text \<open>C28. Retries of a limited effect end: whatever the node, the market and the push service answer or fail to answer,
  three runs of a probe or a push leave it done or given up, never pending.\<close>

theorem limited_effects_end:
  assumes "q_wf w" and "row \<in> set (q_rows w)" and "ef_kind row \<in> {''ln.probe'', ''push.send''}"
    and "0 \<le> ef_attempts row" and "ef_attempts row < 3" and "3 \<le> length runs"
  shows "q_wf (fold (\<lambda>(e, wd). run_effect e wd (ef_id row)) runs w)
    \<and> (\<exists>r \<in> set (q_rows (fold (\<lambda>(e, wd). run_effect e wd (ef_id row)) runs w)). ef_id r = ef_id row \<and> ef_status r \<noteq> Pending)"
proof -
  have "left_at_most (ef_id row) 3 w" using assms(1-5) by (auto simp: left_at_most_def limited_kinds_def)
  from run_effects_progress [OF this, of runs] show ?thesis
    using assms(6) by (auto simp: left_at_most_def is_pending_def)
qed

definition toy_push_row :: "payload effect_row" where
  "toy_push_row = new_row 0 ''push.send'' (P_push ''pk'' ''n'' ''ord1'' None) None 0 0"

theorem limited_effects_end_witness:
  "\<exists>r \<in> set (q_rows (fold (\<lambda>(e, wd). run_effect e wd 0) (replicate 3 (toy_env, toy_world))
       (empty_db\<lparr>q_rows := [toy_push_row], q_seq := 1\<rparr>))). ef_id r = 0 \<and> ef_status r \<noteq> Pending"
proof -
  let ?w = "empty_db\<lparr>q_rows := [toy_push_row], q_seq := 1\<rparr>"
  have "q_wf ?w" "toy_push_row \<in> set (q_rows ?w)" "ef_kind toy_push_row \<in> {''ln.probe'', ''push.send''}"
    "0 \<le> ef_attempts toy_push_row" "ef_attempts toy_push_row < 3" "3 \<le> length (replicate 3 (toy_env, toy_world))"
    by (simp_all add: q_wf_def toy_push_row_def new_row_def row_dedups_def)
  from limited_effects_end [OF this] show ?thesis by (simp add: toy_push_row_def new_row_def)
qed

end
