(* ===== verification/Oc_Order.thy ===== *)
theory Oc_Order
  imports Ln_Event Oc_Timing Js_Json
begin

text \<open>
  The order of the on-chain track (\<open>shared/src/onchain/order.ts\<close>): the record, the tags the daemon publishes, the
  parser of the apps, the outpoint text and the list of values a state must not miss.

  The record is polymorphic in its numbers: the daemon's own values are integers, a parsed event carries any finite
  number.  The floor price and the expiration are the numbers the customer wrote, so they are rationals in both.
  The field \<open>raw\<close> (the event itself) is left out.
\<close>

subsection \<open>The order\<close>

datatype btc_network = Mainnet | Signet | Testnet | Regtest

fun btc_network_str :: "btc_network \<Rightarrow> string" where
  "btc_network_str Mainnet = ''mainnet''"
| "btc_network_str Signet = ''signet''"
| "btc_network_str Testnet = ''testnet''"
| "btc_network_str Regtest = ''regtest''"

definition btc_network_of :: "string \<Rightarrow> btc_network option" where
  "btc_network_of v = List.find (\<lambda>n. btc_network_str n = v) [Mainnet, Signet, Testnet, Regtest]"

lemma btc_network_of_str [simp]: "btc_network_of (btc_network_str n) = Some n"
  by (cases n) (simp_all add: btc_network_of_def)

record 'n oc_order =
  oo_id :: string
  oo_state :: oc_state
  oo_customer :: string
  oo_sponsor :: "string option"
  oo_designated :: "string option"
  oo_amount :: 'n
  oo_reserve :: "rat option"
  oo_created :: sec
  oo_updated :: sec
  oo_expiration :: rat
  oo_network :: btc_network
  oo_customer_xonly :: "hex option"
  oo_sponsor_xonly :: "hex option"
  oo_admin_xonly :: "hex option"
  oo_escrow_address :: "string option"
  oo_timelock :: "'n option"
  oo_funding_deadline :: "'n option"
  oo_funding_outpoint :: "string option"
  oo_funding_confs :: "'n option"
  oo_funded_at :: "'n option"
  oo_presign_deadline :: "'n option"
  oo_account_deadline :: "'n option"
  oo_cosign_deadline :: "'n option"
  oo_price :: "'n option"
  oo_payout :: "'n option"
  oo_release_fee :: "'n option"
  oo_presigned_at :: "'n option"
  oo_account_sent_at :: "'n option"
  oo_krw_deadline :: "'n option"
  oo_remitted_at :: "'n option"
  oo_account_disputed_at :: "'n option"
  oo_disputed_at :: "'n option"
  oo_settlement_kind :: "settlement_kind option"
  oo_settlement_fee :: "'n option"
  oo_decided_at :: "'n option"
  oo_settlement_txid :: "hex option"
  oo_settling_at :: "'n option"
  oo_customer_deposit_hash :: "hex option"
  oo_sponsor_deposit_hash :: "hex option"

type_synonym oc_ord = "int oc_order"

subsection \<open>Writing\<close>

fun onchain_nip69_status :: "oc_state \<Rightarrow> nip69_status" where
  "onchain_nip69_status Oc_listed = N_pending"
| "onchain_nip69_status Oc_bonded = N_in_progress"
| "onchain_nip69_status Oc_funded = N_in_progress"
| "onchain_nip69_status Oc_presigned = N_in_progress"
| "onchain_nip69_status Oc_remitted = N_in_progress"
| "onchain_nip69_status Oc_disputed = N_in_progress"
| "onchain_nip69_status Oc_refunding = N_in_progress"
| "onchain_nip69_status Oc_settling = N_in_progress"
| "onchain_nip69_status Oc_released = N_success"
| "onchain_nip69_status Oc_sponsor_wins = N_success"
| "onchain_nip69_status Oc_refunded = N_canceled"
| "onchain_nip69_status Oc_customer_wins = N_canceled"
| "onchain_nip69_status Oc_cancelled = N_canceled"
| "onchain_nip69_status Oc_swept = N_canceled"

text \<open>\<open>str\<close> writes a tag when the text is truthy, \<open>num\<close> when the number is there (zero included).\<close>

definition num_field :: "int option \<Rightarrow> string option" where "num_field v = map_option int_str v"

definition oc_fields :: "oc_ord \<Rightarrow> string \<Rightarrow> (string \<times> string option) list" where
  "oc_fields r clientTag =
     [(''d'', Some (oo_id r)), (''t'', Some clientTag), (''protocol'', Some (int_str PROTOCOL_VERSION)),
      (''state'', Some (oc_state_str (oo_state r))), (''customer'', Some (oo_customer r)),
      (''amount-sat'', Some (int_str (oo_amount r))), (''expiration'', Some (num_str (oo_expiration r))),
      (''sponsor'', given_s (oo_sponsor r)),
      (''reserve-krw'', map_option num_str (oo_reserve r)),
      (''customer-xonly'', given_s (oo_customer_xonly r)),
      (''sponsor-xonly'', given_s (oo_sponsor_xonly r)),
      (''admin-xonly'', given_s (oo_admin_xonly r)),
      (''escrow-address'', given_s (oo_escrow_address r)),
      (''timelock-blocks'', num_field (oo_timelock r)),
      (''funding-deadline'', num_field (oo_funding_deadline r)),
      (''funding-outpoint'', given_s (oo_funding_outpoint r)),
      (''funding-confs'', num_field (oo_funding_confs r)),
      (''funded-at'', num_field (oo_funded_at r)),
      (''presign-deadline'', num_field (oo_presign_deadline r)),
      (''price-krw'', num_field (oo_price r)),
      (''payout-sat'', num_field (oo_payout r)),
      (''release-fee-sat'', num_field (oo_release_fee r)),
      (''presigned-at'', num_field (oo_presigned_at r)),
      (''account-deadline'', num_field (oo_account_deadline r)),
      (''account-sent-at'', num_field (oo_account_sent_at r)),
      (''krw-deadline'', num_field (oo_krw_deadline r)),
      (''remitted-at'', num_field (oo_remitted_at r)),
      (''cosign-deadline'', num_field (oo_cosign_deadline r)),
      (''account-disputed-at'', num_field (oo_account_disputed_at r)),
      (''disputed-at'', num_field (oo_disputed_at r)),
      (''settlement-kind'', map_option settlement_kind_str (oo_settlement_kind r)),
      (''settlement-fee-sat'', num_field (oo_settlement_fee r)),
      (''decided-at'', num_field (oo_decided_at r)),
      (''settlement-txid'', given_s (oo_settlement_txid r)),
      (''settling-at'', num_field (oo_settling_at r)),
      (''customer-deposit-payment-hash'', given_s (oo_customer_deposit_hash r)),
      (''sponsor-deposit-payment-hash'', given_s (oo_sponsor_deposit_hash r))]"

definition field_tags :: "(string \<times> string option) list \<Rightarrow> string list list" where
  "field_tags fs = concat (map (\<lambda>(n, v). case v of Some s \<Rightarrow> [[n, s]] | None \<Rightarrow> []) fs)"

definition onchain_order_tags :: "oc_ord \<Rightarrow> string \<Rightarrow> string option \<Rightarrow> string list list" where
  "onchain_order_tags r clientTag appUrl =
     field_tags (oc_fields r clientTag)
     @ (if opt_given (oo_designated r)
        then [[''designated-sponsor'', the (oo_designated r)], [''network'', btc_network_str (oo_network r)]]
        else nip69_tags
          \<lparr>n69_status = onchain_nip69_status (oo_state r), n69_amount = oo_amount r,
           n69_fiat = (case oo_price r of Some p \<Rightarrow> p | None \<Rightarrow> 0),
           n69_network = btc_network_str (oo_network r), n69_layer = Onchain, n69_expires = oo_expiration r,
           n69_source = (case appUrl of Some u \<Rightarrow> if u = [] then None
                           else Some (order_link u Onchain (oo_id r)) | None \<Rightarrow> None)\<rparr>)"

subsection \<open>Reading\<close>

definition read_num :: "string list list \<Rightarrow> string \<Rightarrow> rat option" where
  "read_num tags n =
     (case tag_value n tags of None \<Rightarrow> None
      | Some raw \<Rightarrow> (case js_number raw of Fin q \<Rightarrow> Some q | _ \<Rightarrow> None))"

definition is_xonly_hex :: "string \<Rightarrow> bool" where "is_xonly_hex v = is_hex64 v"

definition parse_onchain_order :: "order_event \<Rightarrow> string \<Rightarrow> rat oc_order option" where
  "parse_onchain_order ev clientTag =
     (let tags = oe_tags ev; tag = (\<lambda>n. tag_value n tags); num = read_num tags in
      if tag ''t'' \<noteq> Some clientTag then None
      else if \<not> opt_given (tag ''d'') \<or> \<not> opt_given (tag ''customer'') then None
      else (case Option.bind (tag ''state'') oc_state_of of None \<Rightarrow> None
       | Some state \<Rightarrow>
         (case Option.bind (tag ''network'') btc_network_of of None \<Rightarrow> None
          | Some network \<Rightarrow>
            (case num ''amount-sat'' of None \<Rightarrow> None
             | Some amount \<Rightarrow>
               if amount \<noteq> of_int \<lfloor>amount\<rfloor> \<or> amount \<le> 0 then None
               else if \<exists>n \<in> set [''customer-xonly'', ''sponsor-xonly'', ''admin-xonly''].
                         (case tag n of Some v \<Rightarrow> \<not> is_xonly_hex v | None \<Rightarrow> False) then None
               else if tag ''settlement-kind'' \<noteq> None
                       \<and> Option.bind (tag ''settlement-kind'') settlement_kind_of = None then None
               else Some
                 \<lparr>oo_id = the (tag ''d''), oo_state = state, oo_customer = the (tag ''customer''),
                  oo_sponsor = tag ''sponsor'', oo_designated = tag ''designated-sponsor'', oo_amount = amount,
                  oo_reserve = num ''reserve-krw'', oo_created = oe_created_at ev, oo_updated = oe_created_at ev,
                  oo_expiration = (case num ''expiration'' of Some q \<Rightarrow> q | None \<Rightarrow> 0), oo_network = network,
                  oo_customer_xonly = tag ''customer-xonly'', oo_sponsor_xonly = tag ''sponsor-xonly'',
                  oo_admin_xonly = tag ''admin-xonly'', oo_escrow_address = tag ''escrow-address'',
                  oo_timelock = num ''timelock-blocks'', oo_funding_deadline = num ''funding-deadline'',
                  oo_funding_outpoint = tag ''funding-outpoint'', oo_funding_confs = num ''funding-confs'',
                  oo_funded_at = num ''funded-at'', oo_presign_deadline = num ''presign-deadline'',
                  oo_account_deadline = num ''account-deadline'', oo_cosign_deadline = num ''cosign-deadline'',
                  oo_price = num ''price-krw'', oo_payout = num ''payout-sat'',
                  oo_release_fee = num ''release-fee-sat'', oo_presigned_at = num ''presigned-at'',
                  oo_account_sent_at = num ''account-sent-at'', oo_krw_deadline = num ''krw-deadline'',
                  oo_remitted_at = num ''remitted-at'', oo_account_disputed_at = num ''account-disputed-at'',
                  oo_disputed_at = num ''disputed-at'',
                  oo_settlement_kind = Option.bind (tag ''settlement-kind'') settlement_kind_of,
                  oo_settlement_fee = num ''settlement-fee-sat'', oo_decided_at = num ''decided-at'',
                  oo_settlement_txid = tag ''settlement-txid'', oo_settling_at = num ''settling-at'',
                  oo_customer_deposit_hash = tag ''customer-deposit-payment-hash'',
                  oo_sponsor_deposit_hash = tag ''sponsor-deposit-payment-hash''\<rparr>))))"

subsection \<open>Outpoints\<close>

record outpoint =
  op_txid :: hex
  op_vout :: int

definition format_outpoint :: "hex \<Rightarrow> int \<Rightarrow> string" where
  "format_outpoint txid vout = txid @ '':'' @ int_str vout"

text \<open>\<open>Number.isSafeInteger\<close> on digits.\<close>

definition parse_outpoint :: "string option \<Rightarrow> outpoint option" where
  "parse_outpoint v =
     (case v of None \<Rightarrow> None
      | Some s \<Rightarrow>
         (case split_colon s of
            [txid, voutRaw] \<Rightarrow>
              if \<not> is_hex64 txid then None
              else if voutRaw = [] \<or> \<not> list_all is_digit voutRaw then None
              else (case js_number voutRaw of
                      Fin q \<Rightarrow> if q = of_int \<lfloor>q\<rfloor> \<and> \<bar>q\<bar> < 2 ^ 53 then Some \<lparr>op_txid = txid, op_vout = \<lfloor>q\<rfloor>\<rparr> else None
                    | _ \<Rightarrow> None)
          | _ \<Rightarrow> None))"

subsection \<open>What a published order must not miss\<close>

definition truthy_n :: "int option \<Rightarrow> bool" where "truthy_n v \<longleftrightarrow> truthy v \<noteq> None"

definition need :: "bool \<Rightarrow> string \<Rightarrow> string list" where "need b what = (if b then [] else [what])"

definition onchain_order_issues :: "oc_ord \<Rightarrow> string list" where
  "onchain_order_issues r =
     (let st = oo_state r;
          afterBonded = st \<noteq> Oc_listed \<and> st \<noteq> Oc_cancelled;
          pinned = st \<noteq> Oc_listed \<and> st \<noteq> Oc_bonded \<and> st \<noteq> Oc_cancelled;
          priced = st = Oc_funded \<or> st = Oc_presigned \<or> st = Oc_remitted \<or> st = Oc_disputed \<or> st = Oc_released
      in (if afterBonded then
            need (opt_given (oo_sponsor r)) ''sponsor''
            @ need (opt_given (oo_customer_xonly r) \<and> opt_given (oo_sponsor_xonly r) \<and> opt_given (oo_admin_xonly r)) ''xonly''
            @ need (opt_given (oo_escrow_address r)) ''escrow-address''
            @ need (truthy_n (oo_timelock r)) ''timelock-blocks'' else [])
       @ (if pinned then need (opt_given (oo_funding_outpoint r)) ''funding-outpoint'' else [])
       @ (if priced then need (truthy_n (oo_price r)) ''price-krw'' @ need (truthy_n (oo_payout r)) ''payout-sat''
            @ need (truthy_n (oo_funded_at r)) ''funded-at'' else [])
       @ (if st = Oc_refunding then need (oo_settlement_kind r \<noteq> None) ''settlement-kind''
            @ need (oo_settlement_fee r \<noteq> None) ''settlement-fee-sat'' else [])
       @ (if st = Oc_disputed \<and> oo_settlement_kind r \<noteq> None
          then need (oo_settlement_fee r \<noteq> None) ''settlement-fee-sat'' else [])
       @ (if st = Oc_settling then need (oo_settlement_kind r \<noteq> None) ''settlement-kind''
            @ need (opt_given (oo_settlement_txid r)) ''settlement-txid'' else []))"

definition j_one_of :: "(string \<Rightarrow> bool) \<Rightarrow> json option \<Rightarrow> bool" where
  "j_one_of P v = (case jstr v of Some s \<Rightarrow> P s | None \<Rightarrow> False)"

definition j_optional :: "(json option \<Rightarrow> bool) \<Rightarrow> json option \<Rightarrow> bool" where
  "j_optional g v = (v = None \<or> g v)"

definition is_stored_onchain_order :: "json \<Rightarrow> bool" where
  "is_stored_onchain_order v \<longleftrightarrow> is_object v
     \<and> list_all (\<lambda>k. jstr (jfield k v) \<noteq> None) [''orderId'', ''customerPubkey'']
     \<and> list_all (\<lambda>k. j_optional (\<lambda>x. jstr x \<noteq> None) (jfield k v)) [''sponsorPubkey'', ''designatedSponsor'']
     \<and> list_all (\<lambda>k. jnum (jfield k v) \<noteq> None) [''amountSat'', ''createdAt'', ''updatedAt'', ''expiration'']
     \<and> j_one_of (\<lambda>s. oc_state_of s \<noteq> None) (jfield ''state'' v)
     \<and> j_one_of (\<lambda>s. btc_network_of s \<noteq> None) (jfield ''network'' v)
     \<and> j_optional (j_one_of (\<lambda>s. settlement_kind_of s \<noteq> None)) (jfield ''settlementKind'' v)"

subsection \<open>Looking tags up\<close>

definition oc_tag_names :: "string list" where
  "oc_tag_names = [''d'', ''t'', ''protocol'', ''state'', ''customer'', ''amount-sat'', ''expiration'', ''sponsor'', ''reserve-krw'', ''customer-xonly'', ''sponsor-xonly'', ''admin-xonly'', ''escrow-address'', ''timelock-blocks'', ''funding-deadline'', ''funding-outpoint'', ''funding-confs'', ''funded-at'', ''presign-deadline'', ''price-krw'', ''payout-sat'', ''release-fee-sat'', ''presigned-at'', ''account-deadline'', ''account-sent-at'', ''krw-deadline'', ''remitted-at'', ''cosign-deadline'', ''account-disputed-at'', ''disputed-at'', ''settlement-kind'', ''settlement-fee-sat'', ''decided-at'', ''settlement-txid'', ''settling-at'', ''customer-deposit-payment-hash'', ''sponsor-deposit-payment-hash'']"

lemma oc_tag_names: "map fst (oc_fields r t) = oc_tag_names"
  by (simp add: oc_fields_def oc_tag_names_def)

lemma oc_tag_names_ok: "distinct oc_tag_names"
  "list_all (\<lambda>n. list_all (\<lambda>k. k \<noteq> n) nip69_keys) oc_tag_names"
  "''designated-sponsor'' \<notin> set oc_tag_names" "''network'' \<notin> set oc_tag_names"
  by code_simp+

lemma field_tags_Cons [simp]:
  "field_tags ((n, v) # fs) = (case v of Some s \<Rightarrow> [[n, s]] | None \<Rightarrow> []) @ field_tags fs"
  by (simp add: field_tags_def)

lemma tag_value_fields_other: "n \<notin> fst ` set fs \<Longrightarrow> tag_value n (field_tags fs @ ts) = tag_value n ts"
  by (induction fs) (auto simp: field_tags_def split: option.split)

lemma tag_value_fields:
  "\<lbrakk>distinct (map fst fs); (n, v) \<in> set fs\<rbrakk>
   \<Longrightarrow> tag_value n (field_tags fs @ ts) = (case v of Some s \<Rightarrow> Some s | None \<Rightarrow> tag_value n ts)"
proof (induction fs)
  case (Cons f fs)
  show ?case
  proof (cases "f = (n, v)")
    case True
    then have "n \<notin> fst ` set fs" using Cons.prems(1) by auto
    then show ?thesis using True tag_value_fields_other [of n fs ts] by (simp split: option.split)
  next
    case False
    then have m: "(n, v) \<in> set fs" using Cons.prems(2) by auto
    have "fst f \<noteq> n" using Cons.prems(1) imageI [OF m, of fst] by auto
    then show ?thesis using Cons.IH m Cons.prems(1) by (cases f) (auto split: option.splits)
  qed
qed simp

lemma oc_lookup:
  assumes "(n, v) \<in> set (oc_fields r t)"
  shows "tag_value n (onchain_order_tags r t app) = v"
proof -
  have n: "n \<in> set oc_tag_names" using assms oc_tag_names [of r t] by (metis fst_conv image_eqI set_map)
  have k: "n \<notin> set nip69_keys" using oc_tag_names_ok(2) n unfolding list_all_iff by blast
  have nip: "tag_value n (nip69_tags o69) = None" for o69
  proof (rule tag_value_absent)
    fix x assume "x \<in> set (nip69_tags o69)"
    then have "hd x \<in> set nip69_keys" using nip69_tag_key [of o69] by (simp add: list_all_iff)
    then show "hd x \<noteq> n" using k by metis
  qed
  have "n \<noteq> ''designated-sponsor''" "n \<noteq> ''network''" using n oc_tag_names_ok(3,4) by metis+
  then have tail: "tag_value n (if b then [[''designated-sponsor'', d], [''network'', nw]] else nip69_tags o69) = None"
    for b d nw o69 using nip [of o69] by auto
  have "\<exists>ts. onchain_order_tags r t app = field_tags (oc_fields r t) @ ts \<and> tag_value n ts = None"
    unfolding onchain_order_tags_def by (intro exI conjI) (rule refl, rule tail)
  then obtain ts where ts: "onchain_order_tags r t app = field_tags (oc_fields r t) @ ts" "tag_value n ts = None" by blast
  have "distinct (map fst (oc_fields r t))" by (simp add: oc_tag_names oc_tag_names_ok(1))
  from tag_value_fields [OF this assms, of ts] ts show ?thesis by (simp split: option.split)
qed

lemma oc_lookup_network: "tag_value ''network'' (onchain_order_tags r t app) = Some (btc_network_str (oo_network r))"
  and oc_lookup_designated: "tag_value ''designated-sponsor'' (onchain_order_tags r t app) = given_s (oo_designated r)"
proof -
  have f: "n \<notin> set oc_tag_names \<Longrightarrow> tag_value n (field_tags (oc_fields r t) @ ts) = tag_value n ts" for n ts
    using tag_value_fields_other [of n "oc_fields r t" ts] oc_tag_names [of r t] by (metis set_map)
  have d: "tag_value ''designated-sponsor'' (nip69_tags o69) = None" for o69
    by (rule nip69_no_clash) (simp add: own_tags_def)
  show "tag_value ''network'' (onchain_order_tags r t app) = Some (btc_network_str (oo_network r))"
    unfolding onchain_order_tags_def f [OF oc_tag_names_ok(4)] by (simp add: nip69_tags_def)
  show "tag_value ''designated-sponsor'' (onchain_order_tags r t app) = given_s (oo_designated r)"
    unfolding onchain_order_tags_def f [OF oc_tag_names_ok(3)]
    by (auto simp: d given_s_def opt_given_def split: option.splits)
qed

lemma oc_look:
  "tag_value ''d'' (onchain_order_tags r t app) = Some (oo_id r)"
  "tag_value ''t'' (onchain_order_tags r t app) = Some t"
  "tag_value ''protocol'' (onchain_order_tags r t app) = Some (int_str PROTOCOL_VERSION)"
  "tag_value ''state'' (onchain_order_tags r t app) = Some (oc_state_str (oo_state r))"
  "tag_value ''customer'' (onchain_order_tags r t app) = Some (oo_customer r)"
  "tag_value ''amount-sat'' (onchain_order_tags r t app) = Some (int_str (oo_amount r))"
  "tag_value ''expiration'' (onchain_order_tags r t app) = Some (num_str (oo_expiration r))"
  "tag_value ''sponsor'' (onchain_order_tags r t app) = given_s (oo_sponsor r)"
  "tag_value ''reserve-krw'' (onchain_order_tags r t app) = map_option num_str (oo_reserve r)"
  "tag_value ''customer-xonly'' (onchain_order_tags r t app) = given_s (oo_customer_xonly r)"
  "tag_value ''sponsor-xonly'' (onchain_order_tags r t app) = given_s (oo_sponsor_xonly r)"
  "tag_value ''admin-xonly'' (onchain_order_tags r t app) = given_s (oo_admin_xonly r)"
  "tag_value ''escrow-address'' (onchain_order_tags r t app) = given_s (oo_escrow_address r)"
  "tag_value ''timelock-blocks'' (onchain_order_tags r t app) = num_field (oo_timelock r)"
  "tag_value ''funding-deadline'' (onchain_order_tags r t app) = num_field (oo_funding_deadline r)"
  "tag_value ''funding-outpoint'' (onchain_order_tags r t app) = given_s (oo_funding_outpoint r)"
  "tag_value ''funding-confs'' (onchain_order_tags r t app) = num_field (oo_funding_confs r)"
  "tag_value ''funded-at'' (onchain_order_tags r t app) = num_field (oo_funded_at r)"
  "tag_value ''presign-deadline'' (onchain_order_tags r t app) = num_field (oo_presign_deadline r)"
  "tag_value ''price-krw'' (onchain_order_tags r t app) = num_field (oo_price r)"
  "tag_value ''payout-sat'' (onchain_order_tags r t app) = num_field (oo_payout r)"
  "tag_value ''release-fee-sat'' (onchain_order_tags r t app) = num_field (oo_release_fee r)"
  "tag_value ''presigned-at'' (onchain_order_tags r t app) = num_field (oo_presigned_at r)"
  "tag_value ''account-deadline'' (onchain_order_tags r t app) = num_field (oo_account_deadline r)"
  "tag_value ''account-sent-at'' (onchain_order_tags r t app) = num_field (oo_account_sent_at r)"
  "tag_value ''krw-deadline'' (onchain_order_tags r t app) = num_field (oo_krw_deadline r)"
  "tag_value ''remitted-at'' (onchain_order_tags r t app) = num_field (oo_remitted_at r)"
  "tag_value ''cosign-deadline'' (onchain_order_tags r t app) = num_field (oo_cosign_deadline r)"
  "tag_value ''account-disputed-at'' (onchain_order_tags r t app) = num_field (oo_account_disputed_at r)"
  "tag_value ''disputed-at'' (onchain_order_tags r t app) = num_field (oo_disputed_at r)"
  "tag_value ''settlement-kind'' (onchain_order_tags r t app) = map_option settlement_kind_str (oo_settlement_kind r)"
  "tag_value ''settlement-fee-sat'' (onchain_order_tags r t app) = num_field (oo_settlement_fee r)"
  "tag_value ''decided-at'' (onchain_order_tags r t app) = num_field (oo_decided_at r)"
  "tag_value ''settlement-txid'' (onchain_order_tags r t app) = given_s (oo_settlement_txid r)"
  "tag_value ''settling-at'' (onchain_order_tags r t app) = num_field (oo_settling_at r)"
  "tag_value ''customer-deposit-payment-hash'' (onchain_order_tags r t app) = given_s (oo_customer_deposit_hash r)"
  "tag_value ''sponsor-deposit-payment-hash'' (onchain_order_tags r t app) = given_s (oo_sponsor_deposit_hash r)"
  by (rule oc_lookup, simp add: oc_fields_def)+

subsection \<open>Properties\<close>

text \<open>What the apps see of an order: the numbers as doubles, empty texts as absent, the event's time.\<close>

definition oc_view_of :: "oc_ord \<Rightarrow> sec \<Rightarrow> rat oc_order" where
  "oc_view_of r c =
     \<lparr>oo_id = oo_id r, oo_state = oo_state r, oo_customer = oo_customer r,
      oo_sponsor = given_s (oo_sponsor r), oo_designated = given_s (oo_designated r), oo_amount = of_int (oo_amount r),
      oo_reserve = oo_reserve r, oo_created = c, oo_updated = c,
      oo_expiration = oo_expiration r, oo_network = oo_network r, oo_customer_xonly = given_s (oo_customer_xonly r),
      oo_sponsor_xonly = given_s (oo_sponsor_xonly r), oo_admin_xonly = given_s (oo_admin_xonly r), oo_escrow_address = given_s (oo_escrow_address r),
      oo_timelock = map_option of_int (oo_timelock r), oo_funding_deadline = map_option of_int (oo_funding_deadline r), oo_funding_outpoint = given_s (oo_funding_outpoint r),
      oo_funding_confs = map_option of_int (oo_funding_confs r), oo_funded_at = map_option of_int (oo_funded_at r), oo_presign_deadline = map_option of_int (oo_presign_deadline r),
      oo_account_deadline = map_option of_int (oo_account_deadline r), oo_cosign_deadline = map_option of_int (oo_cosign_deadline r), oo_price = map_option of_int (oo_price r),
      oo_payout = map_option of_int (oo_payout r), oo_release_fee = map_option of_int (oo_release_fee r), oo_presigned_at = map_option of_int (oo_presigned_at r),
      oo_account_sent_at = map_option of_int (oo_account_sent_at r), oo_krw_deadline = map_option of_int (oo_krw_deadline r), oo_remitted_at = map_option of_int (oo_remitted_at r),
      oo_account_disputed_at = map_option of_int (oo_account_disputed_at r), oo_disputed_at = map_option of_int (oo_disputed_at r), oo_settlement_kind = oo_settlement_kind r,
      oo_settlement_fee = map_option of_int (oo_settlement_fee r), oo_decided_at = map_option of_int (oo_decided_at r), oo_settlement_txid = given_s (oo_settlement_txid r),
      oo_settling_at = map_option of_int (oo_settling_at r), oo_customer_deposit_hash = given_s (oo_customer_deposit_hash r), oo_sponsor_deposit_hash = given_s (oo_sponsor_deposit_hash r)\<rparr>"

text \<open>
  \<open>readable\<close>: a number whose text reads back as itself, as every integer below \<open>2^53\<close> does.  \<open>oc_wf\<close> is what the
  daemon checks before it stores an order: an id, a customer, a positive amount, key texts of the right form.
\<close>

definition readable :: "rat \<Rightarrow> bool" where "readable q \<longleftrightarrow> js_number (num_str q) = Fin q"

definition oc_numbers :: "oc_ord \<Rightarrow> int option list" where
  "oc_numbers r = [oo_timelock r, oo_funding_deadline r, oo_funding_confs r, oo_funded_at r, oo_presign_deadline r, oo_account_deadline r, oo_cosign_deadline r, oo_price r, oo_payout r, oo_release_fee r, oo_presigned_at r, oo_account_sent_at r, oo_krw_deadline r, oo_remitted_at r, oo_account_disputed_at r, oo_disputed_at r, oo_settlement_fee r, oo_decided_at r, oo_settling_at r]"

definition key_ok :: "hex option \<Rightarrow> bool" where
  "key_ok k \<longleftrightarrow> (case k of None \<Rightarrow> True | Some v \<Rightarrow> v = [] \<or> is_xonly_hex v)"

definition oc_wf :: "oc_ord \<Rightarrow> bool" where
  "oc_wf r \<longleftrightarrow> oo_id r \<noteq> [] \<and> oo_customer r \<noteq> [] \<and> 0 < oo_amount r
     \<and> list_all key_ok [oo_customer_xonly r, oo_sponsor_xonly r, oo_admin_xonly r]"

lemma key_ok_given: "key_ok k \<Longrightarrow> (case given_s k of Some v \<Rightarrow> \<not> is_xonly_hex v | None \<Rightarrow> False) = False"
  by (cases k) (auto simp: key_ok_def given_s_def opt_given_def)

lemma readable_small: "small n \<Longrightarrow> readable (of_int n)"
  by (simp add: readable_def small_def num_str_of_int js_number_int_str)

lemma read_num_field: "small_opt v \<Longrightarrow> tag_value n tags = num_field v \<Longrightarrow> read_num tags n = map_option of_int v"
  by (cases v) (simp_all add: read_num_def num_field_def small_opt_def small_def js_number_int_str)

lemma oc_read:
  assumes "list_all small_opt (oc_numbers r)"
  shows
  "read_num (onchain_order_tags r t app) ''timelock-blocks'' = map_option of_int (oo_timelock r)"
  "read_num (onchain_order_tags r t app) ''funding-deadline'' = map_option of_int (oo_funding_deadline r)"
  "read_num (onchain_order_tags r t app) ''funding-confs'' = map_option of_int (oo_funding_confs r)"
  "read_num (onchain_order_tags r t app) ''funded-at'' = map_option of_int (oo_funded_at r)"
  "read_num (onchain_order_tags r t app) ''presign-deadline'' = map_option of_int (oo_presign_deadline r)"
  "read_num (onchain_order_tags r t app) ''price-krw'' = map_option of_int (oo_price r)"
  "read_num (onchain_order_tags r t app) ''payout-sat'' = map_option of_int (oo_payout r)"
  "read_num (onchain_order_tags r t app) ''release-fee-sat'' = map_option of_int (oo_release_fee r)"
  "read_num (onchain_order_tags r t app) ''presigned-at'' = map_option of_int (oo_presigned_at r)"
  "read_num (onchain_order_tags r t app) ''account-deadline'' = map_option of_int (oo_account_deadline r)"
  "read_num (onchain_order_tags r t app) ''account-sent-at'' = map_option of_int (oo_account_sent_at r)"
  "read_num (onchain_order_tags r t app) ''krw-deadline'' = map_option of_int (oo_krw_deadline r)"
  "read_num (onchain_order_tags r t app) ''remitted-at'' = map_option of_int (oo_remitted_at r)"
  "read_num (onchain_order_tags r t app) ''cosign-deadline'' = map_option of_int (oo_cosign_deadline r)"
  "read_num (onchain_order_tags r t app) ''account-disputed-at'' = map_option of_int (oo_account_disputed_at r)"
  "read_num (onchain_order_tags r t app) ''disputed-at'' = map_option of_int (oo_disputed_at r)"
  "read_num (onchain_order_tags r t app) ''settlement-fee-sat'' = map_option of_int (oo_settlement_fee r)"
  "read_num (onchain_order_tags r t app) ''decided-at'' = map_option of_int (oo_decided_at r)"
  "read_num (onchain_order_tags r t app) ''settling-at'' = map_option of_int (oo_settling_at r)"
  using assms by (auto simp: oc_numbers_def oc_look intro!: read_num_field)

lemma oc_xonly_ok: "oc_wf r \<Longrightarrow> n \<in> set [''customer-xonly'', ''sponsor-xonly'', ''admin-xonly'']
   \<Longrightarrow> (case tag_value n (onchain_order_tags r t app) of Some v \<Rightarrow> \<not> is_xonly_hex v | None \<Rightarrow> False) = False"
  by (auto simp: oc_wf_def oc_look key_ok_given)

text \<open>Round trip: an order the daemon publishes is read back by the apps as the same order, every field in its
  place, for public and for designated orders; absent and empty values stay absent and no NIP-69 tag shadows
  a tag of ours.\<close>

theorem oc_order_tags_roundtrip:
  assumes "oc_wf r" and "small (oo_amount r)" and "list_all small_opt (oc_numbers r)"
    and "readable (oo_expiration r)" and "\<forall>q. oo_reserve r = Some q \<longrightarrow> readable q"
  shows "parse_onchain_order \<lparr>oe_pubkey = pk, oe_created_at = c, oe_tags = onchain_order_tags r t app\<rparr> t
       = Some (oc_view_of r c)"
proof -
  have amt: "read_num (onchain_order_tags r t app) ''amount-sat'' = Some (of_int (oo_amount r))"
    using assms(2) by (simp add: read_num_def oc_look small_def js_number_int_str)
  have expi: "read_num (onchain_order_tags r t app) ''expiration'' = Some (oo_expiration r)"
    using assms(4) by (simp add: read_num_def oc_look readable_def)
  have res: "read_num (onchain_order_tags r t app) ''reserve-krw'' = oo_reserve r"
    using assms(5) by (cases "oo_reserve r") (simp_all add: read_num_def oc_look readable_def)
  have keys: "(\<exists>n \<in> set [''customer-xonly'', ''sponsor-xonly'', ''admin-xonly''].
      (case tag_value n (onchain_order_tags r t app) of Some v \<Rightarrow> \<not> is_xonly_hex v | None \<Rightarrow> False)) = False"
    using oc_xonly_ok [OF assms(1), of _ t app] by blast
  have given: "opt_given (Some (oo_id r))" "opt_given (Some (oo_customer r))" "\<not> (of_int (oo_amount r) \<le> (0 :: rat))"
    using assms(1) by (simp_all add: oc_wf_def opt_given_def)
  have kind: "(map_option settlement_kind_str (oo_settlement_kind r) \<noteq> None
      \<and> Option.bind (map_option settlement_kind_str (oo_settlement_kind r)) settlement_kind_of = None) = False"
    "Option.bind (map_option settlement_kind_str (oo_settlement_kind r)) settlement_kind_of = oo_settlement_kind r"
    by (cases "oo_settlement_kind r"; simp)+
  show ?thesis
    unfolding parse_onchain_order_def Let_def order_event.simps keys amt expi res oc_read [OF assms(3)]
      oc_lookup_network oc_lookup_designated oc_look kind
    using given by (cases "oo_settlement_kind r") (simp_all add: oc_view_of_def)
qed

definition toy_oc_order :: oc_ord where
  "toy_oc_order = \<lparr>oo_id = ''ord1'', oo_state = Oc_listed, oo_customer = ''c'', oo_sponsor = None,
     oo_designated = None, oo_amount = 1000000, oo_reserve = Some 900000, oo_created = 5, oo_updated = 5,
     oo_expiration = 100000, oo_network = Signet, oo_customer_xonly = Some (replicate 64 (CHR ''1'')),
     oo_sponsor_xonly = None, oo_admin_xonly = None, oo_escrow_address = None, oo_timelock = None,
     oo_funding_deadline = None, oo_funding_outpoint = None, oo_funding_confs = None, oo_funded_at = None,
     oo_presign_deadline = None, oo_account_deadline = None, oo_cosign_deadline = None, oo_price = None,
     oo_payout = None, oo_release_fee = None, oo_presigned_at = None, oo_account_sent_at = None,
     oo_krw_deadline = None, oo_remitted_at = None, oo_account_disputed_at = None, oo_disputed_at = None,
     oo_settlement_kind = None, oo_settlement_fee = None, oo_decided_at = None, oo_settlement_txid = None,
     oo_settling_at = None, oo_customer_deposit_hash = Some ''h'', oo_sponsor_deposit_hash = None\<rparr>"

theorem oc_order_tags_roundtrip_witness:
  "parse_onchain_order \<lparr>oe_pubkey = ''app'', oe_created_at = 7, oe_tags = onchain_order_tags toy_oc_order ''oc'' None\<rparr> ''oc''
   = Some (oc_view_of toy_oc_order 7)"
proof (rule oc_order_tags_roundtrip)
  have "readable (of_int n)" if "\<bar>n\<bar> < 2 ^ 53" for n using readable_small that by (simp add: small_def)
  from this [of 100000] this [of 900000]
  show "readable (oo_expiration toy_oc_order)" "\<forall>q. oo_reserve toy_oc_order = Some q \<longrightarrow> readable q"
    by (simp_all add: toy_oc_order_def)
qed (simp_all add: toy_oc_order_def oc_wf_def small_def oc_numbers_def small_opt_def key_ok_def is_xonly_hex_def is_hex64_def
      list_all_iff is_digit_def char_code_def)

lemma split_colon_join: "CHR '':'' \<notin> set a \<Longrightarrow> CHR '':'' \<notin> set b \<Longrightarrow> split_colon (a @ CHR '':'' # b) = [a, b]"
proof (induction a)
  case Nil
  have "CHR '':'' \<notin> set b \<Longrightarrow> split_colon b = [b]" by (induction b) auto
  with Nil show ?case by simp
qed auto

lemma hex_no_colon: "is_hex64 s \<Longrightarrow> CHR '':'' \<notin> set s"
  unfolding is_hex64_def list_all_iff is_digit_def char_code_def by fastforce

lemma digits_no_colon: "list_all is_digit s \<Longrightarrow> CHR '':'' \<notin> set s"
  unfolding list_all_iff is_digit_def char_code_def by fastforce

lemma outpoint_roundtrip:
  assumes "is_hex64 txid" and "0 \<le> v" and "v < 2 ^ 53"
  shows "parse_outpoint (Some (format_outpoint txid v)) = Some \<lparr>op_txid = txid, op_vout = v\<rparr>"
proof -
  have d: "int_str v = nat_digits (nat v)" using assms(2) by (simp add: int_str_def)
  have dig: "list_all is_digit (int_str v)" unfolding d by (rule nat_digits_all_digit)
  have ne: "int_str v \<noteq> []" by (simp add: d)
  have num: "js_number (int_str v) = Fin (of_int v)" using assms(2,3) by (simp add: js_number_int_str)
  have "\<bar>of_int v :: rat\<bar> < 2 ^ 53"
  proof -
    have "(of_int \<bar>v\<bar> :: rat) < of_int (2 ^ 53)" using assms(2,3) by (simp only: of_int_less_iff)
    then show ?thesis by simp
  qed
  then show ?thesis
    using split_colon_join [OF hex_no_colon [OF assms(1)] digits_no_colon [OF dig]] assms(1) dig ne num
    by (simp add: parse_outpoint_def format_outpoint_def)
qed

end
