(* ===== verification/Oc_Chain.thy ===== *)
theory Oc_Chain
  imports Oc_Order
begin

text \<open>
  Reading the chain (\<open>shared/src/onchain/chain.ts\<close>): the answers of the explorer API and what the adapter makes of
  them.  Every query is \<open>Known\<close> a value or \<open>Unknown\<close>; a failed request, a malformed answer or a missing height is
  \<open>Unknown\<close>, never an empty result.

  The HTTP service is a parameter: \<open>http path\<close> is the answer to a request, or the message of the exception when the fetch
  throws or times out; \<open>hr_json\<close> is \<open>JSON.parse\<close> of the body, \<open>None\<close> when it throws.  Heights, output indices and satoshi values are
  integers in that API; a fractional one is read as malformed.  The reasons of a
  malformed answer are shortened.
\<close>

subsection \<open>Answers\<close>

datatype 'a chain_query = Known 'a | Unknown string

record chain_utxo =
  cu_txid :: hex
  cu_vout :: int
  cu_value :: sat
  cu_confs :: int

record address_funds =
  af_confirmed :: "chain_utxo list"
  af_mempool :: "chain_utxo list"

record tx_status =
  tx_seen :: bool
  tx_confirmed :: bool
  tx_confs :: int

datatype spend_info = Unspent | Spent hex bool "string list option"

record fee_estimates =
  fe_fastest :: rat
  fe_half_hour :: rat
  fe_hour :: rat
  fe_economy :: rat
  fe_minimum :: rat

record http_response =
  hr_status :: int
  hr_text :: string
  hr_json :: "json option"

datatype fetched = F_threw string | F_response http_response

type_synonym http = "string \<Rightarrow> fetched"

subsection \<open>One request\<close>

datatype raw_query = Raw_value json | Raw_failed string "(int \<times> string) option"

definition http_request :: "http \<Rightarrow> string \<Rightarrow> raw_query" where
  "http_request http path =
     (case http path of
        F_threw message \<Rightarrow> Raw_failed message None
      | F_response res \<Rightarrow>
          if \<not> (200 \<le> hr_status res \<and> hr_status res < 300)
          then Raw_failed (path @ '' -> '' @ int_str (hr_status res) @ '' '' @ take 200 (hr_text res))
                 (Some (hr_status res, hr_text res))
          else (case hr_json res of Some j \<Rightarrow> Raw_value j | None \<Rightarrow> Raw_value (J_str (js_trim (hr_text res)))))"

text \<open>\<open>Number(value)\<close> of a parsed value; an array reads as its joined text.\<close>

fun js_to_number :: "json \<Rightarrow> jsnum" where
  "js_to_number J_null = Fin 0"
| "js_to_number (J_bool b) = Fin (if b then 1 else 0)"
| "js_to_number (J_num x) = x"
| "js_to_number (J_str s) = js_number s"
| "js_to_number (J_arr []) = Fin 0"
| "js_to_number (J_arr [x]) =
     (case x of J_null \<Rightarrow> Fin 0 | J_bool _ \<Rightarrow> NaN | _ \<Rightarrow> js_to_number x)"
| "js_to_number (J_arr (_ # _ # _)) = NaN"
| "js_to_number (J_obj _) = NaN"

definition get_tip_height :: "http \<Rightarrow> int chain_query" where
  "get_tip_height http =
     (case http_request http ''/blocks/tip/height'' of
        Raw_failed reason _ \<Rightarrow> Unknown reason
      | Raw_value v \<Rightarrow>
          (case js_to_number v of
             Fin q \<Rightarrow> if q = of_int \<lfloor>q\<rfloor> \<and> 0 < q then Known \<lfloor>q\<rfloor> else Unknown ''tip height''
           | _ \<Rightarrow> Unknown ''tip height''))"

subsection \<open>The funds of an address\<close>

definition jbool :: "json option \<Rightarrow> bool option" where
  "jbool v = (case v of Some (J_bool b) \<Rightarrow> Some b | _ \<Rightarrow> None)"

definition sub_field :: "string \<Rightarrow> json option \<Rightarrow> json option" where
  "sub_field k v = Option.bind v (jfield k)"

text \<open>One entry: the output and whether it is confirmed.\<close>

definition read_utxo :: "int \<Rightarrow> json \<Rightarrow> (chain_utxo \<times> bool) option" where
  "read_utxo tip u =
     (case (jstr (jfield ''txid'' u), jint (jfield ''vout'' u), jint (jfield ''value'' u)) of
        (Some txid, Some vout, Some v) \<Rightarrow>
          (let height = jint (sub_field ''block_height'' (jfield ''status'' u));
               isConfirmed = jbool (sub_field ''confirmed'' (jfield ''status'' u)) = Some True \<and> height \<noteq> None
           in Some (\<lparr>cu_txid = txid, cu_vout = vout, cu_value = v,
                     cu_confs = (if isConfirmed then max 0 (tip - the height + 1) else 0)\<rparr>, isConfirmed))
      | _ \<Rightarrow> None)"

fun read_utxos :: "int \<Rightarrow> json list \<Rightarrow> address_funds option" where
  "read_utxos tip [] = Some \<lparr>af_confirmed = [], af_mempool = []\<rparr>"
| "read_utxos tip (u # us) =
     (case read_utxo tip u of
        None \<Rightarrow> None
      | Some (x, isConfirmed) \<Rightarrow>
          map_option (\<lambda>f. if isConfirmed then f\<lparr>af_confirmed := x # af_confirmed f\<rparr>
                          else f\<lparr>af_mempool := x # af_mempool f\<rparr>) (read_utxos tip us))"

definition get_address_funds :: "http \<Rightarrow> string \<Rightarrow> address_funds chain_query" where
  "get_address_funds http address =
     (case http_request http (''/address/'' @ address @ ''/utxo'') of
        Raw_failed reason _ \<Rightarrow> Unknown reason
      | Raw_value v \<Rightarrow>
          (case get_tip_height http of
             Unknown reason \<Rightarrow> Unknown reason
           | Known tip \<Rightarrow>
               (case v of
                  J_arr us \<Rightarrow>
                    (case read_utxos tip us of Some f \<Rightarrow> Known f | None \<Rightarrow> Unknown ''utxo shape'')
                | _ \<Rightarrow> Unknown ''utxo not an array'')))"

subsection \<open>Transactions\<close>

definition lower :: "char \<Rightarrow> char" where
  "lower c = (let n = char_code c in if 65 \<le> n \<and> n \<le> 90 then char_of (n + 32) else c)"

fun is_infix_of :: "string \<Rightarrow> string \<Rightarrow> bool" where
  "is_infix_of p [] = (p = [])"
| "is_infix_of p (c # cs) = (take (length p) (c # cs) = p \<or> is_infix_of p cs)"

definition tx_not_found :: "string \<Rightarrow> bool" where
  "tx_not_found body = is_infix_of ''transaction not found'' (map lower body)"

definition get_tx_status :: "http \<Rightarrow> hex \<Rightarrow> tx_status chain_query" where
  "get_tx_status http txid =
     (case http_request http (''/tx/'' @ txid) of
        Raw_failed reason info \<Rightarrow>
          (case info of
             Some (status, body) \<Rightarrow>
               if status = 404 \<and> tx_not_found body
               then Known \<lparr>tx_seen = False, tx_confirmed = False, tx_confs = 0\<rparr> else Unknown reason
           | None \<Rightarrow> Unknown reason)
      | Raw_value v \<Rightarrow>
          (case get_tip_height http of
             Unknown reason \<Rightarrow> Unknown reason
           | Known tip \<Rightarrow>
               (case jbool (sub_field ''confirmed'' (jfield ''status'' v)) of
                  None \<Rightarrow> Unknown ''no status''
                | Some False \<Rightarrow> Known \<lparr>tx_seen = True, tx_confirmed = False, tx_confs = 0\<rparr>
                | Some True \<Rightarrow>
                    (case jint (sub_field ''block_height'' (jfield ''status'' v)) of
                       None \<Rightarrow> Unknown ''no block height''
                     | Some h \<Rightarrow> Known \<lparr>tx_seen = True, tx_confirmed = True, tx_confs = max 0 (tip - h + 1)\<rparr>))))"

text \<open>\<open>Array.isArray(vin?.witness)\<close>; the entries are hex texts.\<close>

definition read_witness :: "outpoint \<Rightarrow> json \<Rightarrow> string list option" where
  "read_witness op v =
     (case jfield ''vin'' v of
        Some (J_arr vins) \<Rightarrow>
          (case List.find (\<lambda>i. jstr (jfield ''txid'' i) = Some (op_txid op)
                             \<and> jint (jfield ''vout'' i) = Some (op_vout op)) vins of
             None \<Rightarrow> None
           | Some i \<Rightarrow> (case jfield ''witness'' i of
                          Some (J_arr ws) \<Rightarrow> Some (map (\<lambda>j. case jstr (Some j) of Some s \<Rightarrow> s | None \<Rightarrow> []) ws)
                        | _ \<Rightarrow> None))
      | _ \<Rightarrow> None)"

definition get_spend :: "http \<Rightarrow> outpoint \<Rightarrow> spend_info chain_query" where
  "get_spend http op =
     (case http_request http (''/tx/'' @ op_txid op @ ''/outspend/'' @ int_str (op_vout op)) of
        Raw_failed reason _ \<Rightarrow> Unknown reason
      | Raw_value v \<Rightarrow>
          (case jbool (jfield ''spent'' v) of
             None \<Rightarrow> Unknown ''outspend shape''
           | Some False \<Rightarrow> Known Unspent
           | Some True \<Rightarrow>
               (case jstr (jfield ''txid'' v) of
                  None \<Rightarrow> Unknown ''outspend txid''
                | Some txid \<Rightarrow>
                    if \<not> is_hex64 txid then Unknown ''outspend txid''
                    else Known (Spent txid (jbool (sub_field ''confirmed'' (jfield ''status'' v)) = Some True)
                           (case http_request http (''/tx/'' @ txid) of
                              Raw_value t \<Rightarrow> read_witness op t | Raw_failed _ _ \<Rightarrow> None)))))"

definition positive_num :: "json option \<Rightarrow> rat option" where
  "positive_num v = (case jnum v of Some q \<Rightarrow> if 0 < q then Some q else None | None \<Rightarrow> None)"

definition get_fee_estimates :: "http \<Rightarrow> fee_estimates chain_query" where
  "get_fee_estimates http =
     (case http_request http ''/v1/fees/recommended'' of
        Raw_failed reason _ \<Rightarrow> Unknown reason
      | Raw_value v \<Rightarrow>
          (case map (\<lambda>k. positive_num (jfield k v))
             [''fastestFee'', ''halfHourFee'', ''hourFee'', ''economyFee'', ''minimumFee''] of
             [Some a, Some b, Some c, Some d, Some m] \<Rightarrow>
               Known \<lparr>fe_fastest = a, fe_half_hour = b, fe_hour = c, fe_economy = d, fe_minimum = m\<rparr>
           | _ \<Rightarrow> Unknown ''fees shape''))"

text \<open>\<open>post\<close> is the service's answer to a posted raw transaction.\<close>

definition is_hex_text :: "string \<Rightarrow> bool" where
  "is_hex_text s \<longleftrightarrow> s \<noteq> [] \<and> list_all (\<lambda>c. digit_in 16 c \<noteq> None) s \<and> length s mod 2 = 0"

text \<open>\<open>String(value)\<close> as far as it can be a transaction id: a text, or an array of one.\<close>

fun json_text :: "json \<Rightarrow> string" where
  "json_text (J_str s) = s"
| "json_text (J_arr [x]) = json_text x"
| "json_text _ = []"

definition broadcast_tx :: "(string \<Rightarrow> fetched) \<Rightarrow> string \<Rightarrow> hex chain_query" where
  "broadcast_tx post rawHex =
     (if \<not> is_hex_text rawHex then Unknown ''raw tx is not hex''
      else (case http_request (\<lambda>_. post rawHex) ''/tx'' of
              Raw_failed reason _ \<Rightarrow> Unknown reason
            | Raw_value v \<Rightarrow>
                (let txid = js_trim (json_text v) in
                 if is_hex64 txid then Known txid else Unknown ''broadcast answer is not a txid'')))"

end
