(* ===== verification/Oc_Tx.thy ===== *)
theory Oc_Tx
  imports Oc_Chain
begin

text \<open>
  Keys, escrow scripts, settlement transactions and the check of a counterparty's signature
  (\<open>shared/src/onchain/keys.ts\<close>, \<open>script.ts\<close>, \<open>address.ts\<close>, \<open>tx.ts\<close>, \<open>verify.ts\<close>).

  The bitcoin library (\<open>@scure/btc-signer\<close>, \<open>@noble/curves\<close>) is the parameter \<open>btc_lib\<close>; every function that may
  throw gives an \<open>option\<close>.  Bytes are hex texts.  A transaction is the record of what \<open>buildSettlementTx\<close> puts into it,
  its signatures are kept beside it, because the id does not depend on them.
\<close>

subsection \<open>The bitcoin library\<close>

datatype script_op = Push hex | Num int | Op string

record tap_output =
  to_address :: "string option"
  to_script :: hex
  to_merkle :: hex
  to_leaf_scripts :: "(hex \<times> hex) list option"

record btc_tx =
  bt_outpoint :: outpoint
  bt_sequence :: int
  bt_spent_script :: hex
  bt_spent_value :: sat
  bt_leaf_scripts :: "(hex \<times> hex) list"
  bt_out_script :: hex
  bt_out_value :: sat

text \<open>A signature entry: public key, leaf hash, signature.\<close>

type_synonym tap_sig = "hex \<times> hex \<times> hex"

record psbt =
  ps_inputs :: nat
  ps_outputs :: nat
  ps_txid :: hex
  ps_input :: "outpoint option"
  ps_sigs :: "tap_sig list"

record btc_lib =
  bl_decode :: "btc_network \<Rightarrow> string \<Rightarrow> (string \<times> hex) option"
  bl_script :: "script_op list \<Rightarrow> hex"
  bl_p2tr :: "hex \<Rightarrow> hex list list \<Rightarrow> btc_network \<Rightarrow> tap_output option"
  bl_single :: "hex \<Rightarrow> btc_network \<Rightarrow> string option"
  bl_leaf_hash :: "hex \<Rightarrow> hex"
  bl_accepts :: "btc_tx \<Rightarrow> bool"
  bl_txid :: "btc_tx \<Rightarrow> hex"
  bl_sighash :: "btc_tx \<Rightarrow> hex \<Rightarrow> hex option"
  bl_schnorr :: "hex \<Rightarrow> hex \<Rightarrow> hex \<Rightarrow> bool option"
  bl_sign :: "hex \<Rightarrow> btc_tx \<Rightarrow> tap_sig option"
  bl_finalize :: "btc_tx \<Rightarrow> tap_sig list \<Rightarrow> hex option"
  bl_psbt :: "btc_tx \<Rightarrow> string"
  bl_read_psbt :: "string \<Rightarrow> psbt option"
  bl_xonly :: "hex \<Rightarrow> hex"

subsection \<open>Keys\<close>

definition ORDER_KEY_PREFIX :: string where "ORDER_KEY_PREFIX = ''pairbuy-onchain/v1/''"

definition CURVE_ORDER :: nat where
  "CURVE_ORDER = 115792089237316195423570985008687907852837564279074904382605163141518161494337"

definition MAX_DERIVE_ATTEMPTS :: nat where "MAX_DERIVE_ATTEMPTS = 8"

text \<open>A 32-byte key as the number it denotes.\<close>

definition is_valid_scalar :: "nat \<Rightarrow> bool" where "is_valid_scalar n \<longleftrightarrow> 0 < n \<and> n < CURVE_ORDER"

text \<open>\<open>hmac\<close> is HMAC-SHA256 under the nostr key, which is \<open>keyLen\<close> bytes long.\<close>

definition derive_order_key :: "(string \<Rightarrow> nat) \<Rightarrow> nat \<Rightarrow> string \<Rightarrow> nat option" where
  "derive_order_key hmac keyLen oid =
     (if keyLen \<noteq> 32 \<or> oid = [] then None
      else List.find is_valid_scalar (map (\<lambda>a. hmac (ORDER_KEY_PREFIX @ oid @ (if a = 0 then [] else ''/'' @ nat_digits a)))
             [0..<MAX_DERIVE_ATTEMPTS]))"

datatype escrow_role = Role_C | Role_S | Role_A

record escrow_keys =
  ek_customer :: hex
  ek_sponsor :: hex
  ek_admin :: hex

fun key_of :: "escrow_keys \<Rightarrow> escrow_role \<Rightarrow> hex" where
  "key_of k Role_C = ek_customer k"
| "key_of k Role_S = ek_sponsor k"
| "key_of k Role_A = ek_admin k"

definition find_duplicate_escrow_key :: "escrow_keys \<Rightarrow> (escrow_role \<times> escrow_role) option" where
  "find_duplicate_escrow_key k =
     List.find (\<lambda>(a, b). key_of k a = key_of k b) [(Role_C, Role_S), (Role_C, Role_A), (Role_S, Role_A)]"

definition assert_escrow_keys :: "escrow_keys \<Rightarrow> bool" where
  "assert_escrow_keys k \<longleftrightarrow> list_all (\<lambda>r. is_xonly_hex (key_of k r)) [Role_C, Role_S, Role_A]
     \<and> find_duplicate_escrow_key k = None"

subsection \<open>The escrow scripts\<close>

definition NUMS_INTERNAL_KEY :: hex where
  "NUMS_INTERNAL_KEY = ''50929b74c1a04954b78b4b6035e97a5e078a5a0f28ec96d547bfee9ace803ac0''"
definition DEFAULT_TIMELOCK_BLOCKS :: int where "DEFAULT_TIMELOCK_BLOCKS = 8064"
definition MAX_TIMELOCK_BLOCKS :: int where "MAX_TIMELOCK_BLOCKS = 65535"

datatype escrow_leaf_name = Leaf_release | Leaf_customer_win | Leaf_sponsor_win | Leaf_timelock

record escrow_leaf =
  lf_name :: escrow_leaf_name
  lf_script :: hex
  lf_signers :: "escrow_role list"

definition assert_timelock :: "int \<Rightarrow> bool" where
  "assert_timelock blocks \<longleftrightarrow> 1 \<le> blocks \<and> blocks \<le> MAX_TIMELOCK_BLOCKS"

definition build_escrow_leaves :: "btc_lib \<Rightarrow> escrow_keys \<Rightarrow> int \<Rightarrow> escrow_leaf list option" where
  "build_escrow_leaves L k timelock =
     (if \<not> assert_escrow_keys k \<or> \<not> assert_timelock timelock then None
      else
        (let C = ek_customer k; S = ek_sponsor k; A = ek_admin k;
             two = (\<lambda>a b. bl_script L [Push a, Op ''CHECKSIGVERIFY'', Push b, Op ''CHECKSIG'']) in
         Some [\<lparr>lf_name = Leaf_release, lf_script = two C S, lf_signers = [Role_C, Role_S]\<rparr>,
               \<lparr>lf_name = Leaf_customer_win, lf_script = two A C, lf_signers = [Role_A, Role_C]\<rparr>,
               \<lparr>lf_name = Leaf_sponsor_win, lf_script = two A S, lf_signers = [Role_A, Role_S]\<rparr>,
               \<lparr>lf_name = Leaf_timelock,
                lf_script = bl_script L [Num timelock, Op ''CHECKSEQUENCEVERIFY'', Op ''DROP'', Push C, Op ''CHECKSIG''],
                lf_signers = [Role_C]\<rparr>]))"

definition build_escrow_tree :: "escrow_leaf list \<Rightarrow> hex list list option" where
  "build_escrow_tree leaves =
     (case leaves of
        [a, b, c, d] \<Rightarrow> Some [[lf_script a, lf_script b], [lf_script c, lf_script d]]
      | _ \<Rightarrow> None)"

subsection \<open>Addresses\<close>

record escrow_descriptor =
  ed_address :: string
  ed_script :: hex
  ed_merkle :: hex
  ed_leaves :: "escrow_leaf list"
  ed_timelock :: int
  ed_network :: btc_network
  ed_leaf_scripts :: "(hex \<times> hex) list"

definition derive_escrow_address :: "btc_lib \<Rightarrow> escrow_keys \<Rightarrow> btc_network \<Rightarrow> int option \<Rightarrow> escrow_descriptor option" where
  "derive_escrow_address L k network timelock =
     (let blocks = (case timelock of Some b \<Rightarrow> b | None \<Rightarrow> DEFAULT_TIMELOCK_BLOCKS) in
      do {
        leaves \<leftarrow> build_escrow_leaves L k blocks;
        tree \<leftarrow> build_escrow_tree leaves;
        out \<leftarrow> bl_p2tr L NUMS_INTERNAL_KEY tree network;
        address \<leftarrow> given_s (to_address out);
        scripts \<leftarrow> to_leaf_scripts out;
        if length scripts \<noteq> length leaves then None
        else Some \<lparr>ed_address = address, ed_script = to_script out, ed_merkle = to_merkle out, ed_leaves = leaves,
                   ed_timelock = blocks, ed_network = network, ed_leaf_scripts = scripts\<rparr>
      })"

definition derive_single_key_address :: "btc_lib \<Rightarrow> hex \<Rightarrow> btc_network \<Rightarrow> string option" where
  "derive_single_key_address L xonly network =
     (if \<not> is_xonly_hex xonly then None else given_s (bl_single L xonly network))"

text \<open>\<open>True\<close> when the address cannot be used on the network.\<close>

definition address_problem :: "btc_lib \<Rightarrow> string \<Rightarrow> btc_network \<Rightarrow> bool" where
  "address_problem L address network \<longleftrightarrow>
     (let trimmed = js_trim address in trimmed = [] \<or> bl_decode L network trimmed = None)"

datatype address_check = Address_ok escrow_descriptor | Address_bad "string option"

definition verify_escrow_address ::
  "btc_lib \<Rightarrow> escrow_keys \<Rightarrow> btc_network \<Rightarrow> int option \<Rightarrow> string \<Rightarrow> address_check" where
  "verify_escrow_address L k network timelock expected =
     (case derive_escrow_address L k network timelock of
        None \<Rightarrow> Address_bad None
      | Some d \<Rightarrow> if ed_address d \<noteq> expected then Address_bad (Some (ed_address d)) else Address_ok d)"

subsection \<open>Settlement transactions\<close>

datatype settlement_path = Path_release | Path_refund | Path_customer_win | Path_sponsor_win | Path_timelock

definition settlement_path_for_kind :: "settlement_kind \<Rightarrow> settlement_path" where
  "settlement_path_for_kind kind =
     (if kind = Release then Path_release
      else if kind = Sponsor_win then Path_sponsor_win
      else if kind = Customer_win then Path_customer_win
      else Path_refund)"

definition SEQUENCE_FINAL :: int where "SEQUENCE_FINAL = 4294967295"

definition dust_by_type :: "string \<Rightarrow> sat" where
  "dust_by_type t =
     (if t \<in> {''tr'', ''wsh'', ''tr_ns'', ''tr_ms''} then 330
      else if t = ''wpkh'' then 294
      else if t = ''pkh'' then 546
      else if t = ''sh'' then 540
      else 546)"

fun settlement_leaf_for :: "settlement_path \<Rightarrow> escrow_leaf_name" where
  "settlement_leaf_for Path_release = Leaf_release"
| "settlement_leaf_for Path_refund = Leaf_customer_win"
| "settlement_leaf_for Path_customer_win = Leaf_customer_win"
| "settlement_leaf_for Path_sponsor_win = Leaf_sponsor_win"
| "settlement_leaf_for Path_timelock = Leaf_timelock"

definition output_script_for :: "btc_lib \<Rightarrow> string \<Rightarrow> escrow_descriptor \<Rightarrow> hex option" where
  "output_script_for L address d = map_option snd (bl_decode L (ed_network d) address)"

definition dust_threshold_for :: "btc_lib \<Rightarrow> string \<Rightarrow> escrow_descriptor \<Rightarrow> sat option" where
  "dust_threshold_for L address d = map_option (\<lambda>x. dust_by_type (fst x)) (bl_decode L (ed_network d) address)"

definition bytes_len :: "hex \<Rightarrow> int" where "bytes_len h = int (length h) div 2"

definition find_leaf :: "escrow_descriptor \<Rightarrow> escrow_leaf_name \<Rightarrow> escrow_leaf option" where
  "find_leaf d n = List.find (\<lambda>l. lf_name l = n) (ed_leaves d)"

definition estimate_settlement_vsize ::
  "btc_lib \<Rightarrow> settlement_path \<Rightarrow> escrow_descriptor \<Rightarrow> string \<Rightarrow> int option" where
  "estimate_settlement_vsize L path d destination =
     do {
       leaf \<leftarrow> find_leaf d (settlement_leaf_for path);
       spk \<leftarrow> output_script_for L destination d;
       let nonWitness = 4 + 1 + 41 + 1 + (9 + bytes_len spk) + 4;
       let witness = 1 + int (length (lf_signers leaf)) * 65 + (1 + bytes_len (lf_script leaf)) + 98;
       Some ((nonWitness * 4 + witness + 2 + 3) div 4)
     }"

definition settlement_fee_sat ::
  "btc_lib \<Rightarrow> settlement_path \<Rightarrow> escrow_descriptor \<Rightarrow> string \<Rightarrow> rat \<Rightarrow> sat option" where
  "settlement_fee_sat L path d destination feerate =
     (if feerate \<le> 0 then None
      else map_option (\<lambda>v. \<lceil>fl (of_int v * feerate)\<rceil>) (estimate_settlement_vsize L path d destination))"

definition TYPICAL_SETTLEMENT_VSIZE :: int where "TYPICAL_SETTLEMENT_VSIZE = 169"

record settlement_params =
  sp_descriptor :: escrow_descriptor
  sp_outpoint :: outpoint
  sp_value :: sat
  sp_path :: settlement_path
  sp_destination :: string
  sp_fee :: sat

definition build_settlement_tx :: "btc_lib \<Rightarrow> settlement_params \<Rightarrow> btc_tx option" where
  "build_settlement_tx L p =
     (let d = sp_descriptor p; outputSat = sp_value p - sp_fee p in
      if sp_value p \<le> 0 \<or> sp_fee p < 0 then None
      else do {
        dust \<leftarrow> dust_threshold_for L (sp_destination p) d;
        if outputSat < dust then None
        else do {
          leaf \<leftarrow> find_leaf d (settlement_leaf_for (sp_path p));
          let mine = filter (\<lambda>x. take (length (snd x) - 2) (snd x) = lf_script leaf) (ed_leaf_scripts d);
          if length mine \<noteq> 1 then None
          else do {
            spk \<leftarrow> output_script_for L (sp_destination p) d;
            let tx = \<lparr>bt_outpoint = sp_outpoint p,
                      bt_sequence = (if sp_path p = Path_timelock then ed_timelock d else SEQUENCE_FINAL),
                      bt_spent_script = ed_script d, bt_spent_value = sp_value p, bt_leaf_scripts = mine,
                      bt_out_script = spk, bt_out_value = outputSat\<rparr>;
            if bl_accepts L tx then Some tx else None
          }
        }
      })"

text \<open>
  \<open>tapScriptSigOf\<close>: the signature of this key for this leaf.  An added signature goes last, after the older one of
  the same key and leaf, if any, was taken out.
\<close>

definition tap_script_sig_of :: "btc_lib \<Rightarrow> tap_sig list \<Rightarrow> hex \<Rightarrow> hex \<Rightarrow> hex option" where
  "tap_script_sig_of L sigs xonly leafScript =
     map_option (\<lambda>(_, _, sig). sig)
       (List.find (\<lambda>(pk, lh, _). pk = xonly \<and> lh = bl_leaf_hash L leafScript) sigs)"

definition add_tap_script_sig :: "btc_lib \<Rightarrow> hex \<Rightarrow> hex \<Rightarrow> hex \<Rightarrow> tap_sig list \<Rightarrow> tap_sig list option" where
  "add_tap_script_sig L leafScript xonly sig sigs =
     (if \<not> is_xonly_hex xonly then None
      else Some (filter (\<lambda>(pk, lh, _). \<not> (pk = xonly \<and> lh = bl_leaf_hash L leafScript)) sigs
                 @ [(xonly, bl_leaf_hash L leafScript, sig)]))"

definition leaf_of_witness :: "string list option \<Rightarrow> escrow_descriptor \<Rightarrow> escrow_leaf_name option" where
  "leaf_of_witness witness d =
     (case witness of None \<Rightarrow> None
      | Some ws \<Rightarrow>
          if length ws < 2 then None
          else map_option lf_name
                 (List.find (\<lambda>l. lf_script l = map lower (ws ! (length ws - 2))) (ed_leaves d)))"

subsection \<open>Checking a counterparty's signature\<close>

datatype presig_verdict = Presig_ok hex hex | Presig_bad

definition verify_presignature :: "btc_lib \<Rightarrow> string \<Rightarrow> settlement_params \<Rightarrow> hex \<Rightarrow> presig_verdict" where
  "verify_presignature L psbtText expected signer =
     (if \<not> is_xonly_hex signer then Presig_bad
      else (case build_settlement_tx L expected of None \<Rightarrow> Presig_bad
       | Some mine \<Rightarrow>
         (case bl_read_psbt L psbtText of None \<Rightarrow> Presig_bad
          | Some theirs \<Rightarrow>
              if ps_inputs theirs \<noteq> 1 \<or> ps_outputs theirs \<noteq> 1 then Presig_bad
              else if ps_txid theirs \<noteq> bl_txid L mine then Presig_bad
              else (case find_leaf (sp_descriptor expected) (settlement_leaf_for (sp_path expected)) of
                 None \<Rightarrow> Presig_bad
               | Some leaf \<Rightarrow>
                   (case tap_script_sig_of L (ps_sigs theirs) signer (lf_script leaf) of
                      None \<Rightarrow> Presig_bad
                    | Some sig \<Rightarrow>
                        if bytes_len sig \<noteq> 64 then Presig_bad
                        else (case bl_sighash L mine (lf_script leaf) of None \<Rightarrow> Presig_bad
                         | Some h \<Rightarrow>
                             if bl_schnorr L sig h signer = Some True then Presig_ok sig (lf_script leaf)
                             else Presig_bad))))))"

text \<open>What an accepted signature proves.\<close>

definition signature_for :: "btc_lib \<Rightarrow> settlement_params \<Rightarrow> hex \<Rightarrow> hex \<Rightarrow> bool" where
  "signature_for L p signer sig \<longleftrightarrow>
     (\<exists>tx leaf h. build_settlement_tx L p = Some tx
        \<and> find_leaf (sp_descriptor p) (settlement_leaf_for (sp_path p)) = Some leaf
        \<and> bl_sighash L tx (lf_script leaf) = Some h \<and> bl_schnorr L sig h signer = Some True \<and> bytes_len sig = 64)"

lemma verify_presignature_ok:
  assumes "verify_presignature L psbtText p signer = Presig_ok sig ls"
  shows "signature_for L p signer sig" and "is_xonly_hex signer"
    and "\<exists>leaf. find_leaf (sp_descriptor p) (settlement_leaf_for (sp_path p)) = Some leaf \<and> ls = lf_script leaf"
  using assms by (auto simp: verify_presignature_def signature_for_def split: option.splits if_splits)

lemma verify_needs_tx: "verify_presignature L t p s = Presig_ok sig ls \<Longrightarrow> \<exists>tx. build_settlement_tx L p = Some tx"
  by (auto simp: verify_presignature_def split: option.splits if_splits)

text \<open>What a settlement transaction is: one input that spends the given output whole, one output that pays it less the fee.\<close>

lemma build_tx_sel:
  assumes "build_settlement_tx L p = Some tx"
  shows "bt_outpoint tx = sp_outpoint p" and "bt_spent_value tx = sp_value p"
    and "bt_spent_script tx = ed_script (sp_descriptor p)" and "bt_out_value tx = sp_value p - sp_fee p"
    and "output_script_for L (sp_destination p) (sp_descriptor p) = Some (bt_out_script tx)"
    and "sp_path p \<noteq> Path_timelock \<Longrightarrow> bt_sequence tx = SEQUENCE_FINAL"
  using assms
  by (auto simp: build_settlement_tx_def Let_def dust_threshold_for_def output_script_for_def bind_eq_Some_conv
      split: if_splits option.splits)

lemma escrow_leaves_cases:
  assumes "derive_escrow_address L k n t = Some d"
  shows "build_escrow_leaves L k (ed_timelock d) = Some (ed_leaves d)" and "ed_network d = n"
    and "t = Some b \<Longrightarrow> ed_timelock d = b"
  using assms by (auto simp: derive_escrow_address_def Let_def split: option.splits if_splits)

lemma derive_deterministic:
  "derive_escrow_address L k n t = Some d \<Longrightarrow> derive_escrow_address L k n (Some (ed_timelock d)) = Some d"
  by (auto simp: derive_escrow_address_def Let_def split: option.splits if_splits)

lemma keys_distinct:
  "assert_escrow_keys k \<Longrightarrow> ek_customer k \<noteq> ek_sponsor k \<and> ek_customer k \<noteq> ek_admin k \<and> ek_sponsor k \<noteq> ek_admin k"
  by (auto simp: assert_escrow_keys_def find_duplicate_escrow_key_def split: if_splits)

end
