(* ===== verification/Oc_Policy.thy ===== *)
theory Oc_Policy
  imports Oc_Timing Ln_Timing Ln_Money
begin

text \<open>
  Bounds of the on-chain track: which fee rates, floor prices and amounts the daemon accepts
  (\<open>shared/src/onchain/policy.ts\<close>) and how large and how long-lived the bonds are
  (\<open>daemon/src/onchain/deposit.ts\<close>).  Products and quotients of doubles are rounded with \<open>fl\<close>.  A check
  gives the problem or \<open>None\<close>; its text for the user is not modelled.
\<close>

subsection \<open>Accepted values\<close>

definition MIN_RELEASE_FEERATE :: rat where "MIN_RELEASE_FEERATE = 1"
definition MAX_RELEASE_FEERATE_MULTIPLIER :: rat where "MAX_RELEASE_FEERATE_MULTIPLIER = 5"
definition MAX_RELEASE_FEERATE_FLOOR :: rat where "MAX_RELEASE_FEERATE_FLOOR = 100"
definition MAX_RELEASE_FEE_SHARE :: rat where "MAX_RELEASE_FEE_SHARE = fl (2 / 10)"
definition RESERVE_MIN_GAP_PERCENT :: rat where "RESERVE_MIN_GAP_PERCENT = 3"
definition MAX_SANE_SETTLEMENT_FEERATE :: rat where "MAX_SANE_SETTLEMENT_FEERATE = 1000"
definition DESIGNATED_MIN_FEE_MULTIPLE :: int where "DESIGNATED_MIN_FEE_MULTIPLE = 20"

datatype feerate_problem = Fee_too_low | Fee_too_high rat | Fee_eats_amount | Payout_dust

definition release_feerate_problem ::
  "jsnum \<Rightarrow> rat option \<Rightarrow> sat \<Rightarrow> sat \<Rightarrow> sat \<Rightarrow> feerate_problem option" where
  "release_feerate_problem feerate fastest amountSat releaseFeeSat dustSat =
     (case feerate of
        Fin f \<Rightarrow>
          if f < MIN_RELEASE_FEERATE then Some Fee_too_low
          else
            (let ceil = max MAX_RELEASE_FEERATE_FLOOR
                   (fl ((case fastest of Some x \<Rightarrow> x | None \<Rightarrow> 0) * MAX_RELEASE_FEERATE_MULTIPLIER)) in
             if f > ceil then Some (Fee_too_high ceil)
             else if of_int releaseFeeSat > fl (of_int amountSat * MAX_RELEASE_FEE_SHARE) then Some Fee_eats_amount
             else if amountSat - releaseFeeSat < dustSat then Some Payout_dust
             else None)
      | _ \<Rightarrow> Some Fee_too_low)"

datatype reserve_refusal = Reserve_not_positive | Price_unknown | Reserve_too_high int

definition reserve_problem :: "rat \<Rightarrow> sat \<Rightarrow> rat option \<Rightarrow> reserve_refusal option" where
  "reserve_problem reserveKrw amountSat btcPriceKrw =
     (if reserveKrw \<le> 0 then Some Reserve_not_positive
      else (case btcPriceKrw of
              None \<Rightarrow> Some Price_unknown
            | Some p \<Rightarrow>
                if \<not> p > 0 then Some Price_unknown
                else (let spotKrw = fl (fl (of_int amountSat / 10 ^ 8) * p);
                          ceil = \<lfloor>fl (spotKrw * fl (1 - fl (RESERVE_MIN_GAP_PERCENT / 100)))\<rfloor>
                      in if reserveKrw > of_int ceil then Some (Reserve_too_high ceil) else None)))"

definition required_confirmations :: "sat \<Rightarrow> int option" where
  "required_confirmations amountSat =
     (if amountSat \<le> 0 then None
      else if amountSat < 100000 then Some 1
      else if amountSat < 1000000 then Some 2
      else Some 3)"

definition designated_min_trade_sat :: "sat \<Rightarrow> sat" where
  "designated_min_trade_sat settlementFeeSat = settlementFeeSat * DESIGNATED_MIN_FEE_MULTIPLE"

subsection \<open>Bonds\<close>

definition SPONSOR_DEPOSIT_PERCENT :: int where "SPONSOR_DEPOSIT_PERCENT = 3"
definition CUSTOMER_DEPOSIT_PERCENT :: int where "CUSTOMER_DEPOSIT_PERCENT = 1"
definition COMPENSATION_SHARE :: rat where "COMPENSATION_SHARE = 1 / 2"
definition FLOOR_MULTIPLIER :: rat where "FLOOR_MULTIPLIER = 2 / COMPENSATION_SHARE"
definition CLTV_SAFETY_MARGIN_SEC :: sec where "CLTV_SAFETY_MARGIN_SEC = 6 * 3600"

definition deposit_floor_sat :: "sat \<Rightarrow> sat option" where
  "deposit_floor_sat settlementFeeSat =
     (if settlementFeeSat \<le> 0 then None else Some \<lceil>fl (of_int settlementFeeSat * FLOOR_MULTIPLIER)\<rceil>)"

definition oc_deposit_sat :: "sat \<Rightarrow> int \<Rightarrow> sat \<Rightarrow> sat option" where
  "oc_deposit_sat amountSat percent floorSat =
     (if amountSat \<le> 0 then None
      else Some (max \<lceil>fl (fl (of_int amountSat * of_int percent) / 100)\<rceil> floorSat))"

definition min_trade_sat :: "sat \<Rightarrow> sat" where
  "min_trade_sat floorSat = \<lceil>fl (of_int floorSat / fl (of_int SPONSOR_DEPOSIT_PERCENT / 100))\<rceil>"

definition deposit_cltv_blocks :: "rat \<Rightarrow> sec \<Rightarrow> int option" where
  "deposit_cltv_blocks expiration now =
     (let remaining = fl (expiration - of_int now) in
      if remaining \<le> 0 then None
      else Some \<lceil>fl (fl (fl (remaining + of_int MAX_TRADE_DURATION_SEC) + of_int CLTV_SAFETY_MARGIN_SEC) / 600)\<rceil>)"

lemmas policy_consts = DESIGNATED_MIN_FEE_MULTIPLE_def SPONSOR_DEPOSIT_PERCENT_def CUSTOMER_DEPOSIT_PERCENT_def
  COMPENSATION_SHARE_def FLOOR_MULTIPLIER_def CLTV_SAFETY_MARGIN_SEC_def

subsection \<open>Rounding up a quotient\<close>

lemma ceil_fl_div:
  assumes "0 < x" and "x < 2 ^ 53" and "0 < d"
  shows "\<lceil>fl (of_int x / of_int d)\<rceil> = (x + d - 1) div d"
proof -
  let ?q = "of_int x / of_int d :: rat"
  define n where "n = (x + d - 1) div d"
  have dpos: "(0 :: rat) < of_int d" using assms(3) by simp
  have up: "x \<le> n * d" and lo: "(n - 1) * d + 1 \<le> x"
  proof -
    have "(x + d - 1) mod d + n * d = x + d - 1" by (simp add: n_def)
    moreover have "0 \<le> (x + d - 1) mod d" "(x + d - 1) mod d < d" using assms(3) by simp_all
    ultimately show "x \<le> n * d" "(n - 1) * d + 1 \<le> x" by (simp_all add: algebra_simps)
  qed
  have qpos: "0 < ?q" using assms by simp
  have qn: "?q \<le> of_int n"
  proof -
    have "(of_int x :: rat) \<le> of_int (n * d)" using up by (simp only: of_int_le_iff)
    then show ?thesis using dpos by (simp add: divide_le_eq)
  qed
  have x52: "(of_int x :: rat) < of_int (2 ^ 53)" using assms(2) by (simp only: of_int_less_iff)
  have "?q \<le> of_int x" using assms by (simp add: divide_le_eq mult_le_cancel_left1)
  with x52 have "?q < 2 ^ 53" by simp
  then have hi: "fl ?q \<le> of_int n" by (intro fl_le_int qpos qn ilog2_le)
  have step: "of_int n - 1 \<le> ?q - 1 / of_int d"
  proof -
    have "of_int ((n - 1) * d + 1) \<le> (of_int x :: rat)" using lo by (simp only: of_int_le_iff)
    then show ?thesis using dpos by (simp add: field_simps)
  qed
  have "\<bar>fl ?q - ?q\<bar> \<le> ?q / 2 ^ 53" using fl_error [of ?q] qpos by simp
  also have "\<dots> < 1 / of_int d" using x52 dpos by (simp add: field_simps)
  finally have "?q - 1 / of_int d < fl ?q" by (simp add: abs_less_iff)
  with step have "of_int n - 1 < fl ?q" by simp
  with hi have "\<lceil>fl ?q\<rceil> = n" by (simp add: ceiling_eq_iff)
  then show ?thesis by (simp add: n_def)
qed

lemma oc_deposit_sat_exact:
  assumes "0 < a" and "a \<le> 21 * 10 ^ 14" and "p \<in> {1, 3}"
  shows "oc_deposit_sat a p f = Some (max ((a * p + 99) div 100) f)"
proof -
  have b: "0 < a * p" "a * p < 2 ^ 53" "\<bar>a * p\<bar> < 2 ^ 53" using assms by auto
  have "fl (of_int a * of_int p) = of_int (a * p)" using fl_of_int [OF b(3)] by simp
  then show ?thesis using assms ceil_fl_div [of "a * p" 100] by (auto simp: oc_deposit_sat_def)
qed

lemma deposit_floor_exact: "0 < fee \<Longrightarrow> fee < 2 ^ 50 \<Longrightarrow> deposit_floor_sat fee = Some (4 * fee)"
proof -
  assume a: "0 < fee" "fee < 2 ^ 50"
  then have "fl (of_int (4 * fee)) = (of_int (4 * fee) :: rat)" by (intro fl_of_int) simp
  then have "fl (4 * of_int fee) = (4 * of_int fee :: rat)" by simp
  moreover have "\<lceil>4 * of_int fee :: rat\<rceil> = 4 * fee" using ceiling_of_int [of "4 * fee", where 'a = rat] by simp
  ultimately show ?thesis using a by (simp add: deposit_floor_sat_def policy_consts mult.commute)
qed

lemma three_percent_value: "fl (of_int SPONSOR_DEPOSIT_PERCENT / 100) \<le> 3 / 100 * (1 + 1 / 2 ^ 52)"
  "29 / 1000 \<le> fl (of_int SPONSOR_DEPOSIT_PERCENT / 100)"
proof -
  have v: "of_int SPONSOR_DEPOSIT_PERCENT / 100 = (3 / 100 :: rat)" by (simp add: SPONSOR_DEPOSIT_PERCENT_def)
  have "\<bar>fl (3 / 100) - 3 / 100 :: rat\<bar> \<le> 3 / 100 / 2 ^ 53" using fl_error [of "3 / 100"] by simp
  then show "fl (of_int SPONSOR_DEPOSIT_PERCENT / 100) \<le> 3 / 100 * (1 + 1 / 2 ^ 52)"
    "29 / 1000 \<le> fl (of_int SPONSOR_DEPOSIT_PERCENT / 100)" unfolding v abs_le_iff by simp_all
qed

text \<open>At the minimum trade the floor no longer exceeds three percent.\<close>

lemma min_trade_floor:
  assumes "0 < f" and "min_trade_sat f \<le> a" and "0 < a" and "a \<le> 21 * 10 ^ 14"
  shows "f \<le> (3 * a + 99) div 100"
proof -
  define c where "c = fl (of_int SPONSOR_DEPOSIT_PERCENT / 100)"
  let ?q = "of_int f / c"
  have c: "c \<le> 3 / 100 * (1 + 1 / 2 ^ 52)" "0 < c" using three_percent_value unfolding c_def by linarith+
  have q: "0 < ?q" using assms(1) c by simp
  have "fl ?q \<le> of_int (min_trade_sat f)" by (simp add: min_trade_sat_def c_def)
  with assms(2) have le: "fl ?q \<le> of_int a" by (meson of_int_le_iff order_trans)
  have "\<bar>fl ?q - ?q\<bar> \<le> ?q / 2 ^ 53" using fl_error [of ?q] q by simp
  then have "?q * (1 - 1 / 2 ^ 53) \<le> fl ?q" by (simp add: abs_le_iff algebra_simps)
  with le have "?q * (1 - 1 / 2 ^ 53) \<le> of_int a" by simp
  then have "of_int f * (1 - 1 / 2 ^ 53) \<le> of_int a * c" using c by (simp add: field_simps)
  also have "\<dots> \<le> of_int a * (3 / 100 * (1 + 1 / 2 ^ 52))" using c assms(3) by (intro mult_left_mono) simp_all
  finally have "100 * of_int f * (1 - 1 / 2 ^ 53) \<le> (3 * of_int a * (1 + 1 / 2 ^ 52) :: rat)" by simp
  moreover have a: "of_int a \<le> (21 * 10 ^ 14 :: rat)"
    using assms(4) by (metis of_int_le_iff of_int_mult of_int_numeral of_int_power)
  ultimately have "100 * of_int f < (3 * of_int a + 100 :: rat)" using assms(1) by (simp add: field_simps)
  then have "(of_int (100 * f) :: rat) < of_int (3 * a + 100)" by simp
  then have "100 * f < 3 * a + 100" by (simp only: of_int_less_iff)
  then show ?thesis by linarith
qed

lemma deposit_cltv_exact:
  assumes "is_order_expiry_allowed (of_int expiration) now"
  shows "deposit_cltv_blocks (of_int expiration) now
    = Some ((expiration - now + MAX_TRADE_DURATION_SEC + CLTV_SAFETY_MARGIN_SEC + 599) div 600)"
proof -
  define r where "r = expiration - now"
  have r: "0 < r" "r \<le> MAX_ORDER_EXPIRY_SEC"
  proof -
    have "(of_int now :: rat) < of_int expiration" "(of_int (expiration - now) :: rat) \<le> of_int MAX_ORDER_EXPIRY_SEC"
      using assms by (simp_all add: is_order_expiry_allowed_def)
    then show "0 < r" "r \<le> MAX_ORDER_EXPIRY_SEC" unfolding r_def by (simp_all only: of_int_less_iff of_int_le_iff)
  qed
  have k: "MAX_TRADE_DURATION_SEC = 186300" "CLTV_SAFETY_MARGIN_SEC = 21600" "MAX_ORDER_EXPIRY_SEC = 604800"
    by (simp_all add: oc_consts CLTV_SAFETY_MARGIN_SEC_def)
  have small: "fl (of_int n) = of_int n" if "0 < n" "n < 10 ^ 9" for n using that by (intro fl_of_int) simp
  have 1: "fl (of_int expiration - of_int now) = of_int r" using small [of r] r k by (simp add: r_def)
  have 2: "fl (of_int r + of_int MAX_TRADE_DURATION_SEC) = of_int (r + MAX_TRADE_DURATION_SEC)"
    using small [of "r + MAX_TRADE_DURATION_SEC"] r k by simp
  have 3: "fl (of_int (r + MAX_TRADE_DURATION_SEC) + of_int CLTV_SAFETY_MARGIN_SEC)
      = of_int (r + MAX_TRADE_DURATION_SEC + CLTV_SAFETY_MARGIN_SEC)"
    using small [of "r + MAX_TRADE_DURATION_SEC + CLTV_SAFETY_MARGIN_SEC"] r k by simp
  have 4: "\<lceil>fl (of_int (r + MAX_TRADE_DURATION_SEC + CLTV_SAFETY_MARGIN_SEC) / 600)\<rceil>
      = (r + MAX_TRADE_DURATION_SEC + CLTV_SAFETY_MARGIN_SEC + 599) div 600"
    using ceil_fl_div [of "r + MAX_TRADE_DURATION_SEC + CLTV_SAFETY_MARGIN_SEC" 600] r k by simp
  show ?thesis using r(1) by (simp only: deposit_cltv_blocks_def Let_def 1 2 3 4) (simp add: r_def)
qed

lemma div_600: "(x :: int) \<le> 600 * ((x + 599) div 600) \<and> 600 * ((x + 599) div 600) < x + 600"
  by presburger

subsection \<open>Properties\<close>

text \<open>C39. The bonds of a public listing: whatever expiry the daemon accepts, the HTLC of a bond lives at least until
  the listing's end plus the longest trade plus six hours and still fits the channel limit; and at or above the
  announced minimum trade the sponsor's bond is exactly three percent rounded up and covers four settlement
  fees, the customer's exactly one percent or that floor.\<close>

theorem oc_bonds_cover:
  assumes "is_order_expiry_allowed (of_int expiration) now" and "0 < fee" and "fee < 2 ^ 50"
    and "deposit_floor_sat fee = Some floorSat" and "min_trade_sat floorSat \<le> amount" and "0 < amount"
    and "amount \<le> 21 * 10 ^ 14"
  shows "(\<exists>n. deposit_cltv_blocks (of_int expiration) now = Some n \<and> n \<le> CLTV_MAX_BLOCKS
      \<and> expiration + MAX_TRADE_DURATION_SEC + CLTV_SAFETY_MARGIN_SEC \<le> now + n * 600
      \<and> now + n * 600 < expiration + MAX_TRADE_DURATION_SEC + CLTV_SAFETY_MARGIN_SEC + 600)
    \<and> oc_deposit_sat amount SPONSOR_DEPOSIT_PERCENT floorSat = Some ((3 * amount + 99) div 100)
    \<and> 4 * fee \<le> (3 * amount + 99) div 100
    \<and> oc_deposit_sat amount CUSTOMER_DEPOSIT_PERCENT floorSat = Some (max ((amount + 99) div 100) (4 * fee))"
proof (intro conjI)
  have f: "floorSat = 4 * fee" using deposit_floor_exact [OF assms(2,3)] assms(4) by simp
  have m: "floorSat \<le> (3 * amount + 99) div 100" using min_trade_floor [OF _ assms(5-7)] assms(2) f by simp
  then show "4 * fee \<le> (3 * amount + 99) div 100" by (simp add: f)
  show "oc_deposit_sat amount SPONSOR_DEPOSIT_PERCENT floorSat = Some ((3 * amount + 99) div 100)"
    using oc_deposit_sat_exact [OF assms(6,7), of 3 floorSat] m
    by (simp add: SPONSOR_DEPOSIT_PERCENT_def mult.commute max_def)
  show "oc_deposit_sat amount CUSTOMER_DEPOSIT_PERCENT floorSat = Some (max ((amount + 99) div 100) (4 * fee))"
    using oc_deposit_sat_exact [OF assms(6,7), of 1 floorSat] by (simp add: CUSTOMER_DEPOSIT_PERCENT_def f)
  define x where "x = expiration - now + MAX_TRADE_DURATION_SEC + CLTV_SAFETY_MARGIN_SEC"
  have "(of_int (expiration - now) :: rat) \<le> of_int MAX_ORDER_EXPIRY_SEC"
    using assms(1) by (simp add: is_order_expiry_allowed_def)
  then have "expiration - now \<le> MAX_ORDER_EXPIRY_SEC" by (simp only: of_int_le_iff)
  then have x: "x \<le> 900000" by (simp add: x_def oc_consts CLTV_SAFETY_MARGIN_SEC_def)
  define n where "n = (x + 599) div 600"
  have n: "x \<le> n * 600" "n * 600 < x + 600" using div_600 [of x] by (simp_all add: n_def mult.commute)
  have "n \<le> CLTV_MAX_BLOCKS" using n(2) x by (simp add: CLTV_MAX_BLOCKS_def)
  with n show "\<exists>n. deposit_cltv_blocks (of_int expiration) now = Some n \<and> n \<le> CLTV_MAX_BLOCKS
      \<and> expiration + MAX_TRADE_DURATION_SEC + CLTV_SAFETY_MARGIN_SEC \<le> now + n * 600
      \<and> now + n * 600 < expiration + MAX_TRADE_DURATION_SEC + CLTV_SAFETY_MARGIN_SEC + 600"
    using deposit_cltv_exact [OF assms(1), folded x_def n_def] by (intro exI [of _ n]) (simp add: x_def)
qed

theorem oc_bonds_cover_witness:
  "oc_deposit_sat 1000000 SPONSOR_DEPOSIT_PERCENT 2704 = Some 30000"
proof -
  have f: "deposit_floor_sat 676 = Some 2704" using deposit_floor_exact [of 676] by simp
  have "min_trade_sat 2704 \<le> 1000000"
  proof -
    define c where "c = fl (of_int SPONSOR_DEPOSIT_PERCENT / 100)"
    define q where "q = 2704 / c"
    have "29 / 1000 \<le> c" using three_percent_value(2) by (simp add: c_def)
    then have q: "0 < q" "q \<le> 2704 / (29 / 1000)" unfolding q_def by (simp, intro divide_left_mono) simp_all
    have "fl q \<le> of_int 1000000" using q by (intro fl_le_int ilog2_le) simp_all
    then show ?thesis by (simp add: min_trade_sat_def q_def c_def ceiling_le_iff)
  qed
  from oc_bonds_cover [OF _ _ _ f this, of 100000 0, THEN conjunct2, THEN conjunct1] show ?thesis
    by (simp add: is_order_expiry_allowed_def oc_consts)
qed

end
