(* ===== verification/Oc_Decide.thy ===== *)
theory Oc_Decide
  imports Oc_Tx Oc_Policy
begin

text \<open>
  What the watcher decides (\<open>daemon/src/onchain/funding.ts\<close>, \<open>daemon/src/onchain/decide.ts\<close>): pure functions from the
  facts of the chain, the clock and the order to one action.  \<open>None\<close> is the exception of \<open>requiredConfirmations\<close> on a
  non-positive amount.  The texts of holds, warnings and anomalies are replaced by ASCII ones that differ exactly when
  the original texts do, because they are the keys of the alerts.
\<close>

subsection \<open>Funding\<close>

datatype funding_verdict =
    FV_unknown string
  | FV_none
  | FV_pending sat
  | FV_confirming outpoint int int
  | FV_funded outpoint int sat
  | FV_anomaly string sat nat

definition utxo_outpoint :: "chain_utxo \<Rightarrow> outpoint" where
  "utxo_outpoint u = \<lparr>op_txid = cu_txid u, op_vout = cu_vout u\<rparr>"

definition judge_funding :: "address_funds chain_query \<Rightarrow> sat \<Rightarrow> funding_verdict option" where
  "judge_funding funds amountSat =
     (case funds of
        Unknown reason \<Rightarrow> Some (FV_unknown reason)
      | Known f \<Rightarrow>
          (case required_confirmations amountSat of
             None \<Rightarrow> None
           | Some required \<Rightarrow> Some
               (case af_confirmed f of
                  [] \<Rightarrow> if af_mempool f = [] then FV_none else FV_pending (sum_list (map cu_value (af_mempool f)))
                | [u] \<Rightarrow>
                    if cu_value u \<noteq> amountSat
                    then FV_anomaly (''amount '' @ int_str amountSat @ '' got '' @ int_str (cu_value u)) (cu_value u) 1
                    else if cu_confs u < required then FV_confirming (utxo_outpoint u) (cu_confs u) required
                    else FV_funded (utxo_outpoint u) (cu_confs u) (cu_value u)
                | us \<Rightarrow> FV_anomaly (''utxos '' @ nat_digits (length us)) (sum_list (map cu_value us)) (length us))))"

datatype pinned_funding_state = PS_unknown string | PS_alive int | PS_shallow int int | PS_missing

definition judge_pinned_funding ::
  "address_funds chain_query \<Rightarrow> outpoint \<Rightarrow> sat \<Rightarrow> pinned_funding_state option" where
  "judge_pinned_funding funds pinned amountSat =
     (case funds of
        Unknown reason \<Rightarrow> Some (PS_unknown reason)
      | Known f \<Rightarrow>
          (case required_confirmations amountSat of
             None \<Rightarrow> None
           | Some required \<Rightarrow> Some
               (case List.find (\<lambda>u. utxo_outpoint u = pinned) (af_confirmed f) of
                  Some u \<Rightarrow> if cu_confs u \<ge> required then PS_alive (cu_confs u) else PS_shallow (cu_confs u) required
                | None \<Rightarrow> if list_ex (\<lambda>u. utxo_outpoint u = pinned) (af_mempool f) then PS_shallow 0 required
                          else PS_missing)))"

record oc_utxo =
  ou_outpoint :: outpoint
  ou_value :: sat

definition stray_utxos :: "address_funds chain_query \<Rightarrow> outpoint option \<Rightarrow> oc_utxo list" where
  "stray_utxos funds pinned =
     (case funds of
        Unknown _ \<Rightarrow> []
      | Known f \<Rightarrow> map (\<lambda>u. \<lparr>ou_outpoint = utxo_outpoint u, ou_value = cu_value u\<rparr>)
          (filter (\<lambda>u. pinned \<noteq> Some (utxo_outpoint u)) (af_confirmed f)))"

subsection \<open>Facts and actions\<close>

datatype pinned_facts =
    PF_unknown string
  | PF_alive int
  | PF_shallow int int
  | PF_gone
  | PF_spent hex "escrow_leaf_name option" bool

datatype reorg_why = Why_shallow | Why_gone

datatype onchain_action =
    A_idle
  | A_hold string
  | A_anomaly string
  | A_warn string
  | A_dispute_soon
  | A_fund outpoint int krw
  | A_fold outpoint int settlement_kind
  | A_cancel
  | A_reorg reorg_why
  | A_settle settlement_kind
  | A_dispute
  | A_confirmed
  | A_observe_spend hex "escrow_leaf_name option" bool
  | A_rebroadcast

record watch_context =
  wc_now :: sec
  wc_funds :: "address_funds chain_query"
  wc_pinned :: "pinned_facts option"
  wc_settlement_tx :: "tx_status chain_query option"
  wc_price :: "rat option"
  wc_bond_alive :: "bool option"
  wc_account_sent :: bool
  wc_can_rebroadcast :: bool

definition DISPUTE_ESCALATION_SEC :: "sec \<times> sec" where
  "DISPUTE_ESCALATION_SEC = (7 * 24 * 3600, 14 * 24 * 3600)"

definition PINNED_STATES :: "oc_state set" where
  "PINNED_STATES = {Oc_funded, Oc_presigned, Oc_remitted, Oc_disputed, Oc_refunding, Oc_settling}"

subsection \<open>The decisions, state by state\<close>

definition price_krw :: "sat \<Rightarrow> rat \<Rightarrow> krw" where
  "price_krw amountSat btcPriceKrw = js_round (fl (fl (of_int amountSat / 10 ^ 8) * btcPriceKrw))"

definition decide_bonded :: "oc_ord \<Rightarrow> watch_context \<Rightarrow> onchain_action option" where
  "decide_bonded r c =
     (case judge_funding (wc_funds c) (oo_amount r) of
        None \<Rightarrow> None
      | Some verdict \<Rightarrow> Some
          (case verdict of
             FV_unknown reason \<Rightarrow> A_hold (''chain query failed: '' @ reason)
           | FV_anomaly reason _ _ \<Rightarrow> A_anomaly reason
           | FV_confirming _ _ _ \<Rightarrow> A_idle
           | FV_funded out confs _ \<Rightarrow>
               (let bondAlive = (if opt_given (oo_designated r) then Some True else wc_bond_alive c) in
                case bondAlive of
                  Some False \<Rightarrow> A_fold out confs Refund_bond_expired
                | None \<Rightarrow> A_hold ''sponsor bond unknown''
                | Some True \<Rightarrow>
                    (case wc_price c of
                       None \<Rightarrow> A_hold ''no fresh price''
                     | Some p \<Rightarrow>
                         if \<not> p > 0 then A_hold ''no fresh price''
                         else (let priceKrw = price_krw (oo_amount r) p in
                               case oo_reserve r of
                                 Some reserve \<Rightarrow> if of_int priceKrw < reserve then A_fold out confs Refund_reserve
                                                else A_fund out confs priceKrw
                               | None \<Rightarrow> A_fund out confs priceKrw)))
           | _ \<Rightarrow>
               (let deadline = (case oo_funding_deadline r of Some d \<Rightarrow> d | None \<Rightarrow> 0) in
                if deadline > 0 \<and> wc_now c \<ge> deadline then A_cancel else A_idle)))"

definition decide_presigned :: "oc_ord \<Rightarrow> watch_context \<Rightarrow> onchain_action" where
  "decide_presigned r c =
     (if \<not> wc_account_sent c then
        (if is_past (account_deadline_of (oo_presigned_at r) (oo_account_deadline r)) (wc_now c)
         then A_settle Refund_customer_late else A_idle)
      else if \<not> is_past (krw_deadline_of (oo_krw_deadline r) (oo_account_sent_at r)) (wc_now c) then A_idle
      else A_settle (if truthy_n (oo_account_disputed_at r) then Refund_account_disputed else Refund_sponsor_timeout))"

definition decide_remitted :: "oc_ord \<Rightarrow> watch_context \<Rightarrow> onchain_action" where
  "decide_remitted r c =
     (let deadline = (case cosign_deadline_of (oo_remitted_at r) (oo_cosign_deadline r) of
                        Some d \<Rightarrow> d | None \<Rightarrow> cosign_deadline_from 0) in
      if wc_now c \<ge> deadline then A_dispute
      else if wc_now c \<ge> deadline - COSIGN_GRACE_WARNING_SEC then A_dispute_soon
      else A_idle)"

definition escalation :: "oc_ord \<Rightarrow> watch_context \<Rightarrow> onchain_action" where
  "escalation r c =
     (let since = (case oo_disputed_at r of Some t \<Rightarrow> t | None \<Rightarrow> oo_updated r) in
      if wc_now c \<ge> since + snd DISPUTE_ESCALATION_SEC then A_warn ''disputed 14 days''
      else if wc_now c \<ge> since + fst DISPUTE_ESCALATION_SEC then A_warn ''disputed 7 days''
      else A_idle)"

definition decide_settling :: "oc_ord \<Rightarrow> watch_context \<Rightarrow> onchain_action option" where
  "decide_settling r c =
     (if \<not> opt_given (oo_settlement_txid r) then Some (A_anomaly ''settling without txid'')
      else
        (let other = (case wc_pinned c of
               Some (PF_spent txid leaf confirmed) \<Rightarrow>
                 if Some txid \<noteq> oo_settlement_txid r then Some (A_observe_spend txid leaf confirmed) else None
             | _ \<Rightarrow> None) in
         case other of Some a \<Rightarrow> Some a
         | None \<Rightarrow>
             (case wc_settlement_tx c of
                None \<Rightarrow> Some (A_hold ''settlement not asked'')
              | Some (Unknown reason) \<Rightarrow> Some (A_hold (''settlement query failed: '' @ reason))
              | Some (Known status) \<Rightarrow>
                  (case required_confirmations (oo_amount r) of
                     None \<Rightarrow> None
                   | Some required \<Rightarrow> Some
                       (if tx_confirmed status \<and> tx_confs status \<ge> required then A_confirmed
                        else if \<not> tx_seen status then
                          (if wc_can_rebroadcast c then A_rebroadcast else A_anomaly ''settlement gone'')
                        else
                          (let since = (case oo_settling_at r of Some t \<Rightarrow> t | None \<Rightarrow> oo_updated r) in
                           if wc_now c \<ge> since + SETTLING_WARN_SEC then A_warn ''settling 24 hours'' else A_idle))))))"

definition decide_alive :: "oc_ord \<Rightarrow> watch_context \<Rightarrow> onchain_action" where
  "decide_alive r c =
     (case oo_state r of
        Oc_funded \<Rightarrow>
          if is_past (presign_deadline_of (oo_funded_at r) (oo_presign_deadline r)) (wc_now c)
          then A_settle Refund_sponsor_timeout else A_idle
      | Oc_presigned \<Rightarrow> decide_presigned r c
      | Oc_remitted \<Rightarrow> decide_remitted r c
      | Oc_disputed \<Rightarrow> escalation r c
      | _ \<Rightarrow> A_idle)"

definition decide_reorged :: "oc_ord \<Rightarrow> reorg_why \<Rightarrow> onchain_action" where
  "decide_reorged r why =
     (if oo_state r = Oc_funded \<or> oo_state r = Oc_presigned then A_reorg why
      else (case why of Why_gone \<Rightarrow> A_anomaly ''funding gone'' | Why_shallow \<Rightarrow> A_hold ''funding shallow''))"

definition decide_onchain_action :: "oc_ord \<Rightarrow> watch_context \<Rightarrow> onchain_action option" where
  "decide_onchain_action r c =
     (if oo_state r = Oc_listed then
        Some (if oo_expiration r > 0 \<and> of_int (wc_now c) \<ge> oo_expiration r then A_cancel else A_idle)
      else if oo_state r = Oc_bonded then decide_bonded r c
      else if oo_state r \<notin> PINNED_STATES then Some A_idle
      else if \<not> opt_given (oo_funding_outpoint r) then Some (A_anomaly ''no funding outpoint'')
      else if oo_state r = Oc_settling then decide_settling r c
      else Some
        (case (case wc_pinned c of Some f \<Rightarrow> f | None \<Rightarrow> PF_unknown ''not asked'') of
           PF_unknown reason \<Rightarrow> A_hold (''chain query failed: '' @ reason)
         | PF_spent txid leaf confirmed \<Rightarrow> A_observe_spend txid leaf confirmed
         | PF_shallow _ _ \<Rightarrow> decide_reorged r Why_shallow
         | PF_gone \<Rightarrow> decide_reorged r Why_gone
         | PF_alive _ \<Rightarrow> decide_alive r c))"

subsection \<open>Properties\<close>

text \<open>The escrow holds exactly the agreed amount in one output, confirmed as often as the amount asks for.\<close>

definition funded_exactly :: "oc_ord \<Rightarrow> watch_context \<Rightarrow> outpoint \<Rightarrow> int \<Rightarrow> bool" where
  "funded_exactly r c out confs \<longleftrightarrow>
     (\<exists>f u n. wc_funds c = Known f \<and> af_confirmed f = [u] \<and> utxo_outpoint u = out \<and> cu_value u = oo_amount r
        \<and> cu_confs u = confs \<and> required_confirmations (oo_amount r) = Some n \<and> n \<le> confs)"

definition pinned_alive :: "oc_ord \<Rightarrow> watch_context \<Rightarrow> bool" where
  "pinned_alive r c \<longleftrightarrow> opt_given (oo_funding_outpoint r) \<and> (\<exists>n. wc_pinned c = Some (PF_alive n))"

definition bond_dead :: "oc_ord \<Rightarrow> watch_context \<Rightarrow> bool" where
  "bond_dead r c \<longleftrightarrow> \<not> opt_given (oo_designated r) \<and> wc_bond_alive c = Some False"

definition bond_covered :: "oc_ord \<Rightarrow> watch_context \<Rightarrow> bool" where
  "bond_covered r c \<longleftrightarrow> opt_given (oo_designated r) \<or> wc_bond_alive c = Some True"

text \<open>What must be known, of the chain and of the clock, before an action is taken.\<close>

fun settle_grounded :: "oc_ord \<Rightarrow> watch_context \<Rightarrow> settlement_kind \<Rightarrow> bool" where
  "settle_grounded r c Refund_sponsor_timeout =
     (oo_state r = Oc_funded \<and> is_past (presign_deadline_of (oo_funded_at r) (oo_presign_deadline r)) (wc_now c)
      \<or> oo_state r = Oc_presigned \<and> wc_account_sent c \<and> \<not> truthy_n (oo_account_disputed_at r)
        \<and> is_past (krw_deadline_of (oo_krw_deadline r) (oo_account_sent_at r)) (wc_now c))"
| "settle_grounded r c Refund_customer_late =
     (oo_state r = Oc_presigned \<and> \<not> wc_account_sent c
      \<and> is_past (account_deadline_of (oo_presigned_at r) (oo_account_deadline r)) (wc_now c))"
| "settle_grounded r c Refund_account_disputed =
     (oo_state r = Oc_presigned \<and> wc_account_sent c \<and> truthy_n (oo_account_disputed_at r)
      \<and> is_past (krw_deadline_of (oo_krw_deadline r) (oo_account_sent_at r)) (wc_now c))"
| "settle_grounded r c _ = False"

fun fold_grounded :: "oc_ord \<Rightarrow> watch_context \<Rightarrow> settlement_kind \<Rightarrow> bool" where
  "fold_grounded r c Refund_bond_expired = bond_dead r c"
| "fold_grounded r c Refund_reserve = (bond_covered r c
     \<and> (\<exists>p m. wc_price c = Some p \<and> 0 < p \<and> oo_reserve r = Some m \<and> of_int (price_krw (oo_amount r) p) < m))"
| "fold_grounded r c _ = False"

fun grounded :: "oc_ord \<Rightarrow> watch_context \<Rightarrow> onchain_action \<Rightarrow> bool" where
  "grounded r c (A_fund out confs price) =
     (oo_state r = Oc_bonded \<and> funded_exactly r c out confs \<and> bond_covered r c
      \<and> (\<exists>p. wc_price c = Some p \<and> 0 < p \<and> price = price_krw (oo_amount r) p)
      \<and> (\<forall>m. oo_reserve r = Some m \<longrightarrow> m \<le> of_int price))"
| "grounded r c (A_fold out confs kind) =
     (oo_state r = Oc_bonded \<and> funded_exactly r c out confs \<and> fold_grounded r c kind)"
| "grounded r c A_cancel =
     (oo_state r = Oc_listed \<and> oo_expiration r \<le> of_int (wc_now c)
      \<or> oo_state r = Oc_bonded \<and> (\<exists>f d. wc_funds c = Known f \<and> af_confirmed f = []
           \<and> oo_funding_deadline r = Some d \<and> d \<le> wc_now c))"
| "grounded r c (A_settle kind) = (pinned_alive r c \<and> settle_grounded r c kind)"
| "grounded r c A_dispute =
     (oo_state r = Oc_remitted \<and> pinned_alive r c
      \<and> is_past (cosign_deadline_of (oo_remitted_at r) (oo_cosign_deadline r)) (wc_now c))"
| "grounded r c A_dispute_soon = (oo_state r = Oc_remitted \<and> pinned_alive r c)"
| "grounded r c (A_reorg why) =
     (oo_state r \<in> {Oc_funded, Oc_presigned}
      \<and> (case why of Why_gone \<Rightarrow> wc_pinned c = Some PF_gone
                   | Why_shallow \<Rightarrow> (\<exists>n k. wc_pinned c = Some (PF_shallow n k))))"
| "grounded r c A_confirmed =
     (oo_state r = Oc_settling \<and> (\<exists>s n. wc_settlement_tx c = Some (Known s) \<and> tx_confirmed s
        \<and> required_confirmations (oo_amount r) = Some n \<and> n \<le> tx_confs s))"
| "grounded r c (A_observe_spend txid leaf confirmed) =
     (oo_state r \<in> PINNED_STATES \<and> wc_pinned c = Some (PF_spent txid leaf confirmed)
      \<and> (oo_state r = Oc_settling \<longrightarrow> oo_settlement_txid r \<noteq> Some txid))"
| "grounded r c A_rebroadcast =
     (oo_state r = Oc_settling \<and> wc_can_rebroadcast c
      \<and> (\<exists>s. wc_settlement_tx c = Some (Known s) \<and> \<not> tx_seen s))"
| "grounded r c _ = True"

lemma fund_grounded:
  assumes "judge_funding (wc_funds c) (oo_amount r) = Some (FV_funded out confs v)"
  shows "funded_exactly r c out confs"
  using assms unfolding judge_funding_def funded_exactly_def
  by (auto split: chain_query.splits option.splits list.splits if_splits)

lemma unfunded_grounded:
  assumes "judge_funding (wc_funds c) (oo_amount r) = Some v" and "v = FV_none \<or> v = FV_pending n"
  shows "\<exists>f. wc_funds c = Known f \<and> af_confirmed f = []"
  using assms unfolding judge_funding_def
  by (auto split: chain_query.splits option.splits list.splits if_splits)

lemma bonded_grounded:
  assumes "decide_bonded r c = Some a" and "oo_state r = Oc_bonded"
  shows "grounded r c a"
proof -
  obtain v where v: "judge_funding (wc_funds c) (oo_amount r) = Some v"
    using assms(1) by (auto simp: decide_bonded_def split: option.splits)
  show ?thesis
  proof (cases v)
    case (FV_funded out confs n)
    have f: "funded_exactly r c out confs" using fund_grounded v FV_funded by blast
    have bond: "opt_given (oo_designated r) \<Longrightarrow> bond_covered r c" "wc_bond_alive c = Some True \<Longrightarrow> bond_covered r c"
      by (simp_all add: bond_covered_def)
    show ?thesis using assms f v FV_funded
      by (auto simp: decide_bonded_def Let_def bond_covered_def bond_dead_def not_less
          split: if_splits option.splits bool.splits)
  qed (use assms v unfunded_grounded [OF v] in \<open>auto simp: decide_bonded_def Let_def split: if_splits option.splits\<close>)
qed

lemma alive_grounded:
  assumes "oo_state r \<in> PINNED_STATES" and "opt_given (oo_funding_outpoint r)" and "wc_pinned c = Some (PF_alive n)"
  shows "grounded r c (decide_alive r c)"
proof -
  have p: "pinned_alive r c" using assms by (simp add: pinned_alive_def)
  show ?thesis
    using p by (auto simp: decide_alive_def decide_presigned_def decide_remitted_def escalation_def Let_def
        is_past_def split: oc_state.splits option.splits)
qed

lemma settling_grounded:
  assumes "decide_settling r c = Some a" and "oo_state r = Oc_settling"
  shows "grounded r c a"
  using assms by (auto simp: decide_settling_def Let_def PINNED_STATES_def
      split: if_splits option.splits pinned_facts.splits chain_query.splits)

lemma decide_grounded:
  assumes "decide_onchain_action r c = Some a"
  shows "grounded r c a"
proof (cases "oo_state r \<in> PINNED_STATES \<and> opt_given (oo_funding_outpoint r) \<and> oo_state r \<noteq> Oc_settling
    \<and> oo_state r \<noteq> Oc_bonded \<and> oo_state r \<noteq> Oc_listed")
  case True
  then show ?thesis using assms alive_grounded [of r c]
    by (auto simp: decide_onchain_action_def decide_reorged_def split: if_splits option.splits pinned_facts.splits)
next
  case False
  then show ?thesis using assms bonded_grounded [of r c a] settling_grounded [of r c a]
    by (auto simp: decide_onchain_action_def split: if_splits)
qed

text \<open>C23. The watcher acts only on what it knows: it prices a trade only for an escrow that holds exactly the agreed
  amount in one output with enough confirmations, a live or waived bond and a fresh price not below the floor; it
  cancels, refunds or disputes only after the deadline of the party at fault and never on a failed query; and a
  settlement counts as final only with enough confirmations.\<close>

theorem decision_grounded:
  assumes "decide_onchain_action r c = Some a"
  shows "grounded r c a
    \<and> (oo_state r = Oc_bonded \<and> wc_funds c = Unknown m \<longrightarrow> a = A_hold (''chain query failed: '' @ m))
    \<and> (oo_state r \<in> PINNED_STATES - {Oc_settling} \<and> opt_given (oo_funding_outpoint r)
         \<and> wc_pinned c = Some (PF_unknown m) \<longrightarrow> a = A_hold (''chain query failed: '' @ m))"
proof (intro conjI)
  show "grounded r c a" by (rule decide_grounded [OF assms])
  show "oo_state r = Oc_bonded \<and> wc_funds c = Unknown m \<longrightarrow> a = A_hold (''chain query failed: '' @ m)"
    using assms by (auto simp: decide_onchain_action_def decide_bonded_def judge_funding_def)
  show "oo_state r \<in> PINNED_STATES - {Oc_settling} \<and> opt_given (oo_funding_outpoint r)
      \<and> wc_pinned c = Some (PF_unknown m) \<longrightarrow> a = A_hold (''chain query failed: '' @ m)"
    using assms by (auto simp: decide_onchain_action_def PINNED_STATES_def)
qed

definition toy_watch :: watch_context where
  "toy_watch = \<lparr>wc_now = 1000, wc_funds = Known \<lparr>af_confirmed = [\<lparr>cu_txid = ''t'', cu_vout = 0, cu_value = 1000000,
     cu_confs = 3\<rparr>], af_mempool = []\<rparr>, wc_pinned = None, wc_settlement_tx = None, wc_price = Some 100000000,
     wc_bond_alive = Some False, wc_account_sent = False, wc_can_rebroadcast = False\<rparr>"

theorem decision_grounded_witness:
  "grounded (toy_oc_order\<lparr>oo_state := Oc_bonded\<rparr>) toy_watch (A_fold \<lparr>op_txid = ''t'', op_vout = 0\<rparr> 3 Refund_bond_expired)"
proof -
  have "decide_onchain_action (toy_oc_order\<lparr>oo_state := Oc_bonded\<rparr>) toy_watch
      = Some (A_fold \<lparr>op_txid = ''t'', op_vout = 0\<rparr> 3 Refund_bond_expired)"
    by (simp add: decide_onchain_action_def decide_bonded_def judge_funding_def required_confirmations_def
        toy_oc_order_def toy_watch_def utxo_outpoint_def opt_given_def)
  from decision_grounded [OF this, THEN conjunct1] show ?thesis .
qed

end
