(* ===== verification/Oc_Store.thy ===== *)
theory Oc_Store
  imports Inbox Oc_Decide
begin

text \<open>
  The tables of the on-chain track (\<open>daemon/src/onchain/store.ts\<close>, \<open>fees.ts\<close>): orders with their private half, the candidates
  that wait for a bond to be paid, and the cached fee estimates.  The tables extend the daemon's database; rows keep values instead of JSON texts.
  \<open>update_oc\<close> is the only way an order changes: it checks the transition, bumps the version and requests the
  publication.  A thrown exception is \<open>None\<close>.
\<close>

subsection \<open>Rows\<close>

record oc_rescue =
  rs_outpoint :: outpoint
  rs_value :: sat
  rs_fee :: sat
  rs_destination :: string
  rs_created :: sec
  rs_raw :: "string option"
  rs_broadcast :: "hex option"

record oc_outbox =
  ob_txid :: hex
  ob_raw :: string
  ob_kind :: settlement_kind

text \<open>\<open>rescues\<close> is an object in the order its keys were added; an absent one is empty.\<close>

record oc_meta =
  om_payout_address :: "string option"
  om_feerate :: "rat option"
  om_presig :: "string option"
  om_refund_address :: "string option"
  om_account_commitment :: "string option"
  om_customer_bond_expires :: "sec option"
  om_sponsor_bond_expires :: "sec option"
  om_outbox :: "oc_outbox option"
  om_last_sign :: "sec option"
  om_strays :: "oc_utxo list option"
  om_rescues :: "(string \<times> oc_rescue) list"

definition empty_meta :: oc_meta where
  "empty_meta = \<lparr>om_payout_address = None, om_feerate = None, om_presig = None, om_refund_address = None,
     om_account_commitment = None, om_customer_bond_expires = None, om_sponsor_bond_expires = None,
     om_outbox = None, om_last_sign = None, om_strays = None, om_rescues = []\<rparr>"

record oc_row =
  ow_order :: oc_ord
  ow_meta :: oc_meta
  ow_version :: nat
  ow_published :: sec

record customer_list_info =
  ci_amount :: sat
  ci_reserve :: "rat option"
  ci_expiration :: rat
  ci_xonly :: hex
  ci_refund :: string

record sponsor_claim_info =
  si_xonly :: hex
  si_payout :: string
  si_feerate :: rat

text \<open>The two kinds of candidate, each with the CLTV of its invoice.\<close>

datatype candidate_info = Cand_customer customer_list_info int | Cand_sponsor sponsor_claim_info int

record oc_candidate =
  cd_hash :: hex
  cd_order :: string
  cd_info :: candidate_info
  cd_party :: string
  cd_created :: sec

record odb = ddb +
  oc_orders :: "oc_row list"
  oc_candidates :: "oc_candidate list"
  oc_fees :: "(sec \<times> fee_estimates) option"

definition ow_id :: "oc_row \<Rightarrow> string" where "ow_id r = oo_id (ow_order r)"

fun is_sponsor_candidate :: "candidate_info \<Rightarrow> bool" where
  "is_sponsor_candidate (Cand_sponsor _ _) = True"
| "is_sponsor_candidate (Cand_customer _ _) = False"

subsection \<open>Orders\<close>

definition get_oc :: "string \<Rightarrow> 'm odb_scheme \<Rightarrow> oc_row option" where
  "get_oc oid w = List.find (\<lambda>r. ow_id r = oid) (oc_orders w)"

definition request_oc_detail :: "string \<Rightarrow> 'm odb_scheme \<Rightarrow> 'm odb_scheme" where
  "request_oc_detail oid w = enq ''oc.detail'' (P_oc_detail oid) (Some (''oc.detail:'' @ oid)) w"

definition request_oc_projection :: "string \<Rightarrow> 'm odb_scheme \<Rightarrow> 'm odb_scheme" where
  "request_oc_projection oid w =
     request_oc_detail oid (enq ''oc.order.publish'' (P_oc_publish oid) (Some (''oc.order:'' @ oid)) w)"

definition insert_oc :: "env \<Rightarrow> oc_ord \<Rightarrow> oc_meta \<Rightarrow> 'm odb_scheme \<Rightarrow> 'm odb_scheme option" where
  "insert_oc e order meta w =
     (if get_oc (oo_id order) w \<noteq> None then None
      else
        (let w1 = request_oc_projection (oo_id order)
               (w\<lparr>oc_orders := oc_orders w @ [\<lparr>ow_order = order, ow_meta = meta, ow_version = 1, ow_published = 0\<rparr>]\<rparr>)
         in if \<not> js_true_s (oo_designated order) then Some (notify_operators e w1)
            else (case designated_quiet_over ''dm:onchain'' w1 of
                    (over, w2) \<Rightarrow> Some (if over then notify_operators e w2 else w2))))"

definition oc_open_designated_count :: "string \<Rightarrow> 'm odb_scheme \<Rightarrow> nat" where
  "oc_open_designated_count customer w =
     length (filter (\<lambda>r. oo_state (ow_order r) = Oc_listed \<and> oo_customer (ow_order r) = customer
       \<and> oo_designated (ow_order r) \<noteq> None) (oc_orders w))"

definition touch :: "sec \<Rightarrow> oc_ord \<Rightarrow> oc_ord \<Rightarrow> oc_ord" where
  "touch now before after = after\<lparr>oo_updated := max now (oo_updated before + 1)\<rparr>"

definition put_oc :: "sec \<Rightarrow> (oc_ord \<Rightarrow> oc_ord) \<Rightarrow> (oc_meta \<Rightarrow> oc_meta) \<Rightarrow> oc_row \<Rightarrow> oc_row" where
  "put_oc now patch metaPatch r =
     r\<lparr>ow_order := touch now (ow_order r) (patch (ow_order r)), ow_meta := metaPatch (ow_meta r),
       ow_version := Suc (ow_version r)\<rparr>"

text \<open>A patch is a record update that leaves the key, the creation time, the designation and the update time alone.\<close>

definition update_oc ::
  "string \<Rightarrow> (oc_ord \<Rightarrow> oc_ord) \<Rightarrow> (oc_meta \<Rightarrow> oc_meta) \<Rightarrow> 'm odb_scheme \<Rightarrow> (oc_ord \<times> 'm odb_scheme) option" where
  "update_oc oid patch metaPatch w =
     (case get_oc oid w of
        None \<Rightarrow> None
      | Some row \<Rightarrow>
          (let order = ow_order row; to = oo_state (patch order) in
           if to \<noteq> oo_state order \<and> \<not> can_onchain_transition (oo_state order) to then None
           else Some (touch (now_sec w) order (patch order),
             request_oc_projection oid
               (w\<lparr>oc_orders := update_where (\<lambda>r. ow_id r = oid) (put_oc (now_sec w) patch metaPatch) (oc_orders w)\<rparr>))))"

definition update_oc_meta :: "string \<Rightarrow> (oc_meta \<Rightarrow> oc_meta) \<Rightarrow> 'm odb_scheme \<Rightarrow> 'm odb_scheme" where
  "update_oc_meta oid metaPatch w =
     (if get_oc oid w = None then w
      else request_oc_detail oid
        (w\<lparr>oc_orders := update_where (\<lambda>r. ow_id r = oid) (\<lambda>r. r\<lparr>ow_meta := metaPatch (ow_meta r)\<rparr>) (oc_orders w)\<rparr>))"

definition designated_oc_ids :: "'m odb_scheme \<Rightarrow> string list" where
  "designated_oc_ids w = map ow_id (filter (\<lambda>r. oo_designated (ow_order r) \<noteq> None) (oc_orders w))"

subsection \<open>Candidates\<close>

definition get_candidate :: "hex \<Rightarrow> 'm odb_scheme \<Rightarrow> oc_candidate option" where
  "get_candidate h w = List.find (\<lambda>c. cd_hash c = h) (oc_candidates w)"

definition put_candidate :: "oc_candidate \<Rightarrow> 'm odb_scheme \<Rightarrow> 'm odb_scheme option" where
  "put_candidate c w =
     (if get_candidate (cd_hash c) w \<noteq> None then None else Some (w\<lparr>oc_candidates := oc_candidates w @ [c]\<rparr>))"

definition candidates_of :: "string \<Rightarrow> 'm odb_scheme \<Rightarrow> oc_candidate list" where
  "candidates_of oid w = sort_key cd_created (filter (\<lambda>c. cd_order c = oid) (oc_candidates w))"

definition delete_candidate :: "hex \<Rightarrow> 'm odb_scheme \<Rightarrow> 'm odb_scheme" where
  "delete_candidate h w = w\<lparr>oc_candidates := filter (\<lambda>c. cd_hash c \<noteq> h) (oc_candidates w)\<rparr>"

text \<open>\<open>createOcDirectory\<close> of \<open>daemon/src/onchain/index.ts\<close>.\<close>

definition oc_directory :: "track \<Rightarrow> string \<Rightarrow> 'm odb_scheme \<Rightarrow> parties option" where
  "oc_directory trk oid w =
     (if trk \<noteq> Track_onchain then None
      else map_option (\<lambda>r. \<lparr>pt_version = ow_version r, pt_customer = oo_customer (ow_order r),
             pt_sponsor = (if js_true_s (oo_sponsor (ow_order r)) then oo_sponsor (ow_order r) else None)\<rparr>)
             (get_oc oid w))"

subsection \<open>Fees\<close>

text \<open>
  \<open>daemon/src/onchain/fees.ts\<close>: the estimates the watcher stored with their time.  The cell \<open>oc.fees\<close> is kept as its
  value instead of JSON text, so the branch for unreadable text has no counterpart.
\<close>

definition FEES_REFRESH_SEC :: sec where "FEES_REFRESH_SEC = 2 * 60"
definition FEES_MAX_AGE_SEC :: sec where "FEES_MAX_AGE_SEC = 10 * 60"

definition save_fees :: "fee_estimates \<Rightarrow> sec \<Rightarrow> 'm odb_scheme \<Rightarrow> 'm odb_scheme" where
  "save_fees fees savedAt w = w\<lparr>oc_fees := Some (savedAt, fees)\<rparr>"

definition current_fees :: "sec \<Rightarrow> 'm odb_scheme \<Rightarrow> fee_estimates option" where
  "current_fees now w =
     (case oc_fees w of
        None \<Rightarrow> None
      | Some (savedAt, fees) \<Rightarrow> if now - savedAt \<le> FEES_MAX_AGE_SEC then Some fees else None)"

end
