(* ===== verification/Oc_Messages.thy ===== *)
theory Oc_Messages
  imports Oc_Store
begin

text \<open>
  What the on-chain track tells people: the messages of the app (\<open>daemon/src/onchain/messages.ts\<close>), the pushes
  (\<open>notify.ts\<close>, the tables of \<open>notify-messages.ts\<close>) and the alerts for operators.  Texts are named, not spelled out; keys
  that suppress repetition are.  The environment of the track extends the daemon's by \<open>oc_env\<close>.
\<close>

text \<open>
  \<open>x_admin_key oid\<close> is \<open>deriveOnchainAdminKey(seed, oid)\<close>, a private key, only handed to the bitcoin library.
\<close>

record oc_env =
  x_lib :: btc_lib
  x_network :: btc_network
  x_admin_key :: "string \<Rightarrow> hex"

subsection \<open>Messages\<close>

definition oc_send ::
  "env \<Rightarrow> string \<Rightarrow> string \<Rightarrow> string \<Rightarrow> string list list \<Rightarrow> string \<Rightarrow> rat option \<Rightarrow> string \<Rightarrow> 'm db_scheme \<Rightarrow> 'm db_scheme" where
  "oc_send e oid recipient action extraTags content expiration dedup w =
     (let createdAt = now_sec w;
          until = (case expiration of Some q \<Rightarrow> q | None \<Rightarrow> of_int (onchain_message_expiration createdAt)) in
      enq ''nostr.publish''
        (P_publish \<lparr>ev_kind = 3838, ev_created_at = createdAt,
           ev_tags = [[''a'', order_ref e oid], [''action'', action], [''t'', e_tag_oc e],
             [''p'', recipient], [''p'', e_app_pubkey e]] @ extraTags
             @ [[''expiration'', num_str (max until (of_int (createdAt + 60)))]],
           ev_content = content\<rparr>)
        (Some dedup) w)"

definition send_oc_deposit_required ::
  "env \<Rightarrow> string \<Rightarrow> string \<Rightarrow> string \<Rightarrow> rat \<Rightarrow> hex \<Rightarrow> 'm db_scheme \<Rightarrow> 'm db_scheme" where
  "send_oc_deposit_required e oid recipient bolt11 payBy hash w =
     oc_send e oid recipient ''deposit-required'' [[''bolt11'', bolt11]] [] (Some payBy)
       (''oc.msg:deposit-required:'' @ hash) w"

definition send_oc_deposit_status ::
  "env \<Rightarrow> string \<Rightarrow> string \<Rightarrow> deposit_status \<Rightarrow> hex \<Rightarrow> 'm db_scheme \<Rightarrow> 'm db_scheme" where
  "send_oc_deposit_status e oid recipient status hash w =
     oc_send e oid recipient (''deposit-'' @ deposit_status_str status) [] [] None
       (''oc.msg:deposit-'' @ deposit_status_str status @ '':'' @ hash) w"

definition send_oc_rejected ::
  "env \<Rightarrow> string \<Rightarrow> string \<Rightarrow> string \<Rightarrow> string \<Rightarrow> 'm db_scheme \<Rightarrow> 'm db_scheme" where
  "send_oc_rejected e oid recipient reason key w =
     oc_send e oid recipient ''onchain-rejected'' [[''reason'', reason]] [] None (''oc.msg:rejected:'' @ key) w"

text \<open>The request for a signature is encrypted; encryption throws for a key that is not on the curve.\<close>

definition send_oc_sign_request ::
  "env \<Rightarrow> string \<Rightarrow> string \<Rightarrow> sign_purpose \<Rightarrow> string \<Rightarrow> 'm db_scheme \<Rightarrow> 'm db_scheme option" where
  "send_oc_sign_request e oid recipient purpose psbtText w =
     map_option (\<lambda>content.
       oc_send e oid recipient ''onchain-cosign'' [[''purpose'', sign_purpose_str purpose]] content None
         (''oc.msg:sign:'' @ oid @ '':'' @ sign_purpose_str purpose @ '':'' @ int_str (now_sec w)) w)
       (e_seal e recipient (J_obj [(''psbt'', J_str psbtText)]))"

subsection \<open>Pushes\<close>

record state_notices =
  sn_customer :: "string option"
  sn_sponsor :: "string option"

definition both_notice :: "string \<Rightarrow> string \<Rightarrow> state_notices option" where
  "both_notice c s = Some \<lparr>sn_customer = Some c, sn_sponsor = Some s\<rparr>"

fun onchain_transition_notices :: "oc_state \<Rightarrow> state_notices option" where
  "onchain_transition_notices Oc_listed = None"
| "onchain_transition_notices Oc_bonded = Some \<lparr>sn_customer = Some ''customerShouldFund'', sn_sponsor = None\<rparr>"
| "onchain_transition_notices Oc_funded = Some \<lparr>sn_customer = None, sn_sponsor = Some ''sponsorShouldPresign''\<rparr>"
| "onchain_transition_notices Oc_presigned = Some \<lparr>sn_customer = Some ''customerShouldSendAccount'', sn_sponsor = None\<rparr>"
| "onchain_transition_notices Oc_remitted = Some \<lparr>sn_customer = Some ''customerShouldConfirm'', sn_sponsor = None\<rparr>"
| "onchain_transition_notices Oc_disputed = both_notice ''disputeOpened'' ''disputeOpened''"
| "onchain_transition_notices Oc_refunding = both_notice ''customerShouldSignRefund'' ''sponsorTradeRefunded''"
| "onchain_transition_notices Oc_settling = None"
| "onchain_transition_notices Oc_released = both_notice ''releasedCustomer'' ''releasedSponsor''"
| "onchain_transition_notices Oc_refunded = both_notice ''refunded'' ''refunded''"
| "onchain_transition_notices Oc_sponsor_wins = both_notice ''disputeLost'' ''disputeWon''"
| "onchain_transition_notices Oc_customer_wins = both_notice ''disputeWon'' ''disputeLost''"
| "onchain_transition_notices Oc_cancelled = both_notice ''cancelled'' ''cancelled''"
| "onchain_transition_notices Oc_swept = None"

definition onchain_designated_notices :: "oc_state \<Rightarrow> state_notices option" where
  "onchain_designated_notices s =
     (if s = Oc_bonded then Some \<lparr>sn_customer = Some ''customerShouldFundDesignated'', sn_sponsor = None\<rparr> else None)"

definition oc_deliver :: "string option \<Rightarrow> string \<Rightarrow> string \<Rightarrow> string \<Rightarrow> 'm db_scheme \<Rightarrow> 'm db_scheme" where
  "oc_deliver pubkey notice oid key w =
     (case pubkey of None \<Rightarrow> w | Some p \<Rightarrow> if p = [] then w else deliver p notice oid key w)"

definition oc_notice_key :: "oc_ord \<Rightarrow> nat \<Rightarrow> string \<Rightarrow> string" where
  "oc_notice_key r version role =
     ''oc:'' @ oo_id r @ '':v'' @ nat_digits version @ '':'' @ oc_state_str (oo_state r) @ '':'' @ role"

definition notices_for :: "oc_ord \<Rightarrow> state_notices option" where
  "notices_for r =
     (case (if js_true_s (oo_designated r) then onchain_designated_notices (oo_state r) else None) of
        Some n \<Rightarrow> Some n
      | None \<Rightarrow> onchain_transition_notices (oo_state r))"

definition give_notice ::
  "(state_notices \<Rightarrow> string option) \<Rightarrow> state_notices option \<Rightarrow> string option \<Rightarrow> string \<Rightarrow> string \<Rightarrow> 'm db_scheme \<Rightarrow> 'm db_scheme" where
  "give_notice role table pubkey oid key w =
     (case Option.bind table role of None \<Rightarrow> w | Some n \<Rightarrow> oc_deliver pubkey n oid key w)"

definition notify_oc_transition :: "env \<Rightarrow> oc_ord \<Rightarrow> nat \<Rightarrow> 'm db_scheme \<Rightarrow> 'm db_scheme" where
  "notify_oc_transition e r version w =
     (let w1 = give_notice sn_customer (notices_for r) (Some (oo_customer r)) (oo_id r) (oc_notice_key r version ''customer'') w;
          w2 = give_notice sn_sponsor (notices_for r) (oo_sponsor r) (oo_id r) (oc_notice_key r version ''sponsor'') w1 in
      if oo_state r = Oc_disputed
      then raise_alert e (''oc:'' @ oo_id r @ '':disputed:''
             @ (case oo_disputed_at r of Some t \<Rightarrow> int_str t | None \<Rightarrow> nat_digits version))
             Warn (Some Track_onchain) (Some (oo_id r)) w2
      else w2)"

definition notify_oc_ruling :: "oc_ord \<Rightarrow> 'm db_scheme \<Rightarrow> 'm db_scheme" where
  "notify_oc_ruling r w =
     (case oo_settlement_kind r of
        None \<Rightarrow> w
      | Some kind \<Rightarrow>
          (let sponsorWins = awaiting_signer_for kind = Sponsor;
               winner = (if sponsorWins then oo_sponsor r else Some (oo_customer r));
               loser = (if sponsorWins then Some (oo_customer r) else oo_sponsor r);
               key = ''oc:'' @ oo_id r @ '':ruling:'' @ settlement_kind_str kind in
           oc_deliver loser ''rulingDecided'' (oo_id r) (key @ '':loser'')
             (oc_deliver winner ''winnerShouldSign'' (oo_id r) (key @ '':winner'') w)))"

definition notify_oc_designated_arrived :: "oc_ord \<Rightarrow> 'm db_scheme \<Rightarrow> 'm db_scheme" where
  "notify_oc_designated_arrived r w =
     (if \<not> js_true_s (oo_designated r) then w
      else (case designated_quiet_over (''push:onchain:'' @ the (oo_designated r)) w of
              (over, w1) \<Rightarrow>
                if over then oc_deliver (oo_designated r) ''designatedArrived'' (oo_id r) (''oc:'' @ oo_id r @ '':designated'') w1
                else w1))"

definition notify_oc_account_arrived :: "oc_ord \<Rightarrow> 'm db_scheme \<Rightarrow> 'm db_scheme" where
  "notify_oc_account_arrived r w =
     oc_deliver (oo_sponsor r) ''sponsorShouldRemit'' (oo_id r)
       (''oc:'' @ oo_id r @ '':account:'' @ int_str (case oo_account_sent_at r of Some t \<Rightarrow> t | None \<Rightarrow> 0)) w"

definition notify_oc_dispute_soon :: "oc_ord \<Rightarrow> 'm db_scheme \<Rightarrow> 'm db_scheme" where
  "notify_oc_dispute_soon r w =
     oc_deliver (Some (oo_customer r)) ''customerDisputeSoon'' (oo_id r)
       (''oc:'' @ oo_id r @ '':dispute-soon:'' @ int_str (case oo_remitted_at r of Some t \<Rightarrow> t | None \<Rightarrow> 0)) w"

subsection \<open>Alerts\<close>

text \<open>\<open>anomaly\<close> of \<open>flow.ts\<close>; the key holds the message, here its ASCII stand-in without an exception's text.\<close>

definition oc_anomaly :: "env \<Rightarrow> string \<Rightarrow> string \<Rightarrow> 'm db_scheme \<Rightarrow> 'm db_scheme" where
  "oc_anomaly e oid message w =
     raise_alert e (''oc:'' @ oid @ '':anomaly:'' @ message) Anomaly (Some Track_onchain) (Some oid) w"

subsection \<open>Quiet steps\<close>

lemma quiet_oc_send [simp]: "quiet w (oc_send e oid rc ac ex ct t d w)"
  by (simp add: oc_send_def Let_def)

lemma quiet_oc_messages [simp]:
  "quiet w (send_oc_deposit_required e oid rc b pb h w)" "quiet w (send_oc_deposit_status e oid rc st h w)"
  "quiet w (send_oc_rejected e oid rc reason k w)" "quiet w (oc_anomaly e oid msg w)"
  by (simp_all add: send_oc_deposit_required_def send_oc_deposit_status_def send_oc_rejected_def oc_anomaly_def)

lemma quiet_sign_request: "send_oc_sign_request e oid rc pu t w = Some w' \<Longrightarrow> quiet w w'"
  by (auto simp: send_oc_sign_request_def)

lemma quiet_oc_deliver [simp]: "quiet w (oc_deliver pk n oid key w)"
  by (simp add: oc_deliver_def split: option.split)

lemma quiet_give_notice [simp]: "quiet w (give_notice role ns pk oid key w)"
  by (simp add: give_notice_def split: option.split)

lemma quiet_notify_oc_transition [simp]: "quiet w (notify_oc_transition e r v w)"
  unfolding notify_oc_transition_def Let_def
  by (simp add: quiet_trans [OF quiet_give_notice quiet_give_notice]
      quiet_trans [OF quiet_trans [OF quiet_give_notice quiet_give_notice] quiet_raise_alert])

lemma quiet_notify_oc_ruling [simp]: "quiet w (notify_oc_ruling r w)"
  by (simp add: notify_oc_ruling_def Let_def quiet_trans [OF quiet_oc_deliver quiet_oc_deliver] split: option.split)

lemma quiet_notify_oc_more [simp]:
  "quiet w (notify_oc_designated_arrived r w)" "quiet w (notify_oc_account_arrived r w)"
  "quiet w (notify_oc_dispute_soon r w)"
  by (auto simp: notify_oc_designated_arrived_def notify_oc_account_arrived_def notify_oc_dispute_soon_def
      split: prod.split intro: quiet_over quiet_trans [OF quiet_over quiet_oc_deliver])

lemma quiet_oc_requests [simp]: "quiet w (request_oc_detail oid w)" "quiet w (request_oc_projection oid w)"
  by (simp_all add: request_oc_detail_def request_oc_projection_def quiet_trans [OF quiet_enq quiet_enq])

end
