(* ===== verification/Oc_Escrow.thy ===== *)
theory Oc_Escrow
  imports Oc_Messages
begin

text \<open>
  The escrow of an order from the daemon's own records (\<open>daemon/src/onchain/escrow.ts\<close>): the descriptor of its address,
  the fee of the release, and what the settlement transaction of a kind is made of.  A result of type
  \<open>'a option option\<close> distinguishes a thrown exception (\<open>None\<close>) from \<open>null\<close> (\<open>Some None\<close>).
\<close>

definition admin_xonly_of :: "oc_env \<Rightarrow> string \<Rightarrow> hex" where
  "admin_xonly_of x oid = bl_xonly (x_lib x) (x_admin_key x oid)"

definition escrow_descriptor_for :: "oc_env \<Rightarrow> oc_ord \<Rightarrow> escrow_descriptor option" where
  "escrow_descriptor_for x r =
     (case (given_s (oo_customer_xonly r), given_s (oo_sponsor_xonly r), given_s (oo_admin_xonly r)) of
        (Some c, Some s, Some a) \<Rightarrow>
          derive_escrow_address (x_lib x) \<lparr>ek_customer = c, ek_sponsor = s, ek_admin = a\<rparr> (oo_network r) (oo_timelock r)
      | _ \<Rightarrow> None)"

definition truthy_rat :: "rat option \<Rightarrow> rat option" where
  "truthy_rat v = (case v of Some q \<Rightarrow> if q = 0 then None else Some q | None \<Rightarrow> None)"

definition release_fee_for :: "oc_env \<Rightarrow> oc_ord \<Rightarrow> oc_meta \<Rightarrow> sat option" where
  "release_fee_for x r m =
     do {
       d \<leftarrow> escrow_descriptor_for x r;
       payout \<leftarrow> given_s (om_payout_address m);
       feerate \<leftarrow> truthy_rat (om_feerate m);
       settlement_fee_sat (x_lib x) Path_release d payout feerate
     }"

definition refund_destination_for :: "oc_env \<Rightarrow> oc_ord \<Rightarrow> oc_meta \<Rightarrow> string option option" where
  "refund_destination_for x r m =
     (case given_s (om_refund_address m) of
        Some a \<Rightarrow> Some (Some a)
      | None \<Rightarrow>
          (case given_s (oo_customer_xonly r) of
             None \<Rightarrow> Some None
           | Some k \<Rightarrow> map_option Some (derive_single_key_address (x_lib x) k (oo_network r))))"

definition settlement_destination :: "oc_env \<Rightarrow> oc_ord \<Rightarrow> oc_meta \<Rightarrow> settlement_kind \<Rightarrow> string option option" where
  "settlement_destination x r m kind =
     (if kind = Release \<or> kind = Sponsor_win then Some (om_payout_address m) else refund_destination_for x r m)"

text \<open>\<open>feeSat\<close> is the optional last argument of \<open>settlementParamsFor\<close>; the order's own fee is its default.\<close>

definition settlement_params_for ::
  "oc_env \<Rightarrow> oc_ord \<Rightarrow> oc_meta \<Rightarrow> settlement_kind \<Rightarrow> sat option \<Rightarrow> settlement_params option option" where
  "settlement_params_for x r m kind feeSat =
     (case (escrow_descriptor_for x r, parse_outpoint (oo_funding_outpoint r)) of
        (Some d, Some out) \<Rightarrow>
          map_option (\<lambda>destination.
            (case (given_s destination,
                   if kind = Release then oo_release_fee r else coalesce feeSat (oo_settlement_fee r)) of
               (Some dest, Some fee) \<Rightarrow>
                 Some \<lparr>sp_descriptor = d, sp_outpoint = out, sp_value = oo_amount r,
                       sp_path = settlement_path_for_kind kind, sp_destination = dest, sp_fee = fee\<rparr>
             | _ \<Rightarrow> None))
            (settlement_destination x r m kind)
      | _ \<Rightarrow> Some None)"

lemma given_s_Some: "given_s v = Some y \<Longrightarrow> v = Some y"
  by (simp add: given_s_def split: if_splits)

text \<open>What the parameters say: the order's escrow, its pinned output, the whole amount, the recipient of the kind.\<close>

lemma settlement_params_sel:
  assumes "settlement_params_for x r m kind fee = Some (Some p)"
  shows "escrow_descriptor_for x r = Some (sp_descriptor p)"
    and "parse_outpoint (oo_funding_outpoint r) = Some (sp_outpoint p)"
    and "sp_value p = oo_amount r" and "sp_path p = settlement_path_for_kind kind"
    and "settlement_destination x r m kind = Some (Some (sp_destination p))"
    and "kind = Release \<Longrightarrow> oo_release_fee r = Some (sp_fee p)"
    and "kind \<noteq> Release \<Longrightarrow> coalesce fee (oo_settlement_fee r) = Some (sp_fee p)"
proof -
  obtain d out where 1: "escrow_descriptor_for x r = Some d" "parse_outpoint (oo_funding_outpoint r) = Some out"
    using assms by (auto simp: settlement_params_for_def split: option.split_asm)
  then obtain v where 2: "settlement_destination x r m kind = Some v"
    using assms by (auto simp: settlement_params_for_def)
  let ?fee = "if kind = Release then oo_release_fee r else coalesce fee (oo_settlement_fee r)"
  obtain dest n where 3: "given_s v = Some dest" "?fee = Some n"
    using assms 1 2 by (cases "given_s v"; cases ?fee) (simp_all add: settlement_params_for_def)
  with assms 1 2 have p: "p = \<lparr>sp_descriptor = d, sp_outpoint = out, sp_value = oo_amount r,
      sp_path = settlement_path_for_kind kind, sp_destination = dest, sp_fee = n\<rparr>"
    by (simp add: settlement_params_for_def)
  show "escrow_descriptor_for x r = Some (sp_descriptor p)"
    "parse_outpoint (oo_funding_outpoint r) = Some (sp_outpoint p)" "sp_value p = oo_amount r"
    "sp_path p = settlement_path_for_kind kind" "settlement_destination x r m kind = Some (Some (sp_destination p))"
    "kind = Release \<Longrightarrow> oo_release_fee r = Some (sp_fee p)"
    "kind \<noteq> Release \<Longrightarrow> coalesce fee (oo_settlement_fee r) = Some (sp_fee p)"
    using 1 2 3 given_s_Some [OF 3(1)] by (simp_all add: p)
qed

text \<open>They depend on the escrow's records alone.\<close>

lemma settlement_params_cong:
  assumes "oo_customer_xonly r' = oo_customer_xonly r" "oo_sponsor_xonly r' = oo_sponsor_xonly r"
    "oo_admin_xonly r' = oo_admin_xonly r" "oo_network r' = oo_network r" "oo_timelock r' = oo_timelock r"
    "oo_funding_outpoint r' = oo_funding_outpoint r" "oo_amount r' = oo_amount r"
    "oo_release_fee r' = oo_release_fee r" "oo_settlement_fee r' = oo_settlement_fee r"
    "om_payout_address m' = om_payout_address m" "om_refund_address m' = om_refund_address m"
  shows "settlement_params_for x r' m' k f = settlement_params_for x r m k f"
  unfolding settlement_params_for_def escrow_descriptor_for_def settlement_destination_def refund_destination_for_def
    assms by (rule refl)

end
