(* ===== verification/Oc_Bonds.thy ===== *)
theory Oc_Bonds
  imports Oc_Escrow
begin

text \<open>
  The bonds of the on-chain track (\<open>daemon/src/onchain/bonds.ts\<close>): carrying out the outcome table, the hooks of the hold
  invoices that carry the bonds, and the two moments a bond decides, the listing and the claim.
\<close>

definition OC_BOND_PURPOSES :: "hold_purpose list" where
  "OC_BOND_PURPOSES = [Oc_customer_bond, Oc_sponsor_bond]"

definition OC_BLOCK_SEC :: sec where "OC_BLOCK_SEC = 600"

fun oc_outcome_str :: "onchain_outcome \<Rightarrow> string" where
  "oc_outcome_str (Settled k) = settlement_kind_str k"
| "oc_outcome_str (No_tx n) = non_tx_outcome_str n"

subsection \<open>Carrying out an outcome\<close>

definition apply_bond :: "hex option \<Rightarrow> bond_disposition \<Rightarrow> 'm db_scheme \<Rightarrow> 'm db_scheme" where
  "apply_bond hash disposition w =
     (case given_s hash of
        None \<Rightarrow> w
      | Some h \<Rightarrow>
          if disposition = B_none \<or> disposition = B_expired \<or> disposition = B_hold then w
          else if map_option h_status (hold_get h w) \<noteq> Some H_accepted then w
          else hold_dispose h (if disposition = B_forfeit then Want_settle else Want_cancel) w)"

definition apply_outcome :: "env \<Rightarrow> oc_ord \<Rightarrow> onchain_outcome \<Rightarrow> 'm db_scheme \<Rightarrow> 'm db_scheme" where
  "apply_outcome e r outcome w =
     (let rule = outcome_rules outcome;
          w1 = apply_bond (oo_customer_deposit_hash r) (or_customer_bond rule) w;
          w2 = apply_bond (oo_sponsor_deposit_hash r) (or_sponsor_bond rule) w1;
          forfeits = (or_customer_bond rule = B_forfeit \<and> oo_customer_deposit_hash r \<noteq> None
                      \<or> or_sponsor_bond rule = B_forfeit \<and> oo_sponsor_deposit_hash r \<noteq> None) in
      if forfeit_use outcome \<noteq> None \<and> forfeits
      then raise_alert e (''oc:'' @ oo_id r @ '':forfeit:'' @ oc_outcome_str outcome) Warn (Some Track_onchain) (Some (oo_id r)) w2
      else w2)"

definition drop_sponsor_candidates :: "string \<Rightarrow> hex option \<Rightarrow> 'm odb_scheme \<Rightarrow> 'm odb_scheme" where
  "drop_sponsor_candidates oid except w =
     fold (\<lambda>c v. if \<not> is_sponsor_candidate (cd_info c) \<or> Some (cd_hash c) = except then v
                 else delete_candidate (cd_hash c) (hold_dispose (cd_hash c) Want_cancel v))
       (candidates_of oid w) w"

subsection \<open>The listing and the claim\<close>

text \<open>A held bond: its payment hash and CLTV.\<close>

type_synonym bond = "hex \<times> int"

definition new_oc_order ::
  "oc_env \<Rightarrow> string \<Rightarrow> string \<Rightarrow> customer_list_info \<Rightarrow> bond option \<Rightarrow> string option \<Rightarrow> sec \<Rightarrow> oc_ord" where
  "new_oc_order x oid customer info bond designated now =
     \<lparr>oo_id = oid, oo_state = Oc_listed, oo_customer = customer, oo_sponsor = None,
      oo_designated = given_s designated, oo_amount = ci_amount info, oo_reserve = ci_reserve info,
      oo_created = now, oo_updated = now, oo_expiration = ci_expiration info, oo_network = x_network x,
      oo_customer_xonly = Some (ci_xonly info), oo_sponsor_xonly = None, oo_admin_xonly = None,
      oo_escrow_address = None, oo_timelock = None, oo_funding_deadline = None, oo_funding_outpoint = None,
      oo_funding_confs = None, oo_funded_at = None, oo_presign_deadline = None, oo_account_deadline = None,
      oo_cosign_deadline = None, oo_price = None, oo_payout = None, oo_release_fee = None, oo_presigned_at = None,
      oo_account_sent_at = None, oo_krw_deadline = None, oo_remitted_at = None, oo_account_disputed_at = None,
      oo_disputed_at = None, oo_settlement_kind = None, oo_settlement_fee = None, oo_decided_at = None,
      oo_settlement_txid = None, oo_settling_at = None, oo_customer_deposit_hash = map_option fst bond,
      oo_sponsor_deposit_hash = None\<rparr>"

text \<open>Deleting the candidate and confirming the deposit, once a bond is accepted.\<close>

definition bond_taken :: "env \<Rightarrow> string \<Rightarrow> string \<Rightarrow> bond option \<Rightarrow> 'm odb_scheme \<Rightarrow> 'm odb_scheme" where
  "bond_taken e oid party bond w =
     (case bond of
        None \<Rightarrow> w
      | Some (h, _) \<Rightarrow> send_oc_deposit_status e oid party Dep_accepted h (delete_candidate h w))"

definition bond_expiry :: "bond option \<Rightarrow> 'm db_scheme \<Rightarrow> sec option" where
  "bond_expiry bond w = map_option (\<lambda>b. now_sec w + snd b * OC_BLOCK_SEC) bond"

definition list_oc ::
  "oc_env \<Rightarrow> env \<Rightarrow> string \<Rightarrow> string \<Rightarrow> customer_list_info \<Rightarrow> bond option \<Rightarrow> string option
   \<Rightarrow> 'm odb_scheme \<Rightarrow> 'm odb_scheme option" where
  "list_oc x e oid customer info bond designated w =
     map_option (bond_taken e oid customer bond)
       (insert_oc e (new_oc_order x oid customer info bond designated (now_sec w))
         (empty_meta\<lparr>om_refund_address := Some (ci_refund info), om_customer_bond_expires := bond_expiry bond w\<rparr>) w)"

text \<open>The escrow of the order once the sponsor's and the operator's keys are known.\<close>

definition claimed_escrow :: "oc_env \<Rightarrow> oc_ord \<Rightarrow> hex \<Rightarrow> escrow_descriptor option" where
  "claimed_escrow x r sponsorXonly =
     escrow_descriptor_for x (r\<lparr>oo_sponsor_xonly := Some sponsorXonly,
       oo_admin_xonly := Some (admin_xonly_of x (oo_id r))\<rparr>)"

text \<open>The patches of the order and of its private half.\<close>

definition bonded_with ::
  "oc_env \<Rightarrow> string \<Rightarrow> sponsor_claim_info \<Rightarrow> escrow_descriptor \<Rightarrow> sec \<Rightarrow> bond option \<Rightarrow> oc_ord \<Rightarrow> oc_ord" where
  "bonded_with x sponsor info d now bond r =
     r\<lparr>oo_state := Oc_bonded, oo_sponsor := Some sponsor, oo_sponsor_xonly := Some (si_xonly info),
       oo_admin_xonly := Some (admin_xonly_of x (oo_id r)), oo_escrow_address := Some (ed_address d),
       oo_timelock := Some (ed_timelock d), oo_funding_deadline := Some (funding_deadline_from now),
       oo_sponsor_deposit_hash := (case bond of Some (h, _) \<Rightarrow> Some h | None \<Rightarrow> oo_sponsor_deposit_hash r)\<rparr>"

definition claim_meta :: "sponsor_claim_info \<Rightarrow> sec option \<Rightarrow> oc_meta \<Rightarrow> oc_meta" where
  "claim_meta info expires m =
     m\<lparr>om_payout_address := Some (si_payout info), om_feerate := Some (si_feerate info),
       om_sponsor_bond_expires := (case expires of Some t \<Rightarrow> Some t | None \<Rightarrow> om_sponsor_bond_expires m)\<rparr>"

definition bond_oc ::
  "oc_env \<Rightarrow> env \<Rightarrow> oc_row \<Rightarrow> string \<Rightarrow> sponsor_claim_info \<Rightarrow> bond option
   \<Rightarrow> 'm odb_scheme \<Rightarrow> (oc_ord option \<times> 'm odb_scheme) option" where
  "bond_oc x e row sponsor info bond w =
     (let oid = oo_id (ow_order row) in
      case claimed_escrow x (ow_order row) (si_xonly info) of
        None \<Rightarrow> Some (None, w)
      | Some d \<Rightarrow> do {
          (bonded, w1) \<leftarrow> update_oc oid (bonded_with x sponsor info d (now_sec w) bond)
            (claim_meta info (bond_expiry bond w)) w;
          let w2 = bond_taken e oid sponsor bond w1;
          now_row \<leftarrow> get_oc oid w2;
          Some (Some bonded,
            drop_sponsor_candidates oid None (notify_oc_transition e bonded (ow_version now_row) w2))
        })"

subsection \<open>The hooks of the bonds\<close>

definition oc_created :: "env \<Rightarrow> hold_row \<Rightarrow> 'm odb_scheme \<Rightarrow> 'm odb_scheme option" where
  "oc_created e iv w =
     (let order = map_option ow_order (get_oc (h_order iv) w);
          stillWanted = (case get_candidate (h_hash iv) w of
             None \<Rightarrow> False
           | Some c \<Rightarrow> if is_sponsor_candidate (cd_info c) then map_option oo_state order = Some Oc_listed else order = None) in
      Some (if \<not> stillWanted then delete_candidate (h_hash iv) (hold_dispose (h_hash iv) Want_cancel w)
            else send_oc_deposit_required e (h_order iv) (h_party iv) (h_bolt11 iv) (h_pay_by iv) (h_hash iv) w))"

definition oc_create_failed :: "env \<Rightarrow> hold_row \<Rightarrow> 'm odb_scheme \<Rightarrow> 'm odb_scheme option" where
  "oc_create_failed e iv w =
     Some (send_oc_rejected e (h_order iv) (h_party iv) ''bond invoice failed'' (''hold:'' @ h_hash iv)
       (delete_candidate (h_hash iv) w))"

definition on_customer_bond ::
  "oc_env \<Rightarrow> env \<Rightarrow> hold_row \<Rightarrow> customer_list_info \<Rightarrow> int \<Rightarrow> 'm odb_scheme \<Rightarrow> 'm odb_scheme option" where
  "on_customer_bond x e iv info cltv w =
     (if get_oc (h_order iv) w \<noteq> None then Some (hold_dispose (h_hash iv) Want_cancel w)
      else list_oc x e (h_order iv) (h_party iv) info (Some (h_hash iv, cltv)) None w)"

definition on_sponsor_bond ::
  "oc_env \<Rightarrow> env \<Rightarrow> hold_row \<Rightarrow> sponsor_claim_info \<Rightarrow> int \<Rightarrow> 'm odb_scheme \<Rightarrow> 'm odb_scheme option" where
  "on_sponsor_bond x e iv info cltv w =
     (case get_oc (h_order iv) w of
        None \<Rightarrow> Some (hold_dispose (h_hash iv) Want_cancel w)
      | Some row \<Rightarrow>
          if oo_state (ow_order row) \<noteq> Oc_listed then Some (hold_dispose (h_hash iv) Want_cancel w)
          else map_option (\<lambda>(bonded, w1). if bonded = None then hold_dispose (h_hash iv) Want_cancel w1 else w1)
                 (bond_oc x e row (h_party iv) info (Some (h_hash iv, cltv)) w))"

definition oc_accepted :: "oc_env \<Rightarrow> env \<Rightarrow> hold_row \<Rightarrow> 'm odb_scheme \<Rightarrow> 'm odb_scheme option" where
  "oc_accepted x e iv w =
     (case get_candidate (h_hash iv) w of
        None \<Rightarrow>
          (let order = map_option ow_order (get_oc (h_order iv) w) in
           Some (if Option.bind order oo_customer_deposit_hash \<noteq> Some (h_hash iv)
                    \<and> Option.bind order oo_sponsor_deposit_hash \<noteq> Some (h_hash iv)
                 then hold_dispose (h_hash iv) Want_cancel w else w))
      | Some c \<Rightarrow>
          (case cd_info c of
             Cand_customer info cltv \<Rightarrow> on_customer_bond x e iv info cltv w
           | Cand_sponsor info cltv \<Rightarrow> on_sponsor_bond x e iv info cltv w))"

definition oc_status_if_paid ::
  "env \<Rightarrow> hold_row \<Rightarrow> deposit_status \<Rightarrow> 'm odb_scheme \<Rightarrow> 'm odb_scheme" where
  "oc_status_if_paid e before st w =
     (let w1 = delete_candidate (h_hash before) w in
      if h_status before = H_open \<or> h_status before = H_accepted
      then send_oc_deposit_status e (h_order before) (h_party before) st (h_hash before) w1 else w1)"

definition oc_node_cancelled :: "env \<Rightarrow> hold_row \<Rightarrow> 'm odb_scheme \<Rightarrow> 'm odb_scheme option" where
  "oc_node_cancelled e before w = Some (oc_status_if_paid e before Dep_cancelled w)"

definition oc_disposed :: "env \<Rightarrow> hold_row \<Rightarrow> hold_final \<Rightarrow> via \<Rightarrow> 'm odb_scheme \<Rightarrow> 'm odb_scheme option" where
  "oc_disposed e before final v w =
     (let w1 = oc_status_if_paid e before (final_deposit_status final) w in
      Some (if v = Via_settle \<and> final = F_cancelled \<and> h_status before = H_accepted
            then raise_alert e (''oc:'' @ h_order before @ '':forfeit-missed:'' @ h_hash before) Anomaly
                   (Some Track_onchain) (Some (h_order before)) w1
            else w1))"

definition oc_changed :: "string \<Rightarrow> 'm odb_scheme \<Rightarrow> 'm odb_scheme" where
  "oc_changed oid w = (if get_oc oid w \<noteq> None then request_oc_detail oid w else w)"

definition oc_hooks :: "oc_env \<Rightarrow> env \<Rightarrow> 'm odb_ext ddb_ext hold_hooks" where
  "oc_hooks x e = \<lparr>hk_created = oc_created e, hk_create_failed = oc_create_failed e, hk_accepted = oc_accepted x e,
     hk_node_cancelled = oc_node_cancelled e, hk_disposed = oc_disposed e, hk_changed = oc_changed,
     hk_busy = (\<lambda>_ _. False)\<rparr>"

text \<open>\<open>Holds.register\<close>: each purpose has the hooks of its track.\<close>

definition all_hooks :: "oc_env \<Rightarrow> env \<Rightarrow> hold_purpose \<Rightarrow> 'm odb_ext ddb_ext hold_hooks" where
  "all_hooks x e p = (if p \<in> set OC_BOND_PURPOSES then oc_hooks x e else ln_hooks e)"

end
