(* ===== verification/Oc_Flow.thy ===== *)
theory Oc_Flow
  imports Oc_Bonds
begin

text \<open>
  Decisions and settlements of the on-chain track (\<open>daemon/src/onchain/flow.ts\<close>): writing the settlement transaction into
  the books before it is broadcast, deciding a refund or a ruling, asking for signatures, judging an account dispute,
  returning stray money.
\<close>

subsection \<open>From the books to the broadcast\<close>

definition request_broadcast :: "string \<Rightarrow> hex \<Rightarrow> string option \<Rightarrow> 'm db_scheme \<Rightarrow> 'm db_scheme" where
  "request_broadcast oid txid rescueKey w =
     enq ''oc.broadcast'' (P_oc_broadcast oid txid rescueKey) (Some (''oc.broadcast:'' @ txid)) w"

definition enter_settling ::
  "env \<Rightarrow> string \<Rightarrow> settlement_kind \<Rightarrow> hex \<Rightarrow> string \<Rightarrow> 'm odb_scheme \<Rightarrow> 'm odb_scheme option" where
  "enter_settling e oid kind txid rawHex w =
     do {
       (settling, w1) \<leftarrow> update_oc oid
         (\<lambda>r. r\<lparr>oo_state := Oc_settling, oo_settlement_kind := Some kind, oo_settlement_txid := Some txid,
                oo_settling_at := Some (now_sec w)\<rparr>)
         (\<lambda>m. m\<lparr>om_outbox := Some \<lparr>ob_txid = txid, ob_raw = rawHex, ob_kind = kind\<rparr>\<rparr>) w;
       Some (request_broadcast oid txid None
         (if kind = Release then apply_outcome e settling (Settled kind) w1 else w1))
     }"

definition resend_release :: "env \<Rightarrow> oc_row \<Rightarrow> 'm odb_scheme \<Rightarrow> (bool \<times> 'm odb_scheme) option" where
  "resend_release e row w =
     (case given_s (om_presig (ow_meta row)) of
        None \<Rightarrow> Some (False, w)
      | Some p \<Rightarrow> map_option (Pair True)
          (send_oc_sign_request e (oo_id (ow_order row)) (oo_customer (ow_order row)) SP_release p w))"

subsection \<open>Deciding a settlement\<close>

datatype decide_error = De_bad_state | De_no_fees | De_no_material | De_cannot_build

fun decide_error_str :: "decide_error \<Rightarrow> string" where
  "decide_error_str De_bad_state = ''bad-state''"
| "decide_error_str De_no_fees = ''no-fees''"
| "decide_error_str De_no_material = ''no-material''"
| "decide_error_str De_cannot_build = ''cannot-build''"

definition is_ruling :: "settlement_kind \<Rightarrow> bool" where
  "is_ruling kind \<longleftrightarrow> kind = Sponsor_win \<or> kind = Customer_win"

text \<open>\<open>fold\<close> in the source: the funding to pin when an order is refunded before its price was fixed.\<close>

definition decide_allowed :: "oc_ord \<Rightarrow> settlement_kind \<Rightarrow> bool \<Rightarrow> bool" where
  "decide_allowed r kind early \<longleftrightarrow>
     (if is_ruling kind then oo_state r = Oc_disputed \<and> oo_settlement_kind r = None
      else if is_refund_kind (Some kind) then
        (if early then oo_state r = Oc_bonded else oo_state r = Oc_funded \<or> oo_state r = Oc_presigned)
        \<and> oo_settlement_kind r = None
      else False)"

definition ruling_feerate :: "settlement_kind \<Rightarrow> oc_meta \<Rightarrow> fee_estimates \<Rightarrow> rat" where
  "ruling_feerate kind m fees =
     (if kind = Sponsor_win then max (case om_feerate m of Some f \<Rightarrow> f | None \<Rightarrow> 0) (fe_half_hour fees)
      else fe_half_hour fees)"

text \<open>The fee, once the transaction with it could be built (dust and the like); \<open>None\<close> when something throws.\<close>

definition settlement_fee_checked :: "oc_env \<Rightarrow> settlement_params \<Rightarrow> rat \<Rightarrow> sat option" where
  "settlement_fee_checked x p feerate =
     do {
       feeSat \<leftarrow> settlement_fee_sat (x_lib x) (sp_path p) (sp_descriptor p) (sp_destination p) feerate;
       _ \<leftarrow> build_settlement_tx (x_lib x) (p\<lparr>sp_fee := feeSat\<rparr>);
       Some feeSat
     }"

definition request_settlement_signature ::
  "oc_env \<Rightarrow> env \<Rightarrow> string \<Rightarrow> 'm odb_scheme \<Rightarrow> (bool \<times> 'm odb_scheme) option" where
  "request_settlement_signature x e oid w =
     (case get_oc oid w of
        None \<Rightarrow> Some (False, w)
      | Some row \<Rightarrow>
          (case oo_settlement_kind (ow_order row) of
             None \<Rightarrow> Some (False, w)
           | Some kind \<Rightarrow>
               if kind = Release then Some (False, w)
               else do {
                 params \<leftarrow> settlement_params_for x (ow_order row) (ow_meta row) kind None;
                 let recipient = given_s (if awaiting_signer_for kind = Sponsor then oo_sponsor (ow_order row)
                                          else Some (oo_customer (ow_order row)));
                 (case (params, recipient) of
                    (Some p, Some to) \<Rightarrow> do {
                      tx \<leftarrow> build_settlement_tx (x_lib x) p;
                      w1 \<leftarrow> send_oc_sign_request e oid to (sign_purpose_for kind) (bl_psbt (x_lib x) tx) w;
                      Some (True, update_oc_meta oid (\<lambda>m. m\<lparr>om_last_sign := Some (now_sec w)\<rparr>) w1)
                    }
                  | _ \<Rightarrow> Some (False, oc_anomaly e oid ''no material for a signature'' w))
               }))"

definition pin_funding :: "(outpoint \<times> int) option \<Rightarrow> oc_ord \<Rightarrow> oc_ord" where
  "pin_funding pin r =
     (case pin of None \<Rightarrow> r
      | Some (out, confs) \<Rightarrow> r\<lparr>oo_funding_outpoint := Some (format_outpoint (op_txid out) (op_vout out))\<rparr>)"

definition decided ::
  "settlement_kind \<Rightarrow> sat \<Rightarrow> (outpoint \<times> int) option \<Rightarrow> sec \<Rightarrow> oc_ord \<Rightarrow> oc_ord" where
  "decided kind feeSat pin now r =
     (let r1 = r\<lparr>oo_settlement_kind := Some kind, oo_settlement_fee := Some feeSat, oo_decided_at := Some now\<rparr>;
          r2 = (if is_ruling kind then r1 else r1\<lparr>oo_state := Oc_refunding\<rparr>) in
      case pin of None \<Rightarrow> r2
      | Some (out, confs) \<Rightarrow> (pin_funding pin r2)\<lparr>oo_funding_confs := Some confs\<rparr>)"

definition record_decision ::
  "oc_env \<Rightarrow> env \<Rightarrow> string \<Rightarrow> settlement_kind \<Rightarrow> sat \<Rightarrow> (outpoint \<times> int) option
   \<Rightarrow> 'm odb_scheme \<Rightarrow> 'm odb_scheme option" where
  "record_decision x e oid kind feeSat pin w =
     do {
       (updated, w1) \<leftarrow> update_oc oid (decided kind feeSat pin (now_sec w)) id w;
       let w2 = apply_outcome e updated (Settled kind) w1;
       w3 \<leftarrow> (if is_ruling kind then Some (notify_oc_ruling updated w2)
               else map_option (\<lambda>row. notify_oc_transition e updated (ow_version row) w2) (get_oc oid w2));
       (_, w4) \<leftarrow> request_settlement_signature x e oid w3;
       Some w4
     }"

definition decide_settlement ::
  "oc_env \<Rightarrow> env \<Rightarrow> string \<Rightarrow> settlement_kind \<Rightarrow> (outpoint \<times> int) option
   \<Rightarrow> 'm odb_scheme \<Rightarrow> (decide_error option \<times> 'm odb_scheme) option" where
  "decide_settlement x e oid kind pin w =
     (case get_oc oid w of
        None \<Rightarrow> Some (Some De_bad_state, w)
      | Some row \<Rightarrow>
          if \<not> decide_allowed (ow_order row) kind (pin \<noteq> None) then Some (Some De_bad_state, w)
          else (case current_fees (now_sec w) w of
             None \<Rightarrow> Some (Some De_no_fees, w)
           | Some fees \<Rightarrow> do {
               shape \<leftarrow> settlement_params_for x (pin_funding pin (ow_order row)) (ow_meta row) kind (Some 0);
               (case shape of
                  None \<Rightarrow> Some (Some De_no_material,
                      oc_anomaly e oid (''no settlement material ('' @ settlement_kind_str kind @ '')'') w)
                | Some p \<Rightarrow>
                    (case settlement_fee_checked x p (ruling_feerate kind (ow_meta row) fees) of
                       None \<Rightarrow> Some (Some De_cannot_build,
                           oc_anomaly e oid (''cannot build settlement ('' @ settlement_kind_str kind @ '')'') w)
                     | Some feeSat \<Rightarrow> map_option (Pair None) (record_decision x e oid kind feeSat pin w)))
             }))"

subsection \<open>The account dispute\<close>

datatype account_verdict = Account_bad | Sponsor_fault

definition verdict_kind :: "account_verdict \<Rightarrow> settlement_kind" where
  "verdict_kind v = (case v of Account_bad \<Rightarrow> Refund_customer_late | Sponsor_fault \<Rightarrow> Refund_sponsor_timeout)"

definition resolve_account_dispute ::
  "env \<Rightarrow> string \<Rightarrow> account_verdict \<Rightarrow> 'm odb_scheme \<Rightarrow> (string option \<times> 'm odb_scheme) option" where
  "resolve_account_dispute e oid verdict w =
     (case get_oc oid w of
        None \<Rightarrow> Some (Some ''not-disputed'', w)
      | Some row \<Rightarrow>
          if oo_settlement_kind (ow_order row) \<noteq> Some Refund_account_disputed then Some (Some ''not-disputed'', w)
          else if oo_state (ow_order row) \<notin> {Oc_refunding, Oc_settling, Oc_refunded} then Some (Some ''bad-state'', w)
          else do {
            (updated, w1) \<leftarrow> update_oc oid (\<lambda>r. r\<lparr>oo_settlement_kind := Some (verdict_kind verdict)\<rparr>) id w;
            Some (None, apply_outcome e updated (Settled (verdict_kind verdict)) w1)
          })"

subsection \<open>Returning stray money\<close>

definition rescue_key_of :: "outpoint \<Rightarrow> string" where
  "rescue_key_of out = format_outpoint (op_txid out) (op_vout out)"

definition is_pinned_of_live_trade :: "oc_ord \<Rightarrow> outpoint \<Rightarrow> bool" where
  "is_pinned_of_live_trade r out \<longleftrightarrow>
     parse_outpoint (oo_funding_outpoint r) = Some out \<and> \<not> is_onchain_terminal (oo_state r)"

text \<open>\<open>{ ...rescues, [key]: r }\<close>: an existing key keeps its place.\<close>

definition set_rescue :: "string \<Rightarrow> oc_rescue \<Rightarrow> (string \<times> oc_rescue) list \<Rightarrow> (string \<times> oc_rescue) list" where
  "set_rescue k r rs =
     (if list_ex (\<lambda>p. fst p = k) rs then update_where (\<lambda>p. fst p = k) (\<lambda>_. (k, r)) rs else rs @ [(k, r)])"

definition rescue_params :: "escrow_descriptor \<Rightarrow> outpoint \<Rightarrow> sat \<Rightarrow> string \<Rightarrow> sat \<Rightarrow> settlement_params" where
  "rescue_params d out valueSat destination feeSat =
     \<lparr>sp_descriptor = d, sp_outpoint = out, sp_value = valueSat, sp_path = Path_refund,
      sp_destination = destination, sp_fee = feeSat\<rparr>"

definition request_rescue ::
  "oc_env \<Rightarrow> env \<Rightarrow> string \<Rightarrow> oc_utxo \<Rightarrow> 'm odb_scheme \<Rightarrow> (string option \<times> 'm odb_scheme) option" where
  "request_rescue x e oid u w =
     (case get_oc oid w of
        None \<Rightarrow> Some (Some ''unknown-order'', w)
      | Some row \<Rightarrow>
          (let r = ow_order row; out = ou_outpoint u in
           if is_pinned_of_live_trade r out then Some (Some ''live-escrow'', w)
           else do {
             destination \<leftarrow> refund_destination_for x r (ow_meta row);
             (case (escrow_descriptor_for x r, given_s destination) of
                (Some d, Some dest) \<Rightarrow>
                  (case current_fees (now_sec w) w of
                     None \<Rightarrow> Some (Some ''no-fees'', w)
                   | Some fees \<Rightarrow>
                       (case do {
                            feeSat \<leftarrow> settlement_fee_sat (x_lib x) Path_refund d dest (fe_half_hour fees);
                            tx \<leftarrow> build_settlement_tx (x_lib x) (rescue_params d out (ou_value u) dest feeSat);
                            Some (feeSat, bl_psbt (x_lib x) tx)
                          } of
                          None \<Rightarrow> Some (Some ''cannot-build'', w)
                        | Some (feeSat, psbtText) \<Rightarrow>
                            (let rescue = \<lparr>rs_outpoint = out, rs_value = ou_value u, rs_fee = feeSat,
                                   rs_destination = dest, rs_created = now_sec w, rs_raw = None, rs_broadcast = None\<rparr>;
                                 w1 = update_oc_meta oid
                                   (\<lambda>m. m\<lparr>om_rescues := set_rescue (rescue_key_of out) rescue (om_rescues m)\<rparr>) w in
                             map_option (Pair None)
                               (send_oc_sign_request e oid (oo_customer r) SP_rescue psbtText w1))))
              | _ \<Rightarrow> Some (Some ''no-material'', w))
           }))"

end
