(* ===== verification/Oc_Requests.thy ===== *)
theory Oc_Requests
  imports Oc_Flow
begin

text \<open>
  Opening an on-chain order (\<open>daemon/src/onchain/handlers.ts\<close>, first half; \<open>shared/src/onchain/requests.ts\<close>): the public
  order with its bond, the designated one without, and the claim.  A refusal the user must see goes out as a message,
  its reason is named in ASCII.  A handler returns its result and the database, or \<open>None\<close> when it throws.
\<close>

type_synonym 'm oc_handler =
  "oc_env \<Rightarrow> env \<Rightarrow> inbox_event \<Rightarrow> 'm odb_scheme \<Rightarrow> (handler_result \<times> 'm odb_scheme) option"

definition MAX_CLAIM_CANDIDATES :: nat where "MAX_CLAIM_CANDIDATES = 5"

definition ignored :: "string \<Rightarrow> 'w \<Rightarrow> (handler_result \<times> 'w) option" where
  "ignored reason w = Some (H_ignored reason, w)"

definition oc_reject ::
  "env \<Rightarrow> string \<Rightarrow> inbox_event \<Rightarrow> string \<Rightarrow> 'm db_scheme \<Rightarrow> (handler_result \<times> 'm db_scheme) option" where
  "oc_reject e oid ev reason w = ignored ''rejected'' (send_oc_rejected e oid (ie_pubkey ev) reason (ie_id ev) w)"

definition request_at :: "inbox_event \<Rightarrow> 'm db_scheme \<Rightarrow> sec" where
  "request_at ev w = min (ie_created_at ev) (now_sec w)"

subsection \<open>Shapes of what is sealed in a request\<close>

definition order_request_payload :: "json \<Rightarrow> string option" where
  "order_request_payload v =
     (case jstr (jfield ''refundAddress'' v) of
        Some a \<Rightarrow> if js_trim a \<noteq> [] then Some a else None
      | None \<Rightarrow> None)"

definition claim_payload :: "json \<Rightarrow> (string \<times> rat) option" where
  "claim_payload v =
     do {
       payout \<leftarrow> given_s (jstr (jfield ''payoutAddress'' v));
       feerate \<leftarrow> jnum (jfield ''feerateSatPerVb'' v);
       if feerate > 0 then Some (payout, feerate) else None
     }"

definition psbt_payload :: "json \<Rightarrow> string option" where
  "psbt_payload v = given_s (jstr (jfield ''psbt'' v))"

record designated_terms =
  dt_amount :: rat
  dt_xonly :: string
  dt_reserve :: "rat option"
  dt_refund :: string
  dt_sponsor :: string

definition oc_designated_payload :: "env \<Rightarrow> json \<Rightarrow> designated_terms option" where
  "oc_designated_payload e v =
     (if \<not> is_object v then None
      else do {
        amount \<leftarrow> jnum (jfield ''amountSat'' v);
        xonly \<leftarrow> jstr (jfield ''customerXonly'' v);
        reserve \<leftarrow> (case jfield ''reserveKrw'' v of
           None \<Rightarrow> Some None
         | Some r \<Rightarrow> map_option Some (jnum (Some r)));
        refund \<leftarrow> jstr (jfield ''refundAddress'' v);
        sponsor \<leftarrow> jstr (jfield ''designatedSponsor'' v);
        if is_pubkey_hex e sponsor
        then Some \<lparr>dt_amount = amount, dt_xonly = xonly, dt_reserve = reserve, dt_refund = refund, dt_sponsor = sponsor\<rparr>
        else None
      })"

text \<open>What \<open>decrypt\<close> and the shape guard let through; \<open>None\<close> covers an unreadable and an unfitting content.\<close>

definition opened :: "env \<Rightarrow> inbox_event \<Rightarrow> (json \<Rightarrow> 'a option) \<Rightarrow> 'a option" where
  "opened e ev guard = Option.bind (e_unseal e (ie_content ev) (ie_pubkey ev)) guard"

subsection \<open>Checks of an order\<close>

definition finite_positive :: "jsnum \<Rightarrow> bool" where
  "finite_positive v \<longleftrightarrow> (case v of Fin q \<Rightarrow> q > 0 | _ \<Rightarrow> False)"

text \<open>\<open>Some\<close> is the handler's result, \<open>None\<close> lets the order through.\<close>

definition order_gate ::
  "env \<Rightarrow> string \<Rightarrow> inbox_event \<Rightarrow> jsnum \<Rightarrow> jsnum option \<Rightarrow> 'm odb_scheme
   \<Rightarrow> (handler_result \<times> 'm odb_scheme) option" where
  "order_gate e oid ev amount reserve w =
     (if \<not> is_js_integer amount \<or> js_int amount \<le> 0 then ignored ''bad-request'' w
      else if (case reserve of None \<Rightarrow> False | Some r \<Rightarrow> \<not> finite_positive r) then ignored ''bad-reserve'' w
      else if get_oc oid w \<noteq> None \<or> candidates_of oid w \<noteq> [] then ignored ''duplicate'' w
      else if \<not> st_accept_onchain (db_settings w) then oc_reject e oid ev ''closed'' w
      else None)"

definition js_rat :: "jsnum \<Rightarrow> rat" where
  "js_rat v = (case v of Fin q \<Rightarrow> q | _ \<Rightarrow> 0)"

definition order_terms_problem ::
  "oc_env \<Rightarrow> env \<Rightarrow> sec \<Rightarrow> sat \<Rightarrow> rat option \<Rightarrow> jsnum \<Rightarrow> string \<Rightarrow> string option" where
  "order_terms_problem x e now amount reserve expiration refund =
     (if address_problem (x_lib x) refund (x_network x) then Some ''refund address''
      else if \<not> (case expiration of Fin q \<Rightarrow> is_order_expiry_allowed q now | _ \<Rightarrow> False) then Some ''expiration''
      else (case reserve of
              None \<Rightarrow> None
            | Some r \<Rightarrow> if reserve_problem r amount (e_price e) \<noteq> None then Some ''reserve'' else None))"

text \<open>The fee of a typical settlement at the current estimate.\<close>

definition typical_fee :: "fee_estimates \<Rightarrow> sat" where
  "typical_fee fees = \<lceil>fl (of_int TYPICAL_SETTLEMENT_VSIZE * fe_half_hour fees)\<rceil>"

subsection \<open>A public order\<close>

text \<open>Planning the bond and recording the candidate that waits for it.\<close>

definition oc_plan ::
  "env \<Rightarrow> hold_purpose \<Rightarrow> string \<Rightarrow> string \<Rightarrow> sat \<Rightarrow> rat \<Rightarrow> int \<Rightarrow> candidate_info
   \<Rightarrow> 'm odb_scheme \<Rightarrow> (handler_result \<times> 'm odb_scheme) option" where
  "oc_plan e purpose oid party amount payBy cltv info w =
     do {
       (iv, w1) \<leftarrow> hold_plan e (\<lambda>_. oc_changed) purpose oid party amount payBy cltv w;
       w2 \<leftarrow> put_candidate \<lparr>cd_hash = h_hash iv, cd_order = oid, cd_info = info, cd_party = party,
               cd_created = now_sec w\<rparr> w1;
       Some (H_ok, w2)
     }"

definition order_with_bond ::
  "env \<Rightarrow> string \<Rightarrow> inbox_event \<Rightarrow> customer_list_info \<Rightarrow> 'm odb_scheme \<Rightarrow> (handler_result \<times> 'm odb_scheme) option" where
  "order_with_bond e oid ev info w =
     (case current_fees (now_sec w) w of
        None \<Rightarrow> oc_reject e oid ev ''no fees'' w
      | Some fees \<Rightarrow> do {
          floor \<leftarrow> deposit_floor_sat (typical_fee fees);
          if ci_amount info < min_trade_sat floor then oc_reject e oid ev ''below minimum'' w
          else do {
            cltv \<leftarrow> deposit_cltv_blocks (ci_expiration info) (now_sec w);
            if cltv > CLTV_MAX_BLOCKS then oc_reject e oid ev ''expiration too far'' w
            else do {
              amount \<leftarrow> oc_deposit_sat (ci_amount info) CUSTOMER_DEPOSIT_PERCENT floor;
              oc_plan e Oc_customer_bond oid (ie_pubkey ev) amount (ci_expiration info) cltv
                (Cand_customer info cltv) w
            }
          }
        })"

definition oc_order_request :: "'m oc_handler" where
  "oc_order_request x e ev w =
     (case extract_order_id (ie_tags ev) of
        None \<Rightarrow> ignored ''bad-order-id'' w
      | Some oid \<Rightarrow>
          if \<not> is_order_id oid then ignored ''bad-order-id'' w
          else
            (let amount = js_number_opt (tag_value ''amount-sat'' (ie_tags ev));
                 xonly = tag_value ''customer-xonly'' (ie_tags ev);
                 reserve = map_option js_number (tag_value ''reserve-krw'' (ie_tags ev));
                 expiration = js_number_opt (tag_value ''expiration'' (ie_tags ev)) in
             if (case xonly of None \<Rightarrow> True | Some k \<Rightarrow> \<not> is_xonly_hex k) then ignored ''bad-request'' w
             else (case order_gate e oid ev amount reserve w of
                Some out \<Rightarrow> Some out
              | None \<Rightarrow>
                  (case opened e ev order_request_payload of
                     None \<Rightarrow> oc_reject e oid ev ''no refund address'' w
                   | Some refund \<Rightarrow>
                       (case order_terms_problem x e (now_sec w) (js_int amount) (map_option js_rat reserve)
                               expiration (js_trim refund) of
                          Some p \<Rightarrow> oc_reject e oid ev p w
                        | None \<Rightarrow> order_with_bond e oid ev
                            \<lparr>ci_amount = js_int amount, ci_reserve = map_option js_rat reserve,
                             ci_expiration = js_rat expiration, ci_xonly = the xonly, ci_refund = js_trim refund\<rparr> w)))))"

subsection \<open>A designated order\<close>

definition list_designated ::
  "oc_env \<Rightarrow> env \<Rightarrow> string \<Rightarrow> inbox_event \<Rightarrow> customer_list_info \<Rightarrow> string \<Rightarrow> 'm odb_scheme
   \<Rightarrow> (handler_result \<times> 'm odb_scheme) option" where
  "list_designated x e oid ev info sponsor w =
     (case current_fees (now_sec w) w of
        None \<Rightarrow> oc_reject e oid ev ''no fees'' w
      | Some fees \<Rightarrow>
          if ci_amount info < designated_min_trade_sat (typical_fee fees)
          then oc_reject e oid ev ''below minimum'' w
          else do {
            w1 \<leftarrow> list_oc x e oid (ie_pubkey ev) info None (Some sponsor) w;
            row \<leftarrow> get_oc oid w1;
            Some (H_ok, notify_oc_designated_arrived (ow_order row) w1)
          })"

definition oc_designated_terms_request ::
  "oc_env \<Rightarrow> env \<Rightarrow> string \<Rightarrow> inbox_event \<Rightarrow> designated_terms \<Rightarrow> 'm odb_scheme
   \<Rightarrow> (handler_result \<times> 'm odb_scheme) option" where
  "oc_designated_terms_request x e oid ev t w =
     (let expiration = js_number_opt (tag_value ''expiration'' (ie_tags ev)) in
      if \<not> is_xonly_hex (dt_xonly t) then ignored ''bad-request'' w
      else (case order_gate e oid ev (Fin (dt_amount t)) (map_option Fin (dt_reserve t)) w of
         Some out \<Rightarrow> Some out
       | None \<Rightarrow>
           if dt_sponsor t = ie_pubkey ev then oc_reject e oid ev ''self'' w
           else if oc_open_designated_count (ie_pubkey ev) w \<ge> MAX_OPEN_DESIGNATED_PER_CUSTOMER
           then oc_reject e oid ev ''too many designated'' w
           else (case order_terms_problem x e (now_sec w) \<lfloor>dt_amount t\<rfloor> (dt_reserve t) expiration
                        (js_trim (dt_refund t)) of
              Some p \<Rightarrow> oc_reject e oid ev p w
            | None \<Rightarrow> list_designated x e oid ev
                \<lparr>ci_amount = \<lfloor>dt_amount t\<rfloor>, ci_reserve = dt_reserve t, ci_expiration = js_rat expiration,
                 ci_xonly = dt_xonly t, ci_refund = js_trim (dt_refund t)\<rparr> (dt_sponsor t) w)))"

definition oc_designated_order_request :: "'m oc_handler" where
  "oc_designated_order_request x e ev w =
     (case extract_order_id (ie_tags ev) of
        None \<Rightarrow> ignored ''bad-order-id'' w
      | Some oid \<Rightarrow>
          if \<not> is_order_id oid then ignored ''bad-order-id'' w
          else (case e_unseal e (ie_content ev) (ie_pubkey ev) of
             None \<Rightarrow> ignored ''undecryptable'' w
           | Some v \<Rightarrow>
               (case oc_designated_payload e v of
                  None \<Rightarrow> ignored ''bad-payload'' w
                | Some t \<Rightarrow> oc_designated_terms_request x e oid ev t w)))"

subsection \<open>The claim\<close>

definition repeat_str :: "string \<Rightarrow> nat \<Rightarrow> string" where
  "repeat_str s n = concat (replicate n s)"

definition dummy_descriptor_for :: "oc_env \<Rightarrow> oc_ord \<Rightarrow> hex \<Rightarrow> escrow_descriptor option" where
  "dummy_descriptor_for x r sponsorXonly =
     derive_escrow_address (x_lib x)
       \<lparr>ek_customer = (case oo_customer_xonly r of Some k \<Rightarrow> k | None \<Rightarrow> repeat_str ''11'' 32),
        ek_sponsor = sponsorXonly, ek_admin = repeat_str ''22'' 32\<rparr> (oo_network r) None"

text \<open>The refusals before the request is opened.\<close>

definition claim_blocker :: "inbox_event \<Rightarrow> oc_ord \<Rightarrow> 'm odb_scheme \<Rightarrow> string option" where
  "claim_blocker ev r w =
     (if oo_state r \<noteq> Oc_listed then Some ''taken''
      else if ie_pubkey ev = oo_customer r then Some ''own order''
      else if js_true_s (oo_designated r) \<and> oo_designated r \<noteq> Some (ie_pubkey ev) then Some ''not designated''
      else if oo_expiration r \<le> of_int (now_sec w) then Some ''expired''
      else None)"

definition claim_candidates :: "string \<Rightarrow> 'm odb_scheme \<Rightarrow> oc_candidate list" where
  "claim_candidates oid w = filter (\<lambda>c. is_sponsor_candidate (cd_info c)) (candidates_of oid w)"

text \<open>What is wrong with the address and the fee rate of the claim.\<close>

definition claim_fee_problem ::
  "oc_env \<Rightarrow> oc_ord \<Rightarrow> fee_estimates \<Rightarrow> sponsor_claim_info \<Rightarrow> string option" where
  "claim_fee_problem x r fees info =
     (case do {
          d \<leftarrow> dummy_descriptor_for x r (si_xonly info);
          feeSat \<leftarrow> settlement_fee_sat (x_lib x) Path_release d (si_payout info) (si_feerate info);
          dust \<leftarrow> dust_threshold_for (x_lib x) (si_payout info) d;
          Some (feeSat, dust)
        } of
        None \<Rightarrow> Some ''address or key''
      | Some (feeSat, dust) \<Rightarrow>
          if release_feerate_problem (Fin (si_feerate info)) (Some (fe_fastest fees)) (oo_amount r) feeSat dust \<noteq> None
          then Some ''feerate'' else None)"

text \<open>The claim that passed: a designated one is bonded at once, a public one waits for its bond.\<close>

definition claim_accepted ::
  "oc_env \<Rightarrow> env \<Rightarrow> inbox_event \<Rightarrow> oc_row \<Rightarrow> fee_estimates \<Rightarrow> sponsor_claim_info \<Rightarrow> 'm odb_scheme
   \<Rightarrow> (handler_result \<times> 'm odb_scheme) option" where
  "claim_accepted x e ev row fees info w =
     (let r = ow_order row; oid = oo_id r in
      if js_true_s (oo_designated r) then do {
        (bonded, w1) \<leftarrow> bond_oc x e row (ie_pubkey ev) info None w;
        (if bonded \<noteq> None then Some (H_ok, w1) else oc_reject e oid ev ''no escrow address'' w1)
      }
      else do {
        floor \<leftarrow> deposit_floor_sat (typical_fee fees);
        cltv \<leftarrow> deposit_cltv_blocks (oo_expiration r) (now_sec w);
        if cltv > CLTV_MAX_BLOCKS then oc_reject e oid ev ''expiration too far'' w
        else do {
          amount \<leftarrow> oc_deposit_sat (oo_amount r) SPONSOR_DEPOSIT_PERCENT floor;
          oc_plan e Oc_sponsor_bond oid (ie_pubkey ev) amount (oo_expiration r) cltv (Cand_sponsor info cltv) w
        }
      })"

definition claim_opened ::
  "oc_env \<Rightarrow> env \<Rightarrow> inbox_event \<Rightarrow> oc_row \<Rightarrow> hex \<Rightarrow> 'm odb_scheme \<Rightarrow> (handler_result \<times> 'm odb_scheme) option" where
  "claim_opened x e ev row xonly w =
     (let r = ow_order row; oid = oo_id r in
      case opened e ev claim_payload of
        None \<Rightarrow> oc_reject e oid ev ''unreadable claim'' w
      | Some (payoutRaw, feerate) \<Rightarrow>
          (let payout = js_trim payoutRaw;
               info = \<lparr>si_xonly = xonly, si_payout = payout, si_feerate = feerate\<rparr> in
           if address_problem (x_lib x) payout (oo_network r) then oc_reject e oid ev ''payout address'' w
           else (case current_fees (now_sec w) w of
              None \<Rightarrow> oc_reject e oid ev ''no fees'' w
            | Some fees \<Rightarrow>
                (case claim_fee_problem x r fees info of
                   Some p \<Rightarrow> oc_reject e oid ev p w
                 | None \<Rightarrow> claim_accepted x e ev row fees info w))))"

definition oc_claim :: "'m oc_handler" where
  "oc_claim x e ev w =
     (case extract_order_id (ie_tags ev) of
        None \<Rightarrow> ignored ''bad-order-id'' w
      | Some oid \<Rightarrow>
          if \<not> is_order_id oid then ignored ''bad-order-id'' w
          else
            (let xonly = tag_value ''sponsor-xonly'' (ie_tags ev) in
             if (case xonly of None \<Rightarrow> True | Some k \<Rightarrow> \<not> is_xonly_hex k) then ignored ''bad-request'' w
             else (case get_oc oid w of
                None \<Rightarrow> oc_reject e oid ev ''taken'' w
              | Some row \<Rightarrow>
                  (case claim_blocker ev (ow_order row) w of
                     Some p \<Rightarrow> oc_reject e oid ev p w
                   | None \<Rightarrow>
                       if list_ex (\<lambda>c. cd_party c = ie_pubkey ev) (claim_candidates oid w) then ignored ''duplicate'' w
                       else if length (claim_candidates oid w) \<ge> MAX_CLAIM_CANDIDATES
                       then oc_reject e oid ev ''too many claims'' w
                       else claim_opened x e ev row (the xonly) w))))"

end
