(* ===== verification/Oc_Handlers.thy ===== *)
theory Oc_Handlers
  imports Oc_Requests
begin

text \<open>
  The requests of a running on-chain trade (\<open>daemon/src/onchain/handlers.ts\<close>, second half): the sponsor's
  presignature, the last signature, remittance, account, cancelling, dispute, the signature for returning stray money,
  and the table of handlers.  The operator's key signs last, on a transaction the daemon builds itself.
\<close>

type_synonym 'm oc_row_handler =
  "oc_env \<Rightarrow> env \<Rightarrow> inbox_event \<Rightarrow> oc_row \<Rightarrow> 'm odb_scheme \<Rightarrow> (handler_result \<times> 'm odb_scheme) option"

definition oc_updated ::
  "env \<Rightarrow> string \<Rightarrow> (oc_ord \<Rightarrow> oc_ord) \<Rightarrow> (oc_meta \<Rightarrow> oc_meta) \<Rightarrow> 'm odb_scheme
   \<Rightarrow> (oc_ord \<times> 'm odb_scheme) option" where
  "oc_updated e oid patch metaPatch w =
     do {
       (updated, w1) \<leftarrow> update_oc oid patch metaPatch w;
       row \<leftarrow> get_oc oid w1;
       Some (updated, notify_oc_transition e updated (ow_version row) w1)
     }"

subsection \<open>The presignature\<close>

definition key_or_none :: "hex option \<Rightarrow> hex" where
  "key_or_none k = (case k of Some v \<Rightarrow> v | None \<Rightarrow> [])"

definition oc_presig :: "'m oc_row_handler" where
  "oc_presig x e ev row w =
     (let r = ow_order row; oid = oo_id r; now = now_sec w in
      if Some (ie_pubkey ev) \<noteq> oo_sponsor r then ignored ''not-sponsor'' w
      else if oo_state r \<noteq> Oc_funded \<or> oo_settlement_kind r \<noteq> None then oc_reject e oid ev ''not awaiting'' w
      else if is_past (presign_deadline_of (oo_funded_at r) (oo_presign_deadline r)) (request_at ev w)
      then oc_reject e oid ev ''presign deadline'' w
      else do {
        expected \<leftarrow> settlement_params_for x r (ow_meta row) Release None;
        (case (given_s (om_payout_address (ow_meta row)), expected) of
           (Some payout, Some p) \<Rightarrow>
             (case opened e ev psbt_payload of
                None \<Rightarrow> ignored ''bad-payload'' w
              | Some psbtText \<Rightarrow>
                  (case verify_presignature (x_lib x) psbtText p (key_or_none (oo_sponsor_xonly r)) of
                     Presig_bad \<Rightarrow> oc_reject e oid ev ''presignature'' w
                   | Presig_ok sig leaf \<Rightarrow> do {
                       (updated, w1) \<leftarrow> oc_updated e oid
                         (\<lambda>o1. o1\<lparr>oo_state := Oc_presigned, oo_presigned_at := Some now,
                                 oo_account_deadline := Some (account_deadline_from now)\<rparr>)
                         (\<lambda>m. m\<lparr>om_presig := Some psbtText\<rparr>) w;
                       w2 \<leftarrow> send_oc_sign_request e oid (oo_customer r) SP_release psbtText w1;
                       Some (H_ok, w2)
                     }))
         | _ \<Rightarrow> ignored ''no-material'' (oc_anomaly e oid ''no material to check the presignature'' w))
      })"

subsection \<open>The last signature\<close>

datatype completed = Completed string hex | No_presig | Cannot_finalize

definition finish_tx :: "btc_lib \<Rightarrow> btc_tx \<Rightarrow> tap_sig list option \<Rightarrow> completed" where
  "finish_tx L utx sigs =
     (case Option.bind sigs (bl_finalize L utx) of
        None \<Rightarrow> Cannot_finalize
      | Some rawHex \<Rightarrow> Completed rawHex (bl_txid L utx))"

definition with_admin_sig :: "oc_env \<Rightarrow> string \<Rightarrow> btc_tx \<Rightarrow> tap_sig list \<Rightarrow> tap_sig list option" where
  "with_admin_sig x oid utx sigs = map_option (\<lambda>s. sigs @ [s]) (bl_sign (x_lib x) (x_admin_key x oid) utx)"

text \<open>
  The settlement transaction, built again, with the verified signature \<open>sig\<close> of \<open>signer\<close> on \<open>leaf\<close>: a release gets
  the stored presignature beside it, everything else the operator's signature.
\<close>

definition complete_settlement ::
  "oc_env \<Rightarrow> oc_ord \<Rightarrow> oc_meta \<Rightarrow> settlement_kind \<Rightarrow> settlement_params \<Rightarrow> hex \<Rightarrow> hex \<Rightarrow> hex \<Rightarrow> completed" where
  "complete_settlement x r m kind p leaf signer sig =
     (case do {
          utx \<leftarrow> build_settlement_tx (x_lib x) p;
          sigs \<leftarrow> add_tap_script_sig (x_lib x) leaf signer sig [];
          Some (utx, sigs)
        } of
        None \<Rightarrow> Cannot_finalize
      | Some (utx, sigs) \<Rightarrow>
          if kind \<noteq> Release then finish_tx (x_lib x) utx (with_admin_sig x (oo_id r) utx sigs)
          else (case given_s (om_presig m) of
             None \<Rightarrow> No_presig
           | Some t \<Rightarrow>
               (case verify_presignature (x_lib x) t p (key_or_none (oo_sponsor_xonly r)) of
                  Presig_bad \<Rightarrow> No_presig
                | Presig_ok sponsorSig sponsorLeaf \<Rightarrow>
                    finish_tx (x_lib x) utx
                      (add_tap_script_sig (x_lib x) sponsorLeaf (key_or_none (oo_sponsor_xonly r)) sponsorSig sigs))))"

definition cosign_verified ::
  "oc_env \<Rightarrow> env \<Rightarrow> inbox_event \<Rightarrow> oc_row \<Rightarrow> settlement_kind \<Rightarrow> settlement_params \<Rightarrow> hex \<Rightarrow> 'm odb_scheme
   \<Rightarrow> (handler_result \<times> 'm odb_scheme) option" where
  "cosign_verified x e ev row kind p signer w =
     (let r = ow_order row; oid = oo_id r in
      case opened e ev psbt_payload of
        None \<Rightarrow> ignored ''bad-payload'' w
      | Some psbtText \<Rightarrow>
          (case verify_presignature (x_lib x) psbtText p signer of
             Presig_bad \<Rightarrow> oc_reject e oid ev ''signature'' w
           | Presig_ok sig leaf \<Rightarrow>
               (case complete_settlement x r (ow_meta row) kind p leaf signer sig of
                  No_presig \<Rightarrow> ignored ''no-presig'' (oc_anomaly e oid ''stored presignature does not fit'' w)
                | Cannot_finalize \<Rightarrow> ignored ''cannot-finalize'' (oc_anomaly e oid ''cannot complete the settlement'' w)
                | Completed rawHex txid \<Rightarrow> map_option (Pair H_ok) (enter_settling e oid kind txid rawHex w))))"

definition cosign_for ::
  "oc_env \<Rightarrow> env \<Rightarrow> inbox_event \<Rightarrow> oc_row \<Rightarrow> sign_purpose \<Rightarrow> 'm odb_scheme
   \<Rightarrow> (handler_result \<times> 'm odb_scheme) option" where
  "cosign_for x e ev row purpose w =
     (let r = ow_order row in
      if \<not> can_act_on_sign_request (oo_state r) purpose (oo_settlement_kind r) then ignored ''not-now'' w
      else (case (if purpose = SP_release then Some Release else oo_settlement_kind r) of
         None \<Rightarrow> ignored ''purpose-mismatch'' w
       | Some kind \<Rightarrow>
           if sign_purpose_for kind \<noteq> purpose then ignored ''purpose-mismatch'' w
           else
             (let bySponsor = (awaiting_signer_for kind = Sponsor);
                  sender = (if bySponsor then oo_sponsor r else Some (oo_customer r));
                  xonly = given_s (if bySponsor then oo_sponsor_xonly r else oo_customer_xonly r) in
              case xonly of
                None \<Rightarrow> ignored ''not-signer'' w
              | Some signer \<Rightarrow>
                  if Some (ie_pubkey ev) \<noteq> sender then ignored ''not-signer'' w
                  else do {
                    expected \<leftarrow> settlement_params_for x r (ow_meta row) kind None;
                    (case expected of
                       None \<Rightarrow> ignored ''no-material''
                         (oc_anomaly e (oo_id r) (''no settlement transaction ('' @ settlement_kind_str kind @ '')'') w)
                     | Some p \<Rightarrow> cosign_verified x e ev row kind p signer w)
                  })))"

subsection \<open>Returning stray money\<close>

text \<open>The transaction with the customer's and the operator's signature.\<close>

definition complete_rescue :: "oc_env \<Rightarrow> string \<Rightarrow> settlement_params \<Rightarrow> hex \<Rightarrow> hex \<Rightarrow> hex \<Rightarrow> (string \<times> hex) option" where
  "complete_rescue x oid p leaf signer sig =
     do {
       utx \<leftarrow> build_settlement_tx (x_lib x) p;
       sigs \<leftarrow> add_tap_script_sig (x_lib x) leaf signer sig [];
       both \<leftarrow> with_admin_sig x oid utx sigs;
       rawHex \<leftarrow> bl_finalize (x_lib x) utx both;
       Some (rawHex, bl_txid (x_lib x) utx)
     }"

definition rescue_signed ::
  "oc_env \<Rightarrow> env \<Rightarrow> inbox_event \<Rightarrow> oc_row \<Rightarrow> string \<Rightarrow> hex \<Rightarrow> outpoint \<Rightarrow> oc_rescue \<Rightarrow> 'm odb_scheme
   \<Rightarrow> (handler_result \<times> 'm odb_scheme) option" where
  "rescue_signed x e ev row psbtText signer out rescue w =
     (let r = ow_order row; oid = oo_id r; key = rescue_key_of out in
      case escrow_descriptor_for x r of
        None \<Rightarrow> ignored ''no-material'' w
      | Some d \<Rightarrow>
          (let p = rescue_params d out (rs_value rescue) (rs_destination rescue) (rs_fee rescue) in
           case verify_presignature (x_lib x) psbtText p signer of
             Presig_bad \<Rightarrow> oc_reject e oid ev ''rescue signature'' w
           | Presig_ok sig leaf \<Rightarrow>
               (case complete_rescue x oid p leaf signer sig of
                  None \<Rightarrow> ignored ''cannot-finalize'' (oc_anomaly e oid ''cannot complete the rescue'' w)
                | Some (rawHex, txid) \<Rightarrow>
                    Some (H_ok, request_broadcast oid txid (Some key)
                      (update_oc_meta oid
                        (\<lambda>m. m\<lparr>om_rescues := set_rescue key (rescue\<lparr>rs_raw := Some rawHex\<rparr>) (om_rescues (ow_meta row))\<rparr>) w)))))"

definition oc_rescue_cosign :: "'m oc_row_handler" where
  "oc_rescue_cosign x e ev row w =
     (let r = ow_order row in
      case given_s (oo_customer_xonly r) of
        None \<Rightarrow> ignored ''not-customer'' w
      | Some signer \<Rightarrow>
          if ie_pubkey ev \<noteq> oo_customer r then ignored ''not-customer'' w
          else (case opened e ev psbt_payload of
             None \<Rightarrow> ignored ''bad-payload'' w
           | Some psbtText \<Rightarrow>
               (case Option.bind (bl_read_psbt (x_lib x) psbtText) ps_input of
                  None \<Rightarrow> ignored ''bad-psbt'' w
                | Some out \<Rightarrow>
                    (case map_of (om_rescues (ow_meta row)) (rescue_key_of out) of
                       None \<Rightarrow> ignored ''unrequested-rescue'' w
                     | Some rescue \<Rightarrow>
                         if given_s (rs_broadcast rescue) \<noteq> None \<or> given_s (rs_raw rescue) \<noteq> None
                         then ignored ''already'' w
                         else if is_pinned_of_live_trade r out
                         then ignored ''live-escrow'' (oc_anomaly e (oo_id r) ''rescue of a live escrow'' w)
                         else rescue_signed x e ev row psbtText signer out rescue w))))"

definition oc_cosign :: "'m oc_row_handler" where
  "oc_cosign x e ev row w =
     (case Option.bind (tag_value ''purpose'' (ie_tags ev)) sign_purpose_of of
        None \<Rightarrow> ignored ''bad-purpose'' w
      | Some purpose \<Rightarrow>
          if purpose = SP_rescue then oc_rescue_cosign x e ev row w else cosign_for x e ev row purpose w)"

subsection \<open>Remittance, account, cancelling, dispute\<close>

definition oc_remit :: "'m oc_row_handler" where
  "oc_remit x e ev row w =
     (let r = ow_order row; oid = oo_id r; now = now_sec w in
      if Some (ie_pubkey ev) \<noteq> oo_sponsor r then ignored ''not-sponsor'' w
      else if oo_state r \<noteq> Oc_presigned \<or> oo_settlement_kind r \<noteq> None then oc_reject e oid ev ''not awaiting'' w
      else if truthy (oo_account_sent_at r) = None then oc_reject e oid ev ''no account yet'' w
      else if is_past (krw_deadline_of (oo_krw_deadline r) (oo_account_sent_at r)) (request_at ev w)
      then oc_reject e oid ev ''remittance deadline'' w
      else map_option (\<lambda>(_, w1). (H_ok, w1))
        (oc_updated e oid
          (\<lambda>o1. o1\<lparr>oo_state := Oc_remitted, oo_remitted_at := Some now,
                  oo_cosign_deadline := Some (cosign_deadline_from now)\<rparr>) id w))"

definition oc_account_info :: "'m oc_row_handler" where
  "oc_account_info x e ev row w =
     (let r = ow_order row; oid = oo_id r; now = now_sec w;
          commitment = given_s (tag_value ''commitment'' (ie_tags ev)) in
      if ie_pubkey ev \<noteq> oo_customer r then ignored ''not-customer'' w
      else if oo_state r \<noteq> Oc_presigned \<or> truthy (oo_account_sent_at r) \<noteq> None \<or> oo_settlement_kind r \<noteq> None
      then ignored ''bad-state'' w
      else if is_past (account_deadline_of (oo_presigned_at r) (oo_account_deadline r)) (request_at ev w)
      then oc_reject e oid ev ''account deadline'' w
      else map_option (\<lambda>(updated, w1). (H_ok, notify_oc_account_arrived updated w1))
        (update_oc oid
          (\<lambda>o1. o1\<lparr>oo_account_sent_at := Some now, oo_krw_deadline := Some (krw_deadline_from now)\<rparr>)
          (\<lambda>m. if commitment = None then m else m\<lparr>om_account_commitment := commitment\<rparr>) w))"

text \<open>Withdrawing an order whose bond was not paid yet.\<close>

definition cancel_candidates ::
  "string \<Rightarrow> string \<Rightarrow> 'm odb_scheme \<Rightarrow> (handler_result \<times> 'm odb_scheme) option" where
  "cancel_candidates oid pubkey w =
     (let mine = filter (\<lambda>c. \<not> is_sponsor_candidate (cd_info c) \<and> cd_party c = pubkey) (candidates_of oid w);
          w1 = fold (\<lambda>c v. delete_candidate (cd_hash c) (hold_dispose (cd_hash c) Want_cancel v)) mine w in
      if mine \<noteq> [] then Some (H_ok, w1) else ignored ''unknown-order'' w1)"

definition oc_cancel :: "'m oc_handler" where
  "oc_cancel x e ev w =
     (case given_s (extract_order_id (ie_tags ev)) of
        None \<Rightarrow> ignored ''no-order'' w
      | Some oid \<Rightarrow>
          (case get_oc oid w of
             None \<Rightarrow> cancel_candidates oid (ie_pubkey ev) w
           | Some row \<Rightarrow>
               if ie_pubkey ev \<noteq> oo_customer (ow_order row) then ignored ''not-customer'' w
               else if oo_state (ow_order row) \<noteq> Oc_listed then oc_reject e oid ev ''already taken'' w
               else do {
                 (cancelled, w1) \<leftarrow> update_oc oid (\<lambda>r. r\<lparr>oo_state := Oc_cancelled\<rparr>) id w;
                 let w2 = apply_outcome e cancelled (No_tx Cancel_by_customer) w1;
                 now_row \<leftarrow> get_oc oid w2;
                 Some (H_ok, drop_sponsor_candidates oid None
                   (notify_oc_transition e cancelled (ow_version now_row) w2))
               }))"

definition account_dispute_allowed :: "inbox_event \<Rightarrow> oc_ord \<Rightarrow> 'm db_scheme \<Rightarrow> bool" where
  "account_dispute_allowed ev r w \<longleftrightarrow>
     Some (ie_pubkey ev) = oo_sponsor r \<and> oo_account_sent_at r \<noteq> None \<and> truthy (oo_account_disputed_at r) = None
     \<and> oo_settlement_kind r = None
     \<and> \<not> is_past (krw_deadline_of (oo_krw_deadline r) (oo_account_sent_at r)) (request_at ev w)"

definition oc_dispute :: "'m oc_row_handler" where
  "oc_dispute x e ev row w =
     (let r = ow_order row; oid = oo_id r; now = now_sec w in
      if ie_pubkey ev \<noteq> oo_customer r \<and> Some (ie_pubkey ev) \<noteq> oo_sponsor r then ignored ''not-a-party'' w
      else if oo_state r = Oc_remitted then
        map_option (\<lambda>(_, w1). (H_ok, w1))
          (oc_updated e oid (\<lambda>o1. o1\<lparr>oo_state := Oc_disputed, oo_disputed_at := Some now\<rparr>) id w)
      else if oo_state r = Oc_presigned \<and> tag_value ''stage'' (ie_tags ev) = Some ''account-unusable'' then
        (if \<not> account_dispute_allowed ev r w then oc_reject e oid ev ''account dispute not allowed'' w
         else map_option (\<lambda>(_, w1). (H_ok,
             raise_alert e (''oc:'' @ oid @ '':account-disputed'') Warn (Some Track_onchain) (Some oid) w1))
           (update_oc oid (\<lambda>o1. o1\<lparr>oo_account_disputed_at := Some now\<rparr>) id w))
      else oc_reject e oid ev ''no dispute here'' w)"

subsection \<open>The table of handlers\<close>

definition with_oc_row :: "'m oc_row_handler \<Rightarrow> 'm oc_handler" where
  "with_oc_row h x e ev w =
     (case given_s (extract_order_id (ie_tags ev)) of
        None \<Rightarrow> ignored ''no-order'' w
      | Some oid \<Rightarrow>
          (case get_oc oid w of None \<Rightarrow> ignored ''unknown-order'' w | Some row \<Rightarrow> h x e ev row w))"

definition oc_handler_table :: "(string \<times> 'm oc_handler) list" where
  "oc_handler_table =
     [(''onchain-order-request'', oc_order_request),
      (''onchain-designated-order-request'', oc_designated_order_request),
      (''onchain-claim'', oc_claim), (''onchain-presig'', with_oc_row oc_presig),
      (''onchain-cosign'', with_oc_row oc_cosign), (''onchain-dispute'', with_oc_row oc_dispute),
      (''remit-request'', with_oc_row oc_remit), (''account-info'', with_oc_row oc_account_info),
      (''cancel-request'', oc_cancel)]"

definition oc_handler :: "string \<Rightarrow> 'm oc_handler option" where
  "oc_handler action = map_of oc_handler_table action"

end
