(* ===== verification/Oc_Inv.thy ===== *)
theory Oc_Inv
  imports Oc_Handlers
begin

text \<open>
  The invariant of the on-chain tables, and the relation every step of the on-chain track satisfies: the invariant is
  kept, orders only move along the transition table and keep what they fixed, neither the Lightning tables nor
  the clock nor the inbox are disturbed.
\<close>

subsection \<open>One order\<close>

definition escrow_ok :: "oc_env \<Rightarrow> oc_ord \<Rightarrow> bool" where
  "escrow_ok x r \<longleftrightarrow> (\<exists>d. escrow_descriptor_for x r = Some d \<and> oo_escrow_address r = Some (ed_address d))"

text \<open>
  A sponsor is there from the claim on, is not the customer, is the designated one if there is one, and the
  address of the escrow is the one the three keys give.
\<close>

definition party_ok :: "oc_env \<Rightarrow> oc_ord \<Rightarrow> bool" where
  "party_ok x r \<longleftrightarrow>
     (case oo_sponsor r of
        None \<Rightarrow> oo_state r \<in> {Oc_listed, Oc_cancelled} \<and> oo_timelock r = None
      | Some s \<Rightarrow> oo_state r \<noteq> Oc_listed \<and> s \<noteq> oo_customer r
          \<and> (js_true_s (oo_designated r) \<longrightarrow> oo_designated r = Some s) \<and> escrow_ok x r)"

text \<open>The price is fixed while the trade runs, payout and fee are the amount; money was sent to a known account.\<close>

definition terms_ok :: "oc_ord \<Rightarrow> bool" where
  "terms_ok r \<longleftrightarrow>
     (oo_state r \<in> {Oc_funded, Oc_presigned, Oc_remitted, Oc_disputed} \<longrightarrow>
        oo_price r \<noteq> None \<and> oo_funding_outpoint r \<noteq> None
        \<and> (\<exists>f n. oo_release_fee r = Some f \<and> oo_payout r = Some n \<and> n + f = oo_amount r \<and> 0 < n))
     \<and> (oo_state r \<in> {Oc_remitted, Oc_disputed} \<longrightarrow> oo_account_sent_at r \<noteq> None \<and> oo_remitted_at r \<noteq> None)"

definition kind_ok :: "oc_ord \<Rightarrow> bool" where
  "kind_ok r \<longleftrightarrow>
     (case oo_state r of
        Oc_refunding \<Rightarrow> is_refund_kind (oo_settlement_kind r)
      | Oc_disputed \<Rightarrow> oo_settlement_kind r \<in> {None, Some Sponsor_win, Some Customer_win}
      | Oc_settling \<Rightarrow> oo_settlement_kind r \<noteq> None \<and> oo_settlement_txid r \<noteq> None
      | Oc_swept \<Rightarrow> True
      | _ \<Rightarrow> if oo_state r \<in> {Oc_released, Oc_refunded, Oc_sponsor_wins, Oc_customer_wins}
             then \<exists>k. oo_settlement_kind r = Some k \<and> oo_state r = or_terminal (outcome_rules (Settled k))
             else oo_settlement_kind r = None)"

text \<open>The stored presignature is one of the sponsor for the release the daemon would build.\<close>

definition presig_ok :: "oc_env \<Rightarrow> oc_ord \<Rightarrow> oc_meta \<Rightarrow> bool" where
  "presig_ok x r m \<longleftrightarrow>
     (\<exists>t p sig leaf. given_s (om_presig m) = Some t \<and> settlement_params_for x r m Release None = Some (Some p)
        \<and> verify_presignature (x_lib x) t p (key_or_none (oo_sponsor_xonly r)) = Presig_ok sig leaf)"

text \<open>What a decision needs to be carried out is there.\<close>

definition decided_ok :: "oc_env \<Rightarrow> oc_ord \<Rightarrow> oc_meta \<Rightarrow> bool" where
  "decided_ok x r m \<longleftrightarrow>
     (\<forall>k. oo_settlement_kind r = Some k \<and> oo_state r \<in> {Oc_refunding, Oc_disputed}
        \<longrightarrow> (\<exists>p. settlement_params_for x r m k None = Some (Some p)))"

definition order_facts :: "oc_env \<Rightarrow> oc_ord \<Rightarrow> oc_meta \<Rightarrow> bool" where
  "order_facts x r m \<longleftrightarrow> 0 < oo_amount r \<and> party_ok x r \<and> terms_ok r \<and> kind_ok r
     \<and> (oo_state r \<in> {Oc_presigned, Oc_remitted, Oc_disputed} \<longrightarrow> presig_ok x r m) \<and> decided_ok x r m"

definition oc_row_ok :: "oc_env \<Rightarrow> oc_row \<Rightarrow> bool" where
  "oc_row_ok x row \<longleftrightarrow> order_facts x (ow_order row) (ow_meta row) \<and> 1 \<le> ow_version row"

subsection \<open>How an order may change\<close>

definition same_deal :: "oc_ord \<Rightarrow> oc_meta \<Rightarrow> oc_ord \<Rightarrow> oc_meta \<Rightarrow> bool" where
  "same_deal r m r' m' \<longleftrightarrow> oo_id r' = oo_id r \<and> oo_customer r' = oo_customer r \<and> oo_designated r' = oo_designated r
     \<and> oo_amount r' = oo_amount r \<and> oo_reserve r' = oo_reserve r \<and> oo_created r' = oo_created r
     \<and> oo_expiration r' = oo_expiration r \<and> oo_network r' = oo_network r \<and> oo_customer_xonly r' = oo_customer_xonly r
     \<and> oo_customer_deposit_hash r' = oo_customer_deposit_hash r \<and> om_refund_address m' = om_refund_address m"

definition same_claim :: "oc_ord \<Rightarrow> oc_meta \<Rightarrow> oc_ord \<Rightarrow> oc_meta \<Rightarrow> bool" where
  "same_claim r m r' m' \<longleftrightarrow> oo_sponsor r' = oo_sponsor r \<and> oo_sponsor_xonly r' = oo_sponsor_xonly r
     \<and> oo_admin_xonly r' = oo_admin_xonly r \<and> oo_escrow_address r' = oo_escrow_address r
     \<and> oo_timelock r' = oo_timelock r \<and> oo_sponsor_deposit_hash r' = oo_sponsor_deposit_hash r
     \<and> om_payout_address m' = om_payout_address m \<and> om_feerate m' = om_feerate m"

text \<open>From here on the price cannot be undone any more.\<close>

definition FROZEN :: "oc_state set" where
  "FROZEN = {Oc_remitted, Oc_disputed, Oc_refunding, Oc_settling, Oc_released, Oc_refunded, Oc_sponsor_wins,
     Oc_customer_wins, Oc_cancelled, Oc_swept}"

definition same_terms :: "oc_ord \<Rightarrow> oc_meta \<Rightarrow> oc_ord \<Rightarrow> oc_meta \<Rightarrow> bool" where
  "same_terms r m r' m' \<longleftrightarrow> oo_price r' = oo_price r \<and> oo_payout r' = oo_payout r
     \<and> oo_release_fee r' = oo_release_fee r \<and> oo_funding_outpoint r' = oo_funding_outpoint r \<and> om_presig m' = om_presig m"

definition kind_step :: "settlement_kind option \<Rightarrow> settlement_kind option \<Rightarrow> bool" where
  "kind_step a b \<longleftrightarrow> a = None \<or> b = a \<or> b = Some Release
     \<or> a = Some Refund_account_disputed \<and> b \<in> {Some Refund_customer_late, Some Refund_sponsor_timeout}"

definition deal_step :: "oc_ord \<Rightarrow> oc_meta \<Rightarrow> oc_ord \<Rightarrow> oc_meta \<Rightarrow> bool" where
  "deal_step r m r' m' \<longleftrightarrow> same_deal r m r' m' \<and> (oo_sponsor r \<noteq> None \<longrightarrow> same_claim r m r' m')
     \<and> (oo_state r \<in> FROZEN \<longrightarrow> same_terms r m r' m') \<and> kind_step (oo_settlement_kind r) (oo_settlement_kind r')"

definition oc_evolves :: "oc_row \<Rightarrow> oc_row \<Rightarrow> bool" where
  "oc_evolves row row' \<longleftrightarrow> deal_step (ow_order row) (ow_meta row) (ow_order row') (ow_meta row')
     \<and> can_onchain_transition\<^sup>*\<^sup>* (oo_state (ow_order row)) (oo_state (ow_order row'))
     \<and> ow_version row \<le> ow_version row' \<and> (ow_order row' \<noteq> ow_order row \<longrightarrow> ow_version row < ow_version row')"

lemma frozen_stays: "can_onchain_transition\<^sup>*\<^sup>* s t \<Longrightarrow> s \<in> FROZEN \<Longrightarrow> t \<in> FROZEN"
  by (erule oc_table.closed_reach) (auto simp: FROZEN_def can_onchain_transition_def)

lemma deal_step_refl [simp]: "deal_step r m r m"
  by (simp add: deal_step_def same_deal_def same_claim_def same_terms_def kind_step_def)

lemma oc_evolves_refl [simp]: "oc_evolves row row"
  by (simp add: oc_evolves_def)

lemma kind_step_trans: "kind_step a b \<Longrightarrow> kind_step b c \<Longrightarrow> kind_step a c"
  by (auto simp: kind_step_def)

lemma oc_evolves_trans:
  assumes "oc_evolves a b" and "oc_evolves b c"
  shows "oc_evolves a c"
proof -
  have f: "oo_state (ow_order a) \<in> FROZEN \<Longrightarrow> oo_state (ow_order b) \<in> FROZEN"
    using assms(1) frozen_stays [of "oo_state (ow_order a)" "oo_state (ow_order b)"] by (simp add: oc_evolves_def)
  have "deal_step (ow_order a) (ow_meta a) (ow_order c) (ow_meta c)"
    using assms f kind_step_trans unfolding oc_evolves_def deal_step_def
    by (auto simp: same_deal_def same_claim_def same_terms_def)
  moreover have "can_onchain_transition\<^sup>*\<^sup>* (oo_state (ow_order a)) (oo_state (ow_order c))"
    using assms rtranclp_trans unfolding oc_evolves_def by meson
  moreover have "ow_version a \<le> ow_version c \<and> (ow_order c \<noteq> ow_order a \<longrightarrow> ow_version a < ow_version c)"
    using assms by (cases "ow_order b = ow_order a") (auto simp: oc_evolves_def)
  ultimately show ?thesis by (simp add: oc_evolves_def)
qed

subsection \<open>What the facts of an order depend on\<close>

lemma touch_sel [simp]:
  "oo_id (touch t b r) = oo_id r" "oo_state (touch t b r) = oo_state r" "oo_customer (touch t b r) = oo_customer r"
  "oo_sponsor (touch t b r) = oo_sponsor r" "oo_designated (touch t b r) = oo_designated r"
  "oo_amount (touch t b r) = oo_amount r" "oo_reserve (touch t b r) = oo_reserve r"
  "oo_created (touch t b r) = oo_created r" "oo_expiration (touch t b r) = oo_expiration r"
  "oo_network (touch t b r) = oo_network r" "oo_customer_xonly (touch t b r) = oo_customer_xonly r"
  "oo_sponsor_xonly (touch t b r) = oo_sponsor_xonly r" "oo_admin_xonly (touch t b r) = oo_admin_xonly r"
  "oo_escrow_address (touch t b r) = oo_escrow_address r" "oo_timelock (touch t b r) = oo_timelock r"
  "oo_funding_outpoint (touch t b r) = oo_funding_outpoint r" "oo_price (touch t b r) = oo_price r"
  "oo_payout (touch t b r) = oo_payout r" "oo_release_fee (touch t b r) = oo_release_fee r"
  "oo_account_sent_at (touch t b r) = oo_account_sent_at r" "oo_remitted_at (touch t b r) = oo_remitted_at r"
  "oo_settlement_kind (touch t b r) = oo_settlement_kind r" "oo_settlement_fee (touch t b r) = oo_settlement_fee r"
  "oo_settlement_txid (touch t b r) = oo_settlement_txid r"
  "oo_customer_deposit_hash (touch t b r) = oo_customer_deposit_hash r"
  "oo_sponsor_deposit_hash (touch t b r) = oo_sponsor_deposit_hash r"
  by (simp_all add: touch_def)

lemma escrow_cong:
  assumes "oo_customer_xonly r' = oo_customer_xonly r" "oo_sponsor_xonly r' = oo_sponsor_xonly r"
    "oo_admin_xonly r' = oo_admin_xonly r" "oo_network r' = oo_network r" "oo_timelock r' = oo_timelock r"
  shows "escrow_descriptor_for x r' = escrow_descriptor_for x r"
  unfolding escrow_descriptor_for_def assms by (rule refl)

lemma escrow_touch [simp]: "escrow_descriptor_for x (touch t b r) = escrow_descriptor_for x r"
  by (rule escrow_cong) simp_all

lemma params_touch [simp]: "settlement_params_for x (touch t b r) m k f = settlement_params_for x r m k f"
  by (rule settlement_params_cong) simp_all

lemma facts_touch [simp]:
  "order_facts x (touch t b r) m = order_facts x r m" "deal_step r0 m0 (touch t b r) m = deal_step r0 m0 r m"
  unfolding order_facts_def party_ok_def escrow_ok_def terms_ok_def kind_ok_def presig_ok_def decided_ok_def
    deal_step_def same_deal_def same_claim_def same_terms_def touch_sel escrow_touch params_touch
  by (rule refl)+

text \<open>The release does not depend on the fee of a decision.\<close>

lemma release_params_cong:
  assumes "oo_customer_xonly r' = oo_customer_xonly r" "oo_sponsor_xonly r' = oo_sponsor_xonly r"
    "oo_admin_xonly r' = oo_admin_xonly r" "oo_network r' = oo_network r" "oo_timelock r' = oo_timelock r"
    "oo_funding_outpoint r' = oo_funding_outpoint r" "oo_amount r' = oo_amount r"
    "oo_release_fee r' = oo_release_fee r" "om_payout_address m' = om_payout_address m"
  shows "settlement_params_for x r' m' Release f' = settlement_params_for x r m Release f"
  unfolding settlement_params_for_def escrow_descriptor_for_def settlement_destination_def assms by simp

lemma presig_ok_cong:
  assumes "same_deal r m r' m'" and "same_claim r m r' m'" and "same_terms r m r' m'"
  shows "presig_ok x r' m' = presig_ok x r m"
proof -
  have "settlement_params_for x r' m' Release None = settlement_params_for x r m Release None"
    using assms by (intro release_params_cong) (simp_all add: same_deal_def same_claim_def same_terms_def)
  then show ?thesis using assms by (simp add: presig_ok_def same_claim_def same_terms_def)
qed

lemma params_cong:
  assumes "same_deal r m r' m'" and "same_claim r m r' m'" and "same_terms r m r' m'"
    and "oo_settlement_fee r' = oo_settlement_fee r"
  shows "settlement_params_for x r' m' k f = settlement_params_for x r m k f"
  using assms by (intro settlement_params_cong) (simp_all add: same_deal_def same_claim_def same_terms_def)

lemma escrow_ok_cong:
  assumes "same_deal r m r' m'" and "same_claim r m r' m'"
  shows "escrow_ok x r' = escrow_ok x r"
  using assms escrow_cong [of r' r x] by (simp add: escrow_ok_def same_deal_def same_claim_def)

lemma party_ok_move:
  assumes "party_ok x r" and "same_deal r m r' m'" and "same_claim r m r' m'"
    and "oo_state r' \<noteq> Oc_listed" and "oo_sponsor r \<noteq> None \<or> oo_state r' = Oc_cancelled"
  shows "party_ok x r'"
  using assms escrow_ok_cong [OF assms(2,3), of x]
  by (auto simp: party_ok_def same_deal_def same_claim_def split: option.splits)

lemma facts_sponsor:
  "order_facts x r m \<Longrightarrow> oo_state r \<notin> {Oc_listed, Oc_cancelled} \<Longrightarrow> oo_sponsor r \<noteq> None"
  by (auto simp: order_facts_def party_ok_def split: option.splits)

text \<open>A step that touches neither the escrow nor the terms.\<close>

lemma facts_move:
  assumes "order_facts x r m" and d: "same_deal r m r' m'" "same_claim r m r' m'" "same_terms r m r' m'"
    and "oo_state r' \<noteq> Oc_listed" and "oo_sponsor r \<noteq> None \<or> oo_state r' = Oc_cancelled"
    and "terms_ok r'" and "kind_ok r'"
    and "oo_state r' \<in> {Oc_presigned, Oc_remitted, Oc_disputed} \<Longrightarrow> presig_ok x r m"
    and "decided_ok x r' m'"
  shows "order_facts x r' m'"
  using assms(1,7-10) party_ok_move [OF _ d(1,2) assms(5,6)] presig_ok_cong [OF d]
    d(1) by (simp add: order_facts_def same_deal_def)

subsection \<open>The tables\<close>

definition candidate_purpose :: "candidate_info \<Rightarrow> hold_purpose" where
  "candidate_purpose c = (if is_sponsor_candidate c then Oc_sponsor_bond else Oc_customer_bond)"

definition candidate_key :: "oc_candidate \<Rightarrow> hex \<times> hold_purpose \<times> string \<times> string" where
  "candidate_key c = (cd_hash c, candidate_purpose (cd_info c), cd_order c, cd_party c)"

text \<open>
  A candidate belongs to the hold invoice with its hash.  A customer's waits for an order that does not exist yet, a
  sponsor's is for an open order of somebody else.
\<close>

definition candidate_ok :: "'m odb_scheme \<Rightarrow> oc_candidate \<Rightarrow> bool" where
  "candidate_ok w c \<longleftrightarrow> candidate_key c \<in> hold_keys w
     \<and> (case cd_info c of
          Cand_customer info _ \<Rightarrow> get_oc (cd_order c) w = None \<and> 0 < ci_amount info
        | Cand_sponsor _ _ \<Rightarrow> (\<exists>row. get_oc (cd_order c) w = Some row \<and> \<not> js_true_s (oo_designated (ow_order row))
            \<and> cd_party c \<noteq> oo_customer (ow_order row)))"

definition oc_inv :: "oc_env \<Rightarrow> 'm odb_scheme \<Rightarrow> bool" where
  "oc_inv x w \<longleftrightarrow> distinct (map ow_id (oc_orders w)) \<and> list_all (oc_row_ok x) (oc_orders w)
     \<and> distinct (map cd_hash (oc_candidates w)) \<and> list_all (candidate_ok w) (oc_candidates w)
     \<and> distinct (map cd_order (filter (\<lambda>c. \<not> is_sponsor_candidate (cd_info c)) (oc_candidates w)))"

definition oc_winv :: "oc_env \<Rightarrow> env \<Rightarrow> 'm odb_scheme \<Rightarrow> bool" where
  "oc_winv x e w \<longleftrightarrow> ln_winv e w \<and> oc_inv x w"

definition oc_evolve :: "'m odb_scheme \<Rightarrow> 'm odb_scheme \<Rightarrow> bool" where
  "oc_evolve w w' \<longleftrightarrow>
     (\<forall>oid row. get_oc oid w = Some row \<longrightarrow> (\<exists>row'. get_oc oid w' = Some row' \<and> oc_evolves row row'))"

definition oc_kept :: "oc_env \<Rightarrow> env \<Rightarrow> 'm odb_scheme \<Rightarrow> 'm odb_scheme \<Rightarrow> bool" where
  "oc_kept x e w w' \<longleftrightarrow> oc_winv x e w' \<and> orders_evolve w w' \<and> oc_evolve w w' \<and> holds_keep w w'
     \<and> q_now w' = q_now w \<and> inbox w' = inbox w"

definition oc_ok :: "oc_env \<Rightarrow> env \<Rightarrow> 'm odb_scheme \<Rightarrow> 'm odb_scheme \<Rightarrow> bool" where
  "oc_ok x e w w' \<longleftrightarrow> (oc_winv x e w \<longrightarrow> oc_kept x e w w')"

lemma oc_evolve_refl [simp]: "oc_evolve w w"
  by (simp add: oc_evolve_def)

lemma oc_evolve_trans: "oc_evolve u v \<Longrightarrow> oc_evolve v w \<Longrightarrow> oc_evolve u w"
  unfolding oc_evolve_def using oc_evolves_trans by meson

lemma oc_ok_refl [simp]: "oc_ok x e w w"
  by (simp add: oc_ok_def oc_kept_def)

lemma oc_ok_trans: "oc_ok x e u v \<Longrightarrow> oc_ok x e v w \<Longrightarrow> oc_ok x e u w"
  unfolding oc_ok_def oc_kept_def
  using orders_evolve_trans [of u v w] oc_evolve_trans [of u v w] holds_keep_trans [of u v w] by simp

lemma oc_okI: "(oc_winv x e w \<Longrightarrow> oc_ok x e w w') \<Longrightarrow> oc_ok x e w w'"
  by (auto simp: oc_ok_def)

lemma get_oc_Some: "get_oc oid w = Some row \<Longrightarrow> row \<in> set (oc_orders w) \<and> ow_id row = oid"
  by (auto simp: get_oc_def dest: find_Some_D)

lemma get_oc_id: "get_oc oid w = Some row \<Longrightarrow> get_oc (oo_id (ow_order row)) w = Some row"
  using get_oc_Some [of oid w row] by (simp add: ow_id_def)

lemma get_oc_cong: "oc_orders w' = oc_orders w \<Longrightarrow> get_oc oid w' = get_oc oid w"
  by (simp add: get_oc_def)

lemma oc_winv_facts: "oc_winv x e w \<Longrightarrow> get_oc oid w = Some row \<Longrightarrow> order_facts x (ow_order row) (ow_meta row)"
  by (auto simp: oc_winv_def oc_inv_def oc_row_ok_def list_all_iff dest: get_oc_Some)

lemma candidate_ok_keep:
  assumes "candidate_ok w c" and "holds_keep w w'" and "oc_orders w' = oc_orders w"
  shows "candidate_ok w' c"
  using assms get_oc_cong [OF assms(3)]
  by (auto simp: candidate_ok_def holds_keep_def split: candidate_info.splits)

text \<open>The Lightning track and the bookkeeping leave the on-chain tables alone.\<close>

lemma more_odb:
  "db.more w' = db.more w \<Longrightarrow> oc_orders w' = oc_orders w \<and> oc_candidates w' = oc_candidates w \<and> inbox w' = inbox w"
  for w :: "'m odb_scheme"
  by (cases w; cases w') simp

lemma oc_ok_ln:
  fixes w :: "'m odb_scheme"
  assumes "ln_ok e w w'"
  shows "oc_ok x e w w'"
proof (unfold oc_ok_def, intro impI)
  assume inv: "oc_winv x e w"
  then have ln: "ln_winv e w'" "orders_evolve w w'" "holds_keep w w'" "q_now w' = q_now w" "db.more w' = db.more w"
    using assms by (simp_all add: oc_winv_def ln_ok_def)
  from more_odb [OF ln(5)] have m: "oc_orders w' = oc_orders w" "oc_candidates w' = oc_candidates w" "inbox w' = inbox w"
    by simp_all
  have "oc_inv x w'"
    using inv candidate_ok_keep [OF _ ln(3) m(1)] by (auto simp: oc_winv_def oc_inv_def m list_all_iff)
  moreover have "oc_evolve w w'" by (simp add: oc_evolve_def get_oc_cong [OF m(1)])
  ultimately show "oc_kept x e w w'" using ln m by (simp add: oc_kept_def oc_winv_def)
qed

lemma oc_ok_quiet: "quiet w w' \<Longrightarrow> oc_ok x e w w'" for w :: "'m odb_scheme"
  using oc_ok_ln ln_ok_quiet by blast

lemma oc_ok_quiet_after: "oc_ok x e u v \<Longrightarrow> quiet v w \<Longrightarrow> oc_ok x e u w" for u :: "'m odb_scheme"
  using oc_ok_trans oc_ok_quiet by blast

lemma get_oc_quiet: "quiet w w' \<Longrightarrow> get_oc oid w' = get_oc oid w" for w :: "'m odb_scheme"
  using more_odb [OF quietD(6)] get_oc_cong by blast

text \<open>The tables of the Lightning track do not look at the on-chain ones.\<close>

lemma ln_winv_oc [simp]:
  "ln_winv e (w\<lparr>oc_orders := rs\<rparr>) = ln_winv e w" "ln_winv e (w\<lparr>oc_candidates := cs\<rparr>) = ln_winv e w"
  "ln_winv e (w\<lparr>oc_fees := f\<rparr>) = ln_winv e w" "orders_evolve w (w\<lparr>oc_orders := rs\<rparr>)"
  "orders_evolve w (w\<lparr>oc_candidates := cs\<rparr>)" "orders_evolve w (w\<lparr>oc_fees := f\<rparr>)"
  by (simp_all add: ln_winv_def hold_inv_def q_wf_def hold_wf_def ln_inv_def orders_evolve_def get_order_def)

subsection \<open>Changing one order\<close>

lemma oc_ok_row:
  fixes w :: "'m odb_scheme"
  assumes g: "get_oc oid w = Some row" and "ow_id (f row) = oid"
    and "oc_row_ok x row \<Longrightarrow> oc_row_ok x (f row)" and "oc_row_ok x row \<Longrightarrow> oc_evolves row (f row)"
  defines "w1 \<equiv> w\<lparr>oc_orders := update_where (\<lambda>r. ow_id r = oid) f (oc_orders w)\<rparr>"
  shows "oc_ok x e w w1" and "oc_winv x e w \<Longrightarrow> get_oc oid w1 = Some (f row)"
    and "oc_winv x e w \<Longrightarrow> i \<noteq> oid \<Longrightarrow> get_oc i w1 = get_oc i w"
proof -
  have get: "get_oc i w1 = (if i = oid then Some (f row) else get_oc i w)" and
    orders: "map ow_id (oc_orders w1) = map ow_id (oc_orders w)" and
    rows: "\<And>y. y \<in> set (oc_orders w1) \<Longrightarrow> y \<in> set (oc_orders w) \<or> y = f row"
    if "oc_winv x e w" for i
  proof -
    have d: "distinct (map ow_id (oc_orders w))" using that by (simp add: oc_winv_def oc_inv_def)
    note k = update_where_key [where k = ow_id and f = f, OF d g [unfolded get_oc_def] assms(2)]
    show "get_oc i w1 = (if i = oid then Some (f row) else get_oc i w)"
      using k(2) [of i] by (simp add: get_oc_def w1_def)
    show "map ow_id (oc_orders w1) = map ow_id (oc_orders w)" using k(1) by (simp add: w1_def)
    show "y \<in> set (oc_orders w1) \<Longrightarrow> y \<in> set (oc_orders w) \<or> y = f row" for y
      using k(3) [of y] by (simp add: w1_def)
  qed
  have rin: "row \<in> set (oc_orders w)" using get_oc_Some [OF g] by blast
  show "oc_winv x e w \<Longrightarrow> get_oc oid w1 = Some (f row)" using get by simp
  show "oc_winv x e w \<Longrightarrow> i \<noteq> oid \<Longrightarrow> get_oc i w1 = get_oc i w" using get by simp
  show "oc_ok x e w w1"
  proof (unfold oc_ok_def, intro impI)
    assume inv: "oc_winv x e w"
    have ok: "oc_row_ok x row" using inv rin by (simp add: oc_winv_def oc_inv_def list_all_iff)
    have ev: "oc_evolves row (f row)" using assms(4) [OF ok] .
    have "candidate_ok w1 c" if "candidate_ok w c" for c
    proof -
      have k: "hold_keys w1 = hold_keys w" by (simp add: hold_keys_def w1_def)
      have deal: "oo_designated (ow_order (f row)) = oo_designated (ow_order row)"
        "oo_customer (ow_order (f row)) = oo_customer (ow_order row)"
        using ev by (simp_all add: oc_evolves_def deal_step_def same_deal_def)
      show ?thesis using that g deal
        by (cases "cd_info c") (auto simp: candidate_ok_def k get [OF inv])
    qed
    then have "oc_inv x w1"
      using inv rows [OF inv] assms(3) [OF ok] orders [OF inv]
      by (auto simp: oc_winv_def oc_inv_def list_all_iff w1_def)
    moreover have "oc_evolve w w1" using ev g by (auto simp: oc_evolve_def get [OF inv])
    moreover have "ln_winv e w1" "orders_evolve w w1" using inv by (simp_all add: w1_def oc_winv_def)
    ultimately show "oc_kept x e w w1" by (simp add: oc_kept_def oc_winv_def w1_def)
  qed
qed

text \<open>\<open>update_oc\<close>: the step must keep the facts and the deal; the transition is checked by the operation itself.\<close>

lemma update_oc_result:
  assumes "update_oc oid patch mp w = Some (r', w')" and "get_oc oid w = Some row"
  shows "r' = touch (now_sec w) (ow_order row) (patch (ow_order row))"
    and "quiet (w\<lparr>oc_orders := update_where (\<lambda>r. ow_id r = oid) (put_oc (now_sec w) patch mp) (oc_orders w)\<rparr>) w'"
    and "oo_state (patch (ow_order row)) = oo_state (ow_order row)
         \<or> can_onchain_transition (oo_state (ow_order row)) (oo_state (patch (ow_order row)))"
  using assms by (auto simp: update_oc_def Let_def split: if_splits)

lemma put_oc_sel [simp]:
  "ow_order (put_oc t p mp row) = touch t (ow_order row) (p (ow_order row))"
  "ow_meta (put_oc t p mp row) = mp (ow_meta row)" "ow_version (put_oc t p mp row) = Suc (ow_version row)"
  "ow_published (put_oc t p mp row) = ow_published row"
  by (simp_all add: put_oc_def)

lemma update_oc_ok:
  fixes w :: "'m odb_scheme"
  assumes u: "update_oc oid patch mp w = Some (r', w')" and g: "get_oc oid w = Some row"
    and facts: "order_facts x (ow_order row) (ow_meta row)
      \<Longrightarrow> order_facts x (patch (ow_order row)) (mp (ow_meta row))
        \<and> deal_step (ow_order row) (ow_meta row) (patch (ow_order row)) (mp (ow_meta row))"
  shows "oc_ok x e w w'"
    and "oc_winv x e w \<Longrightarrow> get_oc oid w' = Some (put_oc (now_sec w) patch mp row)"
proof -
  let ?f = "put_oc (now_sec w) patch mp"
  let ?w1 = "w\<lparr>oc_orders := update_where (\<lambda>r. ow_id r = oid) ?f (oc_orders w)\<rparr>"
  note u' = update_oc_result [OF u g]
  have rid: "oo_id (ow_order row) = oid" using get_oc_Some [OF g] by (simp add: ow_id_def)
  have inv: "oc_winv x e w \<Longrightarrow> oc_row_ok x row"
    using get_oc_Some [OF g] by (auto simp: oc_winv_def oc_inv_def list_all_iff)
  have keep: "oc_row_ok x (?f row) \<and> oc_evolves row (?f row) \<and> ow_id (?f row) = oid" if "oc_row_ok x row"
  proof -
    have "order_facts x (ow_order row) (ow_meta row)" using that by (simp add: oc_row_ok_def)
    from facts [OF this] have f: "order_facts x (patch (ow_order row)) (mp (ow_meta row))"
      "deal_step (ow_order row) (ow_meta row) (patch (ow_order row)) (mp (ow_meta row))" by blast+
    then have "oo_id (patch (ow_order row)) = oid" using rid by (simp add: deal_step_def same_deal_def)
    with f u'(3) show ?thesis by (auto simp: oc_row_ok_def oc_evolves_def ow_id_def)
  qed
  have ok: "oc_ok x e w ?w1" and get: "oc_winv x e w \<Longrightarrow> get_oc oid ?w1 = Some (?f row)"
  proof -
    show "oc_ok x e w ?w1"
      by (rule oc_okI) (use keep [OF inv] in \<open>intro oc_ok_row(1) [OF g, of ?f]; simp\<close>)
    show "oc_winv x e w \<Longrightarrow> get_oc oid ?w1 = Some (?f row)"
      using keep [OF inv] oc_ok_row(2) [OF g, of ?f x e] by simp
  qed
  show "oc_ok x e w w'" using ok u'(2) by (rule oc_ok_quiet_after)
  show "oc_winv x e w \<Longrightarrow> get_oc oid w' = Some (?f row)" using get get_oc_quiet [OF u'(2)] by simp
qed

end
