(* ===== verification/Results.thy ===== *)
theory Results
  imports Lnpay_Prelude
begin

text \<open>
  Weakest preconditions for the results an operation can have: a state, or a value with a state, or an exception
  (\<open>None\<close>).  \<open>ok_state\<close> and \<open>ok_result\<close> say that whatever state comes out stands in the relation \<open>R\<close> to the one that
  went in; the rules take a definition apart along its \<open>do\<close> blocks, \<open>if\<close>s and \<open>case\<close>s.
\<close>

definition ok_state :: "('w \<Rightarrow> 'w \<Rightarrow> bool) \<Rightarrow> 'w \<Rightarrow> 'w option \<Rightarrow> bool" where
  "ok_state R w r \<longleftrightarrow> (\<forall>w'. r = Some w' \<longrightarrow> R w w')"

definition ok_result :: "('w \<Rightarrow> 'w \<Rightarrow> bool) \<Rightarrow> 'w \<Rightarrow> ('a \<times> 'w) option \<Rightarrow> bool" where
  "ok_result R w r \<longleftrightarrow> (\<forall>a w'. r = Some (a, w') \<longrightarrow> R w w')"

lemma ok_stateD: "ok_state R w r \<Longrightarrow> r = Some w' \<Longrightarrow> R w w'"
  by (simp add: ok_state_def)

lemma ok_stateI: "(\<And>w'. r = Some w' \<Longrightarrow> R w w') \<Longrightarrow> ok_state R w r"
  by (simp add: ok_state_def)

lemma ok_resultD: "ok_result R w r \<Longrightarrow> r = Some (a, w') \<Longrightarrow> R w w'"
  by (simp add: ok_result_def)

lemma ok_resultI: "(\<And>a w'. r = Some (a, w') \<Longrightarrow> R w w') \<Longrightarrow> ok_result R w r"
  by (simp add: ok_result_def)

named_theorems ok_rules \<open>taking results apart\<close>

lemma ok_end [ok_rules]:
  "ok_state R w None" "ok_result R w None" "R w w' \<Longrightarrow> ok_state R w (Some w')" "R w w' \<Longrightarrow> ok_result R w (Some (a, w'))"
  by (simp_all add: ok_state_def ok_result_def)

lemma ok_if [ok_rules]:
  "(b \<Longrightarrow> ok_state R w p) \<Longrightarrow> (\<not> b \<Longrightarrow> ok_state R w q) \<Longrightarrow> ok_state R w (if b then p else q)"
  "(b \<Longrightarrow> ok_result R w p') \<Longrightarrow> (\<not> b \<Longrightarrow> ok_result R w q') \<Longrightarrow> ok_result R w (if b then p' else q')"
  by simp_all

lemma ok_option [ok_rules]:
  "(v = None \<Longrightarrow> ok_state R w p) \<Longrightarrow> (\<And>y. v = Some y \<Longrightarrow> ok_state R w (f y))
     \<Longrightarrow> ok_state R w (case v of None \<Rightarrow> p | Some y \<Rightarrow> f y)"
  "(v = None \<Longrightarrow> ok_result R w p') \<Longrightarrow> (\<And>y. v = Some y \<Longrightarrow> ok_result R w (g y))
     \<Longrightarrow> ok_result R w (case v of None \<Rightarrow> p' | Some y \<Rightarrow> g y)"
  by (simp_all split: option.split)

lemma ok_prod [ok_rules]:
  "(\<And>a b. z = (a, b) \<Longrightarrow> ok_state R w (f a b)) \<Longrightarrow> ok_state R w (case z of (a, b) \<Rightarrow> f a b)"
  "(\<And>a b. z = (a, b) \<Longrightarrow> ok_result R w (g a b)) \<Longrightarrow> ok_result R w (case z of (a, b) \<Rightarrow> g a b)"
  by (simp_all split: prod.split)

lemma ok_let [ok_rules]:
  "(\<And>y. y = v \<Longrightarrow> ok_state R w (f y)) \<Longrightarrow> ok_state R w (Let v f)"
  "(\<And>y. y = v \<Longrightarrow> ok_result R w (g y)) \<Longrightarrow> ok_result R w (Let v g)"
  by (simp_all add: Let_def)

text \<open>A value looked up on the way leaves the state alone; a step changes it.\<close>

lemma ok_bind_value:
  "(\<And>y. v = Some y \<Longrightarrow> ok_state R w (f y)) \<Longrightarrow> ok_state R w (Option.bind v f)"
  "(\<And>y. v = Some y \<Longrightarrow> ok_result R w (g y)) \<Longrightarrow> ok_result R w (Option.bind v g)"
  by (cases v; simp add: ok_state_def ok_result_def)+

lemma ok_bind_step:
  assumes "transp R"
  shows "ok_result R w m \<Longrightarrow> (\<And>a w1. m = Some (a, w1) \<Longrightarrow> ok_state R w1 (f a w1)) \<Longrightarrow> ok_state R w (Option.bind m (case_prod f))"
    and "ok_result R w m \<Longrightarrow> (\<And>a w1. m = Some (a, w1) \<Longrightarrow> ok_result R w1 (g a w1))
      \<Longrightarrow> ok_result R w (Option.bind m (case_prod g))"
    and "ok_state R w n \<Longrightarrow> (\<And>w1. n = Some w1 \<Longrightarrow> ok_state R w1 (f' w1)) \<Longrightarrow> ok_state R w (Option.bind n f')"
    and "ok_state R w n \<Longrightarrow> (\<And>w1. n = Some w1 \<Longrightarrow> ok_result R w1 (g' w1)) \<Longrightarrow> ok_result R w (Option.bind n g')"
  by (auto simp: ok_state_def ok_result_def bind_eq_Some_conv intro: transpD [OF assms])

text \<open>What is done with the result of a step.\<close>

lemma ok_map:
  "(\<And>a w1. m = Some (a, w1) \<Longrightarrow> R w (h a w1)) \<Longrightarrow> ok_state R w (map_option (case_prod h) m)"
  "(\<And>a w1. m = Some (a, w1) \<Longrightarrow> R w (snd (k a w1))) \<Longrightarrow> ok_result R w (map_option (case_prod k) m)"
  "(\<And>w1. n = Some w1 \<Longrightarrow> R w (h' w1)) \<Longrightarrow> ok_state R w (map_option h' n)"
  "(\<And>w1. n = Some w1 \<Longrightarrow> R w (snd (k' w1))) \<Longrightarrow> ok_result R w (map_option k' n)"
  "ok_result R w m \<Longrightarrow> ok_state R w (map_option snd m)"
  "ok_state R w n \<Longrightarrow> ok_result R w (map_option (Pair c) n)"
  by (auto simp: ok_state_def ok_result_def)

lemma ok_map_step:
  assumes "transp R"
  shows "ok_result R w m \<Longrightarrow> (\<And>a w1. m = Some (a, w1) \<Longrightarrow> R w1 (snd (k a w1))) \<Longrightarrow> ok_result R w (map_option (case_prod k) m)"
    and "ok_result R w m \<Longrightarrow> (\<And>a w1. m = Some (a, w1) \<Longrightarrow> R w1 (h a w1)) \<Longrightarrow> ok_state R w (map_option (case_prod h) m)"
  by (auto simp: ok_state_def ok_result_def intro: transpD [OF assms])

end
