(* ===== verification/Oc_Bonds_Inv.thy ===== *)
theory Oc_Bonds_Inv
  imports Oc_Inv Results
begin

text \<open>
  The bonds keep the invariant of the on-chain tables: listing an order, the claim, giving back and taking bonds, and the
  hooks of the hold invoices.
\<close>

subsection \<open>Steps on the tables\<close>

text \<open>What a step promises apart from the on-chain tables.\<close>

definition base_ok :: "env \<Rightarrow> 'm odb_scheme \<Rightarrow> 'm odb_scheme \<Rightarrow> bool" where
  "base_ok e w w' \<longleftrightarrow> (ln_winv e w \<longrightarrow> ln_winv e w' \<and> orders_evolve w w' \<and> holds_keep w w'
     \<and> q_now w' = q_now w \<and> inbox w' = inbox w)"

lemma base_ok_trans: "base_ok e u v \<Longrightarrow> base_ok e v w \<Longrightarrow> base_ok e u w"
  unfolding base_ok_def using orders_evolve_trans holds_keep_trans by fastforce

lemma base_ok_quiet: "quiet w w' \<Longrightarrow> base_ok e w w'" for w :: "'m odb_scheme"
  using ln_ok_quiet [of w w' e] more_odb [of w' w] by (auto simp: base_ok_def ln_ok_def)

lemma base_ok_tables [simp]:
  "base_ok e w (w\<lparr>oc_orders := rs\<rparr>)" "base_ok e w (w\<lparr>oc_candidates := cs\<rparr>)" "base_ok e w (w\<lparr>oc_fees := f\<rparr>)"
  by (simp_all add: base_ok_def holds_keep_same)

lemma oc_okB:
  assumes "base_ok e w w'" and "oc_winv x e w \<Longrightarrow> oc_inv x w'" and "oc_winv x e w \<Longrightarrow> oc_evolve w w'"
  shows "oc_ok x e w w'"
  using assms by (auto simp: oc_ok_def oc_kept_def oc_winv_def base_ok_def)

lemma oc_ok_fees [simp]: "oc_ok x e w (save_fees fees t w)"
  by (rule oc_okB)
    (auto simp: save_fees_def oc_winv_def oc_inv_def oc_evolve_def get_oc_def candidate_ok_def hold_keys_def list_all_iff
      split: candidate_info.splits)

lemma distinct_filter_filter:
  "distinct (map k (filter P xs)) \<Longrightarrow> distinct (map k (filter P (filter Q xs)))"
proof -
  assume d: "distinct (map k (filter P xs))"
  have "filter P (filter Q xs) = filter Q (filter P xs)" by (simp add: conj_commute)
  then show ?thesis using distinct_map_filter [OF d, of Q] by metis
qed

lemma delete_candidate_ok [simp]: "oc_ok x e w (delete_candidate h w)"
proof (rule oc_okB)
  show "base_ok e w (delete_candidate h w)" by (simp add: delete_candidate_def)
  assume inv: "oc_winv x e w"
  have "candidate_ok (delete_candidate h w) c = candidate_ok w c" for c
    by (simp add: candidate_ok_def delete_candidate_def get_oc_def hold_keys_def cong: candidate_info.case_cong)
  with inv show "oc_inv x (delete_candidate h w)"
    by (auto simp: oc_winv_def oc_inv_def delete_candidate_def list_all_iff distinct_map_filter distinct_filter_filter
        simp del: filter_filter)
  show "oc_evolve w (delete_candidate h w)" by (simp add: oc_evolve_def delete_candidate_def get_oc_def)
qed

lemma get_oc_delete [simp]: "get_oc oid (delete_candidate h w) = get_oc oid w"
  by (simp add: delete_candidate_def get_oc_def)

text \<open>The parts of the private half that the facts of an order rest on.\<close>

definition same_meta :: "oc_meta \<Rightarrow> oc_meta \<Rightarrow> bool" where
  "same_meta m m' \<longleftrightarrow> om_payout_address m' = om_payout_address m \<and> om_feerate m' = om_feerate m
     \<and> om_presig m' = om_presig m \<and> om_refund_address m' = om_refund_address m"

lemma same_meta_facts: "same_meta m m' \<Longrightarrow> order_facts x r m' = order_facts x r m"
  unfolding order_facts_def decided_ok_def presig_ok_def same_meta_def
  by (simp add: settlement_params_cong [of r r m' m])

lemma same_meta_step: "same_meta m m' \<Longrightarrow> deal_step r m r m'"
  by (simp add: same_meta_def deal_step_def same_deal_def same_claim_def same_terms_def kind_step_def)

lemma oc_ok_same_meta:
  assumes "\<And>row. ow_order (f row) = ow_order row \<and> same_meta (ow_meta row) (ow_meta (f row)) \<and> ow_version (f row) = ow_version row"
    and "get_oc oid w = Some row"
  shows "oc_ok x e w (w\<lparr>oc_orders := update_where (\<lambda>r. ow_id r = oid) f (oc_orders w)\<rparr>)"
proof (rule oc_ok_row(1) [OF assms(2)])
  show "ow_id (f row) = oid" using assms get_oc_Some [OF assms(2)] by (simp add: ow_id_def)
  show "oc_row_ok x row \<Longrightarrow> oc_row_ok x (f row)" using assms(1) [of row] same_meta_facts by (auto simp: oc_row_ok_def)
  show "oc_row_ok x row \<Longrightarrow> oc_evolves row (f row)" using assms(1) [of row] same_meta_step by (simp add: oc_evolves_def)
qed

lemma update_oc_meta_ok:
  assumes "\<And>m. same_meta m (mp m)"
  shows "oc_ok x e w (update_oc_meta oid mp w)"
proof (cases "get_oc oid w")
  case (Some row)
  have "oc_ok x e w (w\<lparr>oc_orders := update_where (\<lambda>r. ow_id r = oid) (\<lambda>r. r\<lparr>ow_meta := mp (ow_meta r)\<rparr>) (oc_orders w)\<rparr>)"
    by (rule oc_ok_same_meta [OF _ Some]) (simp add: assms)
  then show ?thesis using Some by (simp add: update_oc_meta_def oc_ok_quiet_after)
qed (simp add: update_oc_meta_def)

lemma get_oc_none_update:
  assumes "get_oc oid w = None"
  shows "update_where (\<lambda>r. ow_id r = oid) f (oc_orders w) = oc_orders w"
proof -
  have "\<forall>r \<in> set (oc_orders w). ow_id r \<noteq> oid" using assms by (auto simp: get_oc_def find_None_iff)
  then show ?thesis by (auto simp: update_where_def intro!: map_idI)
qed

text \<open>Results of the operations, taken apart (\<open>Results\<close>).\<close>

lemma oc_ok_transp: "transp (oc_ok x e)"
  by (rule transpI) (rule oc_ok_trans)

lemmas oc_bind = ok_bind_step [OF oc_ok_transp]

lemmas oc_wp = oc_bind ok_bind_value ok_rules

lemma oc_ok_told: "oc_ok x e u v \<Longrightarrow> send_oc_sign_request e' oid rc pu t v = Some w \<Longrightarrow> oc_ok x e u w"
  for u :: "'m odb_scheme"
  by (rule oc_ok_quiet_after [OF _ quiet_sign_request])

subsection \<open>Carrying out an outcome\<close>

lemma quiet_apply_bond [simp]: "quiet w (apply_bond h b w)"
  by (simp add: apply_bond_def split: option.split)

lemma quiet_apply_outcome [simp]: "quiet w (apply_outcome e r out w)"
  unfolding apply_outcome_def Let_def
  by (simp add: quiet_trans [OF quiet_apply_bond quiet_apply_bond]
      quiet_trans [OF quiet_trans [OF quiet_apply_bond quiet_apply_bond] quiet_raise_alert])

lemma dispose_candidate_ok: "oc_ok x e w (delete_candidate h (hold_dispose h a w))"
  by (rule oc_ok_trans [OF oc_ok_quiet [OF quiet_hold_dispose] delete_candidate_ok])

lemma fold_ok:
  assumes "\<And>c v. oc_ok x e v (f c v)"
  shows "oc_ok x e w (fold f cs w)"
  by (induction cs arbitrary: w) (auto intro: oc_ok_trans assms)

lemma drop_sponsor_candidates_ok [simp]: "oc_ok x e w (drop_sponsor_candidates oid except w)"
  unfolding drop_sponsor_candidates_def by (rule fold_ok) (simp add: dispose_candidate_ok)

lemma get_oc_drop [simp]: "get_oc i (drop_sponsor_candidates oid except w) = get_oc i w"
proof -
  have "get_oc i (fold (\<lambda>c v. if \<not> is_sponsor_candidate (cd_info c) \<or> Some (cd_hash c) = except then v
      else delete_candidate (cd_hash c) (hold_dispose (cd_hash c) Want_cancel v)) cs w) = get_oc i w" for cs
    by (induction cs arbitrary: w) (simp_all add: get_oc_quiet [OF quiet_hold_dispose])
  then show ?thesis by (simp add: drop_sponsor_candidates_def)
qed

subsection \<open>The listing\<close>

text \<open>A new order comes in, and the candidates that waited for it go.\<close>

lemma insert_row_ok:
  fixes w :: "'m odb_scheme"
  assumes none: "get_oc (ow_id row) w = None" and row: "oc_row_ok x row" and base: "base_ok e w w'"
    and orders: "oc_orders w' = oc_orders w @ [row]" and cands: "oc_candidates w' = filter Q (oc_candidates w)"
    and gone: "oc_winv x e w \<Longrightarrow> \<forall>c \<in> set (oc_candidates w). cd_order c = ow_id row \<longrightarrow> \<not> Q c"
  shows "oc_ok x e w w'" and "get_oc i w' = (if i = ow_id row then Some row else get_oc i w)"
proof -
  have new: "ow_id row \<notin> ow_id ` set (oc_orders w)"
    using none by (auto simp: get_oc_def find_None_iff)
  have get: "get_oc i w' = (if i = ow_id row then Some row else get_oc i w)" for i
    using none by (auto simp: get_oc_def orders find_append split: option.split)
  then show "get_oc i w' = (if i = ow_id row then Some row else get_oc i w)" .
  show "oc_ok x e w w'"
  proof (rule oc_okB [OF base])
    assume inv: "oc_winv x e w"
    then have hk: "holds_keep w w'" using base by (simp add: oc_winv_def base_ok_def)
    have "candidate_ok w' c" if "c \<in> set (oc_candidates w)" "Q c" for c
    proof -
      have "candidate_ok w c" "cd_order c \<noteq> ow_id row"
        using that inv gone [OF inv] by (auto simp: oc_winv_def oc_inv_def list_all_iff)
      then show ?thesis using hk by (auto simp: candidate_ok_def get holds_keep_def split: candidate_info.splits)
    qed
    then show "oc_inv x w'"
      using inv new row by (auto simp: oc_winv_def oc_inv_def orders cands list_all_iff distinct_map_filter
          distinct_filter_filter simp del: filter_filter)
    show "oc_evolve w w'" using none by (auto simp: oc_evolve_def get)
  qed
qed

lemma oc_tables_quiet:
  "quiet w w' \<Longrightarrow> oc_orders w' = oc_orders w \<and> oc_candidates w' = oc_candidates w" for w :: "'m odb_scheme"
  using more_odb [OF quietD(6)] by blast

lemma insert_oc_result:
  assumes "insert_oc e order meta w = Some w'"
  shows "get_oc (oo_id order) w = None"
    and "quiet (w\<lparr>oc_orders := oc_orders w @ [\<lparr>ow_order = order, ow_meta = meta, ow_version = 1, ow_published = 0\<rparr>]\<rparr>) w'"
proof -
  let ?w1 = "w\<lparr>oc_orders := oc_orders w @ [\<lparr>ow_order = order, ow_meta = meta, ow_version = 1, ow_published = 0\<rparr>]\<rparr>"
  show n: "get_oc (oo_id order) w = None" using assms by (auto simp: insert_oc_def split: if_splits)
  obtain over w2 where ov: "designated_quiet_over ''dm:onchain'' (request_oc_projection (oo_id order) ?w1) = (over, w2)"
    by force
  note q2 = quiet_trans [OF quiet_oc_requests(2) quiet_over [OF ov]]
  show "quiet ?w1 w'"
    using assms n ov q2 quiet_trans [OF q2 quiet_notify_operators] quiet_trans [OF quiet_oc_requests(2) quiet_notify_operators]
    by (auto simp: insert_oc_def Let_def split: if_splits)
qed

lemma quiet_deposit_status [simp]: "quiet w (send_oc_deposit_status e oid rc st h w)"
  by simp

lemma bond_taken_result:
  fixes w :: "'m odb_scheme"
  shows "base_ok e w (bond_taken e oid party bond w)" and "oc_ok x e w (bond_taken e oid party bond w)"
    and "get_oc i (bond_taken e oid party bond w) = get_oc i w"
    and "oc_orders (bond_taken e oid party bond w) = oc_orders w"
    and "oc_candidates (bond_taken e oid party bond w)
       = filter (\<lambda>c. \<forall>b. bond = Some b \<longrightarrow> cd_hash c \<noteq> fst b) (oc_candidates w)"
proof -
  have q: "quiet (delete_candidate h w) (send_oc_deposit_status e oid party Dep_accepted h (delete_candidate h w))" for h
    by simp
  show "base_ok e w (bond_taken e oid party bond w)"
    using base_ok_trans [OF base_ok_tables(2) base_ok_quiet [OF q [unfolded delete_candidate_def]]]
    by (auto simp: bond_taken_def delete_candidate_def base_ok_quiet split: option.split)
  show "oc_ok x e w (bond_taken e oid party bond w)"
    using oc_ok_quiet_after [OF delete_candidate_ok q] by (auto simp: bond_taken_def split: option.split)
  show "get_oc i (bond_taken e oid party bond w) = get_oc i w"
    using get_oc_quiet [OF q] by (auto simp: bond_taken_def split: option.split)
  show "oc_orders (bond_taken e oid party bond w) = oc_orders w"
    "oc_candidates (bond_taken e oid party bond w)
       = filter (\<lambda>c. \<forall>b. bond = Some b \<longrightarrow> cd_hash c \<noteq> fst b) (oc_candidates w)"
    using oc_tables_quiet [OF q] by (auto simp: bond_taken_def delete_candidate_def split: option.split)
qed

lemma new_order_facts:
  assumes "0 < ci_amount info"
  shows "order_facts x (new_oc_order x oid customer info bond designated now) m"
  using assms
  by (simp add: new_oc_order_def order_facts_def party_ok_def terms_ok_def kind_ok_def decided_ok_def)

lemma new_oc_order_sel [simp]:
  "oo_id (new_oc_order x oid customer info bond designated now) = oid"
  "oo_state (new_oc_order x oid customer info bond designated now) = Oc_listed"
  by (simp_all add: new_oc_order_def)

lemma list_oc_ok:
  fixes w :: "'m odb_scheme"
  assumes l: "list_oc x e oid customer info bond designated w = Some w'" and amt: "oc_winv x e w \<Longrightarrow> 0 < ci_amount info"
    and gone: "oc_winv x e w \<Longrightarrow> \<forall>c \<in> set (oc_candidates w). cd_order c = oid \<longrightarrow> (\<exists>b. bond = Some b \<and> cd_hash c = fst b)"
  shows "oc_ok x e w w'"
proof (rule oc_okI)
  assume inv: "oc_winv x e w"
  let ?order = "new_oc_order x oid customer info bond designated (now_sec w)"
  let ?meta = "empty_meta\<lparr>om_refund_address := Some (ci_refund info), om_customer_bond_expires := bond_expiry bond w\<rparr>"
  let ?row = "\<lparr>ow_order = ?order, ow_meta = ?meta, ow_version = 1, ow_published = 0\<rparr>"
  obtain w1 where i: "insert_oc e ?order ?meta w = Some w1" and w': "w' = bond_taken e oid customer bond w1"
    using l by (auto simp: list_oc_def)
  note r = insert_oc_result [OF i, simplified new_oc_order_sel]
  have rid: "ow_id ?row = oid" by (simp add: ow_id_def)
  note b = bond_taken_result [where e = e and w = w1 and oid = oid and party = customer and bond = bond]
  show "oc_ok x e w w'"
  proof (rule insert_row_ok(1))
    show "get_oc (ow_id ?row) w = None" using r(1) rid by simp
    show "oc_row_ok x ?row" using new_order_facts [OF amt [OF inv]] by (simp add: oc_row_ok_def)
    show "base_ok e w w'" unfolding w'
      by (rule base_ok_trans [OF base_ok_trans [OF base_ok_tables(1) base_ok_quiet [OF r(2)]] b(1)])
    show "oc_orders w' = oc_orders w @ [?row]" using oc_tables_quiet [OF r(2)] by (simp add: w' b(4))
    show "oc_candidates w' = filter (\<lambda>c. \<forall>b. bond = Some b \<longrightarrow> cd_hash c \<noteq> fst b) (oc_candidates w)"
      using oc_tables_quiet [OF r(2)] by (simp add: w' b(5))
    show "\<forall>c \<in> set (oc_candidates w). cd_order c = ow_id ?row \<longrightarrow> \<not> (\<forall>b. bond = Some b \<longrightarrow> cd_hash c \<noteq> fst b)"
      using gone [OF inv] rid by auto
  qed
qed

subsection \<open>The claim\<close>

lemma bonded_escrow:
  assumes "claimed_escrow x r (si_xonly info) = Some d"
  shows "escrow_descriptor_for x (bonded_with x sponsor info d now bond r) = Some d"
  using assms derive_deterministic
  by (auto simp: claimed_escrow_def escrow_descriptor_for_def bonded_with_def split: option.splits)

lemma bonded_facts:
  assumes "order_facts x r m" and "oo_state r = Oc_listed" and "claimed_escrow x r (si_xonly info) = Some d"
    and "sponsor \<noteq> oo_customer r" and "js_true_s (oo_designated r) \<Longrightarrow> oo_designated r = Some sponsor"
    and "om_refund_address m' = om_refund_address m"
  shows "order_facts x (bonded_with x sponsor info d now bond r) m'"
    and "deal_step r m (bonded_with x sponsor info d now bond r) m'"
proof -
  let ?r = "bonded_with x sponsor info d now bond r"
  have sel: "oo_state ?r = Oc_bonded" "oo_sponsor ?r = Some sponsor" "oo_customer ?r = oo_customer r"
    "oo_designated ?r = oo_designated r" "oo_escrow_address ?r = Some (ed_address d)" "oo_amount ?r = oo_amount r"
    "oo_settlement_kind ?r = oo_settlement_kind r"
    by (simp_all add: bonded_with_def)
  have kind: "oo_settlement_kind r = None" using assms(1,2) by (simp add: order_facts_def kind_ok_def)
  have sponsor: "oo_sponsor r = None" using assms(1,2) by (auto simp: order_facts_def party_ok_def split: option.splits)
  have "escrow_ok x ?r" using bonded_escrow [OF assms(3)] sel(5) by (auto simp: escrow_ok_def)
  then show "order_facts x ?r m'"
    using assms(1,4,5) kind by (simp add: order_facts_def party_ok_def terms_ok_def kind_ok_def decided_ok_def sel)
  show "deal_step r m ?r m'"
    using assms(2,6) sponsor by (simp add: deal_step_def same_deal_def FROZEN_def kind_step_def bonded_with_def)
qed

lemma bond_oc_ok:
  fixes w :: "'m odb_scheme"
  assumes b: "bond_oc x e row sponsor info bond w = Some (res, w')" and g: "get_oc (oo_id (ow_order row)) w = Some row"
    and listed: "oo_state (ow_order row) = Oc_listed"
    and who: "oc_winv x e w \<Longrightarrow> sponsor \<noteq> oo_customer (ow_order row)
       \<and> (js_true_s (oo_designated (ow_order row)) \<longrightarrow> oo_designated (ow_order row) = Some sponsor)"
  shows "oc_ok x e w w'"
proof (rule oc_okI)
  assume inv: "oc_winv x e w"
  let ?oid = "oo_id (ow_order row)"
  show "oc_ok x e w w'"
  proof (cases "claimed_escrow x (ow_order row) (si_xonly info)")
    case None
    with b show ?thesis by (simp add: bond_oc_def Let_def)
  next
    case (Some d)
    obtain bonded w1 v where
      u: "update_oc ?oid (bonded_with x sponsor info d (now_sec w) bond) (claim_meta info (bond_expiry bond w)) w = Some (bonded, w1)"
      and w': "w' = drop_sponsor_candidates ?oid None (notify_oc_transition e bonded v (bond_taken e ?oid sponsor bond w1))"
      using b Some by (auto simp: bond_oc_def Let_def bind_Some_iff)
    have "oc_ok x e w w1"
      by (rule update_oc_ok(1) [OF u g])
        (use bonded_facts [OF _ listed Some, where sponsor = sponsor] who [OF inv] in \<open>simp add: claim_meta_def\<close>)
    then have "oc_ok x e w (bond_taken e ?oid sponsor bond w1)" by (rule oc_ok_trans [OF _ bond_taken_result(2)])
    then show ?thesis unfolding w'
      by (rule oc_ok_trans [OF oc_ok_quiet_after [OF _ quiet_notify_oc_transition] drop_sponsor_candidates_ok])
  qed
qed

subsection \<open>The hooks\<close>

lemma hold_keys_unique:
  assumes "hold_wf e w" and "k \<in> hold_keys w" and "k' \<in> hold_keys w" and "fst k = fst k'"
  shows "k = k'"
proof -
  obtain r r' where r: "r \<in> set (invoices w)" "k = hold_key r" "r' \<in> set (invoices w)" "k' = hold_key r'"
    using assms(2,3) by (auto simp: hold_keys_def)
  then have "h_hash r = h_hash r'" using assms(4) by (simp add: hold_key_def)
  then have "r = r'" using r assms(1) unfolding hold_wf_def by (metis distinct_map inj_onD)
  then show ?thesis using r by simp
qed

text \<open>The invoice with the hash of a candidate is the candidate's.\<close>

lemma candidate_invoice:
  assumes "oc_winv x e w" and "get_candidate (h_hash iv) w = Some c" and "hold_key iv \<in> hold_keys w"
  shows "c \<in> set (oc_candidates w)" and "candidate_ok w c" and "cd_hash c = h_hash iv"
    and "cd_order c = h_order iv" and "cd_party c = h_party iv"
proof -
  show c: "c \<in> set (oc_candidates w)" "cd_hash c = h_hash iv"
    using assms(2) by (auto simp: get_candidate_def dest: find_Some_D)
  show ok: "candidate_ok w c" using c(1) assms(1) by (auto simp: oc_winv_def oc_inv_def list_all_iff)
  have "hold_wf e w" using assms(1) by (simp add: oc_winv_def ln_winv_def hold_inv_def)
  moreover have "candidate_key c \<in> hold_keys w" using ok by (simp add: candidate_ok_def)
  moreover have "fst (candidate_key c) = fst (hold_key iv)" by (simp add: candidate_key_def hold_key_def c(2))
  ultimately have "candidate_key c = hold_key iv" using hold_keys_unique assms(3) by blast
  then show "cd_order c = h_order iv" "cd_party c = h_party iv" by (simp_all add: candidate_key_def hold_key_def)
qed

lemma on_customer_bond_ok:
  assumes r: "on_customer_bond x e iv info cltv w = Some w'" and k: "hold_key iv \<in> hold_keys w"
    and c: "get_candidate (h_hash iv) w = Some c" and i: "cd_info c = Cand_customer info cltv'"
  shows "oc_ok x e w w'"
proof (cases "get_oc (h_order iv) w")
  case None
  then have l: "list_oc x e (h_order iv) (h_party iv) info (Some (h_hash iv, cltv)) None w = Some w'"
    using r by (simp add: on_customer_bond_def)
  show ?thesis
  proof (rule list_oc_ok [OF l])
    assume inv: "oc_winv x e w"
    note f = candidate_invoice [OF inv c k]
    show "0 < ci_amount info" using f(2) by (simp add: candidate_ok_def i)
    show "\<forall>d \<in> set (oc_candidates w). cd_order d = h_order iv
        \<longrightarrow> (\<exists>b. Some (h_hash iv, cltv) = Some b \<and> cd_hash d = fst b)"
    proof (intro ballI impI)
      fix d assume d: "d \<in> set (oc_candidates w)" "cd_order d = h_order iv"
      have "candidate_ok w d" using d(1) inv by (auto simp: oc_winv_def oc_inv_def list_all_iff)
      then have "\<not> is_sponsor_candidate (cd_info d)" using None d(2)
        by (auto simp: candidate_ok_def split: candidate_info.splits)
      moreover have "\<not> is_sponsor_candidate (cd_info c)" by (simp add: i)
      moreover have "distinct (map cd_order (filter (\<lambda>c. \<not> is_sponsor_candidate (cd_info c)) (oc_candidates w)))"
        using inv by (simp add: oc_winv_def oc_inv_def)
      ultimately have "d = c" using d f(1,4) unfolding distinct_map
        by (intro inj_onD [of cd_order "set (filter (\<lambda>c. \<not> is_sponsor_candidate (cd_info c)) (oc_candidates w))" d c]) auto
      then show "\<exists>b. Some (h_hash iv, cltv) = Some b \<and> cd_hash d = fst b" using f(3) by simp
    qed
  qed
next
  case (Some row)
  then show ?thesis using r by (auto simp: on_customer_bond_def oc_ok_quiet)
qed

lemma on_sponsor_bond_ok:
  assumes r: "on_sponsor_bond x e iv info cltv w = Some w'" and k: "hold_key iv \<in> hold_keys w"
    and c: "get_candidate (h_hash iv) w = Some c" and i: "cd_info c = Cand_sponsor info' cltv'"
  shows "oc_ok x e w w'"
proof (cases "\<exists>row. get_oc (h_order iv) w = Some row \<and> oo_state (ow_order row) = Oc_listed")
  case False
  then show ?thesis using r by (auto simp: on_sponsor_bond_def oc_ok_quiet split: option.splits if_splits)
next
  case True
  then obtain row where g: "get_oc (h_order iv) w = Some row" and st: "oo_state (ow_order row) = Oc_listed" by blast
  obtain res w1 where b: "bond_oc x e row (h_party iv) info (Some (h_hash iv, cltv)) w = Some (res, w1)"
    and w': "w' = (if res = None then hold_dispose (h_hash iv) Want_cancel w1 else w1)"
    using r g st by (auto simp: on_sponsor_bond_def)
  have "oc_ok x e w w1"
  proof (rule bond_oc_ok [OF b get_oc_id [OF g] st])
    assume inv: "oc_winv x e w"
    note f = candidate_invoice [OF inv c k]
    show "h_party iv \<noteq> oo_customer (ow_order row)
        \<and> (js_true_s (oo_designated (ow_order row)) \<longrightarrow> oo_designated (ow_order row) = Some (h_party iv))"
      using f(2,4,5) i g by (auto simp: candidate_ok_def)
  qed
  then show ?thesis unfolding w' by (auto intro: oc_ok_quiet_after)
qed

lemma oc_accepted_ok:
  "oc_accepted x e iv w = Some w' \<Longrightarrow> hold_key iv \<in> hold_keys w \<Longrightarrow> oc_ok x e w w'"
  using on_customer_bond_ok on_sponsor_bond_ok
  by (auto simp: oc_accepted_def Let_def oc_ok_quiet split: option.splits candidate_info.splits if_splits)

lemmas told_candidate_gone =
  oc_ok_quiet_after [OF delete_candidate_ok quiet_oc_messages(2)] oc_ok_quiet_after [OF delete_candidate_ok quiet_oc_messages(3)]

lemma oc_status_if_paid_ok: "oc_ok x e w (oc_status_if_paid e iv st w)"
  unfolding oc_status_if_paid_def Let_def by (simp add: told_candidate_gone)

lemma oc_hook_ok:
  "oc_created e iv w = Some w' \<Longrightarrow> oc_ok x e w w'" "oc_create_failed e iv w = Some w' \<Longrightarrow> oc_ok x e w w'"
  "oc_node_cancelled e iv w = Some w' \<Longrightarrow> oc_ok x e w w'" "oc_disposed e iv f v w = Some w' \<Longrightarrow> oc_ok x e w w'"
  by (auto simp: oc_created_def oc_create_failed_def oc_node_cancelled_def oc_disposed_def Let_def dispose_candidate_ok
      oc_ok_quiet oc_status_if_paid_ok told_candidate_gone oc_ok_quiet_after [OF oc_status_if_paid_ok quiet_raise_alert]
      split: if_splits option.splits)

lemma quiet_oc_changed [simp]: "quiet w (oc_changed oid w)"
  by (simp add: oc_changed_def)

lemma oc_ok_patch:
  fixes w :: "'m odb_scheme"
  shows "oc_ok x e w (w\<lparr>invoices := update_where P (apply_hold_patch p t) (invoices w)\<rparr>)"
  by (rule oc_ok_ln) (rule ln_holds.ok_patch)

interpretation oc_holds: hold_client "all_hooks x e" "oc_ok x e" for x e
proof unfold_locales
  show "oc_ok x e u w" if "oc_ok x e u v" "oc_ok x e v w" for u v w :: "'a odb_ext ddb_ext db_scheme"
    using oc_ok_trans that .
  show "quiet w (hk_changed (all_hooks x e p) oid w)" for p oid and w :: "'a odb_ext ddb_ext db_scheme"
    using ln_holds.changed_quiet [of w e oid] by (simp add: all_hooks_def oc_hooks_def)
  fix row :: hold_row and w w' :: "'a odb_ext ddb_ext db_scheme" and f by_whom
  assume k: "hold_key row \<in> hold_keys w"
  show "hk_created (all_hooks x e (h_purpose row)) row w = Some w' \<Longrightarrow> oc_ok x e w w'"
    "hk_create_failed (all_hooks x e (h_purpose row)) row w = Some w' \<Longrightarrow> oc_ok x e w w'"
    "hk_node_cancelled (all_hooks x e (h_purpose row)) row w = Some w' \<Longrightarrow> oc_ok x e w w'"
    "hk_disposed (all_hooks x e (h_purpose row)) row f by_whom w = Some w' \<Longrightarrow> oc_ok x e w w'"
    "hk_accepted (all_hooks x e (h_purpose row)) row w = Some w' \<Longrightarrow> oc_ok x e w w'"
    by (auto simp: all_hooks_def oc_hooks_def split: if_splits
        dest: oc_hook_ok oc_accepted_ok [OF _ k] oc_ok_ln [OF ln_holds.created_ok [OF _ k]]
          oc_ok_ln [OF ln_holds.create_failed_ok [OF _ k]] oc_ok_ln [OF ln_holds.accepted_ok [OF _ k]]
          oc_ok_ln [OF ln_holds.node_cancelled_ok [OF _ k]] oc_ok_ln [OF ln_holds.disposed_ok [OF _ k]])
qed (simp_all add: oc_ok_quiet oc_ok_patch)

end
