(* ===== verification/Oc_Flow_Inv.thy ===== *)
theory Oc_Flow_Inv
  imports Oc_Bonds_Inv
begin

text \<open>
  Decisions and settlements keep the invariant of the on-chain tables: a decision is recorded only with what it takes to
  carry it out, and entering the settlement leaves the terms as they are.
\<close>

subsection \<open>Moves that leave the deal alone\<close>

text \<open>A patch that sets the state and the clocks, and nothing the facts rest on.\<close>

definition same_facts :: "oc_ord \<Rightarrow> oc_ord \<Rightarrow> bool" where
  "same_facts r r' \<longleftrightarrow> (\<forall>m. same_deal r m r' m \<and> same_claim r m r' m \<and> same_terms r m r' m)"

lemma same_facts_step:
  "same_facts r r' \<Longrightarrow> kind_step (oo_settlement_kind r) (oo_settlement_kind r') \<Longrightarrow> deal_step r m r' m"
  by (simp add: same_facts_def deal_step_def)

lemma not_open_sponsor:
  "order_facts x r m \<Longrightarrow> can_onchain_transition (oo_state r) s \<Longrightarrow> s \<noteq> Oc_bonded \<Longrightarrow> s \<noteq> Oc_cancelled
   \<Longrightarrow> oo_sponsor r \<noteq> None"
  by (rule facts_sponsor) (auto simp: can_onchain_transition_def)

lemma kind_none:
  "order_facts x r m \<Longrightarrow> oo_state r \<in> {Oc_listed, Oc_bonded, Oc_funded, Oc_presigned, Oc_remitted}
   \<Longrightarrow> oo_settlement_kind r = None"
  by (auto simp: order_facts_def kind_ok_def)

lemma settling_facts:
  assumes f: "order_facts x r m" and st: "oo_state r = Oc_settling \<or> can_onchain_transition (oo_state r) Oc_settling"
    and "same_facts r r'" and "oo_state r' = Oc_settling" and "oo_settlement_kind r' = Some k"
    and "oo_settlement_txid r' \<noteq> None" and "kind_step (oo_settlement_kind r) (Some k)" and "same_meta m m'"
  shows "order_facts x r' m' \<and> deal_step r m r' m'"
proof -
  have "oo_sponsor r \<noteq> None" using st facts_sponsor [OF f] not_open_sponsor [OF f] by auto
  have "order_facts x r' m"
  proof (rule facts_move [OF f])
    show "same_deal r m r' m" "same_claim r m r' m" "same_terms r m r' m" using assms(3) by (simp_all add: same_facts_def)
    show "terms_ok r'" "kind_ok r'" "decided_ok x r' m" using assms(4-6) by (simp_all add: terms_ok_def kind_ok_def decided_ok_def)
  qed (simp_all add: assms(4) \<open>oo_sponsor r \<noteq> None\<close>)
  moreover have "deal_step r m r' m" using same_facts_step [OF assms(3)] assms(5,7) by simp
  ultimately show ?thesis using assms(8) same_meta_facts [OF assms(8)]
    by (auto simp: deal_step_def same_deal_def same_claim_def same_terms_def same_meta_def)
qed

lemma settle_wp:
  fixes w :: "'m odb_scheme"
  assumes g: "get_oc oid w = Some row" and same: "same_facts (ow_order row) (p (ow_order row))"
    and p: "oo_state (p (ow_order row)) = Oc_settling" "oo_settlement_kind (p (ow_order row)) = Some k"
      "oo_settlement_txid (p (ow_order row)) \<noteq> None"
    and k: "oc_winv x e w \<Longrightarrow> kind_step (oo_settlement_kind (ow_order row)) (Some k)"
    and mp: "same_meta (ow_meta row) (mp (ow_meta row))"
  shows "ok_result (oc_ok x e) w (update_oc oid p mp w)"
proof (rule ok_resultI, rule oc_okI)
  fix r' w1 assume u: "update_oc oid p mp w = Some (r', w1)" and inv: "oc_winv x e w"
  have st: "oo_state (ow_order row) = Oc_settling \<or> can_onchain_transition (oo_state (ow_order row)) Oc_settling"
    using update_oc_result(3) [OF u g] p(1) by auto
  show "oc_ok x e w w1"
    by (rule update_oc_ok(1) [OF u g], rule settling_facts [OF _ st same p k [OF inv] mp])
qed

lemma enter_settling_ok:
  fixes w :: "'m odb_scheme"
  assumes g: "get_oc oid w = Some row"
    and k: "oc_winv x e w \<Longrightarrow> kind_step (oo_settlement_kind (ow_order row)) (Some kind)"
  shows "ok_state (oc_ok x e) w (enter_settling e oid kind txid rawHex w)"
  unfolding enter_settling_def
  by (intro oc_wp settle_wp [OF g])
    (auto simp: k request_broadcast_def same_facts_def same_deal_def same_claim_def same_terms_def same_meta_def
      oc_ok_quiet quiet_trans [OF quiet_apply_outcome quiet_enq])

subsection \<open>Asking for a signature\<close>

lemma sign_request_ok [ok_rules]: "ok_state (oc_ok x e) w (send_oc_sign_request e' oid rc pu t w)"
  for w :: "'m odb_scheme"
  by (rule ok_stateI) (rule oc_ok_told [OF oc_ok_refl])

lemma request_settlement_signature_ok [ok_rules]:
  fixes w :: "'m odb_scheme"
  shows "ok_result (oc_ok x e) w (request_settlement_signature x e oid w)"
  unfolding request_settlement_signature_def
  by (intro oc_wp sign_request_ok) (simp_all add: update_oc_meta_ok same_meta_def oc_ok_quiet)

lemma resend_release_ok: "ok_result (oc_ok x e) w (resend_release e row w)" for w :: "'m odb_scheme"
  unfolding resend_release_def by (intro oc_wp ok_map(4)) (auto intro: oc_ok_quiet dest: quiet_sign_request)

subsection \<open>Deciding\<close>

text \<open>With a fee of its own the order gives the transaction the decision was checked with, up to that fee.\<close>

lemma params_own_fee:
  assumes "settlement_params_for x r m k (Some f) = Some (Some p)" and "k \<noteq> Release"
    and "oo_customer_xonly r' = oo_customer_xonly r" "oo_sponsor_xonly r' = oo_sponsor_xonly r"
    "oo_admin_xonly r' = oo_admin_xonly r" "oo_network r' = oo_network r" "oo_timelock r' = oo_timelock r"
    "oo_funding_outpoint r' = oo_funding_outpoint r" "oo_amount r' = oo_amount r" "oo_settlement_fee r' = Some f'"
  shows "settlement_params_for x r' m k None = Some (Some (p\<lparr>sp_fee := f'\<rparr>))"
proof -
  have d: "escrow_descriptor_for x r' = escrow_descriptor_for x r"
    unfolding escrow_descriptor_for_def assms by (rule refl)
  have dest: "settlement_destination x r' m k = settlement_destination x r m k"
    unfolding settlement_destination_def refund_destination_for_def assms by (rule refl)
  obtain e out v y where "escrow_descriptor_for x r = Some e" "parse_outpoint (oo_funding_outpoint r) = Some out"
    "settlement_destination x r m k = Some v" "given_s v = Some y"
    using assms(1,2) by (auto simp: settlement_params_for_def split: option.splits)
  then show ?thesis using assms(1,2)
    unfolding settlement_params_for_def d dest assms(8-10) by (auto simp: coalesce_def)
qed

lemma decided_sel [simp]:
  "oo_settlement_kind (decided k f pin t r) = Some k" "oo_settlement_fee (decided k f pin t r) = Some f"
  "oo_state (decided k f pin t r) = (if is_ruling k then oo_state r else Oc_refunding)"
  "oo_sponsor (decided k f pin t r) = oo_sponsor r" "oo_customer_xonly (decided k f pin t r) = oo_customer_xonly r"
  "oo_sponsor_xonly (decided k f pin t r) = oo_sponsor_xonly r" "oo_admin_xonly (decided k f pin t r) = oo_admin_xonly r"
  "oo_network (decided k f pin t r) = oo_network r" "oo_timelock (decided k f pin t r) = oo_timelock r"
  "oo_amount (decided k f pin t r) = oo_amount r"
  "oo_funding_outpoint (decided k f pin t r) = oo_funding_outpoint (pin_funding pin r)"
  by (auto simp: decided_def pin_funding_def Let_def split: option.split)

lemma pin_funding_sel [simp]:
  "oo_customer_xonly (pin_funding pin r) = oo_customer_xonly r" "oo_sponsor_xonly (pin_funding pin r) = oo_sponsor_xonly r"
  "oo_admin_xonly (pin_funding pin r) = oo_admin_xonly r" "oo_network (pin_funding pin r) = oo_network r"
  "oo_timelock (pin_funding pin r) = oo_timelock r" "oo_amount (pin_funding pin r) = oo_amount r"
  by (auto simp: pin_funding_def split: option.split)

lemma decided_same:
  "same_deal r m (decided k f pin t r) m" "same_claim r m (decided k f pin t r) m"
  "pin = None \<Longrightarrow> same_terms r m (decided k f pin t r) m"
  by (auto simp: decided_def pin_funding_def Let_def same_deal_def same_claim_def same_terms_def split: option.split)

lemma allowed_kind:
  assumes "decide_allowed r k early"
  shows "k \<noteq> Release" and "oo_settlement_kind r = None"
    and "if is_ruling k then oo_state r = Oc_disputed else is_refund_kind (Some k) \<and> oo_state r \<in> {Oc_bonded, Oc_funded, Oc_presigned}"
  using assms by (auto simp: decide_allowed_def is_refund_kind_def is_ruling_def split: if_splits)

lemma decided_facts:
  assumes f: "order_facts x r m" and a: "decide_allowed r k (pin \<noteq> None)" and pin: "is_ruling k \<Longrightarrow> pin = None"
    and p: "settlement_params_for x (pin_funding pin r) m k (Some 0) = Some (Some p)"
  shows "order_facts x (decided k fee pin t r) m \<and> deal_step r m (decided k fee pin t r) m"
proof -
  let ?r = "decided k fee pin t r"
  note a = allowed_kind [OF a]
  have st: "oo_state r \<notin> {Oc_listed, Oc_cancelled}" using a(3) by (auto split: if_splits)
  have party: "party_ok x ?r"
    using f facts_sponsor [OF f] st by (intro party_ok_move [OF _ decided_same(1,2)]) (auto simp: order_facts_def)
  have params: "settlement_params_for x ?r m k None = Some (Some (p\<lparr>sp_fee := fee\<rparr>))"
    by (rule params_own_fee [OF p a(1)]) simp_all
  have kind: "kind_ok ?r" using a(3) by (auto simp: kind_ok_def is_ruling_def split: if_splits)
  have terms: "terms_ok ?r"
  proof (cases "is_ruling k")
    case True
    then have "?r = r\<lparr>oo_settlement_kind := Some k, oo_settlement_fee := Some fee, oo_decided_at := Some t\<rparr>"
      using pin by (simp add: decided_def Let_def)
    then show ?thesis using f by (simp add: order_facts_def terms_ok_def)
  qed (simp add: terms_ok_def)
  have presig: "presig_ok x ?r m" if "oo_state ?r \<in> {Oc_presigned, Oc_remitted, Oc_disputed}"
  proof -
    have "is_ruling k" using that by (auto split: if_splits)
    then show ?thesis using f a(3) presig_ok_cong [OF decided_same(1,2) decided_same(3) [OF pin]]
      by (simp add: order_facts_def)
  qed
  have "decided_ok x ?r m" using params by (simp add: decided_ok_def)
  then have "order_facts x ?r m" using f party kind terms presig by (simp add: order_facts_def)
  moreover have "deal_step r m ?r m"
    using decided_same(1,2) decided_same(3) [OF pin] a by (auto simp: deal_step_def kind_step_def FROZEN_def split: if_splits)
  ultimately show ?thesis ..
qed

lemma quiet_outcome_told:
  "quiet w (notify_oc_ruling r (apply_outcome e r' out w))" "quiet w (notify_oc_transition e2 r v (apply_outcome e r' out w))"
  by (rule quiet_trans [OF quiet_apply_outcome quiet_notify_oc_ruling])
    (rule quiet_trans [OF quiet_apply_outcome quiet_notify_oc_transition])

lemma record_decision_ok:
  fixes w :: "'m odb_scheme"
  assumes g: "get_oc oid w = Some row"
    and a: "decide_allowed (ow_order row) k (pin \<noteq> None)" and pin: "is_ruling k \<Longrightarrow> pin = None"
    and p: "settlement_params_for x (pin_funding pin (ow_order row)) (ow_meta row) k (Some 0) = Some (Some p)"
  shows "ok_state (oc_ok x e) w (record_decision x e oid k fee pin w)"
  unfolding record_decision_def
proof (intro oc_wp request_settlement_signature_ok)
  show "ok_result (oc_ok x e) w (update_oc oid (decided k fee pin (now_sec w)) id w)"
    by (rule ok_resultI, rule update_oc_ok(1) [OF _ g], assumption) (use decided_facts [OF _ a pin p] in simp)
qed (auto simp: ok_state_def oc_ok_quiet quiet_outcome_told)

lemma decide_settlement_ok:
  fixes w :: "'m odb_scheme"
  assumes pin: "is_ruling k \<Longrightarrow> pin = None"
  shows "ok_result (oc_ok x e) w (decide_settlement x e oid k pin w)"
  unfolding decide_settlement_def
  by (intro oc_wp ok_map(6) record_decision_ok) (simp_all add: oc_ok_quiet pin)

subsection \<open>The account dispute\<close>

lemma refund_params_any_kind:
  assumes "is_refund_kind (Some k)" and "is_refund_kind (Some k')"
  shows "settlement_params_for x r m k f = settlement_params_for x r m k' f"
proof -
  have "k \<notin> {Release, Sponsor_win, Customer_win}" "k' \<notin> {Release, Sponsor_win, Customer_win}"
    using assms by (auto simp: is_refund_kind_def)
  then show ?thesis
    by (simp add: settlement_params_for_def settlement_destination_def settlement_path_for_kind_def cong: option.case_cong)
qed

lemma verdict_refund [simp]:
  "is_refund_kind (Some (verdict_kind v))" "or_terminal (outcome_rules (Settled (verdict_kind v))) = Oc_refunded"
  by (cases v; simp add: verdict_kind_def is_refund_kind_def mk_outcome_def)+

lemma verdict_facts:
  fixes v
  assumes f: "order_facts x r m" and k: "oo_settlement_kind r = Some Refund_account_disputed"
    and st: "oo_state r \<in> {Oc_refunding, Oc_settling, Oc_refunded}"
  defines "r' \<equiv> r\<lparr>oo_settlement_kind := Some (verdict_kind v)\<rparr>"
  shows "order_facts x r' m \<and> deal_step r m r' m"
proof -
  have same: "same_deal r m r' m" "same_claim r m r' m" "same_terms r m r' m"
    by (simp_all add: r'_def same_deal_def same_claim_def same_terms_def)
  have "decided_ok x r' m"
  proof (unfold decided_ok_def, intro allI impI)
    fix k' assume k': "oo_settlement_kind r' = Some k' \<and> oo_state r' \<in> {Oc_refunding, Oc_disputed}"
    then have "\<exists>p. settlement_params_for x r m Refund_account_disputed None = Some (Some p)"
      using f k by (auto simp: order_facts_def decided_ok_def r'_def)
    moreover have "settlement_params_for x r m (verdict_kind v) None = settlement_params_for x r m Refund_account_disputed None"
      by (rule refund_params_any_kind) (simp, simp add: is_refund_kind_def)
    then have "settlement_params_for x r' m k' None = settlement_params_for x r m Refund_account_disputed None"
      using k' params_cong [OF same, of x k' None] by (simp add: r'_def)
    ultimately show "\<exists>p. settlement_params_for x r' m k' None = Some (Some p)" by simp
  qed
  then have "order_facts x r' m"
  proof (intro facts_move [OF f same])
    show "kind_ok r'" using f st by (auto simp: order_facts_def kind_ok_def r'_def)
    show "oo_sponsor r \<noteq> None \<or> oo_state r' = Oc_cancelled" using facts_sponsor [OF f] st by auto
  qed (use st in \<open>auto simp: r'_def terms_ok_def\<close>)
  moreover have "deal_step r m r' m" using same k
    by (cases v) (auto simp: deal_step_def kind_step_def r'_def verdict_kind_def)
  ultimately show ?thesis ..
qed

lemma resolve_account_dispute_ok: "ok_result (oc_ok x e) w (resolve_account_dispute e oid v w)"
  for w :: "'m odb_scheme"
  unfolding resolve_account_dispute_def
  by (intro oc_wp) (auto intro!: ok_resultI elim!: update_oc_ok(1) simp: verdict_facts oc_ok_quiet)

subsection \<open>Stray money\<close>

lemma same_meta_rescues [simp]: "same_meta m (m\<lparr>om_rescues := rs\<rparr>)" "same_meta m (m\<lparr>om_strays := ss\<rparr>)"
  by (simp_all add: same_meta_def)

lemma request_rescue_ok: "ok_result (oc_ok x e) w (request_rescue x e oid u w)" for w :: "'m odb_scheme"
  unfolding request_rescue_def
  by (intro oc_wp ok_map(4))
    (auto dest!: quiet_sign_request elim: oc_ok_quiet_after [OF update_oc_meta_ok [OF same_meta_rescues(1)]])

end
