(* ===== verification/Oc_Handlers_Inv.thy ===== *)
theory Oc_Handlers_Inv
  imports Oc_Flow_Inv
begin

text \<open>
  Every request of a user keeps the invariant of the on-chain tables (\<open>daemon/src/onchain/handlers.ts\<close>), whoever sent it
  and whatever it says.
\<close>

subsection \<open>Refusals\<close>

lemma ignored_ok [ok_rules]: "R w w' \<Longrightarrow> ok_result R w (ignored reason w')"
  by (simp add: ignored_def ok_result_def)

lemma oc_reject_ok [ok_rules]: "ok_result (oc_ok x e) w (oc_reject e' oid ev reason w)" for w :: "'m odb_scheme"
  unfolding oc_reject_def by (rule ignored_ok) (simp add: oc_ok_quiet)

lemma ok_verdicts [ok_rules]:
  "(\<And>sig leaf. v = Presig_ok sig leaf \<Longrightarrow> ok_result R w (f sig leaf)) \<Longrightarrow> (v = Presig_bad \<Longrightarrow> ok_result R w p)
     \<Longrightarrow> ok_result R w (case v of Presig_ok sig leaf \<Rightarrow> f sig leaf | Presig_bad \<Rightarrow> p)"
  "(\<And>raw txid. c = Completed raw txid \<Longrightarrow> ok_result R w (g raw txid)) \<Longrightarrow> (c = No_presig \<Longrightarrow> ok_result R w q)
     \<Longrightarrow> (c = Cannot_finalize \<Longrightarrow> ok_result R w r)
     \<Longrightarrow> ok_result R w (case c of Completed raw txid \<Rightarrow> g raw txid | No_presig \<Rightarrow> q | Cannot_finalize \<Rightarrow> r)"
  by (cases v; simp) (cases c; simp)

text \<open>The rules for \<open>do\<close> blocks again, with what has been collected since.\<close>

lemmas oc_map = ok_map_step [OF oc_ok_transp]

lemmas oc_steps = oc_bind ok_bind_value ok_rules

lemma ok_result_some: "v = Some r \<Longrightarrow> ok_result R w v \<Longrightarrow> ok_result R w (Some r)"
  by simp

lemma order_gate_ok: "ok_result (oc_ok x e) w (order_gate e' oid ev amount reserve w)" for w :: "'m odb_scheme"
  unfolding order_gate_def by (intro oc_steps) simp_all

lemma order_gate_none:
  assumes "order_gate e oid ev amount reserve w = None"
  shows "0 < js_int amount" and "get_oc oid w = None" and "c \<in> set (oc_candidates w) \<Longrightarrow> cd_order c \<noteq> oid"
proof -
  have "candidates_of oid w = []" and "get_oc oid w = None" and "0 < js_int amount"
    using assms by (auto simp: order_gate_def ignored_def oc_reject_def split: if_splits)
  then show "0 < js_int amount" "get_oc oid w = None" "c \<in> set (oc_candidates w) \<Longrightarrow> cd_order c \<noteq> oid"
    by (auto simp: candidates_of_def filter_empty_conv simp flip: set_empty)
qed

subsection \<open>Planning a bond\<close>

lemma put_candidate_ok:
  fixes w :: "'m odb_scheme"
  assumes p: "put_candidate c w = Some w'" and c: "oc_winv x e w \<Longrightarrow> candidate_ok w c"
    and new: "oc_winv x e w \<Longrightarrow> \<not> is_sponsor_candidate (cd_info c) \<Longrightarrow> \<forall>d \<in> set (oc_candidates w). cd_order d \<noteq> cd_order c"
  shows "oc_ok x e w w'"
proof (rule oc_okB)
  have w': "w' = w\<lparr>oc_candidates := oc_candidates w @ [c]\<rparr>" and fresh: "cd_hash c \<notin> cd_hash ` set (oc_candidates w)"
    using p by (auto simp: put_candidate_def get_candidate_def find_None_iff split: if_splits)
  show "base_ok e w w'" by (simp add: w')
  show "oc_evolve w w'" by (simp add: oc_evolve_def w' get_oc_def)
  assume inv: "oc_winv x e w"
  have "candidate_ok w' d = candidate_ok w d" for d
    by (simp add: candidate_ok_def w' get_oc_def hold_keys_def cong: candidate_info.case_cong)
  then show "oc_inv x w'"
    using inv fresh c [OF inv] new [OF inv]
    by (auto simp: oc_winv_def oc_inv_def w' list_all_iff image_iff)
qed

lemma hold_plan_oc:
  fixes w :: "'m odb_scheme"
  assumes p: "hold_plan e (\<lambda>_. oc_changed) purpose oid party amt pb cl w = Some (iv, w')"
  shows "oc_ok x e w w'" and "get_oc i w' = get_oc i w" and "oc_candidates w' = oc_candidates w"
    and "hold_key iv = (h_hash iv, purpose, oid, party)" and "hold_key iv \<in> hold_keys w'"
proof -
  let ?w1 = "w\<lparr>invoices := invoices w @ [iv]\<rparr>"
  have w': "w' = oc_changed oid (enq ''hold.create'' (P_hold_create (h_hash iv)) (Some (''hold:'' @ h_hash iv)) ?w1)"
    and iv: "h_purpose iv = purpose \<and> h_order iv = oid \<and> h_party iv = party"
    using p by (auto simp: hold_plan_def Let_def split: if_splits)
  have q: "quiet ?w1 w'" unfolding w' by (rule quiet_trans [OF quiet_enq quiet_oc_changed])
  have "hold_wf e w \<Longrightarrow> hold_wf e ?w1"
    using hold_plan_wf(1) [OF _ p quiet_oc_changed] quietD(2) [OF q] by (simp add: hold_wf_def)
  then have "ln_ok e w ?w1" by (rule ln_ok_invoices) (auto simp: holds_keep_def hold_keys_def)
  then have "ln_ok e w w'" using ln_ok_quiet_after [OF _ q] by blast
  then show "oc_ok x e w w'" by (rule oc_ok_ln)
  show "get_oc i w' = get_oc i w" using get_oc_quiet [OF q] by (simp add: get_oc_def)
  show "oc_candidates w' = oc_candidates w" using oc_tables_quiet [OF q] by simp
  show "hold_key iv = (h_hash iv, purpose, oid, party)" using iv by (simp add: hold_key_def)
  show "hold_key iv \<in> hold_keys w'" using quietD(2) [OF q] by (simp add: hold_keys_def)
qed

lemma oc_plan_ok:
  fixes w :: "'m odb_scheme"
  assumes purpose: "purpose = candidate_purpose info"
    and cust: "oc_winv x e w \<Longrightarrow> \<not> is_sponsor_candidate info \<Longrightarrow> get_oc oid w = None \<and> (\<forall>d \<in> set (oc_candidates w). cd_order d \<noteq> oid)"
    and amt: "\<And>i c. oc_winv x e w \<Longrightarrow> info = Cand_customer i c \<Longrightarrow> 0 < ci_amount i"
    and sponsor: "oc_winv x e w \<Longrightarrow> is_sponsor_candidate info \<Longrightarrow> \<exists>row. get_oc oid w = Some row
       \<and> \<not> js_true_s (oo_designated (ow_order row)) \<and> party \<noteq> oo_customer (ow_order row)"
  shows "ok_result (oc_ok x e) w (oc_plan e purpose oid party amount payBy cltv info w)"
  unfolding oc_plan_def
proof (rule ok_resultI, rule oc_okI, clarsimp simp: bind_Some_iff)
  fix w' w1 iv
  assume inv: "oc_winv x e w"
    and p: "hold_plan e (\<lambda>_. oc_changed) purpose oid party amount payBy cltv w = Some (iv, w1)"
    and c: "put_candidate \<lparr>cd_hash = h_hash iv, cd_order = oid, cd_info = info, cd_party = party, cd_created = now_sec w\<rparr> w1
      = Some w'"
  note h = hold_plan_oc [OF p]
  let ?c = "\<lparr>cd_hash = h_hash iv, cd_order = oid, cd_info = info, cd_party = party, cd_created = now_sec w\<rparr>"
  have "candidate_key ?c = hold_key iv" by (simp add: candidate_key_def h(4) purpose)
  then have key: "candidate_key ?c \<in> hold_keys w1" using h(5) by simp
  have "oc_ok x e w1 w'"
  proof (rule put_candidate_ok [OF c])
    show "candidate_ok w1 ?c"
      using key cust [OF inv] amt [OF inv] sponsor [OF inv] by (cases info) (auto simp: candidate_ok_def h(2))
    show "\<not> is_sponsor_candidate (cd_info ?c) \<Longrightarrow> \<forall>d \<in> set (oc_candidates w1). cd_order d \<noteq> cd_order ?c"
      using cust [OF inv] by (simp add: h(3))
  qed
  with h(1) show "oc_ok x e w w'" by (rule oc_ok_trans)
qed

subsection \<open>Opening an order\<close>

lemma order_with_bond_ok:
  fixes w :: "'m odb_scheme"
  assumes "0 < ci_amount info" and "get_oc oid w = None" and "\<forall>c \<in> set (oc_candidates w). cd_order c \<noteq> oid"
  shows "ok_result (oc_ok x e) w (order_with_bond e oid ev info w)"
  unfolding order_with_bond_def
  by (intro oc_steps oc_plan_ok) (use assms in \<open>auto simp: candidate_purpose_def\<close>)

lemma oc_order_request_ok: "ok_result (oc_ok x e) w (oc_order_request x e ev w)" for w :: "'m odb_scheme"
  unfolding oc_order_request_def
  by (intro oc_steps order_with_bond_ok oc_ok_refl)
    (auto dest: order_gate_none intro: ok_result_some order_gate_ok)

lemma list_oc_wp:
  fixes w :: "'m odb_scheme"
  assumes "oc_winv x e w \<Longrightarrow> 0 < ci_amount info"
    and "oc_winv x e w \<Longrightarrow> \<forall>c \<in> set (oc_candidates w). cd_order c = oid \<longrightarrow> (\<exists>b. bond = Some b \<and> cd_hash c = fst b)"
  shows "ok_state (oc_ok x e) w (list_oc x e oid customer info bond designated w)"
  by (rule ok_stateI) (rule list_oc_ok [OF _ assms])

lemma list_designated_ok:
  fixes w :: "'m odb_scheme"
  assumes "0 < ci_amount info" and "\<forall>c \<in> set (oc_candidates w). cd_order c \<noteq> oid"
  shows "ok_result (oc_ok x e) w (list_designated x e oid ev info sponsor w)"
  unfolding list_designated_def
  by (intro oc_steps list_oc_wp) (use assms in \<open>auto simp: oc_ok_quiet\<close>)

lemma oc_designated_order_request_ok: "ok_result (oc_ok x e) w (oc_designated_order_request x e ev w)"
  for w :: "'m odb_scheme"
  unfolding oc_designated_order_request_def oc_designated_terms_request_def
  by (intro oc_steps list_designated_ok oc_ok_refl)
    (auto dest: order_gate_none simp: js_int_def intro: ok_result_some order_gate_ok)

subsection \<open>The claim\<close>

lemma bond_oc_wp:
  fixes w :: "'m odb_scheme"
  assumes "get_oc (oo_id (ow_order row)) w = Some row" and "oo_state (ow_order row) = Oc_listed"
    and "sponsor \<noteq> oo_customer (ow_order row)
       \<and> (js_true_s (oo_designated (ow_order row)) \<longrightarrow> oo_designated (ow_order row) = Some sponsor)"
  shows "ok_result (oc_ok x e) w (bond_oc x e row sponsor info bond w)"
  by (rule ok_resultI) (rule bond_oc_ok [OF _ assms])

lemma claim_accepted_ok:
  fixes w :: "'m odb_scheme"
  assumes "get_oc (oo_id (ow_order row)) w = Some row" and "claim_blocker ev (ow_order row) w = None"
  shows "ok_result (oc_ok x e) w (claim_accepted x e ev row fees info w)"
proof -
  have c: "oo_state (ow_order row) = Oc_listed" "ie_pubkey ev \<noteq> oo_customer (ow_order row)
      \<and> (js_true_s (oo_designated (ow_order row)) \<longrightarrow> oo_designated (ow_order row) = Some (ie_pubkey ev))"
    using assms(2) by (auto simp: claim_blocker_def split: if_splits)
  show ?thesis
    unfolding claim_accepted_def
    by (intro oc_steps bond_oc_wp [OF _ c] oc_plan_ok)
      (use assms(1) c(2) in \<open>simp_all add: candidate_purpose_def\<close>)
qed

lemma oc_claim_ok: "ok_result (oc_ok x e) w (oc_claim x e ev w)" for w :: "'m odb_scheme"
  unfolding oc_claim_def claim_opened_def
  by (intro oc_steps claim_accepted_ok oc_ok_refl get_oc_id) auto

subsection \<open>Changing an order\<close>

lemma update_wp:
  fixes w :: "'m odb_scheme"
  assumes "get_oc oid w = Some row"
    and "order_facts x (ow_order row) (ow_meta row)
      \<Longrightarrow> order_facts x (p (ow_order row)) (mp (ow_meta row))
        \<and> deal_step (ow_order row) (ow_meta row) (p (ow_order row)) (mp (ow_meta row))"
  shows "ok_result (oc_ok x e) w (update_oc oid p mp w)"
  by (rule ok_resultI, rule update_oc_ok(1) [where patch = p and mp = mp, OF _ assms(1)], assumption, rule assms(2))

lemma updated_wp:
  fixes w :: "'m odb_scheme"
  assumes "get_oc oid w = Some row"
    and "order_facts x (ow_order row) (ow_meta row)
      \<Longrightarrow> order_facts x (p (ow_order row)) (mp (ow_meta row))
        \<and> deal_step (ow_order row) (ow_meta row) (p (ow_order row)) (mp (ow_meta row))"
  shows "ok_result (oc_ok x e) w (oc_updated e' oid p mp w)"
  unfolding oc_updated_def by (intro oc_steps update_wp [OF assms(1)] assms(2)) (simp_all add: oc_ok_quiet)

text \<open>From the presignature to the dispute the terms stay and the money sent is on record.\<close>

lemma advance_facts:
  assumes f: "order_facts x r m" and same: "same_facts r r'" and k: "oo_settlement_kind r = None" "oo_settlement_kind r' = None"
    and st: "oo_state r \<in> {Oc_presigned, Oc_remitted}" "oo_state r' \<in> {Oc_presigned, Oc_remitted, Oc_disputed}"
    and sent: "oo_state r' \<noteq> Oc_presigned \<Longrightarrow> oo_account_sent_at r' \<noteq> None \<and> oo_remitted_at r' \<noteq> None"
  shows "order_facts x r' m \<and> deal_step r m r' m"
proof
  have s: "same_deal r m r' m" "same_claim r m r' m" "same_terms r m r' m" using same by (simp_all add: same_facts_def)
  show "order_facts x r' m"
  proof (rule facts_move [OF f s])
    show "oo_sponsor r \<noteq> None \<or> oo_state r' = Oc_cancelled" using facts_sponsor [OF f] st(1) by auto
    show "terms_ok r'" using f st sent s by (auto simp: order_facts_def terms_ok_def same_terms_def same_deal_def)
    show "kind_ok r'" "decided_ok x r' m" using st(2) k(2) by (auto simp: kind_ok_def decided_ok_def)
    show "presig_ok x r m" using f st(1) by (auto simp: order_facts_def)
  qed (use st(2) in auto)
  show "deal_step r m r' m" using same_facts_step [OF same] k by (simp add: kind_step_def)
qed

lemma deal_step_meta: "deal_step r m r' m \<Longrightarrow> same_meta m m' \<Longrightarrow> deal_step r m r' m'"
  by (auto simp: deal_step_def same_deal_def same_claim_def same_terms_def same_meta_def)

lemma advance_facts_meta:
  assumes "order_facts x r' m \<and> deal_step r m r' m" and "same_meta m m'"
  shows "order_facts x r' m' \<and> deal_step r m r' m'"
  using assms(1) same_meta_facts [OF assms(2)] deal_step_meta [OF _ assms(2)] by blast

lemma cancel_facts:
  assumes f: "order_facts x r m" and st: "oo_state r = Oc_listed \<or> oo_state r = Oc_bonded"
  shows "order_facts x (r\<lparr>oo_state := Oc_cancelled\<rparr>) m \<and> deal_step r m (r\<lparr>oo_state := Oc_cancelled\<rparr>) m"
proof
  let ?r = "r\<lparr>oo_state := Oc_cancelled\<rparr>"
  have s: "same_facts r ?r" by (simp add: same_facts_def same_deal_def same_claim_def same_terms_def)
  then have s': "same_deal r m ?r m" "same_claim r m ?r m" "same_terms r m ?r m" by (simp_all add: same_facts_def)
  have k: "oo_settlement_kind r = None" using kind_none [OF f] st by auto
  show "order_facts x ?r m"
  proof (rule facts_move [OF f s'])
    show "terms_ok ?r" "kind_ok ?r" "decided_ok x ?r m" by (simp_all add: terms_ok_def kind_ok_def decided_ok_def k)
  qed simp_all
  show "deal_step r m ?r m" using same_facts_step [OF s] k by (simp add: kind_step_def)
qed

subsection \<open>The presignature\<close>

lemma presig_facts:
  assumes f: "order_facts x r m" and st: "oo_state r = Oc_funded"
    and p: "settlement_params_for x r m Release None = Some (Some p)"
    and v: "verify_presignature (x_lib x) t p (key_or_none (oo_sponsor_xonly r)) = Presig_ok sig leaf" and t: "t \<noteq> []"
  shows "order_facts x (r\<lparr>oo_state := Oc_presigned, oo_presigned_at := a, oo_account_deadline := b\<rparr>) (m\<lparr>om_presig := Some t\<rparr>)
    \<and> deal_step r m (r\<lparr>oo_state := Oc_presigned, oo_presigned_at := a, oo_account_deadline := b\<rparr>) (m\<lparr>om_presig := Some t\<rparr>)"
proof -
  let ?r = "r\<lparr>oo_state := Oc_presigned, oo_presigned_at := a, oo_account_deadline := b\<rparr>" and ?m = "m\<lparr>om_presig := Some t\<rparr>"
  have s: "same_deal r m ?r ?m" "same_claim r m ?r ?m" by (simp_all add: same_deal_def same_claim_def)
  have k: "oo_settlement_kind r = None" using kind_none [OF f] st by auto
  have "party_ok x ?r"
    using f facts_sponsor [OF f] st by (intro party_ok_move [OF _ s]) (auto simp: order_facts_def)
  moreover have "terms_ok ?r" "kind_ok ?r" "decided_ok x ?r ?m"
    using f st k by (simp_all add: order_facts_def terms_ok_def kind_ok_def decided_ok_def)
  moreover have "settlement_params_for x ?r ?m Release None = settlement_params_for x r m Release None"
    by (rule release_params_cong) simp_all
  then have "presig_ok x ?r ?m" using p v t by (simp add: presig_ok_def given_s_def opt_given_def)
  ultimately have "order_facts x ?r ?m" using f by (simp add: order_facts_def)
  moreover have "deal_step r m ?r ?m" using s st k by (simp add: deal_step_def FROZEN_def kind_step_def)
  ultimately show ?thesis ..
qed

lemma opened_psbt: "opened e ev psbt_payload = Some t \<Longrightarrow> t \<noteq> []"
  by (auto simp: opened_def psbt_payload_def given_s_def opt_given_def bind_Some_iff split: if_splits)

lemma oc_presig_ok:
  fixes w :: "'m odb_scheme"
  assumes g: "get_oc (oo_id (ow_order row)) w = Some row"
  shows "ok_result (oc_ok x e) w (oc_presig x e ev row w)"
  unfolding oc_presig_def Let_def
  by (intro oc_steps updated_wp [OF g] presig_facts sign_request_ok)
    (auto simp: oc_ok_quiet dest: opened_psbt)

subsection \<open>The last signature\<close>

lemma cosign_verified_ok:
  fixes w :: "'m odb_scheme"
  assumes g: "get_oc (oo_id (ow_order row)) w = Some row"
    and k: "oc_winv x e w \<Longrightarrow> kind_step (oo_settlement_kind (ow_order row)) (Some kind)"
  shows "ok_result (oc_ok x e) w (cosign_verified x e ev row kind p signer w)"
  unfolding cosign_verified_def Let_def
  by (intro oc_steps ok_map(6) enter_settling_ok [OF g k]) (simp_all add: oc_ok_quiet)

lemma cosign_for_ok:
  fixes w :: "'m odb_scheme"
  assumes g: "get_oc (oo_id (ow_order row)) w = Some row"
  shows "ok_result (oc_ok x e) w (cosign_for x e ev row purpose w)"
  unfolding cosign_for_def Let_def
  by (intro oc_steps cosign_verified_ok [OF g]) (auto simp: oc_ok_quiet kind_step_def split: if_splits)

lemma oc_rescue_cosign_ok:
  fixes w :: "'m odb_scheme"
  shows "ok_result (oc_ok x e) w (oc_rescue_cosign x e ev row w)"
  unfolding oc_rescue_cosign_def rescue_signed_def Let_def request_broadcast_def
  by (intro oc_steps) (auto intro!: oc_ok_quiet oc_ok_quiet_after [OF update_oc_meta_ok quiet_enq])

lemma oc_cosign_ok:
  fixes w :: "'m odb_scheme"
  assumes g: "get_oc (oo_id (ow_order row)) w = Some row"
  shows "ok_result (oc_ok x e) w (oc_cosign x e ev row w)"
  unfolding oc_cosign_def by (intro oc_steps cosign_for_ok [OF g] oc_rescue_cosign_ok) simp

subsection \<open>Remittance, account, cancelling, dispute\<close>

lemma oc_remit_ok:
  fixes w :: "'m odb_scheme"
  assumes g: "get_oc (oo_id (ow_order row)) w = Some row"
  shows "ok_result (oc_ok x e) w (oc_remit x e ev row w)"
  unfolding oc_remit_def Let_def
  by (intro oc_steps oc_map updated_wp [OF g])
    (simp_all, rule advance_facts,
     auto simp: same_facts_def same_deal_def same_claim_def same_terms_def truthy_def split: option.splits if_splits)

lemma oc_account_info_ok:
  fixes w :: "'m odb_scheme"
  assumes g: "get_oc (oo_id (ow_order row)) w = Some row"
  shows "ok_result (oc_ok x e) w (oc_account_info x e ev row w)"
proof -
  let ?p = "\<lambda>o1. o1\<lparr>oo_account_sent_at := Some (now_sec w), oo_krw_deadline := Some (krw_deadline_from (now_sec w))\<rparr>"
  have u: "ok_result (oc_ok x e) w (update_oc (oo_id (ow_order row)) ?p
      (\<lambda>m. if c = None then m else m\<lparr>om_account_commitment := c\<rparr>) w)"
    if "oo_state (ow_order row) = Oc_presigned" "oo_settlement_kind (ow_order row) = None" for c
  proof (rule update_wp [OF g], rule advance_facts_meta)
    show "same_meta (ow_meta row) (if c = None then ow_meta row else (ow_meta row)\<lparr>om_account_commitment := c\<rparr>)"
      by (simp add: same_meta_def)
  qed (rule advance_facts, simp_all add: that same_facts_def same_deal_def same_claim_def same_terms_def)
  show ?thesis
    unfolding oc_account_info_def Let_def by (intro oc_steps oc_map u) (auto simp: oc_ok_quiet)
qed

lemma cancel_candidates_ok: "ok_result (oc_ok x e) w (cancel_candidates oid pubkey w)" for w :: "'m odb_scheme"
  unfolding cancel_candidates_def Let_def by (intro oc_steps fold_ok dispose_candidate_ok)

lemma oc_cancel_ok: "ok_result (oc_ok x e) w (oc_cancel x e ev w)" for w :: "'m odb_scheme"
  unfolding oc_cancel_def
  by (intro oc_steps cancel_candidates_ok update_wp)
    (simp_all add: oc_ok_trans [OF oc_ok_quiet [OF quiet_outcome_told(2)] drop_sponsor_candidates_ok], rule cancel_facts,
     simp_all)

lemma oc_dispute_ok:
  fixes w :: "'m odb_scheme"
  assumes g: "get_oc (oo_id (ow_order row)) w = Some row"
  shows "ok_result (oc_ok x e) w (oc_dispute x e ev row w)"
  unfolding oc_dispute_def Let_def
proof (intro oc_steps oc_map updated_wp [OF g] update_wp [OF g])
  assume f: "order_facts x (ow_order row) (ow_meta row)"
  show "order_facts x ((ow_order row)\<lparr>oo_state := Oc_disputed, oo_disputed_at := Some (now_sec w)\<rparr>) (id (ow_meta row))
      \<and> deal_step (ow_order row) (ow_meta row) ((ow_order row)\<lparr>oo_state := Oc_disputed, oo_disputed_at := Some (now_sec w)\<rparr>)
          (id (ow_meta row))" if "oo_state (ow_order row) = Oc_remitted"
    unfolding id_apply
    by (rule advance_facts [OF f])
      (use that f kind_none [OF f] in \<open>auto simp: same_facts_def same_deal_def same_claim_def same_terms_def
         order_facts_def terms_ok_def\<close>)
  show "order_facts x ((ow_order row)\<lparr>oo_account_disputed_at := Some (now_sec w)\<rparr>) (id (ow_meta row))
      \<and> deal_step (ow_order row) (ow_meta row) ((ow_order row)\<lparr>oo_account_disputed_at := Some (now_sec w)\<rparr>) (id (ow_meta row))"
    if "oo_state (ow_order row) = Oc_presigned \<and> tag_value ''stage'' (ie_tags ev) = Some ''account-unusable''"
    unfolding id_apply
    by (rule advance_facts [OF f])
      (use that kind_none [OF f] in \<open>auto simp: same_facts_def same_deal_def same_claim_def same_terms_def\<close>)
qed (simp_all add: oc_ok_quiet)

subsection \<open>Every request\<close>

lemma with_oc_row_ok:
  fixes w :: "'m odb_scheme"
  assumes "\<And>row. get_oc (oo_id (ow_order row)) w = Some row \<Longrightarrow> ok_result (oc_ok x e) w (h x e ev row w)"
  shows "ok_result (oc_ok x e) w (with_oc_row h x e ev w)"
  unfolding with_oc_row_def by (intro oc_steps assms get_oc_id) simp_all

lemma oc_handler_ok:
  fixes w :: "'m odb_scheme"
  assumes "oc_handler action = Some h"
  shows "ok_result (oc_ok x e) w (h x e ev w)"
proof -
  have "(action, h) \<in> set oc_handler_table" using assms by (auto simp: oc_handler_def dest: map_of_SomeD)
  then show ?thesis
    by (auto simp: oc_handler_table_def oc_order_request_ok oc_designated_order_request_ok oc_claim_ok oc_cancel_ok
        intro!: with_oc_row_ok oc_presig_ok oc_cosign_ok oc_dispute_ok oc_remit_ok oc_account_info_ok)
qed

end
