(* ===== verification/Oc_Watcher.thy ===== *)
theory Oc_Watcher
  imports Oc_Handlers
begin

text \<open>
  The on-chain watcher (\<open>daemon/src/onchain/watcher.ts\<close>): the fee estimates, the facts it gathers from the chain for an
  order, and carrying out the action \<open>decide_onchain_action\<close> names.  The chain is the explorer's HTTP service; \<open>chain oid\<close>
  is how it answers while the order \<open>oid\<close> is looked at.  What the watcher keeps in memory is the record
  \<open>oc_watch\<close>.  The texts of alerts are replaced by ASCII ones that differ exactly when the originals do.
\<close>

definition OC_POLL_MS :: msec where "OC_POLL_MS = 30000"
definition SIGNATURE_RESEND_SEC :: sec where "SIGNATURE_RESEND_SEC = 6 * 60 * 60"
definition TERMINAL_WATCH_SEC :: sec where "TERMINAL_WATCH_SEC = 60 * 24 * 60 * 60"
definition TERMINAL_WATCH_INTERVAL_SEC :: sec where "TERMINAL_WATCH_INTERVAL_SEC = 10 * 60"

text \<open>\<open>CLOCK_ACTIONS\<close>: what the clock decides waits until the daemon has caught up.\<close>

fun clock_action :: "onchain_action \<Rightarrow> bool" where
  "clock_action A_cancel = True"
| "clock_action (A_settle _) = True"
| "clock_action A_dispute = True"
| "clock_action _ = False"

record oc_watch =
  ow_last_poll :: "msec option"
  ow_last_fees :: "msec option"
  ow_terminal_check :: "string \<Rightarrow> sec option"

type_synonym chain = "string \<Rightarrow> http"

record facts =
  fx_funds :: "address_funds chain_query"
  fx_pinned :: "pinned_facts option"
  fx_settlement :: "tx_status chain_query option"

subsection \<open>Fees\<close>

definition elapsed :: "msec \<Rightarrow> msec option \<Rightarrow> msec \<Rightarrow> bool" where
  "elapsed now prev interval \<longleftrightarrow> (case prev of None \<Rightarrow> True | Some t \<Rightarrow> now - t \<ge> interval)"

definition refresh_fees :: "http \<Rightarrow> oc_watch \<Rightarrow> 'm odb_scheme \<Rightarrow> oc_watch \<times> 'm odb_scheme" where
  "refresh_fees http s w =
     (if \<not> elapsed (q_now w) (ow_last_fees s) (FEES_REFRESH_SEC * 1000) then (s, w)
      else (case get_fee_estimates http of
              Known fees \<Rightarrow> (s\<lparr>ow_last_fees := Some (q_now w)\<rparr>, save_fees fees (now_sec w) w)
            | Unknown reason \<Rightarrow> (s, w)))"

subsection \<open>Gathering the facts\<close>

definition due_order :: "oc_row \<Rightarrow> oc_watch \<Rightarrow> sec \<Rightarrow> bool \<times> oc_watch" where
  "due_order row s now =
     (let r = ow_order row in
      if \<not> is_onchain_terminal (oo_state r) then (True, s)
      else if given_s (oo_escrow_address r) = None then (False, s)
      else if now - oo_updated r > TERMINAL_WATCH_SEC then (False, s)
      else if (case ow_terminal_check s (oo_id r) of None \<Rightarrow> False | Some t \<Rightarrow> now - t < TERMINAL_WATCH_INTERVAL_SEC)
      then (False, s)
      else (True, s\<lparr>ow_terminal_check := (ow_terminal_check s)(oo_id r := Some now)\<rparr>))"

definition spending_leaf :: "oc_env \<Rightarrow> oc_ord \<Rightarrow> string list option \<Rightarrow> escrow_leaf_name option option" where
  "spending_leaf x r witness =
     map_option (leaf_of_witness witness)
       (derive_escrow_address (x_lib x)
         \<lparr>ek_customer = key_or_none (oo_customer_xonly r), ek_sponsor = key_or_none (oo_sponsor_xonly r),
          ek_admin = key_or_none (oo_admin_xonly r)\<rparr> (oo_network r) (oo_timelock r))"

text \<open>What happened to a pinned output that is no longer in the list; \<open>None\<close> when something throws.\<close>

definition missing_facts :: "oc_env \<Rightarrow> http \<Rightarrow> oc_ord \<Rightarrow> outpoint \<Rightarrow> pinned_facts option" where
  "missing_facts x http r pinned =
     (case get_spend http pinned of
        Unknown reason \<Rightarrow> Some (PF_unknown reason)
      | Known (Spent txid confirmed witness) \<Rightarrow>
          map_option (\<lambda>leaf. PF_spent txid leaf confirmed) (spending_leaf x r witness)
      | Known Unspent \<Rightarrow>
          (case get_tx_status http (op_txid pinned) of
             Unknown reason \<Rightarrow> Some (PF_unknown reason)
           | Known st \<Rightarrow>
               if \<not> tx_seen st then Some PF_gone
               else if \<not> tx_confirmed st then map_option (PF_shallow 0) (required_confirmations (oo_amount r))
               else Some (PF_unknown ''indexer behind'')))"

definition gather_pinned_facts ::
  "oc_env \<Rightarrow> http \<Rightarrow> oc_ord \<Rightarrow> address_funds chain_query \<Rightarrow> pinned_facts option option" where
  "gather_pinned_facts x http r funds =
     (case parse_outpoint (oo_funding_outpoint r) of
        None \<Rightarrow> Some None
      | Some pinned \<Rightarrow>
          (case judge_pinned_funding funds pinned (oo_amount r) of
             None \<Rightarrow> None
           | Some (PS_unknown reason) \<Rightarrow> Some (Some (PF_unknown reason))
           | Some (PS_alive n) \<Rightarrow> Some (Some (PF_alive n))
           | Some (PS_shallow n required) \<Rightarrow> Some (Some (PF_shallow n required))
           | Some PS_missing \<Rightarrow> map_option Some (missing_facts x http r pinned)))"

definition gather :: "oc_env \<Rightarrow> http \<Rightarrow> oc_ord \<Rightarrow> facts option" where
  "gather x http r =
     (let funds = (case given_s (oo_escrow_address r) of
                     Some a \<Rightarrow> get_address_funds http a
                   | None \<Rightarrow> Known \<lparr>af_confirmed = [], af_mempool = []\<rparr>) in
      if is_onchain_terminal (oo_state r)
      then Some \<lparr>fx_funds = funds, fx_pinned = None, fx_settlement = None\<rparr>
      else do {
        pinned \<leftarrow> (if given_s (oo_funding_outpoint r) = None then Some None else gather_pinned_facts x http r funds);
        Some \<lparr>fx_funds = funds, fx_pinned = pinned,
              fx_settlement = (if oo_state r = Oc_settling
                               then map_option (get_tx_status http) (given_s (oo_settlement_txid r)) else None)\<rparr>
      })"

subsection \<open>Carrying out an action\<close>

definition alert_level_name :: "alert_level \<Rightarrow> string" where
  "alert_level_name l = (case l of Anomaly \<Rightarrow> ''anomaly'' | Warn \<Rightarrow> ''warn'')"

definition oc_alert :: "env \<Rightarrow> string \<Rightarrow> alert_level \<Rightarrow> string \<Rightarrow> 'm db_scheme \<Rightarrow> 'm db_scheme" where
  "oc_alert e oid level key w =
     raise_alert e (''oc:'' @ oid @ '':'' @ alert_level_name level @ '':'' @ key) level (Some Track_onchain) (Some oid) w"

text \<open>\<open>transition\<close>: a step to another state tells the parties.\<close>

definition oc_transition ::
  "env \<Rightarrow> oc_ord \<Rightarrow> (oc_ord \<Rightarrow> oc_ord) \<Rightarrow> 'm odb_scheme \<Rightarrow> (oc_ord \<times> 'm odb_scheme) option" where
  "oc_transition e r patch w =
     do {
       (updated, w1) \<leftarrow> update_oc (oo_id r) patch id w;
       if oo_state (patch r) = oo_state r then Some (updated, w1)
       else do {
         row \<leftarrow> get_oc (oo_id r) w1;
         Some (updated, notify_oc_transition e updated (ow_version row) w1)
       }
     }"

definition funded_with :: "outpoint \<Rightarrow> int \<Rightarrow> krw \<Rightarrow> sat \<Rightarrow> sec \<Rightarrow> oc_ord \<Rightarrow> oc_ord" where
  "funded_with out confs priceKrw feeSat now r =
     r\<lparr>oo_state := Oc_funded, oo_funding_outpoint := Some (format_outpoint (op_txid out) (op_vout out)),
       oo_funding_confs := Some confs, oo_funded_at := Some now,
       oo_presign_deadline := Some (presign_deadline_from now), oo_price := Some priceKrw,
       oo_payout := Some (oo_amount r - feeSat), oo_release_fee := Some feeSat\<rparr>"

definition do_fund ::
  "oc_env \<Rightarrow> env \<Rightarrow> oc_row \<Rightarrow> outpoint \<Rightarrow> int \<Rightarrow> krw \<Rightarrow> 'm odb_scheme \<Rightarrow> 'm odb_scheme option" where
  "do_fund x e row out confs priceKrw w =
     (let r = ow_order row in
      case release_fee_for x r (ow_meta row) of
        None \<Rightarrow> Some (oc_alert e (oo_id r) Anomaly ''no release fee'' w)
      | Some feeSat \<Rightarrow>
          if oo_amount r - feeSat \<le> 0
          then Some (oc_alert e (oo_id r) Anomaly (''fee eats the amount '' @ int_str feeSat) w)
          else map_option snd (oc_transition e r (funded_with out confs priceKrw feeSat (now_sec w)) w))"

definition do_cancel :: "env \<Rightarrow> oc_row \<Rightarrow> 'm odb_scheme \<Rightarrow> 'm odb_scheme option" where
  "do_cancel e row w =
     (let r = ow_order row;
          outcome = (if oo_state r = Oc_listed
                     then (if oo_expiration r > 0 \<and> of_int (now_sec w) \<ge> oo_expiration r
                           then Cancel_expired else Cancel_by_customer)
                     else Cancel_no_funding) in
      map_option (\<lambda>(cancelled, w1).
          drop_sponsor_candidates (oo_id r) None (apply_outcome e cancelled (No_tx outcome) w1))
        (oc_transition e r (\<lambda>o1. o1\<lparr>oo_state := Oc_cancelled\<rparr>) w))"

definition unfunded :: "sec \<Rightarrow> oc_ord \<Rightarrow> oc_ord" where
  "unfunded now r =
     r\<lparr>oo_state := Oc_bonded, oo_funding_deadline := Some (now + FUNDING_WINDOW_SEC), oo_funding_outpoint := None,
       oo_funding_confs := None, oo_funded_at := None, oo_presign_deadline := None, oo_price := None,
       oo_payout := None, oo_release_fee := None, oo_presigned_at := None, oo_account_deadline := None,
       oo_account_sent_at := None, oo_krw_deadline := None, oo_account_disputed_at := None\<rparr>"

definition reorg_name :: "reorg_why \<Rightarrow> string" where
  "reorg_name why = (case why of Why_shallow \<Rightarrow> ''shallow'' | Why_gone \<Rightarrow> ''gone'')"

definition do_reorg :: "env \<Rightarrow> oc_row \<Rightarrow> reorg_why \<Rightarrow> 'm odb_scheme \<Rightarrow> 'm odb_scheme option" where
  "do_reorg e row why w =
     map_option (\<lambda>(_, w1). oc_alert e (oo_id (ow_order row)) Warn (''reorg '' @ reorg_name why) w1)
       (oc_transition e (ow_order row) (unfunded (now_sec w)) w)"

definition do_confirmed :: "env \<Rightarrow> oc_row \<Rightarrow> 'm odb_scheme \<Rightarrow> 'm odb_scheme option" where
  "do_confirmed e row w =
     (let r = ow_order row in
      case oo_settlement_kind r of
        None \<Rightarrow> Some (oc_alert e (oo_id r) Anomaly ''confirmed without a kind'' w)
      | Some kind \<Rightarrow>
          map_option (\<lambda>(after, w1). apply_outcome e after (Settled kind) w1)
            (oc_transition e r (\<lambda>o1. o1\<lparr>oo_state := or_terminal (outcome_rules (Settled kind))\<rparr>) w))"

subsection \<open>A spend that is not in the books\<close>

text \<open>The kind the spend stands for: the release leaf, or the leaf of the decided kind.\<close>

definition adopted_kind :: "oc_ord \<Rightarrow> escrow_leaf_name option \<Rightarrow> settlement_kind option" where
  "adopted_kind r leaf =
     (if leaf = Some Leaf_release then Some Release
      else (case oo_settlement_kind r of
              None \<Rightarrow> None
            | Some k \<Rightarrow> if leaf = Some (settlement_leaf_for (settlement_path_for_kind k)) then Some k else None))"

fun leaf_name :: "escrow_leaf_name \<Rightarrow> string" where
  "leaf_name Leaf_release = ''release''"
| "leaf_name Leaf_customer_win = ''customer_win''"
| "leaf_name Leaf_sponsor_win = ''sponsor_win''"
| "leaf_name Leaf_timelock = ''timelock''"

definition spend_message :: "hex \<Rightarrow> escrow_leaf_name option \<Rightarrow> string" where
  "spend_message txid leaf =
     ''unknown spend '' @ txid @ '' '' @ (case leaf of Some l \<Rightarrow> leaf_name l | None \<Rightarrow> ''unknown'')"

definition observe_spend ::
  "env \<Rightarrow> oc_row \<Rightarrow> hex \<Rightarrow> escrow_leaf_name option \<Rightarrow> 'm odb_scheme \<Rightarrow> 'm odb_scheme option" where
  "observe_spend e row txid leaf w =
     (let r = ow_order row; oid = oo_id r; now = now_sec w in
      if leaf = Some Leaf_timelock then
        map_option (\<lambda>(swept, w1). oc_alert e oid Warn (''swept '' @ txid) (apply_outcome e swept (No_tx Swept) w1))
          (update_oc oid (\<lambda>o1. o1\<lparr>oo_state := Oc_swept, oo_settlement_txid := Some txid\<rparr>) id w)
      else (case adopted_kind r leaf of
              None \<Rightarrow> Some (oc_alert e oid Anomaly (spend_message txid leaf) w)
            | Some kind \<Rightarrow>
                map_option snd
                  (update_oc oid
                    (\<lambda>o1. (if oo_state r = Oc_settling then o1
                           else o1\<lparr>oo_state := Oc_settling, oo_settling_at := Some now\<rparr>)
                          \<lparr>oo_settlement_kind := Some kind, oo_settlement_txid := Some txid\<rparr>) id w)))"

definition execute ::
  "oc_env \<Rightarrow> env \<Rightarrow> oc_row \<Rightarrow> onchain_action \<Rightarrow> 'm odb_scheme \<Rightarrow> 'm odb_scheme option" where
  "execute x e row action w =
     (let r = ow_order row; oid = oo_id r in
      case action of
        A_idle \<Rightarrow> Some w
      | A_hold why \<Rightarrow> Some w
      | A_anomaly why \<Rightarrow> Some (oc_alert e oid Anomaly why w)
      | A_warn why \<Rightarrow> Some (oc_alert e oid Warn why w)
      | A_dispute_soon \<Rightarrow> Some (notify_oc_dispute_soon r w)
      | A_fund out confs priceKrw \<Rightarrow> do_fund x e row out confs priceKrw w
      | A_fold out confs kind \<Rightarrow> map_option snd (decide_settlement x e oid kind (Some (out, confs)) w)
      | A_settle kind \<Rightarrow> map_option snd (decide_settlement x e oid kind None w)
      | A_cancel \<Rightarrow> do_cancel e row w
      | A_reorg why \<Rightarrow> do_reorg e row why w
      | A_dispute \<Rightarrow> map_option snd
          (oc_transition e r (\<lambda>o1. o1\<lparr>oo_state := Oc_disputed, oo_disputed_at := Some (now_sec w)\<rparr>) w)
      | A_confirmed \<Rightarrow> do_confirmed e row w
      | A_observe_spend txid leaf confirmed \<Rightarrow> observe_spend e row txid leaf w
      | A_rebroadcast \<Rightarrow> Some (case om_outbox (ow_meta row) of
            Some ob \<Rightarrow> request_broadcast oid (ob_txid ob) None w
          | None \<Rightarrow> w))"

subsection \<open>Beside the state machine\<close>

definition stray_key :: "oc_utxo \<Rightarrow> string" where
  "stray_key u = format_outpoint (op_txid (ou_outpoint u)) (op_vout (ou_outpoint u))"

definition note_strays :: "env \<Rightarrow> oc_row \<Rightarrow> oc_utxo list \<Rightarrow> 'm odb_scheme \<Rightarrow> 'm odb_scheme" where
  "note_strays e row strays w =
     (let oid = oo_id (ow_order row);
          before = remdups (map stray_key (case om_strays (ow_meta row) of Some us \<Rightarrow> us | None \<Rightarrow> []));
          fresh = filter (\<lambda>u. stray_key u \<notin> set before) strays;
          w1 = update_oc_meta oid (\<lambda>m. m\<lparr>om_strays := Some strays\<rparr>) w in
      if length strays = length before \<and> list_all (\<lambda>u. stray_key u \<in> set before) strays then w
      else if fresh \<noteq> [] then oc_alert e oid Warn (join '','' (map stray_key fresh)) w1
      else w1)"

definition maybe_resend_signature :: "oc_env \<Rightarrow> env \<Rightarrow> oc_row \<Rightarrow> 'm odb_scheme \<Rightarrow> 'm odb_scheme option" where
  "maybe_resend_signature x e row w =
     (let r = ow_order row;
          awaiting = (oo_state r = Oc_refunding \<or> oo_state r = Oc_disputed \<and> oo_settlement_kind r \<noteq> None) in
      if \<not> awaiting then Some w
      else if (case om_last_sign (ow_meta row) of None \<Rightarrow> False | Some t \<Rightarrow> now_sec w - t < SIGNATURE_RESEND_SEC)
      then Some w
      else map_option snd (request_settlement_signature x e (oo_id r) w))"

definition sponsor_bond_alive :: "oc_ord \<Rightarrow> 'm db_scheme \<Rightarrow> bool option" where
  "sponsor_bond_alive r w =
     (case given_s (oo_sponsor_deposit_hash r) of
        None \<Rightarrow> None
      | Some h \<Rightarrow>
          (case map_option h_status (hold_get h w) of
             Some H_accepted \<Rightarrow> Some True
           | Some H_cancelled \<Rightarrow> Some False
           | Some H_settled \<Rightarrow> Some False
           | _ \<Rightarrow> None))"

subsection \<open>One order\<close>

definition watch_context_of :: "env \<Rightarrow> oc_row \<Rightarrow> facts \<Rightarrow> 'm odb_scheme \<Rightarrow> watch_context" where
  "watch_context_of e row fx w =
     (let r = ow_order row in
      \<lparr>wc_now = now_sec w, wc_funds = fx_funds fx, wc_pinned = fx_pinned fx, wc_settlement_tx = fx_settlement fx,
       wc_price = truthy_rat (e_price e),
       wc_bond_alive = (if oo_state r = Oc_bonded then sponsor_bond_alive r w else None),
       wc_account_sent = (truthy (oo_account_sent_at r) \<noteq> None),
       wc_can_rebroadcast = (case om_outbox (ow_meta row) of
          None \<Rightarrow> False | Some ob \<Rightarrow> oo_settlement_txid r = Some (ob_txid ob))\<rparr>)"

definition is_anomaly_action :: "onchain_action \<Rightarrow> bool" where
  "is_anomaly_action a = (case a of A_anomaly _ \<Rightarrow> True | _ \<Rightarrow> False)"

definition funds_known :: "facts \<Rightarrow> bool" where
  "funds_known fx = (case fx_funds fx of Known _ \<Rightarrow> True | Unknown _ \<Rightarrow> False)"

text \<open>After the action: money outside the agreement, and a signature that is long in coming.\<close>

definition apply_rest ::
  "oc_env \<Rightarrow> env \<Rightarrow> string \<Rightarrow> onchain_action \<Rightarrow> facts \<Rightarrow> 'm odb_scheme \<Rightarrow> 'm odb_scheme option" where
  "apply_rest x e oid action fx w =
     do {
       fresh \<leftarrow> get_oc oid w;
       let r = ow_order fresh;
       let w1 =
         (if given_s (oo_escrow_address r) \<noteq> None \<and> funds_known fx \<and> \<not> is_onchain_terminal (oo_state r)
          then note_strays e fresh
            (if oo_state r = Oc_bonded
             then (if is_anomaly_action action then stray_utxos (fx_funds fx) None else [])
             else stray_utxos (fx_funds fx) (parse_outpoint (oo_funding_outpoint r))) w
          else w);
       maybe_resend_signature x e fresh w1
     }"

definition apply_facts ::
  "oc_env \<Rightarrow> env \<Rightarrow> string \<Rightarrow> nat \<Rightarrow> facts \<Rightarrow> 'm odb_scheme \<Rightarrow> 'm odb_scheme option" where
  "apply_facts x e oid version fx w =
     (case get_oc oid w of
        None \<Rightarrow> Some w
      | Some row \<Rightarrow>
          if ow_version row \<noteq> version then Some w
          else if is_onchain_terminal (oo_state (ow_order row))
          then Some (if funds_known fx then note_strays e row (stray_utxos (fx_funds fx) None) w else w)
          else do {
            action \<leftarrow> decide_onchain_action (ow_order row) (watch_context_of e row fx w);
            w1 \<leftarrow> (if warmed_up e w \<or> \<not> clock_action action then execute x e row action w else Some w);
            apply_rest x e oid action fx w1
          })"

subsection \<open>A pass\<close>

text \<open>
  Each order is handled in a transaction of its own; an exception there ends the pass (\<open>False\<close>) and, in \<open>runtime.ts\<close>,
  the tick.  What the earlier orders did stays.
\<close>

fun watch_rows ::
  "oc_env \<Rightarrow> env \<Rightarrow> chain \<Rightarrow> oc_row list \<Rightarrow> oc_watch \<Rightarrow> 'm odb_scheme \<Rightarrow> oc_watch \<times> 'm odb_scheme \<times> bool" where
  "watch_rows x e chain [] s w = (s, w, True)"
| "watch_rows x e chain (row # rows) s w =
     (case due_order row s (now_sec w) of
        (False, s1) \<Rightarrow> watch_rows x e chain rows s1 w
      | (True, s1) \<Rightarrow>
          (case gather x (chain (ow_id row)) (ow_order row) of
             None \<Rightarrow> watch_rows x e chain rows s1 w
           | Some fx \<Rightarrow>
               (case apply_facts x e (ow_id row) (ow_version row) fx w of
                  None \<Rightarrow> (s1, w, False)
                | Some w1 \<Rightarrow> watch_rows x e chain rows s1 w1)))"

definition oc_poll ::
  "oc_env \<Rightarrow> env \<Rightarrow> msec \<Rightarrow> chain \<Rightarrow> oc_watch \<Rightarrow> 'm odb_scheme \<Rightarrow> oc_watch \<times> 'm odb_scheme \<times> bool" where
  "oc_poll x e pollMs chain s w =
     (if \<not> elapsed (q_now w) (ow_last_poll s) pollMs then (s, w, True)
      else watch_rows x e chain (oc_orders w) (s\<lparr>ow_last_poll := Some (q_now w)\<rparr>) w)"

end
