(* ===== verification/Oc_Commands.thy ===== *)
theory Oc_Commands
  imports Oc_Watcher
begin

text \<open>
  The operators' commands on on-chain orders (\<open>daemon/src/onchain/commands.ts\<close>): the ruling of a dispute, the verdict on
  an account, sending a signature request again, returning stray money.  A command names the order with its version.
\<close>

type_synonym 'm oc_command =
  "oc_env \<Rightarrow> env \<Rightarrow> oc_row \<Rightarrow> json \<Rightarrow> 'm odb_scheme \<Rightarrow> (string option \<times> 'm odb_scheme) option"

definition oc_rule :: "'m oc_command" where
  "oc_rule x e row args w =
     (case jstr (jfield ''winner'' args) of
        None \<Rightarrow> Some (Some ''bad-args'', w)
      | Some winner \<Rightarrow>
          if winner \<noteq> ''sponsor'' \<and> winner \<noteq> ''customer'' then Some (Some ''bad-args'', w)
          else map_option (\<lambda>(err, w1). (map_option decide_error_str err, w1))
            (decide_settlement x e (oo_id (ow_order row))
              (if winner = ''sponsor'' then Sponsor_win else Customer_win) None w))"

definition oc_account_dispute :: "'m oc_command" where
  "oc_account_dispute x e row args w =
     (case jstr (jfield ''verdict'' args) of
        None \<Rightarrow> Some (Some ''bad-args'', w)
      | Some v \<Rightarrow>
          if v \<noteq> ''account-bad'' \<and> v \<noteq> ''sponsor-fault'' then Some (Some ''bad-args'', w)
          else resolve_account_dispute e (oo_id (ow_order row))
                 (if v = ''account-bad'' then Account_bad else Sponsor_fault) w)"

definition done_or :: "string \<Rightarrow> (bool \<times> 'w) option \<Rightarrow> (string option \<times> 'w) option" where
  "done_or err r = map_option (\<lambda>(ok, w). (if ok then None else Some err, w)) r"

definition oc_resend :: "'m oc_command" where
  "oc_resend x e row args w =
     (let r = ow_order row in
      if oo_state r = Oc_presigned \<or> oo_state r = Oc_remitted then done_or ''no-presig'' (resend_release e row w)
      else if oo_state r = Oc_refunding \<or> oo_state r = Oc_disputed \<and> oo_settlement_kind r \<noteq> None
      then done_or ''no-material'' (request_settlement_signature x e (oo_id r) w)
      else Some (Some ''bad-state'', w))"

definition named_utxo :: "json \<Rightarrow> oc_utxo \<Rightarrow> bool" where
  "named_utxo args u \<longleftrightarrow> jstr (jfield ''txid'' args) = Some (op_txid (ou_outpoint u))
     \<and> jnum (jfield ''vout'' args) = Some (of_int (op_vout (ou_outpoint u)))"

definition oc_rescue_command :: "'m oc_command" where
  "oc_rescue_command x e row args w =
     (case List.find (named_utxo args) (case om_strays (ow_meta row) of Some us \<Rightarrow> us | None \<Rightarrow> []) of
        None \<Rightarrow> Some (Some ''unknown-utxo'', w)
      | Some u \<Rightarrow> request_rescue x e (oo_id (ow_order row)) u w)"

definition oc_command_of :: "string \<Rightarrow> 'm oc_command option" where
  "oc_command_of cmd = map_of
     [(''oc.rule'', oc_rule), (''oc.account-dispute'', oc_account_dispute), (''oc.resend'', oc_resend),
      (''oc.rescue'', oc_rescue_command)] cmd"

definition on_oc_target :: "'m odb_ext ddb_ext directory \<Rightarrow> oc_env \<Rightarrow> 'm oc_command \<Rightarrow> 'm odb_ext ddb_ext command" where
  "on_oc_target dir x run e args w =
     (case check_target dir (jfield ''target'' args) w of
        Inl err \<Rightarrow> Some (Inl err, w)
      | Inr (t, p) \<Rightarrow>
          if tg_track t \<noteq> Track_onchain then Some (Inl ''bad-target'', w)
          else (case get_oc (tg_order t) w of
             None \<Rightarrow> Some (Inl ''unknown-order'', w)
           | Some row \<Rightarrow>
               (case run x e row args w of
                  None \<Rightarrow> None
                | Some (Some err, w1) \<Rightarrow> Some (Inl err, w1)
                | Some (None, w1) \<Rightarrow>
                    map_option (\<lambda>after.
                        (Inr (J_obj [(''orderId'', J_str (ow_id row)), (''version'', j_int (int (ow_version after)))]), w1))
                      (get_oc (ow_id row) w1))))"

definition oc_detail_command :: "'m odb_ext ddb_ext command" where
  "oc_detail_command e args w =
     (case jstr (jfield ''orderId'' args) of
        None \<Rightarrow> Some (Inl ''unknown-order'', w)
      | Some oid \<Rightarrow>
          if get_oc oid w = None then Some (Inl ''unknown-order'', w)
          else Some (Inr (J_obj [(''orderId'', J_str oid)]), request_oc_detail oid w))"

text \<open>The registry of the daemon with both tracks.\<close>

definition oc_registry ::
  "'m odb_ext ddb_ext directory \<Rightarrow> oc_env \<Rightarrow> string \<Rightarrow> 'm odb_ext ddb_ext command option" where
  "oc_registry dir x cmd =
     (case registry dir cmd of
        Some c \<Rightarrow> Some c
      | None \<Rightarrow> if cmd = ''oc.detail'' then Some oc_detail_command
                else map_option (on_oc_target dir x) (oc_command_of cmd))"

end
