(* ===== verification/Oc_Effects.thy ===== *)
theory Oc_Effects
  imports Oc_Commands
begin

text \<open>
  The effects of the on-chain track (\<open>daemon/src/onchain/effects.ts\<close>): publishing the order, the operators' detail,
  broadcasting a transaction from the books.  The relays and the explorer are parameters.
\<close>

subsection \<open>The order\<close>

definition with_expiration :: "rat \<Rightarrow> string list list \<Rightarrow> string list list" where
  "with_expiration q tags =
     map (\<lambda>t. case t of n # _ \<Rightarrow> if n = ''expiration'' then [''expiration'', num_str q] else t | [] \<Rightarrow> t) tags"

definition oc_publish_run :: "env \<Rightarrow> relay \<Rightarrow> string \<Rightarrow> 'm odb_scheme \<Rightarrow> eff_result outcome" where
  "oc_publish_run e rl oid w =
     (case get_oc oid w of
        None \<Rightarrow> O_done (R_published None [])
      | Some row \<Rightarrow>
          (let r = ow_order row;
               createdAt = max (now_sec w) (ow_published row + 1);
               expiration = onchain_order_event_expiration (oo_state r) (oo_expiration r) createdAt
                              (is_onchain_terminal (oo_state r)) in
           if expiration \<le> of_int createdAt then O_done (R_published None [])
           else (case order_events e oid (oo_customer r) (oo_designated r) (e_tag_oc e)
                        (with_expiration expiration (onchain_order_tags r (e_tag_oc e) (e_app_url e))) expiration createdAt of
              (events, skipped) \<Rightarrow>
                (case publish_all rl events of
                   Some err \<Rightarrow> O_retry err None
                 | None \<Rightarrow> O_done (R_published (Some createdAt) skipped)))))"

definition set_published :: "string \<Rightarrow> sec \<Rightarrow> 'm odb_scheme \<Rightarrow> 'm odb_scheme" where
  "set_published oid t w =
     w\<lparr>oc_orders := update_where (\<lambda>r. ow_id r = oid) (\<lambda>r. r\<lparr>ow_published := t\<rparr>) (oc_orders w)\<rparr>"

definition oc_publish_on_done :: "env \<Rightarrow> string \<Rightarrow> eff_result \<Rightarrow> 'm odb_scheme \<Rightarrow> 'm odb_scheme option" where
  "oc_publish_on_done e oid r w =
     (case r of
        R_published createdAt skipped \<Rightarrow>
          Some (alert_skipped_recipients e Track_onchain ''onchain'' oid skipped
            (case truthy createdAt of Some t \<Rightarrow> set_published oid t w | None \<Rightarrow> w))
      | _ \<Rightarrow> None)"

subsection \<open>The operators' detail\<close>

definition OC_DETAIL_RETENTION_SEC :: sec where "OC_DETAIL_RETENTION_SEC = 70 * 24 * 60 * 60"

definition jo_s :: "string \<Rightarrow> string option \<Rightarrow> (string \<times> json) list" where
  "jo_s k v = j_opt k (map_option J_str v)"

definition jo_i :: "string \<Rightarrow> int option \<Rightarrow> (string \<times> json) list" where
  "jo_i k v = j_opt k (map_option j_int v)"

definition jo_q :: "string \<Rightarrow> rat option \<Rightarrow> (string \<times> json) list" where
  "jo_q k v = j_opt k (map_option (\<lambda>q. J_num (Fin q)) v)"

text \<open>The order as its type lists the fields; the stored object keeps the order in which they were set.\<close>

definition oc_order_json :: "oc_ord \<Rightarrow> json" where
  "oc_order_json r = J_obj
     ([(''orderId'', J_str (oo_id r)), (''state'', J_str (oc_state_str (oo_state r))),
       (''customerPubkey'', J_str (oo_customer r))]
      @ jo_s ''sponsorPubkey'' (oo_sponsor r) @ jo_s ''designatedSponsor'' (oo_designated r)
      @ [(''amountSat'', j_int (oo_amount r))] @ jo_q ''reserveKrw'' (oo_reserve r)
      @ [(''createdAt'', j_int (oo_created r)), (''updatedAt'', j_int (oo_updated r)),
         (''expiration'', J_num (Fin (oo_expiration r))), (''network'', J_str (btc_network_str (oo_network r)))]
      @ jo_s ''customerXonly'' (oo_customer_xonly r) @ jo_s ''sponsorXonly'' (oo_sponsor_xonly r)
      @ jo_s ''adminXonly'' (oo_admin_xonly r) @ jo_s ''escrowAddress'' (oo_escrow_address r)
      @ jo_i ''timelockBlocks'' (oo_timelock r) @ jo_i ''fundingDeadline'' (oo_funding_deadline r)
      @ jo_s ''fundingOutpoint'' (oo_funding_outpoint r) @ jo_i ''fundingConfs'' (oo_funding_confs r)
      @ jo_i ''fundedAt'' (oo_funded_at r) @ jo_i ''presignDeadline'' (oo_presign_deadline r)
      @ jo_i ''accountDeadline'' (oo_account_deadline r) @ jo_i ''cosignDeadline'' (oo_cosign_deadline r)
      @ jo_i ''priceKrw'' (oo_price r) @ jo_i ''payoutSat'' (oo_payout r)
      @ jo_i ''releaseFeeSat'' (oo_release_fee r) @ jo_i ''presignedAt'' (oo_presigned_at r)
      @ jo_i ''accountSentAt'' (oo_account_sent_at r) @ jo_i ''krwDeadline'' (oo_krw_deadline r)
      @ jo_i ''remittedAt'' (oo_remitted_at r) @ jo_i ''accountDisputedAt'' (oo_account_disputed_at r)
      @ jo_i ''disputedAt'' (oo_disputed_at r)
      @ jo_s ''settlementKind'' (map_option settlement_kind_str (oo_settlement_kind r))
      @ jo_i ''settlementFeeSat'' (oo_settlement_fee r) @ jo_i ''decidedAt'' (oo_decided_at r)
      @ jo_s ''settlementTxid'' (oo_settlement_txid r) @ jo_i ''settlingAt'' (oo_settling_at r)
      @ jo_s ''customerDepositHash'' (oo_customer_deposit_hash r)
      @ jo_s ''sponsorDepositHash'' (oo_sponsor_deposit_hash r))"

definition bond_json :: "hold_row \<Rightarrow> json" where
  "bond_json iv = J_obj
     ([(''role'', J_str (if h_purpose iv = Oc_customer_bond then ''customer'' else ''sponsor'')),
       (''party'', J_str (h_party iv)), (''amountSat'', j_int (h_amount iv)),
       (''status'', J_str (hold_status_str (h_status iv))), (''payBy'', J_num (Fin (h_pay_by iv)))]
      @ jo_i ''htlcExpiryHeight'' (truthy (h_htlc_expiry iv)) @ [(''paymentHash'', J_str (h_hash iv))])"

definition outpoint_fields :: "outpoint \<Rightarrow> (string \<times> json) list" where
  "outpoint_fields out = [(''txid'', J_str (op_txid out)), (''vout'', j_int (op_vout out))]"

definition stray_json :: "oc_utxo \<Rightarrow> json" where
  "stray_json u = J_obj (outpoint_fields (ou_outpoint u) @ [(''valueSat'', j_int (ou_value u))])"

definition rescue_json :: "oc_rescue \<Rightarrow> json" where
  "rescue_json r = J_obj
     (outpoint_fields (rs_outpoint r)
      @ [(''valueSat'', j_int (rs_value r)), (''feeSat'', j_int (rs_fee r)), (''destination'', J_str (rs_destination r))]
      @ jo_s ''broadcastTxid'' (given_s (rs_broadcast r)))"

definition build_oc_detail :: "oc_row \<Rightarrow> 'm odb_scheme \<Rightarrow> json" where
  "build_oc_detail row w =
     (let r = ow_order row; m = ow_meta row;
          bonds = filter (\<lambda>iv. Some (h_hash iv) = oo_customer_deposit_hash r \<or> Some (h_hash iv) = oo_sponsor_deposit_hash r)
                    (hold_of (oo_id r) OC_BOND_PURPOSES w) in
      J_obj
       ([(''v'', j_int 1), (''orderId'', J_str (oo_id r)), (''version'', j_int (int (ow_version row))),
         (''order'', oc_order_json r)]
        @ jo_s ''payoutAddress'' (given_s (om_payout_address m)) @ jo_q ''feerateSatPerVb'' (truthy_rat (om_feerate m))
        @ jo_s ''refundAddress'' (given_s (om_refund_address m))
        @ [(''hasPresig'', J_bool (given_s (om_presig m) \<noteq> None))]
        @ jo_s ''accountCommitment'' (given_s (om_account_commitment m))
        @ jo_s ''outboxTxid'' (map_option ob_txid (om_outbox m))
        @ jo_i ''lastSignRequestAt'' (truthy (om_last_sign m))
        @ jo_i ''customerBondExpiresAt'' (truthy (om_customer_bond_expires m))
        @ jo_i ''sponsorBondExpiresAt'' (truthy (om_sponsor_bond_expires m))
        @ [(''bonds'', J_arr (map bond_json bonds)),
           (''candidates'', j_int (int (length (claim_candidates (oo_id r) w)))),
           (''strays'', J_arr (map stray_json (case om_strays m of Some us \<Rightarrow> us | None \<Rightarrow> []))),
           (''rescues'', J_arr (map (\<lambda>p. rescue_json (snd p)) (om_rescues m)))]))"

definition oc_detail_cell :: "string \<Rightarrow> string" where "oc_detail_cell oid = ''oc.detail.at:'' @ oid"

definition oc_detail_event :: "env \<Rightarrow> string \<Rightarrow> sec \<Rightarrow> json \<Rightarrow> string \<Rightarrow> nostr_event option" where
  "oc_detail_event e oid createdAt content operator =
     map_option (\<lambda>c. \<lparr>ev_kind = ADMIN_STATE_KIND, ev_created_at = createdAt,
          ev_tags = [[''d'', admin_order_d (e_tag_admin e) Track_onchain oid operator], [''p'', operator],
                     [''t'', e_tag_admin e], [''expiration'', int_str (createdAt + OC_DETAIL_RETENTION_SEC)]],
          ev_content = c\<rparr>)
       (e_seal e operator content)"

fun oc_publish_detail :: "env \<Rightarrow> relay \<Rightarrow> string \<Rightarrow> sec \<Rightarrow> json \<Rightarrow> string list \<Rightarrow> eff_result outcome option" where
  "oc_publish_detail e rl oid createdAt content [] = Some (O_done (R_published (Some createdAt) []))"
| "oc_publish_detail e rl oid createdAt content (op # ops) =
     (case oc_detail_event e oid createdAt content op of
        None \<Rightarrow> None
      | Some ev \<Rightarrow>
          if rp_accepted (rl ev) = []
          then Some (O_retry (joined_reasons (map snd (rp_rejected (rl ev)))) None)
          else oc_publish_detail e rl oid createdAt content ops)"

definition oc_detail_run :: "env \<Rightarrow> relay \<Rightarrow> string \<Rightarrow> 'm odb_scheme \<Rightarrow> eff_result outcome option" where
  "oc_detail_run e rl oid w =
     (case get_oc oid w of
        None \<Rightarrow> Some (O_done (R_published None []))
      | Some row \<Rightarrow>
          (let createdAt = max (now_sec w) (cell_int (kv_get (oc_detail_cell oid) w) 0 + 1) in
           oc_publish_detail e rl oid createdAt (build_oc_detail row w) (e_operators e)))"

definition oc_detail_on_done :: "string \<Rightarrow> eff_result \<Rightarrow> 'm db_scheme \<Rightarrow> 'm db_scheme option" where
  "oc_detail_on_done oid r w =
     (case r of
        R_published createdAt _ \<Rightarrow>
          Some (case truthy createdAt of Some t \<Rightarrow> kv_set (oc_detail_cell oid) (int_str t) w | None \<Rightarrow> w)
      | _ \<Rightarrow> None)"

subsection \<open>Broadcasting\<close>

definition raw_of :: "string \<Rightarrow> hex \<Rightarrow> string option \<Rightarrow> 'm odb_scheme \<Rightarrow> string option" where
  "raw_of oid txid rescueKey w =
     do {
       row \<leftarrow> get_oc oid w;
       given_s (case given_s rescueKey of
          Some key \<Rightarrow> Option.bind (map_of (om_rescues (ow_meta row)) key) rs_raw
        | None \<Rightarrow> Option.bind (om_outbox (ow_meta row)) (\<lambda>ob. if ob_txid ob = txid then Some (ob_raw ob) else None))
     }"

text \<open>\<open>/already|txn-already|in block chain|known/i\<close>.\<close>

definition already_there :: "string \<Rightarrow> bool" where
  "already_there reason \<longleftrightarrow> list_ex (\<lambda>p. is_infix_of p (map lower reason))
     [''already'', ''txn-already'', ''in block chain'', ''known'']"

definition broadcast_run ::
  "(string \<Rightarrow> fetched) \<Rightarrow> string \<Rightarrow> hex \<Rightarrow> string option \<Rightarrow> 'm odb_scheme \<Rightarrow> eff_result outcome" where
  "broadcast_run post oid txid rescueKey w =
     (case raw_of oid txid rescueKey w of
        None \<Rightarrow> O_dead ''nothing to broadcast''
      | Some rawHex \<Rightarrow>
          (case broadcast_tx post rawHex of
             Known sent \<Rightarrow> O_done R_none
           | Unknown reason \<Rightarrow> if already_there reason then O_done R_none else O_retry reason None))"

definition broadcast_on_done ::
  "string \<Rightarrow> hex \<Rightarrow> string option \<Rightarrow> eff_result \<Rightarrow> 'm odb_scheme \<Rightarrow> 'm odb_scheme option" where
  "broadcast_on_done oid txid rescueKey r w =
     Some (case given_s rescueKey of
        None \<Rightarrow> w
      | Some key \<Rightarrow>
          (case Option.bind (get_oc oid w) (\<lambda>row. map_of (om_rescues (ow_meta row)) key) of
             None \<Rightarrow> w
           | Some rescue \<Rightarrow> update_oc_meta oid
               (\<lambda>m. m\<lparr>om_rescues := set_rescue key (rescue\<lparr>rs_broadcast := Some txid\<rparr>) (om_rescues m)\<rparr>) w))"

definition broadcast_on_dead :: "env \<Rightarrow> string \<Rightarrow> hex \<Rightarrow> string \<Rightarrow> 'm db_scheme \<Rightarrow> 'm db_scheme option" where
  "broadcast_on_dead e oid txid err w =
     Some (raise_alert e (''oc:'' @ oid @ '':broadcast-dead:'' @ txid) Anomaly (Some Track_onchain) (Some oid) w)"

end
