(* ===== verification/Oc_Watcher_Inv.thy ===== *)
theory Oc_Watcher_Inv
  imports Oc_Handlers_Inv Oc_Effects
begin

text \<open>
  The watcher, the operators' commands and the effects keep the invariant of the on-chain tables: every action the
  watcher decides on fits the state of the order it decided for.
\<close>

subsection \<open>The watcher's actions\<close>

lemma oc_transition_ok:
  fixes w :: "'m odb_scheme"
  assumes g: "get_oc (oo_id r) w = Some row"
    and "order_facts x (ow_order row) (ow_meta row)
      \<Longrightarrow> order_facts x (p (ow_order row)) (ow_meta row) \<and> deal_step (ow_order row) (ow_meta row) (p (ow_order row)) (ow_meta row)"
  shows "ok_result (oc_ok x e) w (oc_transition e' r p w)"
  unfolding oc_transition_def
  by (intro oc_steps update_wp [OF g]) (use assms(2) in \<open>simp_all add: oc_ok_quiet\<close>)

lemma quiet_oc_alert [simp]: "quiet w (oc_alert e oid level key w)"
  by (simp add: oc_alert_def)

lemma fund_facts:
  assumes f: "order_facts x r m" and st: "oo_state r = Oc_bonded" and "0 < oo_amount r - fee"
  shows "order_facts x (funded_with out confs price fee t r) m \<and> deal_step r m (funded_with out confs price fee t r) m"
proof -
  let ?r = "funded_with out confs price fee t r"
  have s: "same_deal r m ?r m" "same_claim r m ?r m" by (simp_all add: funded_with_def same_deal_def same_claim_def)
  have k: "oo_settlement_kind r = None" using kind_none [OF f] st by auto
  have "party_ok x ?r"
    using f facts_sponsor [OF f] st by (intro party_ok_move [OF _ s]) (auto simp: order_facts_def funded_with_def)
  moreover have "terms_ok ?r" "kind_ok ?r" "decided_ok x ?r m" "oo_amount ?r = oo_amount r"
    using assms(3) k by (simp_all add: funded_with_def terms_ok_def kind_ok_def decided_ok_def)
  ultimately have "order_facts x ?r m" using f by (simp add: order_facts_def funded_with_def)
  moreover have "deal_step r m ?r m" using s st k by (simp add: deal_step_def FROZEN_def kind_step_def funded_with_def)
  ultimately show ?thesis ..
qed

lemma unfund_facts:
  assumes f: "order_facts x r m" and st: "oo_state r \<in> {Oc_funded, Oc_presigned}"
  shows "order_facts x (unfunded t r) m \<and> deal_step r m (unfunded t r) m"
proof -
  let ?r = "unfunded t r"
  have s: "same_deal r m ?r m" "same_claim r m ?r m" by (simp_all add: unfunded_def same_deal_def same_claim_def)
  have k: "oo_settlement_kind r = None" using kind_none [OF f] st by auto
  have "party_ok x ?r"
    using f facts_sponsor [OF f] st by (intro party_ok_move [OF _ s]) (auto simp: order_facts_def unfunded_def)
  moreover have "terms_ok ?r" "kind_ok ?r" "decided_ok x ?r m"
    using k by (simp_all add: unfunded_def terms_ok_def kind_ok_def decided_ok_def)
  ultimately have "order_facts x ?r m" using f by (simp add: order_facts_def unfunded_def)
  moreover have "deal_step r m ?r m" using s st k by (auto simp: deal_step_def FROZEN_def kind_step_def unfunded_def)
  ultimately show ?thesis ..
qed

text \<open>The end of a trade: the state of its kind, or swept.\<close>

lemma end_facts:
  assumes f: "order_facts x r m" and same: "same_facts r r'" and k: "oo_settlement_kind r' = oo_settlement_kind r"
    and st: "oo_state r \<notin> {Oc_listed, Oc_cancelled}"
    and e: "oo_state r' = Oc_swept \<or> (\<exists>c. oo_settlement_kind r = Some c \<and> oo_state r' = or_terminal (outcome_rules (Settled c)))"
  shows "order_facts x r' m \<and> deal_step r m r' m"
proof
  have s: "same_deal r m r' m" "same_claim r m r' m" "same_terms r m r' m" using same by (simp_all add: same_facts_def)
  have st': "oo_state r' \<in> {Oc_swept, Oc_released, Oc_refunded, Oc_sponsor_wins, Oc_customer_wins}"
  proof -
    have t: "or_terminal (outcome_rules (Settled c)) \<in> {Oc_released, Oc_refunded, Oc_sponsor_wins, Oc_customer_wins}" for c
      by (cases c) (simp_all add: mk_outcome_def)
    from e show ?thesis
    proof (elim disjE exE conjE)
      show ?thesis if "oo_state r' = or_terminal (outcome_rules (Settled c))" for c using t [of c] that by simp
    qed simp
  qed
  show "order_facts x r' m"
  proof (rule facts_move [OF f s])
    show "terms_ok r'" "decided_ok x r' m" using st' by (auto simp: terms_ok_def decided_ok_def)
    show "kind_ok r'" using st' e k by (auto simp: kind_ok_def)
    show "oo_sponsor r \<noteq> None \<or> oo_state r' = Oc_cancelled" using facts_sponsor [OF f] st by auto
  qed (use st' in auto)
  show "deal_step r m r' m" using same_facts_step [OF same] k by (simp add: kind_step_def)
qed

lemma same_facts_sel:
  "oo_id r' = oo_id r \<Longrightarrow> oo_customer r' = oo_customer r \<Longrightarrow> oo_designated r' = oo_designated r
   \<Longrightarrow> oo_amount r' = oo_amount r \<Longrightarrow> oo_reserve r' = oo_reserve r \<Longrightarrow> oo_created r' = oo_created r
   \<Longrightarrow> oo_expiration r' = oo_expiration r \<Longrightarrow> oo_network r' = oo_network r \<Longrightarrow> oo_customer_xonly r' = oo_customer_xonly r
   \<Longrightarrow> oo_customer_deposit_hash r' = oo_customer_deposit_hash r \<Longrightarrow> oo_sponsor r' = oo_sponsor r
   \<Longrightarrow> oo_sponsor_xonly r' = oo_sponsor_xonly r \<Longrightarrow> oo_admin_xonly r' = oo_admin_xonly r
   \<Longrightarrow> oo_escrow_address r' = oo_escrow_address r \<Longrightarrow> oo_timelock r' = oo_timelock r
   \<Longrightarrow> oo_sponsor_deposit_hash r' = oo_sponsor_deposit_hash r \<Longrightarrow> oo_price r' = oo_price r \<Longrightarrow> oo_payout r' = oo_payout r
   \<Longrightarrow> oo_release_fee r' = oo_release_fee r \<Longrightarrow> oo_funding_outpoint r' = oo_funding_outpoint r \<Longrightarrow> same_facts r r'"
  by (simp add: same_facts_def same_deal_def same_claim_def same_terms_def)

lemma do_fund_ok:
  fixes w :: "'m odb_scheme"
  assumes g: "get_oc (oo_id (ow_order row)) w = Some row" and "oo_state (ow_order row) = Oc_bonded"
  shows "ok_state (oc_ok x e) w (do_fund x e row out confs price w)"
  unfolding do_fund_def Let_def
  by (intro oc_steps ok_map(5) oc_transition_ok [OF g] fund_facts) (use assms(2) in \<open>auto simp: oc_ok_quiet\<close>)

lemma do_cancel_ok:
  fixes w :: "'m odb_scheme"
  assumes g: "get_oc (oo_id (ow_order row)) w = Some row" and "oo_state (ow_order row) \<in> {Oc_listed, Oc_bonded}"
  shows "ok_state (oc_ok x e) w (do_cancel e row w)"
  unfolding do_cancel_def Let_def
  by (intro oc_map oc_transition_ok [OF g] cancel_facts)
    (use assms(2) in \<open>auto intro: oc_ok_trans [OF oc_ok_quiet [OF quiet_apply_outcome] drop_sponsor_candidates_ok]\<close>)

lemma do_reorg_ok:
  fixes w :: "'m odb_scheme"
  assumes g: "get_oc (oo_id (ow_order row)) w = Some row" and "oo_state (ow_order row) \<in> {Oc_funded, Oc_presigned}"
  shows "ok_state (oc_ok x e) w (do_reorg e row why w)"
  unfolding do_reorg_def
  by (intro oc_map oc_transition_ok [OF g] unfund_facts) (use assms(2) in \<open>auto simp: oc_ok_quiet\<close>)

lemma do_confirmed_ok:
  fixes w :: "'m odb_scheme"
  assumes g: "get_oc (oo_id (ow_order row)) w = Some row" and "oo_state (ow_order row) = Oc_settling"
  shows "ok_state (oc_ok x e) w (do_confirmed e row w)"
  unfolding do_confirmed_def Let_def
  by (intro oc_steps oc_map oc_transition_ok [OF g] end_facts same_facts_sel)
    (use assms(2) in \<open>simp_all add: oc_ok_quiet\<close>)

lemma adopted_step: "adopted_kind r leaf = Some k \<Longrightarrow> kind_step (oo_settlement_kind r) (Some k)"
  by (auto simp: adopted_kind_def kind_step_def split: if_splits option.splits)

lemma observe_spend_ok:
  fixes w :: "'m odb_scheme"
  assumes g: "get_oc (oo_id (ow_order row)) w = Some row" and "oo_state (ow_order row) \<in> PINNED_STATES"
  shows "ok_state (oc_ok x e) w (observe_spend e row txid leaf w)"
  unfolding observe_spend_def Let_def
proof (intro oc_steps oc_map ok_map(5))
  let ?r = "(ow_order row)\<lparr>oo_state := Oc_swept, oo_settlement_txid := Some txid\<rparr>"
  show "ok_result (oc_ok x e) w (update_oc (oo_id (ow_order row)) (\<lambda>o1. o1\<lparr>oo_state := Oc_swept, oo_settlement_txid := Some txid\<rparr>) id w)"
  proof (rule update_wp [OF g], unfold id_apply)
    assume "order_facts x (ow_order row) (ow_meta row)"
    then show "order_facts x ?r (ow_meta row) \<and> deal_step (ow_order row) (ow_meta row) ?r (ow_meta row)"
      by (rule end_facts, intro same_facts_sel) (use assms(2) in \<open>auto simp: PINNED_STATES_def\<close>)
  qed
next
  fix kind assume k: "adopted_kind (ow_order row) leaf = Some kind"
  show "ok_result (oc_ok x e) w (update_oc (oo_id (ow_order row))
      (\<lambda>o1. (if oo_state (ow_order row) = Oc_settling then o1 else o1\<lparr>oo_state := Oc_settling, oo_settling_at := Some (now_sec w)\<rparr>)
         \<lparr>oo_settlement_kind := Some kind, oo_settlement_txid := Some txid\<rparr>) id w)"
    by (rule settle_wp [OF g _ _ _ _ adopted_step [OF k]])
      (auto simp: same_facts_def same_deal_def same_claim_def same_terms_def same_meta_def)
qed (simp_all add: oc_ok_quiet quiet_trans [OF quiet_apply_outcome quiet_oc_alert])

lemma fold_kind: "fold_grounded r c kind \<Longrightarrow> \<not> is_ruling kind"
  by (cases kind) (simp_all add: is_ruling_def)

lemma quiet_dispute_soon [simp]: "quiet w (notify_oc_dispute_soon r w)"
  by simp

lemma dispute_facts:
  assumes f: "order_facts x r m" and st: "oo_state r = Oc_remitted"
  shows "order_facts x (r\<lparr>oo_state := Oc_disputed, oo_disputed_at := t\<rparr>) m
    \<and> deal_step r m (r\<lparr>oo_state := Oc_disputed, oo_disputed_at := t\<rparr>) m"
  by (rule advance_facts [OF f], intro same_facts_sel)
    (use st f kind_none [OF f] in \<open>auto simp: order_facts_def terms_ok_def\<close>)

text \<open>Each action is taken in a state it fits.\<close>

lemma oc_execute_ok:
  fixes w :: "'m odb_scheme"
  assumes g: "get_oc (oo_id (ow_order row)) w = Some row" and a: "grounded (ow_order row) c action"
  shows "ok_state (oc_ok x e) w (execute x e row action w)"
proof (cases action)
  case (A_fold out confs kind)
  then show ?thesis using a fold_kind
    by (auto simp: execute_def intro!: ok_map(5) decide_settlement_ok)
next
  case (A_settle kind)
  then show ?thesis by (auto simp: execute_def intro!: ok_map(5) decide_settlement_ok)
next
  case A_dispute
  then show ?thesis
    using a by (auto simp: execute_def Let_def intro!: ok_map(5) oc_transition_ok [OF g] dest: dispute_facts)
qed (use a in \<open>auto simp: execute_def Let_def ok_end oc_ok_quiet request_broadcast_def
    intro!: do_fund_ok [OF g] do_cancel_ok [OF g] do_reorg_ok [OF g] do_confirmed_ok [OF g] observe_spend_ok [OF g]
    split: option.split\<close>)

subsection \<open>A pass of the watcher\<close>

lemma note_strays_ok: "oc_ok x e w (note_strays e' row strays w)" for w :: "'m odb_scheme"
proof -
  have 1: "oc_ok x e w (update_oc_meta oid (\<lambda>m. m\<lparr>om_strays := Some strays\<rparr>) w)" for oid
    by (rule update_oc_meta_ok) simp
  show ?thesis unfolding note_strays_def Let_def using 1 oc_ok_quiet_after [OF 1 quiet_oc_alert] by simp
qed

lemma maybe_resend_signature_ok: "ok_state (oc_ok x e) w (maybe_resend_signature x e row w)" for w :: "'m odb_scheme"
  unfolding maybe_resend_signature_def Let_def
  by (intro oc_steps ok_map(5) request_settlement_signature_ok) simp_all

lemma apply_rest_ok: "ok_state (oc_ok x e) w (apply_rest x e oid action fx w)" for w :: "'m odb_scheme"
proof -
  have "ok_state (oc_ok x e) w (maybe_resend_signature x e row w1)" if "oc_ok x e w w1" for row and w1 :: "'m odb_scheme"
    using maybe_resend_signature_ok [of x e w1 row] that by (auto simp: ok_state_def intro: oc_ok_trans)
  then show ?thesis unfolding apply_rest_def by (intro ok_bind_value ok_let(1)) (auto simp: note_strays_ok)
qed

lemma apply_facts_ok: "ok_state (oc_ok x e) w (apply_facts x e oid version fx w)" for w :: "'m odb_scheme"
  unfolding apply_facts_def
  by (intro oc_steps apply_rest_ok oc_execute_ok [OF get_oc_id] decide_grounded) (auto simp: note_strays_ok)

lemma watch_rows_ok: "watch_rows x e chain rows s w = (s', w', b) \<Longrightarrow> oc_ok x e w w'" for w :: "'m odb_scheme"
proof (induction rows arbitrary: s w)
  case (Cons row rows)
  then show ?case
    using oc_ok_trans [OF ok_stateD [OF apply_facts_ok]]
    by (auto split: prod.splits bool.splits option.splits) blast
qed simp

lemma oc_poll_ok: "oc_poll x e pollMs chain s w = (s', w', b) \<Longrightarrow> oc_ok x e w w'" for w :: "'m odb_scheme"
  by (auto simp: oc_poll_def watch_rows_ok split: if_splits)

lemma refresh_fees_ok: "oc_ok x e w (snd (refresh_fees http s w))" for w :: "'m odb_scheme"
  by (simp add: refresh_fees_def split: chain_query.split)

subsection \<open>The operators' commands\<close>

lemma oc_command_ok:
  fixes w :: "'m odb_scheme"
  assumes "oc_command_of cmd = Some run"
  shows "ok_result (oc_ok x e) w (run x e row args w)"
proof -
  have rule: "ok_result (oc_ok x e) w (oc_rule x e row args w)"
    unfolding oc_rule_def by (intro oc_steps oc_map decide_settlement_ok) simp_all
  have verdict: "ok_result (oc_ok x e) w (oc_account_dispute x e row args w)"
    unfolding oc_account_dispute_def by (intro oc_steps resolve_account_dispute_ok) simp_all
  have resend: "ok_result (oc_ok x e) w (oc_resend x e row args w)"
    unfolding oc_resend_def Let_def done_or_def
    by (intro oc_steps oc_map resend_release_ok request_settlement_signature_ok) simp_all
  have rescue: "ok_result (oc_ok x e) w (oc_rescue_command x e row args w)"
    unfolding oc_rescue_command_def by (intro oc_steps request_rescue_ok) simp
  show ?thesis using assms rule verdict resend rescue by (auto simp: oc_command_of_def split: if_splits)
qed

lemma on_oc_target_ok:
  fixes w :: "'m odb_ext ddb_ext db_scheme"
  assumes "oc_command_of cmd = Some run"
  shows "ok_result (oc_ok x e) w (on_oc_target dir x run e args w)"
proof (rule ok_resultI)
  fix res w' assume "on_oc_target dir x run e args w = Some (res, w')"
  then have "w' = w \<or> (\<exists>row a. run x e row args w = Some (a, w'))"
    by (auto simp: on_oc_target_def split: sum.splits option.splits if_splits)
  then show "oc_ok x e w w'" using ok_resultD [OF oc_command_ok [OF assms]] by auto
qed

end
