(* ===== verification/Oc_Daemon.thy ===== *)
theory Oc_Daemon
  imports Daemon Oc_Effects
begin

text \<open>
  The daemon with both tracks (\<open>daemon/src/runtime.ts\<close> with \<open>deps.onchain\<close>, \<open>daemon/src/onchain/index.ts\<close>): the table
  of executors, the router and one tick.  \<open>oc_world\<close> is the explorer as the parts of a tick find it.
\<close>

record oc_world =
  ox_fees :: http
  ox_chain :: chain
  ox_post :: "string \<Rightarrow> fetched"

type_synonym 'm oc_exec = "'m odb_ext ddb_ext exec"

subsection \<open>Executors\<close>

definition oc_publish_exec :: "env \<Rightarrow> world \<Rightarrow> 'm oc_exec" where
  "oc_publish_exec e wd = plain_exec
     (\<lambda>w p. on_order p (\<lambda>oid. Some (oc_publish_run e (wd_relay wd) oid w)))
     (\<lambda>p r w. on_order p (\<lambda>oid. oc_publish_on_done e oid r w))"

definition oc_detail_exec :: "env \<Rightarrow> world \<Rightarrow> 'm oc_exec" where
  "oc_detail_exec e wd = plain_exec
     (\<lambda>w p. on_order p (\<lambda>oid. oc_detail_run e (wd_relay wd) oid w))
     (\<lambda>p r w. on_order p (\<lambda>oid. oc_detail_on_done oid r w))"

definition broadcast_exec :: "env \<Rightarrow> oc_world \<Rightarrow> 'm oc_exec" where
  "broadcast_exec e ox =
     (plain_exec
        (\<lambda>w p. case p of P_oc_broadcast oid txid key \<Rightarrow> Some (broadcast_run (ox_post ox) oid txid key w) | _ \<Rightarrow> None)
        (\<lambda>p r w. case p of P_oc_broadcast oid txid key \<Rightarrow> broadcast_on_done oid txid key r w | _ \<Rightarrow> None))
     \<lparr>ex_on_dead := (\<lambda>p err w. case p of P_oc_broadcast oid txid key \<Rightarrow> broadcast_on_dead e oid txid err w | _ \<Rightarrow> None),
      ex_max_attempts := Some 8\<rparr>"

definition oc_executor_table :: "oc_env \<Rightarrow> env \<Rightarrow> world \<Rightarrow> oc_world \<Rightarrow> (string \<times> 'm oc_exec) list" where
  "oc_executor_table x e wd ox =
     [(''hold.create'', create_exec (all_hooks x e) wd), (''hold.dispose'', dispose_exec (all_hooks x e) e wd),
      (''oc.order.publish'', oc_publish_exec e wd), (''oc.detail'', oc_detail_exec e wd),
      (''oc.broadcast'', broadcast_exec e ox)]"

text \<open>The track's executors beside those the daemon has anyway; the hooks of the hold invoices are those of both tracks.\<close>

definition oc_executors :: "oc_env \<Rightarrow> env \<Rightarrow> world \<Rightarrow> oc_world \<Rightarrow> string \<Rightarrow> 'm oc_exec option" where
  "oc_executors x e wd ox kind =
     (case map_of (oc_executor_table x e wd ox) kind of Some ex \<Rightarrow> Some ex | None \<Rightarrow> executors e wd kind)"

subsection \<open>Routing\<close>

definition both_directory :: "'m odb_ext ddb_ext directory" where
  "both_directory = compose_directories [ln_directory, oc_directory]"

definition oc_route :: "oc_env \<Rightarrow> env \<Rightarrow> 'm odb_ext router" where
  "oc_route x e =
     route e both_directory (oc_registry both_directory x) (\<lambda>action. map_option (\<lambda>h. h x) (oc_handler action))"

text \<open>What installing the on-chain track does on start-up.\<close>

definition republish_oc_designated :: "env \<Rightarrow> 'm odb_scheme \<Rightarrow> 'm odb_scheme" where
  "republish_oc_designated e w =
     (case operators_changed e Track_onchain w of
        (changed, w1) \<Rightarrow> if changed then fold request_oc_projection (designated_oc_ids w1) w1 else w1)"

subsection \<open>A tick\<close>

record tick_state =
  ts_last_state :: "msec option"
  ts_watch :: oc_watch

text \<open>The on-chain watcher throws when its third result is \<open>False\<close>; the first two observers when theirs is \<open>True\<close>.\<close>

definition oc_tick ::
  "oc_env \<Rightarrow> env \<Rightarrow> world \<Rightarrow> oc_world \<Rightarrow> msec \<Rightarrow> msec \<Rightarrow> tick_state \<Rightarrow> 'm odb_scheme \<Rightarrow> tick_state \<times> 'm odb_scheme" where
  "oc_tick x e wd ox holdMs pollMs s w =
     (case refresh_fees (ox_fees ox) (ts_watch s) w of
        (s0, w0) \<Rightarrow>
          (let w1 = run_pending e (oc_route x e) holdMs 200 w0; s1 = s\<lparr>ts_watch := s0\<rparr> in
           case hold_poll e (all_hooks x e) (wd_node wd) w1 of
             (w2, True) \<Rightarrow> (s1, w2)
           | (w2, False) \<Rightarrow>
               (case ln_watch e (wd_node wd) w2 of
                  (w3, True) \<Rightarrow> (s1, w3)
                | (w3, False) \<Rightarrow>
                    (case oc_poll x e pollMs (ox_chain ox) s0 w3 of
                       (s4, w4, False) \<Rightarrow> (s1\<lparr>ts_watch := s4\<rparr>, w4)
                     | (s4, w4, True) \<Rightarrow>
                         (case heartbeat e (ts_last_state s) (raise_stuck_effects e w4) of
                            (lastState, w5) \<Rightarrow>
                              (\<lparr>ts_last_state = lastState, ts_watch = s4\<rparr>,
                               run_due (oc_executors x e wd ox) 50 w5))))))"

end
