(* ===== verification/Trades.thy ===== *)
theory Trades
  imports Daemon
begin

text \<open>
  What the daemon promises as a whole.  The contract: a board of trades, each with its customer, a state of the
  table and whether the sponsor was paid out; a trade is opened, moves along the table or is paid out once it is
  won, and nothing else ever happens to it.  Every step of the daemon is a sequence of such moves.
\<close>

subsection \<open>The contract\<close>

record trade =
  t_customer :: string
  t_state :: order_state
  t_paid_out :: bool

inductive trade_move :: "trade option \<Rightarrow> trade option \<Rightarrow> bool" where
  M_open: "trade_move None (Some \<lparr>t_customer = c, t_state = Requested, t_paid_out = False\<rparr>)"
| M_step: "can_transition (t_state t) s \<Longrightarrow> trade_move (Some t) (Some (t\<lparr>t_state := s\<rparr>))"
| M_pay: "t_state t \<in> {Paid, Sponsor_wins} \<Longrightarrow> \<not> t_paid_out t \<Longrightarrow> trade_move (Some t) (Some (t\<lparr>t_paid_out := True\<rparr>))"

type_synonym board = "string \<Rightarrow> trade option"

inductive board_step :: "board \<Rightarrow> board \<Rightarrow> bool" where
  "trade_move (B oid) x \<Longrightarrow> board_step B (B(oid := x))"

definition trade_of :: "ln_order \<Rightarrow> trade" where
  "trade_of r = \<lparr>t_customer = o_customer r, t_state = o_state r, t_paid_out = o_disbursed r\<rparr>"

definition board_of :: "'m db_scheme \<Rightarrow> board" where
  "board_of w oid = map_option trade_of (get_order oid w)"

lemma orders_evolveD:
  "orders_evolve w w' \<Longrightarrow> get_order oid w = Some r \<Longrightarrow> \<exists>r'. get_order oid w' = Some r' \<and> order_evolves r r'"
  by (simp add: orders_evolve_def)

subsection \<open>Moves of one trade\<close>

lemma moves_along:
  "can_transition\<^sup>*\<^sup>* (t_state t) s \<Longrightarrow> trade_move\<^sup>*\<^sup>* (Some t) (Some (t\<lparr>t_state := s\<rparr>))"
proof (induction rule: rtranclp_induct)
  case (step u v)
  have "trade_move (Some (t\<lparr>t_state := u\<rparr>)) (Some (t\<lparr>t_state := u\<rparr>\<lparr>t_state := v\<rparr>))"
    by (rule M_step) (use step.hyps(2) in simp)
  then have "trade_move (Some (t\<lparr>t_state := u\<rparr>)) (Some (t\<lparr>t_state := v\<rparr>))" by simp
  with step.IH show ?case by (rule rtranclp.rtrancl_into_rtrancl)
qed simp

lemma moves_pay:
  assumes "can_transition\<^sup>*\<^sup>* (t_state t) (t_state t')" and "t_customer t' = t_customer t"
    and "t_paid_out t \<Longrightarrow> t_paid_out t'" and "t_paid_out t' \<Longrightarrow> t_state t' \<in> {Paid, Sponsor_wins}"
  shows "trade_move\<^sup>*\<^sup>* (Some t) (Some t')"
proof (cases "t_paid_out t' = t_paid_out t")
  case True
  then have "t' = t\<lparr>t_state := t_state t'\<rparr>" using assms(2) by (cases t; cases t') simp
  then show ?thesis using moves_along [OF assms(1)] by simp
next
  case False
  let ?u = "t\<lparr>t_state := t_state t'\<rparr>"
  have "trade_move (Some ?u) (Some (?u\<lparr>t_paid_out := True\<rparr>))"
    by (rule M_pay) (use False assms(3,4) in auto)
  moreover have "?u\<lparr>t_paid_out := True\<rparr> = t'" using False assms(2,3) by (cases t; cases t') auto
  ultimately show ?thesis using moves_along [OF assms(1)] by simp
qed

lemma requested_reaches: "can_transition\<^sup>*\<^sup>* Requested s"
proof -
  have step: "can_transition\<^sup>*\<^sup>* Requested s" if "can_transition\<^sup>*\<^sup>* Requested u" "can_transition u s" for u s
    using that by (rule rtranclp.rtrancl_into_rtrancl)
  have c: "can_transition\<^sup>*\<^sup>* Requested Claimed" by (rule step [OF rtranclp.rtrancl_refl]) (simp add: can_transition_def)
  have v: "can_transition\<^sup>*\<^sup>* Requested Verified" by (rule step [OF c]) (simp add: can_transition_def)
  have e: "can_transition\<^sup>*\<^sup>* Requested Escrowed" by (rule step [OF v]) (simp add: can_transition_def)
  have i: "can_transition\<^sup>*\<^sup>* Requested Invoiced" by (rule step [OF e]) (simp add: can_transition_def)
  have r: "can_transition\<^sup>*\<^sup>* Requested Remitted" by (rule step [OF i]) (simp add: can_transition_def)
  show ?thesis
    using c v e i r step [OF c] step [OF v] step [OF e] step [OF i] step [OF r] step [OF rtranclp.rtrancl_refl]
    by (cases s) (simp_all add: can_transition_def)
qed

lemma moves_open:
  assumes "t_paid_out t \<Longrightarrow> t_state t \<in> {Paid, Sponsor_wins}"
  shows "trade_move\<^sup>*\<^sup>* None (Some t)"
proof -
  let ?t0 = "\<lparr>t_customer = t_customer t, t_state = Requested, t_paid_out = False\<rparr>"
  have "trade_move\<^sup>*\<^sup>* (Some ?t0) (Some t)"
    by (rule moves_pay) (use assms requested_reaches in auto)
  with M_open [of "t_customer t"] show ?thesis by (rule converse_rtranclp_into_rtranclp)
qed

subsection \<open>Moves of the board\<close>

lemma board_moves: "trade_move\<^sup>*\<^sup>* (B oid) x \<Longrightarrow> board_step\<^sup>*\<^sup>* B (B(oid := x))"
proof (induction rule: rtranclp_induct)
  case base
  then show ?case by (simp add: fun_upd_idem)
next
  case (step y z)
  have "board_step (B(oid := y)) ((B(oid := y))(oid := z))"
    by (rule board_step.intros) (use step.hyps(2) in simp)
  then have one: "board_step (B(oid := y)) (B(oid := z))" by (simp only: fun_upd_upd)
  show ?case by (rule rtranclp.rtrancl_into_rtrancl [where b = "B(oid := y)", OF step.IH one])
qed

lemma board_moves_many:
  assumes "finite D" and "\<forall>oid. trade_move\<^sup>*\<^sup>* (B oid) (C oid)" and "\<forall>oid. oid \<notin> D \<longrightarrow> C oid = B oid"
  shows "board_step\<^sup>*\<^sup>* B C"
  using assms
proof (induction D arbitrary: B)
  case empty
  then have "C = B" by auto
  then show ?case by simp
next
  case (insert i D)
  have "board_step\<^sup>*\<^sup>* B (B(i := C i))" using insert.prems(1) by (blast intro: board_moves)
  moreover have "board_step\<^sup>*\<^sup>* (B(i := C i)) C"
    by (rule insert.IH) (use insert.prems in auto)
  ultimately show ?case by (rule rtranclp_trans)
qed

lemma board_finite: "finite {oid. board_of w oid \<noteq> None}"
proof -
  have "{oid. board_of w oid \<noteq> None} \<subseteq> o_id ` set (ln_orders w)"
    by (auto simp: board_of_def dest: get_order_Some)
  then show ?thesis by (rule finite_subset) simp
qed

lemma evolve_board:
  assumes "orders_evolve w w'" and "ln_winv e w'"
  shows "board_step\<^sup>*\<^sup>* (board_of w) (board_of w')"
proof (rule board_moves_many [OF board_finite [of w']])
  have paid: "t_paid_out (trade_of r) \<Longrightarrow> t_state (trade_of r) \<in> {Paid, Sponsor_wins}" if "get_order oid w' = Some r" for oid r
    using ln_winv_order [OF assms(2) that] by (auto simp: trade_of_def order_ok_def)
  have one: "trade_move\<^sup>*\<^sup>* (board_of w oid) (board_of w' oid)" for oid
  proof (cases "get_order oid w")
    case None
    then show ?thesis using moves_open [OF paid] by (cases "get_order oid w'") (auto simp: board_of_def)
  next
    case (Some r)
    then obtain r' where r': "get_order oid w' = Some r'" "order_evolves r r'"
      using orders_evolveD [OF assms(1)] by blast
    have "trade_move\<^sup>*\<^sup>* (Some (trade_of r)) (Some (trade_of r'))"
      by (rule moves_pay) (use r'(2) paid [OF r'(1)] in \<open>auto simp: trade_of_def order_evolves_def\<close>)
    then show ?thesis by (simp add: board_of_def Some r'(1))
  qed
  then show "\<forall>oid. trade_move\<^sup>*\<^sup>* (board_of w oid) (board_of w' oid)" ..
  show "\<forall>oid. oid \<notin> {oid. board_of w' oid \<noteq> None} \<longrightarrow> board_of w' oid = board_of w oid"
  proof (intro allI impI)
    fix oid assume "oid \<notin> {oid. board_of w' oid \<noteq> None}"
    then have none: "get_order oid w' = None" by (simp add: board_of_def)
    have "get_order oid w = None"
    proof (rule ccontr)
      assume "get_order oid w \<noteq> None"
      then obtain r where "get_order oid w = Some r" by blast
      from orders_evolveD [OF assms(1) this] none show False by simp
    qed
    with none show "board_of w' oid = board_of w oid" by (simp add: board_of_def)
  qed
qed

subsection \<open>Properties\<close>

text \<open>C4. The daemon as a whole keeps its tables well-formed: an empty database is well-formed, and after any sequence
  of ticks, events, restarts and waiting, with any node, relays and market, hashes, slots, ids and dedup keys are
  unique, every preimage is recoverable from the seed, every order satisfies its invariant, and no order was
  lost, went back or changed its customer, price or deadline.\<close>

theorem daemon_invariant:
  assumes "ln_winv e w0" and "inbox_wf w0" and "(daemon_step (e_hash e))\<^sup>*\<^sup>* w0 w"
  shows "ln_winv e w \<and> inbox_wf w \<and> orders_evolve w0 w \<and> (\<forall>oid r. get_order oid w = Some r \<longrightarrow> order_ok r)
    \<and> ln_winv e (empty_ddb t) \<and> inbox_wf (empty_ddb t)"
proof -
  have "daemon_wf e w \<and> orders_evolve w0 w"
    by (rule daemon_steps_ok [OF assms(3) _ refl]) (use assms(1,2) in \<open>simp add: daemon_wf_def\<close>)
  then have w: "ln_winv e w" "inbox_wf w" "orders_evolve w0 w" by (simp_all add: daemon_wf_def)
  have "ln_winv e (empty_ddb t)" "inbox_wf (empty_ddb t)"
    by (simp_all add: ln_winv_def hold_inv_def q_wf_def hold_wf_def ln_inv_def inbox_wf_def empty_ddb_def)
  with w ln_winv_order [OF w(1)] show ?thesis by blast
qed

definition toy_tick :: "ddb" where
  "toy_tick = snd (tick toy_env toy_world 2000 None (toy_ddb [toy_row]))"

lemma toy_ddb_wf: "inbox_wf (toy_ddb [toy_row])"
  by (simp add: inbox_wf_def toy_ddb_def)

theorem daemon_invariant_witness:
  "ln_winv toy_env toy_tick \<and> inbox_wf toy_tick \<and> get_order ''ord1'' toy_tick \<noteq> None"
proof -
  have s: "(daemon_step (e_hash toy_env))\<^sup>*\<^sup>* (toy_ddb [toy_row]) toy_tick"
    unfolding toy_tick_def by (rule tick_steps) simp
  have g: "get_order ''ord1'' (toy_ddb [toy_row]) = Some toy_order"
    by (simp add: toy_ddb_def get_order_def toy_reads)
  note inv = daemon_invariant [OF toy_ddb_winv toy_ddb_wf s, of 0]
  then have "\<exists>r'. get_order ''ord1'' toy_tick = Some r' \<and> order_evolves toy_order r'"
    using orders_evolveD [OF _ g, of toy_tick] by blast
  with inv show ?thesis by auto
qed

text \<open>C3. The daemon implements its contract: on a well-formed database every step, and so every run, moves the board of
  trades only by the contract's moves.  A trade is opened for a customer who never changes, moves along the table,
  and is paid out at most once and only when it was confirmed or won by the sponsor.\<close>

theorem daemon_refines_contract:
  assumes "ln_winv e w0" and "inbox_wf w0" and "(daemon_step (e_hash e))\<^sup>*\<^sup>* w0 w" and "daemon_step (e_hash e) w w'"
  shows "board_step\<^sup>*\<^sup>* (board_of w0) (board_of w) \<and> board_step\<^sup>*\<^sup>* (board_of w) (board_of w')"
proof -
  have "daemon_wf e w0" using assms(1,2) by (simp add: daemon_wf_def)
  from daemon_steps_ok [OF assms(3) this refl] have 1: "daemon_wf e w" "orders_evolve w0 w" by blast+
  from daemon_step_ok [OF assms(4) 1(1) refl] have 2: "daemon_wf e w'" "orders_evolve w w'" by blast+
  from 1(1) 2(1) have w: "ln_winv e w" "ln_winv e w'" by (simp_all add: daemon_wf_def)
  show ?thesis using evolve_board [OF 1(2) w(1)] evolve_board [OF 2(2) w(2)] ..
qed

theorem daemon_refines_contract_witness:
  "board_step\<^sup>*\<^sup>* (board_of (toy_ddb [toy_row])) (board_of toy_tick)
   \<and> board_of (toy_ddb [toy_row]) ''ord1'' = Some \<lparr>t_customer = ''cust'', t_state = Requested, t_paid_out = False\<rparr>"
proof -
  have s: "(daemon_step (e_hash toy_env))\<^sup>*\<^sup>* (toy_ddb [toy_row]) toy_tick"
    unfolding toy_tick_def by (rule tick_steps) simp
  have one: "daemon_step (e_hash toy_env) toy_tick (raise_stuck_effects toy_env toy_tick)" by (rule S_stuck) simp
  have "board_of (toy_ddb [toy_row]) ''ord1'' = Some \<lparr>t_customer = ''cust'', t_state = Requested, t_paid_out = False\<rparr>"
    by (simp add: board_of_def toy_ddb_def get_order_def toy_reads trade_of_def toy_order_def new_order_def)
  with daemon_refines_contract [OF toy_ddb_winv toy_ddb_wf s one] show ?thesis by blast
qed

end
