(* ===== verification/Oc_System.thy ===== *)
theory Oc_System
  imports Oc_Watcher_Inv Oc_Daemon Trades
begin

text \<open>
  The daemon with both tracks as a system: every event, effect and pass keeps the tables of both tracks, and orders of
  either track only move along their table.
\<close>

subsection \<open>The effects\<close>

lemma set_published_ok: "oc_ok x e w (set_published oid t w)"
proof (cases "get_oc oid w")
  case None
  show ?thesis unfolding set_published_def get_oc_none_update [OF None] by simp
next
  case (Some row)
  show ?thesis unfolding set_published_def by (rule oc_ok_same_meta [OF _ Some]) (simp add: same_meta_def)
qed

lemma oc_publish_done_ok: "oc_publish_on_done e oid r w = Some w' \<Longrightarrow> oc_ok x e2 w w'" for w :: "'m odb_scheme"
  using oc_ok_quiet_after [OF set_published_ok quiet_alert_skipped]
  by (auto simp: oc_publish_on_done_def oc_ok_quiet quiet_alert_skipped split: eff_result.splits option.split)

lemma oc_detail_done_ok: "oc_detail_on_done oid r w = Some w' \<Longrightarrow> oc_ok x e w w'" for w :: "'m odb_scheme"
  by (auto simp: oc_detail_on_done_def oc_ok_quiet split: eff_result.splits option.split)

lemma broadcast_done_ok: "broadcast_on_done oid txid key r w = Some w' \<Longrightarrow> oc_ok x e w w'" for w :: "'m odb_scheme"
  by (auto simp: broadcast_on_done_def intro!: update_oc_meta_ok split: option.split)

lemma broadcast_dead_ok: "broadcast_on_dead e oid txid err w = Some w' \<Longrightarrow> oc_ok x e2 w w'" for w :: "'m odb_scheme"
  by (auto simp: broadcast_on_dead_def oc_ok_quiet)

lemma in_oc_executors:
  "oc_executors x e wd ox k = Some ex \<Longrightarrow> (k, ex) \<in> set (oc_executor_table x e wd ox) \<or> executors e wd k = Some ex"
  by (auto simp: oc_executors_def map_of_SomeD split: option.splits)

lemmas oc_executor_defs = oc_publish_exec_def oc_detail_exec_def broadcast_exec_def create_exec_def dispose_exec_def
  on_order_def

lemma oc_exec_done_ok:
  fixes w :: "'m odb_ext ddb_ext db_scheme"
  assumes "oc_executors x e wd ox k = Some ex" and "ex_run ex w p = Some (O_done r)"
    and "ex_on_done ex p r (w\<lparr>q_rows := rs\<rparr>) = Some w'"
  shows "oc_ok x e (w\<lparr>q_rows := rs\<rparr>) w'"
  using in_oc_executors [OF assms(1)]
proof
  assume "executors e wd k = Some ex"
  from exec_done_ok [OF this assms(2,3)] show ?thesis by (rule oc_ok_ln)
next
  assume "(k, ex) \<in> set (oc_executor_table x e wd ox)"
  then show ?thesis using assms(3)
    by (auto simp: oc_executor_table_def oc_executor_defs oc_holds.create_on_done_ok oc_holds.dispose_on_done_ok
        oc_publish_done_ok oc_detail_done_ok broadcast_done_ok bind_Some_iff split: payload.splits)
qed

lemma oc_exec_dead_ok:
  fixes w :: "'m odb_ext ddb_ext db_scheme"
  assumes "oc_executors x e wd ox k = Some ex"
    and "ex_run ex w p = Some (O_dead err) \<or> (\<exists>n e'. err = int_str n @ '' failures: '' @ e')"
    and "ex_on_dead ex p err (w\<lparr>q_rows := rs\<rparr>) = Some w'"
  shows "oc_ok x e (w\<lparr>q_rows := rs\<rparr>) w'"
  using in_oc_executors [OF assms(1)]
proof
  assume "executors e wd k = Some ex"
  from exec_dead_ok [OF this assms(2,3)] show ?thesis by (rule oc_ok_ln)
next
  assume "(k, ex) \<in> set (oc_executor_table x e wd ox)"
  then show ?thesis using assms(3)
    by (auto simp: oc_executor_table_def oc_executor_defs broadcast_dead_ok split: payload.splits)
qed

lemma oc_exec_retry_ok:
  fixes w :: "'m odb_ext ddb_ext db_scheme"
  assumes "oc_executors x e wd ox k = Some ex"
    and "(\<exists>d. ex_run ex w p = Some (O_retry err d)) \<or> err = ''exception'' \<or> err = ''onDone''"
    and "ex_on_retry ex p err (w\<lparr>q_rows := rs\<rparr>) = Some w'"
  shows "oc_ok x e (w\<lparr>q_rows := rs\<rparr>) w'"
  using in_oc_executors [OF assms(1)]
proof
  assume "executors e wd k = Some ex"
  from exec_retry_ok [OF this assms(2,3)] show ?thesis by (rule oc_ok_ln)
next
  assume "(k, ex) \<in> set (oc_executor_table x e wd ox)"
  then show ?thesis using assms(3) by (auto simp: oc_executor_table_def oc_executor_defs)
qed

text \<open>What stays while the queue runs, relative to the database the run began with.\<close>

definition oc_stays :: "oc_env \<Rightarrow> env \<Rightarrow> 'm odb_scheme \<Rightarrow> 'm odb_scheme \<Rightarrow> bool" where
  "oc_stays x e w0 w \<longleftrightarrow> hold_wf e w \<and> ln_inv w \<and> oc_inv x w \<and> orders_evolve w0 w \<and> oc_evolve w0 w
     \<and> holds_keep w0 w \<and> q_now w = q_now w0 \<and> inbox w = inbox w0"

lemma candidate_ok_rows [simp]: "candidate_ok (w\<lparr>q_rows := rs\<rparr>) = candidate_ok w"
  by (rule ext) (simp add: candidate_ok_def hold_keys_def get_oc_def cong: candidate_info.case_cong)

lemma oc_stays_rows: "oc_stays x e w0 (w\<lparr>q_rows := rs\<rparr>) = oc_stays x e w0 w"
  by (simp add: oc_stays_def hold_wf_def ln_inv_def orders_evolve_def oc_evolve_def get_oc_def oc_inv_def holds_keep_def
      hold_keys_def)

lemma oc_stays_step:
  assumes "oc_ok x e (w\<lparr>q_rows := rs\<rparr>) w'" and "q_wf (w\<lparr>q_rows := rs\<rparr>)" and "oc_stays x e w0 w"
  shows "q_wf w' \<and> oc_stays x e w0 w'"
proof -
  let ?w = "w\<lparr>q_rows := rs\<rparr>"
  have k: "oc_stays x e w0 ?w" using assms(3) by (simp add: oc_stays_rows)
  then have "oc_winv x e ?w" using assms(2) by (simp add: oc_stays_def oc_winv_def ln_winv_def hold_inv_def)
  with assms(1) have "oc_kept x e ?w w'" by (simp add: oc_ok_def)
  then show ?thesis
    using k orders_evolve_trans [of w0 ?w w'] oc_evolve_trans [of w0 ?w w'] holds_keep_trans [of w0 ?w w']
    by (simp add: oc_stays_def oc_kept_def oc_winv_def ln_winv_def hold_inv_def)
qed

interpretation oc_queue: effect_contract "oc_executors x e wd ox" "oc_stays x e w0" for x e wd ox w0
proof unfold_locales
  fix w :: "'a odb_ext ddb_ext db_scheme" and k ex p r i w'
  assume ex: "oc_executors x e wd ox k = Some ex" and q: "q_wf w" and J: "oc_stays x e w0 w"
    and run: "ex_run ex w p = Some (O_done r)" and d: "ex_on_done ex p r (finish i Done None w) = Some w'"
  obtain rs where rs: "finish i Done None w = w\<lparr>q_rows := rs\<rparr>" using finish_rows by blast
  have "q_wf (w\<lparr>q_rows := rs\<rparr>)" using q_wf_finish [OF q, of Done i None] by (simp add: rs)
  then show "q_wf w' \<and> oc_stays x e w0 w'" using oc_stays_step [OF oc_exec_done_ok [OF ex run]] d J by (simp add: rs)
qed (simp add: oc_stays_rows, erule (4) oc_stays_step [OF oc_exec_dead_ok], erule (4) oc_stays_step [OF oc_exec_retry_ok])

lemma oc_run_due_ok:
  fixes w :: "'m odb_ext ddb_ext db_scheme"
  shows "oc_ok x e w (run_due (oc_executors x e wd ox) n w)"
proof (rule oc_okI)
  assume inv: "oc_winv x e w"
  then have "q_wf w" "oc_stays x e w w" by (simp_all add: oc_winv_def ln_winv_def hold_inv_def oc_stays_def)
  from oc_queue.run_due_inv [OF this, of wd ox n] show "oc_ok x e w (run_due (oc_executors x e wd ox) n w)"
    by (auto simp: oc_ok_def oc_kept_def oc_stays_def oc_winv_def ln_winv_def hold_inv_def)
qed

subsection \<open>The router\<close>

lemma oc_command_ok_registry:
  fixes w :: "'m odb_ext ddb_ext db_scheme"
  assumes "oc_registry dir x cmd = Some c" and "c e args w = Some (res, w')"
  shows "oc_ok x e w w'"
proof (cases "registry dir cmd")
  case (Some c')
  then have "execute_command (registry dir) e cmd (Some args) w = Some (res, w')"
    using assms by (simp add: oc_registry_def execute_command_def)
  from execute_ok [OF this] show ?thesis by (rule oc_ok_ln)
next
  case None
  then consider "c = oc_detail_command" | run where "c = on_oc_target dir x run" "oc_command_of cmd = Some run"
    using assms(1) by (auto simp: oc_registry_def split: if_splits)
  then show ?thesis
  proof cases
    case 1
    then show ?thesis using assms(2) by (auto simp: oc_detail_command_def oc_ok_quiet split: option.splits if_splits)
  next
    case 2
    then show ?thesis using ok_resultD [OF on_oc_target_ok [OF 2(2)]] assms(2) by simp
  qed
qed

lemma oc_admin_handler_ok:
  fixes w :: "'m odb_ext ddb_ext db_scheme"
  assumes "admin_handler (oc_registry dir x) e ev w = Some (res, w')"
  shows "oc_ok x e w w'"
  using admin_handler_cases [OF assms]
proof (elim disjE exE conjE)
  fix body cmd args r w1
  assume c: "execute_command (oc_registry dir x) e cmd args w = Some (r, w1)" and q: "quiet w1 w'"
  have "oc_ok x e w w1"
    using c oc_command_ok_registry [of dir x cmd _ e _ w r w1] by (auto simp: execute_command_def split: option.splits)
  then show ?thesis using q by (rule oc_ok_quiet_after)
qed (rule oc_ok_quiet)

lemma oc_route_ok:
  fixes w :: "'m odb_ext ddb_ext db_scheme"
  assumes "oc_route x e ev = Some h" and "h e ev w = Some (res, w')"
  shows "oc_ok x e w w'"
  using assms
  by (auto simp: oc_route_def route_def Let_def oc_ok_ln [OF ln_handler_ok] ok_resultD [OF oc_handler_ok] split: if_splits
      dest: oc_admin_handler_ok oc_ok_quiet [OF chat_forwarder_quiet] oc_ok_quiet [OF peer_pinger_quiet])

definition both_evolve :: "'m odb_scheme \<Rightarrow> 'm odb_scheme \<Rightarrow> bool" where
  "both_evolve w w' \<longleftrightarrow> orders_evolve w w' \<and> oc_evolve w w'"

lemma both_evolve_trans: "both_evolve u v \<Longrightarrow> both_evolve v w \<Longrightarrow> both_evolve u w"
  using orders_evolve_trans oc_evolve_trans unfolding both_evolve_def by blast

lemma oc_winv_inbox: "oc_winv x e (w\<lparr>inbox := rs\<rparr>) = oc_winv x e w"
proof -
  have "candidate_ok (w\<lparr>inbox := rs\<rparr>) = candidate_ok w"
    by (rule ext) (simp add: candidate_ok_def hold_keys_def get_oc_def cong: candidate_info.case_cong)
  then show ?thesis by (simp add: oc_winv_def ln_winv_inbox oc_inv_def)
qed

interpretation oc_router: event_router e "oc_route x e" "oc_winv x e" both_evolve for x e
proof unfold_locales
  show "oc_winv x e w' \<and> both_evolve w w' \<and> q_now w' = q_now w \<and> inbox w' = inbox w"
    if "oc_route x e ev = Some h" "h e ev w = Some (res, w')" "oc_winv x e w"
    for ev h res and w w' :: "'a odb_ext ddb_ext db_scheme"
    using oc_route_ok [OF that(1,2)] that(3) by (auto simp: oc_ok_def oc_kept_def both_evolve_def)
  show "both_evolve w v \<Longrightarrow> both_evolve w (v\<lparr>inbox := rs\<rparr>)" for w v :: "'a odb_ext ddb_ext db_scheme" and rs
    by (simp add: both_evolve_def orders_evolve_def get_order_def oc_evolve_def get_oc_def)
  show "both_evolve u v \<Longrightarrow> both_evolve v w \<Longrightarrow> both_evolve u w" for u v w :: "'a odb_ext ddb_ext db_scheme"
    by (rule both_evolve_trans)
qed (simp_all add: oc_winv_inbox both_evolve_def)

subsection \<open>The system\<close>

text \<open>
  Everything that can happen to the database of the daemon with both tracks, with any node, relays and explorer: the
  steps of \<open>daemon_step\<close> with the on-chain track installed, and the two parts of a tick that belong to it.
\<close>

inductive oc_daemon_step ::
  "oc_env \<Rightarrow> (string \<Rightarrow> nat \<Rightarrow> hex) \<Rightarrow> 'm odb_ext ddb_ext db_scheme \<Rightarrow> 'm odb_ext ddb_ext db_scheme \<Rightarrow> bool" for x H where
  O_clock: "q_now w \<le> t \<Longrightarrow> oc_daemon_step x H w (w\<lparr>q_now := t\<rparr>)"
| O_boot: "e_hash e = H \<Longrightarrow>
    oc_daemon_step x H w (republish_oc_designated e (republish_designated e (snd (resolve_epoch configured w))))"
| O_accept: "e_hash e = H \<Longrightarrow> oc_daemon_step x H w (snd (accept e verify epoch ev w))"
| O_fees: "oc_daemon_step x H w (snd (refresh_fees http s w))"
| O_dispatch: "e_hash e = H \<Longrightarrow> oc_daemon_step x H w (run_pending e (oc_route x e) holdMs limit w)"
| O_poll: "e_hash e = H \<Longrightarrow> oc_daemon_step x H w (fst (hold_poll e (all_hooks x e) nd w))"
| O_watch: "e_hash e = H \<Longrightarrow> oc_daemon_step x H w (fst (ln_watch e nd w))"
| O_oc_watch: "e_hash e = H \<Longrightarrow> oc_daemon_step x H w (fst (snd (oc_poll x e pollMs chain s w)))"
| O_stuck: "e_hash e = H \<Longrightarrow> oc_daemon_step x H w (raise_stuck_effects e w)"
| O_heartbeat: "e_hash e = H \<Longrightarrow> oc_daemon_step x H w (snd (heartbeat e lastState w))"
| O_effects: "e_hash e = H \<Longrightarrow> oc_daemon_step x H w (run_due (oc_executors x e wd ox) limit w)"

inductive_cases oc_daemon_stepE: "oc_daemon_step x H w w'"

text \<open>A tick is made of these steps, wherever it ends.\<close>

lemma oc_tick_steps:
  assumes h: "e_hash e = H"
  shows "(oc_daemon_step x H)\<^sup>*\<^sup>* w (snd (oc_tick x e wd ox holdMs pollMs s w))"
proof -
  let ?S = "(oc_daemon_step x H)\<^sup>*\<^sup>*"
  note step = rtranclp.rtrancl_into_rtrancl [of "oc_daemon_step x H"]
  obtain s0 w0 where f: "refresh_fees (ox_fees ox) (ts_watch s) w = (s0, w0)" by force
  define w1 where "w1 = run_pending e (oc_route x e) holdMs 200 w0"
  obtain w2 b where p: "hold_poll e (all_hooks x e) (wd_node wd) w1 = (w2, b)" by force
  obtain w3 c where l: "ln_watch e (wd_node wd) w2 = (w3, c)" by force
  obtain s4 w4 d where o: "oc_poll x e pollMs (ox_chain ox) s0 w3 = (s4, w4, d)" using prod_cases3 by blast
  obtain ls w5 where hb: "heartbeat e (ts_last_state s) (raise_stuck_effects e w4) = (ls, w5)" by force
  have 0: "?S w w0" using O_fees [of x H w "ox_fees ox" "ts_watch s"] f by auto
  have 1: "?S w w1" unfolding w1_def by (rule step [OF 0 O_dispatch [OF h]])
  have 2: "?S w w2" using step [OF 1 O_poll [OF h, of x w1 "wd_node wd"]] p by simp
  have 3: "?S w w3" using step [OF 2 O_watch [OF h, of x w2 "wd_node wd"]] l by simp
  have 4: "?S w w4" using step [OF 3 O_oc_watch [OF h, of x w3 pollMs "ox_chain ox" s0]] o by simp
  have 5: "?S w w5" using step [OF step [OF 4 O_stuck [OF h]] O_heartbeat [OF h, of x _ "ts_last_state s"]] hb by simp
  have 6: "?S w (run_due (oc_executors x e wd ox) 50 w5)" by (rule step [OF 5 O_effects [OF h]])
  show ?thesis using 2 3 4 6
    by (simp add: oc_tick_def f w1_def [symmetric] Let_def p l o hb split: bool.split)
qed

definition oc_system_wf :: "oc_env \<Rightarrow> env \<Rightarrow> 'm odb_scheme \<Rightarrow> bool" where
  "oc_system_wf x e w \<longleftrightarrow> oc_winv x e w \<and> inbox_wf w"

lemma oc_ok_system:
  assumes "oc_ok x e w w'" and "oc_system_wf x e w"
  shows "oc_system_wf x e w' \<and> both_evolve w w'"
  using assms inbox_wf_cong [of w' w] by (auto simp: oc_system_wf_def oc_ok_def oc_kept_def both_evolve_def)

lemma quiet_republish_oc: "quiet w (republish_oc_designated e w)" for w :: "'m odb_scheme"
proof -
  obtain b w1 where b: "operators_changed e Track_onchain w = (b, w1)" by force
  have q: "quiet w w1" using quiet_operators_changed [of w e Track_onchain] b by simp
  have "quiet w1 (fold request_oc_projection (designated_oc_ids w1) w1)" by (rule quiet_fold) simp
  with q show ?thesis by (auto simp: republish_oc_designated_def b intro: quiet_trans)
qed

lemma clock_oc: "oc_system_wf x e w \<Longrightarrow> oc_system_wf x e (w\<lparr>q_now := t\<rparr>) \<and> both_evolve w (w\<lparr>q_now := t\<rparr>)"
proof -
  assume wf: "oc_system_wf x e w"
  have "candidate_ok (w\<lparr>q_now := t\<rparr>) = candidate_ok w"
    by (rule ext) (simp add: candidate_ok_def hold_keys_def get_oc_def cong: candidate_info.case_cong)
  moreover have "daemon_wf e (w\<lparr>q_now := t\<rparr>) \<and> orders_evolve w (w\<lparr>q_now := t\<rparr>)"
    by (rule clock_daemon) (use wf in \<open>simp add: daemon_wf_def oc_system_wf_def oc_winv_def\<close>)
  ultimately show ?thesis
    using wf by (simp add: oc_system_wf_def oc_winv_def daemon_wf_def oc_inv_def both_evolve_def oc_evolve_def get_oc_def)
qed

lemma oc_accept_keeps:
  fixes w :: "'m odb_ext ddb_ext db_scheme"
  assumes "oc_system_wf x e w"
  shows "oc_system_wf x e (snd (accept e2 verify epoch ev w)) \<and> both_evolve w (snd (accept e2 verify epoch ev w))"
proof -
  let ?w = "snd (accept e2 verify epoch ev w)"
  have t: "oc_orders ?w = oc_orders w" "oc_candidates ?w = oc_candidates w" "invoices ?w = invoices w"
    by (auto simp: accept_def advance_cursor_def kv_set_def)
  have "candidate_ok ?w = candidate_ok w"
    by (rule ext) (simp add: candidate_ok_def hold_keys_def get_oc_def t cong: candidate_info.case_cong)
  moreover have "ln_winv e ?w \<and> orders_evolve w ?w" "inbox_wf ?w"
    using assms accept_quiet_db [of e w e2] accept_wf [of w e2] by (simp_all add: oc_system_wf_def oc_winv_def)
  ultimately show ?thesis
    using assms by (simp add: oc_system_wf_def oc_winv_def oc_inv_def both_evolve_def oc_evolve_def get_oc_def t)
qed

lemma oc_dispatch_keeps:
  fixes w :: "'m odb_ext ddb_ext db_scheme"
  assumes "oc_system_wf x e w"
  shows "oc_system_wf x e (run_pending e (oc_route x e) h n w) \<and> both_evolve w (run_pending e (oc_route x e) h n w)"
proof -
  have inv: "oc_winv x e w" using assms by (simp add: oc_system_wf_def)
  note ok = oc_router.run_pending_ok [OF inv, where holdMs = h and limit = n]
  have "map ib_id rows = map ie_id (map ib_event rows)" for rows by (simp add: ib_id_def)
  then have "map ib_id (inbox (run_pending e (oc_route x e) h n w)) = map ib_id (inbox w)"
    by (simp only: closes_events [OF ok(4)])
  with ok(1,2) assms show ?thesis by (simp add: oc_system_wf_def inbox_wf_def)
qed

lemma oc_winv_seed: "e_hash e = e_hash e2 \<Longrightarrow> oc_winv x e w = oc_winv x e2 w"
  using ln_winv_seed by (auto simp: oc_winv_def)

lemma oc_daemon_step_ok:
  fixes w w' :: "'m odb_ext ddb_ext db_scheme"
  assumes "oc_daemon_step x H w w'" and wf: "oc_system_wf x e w" and "e_hash e = H"
  shows "oc_system_wf x e w' \<and> both_evolve w w'"
proof -
  have seed: "oc_system_wf x e2 v = oc_system_wf x e v" if "e_hash e2 = H" for e2 and v :: "'m odb_ext ddb_ext db_scheme"
    using oc_winv_seed [of e2 e x v] that assms(3) by (simp add: oc_system_wf_def)
  have ok: "oc_system_wf x e w' \<and> both_evolve w w'" if "e_hash e2 = H" "oc_ok x e2 w w'" for e2
    using oc_ok_system [OF that(2)] seed [OF that(1)] wf by blast
  have quiet: "oc_system_wf x e w' \<and> both_evolve w w'" if "quiet w w'"
    by (rule ok [OF assms(3) oc_ok_quiet [OF that]])
  from assms(1) show ?thesis
  proof cases
    case (O_clock t)
    then show ?thesis using clock_oc [OF wf] by simp
  next
    case (O_boot e2 c)
    show ?thesis
      by (rule quiet) (unfold O_boot(1), rule quiet_trans [OF quiet_trans [OF quiet_resolve_epoch
        quiet_republish_designated] quiet_republish_oc])
  next
    case (O_accept e2 verify epoch ev)
    then show ?thesis using oc_accept_keeps [OF wf] by simp
  next
    case (O_fees http s)
    show ?thesis by (rule ok [OF assms(3)]) (unfold O_fees, rule refresh_fees_ok)
  next
    case (O_dispatch e2 h n)
    then show ?thesis using oc_dispatch_keeps [of x e2 w h n] seed [of e2] wf by simp
  next
    case (O_poll e2 nd)
    show ?thesis by (rule ok [OF O_poll(2)]) (unfold O_poll(1), rule oc_holds.poll_ok)
  next
    case (O_watch e2 nd)
    show ?thesis by (rule ok [OF O_watch(2)]) (unfold O_watch(1), rule oc_ok_ln [OF ln_watch_ok])
  next
    case (O_oc_watch e2 pollMs chain s)
    obtain s' b where "oc_poll x e2 pollMs chain s w = (s', w', b)"
      using O_oc_watch(1) by (cases "oc_poll x e2 pollMs chain s w") auto
    then show ?thesis by (rule ok [OF O_oc_watch(2) oc_poll_ok])
  next
    case (O_stuck e2)
    show ?thesis by (rule quiet) (simp add: O_stuck(1))
  next
    case (O_heartbeat e2 s)
    show ?thesis by (rule quiet) (simp add: O_heartbeat(1) quiet_heartbeat)
  next
    case (O_effects e2 wd ox n)
    show ?thesis by (rule ok [OF O_effects(2)]) (unfold O_effects(1), rule oc_run_due_ok)
  qed
qed

lemma oc_daemon_steps_ok:
  fixes w w' :: "'m odb_ext ddb_ext db_scheme"
  assumes "(oc_daemon_step x H)\<^sup>*\<^sup>* w w'" and "oc_system_wf x e w" and "e_hash e = H"
  shows "oc_system_wf x e w' \<and> both_evolve w w'"
  using assms(1)
proof (induction rule: rtranclp_induct)
  case base
  then show ?case using assms(2) by (simp add: both_evolve_def)
next
  case (step v u)
  then show ?case using oc_daemon_step_ok [OF step.hyps(2) _ assms(3)] both_evolve_trans by blast
qed

end
