(* ===== verification/Oc_Example.thy ===== *)
theory Oc_Example
  imports Oc_System
begin

text \<open>
  A concrete on-chain trade, for the witnesses: a bitcoin library with one-letter scripts, an order with its price
  fixed, and a well-formed database that holds it.
\<close>

definition toy_key :: "char \<Rightarrow> hex" where "toy_key c = replicate 64 c"

definition toy_script :: "script_op list \<Rightarrow> hex" where
  "toy_script ops = concat (map (\<lambda>p. case p of Push h \<Rightarrow> take 1 h | _ \<Rightarrow> []) ops)"

definition toy_sig :: hex where "toy_sig = replicate 128 (CHR ''a'')"

text \<open>A bitcoin library with one-letter scripts; the sponsor signed whatever is read.\<close>

definition toy_lib :: btc_lib where
  "toy_lib = \<lparr>bl_decode = (\<lambda>_ a. if a = [] then None else Some (''tr'', a)), bl_script = toy_script,
     bl_p2tr = (\<lambda>_ tree _. Some \<lparr>to_address = Some ''escrow'', to_script = ''5120'', to_merkle = ''m'',
        to_leaf_scripts = Some (map (\<lambda>s. (''c'', s @ ''c0'')) (concat tree))\<rparr>),
     bl_single = (\<lambda>_ _. Some ''refund''), bl_leaf_hash = (\<lambda>s. s), bl_accepts = (\<lambda>_. True), bl_txid = (\<lambda>_. ''tx''),
     bl_sighash = (\<lambda>_ _. Some ''h''), bl_schnorr = (\<lambda>_ _ _. Some True), bl_sign = (\<lambda>k _. Some (k, ''l'', toy_sig)),
     bl_finalize = (\<lambda>_ _. Some ''00''), bl_psbt = (\<lambda>_. ''psbt''),
     bl_read_psbt = (\<lambda>t. Some \<lparr>ps_inputs = 1, ps_outputs = 1, ps_txid = ''tx'', ps_input = None,
        ps_sigs = [(toy_key (CHR ''2''), ''12'', toy_sig), (toy_key (CHR ''1''), ''12'', toy_sig)]\<rparr>),
     bl_xonly = (\<lambda>k. k)\<rparr>"

definition toy_oc_env :: oc_env where
  "toy_oc_env = \<lparr>x_lib = toy_lib, x_network = Signet, x_admin_key = (\<lambda>_. toy_key (CHR ''3''))\<rparr>"

definition empty_odb :: "msec \<Rightarrow> odb" where
  "empty_odb t = \<lparr>q_rows = [], q_seq = 1, q_now = t, invoices = [], ln_orders = [], ln_drafts = [],
     alerts = [], notices = [], kv = (\<lambda>_. None), db_settings = DEFAULT_SETTINGS, push_subs = [], inbox = [],
     oc_orders = [], oc_candidates = [], oc_fees = None\<rparr>"

text \<open>An order whose price was fixed, at any of the states in which the release is ready.\<close>

definition toy_trade :: "oc_state \<Rightarrow> oc_ord" where
  "toy_trade s = toy_oc_order\<lparr>oo_state := s, oo_sponsor := Some ''s'', oo_sponsor_xonly := Some (toy_key (CHR ''2'')),
     oo_customer_xonly := Some (toy_key (CHR ''1'')), oo_admin_xonly := Some (toy_key (CHR ''3'')),
     oo_escrow_address := Some ''escrow'', oo_timelock := Some 8064,
     oo_funding_outpoint := Some (format_outpoint (toy_key (CHR ''f'')) 0), oo_price := Some 990000,
     oo_payout := Some 999000, oo_release_fee := Some 1000, oo_account_sent_at := Some 4, oo_remitted_at := Some 5\<rparr>"

definition toy_oc_meta :: oc_meta where
  "toy_oc_meta = empty_meta\<lparr>om_payout_address := Some ''pay'', om_presig := Some ''psbt'', om_feerate := Some 2,
     om_refund_address := Some ''back''\<rparr>"

definition toy_oc_row :: "oc_state \<Rightarrow> oc_row" where
  "toy_oc_row s = \<lparr>ow_order = toy_trade s, ow_meta = toy_oc_meta, ow_version = 3, ow_published = 0\<rparr>"

definition toy_odb :: "oc_state \<Rightarrow> odb" where
  "toy_odb s = (empty_odb 5000)\<lparr>oc_orders := [toy_oc_row s]\<rparr>"

lemma toy_key_sel [simp]: "length (toy_key c) = 64" "take (Suc 0) (toy_key c) = [c]" "toy_key c \<noteq> []"
  by (simp_all add: toy_key_def numeral_eq_Suc)

lemma toy_key_hex [simp]: "is_digit c \<or> c = CHR ''f'' \<Longrightarrow> is_xonly_hex (toy_key c)"
  by (auto simp: is_xonly_hex_def is_hex64_def toy_key_def list_all_iff char_code_def)

lemma toy_key_inj [simp]: "toy_key a = toy_key b \<longleftrightarrow> a = b"
  by (simp add: toy_key_def)

definition toy_leaves :: "escrow_leaf list" where
  "toy_leaves =
     [\<lparr>lf_name = Leaf_release, lf_script = ''12'', lf_signers = [Role_C, Role_S]\<rparr>,
      \<lparr>lf_name = Leaf_customer_win, lf_script = ''31'', lf_signers = [Role_A, Role_C]\<rparr>,
      \<lparr>lf_name = Leaf_sponsor_win, lf_script = ''32'', lf_signers = [Role_A, Role_S]\<rparr>,
      \<lparr>lf_name = Leaf_timelock, lf_script = ''1'', lf_signers = [Role_C]\<rparr>]"

definition toy_escrow :: escrow_descriptor where
  "toy_escrow = \<lparr>ed_address = ''escrow'', ed_script = ''5120'', ed_merkle = ''m'', ed_leaves = toy_leaves,
     ed_timelock = 8064, ed_network = Signet,
     ed_leaf_scripts = map (\<lambda>l. (''c'', lf_script l @ ''c0'')) toy_leaves\<rparr>"

definition toy_outpoint :: outpoint where "toy_outpoint = \<lparr>op_txid = toy_key (CHR ''f''), op_vout = 0\<rparr>"

definition toy_release :: settlement_params where
  "toy_release = \<lparr>sp_descriptor = toy_escrow, sp_outpoint = toy_outpoint, sp_value = 1000000,
     sp_path = Path_release, sp_destination = ''pay'', sp_fee = 1000\<rparr>"

lemma toy_leaves_built:
  "build_escrow_leaves toy_lib \<lparr>ek_customer = toy_key (CHR ''1''), ek_sponsor = toy_key (CHR ''2''), ek_admin = toy_key (CHR ''3'')\<rparr> 8064
   = Some toy_leaves"
  by (simp add: build_escrow_leaves_def assert_escrow_keys_def find_duplicate_escrow_key_def assert_timelock_def
      MAX_TIMELOCK_BLOCKS_def toy_lib_def toy_script_def toy_leaves_def is_digit_def char_code_def)

lemma toy_p2tr:
  "bl_p2tr toy_lib k tree n = Some \<lparr>to_address = Some ''escrow'', to_script = ''5120'', to_merkle = ''m'',
     to_leaf_scripts = Some (map (\<lambda>s. (''c'', s @ ''c0'')) (concat tree))\<rparr>"
  and toy_decode: "bl_decode toy_lib n a = (if a = [] then None else Some (''tr'', a))"
  and toy_accepts: "bl_accepts toy_lib t"
  by (simp_all add: toy_lib_def)

lemma toy_descriptor: "escrow_descriptor_for toy_oc_env (toy_trade s) = Some toy_escrow"
proof -
  have tree: "build_escrow_tree toy_leaves = Some [[''12'', ''31''], [''32'', ''1'']]"
    by (simp add: toy_leaves_def build_escrow_tree_def)
  have "derive_escrow_address toy_lib
      \<lparr>ek_customer = toy_key (CHR ''1''), ek_sponsor = toy_key (CHR ''2''), ek_admin = toy_key (CHR ''3'')\<rparr> Signet (Some 8064)
    = Some toy_escrow"
    by (simp add: derive_escrow_address_def toy_leaves_built tree toy_p2tr given_s_def opt_given_def)
      (simp add: toy_leaves_def toy_escrow_def)
  then show ?thesis
    by (simp add: escrow_descriptor_for_def toy_trade_def toy_oc_order_def given_s_def opt_given_def toy_oc_env_def)
qed

lemma toy_params:
  "settlement_params_for toy_oc_env (toy_trade s) toy_oc_meta Release None = Some (Some toy_release)"
proof -
  have "parse_outpoint (oo_funding_outpoint (toy_trade s)) = Some toy_outpoint"
    using outpoint_roundtrip [of "toy_key (CHR ''f'')" 0] toy_key_hex [of "CHR ''f''"]
    by (simp add: toy_trade_def toy_outpoint_def is_xonly_hex_def)
  then show ?thesis
    by (simp add: settlement_params_for_def toy_descriptor settlement_destination_def toy_oc_meta_def
        toy_release_def given_s_def opt_given_def)
      (simp add: toy_trade_def toy_oc_order_def settlement_path_for_kind_def)
qed

definition toy_release_tx :: btc_tx where
  "toy_release_tx = \<lparr>bt_outpoint = toy_outpoint, bt_sequence = SEQUENCE_FINAL, bt_spent_script = ''5120'',
     bt_spent_value = 1000000, bt_leaf_scripts = [(''c'', ''12c0'')], bt_out_script = ''pay'', bt_out_value = 999000\<rparr>"

lemma toy_build: "build_settlement_tx toy_lib toy_release = Some toy_release_tx"
  by (simp add: build_settlement_tx_def toy_release_def dust_threshold_for_def dust_by_type_def find_leaf_def
      output_script_for_def toy_escrow_def toy_leaves_def toy_release_tx_def Let_def toy_decode toy_accepts)

lemma toy_verified:
  "verify_presignature toy_lib t toy_release (toy_key (CHR ''2'')) = Presig_ok toy_sig ''12''"
  "verify_presignature toy_lib t toy_release (toy_key (CHR ''1'')) = Presig_ok toy_sig ''12''"
  by (simp_all add: verify_presignature_def toy_build is_digit_def char_code_def)
    (simp_all add: toy_lib_def toy_release_def toy_escrow_def toy_leaves_def find_leaf_def tap_script_sig_of_def
      toy_sig_def bytes_len_def)

lemma toy_trade_facts:
  assumes "s \<in> {Oc_funded, Oc_presigned, Oc_remitted, Oc_disputed}"
  shows "order_facts toy_oc_env (toy_trade s) toy_oc_meta"
proof -
  have "escrow_ok toy_oc_env (toy_trade s)"
    by (simp add: escrow_ok_def toy_descriptor) (simp add: toy_trade_def toy_escrow_def)
  moreover have "oo_sponsor (toy_trade s) = Some ''s''" "oo_customer (toy_trade s) = ''c''"
    "oo_designated (toy_trade s) = None" "oo_state (toy_trade s) = s"
    by (simp_all add: toy_trade_def toy_oc_order_def)
  ultimately have "party_ok toy_oc_env (toy_trade s)" using assms by (auto simp: party_ok_def js_true_s_def)
  moreover have "presig_ok toy_oc_env (toy_trade s) toy_oc_meta"
    unfolding presig_ok_def toy_params
    by (simp add: toy_oc_env_def toy_trade_def key_or_none_def toy_verified toy_oc_meta_def given_s_def opt_given_def)
  moreover have "terms_ok (toy_trade s)" "kind_ok (toy_trade s)" "decided_ok toy_oc_env (toy_trade s) toy_oc_meta"
    "0 < oo_amount (toy_trade s)"
    using assms by (auto simp: terms_ok_def kind_ok_def decided_ok_def toy_trade_def toy_oc_order_def)
  ultimately show ?thesis by (simp add: order_facts_def)
qed

lemma toy_odb_wf:
  assumes "s \<in> {Oc_funded, Oc_presigned, Oc_remitted, Oc_disputed}"
  shows "oc_winv toy_oc_env e (toy_odb s)" and "inbox_wf (toy_odb s)"
proof -
  have "oc_inv toy_oc_env (toy_odb s)"
    using toy_trade_facts [OF assms] by (simp add: oc_inv_def toy_odb_def empty_odb_def oc_row_ok_def toy_oc_row_def)
  then show "oc_winv toy_oc_env e (toy_odb s)"
    by (simp add: oc_winv_def ln_winv_def hold_inv_def q_wf_def hold_wf_def ln_inv_def toy_odb_def empty_odb_def)
  show "inbox_wf (toy_odb s)" by (simp add: inbox_wf_def toy_odb_def empty_odb_def)
qed

lemma toy_odb_get: "get_oc ''ord1'' (toy_odb s) = Some (toy_oc_row s)"
  by (simp add: get_oc_def toy_odb_def ow_id_def toy_oc_row_def toy_trade_def toy_oc_order_def)

end
