(* ===== verification/Oc_Trades.thy ===== *)
theory Oc_Trades
  imports Oc_Example
begin

text \<open>
  What the on-chain track promises over whole runs of the daemon: the properties of \<open>Oc_System\<close> stated over the
  fields of an order.
\<close>

subsection \<open>The database\<close>

text \<open>C5. The daemon with both tracks keeps all its tables well-formed: an empty database is well-formed, and after any
  sequence of requests, commands, effects, passes and waiting, with any node, relays, explorer and bitcoin library,
  both tracks' invariants hold, every on-chain order has the facts its state promises, and no order of either track
  was lost or left its path.\<close>

theorem oc_daemon_invariant:
  fixes w0 w :: "'m odb_ext ddb_ext db_scheme"
  assumes "oc_winv x e w0" and "inbox_wf w0" and "(oc_daemon_step x (e_hash e))\<^sup>*\<^sup>* w0 w"
  shows "oc_winv x e w \<and> inbox_wf w \<and> both_evolve w0 w
    \<and> (\<forall>oid row. get_oc oid w = Some row \<longrightarrow> order_facts x (ow_order row) (ow_meta row))
    \<and> oc_winv x e (empty_odb t) \<and> inbox_wf (empty_odb t)"
proof -
  have "oc_system_wf x e w \<and> both_evolve w0 w"
    by (rule oc_daemon_steps_ok [OF assms(3) _ refl]) (use assms(1,2) in \<open>simp add: oc_system_wf_def\<close>)
  then have w: "oc_winv x e w" "inbox_wf w" "both_evolve w0 w" by (simp_all add: oc_system_wf_def)
  have "oc_winv x e (empty_odb t)" "inbox_wf (empty_odb t)"
    by (simp_all add: oc_winv_def oc_inv_def ln_winv_def hold_inv_def q_wf_def hold_wf_def ln_inv_def inbox_wf_def
        empty_odb_def)
  with w oc_winv_facts [OF w(1)] show ?thesis by blast
qed

definition toy_oc_world :: oc_world where
  "toy_oc_world = \<lparr>ox_fees = (\<lambda>_. F_threw ''down''), ox_chain = (\<lambda>_ _. F_threw ''down''), ox_post = (\<lambda>_. F_threw ''down'')\<rparr>"

definition toy_tick_state :: tick_state where
  "toy_tick_state = \<lparr>ts_last_state = None, ts_watch = \<lparr>ow_last_poll = None, ow_last_fees = None, ow_terminal_check = (\<lambda>_. None)\<rparr>\<rparr>"

definition toy_oc_tick :: "oc_state \<Rightarrow> odb" where
  "toy_oc_tick s = snd (oc_tick toy_oc_env toy_env toy_world toy_oc_world 2000 30000 toy_tick_state (toy_odb s))"

lemma toy_oc_run: "(oc_daemon_step toy_oc_env (e_hash toy_env))\<^sup>*\<^sup>* (toy_odb s) (toy_oc_tick s)"
  unfolding toy_oc_tick_def by (rule oc_tick_steps) simp

theorem oc_daemon_invariant_witness:
  "oc_winv toy_oc_env toy_env (toy_oc_tick Oc_remitted) \<and> inbox_wf (toy_oc_tick Oc_remitted)
   \<and> both_evolve (toy_odb Oc_remitted) (toy_oc_tick Oc_remitted)"
  using oc_daemon_invariant [OF toy_odb_wf toy_oc_run, of Oc_remitted 0] by simp

subsection \<open>The deal\<close>

lemma oc_run_row:
  fixes w0 w :: "'m odb_ext ddb_ext db_scheme"
  assumes "oc_winv x e w0" and "inbox_wf w0" and "(oc_daemon_step x (e_hash e))\<^sup>*\<^sup>* w0 w" and "get_oc oid w0 = Some row"
  shows "\<exists>row'. get_oc oid w = Some row' \<and> oc_evolves row row' \<and> order_facts x (ow_order row') (ow_meta row')"
proof -
  have "oc_system_wf x e w \<and> both_evolve w0 w"
    by (rule oc_daemon_steps_ok [OF assms(3) _ refl]) (use assms(1,2) in \<open>simp add: oc_system_wf_def\<close>)
  then have "oc_winv x e w" "oc_evolve w0 w" by (simp_all add: oc_system_wf_def both_evolve_def)
  with assms(4) show ?thesis using oc_winv_facts [of x e w oid] unfolding oc_evolve_def by meson
qed

text \<open>C8. Nobody can change a deal: along any run an order keeps its customer, amount, refund address and deposit, once
  it was claimed its sponsor, keys, escrow address and payout address, and once it was remitted or decided its price,
  payout, fee, escrow output and presignature; its state moves along the table only, a decision is replaced
  only by the release or, after an account dispute, by the operator's verdict, and each change bumps the version.\<close>

theorem oc_deal_kept:
  fixes w0 w :: "'m odb_ext ddb_ext db_scheme"
  assumes "oc_winv x e w0" and "inbox_wf w0" and "(oc_daemon_step x (e_hash e))\<^sup>*\<^sup>* w0 w" and "get_oc oid w0 = Some row"
  shows "\<exists>row'. get_oc oid w = Some row' \<and> (let r = ow_order row; r' = ow_order row'; m = ow_meta row; m' = ow_meta row' in
     can_onchain_transition\<^sup>*\<^sup>* (oo_state r) (oo_state r')
     \<and> oo_customer r' = oo_customer r \<and> oo_amount r' = oo_amount r \<and> om_refund_address m' = om_refund_address m
     \<and> oo_customer_deposit_hash r' = oo_customer_deposit_hash r
     \<and> (oo_sponsor r \<noteq> None \<longrightarrow> oo_sponsor r' = oo_sponsor r \<and> oo_sponsor_xonly r' = oo_sponsor_xonly r
          \<and> oo_admin_xonly r' = oo_admin_xonly r \<and> oo_escrow_address r' = oo_escrow_address r
          \<and> om_payout_address m' = om_payout_address m)
     \<and> (oo_state r \<notin> {Oc_listed, Oc_bonded, Oc_funded, Oc_presigned} \<longrightarrow> oo_price r' = oo_price r
          \<and> oo_payout r' = oo_payout r \<and> oo_release_fee r' = oo_release_fee r
          \<and> oo_funding_outpoint r' = oo_funding_outpoint r \<and> om_presig m' = om_presig m)
     \<and> (\<forall>k. oo_settlement_kind r = Some k \<longrightarrow> oo_settlement_kind r' \<in> {Some k, Some Release}
          \<or> k = Refund_account_disputed
             \<and> oo_settlement_kind r' \<in> {Some Refund_customer_late, Some Refund_sponsor_timeout})
     \<and> (r' \<noteq> r \<longrightarrow> ow_version row < ow_version row'))"
proof -
  obtain row' where row': "get_oc oid w = Some row'" "oc_evolves row row'" using oc_run_row [OF assms] by blast
  have "s \<notin> {Oc_listed, Oc_bonded, Oc_funded, Oc_presigned} \<Longrightarrow> s \<in> FROZEN" for s by (cases s) (simp_all add: FROZEN_def)
  with row'(2) have
    "deal_step (ow_order row) (ow_meta row) (ow_order row') (ow_meta row')"
    "oo_state (ow_order row) \<notin> {Oc_listed, Oc_bonded, Oc_funded, Oc_presigned} \<Longrightarrow>
       same_terms (ow_order row) (ow_meta row) (ow_order row') (ow_meta row')"
    by (simp_all add: oc_evolves_def deal_step_def)
  with row' show ?thesis
    by (intro exI [of _ row']) (auto simp: Let_def oc_evolves_def deal_step_def same_deal_def same_claim_def same_terms_def kind_step_def)
qed

theorem oc_deal_kept_witness:
  "\<exists>row'. get_oc ''ord1'' (toy_oc_tick Oc_remitted) = Some row'
     \<and> oo_price (ow_order row') = Some 990000 \<and> om_payout_address (ow_meta row') = Some ''pay''"
proof -
  have "oo_sponsor (toy_trade s) = Some ''s''" "oo_state (toy_trade s) = s" "oo_price (toy_trade s) = Some 990000" for s
    by (simp_all add: toy_trade_def)
  then show ?thesis
    using oc_deal_kept [OF toy_odb_wf toy_oc_run toy_odb_get, of Oc_remitted]
    by (auto simp: Let_def toy_oc_row_def toy_oc_meta_def)
qed

subsection \<open>The release\<close>

text \<open>C7. From the moment the customer is told that the sponsor signed until the trade ends, the sponsor's payout needs the
  customer's signature only: the daemon holds a signature of the sponsor's key that is valid for exactly the release
  transaction it would build itself, which spends the whole amount of the pinned output of the escrow and pays the amount
  less the agreed fee, a positive sum, to the sponsor's payout address.\<close>

theorem release_always_ready:
  fixes w0 w :: "'m odb_ext ddb_ext db_scheme"
  assumes "oc_winv x e w0" and "inbox_wf w0" and "(oc_daemon_step x (e_hash e))\<^sup>*\<^sup>* w0 w" and "get_oc oid w = Some row"
    and "oo_state (ow_order row) \<in> {Oc_presigned, Oc_remitted, Oc_disputed}"
  shows "\<exists>p tx sig. settlement_params_for x (ow_order row) (ow_meta row) Release None = Some (Some p)
     \<and> build_settlement_tx (x_lib x) p = Some tx
     \<and> signature_for (x_lib x) p (key_or_none (oo_sponsor_xonly (ow_order row))) sig
     \<and> om_payout_address (ow_meta row) = Some (sp_destination p)
     \<and> bt_spent_value tx = oo_amount (ow_order row) \<and> bt_spent_script tx = ed_script (sp_descriptor p)
     \<and> parse_outpoint (oo_funding_outpoint (ow_order row)) = Some (bt_outpoint tx)
     \<and> oo_payout (ow_order row) = Some (bt_out_value tx) \<and> 0 < bt_out_value tx"
proof -
  let ?r = "ow_order row" and ?m = "ow_meta row"
  have "oc_system_wf x e w"
    using oc_daemon_steps_ok [OF assms(3) _ refl] assms(1,2) by (simp add: oc_system_wf_def)
  then have "order_facts x ?r ?m" using oc_winv_facts [of x e w oid row] assms(4) by (simp add: oc_system_wf_def)
  then have f: "presig_ok x ?r ?m" "terms_ok ?r" using assms(5) by (auto simp: order_facts_def)
  then obtain t p sig leaf where
    p: "settlement_params_for x ?r ?m Release None = Some (Some p)"
    and v: "verify_presignature (x_lib x) t p (key_or_none (oo_sponsor_xonly ?r)) = Presig_ok sig leaf"
    by (auto simp: presig_ok_def)
  note sel = settlement_params_sel [OF p]
  have s: "signature_for (x_lib x) p (key_or_none (oo_sponsor_xonly ?r)) sig" by (rule verify_presignature_ok(1) [OF v])
  then obtain tx where tx: "build_settlement_tx (x_lib x) p = Some tx" by (auto simp: signature_for_def)
  have t: "bt_spent_value tx = sp_value p" "bt_out_value tx = sp_value p - sp_fee p" "bt_outpoint tx = sp_outpoint p"
    "bt_spent_script tx = ed_script (sp_descriptor p)"
    using build_tx_sel [OF tx] by simp_all
  obtain fee n where "oo_release_fee ?r = Some fee" "oo_payout ?r = Some n" "n + fee = oo_amount ?r" "0 < n"
    using f(2) assms(5) by (auto simp: terms_ok_def)
  then have "oo_payout ?r = Some (bt_out_value tx)" "0 < bt_out_value tx" using sel(3,6) t by simp_all
  moreover have "om_payout_address ?m = Some (sp_destination p)" using sel(5) by (simp add: settlement_destination_def)
  ultimately show ?thesis using p tx s sel(2,3) t by auto
qed

theorem release_always_ready_witness:
  "\<exists>row p sig. get_oc ''ord1'' (toy_odb Oc_disputed) = Some row \<and> signature_for toy_lib p (toy_key (CHR ''2'')) sig
     \<and> sp_destination p = ''pay''"
proof -
  have "oo_state (toy_trade s) = s" "oo_sponsor_xonly (toy_trade s) = Some (toy_key (CHR ''2''))" for s
    by (simp_all add: toy_trade_def)
  then show ?thesis
    using release_always_ready [OF toy_odb_wf rtranclp.rtrancl_refl toy_odb_get, of Oc_disputed] toy_odb_get [of Oc_disputed]
    by (auto simp: toy_oc_row_def key_or_none_def toy_oc_env_def toy_oc_meta_def)
qed

end
