(* ===== verification/Oc_Spending.thy ===== *)
theory Oc_Spending
  imports Oc_Example
begin

text \<open>
  Who can spend the escrow.  No event moves an order into the settlement but the last signature, and that one only
  when it is a valid signature of the party the decision waits for, over the transaction the daemon builds itself.  The
  relation \<open>unspent\<close> is threaded through every handler and command with the rules of \<open>Results\<close>.
\<close>

subsection \<open>Steps that settle nothing\<close>

definition is_settling :: "string \<Rightarrow> 'm odb_scheme \<Rightarrow> bool" where
  "is_settling oid w \<longleftrightarrow> (\<exists>row. get_oc oid w = Some row \<and> oo_state (ow_order row) = Oc_settling)"

definition unspent :: "'m odb_scheme \<Rightarrow> 'm odb_scheme \<Rightarrow> bool" where
  "unspent w w' \<longleftrightarrow> (\<forall>oid. is_settling oid w' \<longrightarrow> is_settling oid w)"

lemma unspent_refl [simp]: "unspent w w"
  by (simp add: unspent_def)

lemma unspent_transp: "transp (unspent :: 'm odb_scheme \<Rightarrow> _)"
  by (auto simp: transp_def unspent_def)

lemmas unspent_trans = transpD [OF unspent_transp]

lemmas unspent_bind = ok_bind_step [OF unspent_transp] ok_bind_value

lemmas unspent_map = ok_map_step [OF unspent_transp]

lemma unspent_same: "oc_orders w' = oc_orders w \<Longrightarrow> unspent w w'"
  by (simp add: unspent_def is_settling_def get_oc_def)

lemma unspent_quiet: "quiet w w' \<Longrightarrow> unspent w w'" for w :: "'m odb_scheme"
  by (rule unspent_same) (simp add: oc_tables_quiet)

lemma unspent_quiet_after: "unspent u v \<Longrightarrow> quiet v w \<Longrightarrow> unspent u w" for u :: "'m odb_scheme"
  by (rule unspent_trans [OF _ unspent_quiet])

lemma find_update_where_key:
  assumes "\<And>y. k (f y) = k y"
  shows "List.find (\<lambda>y. k y = i) (update_where P f xs) = map_option (\<lambda>y. if P y then f y else y) (List.find (\<lambda>y. k y = i) xs)"
  using assms by (induction xs) auto

lemma unspent_rows:
  assumes "\<And>y. ow_id (f y) = ow_id y" and "\<And>y. oo_state (ow_order (f y)) = Oc_settling \<Longrightarrow> oo_state (ow_order y) = Oc_settling"
  shows "unspent w (w\<lparr>oc_orders := update_where P f (oc_orders w)\<rparr>)"
  using assms(2) by (auto simp: unspent_def is_settling_def get_oc_def find_update_where_key [where k = ow_id, OF assms(1)])

lemma unspent_update:
  fixes w :: "'m odb_scheme"
  assumes "\<And>r. oo_id (p r) = oo_id r" and "\<And>r. oo_state (p r) = Oc_settling \<Longrightarrow> oo_state r = Oc_settling"
  shows "ok_result unspent w (update_oc oid p mp w)"
proof (rule ok_resultI)
  fix r' w' assume u: "update_oc oid p mp w = Some (r', w')"
  then obtain row where g: "get_oc oid w = Some row" by (auto simp: update_oc_def split: option.splits)
  have "unspent w (w\<lparr>oc_orders := update_where (\<lambda>r. ow_id r = oid) (put_oc (now_sec w) p mp) (oc_orders w)\<rparr>)"
    by (rule unspent_rows) (simp_all add: ow_id_def assms)
  then show "unspent w w'" using update_oc_result(2) [OF u g] by (rule unspent_quiet_after)
qed

lemma unspent_meta [simp]: "unspent w (update_oc_meta oid mp w)" for w :: "'m odb_scheme"
proof -
  have "unspent w (w\<lparr>oc_orders := update_where (\<lambda>r. ow_id r = oid) (\<lambda>r. r\<lparr>ow_meta := mp (ow_meta r)\<rparr>) (oc_orders w)\<rparr>)"
    by (rule unspent_rows) (simp_all add: ow_id_def)
  then show ?thesis unfolding update_oc_meta_def by (simp add: unspent_quiet_after)
qed

lemma unspent_updated:
  fixes w :: "'m odb_scheme"
  assumes "\<And>r. oo_id (p r) = oo_id r" and "\<And>r. oo_state (p r) = Oc_settling \<Longrightarrow> oo_state r = Oc_settling"
  shows "ok_result unspent w (oc_updated e oid p mp w)"
  unfolding oc_updated_def by (intro unspent_bind ok_rules unspent_update [OF assms]) (simp_all add: unspent_quiet)

lemma unspent_tables [simp]:
  "unspent w (delete_candidate h w)" "unspent w (drop_sponsor_candidates oid k w)" "unspent w (bond_taken e oid party b w)"
  for w :: "'m odb_scheme"
  by (rule unspent_same, simp add: delete_candidate_def)
    (simp_all add: unspent_def is_settling_def bond_taken_result(3))

lemma unspent_inserted:
  fixes w :: "'m odb_scheme"
  shows "ok_state unspent w (list_oc x e oid customer info bond designated w)"
proof (rule ok_stateI)
  let ?o = "new_oc_order x oid customer info bond designated (now_sec w)"
  let ?m = "empty_meta\<lparr>om_refund_address := Some (ci_refund info), om_customer_bond_expires := bond_expiry bond w\<rparr>"
  let ?w1 = "w\<lparr>oc_orders := oc_orders w @ [\<lparr>ow_order = ?o, ow_meta = ?m, ow_version = 1, ow_published = 0\<rparr>]\<rparr>"
  fix w' assume "list_oc x e oid customer info bond designated w = Some w'"
  then obtain w2 where i: "insert_oc e ?o ?m w = Some w2" and w': "w' = bond_taken e oid customer bond w2"
    by (auto simp: list_oc_def)
  have "unspent w ?w1"
    by (auto simp: unspent_def is_settling_def get_oc_def find_append split: option.splits if_splits)
  then have "unspent w w2" using insert_oc_result(2) [OF i] by (rule unspent_quiet_after)
  then show "unspent w w'" unfolding w' by (rule unspent_trans) simp
qed

subsection \<open>The requests but the last signature\<close>

lemma unspent_reject [ok_rules]: "ok_result unspent w (oc_reject e oid ev reason w)" for w :: "'m odb_scheme"
  unfolding oc_reject_def by (rule ignored_ok) (simp add: unspent_quiet)

lemma unspent_plan [ok_rules]:
  fixes w :: "'m odb_scheme"
  shows "ok_result unspent w (oc_plan e purpose oid party amount payBy cltv info w)"
proof (rule ok_resultI)
  fix a w' assume "oc_plan e purpose oid party amount payBy cltv info w = Some (a, w')"
  then obtain iv w1 c where p: "hold_plan e (\<lambda>_. oc_changed) purpose oid party amount payBy cltv w = Some (iv, w1)"
    and c: "put_candidate c w1 = Some w'" by (auto simp: oc_plan_def bind_Some_iff)
  have "get_oc i w' = get_oc i w" for i
    using c hold_plan_oc(2) [OF p, of i] by (auto simp: put_candidate_def get_oc_def split: if_splits)
  then show "unspent w w'" by (simp add: unspent_def is_settling_def)
qed

lemma unspent_gate: "ok_result unspent w (order_gate e oid ev amount reserve w)" for w :: "'m odb_scheme"
  unfolding order_gate_def by (intro unspent_bind ok_rules) simp_all

lemma unspent_bond: "ok_result unspent w (bond_oc x e row sponsor info bond w)" for w :: "'m odb_scheme"
proof -
  have after: "unspent w1 (drop_sponsor_candidates oid None (notify_oc_transition e b v (bond_taken e oid sponsor bond w1)))"
    for oid b v and w1 :: "'m odb_scheme"
    by (rule unspent_trans [OF unspent_trans [OF unspent_tables(3) unspent_quiet [OF quiet_notify_oc_transition]] unspent_tables(2)])
  show ?thesis
    unfolding bond_oc_def Let_def
    by (intro unspent_bind ok_rules unspent_update) (simp_all add: bonded_with_def after)
qed

lemma unspent_sign_request [ok_rules]: "ok_state unspent w (send_oc_sign_request e oid rc pu t w)" for w :: "'m odb_scheme"
  by (rule ok_stateI) (rule unspent_quiet [OF quiet_sign_request])

lemma unspent_order_requests:
  fixes w :: "'m odb_scheme"
  shows "ok_result unspent w (oc_order_request x e ev w)" and "ok_result unspent w (oc_designated_order_request x e ev w)"
    and "ok_result unspent w (oc_claim x e ev w)"
proof -
  show "ok_result unspent w (oc_order_request x e ev w)"
    unfolding oc_order_request_def order_with_bond_def
    by (intro unspent_bind ok_rules) (auto intro: ok_result_some unspent_gate)
  show "ok_result unspent w (oc_designated_order_request x e ev w)"
    unfolding oc_designated_order_request_def oc_designated_terms_request_def list_designated_def
    by (intro unspent_bind ok_rules unspent_inserted) (auto simp: unspent_quiet intro: ok_result_some unspent_gate)
  show "ok_result unspent w (oc_claim x e ev w)"
    unfolding oc_claim_def claim_opened_def claim_accepted_def
    by (intro unspent_bind ok_rules unspent_bond) simp_all
qed

lemma unspent_trade_requests:
  fixes w :: "'m odb_scheme"
  shows "ok_result unspent w (oc_presig x e ev row w)" and "ok_result unspent w (oc_remit x e ev row w)"
    and "ok_result unspent w (oc_account_info x e ev row w)" and "ok_result unspent w (oc_dispute x e ev row w)"
    and "ok_result unspent w (oc_rescue_cosign x e ev row w)"
proof -
  show "ok_result unspent w (oc_presig x e ev row w)"
    unfolding oc_presig_def Let_def by (intro unspent_bind ok_rules unspent_updated) (simp_all add: unspent_quiet)
  show "ok_result unspent w (oc_remit x e ev row w)" "ok_result unspent w (oc_account_info x e ev row w)"
    "ok_result unspent w (oc_dispute x e ev row w)"
    unfolding oc_remit_def oc_account_info_def oc_dispute_def Let_def
    by (intro unspent_bind ok_rules unspent_map unspent_updated unspent_update; simp add: unspent_quiet)+
  show "ok_result unspent w (oc_rescue_cosign x e ev row w)"
    unfolding oc_rescue_cosign_def rescue_signed_def Let_def request_broadcast_def
    by (intro unspent_bind ok_rules) (auto simp: unspent_quiet unspent_quiet_after [OF unspent_meta quiet_enq])
qed

lemma unspent_fold:
  assumes "\<And>c v. unspent v (f c v)"
  shows "unspent w (fold f cs w)"
  by (induction cs arbitrary: w) (auto intro: unspent_trans assms)

lemma unspent_cancel: "ok_result unspent w (oc_cancel x e ev w)" for w :: "'m odb_scheme"
proof -
  have drop: "unspent w1 (drop_sponsor_candidates oid None (notify_oc_transition e c v (apply_outcome e c out w1)))"
    for oid c v out and w1 :: "'m odb_scheme"
    by (rule unspent_trans [OF unspent_quiet [OF quiet_outcome_told(2)] unspent_tables(2)])
  have disposed: "unspent v (delete_candidate h (hold_dispose h Want_cancel v))" for h and v :: "'m odb_scheme"
    by (rule unspent_trans [OF unspent_quiet [OF quiet_hold_dispose] unspent_tables(1)])
  show ?thesis
    unfolding oc_cancel_def cancel_candidates_def Let_def
    by (intro unspent_bind ok_rules unspent_update) (auto simp: drop intro: unspent_fold disposed)
qed

subsection \<open>The operators' commands\<close>

lemma unspent_request_signature [ok_rules]:
  fixes w :: "'m odb_scheme"
  shows "ok_result unspent w (request_settlement_signature x e oid w)"
  unfolding request_settlement_signature_def by (intro unspent_bind ok_rules) (simp_all add: unspent_quiet)

lemma unspent_decide [ok_rules]: "ok_result unspent w (decide_settlement x e oid kind pin w)" for w :: "'m odb_scheme"
proof -
  have recorded: "ok_state unspent w (record_decision x e oid kind fee pin w)" for fee
    unfolding record_decision_def Let_def
  proof (intro unspent_bind ok_rules unspent_update ok_map(3))
    show "oo_state (decided kind fee pin (now_sec w) r) = Oc_settling \<Longrightarrow> oo_state r = Oc_settling" for r
      by (simp split: if_splits)
    show "oo_id (decided kind fee pin (now_sec w) r) = oo_id r" for r
      using decided_same(1) by (simp add: same_deal_def)
  qed (auto simp: ok_state_def unspent_quiet quiet_outcome_told)
  show ?thesis
    unfolding decide_settlement_def by (intro unspent_bind ok_rules ok_map(6) recorded) (simp_all add: unspent_quiet)
qed

lemma unspent_command:
  fixes w :: "'m odb_scheme"
  assumes "oc_command_of cmd = Some run"
  shows "ok_result unspent w (run x e row args w)"
proof -
  have rule: "ok_result unspent w (oc_rule x e row args w)"
    unfolding oc_rule_def by (intro ok_rules unspent_map) simp_all
  have verdict: "ok_result unspent w (oc_account_dispute x e row args w)"
    unfolding oc_account_dispute_def resolve_account_dispute_def
    by (intro unspent_bind ok_rules unspent_update) (simp_all add: unspent_quiet)
  have resend: "ok_result unspent w (oc_resend x e row args w)"
    unfolding oc_resend_def resend_release_def Let_def done_or_def
    by (intro ok_rules unspent_map ok_map(6)) simp_all
  have rescue: "ok_result unspent w (oc_rescue_command x e row args w)"
    unfolding oc_rescue_command_def request_rescue_def Let_def
    by (intro unspent_bind ok_rules) (auto simp: ok_result_def intro: unspent_quiet_after [OF unspent_meta quiet_sign_request])
  show ?thesis using assms rule verdict resend rescue by (auto simp: oc_command_of_def split: if_splits)
qed

lemma unspent_ln: "oc_winv x e w \<Longrightarrow> ln_ok e w w' \<Longrightarrow> unspent w w'" for w :: "'m odb_scheme"
  using unspent_same more_odb [of w' w] by (auto simp: oc_winv_def ln_ok_def)

lemma unspent_registry:
  fixes w :: "'m odb_ext ddb_ext db_scheme"
  assumes inv: "oc_winv x e w" and "oc_registry dir x cmd = Some c" and "c e args w = Some (res, w')"
  shows "unspent w w'"
proof (cases "registry dir cmd")
  case (Some c')
  then have "execute_command (registry dir) e cmd (Some args) w = Some (res, w')"
    using assms by (simp add: oc_registry_def execute_command_def)
  from unspent_ln [OF inv execute_ok [OF this]] show ?thesis .
next
  case None
  then consider "c = oc_detail_command" | run where "c = on_oc_target dir x run" "oc_command_of cmd = Some run"
    using assms(2) by (auto simp: oc_registry_def split: if_splits)
  then show ?thesis
  proof cases
    case 1
    then show ?thesis using assms(3) by (auto simp: oc_detail_command_def unspent_quiet split: option.splits if_splits)
  next
    case 2
    then have "w' = w \<or> (\<exists>row a. run x e row args w = Some (a, w'))"
      using assms(3) by (auto simp: on_oc_target_def split: sum.splits option.splits if_splits)
    then show ?thesis using ok_resultD [OF unspent_command [OF 2(2)]] by auto
  qed
qed

lemma unspent_admin:
  fixes w :: "'m odb_ext ddb_ext db_scheme"
  assumes inv: "oc_winv x e w" and "admin_handler (oc_registry dir x) e ev w = Some (res, w')"
  shows "unspent w w'"
  using admin_handler_cases [OF assms(2)]
proof (elim disjE exE conjE)
  fix body cmd args r w1
  assume c: "execute_command (oc_registry dir x) e cmd args w = Some (r, w1)" and q: "quiet w1 w'"
  have "unspent w w1"
    using c unspent_registry [OF inv, of dir cmd _ _ r w1] by (auto simp: execute_command_def split: option.splits)
  then show ?thesis using q by (rule unspent_quiet_after)
qed (rule unspent_quiet)

subsection \<open>The last signature\<close>

text \<open>
  What entering the settlement rests on: the transaction the daemon builds itself for the kind of the settlement, to the
  recipient of that kind, a valid signature on it by the party the kind waits for, who sent it, and for a release the
  sponsor's presignature on the same transaction; any other kind was decided before.
\<close>

definition signed_by :: "oc_ord \<Rightarrow> settlement_kind \<Rightarrow> string \<Rightarrow> hex \<Rightarrow> bool" where
  "signed_by r kind sender signer \<longleftrightarrow>
     (if awaiting_signer_for kind = Sponsor then oo_sponsor r = Some sender \<and> oo_sponsor_xonly r = Some signer
      else oo_customer r = sender \<and> oo_customer_xonly r = Some signer)"

definition signed_spend :: "oc_env \<Rightarrow> string \<Rightarrow> oc_row \<Rightarrow> oc_row \<Rightarrow> bool" where
  "signed_spend x sender row row' \<longleftrightarrow>
     (let r = ow_order row; r' = ow_order row' in
      \<exists>kind p tx signer sig raw.
        settlement_params_for x r (ow_meta row) kind None = Some (Some p)
        \<and> build_settlement_tx (x_lib x) p = Some tx
        \<and> signature_for (x_lib x) p signer sig \<and> signed_by r kind sender signer
        \<and> (if kind = Release then \<exists>s. signature_for (x_lib x) p (key_or_none (oo_sponsor_xonly r)) s
            else oo_settlement_kind r = Some kind)
        \<and> can_act_on_sign_request (oo_state r) (sign_purpose_for kind) (oo_settlement_kind r)
        \<and> oo_settlement_kind r' = Some kind \<and> oo_settlement_txid r' = Some (bl_txid (x_lib x) tx)
        \<and> om_outbox (ow_meta row') = Some \<lparr>ob_txid = bl_txid (x_lib x) tx, ob_raw = raw, ob_kind = kind\<rparr>)"

lemma completed_spend:
  assumes "complete_settlement x r m kind p leaf signer sig = Completed raw txid"
  shows "\<exists>tx. build_settlement_tx (x_lib x) p = Some tx \<and> txid = bl_txid (x_lib x) tx"
    and "kind = Release \<Longrightarrow> \<exists>s. signature_for (x_lib x) p (key_or_none (oo_sponsor_xonly r)) s"
proof -
  show "\<exists>tx. build_settlement_tx (x_lib x) p = Some tx \<and> txid = bl_txid (x_lib x) tx"
    using assms by (auto simp: complete_settlement_def finish_tx_def bind_eq_Some_conv
        split: option.splits if_splits presig_verdict.splits)
  have "\<exists>t s l. verify_presignature (x_lib x) t p (key_or_none (oo_sponsor_xonly r)) = Presig_ok s l" if "kind = Release"
    using assms that by (auto simp: complete_settlement_def split: option.splits presig_verdict.splits) blast
  then show "kind = Release \<Longrightarrow> \<exists>s. signature_for (x_lib x) p (key_or_none (oo_sponsor_xonly r)) s"
    using verify_presignature_ok(1) by blast
qed

lemma entered_settling:
  fixes w :: "'m odb_scheme"
  assumes "enter_settling e oid kind txid raw w = Some w'" and g: "get_oc oid w = Some row"
  shows "i \<noteq> oid \<Longrightarrow> get_oc i w' = get_oc i w"
    and "\<exists>row'. get_oc oid w' = Some row' \<and> oo_state (ow_order row') = Oc_settling
       \<and> oo_settlement_kind (ow_order row') = Some kind
       \<and> oo_settlement_txid (ow_order row') = Some txid
       \<and> om_outbox (ow_meta row') = Some \<lparr>ob_txid = txid, ob_raw = raw, ob_kind = kind\<rparr>"
proof -
  let ?p = "\<lambda>r. r\<lparr>oo_state := Oc_settling, oo_settlement_kind := Some kind, oo_settlement_txid := Some txid,
    oo_settling_at := Some (now_sec w)\<rparr>"
  let ?mp = "\<lambda>m. m\<lparr>om_outbox := Some \<lparr>ob_txid = txid, ob_raw = raw, ob_kind = kind\<rparr>\<rparr>"
  let ?w1 = "w\<lparr>oc_orders := update_where (\<lambda>r. ow_id r = oid) (put_oc (now_sec w) ?p ?mp) (oc_orders w)\<rparr>"
  have told: "quiet v (request_broadcast oid txid None (if kind = Release then apply_outcome e r (Settled kind) v else v))"
    for r and v :: "'m odb_scheme"
    by (simp add: request_broadcast_def quiet_trans [OF quiet_apply_outcome quiet_enq])
  obtain r1 w1 where u: "update_oc oid ?p ?mp w = Some (r1, w1)" and "quiet w1 w'"
    using assms(1) told by (auto simp: enter_settling_def bind_eq_Some_conv)
  then have q: "quiet ?w1 w'" using quiet_trans [OF update_oc_result(2) [OF u g]] by blast
  have k: "ow_id (put_oc (now_sec w) ?p ?mp y) = ow_id y" for y by (simp add: ow_id_def)
  have get: "get_oc i w' = map_option (\<lambda>y. if ow_id y = oid then put_oc (now_sec w) ?p ?mp y else y) (get_oc i w)" for i
    unfolding get_oc_quiet [OF q] by (simp add: get_oc_def find_update_where_key [where k = ow_id, OF k])
  show "i \<noteq> oid \<Longrightarrow> get_oc i w' = get_oc i w"
    using get [of i] get_oc_Some [of i w] by (cases "get_oc i w") auto
  show "\<exists>row'. get_oc oid w' = Some row' \<and> oo_state (ow_order row') = Oc_settling
       \<and> oo_settlement_kind (ow_order row') = Some kind
       \<and> oo_settlement_txid (ow_order row') = Some txid
       \<and> om_outbox (ow_meta row') = Some \<lparr>ob_txid = txid, ob_raw = raw, ob_kind = kind\<rparr>"
    using get [of oid] get_oc_Some [OF g] by (simp add: g)
qed

lemma cosign_verified_cases:
  fixes w :: "'m odb_scheme"
  assumes "cosign_verified x e ev row kind p signer w = Some (res, w')"
  shows "quiet w w' \<or> (\<exists>t sig leaf raw txid. verify_presignature (x_lib x) t p signer = Presig_ok sig leaf
     \<and> complete_settlement x (ow_order row) (ow_meta row) kind p leaf signer sig = Completed raw txid
     \<and> enter_settling e (oo_id (ow_order row)) kind txid raw w = Some w')"
  using assms
  by (auto simp: cosign_verified_def Let_def ignored_def oc_reject_def
      split: option.splits presig_verdict.splits completed.splits)

lemma cosign_for_cases:
  fixes w :: "'m odb_scheme"
  assumes "cosign_for x e ev row purpose w = Some (res, w')"
  shows "quiet w w' \<or> (\<exists>kind p signer. settlement_params_for x (ow_order row) (ow_meta row) kind None = Some (Some p)
     \<and> signed_by (ow_order row) kind (ie_pubkey ev) signer
     \<and> can_act_on_sign_request (oo_state (ow_order row)) (sign_purpose_for kind) (oo_settlement_kind (ow_order row))
     \<and> (kind \<noteq> Release \<longrightarrow> oo_settlement_kind (ow_order row) = Some kind)
     \<and> cosign_verified x e ev row kind p signer w = Some (res, w'))"
proof (cases "quiet w w'")
  case False
  let ?r = "ow_order row"
  let ?kind = "if purpose = SP_release then Some Release else oo_settlement_kind ?r"
  obtain kind where k: "?kind = Some kind" "sign_purpose_for kind = purpose"
    and act: "can_act_on_sign_request (oo_state ?r) purpose (oo_settlement_kind ?r)"
    using assms False by (auto simp: cosign_for_def Let_def ignored_def split: option.splits if_splits)
  let ?by = "awaiting_signer_for kind = Sponsor"
  obtain signer where s: "given_s (if ?by then oo_sponsor_xonly ?r else oo_customer_xonly ?r) = Some signer"
    "Some (ie_pubkey ev) = (if ?by then oo_sponsor ?r else Some (oo_customer ?r))"
    using assms False k act by (auto simp: cosign_for_def Let_def ignored_def split: option.splits if_splits)
  obtain p where p: "settlement_params_for x ?r (ow_meta row) kind None = Some (Some p)"
    "cosign_verified x e ev row kind p signer w = Some (res, w')"
    using assms False k act s
    by (auto simp: cosign_for_def Let_def ignored_def bind_eq_Some_conv split: option.splits if_splits)
  have "signed_by ?r kind (ie_pubkey ev) signer" using s given_s_Some by (auto simp: signed_by_def split: if_splits)
  moreover have "kind \<noteq> Release \<longrightarrow> oo_settlement_kind ?r = Some kind" using k(1) by (auto split: if_splits)
  ultimately show ?thesis using p k(2) act by blast
qed simp

lemma cosign_spends:
  fixes w :: "'m odb_scheme"
  assumes "cosign_for x e ev row purpose w = Some (res, w')" and g: "get_oc (oo_id (ow_order row)) w = Some row"
    and "is_settling oid w'" and "\<not> is_settling oid w"
  shows "\<exists>row'. get_oc oid w = Some row \<and> get_oc oid w' = Some row' \<and> signed_spend x (ie_pubkey ev) row row'"
proof -
  let ?r = "ow_order row"
  have not_quiet: "\<not> quiet w w'" using unspent_quiet [of w w'] assms(3,4) by (auto simp: unspent_def)
  obtain kind p signer where k: "settlement_params_for x ?r (ow_meta row) kind None = Some (Some p)"
    "signed_by ?r kind (ie_pubkey ev) signer"
    "can_act_on_sign_request (oo_state ?r) (sign_purpose_for kind) (oo_settlement_kind ?r)"
    "kind \<noteq> Release \<Longrightarrow> oo_settlement_kind ?r = Some kind"
    and cv: "cosign_verified x e ev row kind p signer w = Some (res, w')"
    using cosign_for_cases [OF assms(1)] not_quiet by blast
  obtain t sig leaf raw txid where v: "verify_presignature (x_lib x) t p signer = Presig_ok sig leaf"
    and c: "complete_settlement x ?r (ow_meta row) kind p leaf signer sig = Completed raw txid"
    and en: "enter_settling e (oo_id ?r) kind txid raw w = Some w'"
    using cosign_verified_cases [OF cv] not_quiet by blast
  have oid: "oid = oo_id ?r"
  proof (rule ccontr)
    assume "oid \<noteq> oo_id ?r"
    from entered_settling(1) [OF en g this] assms(3,4) show False by (simp add: is_settling_def)
  qed
  obtain row' where row': "get_oc oid w' = Some row'" "oo_settlement_kind (ow_order row') = Some kind"
    "oo_settlement_txid (ow_order row') = Some txid"
    "om_outbox (ow_meta row') = Some \<lparr>ob_txid = txid, ob_raw = raw, ob_kind = kind\<rparr>"
    using entered_settling(2) [OF en g] oid by blast
  obtain tx where tx: "build_settlement_tx (x_lib x) p = Some tx" "txid = bl_txid (x_lib x) tx"
    using completed_spend(1) [OF c] by blast
  have "signed_spend x (ie_pubkey ev) row row'"
    unfolding signed_spend_def Let_def
    by (intro exI [of _ kind] exI [of _ p] exI [of _ tx] exI [of _ signer] exI [of _ sig] exI [of _ raw])
      (use k verify_presignature_ok(1) [OF v] completed_spend(2) [OF c] row' tx in auto)
  then show ?thesis using g oid row'(1) by blast
qed

lemma handler_spends:
  fixes w :: "'m odb_scheme"
  assumes "oc_handler action = Some h" and "h x e ev w = Some (res, w')"
    and "is_settling oid w'" and "\<not> is_settling oid w"
  shows "action = ''onchain-cosign'' \<and> (\<exists>row row'. get_oc oid w = Some row \<and> get_oc oid w' = Some row'
     \<and> signed_spend x (ie_pubkey ev) row row')"
proof -
  have change: "\<not> unspent w w'" using assms(3,4) by (auto simp: unspent_def)
  have row_unspent: "ok_result unspent w (with_oc_row h' x e ev w)"
    if "h' \<in> {oc_presig, oc_remit, oc_account_info, oc_dispute}" for h' :: "'m oc_row_handler"
    using that unspent_trade_requests unfolding with_oc_row_def by (intro ok_rules) auto
  have "(action, h) \<in> set oc_handler_table" using assms(1) by (auto simp: oc_handler_def dest: map_of_SomeD)
  then have a: "action = ''onchain-cosign'' \<and> h = with_oc_row oc_cosign \<or> ok_result unspent w (h x e ev w)"
    by (auto simp: oc_handler_table_def unspent_order_requests unspent_cancel row_unspent)
  then have a: "action = ''onchain-cosign'' \<and> h = with_oc_row oc_cosign"
    using assms(2) change by (auto simp: ok_result_def)
  then obtain row i where g: "get_oc i w = Some row" and cs: "oc_cosign x e ev row w = Some (res, w')"
    using assms(2) change by (auto simp: with_oc_row_def ignored_def split: option.splits)
  have "oc_rescue_cosign x e ev row w \<noteq> Some (res, w')" using change ok_resultD [OF unspent_trade_requests(5)] by blast
  then obtain purpose where "cosign_for x e ev row purpose w = Some (res, w')"
    using cs change by (auto simp: oc_cosign_def ignored_def split: option.splits if_splits)
  from cosign_spends [OF this get_oc_id [OF g] assms(3,4)] show ?thesis using a by blast
qed

subsection \<open>Properties\<close>

text \<open>C6. No event spends an escrow but a valid last signature.  If handling an event of any sender, of either track, an
  operator's command included, moves an on-chain order into the settlement, the event is a last signature, sent by the
  party the settlement waits for; the signature is valid for that party's key and for the transaction the daemon builds
  itself to the recipient of the settlement; a release also carries a valid presignature of the sponsor; any other
  settlement was decided before; and that transaction is what is broadcast.\<close>

theorem escrow_spent_only_signed:
  fixes w :: "'m odb_ext ddb_ext db_scheme"
  assumes inv: "oc_winv x e w" and "oc_route x e ev = Some h" and "h e ev w = Some (res, w')"
    and "is_settling oid w'" and "\<not> is_settling oid w"
  shows "tag_value ''action'' (ie_tags ev) = Some ''onchain-cosign''
    \<and> (\<exists>row row'. get_oc oid w = Some row \<and> get_oc oid w' = Some row' \<and> signed_spend x (ie_pubkey ev) row row')"
proof -
  have change: "\<not> unspent w w'" using assms(4,5) by (auto simp: unspent_def)
  have "\<not> quiet w w'" using change unspent_quiet by blast
  moreover have "\<not> ln_ok e w w'" using change unspent_ln [OF inv] by blast
  moreover have "admin_handler (oc_registry both_directory x) e ev w \<noteq> Some (res, w')"
    using change unspent_admin [OF inv] by blast
  ultimately obtain action h' where "tag_value ''action'' (ie_tags ev) = Some action" "oc_handler action = Some h'"
    "h' x e ev w = Some (res, w')"
    using assms(2,3) ln_handler_ok [of _ h e ev w res w'] chat_forwarder_quiet [of both_directory e ev w res w']
      peer_pinger_quiet [of both_directory e ev w res w']
    by (auto simp: oc_route_def route_def Let_def js_true_s_def split: if_splits option.splits)
  from handler_spends [OF this(2,3) assms(4,5)] this(1) show ?thesis by blast
qed

definition toy_cosign :: inbox_event where
  "toy_cosign = \<lparr>ie_id = ''ev'', ie_pubkey = ''c'', ie_kind = 3838, ie_created_at = 0,
     ie_tags = [[''a'', ''38383:app:ord1''], [''t'', ''oc''], [''action'', ''onchain-cosign''], [''purpose'', ''release'']],
     ie_content = []\<rparr>"

definition toy_cosign_env :: env where
  "toy_cosign_env = toy_env\<lparr>e_unseal := \<lambda>_ _. Some (J_obj [(''psbt'', J_str ''psbt'')])\<rparr>"

lemma toy_completed:
  "complete_settlement toy_oc_env (toy_trade s) toy_oc_meta Release toy_release ''12'' (toy_key (CHR ''1'')) toy_sig
   = Completed ''00'' ''tx''"
proof -
  have k: "key_or_none (oo_sponsor_xonly (toy_trade s)) = toy_key (CHR ''2'')" "om_presig toy_oc_meta = Some ''psbt''"
    "x_lib toy_oc_env = toy_lib" "is_xonly_hex (toy_key (CHR ''1''))" "is_xonly_hex (toy_key (CHR ''2''))"
    by (simp_all add: key_or_none_def toy_trade_def toy_oc_meta_def toy_oc_env_def is_digit_def char_code_def)
  show ?thesis
    by (simp add: complete_settlement_def k toy_build toy_verified given_s_def opt_given_def add_tap_script_sig_def finish_tx_def)
      (simp add: toy_lib_def)
qed

lemma toy_settles:
  "\<exists>w'. enter_settling e ''ord1'' Release ''tx'' ''00'' (toy_odb Oc_remitted) = Some w' \<and> is_settling ''ord1'' w'"
proof -
  have "oo_state (ow_order (toy_oc_row Oc_remitted)) = Oc_remitted" by (simp add: toy_oc_row_def toy_trade_def)
  then obtain w' where "enter_settling e ''ord1'' Release ''tx'' ''00'' (toy_odb Oc_remitted) = Some w'"
    by (simp add: enter_settling_def update_oc_def toy_odb_get can_onchain_transition_def Let_def)
  with entered_settling(2) [OF this toy_odb_get] show ?thesis by (auto simp: is_settling_def)
qed

lemma toy_cosigned:
  "\<exists>w'. oc_cosign toy_oc_env toy_cosign_env toy_cosign (toy_oc_row Oc_remitted) (toy_odb Oc_remitted) = Some (H_ok, w')
     \<and> is_settling ''ord1'' w'"
proof -
  let ?r = "toy_trade Oc_remitted"
  obtain w' where w': "enter_settling toy_cosign_env ''ord1'' Release ''tx'' ''00'' (toy_odb Oc_remitted) = Some w'"
    "is_settling ''ord1'' w'" using toy_settles by blast
  have r: "oo_id ?r = ''ord1''" "oo_state ?r = Oc_remitted" "oo_customer ?r = ''c''" "oo_settlement_kind ?r = None"
    "oo_customer_xonly ?r = Some (toy_key (CHR ''1''))" by (simp_all add: toy_trade_def toy_oc_order_def)
  have row: "ow_order (toy_oc_row Oc_remitted) = ?r" "ow_meta (toy_oc_row Oc_remitted) = toy_oc_meta"
    by (simp_all add: toy_oc_row_def)
  have opened: "opened toy_cosign_env toy_cosign psbt_payload = Some ''psbt''"
    by (simp add: opened_def toy_cosign_env_def psbt_payload_def given_s_def opt_given_def)
  have x: "x_lib toy_oc_env = toy_lib" by (simp add: toy_oc_env_def)
  have cv: "cosign_verified toy_oc_env toy_cosign_env toy_cosign (toy_oc_row Oc_remitted) Release toy_release
      (toy_key (CHR ''1'')) (toy_odb Oc_remitted) = Some (H_ok, w')"
    unfolding cosign_verified_def Let_def row r opened x by (simp add: toy_verified toy_completed w'(1))
  have sender: "ie_pubkey toy_cosign = ''c''" by (simp add: toy_cosign_def)
  have act: "can_act_on_sign_request Oc_remitted SP_release None" by (simp add: can_act_on_sign_request_def)
  have "cosign_for toy_oc_env toy_cosign_env toy_cosign (toy_oc_row Oc_remitted) SP_release (toy_odb Oc_remitted)
      = Some (H_ok, w')"
    unfolding cosign_for_def Let_def row r toy_params
    by (simp add: act cv toy_params sign_purpose_for_def awaiting_signer_for_def given_s_def opt_given_def sender)
  then show ?thesis using w'(2) by (simp add: oc_cosign_def toy_cosign_def sign_purpose_of_def)
qed

theorem escrow_spent_only_signed_witness:
  "\<exists>row'. signed_spend toy_oc_env ''c'' (toy_oc_row Oc_remitted) row'"
proof -
  let ?w = "toy_odb Oc_remitted"
  obtain w' where c: "oc_cosign toy_oc_env toy_cosign_env toy_cosign (toy_oc_row Oc_remitted) ?w = Some (H_ok, w')"
    and st: "is_settling ''ord1'' w'" using toy_cosigned by blast
  have route: "oc_route toy_oc_env toy_cosign_env toy_cosign = Some (with_oc_row oc_cosign toy_oc_env)"
    by (simp add: oc_route_def route_def toy_cosign_def toy_cosign_env_def toy_env_def oc_handler_def oc_handler_table_def
        js_true_s_def)
  have h: "with_oc_row oc_cosign toy_oc_env toy_cosign_env toy_cosign ?w = Some (H_ok, w')"
  proof -
    have "extract_order_id (ie_tags toy_cosign) = Some ''ord1''"
      by (simp add: extract_order_id_def toy_cosign_def numeral_eq_Suc)
    then show ?thesis using c by (simp add: with_oc_row_def given_s_def opt_given_def toy_odb_get)
  qed
  have no: "\<not> is_settling ''ord1'' ?w" by (simp add: is_settling_def toy_odb_get toy_oc_row_def toy_trade_def)
  from escrow_spent_only_signed [OF toy_odb_wf(1) route h st no] show ?thesis
    by (auto simp: toy_odb_get toy_cosign_def)
qed

end
