(* ===== verification/Oc_Limits.thy ===== *)
theory Oc_Limits
  imports Oc_Example
begin

text \<open>
  Two places where the on-chain track stops short of what it means to do: an escrow spent by the two parties before the
  presignature stops the watcher, and a broadcast that failed with an \<open>unknown\<close> error is taken for one that succeeded.
\<close>

subsection \<open>A spend the watcher cannot record\<close>

text \<open>
  The release leaf needs the customer's and the sponsor's signature, the daemon's does not come into it: nothing keeps
  the two from spending the escrow together as soon as it is funded.  The watcher means to follow the chain,
  but the table has no way from \<open>funded\<close> to \<open>settling\<close>.
\<close>

lemma funded_spend_decided:
  assumes "oo_state r = Oc_funded" and "opt_given (oo_funding_outpoint r)" and "wc_pinned c = Some (PF_spent txid leaf conf)"
  shows "decide_onchain_action r c = Some (A_observe_spend txid leaf conf)"
  using assms by (simp add: decide_onchain_action_def PINNED_STATES_def)

lemma funded_spend_throws:
  assumes "get_oc (oo_id (ow_order row)) w = Some row" and "oo_state (ow_order row) = Oc_funded"
  shows "observe_spend e row txid (Some Leaf_release) w = None"
  using assms by (simp add: observe_spend_def Let_def adopted_kind_def update_oc_def can_onchain_transition_def)

text \<open>C29. A released escrow that was never presigned stops the watcher: when the parties of a funded order spend its
  escrow themselves through the release leaf, recording it throws; the pass ends at that order with nothing
  changed, however often it is repeated, and no order behind it in the table is looked at.\<close>

theorem early_release_stops_watcher:
  fixes w :: "'m odb_scheme"
  assumes "oc_orders w = row # rows" and "oo_state (ow_order row) = Oc_funded"
    and "opt_given (oo_funding_outpoint (ow_order row))"
    and "gather x (chain (ow_id row)) (ow_order row) = Some fx"
    and "fx_pinned fx = Some (PF_spent txid (Some Leaf_release) confirmed)"
    and "elapsed (q_now w) (ow_last_poll s) pollMs"
  shows "snd (oc_poll x e pollMs chain s w) = (w, False)"
proof -
  let ?c = "watch_context_of e row fx w"
  have get: "get_oc (ow_id row) w = Some row" by (simp add: get_oc_def assms(1))
  have "wc_pinned ?c = Some (PF_spent txid (Some Leaf_release) confirmed)"
    by (simp add: watch_context_of_def Let_def assms(5))
  note decided = funded_spend_decided [OF assms(2,3) this]
  have "execute x e row (A_observe_spend txid (Some Leaf_release) confirmed) w = None"
    using funded_spend_throws [OF _ assms(2)] get by (simp add: execute_def Let_def ow_id_def)
  then have "apply_facts x e (ow_id row) (ow_version row) fx w = None"
    by (simp add: apply_facts_def get assms(2) decided)
  moreover have "due_order row s' t = (True, s')" for s' t by (simp add: due_order_def assms(2))
  ultimately show ?thesis using assms(6) by (simp add: oc_poll_def assms(1,4))
qed

text \<open>The explorer's answers once the escrow of \<open>toy_trade\<close> was spent by a release.\<close>

definition toy_tx_json :: json where
  "toy_tx_json = J_obj [(''vin'', J_arr [J_obj [(''txid'', J_str (toy_key (CHR ''f''))), (''vout'', j_int 0),
     (''witness'', J_arr [J_str ''aa'', J_str ''bb'', J_str ''12'', J_str ''c0''])]])]"

definition toy_spent_json :: json where
  "toy_spent_json = J_obj [(''spent'', J_bool True), (''txid'', J_str (toy_key (CHR ''1''))),
     (''status'', J_obj [(''confirmed'', J_bool True)])]"

definition toy_answer :: "json \<Rightarrow> fetched" where
  "toy_answer j = F_response \<lparr>hr_status = 200, hr_text = [], hr_json = Some j\<rparr>"

definition toy_chain :: http where
  "toy_chain path =
     toy_answer (if path = ''/blocks/tip/height'' then j_int 100
                 else if take 9 path = ''/address/'' then J_arr []
                 else if path = ''/tx/'' @ toy_key (CHR ''1'') then toy_tx_json else toy_spent_json)"

lemma toy_funds: "get_address_funds toy_chain ''escrow'' = Known \<lparr>af_confirmed = [], af_mempool = []\<rparr>"
  by (simp add: get_address_funds_def get_tip_height_def http_request_def toy_chain_def toy_answer_def j_int_def)

lemma toy_spend: "get_spend toy_chain toy_outpoint = Known (Spent (toy_key (CHR ''1'')) True (Some [''aa'', ''bb'', ''12'', ''c0'']))"
proof -
  have k: "is_hex64 (toy_key (CHR ''1''))" using toy_key_hex [of "CHR ''1''"] by (simp add: is_xonly_hex_def is_digit_def char_code_def)
  have "\<exists>ys. toy_key (CHR ''f'') = CHR ''f'' # ys" by (simp add: toy_key_def numeral_eq_Suc)
  then have p: "''/tx/'' @ toy_key (CHR ''f'') @ y \<noteq> ''/tx/'' @ toy_key (CHR ''1'')" for y
    by (auto simp: toy_key_def numeral_eq_Suc)
  show ?thesis
    using p by (simp add: get_spend_def toy_outpoint_def http_request_def toy_chain_def toy_answer_def toy_spent_json_def
        toy_tx_json_def k jbool_def sub_field_def read_witness_def j_int_def)
qed

theorem early_release_stops_watcher_witness:
  "snd (oc_poll toy_oc_env toy_env 30000 (\<lambda>_. toy_chain)
      \<lparr>ow_last_poll = None, ow_last_fees = None, ow_terminal_check = (\<lambda>_. None)\<rparr> (toy_odb Oc_funded))
   = (toy_odb Oc_funded, False)"
proof -
  let ?r = "toy_trade Oc_funded"
  have r: "oo_state ?r = Oc_funded" "oo_escrow_address ?r = Some ''escrow''" "oo_amount ?r = 1000000"
    "oo_funding_outpoint ?r = Some (format_outpoint (toy_key (CHR ''f'')) 0)" "oo_network ?r = Signet"
    "oo_customer_xonly ?r = Some (toy_key (CHR ''1''))" "oo_sponsor_xonly ?r = Some (toy_key (CHR ''2''))"
    "oo_admin_xonly ?r = Some (toy_key (CHR ''3''))" "oo_timelock ?r = Some 8064"
    by (simp_all add: toy_trade_def toy_oc_order_def)
  have row: "ow_order (toy_oc_row Oc_funded) = ?r" by (simp add: toy_oc_row_def)
  have pin: "parse_outpoint (oo_funding_outpoint ?r) = Some toy_outpoint"
    using settlement_params_sel(2) [OF toy_params] by (simp add: toy_release_def)
  have leaf: "spending_leaf toy_oc_env ?r (Some [''aa'', ''bb'', ''12'', ''c0'']) = Some (Some Leaf_release)"
    using toy_descriptor [of Oc_funded]
    by (simp add: spending_leaf_def escrow_descriptor_for_def r key_or_none_def given_s_def opt_given_def)
      (simp add: leaf_of_witness_def toy_escrow_def toy_leaves_def lower_def char_code_def)
  have "gather_pinned_facts toy_oc_env toy_chain ?r (Known \<lparr>af_confirmed = [], af_mempool = []\<rparr>)
      = Some (Some (PF_spent (toy_key (CHR ''1'')) (Some Leaf_release) True))"
    by (simp add: gather_pinned_facts_def pin [unfolded r] judge_pinned_funding_def r required_confirmations_def missing_facts_def
        toy_spend leaf)
  then have g: "gather toy_oc_env toy_chain ?r
      = Some \<lparr>fx_funds = Known \<lparr>af_confirmed = [], af_mempool = []\<rparr>,
          fx_pinned = Some (PF_spent (toy_key (CHR ''1'')) (Some Leaf_release) True), fx_settlement = None\<rparr>"
    by (simp add: gather_def r given_s_def opt_given_def toy_funds format_outpoint_def)
  show ?thesis
    by (rule early_release_stops_watcher [where row = "toy_oc_row Oc_funded" and rows = "[]", OF _ _ _ g [folded row]])
      (use row in \<open>simp_all add: toy_oc_row_def toy_odb_def r opt_given_def format_outpoint_def elapsed_def\<close>)
qed

subsection \<open>A refusal taken for a success\<close>

lemma infix_append: "is_infix_of p b \<Longrightarrow> is_infix_of p (a @ b)"
  by (induction a) auto

lemma infix_suffix: "is_infix_of (q @ p) s \<Longrightarrow> is_infix_of p s"
proof (induction s)
  case (Cons c cs)
  then consider "take (length (q @ p)) (c # cs) = q @ p" | "is_infix_of (q @ p) cs" by auto
  then show ?case
  proof cases
    case 1
    then have "c # cs = q @ p @ drop (length (q @ p)) (c # cs)"
      using append_take_drop_id [of "length (q @ p)" "c # cs"] by simp
    then obtain rest where "c # cs = q @ p @ rest" by blast
    moreover have "is_infix_of p (p @ rest)"
    proof (cases "p @ rest")
      case (Cons a l)
      then have "take (length p) (a # l) = p" by (metis append_eq_conv_conj)
      then show ?thesis unfolding Cons by simp
    qed simp
    ultimately show ?thesis using infix_append [of p "p @ rest" q] by simp
  qed (use Cons.IH in simp)
qed simp

lemma unknown_already: "is_infix_of ''unknown'' (map lower text) \<Longrightarrow> already_there (a @ text)"
proof -
  assume "is_infix_of ''unknown'' (map lower text)"
  then have "is_infix_of ''known'' (map lower text)" using infix_suffix [of "''un''" "''known''"] by simp
  then show ?thesis using infix_append [of "''known''" _ "map lower a"] by (simp add: already_there_def)
qed

lemma set_rescue_get: "map_of (set_rescue k v rs) k = Some v"
proof (cases "list_ex (\<lambda>p. fst p = k) rs")
  case True
  have "map_of (update_where (\<lambda>p. fst p = k) (\<lambda>_. (k, v)) rs) k = Some v"
    using True by (induction rs) auto
  then show ?thesis using True by (simp add: set_rescue_def)
next
  case False
  then have "map_of rs k = None" by (auto simp: list_ex_iff map_of_eq_None_iff)
  then show ?thesis using False by (simp add: set_rescue_def map_add_def)
qed

text \<open>C30. A refused rescue is booked as broadcast: when the explorer refuses the raw transaction with any answer whose
  first 200 characters contain the word \<open>unknown\<close> (such as ``unknown error''), the effect counts as done, the rescue gets the
  transaction's id as its broadcast, and nothing retries it.\<close>

theorem refused_rescue_counted_sent:
  fixes w :: "'m odb_scheme"
  assumes "raw_of oid txid (Some key) w = Some rawHex" and "key \<noteq> []" and "is_hex_text rawHex"
    and "post rawHex = F_response res" and "\<not> (200 \<le> hr_status res \<and> hr_status res < 300)"
    and "is_infix_of ''unknown'' (map lower (take 200 (hr_text res)))"
  shows "broadcast_run post oid txid (Some key) w = O_done R_none
    \<and> (\<exists>w' row rescue. broadcast_on_done oid txid (Some key) R_none w = Some w' \<and> get_oc oid w' = Some row
         \<and> map_of (om_rescues (ow_meta row)) key = Some rescue \<and> rs_broadcast rescue = Some txid)"
proof
  show "broadcast_run post oid txid (Some key) w = O_done R_none"
    using assms unknown_already [OF assms(6), of "''/tx -> '' @ int_str (hr_status res) @ '' ''"]
    by (simp add: broadcast_run_def broadcast_tx_def http_request_def)
  obtain row rescue where g: "get_oc oid w = Some row" "map_of (om_rescues (ow_meta row)) key = Some rescue"
    using assms(1,2) by (auto simp: raw_of_def given_s_def opt_given_def bind_eq_Some_conv split: if_splits)
  let ?mp = "\<lambda>m. m\<lparr>om_rescues := set_rescue key (rescue\<lparr>rs_broadcast := Some txid\<rparr>) (om_rescues m)\<rparr>"
  let ?w1 = "w\<lparr>oc_orders := update_where (\<lambda>r. ow_id r = oid) (\<lambda>r. r\<lparr>ow_meta := ?mp (ow_meta r)\<rparr>) (oc_orders w)\<rparr>"
  have d: "broadcast_on_done oid txid (Some key) R_none w = Some (update_oc_meta oid ?mp w)"
    using g assms(2) by (simp add: broadcast_on_done_def given_s_def opt_given_def)
  have q: "quiet ?w1 (update_oc_meta oid ?mp w)" using g by (simp add: update_oc_meta_def)
  have "get_oc oid ?w1 = Some (row\<lparr>ow_meta := ?mp (ow_meta row)\<rparr>)"
    using g find_update_where_same [of "\<lambda>r. ow_id r = oid" "\<lambda>r. r\<lparr>ow_meta := ?mp (ow_meta r)\<rparr>"]
    by (simp add: get_oc_def ow_id_def)
  then have "get_oc oid (update_oc_meta oid ?mp w) = Some (row\<lparr>ow_meta := ?mp (ow_meta row)\<rparr>)" by (simp add: get_oc_quiet [OF q])
  then show "\<exists>w' row rescue. broadcast_on_done oid txid (Some key) R_none w = Some w' \<and> get_oc oid w' = Some row
         \<and> map_of (om_rescues (ow_meta row)) key = Some rescue \<and> rs_broadcast rescue = Some txid"
    using d by (intro exI [of _ "update_oc_meta oid ?mp w"] exI [of _ "row\<lparr>ow_meta := ?mp (ow_meta row)\<rparr>"]
        exI [of _ "rescue\<lparr>rs_broadcast := Some txid\<rparr>"]) (simp add: set_rescue_get)
qed

definition toy_rescue_db :: odb where
  "toy_rescue_db = (toy_odb Oc_remitted)\<lparr>oc_orders := [(toy_oc_row Oc_remitted)\<lparr>ow_meta := toy_oc_meta\<lparr>om_rescues :=
     [(''k'', \<lparr>rs_outpoint = toy_outpoint, rs_value = 5000, rs_fee = 200, rs_destination = ''back'', rs_created = 3,
        rs_raw = Some ''00'', rs_broadcast = None\<rparr>)]\<rparr>\<rparr>]\<rparr>"

theorem refused_rescue_counted_sent_witness:
  "broadcast_run (\<lambda>_. F_response \<lparr>hr_status = 520, hr_text = ''unknown error'', hr_json = None\<rparr>) ''ord1'' ''tx'' (Some ''k'') toy_rescue_db
   = O_done R_none"
proof (rule refused_rescue_counted_sent [where res = "\<lparr>hr_status = 520, hr_text = ''unknown error'', hr_json = None\<rparr>", THEN conjunct1])
  show "raw_of ''ord1'' ''tx'' (Some ''k'') toy_rescue_db = Some ''00''"
    by (simp add: raw_of_def toy_rescue_db_def get_oc_def ow_id_def toy_oc_row_def toy_trade_def toy_oc_order_def
        given_s_def opt_given_def)
  show "is_hex_text ''00''" by (simp add: is_hex_text_def digit_in_def char_code_def)
qed (simp_all add: lower_def char_code_def Let_def)

end
