(* ===== verification/App_Onchain.thy ===== *)
theory App_Onchain
  imports Oc_Decide
begin

text \<open>
  What the apps check and sign themselves (\<open>customer/src/onchain/verify.ts\<close>, \<open>actions.ts\<close>, the sweep of
  \<open>shared/src/onchain/tx.ts\<close>).  The order they see is whatever the daemon published.  The record \<open>app_lib\<close> adds to the
  bitcoin library what only the apps use of it: the fields of a transaction that was read, its output as an address,
  its text with signatures, raw bytes of a witness put together by hand, the signed sweep of a single key.  Numbers of an
  order are integers here; a fractional amount is refused by \<open>BigInt\<close> when the transaction is built.  Reasons shown to
  the user are named in ASCII.
\<close>

subsection \<open>The library\<close>

record key_path_utxo =
  ku_txid :: hex
  ku_vout :: int
  ku_value :: sat

text \<open>\<open>al_witness\<close>: script and amount of the output the first input spends; \<open>al_output\<close>: script and amount of the first output.\<close>

record app_lib = btc_lib +
  al_witness :: "string \<Rightarrow> (hex \<times> sat) option"
  al_output :: "string \<Rightarrow> (hex \<times> sat option) option"
  al_encode :: "btc_network \<Rightarrow> hex \<Rightarrow> string option"
  al_signed :: "btc_tx \<Rightarrow> tap_sig list \<Rightarrow> string"
  al_raw :: "btc_tx \<Rightarrow> hex list \<Rightarrow> hex"
  al_sweep :: "hex \<Rightarrow> btc_network \<Rightarrow> key_path_utxo list \<Rightarrow> hex \<Rightarrow> sat \<Rightarrow> (hex \<times> hex \<times> int) option"

text \<open>The btc library as the daemon uses it.\<close>

definition lib_of :: "app_lib \<Rightarrow> btc_lib" where
  "lib_of A = btc_lib.truncate A"

definition output_address_of :: "app_lib \<Rightarrow> string \<Rightarrow> escrow_descriptor \<Rightarrow> string option" where
  "output_address_of A text d =
     (case al_output A text of None \<Rightarrow> None | Some (script, _) \<Rightarrow> al_encode A (ed_network d) script)"

subsection \<open>Is this my escrow?\<close>

datatype escrow_check = Escrow_ok escrow_descriptor | Escrow_bad string

definition my_key_in :: "oc_ord \<Rightarrow> signer \<Rightarrow> hex option" where
  "my_key_in r role = (if role = Customer then oo_customer_xonly r else oo_sponsor_xonly r)"

definition check_escrow_address :: "app_lib \<Rightarrow> oc_ord \<Rightarrow> signer \<Rightarrow> hex \<Rightarrow> escrow_check" where
  "check_escrow_address A r role myXonly =
     (case (given_s (oo_customer_xonly r), given_s (oo_sponsor_xonly r), given_s (oo_admin_xonly r),
            given_s (oo_escrow_address r)) of
        (Some c, Some s, Some a, Some address) \<Rightarrow>
          (let keys = \<lparr>ek_customer = c, ek_sponsor = s, ek_admin = a\<rparr> in
           if my_key_in r role \<noteq> Some myXonly then Escrow_bad ''not my key''
           else if \<not> assert_escrow_keys keys then Escrow_bad ''keys''
           else (case verify_escrow_address (lib_of A) keys (oo_network r) (oo_timelock r) address of
                   Address_ok d \<Rightarrow> Escrow_ok d
                 | Address_bad _ \<Rightarrow> Escrow_bad ''address''))
      | _ \<Rightarrow> Escrow_bad ''no escrow yet'')"

subsection \<open>May I sign this?\<close>

datatype given_sig = Counterparty hex hex hex

datatype sign_check =
    Sign_ok settlement_params string sat sat "given_sig option"
  | Sign_bad string bool

record sign_check_input =
  ri_order :: oc_ord
  ri_purpose :: sign_purpose
  ri_psbt :: string
  ri_role :: signer
  ri_my_xonly :: hex
  ri_refund :: "string option"
  ri_payout :: "string option"

text \<open>
  Where a refund has to go: the address of my own order key, or the refund address I gave.  \<open>None\<close> is an exception,
  \<open>Inl\<close> a refusal and whether the user can mend it by entering the address.
\<close>

definition refund_destination ::
  "app_lib \<Rightarrow> oc_ord \<Rightarrow> hex \<Rightarrow> string option \<Rightarrow> string \<Rightarrow> ((string \<times> bool) + string) option" where
  "refund_destination A r myXonly refundAddress shown =
     map_option (\<lambda>derived.
        if shown = derived then Inr derived
        else (case given_s refundAddress of
                Some a \<Rightarrow> if shown = js_trim a then Inr shown else Inl (''not my refund address'', False)
              | None \<Rightarrow> Inl (''refund address unknown'', True)))
       (derive_single_key_address (lib_of A) myXonly (oo_network r))"

text \<open>What the app fixes itself: input, amount of the input, path, recipient and fee.\<close>

record sign_plan =
  pl_outpoint :: outpoint
  pl_value :: sat
  pl_path :: settlement_path
  pl_destination :: string
  pl_fee :: sat

type_synonym planned = "((string \<times> bool) + sign_plan) option"

definition refuse :: "string \<Rightarrow> planned" where
  "refuse why = Some (Inl (why, False))"

definition plan_to :: "outpoint \<Rightarrow> sat \<Rightarrow> settlement_path \<Rightarrow> sat \<Rightarrow> ((string \<times> bool) + string) option \<Rightarrow> planned" where
  "plan_to out v path fee dest =
     map_option (\<lambda>d. case d of
         Inl bad \<Rightarrow> Inl bad
       | Inr address \<Rightarrow> Inr \<lparr>pl_outpoint = out, pl_value = v, pl_path = path, pl_destination = address, pl_fee = fee\<rparr>) dest"

definition plan_rescue :: "app_lib \<Rightarrow> sign_check_input \<Rightarrow> escrow_descriptor \<Rightarrow> psbt \<Rightarrow> string \<Rightarrow> planned" where
  "plan_rescue A i d theirs shown =
     (case (ps_input theirs, al_witness A (ri_psbt i)) of
        (Some out, Some (script, amount)) \<Rightarrow>
          if script \<noteq> ed_script d then refuse ''not my escrow''
          else (let paid = (case al_output A (ri_psbt i) of Some (_, Some v) \<Rightarrow> v | _ \<Rightarrow> 0) in
                plan_to out amount Path_refund (amount - paid)
                  (refund_destination A (ri_order i) (ri_my_xonly i) (ri_refund i) shown))
      | _ \<Rightarrow> refuse ''rescue without input'')"

definition plan_release :: "sign_check_input \<Rightarrow> outpoint \<Rightarrow> string \<Rightarrow> planned" where
  "plan_release i out shown =
     (let r = ri_order i in
      if ri_role i \<noteq> Customer then refuse ''not the seller''
      else (case oo_release_fee r of
              None \<Rightarrow> refuse ''no release fee''
            | Some fee \<Rightarrow> plan_to out (oo_amount r) Path_release fee (Some (Inr shown))))"

definition plan_sponsor_win :: "sign_check_input \<Rightarrow> outpoint \<Rightarrow> string \<Rightarrow> planned" where
  "plan_sponsor_win i out shown =
     (let r = ri_order i in
      if ri_role i \<noteq> Sponsor then refuse ''not the buyer''
      else if oo_settlement_kind r \<noteq> Some Sponsor_win then refuse ''no such ruling''
      else (case given_s (ri_payout i) of
              None \<Rightarrow> refuse ''payout address unknown''
            | Some payout \<Rightarrow>
                if shown \<noteq> payout then refuse ''not my payout address''
                else (case oo_settlement_fee r of
                        None \<Rightarrow> refuse ''no fee''
                      | Some fee \<Rightarrow> plan_to out (oo_amount r) Path_sponsor_win fee (Some (Inr payout)))))"

definition plan_refund :: "app_lib \<Rightarrow> sign_check_input \<Rightarrow> outpoint \<Rightarrow> string \<Rightarrow> planned" where
  "plan_refund A i out shown =
     (let r = ri_order i; isRefund = (ri_purpose i = SP_refund) in
      if ri_role i \<noteq> Customer then refuse ''not the seller''
      else if \<not> (if isRefund then oo_state r = Oc_refunding else oo_settlement_kind r = Some Customer_win)
      then refuse ''no such decision''
      else (case oo_settlement_fee r of
              None \<Rightarrow> refuse ''no fee''
            | Some fee \<Rightarrow> plan_to out (oo_amount r) (if isRefund then Path_refund else Path_customer_win) fee
                (refund_destination A r (ri_my_xonly i) (ri_refund i) shown)))"

definition sign_planned :: "app_lib \<Rightarrow> sign_check_input \<Rightarrow> escrow_descriptor \<Rightarrow> psbt \<Rightarrow> string \<Rightarrow> planned" where
  "sign_planned A i d theirs shown =
     (if ri_purpose i = SP_rescue then plan_rescue A i d theirs shown
      else (case parse_outpoint (oo_funding_outpoint (ri_order i)) of
              None \<Rightarrow> refuse ''no funding''
            | Some out \<Rightarrow>
                if ri_purpose i = SP_release then plan_release i out shown
                else if ri_purpose i = SP_dispute_sponsor then plan_sponsor_win i out shown
                else plan_refund A i out shown))"

definition params_of :: "escrow_descriptor \<Rightarrow> sign_plan \<Rightarrow> settlement_params" where
  "params_of d pl = \<lparr>sp_descriptor = d, sp_outpoint = pl_outpoint pl, sp_value = pl_value pl, sp_path = pl_path pl,
     sp_destination = pl_destination pl, sp_fee = pl_fee pl\<rparr>"

definition insane_fee :: "sat \<Rightarrow> int \<Rightarrow> bool" where
  "insane_fee feeSat vsize \<longleftrightarrow> feeSat < 0 \<or> fl (of_int feeSat / of_int vsize) > MAX_SANE_SETTLEMENT_FEERATE"

text \<open>The transaction built from my own records must be the one I was sent; a release also needs the sponsor's signature.\<close>

definition compare_tx :: "app_lib \<Rightarrow> sign_check_input \<Rightarrow> psbt \<Rightarrow> settlement_params \<Rightarrow> sign_check" where
  "compare_tx A i theirs p =
     (case estimate_settlement_vsize (lib_of A) (sp_path p) (sp_descriptor p) (sp_destination p) of
        None \<Rightarrow> Sign_bad ''address unusable'' False
      | Some vsize \<Rightarrow>
          if insane_fee (sp_fee p) vsize then Sign_bad ''fee'' False
          else (case build_settlement_tx (lib_of A) p of
             None \<Rightarrow> Sign_bad ''cannot build'' False
           | Some mine \<Rightarrow>
               if ps_txid theirs \<noteq> bl_txid A mine then Sign_bad ''another transaction'' False
               else
                 (let amount = sp_value p - sp_fee p in
                  if ri_purpose i \<noteq> SP_release then Sign_ok p (sp_destination p) amount (sp_fee p) None
                  else if (case oo_payout (ri_order i) of None \<Rightarrow> False | Some v \<Rightarrow> amount \<noteq> v)
                  then Sign_bad ''not the payout'' False
                  else (let sponsor = (case oo_sponsor_xonly (ri_order i) of Some k \<Rightarrow> k | None \<Rightarrow> []) in
                        case verify_presignature (lib_of A) (ri_psbt i) p sponsor of
                          Presig_bad \<Rightarrow> Sign_bad ''counterparty signature'' False
                        | Presig_ok sig leaf \<Rightarrow>
                            Sign_ok p (sp_destination p) amount (sp_fee p) (Some (Counterparty sponsor sig leaf))))))"

definition check_sign_request :: "app_lib \<Rightarrow> sign_check_input \<Rightarrow> sign_check option" where
  "check_sign_request A i =
     (case check_escrow_address A (ri_order i) (ri_role i) (ri_my_xonly i) of
        Escrow_bad why \<Rightarrow> Some (Sign_bad why False)
      | Escrow_ok d \<Rightarrow>
          (case bl_read_psbt A (ri_psbt i) of
             None \<Rightarrow> Some (Sign_bad ''psbt'' False)
           | Some theirs \<Rightarrow>
               if ps_inputs theirs \<noteq> 1 \<or> ps_outputs theirs \<noteq> 1 then Some (Sign_bad ''shape'' False)
               else (case given_s (output_address_of A (ri_psbt i) d) of
                  None \<Rightarrow> Some (Sign_bad ''no address'' False)
                | Some shown \<Rightarrow>
                    map_option (\<lambda>pl. case pl of
                        Inl (why, needs) \<Rightarrow> Sign_bad why needs
                      | Inr plan \<Rightarrow> compare_tx A i theirs (params_of d plan))
                      (sign_planned A i d theirs shown))))"

subsection \<open>Before sending money\<close>

datatype funding_check = Funding_ok int | Funding_bad string

text \<open>\<open>None\<close> is the exception of \<open>requiredConfirmations\<close>.\<close>

definition check_funding_on_chain :: "oc_ord \<Rightarrow> address_funds chain_query option \<Rightarrow> funding_check option" where
  "check_funding_on_chain r funds =
     (case parse_outpoint (oo_funding_outpoint r) of
        None \<Rightarrow> Some (Funding_bad ''no funding'')
      | Some out \<Rightarrow>
          (case funds of
             None \<Rightarrow> Some (Funding_bad ''asking the chain'')
           | Some (Unknown reason) \<Rightarrow> Some (Funding_bad (''chain query failed: '' @ reason))
           | Some (Known f) \<Rightarrow>
               (case List.find (\<lambda>u. utxo_outpoint u = out) (af_confirmed f) of
                  None \<Rightarrow> Some (Funding_bad ''not there'')
                | Some u \<Rightarrow>
                    if cu_value u \<noteq> oo_amount r then Some (Funding_bad (''amount '' @ int_str (cu_value u)))
                    else map_option (\<lambda>required.
                        if cu_confs u < required
                        then Funding_bad (''confirmations '' @ int_str (cu_confs u) @ ''/'' @ int_str required)
                        else Funding_ok (cu_confs u))
                      (required_confirmations (oo_amount r)))))"

definition release_needs_price_override :: "oc_ord \<Rightarrow> msec \<Rightarrow> bool" where
  "release_needs_price_override r nowMs \<longleftrightarrow>
     (case oo_remitted_at r of None \<Rightarrow> False | Some t \<Rightarrow> is_price_stale (t * 1000) nowMs)"

record timelock_status =
  tl_remaining :: "int option"
  tl_safe :: bool

definition timelock_status_of :: "oc_ord \<Rightarrow> int option \<Rightarrow> timelock_status" where
  "timelock_status_of r fundingConfirmations =
     (case (truthy (oo_timelock r), fundingConfirmations) of
        (Some blocks, Some confs) \<Rightarrow>
          (let remaining = max 0 (blocks - confs) in
           \<lparr>tl_remaining = Some remaining, tl_safe = (TIMELOCK_REMIT_THRESHOLD_BLOCKS \<le> remaining)\<rparr>)
      | _ \<Rightarrow> \<lparr>tl_remaining = None, tl_safe = False\<rparr>)"

subsection \<open>Signing\<close>

datatype build_result = Built string | Build_failed string

definition app_descriptor_of :: "app_lib \<Rightarrow> oc_ord \<Rightarrow> escrow_descriptor option option" where
  "app_descriptor_of A r =
     (case (given_s (oo_customer_xonly r), given_s (oo_sponsor_xonly r), given_s (oo_admin_xonly r)) of
        (Some c, Some s, Some a) \<Rightarrow>
          map_option Some (derive_escrow_address (lib_of A) \<lparr>ek_customer = c, ek_sponsor = s, ek_admin = a\<rparr>
            (oo_network r) (oo_timelock r))
      | _ \<Rightarrow> Some None)"

record my_claim =
  mc_payout :: string
  mc_feerate :: rat

text \<open>Building, signing and writing; \<open>key\<close> is my key of the order, \<open>None\<close> when it cannot be derived.\<close>

definition signed_text :: "app_lib \<Rightarrow> settlement_params \<Rightarrow> given_sig option \<Rightarrow> hex option \<Rightarrow> build_result" where
  "signed_text A p other key =
     (case do {
          tx \<leftarrow> build_settlement_tx (lib_of A) p;
          before \<leftarrow> (case other of
             None \<Rightarrow> Some []
           | Some (Counterparty xonly sig leaf) \<Rightarrow> add_tap_script_sig (lib_of A) leaf xonly sig []);
          k \<leftarrow> key;
          mine \<leftarrow> bl_sign A k tx;
          Some (al_signed A tx (before @ [mine]))
        } of
        Some text \<Rightarrow> Built text
      | None \<Rightarrow> Build_failed ''cannot sign'')"

definition build_presignature ::
  "app_lib \<Rightarrow> oc_ord \<Rightarrow> my_claim option \<Rightarrow> sec \<Rightarrow> hex option \<Rightarrow> build_result option" where
  "build_presignature A r claim now key =
     (case claim of
        None \<Rightarrow> Some (Build_failed ''no payout address'')
      | Some c \<Rightarrow>
          if oo_state r \<noteq> Oc_funded \<or> oo_settlement_kind r \<noteq> None then Some (Build_failed ''not awaited'')
          else if is_past (presign_deadline_of (oo_funded_at r) (oo_presign_deadline r)) now
          then Some (Build_failed ''deadline'')
          else do {
            descriptor \<leftarrow> app_descriptor_of A r;
            (case (descriptor, parse_outpoint (oo_funding_outpoint r)) of
               (Some d, Some out) \<Rightarrow>
                 (case oo_release_fee r of
                    None \<Rightarrow> Some (Build_failed ''no release fee'')
                  | Some fee \<Rightarrow> do {
                      expected \<leftarrow> settlement_fee_sat (lib_of A) Path_release d (mc_payout c) (mc_feerate c);
                      Some (if expected \<noteq> fee then Build_failed ''release fee''
                            else signed_text A \<lparr>sp_descriptor = d, sp_outpoint = out, sp_value = oo_amount r,
                                   sp_path = Path_release, sp_destination = mc_payout c, sp_fee = fee\<rparr> None key)
                    })
             | _ \<Rightarrow> Some (Build_failed ''no funding''))
          })"

definition build_cosignature :: "app_lib \<Rightarrow> sign_check \<Rightarrow> hex option \<Rightarrow> build_result" where
  "build_cosignature A check key =
     (case check of
        Sign_bad why _ \<Rightarrow> Build_failed why
      | Sign_ok p _ _ _ other \<Rightarrow> signed_text A p other key)"

subsection \<open>Ways out without the operator\<close>

text \<open>The library finishes the two-signature leaves; the witness of the timelock leaf is put together here.\<close>

definition finalize_settlement :: "app_lib \<Rightarrow> btc_tx \<Rightarrow> settlement_path \<Rightarrow> tap_sig list \<Rightarrow> hex option" where
  "finalize_settlement A tx path sigs =
     (if path \<noteq> Path_timelock then bl_finalize A tx sigs
      else (case (bt_leaf_scripts tx, sigs) of
              ((control, script) # _, (_, _, sig) # _) \<Rightarrow> Some (al_raw A tx [sig, take (length script - 2) script, control])
            | _ \<Rightarrow> None))"

datatype sweep_result = Swept_tx hex hex sat | Sweep_failed string

definition build_timelock_sweep ::
  "app_lib \<Rightarrow> oc_ord \<Rightarrow> key_path_utxo \<Rightarrow> string \<Rightarrow> rat \<Rightarrow> hex option \<Rightarrow> sweep_result option" where
  "build_timelock_sweep A r u destination feerate key =
     map_option (\<lambda>descriptor.
        (case descriptor of
           None \<Rightarrow> Sweep_failed ''no escrow''
         | Some d \<Rightarrow>
             (case do {
                  feeSat \<leftarrow> settlement_fee_sat (lib_of A) Path_timelock d destination feerate;
                  tx \<leftarrow> build_settlement_tx (lib_of A) \<lparr>sp_descriptor = d,
                    sp_outpoint = \<lparr>op_txid = ku_txid u, op_vout = ku_vout u\<rparr>, sp_value = ku_value u,
                    sp_path = Path_timelock, sp_destination = destination, sp_fee = feeSat\<rparr>;
                  k \<leftarrow> key;
                  mine \<leftarrow> bl_sign A k tx;
                  rawHex \<leftarrow> finalize_settlement A tx Path_timelock [mine];
                  Some (Swept_tx rawHex (bl_txid A tx) feeSat)
                } of
                Some done \<Rightarrow> done
              | None \<Rightarrow> Sweep_failed ''cannot build'')))
       (app_descriptor_of A r)"

text \<open>\<open>al_sweep key network utxos script output\<close>: the signed transaction, its id and its size; \<open>None\<close> when something throws.\<close>

definition build_key_path_sweep ::
  "app_lib \<Rightarrow> hex \<Rightarrow> btc_network \<Rightarrow> key_path_utxo list \<Rightarrow> string \<Rightarrow> rat \<Rightarrow> (hex \<times> hex \<times> sat \<times> sat) option" where
  "build_key_path_sweep A key network utxos destination feerate =
     (if utxos = [] \<or> feerate \<le> 0 then None
      else do {
        (kind, script) \<leftarrow> bl_decode A network destination;
        let totalSat = sum_list (map ku_value utxos);
        (_, _, vsize) \<leftarrow> al_sweep A key network utxos script totalSat;
        let feeSat = \<lceil>fl (of_int vsize * feerate)\<rceil>;
        let outputSat = totalSat - feeSat;
        if outputSat < dust_by_type kind then None
        else do {
          (rawHex, txid, _) \<leftarrow> al_sweep A key network utxos script outputSat;
          Some (rawHex, txid, feeSat, outputSat)
        }
      })"

definition build_refund_sweep ::
  "app_lib \<Rightarrow> oc_ord \<Rightarrow> key_path_utxo list \<Rightarrow> string \<Rightarrow> rat \<Rightarrow> hex option \<Rightarrow> (hex \<times> hex \<times> sat \<times> sat) option" where
  "build_refund_sweep A r utxos destination feerate key =
     do { k \<leftarrow> key; build_key_path_sweep A k (oo_network r) utxos destination feerate }"

end
