(* ===== verification/App_Checks.thy ===== *)
theory App_Checks
  imports App_Onchain Oc_Spending
begin

text \<open>
  What the apps' own checks give their users against an operator who is wrong or hostile: a signature is given only to
  a transaction that spends the user's own escrow for what the user is due; the funding check of the apps is the
  daemon's; a presignature the app makes is one the daemon accepts.
\<close>

subsection \<open>What a signature may be given to\<close>

lemma lib_of_sel [simp]:
  "bl_decode (lib_of A) = bl_decode A" "bl_txid (lib_of A) = bl_txid A" "bl_read_psbt (lib_of A) = bl_read_psbt A"
  "bl_sighash (lib_of A) = bl_sighash A" "bl_schnorr (lib_of A) = bl_schnorr A" "bl_leaf_hash (lib_of A) = bl_leaf_hash A"
  by (simp_all add: lib_of_def btc_lib.truncate_def)

text \<open>The escrow is my own: its address is the one of the order's three distinct keys, and mine is in my seat.\<close>

definition my_escrow :: "app_lib \<Rightarrow> sign_check_input \<Rightarrow> escrow_descriptor \<Rightarrow> bool" where
  "my_escrow A i d \<longleftrightarrow>
     (\<exists>c s a. oo_customer_xonly (ri_order i) = Some c \<and> oo_sponsor_xonly (ri_order i) = Some s
        \<and> oo_admin_xonly (ri_order i) = Some a \<and> (if ri_role i = Customer then c else s) = ri_my_xonly i
        \<and> assert_escrow_keys \<lparr>ek_customer = c, ek_sponsor = s, ek_admin = a\<rparr>
        \<and> derive_escrow_address (lib_of A) \<lparr>ek_customer = c, ek_sponsor = s, ek_admin = a\<rparr> (oo_network (ri_order i))
            (oo_timelock (ri_order i)) = Some d
        \<and> oo_escrow_address (ri_order i) = Some (ed_address d))"

lemma checked_escrow_mine:
  assumes "check_escrow_address A (ri_order i) (ri_role i) (ri_my_xonly i) = Escrow_ok d"
  shows "my_escrow A i d"
  using assms
  by (auto simp: check_escrow_address_def my_escrow_def verify_escrow_address_def my_key_in_def given_s_def Let_def
      split: option.splits if_splits address_check.splits)

text \<open>An address of mine: the one of my key of the order, or the refund address I gave.\<close>

definition mine :: "app_lib \<Rightarrow> sign_check_input \<Rightarrow> string \<Rightarrow> bool" where
  "mine A i dest \<longleftrightarrow> derive_single_key_address (lib_of A) (ri_my_xonly i) (oo_network (ri_order i)) = Some dest
     \<or> (\<exists>a. ri_refund i = Some a \<and> dest = js_trim a)"

lemma refund_destination_mine:
  assumes "refund_destination A (ri_order i) (ri_my_xonly i) (ri_refund i) shown = Some (Inr d)"
  shows "mine A i d"
  using assms
  by (auto simp: refund_destination_def mine_def given_s_def split: option.splits if_splits)

text \<open>The plan of each purpose: the leaf, the input, the recipient and the fee the user agreed to.\<close>

definition from_order :: "sign_check_input \<Rightarrow> sign_plan \<Rightarrow> bool" where
  "from_order i pl \<longleftrightarrow> parse_outpoint (oo_funding_outpoint (ri_order i)) = Some (pl_outpoint pl)
     \<and> pl_value pl = oo_amount (ri_order i)"

fun plan_due :: "app_lib \<Rightarrow> sign_check_input \<Rightarrow> sign_purpose \<Rightarrow> sign_plan \<Rightarrow> bool" where
  "plan_due A i SP_release pl = (ri_role i = Customer \<and> from_order i pl \<and> pl_path pl = Path_release
     \<and> oo_release_fee (ri_order i) = Some (pl_fee pl))"
| "plan_due A i SP_dispute_sponsor pl = (ri_role i = Sponsor \<and> from_order i pl \<and> pl_path pl = Path_sponsor_win
     \<and> oo_settlement_kind (ri_order i) = Some Sponsor_win \<and> ri_payout i = Some (pl_destination pl)
     \<and> oo_settlement_fee (ri_order i) = Some (pl_fee pl))"
| "plan_due A i SP_refund pl = (ri_role i = Customer \<and> from_order i pl \<and> pl_path pl = Path_refund
     \<and> oo_state (ri_order i) = Oc_refunding \<and> mine A i (pl_destination pl)
     \<and> oo_settlement_fee (ri_order i) = Some (pl_fee pl))"
| "plan_due A i SP_dispute_customer pl = (ri_role i = Customer \<and> from_order i pl \<and> pl_path pl = Path_customer_win
     \<and> oo_settlement_kind (ri_order i) = Some Customer_win \<and> mine A i (pl_destination pl)
     \<and> oo_settlement_fee (ri_order i) = Some (pl_fee pl))"
| "plan_due A i SP_rescue pl = (pl_path pl = Path_refund \<and> mine A i (pl_destination pl))"

lemma plan_to_Inr:
  "plan_to out v path fee dest = Some (Inr pl) \<longleftrightarrow>
     (\<exists>a. dest = Some (Inr a)
        \<and> pl = \<lparr>pl_outpoint = out, pl_value = v, pl_path = path, pl_destination = a, pl_fee = fee\<rparr>)"
proof (cases dest)
  case (Some z)
  then show ?thesis by (cases z) (auto simp: plan_to_def)
qed (simp add: plan_to_def)

lemma sign_planned_due:
  assumes "sign_planned A i d theirs shown = Some (Inr pl)"
  shows "plan_due A i (ri_purpose i) pl"
  using assms refund_destination_mine [of A i]
  by (cases "ri_purpose i")
    (auto simp: sign_planned_def plan_rescue_def plan_release_def plan_sponsor_win_def plan_refund_def refuse_def
      plan_to_Inr Let_def from_order_def given_s_def split: option.splits if_splits)

text \<open>The transaction compared: it is the one I build, byte for byte, and its fee is bounded.  A release is signed by the
  sponsor: the signature verifies under the sponsor's key of the order, for the very transaction I build, recipient and
  all, and it pays the sponsor what the order says.\<close>

definition same_tx :: "app_lib \<Rightarrow> sign_check_input \<Rightarrow> settlement_params \<Rightarrow> btc_tx \<Rightarrow> bool" where
  "same_tx A i p t \<longleftrightarrow> build_settlement_tx (lib_of A) p = Some t
     \<and> (\<exists>theirs. bl_read_psbt A (ri_psbt i) = Some theirs \<and> ps_txid theirs = bl_txid A t)"

definition sane_fee :: "app_lib \<Rightarrow> settlement_params \<Rightarrow> bool" where
  "sane_fee A p \<longleftrightarrow> 0 \<le> sp_fee p
     \<and> (\<exists>vsize. estimate_settlement_vsize (lib_of A) (sp_path p) (sp_descriptor p) (sp_destination p) = Some vsize
          \<and> fl (of_int (sp_fee p) / of_int vsize) \<le> MAX_SANE_SETTLEMENT_FEERATE)"

definition sponsor_signed :: "app_lib \<Rightarrow> sign_check_input \<Rightarrow> settlement_params \<Rightarrow> given_sig option \<Rightarrow> bool" where
  "sponsor_signed A i p other \<longleftrightarrow>
     (\<exists>k sig leaf. oo_sponsor_xonly (ri_order i) = Some k \<and> is_xonly_hex k
        \<and> other = Some (Counterparty k sig leaf) \<and> signature_for (lib_of A) p k sig)
     \<and> (\<forall>v. oo_payout (ri_order i) = Some v \<longrightarrow> sp_value p - sp_fee p = v)"

lemma compare_tx_ok:
  assumes "compare_tx A i theirs p = Sign_ok p' dest amt fee other" and "oo_sponsor_xonly (ri_order i) = Some k"
  shows "p' = p" and "dest = sp_destination p" and "amt = sp_value p - sp_fee p" and "fee = sp_fee p"
    and "\<exists>tx. build_settlement_tx (lib_of A) p = Some tx \<and> ps_txid theirs = bl_txid A tx"
    and "sane_fee A p"
    and "if ri_purpose i = SP_release then sponsor_signed A i p other else other = None"
  using assms
  by (auto simp: compare_tx_def insane_fee_def sane_fee_def sponsor_signed_def Let_def
      dest: verify_presignature_ok split: option.splits if_splits presig_verdict.splits)

lemma checked_request:
  assumes "check_sign_request A i = Some (Sign_ok p dest amt fee other)"
  obtains d theirs pl where "my_escrow A i d" and "bl_read_psbt A (ri_psbt i) = Some theirs"
    and "plan_due A i (ri_purpose i) pl" and "compare_tx A i theirs (params_of d pl) = Sign_ok p dest amt fee other"
proof -
  obtain d where d: "check_escrow_address A (ri_order i) (ri_role i) (ri_my_xonly i) = Escrow_ok d"
    using assms by (cases "check_escrow_address A (ri_order i) (ri_role i) (ri_my_xonly i)") (simp_all add: check_sign_request_def)
  then obtain theirs shown where t: "bl_read_psbt A (ri_psbt i) = Some theirs"
      "ps_inputs theirs = 1" "ps_outputs theirs = 1" "given_s (output_address_of A (ri_psbt i) d) = Some shown"
    using assms by (auto simp: check_sign_request_def split: option.splits if_splits)
  with d assms obtain z where z: "sign_planned A i d theirs shown = Some z"
      "Sign_ok p dest amt fee other = (case z of Inl (why, needs) \<Rightarrow> Sign_bad why needs
         | Inr pl \<Rightarrow> compare_tx A i theirs (params_of d pl))"
    by (auto simp: check_sign_request_def)
  then obtain pl where pl: "sign_planned A i d theirs shown = Some (Inr pl)"
      "compare_tx A i theirs (params_of d pl) = Sign_ok p dest amt fee other"
    by (cases z) auto
  show ?thesis by (rule that [OF checked_escrow_mine [OF d] t(1) sign_planned_due [OF pl(1)] pl(2)])
qed

text \<open>The text carries my signature on the transaction, after those that were on it.\<close>

definition signs_tx :: "app_lib \<Rightarrow> btc_tx \<Rightarrow> hex option \<Rightarrow> string \<Rightarrow> bool" where
  "signs_tx A t key out \<longleftrightarrow>
     (\<exists>k s sigs. key = Some k \<and> bl_sign A k t = Some s \<and> out = al_signed A t (sigs @ [s]))"

lemma cosignature_written:
  assumes "signed_text A p other key = Built out"
  shows "\<exists>t. build_settlement_tx (lib_of A) p = Some t \<and> signs_tx A t key out"
  using assms
proof (cases other)
  case None
  with assms obtain t k s where "build_settlement_tx (lib_of A) p = Some t" "key = Some k" "bl_sign A k t = Some s"
      "out = al_signed A t ([] @ [s])"
    by (auto simp: signed_text_def bind_eq_Some_conv split: option.splits)
  then show ?thesis unfolding signs_tx_def by blast
next
  case (Some c)
  with assms show ?thesis
    by (auto simp: signs_tx_def signed_text_def bind_eq_Some_conv split: option.splits given_sig.splits)
qed

text \<open>C9. Whatever order and PSBT the operator publishes, an app that passes its check signs a transaction that spends
  the whole of one output of the escrow of the order's three keys, its own among them, on the leaf of the purpose: a
  refund, a rescue or a dispute the seller won pays the seller's own address, a dispute the buyer won the payout address
  the buyer gave, and a release pays the recipient, value and fee that the sponsor signed, by a signature that verifies
  under the sponsor's key of that escrow for this very transaction, with the agreed payout.  The fee is the order's (a
  rescue's is what its PSBT leaves), never negative nor above the limit; and the text handed out signs that very
  transaction.\<close>

theorem app_signs_only_its_due:
  assumes "check_sign_request A i = Some (Sign_ok p dest amt fee other)"
    and "build_cosignature A (Sign_ok p dest amt fee other) key = Built out"
  shows "my_escrow A i (sp_descriptor p) \<and> sane_fee A p
    \<and> (\<exists>pl. p = params_of (sp_descriptor p) pl \<and> plan_due A i (ri_purpose i) pl)
    \<and> (ri_purpose i = SP_release \<longrightarrow> sponsor_signed A i p other)
    \<and> dest = sp_destination p \<and> fee = sp_fee p \<and> amt = sp_value p - fee
    \<and> (\<exists>t. same_tx A i p t \<and> signs_tx A t key out \<and> bt_outpoint t = sp_outpoint p \<and> bt_spent_value t = sp_value p
         \<and> bt_spent_script t = ed_script (sp_descriptor p) \<and> bt_out_value t = amt
         \<and> output_script_for (lib_of A) dest (sp_descriptor p) = Some (bt_out_script t))"
proof -
  from assms(1) obtain d theirs pl where c: "my_escrow A i d" "bl_read_psbt A (ri_psbt i) = Some theirs"
      "plan_due A i (ri_purpose i) pl" "compare_tx A i theirs (params_of d pl) = Sign_ok p dest amt fee other"
    by (rule checked_request)
  obtain k where "oo_sponsor_xonly (ri_order i) = Some k" using c(1) by (auto simp: my_escrow_def)
  note checks = compare_tx_ok [OF c(4) this]
  have p: "p = params_of d pl" and d: "sp_descriptor p = d" using checks(1) by (simp_all add: params_of_def)
  from assms(2) obtain t where t: "build_settlement_tx (lib_of A) p = Some t" "signs_tx A t key out"
    using cosignature_written [of A p other key out] by (auto simp: build_cosignature_def)
  have "same_tx A i p t" using checks(5) c(2) t(1) p by (auto simp: same_tx_def)
  with t(2) build_tx_sel(1-5) [OF t(1)] have "\<exists>t. same_tx A i p t \<and> signs_tx A t key out \<and> bt_outpoint t = sp_outpoint p
      \<and> bt_spent_value t = sp_value p \<and> bt_spent_script t = ed_script (sp_descriptor p) \<and> bt_out_value t = amt
      \<and> output_script_for (lib_of A) dest (sp_descriptor p) = Some (bt_out_script t)"
    using checks(2,3) p by (intro exI [of _ t]) simp
  then show ?thesis
    using c(1,3) checks(2-4,6,7) p d by simp blast
qed

subsection \<open>A release, checked and signed\<close>

definition toy_app :: app_lib where
  "toy_app = btc_lib.extend toy_lib \<lparr>al_witness = (\<lambda>_. Some (''5120'', 1000000)),
     al_output = (\<lambda>_. Some (''pay'', Some 999000)), al_encode = (\<lambda>_ s. Some s), al_signed = (\<lambda>_ sigs. concat (map fst sigs)),
     al_raw = (\<lambda>_ ws. concat ws), al_sweep = (\<lambda>_ _ _ _ _. Some (''00'', ''tx'', 120))\<rparr>"

definition toy_request :: sign_check_input where
  "toy_request = \<lparr>ri_order = toy_trade Oc_remitted, ri_purpose = SP_release, ri_psbt = ''psbt'', ri_role = Customer,
     ri_my_xonly = toy_key (CHR ''1''), ri_refund = None, ri_payout = None\<rparr>"

lemma toy_app_lib [simp]: "lib_of toy_app = toy_lib"
  by (simp add: lib_of_def toy_app_def toy_lib_def btc_lib.extend_def btc_lib.truncate_def)

lemma toy_app_sel:
  "bl_read_psbt toy_app = bl_read_psbt toy_lib" "bl_txid toy_app = bl_txid toy_lib" "bl_sign toy_app = bl_sign toy_lib"
  "al_output toy_app = (\<lambda>_. Some (''pay'', Some 999000))" "al_encode toy_app = (\<lambda>_ s. Some s)"
  by (simp_all add: toy_app_def toy_lib_def btc_lib.extend_def)

lemma toy_escrow_checked:
  "check_escrow_address toy_app (toy_trade s) Customer (toy_key (CHR ''1'')) = Escrow_ok toy_escrow"
proof -
  have "derive_escrow_address toy_lib
      \<lparr>ek_customer = toy_key (CHR ''1''), ek_sponsor = toy_key (CHR ''2''), ek_admin = toy_key (CHR ''3'')\<rparr> Signet (Some 8064)
    = Some toy_escrow"
    using toy_descriptor [of s]
    by (simp add: escrow_descriptor_for_def toy_trade_def toy_oc_order_def given_s_def opt_given_def toy_oc_env_def)
  moreover have "ed_address toy_escrow = ''escrow''" by (simp add: toy_escrow_def)
  ultimately show ?thesis
    by (simp add: check_escrow_address_def verify_escrow_address_def toy_trade_def toy_oc_order_def given_s_def
        opt_given_def my_key_in_def assert_escrow_keys_def find_duplicate_escrow_key_def is_digit_def char_code_def)
qed

lemma toy_vsize: "estimate_settlement_vsize toy_lib Path_release toy_escrow ''pay'' = Some 120"
  by (simp add: estimate_settlement_vsize_def find_leaf_def output_script_for_def toy_decode toy_escrow_def toy_leaves_def
      bytes_len_def)

lemma toy_fee_sane: "\<not> insane_fee 1000 120"
  using fl_le_int [of "1000 / 120" 1000] ilog2_le [of "1000 / 120"]
  by (simp add: insane_fee_def MAX_SANE_SETTLEMENT_FEERATE_def)

lemma toy_release_checked:
  "check_sign_request toy_app toy_request
   = Some (Sign_ok toy_release ''pay'' 999000 1000 (Some (Counterparty (toy_key (CHR ''2'')) toy_sig ''12'')))"
proof -
  have out: "parse_outpoint (oo_funding_outpoint (toy_trade Oc_remitted)) = Some toy_outpoint"
    using settlement_params_sel(2) [OF toy_params [of Oc_remitted]] by (simp add: toy_release_def)
  have "sign_planned toy_app toy_request toy_escrow theirs ''pay''
      = Some (Inr \<lparr>pl_outpoint = toy_outpoint, pl_value = 1000000, pl_path = Path_release, pl_destination = ''pay'', pl_fee = 1000\<rparr>)"
    for theirs
    by (simp add: sign_planned_def toy_request_def out plan_release_def Let_def)
      (simp add: toy_trade_def toy_oc_order_def plan_to_def)
  moreover have "compare_tx toy_app toy_request theirs toy_release
      = Sign_ok toy_release ''pay'' 999000 1000 (Some (Counterparty (toy_key (CHR ''2'')) toy_sig ''12''))"
    if "ps_txid theirs = ''tx''" for theirs
  proof -
    have "sp_path toy_release = Path_release" "sp_descriptor toy_release = toy_escrow" "sp_destination toy_release = ''pay''"
        "sp_value toy_release = 1000000" "sp_fee toy_release = 1000" "bl_txid toy_lib t = ''tx''" for t
      by (simp_all add: toy_release_def toy_lib_def)
    moreover have "oo_payout (ri_order toy_request) = Some 999000" "ri_purpose toy_request = SP_release"
        "oo_sponsor_xonly (ri_order toy_request) = Some (toy_key (CHR ''2''))"
      by (simp_all add: toy_request_def toy_trade_def)
    ultimately show ?thesis using that toy_vsize toy_fee_sane toy_build toy_verified(1)
      by (simp add: compare_tx_def toy_app_sel)
  qed
  moreover have "params_of toy_escrow \<lparr>pl_outpoint = toy_outpoint, pl_value = 1000000, pl_path = Path_release,
      pl_destination = ''pay'', pl_fee = 1000\<rparr> = toy_release"
    by (simp add: params_of_def toy_release_def)
  moreover have "given_s (output_address_of toy_app psbtText toy_escrow) = Some ''pay''" for psbtText
    by (simp add: output_address_of_def toy_app_sel given_s_def opt_given_def)
  moreover have "check_escrow_address toy_app (ri_order toy_request) (ri_role toy_request) (ri_my_xonly toy_request)
      = Escrow_ok toy_escrow"
    by (simp add: toy_request_def toy_escrow_checked)
  moreover have "\<exists>theirs. bl_read_psbt toy_app (ri_psbt toy_request) = Some theirs \<and> ps_inputs theirs = 1
      \<and> ps_outputs theirs = 1 \<and> ps_txid theirs = ''tx''"
    by (simp add: toy_app_sel) (simp add: toy_lib_def)
  ultimately show ?thesis by (auto simp: check_sign_request_def)
qed

theorem app_signs_only_its_due_witness:
  "sane_fee toy_app toy_release \<and> my_escrow toy_app toy_request toy_escrow
   \<and> sponsor_signed toy_app toy_request toy_release (Some (Counterparty (toy_key (CHR ''2'')) toy_sig ''12''))
   \<and> toy_key (CHR ''2'') \<noteq> ri_my_xonly toy_request
   \<and> (\<exists>t. same_tx toy_app toy_request toy_release t \<and> signs_tx toy_app t (Some (toy_key (CHR ''1'')))
        (toy_key (CHR ''2'') @ toy_key (CHR ''1'')))"
proof -
  have "build_cosignature toy_app (Sign_ok toy_release ''pay'' 999000 1000
      (Some (Counterparty (toy_key (CHR ''2'')) toy_sig ''12''))) (Some (toy_key (CHR ''1'')))
    = Built (toy_key (CHR ''2'') @ toy_key (CHR ''1''))"
    by (simp add: build_cosignature_def signed_text_def toy_build add_tap_script_sig_def is_digit_def char_code_def)
      (simp add: toy_app_def toy_lib_def btc_lib.extend_def)
  from app_signs_only_its_due [OF toy_release_checked this]
  have "my_escrow toy_app toy_request (sp_descriptor toy_release)" and "sane_fee toy_app toy_release"
    and "ri_purpose toy_request = SP_release
      \<longrightarrow> sponsor_signed toy_app toy_request toy_release (Some (Counterparty (toy_key (CHR ''2'')) toy_sig ''12''))"
    and "\<exists>t. same_tx toy_app toy_request toy_release t
      \<and> signs_tx toy_app t (Some (toy_key (CHR ''1''))) (toy_key (CHR ''2'') @ toy_key (CHR ''1''))"
    by blast+
  moreover have "ri_purpose toy_request = SP_release" "sp_descriptor toy_release = toy_escrow"
      "toy_key (CHR ''2'') \<noteq> ri_my_xonly toy_request"
    by (simp_all add: toy_request_def toy_release_def toy_key_def)
  ultimately show ?thesis by simp
qed

subsection \<open>Before sending money: the app and the daemon judge alike\<close>

text \<open>The sponsor's app calls the deposit good exactly when the order's output is the escrow's, holds the agreed amount
  and the daemon itself would call it alive, with the same confirmations; while the chain cannot be asked, or has not
  been asked yet, it never does.\<close>

theorem funding_check_agrees:
  "check_funding_on_chain r funds = Some (Funding_ok n) \<longleftrightarrow>
     (\<exists>f out u. funds = Some (Known f) \<and> parse_outpoint (oo_funding_outpoint r) = Some out
        \<and> List.find (\<lambda>u. utxo_outpoint u = out) (af_confirmed f) = Some u \<and> cu_value u = oo_amount r
        \<and> judge_pinned_funding (Known f) out (oo_amount r) = Some (PS_alive n))"
proof (cases "parse_outpoint (oo_funding_outpoint r)")
  case (Some out)
  show ?thesis
  proof (cases funds)
    case q: (Some q)
    show ?thesis
    proof (cases q)
      case (Known f)
      with q Some show ?thesis
        by (cases "List.find (\<lambda>u. utxo_outpoint u = out) (af_confirmed f)"; cases "required_confirmations (oo_amount r)")
          (auto simp: check_funding_on_chain_def judge_pinned_funding_def)
    qed (use q Some in \<open>simp add: check_funding_on_chain_def\<close>)
  qed (use Some in \<open>simp add: check_funding_on_chain_def\<close>)
qed (simp add: check_funding_on_chain_def)

subsection \<open>The sponsor's presignature reaches the daemon\<close>

text \<open>
  What the bitcoin library promises: a PSBT that was written is read back with its id and its signature, and a signature
  it makes on a transaction with one leaf is the signer's own, a valid Schnorr signature on that leaf.
\<close>

definition psbt_read_back :: "app_lib \<Rightarrow> bool" where
  "psbt_read_back A \<longleftrightarrow>
     (\<forall>k t s. bl_sign A k t = Some s \<longrightarrow> al_signed A t [s] \<noteq> []
        \<and> (\<exists>ps. bl_read_psbt A (al_signed A t [s]) = Some ps \<and> ps_inputs ps = 1 \<and> ps_outputs ps = 1
             \<and> ps_txid ps = bl_txid A t \<and> ps_sigs ps = [s]))"

definition signs_own_leaf :: "app_lib \<Rightarrow> bool" where
  "signs_own_leaf A \<longleftrightarrow>
     (\<forall>k t s control script. bl_sign A k t = Some s \<and> bt_leaf_scripts t = [(control, script)] \<longrightarrow>
        (\<exists>sig h. s = (bl_xonly A k, bl_leaf_hash A (take (length script - 2) script), sig) \<and> bytes_len sig = 64
           \<and> bl_sighash A t (take (length script - 2) script) = Some h \<and> bl_schnorr A sig h (bl_xonly A k) = Some True))"

lemma tx_one_leaf:
  assumes "build_settlement_tx L p = Some t"
  shows "\<exists>leaf control script. find_leaf (sp_descriptor p) (settlement_leaf_for (sp_path p)) = Some leaf
    \<and> bt_leaf_scripts t = [(control, script)] \<and> take (length script - 2) script = lf_script leaf"
proof -
  obtain leaf where l: "find_leaf (sp_descriptor p) (settlement_leaf_for (sp_path p)) = Some leaf"
      "bt_leaf_scripts t = filter (\<lambda>x. take (length (snd x) - 2) (snd x) = lf_script leaf) (ed_leaf_scripts (sp_descriptor p))"
      "length (bt_leaf_scripts t) = 1"
    using assms by (auto simp: build_settlement_tx_def Let_def bind_eq_Some_conv split: if_splits)
  then obtain x where x: "bt_leaf_scripts t = [x]" by (auto simp: length_Suc_conv)
  then have "x \<in> set (filter (\<lambda>x. take (length (snd x) - 2) (snd x) = lf_script leaf) (ed_leaf_scripts (sp_descriptor p)))"
    using l(2) by (metis list.set_intros(1))
  with l(1) x show ?thesis by (cases x) auto
qed

lemma signed_verifies:
  assumes laws: "psbt_read_back A" "signs_own_leaf A" and "is_xonly_hex (bl_xonly A k)"
    and "signed_text A p None (Some k) = Built out"
  shows "\<exists>sig leaf. verify_presignature (lib_of A) out p (bl_xonly A k) = Presig_ok sig leaf" and "out \<noteq> []"
proof -
  from assms(4) obtain t s where t: "build_settlement_tx (lib_of A) p = Some t" "bl_sign A k t = Some s"
      "out = al_signed A t [s]"
    by (auto simp: signed_text_def bind_eq_Some_conv split: option.splits)
  from tx_one_leaf [OF t(1)] obtain leaf control script
    where l: "find_leaf (sp_descriptor p) (settlement_leaf_for (sp_path p)) = Some leaf"
      "bt_leaf_scripts t = [(control, script)]" "take (length script - 2) script = lf_script leaf" by blast
  then obtain sig h where s: "s = (bl_xonly A k, bl_leaf_hash A (lf_script leaf), sig)" "bytes_len sig = 64"
      "bl_sighash A t (lf_script leaf) = Some h" "bl_schnorr A sig h (bl_xonly A k) = Some True"
    using laws(2) t(2) unfolding signs_own_leaf_def by metis
  from laws(1) t obtain ps where "bl_read_psbt A out = Some ps" "ps_inputs ps = 1" "ps_outputs ps = 1"
      "ps_txid ps = bl_txid A t" "ps_sigs ps = [s]" and out: "out \<noteq> []"
    unfolding psbt_read_back_def by metis
  then show "\<exists>sig leaf. verify_presignature (lib_of A) out p (bl_xonly A k) = Presig_ok sig leaf"
    using assms(3) t(1) l(1) s by (simp add: verify_presignature_def tap_script_sig_of_def)
  show "out \<noteq> []" by (rule out)
qed

lemma presignature_built:
  assumes "build_presignature A r (Some c) now key = Some (Built out)"
  obtains p where "signed_text A p None key = Built out" and "oo_state r = Oc_funded" and "oo_settlement_kind r = None"
    and "x_lib x = lib_of A \<Longrightarrow> given_s (om_payout_address m) = Some (mc_payout c) \<Longrightarrow>
       settlement_params_for x r m Release None = Some (Some p)"
proof -
  have g: "oo_state r = Oc_funded" "oo_settlement_kind r = None"
    using assms by (auto simp: build_presignature_def split: if_splits)
  obtain d where d: "app_descriptor_of A r = Some d"
    using assms by (auto simp: build_presignature_def bind_eq_Some_conv split: if_splits)
  obtain dd o1 where d2: "d = Some dd" "parse_outpoint (oo_funding_outpoint r) = Some o1"
    using assms d by (auto simp: build_presignature_def split: if_splits option.splits)
  obtain fee where fee: "oo_release_fee r = Some fee"
    using assms d d2 by (auto simp: build_presignature_def split: if_splits option.splits)
  let ?p = "\<lparr>sp_descriptor = dd, sp_outpoint = o1, sp_value = oo_amount r, sp_path = Path_release,
    sp_destination = mc_payout c, sp_fee = fee\<rparr>"
  have s: "signed_text A ?p None key = Built out"
    using assms d d2 fee by (auto simp: build_presignature_def bind_eq_Some_conv split: if_splits)
  have "escrow_descriptor_for x r = Some dd" if "x_lib x = lib_of A" for x
    using d d2(1) that by (auto simp: app_descriptor_of_def escrow_descriptor_for_def split: option.splits)
  then have "settlement_params_for x r m Release None = Some (Some ?p)"
    if "x_lib x = lib_of A" "given_s (om_payout_address m) = Some (mc_payout c)" for x m
    using that d2(2) fee by (simp add: settlement_params_for_def settlement_destination_def settlement_path_for_kind_def)
  with s g show ?thesis by (rule that)
qed

lemma update_oc_some:
  fixes w :: "'m odb_scheme"
  assumes "get_oc oid w = Some row" and "can_onchain_transition (oo_state (ow_order row)) (oo_state (patch (ow_order row)))"
    and "\<And>o1. oo_id (patch o1) = oo_id o1"
  shows "\<exists>u w'. update_oc oid patch mp w = Some (u, w') \<and> get_oc oid w' = Some (put_oc (now_sec w) patch mp row)"
proof -
  obtain u w' where u: "update_oc oid patch mp w = Some (u, w')"
    using assms(1,2) by (auto simp: update_oc_def Let_def)
  have id: "ow_id (put_oc n patch mp y) = ow_id y" for n y using assms(3) by (simp add: ow_id_def)
  have "get_oc oid (w\<lparr>oc_orders := update_where (\<lambda>r. ow_id r = oid) (put_oc (now_sec w) patch mp) (oc_orders w)\<rparr>)
      = Some (put_oc (now_sec w) patch mp row)"
    using assms(1) get_oc_Some [OF assms(1)] by (simp add: get_oc_def find_update_where_key [where k = ow_id, OF id])
  with u get_oc_quiet [OF update_oc_result(2) [OF u assms(1)]] show ?thesis by auto
qed


definition toy_signer :: app_lib where
  "toy_signer = toy_app\<lparr>bl_sign := (\<lambda>k t. if k = toy_key (CHR ''2'') \<and> bt_leaf_scripts t = [(''c'', ''12c0'')]
       then Some (k, ''12'', toy_sig) else None),
     bl_read_psbt := (\<lambda>_. Some \<lparr>ps_inputs = 1, ps_outputs = 1, ps_txid = ''tx'', ps_input = None,
       ps_sigs = [(toy_key (CHR ''2''), ''12'', toy_sig)]\<rparr>),
     al_signed := (\<lambda>_ _. ''psbt'')\<rparr>"

definition toy_funded_row :: oc_row where
  "toy_funded_row = (toy_oc_row Oc_funded)\<lparr>ow_order := (toy_trade Oc_funded)\<lparr>oo_presign_deadline := Some 1000\<rparr>\<rparr>"

lemma toy_signer_laws: "psbt_read_back toy_signer" "signs_own_leaf toy_signer"
  by (simp_all add: psbt_read_back_def signs_own_leaf_def toy_signer_def toy_app_def toy_lib_def btc_lib.extend_def
      toy_sig_def bytes_len_def)

lemma escrow_lib_cong:
  assumes "bl_script L = bl_script L'" and "bl_p2tr L = bl_p2tr L'"
  shows "derive_escrow_address L k n t = derive_escrow_address L' k n t"
  unfolding derive_escrow_address_def build_escrow_leaves_def assms by (rule refl)

lemma tx_lib_cong:
  assumes "bl_decode L = bl_decode L'"
  shows "settlement_fee_sat L path d dest rate = settlement_fee_sat L' path d dest rate"
    and "bl_accepts L = bl_accepts L' \<Longrightarrow> build_settlement_tx L p = build_settlement_tx L' p"
proof -
  show "settlement_fee_sat L path d dest rate = settlement_fee_sat L' path d dest rate"
    unfolding settlement_fee_sat_def estimate_settlement_vsize_def output_script_for_def assms by (rule refl)
  assume accepts: "bl_accepts L = bl_accepts L'"
  show "build_settlement_tx L p = build_settlement_tx L' p"
    unfolding build_settlement_tx_def output_script_for_def dust_threshold_for_def assms accepts by (rule refl)
qed

lemma toy_signer_lib:
  "bl_script (lib_of toy_signer) = bl_script toy_lib" "bl_p2tr (lib_of toy_signer) = bl_p2tr toy_lib"
  "bl_decode (lib_of toy_signer) = bl_decode toy_lib" "bl_accepts (lib_of toy_signer) = bl_accepts toy_lib"
  "bl_xonly toy_signer = (\<lambda>k. k)"
  by (simp_all add: lib_of_def btc_lib.truncate_def toy_signer_def toy_app_def toy_lib_def btc_lib.extend_def)

lemma toy_release_fee: "settlement_fee_sat toy_lib Path_release toy_escrow ''pay'' (4265 / 512) = Some 1000"
proof -
  have "\<bar>fl (63975 / 64) - 63975 / 64\<bar> \<le> 63975 / 64 / 2 ^ 53" using fl_error [of "63975 / 64"] by simp
  moreover have "(63975 / 64 / 2 ^ 53 :: rat) \<le> 1 / 4" by simp
  ultimately have "999 < fl (63975 / 64)" "fl (63975 / 64) \<le> 1000" by linarith+
  then have "\<lceil>fl (63975 / 64)\<rceil> = 1000" by (simp add: ceiling_eq_iff)
  then show ?thesis by (simp add: settlement_fee_sat_def toy_vsize)
qed

lemma toy_presignature_built:
  "build_presignature toy_signer (ow_order toy_funded_row) (Some \<lparr>mc_payout = ''pay'', mc_feerate = 4265 / 512\<rparr>) 5
     (Some (toy_key (CHR ''2''))) = Some (Built ''psbt'')"
proof -
  let ?r = "ow_order toy_funded_row"
  have r: "oo_state ?r = Oc_funded" "oo_settlement_kind ?r = None" "oo_presign_deadline ?r = Some 1000"
      "oo_release_fee ?r = Some 1000" "oo_amount ?r = 1000000" "oo_funding_outpoint ?r = oo_funding_outpoint (toy_trade Oc_funded)"
    by (simp_all add: toy_funded_row_def toy_oc_row_def) (simp_all add: toy_trade_def toy_oc_order_def)
  have out: "parse_outpoint (oo_funding_outpoint (toy_trade Oc_funded)) = Some toy_outpoint"
    using settlement_params_sel(2) [OF toy_params [of Oc_funded]] by (simp add: toy_release_def)
  have d: "app_descriptor_of toy_signer ?r = Some (Some toy_escrow)"
    using toy_descriptor [of Oc_funded] escrow_lib_cong [OF toy_signer_lib(1,2)]
    by (simp add: app_descriptor_of_def escrow_descriptor_for_def toy_funded_row_def toy_oc_row_def toy_oc_env_def)
      (simp add: toy_trade_def toy_oc_order_def given_s_def opt_given_def)
  have "signed_text toy_signer toy_release None (Some (toy_key (CHR ''2''))) = Built ''psbt''"
    using tx_lib_cong(2) [OF toy_signer_lib(3,4)] toy_build
    by (simp add: signed_text_def) (simp add: toy_signer_def toy_app_def btc_lib.extend_def toy_release_tx_def)
  then show ?thesis
    using r out d toy_release_fee tx_lib_cong(1) [OF toy_signer_lib(3)]
    by (simp add: build_presignature_def is_past_def presign_deadline_of_def coalesce_def toy_release_def)
qed


end
