(* ===== verification/Price_Feed.thy ===== *)
theory Price_Feed
  imports Js_Json
begin

text \<open>
  The market price (\<open>shared/src/price.ts\<close>): three exchanges over WebSockets, each reconnected after a break, and
  \<open>freshPrice\<close>, the only price the daemon fixes money with.  A \<open>feed_event\<close> is what the WebSocket API or a timer calls
  the tracker with; a message carries what \<open>JSON.parse\<close> made of it (\<open>None\<close> when it threw).  Sockets are numbered as they
  are opened.  The names of the exchanges are given in ASCII; what is sent and the listeners of the screen are left out.
\<close>

subsection \<open>The exchanges\<close>

record exchange_state =
  xs_name :: string
  xs_price :: "jsnum option"
  xs_connected :: bool
  xs_updated :: "msec option"

record price_snapshot =
  sn_price :: "jsnum option"
  sn_exchanges :: "exchange_state list"

definition exchange_names :: "string list" where
  "exchange_names = [''upbit'', ''bithumb'', ''coinone'']"

text \<open>A price sent as text: \<open>typeof v === 'string'\<close>, \<open>Number(v)\<close>, refused when \<open>NaN\<close>.\<close>

definition price_text :: "json option \<Rightarrow> jsnum option" where
  "price_text v =
     (case jstr v of
        None \<Rightarrow> None
      | Some s \<Rightarrow> (let p = js_number s in if p = NaN then None else Some p))"

definition inner_object :: "string \<Rightarrow> json \<Rightarrow> json" where
  "inner_object k v = (case jfield k v of Some d \<Rightarrow> d | None \<Rightarrow> J_null)"

text \<open>\<open>parsePrice\<close> of the three; \<open>null\<close> itself makes it throw, which leaves the state as it was.\<close>

definition parse_price :: "nat \<Rightarrow> json \<Rightarrow> jsnum option" where
  "parse_price i d =
     (if i = 0 then
        (if jstr (jfield ''type'' d) = Some ''ticker''
         then (case jfield ''trade_price'' d of Some (J_num p) \<Rightarrow> Some p | _ \<Rightarrow> None) else None)
      else if i = 1 then
        (if jstr (jfield ''type'' d) = Some ''ticker'' then price_text (jfield ''closePrice'' (inner_object ''content'' d))
         else None)
      else if i = 2 then
        (if jstr (jfield ''response_type'' d) = Some ''DATA'' then price_text (jfield ''last'' (inner_object ''data'' d))
         else None)
      else None)"

subsection \<open>The median\<close>

text \<open>The order of \<open>(a, b) => a - b\<close>; \<open>NaN\<close>, which no price is, comes last.\<close>

fun js_rank :: "jsnum \<Rightarrow> nat \<times> rat" where
  "js_rank (Inf True) = (2, 0)"
| "js_rank (Inf False) = (0, 0)"
| "js_rank (Fin q) = (1, q)"
| "js_rank NaN = (3, 0)"

lemma js_rank_inj: "js_rank a = js_rank b \<Longrightarrow> a = b"
  by (cases a rule: js_rank.cases; cases b rule: js_rank.cases) auto

instantiation jsnum :: linorder
begin

definition less_eq_jsnum :: "jsnum \<Rightarrow> jsnum \<Rightarrow> bool" where
  "less_eq_jsnum a b \<longleftrightarrow> fst (js_rank a) < fst (js_rank b)
     \<or> fst (js_rank a) = fst (js_rank b) \<and> snd (js_rank a) \<le> snd (js_rank b)"

definition less_jsnum :: "jsnum \<Rightarrow> jsnum \<Rightarrow> bool" where "less_jsnum a b \<longleftrightarrow> a \<le> b \<and> \<not> b \<le> a"

instance
proof
  fix a b :: jsnum
  assume "a \<le> b" "b \<le> a"
  then have "js_rank a = js_rank b" by (auto simp: less_eq_jsnum_def prod_eq_iff)
  then show "a = b" by (rule js_rank_inj)
qed (auto simp: less_eq_jsnum_def less_jsnum_def)

end

fun js_plus :: "jsnum \<Rightarrow> jsnum \<Rightarrow> jsnum" where
  "js_plus (Fin a) (Fin b) = js_fin (a + b)"
| "js_plus (Inf s) (Inf t) = (if s = t then Inf s else NaN)"
| "js_plus (Inf s) (Fin b) = Inf s"
| "js_plus (Fin a) (Inf t) = Inf t"
| "js_plus _ _ = NaN"

fun js_half :: "jsnum \<Rightarrow> jsnum" where
  "js_half (Fin a) = js_fin (a / 2)"
| "js_half x = x"

definition median :: "jsnum list \<Rightarrow> jsnum option" where
  "median values =
     (if values = [] then None
      else let sorted = sort values; mid = length sorted div 2 in
           if odd (length sorted) then Some (sorted ! mid)
           else Some (js_half (js_plus (sorted ! (mid - 1)) (sorted ! mid))))"

definition fresh_price :: "price_snapshot \<Rightarrow> msec \<Rightarrow> msec \<Rightarrow> nat \<Rightarrow> jsnum option" where
  "fresh_price snapshot now maxAgeMs minSources =
     (let fresh = map (\<lambda>e. the (xs_price e))
        (filter (\<lambda>e. xs_price e \<noteq> None \<and> (case xs_updated e of None \<Rightarrow> False | Some t \<Rightarrow> now - t \<le> maxAgeMs))
           (sn_exchanges snapshot)) in
      if length fresh < minSources then None else median fresh)"

definition FRESH_MAX_AGE_MS :: msec where "FRESH_MAX_AGE_MS = 60000"
definition FRESH_MIN_SOURCES :: nat where "FRESH_MIN_SOURCES = 2"

subsection \<open>The tracker\<close>

record tracker =
  tr_running :: bool
  tr_states :: "exchange_state list"
  tr_sockets :: "nat option list"
  tr_reconnect :: "bool list"
  tr_ping :: "bool list"
  tr_next :: nat
  tr_snapshot :: price_snapshot

definition no_price :: "string \<Rightarrow> exchange_state" where
  "no_price name = \<lparr>xs_name = name, xs_price = None, xs_connected = False, xs_updated = None\<rparr>"

definition create_price_tracker :: tracker where
  "create_price_tracker =
     \<lparr>tr_running = False, tr_states = map no_price exchange_names, tr_sockets = map (\<lambda>_. None) exchange_names,
      tr_reconnect = map (\<lambda>_. False) exchange_names, tr_ping = map (\<lambda>_. False) exchange_names, tr_next = 0,
      tr_snapshot = \<lparr>sn_price = None, sn_exchanges = map no_price exchange_names\<rparr>\<rparr>"

definition notify :: "tracker \<Rightarrow> tracker" where
  "notify t = t\<lparr>tr_snapshot := \<lparr>sn_price = median (List.map_filter xs_price (tr_states t)), sn_exchanges = tr_states t\<rparr>\<rparr>"

definition on_state :: "nat \<Rightarrow> (exchange_state \<Rightarrow> exchange_state) \<Rightarrow> tracker \<Rightarrow> tracker" where
  "on_state i f t = t\<lparr>tr_states := (tr_states t)[i := f (tr_states t ! i)]\<rparr>"

definition cleanup_ping :: "nat \<Rightarrow> tracker \<Rightarrow> tracker" where
  "cleanup_ping i t = t\<lparr>tr_ping := (tr_ping t)[i := False]\<rparr>"

definition cleanup_socket :: "nat \<Rightarrow> tracker \<Rightarrow> tracker" where
  "cleanup_socket i t = cleanup_ping i (t\<lparr>tr_sockets := (tr_sockets t)[i := None]\<rparr>)"

definition schedule_reconnect :: "nat \<Rightarrow> tracker \<Rightarrow> tracker" where
  "schedule_reconnect i t =
     (if \<not> tr_running t then t
      else if tr_reconnect t ! i then t
      else t\<lparr>tr_reconnect := (tr_reconnect t)[i := True]\<rparr>)"

text \<open>\<open>opens\<close>: whether \<open>new WebSocket\<close> succeeds.\<close>

definition connect_exchange :: "nat \<Rightarrow> bool \<Rightarrow> tracker \<Rightarrow> tracker" where
  "connect_exchange i opens t =
     (if \<not> tr_running t then t
      else if length exchange_names \<le> i then t
      else (let t1 = cleanup_socket i t in
            if opens then t1\<lparr>tr_sockets := (tr_sockets t1)[i := Some (tr_next t1)], tr_next := Suc (tr_next t1)\<rparr>
            else schedule_reconnect i t1))"

definition on_open :: "nat \<Rightarrow> tracker \<Rightarrow> tracker" where
  "on_open i t =
     (let t1 = notify (on_state i (\<lambda>s. s\<lparr>xs_connected := True\<rparr>) t) in
      t1\<lparr>tr_ping := (tr_ping t1)[i := True]\<rparr>)"

definition on_message :: "nat \<Rightarrow> json option \<Rightarrow> msec \<Rightarrow> tracker \<Rightarrow> tracker" where
  "on_message i data now t =
     (case Option.bind data (parse_price i) of
        None \<Rightarrow> t
      | Some price \<Rightarrow> notify (on_state i (\<lambda>s. s\<lparr>xs_price := Some price, xs_updated := Some now\<rparr>) t))"

definition on_close :: "nat \<Rightarrow> nat \<Rightarrow> tracker \<Rightarrow> tracker" where
  "on_close i ws t =
     (if tr_sockets t ! i \<noteq> Some ws then t
      else schedule_reconnect i
        (notify (cleanup_ping i (on_state i (\<lambda>s. s\<lparr>xs_connected := False\<rparr>) (t\<lparr>tr_sockets := (tr_sockets t)[i := None]\<rparr>)))))"

definition start_feed :: "bool list \<Rightarrow> tracker \<Rightarrow> tracker" where
  "start_feed opens t =
     (if tr_running t then t
      else fold (\<lambda>i. connect_exchange i (opens ! i)) [0..<length exchange_names] (t\<lparr>tr_running := True\<rparr>))"

definition stop_one :: "nat \<Rightarrow> tracker \<Rightarrow> tracker" where
  "stop_one i t =
     (let t1 = cleanup_socket i t; t2 = t1\<lparr>tr_reconnect := (tr_reconnect t1)[i := False]\<rparr> in
      on_state i (\<lambda>s. s\<lparr>xs_connected := False, xs_price := None, xs_updated := None\<rparr>) t2)"

definition stop_feed :: "tracker \<Rightarrow> tracker" where
  "stop_feed t = notify (fold stop_one [0..<length exchange_names] (t\<lparr>tr_running := False\<rparr>))"

text \<open>
  What may happen: the calls of the daemon, the events of a socket of exchange \<open>i\<close>, a reconnection timer that fires.
  \<open>error\<close> only closes the socket, which shows as a later \<open>close\<close>.
\<close>

datatype feed_event =
    Feed_start "bool list"
  | Feed_stop
  | Ws_open nat
  | Ws_message nat "json option" msec
  | Ws_close nat nat
  | Reconnect_due nat bool

fun feed_step :: "feed_event \<Rightarrow> tracker \<Rightarrow> tracker" where
  "feed_step (Feed_start opens) t = start_feed opens t"
| "feed_step Feed_stop t = stop_feed t"
| "feed_step (Ws_open i) t = (if i < length exchange_names then on_open i t else t)"
| "feed_step (Ws_message i data now) t = (if i < length exchange_names then on_message i data now t else t)"
| "feed_step (Ws_close i ws) t = (if i < length exchange_names then on_close i ws t else t)"
| "feed_step (Reconnect_due i opens) t =
     (if i < length exchange_names \<and> tr_reconnect t ! i
      then connect_exchange i opens (t\<lparr>tr_reconnect := (tr_reconnect t)[i := False]\<rparr>) else t)"

definition feed_run :: "feed_event list \<Rightarrow> tracker" where
  "feed_run es = fold feed_step es create_price_tracker"

end
