(* ===== verification/Price_Feed_Inv.thy ===== *)
theory Price_Feed_Inv
  imports Price_Feed
begin

text \<open>
  What the price feed promises, whatever the sockets and timers do: an exchange never goes silent for good, and the
  price that fixes money is the median of what at least two exchanges reported within the last minute.
\<close>

subsection \<open>Connections\<close>

lemma exchange_count [simp]: "length exchange_names = 3"
  by (simp add: exchange_names_def)

lemma exchange_cases: "i < 3 \<Longrightarrow> (i :: nat) = 0 \<or> i = 1 \<or> i = 2" by linarith

lemma exchange_upt: "[0..<3] = [0, 1, 2 :: nat]" by (simp add: upt_rec)

definition sized :: "tracker \<Rightarrow> bool" where
  "sized t \<longleftrightarrow> length (tr_states t) = 3 \<and> length (tr_sockets t) = 3 \<and> length (tr_reconnect t) = 3
     \<and> sn_exchanges (tr_snapshot t) = tr_states t"

definition served :: "nat \<Rightarrow> tracker \<Rightarrow> bool" where
  "served i t \<longleftrightarrow>
     (if tr_running t then (tr_sockets t ! i \<noteq> None) \<noteq> tr_reconnect t ! i
      else tr_sockets t ! i = None \<and> \<not> tr_reconnect t ! i)"

definition feed_ok :: "tracker \<Rightarrow> bool" where
  "feed_ok t \<longleftrightarrow> sized t \<and> (\<forall>i < 3. served i t)"

lemmas feed_defs = notify_def on_state_def cleanup_ping_def cleanup_socket_def schedule_reconnect_def

lemma connect_served:
  assumes "sized t" and "tr_running t" and "i < 3" and "\<not> tr_reconnect t ! i"
  shows "sized (connect_exchange i opens t)" and "tr_running (connect_exchange i opens t)"
    and "served i (connect_exchange i opens t)"
    and "j \<noteq> i \<Longrightarrow> tr_sockets (connect_exchange i opens t) ! j = tr_sockets t ! j
           \<and> tr_reconnect (connect_exchange i opens t) ! j = tr_reconnect t ! j"
    and "tr_states (connect_exchange i opens t) = tr_states t"
  using assms by (simp_all add: connect_exchange_def feed_defs sized_def served_def Let_def)

lemma served_other:
  "\<lbrakk>tr_running t' = tr_running t; tr_sockets t' ! j = tr_sockets t ! j; tr_reconnect t' ! j = tr_reconnect t ! j\<rbrakk>
   \<Longrightarrow> served j t' = served j t"
  by (simp add: served_def)

lemma connect_one:
  assumes "feed_ok t" and "tr_running t" and "i < 3"
  shows "feed_ok (connect_exchange i opens (t\<lparr>tr_reconnect := (tr_reconnect t)[i := False]\<rparr>))"
proof -
  let ?t = "t\<lparr>tr_reconnect := (tr_reconnect t)[i := False]\<rparr>"
  have s: "sized ?t" "tr_running ?t" "\<not> tr_reconnect ?t ! i" using assms by (simp_all add: feed_ok_def sized_def)
  note c = connect_served [OF s(1,2) assms(3) s(3), where opens = opens]
  have "served j (connect_exchange i opens ?t)" if "j < 3" for j
  proof (cases "j = i")
    case False
    then show ?thesis using served_other [of "connect_exchange i opens ?t" t j] c(2) c(4) [of j] assms(1,2) that
      by (auto simp: feed_ok_def)
  qed (simp add: c(3))
  then show ?thesis using c(1) by (simp add: feed_ok_def)
qed

lemma start_ok:
  assumes "feed_ok t" shows "feed_ok (start_feed opens t)" and "tr_states (start_feed opens t) = tr_states t"
proof -
  have "feed_ok (start_feed opens t) \<and> tr_states (start_feed opens t) = tr_states t"
  proof (cases "tr_running t")
    case False
    let ?c = "\<lambda>i. connect_exchange i (opens ! i)" and ?t = "t\<lparr>tr_running := True\<rparr>"
    have n: "sized ?t" "tr_running ?t" "\<forall>i < 3. tr_sockets ?t ! i = None \<and> \<not> tr_reconnect ?t ! i"
      using assms False by (simp_all add: feed_ok_def sized_def served_def)
    note c0 = connect_served [OF n(1,2), where i = 0 and opens = "opens ! 0"]
    note c1 = connect_served [where t = "?c 0 ?t" and i = 1 and opens = "opens ! 1"]
    note c2 = connect_served [where t = "?c 1 (?c 0 ?t)" and i = 2 and opens = "opens ! 2"]
    have f0: "sized (?c 0 ?t)" "tr_running (?c 0 ?t)" "served 0 (?c 0 ?t)" "tr_states (?c 0 ?t) = tr_states t"
      "\<And>j. j \<noteq> 0 \<Longrightarrow> j < 3 \<Longrightarrow> \<not> tr_reconnect (?c 0 ?t) ! j"
      using c0 n(3) by simp_all
    have f1: "sized (?c 1 (?c 0 ?t))" "tr_running (?c 1 (?c 0 ?t))" "served 1 (?c 1 (?c 0 ?t))"
      "tr_states (?c 1 (?c 0 ?t)) = tr_states t" "served 0 (?c 1 (?c 0 ?t))" "\<not> tr_reconnect (?c 1 (?c 0 ?t)) ! 2"
      using c1 f0 served_other [of "?c 1 (?c 0 ?t)" "?c 0 ?t" 0] by simp_all
    have f2: "sized (?c 2 (?c 1 (?c 0 ?t)))" "served 2 (?c 2 (?c 1 (?c 0 ?t)))"
      "tr_states (?c 2 (?c 1 (?c 0 ?t))) = tr_states t"
      "served 0 (?c 2 (?c 1 (?c 0 ?t)))" "served 1 (?c 2 (?c 1 (?c 0 ?t)))"
      using c2 f1 served_other [of "?c 2 (?c 1 (?c 0 ?t))" "?c 1 (?c 0 ?t)" 0]
        served_other [of "?c 2 (?c 1 (?c 0 ?t))" "?c 1 (?c 0 ?t)" 1] by simp_all
    have "start_feed opens t = ?c 2 (?c 1 (?c 0 ?t))" using False by (simp add: start_feed_def exchange_upt)
    with f2 show ?thesis by (auto simp: feed_ok_def dest!: exchange_cases)
  qed (simp add: start_feed_def assms)
  then show "feed_ok (start_feed opens t)" and "tr_states (start_feed opens t) = tr_states t" by blast+
qed

lemma stop_states:
  assumes "sized t"
  shows "tr_states (stop_feed t) = map (\<lambda>s. s\<lparr>xs_connected := False, xs_price := None, xs_updated := None\<rparr>) (tr_states t)"
    and "feed_ok (stop_feed t)" and "\<not> tr_running (stop_feed t)"
proof -
  obtain a b c where s: "tr_states t = [a, b, c]" using assms by (auto simp: sized_def length_Suc_conv numeral_3_eq_3)
  obtain d e f where k: "tr_sockets t = [d, e, f]" using assms by (auto simp: sized_def length_Suc_conv numeral_3_eq_3)
  obtain g h i where r: "tr_reconnect t = [g, h, i]" using assms by (auto simp: sized_def length_Suc_conv numeral_3_eq_3)
  show "tr_states (stop_feed t) = map (\<lambda>s. s\<lparr>xs_connected := False, xs_price := None, xs_updated := None\<rparr>) (tr_states t)"
    by (simp add: stop_feed_def exchange_upt stop_one_def feed_defs s Let_def)
  show "feed_ok (stop_feed t)" "\<not> tr_running (stop_feed t)"
    by (auto simp: stop_feed_def exchange_upt stop_one_def feed_defs s k r Let_def feed_ok_def sized_def served_def
        dest!: exchange_cases)
qed

lemma feed_step_ok:
  assumes "feed_ok t" shows "feed_ok (feed_step e t)"
proof (cases e)
  case (Feed_start opens)
  then show ?thesis using start_ok(1) [OF assms] by simp
next
  case Feed_stop
  then show ?thesis using stop_states(2) assms by (simp add: feed_ok_def)
next
  case (Ws_open i)
  then show ?thesis using assms by (auto simp: on_open_def feed_defs feed_ok_def sized_def served_def Let_def)
next
  case (Ws_message i data now)
  then show ?thesis using assms
    by (auto simp: on_message_def feed_defs feed_ok_def sized_def served_def split: option.split)
next
  case (Ws_close i ws)
  then show ?thesis using assms
    by (auto simp: on_close_def feed_defs feed_ok_def sized_def served_def nth_list_update split: if_splits)
next
  case (Reconnect_due i opens)
  show ?thesis
  proof (cases "i < 3 \<and> tr_reconnect t ! i")
    case True
    then have "tr_running t" using assms by (auto simp: feed_ok_def served_def split: if_splits)
    with connect_one [OF assms this] True Reconnect_due show ?thesis by simp
  qed (use Reconnect_due assms in auto)
qed

lemma feed_run_ok: "feed_ok (feed_run es)"
proof -
  have "feed_ok t \<Longrightarrow> feed_ok (fold feed_step es t)" for t
    by (induction es arbitrary: t) (simp_all add: feed_step_ok)
  moreover have "feed_ok create_price_tracker"
    by (auto simp: create_price_tracker_def feed_ok_def sized_def served_def exchange_names_def dest!: exchange_cases)
  ultimately show ?thesis by (simp add: feed_run_def)
qed

text \<open>Whatever the exchanges, the sockets and the timers do, while the feed runs every exchange has either a socket or a
  reconnection that is due, never both and never neither, and once it is stopped it has none and shows no price.\<close>

theorem price_feed_never_silent:
  assumes "i < length exchange_names"
  shows "(if tr_running (feed_run es) then (tr_sockets (feed_run es) ! i \<noteq> None) \<noteq> tr_reconnect (feed_run es) ! i
          else tr_sockets (feed_run es) ! i = None \<and> \<not> tr_reconnect (feed_run es) ! i)
    \<and> sn_price (tr_snapshot (feed_run (es @ [Feed_stop]))) = None"
proof -
  have "List.map_filter xs_price (tr_states (stop_feed (feed_run es))) = []"
    using stop_states(1) [of "feed_run es"] feed_run_ok [of es] by (simp add: feed_ok_def map_filter_def)
  then have "sn_price (tr_snapshot (stop_feed (feed_run es))) = None"
    by (simp add: stop_feed_def notify_def median_def)
  moreover have "served i (feed_run es)" using feed_run_ok [of es] assms by (simp add: feed_ok_def)
  moreover have "feed_run (es @ [Feed_stop]) = stop_feed (feed_run es)" by (simp add: feed_run_def)
  ultimately show ?thesis unfolding served_def by simp
qed

theorem price_feed_never_silent_witness:
  "tr_sockets (feed_run [Feed_start [True, False, True], Ws_close 0 0, Reconnect_due 0 True]) ! 0 = Some 2
   \<and> sn_price (tr_snapshot (feed_run [Feed_start [True, False, True], Feed_stop])) = None"
proof -
  have "tr_sockets (feed_run [Feed_start [True, False, True], Ws_close 0 0, Reconnect_due 0 True]) ! 0 = Some 2" by code_simp
  then show ?thesis using price_feed_never_silent [of 0 "[Feed_start [True, False, True]]"] by simp
qed

subsection \<open>The price that fixes money\<close>

text \<open>The last price an exchange reported since the feed was last stopped, and when.\<close>

definition report :: "nat \<Rightarrow> feed_event \<Rightarrow> (jsnum \<times> msec) option \<Rightarrow> (jsnum \<times> msec) option" where
  "report i e r =
     (case e of
        Feed_stop \<Rightarrow> None
      | Ws_message j data now \<Rightarrow>
          (case (if j = i then Option.bind data (parse_price i) else None) of Some p \<Rightarrow> Some (p, now) | None \<Rightarrow> r)
      | _ \<Rightarrow> r)"

definition last_report :: "nat \<Rightarrow> feed_event list \<Rightarrow> (jsnum \<times> msec) option" where
  "last_report i es = fold (report i) es None"

definition remembers :: "tracker \<Rightarrow> (nat \<Rightarrow> (jsnum \<times> msec) option) \<Rightarrow> bool" where
  "remembers t r \<longleftrightarrow> (\<forall>i < 3. xs_price (tr_states t ! i) = map_option fst (r i)
     \<and> xs_updated (tr_states t ! i) = map_option snd (r i))"

lemma connect_states: "tr_states (connect_exchange i opens t) = tr_states t"
  by (simp add: connect_exchange_def feed_defs Let_def)

lemma feed_step_remembers:
  assumes "feed_ok t" and "remembers t r"
  shows "remembers (feed_step e t) (\<lambda>i. report i e (r i))"
proof (cases e)
  case (Feed_start opens)
  then show ?thesis using start_ok(2) [OF assms(1)] assms(2) by (simp add: remembers_def report_def)
next
  case Feed_stop
  then show ?thesis using stop_states(1) [of t] assms(1) by (simp add: remembers_def report_def feed_ok_def sized_def)
next
  case (Ws_open i)
  then show ?thesis using assms
    by (simp add: remembers_def report_def on_open_def feed_defs Let_def feed_ok_def sized_def nth_list_update)
next
  case (Ws_message i data now)
  then show ?thesis using assms
    by (auto simp: remembers_def report_def on_message_def feed_defs feed_ok_def sized_def nth_list_update split: option.splits)
next
  case (Ws_close i ws)
  then show ?thesis using assms
    by (simp add: remembers_def report_def on_close_def feed_defs feed_ok_def sized_def nth_list_update)
next
  case (Reconnect_due i opens)
  then show ?thesis using assms(2) by (simp add: remembers_def report_def connect_states)
qed

lemma feed_run_remembers: "remembers (feed_run es) (\<lambda>i. last_report i es)"
proof -
  have "feed_ok t \<Longrightarrow> remembers t r \<Longrightarrow> remembers (fold feed_step es t) (\<lambda>i. fold (report i) es (r i))" for t r
    by (induction es arbitrary: t r) (simp_all add: feed_step_ok feed_step_remembers)
  moreover have "remembers create_price_tracker (\<lambda>_. None)"
    by (auto simp: remembers_def create_price_tracker_def exchange_names_def no_price_def dest!: exchange_cases)
  moreover have "feed_ok create_price_tracker" using feed_run_ok [of "[]"] by (simp add: feed_run_def)
  ultimately show ?thesis by (simp add: feed_run_def last_report_def)
qed

definition recent :: "msec \<Rightarrow> feed_event list \<Rightarrow> nat \<Rightarrow> jsnum option" where
  "recent now es i =
     (case last_report i es of
        Some (p, t) \<Rightarrow> if now - t \<le> FRESH_MAX_AGE_MS then Some p else None
      | None \<Rightarrow> None)"

lemma fresh_price_spec:
  "fresh_price (tr_snapshot (feed_run es)) now FRESH_MAX_AGE_MS k =
     (let ps = List.map_filter (recent now es) [0, 1, 2] in if length ps < k then None else median ps)"
proof -
  let ?f = "\<lambda>e. xs_price e \<noteq> None \<and> (case xs_updated e of None \<Rightarrow> False | Some t \<Rightarrow> now - t \<le> FRESH_MAX_AGE_MS)"
  have ok: "sn_exchanges (tr_snapshot (feed_run es)) = tr_states (feed_run es)" "length (tr_states (feed_run es)) = 3"
    using feed_run_ok [of es] by (simp_all add: feed_ok_def sized_def)
  have one: "(?f (tr_states (feed_run es) ! i) \<longleftrightarrow> recent now es i \<noteq> None)
      \<and> (recent now es i \<noteq> None \<longrightarrow> the (xs_price (tr_states (feed_run es) ! i)) = the (recent now es i))" if "i < 3" for i
    using feed_run_remembers [of es] that by (auto simp: remembers_def recent_def split: option.splits)
  obtain a b c where s: "tr_states (feed_run es) = [a, b, c]" using ok(2) by (auto simp: length_Suc_conv numeral_3_eq_3)
  show ?thesis
    using one [of 0] one [of 1] one [of 2]
    by (auto simp: fresh_price_def ok(1) s map_filter_simps split: option.splits)
qed

lemma median_two: "median [a, b] = Some (js_half (js_plus (min a b) (max a b)))"
  by (auto simp: median_def min_def max_def)

lemma median_three:
  assumes "median [a, b, c] = Some v"
  shows "v \<in> {a, b, c} \<and> min a b \<le> v \<and> v \<le> max a b \<and> min a c \<le> v \<and> v \<le> max a c \<and> min b c \<le> v \<and> v \<le> max b c"
  using assms by (auto simp: median_def min_def max_def split: if_splits)

text \<open>C33. The price the daemon fixes money with rests on prices two or three exchanges reported within the last minute since
  the feed started: with three it is one of them and lies between any two, so that no single exchange can move it past
  the other two; with two it is their mean; with fewer there is no price.\<close>

theorem fresh_price_grounded:
  assumes "fresh_price (tr_snapshot (feed_run es)) now FRESH_MAX_AGE_MS FRESH_MIN_SOURCES = Some v"
  shows "(\<exists>a b. List.map_filter (recent now es) [0, 1, 2] = [a, b] \<and> v = js_half (js_plus (min a b) (max a b)))
    \<or> (\<exists>a b c. map (recent now es) [0, 1, 2] = [Some a, Some b, Some c] \<and> v \<in> {a, b, c}
         \<and> min a b \<le> v \<and> v \<le> max a b \<and> min a c \<le> v \<and> v \<le> max a c \<and> min b c \<le> v \<and> v \<le> max b c)"
  using assms median_three
  by (cases "recent now es 0"; cases "recent now es 1"; cases "recent now es 2")
    (simp_all add: fresh_price_spec FRESH_MIN_SOURCES_def map_filter_simps median_two)

definition toy_reports :: "feed_event list" where
  "toy_reports =
     [Feed_start [True, True, True],
      Ws_message 0 (Some (J_obj [(''type'', J_str ''ticker''), (''trade_price'', j_int 100)])) 1000,
      Ws_message 2 (Some (J_obj [(''response_type'', J_str ''DATA''), (''data'', J_obj [(''last'', J_str (int_str 300))])])) 2000,
      Ws_message 1 (Some (J_obj [(''type'', J_str ''ticker''), (''content'', J_obj [(''closePrice'', J_str (int_str 9))])])) 2500]"

theorem fresh_price_grounded_witness:
  "fresh_price (tr_snapshot (feed_run toy_reports)) 3000 FRESH_MAX_AGE_MS FRESH_MIN_SOURCES = Some (Fin 100)
   \<and> (\<exists>a b c. map (recent 3000 toy_reports) [0, 1, 2] = [Some a, Some b, Some c] \<and> Fin 100 \<in> {a, b, c})"
proof -
  have numbers: "js_number (int_str 300) = Fin 300" "js_number (int_str 9) = Fin 9"
    using js_number_int_str [of 300] js_number_int_str [of 9] by simp_all
  have r: "recent 3000 toy_reports 0 = Some (Fin 100)" "recent 3000 toy_reports 1 = Some (Fin 9)"
      "recent 3000 toy_reports 2 = Some (Fin 300)"
    by (simp_all add: recent_def last_report_def report_def toy_reports_def parse_price_def j_int_def price_text_def
        inner_object_def numbers FRESH_MAX_AGE_MS_def)
  then have f: "fresh_price (tr_snapshot (feed_run toy_reports)) 3000 FRESH_MAX_AGE_MS FRESH_MIN_SOURCES = Some (Fin 100)"
    by (simp add: fresh_price_spec map_filter_simps FRESH_MIN_SOURCES_def median_def less_eq_jsnum_def)
  with fresh_price_grounded [OF f] r show ?thesis by (simp add: map_filter_simps)
qed

end
