(* ===== verification/Subscriptions.thy ===== *)
theory Subscriptions
  imports Lnpay_Prelude
begin

text \<open>
  The guard around an app's relay subscriptions (\<open>shared/src/subscription-guard.ts\<close>).  Starting is asynchronous, so
  starts, stops and the promises of earlier starts interleave freely.  The state of the closure is kept with what it acts
  on: the promises that have not settled, the subscriptions that were opened and the calls that closed one.  A start is
  named by the number of its promise, and the subscription its factory yields by the same number.
\<close>

subsection \<open>The guard\<close>

datatype stage = Waiting | Settled

record guard =
  gd_cleanup :: "nat option"
  gd_starting :: "nat option"
  gd_generation :: nat
  gd_pending :: "nat \<Rightarrow> (nat \<times> stage) option"
  gd_next :: nat
  gd_opened :: "nat list"
  gd_closed :: "nat list"

definition create_subscription_guard :: guard where
  "create_subscription_guard =
     \<lparr>gd_cleanup = None, gd_starting = None, gd_generation = 0, gd_pending = (\<lambda>_. None), gd_next = 0,
      gd_opened = [], gd_closed = []\<rparr>"

text \<open>\<open>start\<close>: the promise remembers the generation it was started in.\<close>

definition guard_start :: "guard \<Rightarrow> guard" where
  "guard_start g =
     (if gd_cleanup g \<noteq> None then g
      else if gd_starting g \<noteq> None then g
      else g\<lparr>gd_starting := Some (gd_next g), gd_pending := (gd_pending g)(gd_next g \<mapsto> (gd_generation g, Waiting)),
             gd_next := Suc (gd_next g)\<rparr>)"

text \<open>The factory has opened its subscription: the \<open>then\<close> of the promise.\<close>

definition guard_opened :: "nat \<Rightarrow> nat \<Rightarrow> guard \<Rightarrow> guard" where
  "guard_opened p myGeneration g =
     (let g1 = g\<lparr>gd_opened := gd_opened g @ [p], gd_pending := (gd_pending g)(p \<mapsto> (myGeneration, Settled))\<rparr> in
      if myGeneration \<noteq> gd_generation g then g1\<lparr>gd_closed := gd_closed g @ [p]\<rparr>
      else g1\<lparr>gd_cleanup := Some p\<rparr>)"

text \<open>The factory failed: \<open>catch\<close> only logs.\<close>

definition guard_failed :: "nat \<Rightarrow> nat \<Rightarrow> guard \<Rightarrow> guard" where
  "guard_failed p myGeneration g = g\<lparr>gd_pending := (gd_pending g)(p \<mapsto> (myGeneration, Settled))\<rparr>"

definition guard_finally :: "nat \<Rightarrow> guard \<Rightarrow> guard" where
  "guard_finally p g =
     (let g1 = g\<lparr>gd_pending := (gd_pending g)(p := None)\<rparr> in
      if gd_starting g = Some p then g1\<lparr>gd_starting := None\<rparr> else g1)"

definition guard_stop :: "guard \<Rightarrow> guard" where
  "guard_stop g =
     g\<lparr>gd_generation := Suc (gd_generation g), gd_starting := None,
       gd_closed := gd_closed g @ (case gd_cleanup g of None \<Rightarrow> [] | Some s \<Rightarrow> [s]), gd_cleanup := None\<rparr>"

definition guard_active :: "guard \<Rightarrow> bool" where "guard_active g \<longleftrightarrow> gd_cleanup g \<noteq> None"

subsection \<open>Every interleaving\<close>

inductive guard_step :: "guard \<Rightarrow> guard \<Rightarrow> bool" where
  start: "guard_step g (guard_start g)"
| stop: "guard_step g (guard_stop g)"
| opened: "gd_pending g p = Some (n, Waiting) \<Longrightarrow> guard_step g (guard_opened p n g)"
| failed: "gd_pending g p = Some (n, Waiting) \<Longrightarrow> guard_step g (guard_failed p n g)"
| settled: "gd_pending g p = Some (n, Settled) \<Longrightarrow> guard_step g (guard_finally p g)"

text \<open>
  The guard's invariant.  A promise that still waits in the current generation is the one being started, and then no
  subscription is known; what is open is what is known; nothing is closed twice.
\<close>

definition guard_inv :: "guard \<Rightarrow> bool" where
  "guard_inv g \<longleftrightarrow>
     (\<forall>p n st. gd_pending g p = Some (n, st) \<longrightarrow> p < gd_next g \<and> n \<le> gd_generation g)
     \<and> (\<forall>p. gd_pending g p = Some (gd_generation g, Waiting) \<longrightarrow> gd_starting g = Some p \<and> gd_cleanup g = None)
     \<and> (\<forall>p. p \<in> set (gd_opened g) \<longrightarrow> p < gd_next g \<and> (\<forall>n. gd_pending g p \<noteq> Some (n, Waiting)))
     \<and> distinct (gd_opened g) \<and> distinct (gd_closed g)
     \<and> set (gd_opened g) = set (gd_closed g) \<union> set_option (gd_cleanup g)
     \<and> set (gd_closed g) \<inter> set_option (gd_cleanup g) = {}"

lemma guard_invD:
  assumes "guard_inv g"
  shows "gd_pending g p = Some (n, st) \<Longrightarrow> p < gd_next g \<and> n \<le> gd_generation g"
    and "gd_pending g p = Some (gd_generation g, Waiting) \<Longrightarrow> gd_starting g = Some p \<and> gd_cleanup g = None"
    and "p \<in> set (gd_opened g) \<Longrightarrow> p < gd_next g \<and> gd_pending g p \<noteq> Some (n, Waiting)"
    and "distinct (gd_opened g)" and "distinct (gd_closed g)"
    and "set (gd_opened g) = set (gd_closed g) \<union> set_option (gd_cleanup g)"
    and "set (gd_closed g) \<inter> set_option (gd_cleanup g) = {}"
  using assms unfolding guard_inv_def by blast+

lemma guard_start_inv: "guard_inv g \<Longrightarrow> guard_inv (guard_start g)"
  by (auto simp: guard_inv_def guard_start_def less_Suc_eq split: if_splits)

lemma guard_stop_inv:
  assumes "guard_inv g" shows "guard_inv (guard_stop g)"
proof -
  have "gd_pending g p \<noteq> Some (Suc (gd_generation g), Waiting)" for p
    using guard_invD(1) [OF assms, of p] Suc_n_not_le_n by blast
  then show ?thesis using guard_invD [OF assms]
    by (auto simp: guard_inv_def guard_stop_def le_SucI split: option.splits)
qed

lemma guard_opened_inv:
  assumes "guard_inv g" and "gd_pending g p = Some (n, Waiting)" shows "guard_inv (guard_opened p n g)"
proof -
  have "p \<notin> set (gd_opened g)" "p < gd_next g" "n \<le> gd_generation g"
    using guard_invD(1,3) [OF assms(1)] assms(2) by blast+
  moreover have "p \<notin> set (gd_closed g)" using guard_invD(6) [OF assms(1)] calculation(1) by blast
  moreover have "gd_cleanup g = None \<and> gd_starting g = Some p" if "n = gd_generation g"
    using guard_invD(2) [OF assms(1)] assms(2) that by blast
  ultimately show ?thesis
    using assms(1) by (auto simp: guard_inv_def guard_opened_def Let_def split: if_splits)
qed

lemma guard_settled_inv:
  assumes "guard_inv g" and "gd_pending g p = Some (n, st)"
  shows "guard_inv (guard_failed p n g)" and "st = Settled \<Longrightarrow> guard_inv (guard_finally p g)"
  using assms by (auto simp: guard_inv_def guard_failed_def guard_finally_def Let_def split: if_splits)

lemma guard_step_inv: "guard_step g g' \<Longrightarrow> guard_inv g \<Longrightarrow> guard_inv g'"
  by (induction rule: guard_step.induct)
    (auto intro: guard_start_inv guard_stop_inv guard_opened_inv guard_settled_inv)

lemma guard_reach_inv:
  assumes "guard_step\<^sup>*\<^sup>* create_subscription_guard g" shows "guard_inv g"
  using assms
proof (induction rule: rtranclp_induct)
  case base
  show ?case by (simp add: guard_inv_def create_subscription_guard_def)
qed (rule guard_step_inv)

text \<open>C40. However starts, stops and late answers interleave, an app never leaks a relay subscription: what is open is exactly
  the one subscription the guard knows, if any, no subscription is closed twice, right after a stop none is open, and a
  start that follows a stop always begins a new subscription instead of returning the dead one.\<close>

theorem no_ghost_subscriptions:
  assumes "guard_step\<^sup>*\<^sup>* create_subscription_guard g"
  shows "set (gd_opened g) - set (gd_closed g) = set_option (gd_cleanup g) \<and> distinct (gd_closed g)
    \<and> set (gd_opened (guard_stop g)) = set (gd_closed (guard_stop g)) \<and> \<not> guard_active (guard_stop g)
    \<and> gd_pending (guard_start (guard_stop g)) (gd_next g) = Some (Suc (gd_generation g), Waiting)"
proof -
  have inv: "guard_inv g" by (rule guard_reach_inv [OF assms])
  note i = guard_invD [OF inv]
  have stop: "set (gd_opened (guard_stop g)) = set (gd_closed (guard_stop g))"
    using guard_invD(6) [OF guard_stop_inv [OF inv]] by (simp add: guard_stop_def)
  have "set (gd_opened g) - set (gd_closed g) = set_option (gd_cleanup g)" using i(6,7) by blast
  with i(5) stop show ?thesis by (simp add: guard_active_def guard_start_def guard_stop_def)
qed

text \<open>The story of the source: a start waits, the app goes to the background and back, both starts answer late.\<close>

theorem no_ghost_subscriptions_witness:
  "\<exists>g. guard_step\<^sup>*\<^sup>* create_subscription_guard g \<and> gd_opened g = [0, 1] \<and> gd_closed g = [0] \<and> gd_cleanup g = Some 1
     \<and> set (gd_opened g) - set (gd_closed g) = {1}"
proof -
  let ?g1 = "guard_start create_subscription_guard"
  let ?g3 = "guard_start (guard_stop ?g1)"
  let ?g5 = "guard_opened 1 1 (guard_opened 0 0 ?g3)"
  have p: "gd_pending ?g3 0 = Some (0, Waiting)" "gd_pending (guard_opened 0 0 ?g3) 1 = Some (1, Waiting)"
    by (simp_all add: guard_start_def guard_stop_def create_subscription_guard_def guard_opened_def Let_def)
  have r: "guard_step\<^sup>*\<^sup>* create_subscription_guard ?g5"
    by (meson guard_step.start guard_step.stop guard_step.opened p r_into_rtranclp rtranclp_trans)
  have "gd_opened ?g5 = [0, 1]" "gd_closed ?g5 = [0]" "gd_cleanup ?g5 = Some 1"
    by (simp_all add: guard_start_def guard_stop_def create_subscription_guard_def guard_opened_def Let_def)
  with no_ghost_subscriptions [OF r] r show ?thesis by (intro exI [of _ ?g5]) simp
qed

end
