(* ===== verification/Progress.thy ===== *)
theory Progress
  imports Ln_Fsm Oc_Fsm
begin

text \<open>
  The ladder a screen draws of a trade: the steps of the Lightning track (\<open>shared/src/order-progress.ts\<close>) and of the
  on-chain track (\<open>shared/src/onchain/progress.ts\<close>), who has the ball at each, what is done and what is ahead.  Both
  files spell the same shape; what they share stands first.  Titles, labels and sentences are named in ASCII.
\<close>

subsection \<open>What both ladders share\<close>

datatype step_status = Step_done | Step_current | Step_upcoming

datatype step_actor = Actor signer | Actor_admin | Actor_chain

text \<open>
  \<open>sa_designated\<close>: \<open>None\<close> keeps the text in a designated trade, \<open>Some None\<close> drops it, \<open>Some (Some t)\<close> says \<open>t\<close> instead.
\<close>

record step_action =
  sa_text :: string
  sa_optional :: bool
  sa_receiver_only :: bool
  sa_designated :: "string option option"

record 's progress_step =
  pg_state :: 's
  pg_title :: string
  pg_actor :: step_actor
  pg_customer :: "step_action list"
  pg_sponsor :: "step_action list"

record 's resolved_step =
  rs_index :: nat
  rs_state :: 's
  rs_title :: string
  rs_status :: step_status
  rs_actor :: step_actor
  rs_my_turn :: bool
  rs_actions :: "step_action list"

definition say :: "string \<Rightarrow> step_action" where
  "say t = \<lparr>sa_text = t, sa_optional = False, sa_receiver_only = False, sa_designated = None\<rparr>"

definition say_open :: "string \<Rightarrow> step_action" where "say_open t = (say t)\<lparr>sa_designated := Some None\<rparr>"

definition say_or :: "string \<Rightarrow> string \<Rightarrow> step_action" where "say_or t d = (say t)\<lparr>sa_designated := Some (Some d)\<rparr>"

definition step_index :: "'s progress_step list \<Rightarrow> 's \<Rightarrow> nat option" where
  "step_index steps s = List.find (\<lambda>i. pg_state (steps ! i) = s) [0..<length steps]"

definition index_or :: "int \<Rightarrow> nat option \<Rightarrow> int" where
  "index_or d i = (case i of Some n \<Rightarrow> int n | None \<Rightarrow> d)"

text \<open>\<open>off\<close>: the trade left the ladder, so that the last step passed is done and none is current.\<close>

definition step_status :: "int \<Rightarrow> bool \<Rightarrow> nat \<Rightarrow> step_status" where
  "step_status doneThrough off i =
     (if int i < doneThrough then Step_done
      else if \<not> off \<and> int i = doneThrough then Step_current
      else if off \<and> int i \<le> doneThrough then Step_done
      else Step_upcoming)"

text \<open>The texts of a designated trade.\<close>

definition designated_actions :: "bool \<Rightarrow> step_action list \<Rightarrow> step_action list" where
  "designated_actions designated actions =
     map (\<lambda>a. case sa_designated a of Some (Some t) \<Rightarrow> if designated then a\<lparr>sa_text := t\<rparr> else a | _ \<Rightarrow> a)
       (filter (\<lambda>a. \<not> (designated \<and> sa_designated a = Some None)) actions)"

subsection \<open>The Lightning ladder\<close>

record progress_context =
  pc_account_sent :: bool
  pc_deposit_pending :: bool
  pc_designated :: bool

definition PROGRESS_STEPS :: "order_state progress_step list" where
  "PROGRESS_STEPS =
     [\<lparr>pg_state = Requested, pg_title = ''looking for a buyer'', pg_actor = Actor Sponsor,
       pg_customer = [say_or ''wait for a buyer'' ''wait for the designated buyer'', say_open ''the buyer pays a deposit''],
       pg_sponsor = [say_or ''buy: first come'' ''accept: designated'', say_open ''pay the deposit'', say ''invoice later'']\<rparr>,
      \<lparr>pg_state = Claimed, pg_title = ''buyer fixed'', pg_actor = Actor_admin,
       pg_customer = [say ''the escrow fixes the amount''], pg_sponsor = [say ''the escrow fixes the amount'']\<rparr>,
      \<lparr>pg_state = Verified, pg_title = ''escrow payment'', pg_actor = Actor Customer,
       pg_customer = [say ''pay the invoice'', say ''held until the end'', say ''pending is normal''],
       pg_sponsor = [say ''wait for the escrow payment'']\<rparr>,
      \<lparr>pg_state = Escrowed, pg_title = ''buyer registers the invoice'', pg_actor = Actor Sponsor,
       pg_customer = [say ''wait for the invoice'', say ''then send the account''],
       pg_sponsor = [say ''register the invoice'', say ''no transfer before the account'']\<rparr>,
      \<lparr>pg_state = Invoiced, pg_title = ''account and transfer'', pg_actor = Actor Customer,
       pg_customer = [say ''send the account'', say ''wait for the transfer''],
       pg_sponsor = [say ''transfer the KRW'', say ''press remitted'']\<rparr>,
      \<lparr>pg_state = Remitted, pg_title = ''check the deposit'', pg_actor = Actor Customer,
       pg_customer = [say ''check the account'', say ''confirm: the BTC is paid''],
       pg_sponsor = [say ''wait for the confirmation'']\<rparr>,
      \<lparr>pg_state = Paid, pg_title = ''finished'', pg_actor = Actor_admin,
       pg_customer = [say ''the trade is over''], pg_sponsor = [say ''the BTC comes to the invoice'']\<rparr>]"

text \<open>The ends that break the ladder, with the name of their label and description.\<close>

definition ln_terminal_info :: "order_state \<Rightarrow> string option" where
  "ln_terminal_info s =
     (if s \<in> {Cancelled, Sponsor_wins, Customer_wins, Admin_closed, Expired} then Some (order_state_str s) else None)"

definition ln_step_actor :: "order_state \<Rightarrow> progress_context \<Rightarrow> step_actor" where
  "ln_step_actor state ctx =
     (if state = Invoiced then Actor (if pc_account_sent ctx then Sponsor else Customer)
      else (case step_index PROGRESS_STEPS state of
              None \<Rightarrow> Actor_admin
            | Some i \<Rightarrow> pg_actor (PROGRESS_STEPS ! i)))"

definition ladder_state :: "order_state \<Rightarrow> progress_context \<Rightarrow> order_state" where
  "ladder_state state ctx = (if state = Claimed \<and> pc_deposit_pending ctx then Requested else state)"

definition ln_done_through :: "order_state \<Rightarrow> progress_context \<Rightarrow> int" where
  "ln_done_through state ctx =
     (if ln_terminal_info state \<noteq> None
      then (if state \<in> {Cancelled, Admin_closed, Expired} then -1 else index_or (-1) (step_index PROGRESS_STEPS Remitted))
      else index_or (-1) (step_index PROGRESS_STEPS (ladder_state state ctx)))"

record 's progress =
  pr_steps :: "'s resolved_step list"
  pr_current :: int
  pr_terminal :: "string option"

definition resolve_progress :: "signer \<Rightarrow> order_state \<Rightarrow> progress_context \<Rightarrow> order_state progress" where
  "resolve_progress role state ctx =
     (let doneThrough = ln_done_through state ctx; off = (ln_terminal_info state \<noteq> None) in
      \<lparr>pr_steps = map (\<lambda>i.
          let step = PROGRESS_STEPS ! i; status = step_status doneThrough off i; actor = ln_step_actor (pg_state step) ctx in
          \<lparr>rs_index = i, rs_state = pg_state step, rs_title = pg_title step, rs_status = status, rs_actor = actor,
           rs_my_turn = (status = Step_current \<and> actor = Actor role),
           rs_actions = designated_actions (pc_designated ctx) (if role = Customer then pg_customer step else pg_sponsor step)\<rparr>)
          [0..<length PROGRESS_STEPS],
       pr_current = (if off then -1 else doneThrough), pr_terminal = ln_terminal_info state\<rparr>)"

record progress_summary =
  sm_title :: string
  sm_terminal :: bool
  sm_my_turn :: bool
  sm_actor :: "step_actor option"

definition summarize_progress :: "signer \<Rightarrow> order_state \<Rightarrow> progress_context \<Rightarrow> progress_summary" where
  "summarize_progress role state ctx =
     (let p = resolve_progress role state ctx in
      case pr_terminal p of
        Some label \<Rightarrow> \<lparr>sm_title = label, sm_terminal = True, sm_my_turn = False, sm_actor = None\<rparr>
      | None \<Rightarrow>
          if 0 \<le> pr_current p \<and> pr_current p < int (length (pr_steps p))
          then (let step = pr_steps p ! nat (pr_current p) in
                \<lparr>sm_title = rs_title step, sm_terminal = False, sm_my_turn = rs_my_turn step, sm_actor = Some (rs_actor step)\<rparr>)
          else \<lparr>sm_title = order_state_str state, sm_terminal = False, sm_my_turn = False, sm_actor = None\<rparr>)"

text \<open>Whether the account may be sent, and whether a parsed order may still be attached.\<close>

definition can_send_account_info :: "order_state option \<Rightarrow> bool" where
  "can_send_account_info state \<longleftrightarrow> state = Some Invoiced \<or> state = Some Remitted"

definition can_attach_parsed_order :: "order_state option \<Rightarrow> bool \<Rightarrow> bool" where
  "can_attach_parsed_order state alreadySent \<longleftrightarrow>
     \<not> alreadySent \<and> state \<in> {Some Requested, Some Claimed, Some Verified, Some Escrowed, Some Invoiced}"

subsection \<open>The on-chain ladder\<close>

record oc_progress_context =
  oc_account_sent :: bool
  oc_kind :: "settlement_kind option"
  oc_is_designated :: bool

definition ONCHAIN_PROGRESS_STEPS :: "oc_state progress_step list" where
  "ONCHAIN_PROGRESS_STEPS =
     [\<lparr>pg_state = Oc_listed, pg_title = ''looking for a buyer'', pg_actor = Actor Sponsor,
       pg_customer = [say ''wait for a buyer'', say_or ''listed, deposit comes back'' ''shown to the designated buyer'',
         (say ''reserve price'')\<lparr>sa_optional := True\<rparr>],
       pg_sponsor = [say_or ''buy: deposit invoice'' ''accept: no deposit'', say_open ''who pays first'', say ''address and feerate'']\<rparr>,
      \<lparr>pg_state = Oc_bonded, pg_title = ''escrow deposit'', pg_actor = Actor Customer,
       pg_customer = [say ''send the exact amount'', say ''confirmed in time'', say_or ''late: deposit lost'' ''late: cancelled'',
         say ''fee is mine''],
       pg_sponsor = [say ''wait for the deposit'', say ''price not fixed yet'']\<rparr>,
      \<lparr>pg_state = Oc_funded, pg_title = ''price fixed'', pg_actor = Actor Sponsor,
       pg_customer = [say ''the KRW is fixed'', say ''wait for the other app''],
       pg_sponsor = [say ''the app does it'', say_or ''open in time: deposit lost'' ''open in time: refund'', say ''amount less fee'']\<rparr>,
      \<lparr>pg_state = Oc_presigned, pg_title = ''account and transfer'', pg_actor = Actor Customer,
       pg_customer = [say ''send the account'', say_or ''in time: deposit lost'' ''in time: refund'', say ''wait for the transfer''],
       pg_sponsor = [say ''transfer in time'', say ''press remitted'']\<rparr>,
      \<lparr>pg_state = Oc_remitted, pg_title = ''check the deposit'', pg_actor = Actor Customer,
       pg_customer = [say ''check the account'', say ''confirm: the BTC goes'', say ''silence is a dispute'', say ''no money: dispute''],
       pg_sponsor = [say ''wait for the confirmation'', say ''silence is a dispute'']\<rparr>,
      \<lparr>pg_state = Oc_settling, pg_title = ''settlement confirmation'', pg_actor = Actor_chain,
       pg_customer = [say ''wait for a block'', say ''no way back'', (say ''CPFP'')\<lparr>sa_receiver_only := True\<rparr>],
       pg_sponsor = [say ''wait for a block'', (say ''CPFP'')\<lparr>sa_receiver_only := True\<rparr>]\<rparr>,
      \<lparr>pg_state = Oc_released, pg_title = ''finished'', pg_actor = Actor_chain,
       pg_customer = [say ''the trade is over''], pg_sponsor = [say ''the BTC came'']\<rparr>]"

text \<open>The label and description of an end, by role and whether the trade is designated.\<close>

definition oc_terminal_with_info :: "oc_state \<Rightarrow> bool" where
  "oc_terminal_with_info s \<longleftrightarrow> s \<in> {Oc_cancelled, Oc_refunded, Oc_sponsor_wins, Oc_customer_wins, Oc_swept}"

definition oc_terminal_info :: "oc_state \<Rightarrow> signer \<Rightarrow> bool \<Rightarrow> string" where
  "oc_terminal_info state role designated =
     (let seller = (role = Customer); mine = (if seller then '':seller'' else '':buyer'') in
      if state = Oc_cancelled then ''cancelled''
      else if state = Oc_swept then ''swept'' @ mine @ (if designated then [] else '':deposits expire'')
      else oc_state_str state @ mine)"

definition oc_step_actor :: "oc_state \<Rightarrow> oc_progress_context \<Rightarrow> step_actor" where
  "oc_step_actor state ctx =
     (if state = Oc_refunding then Actor Customer
      else if state = Oc_presigned then Actor (if oc_account_sent ctx then Sponsor else Customer)
      else (case step_index ONCHAIN_PROGRESS_STEPS state of
              None \<Rightarrow> Actor_admin
            | Some i \<Rightarrow> pg_actor (ONCHAIN_PROGRESS_STEPS ! i)))"

text \<open>Why it is refunded: the known reasons, and a general sentence for the rest.\<close>

definition refund_why :: "bool \<Rightarrow> settlement_kind option \<Rightarrow> string" where
  "refund_why designated kind =
     (let known = (if designated then [Refund_reserve, Refund_sponsor_timeout, Refund_customer_late, Refund_account_disputed]
                   else [Refund_reserve, Refund_bond_expired, Refund_sponsor_timeout, Refund_customer_late, Refund_account_disputed]) in
      case kind of
        Some k \<Rightarrow> if k \<in> set known then settlement_kind_str k @ (if designated then '':designated'' else []) else ''deadline passed''
      | None \<Rightarrow> ''deadline passed'')"

definition refunding_info :: "signer \<Rightarrow> settlement_kind option \<Rightarrow> bool \<Rightarrow> string" where
  "refunding_info role kind designated =
     refund_why designated kind @ (if role = Customer then '':sign to get it back'' else '':do not send money'')"

definition receiver_of :: "settlement_kind option \<Rightarrow> signer option" where
  "receiver_of kind = map_option (\<lambda>k. if k = Release \<or> k = Sponsor_win then Sponsor else Customer) kind"

definition settlement_summary :: "signer \<Rightarrow> settlement_kind \<Rightarrow> string" where
  "settlement_summary role kind =
     (let toMe = (receiver_of (Some kind) = Some role); whose = (if toMe then '':to me'' else '':to the other'') in
      if kind = Release then ''release'' @ whose
      else if kind = Sponsor_win then ''sponsor wins'' @ whose
      else if kind = Customer_win then ''customer wins'' @ whose
      else ''refund'' @ whose)"

definition terminal_done_through :: "oc_state \<Rightarrow> int" where
  "terminal_done_through state =
     (if state = Oc_cancelled then -1
      else if state \<in> {Oc_refunded, Oc_swept} then index_or (-1) (step_index ONCHAIN_PROGRESS_STEPS Oc_bonded)
      else index_or (-1) (step_index ONCHAIN_PROGRESS_STEPS Oc_remitted))"

definition oc_done_through :: "oc_state \<Rightarrow> int" where
  "oc_done_through state =
     (if oc_terminal_with_info state then terminal_done_through state
      else if state = Oc_disputed then index_or (-1) (step_index ONCHAIN_PROGRESS_STEPS Oc_remitted)
      else if state = Oc_refunding then index_or (-1) (step_index ONCHAIN_PROGRESS_STEPS Oc_bonded)
      else index_or (-1) (step_index ONCHAIN_PROGRESS_STEPS state))"

definition off_ladder :: "oc_state \<Rightarrow> bool" where
  "off_ladder state \<longleftrightarrow> oc_terminal_with_info state \<or> state = Oc_disputed \<or> state = Oc_refunding"

text \<open>A CPFP hint is for who receives; when that is not known it is shown to both as optional.\<close>

definition receiver_actions :: "signer \<Rightarrow> signer option \<Rightarrow> bool \<Rightarrow> step_action list \<Rightarrow> step_action list" where
  "receiver_actions role receiver designated actions =
     map (\<lambda>a. if sa_receiver_only a \<and> receiver = None then a\<lparr>sa_optional := True\<rparr> else a)
       (designated_actions designated
         (filter (\<lambda>a. \<not> sa_receiver_only a \<or> receiver = None \<or> receiver = Some role) actions))"

record oc_progress = "oc_state progress" +
  pr_disputed :: bool
  pr_refunding :: "string option"

definition resolve_onchain_progress :: "signer \<Rightarrow> oc_state \<Rightarrow> oc_progress_context \<Rightarrow> oc_progress" where
  "resolve_onchain_progress role state ctx =
     (let doneThrough = oc_done_through state; off = off_ladder state in
      \<lparr>pr_steps = map (\<lambda>i.
          let step = ONCHAIN_PROGRESS_STEPS ! i; status = step_status doneThrough off i;
              actor = oc_step_actor (pg_state step) ctx in
          \<lparr>rs_index = i, rs_state = pg_state step, rs_title = pg_title step, rs_status = status, rs_actor = actor,
           rs_my_turn = (status = Step_current \<and> actor = Actor role),
           rs_actions = receiver_actions role (receiver_of (oc_kind ctx)) (oc_is_designated ctx)
             (if role = Customer then pg_customer step else pg_sponsor step)\<rparr>)
          [0..<length ONCHAIN_PROGRESS_STEPS],
       pr_current = (if off then -1 else doneThrough),
       pr_terminal = (if oc_terminal_with_info state then Some (oc_terminal_info state role (oc_is_designated ctx)) else None),
       pr_disputed = (state = Oc_disputed),
       pr_refunding = (if state = Oc_refunding then Some (refunding_info role (oc_kind ctx) (oc_is_designated ctx)) else None)\<rparr>)"

end
