(* ===== verification/Progress_Truth.thy ===== *)
theory Progress_Truth
  imports Progress
begin

text \<open>
  Whether a ladder tells the truth: a step drawn as done should be one the trade passed on every path of the state
  machine that leads where it is now.  The Lightning ladder keeps that, and so does the on-chain ladder outside the
  settlement; while a refund settles it does not.
\<close>

subsection \<open>Paths that avoid a state\<close>

definition avoiding :: "('s \<Rightarrow> 's \<Rightarrow> bool) \<Rightarrow> 's \<Rightarrow> 's \<Rightarrow> 's \<Rightarrow> bool" where
  "avoiding can u s t \<longleftrightarrow> s \<noteq> u \<and> (\<lambda>a b. can a b \<and> b \<noteq> u)\<^sup>*\<^sup>* s t"

lemma avoiding_refl: "s \<noteq> u \<Longrightarrow> avoiding can u s s"
  by (simp add: avoiding_def)

lemma avoiding_step: "avoiding can u s t \<Longrightarrow> can t v \<Longrightarrow> v \<noteq> u \<Longrightarrow> avoiding can u s v"
  by (auto simp: avoiding_def intro: rtranclp.rtrancl_into_rtrancl)

context fsm
begin

lemma avoiding_closed:
  assumes "avoiding can u s t" and "s \<in> S" and "\<And>a b. \<lbrakk>a \<in> S; b \<in> set (succs a); b \<noteq> u\<rbrakk> \<Longrightarrow> b \<in> S"
  shows "t \<in> S"
proof -
  have "(\<lambda>a b. can a b \<and> b \<noteq> u)\<^sup>*\<^sup>* s t" using assms(1) by (simp add: avoiding_def)
  then show ?thesis using assms(2) by (induction rule: rtranclp_induct) (auto simp: can_iff intro: assms(3))
qed

end

text \<open>What the steps of a resolved ladder say: the step of the table at that place, with the status of that place.\<close>

lemma step_status_done: "step_status n off i = Step_done \<longleftrightarrow> int i < n \<or> off \<and> int i \<le> n"
  by (simp add: step_status_def)

subsection \<open>Lightning\<close>

lemma ln_step_indices:
  "step_index PROGRESS_STEPS s =
     (case s of Requested \<Rightarrow> Some 0 | Claimed \<Rightarrow> Some 1 | Verified \<Rightarrow> Some 2 | Escrowed \<Rightarrow> Some 3 | Invoiced \<Rightarrow> Some 4
      | Remitted \<Rightarrow> Some 5 | Paid \<Rightarrow> Some 6 | _ \<Rightarrow> None)"
  by (cases s) (simp_all add: step_index_def PROGRESS_STEPS_def upt_rec)

fun ln_without :: "order_state \<Rightarrow> order_state set" where
  "ln_without Requested = {}"
| "ln_without Claimed = {Requested, Cancelled, Expired}"
| "ln_without Verified = {Requested, Claimed, Cancelled, Expired}"
| "ln_without Escrowed = {Requested, Claimed, Verified, Cancelled, Expired}"
| "ln_without Invoiced = {Requested, Claimed, Verified, Escrowed, Cancelled, Expired, Admin_closed}"
| "ln_without Remitted = {Requested, Claimed, Verified, Escrowed, Invoiced, Paid, Cancelled, Expired, Admin_closed}"
| "ln_without _ = UNIV"

lemma ln_avoiding: "avoiding can_transition u Requested t \<Longrightarrow> t \<in> ln_without u"
  by (rule ln_table.avoiding_closed [where u = u and s = Requested])
    (assumption, cases u, auto simp: avoiding_def, cases u, auto)

lemma ln_steps_at:
  assumes "st \<in> set (pr_steps (resolve_progress role s ctx))"
  shows "\<exists>i < 7. rs_state st = pg_state (PROGRESS_STEPS ! i)
    \<and> rs_status st = step_status (ln_done_through s ctx) (ln_terminal_info s \<noteq> None) i"
proof -
  have "length PROGRESS_STEPS = 7" by (simp add: PROGRESS_STEPS_def)
  then show ?thesis using assms unfolding resolve_progress_def Let_def by auto
qed

lemma ln_done_through_eq:
  "ln_done_through s ctx =
     (case s of Requested \<Rightarrow> 0 | Claimed \<Rightarrow> if pc_deposit_pending ctx then 0 else 1 | Verified \<Rightarrow> 2 | Escrowed \<Rightarrow> 3 | Invoiced \<Rightarrow> 4
      | Remitted \<Rightarrow> 5 | Paid \<Rightarrow> 6 | Cancelled \<Rightarrow> -1 | Admin_closed \<Rightarrow> -1 | Expired \<Rightarrow> -1
      | _ \<Rightarrow> 5)"
  by (cases s) (simp_all add: ln_done_through_def ln_terminal_info_def ladder_state_def index_or_def ln_step_indices)

lemma ln_ladder_states:
  "i < 7 \<Longrightarrow> pg_state (PROGRESS_STEPS ! i) = [Requested, Claimed, Verified, Escrowed, Invoiced, Remitted, Paid] ! i"
proof -
  assume "i < 7"
  moreover have "map pg_state PROGRESS_STEPS = [Requested, Claimed, Verified, Escrowed, Invoiced, Remitted, Paid]"
    and "length PROGRESS_STEPS = 7"
    by (simp_all add: PROGRESS_STEPS_def)
  ultimately show ?thesis by (metis nth_map)
qed

text \<open>A ladder done up to \<open>n\<close>, over the states \<open>ss\<close>: what it draws as done.\<close>

definition drawn_done :: "'s list \<Rightarrow> int \<Rightarrow> bool \<Rightarrow> 's set" where
  "drawn_done ss n off = set (take (nat (if off then n + 1 else n)) ss)"

lemma drawn_doneI: "i < length ss \<Longrightarrow> step_status n off i = Step_done \<Longrightarrow> ss ! i \<in> drawn_done ss n off"
  by (auto simp: drawn_done_def step_status_done in_set_conv_nth intro!: exI [of _ i])

lemma ln_done_state:
  assumes "st \<in> set (pr_steps (resolve_progress role s ctx))" and "rs_status st = Step_done"
    and "(s, rs_state st) \<noteq> (Paid, Remitted)"
  shows "s \<notin> ln_without (rs_state st)"
proof -
  let ?ss = "[Requested, Claimed, Verified, Escrowed, Invoiced, Remitted, Paid]"
  obtain i where at: "i < 7" "rs_state st = pg_state (PROGRESS_STEPS ! i)"
      "rs_status st = step_status (ln_done_through s ctx) (ln_terminal_info s \<noteq> None) i"
    using ln_steps_at [OF assms(1)] by blast
  have "rs_state st \<in> drawn_done ?ss (ln_done_through s ctx) (ln_terminal_info s \<noteq> None)"
    using at assms(2) drawn_doneI [of i ?ss] by (simp add: ln_ladder_states)
  then show ?thesis
    using assms(3) by (cases s) (auto simp: drawn_done_def ln_done_through_eq ln_terminal_info_def eval_nat_numeral split: if_splits)
qed

subsection \<open>On-chain\<close>

lemma oc_step_indices:
  "step_index ONCHAIN_PROGRESS_STEPS s =
     (case s of Oc_listed \<Rightarrow> Some 0 | Oc_bonded \<Rightarrow> Some 1 | Oc_funded \<Rightarrow> Some 2 | Oc_presigned \<Rightarrow> Some 3 | Oc_remitted \<Rightarrow> Some 4
      | Oc_settling \<Rightarrow> Some 5 | Oc_released \<Rightarrow> Some 6 | _ \<Rightarrow> None)"
  by (cases s) (simp_all add: step_index_def ONCHAIN_PROGRESS_STEPS_def upt_rec)

definition AFTER_DECISION :: "oc_state set" where
  "AFTER_DECISION = {Oc_settling, Oc_released, Oc_refunded, Oc_sponsor_wins, Oc_customer_wins, Oc_swept}"

fun oc_without :: "oc_state \<Rightarrow> oc_state set" where
  "oc_without Oc_listed = {}"
| "oc_without Oc_bonded = {Oc_listed, Oc_cancelled}"
| "oc_without Oc_funded = {Oc_listed, Oc_bonded, Oc_cancelled, Oc_refunding} \<union> AFTER_DECISION"
| "oc_without Oc_presigned = {Oc_listed, Oc_bonded, Oc_funded, Oc_cancelled, Oc_refunding} \<union> AFTER_DECISION"
| "oc_without Oc_remitted = {Oc_listed, Oc_bonded, Oc_funded, Oc_presigned, Oc_cancelled, Oc_refunding} \<union> AFTER_DECISION"
| "oc_without Oc_settling = - {Oc_settling, Oc_released, Oc_refunded, Oc_sponsor_wins, Oc_customer_wins}"
| "oc_without _ = UNIV"

lemma oc_avoiding:
  assumes "avoiding can_onchain_transition u Oc_listed t"
  shows "t \<in> oc_without u"
proof (rule oc_table.avoiding_closed [OF assms])
  show "Oc_listed \<in> oc_without u" using assms by (cases u) (auto simp: avoiding_def AFTER_DECISION_def)
  show "a \<in> oc_without u \<Longrightarrow> b \<in> set (onchain_transitions a) \<Longrightarrow> b \<noteq> u \<Longrightarrow> b \<in> oc_without u" for a b
    by (cases u; cases a) (auto simp: AFTER_DECISION_def)
qed

lemma oc_steps_at:
  assumes "st \<in> set (pr_steps (resolve_onchain_progress role s ctx))"
  shows "\<exists>i < 7. rs_state st = pg_state (ONCHAIN_PROGRESS_STEPS ! i)
    \<and> rs_status st = step_status (oc_done_through s) (off_ladder s) i"
proof -
  have "length ONCHAIN_PROGRESS_STEPS = 7" by (simp add: ONCHAIN_PROGRESS_STEPS_def)
  then show ?thesis using assms unfolding resolve_onchain_progress_def Let_def by auto
qed

lemma oc_done_through_eq:
  "oc_done_through s =
     (case s of Oc_listed \<Rightarrow> 0 | Oc_bonded \<Rightarrow> 1 | Oc_funded \<Rightarrow> 2 | Oc_presigned \<Rightarrow> 3 | Oc_remitted \<Rightarrow> 4 | Oc_settling \<Rightarrow> 5
      | Oc_released \<Rightarrow> 6 | Oc_cancelled \<Rightarrow> -1 | Oc_refunding \<Rightarrow> 1 | Oc_refunded \<Rightarrow> 1 | Oc_swept \<Rightarrow> 1 | _ \<Rightarrow> 4)"
  by (cases s)
    (simp_all add: oc_done_through_def oc_terminal_with_info_def terminal_done_through_def index_or_def oc_step_indices)

lemma oc_ladder_states:
  "i < 7 \<Longrightarrow> pg_state (ONCHAIN_PROGRESS_STEPS ! i)
     = [Oc_listed, Oc_bonded, Oc_funded, Oc_presigned, Oc_remitted, Oc_settling, Oc_released] ! i"
proof -
  assume "i < 7"
  moreover have "map pg_state ONCHAIN_PROGRESS_STEPS
      = [Oc_listed, Oc_bonded, Oc_funded, Oc_presigned, Oc_remitted, Oc_settling, Oc_released]"
    and "length ONCHAIN_PROGRESS_STEPS = 7"
    by (simp_all add: ONCHAIN_PROGRESS_STEPS_def)
  ultimately show ?thesis by (metis nth_map)
qed

text \<open>The states after the decision, which the table cannot tell apart: it forgets which settlement is awaited.\<close>

definition SETTLED :: "oc_state list" where
  "SETTLED = [Oc_settling, Oc_released, Oc_sponsor_wins, Oc_customer_wins]"

lemma oc_done_state:
  assumes "st \<in> set (pr_steps (resolve_onchain_progress role s ctx))" and "rs_status st = Step_done"
    and "s \<in> set SETTLED \<Longrightarrow> rs_state st \<notin> {Oc_funded, Oc_presigned, Oc_remitted}"
  shows "s \<notin> oc_without (rs_state st)"
proof -
  let ?ss = "[Oc_listed, Oc_bonded, Oc_funded, Oc_presigned, Oc_remitted, Oc_settling, Oc_released]"
  obtain i where at: "i < 7" "rs_state st = pg_state (ONCHAIN_PROGRESS_STEPS ! i)"
      "rs_status st = step_status (oc_done_through s) (off_ladder s) i"
    using oc_steps_at [OF assms(1)] by blast
  have "rs_state st \<in> drawn_done ?ss (oc_done_through s) (off_ladder s)"
    using at assms(2) drawn_doneI [of i ?ss] by (simp add: oc_ladder_states)
  then show ?thesis
    using assms(3)
    by (cases s) (auto simp: drawn_done_def oc_done_through_eq off_ladder_def oc_terminal_with_info_def SETTLED_def
        AFTER_DECISION_def eval_nat_numeral)
qed

subsection \<open>What is drawn as done\<close>

definition drawn :: "('s, 'b) progress_scheme \<Rightarrow> 's \<rightharpoonup> step_status" where
  "drawn p = map_of (map (\<lambda>st. (rs_state st, rs_status st)) (pr_steps p))"

lemma oc_drawn:
  "drawn (resolve_onchain_progress role s ctx) = map_of (map (\<lambda>i. ([Oc_listed, Oc_bonded, Oc_funded, Oc_presigned, Oc_remitted,
      Oc_settling, Oc_released] ! i, step_status (oc_done_through s) (off_ladder s) i)) [0..<7])"
proof -
  have "length ONCHAIN_PROGRESS_STEPS = 7" by (simp add: ONCHAIN_PROGRESS_STEPS_def)
  then show ?thesis
    by (auto simp: drawn_def resolve_onchain_progress_def Let_def oc_ladder_states
        intro!: arg_cong [where f = map_of])
qed

lemma oc_drawn_explicit:
  "drawn (resolve_onchain_progress role s ctx) =
     [Oc_listed \<mapsto> step_status (oc_done_through s) (off_ladder s) 0, Oc_bonded \<mapsto> step_status (oc_done_through s) (off_ladder s) 1,
      Oc_funded \<mapsto> step_status (oc_done_through s) (off_ladder s) 2, Oc_presigned \<mapsto> step_status (oc_done_through s) (off_ladder s) 3,
      Oc_remitted \<mapsto> step_status (oc_done_through s) (off_ladder s) 4, Oc_settling \<mapsto> step_status (oc_done_through s) (off_ladder s) 5,
      Oc_released \<mapsto> step_status (oc_done_through s) (off_ladder s) 6]"
proof -
  have "[0..<7] = [0, 1, 2, 3, 4, 5, 6 :: nat]" by (simp add: upt_rec)
  then show ?thesis unfolding oc_drawn by (simp add: fun_upd_twist fun_upd_def fun_eq_iff)
qed

text \<open>The refund of a trade folded before its price was fixed.\<close>

lemma folded_path:
  assumes "u \<notin> {Oc_listed, Oc_bonded, Oc_refunding, Oc_settling}"
  shows "avoiding can_onchain_transition u Oc_listed Oc_settling"
proof -
  have "avoiding can_onchain_transition u Oc_listed Oc_listed" using assms by (auto intro: avoiding_refl)
  then have "avoiding can_onchain_transition u Oc_listed Oc_bonded"
    by (rule avoiding_step) (use assms in \<open>auto simp: can_onchain_transition_def\<close>)
  then have "avoiding can_onchain_transition u Oc_listed Oc_refunding"
    by (rule avoiding_step) (use assms in \<open>auto simp: can_onchain_transition_def\<close>)
  then show ?thesis by (rule avoiding_step) (use assms in \<open>auto simp: can_onchain_transition_def\<close>)
qed

text \<open>The seller may confirm a payment that was never reported.\<close>

lemma unreported_path: "avoiding can_transition Remitted Requested Paid"
proof -
  have "avoiding can_transition Remitted Requested Requested" by (rule avoiding_refl) simp
  then have "avoiding can_transition Remitted Requested Claimed"
    by (rule avoiding_step) (simp_all add: can_transition_def)
  then have "avoiding can_transition Remitted Requested Verified"
    by (rule avoiding_step) (simp_all add: can_transition_def)
  then have "avoiding can_transition Remitted Requested Escrowed"
    by (rule avoiding_step) (simp_all add: can_transition_def)
  then have "avoiding can_transition Remitted Requested Invoiced"
    by (rule avoiding_step) (simp_all add: can_transition_def)
  then show ?thesis by (rule avoiding_step) (simp_all add: can_transition_def)
qed

text \<open>C36. The ladder does not lie about the past (\<open>resolveProgress\<close>, \<open>resolveOnchainProgress\<close>), outside two named places.
  When a step is drawn as done, no path of the state machine from the start of a trade to its state avoids the state of
  that step, on either track and for either role.  The exceptions: the transfer of a paid Lightning trade, drawn as done
  though a path to \<open>paid\<close> avoids it, because the seller may confirm without it; and the steps funded, presigned and
  remitted of an on-chain trade that is settling, released or decided by a dispute, of which the state alone does not say
  whether it came there by them.\<close>

theorem ladder_done_passed:
  "(\<forall>st \<in> set (pr_steps (resolve_progress role s ctx)). rs_status st = Step_done \<longrightarrow> (s, rs_state st) \<noteq> (Paid, Remitted)
      \<longrightarrow> \<not> avoiding can_transition (rs_state st) Requested s)
   \<and> (\<forall>st \<in> set (pr_steps (resolve_onchain_progress role t octx)). rs_status st = Step_done
      \<longrightarrow> \<not> (t \<in> set SETTLED \<and> rs_state st \<in> {Oc_funded, Oc_presigned, Oc_remitted})
      \<longrightarrow> \<not> avoiding can_onchain_transition (rs_state st) Oc_listed t)
   \<and> avoiding can_transition Remitted Requested Paid"
  using ln_avoiding ln_done_state oc_avoiding oc_done_state unreported_path by (metis (no_types, lifting))

text \<open>C34. A refund draws what never happened while it settles (\<open>resolveOnchainProgress\<close>).  A trade folded before the price
  was fixed is refunded along \<open>bonded\<close>, \<open>refunding\<close>, \<open>settling\<close>, \<open>refunded\<close>, which passes neither \<open>funded\<close>, \<open>presigned\<close> nor
  \<open>remitted\<close>.  In \<open>refunding\<close> and in \<open>refunded\<close> the ladder shows those three steps as still ahead, but in between, in
  \<open>settling\<close>, it draws them as done, whatever settlement the screen knows to be awaited.\<close>

theorem refund_drawn_done:
  assumes "step \<in> {Oc_funded, Oc_presigned, Oc_remitted}"
  shows "avoiding can_onchain_transition step Oc_listed Oc_settling
    \<and> drawn (resolve_onchain_progress role Oc_refunding ctx) step = Some Step_upcoming
    \<and> drawn (resolve_onchain_progress role Oc_settling ctx) step = Some Step_done
    \<and> drawn (resolve_onchain_progress role Oc_refunded ctx) step = Some Step_upcoming"
proof (intro conjI)
  show "avoiding can_onchain_transition step Oc_listed Oc_settling" using assms by (intro folded_path) auto
qed (use assms in \<open>simp_all add: oc_drawn_explicit step_status_def oc_done_through_eq off_ladder_def
    oc_terminal_with_info_def, (elim disjE, simp_all)+\<close>)

definition toy_ladder :: "order_state resolved_step list" where
  "toy_ladder = pr_steps (resolve_progress Customer Invoiced
     \<lparr>pc_account_sent = True, pc_deposit_pending = False, pc_designated = False\<rparr>)"

lemma toy_ladder_step:
  "toy_ladder ! 3 \<in> set toy_ladder" "rs_state (toy_ladder ! 3) = Escrowed" "rs_status (toy_ladder ! 3) = Step_done"
proof -
  have l: "length PROGRESS_STEPS = 7" by (simp add: PROGRESS_STEPS_def)
  then show "toy_ladder ! 3 \<in> set toy_ladder" by (intro nth_mem) (simp add: toy_ladder_def resolve_progress_def Let_def)
  show "rs_state (toy_ladder ! 3) = Escrowed" "rs_status (toy_ladder ! 3) = Step_done"
    by (simp_all add: toy_ladder_def resolve_progress_def Let_def l ln_ladder_states step_status_def ln_done_through_eq)
qed

lemma ladder_done_passed_witness:
  "rs_state (toy_ladder ! 3) = Escrowed \<and> rs_status (toy_ladder ! 3) = Step_done
   \<and> \<not> avoiding can_transition Escrowed Requested Invoiced"
  using ladder_done_passed [of Customer Invoiced "\<lparr>pc_account_sent = True, pc_deposit_pending = False, pc_designated = False\<rparr>"]
    toy_ladder_step
  by (fold toy_ladder_def) fastforce

lemma refund_drawn_done_witness:
  "drawn (resolve_onchain_progress Customer Oc_settling \<lparr>oc_account_sent = False, oc_kind = Some Refund_reserve,
      oc_is_designated = False\<rparr>) Oc_remitted = Some Step_done"
  using refund_drawn_done [of Oc_remitted Customer] by simp

end
