(* ===== verification/Cards.thy ===== *)
theory Cards
  imports Progress Ln_Handlers Oc_Decide
begin

text \<open>
  What the app offers to do with a trade: the card of a Lightning trade (\<open>customer/src/ln/card-view.ts\<close>), the card of an
  on-chain trade (\<open>customer/src/onchain/card-view.ts\<close>) and the check before a stored signature request is shown.  What
  is read of the order is the published order as an app parses it.  Sentences are named in ASCII, countdowns keep the
  moment they count to.  The library's \<open>npub\<close> encoding is a parameter.
\<close>

subsection \<open>Local records\<close>

record account =
  ac_bank :: string
  ac_number :: string
  ac_holder :: string

record local_order =
  lo_id :: string
  lo_price :: jsnum
  lo_memo :: string
  lo_created :: jsnum
  lo_expiration :: jsnum
  lo_parsed :: bool
  lo_coupang :: "string option"
  lo_fixed_account :: "account option"
  lo_designated :: "string option"
  lo_raw :: "string option"
  lo_admin_state :: "string option"
  lo_bolt11 :: "string option"
  lo_deposit_bolt11 :: "string option"
  lo_deposit_status :: "deposit_status option"
  lo_sponsor :: "string option"
  lo_retain_until :: "jsnum option"
  lo_close_reason :: "string option"
  lo_account :: "account option"

record buyer_deposit =
  bd_bolt11 :: string
  bd_status :: "deposit_status option"
  bd_at :: "sec option"
  bd_status_at :: "sec option"

record card_input =
  ci_order :: "ln_view option"
  ci_local :: "local_order option"
  ci_me :: "string option"
  ci_deposit :: "buyer_deposit option"
  ci_account :: "account option"
  ci_rejection :: "string option"
  ci_rejection_warns :: bool
  ci_reveal :: bool
  ci_now :: sec

datatype pay_purpose = Pay_customer_deposit | Pay_escrow | Pay_sponsor_deposit

datatype ln_action = Act_publish | Act_pay pay_purpose string | Act_send_account | Act_confirm_paid
  | Act_register_invoice "string option" | Act_remit account | Act_reveal

datatype card_note = Note string | Note_until string jsnum

record ln_side =
  sd_cancel :: bool
  sd_delete :: bool
  sd_forfeits :: bool

record ln_card =
  cv_role :: "signer option"
  cv_draft :: bool
  cv_state :: "string option"
  cv_badge :: string
  cv_title :: string
  cv_my_turn :: bool
  cv_waiting_for :: "string option"
  cv_terminal :: bool
  cv_price :: jsnum
  cv_deadline :: jsnum
  cv_close_reason :: "string option"
  cv_disbursed :: bool
  cv_actions :: "ln_action list"
  cv_side :: ln_side
  cv_notes :: "card_note list"
  cv_progress :: "bool \<times> bool"
  cv_designated :: "string option"
  cv_peer :: "(string \<times> bool) option"

subsection \<open>Small questions\<close>

text \<open>\<open>x <= n\<close> and \<open>n < x\<close> for a number \<open>x\<close> that may not be finite.\<close>

definition js_at_most :: "jsnum \<Rightarrow> int \<Rightarrow> bool" where
  "js_at_most x n = (case x of NaN \<Rightarrow> False | Inf pos \<Rightarrow> \<not> pos | Fin q \<Rightarrow> q \<le> of_int n)"

definition past_deadline :: "jsnum \<Rightarrow> sec \<Rightarrow> bool" where
  "past_deadline d now \<longleftrightarrow> js_positive d \<and> js_at_most d now"

definition check_code :: "(string \<Rightarrow> string) \<Rightarrow> string \<Rightarrow> string" where
  "check_code npub pubkey =
     (let body = drop 5 (npub pubkey) in take 6 body @ ''...'' @ drop (length body - 6) body)"

definition designated_sponsor_of :: "ln_view option \<Rightarrow> local_order option \<Rightarrow> string option" where
  "designated_sponsor_of order mine =
     coalesce (Option.bind mine lo_designated) (Option.bind order lv_designated)"

definition designated_of ::
  "(string \<Rightarrow> string) \<Rightarrow> ln_view option \<Rightarrow> local_order option \<Rightarrow> signer option \<Rightarrow> string option" where
  "designated_of npub order mine role =
     map_option (\<lambda>s. if role = Some Customer then check_code npub s else []) (given_s (designated_sponsor_of order mine))"

definition ln_role_of :: "ln_view option \<Rightarrow> local_order option \<Rightarrow> string option \<Rightarrow> signer option" where
  "ln_role_of order mine me =
     (case (order, given_s me) of
        (Some v, Some k) \<Rightarrow>
          if lv_customer v = k then Some Customer else if lv_sponsor v = Some k then Some Sponsor else None
      | _ \<Rightarrow> if mine \<noteq> None then Some Customer else None)"

definition actor_label :: "step_actor \<Rightarrow> string option" where
  "actor_label a =
     (case a of Actor Customer \<Rightarrow> Some ''seller'' | Actor Sponsor \<Rightarrow> Some ''buyer'' | Actor_admin \<Rightarrow> Some ''escrow'' | _ \<Rightarrow> None)"

definition ln_order_display :: "string \<Rightarrow> bool \<Rightarrow> string" where
  "ln_order_display state pending = (if state = ''claimed'' \<and> pending then ''deposit pending'' else state)"

text \<open>The summary of a state the app may not know: its own name, as when no step of the ladder is current.\<close>

definition summarize :: "signer \<Rightarrow> string \<Rightarrow> bool \<Rightarrow> bool \<Rightarrow> progress_summary" where
  "summarize role state accountSent depositPending =
     (case order_state_of state of
        Some s \<Rightarrow> summarize_progress role s
          \<lparr>pc_account_sent = accountSent, pc_deposit_pending = depositPending, pc_designated = False\<rparr>
      | None \<Rightarrow> \<lparr>sm_title = state, sm_terminal = False, sm_my_turn = False, sm_actor = None\<rparr>)"

definition terminal_name :: "string \<Rightarrow> bool" where
  "terminal_name state = (case order_state_of state of Some s \<Rightarrow> ln_terminal s | None \<Rightarrow> False)"

definition account_gate :: "string \<Rightarrow> bool" where
  "account_gate state = (case order_state_of state of Some s \<Rightarrow> can_send_account_info (Some s) | None \<Rightarrow> False)"

definition deposit_note :: "deposit_status \<Rightarrow> card_note" where
  "deposit_note s = Note (''deposit: '' @ deposit_status_str s)"

subsection \<open>The card of a Lightning trade\<close>

text \<open>Whether somebody took a designated trade who is not the one it was made for.\<close>

definition wrong_sponsor :: "card_input \<Rightarrow> signer option \<Rightarrow> string option \<Rightarrow> bool" where
  "wrong_sponsor i role sponsor \<longleftrightarrow>
     (case (given_s (designated_sponsor_of (ci_order i) (ci_local i)), given_s sponsor) of
        (Some d, Some s) \<Rightarrow> role = Some Customer \<and> s \<noteq> d
      | _ \<Rightarrow> False)"

definition seller_pay :: "card_input \<Rightarrow> string \<Rightarrow> bool \<Rightarrow> bool \<Rightarrow> ln_action list" where
  "seller_pay i state past wrong =
     (case given_s (coalesce (Option.bind (ci_order i) lv_bolt11) (Option.bind (ci_local i) lo_bolt11)) of
        Some b \<Rightarrow> if state = ''verified'' \<and> \<not> past \<and> \<not> wrong then [Act_pay Pay_escrow b] else []
      | None \<Rightarrow> [])"

text \<open>Without a record of this device the account is not offered: another device may have sent one already.\<close>

definition seller_account :: "card_input \<Rightarrow> string \<Rightarrow> string option \<Rightarrow> bool \<Rightarrow> ln_action list \<times> card_note list" where
  "seller_account i state sponsor wrong =
     (if account_gate state \<and> given_s sponsor \<noteq> None \<and> \<not> wrong
      then (if Option.bind (ci_local i) lo_account \<noteq> None then ([], [Note ''account sent''])
            else if Option.bind (ci_local i) lo_fixed_account \<noteq> None then ([], [Note ''sending the account''])
            else if ci_local i \<noteq> None then ([Act_send_account], [])
            else ([], [Note ''no record on this device'']))
      else ([], []))"

definition seller_confirm :: "card_input \<Rightarrow> string \<Rightarrow> ln_action list" where
  "seller_confirm i state =
     (if account_gate state \<and> Option.bind (ci_local i) lo_account \<noteq> None \<or> state = ''remitted'' then [Act_confirm_paid] else [])"

definition seller_side :: "card_input \<Rightarrow> string \<Rightarrow> ln_side" where
  "seller_side i state =
     \<lparr>sd_cancel = (state = ''requested'' \<or> state = ''claimed'' \<or> state = ''verified''),
      sd_delete = (ci_local i \<noteq> None \<and> terminal_name state),
      sd_forfeits = ((state = ''claimed'' \<or> state = ''verified'')
        \<and> (given_s (Option.bind (ci_order i) lv_deposit_hash) \<noteq> None
           \<or> Option.bind (ci_local i) lo_deposit_status = Some Dep_accepted))\<rparr>"

definition seller_deposit_note :: "card_input \<Rightarrow> card_note list" where
  "seller_deposit_note i =
     (case (given_s (Option.bind (ci_local i) lo_deposit_bolt11), Option.bind (ci_local i) lo_deposit_status) of
        (Some _, Some st) \<Rightarrow> [deposit_note st]
      | _ \<Rightarrow> [])"

text \<open>The escrow must be paid before its invoice expires; \<open>expiry\<close> is what the invoice decoder says.\<close>

definition escrow_pay_note :: "(string \<Rightarrow> sec option) \<Rightarrow> card_input \<Rightarrow> string \<Rightarrow> signer option \<Rightarrow> card_note list" where
  "escrow_pay_note expiry i state role =
     (case Option.bind (given_s (Option.bind (ci_order i) lv_bolt11)) expiry of
        Some t \<Rightarrow>
          if state = ''verified'' \<and> t \<noteq> 0 \<and> role \<noteq> None
          then [Note_until ((if role = Some Customer then ''pay the escrow'' else ''seller pays the escrow'')
                  @ (if given_s (designated_sponsor_of (ci_order i) (ci_local i)) = None then '':deposits'' else [])) (Fin (of_int t))]
          else []
      | None \<Rightarrow> [])"

definition seller_wait_note :: "card_input \<Rightarrow> string \<Rightarrow> signer option \<Rightarrow> card_note list" where
  "seller_wait_note i state role =
     (case Option.bind (ci_order i) lv_invoice_deadline of
        Some d \<Rightarrow> if role = Some Customer \<and> state = ''escrowed'' then [Note_until ''buyer registers the invoice'' d] else []
      | None \<Rightarrow> [])"

definition buyer_deposit_part :: "card_input \<Rightarrow> string \<Rightarrow> bool \<Rightarrow> ln_action list \<times> card_note list" where
  "buyer_deposit_part i state pending =
     (let waits = (state = ''claimed'' \<and> given_s (Option.bind (ci_order i) lv_sponsor_deposit_hash) = None);
          unpaid = (case ci_deposit i of Some d \<Rightarrow> bd_bolt11 d \<noteq> [] \<and> bd_status d = None | None \<Rightarrow> False);
          status = Option.bind (ci_deposit i) bd_status in
      (if waits \<and> unpaid then [Act_pay Pay_sponsor_deposit (bd_bolt11 (the (ci_deposit i)))] else [],
       (if waits \<and> \<not> unpaid \<and> pending then [Note ''waiting for the deposit invoice''] else [])
         @ (case status of Some st \<Rightarrow> [deposit_note st] | None \<Rightarrow> [])))"

text \<open>
  A refused invoice may be registered again; once the payout began only after the daemon found the old one expired, so
  that a mere liquidity warning does not open the field.
\<close>

definition resubmit :: "card_input \<Rightarrow> string \<Rightarrow> bool" where
  "resubmit i state \<longleftrightarrow>
     ci_rejection i \<noteq> None
     \<and> (state = ''invoiced'' \<or> state = ''remitted''
        \<or> (state = ''paid'' \<or> state = ''sponsor_wins'')
          \<and> \<not> (case ci_order i of Some v \<Rightarrow> lv_disbursed v | None \<Rightarrow> False) \<and> \<not> ci_rejection_warns i)"

definition buyer_invoice :: "card_input \<Rightarrow> string \<Rightarrow> ln_action list \<times> card_note list" where
  "buyer_invoice i state =
     (if state = ''escrowed'' \<or> resubmit i state then [Act_register_invoice (ci_rejection i)] else [],
      case Option.bind (ci_order i) lv_invoice_deadline of
        Some d \<Rightarrow>
          if state = ''escrowed''
          then [Note_until (''register the invoice''
                  @ (if given_s (designated_sponsor_of (ci_order i) (ci_local i)) = None then '':deposits'' else [])) d]
          else []
      | None \<Rightarrow> [])"

definition buyer_transfer :: "card_input \<Rightarrow> string \<Rightarrow> ln_action list \<times> card_note list" where
  "buyer_transfer i state =
     (if state = ''invoiced''
      then (case ci_account i of Some a \<Rightarrow> ([Act_remit a], []) | None \<Rightarrow> ([], [Note ''waiting for the account'']))
      else ([], []))"

definition buyer_reveal :: "card_input \<Rightarrow> ln_action list" where
  "buyer_reveal i = (if ci_reveal i \<and> ci_account i \<noteq> None then [Act_reveal] else [])"

definition no_side :: ln_side where "no_side = \<lparr>sd_cancel = False, sd_delete = False, sd_forfeits = False\<rparr>"

text \<open>A trade without a published order: only this device knows it.\<close>

definition draft_card :: "(string \<Rightarrow> string) \<Rightarrow> card_input \<Rightarrow> ln_card" where
  "draft_card npub i =
     (let base = \<lparr>cv_role = Some Customer, cv_draft = True, cv_state = None, cv_badge = ''not registered'',
            cv_title = ''not registered'', cv_my_turn = False, cv_waiting_for = None, cv_terminal = False,
            cv_price = (case ci_local i of Some l \<Rightarrow> lo_price l | None \<Rightarrow> Fin 0),
            cv_deadline = (case ci_local i of Some l \<Rightarrow> lo_expiration l | None \<Rightarrow> Fin 0),
            cv_close_reason = None, cv_disbursed = False, cv_actions = [], cv_side = no_side\<lparr>sd_delete := True\<rparr>,
            cv_notes = [], cv_progress = (False, False), cv_designated = designated_of npub None (ci_local i) (Some Customer),
            cv_peer = None\<rparr>
      in case ci_local i of
        None \<Rightarrow> base\<lparr>cv_role := None, cv_title := ''not found'', cv_side := no_side\<rparr>
      | Some l \<Rightarrow>
          (let expired = past_deadline (lo_expiration l) (ci_now i) in
           if given_s (lo_raw l) = None
           then base\<lparr>cv_badge := ''unpublished'', cv_title := ''before publishing'', cv_my_turn := \<not> expired,
                  cv_actions := (if expired then [] else [Act_publish]),
                  cv_notes := (if expired then [Note ''too late to publish''] else [])\<rparr>
           else if lo_deposit_status l = Some Dep_cancelled \<or> lo_deposit_status l = Some Dep_settled \<or> expired
           then base\<lparr>cv_notes := [Note (if expired then ''deadline passed'' else ''deposit not paid in time'')]\<rparr>
           else (case given_s (lo_deposit_bolt11 l) of
               Some b \<Rightarrow>
                 if lo_deposit_status l = None
                 then base\<lparr>cv_badge := ''deposit due'', cv_title := ''pay the deposit'', cv_my_turn := True,
                        cv_actions := [Act_pay Pay_customer_deposit b], cv_notes := [Note ''the deposit lists the sale'']\<rparr>
                 else base\<lparr>cv_badge := ''registering'', cv_title := ''registering'', cv_waiting_for := Some ''escrow''\<rparr>
             | None \<Rightarrow> base\<lparr>cv_badge := ''registering'', cv_title := ''registering'', cv_waiting_for := Some ''escrow''\<rparr>)))"

definition ln_peer :: "card_input \<Rightarrow> string \<Rightarrow> signer option \<Rightarrow> string option \<Rightarrow> bool \<Rightarrow> bool \<Rightarrow> (string \<times> bool) option" where
  "ln_peer i state role sponsor pending wrong =
     (let other = (case role of Some Customer \<Rightarrow> sponsor | Some Sponsor \<Rightarrow> map_option lv_customer (ci_order i) | None \<Rightarrow> None) in
      if given_s sponsor \<noteq> None \<and> \<not> pending \<and> \<not> wrong
      then map_option (\<lambda>k. (k, terminal_name state)) (given_s other) else None)"

definition trade_card :: "(string \<Rightarrow> string) \<Rightarrow> (string \<Rightarrow> sec option) \<Rightarrow> card_input \<Rightarrow> string \<Rightarrow> ln_card" where
  "trade_card npub expiry i state =
     (let role = ln_role_of (ci_order i) (ci_local i) (ci_me i);
          sponsor = coalesce (Option.bind (ci_order i) lv_sponsor) (Option.bind (ci_local i) lo_sponsor);
          deadline = (case coalesce (map_option lv_expiration (ci_order i)) (map_option lo_expiration (ci_local i)) of
                        Some d \<Rightarrow> d | None \<Rightarrow> Fin 0);
          past = past_deadline deadline (ci_now i);
          pending = (state = ''claimed'' \<and> (case ci_order i of Some v \<Rightarrow> lv_sponsor_deposit_pending v | None \<Rightarrow> False));
          accountSent = (if role = Some Customer then Option.bind (ci_local i) lo_account \<noteq> None else ci_account i \<noteq> None);
          summary = summarize (case role of Some r \<Rightarrow> r | None \<Rightarrow> Sponsor) state accountSent pending;
          wrong = wrong_sponsor i role sponsor;
          seller = (role = Some Customer); buyer = (role = Some Sponsor);
          account = seller_account i state sponsor wrong; deposit = buyer_deposit_part i state pending;
          invoice = buyer_invoice i state; transfer = buyer_transfer i state
      in \<lparr>cv_role = role, cv_draft = False, cv_state = Some state, cv_badge = ln_order_display state pending,
          cv_title = sm_title summary, cv_my_turn = (role \<noteq> None \<and> sm_my_turn summary),
          cv_waiting_for = (if role = None \<or> \<not> sm_my_turn summary then Option.bind (sm_actor summary) actor_label else None),
          cv_terminal = terminal_name state,
          cv_price = (case coalesce (map_option lv_price (ci_order i)) (map_option lo_price (ci_local i)) of
                        Some p \<Rightarrow> p | None \<Rightarrow> Fin 0),
          cv_deadline = deadline,
          cv_close_reason = given_s (coalesce (Option.bind (ci_order i) lv_close_reason) (Option.bind (ci_local i) lo_close_reason)),
          cv_disbursed = (case ci_order i of Some v \<Rightarrow> lv_disbursed v | None \<Rightarrow> False),
          cv_actions =
            (if seller then seller_pay i state past wrong @ fst account @ seller_confirm i state
             else if buyer then fst deposit @ fst invoice @ fst transfer @ buyer_reveal i else []),
          cv_side = (if seller then seller_side i state else no_side),
          cv_notes =
            (if wrong then [Note ''not the designated buyer''] else [])
            @ (if seller then snd account @ seller_deposit_note i else [])
            @ escrow_pay_note expiry i state role @ seller_wait_note i state role
            @ (if buyer then snd deposit @ snd invoice @ snd transfer else [])
            @ (if role = None \<and> ci_order i \<noteq> None then [Note ''no longer mine''] else []),
          cv_progress = (accountSent, pending),
          cv_designated = designated_of npub (ci_order i) (ci_local i) role,
          cv_peer = ln_peer i state role sponsor pending wrong\<rparr>)"

definition ln_card_view :: "(string \<Rightarrow> string) \<Rightarrow> (string \<Rightarrow> sec option) \<Rightarrow> card_input \<Rightarrow> ln_card" where
  "ln_card_view npub expiry i =
     (case given_s (coalesce (map_option lv_state (ci_order i)) (Option.bind (ci_local i) lo_admin_state)) of
        None \<Rightarrow> draft_card npub i
      | Some state \<Rightarrow> trade_card npub expiry i state)"

subsection \<open>The card of an on-chain trade\<close>

record sign_request =
  sq_order :: string
  sq_purpose :: sign_purpose
  sq_psbt :: string
  sq_received :: sec
  sq_outpoint :: "string option"

datatype account_part = Account_form | Account_late

record oc_card =
  ov_actionable :: "sign_request list"
  ov_dispute_open :: bool
  ov_peer :: "(string \<times> bool) option"
  ov_cancel :: bool
  ov_escrow_address :: bool
  ov_presign_status :: bool
  ov_account :: "account_part option"
  ov_remit :: bool
  ov_designated :: "string option"

definition is_onchain_dispute_open :: "oc_ord \<Rightarrow> bool" where
  "is_onchain_dispute_open r \<longleftrightarrow>
     oo_state r = Oc_disputed \<or> oo_state r = Oc_refunding \<and> oo_settlement_kind r = Some Refund_account_disputed"

definition onchain_peer_chat :: "oc_ord \<Rightarrow> signer \<Rightarrow> (string \<times> bool) option" where
  "onchain_peer_chat r role =
     (if oo_state r = Oc_listed then None
      else map_option (\<lambda>s. (if role = Customer then s else oo_customer r, is_onchain_terminal (oo_state r))) (given_s (oo_sponsor r)))"

definition onchain_card_view :: "(string \<Rightarrow> string) \<Rightarrow> oc_ord \<Rightarrow> signer \<Rightarrow> sec \<Rightarrow> sign_request list \<Rightarrow> oc_card" where
  "onchain_card_view npub r role now requests =
     (let state = oo_state r; customer = (role = Customer); sponsor = (role = Sponsor);
          owesAccount = (customer \<and> state = Oc_presigned \<and> truthy (oo_account_sent_at r) = None)
      in \<lparr>ov_actionable = filter (\<lambda>q. can_act_on_sign_request state (sq_purpose q) (oo_settlement_kind r)) requests,
          ov_dispute_open = is_onchain_dispute_open r,
          ov_peer = onchain_peer_chat r role,
          ov_cancel = (customer \<and> state = Oc_listed),
          ov_escrow_address = (customer \<and> state = Oc_bonded),
          ov_presign_status = (sponsor \<and> state = Oc_funded \<and> oo_settlement_kind r = None),
          ov_account = (if owesAccount
            then Some (if is_past (account_deadline_of (oo_presigned_at r) (oo_account_deadline r)) now then Account_late else Account_form)
            else None),
          ov_remit = (sponsor \<and> state = Oc_presigned),
          ov_designated = map_option (\<lambda>d. if customer then check_code npub d else []) (given_s (oo_designated r))\<rparr>)"

end
