(* ===== verification/Cards_Agree.thy ===== *)
theory Cards_Agree
  imports Cards Ln_Publish Ln_Requests App_Checks
begin

text \<open>
  The apps and the daemon agree on what can be done: what a card offers, drawn from the order the daemon published, the
  daemon's handler of the request behind the button carries out, and a card warns of a forfeited deposit exactly when
  cancelling would forfeit it.
\<close>

subsection \<open>The card of a published order\<close>

definition reads_order :: "card_input \<Rightarrow> ln_order \<Rightarrow> 'm db_scheme \<Rightarrow> bool" where
  "reads_order i r w \<longleftrightarrow> (\<exists>u c. ci_order i = Some (ln_view_of (ln_fields_of r w) u c))"

lemma order_state_str_given [simp]: "order_state_str s \<noteq> []" by (cases s) simp_all

lemma given_state [simp]: "given_s (Some (order_state_str s)) = Some (order_state_str s)"
  by (simp add: given_s_def opt_given_def)

lemma given_s_SomeD: "given_s v = Some k \<Longrightarrow> v = Some k"
  by (simp add: given_s_def split: if_splits)

lemma card_is_trade_card:
  assumes "reads_order i r w"
  shows "ln_card_view npub expiry i = trade_card npub expiry i (order_state_str (o_state r))"
  using assms by (auto simp: reads_order_def ln_card_view_def ln_view_of_def ln_fields_of_def)

lemma role_of_order:
  assumes "reads_order i r w" and "ci_me i = Some me" and "me \<noteq> []"
  shows "ln_role_of (ci_order i) (ci_local i) (ci_me i)
     = (if o_customer r = me then Some Customer else if o_sponsor r = Some me then Some Sponsor else None)"
proof -
  have me: "given_s (Some me) = Some me" and iff: "given_s v = Some me \<longleftrightarrow> v = Some me" for v
    using assms(3) by (auto simp: given_s_def opt_given_def)
  obtain v where "ci_order i = Some v" "lv_customer v = o_customer r" "lv_sponsor v = given_s (o_sponsor r)"
    using assms(1) unfolding reads_order_def ln_view_of_def ln_fields_of_def by force
  then show ?thesis using assms(2) me iff [of "o_sponsor r"] by (simp add: ln_role_of_def)
qed

lemma card_role: "cv_role (trade_card npub expiry i s) = ln_role_of (ci_order i) (ci_local i) (ci_me i)"
  by (simp add: trade_card_def Let_def)

lemma card_side:
  "cv_side (trade_card npub expiry i s)
     = (if ln_role_of (ci_order i) (ci_local i) (ci_me i) = Some Customer then seller_side i s else no_side)"
  by (simp add: trade_card_def Let_def)

lemma card_actions:
  "cv_actions (trade_card npub expiry i s)
     = (let role = ln_role_of (ci_order i) (ci_local i) (ci_me i);
            sponsor = coalesce (Option.bind (ci_order i) lv_sponsor) (Option.bind (ci_local i) lo_sponsor);
            past = past_deadline (case coalesce (map_option lv_expiration (ci_order i)) (map_option lo_expiration (ci_local i)) of
                Some d \<Rightarrow> d | None \<Rightarrow> Fin 0) (ci_now i);
            pending = (s = ''claimed'' \<and> (case ci_order i of Some v \<Rightarrow> lv_sponsor_deposit_pending v | None \<Rightarrow> False));
            wrong = wrong_sponsor i role sponsor in
        if role = Some Customer then seller_pay i s past wrong @ fst (seller_account i s sponsor wrong) @ seller_confirm i s
        else if role = Some Sponsor
        then fst (buyer_deposit_part i s pending) @ fst (buyer_invoice i s) @ fst (buyer_transfer i s) @ buyer_reveal i else [])"
  by (simp add: trade_card_def Let_def)

lemma account_gate_str: "account_gate (order_state_str s) \<longleftrightarrow> s = Invoiced \<or> s = Remitted"
  by (simp add: account_gate_def can_send_account_info_def)

lemma order_state_str_eq: "order_state_str s = order_state_str t \<longleftrightarrow> s = t"
  by (metis option.inject order_state_of_str)

lemma state_named:
  "order_state_str s = ''requested'' \<longleftrightarrow> s = Requested" "order_state_str s = ''claimed'' \<longleftrightarrow> s = Claimed"
  "order_state_str s = ''verified'' \<longleftrightarrow> s = Verified" "order_state_str s = ''escrowed'' \<longleftrightarrow> s = Escrowed"
  "order_state_str s = ''invoiced'' \<longleftrightarrow> s = Invoiced" "order_state_str s = ''remitted'' \<longleftrightarrow> s = Remitted"
  "order_state_str s = ''paid'' \<longleftrightarrow> s = Paid" "order_state_str s = ''sponsor_wins'' \<longleftrightarrow> s = Sponsor_wins"
  by (cases s; simp)+

text \<open>Who is offered what, and in which states.\<close>

lemma offered_confirm:
  assumes "Act_confirm_paid \<in> set (cv_actions (trade_card npub expiry i (order_state_str s)))"
  shows "ln_role_of (ci_order i) (ci_local i) (ci_me i) = Some Customer \<and> (s = Invoiced \<or> s = Remitted)"
  using assms
  by (auto simp: card_actions Let_def seller_pay_def seller_account_def seller_confirm_def buyer_deposit_part_def
      buyer_invoice_def buyer_transfer_def buyer_reveal_def account_gate_str state_named split: if_splits option.splits)

lemma offered_account:
  assumes "Act_send_account \<in> set (cv_actions (trade_card npub expiry i (order_state_str s)))"
  shows "ln_role_of (ci_order i) (ci_local i) (ci_me i) = Some Customer \<and> (s = Invoiced \<or> s = Remitted)"
  using assms
  by (auto simp: card_actions Let_def seller_pay_def seller_account_def seller_confirm_def buyer_deposit_part_def
      buyer_invoice_def buyer_transfer_def buyer_reveal_def account_gate_str state_named split: if_splits option.splits)

lemma offered_remit:
  assumes "Act_remit a \<in> set (cv_actions (trade_card npub expiry i (order_state_str s)))"
  shows "ln_role_of (ci_order i) (ci_local i) (ci_me i) = Some Sponsor \<and> s = Invoiced"
  using assms
  by (auto simp: card_actions Let_def seller_pay_def seller_account_def seller_confirm_def buyer_deposit_part_def
      buyer_invoice_def buyer_transfer_def buyer_reveal_def account_gate_str state_named split: if_splits option.splits)

lemma offered_invoice:
  assumes "Act_register_invoice n \<in> set (cv_actions (trade_card npub expiry i (order_state_str s)))"
  shows "ln_role_of (ci_order i) (ci_local i) (ci_me i) = Some Sponsor
    \<and> (s \<in> {Escrowed, Invoiced, Remitted}
       \<or> s \<in> {Paid, Sponsor_wins} \<and> (case ci_order i of Some v \<Rightarrow> \<not> lv_disbursed v | None \<Rightarrow> True))"
  using assms
  by (auto simp: card_actions Let_def seller_pay_def seller_account_def seller_confirm_def buyer_deposit_part_def
      buyer_invoice_def buyer_transfer_def buyer_reveal_def account_gate_str state_named resubmit_def
      split: if_splits option.splits)

subsection \<open>The handlers on the states they wait for\<close>

definition cancel_close :: "order_state \<Rightarrow> close_reason" where
  "cancel_close s = (if s = Requested then CR_cancel_customer else CR_cancel_customer_after_claim)"

lemma begin_close_starts:
  fixes w :: "'m db_scheme"
  assumes "get_order (o_id r) w = Some r" and "o_pending_close r = None" and "can_transition (o_state r) (cl_terminal (close_rules c))"
  shows "\<exists>w'. begin_close r c w = Some (True, w') \<and> map_option o_pending_close (get_order (o_id r) w') = Some (Some c)"
proof -
  have "\<not> ln_terminal (o_state r)" using assms(3) ln_table.terminal_stuck by blast
  moreover obtain b w' where w': "begin_close r c w = Some (b, w')" using begin_close_Some [OF assms(1), of c] assms(3) by blast
  ultimately show ?thesis
    using begin_close_puts [OF w' assms(1)] assms(2) putsD [of "o_id r" _ w w' "o_id r"]
    by (auto simp: bump_def split: if_splits)
qed

lemma update_order_ex: "get_order oid w = Some r \<Longrightarrow> \<exists>r' w'. update_order oid patch w = Some (r', w')"
  using update_order_Some [of oid w r patch] by blast

lemma cancel_accepted:
  fixes w :: "'m db_scheme"
  assumes "get_order (o_id r) w = Some r" and "o_pending_close r = None" and "o_customer r = ie_pubkey ev"
    and "o_state r = Requested \<or> o_state r = Claimed \<or> o_state r = Verified"
  shows "\<exists>w'. cancel_order e ev r w = Some (H_ok, w')
    \<and> map_option o_pending_close (get_order (o_id r) w') = Some (Some (cancel_close (o_state r)))"
proof -
  have "can_transition (o_state r) (cl_terminal (close_rules (cancel_close (o_state r))))"
    using assms(4) by (auto simp: cancel_close_def can_transition_def)
  from begin_close_starts [OF assms(1,2) this]
  obtain w' where w': "begin_close r (cancel_close (o_state r)) w = Some (True, w')"
      "map_option o_pending_close (get_order (o_id r) w') = Some (Some (cancel_close (o_state r)))" by blast
  moreover have "cancel_order e ev r w = Some (H_ok, w')"
    using assms(4) w'(1) unfolding cancel_order_def cancel_close_def by (elim disjE) (simp_all add: assms(2,3))
  ultimately show ?thesis by blast
qed

lemma confirm_accepted:
  fixes w :: "'m db_scheme"
  assumes "get_order (o_id r) w = Some r" and "o_pending_close r = None" and "o_customer r = ie_pubkey ev"
    and "o_state r = Invoiced \<or> o_state r = Remitted"
  shows "\<exists>w'. payment_confirm e ev r w = Some (H_ok, w')"
proof -
  have "can_transition (o_state r) (cl_terminal (close_rules CR_paid))" using assms(4) by (auto simp: can_transition_def)
  from begin_close_starts [OF assms(1,2) this] assms show ?thesis by (auto simp: payment_confirm_def)
qed

lemma account_accepted:
  fixes w :: "'m db_scheme"
  assumes "get_order (o_id r) w = Some r" and "o_customer r = ie_pubkey ev" and "o_state r = Invoiced \<or> o_state r = Remitted"
    and "tag_value ''commitment'' (ie_tags ev) = Some c" and "is_hex64 c" and "o_account_commitment r \<noteq> Some c"
  shows "\<exists>w'. account_info e ev r w = Some (H_ok, w')"
  using assms by (auto simp: account_info_def intro: update_order_ex)

lemma remit_accepted:
  fixes w :: "'m db_scheme"
  assumes "get_order (o_id r) w = Some r" and "o_pending_close r = None" and "o_sponsor r = Some (ie_pubkey ev)"
    and "o_state r = Invoiced" and "ie_created_at ev \<le> o_deadline r + DEADLINE_GRACE_SEC"
  shows "\<exists>w'. remit_request e ev r w = Some (H_ok, w')"
  using assms by (auto simp: remit_request_def intro: update_order_ex)

text \<open>An invoice in order: it can be read, is not the daemon's own, is for the promised payout to the satoshi and lives long
  enough; it is not the registered one; the escrow is not about to end; before the first registration the invoice
  deadline has not passed; and while a payout is under way, the last invoice is known to have expired.\<close>

definition invoice_in_order :: "env \<Rightarrow> inbox_event \<Rightarrow> ln_order \<Rightarrow> 'm db_scheme \<Rightarrow> bool" where
  "invoice_in_order e ev r w \<longleftrightarrow>
     (\<exists>s b info. tag_value ''bolt11'' (ie_tags ev) = Some s \<and> b = js_trim s \<and> b \<noteq> [] \<and> e_bolt11 e b = Some info
        \<and> \<not> hold_is_ours (b11_hash info) w \<and> is_payout_amount_exact (o_payout_sat r) (b11_amount info)
        \<and> LN_MIN_SPONSOR_INVOICE_LIFETIME_SEC \<le> b11_expires info - now_sec w \<and> o_sponsor_invoice r \<noteq> Some b)
     \<and> \<not> escrow_ending_soon r w
     \<and> (\<forall>d. o_state r = Escrowed \<and> o_invoice_deadline r = Some d \<longrightarrow> min (ie_created_at ev) (now_sec w) \<le> d)
     \<and> (payout_pending r \<longrightarrow> o_payout_error r = Some LN_PAYOUT_INVOICE_EXPIRED)"

lemma store_invoice_ex: "get_order (o_id r) w = Some r \<Longrightarrow> \<exists>w'. store_invoice r b w = Some w'"
  using update_order_ex [of "o_id r" w r "\<lambda>x. x\<lparr>o_state := Invoiced, o_sponsor_invoice := Some b\<rparr>"]
    update_order_ex [of "o_id r" w r "\<lambda>x. x\<lparr>o_sponsor_invoice := Some b, o_payout_error := None\<rparr>"]
  by (auto simp: store_invoice_def)

lemma invoice_accepted:
  fixes w :: "'m db_scheme"
  assumes "get_order (o_id r) w = Some r" and "o_pending_close r = None" and "o_sponsor r = Some (ie_pubkey ev)"
    and "o_state r \<in> {Escrowed, Invoiced, Remitted} \<or> payout_pending r"
  shows "(\<exists>w'. sponsor_invoice e ev r w = Some (H_ok, w')) \<longleftrightarrow> invoice_in_order e ev r w"
proof
  assume "\<exists>w'. sponsor_invoice e ev r w = Some (H_ok, w')"
  then show "invoice_in_order e ev r w" using assms(2-4)
    by (auto simp: sponsor_invoice_def invoice_in_order_def invoice_blocker_def Let_def reject_invoice_def
        split: option.splits if_splits)
next
  assume ok: "invoice_in_order e ev r w"
  then obtain s info where i: "tag_value ''bolt11'' (ie_tags ev) = Some s" "js_trim s \<noteq> []" "e_bolt11 e (js_trim s) = Some info"
      "\<not> hold_is_ours (b11_hash info) w" "is_payout_amount_exact (o_payout_sat r) (b11_amount info)"
      "\<not> b11_expires info - now_sec w < LN_MIN_SPONSOR_INVOICE_LIFETIME_SEC" "\<not> escrow_ending_soon r w"
    by (auto simp: invoice_in_order_def)
  have "invoice_blocker ev r (js_trim s) w = None"
    using ok assms(4) i(1) by (auto simp: invoice_blocker_def invoice_in_order_def not_less split: option.splits)
  then show "\<exists>w'. sponsor_invoice e ev r w = Some (H_ok, w')"
    using assms(2,3) i store_invoice_ex [OF assms(1), of "js_trim s"] by (auto simp: sponsor_invoice_def)
qed

subsection \<open>The daemon accepts what the card offers\<close>

text \<open>C11. What the card of a published Lightning order offers, the daemon carries out.  Let the app read the order the
  daemon published and let no close be in progress.  If the card offers its viewer to cancel or to confirm the payment,
  the request the viewer signs is carried out; so is the account, given a commitment that is new, and the report of the
  transfer, when it is made by the deadline.  If the card offers to register an invoice, the viewer is the trade's
  sponsor, the state of the trade is no obstacle, and the invoice is registered exactly when it is in order: readable, not
  the daemon's own, of the promised amount, living long enough, not the registered one, with the escrow not ending soon,
  the first one by the invoice deadline, and one for a payout under way only after the last invoice expired.\<close>

theorem ln_card_actions_accepted:
  assumes "get_order oid w = Some r" and "o_pending_close r = None" and "reads_order i r w"
    and "ci_me i = Some (ie_pubkey ev)" and "ie_pubkey ev \<noteq> []" and "shown = ln_card_view npub expiry i"
  shows "(sd_cancel (cv_side shown) \<longrightarrow> (\<exists>w'. cancel_order e ev r w = Some (H_ok, w')))
    \<and> (Act_confirm_paid \<in> set (cv_actions shown) \<longrightarrow> (\<exists>w'. payment_confirm e ev r w = Some (H_ok, w')))
    \<and> (Act_send_account \<in> set (cv_actions shown) \<longrightarrow> tag_value ''commitment'' (ie_tags ev) = Some c \<longrightarrow> is_hex64 c
        \<longrightarrow> o_account_commitment r \<noteq> Some c \<longrightarrow> (\<exists>w'. account_info e ev r w = Some (H_ok, w')))
    \<and> (Act_remit a \<in> set (cv_actions shown) \<longrightarrow> ie_created_at ev \<le> o_deadline r + DEADLINE_GRACE_SEC
        \<longrightarrow> (\<exists>w'. remit_request e ev r w = Some (H_ok, w')))
    \<and> (Act_register_invoice n \<in> set (cv_actions shown)
        \<longrightarrow> o_sponsor r = Some (ie_pubkey ev) \<and> invoice_blocker ev r b w \<noteq> Some ''bad-state''
          \<and> ((\<exists>w'. sponsor_invoice e ev r w = Some (H_ok, w')) \<longleftrightarrow> invoice_in_order e ev r w))"
proof -
  have g: "get_order (o_id r) w = Some r" by (rule get_order_id [OF assms(1)])
  have card: "shown = trade_card npub expiry i (order_state_str (o_state r))"
    unfolding assms(6) by (rule card_is_trade_card [OF assms(3)])
  note role = role_of_order [OF assms(3,4,5)]
  have view: "\<exists>v. ci_order i = Some v \<and> lv_disbursed v = o_disbursed r"
    using assms(3) by (auto simp: reads_order_def ln_view_of_def ln_fields_of_def)
  have customer: "ln_role_of (ci_order i) (ci_local i) (ci_me i) = Some Customer \<Longrightarrow> o_customer r = ie_pubkey ev"
    and sponsor: "ln_role_of (ci_order i) (ci_local i) (ci_me i) = Some Sponsor \<Longrightarrow> o_sponsor r = Some (ie_pubkey ev)"
    using role by (auto split: if_splits)
  show ?thesis
  proof (intro conjI impI)
    assume "sd_cancel (cv_side shown)"
    then have "ln_role_of (ci_order i) (ci_local i) (ci_me i) = Some Customer"
      and "o_state r = Requested \<or> o_state r = Claimed \<or> o_state r = Verified"
      by (auto simp: card card_side seller_side_def no_side_def state_named split: if_splits)
    then show "\<exists>w'. cancel_order e ev r w = Some (H_ok, w')" using cancel_accepted [OF g assms(2) customer] by blast
  next
    assume "Act_confirm_paid \<in> set (cv_actions shown)"
    from offered_confirm [OF this [unfolded card]]
    show "\<exists>w'. payment_confirm e ev r w = Some (H_ok, w')" using confirm_accepted [OF g assms(2) customer] by blast
  next
    assume "Act_send_account \<in> set (cv_actions shown)"
      and c: "tag_value ''commitment'' (ie_tags ev) = Some c" "is_hex64 c" "o_account_commitment r \<noteq> Some c"
    from offered_account [OF this(1) [unfolded card]]
    show "\<exists>w'. account_info e ev r w = Some (H_ok, w')" using account_accepted [OF g customer _ c] by blast
  next
    assume "Act_remit a \<in> set (cv_actions shown)" and t: "ie_created_at ev \<le> o_deadline r + DEADLINE_GRACE_SEC"
    from offered_remit [OF this(1) [unfolded card]]
    show "\<exists>w'. remit_request e ev r w = Some (H_ok, w')" using remit_accepted [OF g assms(2) sponsor _ t] by blast
  next
    assume "Act_register_invoice n \<in> set (cv_actions shown)"
    note o = offered_invoice [OF this [unfolded card]]
    then show r: "o_sponsor r = Some (ie_pubkey ev)" using sponsor by blast
    have "o_state r \<in> {Escrowed, Invoiced, Remitted} \<or> payout_pending r"
      using o view by (auto simp: payout_pending_def)
    then show "(\<exists>w'. sponsor_invoice e ev r w = Some (H_ok, w')) = invoice_in_order e ev r w"
      by (rule invoice_accepted [OF g assms(2) r])
    show "invoice_blocker ev r b w \<noteq> Some ''bad-state''"
      using o view by (auto simp: invoice_blocker_def payout_pending_def split: option.splits)
  qed
qed

subsection \<open>The warning before a deposit is forfeited\<close>

lemma card_forfeits:
  assumes "reads_order i r w" and "ci_me i = Some (o_customer r)" and "o_customer r \<noteq> []"
    and "o_customer_deposit_hash r = Some h" and "h \<noteq> []"
  shows "sd_forfeits (cv_side (ln_card_view npub expiry i)) \<longleftrightarrow> o_state r = Claimed \<or> o_state r = Verified"
proof -
  obtain v where v: "ci_order i = Some v" "lv_deposit_hash v = given_s (o_customer_deposit_hash r)"
    using assms(1) unfolding reads_order_def ln_view_of_def ln_fields_of_def by force
  have "given_s (Option.bind (ci_order i) lv_deposit_hash) \<noteq> None"
    using v assms(4,5) by (simp add: given_s_def opt_given_def)
  then show ?thesis using role_of_order [OF assms(1-3)]
    by (auto simp: card_is_trade_card [OF assms(1)] card_side seller_side_def state_named)
qed

text \<open>C12. Nobody loses a deposit unwarned: when the card of a published order offers its seller to cancel, the request is
  carried out and starts a close, and that close settles the seller's live deposit exactly when the card said it would
  be forfeited.\<close>

theorem cancel_warns_of_forfeit:
  assumes "get_order oid w = Some r" and "o_pending_close r = None" and "reads_order i r w"
    and "ci_me i = Some (ie_pubkey ev)" and "ie_pubkey ev \<noteq> []" and "sd_cancel (cv_side (ln_card_view npub expiry i))"
    and "o_customer_deposit_hash r = Some (h_hash iv)" and "h_hash iv \<noteq> []" and "h_purpose iv = Ln_customer_deposit"
    and "is_live_hold iv"
  shows "\<exists>c w'. cancel_order e ev r w = Some (H_ok, w')
    \<and> map_option o_pending_close (get_order oid w') = Some (Some c)
    \<and> (close_want (close_rules c) r iv = Some Want_settle \<longleftrightarrow> sd_forfeits (cv_side (ln_card_view npub expiry i)))"
proof -
  note card = card_is_trade_card [OF assms(3), of npub expiry]
  have side: "ln_role_of (ci_order i) (ci_local i) (ci_me i) = Some Customer"
    using assms(6) by (auto simp: card card_side no_side_def split: if_splits)
  then have customer: "o_customer r = ie_pubkey ev" using role_of_order [OF assms(3-5)] by (auto split: if_splits)
  have state: "o_state r = Requested \<or> o_state r = Claimed \<or> o_state r = Verified"
    using assms(6) side by (auto simp: card card_side seller_side_def state_named)
  have "sd_forfeits (cv_side (ln_card_view npub expiry i)) \<longleftrightarrow> o_state r \<noteq> Requested"
    using card_forfeits [OF assms(3) _ _ assms(7,8), of npub expiry] assms(4,5) customer state by auto
  moreover have "close_want (close_rules (cancel_close (o_state r))) r iv = Some Want_settle \<longleftrightarrow> o_state r \<noteq> Requested"
    using state assms(9,10) by (auto simp: close_want_def deposit_disposition_def cancel_close_def)
  moreover have "oid = o_id r" using assms(1) by (auto simp: get_order_def dest: find_Some_D)
  ultimately show ?thesis
    using cancel_accepted [OF get_order_id [OF assms(1)] assms(2) customer state, of e] by blast
qed

subsection \<open>The on-chain card\<close>

definition signed_as :: "signer \<Rightarrow> oc_ord \<Rightarrow> inbox_event \<Rightarrow> bool" where
  "signed_as role r ev = (if role = Customer then oo_customer r = ie_pubkey ev else oo_sponsor r = Some (ie_pubkey ev))"

lemma is_past_mono: "is_past d t \<Longrightarrow> t \<le> u \<Longrightarrow> is_past d u"
  by (auto simp: is_past_def split: option.splits)

lemma update_oc_same_state:
  fixes w :: "'m odb_scheme"
  assumes "get_oc oid w = Some row" and "oo_state (patch (ow_order row)) = oo_state (ow_order row)"
  shows "\<exists>u w'. update_oc oid patch mp w = Some (u, w')"
  using assms by (simp add: update_oc_def Let_def)

lemma oc_account_accepted:
  fixes w :: "'m odb_scheme"
  assumes "get_oc oid w = Some row" and "oo_customer (ow_order row) = ie_pubkey ev" and "oo_state (ow_order row) = Oc_presigned"
    and "truthy (oo_account_sent_at (ow_order row)) = None" and "oo_settlement_kind (ow_order row) = None"
    and "\<not> is_past (account_deadline_of (oo_presigned_at (ow_order row)) (oo_account_deadline (ow_order row))) (request_at ev w)"
  shows "\<exists>w'. oc_account_info x e ev row w = Some (H_ok, w')"
  using update_oc_same_state [OF get_oc_id [OF assms(1)],
      of "\<lambda>o1. o1\<lparr>oo_account_sent_at := Some (now_sec w), oo_krw_deadline := Some (krw_deadline_from (now_sec w))\<rparr>"] assms(2-6)
  by (simp add: oc_account_info_def Let_def)

lemma oc_remit_accepted:
  fixes w :: "'m odb_scheme"
  assumes "get_oc oid w = Some row" and "oo_sponsor (ow_order row) = Some (ie_pubkey ev)" and "oo_state (ow_order row) = Oc_presigned"
    and "truthy (oo_account_sent_at (ow_order row)) \<noteq> None" and "oo_settlement_kind (ow_order row) = None"
    and "\<not> is_past (krw_deadline_of (oo_krw_deadline (ow_order row)) (oo_account_sent_at (ow_order row))) (request_at ev w)"
  shows "\<exists>w'. oc_remit x e ev row w = Some (H_ok, w')"
proof -
  let ?patch = "\<lambda>o1. o1\<lparr>oo_state := Oc_remitted, oo_remitted_at := Some (now_sec w),
    oo_cosign_deadline := Some (cosign_deadline_from (now_sec w))\<rparr>"
  obtain u w1 where "update_oc (oo_id (ow_order row)) ?patch id w = Some (u, w1)"
      "get_oc (oo_id (ow_order row)) w1 = Some (put_oc (now_sec w) ?patch id row)"
    using update_oc_some [OF get_oc_id [OF assms(1)], of ?patch id] assms(3) by (auto simp: can_onchain_transition_def)
  with assms(2-6) show ?thesis by (auto simp: oc_remit_def Let_def oc_updated_def)
qed

lemma oc_cancel_accepted:
  fixes w :: "'m odb_scheme"
  assumes "get_oc oid w = Some row" and "oo_customer (ow_order row) = ie_pubkey ev" and "oo_state (ow_order row) = Oc_listed"
    and "extract_order_id (ie_tags ev) = Some oid" and "oid \<noteq> []"
  shows "\<exists>w'. oc_cancel x e ev w = Some (H_ok, w')"
proof -
  let ?patch = "\<lambda>r. r\<lparr>oo_state := Oc_cancelled\<rparr>"
  obtain u w1 where u: "update_oc oid ?patch id w = Some (u, w1)" "get_oc oid w1 = Some (put_oc (now_sec w) ?patch id row)"
    using update_oc_some [OF assms(1), of ?patch id] assms(3) by (auto simp: can_onchain_transition_def)
  moreover have "get_oc oid (apply_outcome e u (No_tx Cancel_by_customer) w1) = get_oc oid w1"
    by (rule get_oc_quiet) simp
  ultimately show ?thesis using assms by (simp add: oc_cancel_def given_s_def opt_given_def)
qed

lemma cosign_not_now:
  assumes "tag_value ''purpose'' (ie_tags ev) = Some (sign_purpose_str p)" and "p \<noteq> SP_rescue"
    and "\<not> can_act_on_sign_request (oo_state (ow_order row)) p (oo_settlement_kind (ow_order row))"
  shows "oc_cosign x e ev row w = Some (H_ignored ''not-now'', w)"
proof -
  have "sign_purpose_of (sign_purpose_str p) = Some p" by (cases p) (simp_all add: sign_purpose_of_def)
  with assms show ?thesis by (simp add: oc_cosign_def cosign_for_def Let_def ignored_def)
qed

text \<open>C13. The card of an on-chain trade opens what the daemon takes, and nothing the daemon would refuse.  While no settlement is
  decided, a party that signs within the shown time is heard: the seller who is offered to withdraw the order or to send
  the account, and the buyer who is offered to report the transfer once the account came and in time.  A stored signature
  request the card does not show is one the daemon ignores.\<close>

theorem oc_card_actions_accepted:
  fixes w :: "'m odb_scheme"
  assumes "get_oc oid w = Some row" and "oid \<noteq> []" and "signed_as role (ow_order row) ev" and "request_at ev w \<le> now"
    and "shown = onchain_card_view npub (ow_order row) role now requests"
  shows "(ov_cancel shown \<longrightarrow> extract_order_id (ie_tags ev) = Some oid \<longrightarrow> (\<exists>w'. oc_cancel x e ev w = Some (H_ok, w')))
    \<and> (ov_account shown = Some Account_form \<longrightarrow> oo_settlement_kind (ow_order row) = None
        \<longrightarrow> (\<exists>w'. oc_account_info x e ev row w = Some (H_ok, w')))
    \<and> (ov_remit shown \<longrightarrow> oo_settlement_kind (ow_order row) = None \<longrightarrow> truthy (oo_account_sent_at (ow_order row)) \<noteq> None
        \<longrightarrow> \<not> is_past (krw_deadline_of (oo_krw_deadline (ow_order row)) (oo_account_sent_at (ow_order row))) now
        \<longrightarrow> (\<exists>w'. oc_remit x e ev row w = Some (H_ok, w')))
    \<and> (\<forall>q \<in> set requests. q \<notin> set (ov_actionable shown) \<longrightarrow> tag_value ''purpose'' (ie_tags ev) = Some (sign_purpose_str (sq_purpose q))
        \<longrightarrow> oc_cosign x e ev row w = Some (H_ignored ''not-now'', w))"
proof (intro conjI impI ballI)
  assume "ov_cancel shown" and t: "extract_order_id (ie_tags ev) = Some oid"
  then have "oo_customer (ow_order row) = ie_pubkey ev" "oo_state (ow_order row) = Oc_listed"
    using assms(3,5) by (auto simp: onchain_card_view_def Let_def signed_as_def)
  then show "\<exists>w'. oc_cancel x e ev w = Some (H_ok, w')" using oc_cancel_accepted [OF assms(1) _ _ t assms(2)] by blast
next
  assume "ov_account shown = Some Account_form" and k: "oo_settlement_kind (ow_order row) = None"
  then have a: "oo_customer (ow_order row) = ie_pubkey ev" "oo_state (ow_order row) = Oc_presigned"
      "truthy (oo_account_sent_at (ow_order row)) = None"
      "\<not> is_past (account_deadline_of (oo_presigned_at (ow_order row)) (oo_account_deadline (ow_order row))) now"
    using assms(3,5) by (auto simp: onchain_card_view_def Let_def signed_as_def split: if_splits)
  then show "\<exists>w'. oc_account_info x e ev row w = Some (H_ok, w')"
    using oc_account_accepted [OF assms(1) a(1-3) k] is_past_mono [OF _ assms(4)] by blast
next
  assume "ov_remit shown" and k: "oo_settlement_kind (ow_order row) = None" and s: "truthy (oo_account_sent_at (ow_order row)) \<noteq> None"
    and p: "\<not> is_past (krw_deadline_of (oo_krw_deadline (ow_order row)) (oo_account_sent_at (ow_order row))) now"
  then have a: "oo_sponsor (ow_order row) = Some (ie_pubkey ev)" "oo_state (ow_order row) = Oc_presigned"
    using assms(3,5) by (auto simp: onchain_card_view_def Let_def signed_as_def)
  then show "\<exists>w'. oc_remit x e ev row w = Some (H_ok, w')"
    using oc_remit_accepted [OF assms(1) a s k] p is_past_mono [OF _ assms(4)] by blast
next
  fix q assume q: "q \<in> set requests" "q \<notin> set (ov_actionable shown)"
    and t: "tag_value ''purpose'' (ie_tags ev) = Some (sign_purpose_str (sq_purpose q))"
  then have n: "\<not> can_act_on_sign_request (oo_state (ow_order row)) (sq_purpose q) (oo_settlement_kind (ow_order row))"
    using assms(5) by (simp add: onchain_card_view_def Let_def)
  then have "sq_purpose q \<noteq> SP_rescue" by (auto simp: can_act_on_sign_request_def)
  from cosign_not_now [OF t this n] show "oc_cosign x e ev row w = Some (H_ignored ''not-now'', w)" .
qed

subsection \<open>Concrete cards\<close>

definition toy_card :: "string \<Rightarrow> ln_order \<Rightarrow> db \<Rightarrow> card_input" where
  "toy_card me r w = \<lparr>ci_order = Some (ln_view_of (ln_fields_of r w) 0 0), ci_local = None, ci_me = Some me, ci_deposit = None,
     ci_account = None, ci_rejection = None, ci_rejection_warns = False, ci_reveal = False, ci_now = 0\<rparr>"

lemma toy_card_reads: "reads_order (toy_card me r w) r w" "ci_me (toy_card me r w) = Some me"
  by (auto simp: reads_order_def toy_card_def)

lemma toy_card_cancel:
  assumes "o_customer r = me" and "me \<noteq> []" and "o_state r = Requested \<or> o_state r = Claimed \<or> o_state r = Verified"
  shows "sd_cancel (cv_side (ln_card_view npub expiry (toy_card me r w)))"
  using role_of_order [OF toy_card_reads(1,2) assms(2), of r w] assms(1,3)
  by (auto simp: card_is_trade_card [OF toy_card_reads(1)] card_side seller_side_def state_named)

theorem ln_card_actions_accepted_witness:
  "(\<exists>w'. cancel_order toy_env (toy_event ''cust'') toy_order toy_db = Some (H_ok, w'))
   \<and> (\<exists>w'. sponsor_invoice toy_b11_env toy_invoice_event toy_escrowed (empty_db\<lparr>ln_orders := [toy_escrowed]\<rparr>) = Some (H_ok, w'))"
proof
  show "\<exists>w'. cancel_order toy_env (toy_event ''cust'') toy_order toy_db = Some (H_ok, w')"
    using ln_card_actions_accepted [OF toy_reads(1) toy_sel(4) toy_card_reads(1) _ _ refl, of "''cust''" "toy_event ''cust''" id "\<lambda>_. None"]
      toy_card_cancel [of toy_order "''cust''" id "\<lambda>_. None" toy_db] toy_card_reads(2)
    by (simp add: toy_sel)
  let ?w = "empty_db\<lparr>ln_orders := [toy_escrowed]\<rparr> :: db"
  have g: "get_order ''ord1'' ?w = Some toy_escrowed" by (simp add: get_order_def toy_escrowed_def toy_reads)
  have sel: "o_pending_close toy_escrowed = None" "ie_pubkey toy_invoice_event = ''sp''" "o_customer toy_escrowed = ''cust''"
      "o_sponsor toy_escrowed = Some ''sp''" "o_state toy_escrowed = Escrowed"
    by (simp_all add: toy_escrowed_def toy_sel toy_invoice_event_def toy_event_def)
  have "Act_register_invoice None \<in> set (cv_actions (ln_card_view id (\<lambda>_. None) (toy_card ''sp'' toy_escrowed ?w)))"
    using role_of_order [OF toy_card_reads(1,2), of "''sp''" toy_escrowed ?w]
    by (simp add: card_is_trade_card [OF toy_card_reads(1)] card_actions buyer_invoice_def sel) (simp add: toy_card_def)
  moreover have "js_trim ''lnbc'' = ''lnbc''" by (simp add: js_trim_def js_space_def char_code_def)
  then have "invoice_in_order toy_b11_env toy_invoice_event toy_escrowed ?w"
    by (simp add: invoice_in_order_def toy_invoice_event_def toy_event_def toy_escrowed_def toy_order_def new_order_def
        tag_value_def toy_b11_env_def payout_pending_def hold_is_ours_def hold_get_def empty_db_def
        is_payout_amount_exact_def now_sec_def escrow_ending_soon_def LN_MIN_SPONSOR_INVOICE_LIFETIME_SEC_def)
  ultimately show "\<exists>w'. sponsor_invoice toy_b11_env toy_invoice_event toy_escrowed ?w = Some (H_ok, w')"
    using ln_card_actions_accepted [OF g sel(1) toy_card_reads(1) _ _ refl, of "''sp''" toy_invoice_event id "\<lambda>_. None" toy_b11_env]
      toy_card_reads(2) sel by simp
qed

definition toy_taken :: ln_order where
  "toy_taken = toy_order\<lparr>o_state := Claimed, o_sponsor := Some ''sp'', o_customer_deposit_hash := Some ''h''\<rparr>"

definition toy_deposit :: hold_row where
  "toy_deposit = toy_escrow_row\<lparr>h_hash := ''h'', h_purpose := Ln_customer_deposit\<rparr>"

theorem cancel_warns_of_forfeit_witness:
  "\<exists>c w'. cancel_order toy_env (toy_event ''cust'') toy_taken (empty_db\<lparr>ln_orders := [toy_taken]\<rparr>) = Some (H_ok, w')
    \<and> close_want (close_rules c) toy_taken toy_deposit = Some Want_settle"
proof -
  let ?w = "empty_db\<lparr>ln_orders := [toy_taken]\<rparr>"
  have g: "get_order ''ord1'' ?w = Some toy_taken" by (simp add: get_order_def toy_taken_def toy_reads)
  have sel: "o_pending_close toy_taken = None" "ie_pubkey (toy_event ''cust'') = ''cust''" "o_customer toy_taken = ''cust''"
      "o_state toy_taken = Claimed" "o_customer_deposit_hash toy_taken = Some ''h''"
    by (simp_all add: toy_taken_def toy_sel)
  have live: "h_hash toy_deposit = ''h''" "h_purpose toy_deposit = Ln_customer_deposit" "is_live_hold toy_deposit"
    by (simp_all add: toy_deposit_def toy_escrow_row_def is_live_hold_def LIVE_HOLD_STATUSES_def)
  have shown: "sd_cancel (cv_side (ln_card_view id (\<lambda>_. None) (toy_card ''cust'' toy_taken ?w)))"
    by (rule toy_card_cancel) (simp_all add: sel)
  have warned: "sd_forfeits (cv_side (ln_card_view id (\<lambda>_. None) (toy_card ''cust'' toy_taken ?w)))"
    using card_forfeits [OF toy_card_reads(1), of "''cust''" toy_taken ?w "''h''" id "\<lambda>_. None"] toy_card_reads(2) sel by simp
  show ?thesis
    using cancel_warns_of_forfeit [OF g sel(1) toy_card_reads(1), of "''cust''" "toy_event ''cust''" id "\<lambda>_. None" toy_deposit toy_env]
      shown warned toy_card_reads(2) sel live by auto
qed

theorem oc_card_actions_accepted_witness:
  "\<exists>w'. oc_remit toy_oc_env toy_env (toy_event ''s'') (toy_oc_row Oc_presigned) (toy_odb Oc_presigned) = Some (H_ok, w')"
proof -
  have g: "get_oc ''ord1'' (toy_odb Oc_presigned) = Some (toy_oc_row Oc_presigned)"
    by (simp add: get_oc_def toy_odb_def toy_oc_row_def toy_trade_def ow_id_def toy_oc_order_def)
  have sel: "oo_sponsor (ow_order (toy_oc_row Oc_presigned)) = Some ''s''" "ie_pubkey (toy_event ''s'') = ''s''"
      "oo_state (ow_order (toy_oc_row Oc_presigned)) = Oc_presigned" "oo_settlement_kind (ow_order (toy_oc_row Oc_presigned)) = None"
      "oo_account_sent_at (ow_order (toy_oc_row Oc_presigned)) = Some 4" "oo_krw_deadline (ow_order (toy_oc_row Oc_presigned)) = None"
    by (simp_all add: toy_oc_row_def toy_trade_def toy_oc_order_def toy_event_def)
  have t: "request_at (toy_event ''s'') (toy_odb Oc_presigned) \<le> 0" by (simp add: request_at_def toy_event_def)
  have "signed_as Sponsor (ow_order (toy_oc_row Oc_presigned)) (toy_event ''s'')" by (simp add: signed_as_def sel)
  from oc_card_actions_accepted [OF g _ this t refl, of id "[]" toy_oc_env toy_env]
  show ?thesis
    by (simp add: onchain_card_view_def Let_def sel krw_deadline_of_def is_past_def krw_deadline_from_def KRW_WINDOW_SEC_def)
qed

end
