(* ===== verification/Stores.thy ===== *)
theory Stores
  imports Cards
begin

text \<open>
  What the apps keep on the device: the stores of orders, of the user's own trades, of deposit notices, signature requests
  and chat messages (\<open>customer/src/**/order-store.ts\<close>, \<open>deposit-store.ts\<close>, \<open>sign-request-store.ts\<close>,
  \<open>customer/src/onchain/store.ts\<close>, \<open>shared/src/chat-store.ts\<close>) and the loading of a persisted value
  (\<open>shared/src/persisted-store.ts\<close>).  A store is the value it holds; telling the listeners and writing to disk follow it
  and are left out.  Relays deliver events in any order and more than once, so that what counts is what a store holds after
  any sequence of them.
\<close>

subsection \<open>Loading a stored value\<close>

definition version_key :: "string \<Rightarrow> string" where "version_key key = key @ ''@v''"

definition load_store ::
  "(string \<Rightarrow> json option) \<Rightarrow> 't \<Rightarrow> string \<Rightarrow> int \<Rightarrow> (json \<Rightarrow> 't option) \<Rightarrow> (string \<rightharpoonup> string) \<Rightarrow> 't \<times> (string \<rightharpoonup> string)" where
  "load_store read initial key version parse disk =
     (let stored = (case disk (version_key key) of None \<Rightarrow> Fin 1 | Some s \<Rightarrow> js_number s) in
      if stored \<noteq> Fin (of_int version) then (initial, (disk(key := None))(version_key key \<mapsto> int_str version))
      else (case disk key of
              None \<Rightarrow> (initial, disk)
            | Some s \<Rightarrow> (case Option.bind (read s) parse of Some v \<Rightarrow> (v, disk) | None \<Rightarrow> (initial, disk))))"

text \<open>A broken entry of a map is dropped, the others stay.\<close>

definition record_of :: "(json \<Rightarrow> 'v option) \<Rightarrow> json \<Rightarrow> (string \<times> 'v) list option" where
  "record_of guard v =
     (case v of
        J_obj es \<Rightarrow> Some (List.map_filter (\<lambda>(k, x). map_option (Pair k) (guard x)) es)
      | _ \<Rightarrow> None)"

subsection \<open>Published orders\<close>

definition upsert_order :: "ln_view \<Rightarrow> (string \<rightharpoonup> ln_view) \<Rightarrow> (string \<rightharpoonup> ln_view)" where
  "upsert_order v m =
     (case m (lv_order v) of
        Some x \<Rightarrow> if lv_created_at v \<le> lv_created_at x then m else m(lv_order v \<mapsto> v)
      | None \<Rightarrow> m(lv_order v \<mapsto> v))"

definition delete_order :: "string \<Rightarrow> (string \<rightharpoonup> 'v) \<Rightarrow> (string \<rightharpoonup> 'v)" where
  "delete_order oid m = m(oid := None)"

definition kept_until :: "jsnum \<Rightarrow> sec \<Rightarrow> bool" where
  "kept_until until now \<longleftrightarrow> until = Fin 0 \<or> until \<noteq> NaN \<and> \<not> js_at_most until now"

definition purge_expired :: "sec \<Rightarrow> (string \<rightharpoonup> ln_view) \<Rightarrow> (string \<rightharpoonup> ln_view)" where
  "purge_expired now m =
     (\<lambda>k. case m k of
        Some v \<Rightarrow> if kept_until (case lv_retain_until v of Some t \<Rightarrow> t | None \<Rightarrow> lv_expiration v) now then Some v else None
      | None \<Rightarrow> None)"

definition upsert_onchain_order :: "'n oc_order \<Rightarrow> (string \<rightharpoonup> 'n oc_order) \<Rightarrow> bool \<times> (string \<rightharpoonup> 'n oc_order)" where
  "upsert_onchain_order r m =
     (case m (oo_id r) of
        Some x \<Rightarrow> if oo_updated r < oo_updated x then (False, m) else (True, m(oo_id r \<mapsto> r))
      | None \<Rightarrow> (True, m(oo_id r \<mapsto> r)))"

definition listed_orders :: "string \<Rightarrow> oc_ord list \<Rightarrow> oc_ord list" where
  "listed_orders me rs =
     sort_key (\<lambda>r. - oo_created r)
       (filter (\<lambda>r. oo_state r = Oc_listed \<and> oo_customer r \<noteq> me \<and> given_s (oo_designated r) = None) rs)"

definition designated_to_me :: "string \<Rightarrow> oc_ord list \<Rightarrow> oc_ord list" where
  "designated_to_me me rs =
     sort_key (\<lambda>r. - oo_created r)
       (filter (\<lambda>r. oo_state r = Oc_listed \<and> oo_designated r = Some me \<and> oo_customer r \<noteq> me) rs)"

definition my_onchain_orders :: "string \<Rightarrow> oc_ord list \<Rightarrow> oc_ord list" where
  "my_onchain_orders me rs =
     sort_key (\<lambda>r. - oo_updated r) (filter (\<lambda>r. oo_customer r = me \<or> oo_sponsor r = Some me) rs)"

definition has_onchain_sale :: "string \<Rightarrow> oc_ord list \<Rightarrow> bool" where
  "has_onchain_sale me rs \<longleftrightarrow> list_ex (\<lambda>r. oo_customer r = me) rs"

definition role_in_trade :: "'n oc_order \<Rightarrow> string \<Rightarrow> signer option" where
  "role_in_trade r me = (if oo_customer r = me then Some Customer else if oo_sponsor r = Some me then Some Sponsor else None)"

subsection \<open>The user's own trades\<close>

definition patch_order :: "string \<Rightarrow> (local_order \<Rightarrow> local_order) \<Rightarrow> (string \<rightharpoonup> local_order) \<Rightarrow> (string \<rightharpoonup> local_order)" where
  "patch_order oid patch m = (case m oid of None \<Rightarrow> m | Some l \<Rightarrow> m(oid \<mapsto> patch l))"

definition add_order :: "local_order \<Rightarrow> (string \<rightharpoonup> local_order) \<Rightarrow> (string \<rightharpoonup> local_order)" where
  "add_order l m = (if m (lo_id l) \<noteq> None then m else m(lo_id l \<mapsto> l))"

definition mark_published :: "string \<Rightarrow> string \<Rightarrow> (string \<rightharpoonup> local_order) \<Rightarrow> (string \<rightharpoonup> local_order)" where
  "mark_published oid raw = patch_order oid (\<lambda>l. l\<lparr>lo_raw := Some raw\<rparr>)"

record admin_update =
  au_order :: string
  au_state :: string
  au_bolt11 :: "string option"
  au_sponsor :: "string option"
  au_retain_until :: "jsnum option"
  au_close_reason :: "string option"

text \<open>What the daemon said last stays where the update says nothing.\<close>

definition overlay :: "admin_update \<Rightarrow> local_order \<Rightarrow> local_order" where
  "overlay u l =
     l\<lparr>lo_admin_state := Some (au_state u), lo_bolt11 := coalesce (au_bolt11 u) (lo_bolt11 l),
       lo_sponsor := coalesce (au_sponsor u) (lo_sponsor l), lo_retain_until := coalesce (au_retain_until u) (lo_retain_until l),
       lo_close_reason := coalesce (au_close_reason u) (lo_close_reason l)\<rparr>"

definition changes :: "admin_update \<Rightarrow> local_order \<Rightarrow> bool" where
  "changes u l \<longleftrightarrow>
     lo_admin_state l \<noteq> Some (au_state u)
     \<or> au_bolt11 u \<noteq> None \<and> lo_bolt11 l \<noteq> au_bolt11 u
     \<or> au_sponsor u \<noteq> None \<and> lo_sponsor l \<noteq> au_sponsor u
     \<or> au_retain_until u \<noteq> None \<and> lo_retain_until l \<noteq> au_retain_until u
     \<or> au_close_reason u \<noteq> None \<and> lo_close_reason l \<noteq> au_close_reason u"

definition apply_admin_update :: "admin_update \<Rightarrow> (string \<rightharpoonup> local_order) \<Rightarrow> (string \<rightharpoonup> local_order)" where
  "apply_admin_update u m =
     (case m (au_order u) of
        None \<Rightarrow> m
      | Some l \<Rightarrow> if \<not> changes u l then m else patch_order (au_order u) (overlay u) m)"

definition apply_deposit_required :: "string \<Rightarrow> string \<Rightarrow> (string \<rightharpoonup> local_order) \<Rightarrow> (string \<rightharpoonup> local_order)" where
  "apply_deposit_required oid b m =
     (if Option.bind (m oid) lo_deposit_bolt11 = Some b then m else patch_order oid (\<lambda>l. l\<lparr>lo_deposit_bolt11 := Some b\<rparr>) m)"

definition apply_deposit_status :: "string \<Rightarrow> deposit_status \<Rightarrow> (string \<rightharpoonup> local_order) \<Rightarrow> (string \<rightharpoonup> local_order)" where
  "apply_deposit_status oid st m =
     (if Option.bind (m oid) lo_deposit_status = Some st then m else patch_order oid (\<lambda>l. l\<lparr>lo_deposit_status := Some st\<rparr>) m)"

definition set_account_info :: "string \<Rightarrow> account \<Rightarrow> (string \<rightharpoonup> local_order) \<Rightarrow> (string \<rightharpoonup> local_order)" where
  "set_account_info oid a = patch_order oid (\<lambda>l. l\<lparr>lo_account := Some a\<rparr>)"

definition clear_deletable_orders :: "(local_order \<Rightarrow> bool) \<Rightarrow> (string \<rightharpoonup> local_order) \<Rightarrow> (string \<rightharpoonup> local_order)" where
  "clear_deletable_orders deletable m =
     (\<lambda>k. case m k of Some l \<Rightarrow> if deletable l then None else Some l | None \<Rightarrow> None)"

definition purge_local :: "sec \<Rightarrow> (string \<rightharpoonup> local_order) \<Rightarrow> (string \<rightharpoonup> local_order)" where
  "purge_local now m =
     (\<lambda>k. case m k of
        Some l \<Rightarrow> if kept_until (case lo_retain_until l of Some t \<Rightarrow> t | None \<Rightarrow> lo_expiration l) now then Some l else None
      | None \<Rightarrow> None)"

record parsed_order =
  pa_coupang :: string
  pa_product :: string
  pa_account :: account

text \<open>A parsed shop order put on a trade that already runs; the trade stays one made by hand.\<close>

definition attach_parsed_to_order :: "string \<Rightarrow> parsed_order \<Rightarrow> (string \<rightharpoonup> local_order) \<Rightarrow> bool \<times> (string \<rightharpoonup> local_order)" where
  "attach_parsed_to_order oid p m =
     (if m oid = None then (False, m)
      else (True, patch_order oid
        (\<lambda>l. l\<lparr>lo_coupang := Some (pa_coupang p), lo_memo := pa_product p, lo_fixed_account := Some (pa_account p)\<rparr>) m))"

subsection \<open>Deposits of the buyer\<close>

text \<open>A status older than the invoice belongs to an invoice before it.\<close>

definition set_deposit_bolt11 :: "string \<Rightarrow> string \<Rightarrow> sec \<Rightarrow> (string \<rightharpoonup> buyer_deposit) \<Rightarrow> (string \<rightharpoonup> buyer_deposit)" where
  "set_deposit_bolt11 oid b ts m =
     (let existing = m oid in
      if map_option bd_bolt11 existing = Some b then m
      else if (case Option.bind existing bd_at of Some t \<Rightarrow> ts < t | None \<Rightarrow> False) then m
      else
        (let keep = Option.bind existing bd_status \<noteq> None
               \<and> (case Option.bind existing bd_status_at of Some t \<Rightarrow> ts \<le> t | None \<Rightarrow> False) in
         m(oid \<mapsto> \<lparr>bd_bolt11 = b, bd_status = (if keep then Option.bind existing bd_status else None), bd_at = Some ts,
           bd_status_at = (if keep then Option.bind existing bd_status_at else None)\<rparr>)))"

definition set_deposit_status :: "string \<Rightarrow> deposit_status \<Rightarrow> sec \<Rightarrow> (string \<rightharpoonup> buyer_deposit) \<Rightarrow> (string \<rightharpoonup> buyer_deposit)" where
  "set_deposit_status oid st ts m =
     (let existing = m oid in
      if (case Option.bind existing bd_at of Some t \<Rightarrow> ts < t | None \<Rightarrow> False) then m
      else if (case Option.bind existing bd_status_at of Some t \<Rightarrow> ts < t | None \<Rightarrow> False) then m
      else if Option.bind existing bd_status = Some st then m
      else m(oid \<mapsto> \<lparr>bd_bolt11 = (case existing of Some d \<Rightarrow> bd_bolt11 d | None \<Rightarrow> []), bd_status = Some st,
             bd_at = Option.bind existing bd_at, bd_status_at = Some ts\<rparr>))"

subsection \<open>Signature requests\<close>

definition sign_request_key :: "string \<Rightarrow> sign_purpose \<Rightarrow> string option \<Rightarrow> string" where
  "sign_request_key oid p outpoint =
     (if p = SP_rescue then oid @ ''|rescue|'' @ (case outpoint of Some t \<Rightarrow> t | None \<Rightarrow> [])
      else oid @ ''|'' @ sign_purpose_str p)"

definition put_sign_request :: "sign_request \<Rightarrow> (string \<rightharpoonup> sign_request) \<Rightarrow> (string \<rightharpoonup> sign_request)" where
  "put_sign_request q m =
     (let key = sign_request_key (sq_order q) (sq_purpose q) (sq_outpoint q) in
      if (case m key of Some x \<Rightarrow> sq_received q < sq_received x | None \<Rightarrow> False) then m else m(key \<mapsto> q))"

definition clear_sign_request :: "string \<Rightarrow> sign_purpose \<Rightarrow> string option \<Rightarrow> (string \<rightharpoonup> sign_request) \<Rightarrow> (string \<rightharpoonup> sign_request)" where
  "clear_sign_request oid p outpoint m = m(sign_request_key oid p outpoint := None)"

definition clear_sign_requests_for :: "string \<Rightarrow> (string \<rightharpoonup> sign_request) \<Rightarrow> (string \<rightharpoonup> sign_request)" where
  "clear_sign_requests_for oid m =
     (\<lambda>k. case m k of Some q \<Rightarrow> if sq_order q \<noteq> oid \<or> sq_purpose q = SP_rescue then Some q else None | None \<Rightarrow> None)"

subsection \<open>Chat messages\<close>

datatype msg_status = Msg_pending | Msg_sent | Msg_failed

record chat_message =
  cm_event :: string
  cm_order :: string
  cm_sender :: string
  cm_text :: string
  cm_created :: sec
  cm_peer :: bool
  cm_status :: "msg_status option"

definition chats_of :: "(string \<rightharpoonup> chat_message list) \<Rightarrow> string \<Rightarrow> chat_message list" where
  "chats_of m oid = (case m oid of Some ms \<Rightarrow> ms | None \<Rightarrow> [])"

definition add_message :: "chat_message \<Rightarrow> (string \<rightharpoonup> chat_message list) \<Rightarrow> (string \<rightharpoonup> chat_message list)" where
  "add_message c m =
     (let existing = chats_of m (cm_order c) in
      if list_ex (\<lambda>x. cm_event x = cm_event c) existing then m
      else m(cm_order c \<mapsto> sort_key cm_created (existing @ [c])))"

definition set_message_status :: "string \<Rightarrow> string \<Rightarrow> msg_status \<Rightarrow> (string \<rightharpoonup> chat_message list) \<Rightarrow> (string \<rightharpoonup> chat_message list)" where
  "set_message_status oid ev st m =
     (case m oid of
        None \<Rightarrow> m
      | Some ms \<Rightarrow>
          if list_ex (\<lambda>x. cm_event x = ev \<and> cm_status x \<noteq> Some st) ms
          then m(oid \<mapsto> map (\<lambda>x. if cm_event x = ev then x\<lparr>cm_status := Some st\<rparr> else x) ms)
          else m)"

definition remove_message :: "string \<Rightarrow> string \<Rightarrow> (string \<rightharpoonup> chat_message list) \<Rightarrow> (string \<rightharpoonup> chat_message list)" where
  "remove_message oid ev m =
     (case m oid of None \<Rightarrow> m | Some ms \<Rightarrow> m(oid \<mapsto> filter (\<lambda>x. cm_event x \<noteq> ev) ms))"

text \<open>A message still pending from an earlier session was never published: it is shown as failed.\<close>

definition load_messages :: "string \<Rightarrow> chat_message list \<Rightarrow> (string \<rightharpoonup> chat_message list) \<Rightarrow> (string \<rightharpoonup> chat_message list)" where
  "load_messages oid stored m =
     (let existing = chats_of m oid;
          fresh = filter (\<lambda>x. \<not> list_ex (\<lambda>y. cm_event y = cm_event x) existing) stored;
          recovered = map (\<lambda>x. if cm_status x = Some Msg_pending then x\<lparr>cm_status := Some Msg_failed\<rparr> else x) fresh in
      if fresh = [] then m else m(oid \<mapsto> sort_key cm_created (existing @ recovered)))"

definition clear_messages :: "string \<Rightarrow> (string \<rightharpoonup> chat_message list) \<Rightarrow> (string \<rightharpoonup> chat_message list)" where
  "clear_messages oid m = m(oid := None)"

end
