(* ===== verification/Stores_Inv.thy ===== *)
theory Stores_Inv
  imports Stores
begin

text \<open>
  What the stores of the apps hold after any sequence of events: the newest version of an order, whatever the order in
  which relays deliver; chat messages once and in time order; the status of a deposit only for the invoice it belongs to.
\<close>

subsection \<open>Keeping the newest version\<close>

text \<open>The contract of a store that keeps the newest version of each key; which of two equally old ones stays is left open.\<close>

locale newest_store =
  fixes key :: "'v \<Rightarrow> 'k" and time :: "'v \<Rightarrow> int" and upsert :: "'v \<Rightarrow> ('k \<rightharpoonup> 'v) \<Rightarrow> ('k \<rightharpoonup> 'v)"
  assumes newer: "m (key v) = Some x \<Longrightarrow> time x < time v \<Longrightarrow> upsert v m = m(key v \<mapsto> v)"
    and older: "m (key v) = Some x \<Longrightarrow> time v < time x \<Longrightarrow> upsert v m = m"
    and unseen: "m (key v) = None \<Longrightarrow> upsert v m = m(key v \<mapsto> v)"
    and either: "upsert v m = m \<or> upsert v m = m(key v \<mapsto> v)"
begin

definition newest :: "'v list \<Rightarrow> ('k \<rightharpoonup> 'v) \<Rightarrow> bool" where
  "newest vs m \<longleftrightarrow>
     (\<forall>k. case m k of
        None \<Rightarrow> \<forall>v \<in> set vs. key v \<noteq> k
      | Some x \<Rightarrow> x \<in> set vs \<and> key x = k \<and> (\<forall>v \<in> set vs. key v = k \<longrightarrow> time v \<le> time x))"

lemma newest_upsert:
  assumes "newest vs m"
  shows "newest (vs @ [v]) (upsert v m)"
proof (cases "m (key v)")
  case None
  have "\<And>u. u \<in> set vs \<Longrightarrow> key u \<noteq> key v" using assms [unfolded newest_def, THEN spec, of "key v"] None by simp
  then show ?thesis using assms unfolding newest_def unseen [of m v, OF None] by (fastforce split: option.splits)
next
  case (Some x)
  have x: "x \<in> set vs" "key x = key v" "\<And>u. u \<in> set vs \<Longrightarrow> key u = key v \<Longrightarrow> time u \<le> time x"
    using assms [unfolded newest_def, THEN spec, of "key v"] Some by auto
  have keep: "newest (vs @ [v]) m" if "time v \<le> time x"
    using assms Some that unfolding newest_def by (fastforce split: option.splits)
  have put: "newest (vs @ [v]) (m(key v \<mapsto> v))" if "time x \<le> time v"
    using assms that x unfolding newest_def by (fastforce split: option.splits)
  show ?thesis
    using keep put newer [of m v x, OF Some] older [of m v x, OF Some] either [of v m]
    by (cases "time x < time v"; cases "time v < time x") (auto simp: not_less)
qed

lemma newest_fold: "newest vs (fold upsert vs Map.empty)"
proof (induction vs rule: rev_induct)
  case Nil
  show ?case by (simp add: newest_def)
next
  case (snoc v vs)
  then show ?case using newest_upsert by simp
qed

lemma newest_kept:
  assumes "v \<in> set vs" and "\<And>u. u \<in> set vs \<Longrightarrow> key u = key v \<Longrightarrow> u = v \<or> time u < time v"
  shows "fold upsert vs Map.empty (key v) = Some v"
proof -
  note n = newest_fold [of vs, unfolded newest_def, THEN spec, of "key v"]
  obtain x where x: "fold upsert vs Map.empty (key v) = Some x" using n assms(1) by (cases "fold upsert vs Map.empty (key v)") auto
  with n assms have "x = v" by fastforce
  with x show ?thesis by simp
qed

end

interpretation ln_orders: newest_store lv_order lv_created_at upsert_order
  by unfold_locales (auto simp: upsert_order_def split: option.split)

interpretation oc_orders: newest_store oo_id oo_updated "\<lambda>r m. snd (upsert_onchain_order r m)"
  by unfold_locales (auto simp: upsert_onchain_order_def split: option.split)

text \<open>C19. The apps converge on what the daemon published last.  However the relays order and repeat the versions of an order, once
  the newest one has arrived it is the one the store shows, on either track, and no older version replaces it.\<close>

theorem app_shows_newest:
  assumes "v \<in> set vs" and "\<And>u. u \<in> set vs \<Longrightarrow> lv_order u = lv_order v \<Longrightarrow> u = v \<or> lv_created_at u < lv_created_at v"
    and "r \<in> set rs" and "\<And>u. u \<in> set rs \<Longrightarrow> oo_id u = oo_id r \<Longrightarrow> u = r \<or> oo_updated u < oo_updated r"
  shows "fold upsert_order vs Map.empty (lv_order v) = Some v
    \<and> fold (\<lambda>u m. snd (upsert_onchain_order u m)) rs Map.empty (oo_id r) = Some r"
  using ln_orders.newest_kept [OF assms(1,2)] oc_orders.newest_kept [OF assms(3,4)] by blast

definition toy_version :: "order_state \<Rightarrow> sec \<Rightarrow> ln_view" where
  "toy_version s c = ln_view_of (toy_fields\<lparr>lf_state := s\<rparr>) 1900000000 c"

theorem app_shows_newest_witness:
  "fold upsert_order [toy_version Verified 9, toy_version Claimed 5, toy_version Verified 9] Map.empty ''ord1''
     = Some (toy_version Verified 9)"
proof -
  have sel: "lv_order (toy_version s c) = ''ord1''" "lv_created_at (toy_version s c) = c" for s c
    by (simp_all add: toy_version_def ln_view_of_def toy_fields_def)
  have "u \<in> set [toy_version Verified 9, toy_version Claimed 5, toy_version Verified 9]
      \<Longrightarrow> u = toy_version Verified 9 \<or> lv_created_at u < lv_created_at (toy_version Verified 9)" for u
    using sel by auto
  then show ?thesis
    using app_shows_newest [of "toy_version Verified 9" "[toy_version Verified 9, toy_version Claimed 5, toy_version Verified 9]"
        "toy_oc_order" "[toy_oc_order]"] sel
    by simp
qed

subsection \<open>Chat messages\<close>

definition chat_ok :: "chat_message list \<Rightarrow> bool" where
  "chat_ok ms \<longleftrightarrow> sorted (map cm_created ms) \<and> distinct (map cm_event ms)"

definition chats_ok :: "(string \<rightharpoonup> chat_message list) \<Rightarrow> bool" where
  "chats_ok m \<longleftrightarrow> (\<forall>oid. chat_ok (chats_of m oid))"

lemma chat_ok_sort: "distinct (map cm_event ms) \<Longrightarrow> chat_ok (sort_key cm_created ms)"
  by (simp add: chat_ok_def distinct_map)

lemma chats_ok_put: "chats_ok m \<Longrightarrow> chat_ok ms \<Longrightarrow> chats_ok (m(oid \<mapsto> ms))"
  by (simp add: chats_ok_def chats_of_def)

lemma chats_okD: "chats_ok m \<Longrightarrow> chat_ok (chats_of m oid)"
  by (simp add: chats_ok_def)

lemma chats_ok_add:
  assumes "chats_ok m"
  shows "chats_ok (add_message c m)"
proof (cases "list_ex (\<lambda>x. cm_event x = cm_event c) (chats_of m (cm_order c))")
  case True
  with assms show ?thesis by (simp add: add_message_def)
next
  case False
  then have "distinct (map cm_event (chats_of m (cm_order c) @ [c]))"
    using chats_okD [OF assms, of "cm_order c"] by (auto simp: chat_ok_def list_ex_iff)
  from chats_ok_put [OF assms chat_ok_sort [OF this]] False show ?thesis by (simp add: add_message_def Let_def)
qed

lemma chats_ok_status:
  assumes "chats_ok m"
  shows "chats_ok (set_message_status oid ev st m)"
proof (cases "m oid")
  case None
  with assms show ?thesis by (simp add: set_message_status_def)
next
  case (Some ms)
  let ?f = "\<lambda>x :: chat_message. if cm_event x = ev then x\<lparr>cm_status := Some st\<rparr> else x"
  have "cm_created \<circ> ?f = cm_created" "cm_event \<circ> ?f = cm_event" by (simp_all add: fun_eq_iff)
  moreover have "chat_ok ms" using chats_okD [OF assms, of oid] Some by (simp add: chats_of_def)
  ultimately have "chat_ok (map ?f ms)" by (simp add: chat_ok_def)
  with Some assms show ?thesis by (simp add: set_message_status_def chats_ok_put)
qed

lemma chats_ok_remove:
  assumes "chats_ok m"
  shows "chats_ok (remove_message oid ev m)"
proof (cases "m oid")
  case None
  with assms show ?thesis by (simp add: remove_message_def)
next
  case (Some ms)
  then have "chat_ok ms" using assms by (auto simp: chats_ok_def chats_of_def split: option.splits)
  then have "chat_ok (filter (\<lambda>x. cm_event x \<noteq> ev) ms)" by (simp add: chat_ok_def sorted_filter distinct_map_filter)
  with Some assms show ?thesis by (simp add: remove_message_def chats_ok_put)
qed

lemma chats_ok_load:
  assumes "chats_ok m" and "distinct (map cm_event stored)"
  shows "chats_ok (load_messages oid stored m)"
proof -
  let ?old = "chats_of m oid"
  let ?fresh = "filter (\<lambda>x. \<not> list_ex (\<lambda>y. cm_event y = cm_event x) ?old) stored"
  let ?f = "\<lambda>x :: chat_message. if cm_status x = Some Msg_pending then x\<lparr>cm_status := Some Msg_failed\<rparr> else x"
  have "cm_event \<circ> ?f = cm_event" by (simp add: fun_eq_iff)
  moreover have "distinct (map cm_event ?fresh)" using assms(2) by (simp add: distinct_map_filter)
  ultimately have "distinct (map cm_event (?old @ map ?f ?fresh))"
    using chats_okD [OF assms(1), of oid] by (auto simp: chat_ok_def list_ex_iff split: if_splits)
  from chats_ok_put [OF assms(1) chat_ok_sort [OF this], of oid] assms(1) show ?thesis by (simp add: load_messages_def Let_def)
qed

lemma chats_ok_clear: "chats_ok m \<Longrightarrow> chats_ok (clear_messages oid m)"
  by (simp add: chats_ok_def chats_of_def clear_messages_def chat_ok_def)

text \<open>After loading no message of an earlier session is left pending.\<close>

lemma load_recovers:
  assumes "x \<in> set (chats_of (load_messages oid stored m) oid)" and "cm_status x = Some Msg_pending"
  shows "x \<in> set (chats_of m oid)"
  using assms by (auto simp: load_messages_def Let_def chats_of_def split: if_splits option.splits)

subsection \<open>Deposits of the buyer\<close>

text \<open>A status is shown only for an invoice that is not newer than it.\<close>

definition deposit_fresh :: "buyer_deposit \<Rightarrow> bool" where
  "deposit_fresh d \<longleftrightarrow>
     (case (bd_status d, bd_at d) of
        (Some _, Some a) \<Rightarrow> (case bd_status_at d of Some t \<Rightarrow> a \<le> t | None \<Rightarrow> False)
      | _ \<Rightarrow> True)"

lemma deposit_fresh_bolt11:
  "pred_option deposit_fresh (m oid) \<Longrightarrow> pred_option deposit_fresh (set_deposit_bolt11 i b ts m oid)"
  by (auto simp: set_deposit_bolt11_def Let_def deposit_fresh_def split: option.splits if_splits)

lemma deposit_fresh_status:
  "pred_option deposit_fresh (m oid) \<Longrightarrow> pred_option deposit_fresh (set_deposit_status i st ts m oid)"
  by (auto simp: set_deposit_status_def Let_def deposit_fresh_def split: option.splits if_splits)

text \<open>
  Equal statuses are dropped without their time.  When a second invoice and its status are replayed newest first, as a
  relay does after a reload, the status of the second invoice is forgotten; in time order it is kept.
\<close>

theorem deposit_status_forgotten:
  fixes m :: "string \<rightharpoonup> buyer_deposit"
  assumes "m = (set_deposit_status oid Dep_accepted 4 \<circ> set_deposit_bolt11 oid ''A'' 3) Map.empty"
  shows "map_option bd_status ((set_deposit_status oid Dep_accepted 12 \<circ> set_deposit_bolt11 oid ''B'' 10) m oid) = Some (Some Dep_accepted)
    \<and> map_option bd_status ((set_deposit_bolt11 oid ''B'' 10 \<circ> set_deposit_status oid Dep_accepted 12) m oid) = Some None"
  unfolding assms by (simp add: set_deposit_status_def set_deposit_bolt11_def Let_def)

end
