(* ===== verification/Buyer.thy ===== *)
theory Buyer
  imports Stores
begin

text \<open>
  The seller's side of the app at work (\<open>customer/src/buyer/nostr/service.ts\<close>): what the daemon says of the user's own
  trades goes into the store, and an account that a shop fixed is sent by itself once the buyer's invoice is registered.
  Publishing is asynchronous: it begins in one step and succeeds or fails in a later one.
\<close>

subsection \<open>What an order event says of my trade\<close>

definition parse_admin_event :: "order_event \<Rightarrow> string \<Rightarrow> string \<Rightarrow> admin_update option" where
  "parse_admin_event ev app me =
     (if oe_pubkey ev \<noteq> app then None
      else if tag_value ''customer'' (oe_tags ev) \<noteq> Some me then None
      else (case given_s (tag_value ''d'' (oe_tags ev)) of
              None \<Rightarrow> None
            | Some oid \<Rightarrow> map_option (\<lambda>v. \<lparr>au_order = oid, au_state = lv_state v, au_bolt11 = lv_bolt11 v,
                au_sponsor = lv_sponsor v, au_retain_until = lv_retain_until v, au_close_reason = lv_close_reason v\<rparr>)
                (parse_ln_order_event ev app)))"

subsection \<open>Sending the account\<close>

record buyer_app =
  ba_orders :: "string \<rightharpoonup> local_order"
  ba_sending :: "string \<rightharpoonup> account"
  ba_sent :: "(string \<times> string \<times> account) list"

text \<open>\<open>ba_sending\<close> holds the trades whose account is on its way with that account; \<open>ba_sent\<close> records the account messages that were begun: the trade, whom they are sealed to, and the account.\<close>

definition auto_send_account_info :: "string \<Rightarrow> buyer_app \<Rightarrow> buyer_app" where
  "auto_send_account_info oid a =
     (case ba_orders a oid of
        None \<Rightarrow> a
      | Some l \<Rightarrow>
          (case (lo_fixed_account l, given_s (lo_sponsor l)) of
             (Some acct, Some sponsor) \<Rightarrow>
               if lo_account l \<noteq> None \<or> ba_sending a oid \<noteq> None then a
               else if \<not> (case lo_admin_state l of Some st \<Rightarrow> account_gate st | None \<Rightarrow> False) then a
               else a\<lparr>ba_sending := (ba_sending a)(oid \<mapsto> acct), ba_sent := ba_sent a @ [(oid, sponsor, acct)]\<rparr>
           | _ \<Rightarrow> a))"

definition send_finished :: "string \<Rightarrow> bool \<Rightarrow> buyer_app \<Rightarrow> buyer_app" where
  "send_finished oid success a =
     (case ba_sending a oid of
        None \<Rightarrow> a
      | Some acct \<Rightarrow> a\<lparr>ba_sending := (ba_sending a)(oid := None),
          ba_orders := (if success then set_account_info oid acct (ba_orders a) else ba_orders a)\<rparr>)"

definition handle_admin_order :: "admin_update \<Rightarrow> buyer_app \<Rightarrow> buyer_app" where
  "handle_admin_order u a =
     (let a1 = a\<lparr>ba_orders := apply_admin_update u (ba_orders a)\<rparr> in
      if au_state u = ''invoiced'' \<and> given_s (au_sponsor u) \<noteq> None
      then (case ba_orders a1 (au_order u) of
              Some l \<Rightarrow> if lo_fixed_account l \<noteq> None \<and> lo_account l = None then auto_send_account_info (lo_id l) a1 else a1
            | None \<Rightarrow> a1)
      else a1)"

text \<open>Attaching a parsed shop order, which pushes the account at once if the trade is far enough.\<close>

definition attach_and_send :: "string \<Rightarrow> parsed_order \<Rightarrow> buyer_app \<Rightarrow> buyer_app" where
  "attach_and_send oid p a =
     (let (ok, m) = attach_parsed_to_order oid p (ba_orders a) in
      if ok then auto_send_account_info oid (a\<lparr>ba_orders := m\<rparr>) else a)"

text \<open>A shop status goes to the daemon as the request it stands for, for the trade that carries the shop's number.\<close>

datatype coupang_status = Coupang_paid | Coupang_cancelled

definition relay_coupang_status :: "string \<Rightarrow> coupang_status \<Rightarrow> local_order list \<Rightarrow> (string \<times> string) option" where
  "relay_coupang_status number st orders =
     (case List.find (\<lambda>l. lo_coupang l = Some number) orders of
        None \<Rightarrow> None
      | Some l \<Rightarrow>
          if given_s (lo_admin_state l) = None then None
          else Some (lo_id l, if st = Coupang_paid then ''payment-confirm'' else ''cancel-request''))"

subsection \<open>Runs of the app\<close>

datatype buyer_event = Bu_add local_order | Bu_update admin_update | Bu_published string string
  | Bu_attach string parsed_order | Bu_send_by_hand string account | Bu_finished string bool
  | Bu_reload

fun buyer_step :: "buyer_event \<Rightarrow> buyer_app \<Rightarrow> buyer_app" where
  "buyer_step (Bu_add l) a = a\<lparr>ba_orders := add_order l (ba_orders a)\<rparr>"
| "buyer_step (Bu_update u) a = handle_admin_order u a"
| "buyer_step (Bu_published oid raw) a = a\<lparr>ba_orders := mark_published oid raw (ba_orders a)\<rparr>"
| "buyer_step (Bu_attach oid p) a = attach_and_send oid p a"
| "buyer_step (Bu_send_by_hand oid acct) a = a\<lparr>ba_orders := set_account_info oid acct (ba_orders a)\<rparr>"
| "buyer_step (Bu_finished oid ok) a = send_finished oid ok a"
| "buyer_step Bu_reload a = a\<lparr>ba_sending := Map.empty\<rparr>"

definition buyer_run :: "buyer_event list \<Rightarrow> buyer_app" where
  "buyer_run es = fold buyer_step es \<lparr>ba_orders = Map.empty, ba_sending = Map.empty, ba_sent = []\<rparr>"

text \<open>A trade made on this device starts without a word of the daemon and without a sent account.\<close>

definition fresh_add :: "buyer_event \<Rightarrow> bool" where
  "fresh_add e = (case e of Bu_add l \<Rightarrow> lo_admin_state l = None \<and> lo_account l = None | _ \<Rightarrow> True)"

text \<open>The daemon names the buyer whenever the account may be sent.\<close>

definition names_buyer :: "buyer_event \<Rightarrow> bool" where
  "names_buyer e = (case e of Bu_update u \<Rightarrow> account_gate (au_state u) \<longrightarrow> au_sponsor u \<noteq> None | _ \<Rightarrow> True)"

definition fails :: "string \<Rightarrow> buyer_event list \<Rightarrow> nat" where
  "fails oid es = length (filter (\<lambda>e. e = Bu_finished oid False \<or> e = Bu_reload) es)"

definition sends :: "string \<Rightarrow> buyer_app \<Rightarrow> nat" where
  "sends oid a = length (filter (\<lambda>m. fst m = oid) (ba_sent a))"

lemma account_gateD: "account_gate st \<Longrightarrow> st = ''invoiced'' \<or> st = ''remitted''"
  by (auto simp: account_gate_def can_send_account_info_def order_state_of_def find_Some_iff split: option.splits
      dest!: find_Some_D)

subsection \<open>The invariant of a run\<close>

text \<open>
  Where the account may be sent, the daemon said so together with the buyer the trade names.  One message is begun unless
  one failed or the app was reloaded on the way.
\<close>

definition said :: "buyer_event list \<Rightarrow> string \<Rightarrow> string option \<Rightarrow> bool" where
  "said es oid sponsor \<longleftrightarrow>
     (\<exists>u. Bu_update u \<in> set es \<and> au_order u = oid \<and> account_gate (au_state u) \<and> au_sponsor u = sponsor)"

definition trade_ok :: "buyer_event list \<Rightarrow> string \<Rightarrow> local_order \<Rightarrow> bool" where
  "trade_ok es oid l \<longleftrightarrow>
     lo_id l = oid \<and> (case lo_admin_state l of Some st \<Rightarrow> account_gate st \<longrightarrow> said es oid (lo_sponsor l) | None \<Rightarrow> True)"

definition begun :: "string \<Rightarrow> buyer_app \<Rightarrow> bool" where
  "begun oid a \<longleftrightarrow> ba_sending a oid \<noteq> None \<or> Option.bind (ba_orders a oid) lo_account \<noteq> None"

definition app_ok :: "buyer_event list \<Rightarrow> buyer_app \<Rightarrow> bool" where
  "app_ok es a \<longleftrightarrow>
     (\<forall>oid l. ba_orders a oid = Some l \<longrightarrow> trade_ok es oid l)
     \<and> (\<forall>oid s acct. (oid, s, acct) \<in> set (ba_sent a) \<longrightarrow> said es oid (Some s))
     \<and> (\<forall>oid. sends oid a \<le> fails oid es + (if begun oid a then 1 else 0))
     \<and> (\<forall>oid. ba_sending a oid \<noteq> None \<longrightarrow> ba_orders a oid \<noteq> None)"

lemma said_mono: "said es oid s \<Longrightarrow> said (es @ fs) oid s"
  by (auto simp: said_def)

lemma fails_snoc: "fails oid (es @ [e]) = fails oid es + (if e = Bu_finished oid False \<or> e = Bu_reload then 1 else 0)"
  by (simp add: fails_def)

lemma trade_ok_mono: "trade_ok es oid l \<Longrightarrow> trade_ok (es @ fs) oid l"
  by (auto simp: trade_ok_def intro: said_mono split: option.splits)

lemma trade_ok_irrelevant [simp]:
  "trade_ok es oid (l\<lparr>lo_account := x\<rparr>) = trade_ok es oid l" "trade_ok es oid (l\<lparr>lo_raw := y\<rparr>) = trade_ok es oid l"
  "trade_ok es oid (l\<lparr>lo_coupang := y, lo_memo := z, lo_fixed_account := x\<rparr>) = trade_ok es oid l"
  by (cases "lo_admin_state l"; simp add: trade_ok_def)+

lemma app_okD:
  assumes "app_ok es a"
  shows "ba_orders a oid = Some l \<Longrightarrow> trade_ok es oid l" and "(oid, s, acct) \<in> set (ba_sent a) \<Longrightarrow> said es oid (Some s)"
    and "sends oid a \<le> fails oid es + (if begun oid a then 1 else 0)" and "ba_sending a oid \<noteq> None \<Longrightarrow> ba_orders a oid \<noteq> None"
  using assms unfolding app_ok_def by blast+

lemma app_ok_mono:
  assumes "app_ok es a"
  shows "app_ok (es @ [e]) a"
  unfolding app_ok_def
proof (intro conjI allI impI)
  show "trade_ok (es @ [e]) oid l" if "ba_orders a oid = Some l" for oid l using trade_ok_mono app_okD(1) [OF assms that] .
  show "said (es @ [e]) oid (Some s)" if "(oid, s, acct) \<in> set (ba_sent a)" for oid s acct
    using said_mono app_okD(2) [OF assms that] .
  show "sends oid a \<le> fails oid (es @ [e]) + (if begun oid a then 1 else 0)" for oid
    using app_okD(3) [OF assms, of oid] by (simp add: fails_snoc)
qed (use app_okD(4) [OF assms] in blast)

text \<open>Changing the record of one trade keeps the invariant if its account stays.\<close>

lemma app_ok_put:
  assumes "app_ok es a" and "ba_orders a oid = Some l" and "trade_ok es oid l'" and "lo_account l \<noteq> None \<Longrightarrow> lo_account l' \<noteq> None"
  shows "app_ok es (a\<lparr>ba_orders := (ba_orders a)(oid \<mapsto> l')\<rparr>)"
  unfolding app_ok_def
proof (intro conjI allI impI)
  show "trade_ok es i x" if "ba_orders (a\<lparr>ba_orders := (ba_orders a)(oid \<mapsto> l')\<rparr>) i = Some x" for i x
    using that assms(3) app_okD(1) [OF assms(1)] by (auto split: if_splits)
  show "said es i (Some s)" if "(i, s, acct) \<in> set (ba_sent (a\<lparr>ba_orders := (ba_orders a)(oid \<mapsto> l')\<rparr>))" for i s acct
    using that app_okD(2) [OF assms(1)] by simp
  show "sends i (a\<lparr>ba_orders := (ba_orders a)(oid \<mapsto> l')\<rparr>)
      \<le> fails i es + (if begun i (a\<lparr>ba_orders := (ba_orders a)(oid \<mapsto> l')\<rparr>) then 1 else 0)" for i
    using app_okD(3) [OF assms(1), of i] assms(2,4) by (auto simp: sends_def begun_def split: if_splits)
qed (use app_okD(4) [OF assms(1)] in auto)

lemma app_ok_patch:
  assumes "app_ok es a" and "\<And>l. ba_orders a oid = Some l \<Longrightarrow> trade_ok es oid (patch l)"
    and "\<And>l. lo_account l \<noteq> None \<Longrightarrow> lo_account (patch l) \<noteq> None"
  shows "app_ok es (a\<lparr>ba_orders := patch_order oid patch (ba_orders a)\<rparr>)"
proof (cases "ba_orders a oid")
  case None
  with assms(1) show ?thesis by (simp add: patch_order_def)
next
  case (Some l)
  from app_ok_put [OF assms(1) Some assms(2) [OF Some] assms(3)] Some show ?thesis by (simp add: patch_order_def)
qed

lemma app_ok_auto_send:
  assumes "app_ok es a"
  shows "app_ok es (auto_send_account_info oid a)"
proof (cases "auto_send_account_info oid a = a")
  case True
  with assms show ?thesis by simp
next
  case False
  then obtain l acct s st where l: "ba_orders a oid = Some l" "lo_fixed_account l = Some acct" "lo_sponsor l = Some s"
      "lo_account l = None" "ba_sending a oid = None" "lo_admin_state l = Some st" "account_gate st"
    and a': "auto_send_account_info oid a = a\<lparr>ba_sending := (ba_sending a)(oid \<mapsto> acct), ba_sent := ba_sent a @ [(oid, s, acct)]\<rparr>"
    unfolding auto_send_account_info_def
    by (auto simp: given_s_def split: option.splits if_splits)
  have s: "said es oid (Some s)" using app_okD(1) [OF assms l(1)] l(3,6,7) by (simp add: trade_ok_def)
  have none: "\<not> begun oid a" using l by (simp add: begun_def)
  show ?thesis
    unfolding app_ok_def a'
  proof (intro conjI allI impI)
    show "sends i (a\<lparr>ba_sending := (ba_sending a)(oid \<mapsto> acct), ba_sent := ba_sent a @ [(oid, s, acct)]\<rparr>)
        \<le> fails i es + (if begun i (a\<lparr>ba_sending := (ba_sending a)(oid \<mapsto> acct), ba_sent := ba_sent a @ [(oid, s, acct)]\<rparr>) then 1 else 0)" for i
      using app_okD(3) [OF assms, of i] none by (auto simp: sends_def begun_def split: if_splits)
  qed (use s l(1) app_okD(1,2,4) [OF assms] in \<open>auto split: if_splits\<close>)
qed

lemma app_ok_finished:
  assumes "app_ok es a"
  shows "app_ok (es @ [Bu_finished oid ok]) (send_finished oid ok a)"
proof (cases "ba_sending a oid")
  case None
  with app_ok_mono [OF assms] show ?thesis by (simp add: send_finished_def)
next
  case (Some acct)
  then obtain l where l: "ba_orders a oid = Some l" using app_okD(4) [OF assms, of oid] by auto
  let ?es = "es @ [Bu_finished oid ok]"
  let ?l = "if ok then l\<lparr>lo_account := Some acct\<rparr> else l"
  have a': "send_finished oid ok a = a\<lparr>ba_sending := (ba_sending a)(oid := None), ba_orders := (ba_orders a)(oid \<mapsto> ?l)\<rparr>"
    using Some l by (auto simp: send_finished_def set_account_info_def patch_order_def fun_upd_idem)
  have t: "trade_ok ?es oid ?l" using trade_ok_mono [OF app_okD(1) [OF assms l]] by simp
  have b: "begun oid a" using Some by (simp add: begun_def)
  show ?thesis
    unfolding app_ok_def a'
  proof (intro conjI allI impI)
    show "trade_ok ?es i x" if "ba_orders (a\<lparr>ba_sending := (ba_sending a)(oid := None), ba_orders := (ba_orders a)(oid \<mapsto> ?l)\<rparr>) i = Some x"
      for i x using that t trade_ok_mono app_okD(1) [OF assms] by (auto split: if_splits)
    show "said ?es i (Some s)" if "(i, s, x) \<in> set (ba_sent (a\<lparr>ba_sending := (ba_sending a)(oid := None), ba_orders := (ba_orders a)(oid \<mapsto> ?l)\<rparr>))"
      for i s x using that said_mono app_okD(2) [OF assms] by auto
    show "sends i (a\<lparr>ba_sending := (ba_sending a)(oid := None), ba_orders := (ba_orders a)(oid \<mapsto> ?l)\<rparr>)
        \<le> fails i ?es + (if begun i (a\<lparr>ba_sending := (ba_sending a)(oid := None), ba_orders := (ba_orders a)(oid \<mapsto> ?l)\<rparr>) then 1 else 0)" for i
      using app_okD(3) [OF assms, of i] b l by (cases "i = oid"; cases ok) (auto simp: sends_def begun_def fails_snoc split: if_splits)
  qed (use app_okD(4) [OF assms] in \<open>auto split: if_splits\<close>)
qed

lemma app_ok_update:
  assumes "app_ok es a" and "names_buyer (Bu_update u)"
  shows "app_ok (es @ [Bu_update u]) (handle_admin_order u a)"
proof -
  let ?es = "es @ [Bu_update u]"
  let ?a1 = "a\<lparr>ba_orders := apply_admin_update u (ba_orders a)\<rparr>"
  have t: "trade_ok ?es (au_order u) (overlay u l)" if "ba_orders a (au_order u) = Some l" for l
    using trade_ok_mono [OF app_okD(1) [OF assms(1) that]] assms(2)
    by (auto simp: trade_ok_def overlay_def names_buyer_def said_def coalesce_def)
  have "app_ok ?es (a\<lparr>ba_orders := patch_order (au_order u) (overlay u) (ba_orders a)\<rparr>)"
    by (rule app_ok_patch [OF app_ok_mono [OF assms(1)] t]) (simp_all add: overlay_def)
  then have a1: "app_ok ?es ?a1"
    using app_ok_mono [OF assms(1)] by (simp add: apply_admin_update_def split: option.splits)
  then show ?thesis
    using app_ok_auto_send [OF a1] by (simp add: handle_admin_order_def Let_def split: option.splits)
qed

lemma app_ok_step:
  assumes "app_ok es a" and "fresh_add e" and "names_buyer e"
  shows "app_ok (es @ [e]) (buyer_step e a)"
proof (cases e)
  case (Bu_add l)
  have ok: "app_ok (es @ [e]) a" by (rule app_ok_mono [OF assms(1)])
  show ?thesis
  proof (cases "ba_orders a (lo_id l)")
    case None
    have t: "trade_ok (es @ [e]) (lo_id l) l" using assms(2) Bu_add by (simp add: trade_ok_def fresh_add_def)
    have step: "buyer_step e a = a\<lparr>ba_orders := (ba_orders a)(lo_id l \<mapsto> l)\<rparr>" using None Bu_add by (simp add: add_order_def)
    have b: "begun i (buyer_step e a) = begun i a" "sends i (buyer_step e a) = sends i a" for i
      unfolding step using None assms(2) Bu_add by (auto simp: begun_def sends_def fresh_add_def)
    show ?thesis
      unfolding app_ok_def b using app_okD [OF ok] t by (auto simp: step split: if_splits)
  qed (use ok Bu_add in \<open>simp add: add_order_def\<close>)
next
  case (Bu_published oid raw)
  have "trade_ok (es @ [e]) oid (l\<lparr>lo_raw := Some raw\<rparr>)" if "ba_orders a oid = Some l" for l
    using trade_ok_mono [OF app_okD(1) [OF assms(1) that]] by simp
  then show ?thesis using app_ok_patch [where oid = oid, OF app_ok_mono [OF assms(1)]] Bu_published by (simp add: mark_published_def)
next
  case (Bu_attach oid p)
  let ?patch = "\<lambda>l. l\<lparr>lo_coupang := Some (pa_coupang p), lo_memo := pa_product p, lo_fixed_account := Some (pa_account p)\<rparr>"
  have "trade_ok (es @ [e]) oid (?patch l)" if "ba_orders a oid = Some l" for l
    using trade_ok_mono [OF app_okD(1) [OF assms(1) that]] by simp
  then have "app_ok (es @ [e]) (a\<lparr>ba_orders := patch_order oid ?patch (ba_orders a)\<rparr>)"
    using app_ok_patch [where oid = oid and patch = ?patch, OF app_ok_mono [OF assms(1)]] by simp
  from app_ok_auto_send [OF this] app_ok_mono [OF assms(1)] Bu_attach show ?thesis
    by (simp add: attach_and_send_def attach_parsed_to_order_def)
next
  case (Bu_send_by_hand oid acct)
  have "trade_ok (es @ [e]) oid (l\<lparr>lo_account := Some acct\<rparr>)" if "ba_orders a oid = Some l" for l
    using trade_ok_mono [OF app_okD(1) [OF assms(1) that]] by simp
  then show ?thesis using app_ok_patch [where oid = oid, OF app_ok_mono [OF assms(1)]] Bu_send_by_hand by (simp add: set_account_info_def)
next
  case Bu_reload
  show ?thesis
    unfolding app_ok_def
  proof (intro conjI allI impI)
    show "sends i (buyer_step e a) \<le> fails i (es @ [e]) + (if begun i (buyer_step e a) then 1 else 0)" for i
      using app_okD(3) [OF assms(1), of i] Bu_reload by (auto simp: sends_def begun_def fails_snoc split: if_splits)
  qed (use app_okD(1,2) [OF app_ok_mono [where e = e, OF assms(1)]] Bu_reload in auto)
qed (use app_ok_update app_ok_finished assms in auto)

lemma buyer_run_ok: "list_all fresh_add es \<Longrightarrow> list_all names_buyer es \<Longrightarrow> app_ok es (buyer_run es)"
proof (induction es rule: rev_induct)
  case Nil
  show ?case by (simp add: buyer_run_def app_ok_def sends_def)
next
  case (snoc e es)
  then show ?case using app_ok_step [of es "buyer_run es" e] by (simp add: buyer_run_def)
qed

subsection \<open>When the account goes out by itself\<close>

text \<open>C14. The seller's account leaves the app by itself only when it may (invariant I-009 of the source).  However updates of the
  daemon are ordered and repeated, and whatever else the user does with a trade, an account is sealed only to a buyer the
  daemon named in an update that said the buyer's invoice is registered, and no second account is sealed for a trade
  unless a publication failed or the app was reloaded on the way.\<close>

theorem auto_account_gated:
  assumes "list_all fresh_add es" and "list_all names_buyer es" and "(oid, s, acct) \<in> set (ba_sent (buyer_run es))"
  shows "(\<exists>u. Bu_update u \<in> set es \<and> au_order u = oid \<and> au_sponsor u = Some s
      \<and> (au_state u = ''invoiced'' \<or> au_state u = ''remitted''))
    \<and> sends oid (buyer_run es) \<le> 1 + fails oid es"
proof -
  note ok = buyer_run_ok [OF assms(1,2)]
  obtain u where u: "Bu_update u \<in> set es" "au_order u = oid" "account_gate (au_state u)" "au_sponsor u = Some s"
    using app_okD(2) [OF ok assms(3)] by (auto simp: said_def)
  moreover have "au_state u = ''invoiced'' \<or> au_state u = ''remitted''" using u(3) by (rule account_gateD)
  moreover have "sends oid (buyer_run es) \<le> 1 + fails oid es" using app_okD(3) [OF ok, of oid] by (auto split: if_splits)
  ultimately show ?thesis by blast
qed

text \<open>C35. The automatic sending forgets the check the card makes.  The card of a designated trade opens neither payment nor
  account when the daemon names another buyer than the one the trade was made for; but if the trade carries a shop's
  account, the very update that names the wrong buyer sends the account to them.\<close>

theorem auto_account_ignores_designation:
  assumes "ba_orders a (au_order u) = Some l" and "lo_id l = au_order u" and "lo_fixed_account l = Some acct"
    and "lo_account l = None" and "ba_sending a (au_order u) = None" and "lo_designated l = Some d" and "d \<noteq> []"
    and "au_sponsor u = Some s" and "s \<noteq> []" and "s \<noteq> d" and "au_state u = ''invoiced''"
    and "ci_local i = Some (overlay u l)"
  shows "wrong_sponsor i (Some Customer) (Some s) \<and> (au_order u, s, acct) \<in> set (ba_sent (handle_admin_order u a))"
proof
  have given: "given_s (Some d) = Some d" "given_s (Some s) = Some s" using assms(7,9) by (simp_all add: given_s_def opt_given_def)
  show "wrong_sponsor i (Some Customer) (Some s)"
    using assms(6,10,12) given by (simp add: wrong_sponsor_def designated_sponsor_of_def overlay_def)
  have gate: "account_gate ''invoiced''" by code_simp
  have changed: "apply_admin_update u (ba_orders a) (au_order u) = Some (overlay u l) \<or>
      apply_admin_update u (ba_orders a) (au_order u) = Some l \<and> lo_admin_state l = Some ''invoiced'' \<and> lo_sponsor l = Some s"
    using assms(1,8,11) by (auto simp: apply_admin_update_def patch_order_def changes_def)
  then show "(au_order u, s, acct) \<in> set (ba_sent (handle_admin_order u a))"
    using assms(2-5,8,11) given gate
    by (auto simp: handle_admin_order_def Let_def auto_send_account_info_def overlay_def)
qed

definition toy_sale :: local_order where
  "toy_sale = \<lparr>lo_id = ''ord1'', lo_price = Fin 50000, lo_memo = [], lo_created = Fin 0, lo_expiration = Fin 100000,
     lo_parsed = True, lo_coupang = Some ''c1'', lo_fixed_account = Some \<lparr>ac_bank = ''b'', ac_number = ''1'', ac_holder = ''h''\<rparr>,
     lo_designated = Some ''friend'', lo_raw = Some ''raw'', lo_admin_state = None, lo_bolt11 = None, lo_deposit_bolt11 = None,
     lo_deposit_status = None, lo_sponsor = None, lo_retain_until = None, lo_close_reason = None, lo_account = None\<rparr>"

definition toy_said :: "string \<Rightarrow> string \<Rightarrow> admin_update" where
  "toy_said st s = \<lparr>au_order = ''ord1'', au_state = st, au_bolt11 = None, au_sponsor = Some s, au_retain_until = None,
     au_close_reason = None\<rparr>"

definition toy_sale_run :: "buyer_event list" where
  "toy_sale_run = [Bu_add toy_sale, Bu_update (toy_said ''claimed'' ''friend''), Bu_update (toy_said ''invoiced'' ''friend''),
     Bu_update (toy_said ''invoiced'' ''friend''), Bu_finished ''ord1'' True, Bu_update (toy_said ''remitted'' ''friend'')]"

lemma toy_sale_sent:
  "ba_sent (buyer_run toy_sale_run) = [(''ord1'', ''friend'', \<lparr>ac_bank = ''b'', ac_number = ''1'', ac_holder = ''h''\<rparr>)]"
  by code_simp

theorem auto_account_gated_witness:
  "(\<exists>u. Bu_update u \<in> set toy_sale_run \<and> au_sponsor u = Some ''friend'' \<and> (au_state u = ''invoiced'' \<or> au_state u = ''remitted''))
   \<and> sends ''ord1'' (buyer_run toy_sale_run) \<le> 1 + fails ''ord1'' toy_sale_run"
proof -
  have "list_all fresh_add toy_sale_run" "list_all names_buyer toy_sale_run"
    by (simp_all add: toy_sale_run_def fresh_add_def names_buyer_def toy_sale_def toy_said_def)
  from auto_account_gated [OF this, of "''ord1''" "''friend''"] toy_sale_sent show ?thesis by auto
qed

theorem auto_account_ignores_designation_witness:
  "(''ord1'', ''stranger'', \<lparr>ac_bank = ''b'', ac_number = ''1'', ac_holder = ''h''\<rparr>)
     \<in> set (ba_sent (handle_admin_order (toy_said ''invoiced'' ''stranger'') (buyer_run [Bu_add toy_sale])))"
proof -
  let ?i = "\<lparr>ci_order = None, ci_local = Some (overlay (toy_said ''invoiced'' ''stranger'') toy_sale), ci_me = None, ci_deposit = None,
     ci_account = None, ci_rejection = None, ci_rejection_warns = False, ci_reveal = False, ci_now = 0\<rparr>"
  have a: "ba_orders (buyer_run [Bu_add toy_sale]) ''ord1'' = Some toy_sale" "ba_sending (buyer_run [Bu_add toy_sale]) ''ord1'' = None"
    by (simp_all add: buyer_run_def add_order_def toy_sale_def)
  show ?thesis
    using auto_account_ignores_designation [of "buyer_run [Bu_add toy_sale]" "toy_said ''invoiced'' ''stranger''" toy_sale
        "\<lparr>ac_bank = ''b'', ac_number = ''1'', ac_holder = ''h''\<rparr>" "''friend''" "''stranger''" ?i] a
    by (simp add: toy_said_def toy_sale_def)
qed

end
