(* ===== verification/App_Requests.thy ===== *)
theory App_Requests
  imports Buyer Ln_Requests
begin

text \<open>
  The requests the seller's app publishes (\<open>customer/src/buyer/nostr/publish.ts\<close>) and how the daemon reads them: a sale
  made in the app becomes the order the daemon keeps.  Signing and sealing are parameters; a template is its tags and
  content.
\<close>

subsection \<open>Building the events\<close>

definition number_text :: "jsnum \<Rightarrow> string" where
  "number_text x = (case x of NaN \<Rightarrow> ''NaN'' | Inf pos \<Rightarrow> if pos then ''Infinity'' else ''-Infinity'' | Fin q \<Rightarrow> num_str q)"

definition order_address :: "string \<Rightarrow> string \<Rightarrow> string" where
  "order_address app oid = ''38383:'' @ app @ '':'' @ oid"

definition order_request_tags :: "string \<Rightarrow> string \<Rightarrow> local_order \<Rightarrow> sec \<Rightarrow> string list list" where
  "order_request_tags app client l now =
     [[''a'', order_address app (lo_id l)], [''action'', ''order-request''], [''price'', number_text (lo_price l), ''KRW''],
      [''deadline'', number_text (lo_expiration l)], [''t'', client], [''p'', app],
      [''expiration'', int_str (ln_request_expiration now)]]"

definition designated_request :: "string \<Rightarrow> string \<Rightarrow> local_order \<Rightarrow> string \<Rightarrow> sec \<Rightarrow> string list list \<times> json" where
  "designated_request app client l designated now =
     ([[''a'', order_address app (lo_id l)], [''action'', ''designated-order-request''], [''t'', client], [''p'', app],
       [''expiration'', int_str (ln_request_expiration now)]],
      J_obj [(''price'', J_num (lo_price l)), (''deadline'', J_num (lo_expiration l)), (''designatedSponsor'', J_str designated)])"

definition notification_tags :: "string \<Rightarrow> string \<Rightarrow> string \<Rightarrow> string \<Rightarrow> sec \<Rightarrow> string list list" where
  "notification_tags app client oid action now =
     [[''a'', order_address app oid], [''action'', action], [''t'', client], [''p'', app],
      [''expiration'', int_str (ln_request_expiration now)]]"

text \<open>A sale for somebody goes out sealed; any other is public.\<close>

definition publish_order_request :: "string \<Rightarrow> string \<Rightarrow> local_order \<Rightarrow> sec \<Rightarrow> string list list \<times> json option" where
  "publish_order_request app client l now =
     (case given_s (lo_designated l) of
        Some d \<Rightarrow> (case designated_request app client l d now of (tags, v) \<Rightarrow> (tags, Some v))
      | None \<Rightarrow> (order_request_tags app client l now, None))"

definition account_envelope :: "account \<Rightarrow> string \<Rightarrow> json" where
  "account_envelope a salt =
     J_obj [(''accountInfo'', J_obj [(''bankName'', J_str (ac_bank a)), (''accountNumber'', J_str (ac_number a)),
        (''holderName'', J_str (ac_holder a))]), (''salt'', J_str salt)]"

definition account_info_tags :: "string \<Rightarrow> string \<Rightarrow> string \<Rightarrow> string \<Rightarrow> hex \<Rightarrow> sec \<Rightarrow> string list list" where
  "account_info_tags app client oid sponsor commitment now =
     [[''a'', order_address app oid], [''action'', ''account-info''], [''t'', client], [''p'', app], [''p'', sponsor],
      [''commitment'', commitment], [''expiration'', int_str (ln_request_expiration now)]]"

text \<open>Reading the sealed account: the shape with the salt, and the older one that is the account itself.\<close>

definition string_field :: "string \<Rightarrow> (string \<times> json) list \<Rightarrow> string option" where
  "string_field k fs = (case map_of fs k of Some (J_str s) \<Rightarrow> Some s | _ \<Rightarrow> None)"

definition read_account :: "json option \<Rightarrow> account option" where
  "read_account v =
     (case v of
        Some (J_obj fs) \<Rightarrow>
          (case (string_field ''bankName'' fs, string_field ''accountNumber'' fs, string_field ''holderName'' fs) of
             (Some b, Some n, Some h) \<Rightarrow> Some \<lparr>ac_bank = b, ac_number = n, ac_holder = h\<rparr>
           | _ \<Rightarrow> None)
      | _ \<Rightarrow> None)"

definition parse_account_envelope :: "json \<Rightarrow> (account \<times> string) option" where
  "parse_account_envelope v =
     (case v of
        J_obj fs \<Rightarrow>
          (case read_account (map_of fs ''accountInfo'') of
             Some a \<Rightarrow> Some (a, case string_field ''salt'' fs of Some s \<Rightarrow> s | None \<Rightarrow> [])
           | None \<Rightarrow> map_option (\<lambda>a. (a, [])) (read_account (Some v)))
      | _ \<Rightarrow> None)"

lemma account_envelope_roundtrip: "parse_account_envelope (account_envelope a salt) = Some (a, salt)"
  by (simp add: parse_account_envelope_def account_envelope_def read_account_def string_field_def)

subsection \<open>The daemon reads what the app wrote\<close>

lemma split_no_colon: "CHR '':'' \<notin> set a \<Longrightarrow> split_colon a = [a]"
  by (induction a) auto

lemma split_colon_append: "CHR '':'' \<notin> set a \<Longrightarrow> split_colon (a @ CHR '':'' # b) = a # split_colon b"
  by (induction a) auto

lemma order_id_no_colon: "is_order_id oid \<Longrightarrow> CHR '':'' \<notin> set oid"
  unfolding is_order_id_def list_all_iff order_id_char_def char_code_def by fastforce

lemma order_address_read:
  assumes "CHR '':'' \<notin> set app" and "CHR '':'' \<notin> set oid" and "tag_value ''a'' tags = Some (order_address app oid)"
  shows "extract_order_id tags = Some oid"
proof -
  have "split_colon (order_address app oid) = [''38383'', app, oid]"
    using split_colon_append [of "''38383''" "app @ '':'' @ oid"] split_colon_append [OF assms(1), of oid]
      split_no_colon [OF assms(2)]
    by (simp add: order_address_def)
  with assms(3) show ?thesis by (simp add: extract_order_id_def order_address_def)
qed

lemma request_tags_read:
  "tag_value ''a'' (order_request_tags app client l now) = Some (order_address app (lo_id l))"
  "tag_value ''price'' (order_request_tags app client l now) = Some (number_text (lo_price l))"
  "tag_value ''deadline'' (order_request_tags app client l now) = Some (number_text (lo_expiration l))"
  "tag_value ''a'' (notification_tags app client oid action now) = Some (order_address app oid)"
  "tag_value ''a'' (account_info_tags app client oid sponsor commitment now) = Some (order_address app oid)"
  "tag_value ''commitment'' (account_info_tags app client oid sponsor commitment now) = Some commitment"
  by (simp_all add: order_request_tags_def notification_tags_def account_info_tags_def tag_value_def)

text \<open>C17. Round trip from the app to the daemon: a public sale made in the app, with an id of the allowed form and whole
  numbers below two to the 53, is listed by the daemon exactly as it was made, if it charges no deposit and the terms are
  allowed: the order it inserts has the sale's id, price and deadline and belongs to who signed the request.\<close>

theorem sale_listed_as_made:
  assumes "is_order_id (lo_id l)" and "lo_price l = Fin (of_int p)" and "lo_expiration l = Fin (of_int d)" and "small p" and "small d"
    and "given_s (lo_designated l) = None" and "CHR '':'' \<notin> set app" and "(ie_tags ev, None) = publish_order_request app client l now"
    and "order_terms_blocker (lo_id l) (Fin (of_int p)) (Fin (of_int d)) w = None" and "st_customer_pct (db_settings w) = 0"
  shows "\<exists>w' r. order_request e ev w = Some (H_ok, w') \<and> get_order (lo_id l) w' = Some r
    \<and> o_state r = Requested \<and> o_price r = p \<and> o_deadline r = d \<and> o_customer r = ie_pubkey ev"
proof -
  have tags: "ie_tags ev = order_request_tags app client l now" using assms(6,8) by (simp add: publish_order_request_def)
  have oid: "extract_order_id (ie_tags ev) = Some (lo_id l)"
    unfolding tags by (rule order_address_read [OF assms(7) order_id_no_colon [OF assms(1)] request_tags_read(1)])
  have num: "js_number (number_text (Fin (of_int n))) = Fin (of_int n)" if "small n" for n
    using that by (simp add: number_text_def num_str_of_int small_def js_number_int_str)
  have price: "js_number_opt (tag_value ''price'' (ie_tags ev)) = Fin (of_int p)"
    and deadline: "js_number_opt (tag_value ''deadline'' (ie_tags ev)) = Fin (of_int d)"
    using num assms(2-5) by (simp_all add: tags request_tags_read js_number_opt_def)
  have "get_order (lo_id l) w = None" using assms(9) by (simp add: order_terms_blocker_def split: if_splits)
  then obtain w' where w': "insert_order e (lo_id l) (ie_pubkey ev) p d None None w = Some w'"
    by (auto simp: insert_order_def Let_def js_true_s_def)
  have "get_order (lo_id l) w' = Some (new_order (lo_id l) (ie_pubkey ev) p d None None (now_sec w))"
    using insert_order_get(2) [OF w', of "lo_id l"] by simp
  moreover have "order_request e ev w = Some (H_ok, w')"
    using assms(1,9,10) oid price deadline w' by (simp add: order_request_def Let_def js_int_def)
  ultimately show ?thesis by (simp add: new_order_def)
qed

definition toy_public_sale :: local_order where
  "toy_public_sale = toy_sale\<lparr>lo_designated := None\<rparr>"

definition toy_sale_event :: inbox_event where
  "toy_sale_event = (toy_event ''cust'')\<lparr>ie_tags := order_request_tags ''app'' ''ln'' toy_public_sale 0\<rparr>"

theorem sale_listed_as_made_witness:
  "\<exists>w' r. order_request toy_env toy_sale_event empty_db = Some (H_ok, w') \<and> get_order ''ord1'' w' = Some r
    \<and> o_price r = 50000 \<and> o_deadline r = 100000 \<and> o_customer r = ''cust''"
proof -
  have sel: "lo_id toy_public_sale = ''ord1''" "lo_price toy_public_sale = Fin (of_int 50000)"
      "lo_expiration toy_public_sale = Fin (of_int 100000)" "lo_designated toy_public_sale = None"
    by (simp_all add: toy_public_sale_def toy_sale_def)
  have b: "order_terms_blocker ''ord1'' (Fin (of_int 50000)) (Fin (of_int 100000)) empty_db = None"
    by (simp add: order_terms_blocker_def is_js_integer_def js_int_def MAX_PRICE_KRW_def now_sec_def empty_db_def get_order_def
        get_draft_def LN_MIN_CLAIM_LEAD_SEC_def LN_MAX_DEADLINE_LEAD_SEC_def)
  have o: "is_order_id ''ord1''" by (simp add: is_order_id_def order_id_char_def char_code_def Let_def)
  have ev: "ie_pubkey toy_sale_event = ''cust''" "ie_tags toy_sale_event = order_request_tags ''app'' ''ln'' toy_public_sale 0"
    by (simp_all add: toy_sale_event_def toy_event_def)
  show ?thesis
    using sale_listed_as_made [of toy_public_sale 50000 100000 "''app''" toy_sale_event "''ln''" 0 empty_db toy_env] sel b o ev
    by (auto simp: small_def publish_order_request_def given_s_def opt_given_def empty_db_def)
qed

end
