(* ===== verification/Services.thy ===== *)
theory Services
  imports App_Requests App_Onchain Oc_Requests
begin

text \<open>
  What the apps do with what arrives (\<open>customer/src/sponsor/nostr/service.ts\<close>, \<open>customer/src/onchain/nostr/service.ts\<close>): order
  events go into the order book, messages are told apart by their action.  The public keys of a trade stand in its order,
  so that anybody can seal a message to the buyer; the services decide whose message counts.  Opening a sealed content
  (\<open>ak_open\<close>, given the content and the other party's key, with the JSON parsed) is a parameter.  Log lines are not
  modelled; what a handler does after an \<open>await\<close> is part of its step.
\<close>

record app_keys =
  ak_app :: string
  ak_me :: string
  ak_oc_tag :: string
  ak_open :: "string \<Rightarrow> string \<Rightarrow> json option"

subsection \<open>Versions of the protocol\<close>

definition note_order_protocol :: "string list list \<Rightarrow> int option \<Rightarrow> int option" where
  "note_order_protocol tags ahead =
     (case protocol_of tags of
        None \<Rightarrow> ahead
      | Some v \<Rightarrow>
          if v \<le> PROTOCOL_VERSION then ahead
          else if (case ahead of Some x \<Rightarrow> x | None \<Rightarrow> 0) < v then Some v else ahead)"

subsection \<open>Accounts that come before their order\<close>

definition MAX_BUFFERED_PER_ORDER :: nat where "MAX_BUFFERED_PER_ORDER = 10"

definition buffer_account :: "string \<Rightarrow> 'e \<Rightarrow> (string \<rightharpoonup> 'e list) \<Rightarrow> (string \<rightharpoonup> 'e list)" where
  "buffer_account oid e m =
     (let list = (case m oid of Some es \<Rightarrow> es | None \<Rightarrow> []) in
      if length list < MAX_BUFFERED_PER_ORDER then m(oid \<mapsto> list @ [e]) else m)"

text \<open>Both account stores keep what came first.\<close>

definition keep_first :: "string \<Rightarrow> 'a \<Rightarrow> (string \<rightharpoonup> 'a) \<Rightarrow> (string \<rightharpoonup> 'a)" where
  "keep_first oid x m = (if m oid \<noteq> None then m else m(oid \<mapsto> x))"

subsection \<open>The buyer of a Lightning trade\<close>

record account_event =
  ae_id :: string
  ae_order :: string
  ae_sender :: string
  ae_content :: string
  ae_commitment :: string
  ae_created :: sec
  ae_expiration :: jsnum

definition parse_account_info_event :: "inbox_event \<Rightarrow> account_event option" where
  "parse_account_info_event ev =
     (if tag_value ''action'' (ie_tags ev) \<noteq> Some ''account-info'' then None
      else map_option (\<lambda>oid.
        \<lparr>ae_id = ie_id ev, ae_order = oid, ae_sender = ie_pubkey ev, ae_content = ie_content ev,
         ae_commitment = (case tag_value ''commitment'' (ie_tags ev) of Some c \<Rightarrow> c | None \<Rightarrow> []), ae_created = ie_created_at ev,
         ae_expiration = js_number (case tag_value ''expiration'' (ie_tags ev) of Some t \<Rightarrow> t | None \<Rightarrow> ''0'')\<rparr>)
        (extract_order_id (ie_tags ev)))"

text \<open>What the archive keeps of a received account: the salt is left out when it is empty.\<close>

record account_request =
  rq_order :: string
  rq_sender :: string
  rq_created :: sec
  rq_expiration :: jsnum
  rq_account :: account
  rq_salt :: "string option"

record claim_error =
  ce_expected :: jsnum
  ce_reason :: "string option"
  ce_received :: sec

record sponsor_app =
  sa_orders :: "string \<rightharpoonup> ln_view"
  sa_archive :: "string \<rightharpoonup> ln_view"
  sa_awaiting :: "string \<rightharpoonup> account_event list"
  sa_accounts :: "string \<rightharpoonup> account"
  sa_requests :: "string \<rightharpoonup> account_request"
  sa_deposits :: "string \<rightharpoonup> buyer_deposit"
  sa_reveals :: "string \<rightharpoonup> sec"
  sa_errors :: "string \<rightharpoonup> claim_error"

text \<open>Only the customer of the order is believed.\<close>

definition sponsor_account_info :: "app_keys \<Rightarrow> account_event \<Rightarrow> sponsor_app \<Rightarrow> sponsor_app" where
  "sponsor_account_info K e a =
     (case sa_orders a (ae_order e) of
        None \<Rightarrow> a\<lparr>sa_awaiting := buffer_account (ae_order e) e (sa_awaiting a)\<rparr>
      | Some v \<Rightarrow>
          if ae_sender e \<noteq> lv_customer v then a
          else (case Option.bind (ak_open K (ae_content e) (ae_sender e)) parse_account_envelope of
                  None \<Rightarrow> a
                | Some (info, salt) \<Rightarrow>
                    a\<lparr>sa_accounts := keep_first (ae_order e) info (sa_accounts a),
                      sa_requests := (sa_requests a)(ae_id e \<mapsto>
                        \<lparr>rq_order = ae_order e, rq_sender = ae_sender e, rq_created = ae_created e,
                         rq_expiration = ae_expiration e, rq_account = info, rq_salt = given_s (Some salt)\<rparr>)\<rparr>))"

definition sync_order :: "string \<Rightarrow> ln_view \<Rightarrow> (string \<rightharpoonup> ln_view) \<Rightarrow> (string \<rightharpoonup> ln_view)" where
  "sync_order me v m =
     (if lv_sponsor v = Some me \<or> m (lv_order v) \<noteq> None then
        (case m (lv_order v) of
           Some x \<Rightarrow> if lv_created_at v \<le> lv_created_at x then m else m(lv_order v \<mapsto> v)
         | None \<Rightarrow> m(lv_order v \<mapsto> v))
      else m)"

definition sponsor_admin_order :: "app_keys \<Rightarrow> order_event \<Rightarrow> sponsor_app \<Rightarrow> sponsor_app" where
  "sponsor_admin_order K ev a =
     (case parse_ln_order_event ev (ak_app K) of
        None \<Rightarrow> a
      | Some v \<Rightarrow>
          (let a1 = a\<lparr>sa_orders := upsert_order v (sa_orders a), sa_archive := sync_order (ak_me K) v (sa_archive a)\<rparr> in
           case sa_awaiting a1 (lv_order v) of
             None \<Rightarrow> a1
           | Some buffered \<Rightarrow>
               fold (sponsor_account_info K) buffered (a1\<lparr>sa_awaiting := (sa_awaiting a1)(lv_order v := None)\<rparr>)))"

text \<open>\<open>setRevealRequested\<close> keeps the first time, a time of zero counts as none; \<open>handleClaimPriceError\<close> takes the reason as it is.\<close>

definition set_reveal_requested :: "string \<Rightarrow> sec \<Rightarrow> (string \<rightharpoonup> sec) \<Rightarrow> (string \<rightharpoonup> sec)" where
  "set_reveal_requested oid t m = (if (case m oid of Some x \<Rightarrow> x \<noteq> 0 | None \<Rightarrow> False) then m else m(oid \<mapsto> t))"

definition handle_claim_price_error :: "inbox_event \<Rightarrow> sec \<Rightarrow> sponsor_app \<Rightarrow> sponsor_app" where
  "handle_claim_price_error ev now a =
     (case given_s (extract_order_id (ie_tags ev)) of
        None \<Rightarrow> a
      | Some oid \<Rightarrow>
          (let expected = (case js_number_or0 (tag_value ''expected-sats'' (ie_tags ev)) of NaN \<Rightarrow> Fin 0 | x \<Rightarrow> x);
               reason = tag_value ''reason'' (ie_tags ev) in
           if given_s reason = None \<and> \<not> js_positive expected then a
           else a\<lparr>sa_errors := (sa_errors a)(oid \<mapsto> \<lparr>ce_expected = expected, ce_reason = reason, ce_received = now\<rparr>)\<rparr>))"

definition sponsor_deposit_notice :: "deposit_status \<Rightarrow> inbox_event \<Rightarrow> sponsor_app \<Rightarrow> sponsor_app" where
  "sponsor_deposit_notice st ev a =
     (case given_s (extract_order_id (ie_tags ev)) of
        None \<Rightarrow> a
      | Some oid \<Rightarrow> a\<lparr>sa_deposits := set_deposit_status oid st (ie_created_at ev) (sa_deposits a)\<rparr>)"

definition sponsor_inbox :: "app_keys \<Rightarrow> sec \<Rightarrow> inbox_event \<Rightarrow> sponsor_app \<Rightarrow> bool \<times> sponsor_app" where
  "sponsor_inbox K now ev a =
     (case parse_account_info_event ev of
        Some e \<Rightarrow> (True, sponsor_account_info K e a)
      | None \<Rightarrow>
          (let action = tag_value ''action'' (ie_tags ev); daemon = ie_pubkey ev = ak_app K;
               oid = given_s (extract_order_id (ie_tags ev)) in
           if action = Some ''deposit-required'' \<and> daemon then
             (True, case (oid, given_s (tag_value ''bolt11'' (ie_tags ev))) of
                (Some i, Some b) \<Rightarrow> a\<lparr>sa_deposits := set_deposit_bolt11 i b (ie_created_at ev) (sa_deposits a)\<rparr>
              | _ \<Rightarrow> a)
           else if action = Some ''deposit-accepted'' \<and> daemon then (True, sponsor_deposit_notice Dep_accepted ev a)
           else if action = Some ''deposit-cancelled'' \<and> daemon then (True, sponsor_deposit_notice Dep_cancelled ev a)
           else if action = Some ''deposit-settled'' \<and> daemon then (True, sponsor_deposit_notice Dep_settled ev a)
           else if action = Some ''reveal-request'' \<and> daemon then
             (True, case oid of
                Some i \<Rightarrow> a\<lparr>sa_reveals := set_reveal_requested i (ie_created_at ev) (sa_reveals a)\<rparr>
              | None \<Rightarrow> a)
           else if action = Some ''claim-price-error'' then (True, handle_claim_price_error ev now a)
           else (False, a)))"

text \<open>What the card of a trade reads from the stores (\<open>use-ln-card.ts\<close>); the texts of a refusal are named by its reason.\<close>

definition REJECT_REASONS :: "string list" where
  "REJECT_REASONS = [''DECODE_FAILED'', ''EXPIRES_TOO_SOON'', ''EXPIRED_BEFORE_PAYOUT'', ''LIQUIDITY_WARNING'', ''ESCROW_ENDING_SOON'']"

definition reject_reason_text :: "claim_error \<Rightarrow> string" where
  "reject_reason_text e =
     (case ce_reason e of
        Some r \<Rightarrow>
          if r \<in> set REJECT_REASONS then r
          else if r = ''AMOUNT_MISMATCH'' then ''other amount:'' @ number_text (ce_expected e)
          else ''reissue:'' @ number_text (ce_expected e)
      | None \<Rightarrow> ''reissue:'' @ number_text (ce_expected e))"

definition use_ln_card ::
  "string \<Rightarrow> ln_view option \<Rightarrow> string option \<Rightarrow> sec \<Rightarrow> (string \<rightharpoonup> local_order) \<Rightarrow> sponsor_app \<Rightarrow> card_input" where
  "use_ln_card oid archived me now local a =
     \<lparr>ci_order = coalesce (sa_orders a oid) archived, ci_local = local oid, ci_me = me, ci_deposit = sa_deposits a oid,
      ci_account = sa_accounts a oid, ci_rejection = map_option reject_reason_text (sa_errors a oid),
      ci_rejection_warns = (Option.bind (sa_errors a oid) ce_reason = Some ''LIQUIDITY_WARNING''),
      ci_reveal = (sa_reveals a oid \<noteq> None), ci_now = now\<rparr>"

subsection \<open>The parties of an on-chain trade\<close>

record deposit_invoice =
  di_bolt11 :: string
  di_received :: sec
  di_done :: "bool option"

text \<open>The spread of the new entry over the old: what the new one leaves out stays.\<close>

definition put_deposit_invoice ::
  "string \<Rightarrow> string \<Rightarrow> sec \<Rightarrow> bool option \<Rightarrow> (string \<rightharpoonup> deposit_invoice) \<Rightarrow> (string \<rightharpoonup> deposit_invoice)" where
  "put_deposit_invoice oid bolt11 received ended m =
     m(oid \<mapsto> \<lparr>di_bolt11 = bolt11, di_received = received,
         di_done = (case ended of Some b \<Rightarrow> Some b | None \<Rightarrow> Option.bind (m oid) di_done)\<rparr>)"

definition get_deposit_invoice :: "string \<Rightarrow> (string \<rightharpoonup> deposit_invoice) \<Rightarrow> deposit_invoice option" where
  "get_deposit_invoice oid m = (case m oid of Some d \<Rightarrow> if di_done d = Some True then None else Some d | None \<Rightarrow> None)"

record pending_request =
  pr_amount :: rat
  pr_reserve :: "rat option"
  pr_expiration :: rat
  pr_submitted :: rat
  pr_designated :: bool
  pr_rejected :: "string option"

definition remember_pending_request :: "string \<Rightarrow> pending_request \<Rightarrow> (string \<rightharpoonup> pending_request) \<Rightarrow> (string \<rightharpoonup> pending_request)" where
  "remember_pending_request oid p m = m(oid \<mapsto> p)"

definition mark_request_rejected :: "string \<Rightarrow> string \<Rightarrow> (string \<rightharpoonup> pending_request) \<Rightarrow> (string \<rightharpoonup> pending_request)" where
  "mark_request_rejected oid reason m = (case m oid of None \<Rightarrow> m | Some p \<Rightarrow> m(oid \<mapsto> p\<lparr>pr_rejected := Some reason\<rparr>))"

definition forget_pending_request :: "string \<Rightarrow> (string \<rightharpoonup> pending_request) \<Rightarrow> (string \<rightharpoonup> pending_request)" where
  "forget_pending_request oid m = m(oid := None)"

record order_notice =
  nt_reason :: string
  nt_received :: sec

definition put_notice :: "string \<Rightarrow> order_notice \<Rightarrow> (string \<rightharpoonup> order_notice) \<Rightarrow> (string \<rightharpoonup> order_notice)" where
  "put_notice oid n m = (case m oid of Some x \<Rightarrow> if nt_received n < nt_received x then m else m(oid \<mapsto> n) | None \<Rightarrow> m(oid \<mapsto> n))"

definition clear_notice :: "string \<Rightarrow> (string \<rightharpoonup> order_notice) \<Rightarrow> (string \<rightharpoonup> order_notice)" where
  "clear_notice oid m = m(oid := None)"

record onchain_app =
  oa_orders :: "string \<rightharpoonup> rat oc_order"
  oa_awaiting :: "string \<rightharpoonup> inbox_event list"
  oa_accounts :: "string \<rightharpoonup> account \<times> string"
  oa_presigning :: "string set"
  oa_presigned :: "string list"
  oa_requests :: "string \<rightharpoonup> sign_request"
  oa_deposits :: "string \<rightharpoonup> deposit_invoice"
  oa_pending :: "string \<rightharpoonup> pending_request"
  oa_notices :: "string \<rightharpoonup> order_notice"
  oa_ahead :: "int option"

definition onchain_account_info :: "app_keys \<Rightarrow> string \<Rightarrow> inbox_event \<Rightarrow> onchain_app \<Rightarrow> onchain_app" where
  "onchain_account_info K oid ev a =
     (case oa_orders a oid of
        None \<Rightarrow> a\<lparr>oa_awaiting := buffer_account oid ev (oa_awaiting a)\<rparr>
      | Some r \<Rightarrow>
          if ie_pubkey ev \<noteq> oo_customer r then a
          else if oo_sponsor r \<noteq> Some (ak_me K) then a
          else (case Option.bind (ak_open K (ie_content ev) (ie_pubkey ev)) parse_account_envelope of
                  None \<Rightarrow> a
                | Some acct \<Rightarrow> a\<lparr>oa_accounts := keep_first oid acct (oa_accounts a)\<rparr>))"

text \<open>
  The automatic presignature: \<open>oa_presigning\<close> guards against a second one while the first is under way, \<open>oa_presigned\<close>
  records the orders for which one was begun.  A build that is refused keeps the guard, a failed publication gives it up,
  and a timer does so a minute after the end.
\<close>

definition auto_presign :: "string \<Rightarrow> onchain_app \<Rightarrow> onchain_app" where
  "auto_presign oid a =
     (if oid \<in> oa_presigning a then a
      else a\<lparr>oa_presigning := insert oid (oa_presigning a), oa_presigned := oa_presigned a @ [oid]\<rparr>)"

definition release_presign :: "string \<Rightarrow> onchain_app \<Rightarrow> onchain_app" where
  "release_presign oid a = a\<lparr>oa_presigning := oa_presigning a - {oid}\<rparr>"

definition presign_now :: "string \<Rightarrow> onchain_app \<Rightarrow> onchain_app" where
  "presign_now oid a = auto_presign oid (release_presign oid a)"

definition awaits_presign :: "string \<Rightarrow> 'n oc_order \<Rightarrow> bool" where
  "awaits_presign me r \<longleftrightarrow> oo_state r = Oc_funded \<and> oo_settlement_kind r = None \<and> role_in_trade r me = Some Sponsor"

text \<open>An order event: the stores around the order first, then the accounts that waited for it, then the presignature.\<close>

definition order_arrived :: "rat oc_order \<Rightarrow> onchain_app \<Rightarrow> onchain_app" where
  "order_arrived r a =
     a\<lparr>oa_pending := forget_pending_request (oo_id r) (oa_pending a),
       oa_requests := (if oo_state r = Oc_settling \<or> is_onchain_terminal (oo_state r)
                       then clear_sign_requests_for (oo_id r) (oa_requests a) else oa_requests a)\<rparr>"

definition drain_accounts :: "app_keys \<Rightarrow> string \<Rightarrow> onchain_app \<Rightarrow> onchain_app" where
  "drain_accounts K oid a =
     (case oa_awaiting a oid of
        None \<Rightarrow> a
      | Some buffered \<Rightarrow> fold (onchain_account_info K oid) buffered (a\<lparr>oa_awaiting := (oa_awaiting a)(oid := None)\<rparr>))"

definition handle_order_event :: "app_keys \<Rightarrow> order_event \<Rightarrow> onchain_app \<Rightarrow> onchain_app" where
  "handle_order_event K ev a =
     (let a0 = a\<lparr>oa_ahead := note_order_protocol (oe_tags ev) (oa_ahead a)\<rparr> in
      case parse_onchain_order ev (ak_oc_tag K) of
        None \<Rightarrow> a0
      | Some r \<Rightarrow>
          (case upsert_onchain_order r (oa_orders a0) of
             (False, _) \<Rightarrow> a0
           | (True, m) \<Rightarrow>
               (let a1 = drain_accounts K (oo_id r) (order_arrived r (a0\<lparr>oa_orders := m\<rparr>)) in
                if awaits_presign (ak_me K) r then auto_presign (oo_id r) a1 else a1)))"

definition rescue_outpoint_of :: "app_lib \<Rightarrow> string \<Rightarrow> string option" where
  "rescue_outpoint_of A text =
     map_option (\<lambda>o'. format_outpoint (op_txid o') (op_vout o')) (Option.bind (bl_read_psbt A text) ps_input)"

definition order_of_message :: "inbox_event \<Rightarrow> string option" where
  "order_of_message ev =
     given_s (case tag_value ''a'' (ie_tags ev) of
        None \<Rightarrow> None
      | Some s \<Rightarrow> (case split_colon s of _ # _ # oid # _ \<Rightarrow> Some oid | _ \<Rightarrow> None))"

definition take_sign_request :: "app_lib \<Rightarrow> app_keys \<Rightarrow> string \<Rightarrow> inbox_event \<Rightarrow> onchain_app \<Rightarrow> onchain_app" where
  "take_sign_request A K oid ev a =
     (case Option.bind (tag_value ''purpose'' (ie_tags ev)) sign_purpose_of of
        None \<Rightarrow> a
      | Some p \<Rightarrow>
          (case Option.bind (ak_open K (ie_content ev) (ak_app K)) psbt_payload of
             None \<Rightarrow> a
           | Some text \<Rightarrow>
               a\<lparr>oa_requests := put_sign_request
                  \<lparr>sq_order = oid, sq_purpose = p, sq_psbt = text, sq_received = ie_created_at ev,
                   sq_outpoint = (if p = SP_rescue then rescue_outpoint_of A text else None)\<rparr> (oa_requests a)\<rparr>))"

definition daemon_notice :: "app_lib \<Rightarrow> app_keys \<Rightarrow> string \<Rightarrow> string \<Rightarrow> inbox_event \<Rightarrow> onchain_app \<Rightarrow> onchain_app" where
  "daemon_notice A K action oid ev a =
     (if action = ''deposit-required'' then
        (case given_s (tag_value ''bolt11'' (ie_tags ev)) of
           None \<Rightarrow> a
         | Some b \<Rightarrow> a\<lparr>oa_deposits := put_deposit_invoice oid b (ie_created_at ev) None (oa_deposits a),
                       oa_pending := forget_pending_request oid (oa_pending a)\<rparr>)
      else if action = ''onchain-rejected'' then
        (let reason = (case tag_value ''reason'' (ie_tags ev) of Some t \<Rightarrow> t | None \<Rightarrow> ''unknown reason'') in
         if oa_pending a oid \<noteq> None then a\<lparr>oa_pending := mark_request_rejected oid reason (oa_pending a)\<rparr>
         else a\<lparr>oa_notices := put_notice oid \<lparr>nt_reason = reason, nt_received = ie_created_at ev\<rparr> (oa_notices a)\<rparr>)
      else if action = ''onchain-cosign'' then take_sign_request A K oid ev a
      else if action = ''deposit-accepted'' \<or> action = ''deposit-cancelled'' then
        (if action = ''deposit-accepted'' \<or> oa_orders a oid \<noteq> None
         then a\<lparr>oa_deposits := put_deposit_invoice oid [] (ie_created_at ev) (Some True) (oa_deposits a)\<rparr>
         else a)
      else a)"

definition onchain_inbox :: "app_lib \<Rightarrow> app_keys \<Rightarrow> inbox_event \<Rightarrow> onchain_app \<Rightarrow> onchain_app" where
  "onchain_inbox A K ev a =
     (case (given_s (tag_value ''action'' (ie_tags ev)), order_of_message ev) of
        (Some action, Some oid) \<Rightarrow>
          if action = ''account-info'' then onchain_account_info K oid ev a
          else if ie_pubkey ev \<noteq> ak_app K then a
          else daemon_notice A K action oid ev a
      | _ \<Rightarrow> a)"

subsection \<open>Runs\<close>

text \<open>
  What the relays deliver in any order, from anybody; only the subscription to orders names its author, which the
  on-chain parser leaves to it.  An app starts with nothing in memory.
\<close>

datatype delivery = Order_event order_event | Message sec inbox_event | Purge sec | Presign_released string | Presign_asked string

definition from_author :: "app_keys \<Rightarrow> order_event \<Rightarrow> bool" where "from_author K ev \<longleftrightarrow> oe_pubkey ev = ak_app K"

fun sponsor_step :: "app_keys \<Rightarrow> delivery \<Rightarrow> sponsor_app \<Rightarrow> sponsor_app" where
  "sponsor_step K (Order_event ev) a = (if from_author K ev then sponsor_admin_order K ev a else a)"
| "sponsor_step K (Message now ev) a = snd (sponsor_inbox K now ev a)"
| "sponsor_step K (Purge t) a = a\<lparr>sa_orders := purge_expired t (sa_orders a)\<rparr>"
| "sponsor_step K _ a = a"

fun onchain_step :: "app_lib \<Rightarrow> app_keys \<Rightarrow> delivery \<Rightarrow> onchain_app \<Rightarrow> onchain_app" where
  "onchain_step A K (Order_event ev) a = (if from_author K ev then handle_order_event K ev a else a)"
| "onchain_step A K (Message now ev) a = onchain_inbox A K ev a"
| "onchain_step A K (Presign_released oid) a = release_presign oid a"
| "onchain_step A K (Presign_asked oid) a = presign_now oid a"
| "onchain_step A K (Purge t) a = a"

definition no_sponsor_app :: sponsor_app where
  "no_sponsor_app = \<lparr>sa_orders = Map.empty, sa_archive = Map.empty, sa_awaiting = Map.empty, sa_accounts = Map.empty,
     sa_requests = Map.empty, sa_deposits = Map.empty, sa_reveals = Map.empty, sa_errors = Map.empty\<rparr>"

definition no_onchain_app :: onchain_app where
  "no_onchain_app = \<lparr>oa_orders = Map.empty, oa_awaiting = Map.empty, oa_accounts = Map.empty, oa_presigning = {},
     oa_presigned = [], oa_requests = Map.empty, oa_deposits = Map.empty, oa_pending = Map.empty, oa_notices = Map.empty,
     oa_ahead = None\<rparr>"

definition sponsor_run :: "app_keys \<Rightarrow> delivery list \<Rightarrow> sponsor_app" where
  "sponsor_run K ds = fold (sponsor_step K) ds no_sponsor_app"

definition onchain_run :: "app_lib \<Rightarrow> app_keys \<Rightarrow> delivery list \<Rightarrow> onchain_app" where
  "onchain_run A K ds = fold (onchain_step A K) ds no_onchain_app"

end
