(* ===== verification/Services_Inv.thy ===== *)
theory Services_Inv
  imports Services Cards_Agree
begin

text \<open>
  Whose messages the apps believe.  Anybody may send anything in any order; what counts is the account a buyer is told to
  transfer to, the notice a card shows and the deposit it asks for.
\<close>

subsection \<open>The desk where accounts are judged\<close>

definition first_of :: "('e \<Rightarrow> 'a option) \<Rightarrow> 'e list \<Rightarrow> 'a option" where
  "first_of f es = (case List.map_filter f es of [] \<Rightarrow> None | x # _ \<Rightarrow> Some x)"

lemma first_of_simps [simp]: "first_of f [] = None" "first_of f (e # es) = (case f e of Some x \<Rightarrow> Some x | None \<Rightarrow> first_of f es)"
  by (simp_all add: first_of_def map_filter_simps split: option.split)

text \<open>
  Both tracks judge an account by the order's version at hand and set it aside when there is none.  \<open>believed\<close> is what
  a version lets through of a message, \<open>fits\<close> says that a message names the order.
\<close>

locale account_desk =
  fixes order_of :: "'s \<Rightarrow> (string \<rightharpoonup> 'o)" and awaiting :: "'s \<Rightarrow> (string \<rightharpoonup> 'e list)" and accounts :: "'s \<Rightarrow> (string \<rightharpoonup> 'a)"
    and fits :: "string \<Rightarrow> 'e \<Rightarrow> bool" and believed :: "'o \<Rightarrow> 'e \<Rightarrow> 'a option" and receive :: "string \<Rightarrow> 'e \<Rightarrow> 's \<Rightarrow> 's"
  assumes orders_stay: "fits oid e \<Longrightarrow> order_of (receive oid e s) = order_of s"
    and set_aside: "fits oid e \<Longrightarrow> order_of s oid = None \<Longrightarrow> awaiting (receive oid e s) = buffer_account oid e (awaiting s)"
    and not_judged: "fits oid e \<Longrightarrow> order_of s oid = None \<Longrightarrow> accounts (receive oid e s) = accounts s"
    and not_aside: "fits oid e \<Longrightarrow> order_of s oid = Some r \<Longrightarrow> awaiting (receive oid e s) = awaiting s"
    and judged: "fits oid e \<Longrightarrow> order_of s oid = Some r \<Longrightarrow>
      accounts (receive oid e s) = (case believed r e of Some x \<Rightarrow> keep_first oid x (accounts s) | None \<Rightarrow> accounts s)"
begin

lemma orders_stay_fold: "\<forall>e \<in> set es. fits oid e \<Longrightarrow> order_of (fold (receive oid) es s) = order_of s"
  by (induction es arbitrary: s) (simp_all add: orders_stay)

lemma judged_fold:
  assumes "\<forall>e \<in> set es. fits oid e" and "order_of s oid = Some r" and "accounts s oid = None"
  shows "accounts (fold (receive oid) es s) oid = first_of (believed r) es"
proof -
  have known: "accounts (fold (receive oid) es t) oid = Some x" if "accounts t oid = Some x" "order_of t oid = Some r"
      "\<forall>e \<in> set es. fits oid e" for es t x
    using that by (induction es arbitrary: t) (simp_all add: orders_stay judged keep_first_def split: option.split)
  show ?thesis
    using assms
  proof (induction es arbitrary: s)
    case Nil
    then show ?case by simp
  next
    case (Cons e es)
    show ?case
    proof (cases "believed r e")
      case None
      with Cons.prems have "accounts (receive oid e s) oid = None" by (simp add: judged)
      with Cons None show ?thesis by (simp add: orders_stay)
    next
      case (Some x)
      with Cons.prems have "accounts (receive oid e s) oid = Some x" by (simp add: judged keep_first_def)
      with known [of "receive oid e s" x es] Cons.prems Some show ?thesis
        by (simp add: orders_stay)
    qed
  qed
qed

lemma set_aside_fold:
  assumes "\<forall>e \<in> set es. fits oid e" and "order_of s oid = None"
    and "(case awaiting s oid of Some l \<Rightarrow> l | None \<Rightarrow> []) = old" and "length old \<le> MAX_BUFFERED_PER_ORDER"
  shows "(case awaiting (fold (receive oid) es s) oid of Some l \<Rightarrow> l | None \<Rightarrow> []) = take MAX_BUFFERED_PER_ORDER (old @ es)
    \<and> accounts (fold (receive oid) es s) = accounts s"
  using assms
proof (induction es arbitrary: s old)
  case Nil
  then show ?case by simp
next
  case (Cons e es)
  let ?s = "receive oid e s" and ?old = "if length old < MAX_BUFFERED_PER_ORDER then old @ [e] else old"
  have s: "order_of ?s oid = None" "accounts ?s = accounts s" "\<forall>e \<in> set es. fits oid e"
    using Cons.prems by (simp_all add: orders_stay not_judged)
  have old: "(case awaiting ?s oid of Some l \<Rightarrow> l | None \<Rightarrow> []) = ?old"
    using Cons.prems by (auto simp: set_aside buffer_account_def Let_def split: option.split)
  have len: "length ?old \<le> MAX_BUFFERED_PER_ORDER" using Cons.prems(4) by simp
  from Cons.IH [OF s(3,1) old len] s(2) Cons.prems(4) show ?case by (auto simp: not_less take_Cons')
qed

text \<open>What the desk holds rests on the messages it heard and the orders it saw.\<close>

definition grounded :: "(string \<times> 'e) set \<Rightarrow> (string \<times> 'o) set \<Rightarrow> 's \<Rightarrow> bool" where
  "grounded E R s \<longleftrightarrow>
     (\<forall>oid r. order_of s oid = Some r \<longrightarrow> (oid, r) \<in> R)
     \<and> (\<forall>oid es e. awaiting s oid = Some es \<longrightarrow> e \<in> set es \<longrightarrow> (oid, e) \<in> E \<and> fits oid e)
     \<and> (\<forall>oid x. accounts s oid = Some x \<longrightarrow> (\<exists>e r. (oid, e) \<in> E \<and> (oid, r) \<in> R \<and> believed r e = Some x))"

lemma grounded_mono: "grounded E R s \<Longrightarrow> E \<subseteq> E' \<Longrightarrow> R \<subseteq> R' \<Longrightarrow> grounded E' R' s"
  unfolding grounded_def by (meson subsetD)

lemma grounded_same:
  assumes "grounded E R s" and "accounts t = accounts s"
    and "\<And>oid r. order_of t oid = Some r \<Longrightarrow> order_of s oid = Some r \<or> (oid, r) \<in> R"
    and "\<And>oid es. awaiting t oid = Some es \<Longrightarrow> awaiting s oid = Some es"
  shows "grounded E R t"
  using assms unfolding grounded_def by (metis (lifting))

lemma grounded_receive:
  assumes g: "grounded E R s" and e: "(oid, e) \<in> E" "fits oid e"
  shows "grounded E R (receive oid e s)"
proof (cases "order_of s oid")
  case None
  have "awaiting (receive oid e s) = buffer_account oid e (awaiting s)" using e(2) None by (rule set_aside)
  then show ?thesis
    using g e not_judged [OF e(2) None] orders_stay [OF e(2), of s] unfolding grounded_def buffer_account_def Let_def
    by (auto split: if_splits option.splits)
next
  case (Some r)
  have "(oid, r) \<in> R" using g Some by (simp add: grounded_def)
  then show ?thesis
    using g e judged [OF e(2) Some] not_aside [OF e(2) Some] orders_stay [OF e(2), of s]
    unfolding grounded_def by (auto simp: keep_first_def split: option.splits if_splits)
qed

lemma grounded_fold:
  assumes "grounded E R s" and "\<forall>e \<in> set es. (oid, e) \<in> E \<and> fits oid e"
  shows "grounded E R (fold (receive oid) es s)"
  using assms by (induction es arbitrary: s) (simp_all add: grounded_receive)

text \<open>An order arrives: what was set aside for it is judged.\<close>

definition drained :: "string \<Rightarrow> 's \<Rightarrow> 's \<Rightarrow> bool" where
  "drained oid s t \<longleftrightarrow>
     (case awaiting s oid of
        None \<Rightarrow> t = s
      | Some es \<Rightarrow> (\<exists>u. order_of u = order_of s \<and> accounts u = accounts s \<and> awaiting u = (awaiting s)(oid := None)
          \<and> t = fold (receive oid) es u))"

lemma grounded_drained:
  assumes g: "grounded E R s" and d: "drained oid s t"
  shows "grounded E R t"
proof (cases "awaiting s oid")
  case None
  with g d show ?thesis by (simp add: drained_def)
next
  case (Some es)
  with d obtain u where u: "order_of u = order_of s" "accounts u = accounts s" "awaiting u = (awaiting s)(oid := None)"
      and t: "t = fold (receive oid) es u"
    by (auto simp: drained_def)
  have "grounded E R u" by (rule grounded_same [OF g u(2)]) (auto simp: u split: if_splits)
  moreover have "\<forall>e \<in> set es. (oid, e) \<in> E \<and> fits oid e" using g Some by (simp add: grounded_def)
  ultimately show ?thesis unfolding t by (rule grounded_fold)
qed

text \<open>An account once shown stays.\<close>

lemma kept_receive:
  assumes "fits oid e" and "accounts s k = Some x"
  shows "accounts (receive oid e s) k = Some x"
  using assms by (cases "order_of s oid") (auto simp: not_judged judged keep_first_def split: option.split)

lemma kept_drained:
  assumes "drained oid s t" and "accounts s k = Some x" and "\<And>es e. awaiting s oid = Some es \<Longrightarrow> e \<in> set es \<Longrightarrow> fits oid e"
  shows "accounts t k = Some x"
proof (cases "awaiting s oid")
  case None
  with assms show ?thesis by (simp add: drained_def)
next
  case (Some es)
  have keep: "accounts (fold (receive oid) es u) k = Some x" if "accounts u k = Some x" "\<forall>e \<in> set es. fits oid e" for es u
    using that by (induction es arbitrary: u) (simp_all add: kept_receive)
  from assms Some keep show ?thesis by (auto simp: drained_def)
qed

lemma first_shown:
  assumes "\<forall>e \<in> set es. fits oid e" and "order_of s oid = None" and "awaiting s oid = None" and "accounts s oid = None"
    and "order_of u = (order_of (fold (receive oid) es s))(oid \<mapsto> r)" and "awaiting u = awaiting (fold (receive oid) es s)"
    and "accounts u = accounts (fold (receive oid) es s)" and "drained oid u t"
  shows "accounts t oid = first_of (believed r) (take MAX_BUFFERED_PER_ORDER es)"
proof -
  have buf: "(case awaiting u oid of Some l \<Rightarrow> l | None \<Rightarrow> []) = take MAX_BUFFERED_PER_ORDER es"
    and acc: "accounts u = accounts s"
    using set_aside_fold [OF assms(1,2), of "[]"] assms(3,6,7) by simp_all
  show ?thesis
  proof (cases "awaiting u oid")
    case None
    then have none: "take MAX_BUFFERED_PER_ORDER es = []" using buf by simp
    from None assms(4,8) acc show ?thesis unfolding none by (simp add: drained_def)
  next
    case (Some l)
    with assms(8) obtain v where v: "order_of v = order_of u" "accounts v = accounts u" and t: "t = fold (receive oid) l v"
      by (auto simp: drained_def)
    have "l = take MAX_BUFFERED_PER_ORDER es" using buf Some by simp
    then have "\<forall>e \<in> set l. fits oid e" using assms(1) by (auto dest: in_set_takeD)
    from judged_fold [OF this, of v r] v acc assms(4,5) \<open>l = _\<close> show ?thesis by (simp add: t)
  qed
qed

end

subsection \<open>The two desks\<close>

definition believed_ln :: "app_keys \<Rightarrow> ln_view \<Rightarrow> account_event \<Rightarrow> account option" where
  "believed_ln K v e =
     (if ae_sender e \<noteq> lv_customer v then None
      else map_option fst (Option.bind (ak_open K (ae_content e) (ae_sender e)) parse_account_envelope))"

definition believed_oc :: "app_keys \<Rightarrow> 'n oc_order \<Rightarrow> inbox_event \<Rightarrow> (account \<times> string) option" where
  "believed_oc K r ev =
     (if ie_pubkey ev \<noteq> oo_customer r \<or> oo_sponsor r \<noteq> Some (ak_me K) then None
      else Option.bind (ak_open K (ie_content ev) (ie_pubkey ev)) parse_account_envelope)"

interpretation ln_desk: account_desk sa_orders sa_awaiting sa_accounts "\<lambda>oid e. ae_order e = oid" "believed_ln K"
  "\<lambda>_. sponsor_account_info K" for K
  by unfold_locales (auto simp: sponsor_account_info_def believed_ln_def split: option.split)

interpretation oc_desk: account_desk oa_orders oa_awaiting oa_accounts "\<lambda>_ _. True" "believed_oc K"
  "onchain_account_info K" for K
  by unfold_locales (auto simp: onchain_account_info_def believed_oc_def split: option.split)

subsection \<open>Runs of the apps\<close>

text \<open>The messages heard and the versions seen along a run.\<close>

definition heard_ln :: "delivery list \<Rightarrow> (string \<times> account_event) set" where
  "heard_ln ds = {(ae_order e, e) | t ev e. Message t ev \<in> set ds \<and> parse_account_info_event ev = Some e}"

definition seen_ln :: "app_keys \<Rightarrow> delivery list \<Rightarrow> (string \<times> ln_view) set" where
  "seen_ln K ds = {(lv_order v, v) | oev v.
     Order_event oev \<in> set ds \<and> oe_pubkey oev = ak_app K \<and> parse_ln_order_event oev (ak_app K) = Some v}"

definition heard_oc :: "delivery list \<Rightarrow> (string \<times> inbox_event) set" where
  "heard_oc ds = {(oid, ev) | t oid ev.
     Message t ev \<in> set ds \<and> tag_value ''action'' (ie_tags ev) = Some ''account-info'' \<and> order_of_message ev = Some oid}"

definition seen_oc :: "app_keys \<Rightarrow> delivery list \<Rightarrow> (string \<times> rat oc_order) set" where
  "seen_oc K ds = {(oo_id r, r) | oev r.
     Order_event oev \<in> set ds \<and> oe_pubkey oev = ak_app K \<and> parse_onchain_order oev (ak_oc_tag K) = Some r}"

lemmas run_facts = heard_ln_def seen_ln_def heard_oc_def seen_oc_def

lemma sponsor_order_drained:
  assumes "parse_ln_order_event ev (ak_app K) = Some v"
  shows "ln_desk.drained K (lv_order v)
    (a\<lparr>sa_orders := upsert_order v (sa_orders a), sa_archive := sync_order (ak_me K) v (sa_archive a)\<rparr>) (sponsor_admin_order K ev a)"
  using assms
  by (auto simp: ln_desk.drained_def sponsor_admin_order_def Let_def split: option.split
      intro!: exI [where x = "a\<lparr>sa_orders := upsert_order v (sa_orders a), sa_archive := sync_order (ak_me K) v (sa_archive a),
        sa_awaiting := (sa_awaiting a)(lv_order v := None)\<rparr>"])

lemma sponsor_order_grounded:
  assumes "ln_desk.grounded K E R a" and "\<And>v. parse_ln_order_event ev (ak_app K) = Some v \<Longrightarrow> (lv_order v, v) \<in> R"
  shows "ln_desk.grounded K E R (sponsor_admin_order K ev a)"
proof (cases "parse_ln_order_event ev (ak_app K)")
  case None
  with assms(1) show ?thesis by (simp add: sponsor_admin_order_def)
next
  case (Some v)
  show ?thesis
    using assms(2) [OF Some]
    by (intro ln_desk.grounded_drained [OF _ sponsor_order_drained [OF Some]] ln_desk.grounded_same [OF assms(1)])
      (auto simp: upsert_order_def split: option.splits if_splits)
qed

lemma sponsor_inbox_grounded:
  assumes "ln_desk.grounded K E R a" and "\<And>e. parse_account_info_event ev = Some e \<Longrightarrow> (ae_order e, e) \<in> E"
  shows "ln_desk.grounded K E R (snd (sponsor_inbox K now ev a))"
proof (cases "parse_account_info_event ev")
  case None
  have same: "sa_orders b = sa_orders a \<and> sa_awaiting b = sa_awaiting a \<and> sa_accounts b = sa_accounts a"
    if "b = snd (sponsor_inbox K now ev a)" for b
    using that None
    by (auto simp: sponsor_inbox_def Let_def handle_claim_price_error_def sponsor_deposit_notice_def split: option.split)
  show ?thesis by (rule ln_desk.grounded_same [OF assms(1)]) (use same [OF refl] in auto)
next
  case (Some e)
  with assms ln_desk.grounded_receive [OF assms(1) assms(2) [OF Some] refl] show ?thesis by (simp add: sponsor_inbox_def)
qed

lemma sponsor_run_grounded: "ln_desk.grounded K (heard_ln ds) (seen_ln K ds) (sponsor_run K ds)"
proof (induction ds rule: rev_induct)
  case Nil
  show ?case by (simp add: sponsor_run_def no_sponsor_app_def ln_desk.grounded_def)
next
  case (snoc d ds)
  have g: "ln_desk.grounded K (heard_ln (ds @ [d])) (seen_ln K (ds @ [d])) (sponsor_run K ds)"
    by (rule ln_desk.grounded_mono [OF snoc]) (auto simp: run_facts)
  have run: "sponsor_run K (ds @ [d]) = sponsor_step K d (sponsor_run K ds)" by (simp add: sponsor_run_def)
  show ?case
  proof (cases d)
    case (Order_event ev)
    have "oe_pubkey ev = ak_app K \<Longrightarrow> parse_ln_order_event ev (ak_app K) = Some v \<Longrightarrow> (lv_order v, v) \<in> seen_ln K (ds @ [d])" for v
      by (auto simp: seen_ln_def Order_event)
    with sponsor_order_grounded [OF g, of ev] g show ?thesis
      unfolding run unfolding Order_event by (cases "oe_pubkey ev = ak_app K") (simp_all add: from_author_def)
  next
    case (Message t ev)
    have "parse_account_info_event ev = Some e \<Longrightarrow> (ae_order e, e) \<in> heard_ln (ds @ [d])" for e
      by (auto simp: heard_ln_def Message)
    with sponsor_inbox_grounded [OF g, of ev t] show ?thesis unfolding run unfolding Message by simp
  next
    case (Purge t)
    show ?thesis unfolding run unfolding Purge sponsor_step.simps
      by (rule ln_desk.grounded_same [OF g [unfolded Purge]]) (auto simp: purge_expired_def split: option.splits if_splits)
  qed (use g run in simp_all)
qed

lemma drain_drained: "oc_desk.drained K oid a (drain_accounts K oid a)"
  by (auto simp: oc_desk.drained_def drain_accounts_def split: option.split
      intro!: exI [where x = "a\<lparr>oa_awaiting := (oa_awaiting a)(oid := None)\<rparr>"])

lemma presign_same [simp]:
  "oa_orders (auto_presign oid a) = oa_orders a" "oa_awaiting (auto_presign oid a) = oa_awaiting a"
  "oa_accounts (auto_presign oid a) = oa_accounts a" "oa_deposits (auto_presign oid a) = oa_deposits a"
  "oa_orders (release_presign oid a) = oa_orders a" "oa_awaiting (release_presign oid a) = oa_awaiting a"
  "oa_accounts (release_presign oid a) = oa_accounts a" "oa_deposits (release_presign oid a) = oa_deposits a"
  by (simp_all add: auto_presign_def release_presign_def)

lemma onchain_order_grounded:
  assumes g: "oc_desk.grounded K E R a" and r: "\<And>r. parse_onchain_order ev (ak_oc_tag K) = Some r \<Longrightarrow> (oo_id r, r) \<in> R"
  shows "oc_desk.grounded K E R (handle_order_event K ev a)"
proof -
  have same: "oc_desk.grounded K E R (a\<lparr>oa_ahead := x\<rparr>)" for x by (rule oc_desk.grounded_same [OF g]) auto
  show ?thesis
  proof (cases "parse_onchain_order ev (ak_oc_tag K)")
    case None
    with same show ?thesis by (simp add: handle_order_event_def)
  next
    case (Some r)
    let ?u = "upsert_onchain_order r (oa_orders a)" and ?a = "a\<lparr>oa_ahead := note_order_protocol (oe_tags ev) (oa_ahead a)\<rparr>"
    let ?b = "drain_accounts K (oo_id r) (order_arrived r (?a\<lparr>oa_orders := snd ?u\<rparr>))"
    have "oc_desk.grounded K E R (order_arrived r (?a\<lparr>oa_orders := snd ?u\<rparr>))"
      using assms(2) [OF Some]
      by (intro oc_desk.grounded_same [OF g]) (auto simp: order_arrived_def upsert_onchain_order_def split: option.splits if_splits)
    then have b: "oc_desk.grounded K E R ?b" by (rule oc_desk.grounded_drained [OF _ drain_drained])
    have "oc_desk.grounded K E R (auto_presign oid ?b)" for oid by (rule oc_desk.grounded_same [OF b]) auto
    with b same Some show ?thesis by (auto simp: handle_order_event_def Let_def split: prod.split bool.split)
  qed
qed

lemma daemon_notice_same:
  "oa_orders (daemon_notice A K action oid ev a) = oa_orders a" "oa_awaiting (daemon_notice A K action oid ev a) = oa_awaiting a"
  "oa_accounts (daemon_notice A K action oid ev a) = oa_accounts a"
  by (simp_all add: daemon_notice_def take_sign_request_def Let_def split: option.split)

lemma onchain_inbox_grounded:
  assumes "oc_desk.grounded K E R a"
    and "\<And>oid. tag_value ''action'' (ie_tags ev) = Some ''account-info'' \<Longrightarrow> order_of_message ev = Some oid \<Longrightarrow> (oid, ev) \<in> E"
  shows "oc_desk.grounded K E R (onchain_inbox A K ev a)"
proof (cases "given_s (tag_value ''action'' (ie_tags ev)) = Some ''account-info'' \<and> order_of_message ev \<noteq> None")
  case True
  then obtain oid where oid: "order_of_message ev = Some oid" by blast
  moreover have "tag_value ''action'' (ie_tags ev) = Some ''account-info''" using True by (auto simp: given_s_def split: if_splits)
  ultimately have "(oid, ev) \<in> E" using assms(2) by blast
  with oc_desk.grounded_receive [OF assms(1)] True oid show ?thesis by (simp add: onchain_inbox_def)
next
  case False
  then show ?thesis
    by (intro oc_desk.grounded_same [OF assms(1)])
      (auto simp: onchain_inbox_def daemon_notice_same split: option.splits if_splits)
qed

lemma onchain_run_grounded: "oc_desk.grounded K (heard_oc ds) (seen_oc K ds) (onchain_run A K ds)"
proof (induction ds rule: rev_induct)
  case Nil
  show ?case by (simp add: onchain_run_def no_onchain_app_def oc_desk.grounded_def)
next
  case (snoc d ds)
  have g: "oc_desk.grounded K (heard_oc (ds @ [d])) (seen_oc K (ds @ [d])) (onchain_run A K ds)"
    by (rule oc_desk.grounded_mono [OF snoc]) (auto simp: run_facts)
  have run: "onchain_run A K (ds @ [d]) = onchain_step A K d (onchain_run A K ds)" by (simp add: onchain_run_def)
  have other: "oc_desk.grounded K (heard_oc (ds @ [d])) (seen_oc K (ds @ [d])) (presign_now oid (onchain_run A K ds))"
      "oc_desk.grounded K (heard_oc (ds @ [d])) (seen_oc K (ds @ [d])) (release_presign oid (onchain_run A K ds))" for oid
    by (rule oc_desk.grounded_same [OF g]; simp add: presign_now_def)+
  show ?case
  proof (cases d)
    case (Order_event ev)
    have "oe_pubkey ev = ak_app K \<Longrightarrow> parse_onchain_order ev (ak_oc_tag K) = Some r \<Longrightarrow> (oo_id r, r) \<in> seen_oc K (ds @ [d])" for r
      by (auto simp: seen_oc_def Order_event)
    with onchain_order_grounded [OF g, of ev] g show ?thesis
      unfolding run unfolding Order_event by (cases "oe_pubkey ev = ak_app K") (simp_all add: from_author_def)
  next
    case (Message t ev)
    have "tag_value ''action'' (ie_tags ev) = Some ''account-info'' \<Longrightarrow> order_of_message ev = Some oid
        \<Longrightarrow> (oid, ev) \<in> heard_oc (ds @ [d])" for oid
      by (auto simp: heard_oc_def Message)
    with onchain_inbox_grounded [OF g, of ev A] show ?thesis unfolding run unfolding Message by simp
  qed (use g other run in simp_all)
qed

subsection \<open>A toy run\<close>

definition svc_account :: account where "svc_account = \<lparr>ac_bank = ''b'', ac_number = ''1'', ac_holder = ''h''\<rparr>"

definition svc_keys :: app_keys where
  "svc_keys = \<lparr>ak_app = ''app'', ak_me = ''s'', ak_oc_tag = ''oc'',
     ak_open = (\<lambda>content peer. if peer = ''c'' then Some (account_envelope svc_account content) else None)\<rparr>"

definition svc_message :: "string \<Rightarrow> string \<Rightarrow> string list list \<Rightarrow> inbox_event" where
  "svc_message sender action extra = \<lparr>ie_id = ''e'', ie_pubkey = sender, ie_kind = 1, ie_created_at = 7,
     ie_tags = [''a'', ''38383:app:ord1''] # [''action'', action] # extra, ie_content = ''salt''\<rparr>"

definition svc_order :: order_event where
  "svc_order = \<lparr>oe_pubkey = ''app'', oe_created_at = 5,
     oe_tags = [[''d'', ''ord1''], [''state'', ''invoiced''], [''customer'', ''c''], [''sponsor'', ''s'']]\<rparr>"

definition svc_oc_order :: oc_ord where "svc_oc_order = toy_oc_order\<lparr>oo_state := Oc_bonded, oo_sponsor := Some ''s''\<rparr>"

definition svc_oc_event :: order_event where
  "svc_oc_event = \<lparr>oe_pubkey = ''app'', oe_created_at = 5, oe_tags = onchain_order_tags svc_oc_order ''oc'' None\<rparr>"

definition svc_run :: "order_event \<Rightarrow> delivery list" where
  "svc_run ev = [Message 9 (svc_message ''thief'' ''account-info'' []), Message 9 (svc_message ''c'' ''account-info'' []),
     Order_event ev]"

lemma svc_ln_view:
  obtains v where "parse_ln_order_event svc_order ''app'' = Some v" "lv_order v = ''ord1''" "lv_customer v = ''c''"
    "lv_sponsor v = Some ''s''" "lv_state v = ''invoiced''"
  by (auto simp: parse_ln_order_event_def svc_order_def tag_value_def given_s_def opt_given_def Let_def)

lemma svc_account_event:
  "parse_account_info_event (svc_message p ''account-info'' [])
     = Some \<lparr>ae_id = ''e'', ae_order = ''ord1'', ae_sender = p, ae_content = ''salt'', ae_commitment = [], ae_created = 7,
         ae_expiration = js_number ''0''\<rparr>"
  by (simp add: parse_account_info_event_def svc_message_def tag_value_def extract_order_id_def)

lemma svc_shown:
  assumes "parse_ln_order_event svc_order ''app'' = Some v" "lv_order v = ''ord1''" "lv_customer v = ''c''"
  shows "sa_accounts (sponsor_run svc_keys (svc_run svc_order)) ''ord1'' = Some svc_account"
    and "sa_orders (sponsor_run svc_keys (svc_run svc_order)) ''ord1'' = Some v"
  using assms
  by (simp_all add: sponsor_run_def svc_run_def sponsor_inbox_def svc_account_event sponsor_account_info_def no_sponsor_app_def
      buffer_account_def MAX_BUFFERED_PER_ORDER_def from_author_def svc_keys_def sponsor_admin_order_def upsert_order_def
      account_envelope_roundtrip keep_first_def svc_order_def)

definition svc_account_event_of :: "string \<Rightarrow> account_event" where
  "svc_account_event_of p = \<lparr>ae_id = ''e'', ae_order = ''ord1'', ae_sender = p, ae_content = ''salt'', ae_commitment = [], ae_created = 7,
     ae_expiration = js_number ''0''\<rparr>"

lemma svc_oc_view: "parse_onchain_order svc_oc_event ''oc'' = Some (oc_view_of svc_oc_order 5)"
  unfolding svc_oc_event_def
proof (rule oc_order_tags_roundtrip)
  have "readable (of_int n)" if "\<bar>n\<bar> < 2 ^ 53" for n using readable_small that by (simp add: small_def)
  from this [of 100000] this [of 900000]
  show "readable (oo_expiration svc_oc_order)" "\<forall>q. oo_reserve svc_oc_order = Some q \<longrightarrow> readable q"
    by (simp_all add: svc_oc_order_def toy_oc_order_def)
qed (simp_all add: svc_oc_order_def toy_oc_order_def oc_wf_def small_def oc_numbers_def small_opt_def key_ok_def is_xonly_hex_def
      is_hex64_def list_all_iff is_digit_def char_code_def)

lemma svc_oc_fields:
  "oo_id (oc_view_of svc_oc_order 5) = ''ord1''" "oo_customer (oc_view_of svc_oc_order 5) = ''c''"
  "oo_sponsor (oc_view_of svc_oc_order 5) = Some ''s''"
  by (simp_all add: oc_view_of_def svc_oc_order_def toy_oc_order_def given_s_def opt_given_def)

subsection \<open>The account a buyer is told to transfer to\<close>

lemma card_remits:
  assumes "Act_remit acct \<in> set (cv_actions (ln_card_view npub expiry i))"
  shows "ci_account i = Some acct"
proof -
  obtain s where "Act_remit acct \<in> set (cv_actions (trade_card npub expiry i s))"
    using assms by (auto simp: ln_card_view_def draft_card_def Let_def split: option.splits if_splits)
  then show ?thesis
    by (auto simp: card_actions Let_def seller_pay_def seller_account_def seller_confirm_def buyer_deposit_part_def
        buyer_invoice_def buyer_transfer_def buyer_reveal_def split: option.splits if_splits)
qed

text \<open>C15. Nobody but the seller tells a buyer where to send the money.  Whatever anybody sends to the app and in whatever order,
  the account the card of a Lightning trade asks the buyer to transfer to, and the account kept for an on-chain trade, was
  sealed by the customer named in a version of that very order that the daemon published; on-chain the version also names
  the user as the buyer.\<close>

theorem shown_account_is_the_sellers:
  shows "(Act_remit acct \<in> set (cv_actions (ln_card_view npub expiry (use_ln_card oid archived me now local (sponsor_run K ds)))) \<longrightarrow>
      (\<exists>t ev oev v salt. Message t ev \<in> set ds \<and> Order_event oev \<in> set ds \<and> oe_pubkey oev = ak_app K
        \<and> parse_ln_order_event oev (ak_app K) = Some v \<and> lv_order v = oid
        \<and> extract_order_id (ie_tags ev) = Some oid \<and> ie_pubkey ev = lv_customer v
        \<and> Option.bind (ak_open K (ie_content ev) (lv_customer v)) parse_account_envelope = Some (acct, salt)))
    \<and> (oa_accounts (onchain_run A K ds) oid = Some kept \<longrightarrow>
      (\<exists>t ev oev r. Message t ev \<in> set ds \<and> Order_event oev \<in> set ds \<and> oe_pubkey oev = ak_app K
        \<and> parse_onchain_order oev (ak_oc_tag K) = Some r \<and> oo_id r = oid \<and> oo_sponsor r = Some (ak_me K)
        \<and> order_of_message ev = Some oid \<and> ie_pubkey ev = oo_customer r
        \<and> Option.bind (ak_open K (ie_content ev) (oo_customer r)) parse_account_envelope = Some kept))"
proof (intro conjI impI)
  assume "Act_remit acct \<in> set (cv_actions (ln_card_view npub expiry (use_ln_card oid archived me now local (sponsor_run K ds))))"
  then have "ci_account (use_ln_card oid archived me now local (sponsor_run K ds)) = Some acct" by (rule card_remits)
  then have "sa_accounts (sponsor_run K ds) oid = Some acct" by (simp add: use_ln_card_def)
  then obtain e v where "(oid, e) \<in> heard_ln ds" "(oid, v) \<in> seen_ln K ds" "believed_ln K v e = Some acct"
    using sponsor_run_grounded [of K ds] unfolding ln_desk.grounded_def by blast
  then show "\<exists>t ev oev v salt. Message t ev \<in> set ds \<and> Order_event oev \<in> set ds \<and> oe_pubkey oev = ak_app K
        \<and> parse_ln_order_event oev (ak_app K) = Some v \<and> lv_order v = oid
        \<and> extract_order_id (ie_tags ev) = Some oid \<and> ie_pubkey ev = lv_customer v
        \<and> Option.bind (ak_open K (ie_content ev) (lv_customer v)) parse_account_envelope = Some (acct, salt)"
    by (fastforce simp: heard_ln_def seen_ln_def believed_ln_def parse_account_info_event_def split: if_splits)
next
  assume "oa_accounts (onchain_run A K ds) oid = Some kept"
  then obtain ev r where "(oid, ev) \<in> heard_oc ds" "(oid, r) \<in> seen_oc K ds" "believed_oc K r ev = Some kept"
    using onchain_run_grounded [of K ds A] unfolding oc_desk.grounded_def by blast
  then show "\<exists>t ev oev r. Message t ev \<in> set ds \<and> Order_event oev \<in> set ds \<and> oe_pubkey oev = ak_app K
        \<and> parse_onchain_order oev (ak_oc_tag K) = Some r \<and> oo_id r = oid \<and> oo_sponsor r = Some (ak_me K)
        \<and> order_of_message ev = Some oid \<and> ie_pubkey ev = oo_customer r
        \<and> Option.bind (ak_open K (ie_content ev) (oo_customer r)) parse_account_envelope = Some kept"
    by (fastforce simp: heard_oc_def seen_oc_def believed_oc_def split: if_splits)
qed

theorem shown_account_is_the_sellers_witness:
  "\<exists>t ev v. Message t ev \<in> set (svc_run svc_order) \<and> parse_ln_order_event svc_order ''app'' = Some v
     \<and> ie_pubkey ev = lv_customer v \<and> extract_order_id (ie_tags ev) = Some ''ord1''"
proof -
  obtain v where v: "parse_ln_order_event svc_order ''app'' = Some v" "lv_order v = ''ord1''" "lv_customer v = ''c''"
    "lv_sponsor v = Some ''s''" "lv_state v = ''invoiced''" by (rule svc_ln_view)
  let ?i = "use_ln_card ''ord1'' None (Some ''s'') 9 Map.empty (sponsor_run svc_keys (svc_run svc_order))"
  have i: "ci_order ?i = Some v" "ci_account ?i = Some svc_account" "ci_me ?i = Some ''s''"
    using svc_shown [OF v(1-3)] by (simp_all add: use_ln_card_def)
  have "Act_remit svc_account \<in> set (cv_actions (ln_card_view id (\<lambda>_. None) ?i))"
    using i v by (simp add: ln_card_view_def card_actions ln_role_of_def given_s_def opt_given_def buyer_transfer_def Let_def)
  from shown_account_is_the_sellers [THEN conjunct1, THEN mp, OF this] show ?thesis
    by (fastforce simp: svc_run_def svc_keys_def)
qed

text \<open>An account that was shown is not replaced by a later one.\<close>

theorem shown_account_stays:
  assumes "sa_accounts (sponsor_run K ds) oid = Some x"
  shows "sa_accounts (sponsor_run K (ds @ ds')) oid = Some x"
proof (induction ds' rule: rev_induct)
  case Nil
  with assms show ?case by simp
next
  case (snoc d ds')
  let ?a = "sponsor_run K (ds @ ds')"
  have run: "sponsor_run K (ds @ ds' @ [d]) = sponsor_step K d ?a" by (simp add: sponsor_run_def)
  show ?case unfolding run
  proof (cases d)
    case (Order_event ev)
    have "sa_accounts (sponsor_admin_order K ev ?a) oid = Some x"
    proof (cases "parse_ln_order_event ev (ak_app K)")
      case None
      with snoc show ?thesis by (simp add: sponsor_admin_order_def)
    next
      case (Some v)
      have "ae_order e = lv_order v" if "sa_awaiting ?a (lv_order v) = Some es" "e \<in> set es" for es e
        using sponsor_run_grounded [of K "ds @ ds'"] that unfolding ln_desk.grounded_def by blast
      then show ?thesis
        by (intro ln_desk.kept_drained [OF sponsor_order_drained [OF Some]]) (use snoc in auto)
    qed
    with snoc show "sa_accounts (sponsor_step K d ?a) oid = Some x" by (simp add: Order_event)
  next
    case (Message t ev)
    with snoc ln_desk.kept_receive [OF refl snoc, where K = K] show "sa_accounts (sponsor_step K d ?a) oid = Some x"
      by (auto simp: sponsor_inbox_def Let_def handle_claim_price_error_def sponsor_deposit_notice_def split: option.split)
  qed (use snoc in simp_all)
qed

subsection \<open>An account that comes before its order\<close>

text \<open>C16. What becomes of accounts that come before their order, on both tracks: when the order arrives the account kept is the
  first one of its customer that opens, but only among the first ten messages that named the order, whoever sent them.  So a
  message of anybody else never displaces the seller's account, yet ten of them ahead of it crowd it out until a relay
  delivers it again.\<close>

theorem early_account_judged:
  assumes "sa_orders a oid = None" and "sa_awaiting a oid = None" and "sa_accounts a oid = None" and "\<forall>e \<in> set es. ae_order e = oid"
    and "parse_ln_order_event ev (ak_app K) = Some v" and "lv_order v = oid"
    and "oa_orders b oid = None" and "oa_awaiting b oid = None" and "oa_accounts b oid = None"
    and "parse_onchain_order oev (ak_oc_tag K) = Some r" and "oo_id r = oid"
  shows "sa_accounts (sponsor_admin_order K ev (fold (sponsor_account_info K) es a)) oid = first_of (believed_ln K v) (take 10 es)
    \<and> oa_accounts (handle_order_event K oev (fold (onchain_account_info K oid) evs b)) oid = first_of (believed_oc K r) (take 10 evs)"
proof
  let ?a = "fold (sponsor_account_info K) es a"
  have ten: "MAX_BUFFERED_PER_ORDER = 10" by (simp add: MAX_BUFFERED_PER_ORDER_def)
  have "sa_orders ?a = sa_orders a" by (rule ln_desk.orders_stay_fold [OF assms(4)])
  then have "upsert_order v (sa_orders ?a) = (sa_orders ?a)(oid \<mapsto> v)" using assms(1,6) by (simp add: upsert_order_def)
  from ln_desk.first_shown [OF assms(4,1,2,3) _ _ _ sponsor_order_drained [OF assms(5), of ?a, unfolded assms(6)], where r = v] this
  show "sa_accounts (sponsor_admin_order K ev ?a) oid = first_of (believed_ln K v) (take 10 es)" by (simp add: ten)
  let ?b = "fold (onchain_account_info K oid) evs b"
  let ?u = "order_arrived r (?b\<lparr>oa_ahead := note_order_protocol (oe_tags oev) (oa_ahead ?b),
    oa_orders := snd (upsert_onchain_order r (oa_orders ?b))\<rparr>)"
  have fits: "\<forall>e \<in> set evs. True" by simp
  have "oa_orders ?b = oa_orders b" by (rule oc_desk.orders_stay_fold [OF fits])
  then have ups: "upsert_onchain_order r (oa_orders ?b) = (True, (oa_orders ?b)(oid \<mapsto> r))"
    using assms(7,11) by (simp add: upsert_onchain_order_def)
  have "oa_accounts (drain_accounts K oid ?u) oid = first_of (believed_oc K r) (take 10 evs)"
    by (rule oc_desk.first_shown [OF fits assms(7-9) _ _ _ drain_drained, where r = r, unfolded ten])
      (simp_all add: order_arrived_def ups)
  then show "oa_accounts (handle_order_event K oev ?b) oid = first_of (believed_oc K r) (take 10 evs)"
    using assms(10,11) ups by (simp add: handle_order_event_def Let_def)
qed

theorem early_account_judged_witness:
  "sa_accounts (sponsor_admin_order svc_keys svc_order (fold (sponsor_account_info svc_keys)
      (replicate 10 (svc_account_event_of ''thief'') @ [svc_account_event_of ''c'']) no_sponsor_app)) ''ord1'' = None
   \<and> oa_accounts (handle_order_event svc_keys svc_oc_event (fold (onchain_account_info svc_keys ''ord1'')
      [svc_message ''thief'' ''account-info'' [], svc_message ''c'' ''account-info'' []] no_onchain_app)) ''ord1''
     = Some (svc_account, ''salt'')"
proof -
  obtain v where v: "parse_ln_order_event svc_order ''app'' = Some v" "lv_order v = ''ord1''" "lv_customer v = ''c''"
    by (rule svc_ln_view)
  have thief: "believed_ln svc_keys v (svc_account_event_of ''thief'') = None"
    using v by (simp add: believed_ln_def svc_account_event_of_def)
  then have "first_of (believed_ln svc_keys v) (replicate n (svc_account_event_of ''thief'')) = None" for n by (induction n) simp_all
  moreover have "first_of (believed_oc svc_keys (oc_view_of svc_oc_order 5))
      [svc_message ''thief'' ''account-info'' [], svc_message ''c'' ''account-info'' []] = Some (svc_account, ''salt'')"
    by (simp add: believed_oc_def svc_oc_fields svc_message_def svc_keys_def account_envelope_roundtrip)
  moreover have keys: "ak_app svc_keys = ''app''" "ak_oc_tag svc_keys = ''oc''" by (simp_all add: svc_keys_def)
  ultimately show ?thesis
    using early_account_judged [of no_sponsor_app "''ord1''" "replicate 10 (svc_account_event_of ''thief'') @ [svc_account_event_of ''c'']"
        svc_order svc_keys v no_onchain_app svc_oc_event "oc_view_of svc_oc_order 5"
        "[svc_message ''thief'' ''account-info'' [], svc_message ''c'' ''account-info'' []]"]
      v svc_oc_view svc_oc_fields
    by (simp add: no_sponsor_app_def no_onchain_app_def svc_account_event_of_def)
qed

subsection \<open>A deposit that was done\<close>

lemma done_kept:
  assumes "Option.bind (oa_deposits a oid) di_done = Some True"
  shows "Option.bind (oa_deposits (onchain_step A K d a) oid) di_done = Some True"
proof -
  have acct: "oa_deposits (onchain_account_info K o' ev b) = oa_deposits b" for o' ev b
    by (simp add: onchain_account_info_def split: option.split)
  have "oa_deposits (fold (onchain_account_info K o') evs b) = oa_deposits b" for o' evs b
    by (induction evs arbitrary: b) (simp_all add: acct)
  then have drain: "oa_deposits (drain_accounts K o' b) = oa_deposits b" for o' b
    by (simp add: drain_accounts_def split: option.split)
  have order: "oa_deposits (handle_order_event K ev b) = oa_deposits b" for ev b
    by (simp add: handle_order_event_def Let_def drain order_arrived_def split: option.split prod.split bool.split)
  have put: "Option.bind (put_deposit_invoice o' b t e m oid) di_done = Some True"
    if "Option.bind (m oid) di_done = Some True" "e \<noteq> Some False" for o' b t e m
    using that by (auto simp: put_deposit_invoice_def split: option.split)
  have sign: "oa_deposits (take_sign_request A K o' ev b) = oa_deposits b" for o' ev b
    by (simp add: take_sign_request_def split: option.split)
  have notice: "Option.bind (oa_deposits (daemon_notice A K action o' ev b) oid) di_done = Some True"
    if b: "Option.bind (oa_deposits b oid) di_done = Some True" for action o' ev b
  proof -
    consider "action = ''deposit-required''" | "action = ''onchain-rejected''" | "action = ''onchain-cosign''"
      | "action \<notin> {''deposit-required'', ''onchain-rejected'', ''onchain-cosign''}" by blast
    then show ?thesis
    proof cases
      case 1
      then show ?thesis using b put [of "oa_deposits b"] by (simp add: daemon_notice_def split: option.split)
    next
      case 2
      then show ?thesis using b by (simp add: daemon_notice_def Let_def)
    next
      case 3
      then show ?thesis using b by (simp add: daemon_notice_def sign)
    next
      case 4
      then show ?thesis using b put [of "oa_deposits b"] by (simp add: daemon_notice_def)
    qed
  qed
  show ?thesis
    using assms notice
    by (cases d) (auto simp: order acct onchain_inbox_def presign_now_def split: option.split)
qed

text \<open>C32. On-chain, the deposit of a second attempt is never asked for.  Once the daemon has said of a known order that a deposit is
  cancelled - an invoice that ran out unpaid, after which the order stays listed and may be claimed again - no later event
  brings a payable invoice back for that order, in particular not the invoice of the next claim.\<close>

theorem renewed_deposit_hidden:
  assumes "oa_orders a oid \<noteq> None" and "ie_pubkey ev = ak_app K" and "order_of_message ev = Some oid"
    and "tag_value ''action'' (ie_tags ev) = Some ''deposit-cancelled''"
  shows "get_deposit_invoice oid (oa_deposits (fold (onchain_step A K) ds (onchain_inbox A K ev a))) = None"
proof -
  have "Option.bind (oa_deposits (onchain_inbox A K ev a) oid) di_done = Some True"
    using assms by (simp add: onchain_inbox_def daemon_notice_def put_deposit_invoice_def given_s_def opt_given_def)
  then have "Option.bind (oa_deposits (fold (onchain_step A K) ds (onchain_inbox A K ev a)) oid) di_done = Some True"
    by (induction ds rule: rev_induct) (simp_all add: done_kept)
  then show ?thesis by (auto simp: get_deposit_invoice_def split: option.split)
qed

theorem renewed_deposit_hidden_witness:
  "\<forall>A. get_deposit_invoice ''ord1'' (oa_deposits (fold (onchain_step A svc_keys)
     [Message 9 (svc_message ''app'' ''deposit-required'' [[''bolt11'', ''lnbc2'']])]
     (onchain_inbox A svc_keys (svc_message ''app'' ''deposit-cancelled'' [])
       (no_onchain_app\<lparr>oa_orders := [''ord1'' \<mapsto> oc_view_of svc_oc_order 5]\<rparr>)))) = None"
  by (rule allI, rule renewed_deposit_hidden)
    (simp_all add: svc_keys_def svc_message_def order_of_message_def tag_value_def given_s_def opt_given_def)

subsection \<open>A refusal nobody sent\<close>

text \<open>C31. The refusal a buyer's card shows may come from anybody.  Whoever signs a price error that names a trade the user buys in and
  one of the daemon's reasons, the card asks for a new invoice with that reason, for instance that the escrow ends and no
  money should be sent, though all other notices count only from the daemon.\<close>

theorem forged_rejection_shown:
  assumes "tag_value ''action'' (ie_tags ev) = Some ''claim-price-error''" and "extract_order_id (ie_tags ev) = Some oid" and "oid \<noteq> []"
    and "tag_value ''reason'' (ie_tags ev) = Some reason" and "reason \<in> set REJECT_REASONS"
    and "sa_orders a oid = Some v" and "lv_state v = ''invoiced'' \<or> lv_state v = ''remitted''"
    and "lv_sponsor v = Some me" and "lv_customer v \<noteq> me" and "me \<noteq> []"
  shows "Act_register_invoice (Some reason) \<in> set (cv_actions (ln_card_view npub expiry
    (use_ln_card oid archived (Some me) now local (snd (sponsor_inbox K t (ev\<lparr>ie_pubkey := anybody\<rparr>) a)))))"
proof -
  let ?a = "snd (sponsor_inbox K t (ev\<lparr>ie_pubkey := anybody\<rparr>) a)"
  let ?i = "use_ln_card oid archived (Some me) now local ?a"
  have r: "reason \<noteq> []" using assms(5) by (auto simp: REJECT_REASONS_def)
  have parse: "parse_account_info_event (ev\<lparr>ie_pubkey := anybody\<rparr>) = None" using assms(1) by (simp add: parse_account_info_event_def)
  obtain x where err: "sa_errors ?a oid = Some x" "ce_reason x = Some reason" and ord: "sa_orders ?a oid = Some v"
    using assms r
    by (auto simp: sponsor_inbox_def parse Let_def handle_claim_price_error_def given_s_def opt_given_def)
  have i: "ci_order ?i = Some v" "ci_me ?i = Some me" "ci_rejection ?i = Some reason"
    using err ord assms(5) by (simp_all add: use_ln_card_def reject_reason_text_def)
  have role: "ln_role_of (ci_order ?i) (ci_local ?i) (ci_me ?i) = Some Sponsor"
    using i(1,2) assms(8-10) by (auto simp: ln_role_of_def given_s_def opt_given_def)
  have "given_s (Some (lv_state v)) = Some (lv_state v)" using assms(7) by (auto simp: given_s_def opt_given_def)
  then have "ln_card_view npub expiry ?i = trade_card npub expiry ?i (lv_state v)" using i(1) by (simp add: ln_card_view_def)
  moreover have "Act_register_invoice (Some reason) \<in> set (fst (buyer_invoice ?i (lv_state v)))"
    using i(3) assms(7) by (auto simp: buyer_invoice_def resubmit_def)
  ultimately show ?thesis by (simp add: card_actions role Let_def)
qed


theorem forged_rejection_shown_witness:
  "\<exists>v. Act_register_invoice (Some ''ESCROW_ENDING_SOON'') \<in> set (cv_actions (ln_card_view id (\<lambda>_. None)
     (use_ln_card ''ord1'' None (Some ''s'') 9 Map.empty (snd (sponsor_inbox svc_keys 9
       (svc_message ''app'' ''claim-price-error'' [[''reason'', ''ESCROW_ENDING_SOON'']]\<lparr>ie_pubkey := ''thief''\<rparr>)
       (no_sponsor_app\<lparr>sa_orders := [''ord1'' \<mapsto> v]\<rparr>))))))"
proof -
  obtain v where v: "parse_ln_order_event svc_order ''app'' = Some v" "lv_order v = ''ord1''" "lv_customer v = ''c''"
    "lv_sponsor v = Some ''s''" "lv_state v = ''invoiced''" by (rule svc_ln_view)
  show ?thesis
    by (intro exI [of _ v] forged_rejection_shown [where v = v])
      (simp_all add: v svc_message_def tag_value_def extract_order_id_def REJECT_REASONS_def)
qed

end
