(* ===== verification/Own_Requests.thy ===== *)
theory Own_Requests
  imports Services
begin

text \<open>
  A key moved to a new device brings its trades along (\<open>customer/src/nostr/own-requests.ts\<close>,
  \<open>customer/src/onchain/nostr/own-requests.ts\<close>): the requests the user once sent are received again and fill what the
  device does not have.  Also the on-chain requests themselves (\<open>customer/src/onchain/nostr/publish.ts\<close>) and the stores they
  fill (\<open>claim-store.ts\<close>, \<open>refund-address-store.ts\<close>).  The text of an event (\<open>JSON.stringify\<close>) is a parameter.
\<close>

subsection \<open>Lightning\<close>

record restoring =
  rs_app :: buyer_app
  rs_before :: "string \<rightharpoonup> account"

definition decrypt_own_request :: "app_keys \<Rightarrow> inbox_event \<Rightarrow> json option" where
  "decrypt_own_request K ev = ak_open K (ie_content ev) (ak_app K)"

text \<open>A record that comes back: the published order is laid over it at once, an account that came first is put in.\<close>

definition lay_over :: "app_keys \<Rightarrow> order_event option \<Rightarrow> buyer_app \<Rightarrow> buyer_app" where
  "lay_over K published a =
     (case Option.bind published (\<lambda>raw. parse_admin_event raw (ak_app K) (ak_me K)) of
        None \<Rightarrow> a
      | Some u \<Rightarrow> handle_admin_order u a)"

definition restore_record :: "app_keys \<Rightarrow> (string \<rightharpoonup> order_event) \<Rightarrow> local_order \<Rightarrow> restoring \<Rightarrow> restoring" where
  "restore_record K published l s =
     (let app = lay_over K (published (lo_id l)) ((rs_app s)\<lparr>ba_orders := add_order l (ba_orders (rs_app s))\<rparr>)
      in case rs_before s (lo_id l) of
           None \<Rightarrow> s\<lparr>rs_app := app\<rparr>
         | Some acct \<Rightarrow>
             s\<lparr>rs_app := app\<lparr>ba_orders := set_account_info (lo_id l) acct (ba_orders app)\<rparr>,
               rs_before := (rs_before s)(lo_id l := None)\<rparr>)"

definition restored_order :: "string \<Rightarrow> jsnum \<Rightarrow> sec \<Rightarrow> jsnum \<Rightarrow> string \<Rightarrow> string option \<Rightarrow> local_order" where
  "restored_order oid price created deadline raw designated =
     \<lparr>lo_id = oid, lo_price = price, lo_memo = [], lo_created = Fin (of_int created), lo_expiration = deadline, lo_parsed = False,
      lo_coupang = None, lo_fixed_account = None, lo_designated = designated, lo_raw = Some raw, lo_admin_state = None,
      lo_bolt11 = None, lo_deposit_bolt11 = None, lo_deposit_status = None, lo_sponsor = None, lo_retain_until = None,
      lo_close_reason = None, lo_account = None\<rparr>"

definition restore_order_request ::
  "app_keys \<Rightarrow> (inbox_event \<Rightarrow> string) \<Rightarrow> (string \<rightharpoonup> order_event) \<Rightarrow> inbox_event \<Rightarrow> string \<Rightarrow> restoring \<Rightarrow> restoring" where
  "restore_order_request K txt published ev oid s =
     (if ba_orders (rs_app s) oid \<noteq> None then s
      else
        (let price = js_number_opt (tag_value ''price'' (ie_tags ev)); deadline = js_number_opt (tag_value ''deadline'' (ie_tags ev)) in
         if \<not> is_js_integer price \<or> \<not> js_positive price \<or> \<not> is_js_integer deadline then s
         else restore_record K published (restored_order oid price (ie_created_at ev) deadline (txt ev) None) s))"

definition restore_designated_order_request ::
  "env \<Rightarrow> app_keys \<Rightarrow> (inbox_event \<Rightarrow> string) \<Rightarrow> (string \<rightharpoonup> order_event) \<Rightarrow> inbox_event \<Rightarrow> string \<Rightarrow> restoring \<Rightarrow> restoring" where
  "restore_designated_order_request e K txt published ev oid s =
     (if ba_orders (rs_app s) oid \<noteq> None then s
      else (case Option.bind (decrypt_own_request K ev) (designated_payload e) of
              None \<Rightarrow> s
            | Some (price, deadline, sponsor) \<Rightarrow>
                restore_record K published
                  (restored_order oid (Fin price) (ie_created_at ev) (Fin deadline) (txt ev) (Some sponsor)) s))"

text \<open>The other receiver of an account: the first \<open>p\<close> tag that is not the daemon.\<close>

definition account_receiver :: "app_keys \<Rightarrow> string list list \<Rightarrow> string option" where
  "account_receiver K tags =
     given_s (case List.find (\<lambda>t. (case t of n # rest \<Rightarrow> n = ''p'' \<and> (case rest of v # _ \<Rightarrow> v \<noteq> ak_app K | [] \<Rightarrow> True) | [] \<Rightarrow> False)) tags of
        Some (_ # v # _) \<Rightarrow> Some v
      | _ \<Rightarrow> None)"

definition restore_sent_account :: "app_keys \<Rightarrow> inbox_event \<Rightarrow> string \<Rightarrow> restoring \<Rightarrow> restoring" where
  "restore_sent_account K ev oid s =
     (case account_receiver K (ie_tags ev) of
        None \<Rightarrow> s
      | Some sponsor \<Rightarrow>
          (case Option.bind (ak_open K (ie_content ev) sponsor) parse_account_envelope of
             None \<Rightarrow> s
           | Some (acct, _) \<Rightarrow>
               (case ba_orders (rs_app s) oid of
                  None \<Rightarrow> s\<lparr>rs_before := (rs_before s)(oid \<mapsto> acct)\<rparr>
                | Some l \<Rightarrow>
                    if lo_account l \<noteq> None then s
                    else s\<lparr>rs_app := (rs_app s)\<lparr>ba_orders := set_account_info oid acct (ba_orders (rs_app s))\<rparr>\<rparr>)))"

definition handle_own_ln_request ::
  "env \<Rightarrow> app_keys \<Rightarrow> (inbox_event \<Rightarrow> string) \<Rightarrow> (string \<rightharpoonup> order_event) \<Rightarrow> inbox_event \<Rightarrow> restoring \<Rightarrow> restoring" where
  "handle_own_ln_request e K txt published ev s =
     (if ie_pubkey ev \<noteq> ak_me K then s
      else (case given_s (extract_order_id (ie_tags ev)) of
              None \<Rightarrow> s
            | Some oid \<Rightarrow>
                (let action = tag_value ''action'' (ie_tags ev) in
                 if action = Some ''order-request'' then restore_order_request K txt published ev oid s
                 else if action = Some ''designated-order-request'' then restore_designated_order_request e K txt published ev oid s
                 else if action = Some ''account-info'' then restore_sent_account K ev oid s
                 else s)))"

subsection \<open>On-chain requests\<close>

definition oc_base_tags :: "string \<Rightarrow> string \<Rightarrow> string \<Rightarrow> string \<Rightarrow> string list list \<Rightarrow> sec \<Rightarrow> string list list" where
  "oc_base_tags app client oid action extra now =
     [[''a'', order_address app oid], [''action'', action], [''t'', client], [''p'', app],
      [''expiration'', int_str (onchain_message_expiration now)]] @ extra"

text \<open>An order request lives as long as the order it asks for.\<close>

definition until :: "sec \<Rightarrow> string list list \<Rightarrow> string list list" where
  "until expiration tags = map (\<lambda>t. if t \<noteq> [] \<and> hd t = ''expiration'' then [''expiration'', int_str expiration] else t) tags"

record oc_sale =
  os_id :: string
  os_amount :: int
  os_reserve :: "int option"
  os_xonly :: string
  os_expiration :: sec
  os_refund :: string

definition publish_onchain_order_request :: "string \<Rightarrow> string \<Rightarrow> oc_sale \<Rightarrow> sec \<Rightarrow> string list list \<times> json" where
  "publish_onchain_order_request app client p now =
     (until (os_expiration p) (oc_base_tags app client (os_id p) ''onchain-order-request''
        ([[''amount-sat'', int_str (os_amount p)], [''customer-xonly'', os_xonly p]]
         @ (case os_reserve p of Some r \<Rightarrow> [[''reserve-krw'', int_str r]] | None \<Rightarrow> [])) now),
      J_obj [(''refundAddress'', J_str (js_trim (os_refund p)))])"

definition publish_onchain_designated_order_request :: "string \<Rightarrow> string \<Rightarrow> oc_sale \<Rightarrow> string \<Rightarrow> sec \<Rightarrow> string list list \<times> json" where
  "publish_onchain_designated_order_request app client p sponsor now =
     (until (os_expiration p) (oc_base_tags app client (os_id p) ''onchain-designated-order-request'' [] now),
      J_obj ([(''amountSat'', J_num (Fin (of_int (os_amount p)))), (''customerXonly'', J_str (os_xonly p))]
        @ (case os_reserve p of Some r \<Rightarrow> [(''reserveKrw'', J_num (Fin (of_int r)))] | None \<Rightarrow> [])
        @ [(''refundAddress'', J_str (js_trim (os_refund p))), (''designatedSponsor'', J_str sponsor)]))"

definition publish_onchain_claim :: "string \<Rightarrow> string \<Rightarrow> string \<Rightarrow> string \<Rightarrow> my_claim \<Rightarrow> sec \<Rightarrow> string list list \<times> json" where
  "publish_onchain_claim app client oid xonly c now =
     (oc_base_tags app client oid ''onchain-claim'' [[''sponsor-xonly'', xonly]] now,
      J_obj [(''payoutAddress'', J_str (mc_payout c)), (''feerateSatPerVb'', J_num (Fin (mc_feerate c)))])"

definition publish_onchain_presig :: "string \<Rightarrow> string \<Rightarrow> string \<Rightarrow> string \<Rightarrow> sec \<Rightarrow> string list list \<times> json" where
  "publish_onchain_presig app client oid text_of_psbt now =
     (oc_base_tags app client oid ''onchain-presig'' [] now, J_obj [(''psbt'', J_str text_of_psbt)])"

definition publish_onchain_cosign :: "string \<Rightarrow> string \<Rightarrow> string \<Rightarrow> sign_purpose \<Rightarrow> string \<Rightarrow> sec \<Rightarrow> string list list \<times> json" where
  "publish_onchain_cosign app client oid p text_of_psbt now =
     (oc_base_tags app client oid ''onchain-cosign'' [[''purpose'', sign_purpose_str p]] now, J_obj [(''psbt'', J_str text_of_psbt)])"

definition publish_onchain_dispute :: "string \<Rightarrow> string \<Rightarrow> string \<Rightarrow> string option \<Rightarrow> sec \<Rightarrow> string list list" where
  "publish_onchain_dispute app client oid at_stage now =
     oc_base_tags app client oid ''onchain-dispute'' (case given_s at_stage of Some st \<Rightarrow> [[''stage'', st]] | None \<Rightarrow> []) now"

definition publish_onchain_cancel_request :: "string \<Rightarrow> string \<Rightarrow> string \<Rightarrow> sec \<Rightarrow> string list list" where
  "publish_onchain_cancel_request app client oid now = oc_base_tags app client oid ''cancel-request'' [] now"

definition publish_onchain_account_info :: "string \<Rightarrow> string \<Rightarrow> string \<Rightarrow> string \<Rightarrow> account \<Rightarrow> string \<Rightarrow> hex \<Rightarrow> sec \<Rightarrow> string list list \<times> json" where
  "publish_onchain_account_info app client oid sponsor acct salt commitment now =
     ([[''a'', order_address app oid], [''action'', ''account-info''], [''t'', client], [''p'', sponsor], [''p'', app],
       [''commitment'', commitment], [''expiration'', int_str (onchain_message_expiration now)]],
      account_envelope acct salt)"

text \<open>The claim that money was transferred is the Lightning request under the on-chain tag; the buyer's Lightning requests.\<close>

definition publish_remit_request_onchain :: "string \<Rightarrow> string \<Rightarrow> string \<Rightarrow> sec \<Rightarrow> string list list" where
  "publish_remit_request_onchain app client oid now = oc_base_tags app client oid ''remit-request'' [] now"

definition publish_claim :: "string \<Rightarrow> string \<Rightarrow> string \<Rightarrow> sec \<Rightarrow> string list list" where
  "publish_claim app client oid now =
     [[''a'', order_address app oid], [''action'', ''claim''], [''p'', app], [''t'', client],
      [''expiration'', int_str (ln_request_expiration now)]]"

definition publish_remit_request :: "string \<Rightarrow> string \<Rightarrow> string \<Rightarrow> sec \<Rightarrow> string list list" where
  "publish_remit_request app client oid now =
     [[''a'', order_address app oid], [''action'', ''remit-request''], [''p'', app], [''t'', client],
      [''expiration'', int_str (ln_request_expiration now)]]"

definition publish_sponsor_invoice :: "string \<Rightarrow> string \<Rightarrow> string \<Rightarrow> string \<Rightarrow> sec \<Rightarrow> string list list" where
  "publish_sponsor_invoice app client oid bolt11 now =
     [[''a'', order_address app oid], [''action'', ''sponsor-invoice''], [''t'', client], [''p'', app], [''bolt11'', bolt11],
      [''expiration'', int_str (ln_request_expiration now)]]"

subsection \<open>What they fill\<close>

record sent_claim =
  sc_claim :: my_claim
  sc_requested :: "int option"

definition remember_my_claim :: "string \<Rightarrow> sent_claim \<Rightarrow> (string \<rightharpoonup> sent_claim) \<Rightarrow> (string \<rightharpoonup> sent_claim)" where
  "remember_my_claim oid c m = m(oid \<mapsto> c)"

definition forget_my_claim :: "string \<Rightarrow> (string \<rightharpoonup> sent_claim) \<Rightarrow> (string \<rightharpoonup> sent_claim)" where
  "forget_my_claim oid m = m(oid := None)"

definition CLOCK_SKEW_MS :: int where "CLOCK_SKEW_MS = 2 * 60000"

definition pending_claim :: "string \<Rightarrow> sec option \<Rightarrow> sec option \<Rightarrow> (string \<rightharpoonup> sent_claim) \<Rightarrow> sent_claim option" where
  "pending_claim oid invoiceAt rejectedAt m =
     (case m oid of
        None \<Rightarrow> None
      | Some mine \<Rightarrow>
          (case sc_requested mine of
             None \<Rightarrow> None
           | Some t \<Rightarrow>
               (let answered = (\<lambda>a. case a of Some s \<Rightarrow> t - CLOCK_SKEW_MS \<le> s * 1000 | None \<Rightarrow> False) in
                if t = 0 \<or> answered invoiceAt \<or> answered rejectedAt then None else Some mine)))"

definition remember_refund_address :: "string \<Rightarrow> string \<Rightarrow> (string \<rightharpoonup> string) \<Rightarrow> (string \<rightharpoonup> string)" where
  "remember_refund_address oid a m = m(oid \<mapsto> js_trim a)"

record own_onchain =
  wn_refunds :: "string \<rightharpoonup> string"
  wn_claims :: "string \<rightharpoonup> sent_claim"

definition own_refund :: "env \<Rightarrow> json \<Rightarrow> string option" where
  "own_refund e v =
     (case order_request_payload v of
        Some a \<Rightarrow> Some a
      | None \<Rightarrow> map_option dt_refund (oc_designated_payload e v))"

definition upsert_claim :: "string \<times> my_claim \<times> int \<Rightarrow> (string \<rightharpoonup> sent_claim) \<Rightarrow> (string \<rightharpoonup> sent_claim)" where
  "upsert_claim c m =
     (case c of (oid, mine, sentAtMs) \<Rightarrow>
        (case m oid of
           Some known \<Rightarrow>
             if sentAtMs \<le> (case sc_requested known of Some t \<Rightarrow> t | None \<Rightarrow> 0) then m
             else remember_my_claim oid \<lparr>sc_claim = mine, sc_requested = Some sentAtMs\<rparr> m
         | None \<Rightarrow> remember_my_claim oid \<lparr>sc_claim = mine, sc_requested = Some sentAtMs\<rparr> m))"

definition handle_own_onchain_request :: "env \<Rightarrow> app_keys \<Rightarrow> inbox_event \<Rightarrow> own_onchain \<Rightarrow> own_onchain" where
  "handle_own_onchain_request e K ev s =
     (if ie_pubkey ev \<noteq> ak_me K then s
      else (case given_s (extract_order_id (ie_tags ev)) of
              None \<Rightarrow> s
            | Some oid \<Rightarrow>
                (let action = tag_value ''action'' (ie_tags ev) in
                 if action = Some ''onchain-order-request'' \<or> action = Some ''onchain-designated-order-request'' then
                   (if given_s (wn_refunds s oid) \<noteq> None then s
                    else (case Option.bind (decrypt_own_request K ev) (own_refund e) of
                            None \<Rightarrow> s
                          | Some a \<Rightarrow> s\<lparr>wn_refunds := remember_refund_address oid (js_trim a) (wn_refunds s)\<rparr>))
                 else if action = Some ''onchain-claim'' then
                   (case Option.bind (decrypt_own_request K ev) claim_payload of
                      None \<Rightarrow> s
                    | Some (payout, feerate) \<Rightarrow>
                        s\<lparr>wn_claims := upsert_claim (oid, \<lparr>mc_payout = payout, mc_feerate = feerate\<rparr>, ie_created_at ev * 1000)
                            (wn_claims s)\<rparr>)
                 else s)))"

subsection \<open>What comes back\<close>

text \<open>What an update of the daemon leaves of a trade: its terms.\<close>

definition same_terms :: "local_order \<Rightarrow> local_order \<Rightarrow> bool" where
  "same_terms l k \<longleftrightarrow> lo_id k = lo_id l \<and> lo_price k = lo_price l \<and> lo_expiration k = lo_expiration l
     \<and> lo_designated k = lo_designated l \<and> lo_raw k = lo_raw l \<and> lo_fixed_account k = lo_fixed_account l"

lemma same_terms_refl [simp]: "same_terms l l"
  by (simp add: same_terms_def)

lemma auto_send_orders [simp]: "ba_orders (auto_send_account_info oid a) = ba_orders a"
  by (simp add: auto_send_account_info_def Let_def split: option.split)

lemma handle_admin_order_terms:
  assumes "ba_orders a oid = Some l"
  shows "\<exists>k. ba_orders (handle_admin_order u a) oid = Some k \<and> same_terms l k"
proof -
  have "ba_orders (handle_admin_order u a) = apply_admin_update u (ba_orders a)"
    by (simp add: handle_admin_order_def Let_def split: option.split)
  with assms show ?thesis
    by (auto simp: apply_admin_update_def patch_order_def overlay_def same_terms_def split: option.splits)
qed

lemma set_account_terms:
  "m oid = Some l \<Longrightarrow> \<exists>k. set_account_info o' a m oid = Some k \<and> same_terms l k"
  by (auto simp: set_account_info_def patch_order_def same_terms_def split: option.splits)

lemma same_terms_trans: "same_terms l k \<Longrightarrow> same_terms k j \<Longrightarrow> same_terms l j"
  by (simp add: same_terms_def)

lemma lay_over_terms:
  "ba_orders a oid = Some l \<Longrightarrow> \<exists>k. ba_orders (lay_over K published a) oid = Some k \<and> same_terms l k"
  using handle_admin_order_terms by (auto simp: lay_over_def split: option.split)

lemma restore_record_terms:
  assumes "ba_orders (rs_app s) (lo_id l) = None"
  shows "\<exists>k. ba_orders (rs_app (restore_record K published l s)) (lo_id l) = Some k \<and> same_terms l k"
proof -
  let ?app = "lay_over K (published (lo_id l)) ((rs_app s)\<lparr>ba_orders := add_order l (ba_orders (rs_app s))\<rparr>)"
  obtain k where k: "ba_orders ?app (lo_id l) = Some k" "same_terms l k"
    using lay_over_terms [of "(rs_app s)\<lparr>ba_orders := add_order l (ba_orders (rs_app s))\<rparr>" "lo_id l" l] assms
    by (fastforce simp: add_order_def)
  have "\<exists>k'. set_account_info (lo_id l) acct (ba_orders ?app) (lo_id l) = Some k' \<and> same_terms l k'" for acct
    using set_account_terms [of "ba_orders ?app", OF k(1)] same_terms_trans [OF k(2)] by blast
  with k show ?thesis by (auto simp: restore_record_def Let_def split: option.split)
qed

text \<open>Tags and contents as the app wrote them.\<close>

lemma oc_base_read:
  "tag_value ''a'' (oc_base_tags app client oid action extra now) = Some (order_address app oid)"
  "tag_value ''action'' (oc_base_tags app client oid action extra now) = Some action"
  "tag_value ''a'' (until x (oc_base_tags app client oid action extra now)) = Some (order_address app oid)"
  "tag_value ''action'' (until x (oc_base_tags app client oid action extra now)) = Some action"
  by (simp_all add: oc_base_tags_def until_def tag_value_def)

lemma own_number: "small n \<Longrightarrow> js_number (number_text (Fin (of_int n))) = Fin (of_int n)"
  by (simp add: number_text_def num_str_of_int small_def js_number_int_str)

text \<open>C18. A sale survives the loss of the device.  The request with which a sale was made, public or for somebody, brings the sale
  back on a device that only has the key, with its id, price, deadline and designated buyer, whatever the device already
  knows of published orders and sent accounts; what only the old device knew, the shop's account, does not come back, so
  that nothing is sent by itself.\<close>

theorem sale_restored:
  assumes "ba_orders (rs_app s) (lo_id l) = None" and "lo_id l \<noteq> []" and "CHR '':'' \<notin> set (lo_id l)" and "CHR '':'' \<notin> set (ak_app K)"
    and "lo_price l = Fin (of_int p)" and "0 < p" and "small p" and "lo_expiration l = Fin (of_int d)" and "small d"
    and "(ie_tags ev, sealed) = publish_order_request (ak_app K) client l now" and "ie_pubkey ev = ak_me K"
    and "\<And>v. sealed = Some v \<Longrightarrow> ak_open K (ie_content ev) (ak_app K) = Some v"
    and "\<And>k. given_s (lo_designated l) = Some k \<Longrightarrow> is_pubkey_hex e k"
  shows "\<exists>k. ba_orders (rs_app (handle_own_ln_request e K txt published ev s)) (lo_id l) = Some k
    \<and> lo_price k = lo_price l \<and> lo_expiration k = lo_expiration l \<and> lo_designated k = given_s (lo_designated l)
    \<and> lo_raw k = Some (txt ev) \<and> lo_fixed_account k = None"
proof (cases "given_s (lo_designated l)")
  case None
  have tags: "ie_tags ev = order_request_tags (ak_app K) client l now" using assms(10) None by (simp add: publish_order_request_def)
  have oid: "given_s (extract_order_id (ie_tags ev)) = Some (lo_id l)"
    using order_address_read [OF assms(4,3) request_tags_read(1)] assms(2) by (simp add: tags given_s_def opt_given_def)
  have act: "tag_value ''action'' (ie_tags ev) = Some ''order-request''" by (simp add: tags order_request_tags_def tag_value_def)
  have num: "js_number_opt (tag_value ''price'' (ie_tags ev)) = Fin (of_int p)"
      "js_number_opt (tag_value ''deadline'' (ie_tags ev)) = Fin (of_int d)"
    using own_number assms(5,7-9) by (simp_all add: tags request_tags_read js_number_opt_def)
  let ?r = "restored_order (lo_id l) (lo_price l) (ie_created_at ev) (lo_expiration l) (txt ev) None"
  have "handle_own_ln_request e K txt published ev s = restore_record K published ?r s"
    using assms(1,5,6,8,11) oid act num
    by (simp add: handle_own_ln_request_def restore_order_request_def Let_def is_js_integer_def js_positive_def)
  with restore_record_terms [of s ?r K published] assms(1) None show ?thesis by (auto simp: same_terms_def restored_order_def)
next
  case (Some buyer)
  have req: "ie_tags ev = fst (designated_request (ak_app K) client l buyer now)"
      "sealed = Some (snd (designated_request (ak_app K) client l buyer now))"
    using assms(10) Some by (simp_all add: publish_order_request_def split: prod.splits)
  have a: "tag_value ''a'' (ie_tags ev) = Some (order_address (ak_app K) (lo_id l))"
    and act: "tag_value ''action'' (ie_tags ev) = Some ''designated-order-request''"
    by (simp_all add: req(1) designated_request_def tag_value_def)
  have oid: "given_s (extract_order_id (ie_tags ev)) = Some (lo_id l)"
    using order_address_read [OF assms(4,3) a] assms(2) by (simp add: given_s_def opt_given_def)
  let ?r = "restored_order (lo_id l) (lo_price l) (ie_created_at ev) (lo_expiration l) (txt ev) (Some buyer)"
  obtain v where "decrypt_own_request K ev = Some v" "designated_payload e v = Some (of_int p, of_int d, buyer)"
    using assms(12) [OF req(2)] assms(13) [OF Some] assms(5,8)
    by (simp add: decrypt_own_request_def designated_request_def designated_payload_def)
  then have "handle_own_ln_request e K txt published ev s = restore_record K published ?r s"
    using assms(1,5,8,11) oid act by (simp add: handle_own_ln_request_def restore_designated_order_request_def Let_def)
  with restore_record_terms [of s ?r K published] assms(1) Some show ?thesis by (auto simp: same_terms_def restored_order_def)
qed

definition own_keys :: "json option \<Rightarrow> app_keys" where
  "own_keys sealed = \<lparr>ak_app = ''app'', ak_me = ''cust'', ak_oc_tag = ''oc'', ak_open = (\<lambda>content peer. if peer = ''app'' then sealed else None)\<rparr>"

definition own_sale :: local_order where
  "own_sale = restored_order ''ord1'' (Fin 50000) 3 (Fin 100000) [] (Some (replicate 64 (CHR ''a'')))"

definition own_event :: inbox_event where
  "own_event = \<lparr>ie_id = ''e1'', ie_pubkey = ''cust'', ie_kind = 1, ie_created_at = 9,
     ie_tags = fst (publish_order_request ''app'' ''ln'' own_sale 0), ie_content = ''sealed''\<rparr>"

theorem sale_restored_witness:
  "\<exists>k. ba_orders (rs_app (handle_own_ln_request (toy_env\<lparr>e_on_curve := (\<lambda>_. True)\<rparr>)
       (own_keys (snd (publish_order_request ''app'' ''ln'' own_sale 0))) ie_id Map.empty own_event
       \<lparr>rs_app = buyer_run [], rs_before = Map.empty\<rparr>)) ''ord1'' = Some k
     \<and> lo_price k = Fin 50000 \<and> lo_expiration k = Fin 100000 \<and> lo_designated k = Some (replicate 64 (CHR ''a''))"
proof -
  have sale: "lo_id own_sale = ''ord1''" "lo_price own_sale = Fin (of_int 50000)" "lo_expiration own_sale = Fin (of_int 100000)"
      "given_s (lo_designated own_sale) = Some (replicate 64 (CHR ''a''))"
    by (simp_all add: own_sale_def restored_order_def given_s_def opt_given_def)
  have hex: "is_hex64 (replicate 64 (CHR ''a''))" by (simp add: is_hex64_def list_all_iff char_code_def)
  obtain v where v: "snd (publish_order_request ''app'' ''ln'' own_sale 0) = Some v"
    using sale(4) by (simp add: publish_order_request_def designated_request_def)
  let ?K = "own_keys (Some v)" and ?s = "\<lparr>rs_app = buyer_run [], rs_before = Map.empty\<rparr>"
  have K: "ak_app ?K = ''app''" "ak_me ?K = ''cust''" "ak_open ?K content ''app'' = Some v" for content by (simp_all add: own_keys_def)
  have pub: "(ie_tags own_event, Some v) = publish_order_request (ak_app ?K) ''ln'' own_sale 0"
    using v by (simp add: own_event_def K(1) prod_eq_iff)
  have fresh: "ba_orders (rs_app ?s) (lo_id own_sale) = None" by (simp add: buyer_run_def)
  have me: "ie_pubkey own_event = ak_me ?K" by (simp add: own_event_def K(2))
  have "\<exists>k. ba_orders (rs_app (handle_own_ln_request (toy_env\<lparr>e_on_curve := (\<lambda>_. True)\<rparr>) ?K ie_id Map.empty own_event ?s)) (lo_id own_sale)
      = Some k \<and> lo_price k = lo_price own_sale \<and> lo_expiration k = lo_expiration own_sale
      \<and> lo_designated k = given_s (lo_designated own_sale) \<and> lo_raw k = Some (ie_id own_event) \<and> lo_fixed_account k = None"
    by (rule sale_restored [OF fresh _ _ _ sale(2) _ _ sale(3) _ pub me]) (use sale hex K in \<open>auto simp: small_def is_pubkey_hex_def\<close>)
  then show ?thesis unfolding v sale by auto
qed

text \<open>A record that is there is not overwritten; at most a sent account is filled in.\<close>

theorem own_requests_only_fill:
  assumes "ba_orders (rs_app s) oid = Some l" and "extract_order_id (ie_tags ev) = Some oid"
  shows "\<exists>k. ba_orders (rs_app (handle_own_ln_request e K txt published ev s)) oid = Some k
    \<and> (k = l \<or> lo_account l = None \<and> (\<exists>a. k = l\<lparr>lo_account := Some a\<rparr>))"
proof -
  have same: "restore_order_request K txt published ev oid s = s" "restore_designated_order_request e K txt published ev oid s = s"
    using assms(1) by (simp_all add: restore_order_request_def restore_designated_order_request_def)
  have sent: "\<exists>k. ba_orders (rs_app (restore_sent_account K ev oid s)) oid = Some k
      \<and> (k = l \<or> lo_account l = None \<and> (\<exists>a. k = l\<lparr>lo_account := Some a\<rparr>))"
    using assms(1)
    by (auto simp: restore_sent_account_def set_account_info_def patch_order_def split: option.split prod.split)
  have "handle_own_ln_request e K txt published ev s = s
    \<or> handle_own_ln_request e K txt published ev s = restore_sent_account K ev oid s"
  proof (cases "opt_given (Some oid)")
    case True
    with assms(2) same show ?thesis by (simp add: handle_own_ln_request_def given_s_def Let_def)
  next
    case False
    with assms(2) show ?thesis by (simp add: handle_own_ln_request_def given_s_def)
  qed
  then consider "handle_own_ln_request e K txt published ev s = s"
    | "handle_own_ln_request e K txt published ev s = restore_sent_account K ev oid s" by blast
  then show ?thesis
  proof cases
    case 1
    show ?thesis unfolding 1 using assms(1) by blast
  next
    case 2
    show ?thesis unfolding 2 by (rule sent)
  qed
qed

text \<open>On-chain, the refund address and the terms of the last claim come back, whatever the order of delivery.\<close>

theorem refund_address_restored:
  assumes "(ie_tags ev, v) = publish_onchain_order_request (ak_app K) client sale now" and "ie_pubkey ev = ak_me K"
    and "decrypt_own_request K ev = Some v" and "given_s (wn_refunds s (os_id sale)) = None" and "os_id sale \<noteq> []"
    and "CHR '':'' \<notin> set (os_id sale)" and "CHR '':'' \<notin> set (ak_app K)" and "js_trim (js_trim (os_refund sale)) \<noteq> []"
  shows "wn_refunds (handle_own_onchain_request e K ev s) (os_id sale) = Some (js_trim (js_trim (js_trim (os_refund sale))))"
proof -
  have t: "tag_value ''a'' (ie_tags ev) = Some (order_address (ak_app K) (os_id sale))"
      "tag_value ''action'' (ie_tags ev) = Some ''onchain-order-request''"
    using assms(1) by (simp_all add: publish_onchain_order_request_def oc_base_read)
  have oid: "given_s (extract_order_id (ie_tags ev)) = Some (os_id sale)"
    using order_address_read [OF assms(7,6) t(1)] assms(5) by (simp add: given_s_def opt_given_def)
  have "order_request_payload v = Some (js_trim (os_refund sale))"
    using assms(1,8) by (simp add: publish_onchain_order_request_def order_request_payload_def)
  with oid t(2) assms(2-4) show ?thesis
    by (simp add: handle_own_onchain_request_def own_refund_def Let_def remember_refund_address_def)
qed

definition newest_claim :: "(string \<times> my_claim \<times> int) list \<Rightarrow> (string \<rightharpoonup> sent_claim) \<Rightarrow> bool" where
  "newest_claim cs m \<longleftrightarrow>
     (\<forall>oid. case m oid of
        None \<Rightarrow> \<forall>c \<in> set cs. fst c \<noteq> oid
      | Some x \<Rightarrow> \<exists>c t. (oid, c, t) \<in> set cs \<and> x = \<lparr>sc_claim = c, sc_requested = Some t\<rparr>
          \<and> (\<forall>c' t'. (oid, c', t') \<in> set cs \<longrightarrow> t' \<le> t))"

lemma newest_claim_upsert:
  assumes "newest_claim cs m"
  shows "newest_claim (cs @ [(oid, c, t)]) (upsert_claim (oid, c, t) m)"
proof (cases "m oid")
  case None
  have none: "\<And>c' t'. (oid, c', t') \<notin> set cs" using assms [unfolded newest_claim_def, THEN spec, of oid] None by auto
  show ?thesis
    unfolding newest_claim_def
  proof
    fix k
    show "case upsert_claim (oid, c, t) m k of None \<Rightarrow> \<forall>c \<in> set (cs @ [(oid, c, t)]). fst c \<noteq> k
      | Some x \<Rightarrow> \<exists>c' t'. (k, c', t') \<in> set (cs @ [(oid, c, t)]) \<and> x = \<lparr>sc_claim = c', sc_requested = Some t'\<rparr>
          \<and> (\<forall>c'' t''. (k, c'', t'') \<in> set (cs @ [(oid, c, t)]) \<longrightarrow> t'' \<le> t')"
      using assms [unfolded newest_claim_def, THEN spec, of k] None none
      by (cases "k = oid") (auto simp: upsert_claim_def remember_my_claim_def split: option.splits)
  qed
next
  case (Some x)
  obtain c0 t0 where x: "(oid, c0, t0) \<in> set cs" "x = \<lparr>sc_claim = c0, sc_requested = Some t0\<rparr>"
      "\<And>c' t'. (oid, c', t') \<in> set cs \<Longrightarrow> t' \<le> t0"
    using assms [unfolded newest_claim_def, THEN spec, of oid] Some by auto
  show ?thesis
    unfolding newest_claim_def
  proof
    fix k
    show "case upsert_claim (oid, c, t) m k of None \<Rightarrow> \<forall>c \<in> set (cs @ [(oid, c, t)]). fst c \<noteq> k
      | Some x \<Rightarrow> \<exists>c' t'. (k, c', t') \<in> set (cs @ [(oid, c, t)]) \<and> x = \<lparr>sc_claim = c', sc_requested = Some t'\<rparr>
          \<and> (\<forall>c'' t''. (k, c'', t'') \<in> set (cs @ [(oid, c, t)]) \<longrightarrow> t'' \<le> t')"
      using assms [unfolded newest_claim_def, THEN spec, of k] Some x
      by (cases "k = oid"; cases "t \<le> t0")
        (fastforce simp: upsert_claim_def remember_my_claim_def split: option.splits)+
  qed
qed

theorem last_claim_restored:
  assumes "(oid, c, t) \<in> set cs" and "\<And>c' t'. (oid, c', t') \<in> set cs \<Longrightarrow> (c', t') = (c, t) \<or> t' < t"
  shows "fold upsert_claim cs Map.empty oid = Some \<lparr>sc_claim = c, sc_requested = Some t\<rparr>"
proof -
  have "newest_claim cs (fold upsert_claim cs Map.empty)"
  proof (induction cs rule: rev_induct)
    case Nil
    show ?case by (simp add: newest_claim_def)
  next
    case (snoc x xs)
    then show ?case using newest_claim_upsert by (cases x) simp
  qed
  from this [unfolded newest_claim_def, THEN spec, of oid] obtain c0 t0
    where n: "fold upsert_claim cs Map.empty oid = Some \<lparr>sc_claim = c0, sc_requested = Some t0\<rparr>" "(oid, c0, t0) \<in> set cs"
      "\<And>c' t'. (oid, c', t') \<in> set cs \<Longrightarrow> t' \<le> t0"
    using assms(1) by (auto split: option.splits)
  from assms(2) [OF n(2)] n(3) [OF assms(1)] have "c0 = c" "t0 = t" by auto
  with n(1) show ?thesis by simp
qed

end
