(* ===== verification/Spec2Isabelle.thy ===== *)
theory Spec2Isabelle
  imports Retries Oc_Trades Oc_Spending Oc_Limits App_Checks Price_Feed_Inv Subscriptions Progress_Truth
    Cards_Agree Stores_Inv App_Requests Services_Inv Own_Requests
begin

text \<open>
  \<^bold>\<open>The program.\<close>  PairBuy lets a customer who wants to sell bitcoin for won find a sponsor.  A daemon
  (\<open>daemon/src\<close>) holds the escrow and every decision; the apps (\<open>customer/\<close>, \<open>admin/\<close>) only send requests, as
  signed Nostr events, and show what the daemon publishes.  Code shared by both lives in \<open>shared/src\<close>.  There are
  two tracks: Lightning, where the escrow and the deposits are hold invoices of the daemon's node, and on-chain,
  where the escrow is a multi-signature output.  This development models the daemon with both tracks, and of the apps
  what they decide: what they check before they sign, what a card offers, what their stores hold, what they send.

  \<^bold>\<open>How the parts interact.\<close>  Events arrive at any time and are stored in the inbox (\<open>nostr/ingress.ts\<close>).  A tick
  (\<open>runtime.ts\<close>) dispatches them to handlers, observes the hold invoices, lets the watchers look at the clock and the
  chain, raises alerts and runs the due effects.  Handlers, hooks and the watcher decide inside a transaction and without
  network; whatever goes out (paying, settling, publishing, pushing) is an effect recorded in the same transaction
  and run later, its outcome recorded together with what follows from it.

  \<^bold>\<open>How it is modelled.\<close>  The database is a record (\<open>qdb\<close>, extended by \<open>db\<close>, \<open>ddb\<close> and \<open>odb\<close>); a table is the list of its
  rows.  An operation is a function on the database; code that can throw gives \<open>None\<close>, and the transaction
  around it (\<open>tx\<close>, \<open>process_event\<close>, \<open>run_one\<close>) then keeps the old database.  JavaScript numbers that may be
  fractional are rounded as binary64 (\<open>fl\<close> of \<open>Js_Number\<close>); integers that stay below \<open>2^53\<close> are \<open>int\<close>.  Strings are
  lists of characters.  JSON received from outside is the type \<open>json\<close>.  What is not code of the repository is a
  parameter: the node (\<open>node\<close>), the relays (\<open>relay\<close>), the push service (\<open>pusher\<close>), and in \<open>env\<close> the hash of a
  derived preimage, the BOLT11 reader, encryption, the signature's event id and the market price; for the on-chain
  track the explorer (\<open>http\<close>) and the bitcoin library with the keys (\<open>btc_lib\<close>, \<open>oc_env\<close>).

  \<^bold>\<open>The theories, in the order of their imports.\<close>

  \<^item> \<open>Lnpay_Prelude\<close>: tables, tags, throwing loops, the locales \<open>fsm\<close>, \<open>live_fsm\<close>, \<open>row_loop\<close> and \<open>row_loop_post\<close>.
    \<open>Results\<close>: weakest preconditions for operations that may throw (\<open>ok_rules\<close>).
  \<^item> \<open>Js_Number\<close>, \<open>Js_Json\<close>: binary64 rounding, \<open>Math.round\<close>, \<open>Number(s)\<close>, \<open>String(n)\<close>, \<open>trim\<close>, JSON values.
  \<^item> \<open>Effects_Queue\<close> (\<open>effects.ts\<close>): recording, running, retrying and giving up effects; the locale
    \<open>effect_contract\<close> says what an executor promises and what the worker then keeps.
  \<^item> \<open>Ln_Fsm\<close>, \<open>Ln_Money\<close>, \<open>Ln_Timing\<close> (\<open>shared/src/ln\<close>, \<open>daemon/src/ln/timing.ts\<close>): states, transitions and close
    rules; payout and escrow amounts; deadlines and CLTV.
  \<^item> \<open>Oc_Fsm\<close>, \<open>Oc_Timing\<close>, \<open>Oc_Policy\<close>, \<open>Oc_Order\<close>, \<open>Oc_Chain\<close>, \<open>Oc_Tx\<close> (\<open>shared/src/onchain\<close>, \<open>daemon/src/onchain/deposit.ts\<close>):
    the contract of the on-chain track: states and outcome rules, clocks, bounds and bonds, the order event, the
    explorer's answers, keys, scripts, settlement transactions and the check of a signature.
  \<^item> \<open>Oc_Decide\<close>, \<open>Oc_Store\<close> (\<open>daemon/src/onchain/funding.ts\<close>, \<open>decide.ts\<close>, \<open>store.ts\<close>): what the watcher decides from the
    facts, and the tables of the track.
  \<^item> \<open>Oc_Messages\<close>, \<open>Oc_Escrow\<close>, \<open>Oc_Bonds\<close>, \<open>Oc_Flow\<close>, \<open>Oc_Requests\<close>, \<open>Oc_Handlers\<close>, \<open>Oc_Watcher\<close>, \<open>Oc_Commands\<close>,
    \<open>Oc_Effects\<close>, \<open>Oc_Daemon\<close> (\<open>daemon/src/onchain\<close>, \<open>runtime.ts\<close>): the daemon's side of the on-chain track, file by file,
    and the tick, router and executors of both tracks together.
  \<^item> \<open>Daemon_Data\<close>: the rows, the database, alerts, operator notices, pushes; \<open>quiet\<close> is a step that only records
    intents or notices.
  \<^item> \<open>Holds\<close> (\<open>hold/index.ts\<close>): planning, creating, observing and disposing of hold invoices; the locale
    \<open>hold_client\<close> is the contract with the track that owns an invoice.
  \<^item> \<open>Ln_Store\<close>, \<open>Ln_Flow\<close>, \<open>Ln_Handlers\<close>, \<open>Ln_Effects\<close>, \<open>Ln_Publish\<close>, \<open>Ln_Event\<close> (\<open>ln/store.ts\<close>, \<open>messages.ts\<close>,
    \<open>notify.ts\<close>, \<open>flow.ts\<close>, \<open>handlers.ts\<close>, \<open>effects.ts\<close>, \<open>orders/publish.ts\<close>, \<open>shared/src/ln/order.ts\<close>): the
    Lightning track.  \<open>order_ok\<close> is the invariant of an order, \<open>ln_winv\<close> of the database, \<open>order_evolves\<close> what may
    become of an order, \<open>ln_ok\<close> what every operation keeps.  \<open>Ln_Flow_Inv\<close>, \<open>Ln_Handlers_Inv\<close>, \<open>Ln_Requests\<close>,
    \<open>Ln_Effects_Inv\<close>, \<open>Ln_Steps\<close> prove it operation by operation and hold the properties of requests and money.
  \<^item> \<open>Ln_Watcher\<close> (\<open>ln/watcher.ts\<close>): the clock of the track.
  \<^item> \<open>Settings\<close>, \<open>Admin\<close>, \<open>Chat\<close>, \<open>Commands\<close> (\<open>admin/\<close>, \<open>orders/\<close>, \<open>push/send.ts\<close>, \<open>nostr/publisher.ts\<close>,
    \<open>ln/commands.ts\<close>): the operators' side.
  \<^item> \<open>Inbox\<close>, \<open>Daemon\<close> (\<open>nostr/ingress.ts\<close>, \<open>dispatch.ts\<close>, \<open>runtime.ts\<close>): receiving, routing, the table of
    executors, the tick, and the whole system as the step relation \<open>daemon_step\<close>; the locale \<open>event_router\<close> is the
    contract between the dispatcher and its handlers.
  \<^item> \<open>Trades\<close>, \<open>Retries\<close>: the abstract contract of a trade with the proof that the daemon refines it, and the end of
    limited retries.
  \<^item> \<open>Oc_Inv\<close> (\<open>order_facts\<close>: what the state of an on-chain order promises; \<open>oc_evolves\<close>: what may become of it; \<open>oc_ok\<close>:
    what every operation keeps), \<open>Oc_Bonds_Inv\<close>, \<open>Oc_Flow_Inv\<close>, \<open>Oc_Handlers_Inv\<close>, \<open>Oc_Watcher_Inv\<close>: the invariant of the
    on-chain tables, proved operation by operation.  \<open>Oc_System\<close>: the daemon with both tracks as the step relation
    \<open>oc_daemon_step\<close>, which contains every tick.
  \<^item> \<open>Oc_Trades\<close>, \<open>Oc_Spending\<close>, \<open>Oc_Limits\<close>: the properties of the on-chain track over whole runs, who can spend the
    escrow, and where the code falls short; \<open>Oc_Example\<close> is the concrete trade of their witnesses.
  \<^item> \<open>App_Onchain\<close>, \<open>App_Checks\<close> (\<open>customer/src/onchain/verify.ts\<close>, \<open>actions.ts\<close>): what the apps recompute from an order
    before they pay or sign, the signatures and sweeps they make, and that the daemon takes them.
  \<^item> \<open>Price_Feed\<close>, \<open>Price_Feed_Inv\<close> (\<open>shared/src/price.ts\<close>): the sockets of the exchanges with their timers, the median, and
    the price that may fix money.  \<open>Subscriptions\<close> (\<open>shared/src/subscription-guard.ts\<close>): the guard of the relay
    subscriptions as the step relation \<open>guard_step\<close>.
  \<^item> \<open>Progress\<close>, \<open>Progress_Truth\<close> (\<open>shared/src/order-progress.ts\<close>, \<open>shared/src/onchain/progress.ts\<close>): the ladders the screens
    draw, held against the paths of the state machines (\<open>avoiding\<close>).
  \<^item> \<open>Cards\<close>, \<open>Cards_Agree\<close> (\<open>customer/src/ln/card-view.ts\<close>, \<open>customer/src/onchain/card-view.ts\<close>): what a card offers, and
    that the daemon's handler carries it out.
  \<^item> \<open>Stores\<close>, \<open>Stores_Inv\<close> (the stores under \<open>customer/src\<close>, \<open>shared/src/chat-store.ts\<close>, \<open>persisted-store.ts\<close>): what a store
    holds after any sequence of events; the locale \<open>newest_store\<close> is the contract of keeping the newest version.
  \<^item> \<open>Buyer\<close>, \<open>App_Requests\<close> (\<open>customer/src/buyer/nostr\<close>, \<open>shared/src/account-commitment.ts\<close>): the seller's app over a run of
    events, the automatic sending of an account, and the requests the daemon reads.
  \<^item> \<open>Services\<close>, \<open>Services_Inv\<close> (\<open>customer/src/sponsor/nostr\<close>, \<open>customer/src/onchain/nostr\<close>, \<open>customer/src/ln/use-ln-card.ts\<close>):
    what the apps do with order events and messages anybody may send; the locale \<open>account_desk\<close> is the judging of an
    account that may come before its order, interpreted on both tracks.
  \<^item> \<open>Own_Requests\<close> (\<open>own-requests.ts\<close> of both tracks, \<open>customer/src/onchain/nostr/publish.ts\<close>): the requests of the user that
    restore a trade on a new device.

  \<^bold>\<open>What the theorems show.\<close>  Amounts: the binary64 arithmetic equals the exact one and the payout is fair.  Requests:
  authority over an order, frozen orders, the checks on an invoice.  Money: an escrow is taken before a trade counts
  as won, nothing is settled beyond the close rule, a payment leaves only when it is due and never after the operator
  took over.  Clocks: past the catch-up of a start deadlines are kept, the CLTV covers them, no option window is longer than promised.  Operators:
  only fresh commands on the current version act, and a patch of the settings is applied whole or refused whole.  System: reachable databases are well-formed, the daemon refines
  its contract, every event is judged once and in the senders' order, limited retries end.  On-chain: every action of the watcher rests on a
  known chain and a passed clock, bonds cover their fees, nobody can change a deal, the release is ready from the
  presignature on, and no event spends an escrow without the signature of the party it waits for.  Apps: they sign only
  what is due to them, offer what the daemon carries out, warn before a deposit is lost, show the newest version of an
  order, send an account only behind the gate, name to the buyer only an account the seller sealed, restore a sale from
  its request, and, two named places apart, draw as done only what was passed; the price that fixes money rests on several recent sources.

  \<^bold>\<open>Bounds.\<close>  No recursion of the model needs fuel: loops run over the rows of a table or over text.  The limits of the
  code (200 events and 50 effects per tick) are arguments, given their values in \<open>tick\<close>.  Theorems about amounts
  name the range in which binary64 is exact.

  \<^bold>\<open>Where the code falls short.\<close>  An escrow the parties release themselves before the presignature stops the watcher
  and, through the exception, the rest of every tick (\<open>early_release_stops_watcher\<close>); a refused broadcast whose text
  contains the word unknown counts as sent (\<open>refused_rescue_counted_sent\<close>).  While a refund settles the ladder draws steps
  as done that never happened (\<open>refund_drawn_done\<close>); the automatic sending of an account skips the check of the designated
  buyer that the card makes (\<open>auto_account_ignores_designation\<close>); a deposit's status replayed before its invoice can be
  forgotten (\<open>deposit_status_forgotten\<close>).  The app takes the refusal of an invoice from anybody
  (\<open>forged_rejection_shown\<close>), never asks for the on-chain deposit of a second claim (\<open>renewed_deposit_hidden\<close>), and ten messages of
  anybody crowd out an account that comes before its order (\<open>early_account_judged\<close>).

  \<^bold>\<open>Not modelled.\<close>  Network clients (relays, node), cryptography and web-push encryption are parameters; of the price
  feeds the sockets are.  Start-up, configuration, secrets, logging and backups are process input and output.  Of the
  apps the screens themselves, the browser's storage and the operators' app are left out, and the texts for people
  everywhere.
\<close>

end
